(* ===== verification/Prelude.thy ===== *)
theory Prelude
  imports Main "HOL-Library.Word" "HOL-Library.Monad_Syntax"
begin

text \<open>
  Shared vocabulary of the GeraNES development: the machine integers of the C++ code as
  words (\<open>uint8_t\<close>, \<open>uint16_t\<close>, \<open>uint32_t\<close>), single-bit flags inside a byte (the
  \<open>StatusFlags\<close> bit-field union of the CPU), the two-byte address builder
  \<open>MAKE16\<close>, and the generic lemmas on words and lists that the component theories use.
\<close>

unbundle bit_operations_syntax

type_synonym u8 = "8 word"
type_synonym u16 = "16 word"
type_synonym u32 = "32 word"

named_theorems frame_simps \<open>what an operation leaves unchanged\<close>
named_theorems word_bounds \<open>upper bounds of masked words\<close>

text \<open>Bit \<open>n\<close> of a byte set to a Boolean: an assignment to a one-bit field of a union.\<close>

definition set_flag :: "nat \<Rightarrow> bool \<Rightarrow> u8 \<Rightarrow> u8" where
  "set_flag n b w = (if b then w OR push_bit n 1 else w AND NOT (push_bit n 1))"

text \<open>\<open>MAKE16\<close> of \<open>CPU2A03.h\<close>: the little-endian pair as an address.\<close>

definition MAKE16 :: "u8 \<Rightarrow> u8 \<Rightarrow> u16" where
  "MAKE16 low high = ucast low OR push_bit 8 (ucast high)"

text \<open>The truth value of a masked integer in a C++ condition.\<close>

definition test_bits :: "'a::len word \<Rightarrow> 'a word \<Rightarrow> bool" where
  "test_bits w m \<longleftrightarrow> w AND m \<noteq> 0"

subsection \<open>Bits and flags\<close>

lemma bit_u8_iff: "bit (w :: u8) n \<Longrightarrow> n < 8"
  using bit_imp_le_length[of w n] by simp

lemma bit_set_flag [simp]:
  "n < 8 \<Longrightarrow> bit (set_flag n b w) m = (if m = n then b else bit w m)"
  by (auto simp: set_flag_def bit_simps dest: bit_u8_iff)

lemma set_flag_same [simp]: "n < 8 \<Longrightarrow> set_flag n b (set_flag n c w) = set_flag n b w"
  by (rule bit_word_eqI) simp

lemma set_flag_id: "n < 8 \<Longrightarrow> bit w n = b \<Longrightarrow> set_flag n b w = w"
  by (rule bit_word_eqI) simp

lemma bit_MAKE16:
  "bit (MAKE16 l h) n = (if n < 8 then bit l n else n < 16 \<and> bit h (n - 8))"
  by (auto simp: MAKE16_def bit_simps dest: bit_u8_iff)

lemma MAKE16_low [simp]: "ucast (MAKE16 l h) = l"
  by (rule bit_word_eqI) (simp add: bit_MAKE16 bit_simps)

lemma MAKE16_high [simp]: "ucast (drop_bit 8 (MAKE16 l h)) = h"
  by (rule bit_word_eqI) (simp add: bit_MAKE16 bit_simps)

lemma MAKE16_split [simp]:
  "MAKE16 (ucast a) (ucast (drop_bit 8 a)) = (a :: u16)"
  by (rule bit_word_eqI) (auto simp: bit_MAKE16 bit_simps)

lemma test_bits_single: "n < LENGTH('a) \<Longrightarrow> test_bits (w :: 'a::len word) (push_bit n 1) = bit w n"
proof -
  assume "n < LENGTH('a)"
  then have "w AND push_bit n 1 = (if bit w n then push_bit n 1 else 0)"
    by (intro bit_word_eqI) (auto simp: bit_simps)
  moreover have "push_bit n 1 \<noteq> (0 :: 'a word)"
    using \<open>n < LENGTH('a)\<close> by (simp add: push_bit_of_1)
  ultimately show ?thesis by (simp add: test_bits_def)
qed

subsection \<open>Bounds of masked words\<close>

lemma unat_and_le2: "unat (a AND (b :: 'a::len word)) \<le> unat b"
  by (rule word_and_le1 [THEN word_le_nat_alt [THEN iffD1]])

lemma unat_and_le1: "unat (a AND (b :: 'a::len word)) \<le> unat a"
  by (subst and.commute) (rule unat_and_le2)

lemma unat_u8_less [simp]: "unat (w :: u8) < 256"
  using unsigned_less[of w] by simp

lemma unat_u16_less [simp]: "unat (w :: u16) < 65536"
  using unsigned_less[of w] by simp

lemma unat_ucast_u8_u16 [simp]: "unat (ucast (w :: u8) :: u16) = unat w"
  using less_trans[OF unat_u8_less[of w], of "2 ^ 16"]
  by (simp add: unsigned_ucast_eq take_bit_nat_eq_self)

lemma unat_ucast_u8_u32 [simp]: "unat (ucast (w :: u8) :: u32) = unat w"
  using less_trans[OF unat_u8_less[of w], of "2 ^ 32"]
  by (simp add: unsigned_ucast_eq take_bit_nat_eq_self)

lemma unat_MAKE16: "unat (MAKE16 l h) = unat l + 256 * unat h"
proof -
  have "MAKE16 l h = ucast l + push_bit 8 (ucast h)"
    unfolding MAKE16_def
    by (subst disjunctive_add) (auto simp: bit_simps dest: bit_u8_iff)
  moreover have "push_bit 8 (ucast h :: u16) = 256 * ucast h"
    by (simp add: push_bit_eq_mult)
  moreover have "unat l + 256 * unat h < 65536"
    using unat_u8_less[of l] unat_u8_less[of h] by linarith
  ultimately show ?thesis
    by (simp add: unat_word_ariths)
qed

lemma take_bit_id: "unat (w :: 'a::len word) < 2 ^ k \<Longrightarrow> take_bit k w = w"
  by (simp add: word_unat_eq_iff unsigned_take_bit_eq take_bit_nat_eq_self)

lemma unat_take_bit_less: "take_bit k w = w \<Longrightarrow> unat (w :: 'a::len word) < 2 ^ k"
  by (metis unsigned_take_bit_eq take_bit_nat_less_exp)

lemma unat_or_less:
  "unat (a :: 'a::len word) < 2 ^ k \<Longrightarrow> unat b < 2 ^ k \<Longrightarrow> unat (a OR b) < 2 ^ k"
  by (rule unat_take_bit_less) (simp add: take_bit_or take_bit_id)

lemma unat_drop_bit: "unat (drop_bit k (w :: 'a::len word)) = unat w div 2 ^ k"
  by (simp add: unsigned_drop_bit_eq take_bit_nat_eq_self flip: drop_bit_eq_div)

text \<open>The two ways the code writes an address of the stack page.\<close>

lemma stack_page_or: "0x0100 OR ucast (b :: u8) = MAKE16 b 1"
  by (simp add: MAKE16_def or.commute)

lemma stack_page_plus: "0x0100 + ucast (b :: u8) = MAKE16 b 1"
  using unat_u8_less[of b] by (simp add: word_unat_eq_iff unat_MAKE16 unat_word_ariths del: unat_u8_less)

lemma stack_page_less [simp]: "MAKE16 b 1 < 0x2000"
  using unat_u8_less[of b] by (simp add: word_less_nat_alt unat_MAKE16 del: unat_u8_less)

subsection \<open>Lists\<close>

lemma drop_nth_Cons: "i < length xs \<Longrightarrow> drop i xs = xs ! i # drop (Suc i) xs"
  by (rule Cons_nth_drop_Suc[symmetric])

lemma takeWhile_eq_replicate: "takeWhile (\<lambda>y. y = x) xs = replicate (length (takeWhile (\<lambda>y. y = x) xs)) x"
  by (induction xs) auto

lemma take_le_takeWhile:
  "n \<le> length (takeWhile (\<lambda>y. y = x) xs) \<Longrightarrow> take n xs = replicate n x"
proof -
  assume n: "n \<le> length (takeWhile (\<lambda>y. y = x) xs)"
  then have "take n xs = take n (takeWhile (\<lambda>y. y = x) xs)"
    by (metis takeWhile_eq_take take_take min.absorb1)
  also have "\<dots> = replicate n x"
    using n by (subst takeWhile_eq_replicate) simp
  finally show ?thesis .
qed

end
