(* ===== verification/Escaped_Rle.thy ===== *)
theory Escaped_Rle
  imports Prelude
begin

text \<open>
  The escaped run-length codec of \<open>src/src/GeraNES/util/EscapedRle.h\<close>, used to compress
  snapshots. A C++ pointer argument is an \<open>option\<close> of a byte list (\<open>None\<close> for
  \<open>nullptr\<close>); the sizes are separate arguments, as in the source. The inner and outer
  loops are recursive functions over the same indices, and the decoder returns the output
  buffer together with its Boolean result, because a failing call leaves its partial
  writes behind.
\<close>

definition ESCAPE :: u8 where "ESCAPE = 0xFF"

definition MIN_RUN_LENGTH :: nat where "MIN_RUN_LENGTH = 4"

text \<open>The inner loop of \<open>encode\<close>: extend the run that starts at \<open>index\<close>.\<close>

function rle_run :: "u8 list \<Rightarrow> nat \<Rightarrow> u8 \<Rightarrow> nat \<Rightarrow> nat" where
  "rle_run data index value runLength =
     (if index + runLength < length data \<and> data ! (index + runLength) = value \<and> runLength < 255
      then rle_run data index value (Suc runLength) else runLength)"
  by pat_completeness auto
termination
  by (relation "measure (\<lambda>(_, _, _, r). 255 - r)") auto

declare rle_run.simps [simp del]

lemma rle_run_ge: "r \<le> rle_run data index v r"
proof (induction data index v r rule: rle_run.induct)
  case (1 data index v r)
  then show ?case by (subst rle_run.simps) (auto intro: Suc_leD)
qed

function encode_loop :: "u8 list \<Rightarrow> nat \<Rightarrow> u8 list \<Rightarrow> u8 list" where
  "encode_loop data index encoded =
     (if index < length data then
        let value = data ! index;
            runLength = rle_run data index value 1
        in if value = ESCAPE \<or> runLength \<ge> MIN_RUN_LENGTH
           then encode_loop data (index + runLength)
                  (encoded @ [ESCAPE] @ [word_of_nat runLength] @ [value])
           else encode_loop data (Suc index) (encoded @ [value])
      else encoded)"
  by pat_completeness auto
termination
proof (relation "measure (\<lambda>(data, index, _). length data - index)")
  fix data :: "u8 list" and index :: nat and v :: u8 and r :: nat
  assume "index < length data" and r: "r = rle_run data index v 1"
  moreover have "1 \<le> r" unfolding r by (rule rle_run_ge)
  ultimately show "((data, index + r, e @ [ESCAPE] @ [word_of_nat r] @ [v]), data, index, e)
      \<in> measure (\<lambda>(data, index, _). length data - index)" for e
    by auto
qed auto

declare encode_loop.simps [simp del]

definition encode :: "u8 list option \<Rightarrow> nat \<Rightarrow> u8 list" where
  "encode data sz =
     (case data of None \<Rightarrow> []
      | Some d \<Rightarrow> if sz = 0 then [] else encode_loop (take sz d) 0 [])"

text \<open>\<open>std::memset\<close> on a part of the output buffer.\<close>

definition memset_at :: "u8 list \<Rightarrow> nat \<Rightarrow> u8 \<Rightarrow> nat \<Rightarrow> u8 list" where
  "memset_at out dest v n = take dest out @ replicate n v @ drop (dest + n) out"

function decode_loop :: "u8 list \<Rightarrow> nat \<Rightarrow> u8 list \<Rightarrow> nat \<Rightarrow> nat \<Rightarrow> bool \<times> u8 list" where
  "decode_loop encoded sourceIndex output outputSize destIndex =
     (if sourceIndex < length encoded then
        let value = encoded ! sourceIndex; sourceIndex1 = Suc sourceIndex in
        if value \<noteq> ESCAPE then
          (if destIndex \<ge> outputSize then (False, output)
           else decode_loop encoded sourceIndex1 (output[destIndex := value]) outputSize
                  (Suc destIndex))
        else if length encoded - sourceIndex1 < 2 then (False, output)
        else
          let runLength = unat (encoded ! sourceIndex1);
              runValue = encoded ! Suc sourceIndex1 in
          (if runLength = 0 \<or> runLength > outputSize - destIndex then (False, output)
           else decode_loop encoded (Suc (Suc sourceIndex1))
                  (memset_at output destIndex runValue runLength) outputSize
                  (destIndex + runLength))
      else (destIndex = outputSize, output))"
  by pat_completeness auto
termination
  by (relation "measure (\<lambda>(encoded, sourceIndex, _). length encoded - sourceIndex)") auto

declare decode_loop.simps [simp del]

definition decode ::
  "u8 list option \<Rightarrow> nat \<Rightarrow> u8 list option \<Rightarrow> nat \<Rightarrow> bool \<times> u8 list option" where
  "decode encoded encodedSize output outputSize =
     (case output of
        None \<Rightarrow> (encodedSize = 0 \<and> outputSize = 0, None)
      | Some out \<Rightarrow>
        (case encoded of
           None \<Rightarrow> (encodedSize = 0, Some out)
         | Some e \<Rightarrow>
             (let (ok, out') = decode_loop (take encodedSize e) 0 out outputSize 0
              in (ok, Some out'))))"

subsection \<open>The list-level reading of the two loops\<close>

text \<open>The maximal run at the front of a list, cut at 255, and the encoding of a list.\<close>

definition front_run :: "u8 list \<Rightarrow> nat" where
  "front_run xs = min 255 (length (takeWhile (\<lambda>y. y = hd xs) xs))"

lemma front_run_pos: "xs \<noteq> [] \<Longrightarrow> 1 \<le> front_run xs"
  by (cases xs) (auto simp: front_run_def)

lemma front_run_le: "front_run xs \<le> length xs"
  unfolding front_run_def using length_takeWhile_le[of _ xs] by (meson le_trans min.cobounded2)

function enc_list :: "u8 list \<Rightarrow> u8 list" where
  "enc_list xs =
     (if xs = [] then []
      else if hd xs = ESCAPE \<or> front_run xs \<ge> MIN_RUN_LENGTH
      then ESCAPE # word_of_nat (front_run xs) # hd xs # enc_list (drop (front_run xs) xs)
      else hd xs # enc_list (tl xs))"
  by pat_completeness auto
termination
  by (relation "measure length") (use front_run_pos in \<open>auto simp: Suc_le_eq\<close>)

declare enc_list.simps [simp del]

lemma rle_run_eq:
  assumes "k \<le> 255" and "1 \<le> k" and "\<And>j. j < k \<Longrightarrow> index + j < length data \<and> data ! (index + j) = v"
  shows "rle_run data index v k = min 255 (length (takeWhile (\<lambda>y. y = v) (drop index data)))"
  using assms
proof (induction data index v k rule: rle_run.induct)
  case (1 data index v k)
  have tw: "k \<le> length (takeWhile (\<lambda>y. y = v) (drop index data))"
  proof (rule ccontr)
    let ?n = "length (takeWhile (\<lambda>y. y = v) (drop index data))"
    assume "\<not> k \<le> ?n"
    then have n: "?n < k" by simp
    from "1.prems"(3)[OF n] have "?n < length (drop index data)" by (simp add: less_diff_conv2 less_diff_conv add.commute)
    then have "drop index data ! ?n \<noteq> v" by (rule nth_length_takeWhile)
    with "1.prems"(3)[OF n] show False by (simp add: add.commute)
  qed
  show ?case
  proof (cases "index + k < length data \<and> data ! (index + k) = v \<and> k < 255")
    case True
    have "rle_run data index v (Suc k) = min 255 (length (takeWhile (\<lambda>y. y = v) (drop index data)))"
      using True "1.prems" by (intro "1.IH") (auto simp: less_Suc_eq)
    with True show ?thesis by (subst rle_run.simps) simp
  next
    case False
    have "k = 255 \<or> length (takeWhile (\<lambda>y. y = v) (drop index data)) \<le> k"
    proof (rule ccontr)
      assume A: "\<not> ?thesis"
      then have n: "k < length (takeWhile (\<lambda>y. y = v) (drop index data))" and "k < 255"
        using "1.prems"(1) by auto
      have "k < length (drop index data)"
        using n length_takeWhile_le by (rule less_le_trans)
      moreover have "drop index data ! k = v"
        using set_takeWhileD[OF nth_mem[OF n]] takeWhile_nth[OF n] by simp
      ultimately have "index + k < length data \<and> data ! (index + k) = v"
        by (simp add: less_diff_conv add.commute)
      with \<open>k < 255\<close> False show False by simp
    qed
    with False tw "1.prems"(1) show ?thesis by (subst rle_run.simps) (auto simp: min_def)
  qed
qed

lemma rle_run_front:
  "index < length data \<Longrightarrow> rle_run data index (data ! index) (Suc 0) = front_run (drop index data)"
  by (subst rle_run_eq) (auto simp: front_run_def hd_drop_conv_nth)

lemma encode_loop_eq:
  "encode_loop data index encoded = encoded @ enc_list (drop index data)"
proof (induction data index encoded rule: encode_loop.induct)
  case (1 data index encoded)
  show ?case
  proof (cases "index < length data")
    case True
    then have ne: "drop index data \<noteq> []" and hd: "hd (drop index data) = data ! index"
      and tl: "tl (drop index data) = drop (Suc index) data"
      by (auto simp: hd_drop_conv_nth tl_drop drop_Suc)
    have dd: "drop n (drop index data) = drop (index + n) data" for n
      by (simp add: add.commute)
    show ?thesis
      using True "1.IH"(1)[OF True refl refl] "1.IH"(2)[OF True refl refl]
      by (subst encode_loop.simps, subst enc_list.simps)
         (simp add: ne hd tl dd rle_run_front Let_def add.commute)
  next
    case False
    then show ?thesis by (simp add: encode_loop.simps enc_list.simps)
  qed
qed

lemma encode_eq: "encode (Some d) (length d) = enc_list d"
  by (cases d) (simp_all add: encode_def encode_loop_eq enc_list.simps[of "[]"])

lemma memset_at_length [simp]:
  "dest + n \<le> length out \<Longrightarrow> length (memset_at out dest v n) = length out"
  by (simp add: memset_at_def)

lemma decode_enc_list:
  assumes "drop src e = enc_list d" and "src \<le> length e" and "length out = n" and "dest + length d = n"
  shows "decode_loop e src out n dest = (True, take dest out @ d)"
  using assms
proof (induction d arbitrary: src out dest rule: enc_list.induct)
  case (1 d)
  show ?case
  proof (cases "d = []")
    case True
    then have "length e \<le> src" using "1.prems"(1) by (simp add: enc_list.simps)
    with True "1.prems" show ?thesis by (subst decode_loop.simps) simp
  next
    case False
    let ?r = "front_run d"
    have r: "1 \<le> ?r" "?r \<le> length d" "?r \<le> 255"
      using front_run_pos[OF False] front_run_le by (auto simp: front_run_def)
    show ?thesis
    proof (cases "hd d = ESCAPE \<or> ?r \<ge> MIN_RUN_LENGTH")
      case True
      have dr: "drop src e = ESCAPE # word_of_nat ?r # hd d # enc_list (drop ?r d)"
        using "1.prems"(1) False True by (subst (asm) enc_list.simps) auto
      then have "length (drop src e) = Suc (Suc (Suc (length (enc_list (drop ?r d)))))" by simp
      then have len: "src < length e" "\<not> length e - Suc src < 2" by auto
      have e0: "e ! src = ESCAPE" and e1: "e ! Suc src = word_of_nat ?r"
        and e2: "e ! Suc (Suc src) = hd d" and d3: "drop (src + 3) e = enc_list (drop ?r d)"
        using dr len nth_drop[of src e 0] nth_drop[of src e 1] nth_drop[of src e 2]
          drop_drop[of 3 src e]
        by (simp_all add: add.commute numeral_2_eq_2 numeral_3_eq_3)
      have ur: "unat (word_of_nat ?r :: u8) = ?r"
        using r(3) by (simp add: unat_of_nat take_bit_nat_eq_self)
      have rep: "take ?r d = replicate ?r (hd d)"
        by (rule take_le_takeWhile) (simp add: front_run_def)
      have "decode_loop e (src + 3) (memset_at out dest (hd d) ?r) n (dest + ?r)
          = (True, take (dest + ?r) (memset_at out dest (hd d) ?r) @ drop ?r d)"
        using False True "1.prems" r d3 len
        by (intro "1.IH"(1)) auto
      also have "take (dest + ?r) (memset_at out dest (hd d) ?r) = take dest out @ replicate ?r (hd d)"
        using "1.prems" r by (simp add: memset_at_def)
      finally have "decode_loop e (src + 3) (memset_at out dest (hd d) ?r) n (dest + ?r)
          = (True, take dest out @ d)"
        using rep by (metis append.assoc append_take_drop_id)
      then show ?thesis
        using len e0 e1 e2 ur r "1.prems"(4)
        by (subst decode_loop.simps) (simp add: Let_def numeral_3_eq_3)
    next
      case nF: False
      have dr: "drop src e = hd d # enc_list (tl d)"
        using "1.prems"(1) False nF by (subst (asm) enc_list.simps) auto
      then have len: "src < length e" by (metis drop_all list.distinct(1) not_le)
      have e0: "e ! src = hd d" and d1: "drop (Suc src) e = enc_list (tl d)"
        using dr len by (metis drop_nth_Cons list.inject)+
      have dl: "dest < length out" using "1.prems" False by (cases d) auto
      have "decode_loop e (Suc src) (out[dest := hd d]) n (Suc dest)
          = (True, take (Suc dest) (out[dest := hd d]) @ tl d)"
        using False nF "1.prems" d1 len dl by (intro "1.IH"(2)) (auto simp: Suc_le_eq)
      also have "take (Suc dest) (out[dest := hd d]) = take dest out @ [hd d]"
        using dl by (simp add: take_Suc_conv_app_nth)
      finally show ?thesis
        using len e0 nF dl False "1.prems"(3)
        by (subst decode_loop.simps) (simp add: Let_def)
    qed
  qed
qed

text \<open>
  C19: decoding what \<open>EscapedRle::encode\<close> produced, into any output buffer of the size of
  the original data, succeeds and reproduces the data byte for byte, whatever the buffer held
  before.
\<close>

theorem rle_roundtrip:
  "length out = length d \<Longrightarrow>
   decode (Some (encode (Some d) (length d))) (length (encode (Some d) (length d)))
     (Some out) (length d) = (True, Some d)"
  by (simp add: decode_def encode_eq decode_enc_list[where d = d])

theorem rle_roundtrip_witness:
  "decode (Some (encode (Some [7, 7, 7, 7, 7, 255, 3]) 7))
     (length (encode (Some [7, 7, 7, 7, 7, 255, 3]) 7))
     (Some [0, 0, 0, 0, 0, 0, 0]) 7 = (True, Some [7, 7, 7, 7, 7, 255, 3])"
proof -
  have len: "length [7, 7, 7, 7, 7, 255, 3 :: u8] = 7" by simp
  show ?thesis
    using rle_roundtrip[of "[0, 0, 0, 0, 0, 0, 0]" "[7, 7, 7, 7, 7, 255, 3]"] unfolding len by simp
qed

end
