(* ===== verification/Settings.thy ===== *)
theory Settings
  imports Prelude
begin

text \<open>
  The console settings of \<open>src/src/GeraNES/Settings.h\<close> that the emulation core reads: the
  region, the CPU clock and the number of scanlines of a frame. The \<open>switch\<close> of the
  source enumerates the whole \<open>Region\<close> type, so its fall-through defaults are dead.
\<close>

datatype Region = PAL | NTSC | DENDY

primrec CPUClockHz :: "Region \<Rightarrow> int" where
  "CPUClockHz NTSC = 1789773"
| "CPUClockHz PAL = 1662607"
| "CPUClockHz DENDY = 1773448"

primrec PPULinesPerFrame :: "Region \<Rightarrow> int" where
  "PPULinesPerFrame NTSC = 262"
| "PPULinesPerFrame PAL = 312"
| "PPULinesPerFrame DENDY = 312"

end
