(* ===== verification/Cpu_State.thy ===== *)
theory Cpu_State
  imports Settings
begin

text \<open>
  The state of \<open>CPU2A03\<close> (\<open>src/src/GeraNES/CPU2A03.h\<close>) with its \<open>DMA\<close> unit
  (\<open>DMA.h\<close>), and one CPU clock cycle: \<open>beginCycle\<close>, \<open>phi1\<close>, \<open>phi2\<close>,
  \<open>stepLatePpuCycles\<close> and \<open>endCycle\<close>.

  The CPU reaches the rest of the console through the references \<open>m_bus\<close> (the virtual
  interface \<open>Ibus\<close>) and \<open>m_console\<close>. Both are the field \<open>env\<close>, of an arbitrary
  type \<open>'e\<close>, and the calls the CPU makes on them are the fields of the record
  \<open>env_ops\<close>. The only way back from the console into the CPU is a DMA request: the bus
  calls \<open>startOamDma\<close>, and the signals of the sample channel are bound to
  \<open>startDmcDma\<close>, \<open>cancelDmcDma\<close> and \<open>scheduleImplicitDmcSingleCycleAbort\<close>. An
  operation that can raise such a signal returns the list of requests in the order raised;
  the operations that raise them never read the DMA unit, so applying the list when they return
  is what the immediate calls do.
\<close>

datatype NmiStep = WAITING_HIGH | WAITING_LOW | OK

datatype Interrupt = NONE | NMI | IRQ

datatype dma_request =
    StartOamDma u16
  | StartDmcDma u16 bool
  | CancelDmcDma
  | ImplicitDmcAbort

record dma =
  d_dmaNeedHalt :: bool
  d_dmaNeedDummyRead :: bool
  d_oamDmaTransfer :: bool
  d_oamDmaPage :: u8
  d_oamDmaCounter :: u16
  d_oamDmaReadAddr :: u8
  d_oamDmaData :: u8
  d_dmcDmaRunning :: bool
  d_dmcAbortPending :: bool
  d_dmcSingleCycleAbortPending :: bool
  d_dmcSingleCycleAbortDelay :: u8
  d_dmcInitialLoadPhasePending :: bool
  d_dmcLastRequestWasReload :: bool
  d_dmcDmaAddr :: u16
  d_dmaPrevReadAddr :: u16
  d_dmaReadInProgress :: bool
  d_dmaReadInputClockMask :: u8

record 'e cpu =
  m_pc :: u16
  m_sp :: u8
  m_a :: u8
  m_x :: u8
  m_y :: u8
  m_status :: u8
  m_cyclesCounter :: u32
  m_opcode :: u8
  m_addr :: u16
  m_addrHigh :: u8
  m_addrPageCross :: bool
  m_nmiSignal :: bool
  m_irqSignal :: bool
  m_nmiStep :: NmiStep
  m_irqStep :: bool
  m_interrupt :: Interrupt
  m_currentInstructionCycle :: nat
  m_poolIntsAtCycle :: u8
  m_runCount :: nat
  m_writeCycle :: bool
  m_resetRequest :: bool
  m_lastReadHadDma :: bool
  m_indexedDummyReadHadDma :: bool
  m_ppuTimingRegion :: Region
  m_ppuLateCycleRemainder :: u8
  m_dma :: dma
  env :: 'e

text \<open>What a bus access can ask the CPU: the parity of the cycle counter
  (\<open>cycleCounter\<close>), \<open>isDmaReadInProgress\<close> and the mask behind
  \<open>isDmaInputClockEnabled\<close>.\<close>

record cpu_view =
  v_oddCycle :: bool
  v_dmaRead :: bool
  v_clockMask :: u8

record 'e env_ops =
  bus_read :: "cpu_view \<Rightarrow> u16 \<Rightarrow> 'e \<Rightarrow> u8 \<times> 'e"
  bus_write :: "cpu_view \<Rightarrow> u16 \<Rightarrow> u8 \<Rightarrow> 'e \<Rightarrow> dma_request list \<times> 'e"
  bus_getOpenBus :: "'e \<Rightarrow> u8"
  bus_setOpenBus :: "u8 \<Rightarrow> 'e \<Rightarrow> 'e"
  bus_onCpuBusAccessEnd :: "u16 \<Rightarrow> bool \<Rightarrow> 'e \<Rightarrow> 'e"
  bus_onCpuGetToPutTransition :: "'e \<Rightarrow> 'e"
  ppu_inOverclockLines :: "'e \<Rightarrow> bool"
  ppu_ppuCycle :: "'e \<Rightarrow> 'e"
  ppu_region :: "'e \<Rightarrow> Region"
  ppu_getInterruptFlag :: "'e \<Rightarrow> bool \<times> 'e"
  apu_processDmcControlDelays :: "'e \<Rightarrow> dma_request list \<times> 'e"
  apu_cycle :: "'e \<Rightarrow> dma_request list \<times> 'e"
  apu_getInterruptFlag :: "'e \<Rightarrow> bool"
  apu_reloadShiftRegister :: "u8 \<Rightarrow> 'e \<Rightarrow> dma_request list \<times> 'e"
  apu_processExpansionAudioSample :: "'e \<Rightarrow> 'e"
  cart_getInterruptFlag :: "'e \<Rightarrow> bool"
  cart_cycle :: "'e \<Rightarrow> 'e"
  cart_consumeNsfPlayerInstructionRedirect :: "'e \<Rightarrow> u16 option \<times> 'e"

subsection \<open>The request interface of the DMA unit\<close>

definition dma_init :: dma where
  "dma_init = \<lparr>d_dmaNeedHalt = False, d_dmaNeedDummyRead = False, d_oamDmaTransfer = False,
     d_oamDmaPage = 0, d_oamDmaCounter = 0, d_oamDmaReadAddr = 0, d_oamDmaData = 0,
     d_dmcDmaRunning = False, d_dmcAbortPending = False, d_dmcSingleCycleAbortPending = False,
     d_dmcSingleCycleAbortDelay = 0, d_dmcInitialLoadPhasePending = False,
     d_dmcLastRequestWasReload = False, d_dmcDmaAddr = 0, d_dmaPrevReadAddr = 0,
     d_dmaReadInProgress = False, d_dmaReadInputClockMask = 0\<rparr>"

definition startOamDma :: "u16 \<Rightarrow> dma \<Rightarrow> dma" where
  "startOamDma addr d = d\<lparr>d_oamDmaTransfer := True, d_oamDmaPage := ucast (drop_bit 8 addr),
     d_oamDmaCounter := 0, d_oamDmaReadAddr := 0, d_dmaNeedHalt := True\<rparr>"

definition startDmcDma :: "u16 \<Rightarrow> bool \<Rightarrow> dma \<Rightarrow> dma" where
  "startDmcDma addr reload d = d\<lparr>d_dmcDmaAddr := addr, d_dmcDmaRunning := True,
     d_dmcInitialLoadPhasePending := \<not> reload, d_dmcLastRequestWasReload := reload,
     d_dmaNeedDummyRead := True, d_dmaNeedHalt := True\<rparr>"

definition cancelDmcDma :: "dma \<Rightarrow> dma" where
  "cancelDmcDma d =
     (if \<not> d_dmcDmaRunning d then d
      else if d_dmaNeedHalt d then
        (if d_dmcLastRequestWasReload d
         then d\<lparr>d_dmcSingleCycleAbortPending := True, d_dmcSingleCycleAbortDelay := 0\<rparr> else d)
          \<lparr>d_dmcDmaRunning := False, d_dmcInitialLoadPhasePending := False,
            d_dmaNeedDummyRead := False, d_dmaNeedHalt := False\<rparr>
      else d\<lparr>d_dmcAbortPending := True\<rparr>)"

definition scheduleImplicitDmcSingleCycleAbort :: "dma \<Rightarrow> dma" where
  "scheduleImplicitDmcSingleCycleAbort d = d\<lparr>d_dmcSingleCycleAbortPending := True,
     d_dmcSingleCycleAbortDelay := 1, d_dmcDmaRunning := False,
     d_dmcInitialLoadPhasePending := False, d_dmcAbortPending := False,
     d_dmaNeedDummyRead := False, d_dmaNeedHalt := False\<rparr>"

definition inputClockMaskForAddr :: "u16 \<Rightarrow> u8" where
  "inputClockMaskForAddr addr =
     (if addr = 0x4016 then 0x01 else if addr = 0x4017 then 0x02 else 0x00)"

definition isDmaInputClockEnabled :: "cpu_view \<Rightarrow> u16 \<Rightarrow> bool" where
  "isDmaInputClockEnabled v addr \<longleftrightarrow>
     v_dmaRead v \<and> (v_clockMask v AND inputClockMaskForAddr addr) \<noteq> 0"

primrec dma_handle :: "dma_request \<Rightarrow> dma \<Rightarrow> dma" where
  "dma_handle (StartOamDma a) d = startOamDma a d"
| "dma_handle (StartDmcDma a r) d = startDmcDma a r d"
| "dma_handle CancelDmcDma d = cancelDmcDma d"
| "dma_handle ImplicitDmcAbort d = scheduleImplicitDmcSingleCycleAbort d"

definition dma_requests :: "dma_request list \<Rightarrow> 'e cpu \<Rightarrow> 'e cpu" where
  "dma_requests rs s = m_dma_update (fold dma_handle rs) s"

subsection \<open>One clock cycle\<close>

definition isOddCycle :: "'e cpu \<Rightarrow> bool" where
  "isOddCycle s \<longleftrightarrow> m_cyclesCounter s AND 1 \<noteq> 0"

definition isDmaGetCycle :: "'e cpu \<Rightarrow> bool" where
  "isDmaGetCycle s = isOddCycle s"

definition view :: "'e cpu \<Rightarrow> cpu_view" where
  "view s = \<lparr>v_oddCycle = isOddCycle s, v_dmaRead = d_dmaReadInProgress (m_dma s),
     v_clockMask = d_dmaReadInputClockMask (m_dma s)\<rparr>"

definition phi1 :: "'e cpu \<Rightarrow> 'e cpu" where
  "phi1 s =
     (let s = (if m_nmiStep s = OK then s\<lparr>m_nmiSignal := True, m_nmiStep := WAITING_LOW\<rparr> else s)
      in s\<lparr>m_irqSignal := m_irqStep s\<rparr>)"

text \<open>Flag numbers of the \<open>StatusFlags\<close> bit-field.\<close>

abbreviation carry :: "'e cpu \<Rightarrow> bool" where "carry s \<equiv> bit (m_status s) 0"
abbreviation zero :: "'e cpu \<Rightarrow> bool" where "zero s \<equiv> bit (m_status s) 1"
abbreviation irq_disable :: "'e cpu \<Rightarrow> bool" where "irq_disable s \<equiv> bit (m_status s) 2"
abbreviation decimal :: "'e cpu \<Rightarrow> bool" where "decimal s \<equiv> bit (m_status s) 3"
abbreviation brk :: "'e cpu \<Rightarrow> bool" where "brk s \<equiv> bit (m_status s) 4"
abbreviation unused :: "'e cpu \<Rightarrow> bool" where "unused s \<equiv> bit (m_status s) 5"
abbreviation overflow :: "'e cpu \<Rightarrow> bool" where "overflow s \<equiv> bit (m_status s) 6"
abbreviation negative :: "'e cpu \<Rightarrow> bool" where "negative s \<equiv> bit (m_status s) 7"

definition checkInterrupts :: "'e cpu \<Rightarrow> 'e cpu" where
  "checkInterrupts s =
     (if m_nmiSignal s \<or> (m_irqSignal s \<and> \<not> irq_disable s)
      then (if m_nmiSignal s then s\<lparr>m_nmiSignal := False, m_interrupt := NMI\<rparr>
            else s\<lparr>m_interrupt := IRQ\<rparr>)\<lparr>m_irqSignal := False\<rparr>
      else s)"

definition phi2 :: "bool \<Rightarrow> bool \<Rightarrow> bool \<Rightarrow> 'e cpu \<Rightarrow> 'e cpu" where
  "phi2 isDmaCycle nmiState irqState s =
     (let s = (if \<not> isDmaCycle \<and> unat (m_poolIntsAtCycle s) = m_currentInstructionCycle s
               then checkInterrupts s else s);
          s = (case m_nmiStep s of
                 WAITING_LOW \<Rightarrow> if \<not> nmiState then s\<lparr>m_nmiStep := WAITING_HIGH\<rparr> else s
               | WAITING_HIGH \<Rightarrow> if nmiState then s\<lparr>m_nmiStep := OK\<rparr> else s
               | OK \<Rightarrow> s);
          s = s\<lparr>m_irqStep := irqState\<rparr>
      in if \<not> isDmaCycle
         then s\<lparr>m_currentInstructionCycle := Suc (m_currentInstructionCycle s)\<rparr> else s)"

definition resetPpuTimingPhase :: "Region \<Rightarrow> 'e cpu \<Rightarrow> 'e cpu" where
  "resetPpuTimingPhase region s = s\<lparr>m_ppuTimingRegion := region,
     m_ppuLateCycleRemainder := (if region = PAL then 4 else 0)\<rparr>"

definition syncPpuTimingRegion :: "'e env_ops \<Rightarrow> 'e cpu \<Rightarrow> 'e cpu" where
  "syncPpuTimingRegion E s =
     (let currentRegion = ppu_region E (env s) in
      if currentRegion \<noteq> m_ppuTimingRegion s then resetPpuTimingPhase currentRegion s else s)"

definition ppuCycles :: "nat \<Rightarrow> 'e env_ops \<Rightarrow> 'e cpu \<Rightarrow> 'e cpu" where
  "ppuCycles n E s = s\<lparr>env := (ppu_ppuCycle E ^^ n) (env s)\<rparr>"

text \<open>The number of PPU cycles that \<open>stepLatePpuCycles\<close> runs, and the new remainder.\<close>

definition latePpu :: "'e cpu \<Rightarrow> nat \<times> u8" where
  "latePpu s =
     (if m_ppuTimingRegion s = PAL then
        let r = m_ppuLateCycleRemainder s + 1 in
        if r \<ge> 5 then (2, r - 5) else (1, r)
      else (1, m_ppuLateCycleRemainder s))"

definition stepLatePpuCycles :: "'e env_ops \<Rightarrow> 'e cpu \<Rightarrow> 'e cpu" where
  "stepLatePpuCycles E s =
     (let s = syncPpuTimingRegion E s; (lateCycles, r) = latePpu s
      in ppuCycles lateCycles E (s\<lparr>m_ppuLateCycleRemainder := r\<rparr>))"

definition beginCycle :: "'e env_ops \<Rightarrow> 'e cpu \<Rightarrow> 'e cpu" where
  "beginCycle E s =
     (if ppu_inOverclockLines E (env s) then s
      else let (rs, e) = apu_processDmcControlDelays E (env s);
               s = dma_requests rs (s\<lparr>env := e\<rparr>);
               (rs, e) = apu_cycle E (env s)
           in dma_requests rs (s\<lparr>env := e\<rparr>))"

text \<open>The four parts of \<open>endCycle\<close>: the two early PPU cycles with the interrupt poll, the
  notifications of a bus access, the cartridge cycle, and the late PPU cycles. The second
  argument is the address and direction of a bus access, \<open>None\<close> for
  \<open>BusAccess::No\<close>.\<close>

definition endCycle_poll :: "'e env_ops \<Rightarrow> bool \<Rightarrow> 'e cpu \<Rightarrow> 'e cpu" where
  "endCycle_poll E isDmaCycle s =
     (let s = ppuCycles 1 E (ppuCycles 1 E (phi1 s));
          (nmi, e) = ppu_getInterruptFlag E (env s);
          s = s\<lparr>env := e\<rparr>
      in phi2 isDmaCycle nmi (apu_getInterruptFlag E e \<or> cart_getInterruptFlag E e) s)"

definition endCycle_notify :: "'e env_ops \<Rightarrow> (u16 \<times> bool) option \<Rightarrow> 'e cpu \<Rightarrow> 'e cpu" where
  "endCycle_notify E access s =
     (let getToPutTransition = isOddCycle s;
          s = (case access of None \<Rightarrow> s
               | Some (addr, write) \<Rightarrow> s\<lparr>env := bus_onCpuBusAccessEnd E addr write (env s)\<rparr>)
      in if getToPutTransition then s\<lparr>env := bus_onCpuGetToPutTransition E (env s)\<rparr> else s)"

definition endCycle_cart :: "'e env_ops \<Rightarrow> 'e cpu \<Rightarrow> 'e cpu" where
  "endCycle_cart E s =
     (if ppu_inOverclockLines E (env s) then s
      else s\<lparr>env := apu_processExpansionAudioSample E (cart_cycle E (env s))\<rparr>)"

definition endCycle :: "'e env_ops \<Rightarrow> bool \<Rightarrow> (u16 \<times> bool) option \<Rightarrow> 'e cpu \<Rightarrow> 'e cpu" where
  "endCycle E isDmaCycle access s =
     (let s = stepLatePpuCycles E (endCycle_cart E (endCycle_notify E access
                (endCycle_poll E isDmaCycle s)))
      in s\<lparr>m_runCount := Suc (m_runCount s), m_cyclesCounter := m_cyclesCounter s + 1\<rparr>)"

subsection \<open>What a clock cycle leaves alone\<close>

text \<open>The programmer-visible registers and the latches of the running instruction.\<close>

definition core :: "'e cpu \<Rightarrow> u16 \<times> u8 \<times> u8 \<times> u8 \<times> u8 \<times> u8 \<times> u8 \<times> u16 \<times> u8 \<times> bool \<times> u8 \<times> bool \<times> bool \<times> bool"
  where
  "core s = (m_pc s, m_sp s, m_a s, m_x s, m_y s, m_status s, m_opcode s, m_addr s, m_addrHigh s,
     m_addrPageCross s, m_poolIntsAtCycle s, m_writeCycle s, m_resetRequest s,
     m_indexedDummyReadHadDma s)"

lemma core_eqD:
  assumes "core t = core s"
  shows "m_pc t = m_pc s" "m_sp t = m_sp s" "m_a t = m_a s" "m_x t = m_x s" "m_y t = m_y s"
    "m_status t = m_status s" "m_opcode t = m_opcode s" "m_addr t = m_addr s"
    "m_addrHigh t = m_addrHigh s" "m_addrPageCross t = m_addrPageCross s"
    "m_poolIntsAtCycle t = m_poolIntsAtCycle s" "m_writeCycle t = m_writeCycle s"
    "m_resetRequest t = m_resetRequest s" "m_indexedDummyReadHadDma t = m_indexedDummyReadHadDma s"
  using assms by (simp_all add: core_def)

lemma core_updates [simp]:
  "core (s\<lparr>env := e\<rparr>) = core s" "core (s\<lparr>m_dma := d\<rparr>) = core s"
  "core (m_dma_update f s) = core s" "core (s\<lparr>m_lastReadHadDma := b\<rparr>) = core s"
  "core (s\<lparr>m_nmiSignal := b\<rparr>) = core s" "core (s\<lparr>m_irqSignal := b\<rparr>) = core s"
  "core (s\<lparr>m_nmiStep := n\<rparr>) = core s" "core (s\<lparr>m_irqStep := b\<rparr>) = core s"
  "core (s\<lparr>m_interrupt := i\<rparr>) = core s" "core (s\<lparr>m_currentInstructionCycle := k\<rparr>) = core s"
  "core (s\<lparr>m_runCount := k\<rparr>) = core s" "core (s\<lparr>m_cyclesCounter := c\<rparr>) = core s"
  "core (s\<lparr>m_ppuTimingRegion := r\<rparr>) = core s" "core (s\<lparr>m_ppuLateCycleRemainder := q\<rparr>) = core s"
  by (simp_all add: core_def)

text \<open>Everything the sub-steps of \<open>endCycle\<close> preserve: the registers, the counters that
  \<open>endCycle\<close> advances at its very end, and the DMA unit.\<close>

definition still :: "'e cpu \<Rightarrow> _ \<times> nat \<times> u32 \<times> dma \<times> bool" where
  "still s = (core s, m_runCount s, m_cyclesCounter s, m_dma s, m_lastReadHadDma s)"

lemma still_eqD:
  assumes "still t = still s"
  shows "core t = core s" "m_runCount t = m_runCount s" "m_cyclesCounter t = m_cyclesCounter s"
    "m_dma t = m_dma s" "m_lastReadHadDma t = m_lastReadHadDma s"
  using assms by (simp_all add: still_def)

lemma still_updates [simp]:
  "still (s\<lparr>env := e\<rparr>) = still s" "still (s\<lparr>m_nmiSignal := b\<rparr>) = still s"
  "still (s\<lparr>m_irqSignal := b\<rparr>) = still s" "still (s\<lparr>m_nmiStep := n\<rparr>) = still s"
  "still (s\<lparr>m_irqStep := b\<rparr>) = still s" "still (s\<lparr>m_interrupt := i\<rparr>) = still s"
  "still (s\<lparr>m_currentInstructionCycle := k\<rparr>) = still s"
  "still (s\<lparr>m_ppuTimingRegion := r\<rparr>) = still s"
  "still (s\<lparr>m_ppuLateCycleRemainder := q\<rparr>) = still s"
  by (simp_all add: still_def)

lemma phi1_still [frame_simps]: "still (phi1 s) = still s"
  by (simp add: phi1_def Let_def)

lemma checkInterrupts_still [frame_simps]: "still (checkInterrupts s) = still s"
  by (simp add: checkInterrupts_def)

lemma phi2_still [frame_simps]: "still (phi2 d n i s) = still s"
  by (simp add: phi2_def frame_simps Let_def split: NmiStep.split)

lemma ppuCycles_still [frame_simps]: "still (ppuCycles n E s) = still s"
  by (simp add: ppuCycles_def)

lemma endCycle_poll_still [frame_simps]: "still (endCycle_poll E d s) = still s"
  by (simp add: endCycle_poll_def frame_simps Let_def split: prod.split)

lemma endCycle_notify_still [frame_simps]: "still (endCycle_notify E a s) = still s"
  by (simp add: endCycle_notify_def Let_def split: option.split)

lemma endCycle_cart_still [frame_simps]: "still (endCycle_cart E s) = still s"
  by (simp add: endCycle_cart_def)

lemma stepLatePpuCycles_still [frame_simps]: "still (stepLatePpuCycles E s) = still s"
  by (simp add: stepLatePpuCycles_def syncPpuTimingRegion_def resetPpuTimingPhase_def Let_def
      frame_simps split: prod.split)

lemma beginCycle_core [frame_simps]: "core (beginCycle E s) = core s"
  by (simp add: beginCycle_def dma_requests_def Let_def split: prod.split)

lemma endCycle_core [frame_simps]: "core (endCycle E d a s) = core s"
proof -
  let ?t = "stepLatePpuCycles E (endCycle_cart E (endCycle_notify E a (endCycle_poll E d s)))"
  have "core ?t = core s" by (rule still_eqD) (simp add: frame_simps)
  then show ?thesis by (simp add: endCycle_def Let_def)
qed

text \<open>The clock and the cycle counters: one cycle each, except that a DMA cycle does not advance
  the instruction.\<close>

lemma beginCycle_counters [simp]:
  "m_runCount (beginCycle E s) = m_runCount s"
  "m_cyclesCounter (beginCycle E s) = m_cyclesCounter s"
  "m_currentInstructionCycle (beginCycle E s) = m_currentInstructionCycle s"
  "m_interrupt (beginCycle E s) = m_interrupt s"
  "m_lastReadHadDma (beginCycle E s) = m_lastReadHadDma s"
  by (simp_all add: beginCycle_def dma_requests_def Let_def split: prod.split)

lemma endCycle_counters [simp]:
  "m_runCount (endCycle E d a s) = Suc (m_runCount s)"
  "m_cyclesCounter (endCycle E d a s) = m_cyclesCounter s + 1"
  "m_dma (endCycle E d a s) = m_dma s"
  "m_lastReadHadDma (endCycle E d a s) = m_lastReadHadDma s"
proof -
  let ?t = "stepLatePpuCycles E (endCycle_cart E (endCycle_notify E a (endCycle_poll E d s)))"
  have "still ?t = still s" by (simp add: frame_simps)
  note * = still_eqD[OF this]
  show "m_runCount (endCycle E d a s) = Suc (m_runCount s)"
    "m_cyclesCounter (endCycle E d a s) = m_cyclesCounter s + 1"
    "m_dma (endCycle E d a s) = m_dma s"
    "m_lastReadHadDma (endCycle E d a s) = m_lastReadHadDma s"
    by (simp_all add: endCycle_def Let_def *)
qed

lemma stepLatePpuCycles_instr [simp]:
  "m_currentInstructionCycle (stepLatePpuCycles E s) = m_currentInstructionCycle s"
  "m_interrupt (stepLatePpuCycles E s) = m_interrupt s"
  by (simp_all add: stepLatePpuCycles_def syncPpuTimingRegion_def resetPpuTimingPhase_def Let_def
      ppuCycles_def split: prod.split)

lemma endCycle_cart_instr [simp]:
  "m_currentInstructionCycle (endCycle_cart E s) = m_currentInstructionCycle s"
  "m_interrupt (endCycle_cart E s) = m_interrupt s"
  by (simp_all add: endCycle_cart_def)

lemma endCycle_notify_instr [simp]:
  "m_currentInstructionCycle (endCycle_notify E a s) = m_currentInstructionCycle s"
  "m_interrupt (endCycle_notify E a s) = m_interrupt s"
  by (simp_all add: endCycle_notify_def Let_def split: option.split)

lemma phi1_instr [simp]:
  "m_currentInstructionCycle (phi1 s) = m_currentInstructionCycle s"
  "m_poolIntsAtCycle (phi1 s) = m_poolIntsAtCycle s"
  "m_interrupt (phi1 s) = m_interrupt s"
  by (simp_all add: phi1_def Let_def)

lemma phi2_instr [simp]:
  "m_currentInstructionCycle (phi2 d n i s) =
     (if d then m_currentInstructionCycle s else Suc (m_currentInstructionCycle s))"
  by (simp add: phi2_def checkInterrupts_def Let_def split: NmiStep.split)

lemma phi2_no_poll:
  "d \<or> unat (m_poolIntsAtCycle s) \<noteq> m_currentInstructionCycle s \<Longrightarrow>
   m_interrupt (phi2 d n i s) = m_interrupt s"
  by (auto simp: phi2_def Let_def split: NmiStep.split)

lemma endCycle_instr [simp]:
  "m_currentInstructionCycle (endCycle E d a s) =
     (if d then m_currentInstructionCycle s else Suc (m_currentInstructionCycle s))"
  by (simp add: endCycle_def endCycle_poll_def ppuCycles_def Let_def split: prod.split)

lemma endCycle_no_poll:
  "d \<or> unat (m_poolIntsAtCycle s) \<noteq> m_currentInstructionCycle s \<Longrightarrow>
   m_interrupt (endCycle E d a s) = m_interrupt s"
  by (simp add: endCycle_def endCycle_poll_def ppuCycles_def Let_def phi2_no_poll split: prod.split)

end
