(* ===== verification/Dma.thy ===== *)
theory Dma
  imports Cpu_State "HOL-Library.While_Combinator"
begin

text \<open>
  The transfers of the \<open>DMA\<close> unit (\<open>src/src/GeraNES/DMA.h\<close> and \<open>DMA.inl\<close>): the bus
  reads with their controller-clock mask, and \<open>processPending\<close>, which runs before every
  CPU bus access and, on a read, halts the CPU while an OAM or DMC transfer is pending. Its
  \<open>while\<close> loop is \<open>while_option\<close> over the loop body \<open>dma_step\<close>; a loop that
  would not end is the value \<open>None\<close>.
\<close>

definition dmaBusRead :: "'e env_ops \<Rightarrow> u16 \<Rightarrow> bool \<Rightarrow> 'e cpu \<Rightarrow> u8 \<times> 'e cpu" where
  "dmaBusRead E addr enableInputClock s =
     (let s = m_dma_update (\<lambda>d. d\<lparr>d_dmaReadInProgress := True,
                d_dmaReadInputClockMask :=
                  (if enableInputClock then inputClockMaskForAddr addr else 0)\<rparr>) s;
          (v, e) = bus_read E (view s) addr (env s)
      in (v, m_dma_update (\<lambda>d. d\<lparr>d_dmaReadInProgress := False, d_dmaReadInputClockMask := 0\<rparr>)
               (s\<lparr>env := e\<rparr>)))"

definition processDmaRead :: "'e env_ops \<Rightarrow> u16 \<Rightarrow> bool \<Rightarrow> 'e cpu \<Rightarrow> u8 \<times> 'e cpu" where
  "processDmaRead E dmaAddr enableInternalRegReads s =
     (if \<not> enableInternalRegReads then
        let s = m_dma_update (\<lambda>d. d\<lparr>d_dmaPrevReadAddr := dmaAddr\<rparr>) s in
        if dmaAddr \<ge> 0x4000 \<and> dmaAddr \<le> 0x401F then (bus_getOpenBus E (env s), s)
        else dmaBusRead E dmaAddr False s
      else
        let internalAddr = 0x4000 OR (dmaAddr AND 0x1F);
            isSameAddress = (internalAddr = dmaAddr);
            (v, s) =
              (if internalAddr = 0x4015 then
                 let (v, s) = dmaBusRead E internalAddr False s in
                 if \<not> isSameAddress then (v, snd (dmaBusRead E dmaAddr False s)) else (v, s)
               else if internalAddr = 0x4016 \<or> internalAddr = 0x4017 then
                 let (v, s) = dmaBusRead E internalAddr
                                (d_dmaPrevReadAddr (m_dma s) \<noteq> internalAddr) s in
                 if \<not> isSameAddress then
                   let (externalValue, s) = dmaBusRead E dmaAddr False s;
                       v = (externalValue AND 0xE0) OR (v AND NOT 0xE0)
                   in (v, s\<lparr>env := bus_setOpenBus E v (env s)\<rparr>)
                 else (v, s)
               else dmaBusRead E dmaAddr False s)
        in (v, m_dma_update (\<lambda>d. d\<lparr>d_dmaPrevReadAddr := internalAddr\<rparr>) s))"

definition startDmaCycle :: "'e env_ops \<Rightarrow> 'e cpu \<Rightarrow> 'e cpu" where
  "startDmaCycle E s =
     (let d = m_dma s;
          s = (if d_dmaNeedHalt d then s\<lparr>m_dma := d\<lparr>d_dmaNeedHalt := False\<rparr>\<rparr>
               else if d_dmaNeedDummyRead d then s\<lparr>m_dma := d\<lparr>d_dmaNeedDummyRead := False\<rparr>\<rparr>
               else s)
      in beginCycle E s)"

text \<open>A DMA cycle that at most repeats the halted read.\<close>

definition dummyDmaCycle :: "'e env_ops \<Rightarrow> u16 \<Rightarrow> bool \<Rightarrow> 'e cpu \<Rightarrow> 'e cpu" where
  "dummyDmaCycle E readAddress skipDummyReads s =
     (let s = startDmaCycle E s;
          s = (if \<not> skipDummyReads then snd (dmaBusRead E readAddress True s) else s)
      in endCycle E True None s)"

text \<open>The body of the transfer loop.\<close>

definition dma_step :: "'e env_ops \<Rightarrow> u16 \<Rightarrow> bool \<Rightarrow> bool \<Rightarrow> 'e cpu \<Rightarrow> 'e cpu" where
  "dma_step E readAddress skipDummyReads enableInternalRegReads s =
     (let d = m_dma s in
      if isDmaGetCycle s then
        if d_dmcDmaRunning d \<and> \<not> d_dmaNeedHalt d \<and> \<not> d_dmaNeedDummyRead d then
          let s = startDmaCycle E s in
          if d_dmcAbortPending (m_dma s) then
            let s = (if \<not> skipDummyReads then snd (dmaBusRead E readAddress True s) else s)
            in m_dma_update (\<lambda>d. d\<lparr>d_dmcDmaRunning := False, d_dmcAbortPending := False\<rparr>)
                 (endCycle E True None s)
          else
            let (v, s) = processDmaRead E (d_dmcDmaAddr (m_dma s)) enableInternalRegReads s;
                s = m_dma_update (\<lambda>d. d\<lparr>d_dmcDmaRunning := False, d_dmcAbortPending := False,
                      d_dmcInitialLoadPhasePending := False\<rparr>) (endCycle E True None s);
                (rs, e) = apu_reloadShiftRegister E v (env s)
            in dma_requests rs (s\<lparr>env := e\<rparr>)
        else if d_oamDmaTransfer d then
          let s = startDmaCycle E s;
              (v, s) = processDmaRead E
                 (push_bit 8 (ucast (d_oamDmaPage (m_dma s))) OR ucast (d_oamDmaReadAddr (m_dma s)))
                 enableInternalRegReads s;
              s = endCycle E True None (m_dma_update (\<lambda>d. d\<lparr>d_oamDmaData := v\<rparr>) s)
          in m_dma_update (\<lambda>d. d\<lparr>d_oamDmaReadAddr := d_oamDmaReadAddr d + 1,
               d_oamDmaCounter := d_oamDmaCounter d + 1\<rparr>) s
        else dummyDmaCycle E readAddress skipDummyReads s
      else if d_oamDmaTransfer d \<and> d_oamDmaCounter d AND 1 \<noteq> 0 then
        let s = startDmaCycle E s;
            (rs, e) = bus_write E (view s) 0x2004 (d_oamDmaData (m_dma s)) (env s);
            s = endCycle E True None (dma_requests rs (s\<lparr>env := e\<rparr>));
            s = m_dma_update (\<lambda>d. d\<lparr>d_oamDmaCounter := d_oamDmaCounter d + 1\<rparr>) s
        in (if d_oamDmaCounter (m_dma s) = 0x200
            then m_dma_update (\<lambda>d. d\<lparr>d_oamDmaTransfer := False\<rparr>) s else s)
      else dummyDmaCycle E readAddress skipDummyReads s)"

definition dma_active :: "'e cpu \<Rightarrow> bool" where
  "dma_active s \<longleftrightarrow> d_dmcDmaRunning (m_dma s) \<or> d_oamDmaTransfer (m_dma s)"

text \<open>The part of \<open>processPending\<close> after the halt has been decided.\<close>

definition dma_halted :: "'e env_ops \<Rightarrow> u16 \<Rightarrow> 'e cpu \<Rightarrow> 'e cpu option" where
  "dma_halted E readAddress s =
     (let enableInternalRegReads = (readAddress AND 0xFFE0 = 0x4000);
          controllerReadAddress = (readAddress = 0x4016 \<or> readAddress = 0x4017);
          skipDummyReads = controllerReadAddress;
          dmcControllerGetConflict = (enableInternalRegReads \<and> d_dmcDmaRunning (m_dma s) \<and>
            controllerReadAddress \<and> (d_dmcDmaAddr (m_dma s) AND 0x1F) = (readAddress AND 0x1F));
          s = m_dma_update (\<lambda>d. d\<lparr>d_dmaPrevReadAddr := readAddress\<rparr>) s;
          s = startDmaCycle E s;
          s = (if \<not> (d_dmcAbortPending (m_dma s) \<and> skipDummyReads)
               then snd (dmaBusRead E readAddress
                      (\<not> controllerReadAddress \<or> \<not> dmcControllerGetConflict) s) else s);
          s = endCycle E True None s;
          aborted = d_dmcAbortPending (m_dma s);
          s = (if aborted then m_dma_update (\<lambda>d. d\<lparr>d_dmcDmaRunning := False,
                 d_dmcAbortPending := False\<rparr>) s else s)
      in if aborted \<and> \<not> d_oamDmaTransfer (m_dma s)
         then Some (m_dma_update (\<lambda>d. d\<lparr>d_dmaNeedDummyRead := False, d_dmaNeedHalt := False\<rparr>) s)
         else while_option dma_active
                (dma_step E readAddress skipDummyReads enableInternalRegReads) s)"

text \<open>The part of \<open>processPending\<close> after the single-cycle abort.\<close>

definition dma_request_phase ::
  "'e env_ops \<Rightarrow> u16 \<Rightarrow> bool \<Rightarrow> bool \<Rightarrow> 'e cpu \<Rightarrow> 'e cpu option" where
  "dma_request_phase E readAddress writeCycle getCycleNow s =
     (let d = m_dma s;
          initial = (d_dmcDmaRunning d \<and> d_dmaNeedHalt d \<and> d_dmcInitialLoadPhasePending d);
          s' = (if initial then s\<lparr>m_dma := d\<lparr>d_dmcInitialLoadPhasePending := False\<rparr>\<rparr> else s)
      in if initial \<and> \<not> getCycleNow then Some s
         else if \<not> d_dmaNeedHalt (m_dma s') \<or> writeCycle then Some s'
         else dma_halted E readAddress s')"

definition processPending :: "'e env_ops \<Rightarrow> u16 \<Rightarrow> bool \<Rightarrow> 'e cpu \<Rightarrow> 'e cpu option" where
  "processPending E readAddress writeCycle s =
     (let getCycleNow = isDmaGetCycle s; d = m_dma s in
      if d_dmcSingleCycleAbortPending d then
        if d_dmcSingleCycleAbortDelay d > 0
        then Some (s\<lparr>m_dma := d\<lparr>d_dmcSingleCycleAbortDelay := d_dmcSingleCycleAbortDelay d - 1\<rparr>\<rparr>)
        else if writeCycle then Some (s\<lparr>m_dma := d\<lparr>d_dmcSingleCycleAbortPending := False\<rparr>\<rparr>)
        else
          let s = m_dma_update (\<lambda>d. d\<lparr>d_dmcSingleCycleAbortPending := False\<rparr>)
                    (endCycle E True None (beginCycle E s))
          in if \<not> d_oamDmaTransfer (m_dma s) then Some s
             else dma_request_phase E readAddress writeCycle getCycleNow s
      else dma_request_phase E readAddress writeCycle getCycleNow s)"

subsection \<open>A DMA transfer never touches the registers\<close>

lemma dmaBusRead_core [frame_simps]: "core (snd (dmaBusRead E a c s)) = core s"
  by (simp add: dmaBusRead_def Let_def split: prod.split)

lemma dmaBusRead_counters [simp]:
  "m_runCount (snd (dmaBusRead E a c s)) = m_runCount s"
  "m_cyclesCounter (snd (dmaBusRead E a c s)) = m_cyclesCounter s"
  "m_currentInstructionCycle (snd (dmaBusRead E a c s)) = m_currentInstructionCycle s"
  "m_interrupt (snd (dmaBusRead E a c s)) = m_interrupt s"
  by (simp_all add: dmaBusRead_def Let_def split: prod.split)

lemma processDmaRead_core [frame_simps]: "core (snd (processDmaRead E a c s)) = core s"
  by (simp add: processDmaRead_def Let_def case_prod_unfold frame_simps)

lemma processDmaRead_counters [simp]:
  "m_runCount (snd (processDmaRead E a c s)) = m_runCount s"
  "m_cyclesCounter (snd (processDmaRead E a c s)) = m_cyclesCounter s"
  "m_currentInstructionCycle (snd (processDmaRead E a c s)) = m_currentInstructionCycle s"
  "m_interrupt (snd (processDmaRead E a c s)) = m_interrupt s"
  by (simp_all add: processDmaRead_def Let_def case_prod_unfold)

lemma startDmaCycle_core [frame_simps]: "core (startDmaCycle E s) = core s"
  by (simp add: startDmaCycle_def Let_def frame_simps)

lemma startDmaCycle_counters [simp]:
  "m_runCount (startDmaCycle E s) = m_runCount s"
  "m_cyclesCounter (startDmaCycle E s) = m_cyclesCounter s"
  "m_currentInstructionCycle (startDmaCycle E s) = m_currentInstructionCycle s"
  "m_interrupt (startDmaCycle E s) = m_interrupt s"
  by (simp_all add: startDmaCycle_def Let_def)

lemma dma_requests_frame [simp]:
  "core (dma_requests rs s) = core s" "m_runCount (dma_requests rs s) = m_runCount s"
  "m_cyclesCounter (dma_requests rs s) = m_cyclesCounter s"
  "m_currentInstructionCycle (dma_requests rs s) = m_currentInstructionCycle s"
  "m_interrupt (dma_requests rs s) = m_interrupt s" "env (dma_requests rs s) = env s"
  by (simp_all add: dma_requests_def)

lemma dma_requests_Nil [simp]: "dma_requests [] s = s"
  by (cases s) (simp add: dma_requests_def)

lemma dummyDmaCycle_core [frame_simps]: "core (dummyDmaCycle E a k s) = core s"
  by (simp add: dummyDmaCycle_def Let_def frame_simps)

lemma dma_step_core [frame_simps]: "core (dma_step E a k i s) = core s"
  by (simp add: dma_step_def Let_def case_prod_unfold frame_simps)

lemma dma_step_instr [simp]:
  "m_currentInstructionCycle (dma_step E a k i s) = m_currentInstructionCycle s"
  "m_interrupt (dma_step E a k i s) = m_interrupt s"
  "m_runCount (dma_step E a k i s) = Suc (m_runCount s)"
  "m_cyclesCounter (dma_step E a k i s) = m_cyclesCounter s + 1"
  by (simp_all add: dma_step_def dummyDmaCycle_def Let_def case_prod_unfold endCycle_no_poll)

text \<open>What a DMA transfer preserves of the CPU: registers, instruction cycle and pending
  interrupt.\<close>

definition dma_frame :: "'e cpu \<Rightarrow> _ \<times> nat \<times> Interrupt" where
  "dma_frame s = (core s, m_currentInstructionCycle s, m_interrupt s)"

lemma dma_frame_update [simp]: "dma_frame (m_dma_update f s) = dma_frame s"
  "dma_frame (s\<lparr>m_dma := d\<rparr>) = dma_frame s" "dma_frame (s\<lparr>env := e\<rparr>) = dma_frame s"
  by (simp_all add: dma_frame_def)

lemma dma_step_frame: "dma_frame (dma_step E a k i s) = dma_frame s"
  by (simp add: dma_frame_def frame_simps)

lemma dma_loop_frame:
  "while_option dma_active (dma_step E a k i) s = Some t \<Longrightarrow> dma_frame t = dma_frame s"
  by (rule while_option_rule[where P = "\<lambda>u. dma_frame u = dma_frame s"]) (auto simp: dma_step_frame)

lemma dma_prefix_frame:
  "dma_frame (endCycle E True acc s) = dma_frame s" "dma_frame (startDmaCycle E s) = dma_frame s"
  "dma_frame (snd (dmaBusRead E a c s)) = dma_frame s" "dma_frame (beginCycle E s) = dma_frame s"
  by (simp_all add: dma_frame_def frame_simps endCycle_no_poll)

lemma dma_halted_frame: "dma_halted E a s = Some t \<Longrightarrow> dma_frame t = dma_frame s"
  by (auto simp: dma_halted_def Let_def dma_prefix_frame split: if_splits dest!: dma_loop_frame)

lemma dma_request_phase_frame: "dma_request_phase E a w g s = Some t \<Longrightarrow> dma_frame t = dma_frame s"
  by (auto simp: dma_request_phase_def Let_def split: if_splits dest!: dma_halted_frame)

lemma processPending_frame: "processPending E a w s = Some t \<Longrightarrow> dma_frame t = dma_frame s"
  by (auto simp: processPending_def Let_def dma_prefix_frame split: if_splits
      dest!: dma_request_phase_frame)

end
