(* ===== verification/Quiet_Bus.thy ===== *)
theory Quiet_Bus
  imports Dma
begin

text \<open>
  The contract of a console in which nothing asks for DMA: the locale \<open>quiet_bus\<close> fixes
  the environment operations and an invariant \<open>J\<close> of the environment under which the APU
  raises no DMA request. It is what an instruction's cycle count and the exact shape of an OAM
  transfer rest on. The ghost environment \<open>traced\<close> records the bus accesses of a run, so
  that a transfer can be stated as the sequence of its reads and writes.
\<close>

locale quiet_bus =
  fixes E :: "'e env_ops" and J :: "'e \<Rightarrow> bool"
  assumes quiet_delays: "J e \<Longrightarrow> fst (apu_processDmcControlDelays E e) = [] \<and>
      J (snd (apu_processDmcControlDelays E e))"
    and quiet_apu: "J e \<Longrightarrow> fst (apu_cycle E e) = [] \<and> J (snd (apu_cycle E e))"
    and quiet_read: "J e \<Longrightarrow> J (snd (bus_read E v a e))"
    and quiet_write: "J e \<Longrightarrow> a < 0x2000 \<or> a = 0x2004 \<Longrightarrow>
      fst (bus_write E v a x e) = [] \<and> J (snd (bus_write E v a x e))"
    and quiet_access_end: "J e \<Longrightarrow> J (bus_onCpuBusAccessEnd E a w e)"
    and quiet_transition: "J e \<Longrightarrow> J (bus_onCpuGetToPutTransition E e)"
    and quiet_ppu: "J e \<Longrightarrow> J (ppu_ppuCycle E e)"
    and quiet_nmi: "J e \<Longrightarrow> J (snd (ppu_getInterruptFlag E e))"
    and quiet_audio: "J e \<Longrightarrow> J (apu_processExpansionAudioSample E e)"
    and quiet_cart: "J e \<Longrightarrow> J (cart_cycle E e)"
    and quiet_nsf: "J e \<Longrightarrow> J (snd (cart_consumeNsfPlayerInstructionRedirect E e))"
begin

lemma quiet_ppuCycles: "J (env s) \<Longrightarrow> J (env (ppuCycles n E s))"
  by (induction n) (simp_all add: ppuCycles_def quiet_ppu)

lemma env_phi [simp]: "env (phi1 s) = env s" "env (phi2 d n i s) = env s"
  by (simp_all add: phi1_def phi2_def checkInterrupts_def Let_def split: NmiStep.split)

lemma quiet_beginCycle:
  assumes "J (env s)"
  shows "m_dma (beginCycle E s) = m_dma s" "J (env (beginCycle E s))"
  using quiet_delays[OF assms] quiet_apu assms
  by (auto simp: beginCycle_def dma_requests_def Let_def case_prod_unfold)

lemma quiet_endCycle_poll: "J (env s) \<Longrightarrow> J (env (endCycle_poll E d s))"
  using quiet_ppuCycles[of "ppuCycles 1 E (phi1 s)" 1] quiet_ppuCycles[of "phi1 s" 1]
  by (simp add: endCycle_poll_def Let_def case_prod_unfold quiet_nmi)

lemma quiet_stepLate: "J (env s) \<Longrightarrow> J (env (stepLatePpuCycles E s))"
  by (simp add: stepLatePpuCycles_def Let_def case_prod_unfold syncPpuTimingRegion_def
      resetPpuTimingPhase_def quiet_ppuCycles)

lemma quiet_endCycle: "J (env s) \<Longrightarrow> J (env (endCycle E d acc s))"
  by (auto simp: endCycle_def endCycle_notify_def endCycle_cart_def Let_def
      intro!: quiet_stepLate quiet_audio quiet_cart quiet_transition quiet_access_end
        quiet_endCycle_poll split: option.split)

lemma quiet_dmaBusRead: "J (env s) \<Longrightarrow> J (env (snd (dmaBusRead E a c s)))"
  by (simp add: dmaBusRead_def Let_def case_prod_unfold quiet_read)

lemma quiet_startDmaCycle: "J (env s) \<Longrightarrow> J (env (startDmaCycle E s))"
  by (simp add: startDmaCycle_def Let_def quiet_beginCycle)

end

subsection \<open>Recording the bus accesses\<close>

datatype bus_event = BusRead u16 u8 | BusWrite u16 u8

definition traced :: "'e env_ops \<Rightarrow> ('e \<times> bus_event list) env_ops" where
  "traced E = \<lparr>
     bus_read = (\<lambda>v a (e, l). let (x, e') = bus_read E v a e in (x, e', l @ [BusRead a x])),
     bus_write = (\<lambda>v a x (e, l). let (rs, e') = bus_write E v a x e in (rs, e', l @ [BusWrite a x])),
     bus_getOpenBus = bus_getOpenBus E \<circ> fst,
     bus_setOpenBus = (\<lambda>x. map_prod (bus_setOpenBus E x) id),
     bus_onCpuBusAccessEnd = (\<lambda>a w. map_prod (bus_onCpuBusAccessEnd E a w) id),
     bus_onCpuGetToPutTransition = map_prod (bus_onCpuGetToPutTransition E) id,
     ppu_inOverclockLines = ppu_inOverclockLines E \<circ> fst,
     ppu_ppuCycle = map_prod (ppu_ppuCycle E) id,
     ppu_region = ppu_region E \<circ> fst,
     ppu_getInterruptFlag = (\<lambda>(e, l). let (b, e') = ppu_getInterruptFlag E e in (b, e', l)),
     apu_processDmcControlDelays =
       (\<lambda>(e, l). let (rs, e') = apu_processDmcControlDelays E e in (rs, e', l)),
     apu_cycle = (\<lambda>(e, l). let (rs, e') = apu_cycle E e in (rs, e', l)),
     apu_getInterruptFlag = apu_getInterruptFlag E \<circ> fst,
     apu_reloadShiftRegister =
       (\<lambda>x (e, l). let (rs, e') = apu_reloadShiftRegister E x e in (rs, e', l)),
     apu_processExpansionAudioSample = map_prod (apu_processExpansionAudioSample E) id,
     cart_getInterruptFlag = cart_getInterruptFlag E \<circ> fst,
     cart_cycle = map_prod (cart_cycle E) id,
     cart_consumeNsfPlayerInstructionRedirect =
       (\<lambda>(e, l). let (r, e') = cart_consumeNsfPlayerInstructionRedirect E e in (r, e', l))\<rparr>"

lemma quiet_bus_traced: "quiet_bus E J \<Longrightarrow> quiet_bus (traced E) (J \<circ> fst)"
  unfolding quiet_bus_def traced_def by (auto simp: Let_def case_prod_unfold)

text \<open>The log is written by bus reads and writes only.\<close>

lemma traced_ppuCycles: "snd (env (ppuCycles n (traced E) s)) = snd (env s)"
  by (induction n) (simp_all add: ppuCycles_def traced_def)

lemma traced_beginCycle: "snd (env (beginCycle (traced E) s)) = snd (env s)"
  by (simp add: beginCycle_def traced_def dma_requests_def Let_def case_prod_unfold)

lemma traced_endCycle: "snd (env (endCycle (traced E) d acc s)) = snd (env s)"
proof -
  have poll: "snd (env (endCycle_poll (traced E) d s)) = snd (env s)" for s :: "('a \<times> bus_event list) cpu"
    by (simp add: endCycle_poll_def Let_def case_prod_unfold phi1_def phi2_def checkInterrupts_def
        traced_def ppuCycles_def split: NmiStep.split)
  have notify: "snd (env (endCycle_notify (traced E) acc s)) = snd (env s)" for s :: "('a \<times> bus_event list) cpu"
    by (simp add: endCycle_notify_def traced_def Let_def split: option.split)
  have cart: "snd (env (endCycle_cart (traced E) s)) = snd (env s)" for s :: "('a \<times> bus_event list) cpu"
    by (simp add: endCycle_cart_def traced_def)
  have late: "snd (env (stepLatePpuCycles (traced E) s)) = snd (env s)" for s :: "('a \<times> bus_event list) cpu"
    by (simp add: stepLatePpuCycles_def Let_def case_prod_unfold traced_ppuCycles
        syncPpuTimingRegion_def resetPpuTimingPhase_def)
  show ?thesis by (simp add: endCycle_def Let_def poll notify cart late)
qed

lemma traced_startDmaCycle: "snd (env (startDmaCycle (traced E) s)) = snd (env s)"
  by (simp add: startDmaCycle_def Let_def traced_beginCycle)

lemma traced_dmaBusRead:
  "snd (env (snd (dmaBusRead (traced E) a c s))) =
     snd (env s) @ [BusRead a (fst (dmaBusRead (traced E) a c s))]"
  by (simp add: dmaBusRead_def traced_def Let_def case_prod_unfold)

lemma traced_write: "snd (snd (bus_write (traced E) v a x e)) = snd e @ [BusWrite a x]"
  by (simp add: traced_def Let_def case_prod_unfold)

end
