(* ===== verification/Apu_Channels.thy ===== *)
theory Apu_Channels
  imports Settings
begin

text \<open>
  The three tone channels of the APU: \<open>PulseChannel\<close>, \<open>TriangleChannel\<close> and
  \<open>NoiseChannel\<close> (\<open>src/src/GeraNES/APU\<close>), with the length table of
  \<open>APUCommon.h\<close>. The contract they share, a length counter that a register write loads and a
  clock counts down, is the locale \<open>length_unit\<close>; each channel interprets it.
\<close>

definition LENGTH_TABLE :: "u8 list" where
  "LENGTH_TABLE = [
     0x0A, 0xFE, 0x14, 0x02, 0x28, 0x04, 0x50, 0x06,
     0xA0, 0x08, 0x3C, 0x0A, 0x0E, 0x0C, 0x1A, 0x0E,
     0x0C, 0x10, 0x18, 0x12, 0x30, 0x14, 0x60, 0x16,
     0xC0, 0x18, 0x48, 0x1A, 0x10, 0x1C, 0x20, 0x1E]"

text \<open>The entry that a write of \<open>data\<close> to the fourth register of a channel selects.\<close>

definition lengthLoad :: "u8 \<Rightarrow> u16" where
  "lengthLoad data = ucast (LENGTH_TABLE ! unat (drop_bit 3 (data AND 0xF8)))"

text \<open>The two period registers, shared by the pulse and triangle channels.\<close>

definition periodLow :: "u8 \<Rightarrow> u16 \<Rightarrow> u16" where
  "periodLow data p = ucast data OR (p AND 0x0700)"

definition periodHigh :: "u8 \<Rightarrow> u16 \<Rightarrow> u16" where
  "periodHigh data p = push_bit 8 (ucast (data AND 0x07)) OR (p AND 0x00FF)"

subsection \<open>The contract of a length counter\<close>

locale length_unit =
  fixes len :: "'s \<Rightarrow> u16"
    and on :: "'s \<Rightarrow> bool"
    and halted :: "'s \<Rightarrow> bool"
    and clock :: "'s \<Rightarrow> 's"
    and enable :: "bool \<Rightarrow> 's \<Rightarrow> 's"
    and store :: "nat \<Rightarrow> u8 \<Rightarrow> 's \<Rightarrow> 's"
  assumes clock_len: "len (clock s) = (if \<not> halted s \<and> len s > 0 then len s - 1 else len s)"
    and clock_on: "on (clock s) = on s"
    and clock_halted: "halted (clock s) = halted s"
    and enable_on: "on (enable b s) = b"
    and enable_len: "len (enable b s) = (if b then len s else 0)"
    and store_on: "on (store a d s) = on s"
    and store_len: "len (store a d s) = len s \<or> on s \<and> a = 3 \<and> len (store a d s) = lengthLoad d"
begin

text \<open>The counter is one of the values a table entry can count down through, and a disabled
  channel is silent.\<close>

definition ok :: "'s \<Rightarrow> bool" where
  "ok s \<longleftrightarrow> len s \<le> 0xFE \<and> (\<not> on s \<longrightarrow> len s = 0)"

end

lemma LENGTH_TABLE_bounds: "\<forall>v \<in> set LENGTH_TABLE. 2 \<le> unat v \<and> unat v \<le> 254"
  by (simp add: LENGTH_TABLE_def)

lemma lengthLoad_index: "unat (drop_bit 3 (data AND 0xF8 :: u8)) < 32"
proof -
  have "unat (data AND 0xF8 :: u8) \<le> 248" using unat_and_le2[of data "0xF8"] by simp
  then show ?thesis by (simp add: drop_bit_eq_div unat_div)
qed

lemma lengthLoad_bounds: "2 \<le> unat (lengthLoad d)" "unat (lengthLoad d) \<le> 254"
proof -
  have "LENGTH_TABLE ! unat (drop_bit 3 (d AND 0xF8)) \<in> set LENGTH_TABLE"
    using lengthLoad_index[of d] by (intro nth_mem) (simp add: LENGTH_TABLE_def)
  with LENGTH_TABLE_bounds show "2 \<le> unat (lengthLoad d)" "unat (lengthLoad d) \<le> 254"
    by (auto simp: lengthLoad_def)
qed

context length_unit
begin

lemma unat_clock_len: "\<not> halted s \<Longrightarrow> unat (len (clock s)) = unat (len s) - 1"
  by (auto simp: clock_len word_greater_zero_iff unat_minus_one)

lemma ok_clock: "ok s \<Longrightarrow> ok (clock s)"
  using unat_clock_len[of s]
  by (cases "halted s") (auto simp: ok_def clock_on clock_len word_le_nat_alt)

lemma ok_enable: "ok s \<Longrightarrow> ok (enable b s)"
  by (simp add: ok_def enable_on enable_len)

lemma ok_store: "ok s \<Longrightarrow> ok (store a d s)"
  using store_len[of a d s] lengthLoad_bounds(2)[of d]
  by (auto simp: ok_def store_on word_le_nat_alt)

text \<open>A running counter of \<open>n\<close> silences the channel after exactly \<open>n\<close> clocks; a halted
  one never changes.\<close>

lemma clocks_halted: "halted ((clock ^^ n) s) = halted s"
  by (induction n) (simp_all add: clock_halted)

lemma countdown: "\<not> halted s \<Longrightarrow> unat (len ((clock ^^ n) s)) = unat (len s) - n"
  by (induction n) (simp_all add: unat_clock_len clocks_halted)

lemma halt_keeps: "halted s \<Longrightarrow> len ((clock ^^ n) s) = len s"
  by (induction n) (simp_all add: clock_len clocks_halted)

lemma silent_iff:
  assumes "\<not> halted s"
  shows "len ((clock ^^ n) s) = 0 \<longleftrightarrow> unat (len s) \<le> n"
  using countdown[OF assms, of n] by (simp add: word_unat_eq_iff)

end

subsection \<open>Pulse channel\<close>

record pulse =
  pu_enabled :: bool
  pu_lengthCounter :: u16
  pu_period :: u16
  pu_duty :: u8
  pu_loop :: bool
  pu_constantVolumeMode :: bool
  pu_envelopPeriod :: u8
  pu_envelopVolume :: u8
  pu_constantVolume :: u8
  pu_envelopCounter :: u8
  pu_sweepEnabled :: bool
  pu_sweepPeriod :: u8
  pu_sweepNegative :: bool
  pu_sweepShift :: u8
  pu_sweepWritten :: bool
  pu_sweepCounter :: u16
  pu_sweepResult :: u16
  pu_lengthUpdated :: bool

definition pulse_init :: pulse where
  "pulse_init = \<lparr>pu_enabled = False, pu_lengthCounter = 0, pu_period = 1, pu_duty = 0,
     pu_loop = False, pu_constantVolumeMode = False, pu_envelopPeriod = 1, pu_envelopVolume = 0,
     pu_constantVolume = 0, pu_envelopCounter = 0, pu_sweepEnabled = False, pu_sweepPeriod = 1,
     pu_sweepNegative = False, pu_sweepShift = 0, pu_sweepWritten = False, pu_sweepCounter = 0,
     pu_sweepResult = 0, pu_lengthUpdated = False\<rparr>"

definition pulse_write :: "nat \<Rightarrow> u8 \<Rightarrow> pulse \<Rightarrow> pulse" where
  "pulse_write addr data p =
     (if addr = 0 then
        p\<lparr>pu_duty := drop_bit 6 data, pu_constantVolume := data AND 0x0F,
          pu_loop := test_bits data 0x20, pu_constantVolumeMode := test_bits data 0x10,
          pu_envelopPeriod := data AND 0x0F\<rparr>
      else if addr = 1 then
        p\<lparr>pu_sweepEnabled := test_bits data 0x80, pu_sweepPeriod := drop_bit 4 data AND 0x07,
          pu_sweepNegative := test_bits data 0x08, pu_sweepShift := data AND 0x07,
          pu_sweepWritten := True\<rparr>
      else if addr = 2 then p\<lparr>pu_period := periodLow data (pu_period p)\<rparr>
      else if addr = 3 then
        let p = p\<lparr>pu_period := periodHigh data (pu_period p)\<rparr>;
            p = (if pu_enabled p \<and> (\<not> pu_lengthUpdated p \<or> (pu_lengthUpdated p \<and> pu_lengthCounter p = 0))
                 then p\<lparr>pu_lengthCounter := lengthLoad data\<rparr> else p)
        in p\<lparr>pu_envelopVolume := 0x0F\<rparr>
      else p)"

definition pulse_updateLengthCounter :: "pulse \<Rightarrow> pulse" where
  "pulse_updateLengthCounter p =
     (let p = p\<lparr>pu_lengthUpdated := True\<rparr>
      in if \<not> pu_loop p \<and> pu_lengthCounter p > 0
         then p\<lparr>pu_lengthCounter := pu_lengthCounter p - 1\<rparr> else p)"

text \<open>\<open>delta\<close> and the comparison with \<open>0x800\<close> are \<open>int\<close> in the source, the period
  is truncated to 16 bits.\<close>

definition pulse_updateSweep :: "nat \<Rightarrow> pulse \<Rightarrow> pulse" where
  "pulse_updateSweep channel p =
     (let p = p\<lparr>pu_sweepCounter := pu_sweepCounter p - 1\<rparr>;
          p = (if pu_sweepCounter p = 0 then
                 let p = p\<lparr>pu_sweepCounter := ucast (pu_sweepPeriod p) + 1\<rparr> in
                 if pu_sweepEnabled p \<and> pu_sweepShift p > 0 \<and> pu_period p > 8 then
                   let delta = drop_bit (unat (pu_sweepShift p)) (pu_period p) in
                   if pu_sweepNegative p then
                     let p = p\<lparr>pu_period := pu_period p - delta\<rparr>
                     in (if channel = 0 then p\<lparr>pu_period := pu_period p - 1\<rparr> else p)
                   else if unat (pu_period p) + unat delta < 0x800
                   then p\<lparr>pu_period := pu_period p + delta\<rparr> else p
                 else p
               else p)
      in if pu_sweepWritten p
         then p\<lparr>pu_sweepWritten := False, pu_sweepCounter := ucast (pu_sweepPeriod p) + 1\<rparr> else p)"

definition pulse_isDisabledBySweep :: "pulse \<Rightarrow> bool" where
  "pulse_isDisabledBySweep p \<longleftrightarrow> pu_period p < 8 \<or> pu_period p > 0x7FF \<or>
     \<not> pu_sweepNegative p \<and>
       unat (pu_period p) + unat (drop_bit (unat (pu_sweepShift p)) (pu_period p)) > 0x7FF"

text \<open>The envelope divider of the pulse and noise channels: new counter, and new volume.\<close>

definition envelopStep :: "u8 \<Rightarrow> bool \<Rightarrow> bool \<Rightarrow> u8 \<times> u8 \<Rightarrow> u8 \<times> u8" where
  "envelopStep period constantMode loop = (\<lambda>(counter, volume).
     let counter = (if counter > 0 then counter - 1 else counter) in
     if counter = 0 then
       (period + 1,
        if \<not> constantMode then
          if loop then (volume - 1) AND 0x0F else if volume > 0 then volume - 1 else volume
        else volume)
     else (counter, volume))"

definition pulse_updateEnvelop :: "pulse \<Rightarrow> pulse" where
  "pulse_updateEnvelop p =
     (let (c, v) = envelopStep (pu_envelopPeriod p) (pu_constantVolumeMode p) (pu_loop p)
                     (pu_envelopCounter p, pu_envelopVolume p)
      in p\<lparr>pu_envelopCounter := c, pu_envelopVolume := v\<rparr>)"

definition pulse_isEnabled :: "pulse \<Rightarrow> bool" where
  "pulse_isEnabled p \<longleftrightarrow> pu_enabled p \<and> pu_lengthCounter p > 0 \<and> \<not> pulse_isDisabledBySweep p \<and>
     pu_period p > 0"

definition pulse_setEnabled :: "bool \<Rightarrow> pulse \<Rightarrow> pulse" where
  "pulse_setEnabled status p =
     (let p = p\<lparr>pu_enabled := status\<rparr> in if \<not> status then p\<lparr>pu_lengthCounter := 0\<rparr> else p)"

definition pulse_getVolume :: "pulse \<Rightarrow> u8" where
  "pulse_getVolume p =
     (if pulse_isEnabled p then
        if pu_constantVolumeMode p then pu_constantVolume p else pu_envelopVolume p
      else 0)"

definition pulse_cycle :: "pulse \<Rightarrow> pulse" where
  "pulse_cycle p = p\<lparr>pu_lengthUpdated := False\<rparr>"

subsection \<open>Triangle channel\<close>

record triangle =
  tr_enabled :: bool
  tr_lengthCounter :: u16
  tr_period :: u16
  tr_loop :: bool
  tr_linearLoad :: u8
  tr_linearCounter :: u16
  tr_linearReloadFlag :: bool

definition triangle_init :: triangle where
  "triangle_init = \<lparr>tr_enabled = False, tr_lengthCounter = 0, tr_period = 1, tr_loop = False,
     tr_linearLoad = 0, tr_linearCounter = 0, tr_linearReloadFlag = False\<rparr>"

definition triangle_write :: "nat \<Rightarrow> u8 \<Rightarrow> triangle \<Rightarrow> triangle" where
  "triangle_write addr data t =
     (if addr = 0 then t\<lparr>tr_linearLoad := data AND 0x7F, tr_loop := test_bits data 0x80\<rparr>
      else if addr = 2 then t\<lparr>tr_period := periodLow data (tr_period t)\<rparr>
      else if addr = 3 then
        let t = t\<lparr>tr_period := periodHigh data (tr_period t)\<rparr>;
            t = (if tr_enabled t then t\<lparr>tr_lengthCounter := lengthLoad data\<rparr> else t)
        in t\<lparr>tr_linearReloadFlag := True\<rparr>
      else t)"

definition triangle_updateLengthCounter :: "triangle \<Rightarrow> triangle" where
  "triangle_updateLengthCounter t =
     (if \<not> tr_loop t \<and> tr_lengthCounter t > 0
      then t\<lparr>tr_lengthCounter := tr_lengthCounter t - 1\<rparr> else t)"

definition triangle_updateLinearCounter :: "triangle \<Rightarrow> triangle" where
  "triangle_updateLinearCounter t =
     (let t = (if tr_linearReloadFlag t then t\<lparr>tr_linearCounter := ucast (tr_linearLoad t)\<rparr>
               else if tr_linearCounter t > 0 then t\<lparr>tr_linearCounter := tr_linearCounter t - 1\<rparr>
               else t)
      in if \<not> tr_loop t then t\<lparr>tr_linearReloadFlag := False\<rparr> else t)"

definition triangle_isEnabled :: "triangle \<Rightarrow> bool" where
  "triangle_isEnabled t \<longleftrightarrow> tr_enabled t \<and> tr_lengthCounter t > 0 \<and> tr_linearCounter t > 0 \<and>
     tr_period t > 0"

definition triangle_setEnabled :: "bool \<Rightarrow> triangle \<Rightarrow> triangle" where
  "triangle_setEnabled status t =
     (let t = t\<lparr>tr_enabled := status\<rparr> in if \<not> status then t\<lparr>tr_lengthCounter := 0\<rparr> else t)"

definition triangle_getVolume :: "triangle \<Rightarrow> u8" where
  "triangle_getVolume t = (if triangle_isEnabled t then 15 else 0)"

subsection \<open>Noise channel\<close>

definition NTSC_NOISE_PERIOD_TABLE :: "u16 list" where
  "NTSC_NOISE_PERIOD_TABLE =
     [4, 8, 16, 32, 64, 96, 128, 160, 202, 254, 380, 508, 762, 1016, 2034, 4068]"

definition PAL_NOISE_PERIOD_TABLE :: "u16 list" where
  "PAL_NOISE_PERIOD_TABLE =
     [4, 7, 14, 30, 60, 88, 118, 148, 188, 236, 354, 472, 708, 944, 1890, 3778]"

record noise =
  no_enabled :: bool
  no_lengthCounter :: u16
  no_period :: u16
  no_loop :: bool
  no_constantVolumeMode :: bool
  no_envelopVolume :: u8
  no_constantVolumeAndEnvelopPeriod :: u8
  no_envelopCounter :: u8
  no_mode :: bool
  no_lengthUpdated :: bool

definition noise_init :: noise where
  "noise_init = \<lparr>no_enabled = False, no_lengthCounter = 0, no_period = 1, no_loop = False,
     no_constantVolumeMode = False, no_envelopVolume = 0, no_constantVolumeAndEnvelopPeriod = 1,
     no_envelopCounter = 0, no_mode = False, no_lengthUpdated = False\<rparr>"

definition noise_write :: "Region \<Rightarrow> nat \<Rightarrow> u8 \<Rightarrow> noise \<Rightarrow> noise" where
  "noise_write region addr data n =
     (if addr = 0 then
        n\<lparr>no_constantVolumeAndEnvelopPeriod := data AND 0x0F, no_loop := test_bits data 0x20,
          no_constantVolumeMode := test_bits data 0x10\<rparr>
      else if addr = 2 then
        n\<lparr>no_mode := test_bits data 0x80,
          no_period := (if region = NTSC then NTSC_NOISE_PERIOD_TABLE ! unat (data AND 0x0F)
                        else PAL_NOISE_PERIOD_TABLE ! unat (data AND 0x0F))\<rparr>
      else if addr = 3 then
        let n = (if no_enabled n \<and> (\<not> no_lengthUpdated n \<or> (no_lengthUpdated n \<and> no_lengthCounter n = 0))
                 then n\<lparr>no_lengthCounter := lengthLoad data\<rparr> else n)
        in n\<lparr>no_envelopVolume := 0x0F\<rparr>
      else n)"

definition noise_updateLengthCounter :: "noise \<Rightarrow> noise" where
  "noise_updateLengthCounter n =
     (let n = n\<lparr>no_lengthUpdated := True\<rparr>
      in if \<not> no_loop n \<and> no_lengthCounter n > 0
         then n\<lparr>no_lengthCounter := no_lengthCounter n - 1\<rparr> else n)"

definition noise_updateEnvelop :: "noise \<Rightarrow> noise" where
  "noise_updateEnvelop n =
     (let (c, v) = envelopStep (no_constantVolumeAndEnvelopPeriod n) (no_constantVolumeMode n)
                     (no_loop n) (no_envelopCounter n, no_envelopVolume n)
      in n\<lparr>no_envelopCounter := c, no_envelopVolume := v\<rparr>)"

definition noise_isEnabled :: "noise \<Rightarrow> bool" where
  "noise_isEnabled n \<longleftrightarrow> no_enabled n \<and> no_lengthCounter n > 0 \<and> no_period n > 0"

definition noise_setEnabled :: "bool \<Rightarrow> noise \<Rightarrow> noise" where
  "noise_setEnabled status n =
     (let n = n\<lparr>no_enabled := status\<rparr> in if \<not> status then n\<lparr>no_lengthCounter := 0\<rparr> else n)"

definition noise_getVolume :: "noise \<Rightarrow> u8" where
  "noise_getVolume n =
     (if noise_isEnabled n then
        if no_constantVolumeMode n then no_constantVolumeAndEnvelopPeriod n else no_envelopVolume n
      else 0)"

definition noise_cycle :: "noise \<Rightarrow> noise" where
  "noise_cycle n = n\<lparr>no_lengthUpdated := False\<rparr>"

subsection \<open>The channels have length counters\<close>

interpretation pulse_len: length_unit pu_lengthCounter pu_enabled pu_loop pulse_updateLengthCounter
  pulse_setEnabled pulse_write
  by unfold_locales
    (auto simp: pulse_updateLengthCounter_def pulse_setEnabled_def pulse_write_def Let_def)

interpretation triangle_len: length_unit tr_lengthCounter tr_enabled tr_loop
  triangle_updateLengthCounter triangle_setEnabled triangle_write
  by unfold_locales
    (auto simp: triangle_updateLengthCounter_def triangle_setEnabled_def triangle_write_def Let_def)

interpretation noise_len: length_unit no_lengthCounter no_enabled no_loop noise_updateLengthCounter
  noise_setEnabled "noise_write r"
  by unfold_locales
    (auto simp: noise_updateLengthCounter_def noise_setEnabled_def noise_write_def Let_def)

subsection \<open>Bounds of the pulse, triangle and noise registers\<close>

lemma nibble_le [word_bounds]: "(d AND 0x0F :: u8) \<le> 15"
  by (rule order_trans[OF word_and_le1]) simp

lemma envelopStep_le:
  "v \<le> 15 \<Longrightarrow> snd (envelopStep p m l (c, v)) \<le> 15"
proof -
  assume "v \<le> 15"
  then have "v > 0 \<Longrightarrow> v - 1 \<le> 15"
    by (auto simp: word_le_nat_alt word_greater_zero_iff unat_minus_one)
  with \<open>v \<le> 15\<close> show ?thesis by (auto simp: envelopStep_def Let_def nibble_le)
qed

text \<open>The range of a pulse channel: length counter in range and silent when disabled, an 11-bit
  period, a 2-bit duty cycle, 4-bit volumes and 3-bit sweep fields.\<close>

definition pulse_ok :: "pulse \<Rightarrow> bool" where
  "pulse_ok p \<longleftrightarrow> pulse_len.ok p \<and> pu_period p \<le> 0x7FF \<and> pu_duty p \<le> 3 \<and>
     pu_constantVolume p \<le> 15 \<and> pu_envelopVolume p \<le> 15 \<and> pu_envelopPeriod p \<le> 15 \<and>
     pu_sweepShift p \<le> 7 \<and> pu_sweepPeriod p \<le> 7"

lemma periodLow_le: "periodLow d p \<le> 0x7FF"
proof -
  have "unat (periodLow d p) < 2 ^ 11"
    unfolding periodLow_def using unat_and_le2[of p "0x0700"] unat_u8_less[of d]
    by (intro unat_or_less) (auto intro: le_less_trans simp del: unat_u8_less)
  then show ?thesis by (simp add: word_le_nat_alt)
qed

lemma periodHigh_le: "periodHigh d p \<le> 0x7FF"
proof -
  have "unat (d AND 0x07) \<le> 7" using unat_and_le2[of d "0x07"] by simp
  then have "unat (push_bit 8 (ucast (d AND 0x07)) :: u16) < 2 ^ 11"
    by (simp add: push_bit_eq_mult unat_word_ariths)
  then have "unat (periodHigh d p) < 2 ^ 11"
    unfolding periodHigh_def using unat_and_le2[of p "0x00FF"]
    by (intro unat_or_less) (auto intro: le_less_trans)
  then show ?thesis by (simp add: word_le_nat_alt)
qed

lemma duty_le: "drop_bit 6 (d :: u8) \<le> 3"
  using unat_u8_less[of d] by (simp add: word_le_nat_alt drop_bit_eq_div unat_div del: unat_u8_less)

lemma octal_le [word_bounds]: "(d AND 0x07 :: u8) \<le> 7"
  by (rule order_trans[OF word_and_le1]) simp

lemma pulse_write_ok: "pulse_ok p \<Longrightarrow> pulse_ok (pulse_write a d p)"
  using pulse_len.ok_store[of p a d]
  by (auto simp: pulse_ok_def pulse_write_def Let_def periodLow_le periodHigh_le duty_le word_bounds)

lemma pulse_len_frame [simp]:
  "pulse_len.ok (p\<lparr>pu_envelopCounter := c, pu_envelopVolume := v\<rparr>) = pulse_len.ok p"
  "pulse_len.ok (p\<lparr>pu_lengthUpdated := b\<rparr>) = pulse_len.ok p"
  "pulse_len.ok (p\<lparr>pu_period := q\<rparr>) = pulse_len.ok p"
  "pulse_len.ok (p\<lparr>pu_sweepCounter := q\<rparr>) = pulse_len.ok p"
  "pulse_len.ok (p\<lparr>pu_sweepWritten := b\<rparr>) = pulse_len.ok p"
  by (simp_all add: pulse_len.ok_def)

lemma pulse_updateEnvelop_ok: "pulse_ok p \<Longrightarrow> pulse_ok (pulse_updateEnvelop p)"
  using envelopStep_le by (simp add: pulse_ok_def pulse_updateEnvelop_def case_prod_unfold Let_def)

lemma pulse_updateLengthCounter_ok: "pulse_ok p \<Longrightarrow> pulse_ok (pulse_updateLengthCounter p)"
  using pulse_len.ok_clock[of p]
  by (auto simp: pulse_ok_def pulse_updateLengthCounter_def Let_def)

lemma pulse_setEnabled_ok: "pulse_ok p \<Longrightarrow> pulse_ok (pulse_setEnabled b p)"
  using pulse_len.ok_enable[of p b]
  by (auto simp: pulse_ok_def pulse_setEnabled_def Let_def)

text \<open>The sweep never leaves the 11 bits: going down it cannot pass zero, since it only runs
  for periods above 8 and shifts of at least 1.\<close>

lemma sweep_delta_le:
  assumes "k > 0"
  shows "unat (drop_bit k (p :: u16)) \<le> unat p div 2"
proof -
  have "unat p div 2 ^ k \<le> unat p div 2 ^ 1" using assms by (intro div_le_mono2 power_increasing) auto
  then show ?thesis by (simp add: unat_drop_bit)
qed

lemma sweep_range:
  assumes "p > 8" "k > 0" "p \<le> 0x7FF"
  shows "p - drop_bit k p \<le> 0x7FF" "p - drop_bit k p - 1 \<le> 0x7FF"
    "unat p + unat (drop_bit k p) < 0x800 \<Longrightarrow> p + drop_bit k p \<le> (0x7FF :: u16)"
proof -
  have d: "unat (drop_bit k p) \<le> unat p div 2" and p: "8 < unat p" "unat p \<le> 2047"
    using sweep_delta_le assms by (auto simp: word_less_nat_alt word_le_nat_alt)
  then have s: "unat (p - drop_bit k p) = unat p - unat (drop_bit k p)"
    by (simp add: unat_sub word_le_nat_alt)
  then show "p - drop_bit k p \<le> 0x7FF" using p by (simp add: word_le_nat_alt)
  have "unat (p - drop_bit k p - 1) = unat p - unat (drop_bit k p) - 1"
    using s d p by (subst unat_minus_one) auto
  then show "p - drop_bit k p - 1 \<le> 0x7FF" using p by (simp add: word_le_nat_alt)
  show "unat p + unat (drop_bit k p) < 0x800 \<Longrightarrow> p + drop_bit k p \<le> (0x7FF :: u16)"
    by (simp add: word_le_nat_alt unat_word_ariths)
qed

lemma pulse_updateSweep_ok: "pulse_ok p \<Longrightarrow> pulse_ok (pulse_updateSweep ch p)"
  by (auto simp: pulse_ok_def pulse_updateSweep_def Let_def sweep_range word_less_nat_alt)

lemma pulse_cycle_ok: "pulse_ok p \<Longrightarrow> pulse_ok (pulse_cycle p)"
  by (simp add: pulse_ok_def pulse_cycle_def)

lemma pulse_init_ok: "pulse_ok pulse_init"
  by (simp add: pulse_ok_def pulse_init_def pulse_len.ok_def)

lemma pulse_getVolume_le: "pulse_ok p \<Longrightarrow> pulse_getVolume p \<le> 15"
  by (simp add: pulse_ok_def pulse_getVolume_def)

text \<open>The range of a triangle channel.\<close>

definition triangle_ok :: "triangle \<Rightarrow> bool" where
  "triangle_ok t \<longleftrightarrow> triangle_len.ok t \<and> tr_period t \<le> 0x7FF \<and> tr_linearLoad t \<le> 0x7F \<and>
     tr_linearCounter t \<le> 0x7F"

lemma triangle_len_frame [simp]:
  "triangle_len.ok (t\<lparr>tr_linearCounter := c\<rparr>) = triangle_len.ok t"
  "triangle_len.ok (t\<lparr>tr_linearReloadFlag := b\<rparr>) = triangle_len.ok t"
  by (simp_all add: triangle_len.ok_def)

lemma septet_le [word_bounds]: "(d AND 0x7F :: u8) \<le> 0x7F"
  by (rule word_and_le1)

lemma triangle_write_ok: "triangle_ok t \<Longrightarrow> triangle_ok (triangle_write a d t)"
  using triangle_len.ok_store[of t a d]
  by (auto simp: triangle_ok_def triangle_write_def Let_def periodLow_le periodHigh_le word_bounds)

lemma triangle_updateLengthCounter_ok: "triangle_ok t \<Longrightarrow> triangle_ok (triangle_updateLengthCounter t)"
  using triangle_len.ok_clock[of t]
  by (auto simp: triangle_ok_def triangle_updateLengthCounter_def Let_def)

lemma triangle_setEnabled_ok: "triangle_ok t \<Longrightarrow> triangle_ok (triangle_setEnabled b t)"
  using triangle_len.ok_enable[of t b]
  by (auto simp: triangle_ok_def triangle_setEnabled_def Let_def)

lemma triangle_updateLinearCounter_ok:
  assumes "triangle_ok t"
  shows "triangle_ok (triangle_updateLinearCounter t)"
proof -
  have "tr_linearCounter t > 0 \<Longrightarrow> tr_linearCounter t - 1 \<le> 0x7F"
    using assms by (auto simp: triangle_ok_def word_le_nat_alt word_greater_zero_iff unat_minus_one)
  moreover have "(ucast (tr_linearLoad t) :: u16) \<le> 0x7F"
    using assms by (simp add: triangle_ok_def word_le_nat_alt)
  ultimately show ?thesis
    using assms by (simp add: triangle_ok_def triangle_updateLinearCounter_def Let_def)
qed

lemma triangle_init_ok: "triangle_ok triangle_init"
  by (simp add: triangle_ok_def triangle_init_def triangle_len.ok_def)

lemma triangle_getVolume_le: "triangle_getVolume t \<le> 15"
  by (simp add: triangle_getVolume_def)

text \<open>The range of a noise channel; its period is a divisor, hence never zero.\<close>

definition noise_ok :: "noise \<Rightarrow> bool" where
  "noise_ok n \<longleftrightarrow> noise_len.ok n \<and> 0 < no_period n \<and> no_period n \<le> 4068 \<and>
     no_envelopVolume n \<le> 15 \<and> no_constantVolumeAndEnvelopPeriod n \<le> 15"

lemma noise_period_tables:
  "\<forall>v \<in> set NTSC_NOISE_PERIOD_TABLE. 0 < v \<and> v \<le> 4068"
  "\<forall>v \<in> set PAL_NOISE_PERIOD_TABLE. 0 < v \<and> v \<le> 4068"
  by (simp_all add: NTSC_NOISE_PERIOD_TABLE_def PAL_NOISE_PERIOD_TABLE_def)

lemma noise_period_lookup:
  "NTSC_NOISE_PERIOD_TABLE ! unat (d AND 0x0F :: u8) \<in> set NTSC_NOISE_PERIOD_TABLE"
  "PAL_NOISE_PERIOD_TABLE ! unat (d AND 0x0F :: u8) \<in> set PAL_NOISE_PERIOD_TABLE"
proof -
  have "unat (d AND 0x0F) < 16" using nibble_le[of d] by (simp add: word_le_nat_alt)
  moreover have "length NTSC_NOISE_PERIOD_TABLE = 16" "length PAL_NOISE_PERIOD_TABLE = 16"
    by (simp_all add: NTSC_NOISE_PERIOD_TABLE_def PAL_NOISE_PERIOD_TABLE_def)
  ultimately show "NTSC_NOISE_PERIOD_TABLE ! unat (d AND 0x0F) \<in> set NTSC_NOISE_PERIOD_TABLE"
    "PAL_NOISE_PERIOD_TABLE ! unat (d AND 0x0F) \<in> set PAL_NOISE_PERIOD_TABLE"
    by (simp_all only: nth_mem)
qed

lemma noise_len_frame [simp]:
  "noise_len.ok (n\<lparr>no_envelopCounter := c, no_envelopVolume := v\<rparr>) = noise_len.ok n"
  "noise_len.ok (n\<lparr>no_lengthUpdated := b\<rparr>) = noise_len.ok n"
  by (simp_all add: noise_len.ok_def)

lemma noise_write_ok: "noise_ok n \<Longrightarrow> noise_ok (noise_write r a d n)"
  using noise_len.ok_store[of n r a d] noise_period_tables noise_period_lookup[of d]
  by (auto simp: noise_ok_def noise_write_def Let_def word_bounds)

lemma noise_updateLengthCounter_ok: "noise_ok n \<Longrightarrow> noise_ok (noise_updateLengthCounter n)"
  using noise_len.ok_clock[of n]
  by (auto simp: noise_ok_def noise_updateLengthCounter_def Let_def)

lemma noise_setEnabled_ok: "noise_ok n \<Longrightarrow> noise_ok (noise_setEnabled b n)"
  using noise_len.ok_enable[of n b]
  by (auto simp: noise_ok_def noise_setEnabled_def Let_def)

lemma noise_updateEnvelop_ok: "noise_ok n \<Longrightarrow> noise_ok (noise_updateEnvelop n)"
  using envelopStep_le by (simp add: noise_ok_def noise_updateEnvelop_def case_prod_unfold Let_def)

lemma noise_cycle_ok: "noise_ok n \<Longrightarrow> noise_ok (noise_cycle n)"
  by (simp add: noise_ok_def noise_cycle_def)

lemma noise_init_ok: "noise_ok noise_init"
  by (simp add: noise_ok_def noise_init_def noise_len.ok_def)

lemma noise_getVolume_le: "noise_ok n \<Longrightarrow> noise_getVolume n \<le> 15"
  by (simp add: noise_ok_def noise_getVolume_def)

lemmas channel_ok = pulse_write_ok pulse_updateEnvelop_ok pulse_updateLengthCounter_ok
  pulse_setEnabled_ok pulse_updateSweep_ok pulse_cycle_ok pulse_init_ok triangle_write_ok
  triangle_updateLengthCounter_ok triangle_setEnabled_ok triangle_updateLinearCounter_ok
  triangle_init_ok noise_write_ok noise_updateLengthCounter_ok noise_setEnabled_ok
  noise_updateEnvelop_ok noise_cycle_ok noise_init_ok

end
