(* ===== verification/Dmc.thy ===== *)
theory Dmc
  imports Complex_Main Cpu_State
begin

text \<open>
  The delta modulation channel: \<open>SampleChannel\<close> (\<open>src/src/GeraNES/APU/SampleChannel.h\<close>).
  Its three signals are bound by \<open>GeraNESEmu\<close> to the DMA unit of the CPU, so an operation
  that raises them returns the list of DMA requests. The calls on the audio device
  (\<open>IAudioOutput\<close>) are returned as a list of \<open>audio_call\<close>; their \<open>float\<close> arguments
  are the exact rationals of the formulas in the source.
\<close>

datatype Channel = Pulse_1 | Pulse_2 | Triangle | Noise | Sample | Expansion

datatype audio_call =
    setChannelVolume Channel rat
  | setChannelFrequency Channel rat
  | setPulseDutyCycle Channel rat
  | setNoiseMetallic bool
  | addSample rat
  | addSampleDirect rat rat
  | setExpansionSourceRateHz int
  | setExpansionAudioVolume rat
  | clearAudioBuffers

definition NTSC_DMC_PERIOD_TABLE :: "u16 list" where
  "NTSC_DMC_PERIOD_TABLE =
     [428, 380, 340, 320, 286, 254, 226, 214, 190, 160, 142, 128, 106, 84, 72, 54]"

definition PAL_DMC_PERIOD_TABLE :: "u16 list" where
  "PAL_DMC_PERIOD_TABLE =
     [398, 354, 316, 298, 276, 236, 210, 198, 176, 148, 132, 118, 98, 78, 66, 50]"

record dmc =
  dm_playMode :: u8
  dm_currentAddr :: u16
  dm_deltaCounter :: u8
  dm_sampleAddr :: u16
  dm_sampleLength :: u16
  dm_bytesRemaining :: u16
  dm_periodIndex :: nat
  dm_periodCounter :: int
  dm_bitsRemaining :: int
  dm_shiftRegister :: u8
  dm_readBuffer :: u8
  dm_readBufferFilled :: bool
  dm_silenceFlag :: bool
  dm_interruptFlag :: bool
  dm_cpuCycleCounter :: u32
  dm_directControlFlag :: bool
  dm_enabled :: bool
  dm_enableReloadDelay :: int
  dm_disableDelay :: int

definition loopEnabled :: "dmc \<Rightarrow> bool" where
  "loopEnabled s \<longleftrightarrow> dm_playMode s AND 0x40 \<noteq> 0"

definition irqEnabled :: "dmc \<Rightarrow> bool" where
  "irqEnabled s \<longleftrightarrow> dm_playMode s AND 0x80 \<noteq> 0"

definition dmc_getPeriod :: "Region \<Rightarrow> dmc \<Rightarrow> u16" where
  "dmc_getPeriod region s =
     (if region = PAL then PAL_DMC_PERIOD_TABLE ! dm_periodIndex s
      else NTSC_DMC_PERIOD_TABLE ! dm_periodIndex s)"

definition normalizedOutput :: "u8 \<Rightarrow> rat" where
  "normalizedOutput data = (of_nat (unat data) - 127 / 2) / 127"

definition requestSample :: "bool \<Rightarrow> dmc \<Rightarrow> dma_request list" where
  "requestSample reload s =
     (if dm_bytesRemaining s = 0 then [] else [StartDmcDma (dm_currentAddr s OR 0x8000) reload])"

definition restartSample :: "bool \<Rightarrow> dmc \<Rightarrow> dma_request list \<times> dmc" where
  "restartSample reload s =
     (let s = s\<lparr>dm_currentAddr := dm_sampleAddr s, dm_bytesRemaining := dm_sampleLength s\<rparr>
      in (if dm_enabled s \<and> \<not> dm_readBufferFilled s \<and> dm_enableReloadDelay s = 0 \<and>
             dm_bytesRemaining s > 0
          then requestSample reload s else [], s))"

text \<open>The delta counter of one output clock.\<close>

definition deltaStep :: "dmc \<Rightarrow> dmc" where
  "deltaStep s =
     (if \<not> dm_silenceFlag s then
        if dm_shiftRegister s AND 0x01 \<noteq> 0 then
          if dm_deltaCounter s \<le> 125 then s\<lparr>dm_deltaCounter := dm_deltaCounter s + 2\<rparr> else s
        else if dm_deltaCounter s \<ge> 2 then s\<lparr>dm_deltaCounter := dm_deltaCounter s - 2\<rparr> else s
      else s)"

definition clockOutputUnit :: "dmc \<Rightarrow> dma_request list \<times> dmc" where
  "clockOutputUnit s =
     (let s = deltaStep s;
          s = s\<lparr>dm_shiftRegister := drop_bit 1 (dm_shiftRegister s)\<rparr>;
          s = s\<lparr>dm_bitsRemaining := dm_bitsRemaining s - 1\<rparr>
      in if dm_bitsRemaining s \<noteq> 0 then ([], s)
         else
           let s = s\<lparr>dm_bitsRemaining := 8\<rparr> in
           if dm_readBufferFilled s then
             let s = s\<lparr>dm_shiftRegister := dm_readBuffer s, dm_readBufferFilled := False,
                       dm_silenceFlag := False\<rparr>
             in (if dm_enabled s \<and> dm_enableReloadDelay s = 0 \<and> dm_bytesRemaining s > 0
                 then requestSample True s else [], s)
           else ([], s\<lparr>dm_silenceFlag := True\<rparr>))"

definition dmc_init :: "Region \<Rightarrow> dmc" where
  "dmc_init region =
     \<lparr>dm_playMode = 0, dm_currentAddr = 0, dm_deltaCounter = 64, dm_sampleAddr = 0,
      dm_sampleLength = 0, dm_bytesRemaining = 0, dm_periodIndex = 0,
      dm_periodCounter = uint (if region = PAL then PAL_DMC_PERIOD_TABLE ! 0
                               else NTSC_DMC_PERIOD_TABLE ! 0),
      dm_bitsRemaining = 1, dm_shiftRegister = 0, dm_readBuffer = 0, dm_readBufferFilled = False,
      dm_silenceFlag = True, dm_interruptFlag = False, dm_cpuCycleCounter = 0,
      dm_directControlFlag = False, dm_enabled = False, dm_enableReloadDelay = 0,
      dm_disableDelay = 0\<rparr>"

definition dmc_reset :: "Region \<Rightarrow> dmc \<Rightarrow> dmc" where
  "dmc_reset region s =
     s\<lparr>dm_currentAddr := dm_sampleAddr s, dm_bytesRemaining := 0,
       dm_periodCounter := uint (dmc_getPeriod region s), dm_bitsRemaining := 1,
       dm_shiftRegister := 0, dm_readBuffer := 0, dm_readBufferFilled := False,
       dm_silenceFlag := True, dm_interruptFlag := False, dm_cpuCycleCounter := 0,
       dm_directControlFlag := False, dm_enabled := False, dm_enableReloadDelay := 0,
       dm_disableDelay := 0\<rparr>"

definition dmc_write :: "Region \<Rightarrow> nat \<Rightarrow> u8 \<Rightarrow> dmc \<Rightarrow> audio_call list \<times> dmc" where
  "dmc_write region addr data s =
     (if addr = 0 then
        let s = s\<lparr>dm_playMode := data AND 0xC0, dm_periodIndex := unat (data AND 0x0F)\<rparr>;
            calls = [setChannelFrequency Sample
                       (2 * (of_int (CPUClockHz region) / 16) /
                        (of_nat (unat (dmc_getPeriod region s)) + 1)),
                     setChannelVolume Sample 1]
        in (calls, if data AND 0x80 = 0 then s\<lparr>dm_interruptFlag := False\<rparr> else s)
      else if addr = 1 then
        let s = s\<lparr>dm_deltaCounter := data AND 0x7F\<rparr>;
            calls = (if dm_directControlFlag s
                     then [addSampleDirect
                            (of_nat (unat (dm_cpuCycleCounter s + 1)) /
                             (8 * 2 * (of_int (CPUClockHz region) / 16)))
                            (normalizedOutput (dm_deltaCounter s))] else [])
        in (calls, s\<lparr>dm_cpuCycleCounter := 0, dm_directControlFlag := True\<rparr>)
      else if addr = 2 then ([], s\<lparr>dm_sampleAddr := push_bit 6 (ucast data) OR 0xC000\<rparr>)
      else if addr = 3 then ([], s\<lparr>dm_sampleLength := push_bit 4 (ucast data) + 1\<rparr>)
      else ([], s))"

definition dmc_setEnabled :: "bool \<Rightarrow> bool \<Rightarrow> dmc \<Rightarrow> dmc" where
  "dmc_setEnabled status cpuOddCycle s =
     (let s = (if status then
            let disableWasPending = (dm_disableDelay s > 0);
                wasEnabled = dm_enabled s;
                s = s\<lparr>dm_enabled := True, dm_disableDelay := 0\<rparr>;
                hadNoBytesRemaining = (dm_bytesRemaining s = 0);
                s = (if hadNoBytesRemaining
                     then s\<lparr>dm_currentAddr := dm_sampleAddr s, dm_bytesRemaining := dm_sampleLength s\<rparr>
                     else s)
            in if \<not> wasEnabled \<or> hadNoBytesRemaining \<or> disableWasPending
               then s\<lparr>dm_enableReloadDelay := (if cpuOddCycle then 3 else 2)\<rparr> else s
          else
            let s = s\<lparr>dm_enableReloadDelay := 0\<rparr>
            in if dm_disableDelay s = 0
               then s\<lparr>dm_disableDelay := (if cpuOddCycle then 3 else 2)\<rparr> else s)
      in s\<lparr>dm_interruptFlag := False\<rparr>)"

definition processDisableDelay :: "dmc \<Rightarrow> dma_request list \<times> dmc" where
  "processDisableDelay s =
     (if dm_disableDelay s > 0 then
        let s = s\<lparr>dm_disableDelay := dm_disableDelay s - 1\<rparr> in
        if dm_disableDelay s = 0
        then ([CancelDmcDma], s\<lparr>dm_enabled := False, dm_bytesRemaining := 0\<rparr>) else ([], s)
      else ([], s))"

definition processReloadDelay :: "dmc \<Rightarrow> dma_request list \<times> dmc" where
  "processReloadDelay s =
     (if dm_enableReloadDelay s > 0 then
        let s = s\<lparr>dm_enableReloadDelay := dm_enableReloadDelay s - 1\<rparr>
        in (if dm_enableReloadDelay s = 0 \<and> dm_enabled s \<and> \<not> dm_readBufferFilled s \<and>
               dm_bytesRemaining s > 0
            then requestSample False s else [], s)
      else ([], s))"

definition processControlDelays :: "dmc \<Rightarrow> dma_request list \<times> dmc" where
  "processControlDelays s =
     (let (rs, s) = processDisableDelay s; (rs', s) = processReloadDelay s in (rs @ rs', s))"

definition dmc_cycle :: "Region \<Rightarrow> dmc \<Rightarrow> dma_request list \<times> dmc" where
  "dmc_cycle region s =
     (let s = (if dm_cpuCycleCounter s < ucast (NTSC_DMC_PERIOD_TABLE ! 0)
               then s\<lparr>dm_cpuCycleCounter := dm_cpuCycleCounter s + 1\<rparr>
               else s\<lparr>dm_directControlFlag := False\<rparr>);
          s = s\<lparr>dm_periodCounter := dm_periodCounter s - 1\<rparr>
      in if dm_periodCounter s = 0
         then clockOutputUnit (s\<lparr>dm_periodCounter := uint (dmc_getPeriod region s)\<rparr>)
         else ([], s))"

text \<open>The loop of \<open>shiftRegisterDataToSample\<close>, on \<open>c\<close> remaining bits.\<close>

primrec sampleBits :: "nat \<Rightarrow> u8 \<Rightarrow> int \<Rightarrow> int" where
  "sampleBits 0 shift sample = sample"
| "sampleBits (Suc c) shift sample =
     sampleBits c (drop_bit 1 shift)
       (if shift AND 1 \<noteq> 0 then let sample = sample + 2 * 8 in if sample > 127 then 127 else sample
        else let sample = sample - 2 * 8 in if sample < 0 then 0 else sample)"

definition shiftRegisterDataToSample :: "u8 \<Rightarrow> u8" where
  "shiftRegisterDataToSample data = word_of_int (sampleBits 8 data 0)"

definition dmc_reloadShiftRegister :: "u8 \<Rightarrow> dmc \<Rightarrow> dma_request list \<times> audio_call list \<times> dmc" where
  "dmc_reloadShiftRegister data s =
     (let sample = shiftRegisterDataToSample data;
          calls = [addSample (normalizedOutput sample)];
          bytesRemainingBeforeLoad = dm_bytesRemaining s;
          s = s\<lparr>dm_readBuffer := data, dm_readBufferFilled := True,
                dm_currentAddr := (dm_currentAddr s + 1) AND 0x7FFF\<rparr>;
          s = (if dm_bytesRemaining s > 0
               then s\<lparr>dm_bytesRemaining := dm_bytesRemaining s - 1\<rparr> else s);
          sampleEnded = (dm_bytesRemaining s = 0);
          lateOneByteNonLoopingLoad = (sampleEnded \<and> bytesRemainingBeforeLoad = 1 \<and>
            dm_sampleLength s = 1 \<and> \<not> loopEnabled s \<and> dm_bitsRemaining s = 1 \<and>
            dm_periodCounter s = 2);
          (rs, s) = (if sampleEnded then
                       if loopEnabled s then restartSample True s
                       else if irqEnabled s then ([], s\<lparr>dm_interruptFlag := True\<rparr>) else ([], s)
                     else ([], s))
      in (rs @ (if lateOneByteNonLoopingLoad then [ImplicitDmcAbort] else []), calls, s))"

subsection \<open>Ranges\<close>

definition dmc_ok :: "dmc \<Rightarrow> bool" where
  "dmc_ok s \<longleftrightarrow> dm_deltaCounter s \<le> 127 \<and> dm_periodIndex s < 16 \<and>
     0 < dm_periodCounter s \<and> dm_periodCounter s \<le> 428 \<and>
     0 < dm_bitsRemaining s \<and> dm_bitsRemaining s \<le> 8 \<and>
     dm_sampleLength s \<le> 4081 \<and> dm_bytesRemaining s \<le> 4081 \<and>
     0 \<le> dm_enableReloadDelay s \<and> dm_enableReloadDelay s \<le> 3 \<and>
     0 \<le> dm_disableDelay s \<and> dm_disableDelay s \<le> 3"

lemma dmc_periods: "\<forall>v \<in> set NTSC_DMC_PERIOD_TABLE. 50 \<le> v \<and> v \<le> 428"
  "\<forall>v \<in> set PAL_DMC_PERIOD_TABLE. 50 \<le> v \<and> v \<le> 428"
  by (simp_all add: NTSC_DMC_PERIOD_TABLE_def PAL_DMC_PERIOD_TABLE_def)

lemma dmc_getPeriod_range:
  assumes "dm_periodIndex s < 16"
  shows "50 \<le> uint (dmc_getPeriod r s)" "uint (dmc_getPeriod r s) \<le> 428"
proof -
  have "length NTSC_DMC_PERIOD_TABLE = 16" "length PAL_DMC_PERIOD_TABLE = 16"
    by (simp_all add: NTSC_DMC_PERIOD_TABLE_def PAL_DMC_PERIOD_TABLE_def)
  then have "dmc_getPeriod r s \<in> set NTSC_DMC_PERIOD_TABLE \<union> set PAL_DMC_PERIOD_TABLE"
    using assms by (simp add: dmc_getPeriod_def)
  then have "50 \<le> dmc_getPeriod r s \<and> dmc_getPeriod r s \<le> 428"
    using dmc_periods by blast
  then show "50 \<le> uint (dmc_getPeriod r s)" "uint (dmc_getPeriod r s) \<le> 428"
    by (simp_all add: word_le_def)
qed

lemma deltaStep_frame [simp]:
  "dm_periodIndex (deltaStep s) = dm_periodIndex s" "dm_periodCounter (deltaStep s) = dm_periodCounter s"
  "dm_bitsRemaining (deltaStep s) = dm_bitsRemaining s" "dm_sampleLength (deltaStep s) = dm_sampleLength s"
  "dm_bytesRemaining (deltaStep s) = dm_bytesRemaining s" "dm_enabled (deltaStep s) = dm_enabled s"
  "dm_enableReloadDelay (deltaStep s) = dm_enableReloadDelay s"
  "dm_disableDelay (deltaStep s) = dm_disableDelay s"
  "dm_readBufferFilled (deltaStep s) = dm_readBufferFilled s"
  "dm_currentAddr (deltaStep s) = dm_currentAddr s"
  by (simp_all add: deltaStep_def)

lemma deltaStep_range: "dm_deltaCounter s \<le> 127 \<Longrightarrow> dm_deltaCounter (deltaStep s) \<le> 127"
  by (auto simp: deltaStep_def word_le_nat_alt unat_word_ariths unat_sub)

lemma clockOutputUnit_ok: "dmc_ok s \<Longrightarrow> dmc_ok (snd (clockOutputUnit s))"
  by (auto simp: dmc_ok_def clockOutputUnit_def Let_def deltaStep_range)

lemma dmc_cycle_ok: "dmc_ok s \<Longrightarrow> dmc_ok (snd (dmc_cycle r s))"
  using dmc_getPeriod_range[of s r]
  by (auto simp: dmc_cycle_def Let_def intro!: clockOutputUnit_ok)
    (auto simp: dmc_ok_def dmc_getPeriod_def)

lemma processControlDelays_ok: "dmc_ok s \<Longrightarrow> dmc_ok (snd (processControlDelays s))"
  by (auto simp: processControlDelays_def processDisableDelay_def processReloadDelay_def dmc_ok_def
      Let_def)

lemma dmc_setEnabled_ok: "dmc_ok s \<Longrightarrow> dmc_ok (dmc_setEnabled b c s)"
  by (auto simp: dmc_setEnabled_def dmc_ok_def Let_def)

lemma restartSample_ok: "dmc_ok s \<Longrightarrow> dmc_ok (snd (restartSample b s))"
  by (auto simp: restartSample_def dmc_ok_def Let_def)

lemma dmc_reload_ok: "dmc_ok s \<Longrightarrow> dmc_ok (snd (snd (dmc_reloadShiftRegister d s)))"
  by (auto simp: dmc_reloadShiftRegister_def Let_def case_prod_unfold dmc_ok_def restartSample_def
      word_le_nat_alt unat_minus_one word_greater_zero_iff)

lemma dmc_write_ok: "dmc_ok s \<Longrightarrow> dmc_ok (snd (dmc_write r a d s))"
proof -
  assume s: "dmc_ok s"
  have "d AND 0x7F \<le> 127" by (rule word_and_le1)
  moreover have "unat (d AND 0x0F) < 16" using unat_and_le2[of d "0x0F"] by simp
  moreover have "unat (push_bit 4 (ucast d) + 1 :: u16) = 16 * unat d + 1"
    using unat_u8_less[of d] by (simp add: push_bit_eq_mult unat_word_ariths del: unat_u8_less)
  then have "push_bit 4 (ucast d) + 1 \<le> (4081 :: u16)"
    using unat_u8_less[of d] by (simp add: word_le_nat_alt del: unat_u8_less)
  ultimately show ?thesis using s by (auto simp: dmc_ok_def dmc_write_def Let_def)
qed

lemma dmc_init_ok: "dmc_ok (dmc_init r)"
  by (simp add: dmc_ok_def dmc_init_def NTSC_DMC_PERIOD_TABLE_def PAL_DMC_PERIOD_TABLE_def)

lemma dmc_reset_ok: "dmc_ok s \<Longrightarrow> dmc_ok (dmc_reset r s)"
  using dmc_getPeriod_range[of s r] by (simp add: dmc_ok_def dmc_reset_def)

subsection \<open>Requests\<close>

text \<open>A sample byte is only ever requested when the channel is enabled, its buffer is empty
  and bytes remain; the load of a byte never requests another one.\<close>

definition wantsByte :: "dmc \<Rightarrow> bool" where
  "wantsByte s \<longleftrightarrow> dm_enabled s \<and> \<not> dm_readBufferFilled s \<and> dm_bytesRemaining s > 0 \<and>
     dm_enableReloadDelay s = 0"

lemma clockOutputUnit_requests:
  assumes "clockOutputUnit s = (rs, t)" "rs \<noteq> []"
  shows "rs = [StartDmcDma (dm_currentAddr t OR 0x8000) True]" "wantsByte t"
  using assms
  by (auto simp: clockOutputUnit_def Let_def requestSample_def wantsByte_def split: if_splits)

lemma dmc_cycle_requests:
  assumes "dmc_cycle r s = (rs, t)" "rs \<noteq> []"
  shows "rs = [StartDmcDma (dm_currentAddr t OR 0x8000) True]" "wantsByte t"
  using assms clockOutputUnit_requests by (auto simp: dmc_cycle_def Let_def split: if_splits)

lemma processControlDelays_start:
  assumes "processControlDelays s = (rs, t)" "StartDmcDma a b \<in> set rs"
  shows "a = dm_currentAddr t OR 0x8000" "\<not> b" "wantsByte t"
  using assms
  by (auto simp: processControlDelays_def processDisableDelay_def processReloadDelay_def Let_def
      requestSample_def wantsByte_def split: if_splits)

lemma dmc_reload_no_start: "StartDmcDma a b \<notin> set (fst (dmc_reloadShiftRegister d s))"
  by (auto simp: dmc_reloadShiftRegister_def restartSample_def Let_def case_prod_unfold)

text \<open>An idle channel: no delay running and no byte left. It raises no signal.\<close>

definition dmc_idle :: "dmc \<Rightarrow> bool" where
  "dmc_idle s \<longleftrightarrow> dm_bytesRemaining s = 0 \<and> dm_enableReloadDelay s = 0 \<and> dm_disableDelay s = 0"

lemma dmc_cycle_idle: "dmc_idle s \<Longrightarrow> fst (dmc_cycle r s) = [] \<and> dmc_idle (snd (dmc_cycle r s))"
  by (auto simp: dmc_idle_def dmc_cycle_def clockOutputUnit_def Let_def)

lemma processControlDelays_idle: "dmc_idle s \<Longrightarrow> processControlDelays s = ([], s)"
  by (simp add: dmc_idle_def processControlDelays_def processDisableDelay_def processReloadDelay_def)

lemma dmc_write_idle: "dmc_idle s \<Longrightarrow> dmc_idle (snd (dmc_write r a d s))"
  by (auto simp: dmc_idle_def dmc_write_def Let_def)

subsection \<open>Playing a sample\<close>

text \<open>A sample is a sequence of loads of the read buffer.\<close>

definition loadByte :: "u8 \<Rightarrow> dmc \<Rightarrow> dmc" where
  "loadByte d s = snd (snd (dmc_reloadShiftRegister d s))"

lemma loadByte_nonloop:
  assumes "\<not> loopEnabled s"
  shows "unat (dm_bytesRemaining (loadByte d s)) = unat (dm_bytesRemaining s) - 1"
    "dm_currentAddr (loadByte d s) = (dm_currentAddr s + 1) AND 0x7FFF"
    "dm_interruptFlag (loadByte d s) =
      (dm_interruptFlag s \<or> irqEnabled s \<and> unat (dm_bytesRemaining s) \<le> 1)"
    "loopEnabled (loadByte d s) = loopEnabled s" "irqEnabled (loadByte d s) = irqEnabled s"
  using assms unat_eq_0[of "dm_bytesRemaining s"]
  by (auto simp: loadByte_def dmc_reloadShiftRegister_def Let_def case_prod_unfold loopEnabled_def
      irqEnabled_def word_greater_zero_iff unat_minus_one word_unat_eq_iff)

lemma mask15_step: "unat ((a + 1) AND 0x7FFF :: u16) = (unat a + 1) mod 0x8000"
proof -
  have "(a + 1) AND 0x7FFF = take_bit 15 (a + 1)" by (simp add: take_bit_eq_mask mask_eq_exp_minus_1)
  then have "unat ((a + 1) AND 0x7FFF) = (unat a + 1) mod 0x10000 mod 0x8000"
    by (simp add: unsigned_take_bit_eq take_bit_eq_mod unat_word_ariths)
  also have "\<dots> = (unat a + 1) mod 0x8000" by (rule mod_mod_cancel) simp
  finally show ?thesis .
qed

lemma play_sample:
  assumes "\<not> loopEnabled s" "length ds \<le> unat (dm_bytesRemaining s)"
  shows "unat (dm_bytesRemaining (fold loadByte ds s)) = unat (dm_bytesRemaining s) - length ds \<and>
    unat (dm_currentAddr (fold loadByte ds s)) mod 0x8000 =
      (unat (dm_currentAddr s) + length ds) mod 0x8000 \<and>
    (dm_interruptFlag (fold loadByte ds s) \<longleftrightarrow> dm_interruptFlag s \<or>
      irqEnabled s \<and> ds \<noteq> [] \<and> length ds = unat (dm_bytesRemaining s))"
  using assms
proof (induction ds arbitrary: s)
  case (Cons d ds)
  note l = loadByte_nonloop[OF Cons.prems(1), of d]
  have 1: "\<not> loopEnabled (loadByte d s)" "length ds \<le> unat (dm_bytesRemaining (loadByte d s))"
    using Cons.prems l by simp_all
  note IH = Cons.IH[OF 1]
  have "(unat (dm_currentAddr (loadByte d s)) + length ds) mod 0x8000 =
      (unat (dm_currentAddr s) + 1 + length ds) mod 0x8000"
    unfolding l(2) mask15_step by (simp only: mod_add_left_eq)
  then have addr: "unat (dm_currentAddr (fold loadByte (d # ds) s)) mod 0x8000 =
      (unat (dm_currentAddr s) + length (d # ds)) mod 0x8000"
    using IH by simp
  have irq: "dm_interruptFlag (fold loadByte (d # ds) s) \<longleftrightarrow> dm_interruptFlag s \<or>
      irqEnabled s \<and> length (d # ds) = unat (dm_bytesRemaining s)"
    using IH l(1,3,5) Cons.prems(2) by (cases ds) auto
  show ?case using addr irq IH l(1) by simp
qed auto

end
