(* ===== verification/Apu.thy ===== *)
theory Apu
  imports Apu_Channels Dmc
begin

text \<open>
  The audio processing unit: class \<open>APU\<close> (\<open>src/src/GeraNES/APU/APU.h\<close>). The frame
  sequencer clocks the channels of \<open>Apu_Channels\<close> and \<open>Dmc\<close>; register writes to the
  channels are delayed to the next APU cycle; \<open>updateAudioOutput\<close> pushes the parameters
  that changed to the audio device. The calls on the device are collected, in order, in the field
  \<open>ap_audio\<close>. The region of \<open>m_settings\<close> is an argument.
\<close>

definition mode0Delays :: "Region \<Rightarrow> int list" where
  "mode0Delays region =
     (if region = PAL then [8313, 8314, 8312, 8313, 1, 1] else [7457, 7456, 7458, 7457, 1, 1])"

definition mode1Delays :: "Region \<Rightarrow> int list" where
  "mode1Delays region =
     (if region = PAL then [8313, 8314, 8312, 8314, 8312] else [7457, 7456, 7458, 7457, 7453])"

record apu =
  ap_mode :: bool
  ap_interruptInhibitFlag :: bool
  ap_frameStep :: nat
  ap_frameInterruptFlag :: bool
  ap_frameInterruptClearDelay :: u8
  ap_jitter :: bool
  ap_nextDelay :: int
  ap_pulse1 :: pulse
  ap_pulse2 :: pulse
  ap_triangle :: triangle
  ap_noise :: noise
  ap_sample :: dmc
  ap_writeChannelsFlag :: bool
  ap_writeChannelsAddr :: nat
  ap_writeChannelsData :: u8
  ap_last4017Value :: u8
  ap_audioOutputStateDirty :: bool
  ap_cachedExpansionSourceRateHz :: int
  ap_cachedPulse1Duty :: int
  ap_cachedPulse2Duty :: int
  ap_cachedPulse1Period :: int
  ap_cachedPulse2Period :: int
  ap_cachedTrianglePeriod :: int
  ap_cachedNoisePeriod :: int
  ap_cachedPulse1Volume :: int
  ap_cachedPulse2Volume :: int
  ap_cachedTriangleVolume :: int
  ap_cachedNoiseVolume :: int
  ap_cachedNoiseMode :: int
  ap_audio :: "audio_call list"

subsection \<open>Pushing the channel parameters to the audio device\<close>

definition invalidateAudioOutputState :: "apu \<Rightarrow> apu" where
  "invalidateAudioOutputState s = s\<lparr>ap_audioOutputStateDirty := True,
     ap_cachedExpansionSourceRateHz := 0, ap_cachedPulse1Duty := -1, ap_cachedPulse2Duty := -1,
     ap_cachedPulse1Period := -1, ap_cachedPulse2Period := -1, ap_cachedTrianglePeriod := -1,
     ap_cachedNoisePeriod := -1, ap_cachedPulse1Volume := -1, ap_cachedPulse2Volume := -1,
     ap_cachedTriangleVolume := -1, ap_cachedNoiseVolume := -1, ap_cachedNoiseMode := -1\<rparr>"

text \<open>One guarded push: the calls are made, and the cache set, when the state is dirty or the
  cached value differs from the current one.\<close>

definition sync ::
  "(apu \<Rightarrow> int) \<Rightarrow> (int \<Rightarrow> apu \<Rightarrow> apu) \<Rightarrow> (apu \<Rightarrow> int) \<Rightarrow> (apu \<Rightarrow> audio_call list) \<Rightarrow> apu \<Rightarrow> apu" where
  "sync cached store current calls s =
     (if ap_audioOutputStateDirty s \<or> cached s \<noteq> current s
      then store (current s) (s\<lparr>ap_audio := ap_audio s @ calls s\<rparr>) else s)"

definition dutyCall :: "Channel \<Rightarrow> u8 \<Rightarrow> audio_call list" where
  "dutyCall ch duty =
     (if duty = 0 then [setPulseDutyCycle ch (1/8)]
      else if duty = 1 then [setPulseDutyCycle ch (1/4)]
      else if duty = 2 then [setPulseDutyCycle ch (1/2)]
      else if duty = 3 then [setPulseDutyCycle ch (3/4)] else [])"

definition volumeCall :: "Channel \<Rightarrow> u8 \<Rightarrow> audio_call list" where
  "volumeCall ch v = [setChannelVolume ch (of_nat (unat v) / 15)]"

definition pulseFrequency :: "Region \<Rightarrow> u16 \<Rightarrow> rat" where
  "pulseFrequency region p = of_int (CPUClockHz region) / 16 / (of_nat (unat p) + 1)"

definition triangleFrequency :: "Region \<Rightarrow> u16 \<Rightarrow> rat" where
  "triangleFrequency region p = of_int (CPUClockHz region) / 16 / 2 / (of_nat (unat p) + 1)"

definition noiseFrequency :: "Region \<Rightarrow> u16 \<Rightarrow> rat" where
  "noiseFrequency region p = of_int (CPUClockHz region) / of_nat (unat p)"

definition syncRate :: "Region \<Rightarrow> apu \<Rightarrow> apu" where
  "syncRate region = sync ap_cachedExpansionSourceRateHz
     (\<lambda>v. ap_cachedExpansionSourceRateHz_update (\<lambda>_. v)) (\<lambda>_. CPUClockHz region)
     (\<lambda>_. [setExpansionSourceRateHz (CPUClockHz region), setExpansionAudioVolume 1])"

definition syncPulse1Duty :: "apu \<Rightarrow> apu" where
  "syncPulse1Duty = sync ap_cachedPulse1Duty (\<lambda>v. ap_cachedPulse1Duty_update (\<lambda>_. v))
     (\<lambda>s. uint (pu_duty (ap_pulse1 s))) (\<lambda>s. dutyCall Pulse_1 (pu_duty (ap_pulse1 s)))"

definition syncPulse2Duty :: "apu \<Rightarrow> apu" where
  "syncPulse2Duty = sync ap_cachedPulse2Duty (\<lambda>v. ap_cachedPulse2Duty_update (\<lambda>_. v))
     (\<lambda>s. uint (pu_duty (ap_pulse2 s))) (\<lambda>s. dutyCall Pulse_2 (pu_duty (ap_pulse2 s)))"

definition syncPulse1Period :: "Region \<Rightarrow> apu \<Rightarrow> apu" where
  "syncPulse1Period region = sync ap_cachedPulse1Period (\<lambda>v. ap_cachedPulse1Period_update (\<lambda>_. v))
     (\<lambda>s. uint (pu_period (ap_pulse1 s)))
     (\<lambda>s. [setChannelFrequency Pulse_1 (pulseFrequency region (pu_period (ap_pulse1 s)))])"

definition syncPulse1Volume :: "apu \<Rightarrow> apu" where
  "syncPulse1Volume = sync ap_cachedPulse1Volume (\<lambda>v. ap_cachedPulse1Volume_update (\<lambda>_. v))
     (\<lambda>s. uint (pulse_getVolume (ap_pulse1 s)))
     (\<lambda>s. volumeCall Pulse_1 (pulse_getVolume (ap_pulse1 s)))"

definition syncPulse2Period :: "Region \<Rightarrow> apu \<Rightarrow> apu" where
  "syncPulse2Period region = sync ap_cachedPulse2Period (\<lambda>v. ap_cachedPulse2Period_update (\<lambda>_. v))
     (\<lambda>s. uint (pu_period (ap_pulse2 s)))
     (\<lambda>s. [setChannelFrequency Pulse_2 (pulseFrequency region (pu_period (ap_pulse2 s)))])"

definition syncPulse2Volume :: "apu \<Rightarrow> apu" where
  "syncPulse2Volume = sync ap_cachedPulse2Volume (\<lambda>v. ap_cachedPulse2Volume_update (\<lambda>_. v))
     (\<lambda>s. uint (pulse_getVolume (ap_pulse2 s)))
     (\<lambda>s. volumeCall Pulse_2 (pulse_getVolume (ap_pulse2 s)))"

definition syncTrianglePeriod :: "Region \<Rightarrow> apu \<Rightarrow> apu" where
  "syncTrianglePeriod region =
     sync ap_cachedTrianglePeriod (\<lambda>v. ap_cachedTrianglePeriod_update (\<lambda>_. v))
       (\<lambda>s. uint (tr_period (ap_triangle s)))
       (\<lambda>s. [setChannelFrequency Triangle (triangleFrequency region (tr_period (ap_triangle s)))])"

definition syncTriangleVolume :: "apu \<Rightarrow> apu" where
  "syncTriangleVolume = sync ap_cachedTriangleVolume (\<lambda>v. ap_cachedTriangleVolume_update (\<lambda>_. v))
     (\<lambda>s. uint (triangle_getVolume (ap_triangle s)))
     (\<lambda>s. volumeCall Triangle (triangle_getVolume (ap_triangle s)))"

definition syncNoisePeriod :: "Region \<Rightarrow> apu \<Rightarrow> apu" where
  "syncNoisePeriod region = sync ap_cachedNoisePeriod (\<lambda>v. ap_cachedNoisePeriod_update (\<lambda>_. v))
     (\<lambda>s. uint (no_period (ap_noise s)))
     (\<lambda>s. [setChannelFrequency Noise (noiseFrequency region (no_period (ap_noise s)))])"

definition syncNoiseVolume :: "apu \<Rightarrow> apu" where
  "syncNoiseVolume = sync ap_cachedNoiseVolume (\<lambda>v. ap_cachedNoiseVolume_update (\<lambda>_. v))
     (\<lambda>s. uint (noise_getVolume (ap_noise s))) (\<lambda>s. volumeCall Noise (noise_getVolume (ap_noise s)))"

definition syncNoiseMode :: "apu \<Rightarrow> apu" where
  "syncNoiseMode = sync ap_cachedNoiseMode (\<lambda>v. ap_cachedNoiseMode_update (\<lambda>_. v))
     (\<lambda>s. if no_mode (ap_noise s) then 1 else 0) (\<lambda>s. [setNoiseMetallic (no_mode (ap_noise s))])"

definition updateAudioOutput :: "Region \<Rightarrow> apu \<Rightarrow> apu" where
  "updateAudioOutput region s =
     (syncNoiseMode (syncNoiseVolume (syncNoisePeriod region (syncTriangleVolume
       (syncTrianglePeriod region (syncPulse2Volume (syncPulse2Period region (syncPulse1Volume
         (syncPulse1Period region (syncPulse2Duty (syncPulse1Duty (syncRate region s))))))))))))
       \<lparr>ap_audioOutputStateDirty := False\<rparr>"

definition refreshAudioOutputState :: "Region \<Rightarrow> apu \<Rightarrow> apu" where
  "refreshAudioOutputState region s = updateAudioOutput region (invalidateAudioOutputState s)"

subsection \<open>Register accesses\<close>

definition updateEnvelopsAndLinearCounters :: "apu \<Rightarrow> apu" where
  "updateEnvelopsAndLinearCounters s =
     s\<lparr>ap_pulse1 := pulse_updateEnvelop (ap_pulse1 s),
       ap_pulse2 := pulse_updateEnvelop (ap_pulse2 s),
       ap_triangle := triangle_updateLinearCounter (ap_triangle s),
       ap_noise := noise_updateEnvelop (ap_noise s)\<rparr>"

definition updateLengthCountersAndSweeps :: "apu \<Rightarrow> apu" where
  "updateLengthCountersAndSweeps s =
     s\<lparr>ap_pulse1 := pulse_updateLengthCounter (pulse_updateSweep 0 (ap_pulse1 s)),
       ap_pulse2 := pulse_updateLengthCounter (pulse_updateSweep 1 (ap_pulse2 s)),
       ap_triangle := triangle_updateLengthCounter (ap_triangle s),
       ap_noise := noise_updateLengthCounter (ap_noise s)\<rparr>"

definition writeChannels :: "Region \<Rightarrow> nat \<Rightarrow> u8 \<Rightarrow> bool \<Rightarrow> apu \<Rightarrow> apu" where
  "writeChannels region addr data cpuOddCycle s =
     (let s =
        (if addr \<le> 0x03 then s\<lparr>ap_pulse1 := pulse_write addr data (ap_pulse1 s)\<rparr>
         else if addr \<le> 0x07 then s\<lparr>ap_pulse2 := pulse_write (addr AND 0x03) data (ap_pulse2 s)\<rparr>
         else if addr \<le> 0x0B then s\<lparr>ap_triangle := triangle_write (addr AND 0x03) data (ap_triangle s)\<rparr>
         else if addr \<le> 0x0F then s\<lparr>ap_noise := noise_write region (addr AND 0x03) data (ap_noise s)\<rparr>
         else if addr \<le> 0x13 then
           let (calls, d) = dmc_write region (addr AND 0x03) data (ap_sample s)
           in s\<lparr>ap_sample := d, ap_audio := ap_audio s @ calls\<rparr>
         else if addr = 0x15 then
           s\<lparr>ap_pulse1 := pulse_setEnabled (test_bits data 0x01) (ap_pulse1 s),
             ap_pulse2 := pulse_setEnabled (test_bits data 0x02) (ap_pulse2 s),
             ap_triangle := triangle_setEnabled (test_bits data 0x04) (ap_triangle s),
             ap_noise := noise_setEnabled (test_bits data 0x08) (ap_noise s),
             ap_sample := dmc_setEnabled (test_bits data 0x10) cpuOddCycle (ap_sample s)\<rparr>
         else s)
      in refreshAudioOutputState region s)"

definition apu_write :: "Region \<Rightarrow> nat \<Rightarrow> u8 \<Rightarrow> bool \<Rightarrow> apu \<Rightarrow> apu" where
  "apu_write region addr data cpuOddCycle s =
     (if addr = 0x15 then writeChannels region addr data cpuOddCycle s
      else if addr < 0x17 then
        s\<lparr>ap_writeChannelsFlag := True, ap_writeChannelsAddr := addr, ap_writeChannelsData := data\<rparr>
      else if addr = 0x17 then
        let s = s\<lparr>ap_last4017Value := data AND 0xC0, ap_mode := test_bits data 0x80,
                  ap_interruptInhibitFlag := test_bits data 0x40, ap_frameStep := 0\<rparr>;
            s = s\<lparr>ap_nextDelay := (if \<not> ap_mode s then mode0Delays region ! 0
                                   else mode1Delays region ! 0) + (if ap_jitter s then 3 else 4)\<rparr>;
            s = (if ap_mode s
                 then refreshAudioOutputState region
                        (updateLengthCountersAndSweeps (updateEnvelopsAndLinearCounters s))
                 else s)
        in (if ap_interruptInhibitFlag s
            then s\<lparr>ap_frameInterruptFlag := False, ap_frameInterruptClearDelay := 0\<rparr> else s)
      else s)"

definition apu_read :: "nat \<Rightarrow> bool \<Rightarrow> apu \<Rightarrow> u8 \<times> apu" where
  "apu_read addr cpuOddCycle s =
     (if addr = 0x15 then
        ((if pu_lengthCounter (ap_pulse1 s) > 0 then 0x01 else 0) OR
         (if pu_lengthCounter (ap_pulse2 s) > 0 then 0x02 else 0) OR
         (if tr_lengthCounter (ap_triangle s) > 0 then 0x04 else 0) OR
         (if no_lengthCounter (ap_noise s) > 0 then 0x08 else 0) OR
         (if dm_bytesRemaining (ap_sample s) > 0 then 0x10 else 0) OR
         (if ap_frameInterruptFlag s then 0x40 else 0) OR
         (if dm_interruptFlag (ap_sample s) then 0x80 else 0),
         if ap_frameInterruptFlag s
         then s\<lparr>ap_frameInterruptClearDelay := (if cpuOddCycle then 2 else 1)\<rparr> else s)
      else (0, s))"

definition apu_interrupt :: "apu \<Rightarrow> bool" where
  "apu_interrupt s \<longleftrightarrow> \<not> ap_interruptInhibitFlag s \<and> ap_frameInterruptFlag s \<or>
     dm_interruptFlag (ap_sample s)"

definition getActiveChannelMask :: "apu \<Rightarrow> u8" where
  "getActiveChannelMask s =
     ((if pulse_getVolume (ap_pulse1 s) > 0 then 0x01 else 0) OR
      (if pulse_getVolume (ap_pulse2 s) > 0 then 0x02 else 0) OR
      (if triangle_getVolume (ap_triangle s) > 0 then 0x04 else 0) OR
      (if noise_getVolume (ap_noise s) > 0 then 0x08 else 0) OR
      (if dm_bytesRemaining (ap_sample s) > 0 then 0x10 else 0))"

subsection \<open>The frame sequencer\<close>

definition quarterFrame :: "Region \<Rightarrow> apu \<Rightarrow> apu" where
  "quarterFrame region s = updateAudioOutput region (updateEnvelopsAndLinearCounters s)"

definition halfFrame :: "Region \<Rightarrow> apu \<Rightarrow> apu" where
  "halfFrame region s = updateAudioOutput region
     (updateLengthCountersAndSweeps (updateEnvelopsAndLinearCounters s))"

text \<open>The two \<open>switch\<close> statements on \<open>m_frameStep\<close>, entered when the delay has run
  out. A step outside the cases leaves the state alone, except that in mode 0 the delay is
  reloaded by the read of \<open>mode0Delays()[m_frameStep]\<close> after the switch.\<close>

definition sequencer0 :: "Region \<Rightarrow> apu \<Rightarrow> apu" where
  "sequencer0 region s =
     (let s = (if ap_frameStep s = 0 then (quarterFrame region s)\<lparr>ap_frameStep := 1\<rparr>
               else if ap_frameStep s = 1 then (halfFrame region s)\<lparr>ap_frameStep := 2\<rparr>
               else if ap_frameStep s = 2 then (quarterFrame region s)\<lparr>ap_frameStep := 3\<rparr>
               else if ap_frameStep s = 3 then s\<lparr>ap_frameInterruptFlag := True, ap_frameStep := 4\<rparr>
               else if ap_frameStep s = 4 then
                 (halfFrame region s)\<lparr>ap_frameInterruptFlag := True, ap_frameStep := 5\<rparr>
               else if ap_frameStep s = 5 then
                 s\<lparr>ap_frameInterruptFlag := \<not> ap_interruptInhibitFlag s, ap_frameStep := 0\<rparr>
               else s)
      in s\<lparr>ap_nextDelay := mode0Delays region ! ap_frameStep s\<rparr>)"

definition sequencer1 :: "Region \<Rightarrow> apu \<Rightarrow> apu" where
  "sequencer1 region s =
     (if ap_frameStep s = 0 then
        (quarterFrame region s)\<lparr>ap_frameStep := 1, ap_nextDelay := mode1Delays region ! 1\<rparr>
      else if ap_frameStep s = 1 then
        (halfFrame region s)\<lparr>ap_frameStep := 2, ap_nextDelay := mode1Delays region ! 2\<rparr>
      else if ap_frameStep s = 2 then
        (quarterFrame region s)\<lparr>ap_frameStep := 3, ap_nextDelay := mode1Delays region ! 3\<rparr>
      else if ap_frameStep s = 3 then
        s\<lparr>ap_frameStep := 4, ap_nextDelay := mode1Delays region ! 4\<rparr>
      else if ap_frameStep s = 4 then
        (let s = halfFrame region s in
         s\<lparr>ap_frameStep := 0, ap_nextDelay := mode1Delays region ! 0 + (if ap_jitter s then 0 else 1)\<rparr>)
      else s)"

definition clearFrameInterrupt :: "apu \<Rightarrow> apu" where
  "clearFrameInterrupt s =
     (if ap_frameInterruptClearDelay s > 0 then
        let s = s\<lparr>ap_frameInterruptClearDelay := ap_frameInterruptClearDelay s - 1\<rparr>
        in if ap_frameInterruptClearDelay s = 0 then s\<lparr>ap_frameInterruptFlag := False\<rparr> else s
      else s)"

definition frameClock :: "Region \<Rightarrow> apu \<Rightarrow> apu" where
  "frameClock region s =
     (let s = s\<lparr>ap_nextDelay := ap_nextDelay s - 1\<rparr>
      in if ap_nextDelay s = 0
         then if \<not> ap_mode s then sequencer0 region s else sequencer1 region s
         else s)"

definition pendingWrite :: "Region \<Rightarrow> apu \<Rightarrow> apu" where
  "pendingWrite region s =
     (if ap_writeChannelsFlag s
      then writeChannels region (ap_writeChannelsAddr s) (ap_writeChannelsData s) False
             (s\<lparr>ap_writeChannelsFlag := False\<rparr>)
      else s)"

definition channelCycles :: "Region \<Rightarrow> apu \<Rightarrow> dma_request list \<times> apu" where
  "channelCycles region s =
     (let (rs, d) = dmc_cycle region (ap_sample s)
      in (rs, s\<lparr>ap_pulse1 := pulse_cycle (ap_pulse1 s), ap_pulse2 := pulse_cycle (ap_pulse2 s),
                ap_noise := noise_cycle (ap_noise s), ap_sample := d\<rparr>))"

definition apu_step :: "Region \<Rightarrow> apu \<Rightarrow> dma_request list \<times> apu" where
  "apu_step region s =
     (let s = pendingWrite region (frameClock region (clearFrameInterrupt s));
          (rs, s) = channelCycles region s
      in (rs, s\<lparr>ap_jitter := \<not> ap_jitter s\<rparr>))"

definition apu_controlDelays :: "apu \<Rightarrow> dma_request list \<times> apu" where
  "apu_controlDelays s =
     (let (rs, d) = processControlDelays (ap_sample s) in (rs, s\<lparr>ap_sample := d\<rparr>))"

definition apu_reload :: "u8 \<Rightarrow> apu \<Rightarrow> dma_request list \<times> apu" where
  "apu_reload data s =
     (let (rs, calls, d) = dmc_reloadShiftRegister data (ap_sample s)
      in (rs, s\<lparr>ap_sample := d, ap_audio := ap_audio s @ calls\<rparr>))"

primrec apu_steps :: "nat \<Rightarrow> Region \<Rightarrow> apu \<Rightarrow> dma_request list \<times> apu" where
  "apu_steps 0 region s = ([], s)"
| "apu_steps (Suc n) region s =
     (let (rs, s) = apu_step region s; (rs', s) = apu_steps n region s in (rs @ rs', s))"

text \<open>The calls on the audio device that close both resets.\<close>

definition resetAudio :: "Region \<Rightarrow> apu \<Rightarrow> apu" where
  "resetAudio region s = s\<lparr>ap_audio := ap_audio s @
     [clearAudioBuffers, setExpansionSourceRateHz (CPUClockHz region), setExpansionAudioVolume 1]\<rparr>"

definition powerOnReset :: "Region \<Rightarrow> apu \<Rightarrow> dma_request list \<times> apu" where
  "powerOnReset region s =
     (let s = s\<lparr>ap_pulse1 := pulse_init, ap_pulse2 := pulse_init, ap_triangle := triangle_init,
                ap_noise := noise_init, ap_sample := dmc_init region, ap_mode := False,
                ap_interruptInhibitFlag := True, ap_frameStep := 0,
                ap_nextDelay := mode0Delays region ! 0, ap_jitter := False,
                ap_frameInterruptFlag := False, ap_frameInterruptClearDelay := 0,
                ap_writeChannelsFlag := False, ap_writeChannelsAddr := 0,
                ap_writeChannelsData := 0, ap_last4017Value := 0\<rparr>;
          s = apu_write region 0x17 (ap_last4017Value s) False (invalidateAudioOutputState s);
          (rs, s) = apu_steps 6 region s
      in (rs, resetAudio region s))"

definition apu_reset :: "Region \<Rightarrow> apu \<Rightarrow> dma_request list \<times> apu" where
  "apu_reset region s =
     (let s = s\<lparr>ap_pulse1 := pulse_setEnabled False (ap_pulse1 s),
                ap_pulse2 := pulse_setEnabled False (ap_pulse2 s),
                ap_triangle := triangle_setEnabled False (ap_triangle s),
                ap_noise := noise_setEnabled False (ap_noise s),
                ap_sample := dmc_reset region (ap_sample s), ap_frameStep := 0,
                ap_nextDelay := mode0Delays region ! 0, ap_jitter := False,
                ap_frameInterruptFlag := False, ap_frameInterruptClearDelay := 0,
                ap_writeChannelsFlag := False, ap_writeChannelsAddr := 0,
                ap_writeChannelsData := 0\<rparr>;
          s = apu_write region 0x17 (ap_last4017Value s AND 0x80) False
                (invalidateAudioOutputState s);
          (rs, s) = apu_steps 3 region s
      in (rs, resetAudio region s))"

end
