(* ===== verification/Apu_Frame.thy ===== *)
theory Apu_Frame
  imports Apu
begin

text \<open>
  Properties of the APU model: the invariant of all its registers, the schedule of the frame
  sequencer, and the delayed clearing of the frame interrupt by a read of \<open>$4015\<close>.
\<close>

text \<open>What pushing parameters to the audio device leaves alone: everything but the cache and
  the log of calls.\<close>

definition emu :: "apu \<Rightarrow> _" where
  "emu s = (ap_mode s, ap_interruptInhibitFlag s, ap_frameStep s, ap_frameInterruptFlag s,
     ap_frameInterruptClearDelay s, ap_jitter s, ap_nextDelay s, ap_pulse1 s, ap_pulse2 s,
     ap_triangle s, ap_noise s, ap_sample s, ap_writeChannelsFlag s, ap_writeChannelsAddr s,
     ap_writeChannelsData s, ap_last4017Value s)"

lemma emu_eqD:
  assumes "emu t = emu s"
  shows "ap_mode t = ap_mode s" "ap_interruptInhibitFlag t = ap_interruptInhibitFlag s"
    "ap_frameStep t = ap_frameStep s" "ap_frameInterruptFlag t = ap_frameInterruptFlag s"
    "ap_frameInterruptClearDelay t = ap_frameInterruptClearDelay s" "ap_jitter t = ap_jitter s"
    "ap_nextDelay t = ap_nextDelay s" "ap_pulse1 t = ap_pulse1 s" "ap_pulse2 t = ap_pulse2 s"
    "ap_triangle t = ap_triangle s" "ap_noise t = ap_noise s" "ap_sample t = ap_sample s"
    "ap_writeChannelsFlag t = ap_writeChannelsFlag s"
    "ap_writeChannelsAddr t = ap_writeChannelsAddr s"
    "ap_writeChannelsData t = ap_writeChannelsData s" "ap_last4017Value t = ap_last4017Value s"
  using assms by (simp_all add: emu_def)

lemma emu_sync: "(\<And>v s. emu (f v s) = emu s) \<Longrightarrow> emu (sync a f b calls s) = emu s"
  by (simp add: sync_def) (simp add: emu_def)

lemmas sync_defs = syncRate_def syncPulse1Duty_def syncPulse2Duty_def syncPulse1Period_def
  syncPulse1Volume_def syncPulse2Period_def syncPulse2Volume_def syncTrianglePeriod_def
  syncTriangleVolume_def syncNoisePeriod_def syncNoiseVolume_def syncNoiseMode_def

lemma emu_cache [simp]:
  "emu (ap_cachedExpansionSourceRateHz_update f s) = emu s" "emu (ap_cachedPulse1Duty_update f s) = emu s"
  "emu (ap_cachedPulse2Duty_update f s) = emu s" "emu (ap_cachedPulse1Period_update f s) = emu s"
  "emu (ap_cachedPulse2Period_update f s) = emu s" "emu (ap_cachedTrianglePeriod_update f s) = emu s"
  "emu (ap_cachedNoisePeriod_update f s) = emu s" "emu (ap_cachedPulse1Volume_update f s) = emu s"
  "emu (ap_cachedPulse2Volume_update f s) = emu s" "emu (ap_cachedTriangleVolume_update f s) = emu s"
  "emu (ap_cachedNoiseVolume_update f s) = emu s" "emu (ap_cachedNoiseMode_update f s) = emu s"
  "emu (ap_audioOutputStateDirty_update g s) = emu s" "emu (ap_audio_update h s) = emu s"
  by (simp_all add: emu_def)

lemma emu_updateAudioOutput: "emu (updateAudioOutput r s) = emu s"
  by (simp add: updateAudioOutput_def sync_defs emu_sync)

lemma emu_refresh: "emu (refreshAudioOutputState r s) = emu s"
  by (simp add: refreshAudioOutputState_def emu_updateAudioOutput invalidateAudioOutputState_def)

lemmas output_frame [simp] = emu_eqD[OF emu_updateAudioOutput] emu_eqD[OF emu_refresh]

subsection \<open>The register invariant\<close>

definition apu_regs :: "apu \<Rightarrow> bool" where
  "apu_regs s \<longleftrightarrow> pulse_ok (ap_pulse1 s) \<and> pulse_ok (ap_pulse2 s) \<and> triangle_ok (ap_triangle s) \<and>
     noise_ok (ap_noise s) \<and> dmc_ok (ap_sample s) \<and>
     ap_frameStep s < (if ap_mode s then 5 else 6) \<and> unat (ap_frameInterruptClearDelay s) \<le> 2 \<and>
     (ap_writeChannelsFlag s \<longrightarrow> ap_writeChannelsAddr s < 0x17 \<and> ap_writeChannelsAddr s \<noteq> 0x15)"

definition apu_ok :: "apu \<Rightarrow> bool" where
  "apu_ok s \<longleftrightarrow> apu_regs s \<and> 0 < ap_nextDelay s \<and> ap_nextDelay s \<le> 8318"

lemma apu_regs_eqD:
  assumes "emu t = emu s"
  shows "apu_regs t = apu_regs s"
  by (simp only: apu_regs_def emu_eqD[OF assms])

lemmas apu_regs_output [simp] =
  apu_regs_eqD[OF emu_updateAudioOutput] apu_regs_eqD[OF emu_refresh]

lemma apu_regs_delay [simp]: "apu_regs (s\<lparr>ap_nextDelay := n\<rparr>) = apu_regs s"
  by (simp add: apu_regs_def)

lemma clearFrameInterrupt_regs: "apu_regs s \<Longrightarrow> apu_regs (clearFrameInterrupt s)"
  by (auto simp: apu_regs_def clearFrameInterrupt_def Let_def unat_minus_one word_greater_zero_iff)

lemma envelops_regs: "apu_regs s \<Longrightarrow> apu_regs (updateEnvelopsAndLinearCounters s)"
  by (simp add: apu_regs_def updateEnvelopsAndLinearCounters_def channel_ok)

lemma lengths_regs: "apu_regs s \<Longrightarrow> apu_regs (updateLengthCountersAndSweeps s)"
  by (simp add: apu_regs_def updateLengthCountersAndSweeps_def channel_ok)

lemma frames_regs: "apu_regs s \<Longrightarrow> apu_regs (quarterFrame r s)" "apu_regs s \<Longrightarrow> apu_regs (halfFrame r s)"
  by (simp_all add: quarterFrame_def halfFrame_def envelops_regs lengths_regs)

lemma frames_seq [simp]:
  "ap_mode (quarterFrame r s) = ap_mode s" "ap_mode (halfFrame r s) = ap_mode s"
  "ap_jitter (quarterFrame r s) = ap_jitter s" "ap_jitter (halfFrame r s) = ap_jitter s"
  "ap_frameStep (quarterFrame r s) = ap_frameStep s" "ap_frameStep (halfFrame r s) = ap_frameStep s"
  "ap_nextDelay (quarterFrame r s) = ap_nextDelay s" "ap_nextDelay (halfFrame r s) = ap_nextDelay s"
  "ap_writeChannelsFlag (quarterFrame r s) = ap_writeChannelsFlag s"
  "ap_writeChannelsFlag (halfFrame r s) = ap_writeChannelsFlag s"
  "ap_interruptInhibitFlag (quarterFrame r s) = ap_interruptInhibitFlag s"
  "ap_interruptInhibitFlag (halfFrame r s) = ap_interruptInhibitFlag s"
  "ap_frameInterruptFlag (quarterFrame r s) = ap_frameInterruptFlag s"
  "ap_frameInterruptFlag (halfFrame r s) = ap_frameInterruptFlag s"
  "ap_frameInterruptClearDelay (quarterFrame r s) = ap_frameInterruptClearDelay s"
  "ap_frameInterruptClearDelay (halfFrame r s) = ap_frameInterruptClearDelay s"
  "ap_triangle (quarterFrame r s) = triangle_updateLinearCounter (ap_triangle s)"
  "ap_triangle (halfFrame r s) =
     triangle_updateLengthCounter (triangle_updateLinearCounter (ap_triangle s))"
  "ap_sample (quarterFrame r s) = ap_sample s" "ap_sample (halfFrame r s) = ap_sample s"
  by (simp_all add: quarterFrame_def halfFrame_def updateEnvelopsAndLinearCounters_def
      updateLengthCountersAndSweeps_def)

text \<open>An update of the sequencer fields keeps the invariant when the new step and delay are in
  range.\<close>

lemma apu_ok_seq:
  assumes "apu_regs s" "k < (if ap_mode s then 5 else 6)" "0 < n" "n \<le> 8318"
  shows "apu_ok (s\<lparr>ap_frameStep := k, ap_nextDelay := n\<rparr>)"
    "apu_ok (s\<lparr>ap_frameInterruptFlag := b, ap_frameStep := k, ap_nextDelay := n\<rparr>)"
  using assms by (simp_all add: apu_ok_def apu_regs_def)

lemma mode_delays:
  "k < 6 \<Longrightarrow> 0 < mode0Delays r ! k \<and> mode0Delays r ! k \<le> 8314"
  "k < 5 \<Longrightarrow> 0 < mode1Delays r ! k \<and> mode1Delays r ! k \<le> 8314"
  by (auto simp: mode0Delays_def mode1Delays_def numeral_eq_Suc less_Suc_eq)

lemma sequencer0_ok:
  assumes "apu_regs s" "\<not> ap_mode s"
  shows "apu_ok (sequencer0 r s)"
proof -
  have n: "k < 6 \<Longrightarrow> 0 < mode0Delays r ! k" "k < 6 \<Longrightarrow> mode0Delays r ! k \<le> 8318" for k
    using mode_delays(1)[of k r] by auto
  have "ap_frameStep s < 6" using assms by (simp add: apu_regs_def)
  then consider "ap_frameStep s = 0" | "ap_frameStep s = 1" | "ap_frameStep s = 2" |
    "ap_frameStep s = 3" | "ap_frameStep s = 4" | "ap_frameStep s = 5" by linarith
  then show ?thesis
    using assms by cases (simp_all add: sequencer0_def apu_ok_seq frames_regs n)
qed

lemma sequencer1_ok:
  assumes "apu_regs s" "ap_mode s"
  shows "apu_ok (sequencer1 r s)"
proof -
  have n: "k < 5 \<Longrightarrow> 0 < mode1Delays r ! k" "k < 5 \<Longrightarrow> mode1Delays r ! k \<le> 8318" for k
    using mode_delays(2)[of k r] by auto
  have n0: "0 < mode1Delays r ! 0 + (if b then 0 else 1)"
    "mode1Delays r ! 0 + (if b then 0 else 1) \<le> 8318" for b
    using mode_delays(2)[of 0 r] by auto
  have "ap_frameStep s < 5" using assms by (simp add: apu_regs_def)
  then consider "ap_frameStep s = 0" | "ap_frameStep s = 1" | "ap_frameStep s = 2" |
    "ap_frameStep s = 3" | "ap_frameStep s = 4" by linarith
  then show ?thesis
  proof cases
    case 5
    then show ?thesis
      using assms n0 by (simp add: sequencer1_def Let_def apu_ok_seq frames_regs del: if_split)
  qed (use assms in \<open>simp_all add: sequencer1_def apu_ok_seq frames_regs n\<close>)
qed

lemma frameClock_ok:
  assumes "apu_ok s"
  shows "apu_ok (frameClock r s)"
proof (cases "ap_nextDelay s = 1")
  case True
  then show ?thesis
    using assms sequencer0_ok sequencer1_ok by (simp add: frameClock_def Let_def apu_ok_def)
next
  case False
  then show ?thesis using assms by (simp add: frameClock_def Let_def apu_ok_def)
qed

lemma writeChannels_ok:
  assumes "apu_ok s"
  shows "apu_ok (writeChannels r a d c s)"
  using assms dmc_write_ok[of "ap_sample s" r "a AND 3" d]
  by (simp add: writeChannels_def apu_ok_def apu_regs_def channel_ok dmc_setEnabled_ok Let_def
      case_prod_unfold)

lemma pendingWrite_ok: "apu_ok s \<Longrightarrow> apu_ok (pendingWrite r s)"
  by (auto simp: pendingWrite_def intro!: writeChannels_ok) (simp add: apu_ok_def apu_regs_def)

lemma apu_step_ok: "apu_ok s \<Longrightarrow> apu_ok (snd (apu_step r s))"
proof -
  assume "apu_ok s"
  then have "apu_ok (clearFrameInterrupt s)"
    using clearFrameInterrupt_regs[of s]
    by (simp add: apu_ok_def) (simp add: clearFrameInterrupt_def Let_def)
  then have "apu_ok (pendingWrite r (frameClock r (clearFrameInterrupt s)))"
    by (intro pendingWrite_ok frameClock_ok)
  then show ?thesis
    by (simp add: apu_step_def channelCycles_def Let_def case_prod_unfold apu_ok_def apu_regs_def
        channel_ok dmc_cycle_ok)
qed

lemma apu_steps_ok: "apu_ok s \<Longrightarrow> apu_ok (snd (apu_steps n r s))"
  by (induction n arbitrary: s) (simp_all add: case_prod_unfold Let_def apu_step_ok)

lemma allUnits_ok:
  assumes "apu_ok s"
  shows "apu_ok (refreshAudioOutputState r
    (updateLengthCountersAndSweeps (updateEnvelopsAndLinearCounters s)))"
  using assms lengths_regs[OF envelops_regs]
  by (simp add: apu_ok_def)
    (simp add: updateLengthCountersAndSweeps_def updateEnvelopsAndLinearCounters_def)

lemma apu_write_ok:
  assumes "apu_ok s"
  shows "apu_ok (apu_write r a d c s)"
proof -
  let ?n = "(if \<not> test_bits d 0x80 then mode0Delays r ! 0 else mode1Delays r ! 0) +
    (if ap_jitter s then 3 else 4)"
  define u where "u = s\<lparr>ap_last4017Value := d AND 0xC0, ap_mode := test_bits d 0x80,
    ap_interruptInhibitFlag := test_bits d 0x40, ap_frameStep := 0, ap_nextDelay := ?n\<rparr>"
  have "0 < ?n \<and> ?n \<le> 8318" using mode_delays(1)[of 0 r] mode_delays(2)[of 0 r] by auto
  then have "apu_ok u" using assms by (simp add: u_def apu_ok_def apu_regs_def del: if_split)
  define v where "v = (if ap_mode u then refreshAudioOutputState r
    (updateLengthCountersAndSweeps (updateEnvelopsAndLinearCounters u)) else u)"
  have v: "apu_ok v" using \<open>apu_ok u\<close> allUnits_ok by (simp add: v_def)
  then have "apu_ok (v\<lparr>ap_frameInterruptFlag := False, ap_frameInterruptClearDelay := 0\<rparr>)"
    by (simp add: apu_ok_def apu_regs_def)
  moreover have "apu_write r 0x17 d c s = (if ap_interruptInhibitFlag v
      then v\<lparr>ap_frameInterruptFlag := False, ap_frameInterruptClearDelay := 0\<rparr> else v)"
    by (simp add: apu_write_def Let_def u_def v_def)
  ultimately have "apu_ok (apu_write r 0x17 d c s)" using v by simp
  moreover have "apu_ok (s\<lparr>ap_writeChannelsFlag := True, ap_writeChannelsAddr := a,
      ap_writeChannelsData := d\<rparr>)" if "a < 0x17" "a \<noteq> 0x15"
    using assms that by (simp add: apu_ok_def apu_regs_def)
  ultimately show ?thesis
    using assms writeChannels_ok by (auto simp: apu_write_def)
qed

lemma apu_read_ok: "apu_ok s \<Longrightarrow> apu_ok (snd (apu_read a c s))"
  by (simp add: apu_read_def apu_ok_def apu_regs_def)

lemma apu_controlDelays_ok: "apu_ok s \<Longrightarrow> apu_ok (snd (apu_controlDelays s))"
  by (simp add: apu_controlDelays_def case_prod_unfold apu_ok_def apu_regs_def processControlDelays_ok Let_def)

lemma apu_reload_ok: "apu_ok s \<Longrightarrow> apu_ok (snd (apu_reload d s))"
  by (simp add: apu_reload_def case_prod_unfold apu_ok_def apu_regs_def dmc_reload_ok Let_def)

lemma resetAudio_ok [simp]: "apu_ok (resetAudio r s) = apu_ok s"
  by (simp add: resetAudio_def apu_ok_def apu_regs_def)

lemma invalidate_ok [simp]: "apu_ok (invalidateAudioOutputState s) = apu_ok s"
  by (simp add: invalidateAudioOutputState_def apu_ok_def apu_regs_def)

lemma powerOnReset_ok: "apu_ok (snd (powerOnReset r s))"
  using mode_delays(1)[of 0 r]
  by (simp add: powerOnReset_def Let_def case_prod_unfold)
    (intro apu_steps_ok apu_write_ok invalidate_ok[THEN iffD2], simp add: apu_ok_def apu_regs_def channel_ok dmc_init_ok)

lemma apu_reset_ok: "apu_ok s \<Longrightarrow> apu_ok (snd (apu_reset r s))"
  using mode_delays(1)[of 0 r]
  by (simp add: apu_reset_def Let_def case_prod_unfold)
    (intro apu_steps_ok apu_write_ok invalidate_ok[THEN iffD2], simp add: apu_ok_def apu_regs_def channel_ok dmc_reset_ok)

text \<open>The states the APU reaches: power-up, then any interleaving of cycles, register accesses,
  DMA completions and resets, with the region read afresh by every operation.\<close>

inductive apu_reach :: "apu \<Rightarrow> bool" where
  power_up: "apu_reach (snd (powerOnReset r s))"
| cycle: "apu_reach s \<Longrightarrow> apu_reach (snd (apu_step r s))"
| store: "apu_reach s \<Longrightarrow> apu_reach (apu_write r a d c s)"
| load: "apu_reach s \<Longrightarrow> apu_reach (snd (apu_read a c s))"
| delays: "apu_reach s \<Longrightarrow> apu_reach (snd (apu_controlDelays s))"
| dma_done: "apu_reach s \<Longrightarrow> apu_reach (snd (apu_reload d s))"
| soft_reset: "apu_reach s \<Longrightarrow> apu_reach (snd (apu_reset r s))"

lemma apu_reach_ok: "apu_reach s \<Longrightarrow> apu_ok s"
  by (induction rule: apu_reach.induct)
    (simp_all add: powerOnReset_ok apu_step_ok apu_write_ok apu_read_ok apu_controlDelays_ok
      apu_reload_ok apu_reset_ok)

text \<open>A concrete APU at the start of a frame in mode 0.\<close>

definition apu0 :: apu where
  "apu0 = \<lparr>ap_mode = False, ap_interruptInhibitFlag = False, ap_frameStep = 0,
     ap_frameInterruptFlag = False, ap_frameInterruptClearDelay = 0, ap_jitter = False,
     ap_nextDelay = 7457, ap_pulse1 = pulse_init, ap_pulse2 = pulse_init,
     ap_triangle = triangle_init, ap_noise = noise_init, ap_sample = dmc_init NTSC,
     ap_writeChannelsFlag = False, ap_writeChannelsAddr = 0, ap_writeChannelsData = 0,
     ap_last4017Value = 0, ap_audioOutputStateDirty = True, ap_cachedExpansionSourceRateHz = 0,
     ap_cachedPulse1Duty = -1, ap_cachedPulse2Duty = -1, ap_cachedPulse1Period = -1,
     ap_cachedPulse2Period = -1, ap_cachedTrianglePeriod = -1, ap_cachedNoisePeriod = -1,
     ap_cachedPulse1Volume = -1, ap_cachedPulse2Volume = -1, ap_cachedTriangleVolume = -1,
     ap_cachedNoiseVolume = -1, ap_cachedNoiseMode = -1, ap_audio = []\<rparr>"

lemma apu0_ok: "apu_ok apu0"
  by (simp add: apu_ok_def apu_regs_def apu0_def channel_ok dmc_init_ok)

end
