(* ===== verification/Hardware_Actions.thy ===== *)
theory Hardware_Actions
  imports Prelude
begin

text \<open>
  The front-panel actions of VS System and disk system games: class \<open>HardwareActions\<close>
  (\<open>src/src/GeraNES/HardwareActions.h\<close>). A coin or service button is held for four frames; the
  disk actions are collected in a bit mask until the next frame consumes them. The log messages
  are not modelled.
\<close>

definition VS_INSERT_COIN_FRAMES :: u8 where "VS_INSERT_COIN_FRAMES = 4"
definition VS_SERVICE_BUTTON_FRAMES :: u8 where "VS_SERVICE_BUTTON_FRAMES = 4"
definition FDS_ACTION_SWITCH_DISK_SIDE :: u8 where "FDS_ACTION_SWITCH_DISK_SIDE = 0x01"
definition FDS_ACTION_EJECT_DISK :: u8 where "FDS_ACTION_EJECT_DISK = 0x02"
definition FDS_ACTION_INSERT_NEXT_DISK :: u8 where "FDS_ACTION_INSERT_NEXT_DISK = 0x04"

record hardware =
  h_vsInsertCoinFrames :: "u8 list"
  h_vsServiceFrames :: "u8 list"
  h_fdsPendingActions :: u8

definition hw_reset :: hardware where
  "hw_reset = \<lparr>h_vsInsertCoinFrames = [0, 0, 0, 0], h_vsServiceFrames = [0, 0],
     h_fdsPendingActions = 0\<rparr>"

definition countDown :: "u8 \<Rightarrow> u8" where
  "countDown v = (if v > 0 then v - 1 else v)"

definition hw_onFrameStart :: "hardware \<Rightarrow> hardware" where
  "hw_onFrameStart h = h\<lparr>h_vsInsertCoinFrames := map countDown (h_vsInsertCoinFrames h),
     h_vsServiceFrames := map countDown (h_vsServiceFrames h)\<rparr>"

definition applyVsSystemRead4016 :: "u8 \<Rightarrow> bool \<Rightarrow> hardware \<Rightarrow> u8" where
  "applyVsSystemRead4016 data isVsSystem h =
     (if \<not> isVsSystem then data
      else
        let data = (if h_vsServiceFrames h ! 0 > 0 then data OR 0x04 else data);
            data = (if h_vsInsertCoinFrames h ! 0 > 0 then data OR 0x20 else data)
        in if h_vsInsertCoinFrames h ! 1 > 0 then data OR 0x40 else data)"

definition applyVsSystemRead4017 :: "u8 \<Rightarrow> bool \<Rightarrow> hardware \<Rightarrow> u8" where
  "applyVsSystemRead4017 data isVsSystem h =
     (if \<not> isVsSystem then data
      else
        let data = (if h_vsServiceFrames h ! 1 > 0 then data OR 0x04 else data);
            data = (if h_vsInsertCoinFrames h ! 2 > 0 then data OR 0x20 else data)
        in if h_vsInsertCoinFrames h ! 3 > 0 then data OR 0x40 else data)"

definition fdsSwitchDiskSide :: "hardware \<Rightarrow> hardware" where
  "fdsSwitchDiskSide h = h\<lparr>h_fdsPendingActions := h_fdsPendingActions h OR FDS_ACTION_SWITCH_DISK_SIDE\<rparr>"

definition fdsEjectDisk :: "hardware \<Rightarrow> hardware" where
  "fdsEjectDisk h = h\<lparr>h_fdsPendingActions := h_fdsPendingActions h OR FDS_ACTION_EJECT_DISK\<rparr>"

definition fdsInsertNextDisk :: "hardware \<Rightarrow> hardware" where
  "fdsInsertNextDisk h = h\<lparr>h_fdsPendingActions := h_fdsPendingActions h OR FDS_ACTION_INSERT_NEXT_DISK\<rparr>"

definition consumeFdsPendingActions :: "bool \<Rightarrow> hardware \<Rightarrow> u8 \<times> hardware" where
  "consumeFdsPendingActions isFdsSystem h =
     (if \<not> isFdsSystem then (0, h) else (h_fdsPendingActions h, h\<lparr>h_fdsPendingActions := 0\<rparr>))"

definition vsInsertCoin :: "int \<Rightarrow> bool \<Rightarrow> hardware \<Rightarrow> hardware" where
  "vsInsertCoin slot isVsSystem h =
     (if slot < 1 \<or> slot > 4 then h
      else if \<not> isVsSystem then h
      else h\<lparr>h_vsInsertCoinFrames := (h_vsInsertCoinFrames h)[nat (slot - 1) := VS_INSERT_COIN_FRAMES]\<rparr>)"

definition vsServiceButton :: "int \<Rightarrow> bool \<Rightarrow> hardware \<Rightarrow> hardware" where
  "vsServiceButton button isVsSystem h =
     (if button < 1 \<or> button > 2 then h
      else if \<not> isVsSystem then h
      else h\<lparr>h_vsServiceFrames := (h_vsServiceFrames h)[nat (button - 1) := VS_SERVICE_BUTTON_FRAMES]\<rparr>)"

subsection \<open>A pressed coin slot\<close>

definition hw_ok :: "hardware \<Rightarrow> bool" where
  "hw_ok h \<longleftrightarrow> length (h_vsInsertCoinFrames h) = 4 \<and> length (h_vsServiceFrames h) = 2 \<and>
     list_all (\<lambda>v. v \<le> 4) (h_vsInsertCoinFrames h) \<and> list_all (\<lambda>v. v \<le> 4) (h_vsServiceFrames h)"

lemma unat_countDown [simp]: "unat (countDown v) = unat v - 1"
  by (auto simp: countDown_def word_greater_zero_iff unat_minus_one)

lemma frames_coins:
  "i < length (h_vsInsertCoinFrames h) \<Longrightarrow>
   unat (h_vsInsertCoinFrames ((hw_onFrameStart ^^ n) h) ! i) = unat (h_vsInsertCoinFrames h ! i) - n \<and>
   length (h_vsInsertCoinFrames ((hw_onFrameStart ^^ n) h)) = length (h_vsInsertCoinFrames h)"
  by (induction n) (simp_all add: hw_onFrameStart_def)

text \<open>An inserted coin is visible for exactly four frames.\<close>

lemma coin_visible:
  assumes "hw_ok h" "1 \<le> slot" "slot \<le> 4"
  shows "h_vsInsertCoinFrames ((hw_onFrameStart ^^ n) (vsInsertCoin slot True h)) ! nat (slot - 1) > 0
    \<longleftrightarrow> n < 4"
proof -
  let ?h = "vsInsertCoin slot True h"
  have i: "nat (slot - 1) < length (h_vsInsertCoinFrames h)" using assms by (simp add: hw_ok_def)
  then have "h_vsInsertCoinFrames ?h ! nat (slot - 1) = 4" "nat (slot - 1) < length (h_vsInsertCoinFrames ?h)"
    using assms by (simp_all add: vsInsertCoin_def VS_INSERT_COIN_FRAMES_def)
  then show ?thesis
    using frames_coins[of "nat (slot - 1)" ?h n] by (auto simp: word_less_nat_alt)
qed

end
