(* ===== verification/Nes_Bus.thy ===== *)
theory Nes_Bus
  imports Quiet_Bus Apu_Frame Hardware_Actions
begin

text \<open>
  The console around the CPU: the address decoding of \<open>GeraNESEmu::accessBus\<close>
  (\<open>src/src/GeraNES/GeraNESEmu.h\<close>) with the 2K of RAM, the open-bus latches, the APU and the
  VS System inputs. The PPU, the cartridge and the controller devices are reached through the
  record \<open>dev_ops\<close> of the calls that \<open>GeraNESEmu\<close> and the CPU make on them; their joint
  state is of an arbitrary type. The debugger hooks (\<open>m_busInstrumentationEnabled\<close>) are off.

  \<open>nes_ops\<close> assembles the environment operations of the CPU from these parts, and the
  interpretation at the end shows that a console whose sample channel is idle raises no DMA
  request, which is the contract \<open>quiet_bus\<close>.
\<close>

record 'p dev_ops =
  cartridge_onCpuRead :: "u16 \<Rightarrow> 'p \<Rightarrow> 'p"
  cartridge_onCpuWrite :: "u16 \<Rightarrow> u8 \<Rightarrow> 'p \<Rightarrow> 'p"
  cartridge_isNsf :: "'p \<Rightarrow> bool"
  cartridge_isVsSystem :: "'p \<Rightarrow> bool"
  cartridge_readMapperRegister :: "u16 \<Rightarrow> u8 \<Rightarrow> 'p \<Rightarrow> u8 \<times> 'p"
  cartridge_writeMapperRegister :: "u16 \<Rightarrow> u8 \<Rightarrow> 'p \<Rightarrow> 'p"
  cartridge_readMapperRegisterAbsolute :: "u16 \<Rightarrow> u8 \<Rightarrow> 'p \<Rightarrow> u8 \<times> 'p"
  cartridge_writeMapperRegisterAbsolute :: "u16 \<Rightarrow> u8 \<Rightarrow> 'p \<Rightarrow> 'p"
  cartridge_readSaveRam :: "u16 \<Rightarrow> 'p \<Rightarrow> u8 \<times> 'p"
  cartridge_writeSaveRam :: "u16 \<Rightarrow> u8 \<Rightarrow> 'p \<Rightarrow> 'p"
  cartridge_readPrg :: "u16 \<Rightarrow> 'p \<Rightarrow> u8 \<times> 'p"
  cartridge_writePrg :: "u16 \<Rightarrow> u8 \<Rightarrow> 'p \<Rightarrow> 'p"
  cartridge_getInterruptFlag :: "'p \<Rightarrow> bool"
  cartridge_cycle :: "'p \<Rightarrow> 'p"
  cartridge_getExpansionAudioSample :: "'p \<Rightarrow> 'p"
  cartridge_consumeNsfRedirect :: "'p \<Rightarrow> u16 option \<times> 'p"
  ppu_read :: "bool \<Rightarrow> u16 \<Rightarrow> u8 \<Rightarrow> 'p \<Rightarrow> u8 \<times> 'p"
  ppu_write :: "u16 \<Rightarrow> u8 \<Rightarrow> 'p \<Rightarrow> 'p"
  ppu_isOverclockFrame :: "'p \<Rightarrow> bool"
  ppu_clearOverclockFrame :: "'p \<Rightarrow> 'p"
  ppu_overclockLines :: "'p \<Rightarrow> bool"
  ppu_cycle :: "'p \<Rightarrow> 'p"
  ppu_takeInterruptFlag :: "'p \<Rightarrow> bool \<times> 'p"
  ppu_onCpuBusAccessEnd :: "u16 \<Rightarrow> bool \<Rightarrow> 'p \<Rightarrow> 'p"
  hasFourScore :: "'p \<Rightarrow> bool"
  hasHoriAdapter :: "'p \<Rightarrow> bool"
  hasPortDevice1 :: "'p \<Rightarrow> bool"
  hasPortDevice2 :: "'p \<Rightarrow> bool"
  hasExpansionDevice :: "'p \<Rightarrow> bool"
  isAnyMultitapActive :: "'p \<Rightarrow> bool"
  fourScore_write :: "u8 \<Rightarrow> 'p \<Rightarrow> 'p"
  fourScore_readPort :: "nat \<Rightarrow> bool \<Rightarrow> 'p \<Rightarrow> u8 \<times> 'p"
  fourScore_transition :: "'p \<Rightarrow> 'p"
  horiAdapter_write4016 :: "u8 \<Rightarrow> 'p \<Rightarrow> 'p"
  horiAdapter_read4016 :: "bool \<Rightarrow> 'p \<Rightarrow> u8 \<times> 'p"
  horiAdapter_read4017 :: "bool \<Rightarrow> 'p \<Rightarrow> u8 \<times> 'p"
  horiAdapter_transition :: "'p \<Rightarrow> 'p"
  portDevice1_write :: "u8 \<Rightarrow> 'p \<Rightarrow> 'p"
  portDevice1_read :: "bool \<Rightarrow> 'p \<Rightarrow> u8 \<times> 'p"
  portDevice1_transition :: "'p \<Rightarrow> 'p"
  portDevice2_write :: "u8 \<Rightarrow> 'p \<Rightarrow> 'p"
  portDevice2_read :: "bool \<Rightarrow> 'p \<Rightarrow> u8 \<times> 'p"
  portDevice2_extraRead4016Bits :: "'p \<Rightarrow> u8"
  portDevice2_transition :: "'p \<Rightarrow> 'p"
  expansionDevice_write4016 :: "u8 \<Rightarrow> 'p \<Rightarrow> 'p"
  expansionDevice_read4016 :: "bool \<Rightarrow> 'p \<Rightarrow> u8 \<times> 'p"
  expansionDevice_read4017 :: "bool \<Rightarrow> 'p \<Rightarrow> u8 \<times> 'p"

record 'p nes =
  n_ram :: "u8 list"
  n_openBus :: u8
  n_internalDataBus :: u8
  n_prevControllerReadAddr :: u16
  n_4011WriteCounter :: u32
  n_region :: Region
  n_apu :: apu
  n_hw :: hardware
  n_dev :: 'p

definition MAX_4011_WRITES_TO_DISABLE_OVERCLOCK :: u32 where
  "MAX_4011_WRITES_TO_DISABLE_OVERCLOCK = 2"

definition ramIndex :: "u16 \<Rightarrow> nat" where
  "ramIndex addr = unat (addr AND 0x7FF)"

subsection \<open>Reads\<close>

definition outputEnabled :: "cpu_view \<Rightarrow> u16 \<Rightarrow> bool" where
  "outputEnabled v addr \<longleftrightarrow> \<not> v_dmaRead v \<or> isDmaInputClockEnabled v addr"

text \<open>What the controller ports and the expansion port drive on the two input registers.\<close>

definition ports4016 :: "'p dev_ops \<Rightarrow> bool \<Rightarrow> 'p \<Rightarrow> u8 \<times> 'p" where
  "ports4016 P on p =
     (let (data, p) = (if hasFourScore P p then fourScore_readPort P 0 on p
                       else if hasHoriAdapter P p then horiAdapter_read4016 P on p
                       else if hasPortDevice1 P p then portDevice1_read P on p else (0, p));
          (data, p) = (if hasExpansionDevice P p \<and> \<not> isAnyMultitapActive P p
                       then let (x, p) = expansionDevice_read4016 P on p
                            in ((data AND NOT 0x02) OR x, p)
                       else (data, p));
          data = (if \<not> isAnyMultitapActive P p \<and> hasPortDevice2 P p
                  then data OR portDevice2_extraRead4016Bits P p else data)
      in (data, p))"

definition ports4017 :: "'p dev_ops \<Rightarrow> bool \<Rightarrow> 'p \<Rightarrow> u8 \<times> 'p" where
  "ports4017 P on p =
     (let (data, p) = (if hasFourScore P p then fourScore_readPort P 1 on p
                       else if hasHoriAdapter P p then horiAdapter_read4017 P on p
                       else if hasPortDevice2 P p then portDevice2_read P on p else (0, p));
          (data, p) = (if hasExpansionDevice P p \<and> \<not> isAnyMultitapActive P p
                       then let (expData, p) = expansionDevice_read4017 P on p
                            in ((data AND NOT 0x1E) OR (expData AND 0x1E), p)
                       else (data, p))
      in (data, p))"

definition read4016 :: "'p dev_ops \<Rightarrow> cpu_view \<Rightarrow> 'p nes \<Rightarrow> u8 \<times> 'p nes" where
  "read4016 P v s =
     (let (data, p) = ports4016 P (outputEnabled v 0x4016) (n_dev s);
          (data, p) = cartridge_readMapperRegister P (0x4016 AND 0x1FFF) data p;
          data = applyVsSystemRead4016 data (cartridge_isVsSystem P p) (n_hw s)
      in ((data AND 0x1F) OR (n_openBus s AND 0xE0), s\<lparr>n_dev := p\<rparr>))"

definition read4017 :: "'p dev_ops \<Rightarrow> cpu_view \<Rightarrow> 'p nes \<Rightarrow> u8 \<times> 'p nes" where
  "read4017 P v s =
     (let (data, p) = ports4017 P (outputEnabled v 0x4017) (n_dev s);
          (data, p) = cartridge_readMapperRegister P (0x4017 AND 0x1FFF) data p;
          data = applyVsSystemRead4017 data (cartridge_isVsSystem P p) (n_hw s)
      in ((data AND 0x1F) OR (n_openBus s AND 0xE0), s\<lparr>n_dev := p\<rparr>))"

text \<open>The \<open>switch\<close> of a read access: the byte, whether it reaches the open bus, the state.\<close>

definition readDecode :: "'p dev_ops \<Rightarrow> cpu_view \<Rightarrow> u16 \<Rightarrow> 'p nes \<Rightarrow> u8 \<times> bool \<times> 'p nes" where
  "readDecode P v addr s =
     (let data = n_openBus s; p = n_dev s in
      if addr < 0x2000 then (n_ram s ! ramIndex addr, True, s)
      else if addr < 0x4000 then
        let (data, p) = ppu_read P (v_dmaRead v) addr data (cartridge_onCpuRead P addr p)
        in (data, True, s\<lparr>n_dev := p\<rparr>)
      else if addr < 0x4014 then (n_openBus s, True, s)
      else if addr = 0x4014 then (data, True, s)
      else if addr = 0x4015 then
        let (d, a) = apu_read (unat (addr AND 0x3FFF)) (v_oddCycle v) (n_apu s)
        in ((d AND NOT 0x20) OR (n_internalDataBus s AND 0x20), False, s\<lparr>n_apu := a\<rparr>)
      else if addr = 0x4016 then let (d, s) = read4016 P v s in (d, True, s)
      else if addr = 0x4017 then let (d, s) = read4017 P v s in (d, True, s)
      else if addr < 0x4020 then (n_openBus s, True, s)
      else if addr < 0x6000 then
        let (d, p) = (if cartridge_isNsf P p then cartridge_readMapperRegisterAbsolute P addr data p
                      else cartridge_readMapperRegister P (addr AND 0x1FFF) data p)
        in (d, True, s\<lparr>n_dev := p, n_openBus := d\<rparr>)
      else if addr < 0x8000 then
        let (d, p) = cartridge_readSaveRam P (addr AND 0x1FFF) p in (d, True, s\<lparr>n_dev := p\<rparr>)
      else
        let (d, p) = cartridge_readPrg P (addr AND 0x7FFF) (cartridge_onCpuRead P addr p)
        in (d, True, s\<lparr>n_dev := p\<rparr>))"

definition nes_read :: "'p dev_ops \<Rightarrow> cpu_view \<Rightarrow> u16 \<Rightarrow> 'p nes \<Rightarrow> u8 \<times> 'p nes" where
  "nes_read P v addr s =
     (let (data, updateOpenBusOnRead, s) = readDecode P v addr s;
          s = (if \<not> v_dmaRead v then s\<lparr>n_internalDataBus := data\<rparr> else s);
          s = (if updateOpenBusOnRead then s\<lparr>n_openBus := data\<rparr> else s)
      in (data, s\<lparr>n_prevControllerReadAddr :=
                    (if addr = 0x4016 \<or> addr = 0x4017 then addr else 0xFFFF)\<rparr>))"

subsection \<open>Writes\<close>

definition write4016 :: "'p dev_ops \<Rightarrow> u8 \<Rightarrow> 'p \<Rightarrow> 'p" where
  "write4016 P data p =
     (if hasFourScore P p then fourScore_write P data p
      else if hasHoriAdapter P p then horiAdapter_write4016 P data p
      else
        let p = (if hasPortDevice1 P p then portDevice1_write P data p else p);
            p = (if hasPortDevice2 P p then portDevice2_write P data p else p)
        in if hasExpansionDevice P p then expansionDevice_write4016 P data p else p)"

definition count4011 :: "'p dev_ops \<Rightarrow> 'p nes \<Rightarrow> 'p nes" where
  "count4011 P s =
     (let s = s\<lparr>n_4011WriteCounter := n_4011WriteCounter s + 1\<rparr>
      in if n_4011WriteCounter s = MAX_4011_WRITES_TO_DISABLE_OVERCLOCK \<and>
            ppu_isOverclockFrame P (n_dev s)
         then s\<lparr>n_dev := ppu_clearOverclockFrame P (n_dev s)\<rparr> else s)"

text \<open>The \<open>switch\<close> of a write access: the DMA requests, the byte left in \<open>data\<close>, the
  state.\<close>

definition writeDecode ::
  "'p dev_ops \<Rightarrow> cpu_view \<Rightarrow> u16 \<Rightarrow> u8 \<Rightarrow> 'p nes \<Rightarrow> dma_request list \<times> u8 \<times> 'p nes" where
  "writeDecode P v addr data s =
     (let p = n_dev s;
          toApu = (\<lambda>s. s\<lparr>n_apu := apu_write (n_region s) (unat (addr AND 0x3FFF)) data
                           (v_oddCycle v) (n_apu s)\<rparr>) in
      if addr < 0x2000 then ([], data, s\<lparr>n_ram := (n_ram s)[ramIndex addr := data]\<rparr>)
      else if addr < 0x4000 then ([], data, s\<lparr>n_dev := ppu_write P addr data p\<rparr>)
      else if addr < 0x4014 then
        let s = toApu s in ([], data, if addr = 0x4011 then count4011 P s else s)
      else if addr = 0x4014 then ([StartOamDma (push_bit 8 (ucast data))], data, s)
      else if addr = 0x4015 then ([], data, toApu s)
      else if addr = 0x4016 then ([], data, s\<lparr>n_dev := write4016 P data p\<rparr>)
      else if addr = 0x4017 then ([], data, toApu s)
      else if addr < 0x4020 then ([], n_openBus s, s)
      else if addr < 0x6000 then
        ([], data, s\<lparr>n_dev := (if cartridge_isNsf P p then cartridge_writeMapperRegisterAbsolute P addr data p
                               else cartridge_writeMapperRegister P (addr AND 0x1FFF) data p),
                     n_openBus := data\<rparr>)
      else if addr < 0x8000 then
        ([], data, s\<lparr>n_dev := cartridge_writeSaveRam P (addr AND 0x1FFF) data p\<rparr>)
      else
        ([], data, s\<lparr>n_dev := (if cartridge_isNsf P p then cartridge_writeMapperRegisterAbsolute P addr data p
                               else cartridge_writePrg P (addr AND 0x7FFF) data p)\<rparr>))"

definition nes_write ::
  "'p dev_ops \<Rightarrow> cpu_view \<Rightarrow> u16 \<Rightarrow> u8 \<Rightarrow> 'p nes \<Rightarrow> dma_request list \<times> 'p nes" where
  "nes_write P v addr data s =
     (let (rs, data, s) = writeDecode P v addr data s;
          s = (if \<not> v_dmaRead v then s\<lparr>n_internalDataBus := data\<rparr> else s);
          s = s\<lparr>n_openBus := data\<rparr>;
          s = s\<lparr>n_dev := cartridge_onCpuWrite P addr data (n_dev s)\<rparr>
      in (rs, s\<lparr>n_prevControllerReadAddr := 0xFFFF\<rparr>))"

definition nes_onCpuGetToPutTransition :: "'p dev_ops \<Rightarrow> 'p \<Rightarrow> 'p" where
  "nes_onCpuGetToPutTransition P p =
     (if hasFourScore P p then fourScore_transition P p
      else if hasHoriAdapter P p then horiAdapter_transition P p
      else
        let p = (if hasPortDevice1 P p then portDevice1_transition P p else p)
        in if hasPortDevice2 P p then portDevice2_transition P p else p)"

subsection \<open>The environment of the CPU\<close>

definition nes_ops :: "'p dev_ops \<Rightarrow> 'p nes env_ops" where
  "nes_ops P = \<lparr>
     bus_read = nes_read P,
     bus_write = nes_write P,
     bus_getOpenBus = n_openBus,
     bus_setOpenBus = (\<lambda>data s. s\<lparr>n_openBus := data\<rparr>),
     bus_onCpuBusAccessEnd = (\<lambda>addr write s. s\<lparr>n_dev := ppu_onCpuBusAccessEnd P addr write (n_dev s)\<rparr>),
     bus_onCpuGetToPutTransition = (\<lambda>s. s\<lparr>n_dev := nes_onCpuGetToPutTransition P (n_dev s)\<rparr>),
     ppu_inOverclockLines = (\<lambda>s. ppu_overclockLines P (n_dev s)),
     ppu_ppuCycle = (\<lambda>s. s\<lparr>n_dev := ppu_cycle P (n_dev s)\<rparr>),
     ppu_region = n_region,
     ppu_getInterruptFlag = (\<lambda>s. let (b, p) = ppu_takeInterruptFlag P (n_dev s) in (b, s\<lparr>n_dev := p\<rparr>)),
     apu_processDmcControlDelays = (\<lambda>s. let (rs, a) = apu_controlDelays (n_apu s) in (rs, s\<lparr>n_apu := a\<rparr>)),
     apu_cycle = (\<lambda>s. let (rs, a) = apu_step (n_region s) (n_apu s) in (rs, s\<lparr>n_apu := a\<rparr>)),
     apu_getInterruptFlag = (\<lambda>s. apu_interrupt (n_apu s)),
     apu_reloadShiftRegister = (\<lambda>data s. let (rs, a) = apu_reload data (n_apu s) in (rs, s\<lparr>n_apu := a\<rparr>)),
     apu_processExpansionAudioSample =
       (\<lambda>s. s\<lparr>n_dev := cartridge_getExpansionAudioSample P (n_dev s)\<rparr>),
     cart_getInterruptFlag = (\<lambda>s. cartridge_getInterruptFlag P (n_dev s)),
     cart_cycle = (\<lambda>s. s\<lparr>n_dev := cartridge_cycle P (n_dev s)\<rparr>),
     cart_consumeNsfPlayerInstructionRedirect =
       (\<lambda>s. let (a, p) = cartridge_consumeNsfRedirect P (n_dev s) in (a, s\<lparr>n_dev := p\<rparr>))\<rparr>"

subsection \<open>An idle sample channel keeps the bus quiet\<close>

text \<open>The sample channel is idle, and no write to the enable register waits in the latch.\<close>

definition apu_idle :: "apu \<Rightarrow> bool" where
  "apu_idle a \<longleftrightarrow> dmc_idle (ap_sample a) \<and> (ap_writeChannelsFlag a \<longrightarrow> ap_writeChannelsAddr a \<noteq> 0x15)"

definition nes_idle :: "'p nes \<Rightarrow> bool" where
  "nes_idle s \<longleftrightarrow> apu_idle (n_apu s)"

lemma writeChannels_idle:
  assumes "dmc_idle (ap_sample a)" "addr \<noteq> 0x15"
  shows "dmc_idle (ap_sample (writeChannels r addr d c a))"
  using assms dmc_write_idle[of "ap_sample a" r "addr AND 3" d]
  by (simp add: writeChannels_def case_prod_unfold Let_def)

lemma writeChannels_pending [simp]:
  "ap_writeChannelsFlag (writeChannels r addr d c a) = ap_writeChannelsFlag a"
  by (simp add: writeChannels_def case_prod_unfold Let_def)

lemma frames_latch [simp]:
  "ap_writeChannelsAddr (quarterFrame r a) = ap_writeChannelsAddr a"
  "ap_writeChannelsAddr (halfFrame r a) = ap_writeChannelsAddr a"
  by (simp_all add: quarterFrame_def halfFrame_def updateEnvelopsAndLinearCounters_def
      updateLengthCountersAndSweeps_def)

lemma sequencers_frame [simp]:
  "ap_sample (sequencer0 r a) = ap_sample a" "ap_sample (sequencer1 r a) = ap_sample a"
  "ap_writeChannelsFlag (sequencer0 r a) = ap_writeChannelsFlag a"
  "ap_writeChannelsFlag (sequencer1 r a) = ap_writeChannelsFlag a"
  "ap_writeChannelsAddr (sequencer0 r a) = ap_writeChannelsAddr a"
  "ap_writeChannelsAddr (sequencer1 r a) = ap_writeChannelsAddr a"
  by (simp_all add: sequencer0_def sequencer1_def Let_def)

lemma clearFrameInterrupt_idle: "apu_idle (clearFrameInterrupt a) = apu_idle a"
  by (simp add: apu_idle_def clearFrameInterrupt_def Let_def)

lemma frameClock_idle: "apu_idle (frameClock r a) = apu_idle a"
  by (simp add: apu_idle_def frameClock_def Let_def)

lemma pendingWrite_idle: "apu_idle a \<Longrightarrow> apu_idle (pendingWrite r a)"
  by (auto simp: apu_idle_def pendingWrite_def writeChannels_idle)

lemma apu_step_idle: "apu_idle a \<Longrightarrow> fst (apu_step r a) = [] \<and> apu_idle (snd (apu_step r a))"
  using pendingWrite_idle[of "frameClock r (clearFrameInterrupt a)" r] dmc_cycle_idle
  by (simp add: apu_step_def channelCycles_def Let_def case_prod_unfold clearFrameInterrupt_idle
      frameClock_idle) (simp add: apu_idle_def)

lemma apu_controlDelays_idle: "apu_idle a \<Longrightarrow> apu_controlDelays a = ([], a)"
  by (simp add: apu_controlDelays_def apu_idle_def processControlDelays_idle)

lemma apu_read_idle: "apu_idle a \<Longrightarrow> apu_idle (snd (apu_read n c a))"
  by (simp add: apu_idle_def apu_read_def)

lemma read401x_frame [simp]:
  "n_apu (snd (read4016 P v s)) = n_apu s" "n_apu (snd (read4017 P v s)) = n_apu s"
  "n_ram (snd (read4016 P v s)) = n_ram s" "n_ram (snd (read4017 P v s)) = n_ram s"
  by (simp_all add: read4016_def read4017_def Let_def case_prod_unfold)

lemma readDecode_apu: "n_apu (snd (snd (readDecode P v addr s))) =
    (if addr = 0x4015 then snd (apu_read (unat (addr AND 0x3FFF)) (v_oddCycle v) (n_apu s)) else n_apu s)"
  by (simp add: readDecode_def Let_def case_prod_unfold)

lemma nes_read_apu: "n_apu (snd (nes_read P v addr s)) =
    (if addr = 0x4015 then snd (apu_read (unat (addr AND 0x3FFF)) (v_oddCycle v) (n_apu s)) else n_apu s)"
  by (simp add: nes_read_def readDecode_apu Let_def case_prod_unfold)

lemma nes_write_quiet:
  assumes "addr < 0x4000"
  shows "fst (nes_write P v addr d s) = []" "n_apu (snd (nes_write P v addr d s)) = n_apu s"
  using assms by (simp_all add: nes_write_def writeDecode_def Let_def)

interpretation nes: quiet_bus "nes_ops P" nes_idle
proof
  fix e :: "'a nes" and v :: cpu_view and a :: u16 and x :: u8
  assume e: "nes_idle e"
  show "nes_idle (snd (bus_read (nes_ops P) v a e))"
    using e apu_read_idle by (simp add: nes_ops_def nes_idle_def nes_read_apu)
  show "fst (bus_write (nes_ops P) v a x e) = [] \<and> nes_idle (snd (bus_write (nes_ops P) v a x e))"
    if "a < 0x2000 \<or> a = 0x2004"
  proof -
    have "a < 0x4000" using that by (auto intro: less_trans)
    then show ?thesis using e by (simp add: nes_ops_def nes_idle_def nes_write_quiet)
  qed
qed (simp_all add: nes_ops_def nes_idle_def apu_controlDelays_idle apu_step_idle Let_def
    case_prod_unfold)

end
