(* ===== verification/Cpu_Ops.thy ===== *)
theory Cpu_Ops
  imports Dma
begin

text \<open>
  The memory accesses, the addressing modes and the instructions of \<open>CPU2A03\<close>
  (\<open>src/src/GeraNES/CPU2A03.h\<close>), one definition per member function. The state is passed
  explicitly in the \<open>option\<close> monad: \<open>None\<close> is a memory access that never returns
  because its DMA transfer does not end.
\<close>

definition readMemory :: "'e env_ops \<Rightarrow> u16 \<Rightarrow> 'e cpu \<Rightarrow> (u8 \<times> 'e cpu) option" where
  "readMemory E addr s = do {
     let cyclesBeforeDma = m_cyclesCounter s;
     s \<leftarrow> processPending E addr (m_writeCycle s) s;
     let s = s\<lparr>m_lastReadHadDma := (m_cyclesCounter s \<noteq> cyclesBeforeDma)\<rparr>;
     let s = beginCycle E s;
     let (ret, e) = bus_read E (view s) addr (env s);
     let s = endCycle E False (Some (addr, False)) (s\<lparr>env := e\<rparr>);
     Some (ret, s) }"

definition writeMemory :: "'e env_ops \<Rightarrow> u16 \<Rightarrow> u8 \<Rightarrow> 'e cpu \<Rightarrow> 'e cpu option" where
  "writeMemory E addr v s = do {
     let s = s\<lparr>m_writeCycle := True\<rparr>;
     s \<leftarrow> processPending E addr (m_writeCycle s) s;
     let s = beginCycle E s;
     let (rs, e) = bus_write E (view s) addr v (env s);
     let s = dma_requests rs (s\<lparr>env := e\<rparr>);
     let s = endCycle E False (Some (addr, True)) s;
     Some (s\<lparr>m_writeCycle := False\<rparr>) }"

definition push :: "'e env_ops \<Rightarrow> u8 \<Rightarrow> 'e cpu \<Rightarrow> 'e cpu option" where
  "push E data s = do {
     s \<leftarrow> writeMemory E (0x0100 + ucast (m_sp s)) data s;
     Some (s\<lparr>m_sp := m_sp s - 1\<rparr>) }"

definition pull :: "'e env_ops \<Rightarrow> 'e cpu \<Rightarrow> (u8 \<times> 'e cpu) option" where
  "pull E s = (let s = s\<lparr>m_sp := m_sp s + 1\<rparr> in readMemory E (0x0100 + ucast (m_sp s)) s)"

definition push16 :: "'e env_ops \<Rightarrow> u16 \<Rightarrow> 'e cpu \<Rightarrow> 'e cpu option" where
  "push16 E data s = do {
     s \<leftarrow> push E (ucast (drop_bit 8 data)) s;
     push E (ucast (data AND 0xFF)) s }"

definition pull16 :: "'e env_ops \<Rightarrow> 'e cpu \<Rightarrow> (u16 \<times> 'e cpu) option" where
  "pull16 E s = do {
     (low, s) \<leftarrow> pull E s;
     (high, s) \<leftarrow> pull E s;
     Some (MAKE16 low high, s) }"

definition updateZeroAndNegativeFlags :: "u8 \<Rightarrow> 'e cpu \<Rightarrow> 'e cpu" where
  "updateZeroAndNegativeFlags v s =
     s\<lparr>m_status := set_flag 1 (v = 0) (set_flag 7 (test_bits v 0x80) (m_status s))\<rparr>"

text \<open>Assignments to one field of \<open>m_flags\<close>.\<close>

abbreviation set_carry :: "bool \<Rightarrow> 'e cpu \<Rightarrow> 'e cpu" where
  "set_carry b s \<equiv> s\<lparr>m_status := set_flag 0 b (m_status s)\<rparr>"
abbreviation set_zero :: "bool \<Rightarrow> 'e cpu \<Rightarrow> 'e cpu" where
  "set_zero b s \<equiv> s\<lparr>m_status := set_flag 1 b (m_status s)\<rparr>"
abbreviation set_irq :: "bool \<Rightarrow> 'e cpu \<Rightarrow> 'e cpu" where
  "set_irq b s \<equiv> s\<lparr>m_status := set_flag 2 b (m_status s)\<rparr>"
abbreviation set_decimal :: "bool \<Rightarrow> 'e cpu \<Rightarrow> 'e cpu" where
  "set_decimal b s \<equiv> s\<lparr>m_status := set_flag 3 b (m_status s)\<rparr>"
abbreviation set_brk :: "bool \<Rightarrow> 'e cpu \<Rightarrow> 'e cpu" where
  "set_brk b s \<equiv> s\<lparr>m_status := set_flag 4 b (m_status s)\<rparr>"
abbreviation set_unused :: "bool \<Rightarrow> 'e cpu \<Rightarrow> 'e cpu" where
  "set_unused b s \<equiv> s\<lparr>m_status := set_flag 5 b (m_status s)\<rparr>"
abbreviation set_overflow :: "bool \<Rightarrow> 'e cpu \<Rightarrow> 'e cpu" where
  "set_overflow b s \<equiv> s\<lparr>m_status := set_flag 6 b (m_status s)\<rparr>"
abbreviation set_negative :: "bool \<Rightarrow> 'e cpu \<Rightarrow> 'e cpu" where
  "set_negative b s \<equiv> s\<lparr>m_status := set_flag 7 b (m_status s)\<rparr>"

definition dummyRead :: "'e env_ops \<Rightarrow> 'e cpu \<Rightarrow> 'e cpu option" where
  "dummyRead E s = do { (_, s) \<leftarrow> readMemory E (m_pc s) s; Some s }"

text \<open>\<open>readMemory(m_pc++)\<close>: the program counter moves before the access.\<close>

definition fetch :: "'e env_ops \<Rightarrow> 'e cpu \<Rightarrow> (u8 \<times> 'e cpu) option" where
  "fetch E s = readMemory E (m_pc s) (s\<lparr>m_pc := m_pc s + 1\<rparr>)"

subsection \<open>Addressing modes\<close>

definition getAddrImmediate :: "'e cpu \<Rightarrow> 'e cpu" where
  "getAddrImmediate s = s\<lparr>m_addrPageCross := False, m_addr := m_pc s, m_pc := m_pc s + 1\<rparr>"

definition getAddrAbsolute :: "'e env_ops \<Rightarrow> 'e cpu \<Rightarrow> 'e cpu option" where
  "getAddrAbsolute E s = do {
     (low, s) \<leftarrow> fetch E s;
     (high, s) \<leftarrow> fetch E s;
     Some (s\<lparr>m_addrHigh := high, m_addrPageCross := False, m_addr := MAKE16 low high\<rparr>) }"

definition getAddrZeroPage :: "'e env_ops \<Rightarrow> 'e cpu \<Rightarrow> 'e cpu option" where
  "getAddrZeroPage E s = do {
     let s = s\<lparr>m_addrPageCross := False\<rparr>;
     (low, s) \<leftarrow> fetch E s;
     Some (s\<lparr>m_addr := ucast low\<rparr>) }"

text \<open>The common tail of the three indexed modes: page-cross test, optional dummy read, index
  added.\<close>

definition indexedTail :: "'e env_ops \<Rightarrow> u8 \<Rightarrow> bool \<Rightarrow> 'e cpu \<Rightarrow> 'e cpu option" where
  "indexedTail E index dummy s = do {
     let base = m_addr s;
     let pageCross = test_bits (base XOR (base + ucast index)) 0xFF00;
     let s = s\<lparr>m_addrPageCross := pageCross, m_indexedDummyReadHadDma := False\<rparr>;
     s \<leftarrow> (if pageCross \<or> dummy then do {
              (_, s) \<leftarrow> readMemory E ((base AND 0xFF00) OR ((base + ucast index) AND 0xFF)) s;
              Some (s\<lparr>m_indexedDummyReadHadDma := m_lastReadHadDma s\<rparr>) }
           else Some s);
     Some (s\<lparr>m_addr := m_addr s + ucast index\<rparr>) }"

definition getAddrAbsoluteX :: "'e env_ops \<Rightarrow> bool \<Rightarrow> 'e cpu \<Rightarrow> 'e cpu option" where
  "getAddrAbsoluteX E dummy s = do {
     (low, s) \<leftarrow> fetch E s;
     (high, s) \<leftarrow> fetch E s;
     indexedTail E (m_x s) dummy (s\<lparr>m_addrHigh := high, m_addr := MAKE16 low high\<rparr>) }"

definition getAddrAbsoluteY :: "'e env_ops \<Rightarrow> bool \<Rightarrow> 'e cpu \<Rightarrow> 'e cpu option" where
  "getAddrAbsoluteY E dummy s = do {
     (low, s) \<leftarrow> fetch E s;
     (high, s) \<leftarrow> fetch E s;
     indexedTail E (m_y s) dummy (s\<lparr>m_addrHigh := high, m_addr := MAKE16 low high\<rparr>) }"

definition getAddrZeroPageX :: "'e env_ops \<Rightarrow> 'e cpu \<Rightarrow> 'e cpu option" where
  "getAddrZeroPageX E s = do {
     let s = s\<lparr>m_addrPageCross := False\<rparr>;
     (low, s) \<leftarrow> fetch E s;
     let s = s\<lparr>m_addr := ucast low\<rparr>;
     (_, s) \<leftarrow> readMemory E (m_addr s) s;
     Some (s\<lparr>m_addr := ucast (ucast (m_addr s + ucast (m_x s)) :: u8)\<rparr>) }"

definition getAddrZeroPageY :: "'e env_ops \<Rightarrow> 'e cpu \<Rightarrow> 'e cpu option" where
  "getAddrZeroPageY E s = do {
     let s = s\<lparr>m_addrPageCross := False\<rparr>;
     (low, s) \<leftarrow> fetch E s;
     let s = s\<lparr>m_addr := ucast low\<rparr>;
     (_, s) \<leftarrow> readMemory E (m_addr s) s;
     Some (s\<lparr>m_addr := ucast (ucast (m_addr s + ucast (m_y s)) :: u8)\<rparr>) }"

definition getAddrIndirect :: "'e env_ops \<Rightarrow> 'e cpu \<Rightarrow> 'e cpu option" where
  "getAddrIndirect E s = do {
     (low, s) \<leftarrow> fetch E s;
     (high, s) \<leftarrow> fetch E s;
     (iLow, s) \<leftarrow> readMemory E (MAKE16 low high) s;
     (iHigh, s) \<leftarrow> readMemory E (MAKE16 (low + 1) high) s;
     Some (s\<lparr>m_addrHigh := iHigh, m_addrPageCross := False, m_addr := MAKE16 iLow iHigh\<rparr>) }"

definition getAddrIndirectX :: "'e env_ops \<Rightarrow> 'e cpu \<Rightarrow> 'e cpu option" where
  "getAddrIndirectX E s = do {
     (v, s) \<leftarrow> fetch E s;
     (_, s) \<leftarrow> readMemory E (ucast v) s;
     let v = v + m_x s;
     (iLow, s) \<leftarrow> readMemory E (ucast v) s;
     (iHigh, s) \<leftarrow> readMemory E (ucast (v + 1)) s;
     Some (s\<lparr>m_addrHigh := iHigh, m_addrPageCross := False, m_addr := MAKE16 iLow iHigh\<rparr>) }"

definition getAddrIndirectY :: "'e env_ops \<Rightarrow> bool \<Rightarrow> 'e cpu \<Rightarrow> 'e cpu option" where
  "getAddrIndirectY E dummy s = do {
     (v, s) \<leftarrow> fetch E s;
     (low, s) \<leftarrow> readMemory E (ucast v) s;
     (high, s) \<leftarrow> readMemory E (ucast (v + 1)) s;
     indexedTail E (m_y s) dummy (s\<lparr>m_addrHigh := high, m_addr := MAKE16 low high\<rparr>) }"

definition getAddrRelative :: "'e cpu \<Rightarrow> 'e cpu" where
  "getAddrRelative s = s\<lparr>m_addrPageCross := False, m_addr := m_pc s, m_pc := m_pc s + 1\<rparr>"

subsection \<open>Arithmetic\<close>

text \<open>The addition shared by \<open>ADC\<close>, \<open>U_ISB\<close> and \<open>U_RRA\<close>, and the subtraction of
  \<open>SBC\<close>; \<open>result\<close> is the 32-bit \<open>unsigned int\<close> of the source.\<close>

definition addWithCarry :: "u8 \<Rightarrow> 'e cpu \<Rightarrow> 'e cpu" where
  "addWithCarry v s =
     (let result = (ucast (m_a s) + ucast v + (if carry s then 1 else 0) :: u32);
          s = set_overflow (\<not> test_bits (m_a s XOR v) 0x80 \<and> test_bits (ucast (m_a s) XOR result) 0x80)
                (set_carry (result > 0xFF) s);
          s = s\<lparr>m_a := ucast result\<rparr>
      in updateZeroAndNegativeFlags (m_a s) s)"

definition subWithBorrow :: "u8 \<Rightarrow> 'e cpu \<Rightarrow> 'e cpu" where
  "subWithBorrow v s =
     (let result = (ucast (m_a s) - ucast v - (if carry s then 0 else 1) :: u32);
          s = set_overflow (test_bits (ucast (m_a s) XOR result) 0x80 \<and> test_bits (m_a s XOR v) 0x80)
                (set_carry (result < 0x100) s);
          s = s\<lparr>m_a := ucast (result AND 0xFF)\<rparr>
      in updateZeroAndNegativeFlags (m_a s) s)"

text \<open>The comparison of \<open>CMP\<close>, \<open>CPX\<close>, \<open>CPY\<close> and \<open>U_DCP\<close>.\<close>

definition compareWith :: "u8 \<Rightarrow> u8 \<Rightarrow> 'e cpu \<Rightarrow> 'e cpu" where
  "compareWith reg v s = updateZeroAndNegativeFlags (reg - v) (set_carry (reg \<ge> v) s)"

definition ADC :: "'e env_ops \<Rightarrow> 'e cpu \<Rightarrow> 'e cpu option" where
  "ADC E s = do { (v, s) \<leftarrow> readMemory E (m_addr s) s; 
     Some (addWithCarry v s) }"

definition AND_op :: "'e env_ops \<Rightarrow> 'e cpu \<Rightarrow> 'e cpu option" where
  "AND_op E s = do { (v, s) \<leftarrow> readMemory E (m_addr s) s; 
     let s = s\<lparr>m_a := m_a s AND v\<rparr>; Some (updateZeroAndNegativeFlags (m_a s) s) }"

definition ASL :: "'e env_ops \<Rightarrow> 'e cpu \<Rightarrow> 'e cpu option" where
  "ASL E s = do {
     (v, s) \<leftarrow> readMemory E (m_addr s) s;
     s \<leftarrow> writeMemory E (m_addr s) v s;
     let s = set_carry (test_bits v 0x80) s;
     let v = push_bit 1 v;
     let s = updateZeroAndNegativeFlags v s;
     writeMemory E (m_addr s) v s }"

definition ASL_implied :: "'e env_ops \<Rightarrow> 'e cpu \<Rightarrow> 'e cpu option" where
  "ASL_implied E s = do { s \<leftarrow> dummyRead E s; 
     let s = set_carry (test_bits (m_a s) 0x80) s;
     let s = s\<lparr>m_a := push_bit 1 (m_a s)\<rparr>;
     Some (updateZeroAndNegativeFlags (m_a s) s) }"

definition AAC :: "'e env_ops \<Rightarrow> 'e cpu \<Rightarrow> 'e cpu option" where
  "AAC E s = do { (v, s) \<leftarrow> readMemory E (m_addr s) s; 
     let s = s\<lparr>m_a := m_a s AND v\<rparr>;
     let s = updateZeroAndNegativeFlags (m_a s) s;
     Some (set_carry (negative s) s) }"

definition U_SLO :: "'e env_ops \<Rightarrow> 'e cpu \<Rightarrow> 'e cpu option" where
  "U_SLO E s = do {
     (v, s) \<leftarrow> readMemory E (m_addr s) s;
     s \<leftarrow> writeMemory E (m_addr s) v s;
     let s = set_carry (test_bits v 0x80) s;
     let v = push_bit 1 v;
     let s = s\<lparr>m_a := m_a s OR v\<rparr>;
     let s = updateZeroAndNegativeFlags (m_a s) s;
     writeMemory E (m_addr s) v s }"

definition branch :: "'e env_ops \<Rightarrow> bool \<Rightarrow> 'e cpu \<Rightarrow> 'e cpu option" where
  "branch E condition s = do {
     (offset, s) \<leftarrow> readMemory E (m_addr s) s;
     if condition then do {
       let oldPc = m_pc s;
       let newPc = m_pc s + scast offset;
       (_, s) \<leftarrow> readMemory E oldPc s;
       s \<leftarrow> (if test_bits (oldPc XOR newPc) 0xFF00 then do {
                let s = s\<lparr>m_poolIntsAtCycle := 3\<rparr>;
                (_, s) \<leftarrow> readMemory E ((oldPc AND 0xFF00) OR (newPc AND 0x00FF)) s;
                Some s }
              else Some s);
       Some (s\<lparr>m_pc := newPc\<rparr>) }
     else Some s }"

definition BCC :: "'e env_ops \<Rightarrow> 'e cpu \<Rightarrow> 'e cpu option" where
  "BCC E s = branch E (\<not> carry s) s"

definition BCS :: "'e env_ops \<Rightarrow> 'e cpu \<Rightarrow> 'e cpu option" where
  "BCS E s = branch E (carry s) s"

definition BEQ :: "'e env_ops \<Rightarrow> 'e cpu \<Rightarrow> 'e cpu option" where
  "BEQ E s = branch E (zero s) s"

definition BIT :: "'e env_ops \<Rightarrow> 'e cpu \<Rightarrow> 'e cpu option" where
  "BIT E s = do { (v, s) \<leftarrow> readMemory E (m_addr s) s; 
     Some (set_overflow (test_bits v 0x40) (set_negative (test_bits v 0x80)
       (set_zero (m_a s AND v = 0) s))) }"

definition BMI :: "'e env_ops \<Rightarrow> 'e cpu \<Rightarrow> 'e cpu option" where
  "BMI E s = branch E (negative s) s"

definition BNE :: "'e env_ops \<Rightarrow> 'e cpu \<Rightarrow> 'e cpu option" where
  "BNE E s = branch E (\<not> zero s) s"

definition BPL :: "'e env_ops \<Rightarrow> 'e cpu \<Rightarrow> 'e cpu option" where
  "BPL E s = branch E (\<not> negative s) s"

text \<open>\<open>NMI_VECTOR\<close> and \<open>IRQ_VECTOR\<close>, and the seven-cycle interrupt sequence that
  \<open>BRK\<close> shares with the hardware interrupts.\<close>

definition NMI_VECTOR :: u16 where "NMI_VECTOR = 0xFFFA"

definition IRQ_VECTOR :: u16 where "IRQ_VECTOR = 0xFFFE"

definition emulateInterruptSequence :: "'e env_ops \<Rightarrow> bool \<Rightarrow> 'e cpu \<Rightarrow> 'e cpu option" where
  "emulateInterruptSequence E isBrk s = do {
     s \<leftarrow> dummyRead E s;
     s \<leftarrow> push16 E (if isBrk then m_pc s + 1 else m_pc s) s;
     let s = set_unused True (set_brk isBrk s);
     s \<leftarrow> push E (m_status s) s;
     let s = set_irq True s;
     let vector = (if m_interrupt s = NMI \<or> m_nmiSignal s then NMI_VECTOR else IRQ_VECTOR);
     (low, s) \<leftarrow> readMemory E vector s;
     (high, s) \<leftarrow> readMemory E (vector + 1) s;
     Some (s\<lparr>m_pc := MAKE16 low high\<rparr>) }"

definition BRK :: "'e env_ops \<Rightarrow> 'e cpu \<Rightarrow> 'e cpu option" where
  "BRK E s = emulateInterruptSequence E True s"

definition BVC :: "'e env_ops \<Rightarrow> 'e cpu \<Rightarrow> 'e cpu option" where
  "BVC E s = branch E (\<not> overflow s) s"

definition BVS :: "'e env_ops \<Rightarrow> 'e cpu \<Rightarrow> 'e cpu option" where
  "BVS E s = branch E (overflow s) s"

definition CLC :: "'e env_ops \<Rightarrow> 'e cpu \<Rightarrow> 'e cpu option" where
  "CLC E s = do { s \<leftarrow> dummyRead E s; Some (set_carry False s) }"

definition CLD :: "'e env_ops \<Rightarrow> 'e cpu \<Rightarrow> 'e cpu option" where
  "CLD E s = do { s \<leftarrow> dummyRead E s; Some (set_decimal False s) }"

definition CLI :: "'e env_ops \<Rightarrow> 'e cpu \<Rightarrow> 'e cpu option" where
  "CLI E s = do { s \<leftarrow> dummyRead E s; Some (set_irq False s) }"

definition CLV :: "'e env_ops \<Rightarrow> 'e cpu \<Rightarrow> 'e cpu option" where
  "CLV E s = do { s \<leftarrow> dummyRead E s; Some (set_overflow False s) }"

definition CMP :: "'e env_ops \<Rightarrow> 'e cpu \<Rightarrow> 'e cpu option" where
  "CMP E s = do { (v, s) \<leftarrow> readMemory E (m_addr s) s; 
     Some (compareWith (m_a s) v s) }"

definition CPX :: "'e env_ops \<Rightarrow> 'e cpu \<Rightarrow> 'e cpu option" where
  "CPX E s = do { (v, s) \<leftarrow> readMemory E (m_addr s) s; 
     Some (compareWith (m_x s) v s) }"

definition CPY :: "'e env_ops \<Rightarrow> 'e cpu \<Rightarrow> 'e cpu option" where
  "CPY E s = do { (v, s) \<leftarrow> readMemory E (m_addr s) s; 
     Some (compareWith (m_y s) v s) }"

definition DEC :: "'e env_ops \<Rightarrow> 'e cpu \<Rightarrow> 'e cpu option" where
  "DEC E s = do {
     (v, s) \<leftarrow> readMemory E (m_addr s) s;
     s \<leftarrow> writeMemory E (m_addr s) v s;
     let v = v - 1;
     let s = updateZeroAndNegativeFlags v s;
     writeMemory E (m_addr s) v s }"

definition U_DCP :: "'e env_ops \<Rightarrow> 'e cpu \<Rightarrow> 'e cpu option" where
  "U_DCP E s = do {
     (v, s) \<leftarrow> readMemory E (m_addr s) s;
     s \<leftarrow> writeMemory E (m_addr s) v s;
     let v = v - 1;
     s \<leftarrow> writeMemory E (m_addr s) v s;
     Some (compareWith (m_a s) v s) }"

definition DEX :: "'e env_ops \<Rightarrow> 'e cpu \<Rightarrow> 'e cpu option" where
  "DEX E s = do { s \<leftarrow> dummyRead E s; let s = s\<lparr>m_x := m_x s - 1\<rparr>; Some (updateZeroAndNegativeFlags (m_x s) s) }"

definition U_AXS :: "'e env_ops \<Rightarrow> 'e cpu \<Rightarrow> 'e cpu option" where
  "U_AXS E s = do { (v, s) \<leftarrow> readMemory E (m_addr s) s; 
     let result = (m_a s AND m_x s) - v;
     let s = set_carry (m_a s AND m_x s \<ge> v) s;
     let s = s\<lparr>m_x := result\<rparr>;
     Some (updateZeroAndNegativeFlags (m_x s) s) }"

definition DEY :: "'e env_ops \<Rightarrow> 'e cpu \<Rightarrow> 'e cpu option" where
  "DEY E s = do { s \<leftarrow> dummyRead E s; let s = s\<lparr>m_y := m_y s - 1\<rparr>; Some (updateZeroAndNegativeFlags (m_y s) s) }"

definition EOR :: "'e env_ops \<Rightarrow> 'e cpu \<Rightarrow> 'e cpu option" where
  "EOR E s = do { (v, s) \<leftarrow> readMemory E (m_addr s) s; 
     let s = s\<lparr>m_a := m_a s XOR v\<rparr>; Some (updateZeroAndNegativeFlags (m_a s) s) }"

definition INC :: "'e env_ops \<Rightarrow> 'e cpu \<Rightarrow> 'e cpu option" where
  "INC E s = do {
     (v, s) \<leftarrow> readMemory E (m_addr s) s;
     s \<leftarrow> writeMemory E (m_addr s) v s;
     let v = v + 1;
     let s = updateZeroAndNegativeFlags v s;
     writeMemory E (m_addr s) v s }"

definition U_ISB :: "'e env_ops \<Rightarrow> 'e cpu \<Rightarrow> 'e cpu option" where
  "U_ISB E s = do {
     (v, s) \<leftarrow> readMemory E (m_addr s) s;
     s \<leftarrow> writeMemory E (m_addr s) v s;
     let v = v + 1;
     let s = addWithCarry (v XOR 0xFF) s;
     writeMemory E (m_addr s) v s }"

definition INX :: "'e env_ops \<Rightarrow> 'e cpu \<Rightarrow> 'e cpu option" where
  "INX E s = do { s \<leftarrow> dummyRead E s; let s = s\<lparr>m_x := m_x s + 1\<rparr>; Some (updateZeroAndNegativeFlags (m_x s) s) }"

definition INY :: "'e env_ops \<Rightarrow> 'e cpu \<Rightarrow> 'e cpu option" where
  "INY E s = do { s \<leftarrow> dummyRead E s; let s = s\<lparr>m_y := m_y s + 1\<rparr>; Some (updateZeroAndNegativeFlags (m_y s) s) }"

definition JMP :: "'e env_ops \<Rightarrow> 'e cpu \<Rightarrow> 'e cpu option" where
  "JMP E s = Some (s\<lparr>m_pc := m_addr s\<rparr>)"

definition JSR :: "'e env_ops \<Rightarrow> 'e cpu \<Rightarrow> 'e cpu option" where
  "JSR E s = do {
     (low, s) \<leftarrow> fetch E s;
     (_, s) \<leftarrow> readMemory E (0x0100 OR ucast (m_sp s)) s;
     s \<leftarrow> push E (ucast (drop_bit 8 (m_pc s))) s;
     s \<leftarrow> push E (ucast (m_pc s AND 0xFF)) s;
     (high, s) \<leftarrow> fetch E s;
     Some (s\<lparr>m_pc := MAKE16 low high\<rparr>) }"

definition LDA :: "'e env_ops \<Rightarrow> 'e cpu \<Rightarrow> 'e cpu option" where
  "LDA E s = do { (v, s) \<leftarrow> readMemory E (m_addr s) s; 
     let s = s\<lparr>m_a := v\<rparr>; Some (updateZeroAndNegativeFlags (m_a s) s) }"

definition LDX :: "'e env_ops \<Rightarrow> 'e cpu \<Rightarrow> 'e cpu option" where
  "LDX E s = do { (v, s) \<leftarrow> readMemory E (m_addr s) s; 
     let s = s\<lparr>m_x := v\<rparr>; Some (updateZeroAndNegativeFlags (m_x s) s) }"

definition LDY :: "'e env_ops \<Rightarrow> 'e cpu \<Rightarrow> 'e cpu option" where
  "LDY E s = do { (v, s) \<leftarrow> readMemory E (m_addr s) s; 
     let s = s\<lparr>m_y := v\<rparr>; Some (updateZeroAndNegativeFlags (m_y s) s) }"

definition U_LAX :: "'e env_ops \<Rightarrow> 'e cpu \<Rightarrow> 'e cpu option" where
  "U_LAX E s = do { s \<leftarrow> LDA E s; Some (s\<lparr>m_x := m_a s\<rparr>) }"

definition LSR :: "'e env_ops \<Rightarrow> 'e cpu \<Rightarrow> 'e cpu option" where
  "LSR E s = do {
     (v, s) \<leftarrow> readMemory E (m_addr s) s;
     s \<leftarrow> writeMemory E (m_addr s) v s;
     let s = set_carry (test_bits v 0x01) s;
     let v = drop_bit 1 v;
     let s = updateZeroAndNegativeFlags v s;
     writeMemory E (m_addr s) v s }"

definition LSR_implied :: "'e env_ops \<Rightarrow> 'e cpu \<Rightarrow> 'e cpu option" where
  "LSR_implied E s = do { s \<leftarrow> dummyRead E s; 
     let s = set_carry (test_bits (m_a s) 0x01) s;
     let s = s\<lparr>m_a := drop_bit 1 (m_a s)\<rparr>;
     Some (updateZeroAndNegativeFlags (m_a s) s) }"

definition U_ASR :: "'e env_ops \<Rightarrow> 'e cpu \<Rightarrow> 'e cpu option" where
  "U_ASR E s = do { (v, s) \<leftarrow> readMemory E (m_addr s) s; 
     let s = s\<lparr>m_a := m_a s AND v\<rparr>;
     let s = set_carry (test_bits (m_a s) 0x01) s;
     let s = s\<lparr>m_a := drop_bit 1 (m_a s)\<rparr>;
     Some (updateZeroAndNegativeFlags (m_a s) s) }"

definition U_SRE :: "'e env_ops \<Rightarrow> 'e cpu \<Rightarrow> 'e cpu option" where
  "U_SRE E s = do {
     (v, s) \<leftarrow> readMemory E (m_addr s) s;
     s \<leftarrow> writeMemory E (m_addr s) v s;
     let s = set_carry (test_bits v 0x01) s;
     let v = drop_bit 1 v;
     let s = s\<lparr>m_a := m_a s XOR v\<rparr>;
     let s = updateZeroAndNegativeFlags (m_a s) s;
     writeMemory E (m_addr s) v s }"

definition NOP :: "'e env_ops \<Rightarrow> 'e cpu \<Rightarrow> 'e cpu option" where
  "NOP E s = dummyRead E s"

definition U_DOP :: "'e env_ops \<Rightarrow> 'e cpu \<Rightarrow> 'e cpu option" where
  "U_DOP E s = do { (v, s) \<leftarrow> readMemory E (m_addr s) s; 
     Some s }"

definition ORA :: "'e env_ops \<Rightarrow> 'e cpu \<Rightarrow> 'e cpu option" where
  "ORA E s = do { (v, s) \<leftarrow> readMemory E (m_addr s) s; 
     let s = s\<lparr>m_a := m_a s OR v\<rparr>; Some (updateZeroAndNegativeFlags (m_a s) s) }"

definition PHA :: "'e env_ops \<Rightarrow> 'e cpu \<Rightarrow> 'e cpu option" where
  "PHA E s = do { s \<leftarrow> dummyRead E s; push E (m_a s) s }"

definition PHP :: "'e env_ops \<Rightarrow> 'e cpu \<Rightarrow> 'e cpu option" where
  "PHP E s = do { s \<leftarrow> dummyRead E s; let s = set_unused True (set_brk True s); push E (m_status s) s }"

definition PLA :: "'e env_ops \<Rightarrow> 'e cpu \<Rightarrow> 'e cpu option" where
  "PLA E s = do { s \<leftarrow> dummyRead E s; 
     (_, s) \<leftarrow> readMemory E (0x0100 OR ucast (m_sp s)) s;
     (v, s) \<leftarrow> pull E s;
     let s = s\<lparr>m_a := v\<rparr>;
     Some (updateZeroAndNegativeFlags (m_a s) s) }"

definition PLP :: "'e env_ops \<Rightarrow> 'e cpu \<Rightarrow> 'e cpu option" where
  "PLP E s = do { s \<leftarrow> dummyRead E s; 
     (_, s) \<leftarrow> readMemory E (0x0100 OR ucast (m_sp s)) s;
     (v, s) \<leftarrow> pull E s;
     Some (s\<lparr>m_status := v\<rparr>) }"

definition ROL :: "'e env_ops \<Rightarrow> 'e cpu \<Rightarrow> 'e cpu option" where
  "ROL E s = do {
     (v, s) \<leftarrow> readMemory E (m_addr s) s;
     s \<leftarrow> writeMemory E (m_addr s) v s;
     let outputCarry = test_bits v 0x80;
     let v = (if carry s then push_bit 1 v OR 0x01 else push_bit 1 v);
     let s = updateZeroAndNegativeFlags v (set_carry outputCarry s);
     writeMemory E (m_addr s) v s }"

definition ROL_implied :: "'e env_ops \<Rightarrow> 'e cpu \<Rightarrow> 'e cpu option" where
  "ROL_implied E s = do { s \<leftarrow> dummyRead E s; 
     let outputCarry = test_bits (m_a s) 0x80;
     let s = s\<lparr>m_a := (if carry s then push_bit 1 (m_a s) OR 0x01 else push_bit 1 (m_a s))\<rparr>;
     let s = set_carry outputCarry s;
     Some (updateZeroAndNegativeFlags (m_a s) s) }"

definition U_RLA :: "'e env_ops \<Rightarrow> 'e cpu \<Rightarrow> 'e cpu option" where
  "U_RLA E s = do {
     (v, s) \<leftarrow> readMemory E (m_addr s) s;
     s \<leftarrow> writeMemory E (m_addr s) v s;
     let outputCarry = test_bits v 0x80;
     let v = (if carry s then push_bit 1 v OR 0x01 else push_bit 1 v);
     let s = set_carry outputCarry s;
     let s = s\<lparr>m_a := m_a s AND v\<rparr>;
     let s = updateZeroAndNegativeFlags (m_a s) s;
     writeMemory E (m_addr s) v s }"

definition ROR :: "'e env_ops \<Rightarrow> 'e cpu \<Rightarrow> 'e cpu option" where
  "ROR E s = do {
     (v, s) \<leftarrow> readMemory E (m_addr s) s;
     s \<leftarrow> writeMemory E (m_addr s) v s;
     let outputCarry = test_bits v 0x01;
     let v = (if carry s then drop_bit 1 v OR 0x80 else drop_bit 1 v);
     let s = updateZeroAndNegativeFlags v (set_carry outputCarry s);
     writeMemory E (m_addr s) v s }"

definition ROR_implied :: "'e env_ops \<Rightarrow> 'e cpu \<Rightarrow> 'e cpu option" where
  "ROR_implied E s = do { s \<leftarrow> dummyRead E s; 
     let outputCarry = test_bits (m_a s) 0x01;
     let s = s\<lparr>m_a := (if carry s then drop_bit 1 (m_a s) OR 0x80 else drop_bit 1 (m_a s))\<rparr>;
     let s = set_carry outputCarry s;
     Some (updateZeroAndNegativeFlags (m_a s) s) }"

definition U_ARR :: "'e env_ops \<Rightarrow> 'e cpu \<Rightarrow> 'e cpu option" where
  "U_ARR E s = do { (v, s) \<leftarrow> readMemory E (m_addr s) s; 
     let s = s\<lparr>m_a := drop_bit 1 (m_a s AND v) OR (if carry s then 0x80 else 0x00)\<rparr>;
     let s = updateZeroAndNegativeFlags (m_a s) s;
     let s = set_carry (test_bits (m_a s) 0x40) s;
     Some (set_overflow (test_bits ((if carry s then 0x01 else 0x00) XOR
       (drop_bit 5 (m_a s) AND 0x01)) (0xFF :: u8)) s) }"

definition U_RRA :: "'e env_ops \<Rightarrow> 'e cpu \<Rightarrow> 'e cpu option" where
  "U_RRA E s = do {
     (v, s) \<leftarrow> readMemory E (m_addr s) s;
     s \<leftarrow> writeMemory E (m_addr s) v s;
     let outputCarry = test_bits v 0x01;
     let v = (if carry s then drop_bit 1 v OR 0x80 else drop_bit 1 v);
     let s = addWithCarry v (set_carry outputCarry s);
     writeMemory E (m_addr s) v s }"

definition RTI :: "'e env_ops \<Rightarrow> 'e cpu \<Rightarrow> 'e cpu option" where
  "RTI E s = do { s \<leftarrow> dummyRead E s; 
     (_, s) \<leftarrow> readMemory E (0x0100 OR ucast (m_sp s)) s;
     (v, s) \<leftarrow> pull E s;
     let s = s\<lparr>m_status := v\<rparr>;
     (pc, s) \<leftarrow> pull16 E s;
     Some (s\<lparr>m_pc := pc\<rparr>) }"

definition RTS :: "'e env_ops \<Rightarrow> 'e cpu \<Rightarrow> 'e cpu option" where
  "RTS E s = do { s \<leftarrow> dummyRead E s; 
     (_, s) \<leftarrow> readMemory E (0x0100 OR ucast (m_sp s)) s;
     (pc, s) \<leftarrow> pull16 E s;
     let s = s\<lparr>m_pc := pc\<rparr>;
     (_, s) \<leftarrow> readMemory E (m_pc s) s;
     Some (s\<lparr>m_pc := m_pc s + 1\<rparr>) }"

definition SBC :: "'e env_ops \<Rightarrow> 'e cpu \<Rightarrow> 'e cpu option" where
  "SBC E s = do { (v, s) \<leftarrow> readMemory E (m_addr s) s; 
     Some (subWithBorrow v s) }"

definition U_HLT :: "'e env_ops \<Rightarrow> 'e cpu \<Rightarrow> 'e cpu option" where
  "U_HLT E s = Some s"

definition SEC :: "'e env_ops \<Rightarrow> 'e cpu \<Rightarrow> 'e cpu option" where
  "SEC E s = do { s \<leftarrow> dummyRead E s; Some (set_carry True s) }"

definition SED :: "'e env_ops \<Rightarrow> 'e cpu \<Rightarrow> 'e cpu option" where
  "SED E s = do { s \<leftarrow> dummyRead E s; Some (set_decimal True s) }"

definition SEI :: "'e env_ops \<Rightarrow> 'e cpu \<Rightarrow> 'e cpu option" where
  "SEI E s = do { s \<leftarrow> dummyRead E s; Some (set_irq True s) }"

definition STA :: "'e env_ops \<Rightarrow> 'e cpu \<Rightarrow> 'e cpu option" where
  "STA E s = writeMemory E (m_addr s) (m_a s) s"

definition STX :: "'e env_ops \<Rightarrow> 'e cpu \<Rightarrow> 'e cpu option" where
  "STX E s = writeMemory E (m_addr s) (m_x s) s"

definition U_SAX :: "'e env_ops \<Rightarrow> 'e cpu \<Rightarrow> 'e cpu option" where
  "U_SAX E s = writeMemory E (m_addr s) (m_a s AND m_x s) s"

definition STY :: "'e env_ops \<Rightarrow> 'e cpu \<Rightarrow> 'e cpu option" where
  "STY E s = writeMemory E (m_addr s) (m_y s) s"

definition TAX :: "'e env_ops \<Rightarrow> 'e cpu \<Rightarrow> 'e cpu option" where
  "TAX E s = do { s \<leftarrow> dummyRead E s; let s = s\<lparr>m_x := m_a s\<rparr>; Some (updateZeroAndNegativeFlags (m_x s) s) }"

definition U_ATX :: "'e env_ops \<Rightarrow> 'e cpu \<Rightarrow> 'e cpu option" where
  "U_ATX E s = do { (v, s) \<leftarrow> readMemory E (m_addr s) s; 
     let s = s\<lparr>m_a := v\<rparr>;
     let s = s\<lparr>m_x := m_a s\<rparr>; Some (updateZeroAndNegativeFlags (m_a s) s) }"

definition U_ANE :: "'e env_ops \<Rightarrow> 'e cpu \<Rightarrow> 'e cpu option" where
  "U_ANE E s = do { (v, s) \<leftarrow> readMemory E (m_addr s) s; 
     let s = s\<lparr>m_a := m_a s AND m_x s AND v\<rparr>; Some (updateZeroAndNegativeFlags (m_a s) s) }"

definition TAY :: "'e env_ops \<Rightarrow> 'e cpu \<Rightarrow> 'e cpu option" where
  "TAY E s = do { s \<leftarrow> dummyRead E s; let s = s\<lparr>m_y := m_a s\<rparr>; Some (updateZeroAndNegativeFlags (m_y s) s) }"

definition TYA :: "'e env_ops \<Rightarrow> 'e cpu \<Rightarrow> 'e cpu option" where
  "TYA E s = do { s \<leftarrow> dummyRead E s; let s = s\<lparr>m_a := m_y s\<rparr>; Some (updateZeroAndNegativeFlags (m_a s) s) }"

definition TSX :: "'e env_ops \<Rightarrow> 'e cpu \<Rightarrow> 'e cpu option" where
  "TSX E s = do { s \<leftarrow> dummyRead E s; let s = s\<lparr>m_x := m_sp s\<rparr>; Some (updateZeroAndNegativeFlags (m_x s) s) }"

definition TXA :: "'e env_ops \<Rightarrow> 'e cpu \<Rightarrow> 'e cpu option" where
  "TXA E s = do { s \<leftarrow> dummyRead E s; let s = s\<lparr>m_a := m_x s\<rparr>; Some (updateZeroAndNegativeFlags (m_a s) s) }"

definition TXS :: "'e env_ops \<Rightarrow> 'e cpu \<Rightarrow> 'e cpu option" where
  "TXS E s = do { s \<leftarrow> dummyRead E s; Some (s\<lparr>m_sp := m_x s\<rparr>) }"

text \<open>The unstable stores: the value is masked with the high byte of the base address plus one
  unless DMA ran during the indexed dummy read, and on a page crossing the masked value also
  replaces the high byte of the target.\<close>

definition unstableStore :: "'e env_ops \<Rightarrow> u8 \<Rightarrow> 'e cpu \<Rightarrow> 'e cpu option" where
  "unstableStore E reg s =
     (let highMask = m_addrHigh s + 1;
          hadDma = m_indexedDummyReadHadDma s;
          v = (if hadDma then reg else highMask AND reg);
          targetAddr = (if m_addrPageCross s \<and> \<not> hadDma
                        then MAKE16 (ucast (m_addr s AND 0xFF)) v else m_addr s)
      in writeMemory E targetAddr v s)"

definition U_AXA :: "'e env_ops \<Rightarrow> 'e cpu \<Rightarrow> 'e cpu option" where
  "U_AXA E s = unstableStore E (m_a s AND m_x s) s"

definition U_TAS :: "'e env_ops \<Rightarrow> 'e cpu \<Rightarrow> 'e cpu option" where
  "U_TAS E s = (let s = s\<lparr>m_sp := m_x s AND m_a s\<rparr> in unstableStore E (m_sp s) s)"

definition U_SYA :: "'e env_ops \<Rightarrow> 'e cpu \<Rightarrow> 'e cpu option" where
  "U_SYA E s = unstableStore E (m_y s) s"

definition U_SXA :: "'e env_ops \<Rightarrow> 'e cpu \<Rightarrow> 'e cpu option" where
  "U_SXA E s = unstableStore E (m_x s) s"

definition U_LAS :: "'e env_ops \<Rightarrow> 'e cpu \<Rightarrow> 'e cpu option" where
  "U_LAS E s = do { (v, s) \<leftarrow> readMemory E (m_addr s) s; 
     let s = s\<lparr>m_a := v AND m_sp s\<rparr>;
     let s = s\<lparr>m_x := m_a s\<rparr>;
     let s = s\<lparr>m_sp := m_a s\<rparr>;
     Some (updateZeroAndNegativeFlags (m_a s) s) }"

definition U_UNK :: "'e env_ops \<Rightarrow> 'e cpu \<Rightarrow> 'e cpu option" where
  "U_UNK E s = dummyRead E s"

end
