(* ===== verification/Cpu_Run.thy ===== *)
theory Cpu_Run
  imports Cpu_Ops
begin

text \<open>
  Instruction dispatch of \<open>CPU2A03\<close>: the three tables indexed by the opcode, the operand
  fetch, the reset sequence, power-up and \<open>run\<close>, which executes one instruction, one
  interrupt sequence or the reset sequence. The pointers to member functions in
  \<open>OPCODE_TABLE\<close> are the definitions of \<open>Cpu_Ops\<close> themselves.
\<close>

datatype AddrMode =
  M_None | M_Acc | M_Imp | M_Imm | M_Rel | M_Zero | M_Abs | M_ZeroX | M_ZeroY
| M_Ind | M_IndX | M_IndY | M_IndYW | M_AbsX | M_AbsXW | M_AbsY | M_AbsYW

type_synonym 'e opfunc = "'e env_ops \<Rightarrow> 'e cpu \<Rightarrow> 'e cpu option"

definition DO_NOT_POOL_INTS :: u8 where "DO_NOT_POOL_INTS = 0xFF"

definition OPCODE_INT_POOL_CYCLE_TABLE :: "u8 list" where
  "OPCODE_INT_POOL_CYCLE_TABLE = [
     DO_NOT_POOL_INTS, 5, 1, 7, 2, 2, 4, 4,
     2, 1, 1, 1, 3, 3, 5, 5,
     1, 4, 1, 7, 3, 3, 5, 5,
     1, 3, 1, 6, 3, 3, 6, 6,
     5, 5, 1, 7, 2, 2, 4, 4,
     1, 1, 1, 1, 3, 3, 5, 5,
     1, 4, 1, 7, 3, 3, 5, 5,
     1, 3, 1, 6, 3, 3, 6, 6,
     5, 5, 1, 7, 2, 2, 4, 4,
     2, 1, 1, 1, 2, 3, 5, 5,
     1, 4, 1, 7, 3, 3, 5, 5,
     1, 3, 1, 6, 3, 3, 6, 6,
     5, 5, 1, 7, 2, 2, 4, 4,
     3, 1, 1, 1, 4, 3, 5, 5,
     1, 4, 1, 7, 3, 3, 5, 5,
     1, 3, 1, 6, 3, 3, 6, 6,
     1, 5, 1, 5, 2, 2, 2, 2,
     1, 1, 1, 1, 3, 3, 3, 3,
     1, 5, 1, 5, 3, 3, 3, 3,
     1, 4, 1, 4, 4, 4, 4, 4,
     1, 5, 1, 5, 2, 2, 2, 2,
     1, 1, 1, 1, 3, 3, 3, 3,
     1, 4, 1, 4, 3, 3, 3, 3,
     1, 3, 1, 3, 3, 3, 3, 3,
     1, 5, 1, 7, 2, 2, 4, 4,
     1, 1, 1, 1, 3, 3, 5, 5,
     1, 4, 1, 7, 3, 3, 5, 5,
     1, 3, 1, 6, 3, 3, 6, 6,
     1, 5, 2, 7, 2, 2, 4, 4,
     1, 1, 1, 1, 3, 3, 5, 5,
     1, 4, 1, 7, 3, 3, 5, 5,
     1, 3, 1, 6, 3, 3, 6, 6]"

definition addrMode :: "AddrMode list" where
  "addrMode = [
     M_Imp, M_IndX, M_None, M_IndX, M_Zero, M_Zero, M_Zero, M_Zero,
     M_Imp, M_Imm, M_Acc, M_Imm, M_Abs, M_Abs, M_Abs, M_Abs,
     M_Rel, M_IndY, M_None, M_IndYW, M_ZeroX, M_ZeroX, M_ZeroX, M_ZeroX,
     M_Imp, M_AbsY, M_Imp, M_AbsYW, M_AbsX, M_AbsX, M_AbsXW, M_AbsXW,
     M_Abs, M_IndX, M_None, M_IndX, M_Zero, M_Zero, M_Zero, M_Zero,
     M_Imp, M_Imm, M_Acc, M_Imm, M_Abs, M_Abs, M_Abs, M_Abs,
     M_Rel, M_IndY, M_None, M_IndYW, M_ZeroX, M_ZeroX, M_ZeroX, M_ZeroX,
     M_Imp, M_AbsY, M_Imp, M_AbsYW, M_AbsX, M_AbsX, M_AbsXW, M_AbsXW,
     M_Imp, M_IndX, M_None, M_IndX, M_Zero, M_Zero, M_Zero, M_Zero,
     M_Imp, M_Imm, M_Acc, M_Imm, M_Abs, M_Abs, M_Abs, M_Abs,
     M_Rel, M_IndY, M_None, M_IndYW, M_ZeroX, M_ZeroX, M_ZeroX, M_ZeroX,
     M_Imp, M_AbsY, M_Imp, M_AbsYW, M_AbsX, M_AbsX, M_AbsXW, M_AbsXW,
     M_Imp, M_IndX, M_None, M_IndX, M_Zero, M_Zero, M_Zero, M_Zero,
     M_Imp, M_Imm, M_Acc, M_Imm, M_Ind, M_Abs, M_Abs, M_Abs,
     M_Rel, M_IndY, M_None, M_IndYW, M_ZeroX, M_ZeroX, M_ZeroX, M_ZeroX,
     M_Imp, M_AbsY, M_Imp, M_AbsYW, M_AbsX, M_AbsX, M_AbsXW, M_AbsXW,
     M_Imm, M_IndX, M_Imm, M_IndX, M_Zero, M_Zero, M_Zero, M_Zero,
     M_Imp, M_Imm, M_Imp, M_Imm, M_Abs, M_Abs, M_Abs, M_Abs,
     M_Rel, M_IndYW, M_None, M_IndYW, M_ZeroX, M_ZeroX, M_ZeroY, M_ZeroY,
     M_Imp, M_AbsYW, M_Imp, M_AbsYW, M_AbsXW, M_AbsXW, M_AbsYW, M_AbsYW,
     M_Imm, M_IndX, M_Imm, M_IndX, M_Zero, M_Zero, M_Zero, M_Zero,
     M_Imp, M_Imm, M_Imp, M_Imm, M_Abs, M_Abs, M_Abs, M_Abs,
     M_Rel, M_IndY, M_None, M_IndY, M_ZeroX, M_ZeroX, M_ZeroY, M_ZeroY,
     M_Imp, M_AbsY, M_Imp, M_AbsY, M_AbsX, M_AbsX, M_AbsY, M_AbsY,
     M_Imm, M_IndX, M_Imm, M_IndX, M_Zero, M_Zero, M_Zero, M_Zero,
     M_Imp, M_Imm, M_Imp, M_Imm, M_Abs, M_Abs, M_Abs, M_Abs,
     M_Rel, M_IndY, M_None, M_IndYW, M_ZeroX, M_ZeroX, M_ZeroX, M_ZeroX,
     M_Imp, M_AbsY, M_Imp, M_AbsYW, M_AbsX, M_AbsX, M_AbsXW, M_AbsXW,
     M_Imm, M_IndX, M_Imm, M_IndX, M_Zero, M_Zero, M_Zero, M_Zero,
     M_Imp, M_Imm, M_Imp, M_Imm, M_Abs, M_Abs, M_Abs, M_Abs,
     M_Rel, M_IndY, M_None, M_IndYW, M_ZeroX, M_ZeroX, M_ZeroX, M_ZeroX,
     M_Imp, M_AbsY, M_Imp, M_AbsYW, M_AbsX, M_AbsX, M_AbsXW, M_AbsXW]"

definition OPCODE_TABLE :: "'e opfunc list" where
  "OPCODE_TABLE = [
     BRK, ORA, U_HLT, U_SLO, U_DOP, ORA, ASL, U_SLO,
     PHP, ORA, ASL_implied, AAC, U_DOP, ORA, ASL, U_SLO,
     BPL, ORA, U_HLT, U_SLO, U_DOP, ORA, ASL, U_SLO,
     CLC, ORA, NOP, U_SLO, U_DOP, ORA, ASL, U_SLO,
     JSR, AND_op, U_HLT, U_RLA, BIT, AND_op, ROL, U_RLA,
     PLP, AND_op, ROL_implied, AAC, BIT, AND_op, ROL, U_RLA,
     BMI, AND_op, NOP, U_RLA, U_DOP, AND_op, ROL, U_RLA,
     SEC, AND_op, NOP, U_RLA, U_DOP, AND_op, ROL, U_RLA,
     RTI, EOR, U_HLT, U_SRE, U_DOP, EOR, LSR, U_SRE,
     PHA, EOR, LSR_implied, U_ASR, JMP, EOR, LSR, U_SRE,
     BVC, EOR, U_HLT, U_SRE, U_DOP, EOR, LSR, U_SRE,
     CLI, EOR, NOP, U_SRE, U_DOP, EOR, LSR, U_SRE,
     RTS, ADC, U_HLT, U_RRA, U_DOP, ADC, ROR, U_RRA,
     PLA, ADC, ROR_implied, U_ARR, JMP, ADC, ROR, U_RRA,
     BVS, ADC, U_HLT, U_RRA, U_DOP, ADC, ROR, U_RRA,
     SEI, ADC, NOP, U_RRA, U_DOP, ADC, ROR, U_RRA,
     U_DOP, STA, U_DOP, U_SAX, STY, STA, STX, U_SAX,
     DEY, U_DOP, TXA, U_ANE, STY, STA, STX, U_SAX,
     BCC, STA, U_HLT, U_AXA, STY, STA, STX, U_SAX,
     TYA, STA, TXS, U_TAS, U_SYA, STA, U_SXA, U_AXA,
     LDY, LDA, LDX, U_LAX, LDY, LDA, LDX, U_LAX,
     TAY, LDA, TAX, U_ATX, LDY, LDA, LDX, U_LAX,
     BCS, LDA, U_HLT, U_LAX, LDY, LDA, LDX, U_LAX,
     CLV, LDA, TSX, U_LAS, LDY, LDA, LDX, U_LAX,
     CPY, CMP, U_DOP, U_DCP, CPY, CMP, DEC, U_DCP,
     INY, CMP, DEX, U_AXS, CPY, CMP, DEC, U_DCP,
     BNE, CMP, U_HLT, U_DCP, U_DOP, CMP, DEC, U_DCP,
     CLD, CMP, NOP, U_DCP, U_DOP, CMP, DEC, U_DCP,
     CPX, SBC, U_DOP, U_ISB, CPX, SBC, INC, U_ISB,
     INX, SBC, NOP, SBC, CPX, SBC, INC, U_ISB,
     BEQ, SBC, U_HLT, U_ISB, U_DOP, SBC, INC, U_ISB,
     SED, SBC, NOP, U_ISB, U_DOP, SBC, INC, U_ISB]"

definition emulateOpcode :: "'e env_ops \<Rightarrow> 'e cpu \<Rightarrow> 'e cpu option" where
  "emulateOpcode E s = (OPCODE_TABLE ! unat (m_opcode s)) E s"

definition fetchOperand :: "'e env_ops \<Rightarrow> 'e cpu \<Rightarrow> 'e cpu option" where
  "fetchOperand E s =
     (case addrMode ! unat (m_opcode s) of
        M_Acc \<Rightarrow> Some (s\<lparr>m_addr := 0\<rparr>)
      | M_Imp \<Rightarrow> Some (s\<lparr>m_addr := 0\<rparr>)
      | M_Imm \<Rightarrow> Some (getAddrImmediate s)
      | M_Rel \<Rightarrow> Some (getAddrRelative s)
      | M_Zero \<Rightarrow> getAddrZeroPage E s
      | M_ZeroX \<Rightarrow> getAddrZeroPageX E s
      | M_ZeroY \<Rightarrow> getAddrZeroPageY E s
      | M_Ind \<Rightarrow> getAddrIndirect E s
      | M_IndX \<Rightarrow> getAddrIndirectX E s
      | M_IndY \<Rightarrow> getAddrIndirectY E False s
      | M_IndYW \<Rightarrow> getAddrIndirectY E True s
      | M_Abs \<Rightarrow> if m_opcode s \<noteq> 0x20 then getAddrAbsolute E s else Some s
      | M_AbsX \<Rightarrow> getAddrAbsoluteX E False s
      | M_AbsXW \<Rightarrow> getAddrAbsoluteX E True s
      | M_AbsY \<Rightarrow> getAddrAbsoluteY E False s
      | M_AbsYW \<Rightarrow> getAddrAbsoluteY E True s
      | M_None \<Rightarrow> Some s)"

text \<open>The assignments that \<open>init\<close> and \<open>resetSequence\<close> have in common.\<close>

definition clearVolatile :: "'e env_ops \<Rightarrow> 'e cpu \<Rightarrow> 'e cpu" where
  "clearVolatile E s =
     m_dma_update (\<lambda>_. dma_init) (resetPpuTimingPhase (ppu_region E (env s))
       (s\<lparr>m_addr := 0, m_opcode := 0, m_nmiSignal := False, m_irqSignal := False,
          m_nmiStep := WAITING_LOW, m_irqStep := False, m_poolIntsAtCycle := DO_NOT_POOL_INTS,
          m_runCount := 0, m_writeCycle := False, m_lastReadHadDma := False,
          m_indexedDummyReadHadDma := False, m_currentInstructionCycle := 0,
          m_interrupt := NONE\<rparr>))"

definition init :: "'e env_ops \<Rightarrow> 'e cpu \<Rightarrow> 'e cpu option" where
  "init E s = do {
     (low, s) \<leftarrow> readMemory E 0xFFFC s;
     (high, s) \<leftarrow> readMemory E 0xFFFD s;
     Some (clearVolatile E (s\<lparr>m_pc := MAKE16 low high, m_sp := 0xFD, m_status := 0x24,
       m_cyclesCounter := 0, m_a := 0, m_x := 0, m_y := 0, m_resetRequest := False\<rparr>)) }"

text \<open>A bus read that bypasses the DMA unit, and a cycle without bus access.\<close>

definition rawRead :: "'e env_ops \<Rightarrow> u16 \<Rightarrow> 'e cpu \<Rightarrow> u8 \<times> 'e cpu" where
  "rawRead E addr s =
     (let s = beginCycle E s; (v, e) = bus_read E (view s) addr (env s)
      in (v, endCycle E False (Some (addr, False)) (s\<lparr>env := e\<rparr>)))"

definition idleCycle :: "'e env_ops \<Rightarrow> 'e cpu \<Rightarrow> 'e cpu" where
  "idleCycle E s = endCycle E False None (beginCycle E s)"

definition resetSequence :: "'e env_ops \<Rightarrow> 'e cpu \<Rightarrow> 'e cpu" where
  "resetSequence E s =
     (let s = s\<lparr>m_sp := m_sp s - 3\<rparr>;
          s = set_unused True (set_brk False (set_irq True s));
          s = clearVolatile E (s\<lparr>m_addrHigh := 0, m_addrPageCross := False\<rparr>);
          (low, s) = rawRead E 0xFFFC s;
          (high, s) = rawRead E 0xFFFD s
      in (idleCycle E ^^ 5) (s\<lparr>m_pc := MAKE16 low high\<rparr>))"

definition reset :: "'e cpu \<Rightarrow> 'e cpu" where
  "reset s = s\<lparr>m_resetRequest := True\<rparr>"

definition resetVolatileStateAfterLoad :: "'e cpu \<Rightarrow> 'e cpu" where
  "resetVolatileStateAfterLoad s = s\<lparr>m_resetRequest := False\<rparr>"

text \<open>One instruction: redirect of the NSF player, opcode fetch, operand fetch, operation.\<close>

definition runInstruction :: "'e env_ops \<Rightarrow> 'e cpu \<Rightarrow> 'e cpu option" where
  "runInstruction E s = do {
     let (redirect, e) = cart_consumeNsfPlayerInstructionRedirect E (env s);
     let s = s\<lparr>env := e\<rparr>;
     let s = (case redirect of None \<Rightarrow> s | Some a \<Rightarrow> s\<lparr>m_pc := a\<rparr>);
     (op, s) \<leftarrow> fetch E s;
     let s = s\<lparr>m_opcode := op, m_poolIntsAtCycle := OPCODE_INT_POOL_CYCLE_TABLE ! unat op\<rparr>;
     s \<leftarrow> fetchOperand E s;
     emulateOpcode E s }"

definition runInterrupt :: "'e env_ops \<Rightarrow> 'e cpu \<Rightarrow> 'e cpu option" where
  "runInterrupt E s = do {
     let s = s\<lparr>m_poolIntsAtCycle := DO_NOT_POOL_INTS, m_opcode := 0x00\<rparr>;
     s \<leftarrow> dummyRead E s;
     s \<leftarrow> emulateInterruptSequence E False s;
     Some (s\<lparr>m_interrupt := NONE\<rparr>) }"

text \<open>\<open>run\<close>: its C++ result is the field \<open>m_runCount\<close> of the state it leaves.\<close>

definition run :: "'e env_ops \<Rightarrow> 'e cpu \<Rightarrow> 'e cpu option" where
  "run E s =
     (let s = s\<lparr>m_runCount := 0, m_currentInstructionCycle := 0, m_addr := 0, m_addrHigh := 0,
                m_addrPageCross := False\<rparr>
      in if m_resetRequest s then Some (resetSequence E (s\<lparr>m_resetRequest := False\<rparr>))
         else if m_interrupt s \<noteq> NONE then runInterrupt E s
         else runInstruction E s)"

end
