(* ===== verification/Cpu_Timing.thy ===== *)
theory Cpu_Timing
  imports Quiet_Bus Cpu_Run
begin

text \<open>
  Cycle counts of \<open>CPU2A03::run\<close>. In a calm state (nothing asks for DMA) a memory read takes
  exactly one cycle and returns; a write takes one cycle in every state. From this follow the
  length of every operand fetch and of every operation, and with the tables of the source the
  length of every instruction, compared with the documented 6502 cycle table.
\<close>

definition dma_idle :: "dma \<Rightarrow> bool" where
  "dma_idle d \<longleftrightarrow> \<not> d_dmaNeedHalt d \<and> \<not> d_dmcSingleCycleAbortPending d"

definition calm :: "('e \<Rightarrow> bool) \<Rightarrow> 'e cpu \<Rightarrow> bool" where
  "calm J s \<longleftrightarrow> J (env s) \<and> dma_idle (m_dma s)"

text \<open>Value and state of a read that returns, state of a write that returns.\<close>

definition rv :: "'e env_ops \<Rightarrow> u16 \<Rightarrow> 'e cpu \<Rightarrow> u8" where
  "rv E a s = fst (the (readMemory E a s))"

definition rt :: "'e env_ops \<Rightarrow> u16 \<Rightarrow> 'e cpu \<Rightarrow> 'e cpu" where
  "rt E a s = snd (the (readMemory E a s))"

definition wt :: "'e env_ops \<Rightarrow> u16 \<Rightarrow> u8 \<Rightarrow> 'e cpu \<Rightarrow> 'e cpu" where
  "wt E a v s = the (writeMemory E a v s)"

lemma calm_update [simp]:
  "calm J (s\<lparr>m_pc := pc\<rparr>) = calm J s" "calm J (s\<lparr>m_sp := b\<rparr>) = calm J s"
  "calm J (s\<lparr>m_a := b\<rparr>) = calm J s" "calm J (s\<lparr>m_x := b\<rparr>) = calm J s"
  "calm J (s\<lparr>m_y := b\<rparr>) = calm J s" "calm J (s\<lparr>m_status := b\<rparr>) = calm J s"
  "calm J (s\<lparr>m_opcode := b\<rparr>) = calm J s" "calm J (s\<lparr>m_addr := pc\<rparr>) = calm J s"
  "calm J (s\<lparr>m_addrHigh := b\<rparr>) = calm J s" "calm J (s\<lparr>m_addrPageCross := c\<rparr>) = calm J s"
  "calm J (s\<lparr>m_poolIntsAtCycle := b\<rparr>) = calm J s" "calm J (s\<lparr>m_runCount := n\<rparr>) = calm J s"
  "calm J (s\<lparr>m_currentInstructionCycle := n\<rparr>) = calm J s"
  "calm J (s\<lparr>m_indexedDummyReadHadDma := c\<rparr>) = calm J s"
  "calm J (s\<lparr>m_interrupt := i\<rparr>) = calm J s"
  by (simp_all add: calm_def)

lemma processPending_idle: "dma_idle (m_dma s) \<Longrightarrow> processPending E a w s = Some s"
  by (simp add: processPending_def dma_request_phase_def dma_idle_def Let_def)

text \<open>On a write cycle the DMA unit never takes a cycle, whatever is pending.\<close>

definition dma_on_write :: "bool \<Rightarrow> dma \<Rightarrow> dma" where
  "dma_on_write get d =
     (if d_dmcSingleCycleAbortPending d then
        if d_dmcSingleCycleAbortDelay d > 0
        then d\<lparr>d_dmcSingleCycleAbortDelay := d_dmcSingleCycleAbortDelay d - 1\<rparr>
        else d\<lparr>d_dmcSingleCycleAbortPending := False\<rparr>
      else if d_dmcDmaRunning d \<and> d_dmaNeedHalt d \<and> d_dmcInitialLoadPhasePending d \<and> get
      then d\<lparr>d_dmcInitialLoadPhasePending := False\<rparr> else d)"

lemma dma_on_write_idle [simp]: "dma_idle d \<Longrightarrow> dma_on_write get d = d"
  by (simp add: dma_on_write_def dma_idle_def)

lemma processPending_write:
  "processPending E a True s = Some (s\<lparr>m_dma := dma_on_write (isDmaGetCycle s) (m_dma s)\<rparr>)"
  by (simp add: processPending_def dma_request_phase_def dma_on_write_def Let_def)

lemma wt_eq:
  fixes E :: "'e env_ops" and s :: "'e cpu"
  defines "u \<equiv> beginCycle E (s\<lparr>m_writeCycle := True, m_dma := dma_on_write (isDmaGetCycle s) (m_dma s)\<rparr>)"
  shows "writeMemory E a v s = Some (wt E a v s)"
    and "wt E a v s =
      (endCycle E False (Some (a, True))
        (dma_requests (fst (bus_write E (view u) a v (env u)))
          (u\<lparr>env := snd (bus_write E (view u) a v (env u))\<rparr>)))\<lparr>m_writeCycle := False\<rparr>"
proof -
  have "isDmaGetCycle (s\<lparr>m_writeCycle := True\<rparr>) = isDmaGetCycle s"
    by (simp add: isDmaGetCycle_def isOddCycle_def)
  then show "writeMemory E a v s = Some (wt E a v s)"
    "wt E a v s =
      (endCycle E False (Some (a, True))
        (dma_requests (fst (bus_write E (view u) a v (env u)))
          (u\<lparr>env := snd (bus_write E (view u) a v (env u))\<rparr>)))\<lparr>m_writeCycle := False\<rparr>"
    by (simp_all add: writeMemory_def wt_def u_def processPending_write Let_def case_prod_unfold)
qed

lemma wt_core:
  "core (wt E a v s) = core (s\<lparr>m_writeCycle := False\<rparr>)"
  "m_runCount (wt E a v s) = Suc (m_runCount s)"
  "m_currentInstructionCycle (wt E a v s) = Suc (m_currentInstructionCycle s)"
proof -
  let ?u = "beginCycle E (s\<lparr>m_writeCycle := True, m_dma := dma_on_write (isDmaGetCycle s) (m_dma s)\<rparr>)"
  let ?w = "bus_write E (view ?u) a v (env ?u)"
  let ?t = "endCycle E False (Some (a, True)) (dma_requests (fst ?w) (?u\<lparr>env := snd ?w\<rparr>))"
  have "core ?t = core (s\<lparr>m_writeCycle := True\<rparr>)" by (simp add: frame_simps)
  then show "core (wt E a v s) = core (s\<lparr>m_writeCycle := False\<rparr>)"
    "m_runCount (wt E a v s) = Suc (m_runCount s)"
    "m_currentInstructionCycle (wt E a v s) = Suc (m_currentInstructionCycle s)"
    by (simp_all add: wt_eq(2)) (simp add: core_def)
qed

lemma wt_frame [simp]:
  "m_pc (wt E a v s) = m_pc s" "m_sp (wt E a v s) = m_sp s" "m_a (wt E a v s) = m_a s"
  "m_x (wt E a v s) = m_x s" "m_y (wt E a v s) = m_y s" "m_status (wt E a v s) = m_status s"
  "m_addr (wt E a v s) = m_addr s" "m_addrHigh (wt E a v s) = m_addrHigh s"
  "m_addrPageCross (wt E a v s) = m_addrPageCross s" "m_opcode (wt E a v s) = m_opcode s"
  "m_poolIntsAtCycle (wt E a v s) = m_poolIntsAtCycle s"
  "m_resetRequest (wt E a v s) = m_resetRequest s"
  using core_eqD[OF wt_core(1)] by simp_all

text \<open>A read that returns leaves the registers alone, calm or not.\<close>

lemma readMemory_frame:
  assumes "readMemory E a s = Some (v, t)"
  shows "core t = core s"
proof -
  obtain u where u: "processPending E a (m_writeCycle s) s = Some u"
    using assms by (auto simp: readMemory_def Let_def split: bind_splits)
  then have "core u = core s" using processPending_frame by (force simp: dma_frame_def)
  with assms u show ?thesis
    by (auto simp: readMemory_def Let_def case_prod_unfold frame_simps)
qed

context quiet_bus
begin

lemma read_returns:
  assumes "calm J s"
  shows "readMemory E a s = Some (rv E a s, rt E a s)"
    and "m_runCount (rt E a s) = Suc (m_runCount s)"
    and "m_currentInstructionCycle (rt E a s) = Suc (m_currentInstructionCycle s)"
    and "calm J (rt E a s)"
proof -
  let ?u = "beginCycle E (s\<lparr>m_lastReadHadDma := False\<rparr>)"
  let ?r = "bus_read E (view ?u) a (env ?u)"
  have eq: "readMemory E a s =
      Some (fst ?r, endCycle E False (Some (a, False)) (?u\<lparr>env := snd ?r\<rparr>))"
    using assms by (simp add: readMemory_def calm_def processPending_idle Let_def case_prod_unfold)
  show "readMemory E a s = Some (rv E a s, rt E a s)" by (simp add: eq rv_def rt_def)
  show "m_runCount (rt E a s) = Suc (m_runCount s)"
    "m_currentInstructionCycle (rt E a s) = Suc (m_currentInstructionCycle s)"
    by (simp_all add: rt_def eq)
  have "J (env (s\<lparr>m_lastReadHadDma := False\<rparr>))" using assms by (simp add: calm_def)
  note b = quiet_beginCycle[OF this]
  show "calm J (rt E a s)"
    using assms b quiet_endCycle quiet_read by (simp add: rt_def eq calm_def)
qed

lemma read_frame:
  assumes "calm J s"
  shows "m_pc (rt E a s) = m_pc s" "m_sp (rt E a s) = m_sp s" "m_a (rt E a s) = m_a s"
    "m_x (rt E a s) = m_x s" "m_y (rt E a s) = m_y s" "m_status (rt E a s) = m_status s"
    "m_addr (rt E a s) = m_addr s" "m_addrHigh (rt E a s) = m_addrHigh s"
    "m_addrPageCross (rt E a s) = m_addrPageCross s" "m_opcode (rt E a s) = m_opcode s"
    "m_poolIntsAtCycle (rt E a s) = m_poolIntsAtCycle s"
    "m_resetRequest (rt E a s) = m_resetRequest s"
  using core_eqD[OF readMemory_frame[OF read_returns(1)[OF assms]]] by auto

lemma write_calm:
  assumes "calm J s" and "a < 0x2000"
  shows "calm J (wt E a v s)"
proof -
  let ?u = "beginCycle E (s\<lparr>m_writeCycle := True\<rparr>)"
  let ?w = "bus_write E (view ?u) a v (env ?u)"
  have "J (env (s\<lparr>m_writeCycle := True\<rparr>))" using assms by (simp add: calm_def)
  note b = quiet_beginCycle[OF this]
  have w: "fst ?w = []" "J (snd ?w)" using quiet_write[OF b(2)] assms(2) by auto
  have "dma_on_write g (m_dma s) = m_dma s" for g using assms by (simp add: calm_def)
  then have "wt E a v s = (endCycle E False (Some (a, True)) (?u\<lparr>env := snd ?w\<rparr>))\<lparr>m_writeCycle := False\<rparr>"
    using w(1) by (simp add: wt_eq(2))
  then show ?thesis using assms b w quiet_endCycle by (simp add: calm_def)
qed

lemmas calm_rules = read_returns read_frame write_calm wt_eq(1) wt_core(2,3)

end

subsection \<open>The length of an operand fetch and of an operation\<close>

text \<open>An operation of exactly \<open>n\<close> cycles: from every calm state it returns, having clocked
  the CPU \<open>n\<close> times, with the opcode and page-cross latches unchanged.\<close>

definition takes :: "'e env_ops \<Rightarrow> ('e \<Rightarrow> bool) \<Rightarrow> nat \<Rightarrow> 'e opfunc \<Rightarrow> bool" where
  "takes E J n f \<longleftrightarrow> (\<forall>s. calm J s \<longrightarrow> (\<exists>t. f E s = Some t \<and> m_runCount t = m_runCount s + n \<and>
     m_opcode t = m_opcode s \<and> m_addrPageCross t = m_addrPageCross s))"

lemma takesD:
  assumes "takes E J n f" "calm J s"
  obtains t where "f E s = Some t" "m_runCount t = m_runCount s + n" "m_opcode t = m_opcode s"
    "m_addrPageCross t = m_addrPageCross s"
  using assms by (auto simp: takes_def)

lemma flags_frame [simp]:
  "m_runCount (updateZeroAndNegativeFlags v s) = m_runCount s"
  "m_opcode (updateZeroAndNegativeFlags v s) = m_opcode s"
  "m_addr (updateZeroAndNegativeFlags v s) = m_addr s"
  "m_addrPageCross (updateZeroAndNegativeFlags v s) = m_addrPageCross s"
  "calm J (updateZeroAndNegativeFlags v s) = calm J s"
  by (simp_all add: updateZeroAndNegativeFlags_def)

lemma arith_frame [simp]:
  "m_runCount (addWithCarry v s) = m_runCount s" "m_opcode (addWithCarry v s) = m_opcode s"
  "m_addr (addWithCarry v s) = m_addr s" "m_addrPageCross (addWithCarry v s) = m_addrPageCross s"
  "m_runCount (subWithBorrow v s) = m_runCount s" "m_opcode (subWithBorrow v s) = m_opcode s"
  "m_addrPageCross (subWithBorrow v s) = m_addrPageCross s"
  "m_runCount (compareWith r v s) = m_runCount s" "m_opcode (compareWith r v s) = m_opcode s"
  "m_addrPageCross (compareWith r v s) = m_addrPageCross s"
  by (simp_all add: addWithCarry_def subWithBorrow_def compareWith_def Let_def)

context quiet_bus
begin

lemma read_ops:
  "takes E J 1 ADC" "takes E J 1 AND_op" "takes E J 1 AAC" "takes E J 1 BIT" "takes E J 1 CMP"
  "takes E J 1 CPX" "takes E J 1 CPY" "takes E J 1 U_AXS" "takes E J 1 EOR" "takes E J 1 LDA"
  "takes E J 1 LDX" "takes E J 1 LDY" "takes E J 1 U_LAX" "takes E J 1 U_ASR" "takes E J 1 U_DOP"
  "takes E J 1 ORA" "takes E J 1 U_ARR" "takes E J 1 SBC" "takes E J 1 U_ATX" "takes E J 1 U_ANE"
  "takes E J 1 U_LAS"
  by (simp_all add: takes_def Let_def calm_rules ADC_def AND_op_def AAC_def BIT_def CMP_def CPX_def
      CPY_def U_AXS_def EOR_def LDA_def LDX_def LDY_def U_LAX_def U_ASR_def U_DOP_def ORA_def
      U_ARR_def SBC_def U_ATX_def U_ANE_def U_LAS_def)

lemma implied_ops:
  "takes E J 1 ASL_implied" "takes E J 1 CLC" "takes E J 1 CLD" "takes E J 1 CLI" "takes E J 1 CLV"
  "takes E J 1 DEX" "takes E J 1 DEY" "takes E J 1 INX" "takes E J 1 INY" "takes E J 1 LSR_implied"
  "takes E J 1 NOP" "takes E J 1 ROL_implied" "takes E J 1 ROR_implied" "takes E J 1 SEC"
  "takes E J 1 SED" "takes E J 1 SEI" "takes E J 1 TAX" "takes E J 1 TAY" "takes E J 1 TYA"
  "takes E J 1 TSX" "takes E J 1 TXA" "takes E J 1 TXS"
  by (simp_all add: takes_def Let_def dummyRead_def calm_rules ASL_implied_def CLC_def CLD_def
      CLI_def CLV_def DEX_def DEY_def INX_def INY_def LSR_implied_def NOP_def ROL_implied_def
      ROR_implied_def SEC_def SED_def SEI_def TAX_def TAY_def TYA_def TSX_def TXA_def TXS_def)

lemma rmw_ops:
  "takes E J 3 ASL" "takes E J 3 U_SLO" "takes E J 3 DEC" "takes E J 3 U_DCP" "takes E J 3 INC"
  "takes E J 3 U_ISB" "takes E J 3 LSR" "takes E J 3 U_SRE" "takes E J 3 ROL" "takes E J 3 U_RLA"
  "takes E J 3 ROR" "takes E J 3 U_RRA"
  by (simp_all add: takes_def Let_def calm_rules ASL_def U_SLO_def DEC_def U_DCP_def INC_def
      U_ISB_def LSR_def U_SRE_def ROL_def U_RLA_def ROR_def U_RRA_def)

lemma store_ops:
  "takes E J 1 STA" "takes E J 1 STX" "takes E J 1 STY" "takes E J 1 U_SAX" "takes E J 1 U_AXA"
  "takes E J 1 U_TAS" "takes E J 1 U_SYA" "takes E J 1 U_SXA" "takes E J 0 JMP" "takes E J 0 U_HLT"
  by (simp_all add: takes_def Let_def calm_rules STA_def STX_def STY_def U_SAX_def U_AXA_def
      U_TAS_def U_SYA_def U_SXA_def unstableStore_def JMP_def U_HLT_def)

lemma stack_ops:
  "takes E J 2 PHA" "takes E J 2 PHP" "takes E J 3 PLA" "takes E J 3 PLP" "takes E J 5 RTI"
  "takes E J 5 RTS" "takes E J 5 JSR" "takes E J 6 BRK"
  by (simp_all add: takes_def Let_def dummyRead_def push_def pull_def pull16_def push16_def fetch_def
      calm_rules PHA_def PHP_def PLA_def PLP_def RTI_def RTS_def JSR_def BRK_def
      emulateInterruptSequence_def stack_page_or stack_page_plus)

end

subsection \<open>The cycle table\<close>

text \<open>The length of an operand fetch, without the cycle that a page crossing adds.\<close>

fun mode_cost :: "AddrMode \<Rightarrow> nat" where
  "mode_cost M_Zero = 1" | "mode_cost M_ZeroX = 2" | "mode_cost M_ZeroY = 2"
| "mode_cost M_Abs = 2" | "mode_cost M_AbsX = 2" | "mode_cost M_AbsY = 2"
| "mode_cost M_AbsXW = 3" | "mode_cost M_AbsYW = 3" | "mode_cost M_Ind = 4"
| "mode_cost M_IndX = 4" | "mode_cost M_IndY = 3" | "mode_cost M_IndYW = 4"
| "mode_cost _ = 0"

definition crossable :: "AddrMode \<Rightarrow> bool" where
  "crossable m \<longleftrightarrow> m = M_AbsX \<or> m = M_AbsY \<or> m = M_IndY"

text \<open>An operand fetch of \<open>n\<close> cycles, and one more when \<open>x\<close> holds and the address
  crossed a page.\<close>

definition fetches :: "('e \<Rightarrow> bool) \<Rightarrow> nat \<Rightarrow> bool \<Rightarrow> 'e cpu \<Rightarrow> 'e cpu option \<Rightarrow> bool" where
  "fetches J n x s r \<longleftrightarrow> (\<exists>t. r = Some t \<and> calm J t \<and> m_opcode t = m_opcode s \<and>
     m_runCount t = m_runCount s + n + (if x \<and> m_addrPageCross t then 1 else 0))"

lemma fetches_shift:
  assumes "fetches J n x u r" "m_opcode u = m_opcode s" "m_runCount u + n = m_runCount s + k"
  shows "fetches J k x s r"
  using assms by (auto simp: fetches_def)

context quiet_bus
begin

lemma indexedTail_cost:
  assumes "calm J s"
  shows "fetches J (of_bool dummy) (\<not> dummy) s (indexedTail E i dummy s)"
  using assms
  by (cases "test_bits (m_addr s XOR (m_addr s + ucast i)) 0xFF00 \<or> dummy")
    (auto simp: fetches_def indexedTail_def Let_def calm_rules)

lemma indexed_modes_via:
  assumes "calm J s" "\<And>i u. calm J u \<Longrightarrow> fetches J n x u (indexedTail E i dummy u)"
  shows "fetches J (2 + n) x s (getAddrAbsoluteX E dummy s)"
    and "fetches J (2 + n) x s (getAddrAbsoluteY E dummy s)"
    and "fetches J (3 + n) x s (getAddrIndirectY E dummy s)"
  unfolding getAddrAbsoluteX_def getAddrAbsoluteY_def getAddrIndirectY_def fetch_def
  using assms(1)
  by (simp_all add: calm_rules)
    (rule fetches_shift, rule assms(2); simp add: calm_rules)+

lemmas indexed_modes = indexed_modes_via[OF _ indexedTail_cost]

lemma plain_modes:
  assumes "calm J s"
  shows "fetches J 1 False s (getAddrZeroPage E s)" "fetches J 2 False s (getAddrZeroPageX E s)"
    "fetches J 2 False s (getAddrZeroPageY E s)" "fetches J 2 False s (getAddrAbsolute E s)"
    "fetches J 4 False s (getAddrIndirect E s)" "fetches J 4 False s (getAddrIndirectX E s)"
  using assms by (simp_all add: fetches_def getAddrZeroPage_def getAddrZeroPageX_def Let_def
      getAddrZeroPageY_def getAddrAbsolute_def getAddrIndirect_def getAddrIndirectX_def fetch_def
      calm_rules)

lemma fetchOperand_cost:
  assumes "calm J s"
  defines "m \<equiv> addrMode ! unat (m_opcode s)"
  shows "fetches J (if m_opcode s = 0x20 then 0 else mode_cost m) (crossable m) s (fetchOperand E s)"
proof (cases "m_opcode s = 0x20")
  case True
  then show ?thesis
    using assms(1) by (simp add: fetchOperand_def fetches_def m_def addrMode_def crossable_def)
next
  case False
  then show ?thesis
    using plain_modes[OF assms(1)] indexed_modes[OF assms(1), of True]
      indexed_modes[OF assms(1), of False] assms(1)
    by (cases m) (simp_all add: fetchOperand_def crossable_def getAddrImmediate_def
        getAddrRelative_def fetches_def flip: m_def)
qed

end

text \<open>The length of an operation after its operand fetch; \<open>None\<close> is a branch.\<close>

definition op_cost :: "nat option list" where
  "op_cost = [
     Some 6, Some 1, Some 0, Some 3, Some 1, Some 1, Some 3, Some 3,
     Some 2, Some 1, Some 1, Some 1, Some 1, Some 1, Some 3, Some 3,
     None, Some 1, Some 0, Some 3, Some 1, Some 1, Some 3, Some 3,
     Some 1, Some 1, Some 1, Some 3, Some 1, Some 1, Some 3, Some 3,
     Some 5, Some 1, Some 0, Some 3, Some 1, Some 1, Some 3, Some 3,
     Some 3, Some 1, Some 1, Some 1, Some 1, Some 1, Some 3, Some 3,
     None, Some 1, Some 1, Some 3, Some 1, Some 1, Some 3, Some 3,
     Some 1, Some 1, Some 1, Some 3, Some 1, Some 1, Some 3, Some 3,
     Some 5, Some 1, Some 0, Some 3, Some 1, Some 1, Some 3, Some 3,
     Some 2, Some 1, Some 1, Some 1, Some 0, Some 1, Some 3, Some 3,
     None, Some 1, Some 0, Some 3, Some 1, Some 1, Some 3, Some 3,
     Some 1, Some 1, Some 1, Some 3, Some 1, Some 1, Some 3, Some 3,
     Some 5, Some 1, Some 0, Some 3, Some 1, Some 1, Some 3, Some 3,
     Some 3, Some 1, Some 1, Some 1, Some 0, Some 1, Some 3, Some 3,
     None, Some 1, Some 0, Some 3, Some 1, Some 1, Some 3, Some 3,
     Some 1, Some 1, Some 1, Some 3, Some 1, Some 1, Some 3, Some 3,
     Some 1, Some 1, Some 1, Some 1, Some 1, Some 1, Some 1, Some 1,
     Some 1, Some 1, Some 1, Some 1, Some 1, Some 1, Some 1, Some 1,
     None, Some 1, Some 0, Some 1, Some 1, Some 1, Some 1, Some 1,
     Some 1, Some 1, Some 1, Some 1, Some 1, Some 1, Some 1, Some 1,
     Some 1, Some 1, Some 1, Some 1, Some 1, Some 1, Some 1, Some 1,
     Some 1, Some 1, Some 1, Some 1, Some 1, Some 1, Some 1, Some 1,
     None, Some 1, Some 0, Some 1, Some 1, Some 1, Some 1, Some 1,
     Some 1, Some 1, Some 1, Some 1, Some 1, Some 1, Some 1, Some 1,
     Some 1, Some 1, Some 1, Some 3, Some 1, Some 1, Some 3, Some 3,
     Some 1, Some 1, Some 1, Some 1, Some 1, Some 1, Some 3, Some 3,
     None, Some 1, Some 0, Some 3, Some 1, Some 1, Some 3, Some 3,
     Some 1, Some 1, Some 1, Some 3, Some 1, Some 1, Some 3, Some 3,
     Some 1, Some 1, Some 1, Some 3, Some 1, Some 1, Some 3, Some 3,
     Some 1, Some 1, Some 1, Some 1, Some 1, Some 1, Some 3, Some 3,
     None, Some 1, Some 0, Some 3, Some 1, Some 1, Some 3, Some 3,
     Some 1, Some 1, Some 1, Some 3, Some 1, Some 1, Some 3, Some 3]"

text \<open>The documented length of every 6502 instruction in cycles, without page-crossing and
  branch penalties; 0 stands for the opcodes that halt the processor.\<close>

definition BASE_CYCLES :: "nat list" where
  "BASE_CYCLES = [
     7, 6, 0, 8, 3, 3, 5, 5, 3, 2, 2, 2, 4, 4, 6, 6,
     2, 5, 0, 8, 4, 4, 6, 6, 2, 4, 2, 7, 4, 4, 7, 7,
     6, 6, 0, 8, 3, 3, 5, 5, 4, 2, 2, 2, 4, 4, 6, 6,
     2, 5, 0, 8, 4, 4, 6, 6, 2, 4, 2, 7, 4, 4, 7, 7,
     6, 6, 0, 8, 3, 3, 5, 5, 3, 2, 2, 2, 3, 4, 6, 6,
     2, 5, 0, 8, 4, 4, 6, 6, 2, 4, 2, 7, 4, 4, 7, 7,
     6, 6, 0, 8, 3, 3, 5, 5, 4, 2, 2, 2, 5, 4, 6, 6,
     2, 5, 0, 8, 4, 4, 6, 6, 2, 4, 2, 7, 4, 4, 7, 7,
     2, 6, 2, 6, 3, 3, 3, 3, 2, 2, 2, 2, 4, 4, 4, 4,
     2, 6, 0, 6, 4, 4, 4, 4, 2, 5, 2, 5, 5, 5, 5, 5,
     2, 6, 2, 6, 3, 3, 3, 3, 2, 2, 2, 2, 4, 4, 4, 4,
     2, 5, 0, 5, 4, 4, 4, 4, 2, 4, 2, 4, 4, 4, 4, 4,
     2, 6, 2, 8, 3, 3, 5, 5, 2, 2, 2, 2, 4, 4, 6, 6,
     2, 5, 0, 8, 4, 4, 6, 6, 2, 4, 2, 7, 4, 4, 7, 7,
     2, 6, 2, 8, 3, 3, 5, 5, 2, 2, 2, 2, 4, 4, 6, 6,
     2, 5, 0, 8, 4, 4, 6, 6, 2, 4, 2, 7, 4, 4, 7, 7]"

definition op_takes :: "'e env_ops \<Rightarrow> ('e \<Rightarrow> bool) \<Rightarrow> nat option \<Rightarrow> 'e opfunc \<Rightarrow> bool" where
  "op_takes E J c f = (case c of Some n \<Rightarrow> takes E J n f | None \<Rightarrow> (\<exists>g. \<forall>s. f E s = branch E (g s) s))"

lemma table_lengths [simp]:
  "length BASE_CYCLES = 256" "length addrMode = 256" "length op_cost = 256"
  "length OPCODE_INT_POOL_CYCLE_TABLE = 256" "length OPCODE_TABLE = 256"
  by (simp_all add: BASE_CYCLES_def addrMode_def op_cost_def OPCODE_INT_POOL_CYCLE_TABLE_def
      OPCODE_TABLE_def)

text \<open>The tables of the source agree with the documented one on every opcode that does not halt
  the processor.\<close>

definition cost_agrees :: "nat \<times> nat \<times> AddrMode \<times> nat option \<Rightarrow> bool" where
  "cost_agrees = (\<lambda>(op, base, m, c). base = 0 \<or>
     base = 1 + (if op = 0x20 then 0 else mode_cost m) + (case c of Some n \<Rightarrow> n | None \<Rightarrow> 1))"

lemma cost_agrees_all:
  "list_all cost_agrees (zip [0..<256] (zip BASE_CYCLES (zip addrMode op_cost)))"
  by code_simp

lemma cost_agrees_nth:
  assumes "op < 256" "BASE_CYCLES ! op \<noteq> 0"
  shows "BASE_CYCLES ! op = 1 + (if op = 0x20 then 0 else mode_cost (addrMode ! op)) +
    (case op_cost ! op of Some n \<Rightarrow> n | None \<Rightarrow> 1)"
proof -
  have "cost_agrees (op, BASE_CYCLES ! op, addrMode ! op, op_cost ! op)"
    using cost_agrees_all assms(1) by (simp add: list_all_length)
  with assms(2) show ?thesis by (simp add: cost_agrees_def)
qed

context quiet_bus
begin

lemma branch_ops:
  "op_takes E J None BCC" "op_takes E J None BCS" "op_takes E J None BEQ" "op_takes E J None BMI"
  "op_takes E J None BNE" "op_takes E J None BPL" "op_takes E J None BVC" "op_takes E J None BVS"
  unfolding op_takes_def option.case BCC_def BCS_def BEQ_def BMI_def BNE_def BPL_def
    BVC_def BVS_def by (rule exI, rule allI, rule refl)+

lemma op_takes_Some: "takes E J n f \<Longrightarrow> op_takes E J (Some n) f"
  by (simp add: op_takes_def)

lemmas op_rules = branch_ops read_ops[THEN op_takes_Some] implied_ops[THEN op_takes_Some]
  rmw_ops[THEN op_takes_Some] store_ops[THEN op_takes_Some] stack_ops[THEN op_takes_Some]

lemma opcode_table_cost: "list_all2 (op_takes E J) op_cost OPCODE_TABLE"
  unfolding op_cost_def OPCODE_TABLE_def by (simp add: op_rules del: One_nat_def)

lemma branch_cost:
  assumes "calm J s"
  shows "\<exists>t. branch E c s = Some t \<and> m_opcode t = m_opcode s \<and>
    m_addrPageCross t = m_addrPageCross s \<and>
    m_pc t = (if c then m_pc s + scast (rv E (m_addr s) s) else m_pc s) \<and>
    m_runCount t = m_runCount s + 1 +
      (if c then if test_bits (m_pc s XOR m_pc t) 0xFF00 then 2 else 1 else 0)"
  using assms by (simp add: branch_def Let_def calm_rules)

lemma op_returns:
  assumes "calm J s"
  shows "\<exists>t. emulateOpcode E s = Some t \<and> m_opcode t = m_opcode s \<and>
    m_addrPageCross t = m_addrPageCross s \<and>
    (\<forall>n. op_cost ! unat (m_opcode s) = Some n \<longrightarrow> m_runCount t = m_runCount s + n)"
proof -
  have *: "op_takes E J (op_cost ! unat (m_opcode s)) (OPCODE_TABLE ! unat (m_opcode s))"
    using opcode_table_cost by (simp add: list_all2_conv_all_nth)
  then show ?thesis
  proof (cases "op_cost ! unat (m_opcode s)")
    case None
    then obtain g where "emulateOpcode E s = branch E (g s) s"
      using * by (auto simp: op_takes_def emulateOpcode_def)
    then show ?thesis using branch_cost[OF assms, of "g s"] None by auto
  next
    case (Some n)
    then show ?thesis using * assms by (auto simp: op_takes_def emulateOpcode_def elim!: takesD)
  qed
qed

lemma runInstruction_cycles:
  assumes "calm J s"
  shows "\<exists>t. runInstruction E s = Some t \<and>
    (BASE_CYCLES ! unat (m_opcode t) \<noteq> 0 \<and> op_cost ! unat (m_opcode t) \<noteq> None \<longrightarrow>
     m_runCount t = m_runCount s + BASE_CYCLES ! unat (m_opcode t) +
       (if crossable (addrMode ! unat (m_opcode t)) \<and> m_addrPageCross t then 1 else 0))"
proof -
  obtain redirect e where nsf: "cart_consumeNsfPlayerInstructionRedirect E (env s) = (redirect, e)"
    by (metis surj_pair)
  define u where "u = (case redirect of None \<Rightarrow> s\<lparr>env := e\<rparr> | Some a \<Rightarrow> s\<lparr>env := e, m_pc := a\<rparr>)"
  have "J e" using assms quiet_nsf[of "env s"] nsf by (simp add: calm_def)
  then have u: "calm J u" "m_runCount u = m_runCount s"
    using assms by (simp_all add: u_def calm_def split: option.split)
  let ?u = "u\<lparr>m_pc := m_pc u + 1\<rparr>"
  define w where "w = (rt E (m_pc u) ?u)\<lparr>m_opcode := rv E (m_pc u) ?u,
    m_poolIntsAtCycle := OPCODE_INT_POOL_CYCLE_TABLE ! unat (rv E (m_pc u) ?u)\<rparr>"
  have w: "calm J w" "m_runCount w = Suc (m_runCount s)"
    using u by (simp_all add: w_def calm_rules)
  let ?op = "unat (m_opcode w)"
  obtain x where x: "fetchOperand E w = Some x" "calm J x" "m_opcode x = m_opcode w"
    "m_runCount x = m_runCount w + (if m_opcode w = 0x20 then 0 else mode_cost (addrMode ! ?op)) +
      (if crossable (addrMode ! ?op) \<and> m_addrPageCross x then 1 else 0)"
    using fetchOperand_cost[OF w(1)] by (auto simp: fetches_def)
  obtain t where t: "emulateOpcode E x = Some t" "m_opcode t = m_opcode w"
    "m_addrPageCross t = m_addrPageCross x"
    "\<And>n. op_cost ! ?op = Some n \<Longrightarrow> m_runCount t = m_runCount x + n"
    using op_returns[OF x(2)] x(3) by auto
  have "runInstruction E s = Some t"
    using u(1) x(1) t(1) by (cases redirect)
      (simp_all add: runInstruction_def nsf Let_def fetch_def calm_rules u_def w_def)
  moreover have "m_opcode w = 0x20 \<longleftrightarrow> ?op = 0x20" by (simp add: word_unat_eq_iff)
  ultimately show ?thesis
    using x(4) t cost_agrees_nth[of ?op] w(2) by auto
qed

lemma emulateInterruptSequence_effect:
  assumes "calm J s"
  shows "\<exists>t. emulateInterruptSequence E b s = Some t \<and> m_runCount t = m_runCount s + 6 \<and>
    m_sp t = m_sp s - 3 \<and> irq_disable t \<and> brk t = b \<and> unused t \<and>
    m_a t = m_a s \<and> m_x t = m_x s \<and> m_y t = m_y s"
  using assms
  by (simp add: emulateInterruptSequence_def dummyRead_def push16_def push_def Let_def calm_rules
      stack_page_plus)

lemma runInterrupt_effect:
  assumes "calm J s"
  shows "\<exists>t. runInterrupt E s = Some t \<and> m_runCount t = m_runCount s + 7 \<and>
    m_sp t = m_sp s - 3 \<and> irq_disable t \<and> \<not> brk t \<and> unused t \<and> m_interrupt t = NONE \<and>
    m_a t = m_a s \<and> m_x t = m_x s \<and> m_y t = m_y s"
proof -
  let ?s = "s\<lparr>m_poolIntsAtCycle := DO_NOT_POOL_INTS, m_opcode := 0\<rparr>"
  have c: "calm J (rt E (m_pc s) ?s)" using assms by (simp add: calm_rules)
  show ?thesis
    using assms emulateInterruptSequence_effect[OF c, of False]
    by (auto simp: runInterrupt_def dummyRead_def Let_def calm_rules)
qed

end

subsection \<open>The reset sequence\<close>

lemma rawRead_counters [simp]: "m_runCount (snd (rawRead E a s)) = Suc (m_runCount s)"
  "m_sp (snd (rawRead E a s)) = m_sp s" "m_status (snd (rawRead E a s)) = m_status s"
  "m_resetRequest (snd (rawRead E a s)) = m_resetRequest s"
  using core_eqD[of "snd (rawRead E a s)" s]
  by (simp_all add: rawRead_def Let_def case_prod_unfold frame_simps)

lemma idleCycle_counters [simp]: "m_runCount (idleCycle E s) = Suc (m_runCount s)"
  "core (idleCycle E s) = core s"
  by (simp_all add: idleCycle_def frame_simps)

lemma idleCycles_counters [simp]: "m_runCount ((idleCycle E ^^ n) s) = n + m_runCount s"
  "core ((idleCycle E ^^ n) s) = core s"
  by (induction n) simp_all

lemma resetSequence_effect:
  "m_runCount (resetSequence E s) = 7" "m_sp (resetSequence E s) = m_sp s - 3"
  "irq_disable (resetSequence E s)" "m_resetRequest (resetSequence E s) = m_resetRequest s"
  by (simp_all add: resetSequence_def Let_def case_prod_unfold clearVolatile_def
      resetPpuTimingPhase_def core_eqD[OF idleCycles_counters(2)])

end
