(* ===== verification/Ram_Bus.thy ===== *)
theory Ram_Bus
  imports Nes_Bus Cpu_Timing
begin

text \<open>
  The memory contract of the bus, locale \<open>ram_bus\<close>: below \<open>$2000\<close> a read returns the byte
  last written to the same cell of the 2K RAM, and nothing but a write changes a cell. From it
  follow the stack discipline of the CPU: pushes and pulls, subroutine call and return, interrupt
  and return from interrupt. \<open>Nes_Bus\<close> provides the memory: its bus interprets the locale.
\<close>

locale ram_bus = quiet_bus E J for E :: "'e env_ops" and J :: "'e \<Rightarrow> bool" +
  fixes mem :: "'e \<Rightarrow> u8 list"
  assumes mem_size: "J e \<Longrightarrow> length (mem e) = 0x800"
    and mem_read: "J e \<Longrightarrow> a < 0x2000 \<Longrightarrow> fst (bus_read E v a e) = mem e ! ramIndex a"
    and mem_keep_read: "mem (snd (bus_read E v a e)) = mem e"
    and mem_write: "a < 0x2000 \<Longrightarrow> mem (snd (bus_write E v a x e)) = (mem e)[ramIndex a := x]"
    and mem_keep: "mem (snd (apu_processDmcControlDelays E e)) = mem e"
      "mem (snd (apu_cycle E e)) = mem e" "mem (bus_onCpuBusAccessEnd E a w e) = mem e"
      "mem (bus_onCpuGetToPutTransition E e) = mem e" "mem (ppu_ppuCycle E e) = mem e"
      "mem (snd (ppu_getInterruptFlag E e)) = mem e"
      "mem (apu_processExpansionAudioSample E e) = mem e" "mem (cart_cycle E e) = mem e"
begin

lemma mem_ppuCycles: "mem (env (ppuCycles n E s)) = mem (env s)"
  by (induction n) (simp_all add: ppuCycles_def mem_keep)

lemma mem_beginCycle: "mem (env (beginCycle E s)) = mem (env s)"
  by (simp add: beginCycle_def Let_def case_prod_unfold mem_keep)

lemma mem_endCycle: "mem (env (endCycle E d acc s)) = mem (env s)"
proof -
  have poll: "mem (env (endCycle_poll E d s)) = mem (env s)" for s
    by (simp add: endCycle_poll_def Let_def case_prod_unfold mem_keep mem_ppuCycles)
  have notify: "mem (env (endCycle_notify E acc s)) = mem (env s)" for s
    by (simp add: endCycle_notify_def Let_def mem_keep split: option.split)
  have cart: "mem (env (endCycle_cart E s)) = mem (env s)" for s
    by (simp add: endCycle_cart_def mem_keep)
  have late: "mem (env (stepLatePpuCycles E s)) = mem (env s)" for s
    by (simp add: stepLatePpuCycles_def Let_def case_prod_unfold mem_ppuCycles syncPpuTimingRegion_def
        resetPpuTimingPhase_def)
  show ?thesis by (simp add: endCycle_def Let_def poll notify cart late)
qed

definition M :: "'e cpu \<Rightarrow> u8 list" where
  "M s = mem (env s)"

lemma M_update [simp]:
  "M (s\<lparr>m_pc := pc\<rparr>) = M s" "M (s\<lparr>m_sp := b\<rparr>) = M s" "M (s\<lparr>m_a := b\<rparr>) = M s"
  "M (s\<lparr>m_status := b\<rparr>) = M s" "M (s\<lparr>m_poolIntsAtCycle := b\<rparr>) = M s" "M (s\<lparr>m_opcode := b\<rparr>) = M s"
  by (simp_all add: M_def)

lemma calm_size: "calm J s \<Longrightarrow> length (M s) = 0x800"
  by (simp add: calm_def M_def mem_size)

lemma read_mem:
  assumes "calm J s"
  shows "M (rt E a s) = M s" "a < 0x2000 \<Longrightarrow> rv E a s = M s ! ramIndex a"
proof -
  let ?u = "beginCycle E (s\<lparr>m_lastReadHadDma := False\<rparr>)"
  let ?r = "bus_read E (view ?u) a (env ?u)"
  have eq: "readMemory E a s =
      Some (fst ?r, endCycle E False (Some (a, False)) (?u\<lparr>env := snd ?r\<rparr>))"
    using assms by (simp add: readMemory_def calm_def processPending_idle Let_def case_prod_unfold)
  show "M (rt E a s) = M s" by (simp add: rt_def eq M_def mem_endCycle mem_keep_read mem_beginCycle)
  have "J (env ?u)" using assms quiet_beginCycle(2)[of "s\<lparr>m_lastReadHadDma := False\<rparr>"] by (simp add: calm_def)
  then show "a < 0x2000 \<Longrightarrow> rv E a s = M s ! ramIndex a"
    by (simp add: rv_def eq M_def mem_read mem_beginCycle)
qed

lemma write_mem: "a < 0x2000 \<Longrightarrow> M (wt E a v s) = (M s)[ramIndex a := v]"
  by (simp add: wt_eq(2) M_def mem_endCycle mem_write mem_beginCycle)

end

lemma ramIndex_stack: "ramIndex (MAKE16 b 1) = 0x100 + unat b"
proof -
  have "MAKE16 b 1 AND 0x7FF = take_bit 11 (MAKE16 b 1)"
    by (simp add: take_bit_eq_mask mask_eq_exp_minus_1)
  then show ?thesis
    using unat_u8_less[of b]
    by (simp add: ramIndex_def unsigned_take_bit_eq take_bit_nat_eq_self unat_MAKE16 del: unat_u8_less)
qed

lemma stack_index_less: "0x100 + unat (b :: u8) < 0x800"
  using unat_u8_less[of b] by linarith

lemma ucast_low: "ucast (w AND 0xFF :: u16) = (ucast w :: u8)"
proof -
  have "w AND 0xFF = take_bit 8 w" by (simp add: take_bit_eq_mask mask_eq_exp_minus_1)
  moreover have "ucast (take_bit 8 w) = (ucast w :: u8)"
    by (rule bit_word_eqI) (simp add: bit_simps)
  ultimately show ?thesis by simp
qed

context ram_bus
begin

lemmas stack_rules = read_returns read_frame write_calm wt_eq(1) wt_frame read_mem write_mem
  stack_page_or stack_page_plus ramIndex_stack calm_size stack_index_less

text \<open>A pushed byte is on top of the stack, and a pull returns it.\<close>

lemma push_effect:
  assumes "calm J s"
  shows "\<exists>t. push E v s = Some t \<and> calm J t \<and> m_sp t = m_sp s - 1 \<and> m_pc t = m_pc s \<and>
    m_status t = m_status s \<and> m_a t = m_a s \<and> m_x t = m_x s \<and> m_y t = m_y s \<and>
    M t = (M s)[0x100 + unat (m_sp s) := v]"
  using assms by (simp add: push_def stack_rules)

lemma pull_effect:
  assumes "calm J s"
  shows "\<exists>t. pull E s = Some (M s ! (0x100 + unat (m_sp s + 1)), t) \<and> calm J t \<and>
    m_sp t = m_sp s + 1 \<and> m_pc t = m_pc s \<and> m_status t = m_status s \<and> m_a t = m_a s \<and>
    m_x t = m_x s \<and> m_y t = m_y s \<and> M t = M s"
  using assms by (simp add: pull_def stack_rules)

text \<open>A state whose stack still holds the two bytes of \<open>w\<close> above the stack pointer.\<close>

definition holds16 :: "u16 \<Rightarrow> 'e cpu \<Rightarrow> bool" where
  "holds16 w s \<longleftrightarrow> M s ! (0x100 + unat (m_sp s + 1)) = ucast w \<and>
     M s ! (0x100 + unat (2 + m_sp s)) = ucast (drop_bit 8 w)"

lemma pull16_effect:
  assumes "calm J s" "holds16 w s"
  shows "\<exists>t. pull16 E s = Some (w, t) \<and> calm J t \<and> m_sp t = m_sp s + 2 \<and> m_status t = m_status s \<and>
    m_a t = m_a s \<and> m_x t = m_x s \<and> m_y t = m_y s \<and> M t = M s"
  using assms by (simp add: pull16_def pull_def stack_rules holds16_def)

lemma push16_effect:
  assumes "calm J s"
  shows "\<exists>t. push16 E w s = Some t \<and> calm J t \<and> m_sp t = m_sp s - 2 \<and> holds16 w t \<and>
    m_pc t = m_pc s \<and> m_status t = m_status s \<and> m_a t = m_a s \<and> m_x t = m_x s \<and> m_y t = m_y s \<and>
    M t = (M s)[0x100 + unat (m_sp s) := ucast (drop_bit 8 w), 0x100 + unat (m_sp s - 1) := ucast w]"
proof -
  have ne: "unat (m_sp s - 1) \<noteq> unat (m_sp s)" by (simp add: word_unat_eq_iff[symmetric])
  show ?thesis
    using assms ne by (simp add: push16_def push_def stack_rules holds16_def ucast_low)
qed

text \<open>A subroutine returns to the instruction after the call.\<close>

lemma JSR_effect:
  assumes "calm J s"
  shows "\<exists>t. JSR E s = Some t \<and> calm J t \<and> m_sp t = m_sp s - 2 \<and> holds16 (m_pc s + 1) t \<and>
    m_a t = m_a s \<and> m_x t = m_x s \<and> m_y t = m_y s \<and> m_status t = m_status s"
proof -
  have ne: "unat (m_sp s - 1) \<noteq> unat (m_sp s)" by (simp add: word_unat_eq_iff[symmetric])
  show ?thesis
    using assms ne by (simp add: JSR_def fetch_def push_def stack_rules holds16_def ucast_low)
qed

lemma RTS_effect:
  assumes "calm J s" "holds16 w s"
  shows "\<exists>t. RTS E s = Some t \<and> calm J t \<and> m_pc t = w + 1 \<and> m_sp t = m_sp s + 2 \<and> M t = M s \<and>
    m_a t = m_a s \<and> m_x t = m_x s \<and> m_y t = m_y s \<and> m_status t = m_status s"
  using assms
  by (simp add: RTS_def dummyRead_def pull16_def pull_def stack_rules holds16_def)

text \<open>A state whose stack still holds a saved status byte and return address.\<close>

definition holds_frame :: "u8 \<Rightarrow> u16 \<Rightarrow> 'e cpu \<Rightarrow> bool" where
  "holds_frame p w s \<longleftrightarrow> M s ! (0x100 + unat (m_sp s + 1)) = p \<and>
     M s ! (0x100 + unat (2 + m_sp s)) = ucast w \<and>
     M s ! (0x100 + unat (3 + m_sp s)) = ucast (drop_bit 8 w)"

lemma interrupt_frame:
  assumes "calm J s"
  shows "\<exists>t. emulateInterruptSequence E b s = Some t \<and> calm J t \<and> m_sp t = m_sp s - 3 \<and>
    holds_frame (set_flag 5 True (set_flag 4 b (m_status s))) (if b then m_pc s + 1 else m_pc s) t \<and>
    m_a t = m_a s \<and> m_x t = m_x s \<and> m_y t = m_y s"
proof -
  have ne: "unat (m_sp s - 1) \<noteq> unat (m_sp s)" "unat (m_sp s - 2) \<noteq> unat (m_sp s)"
    "unat (m_sp s - 2) \<noteq> unat (m_sp s - 1)"
    by (simp_all add: word_unat_eq_iff[symmetric])
  show ?thesis
    using assms ne
    by (simp add: emulateInterruptSequence_def dummyRead_def push16_def push_def Let_def stack_rules
        holds_frame_def ucast_low)
qed

lemma RTI_effect:
  assumes "calm J s" "holds_frame p w s"
  shows "\<exists>t. RTI E s = Some t \<and> calm J t \<and> m_pc t = w \<and> m_sp t = m_sp s + 3 \<and> m_status t = p \<and>
    M t = M s \<and> m_a t = m_a s \<and> m_x t = m_x s \<and> m_y t = m_y s"
  using assms
  by (simp add: RTI_def dummyRead_def pull16_def pull_def stack_rules holds_frame_def)

text \<open>The accumulator and the status register survive a push and a pull.\<close>

lemma PHA_PLA:
  assumes "calm J s"
  shows "\<exists>t u. PHA E s = Some t \<and> PLA E t = Some u \<and> m_a u = m_a s \<and> m_sp u = m_sp s"
  using assms
  by (simp add: PHA_def PLA_def dummyRead_def push_def pull_def stack_rules updateZeroAndNegativeFlags_def)

lemma PHP_PLP:
  assumes "calm J s"
  shows "\<exists>t u. PHP E s = Some t \<and> PLP E t = Some u \<and> m_sp u = m_sp s \<and>
    m_status u = set_flag 5 True (set_flag 4 True (m_status s))"
  using assms
  by (simp add: PHP_def PLP_def dummyRead_def push_def pull_def stack_rules)

end

subsection \<open>The RAM of the console\<close>

definition nes_calm :: "'p nes \<Rightarrow> bool" where
  "nes_calm s \<longleftrightarrow> nes_idle s \<and> length (n_ram s) = 0x800"

lemma nes_read_ram: "n_ram (snd (nes_read P v a s)) = n_ram s"
  by (simp add: nes_read_def readDecode_def Let_def case_prod_unfold)

lemma nes_read_value: "a < 0x2000 \<Longrightarrow> fst (nes_read P v a s) = n_ram s ! ramIndex a"
  by (simp add: nes_read_def readDecode_def Let_def)

lemma nes_write_ram:
  "a < 0x2000 \<Longrightarrow> n_ram (snd (nes_write P v a x s)) = (n_ram s)[ramIndex a := x]"
  by (simp add: nes_write_def writeDecode_def Let_def)

lemma nes_write_ram_length: "length (n_ram (snd (nes_write P v a x s))) = length (n_ram s)"
  by (simp add: nes_write_def writeDecode_def count4011_def Let_def case_prod_unfold)

interpretation nes_ram: ram_bus "nes_ops P" nes_calm n_ram
proof
  fix e :: "'a nes" and v :: cpu_view and a :: u16 and x :: u8
  assume e: "nes_calm e"
  show "nes_calm (snd (bus_read (nes_ops P) v a e))"
    using e nes.quiet_read[of e P v a] by (simp add: nes_calm_def nes_ops_def nes_read_ram)
  show "fst (bus_write (nes_ops P) v a x e) = [] \<and> nes_calm (snd (bus_write (nes_ops P) v a x e))"
    if "a < 0x2000 \<or> a = 0x2004"
    using e nes.quiet_write[of e a P v x] that
    by (simp add: nes_calm_def nes_ops_def nes_write_ram_length)
qed (simp_all add: nes_ops_def nes_calm_def nes_idle_def apu_controlDelays_idle apu_step_idle Let_def
    case_prod_unfold nes_read_ram nes_read_value nes_write_ram)

end
