(* ===== verification/Oam_Dma.thy ===== *)
theory Oam_Dma
  imports Quiet_Bus
begin

text \<open>
  The OAM transfer that a write to \<open>$4014\<close> starts, as \<open>DMA::processPending\<close> carries it
  out: one halt cycle, one alignment cycle when the halt fell on a get cycle, and then 256
  pairs of a read from the source page and a write of the same byte to \<open>$2004\<close>.
\<close>

lemma odd_cycle_flip: "((c + 1) AND 1 \<noteq> (0 :: u32)) \<longleftrightarrow> \<not> (c AND 1 \<noteq> 0)"
  by (auto simp: and_one_eq mod_2_eq_odd)

lemma get_cycle_step [simp]:
  "isDmaGetCycle (endCycle E d a s) \<longleftrightarrow> \<not> isDmaGetCycle s"
  by (simp add: isDmaGetCycle_def isOddCycle_def odd_cycle_flip)

lemma get_cycle_cong: "m_cyclesCounter t = m_cyclesCounter s \<Longrightarrow> isDmaGetCycle t = isDmaGetCycle s"
  by (simp add: isDmaGetCycle_def isOddCycle_def)

lemma get_cycle_dma_step [simp]: "isDmaGetCycle (dma_step E a k i s) \<longleftrightarrow> \<not> isDmaGetCycle s"
  by (simp add: isDmaGetCycle_def isOddCycle_def odd_cycle_flip)

text \<open>The state of the transfer before its byte number \<open>k\<close>.\<close>

definition oam_at :: "u8 \<Rightarrow> nat \<Rightarrow> dma \<Rightarrow> bool" where
  "oam_at page k d \<longleftrightarrow> d_oamDmaTransfer d \<and> d_oamDmaPage d = page \<and>
     d_oamDmaCounter d = word_of_nat (2 * k) \<and> d_oamDmaReadAddr d = word_of_nat k \<and>
     \<not> d_dmcDmaRunning d \<and> \<not> d_dmcAbortPending d"

definition oam_half :: "u8 \<Rightarrow> nat \<Rightarrow> u8 \<Rightarrow> dma \<Rightarrow> bool" where
  "oam_half page k v d \<longleftrightarrow> d_oamDmaTransfer d \<and> d_oamDmaPage d = page \<and>
     d_oamDmaCounter d = word_of_nat (2 * k + 1) \<and> d_oamDmaReadAddr d = word_of_nat (Suc k) \<and>
     d_oamDmaData d = v \<and> \<not> d_dmcDmaRunning d \<and> \<not> d_dmcAbortPending d"

definition oam_done :: "dma \<Rightarrow> bool" where
  "oam_done d \<longleftrightarrow> \<not> d_oamDmaTransfer d \<and> \<not> d_dmcDmaRunning d \<and> \<not> d_dmcAbortPending d"

abbreviation oam_addr :: "u8 \<Rightarrow> nat \<Rightarrow> u16" where
  "oam_addr page k \<equiv> push_bit 8 (ucast page) OR ucast (word_of_nat k :: u8)"

text \<open>The bus accesses of the transfer from byte \<open>k\<close> on.\<close>

definition oam_events :: "u8 \<Rightarrow> nat \<Rightarrow> u8 list \<Rightarrow> bus_event list" where
  "oam_events page k vs =
     concat (map (\<lambda>(i, v). [BusRead (oam_addr page i) v, BusWrite 0x2004 v])
       (zip [k..<k + length vs] vs))"

lemma oam_events_Cons:
  "oam_events page k (v # vs) =
     [BusRead (oam_addr page k) v, BusWrite 0x2004 v] @ oam_events page (Suc k) vs"
  by (simp add: oam_events_def upt_rec)

lemma oam_addr_normal: "page \<noteq> 0x40 \<Longrightarrow> \<not> (oam_addr page k \<ge> 0x4000 \<and> oam_addr page k \<le> 0x401F)"
proof
  assume p: "page \<noteq> 0x40" and r: "oam_addr page k \<ge> 0x4000 \<and> oam_addr page k \<le> 0x401F"
  have eq: "oam_addr page k = MAKE16 (word_of_nat k) page"
    by (simp add: MAKE16_def or.commute)
  from r have "unat (oam_addr page k) \<ge> 0x4000" "unat (oam_addr page k) \<le> 0x401F"
    by (simp_all add: word_le_nat_alt)
  then have "0x4000 \<le> unat (word_of_nat k :: u8) + 256 * unat page"
    "unat (word_of_nat k :: u8) + 256 * unat page \<le> 0x401F"
    by (simp_all add: eq unat_MAKE16)
  moreover have "unat (word_of_nat k :: u8) < 256" by simp
  ultimately have "unat page = 64" by linarith
  then have "page = 0x40" by (simp add: word_unat_eq_iff)
  with p show False ..
qed

lemma startDmaCycle_quiet_dma:
  assumes "quiet_bus E J" and "J (env s)"
  shows "oam_at page k (m_dma s) \<Longrightarrow> oam_at page k (m_dma (startDmaCycle E s))"
    and "oam_half page k v (m_dma s) \<Longrightarrow> oam_half page k v (m_dma (startDmaCycle E s))"
  using quiet_bus.quiet_beginCycle(1)[OF assms(1)] assms(2)
  by (auto simp: startDmaCycle_def Let_def oam_at_def oam_half_def)

text \<open>One get cycle reads the next byte, one put cycle writes it.\<close>

lemma oam_get_step:
  fixes a :: u16 and sk :: bool
  assumes "quiet_bus (traced E) K" and J: "K (env s)" and at: "oam_at page k (m_dma s)"
    and get: "isDmaGetCycle s" and p: "page \<noteq> 0x40"
  defines "t \<equiv> dma_step (traced E) a sk False s"
  shows "K (env t) \<and> (\<exists>v. oam_half page k v (m_dma t) \<and>
           snd (env t) = snd (env s) @ [BusRead (oam_addr page k) v])"
proof -
  note q = assms(1)
  let ?T = "traced E" and ?s1 = "startDmaCycle (traced E) s"
  have J1: "K (env ?s1)" using quiet_bus.quiet_startDmaCycle[OF q, of s] J by simp
  have at1: "oam_at page k (m_dma ?s1)" using startDmaCycle_quiet_dma(1)[OF q, of s] J at by simp
  let ?s2 = "m_dma_update (\<lambda>d. d\<lparr>d_dmaPrevReadAddr := oam_addr page k\<rparr>) ?s1"
  let ?r = "dmaBusRead ?T (oam_addr page k) False ?s2"
  have rd: "processDmaRead ?T (oam_addr page k) False ?s1 = ?r"
    using oam_addr_normal[OF p, of k] by (auto simp: processDmaRead_def Let_def)
  have addr: "push_bit 8 (ucast (d_oamDmaPage (m_dma ?s1))) OR ucast (d_oamDmaReadAddr (m_dma ?s1))
      = oam_addr page k" using at1 by (simp add: oam_at_def)
  have t: "t = m_dma_update (\<lambda>d. d\<lparr>d_oamDmaReadAddr := d_oamDmaReadAddr d + 1,
      d_oamDmaCounter := d_oamDmaCounter d + 1\<rparr>)
      (endCycle ?T True None (m_dma_update (\<lambda>d. d\<lparr>d_oamDmaData := fst ?r\<rparr>) (snd ?r)))"
    using at get by (simp add: t_def dma_step_def Let_def oam_at_def addr rd case_prod_unfold)
  have "K (env (snd ?r))" using quiet_bus.quiet_dmaBusRead[OF q, of ?s2] J1 by simp
  then have "K (env t)"
    using quiet_bus.quiet_endCycle[OF q, of "m_dma_update (\<lambda>d. d\<lparr>d_oamDmaData := fst ?r\<rparr>) (snd ?r)"]
    by (simp add: t)
  moreover have "snd (env t) = snd (env s) @ [BusRead (oam_addr page k) (fst ?r)]"
    by (simp add: t traced_endCycle traced_dmaBusRead traced_startDmaCycle)
  moreover have "oam_half page k (fst ?r) (m_dma t)"
    using at1 by (simp add: t oam_half_def oam_at_def dmaBusRead_def Let_def case_prod_unfold)
  ultimately show ?thesis by blast
qed

lemma oam_put_step:
  fixes a :: u16 and sk :: bool
  assumes "quiet_bus (traced E) K" and J: "K (env s)" and at: "oam_half page k v (m_dma s)"
    and put: "\<not> isDmaGetCycle s" and k: "k < 256"
  defines "t \<equiv> dma_step (traced E) a sk False s"
  shows "K (env t) \<and> snd (env t) = snd (env s) @ [BusWrite 0x2004 v] \<and>
     (if k = 255 then oam_done (m_dma t) else oam_at page (Suc k) (m_dma t))"
proof -
  note q = assms(1)
  let ?T = "traced E" and ?s1 = "startDmaCycle (traced E) s"
  have J1: "K (env ?s1)" using quiet_bus.quiet_startDmaCycle[OF q, of s] J by simp
  have at1: "oam_half page k v (m_dma ?s1)"
    using startDmaCycle_quiet_dma(2)[OF q, of s] J at by simp
  have w: "fst (bus_write ?T (view ?s1) 0x2004 v (env ?s1)) = []"
    "K (snd (bus_write ?T (view ?s1) 0x2004 v (env ?s1)))"
    using quiet_bus.quiet_write[OF q, of "env ?s1" "0x2004"] J1 by auto
  let ?s2 = "?s1\<lparr>env := snd (bus_write ?T (view ?s1) 0x2004 v (env ?s1))\<rparr>"
  have odd: "(word_of_nat (2 * k + 1) :: u16) AND 1 \<noteq> 0"
    by (simp add: and_one_eq mod_2_eq_odd)
  have last: "(word_of_nat (2 * k + 1) + 1 :: u16) = 0x200 \<longleftrightarrow> k = 255"
  proof -
    have "(word_of_nat (2 * k + 1) + 1 :: u16) = word_of_nat (2 * k + 2)" by simp
    moreover have "(word_of_nat (2 * k + 2) :: u16) = word_of_nat 512 \<longleftrightarrow> 2 * k + 2 = 512"
      using k by (subst word_of_nat_eq_iff) (simp add: take_bit_nat_eq_self)
    ultimately show ?thesis by simp
  qed
  have t: "t = (let u = m_dma_update (\<lambda>d. d\<lparr>d_oamDmaCounter := d_oamDmaCounter d + 1\<rparr>)
      (endCycle ?T True None ?s2) in if k = 255
      then m_dma_update (\<lambda>d. d\<lparr>d_oamDmaTransfer := False\<rparr>) u else u)"
    using at at1 put odd last w(1)
    by (simp add: t_def dma_step_def Let_def oam_half_def case_prod_unfold)
  have "K (env t)"
    using quiet_bus.quiet_endCycle[OF q, of ?s2] w(2) by (simp add: t Let_def)
  moreover have "snd (env t) = snd (env s) @ [BusWrite 0x2004 v]"
    by (simp add: t Let_def traced_endCycle traced_startDmaCycle traced_write)
  moreover have "if k = 255 then oam_done (m_dma t) else oam_at page (Suc k) (m_dma t)"
    using at1 by (simp add: t Let_def oam_half_def oam_at_def oam_done_def)
  ultimately show ?thesis by blast
qed

text \<open>The transfer loop from byte \<open>k\<close> on: two cycles per byte, in order.\<close>

lemma oam_loop:
  fixes a :: u16 and sk :: bool
  assumes q: "quiet_bus (traced E) K" and p: "page \<noteq> 0x40"
    and "K (env s)" and "oam_at page k (m_dma s)" and "isDmaGetCycle s" and "k < 256"
  shows "\<exists>t vs. while_option dma_active (dma_step (traced E) a sk False) s = Some t \<and>
     length vs = 256 - k \<and> snd (env t) = snd (env s) @ oam_events page k vs \<and>
     m_runCount t = m_runCount s + 2 * (256 - k) \<and> oam_done (m_dma t) \<and> K (env t)"
  using assms(3-6)
proof (induction "256 - k" arbitrary: k s)
  case 0
  then show ?case by simp
next
  case (Suc n)
  let ?step = "dma_step (traced E) a sk False"
  from oam_get_step[OF q Suc.prems(1,2,3) p, of a sk] obtain v where
    g: "K (env (?step s))" "oam_half page k v (m_dma (?step s))"
      "snd (env (?step s)) = snd (env s) @ [BusRead (oam_addr page k) v]" by blast
  from oam_put_step[OF q g(1,2) _ Suc.prems(4), of a sk] Suc.prems(3)
  have w: "K (env (?step (?step s)))"
    "snd (env (?step (?step s))) = snd (env s) @ [BusRead (oam_addr page k) v, BusWrite 0x2004 v]"
    "if k = 255 then oam_done (m_dma (?step (?step s)))
     else oam_at page (Suc k) (m_dma (?step (?step s)))"
    using g(3) by auto
  have unf: "while_option dma_active ?step s = while_option dma_active ?step (?step (?step s))"
    using Suc.prems(2) g(2)
    by (subst while_option_unfold, subst while_option_unfold)
       (simp add: dma_active_def oam_at_def oam_half_def)
  show ?case
  proof (cases "k = 255")
    case True
    with w(3) have d: "oam_done (m_dma (?step (?step s)))" by simp
    then have "while_option dma_active ?step s = Some (?step (?step s))"
      unfolding unf by (subst while_option_unfold) (simp add: dma_active_def oam_done_def)
    then show ?thesis
      using True d w(1,2) by (intro exI[of _ "?step (?step s)"] exI[of _ "[v]"])
        (simp add: oam_events_def)
  next
    case False
    with w(3) Suc.prems(4) have "oam_at page (Suc k) (m_dma (?step (?step s)))" "Suc k < 256"
      by auto
    moreover have "n = 256 - Suc k" using Suc.hyps(2) by arith
    moreover have "isDmaGetCycle (?step (?step s))" using Suc.prems(3) by simp
    ultimately obtain t vs where
      t: "while_option dma_active ?step (?step (?step s)) = Some t" "length vs = 256 - Suc k"
        "snd (env t) = snd (env (?step (?step s))) @ oam_events page (Suc k) vs"
        "m_runCount t = m_runCount (?step (?step s)) + 2 * (256 - Suc k)" "oam_done (m_dma t)" "K (env t)"
      using Suc.hyps(1)[OF _ w(1)] by blast
    then show ?thesis
      unfolding unf using w(2) Suc.prems(4)
      by (intro exI[of _ t] exI[of _ "v # vs"]) (simp add: oam_events_Cons, arith)
  qed
qed

lemma oam_align_step:
  fixes a :: u16
  assumes "quiet_bus (traced E) K" and J: "K (env s)" and at: "oam_at page 0 (m_dma s)"
    and put: "\<not> isDmaGetCycle s"
  defines "t \<equiv> dma_step (traced E) a False False s"
  shows "K (env t) \<and> oam_at page 0 (m_dma t) \<and>
     (\<exists>v. snd (env t) = snd (env s) @ [BusRead a v])"
proof -
  note q = assms(1)
  let ?s1 = "startDmaCycle (traced E) s"
  let ?r = "dmaBusRead (traced E) a True ?s1"
  have J1: "K (env ?s1)" using quiet_bus.quiet_startDmaCycle[OF q, of s] J by simp
  have at1: "oam_at page 0 (m_dma ?s1)" using startDmaCycle_quiet_dma(1)[OF q, of s] J at by simp
  have t: "t = endCycle (traced E) True None (snd ?r)"
    using at put by (simp add: t_def dma_step_def dummyDmaCycle_def Let_def oam_at_def)
  have "K (env (snd ?r))" using quiet_bus.quiet_dmaBusRead[OF q, of ?s1] J1 by simp
  then have "K (env t)" using quiet_bus.quiet_endCycle[OF q, of "snd ?r"] by (simp add: t)
  moreover have "oam_at page 0 (m_dma t)"
    using at1 by (simp add: t oam_at_def dmaBusRead_def Let_def case_prod_unfold)
  moreover have "snd (env t) = snd (env s) @ [BusRead a (fst ?r)]"
    by (simp add: t traced_endCycle traced_dmaBusRead traced_startDmaCycle)
  ultimately show ?thesis by blast
qed

text \<open>The whole transfer, from the first CPU read after the request.\<close>

lemma oam_transfer_quiet:
  assumes q: "quiet_bus (traced E) K" and J: "K (env s)"
    and d: "m_dma s = startOamDma (push_bit 8 (ucast page)) d0"
    and d0: "\<not> d_dmcDmaRunning d0" "\<not> d_dmcAbortPending d0" "\<not> d_dmcSingleCycleAbortPending d0"
    and a: "a AND 0xFFE0 \<noteq> 0x4000" and p: "page \<noteq> 0x40"
  shows "\<exists>t vs dummies. processPending (traced E) a False s = Some t \<and>
     m_runCount t = m_runCount s + (if isDmaGetCycle s then 514 else 513) \<and>
     length vs = 256 \<and> length dummies = (if isDmaGetCycle s then 2 else 1) \<and>
     snd (env t) = snd (env s) @ map (BusRead a) dummies @ oam_events page 0 vs \<and>
     oam_done (m_dma t) \<and> core t = core s \<and> K (env t)"
proof -
  note qt = q
  have pg: "ucast (drop_bit 8 (push_bit 8 (ucast page :: u16))) = page"
    by (rule bit_word_eqI) (auto simp: bit_simps)
  have ctl: "a \<noteq> 0x4016" "a \<noteq> 0x4017" using a by auto
  let ?s0 = "m_dma_update (\<lambda>d. d\<lparr>d_dmaPrevReadAddr := a\<rparr>) s"
  let ?s1 = "startDmaCycle (traced E) ?s0"
  let ?r = "dmaBusRead (traced E) a True ?s1"
  let ?s2 = "endCycle (traced E) True None (snd ?r)"
  have at0: "oam_at page 0 (m_dma ?s0)"
    using d0 by (simp add: d startOamDma_def oam_at_def pg)
  have J1: "K (env ?s1)" using quiet_bus.quiet_startDmaCycle[OF qt, of ?s0] J by simp
  have "oam_at page 0 (m_dma ?s1)" using startDmaCycle_quiet_dma(1)[OF qt, of ?s0] J at0 by simp
  then have at2: "oam_at page 0 (m_dma ?s2)"
    by (simp add: oam_at_def dmaBusRead_def Let_def case_prod_unfold)
  have "K (env (snd ?r))" using quiet_bus.quiet_dmaBusRead[OF qt, of ?s1] J1 by simp
  then have J2: "K (env ?s2)" using quiet_bus.quiet_endCycle[OF qt, of "snd ?r"] by simp
  have log2: "snd (env ?s2) = snd (env s) @ [BusRead a (fst ?r)]"
    by (simp add: traced_endCycle traced_dmaBusRead traced_startDmaCycle)
  have get2: "isDmaGetCycle ?s2 \<longleftrightarrow> \<not> isDmaGetCycle s"
    by (simp add: get_cycle_cong[of "snd ?r" s])
  have run: "processPending (traced E) a False s =
      while_option dma_active (dma_step (traced E) a False False) ?s2"
    using at2 d0 ctl a \<open>oam_at page 0 (m_dma ?s1)\<close>
    by (simp add: processPending_def dma_request_phase_def dma_halted_def Let_def d startOamDma_def
        oam_at_def)
  have frame: "core t = core s" if "processPending (traced E) a False s = Some t" for t
    using processPending_frame[OF that] by (simp add: dma_frame_def)
  show ?thesis
  proof (cases "isDmaGetCycle s")
    case False
    with oam_loop[OF q p J2 at2, of a False] get2 obtain t vs where
      "while_option dma_active (dma_step (traced E) a False False) ?s2 = Some t" "length vs = 256"
      "snd (env t) = snd (env ?s2) @ oam_events page 0 vs" "m_runCount t = m_runCount ?s2 + 512"
      "oam_done (m_dma t)" "K (env t)" by auto
    then show ?thesis using False frame log2 run
      by (intro exI[of _ t] exI[of _ vs] exI[of _ "[fst ?r]"]) simp
  next
    case True
    with get2 have put: "\<not> isDmaGetCycle ?s2" by simp
    let ?s3 = "dma_step (traced E) a False False ?s2"
    from oam_align_step[OF q J2 at2 put, of a] obtain v where
      s3: "K (env ?s3)" "oam_at page 0 (m_dma ?s3)" "snd (env ?s3) = snd (env ?s2) @ [BusRead a v]"
      by blast
    have unf: "while_option dma_active (dma_step (traced E) a False False) ?s2 =
        while_option dma_active (dma_step (traced E) a False False) ?s3"
      using at2 by (subst while_option_unfold) (simp add: dma_active_def oam_at_def)
    from oam_loop[OF q p s3(1,2), of a False] put obtain t vs where
      "while_option dma_active (dma_step (traced E) a False False) ?s3 = Some t" "length vs = 256"
      "snd (env t) = snd (env ?s3) @ oam_events page 0 vs" "m_runCount t = m_runCount ?s3 + 512"
      "oam_done (m_dma t)" "K (env t)" by auto
    then show ?thesis using True frame log2 run unf s3(3)
      by (intro exI[of _ t] exI[of _ vs] exI[of _ "[fst ?r, v]"]) simp
  qed
qed

end
