(* ===== verification/Apu_Schedule.thy ===== *)
theory Apu_Schedule
  imports Apu_Frame
begin

text \<open>
  The schedule of the frame sequencer of \<open>APU::cycle\<close>: how many cycles a frame has in either
  mode, at which cycle it clocks which units of the four channels and when the frame interrupt is
  raised, for an APU whose registers the program leaves alone.
\<close>

lemma apu_steps_add:
  "snd (apu_steps (m + n) r s) = snd (apu_steps n r (snd (apu_steps m r s)))"
  by (induction m arbitrary: s) (simp_all add: case_prod_unfold Let_def)

text \<open>The units the sequencer clocks: the pulse, triangle and noise channels. The channels' own
  \<open>cycle\<close> clears \<open>m_lengthUpdated\<close> each CPU cycle, so that flag is read as cleared.\<close>

record clocked =
  cl_pulse1 :: pulse
  cl_pulse2 :: pulse
  cl_triangle :: triangle
  cl_noise :: noise

definition clocked :: "apu \<Rightarrow> clocked" where
  "clocked s = \<lparr>cl_pulse1 = pulse_cycle (ap_pulse1 s), cl_pulse2 = pulse_cycle (ap_pulse2 s),
     cl_triangle = ap_triangle s, cl_noise = noise_cycle (ap_noise s)\<rparr>"

text \<open>A quarter frame clocks the envelopes and the linear counter; a half frame clocks the sweeps
  and the length counters too.\<close>

definition quarter :: "clocked \<Rightarrow> clocked" where
  "quarter u = \<lparr>cl_pulse1 = pulse_updateEnvelop (cl_pulse1 u), cl_pulse2 = pulse_updateEnvelop (cl_pulse2 u),
     cl_triangle = triangle_updateLinearCounter (cl_triangle u), cl_noise = noise_updateEnvelop (cl_noise u)\<rparr>"

definition half :: "clocked \<Rightarrow> clocked" where
  "half u = (let q = quarter u in
     \<lparr>cl_pulse1 = pulse_cycle (pulse_updateLengthCounter (pulse_updateSweep 0 (cl_pulse1 q))),
      cl_pulse2 = pulse_cycle (pulse_updateLengthCounter (pulse_updateSweep 1 (cl_pulse2 q))),
      cl_triangle = triangle_updateLengthCounter (cl_triangle q),
      cl_noise = noise_cycle (noise_updateLengthCounter (cl_noise q))\<rparr>)"

lemma cycle_clocks:
  "pulse_updateEnvelop (pulse_cycle p) = pulse_cycle (pulse_updateEnvelop p)"
  "pulse_updateSweep ch (pulse_cycle p) = pulse_cycle (pulse_updateSweep ch p)"
  "pulse_cycle (pulse_updateLengthCounter (pulse_cycle p)) = pulse_cycle (pulse_updateLengthCounter p)"
  "noise_updateEnvelop (noise_cycle n) = noise_cycle (noise_updateEnvelop n)"
  "noise_cycle (noise_updateLengthCounter (noise_cycle n)) = noise_cycle (noise_updateLengthCounter n)"
  by (simp_all add: pulse_updateEnvelop_def pulse_updateSweep_def pulse_updateLengthCounter_def
      noise_updateEnvelop_def noise_updateLengthCounter_def pulse_cycle_def noise_cycle_def Let_def
      case_prod_unfold)

lemma cycle_idem [simp]:
  "pulse_cycle (pulse_cycle p) = pulse_cycle p" "noise_cycle (noise_cycle n) = noise_cycle n"
  by (simp_all add: pulse_cycle_def noise_cycle_def)

lemma clocked_frames:
  "clocked (quarterFrame r s) = quarter (clocked s)" "clocked (halfFrame r s) = half (clocked s)"
  by (simp_all add: clocked_def quarter_def half_def quarterFrame_def halfFrame_def Let_def
      updateEnvelopsAndLinearCounters_def updateLengthCountersAndSweeps_def cycle_clocks)

lemma clocked_seq [simp]:
  "clocked (s\<lparr>ap_frameStep := k\<rparr>) = clocked s" "clocked (s\<lparr>ap_nextDelay := d\<rparr>) = clocked s"
  "clocked (s\<lparr>ap_frameInterruptFlag := i\<rparr>) = clocked s"
  by (simp_all add: clocked_def)

text \<open>What the schedule of one mode looks at.\<close>

record schedule =
  sc_mode :: bool
  sc_step :: nat
  sc_delay :: int
  sc_irq :: bool
  sc_inhibit :: bool
  sc_jitter :: bool
  sc_clocked :: clocked

definition schedule :: "apu \<Rightarrow> schedule" where
  "schedule s = \<lparr>sc_mode = ap_mode s, sc_step = ap_frameStep s, sc_delay = ap_nextDelay s,
     sc_irq = ap_frameInterruptFlag s, sc_inhibit = ap_interruptInhibitFlag s,
     sc_jitter = ap_jitter s, sc_clocked = clocked s\<rparr>"

text \<open>No register access is pending.\<close>

definition settled :: "apu \<Rightarrow> bool" where
  "settled s \<longleftrightarrow> \<not> ap_writeChannelsFlag s \<and> ap_frameInterruptClearDelay s = 0"

text \<open>The reference sequencer: it waits, and acts when the delay runs out.\<close>

definition sched_fire :: "Region \<Rightarrow> schedule \<Rightarrow> schedule" where
  "sched_fire r c =
     (if \<not> sc_mode c then
        let k = (if sc_step c = 5 then 0 else Suc (sc_step c)) in
        c\<lparr>sc_step := k, sc_delay := mode0Delays r ! k,
          sc_irq := (if sc_step c = 5 then \<not> sc_inhibit c
                     else sc_step c = 3 \<or> sc_step c = 4 \<or> sc_irq c),
          sc_clocked := (if sc_step c \<in> {0, 2} then quarter (sc_clocked c)
                          else if sc_step c \<in> {1, 4} then half (sc_clocked c) else sc_clocked c)\<rparr>
      else
        let k = (if sc_step c = 4 then 0 else Suc (sc_step c)) in
        c\<lparr>sc_step := k,
          sc_delay := mode1Delays r ! k + (if k = 0 \<and> \<not> sc_jitter c then 1 else 0),
          sc_clocked := (if sc_step c \<in> {0, 2} then quarter (sc_clocked c)
                          else if sc_step c \<in> {1, 4} then half (sc_clocked c) else sc_clocked c)\<rparr>)"

definition sched_step :: "Region \<Rightarrow> schedule \<Rightarrow> schedule" where
  "sched_step r c =
     (let c = c\<lparr>sc_delay := sc_delay c - 1\<rparr>;
          c = (if sc_delay c = 0 then sched_fire r c else c)
      in c\<lparr>sc_jitter := \<not> sc_jitter c\<rparr>)"

lemma settled_fire:
  assumes "settled s"
  shows "settled (sequencer0 r s)" "settled (sequencer1 r s)"
  using assms by (simp_all add: settled_def sequencer0_def sequencer1_def Let_def)

lemma schedule_seq0:
  assumes "\<not> ap_mode s" "ap_frameStep s < 6"
  shows "schedule (sequencer0 r s) = sched_fire r (schedule s)"
proof -
  consider "ap_frameStep s = 0" | "ap_frameStep s = 1" | "ap_frameStep s = 2" |
    "ap_frameStep s = 3" | "ap_frameStep s = 4" | "ap_frameStep s = 5" using assms(2) by linarith
  then show ?thesis
    using assms(1)
    by cases (simp_all add: sequencer0_def schedule_def clocked_frames sched_fire_def eval_nat_numeral)
qed

lemma schedule_seq1:
  assumes "ap_mode s" "ap_frameStep s < 5"
  shows "schedule (sequencer1 r s) = sched_fire r (schedule s)"
proof -
  consider "ap_frameStep s = 0" | "ap_frameStep s = 1" | "ap_frameStep s = 2" |
    "ap_frameStep s = 3" | "ap_frameStep s = 4" using assms(2) by linarith
  then show ?thesis
    using assms(1)
    by cases (simp_all add: sequencer1_def schedule_def clocked_frames sched_fire_def Let_def eval_nat_numeral)
qed

text \<open>The APU implements the reference sequencer cycle by cycle.\<close>

lemma apu_step_settled:
  fixes r :: Region
  assumes "settled s"
  defines "d \<equiv> s\<lparr>ap_nextDelay := ap_nextDelay s - 1\<rparr>"
  defines "t \<equiv> (if ap_nextDelay s = 1 then if \<not> ap_mode s then sequencer0 r d else sequencer1 r d else d)"
  shows "settled t"
    "snd (apu_step r s) = t\<lparr>ap_pulse1 := pulse_cycle (ap_pulse1 t), ap_pulse2 := pulse_cycle (ap_pulse2 t),
       ap_noise := noise_cycle (ap_noise t), ap_sample := snd (dmc_cycle r (ap_sample t)),
       ap_jitter := \<not> ap_jitter t\<rparr>"
proof -
  have d: "settled d" using assms(1) by (simp add: settled_def d_def)
  then show set: "settled t" using settled_fire[OF d] by (simp add: t_def)
  have clear: "clearFrameInterrupt s = s" using assms by (simp add: clearFrameInterrupt_def settled_def)
  have frame: "frameClock r s = t" by (simp add: frameClock_def Let_def t_def d_def)
  have pend: "pendingWrite r t = t" using set by (simp add: pendingWrite_def settled_def)
  show "snd (apu_step r s) = t\<lparr>ap_pulse1 := pulse_cycle (ap_pulse1 t), ap_pulse2 := pulse_cycle (ap_pulse2 t),
       ap_noise := noise_cycle (ap_noise t), ap_sample := snd (dmc_cycle r (ap_sample t)),
       ap_jitter := \<not> ap_jitter t\<rparr>"
    unfolding apu_step_def clear frame pend Let_def channelCycles_def by (simp add: case_prod_unfold)
qed

lemma schedule_step:
  assumes "settled s" "apu_ok s"
  shows "schedule (snd (apu_step r s)) = sched_step r (schedule s) \<and> settled (snd (apu_step r s))"
proof -
  define d where "d = s\<lparr>ap_nextDelay := ap_nextDelay s - 1\<rparr>"
  define t where
    "t = (if ap_nextDelay s = 1 then if \<not> ap_mode s then sequencer0 r d else sequencer1 r d else d)"
  note step = apu_step_settled[OF assms(1), of r, folded d_def, folded t_def]
  have "schedule (snd (apu_step r s)) = (schedule t)\<lparr>sc_jitter := \<not> sc_jitter (schedule t)\<rparr>"
    "settled (snd (apu_step r s))"
    using step by (simp_all add: schedule_def settled_def clocked_def)
  moreover have "schedule t = (if ap_nextDelay s = 1 then sched_fire r (schedule d) else schedule d)"
  proof (cases "ap_mode s")
    case True
    then have "schedule (sequencer1 r d) = sched_fire r (schedule d)"
      using assms(2) by (intro schedule_seq1) (simp_all add: d_def apu_ok_def apu_regs_def)
    then show ?thesis using True by (simp add: t_def)
  next
    case False
    then have "schedule (sequencer0 r d) = sched_fire r (schedule d)"
      using assms(2) by (intro schedule_seq0) (simp_all add: d_def apu_ok_def apu_regs_def)
    then show ?thesis using False by (simp add: t_def)
  qed
  moreover have "schedule d = (schedule s)\<lparr>sc_delay := sc_delay (schedule s) - 1\<rparr>"
    "ap_nextDelay s = 1 \<longleftrightarrow> sc_delay (schedule s) = 1"
    by (simp_all add: schedule_def d_def clocked_def)
  ultimately show ?thesis by (simp add: sched_step_def Let_def)
qed

lemma schedule_steps:
  assumes "settled s" "apu_ok s"
  shows "schedule (snd (apu_steps n r s)) = (sched_step r ^^ n) (schedule s) \<and>
    settled (snd (apu_steps n r s))"
  using assms
proof (induction n arbitrary: s)
  case (Suc n)
  then show ?case
    using schedule_step[OF Suc.prems, of r] apu_step_ok[OF Suc.prems(2), of r]
    by (simp add: case_prod_unfold Let_def funpow_swap1 del: funpow.simps) (simp add: funpow_swap1)
qed simp

subsection \<open>The length of a frame\<close>

lemma sched_wait:
  "int n < sc_delay c \<Longrightarrow> (sched_step r ^^ n) c =
     c\<lparr>sc_delay := sc_delay c - int n, sc_jitter := (sc_jitter c \<noteq> odd n)\<rparr>"
  by (induction n) (auto simp: sched_step_def Let_def)

text \<open>The state at the end of the running delay.\<close>

definition phase_end :: "Region \<Rightarrow> schedule \<Rightarrow> schedule" where
  "phase_end r c =
    (let f = sched_fire r (c\<lparr>sc_jitter := (sc_jitter c \<noteq> even (sc_delay c)), sc_delay := 0\<rparr>)
     in f\<lparr>sc_jitter := \<not> sc_jitter f\<rparr>)"

lemma sched_phase:
  assumes "0 < sc_delay c"
  shows "(sched_step r ^^ nat (sc_delay c)) c = phase_end r c"
proof -
  obtain n where n: "sc_delay c = int (Suc n)" using assms by (metis pos_int_cases gr0_conv_Suc)
  have "(sched_step r ^^ nat (sc_delay c)) c = sched_step r ((sched_step r ^^ n) c)"
    unfolding n nat_int by simp
  also have "(sched_step r ^^ n) c = c\<lparr>sc_delay := 1, sc_jitter := (sc_jitter c \<noteq> odd n)\<rparr>"
    using sched_wait[of n c r] n by simp
  also have "sched_step r \<dots> = phase_end r c"
    using n by (simp add: sched_step_def phase_end_def Let_def)
  finally show ?thesis .
qed

lemma sched_chain:
  "0 < sc_delay c \<Longrightarrow> n = nat (sc_delay c) + m \<Longrightarrow>
   (sched_step r ^^ n) c = (sched_step r ^^ m) (phase_end r c)"
  by (simp only: add.commute[of _ m] funpow_add comp_apply sched_phase)

lemmas run_phases = phase_end_def sched_fire_def sched_step_def mode0Delays_def mode1Delays_def Let_def

text \<open>The sequencer at the start of one of its phases in mode 0.\<close>

definition phase0 :: "Region \<Rightarrow> bool \<Rightarrow> nat \<Rightarrow> bool \<Rightarrow> clocked \<Rightarrow> schedule \<Rightarrow> bool" where
  "phase0 r inh k i u c \<longleftrightarrow> \<not> sc_mode c \<and> sc_inhibit c = inh \<and> sc_step c = k \<and>
     sc_delay c = mode0Delays r ! k \<and> sc_irq c = i \<and> sc_clocked c = u"

text \<open>What the end of phase \<open>k\<close> does to the interrupt flag and the units.\<close>

definition irq0 :: "bool \<Rightarrow> nat \<Rightarrow> bool \<Rightarrow> bool" where
  "irq0 inh k i = (if k = 5 then \<not> inh else k = 3 \<or> k = 4 \<or> i)"

definition clock0 :: "nat \<Rightarrow> clocked \<Rightarrow> clocked" where
  "clock0 k u = (if k \<in> {0, 2} then quarter u else if k \<in> {1, 4} then half u else u)"

lemma phase0_end:
  assumes "phase0 r inh k i u c" "k < 6"
  shows "phase0 r inh (if k = 5 then 0 else Suc k) (irq0 inh k i) (clock0 k u)
    ((sched_step r ^^ nat (mode0Delays r ! k)) c)"
proof -
  have "0 < sc_delay c" using assms mode_delays(1)[of k r] by (simp add: phase0_def)
  from sched_phase[OF this, of r] show ?thesis
    using assms by (simp add: phase0_def phase_end_def sched_fire_def Let_def irq0_def clock0_def)
qed

lemma phase0_during:
  assumes "phase0 r inh k i u c" "m < nat (mode0Delays r ! k)"
  shows "sc_clocked ((sched_step r ^^ m) c) = u" "sc_irq ((sched_step r ^^ m) c) = i"
    "\<not> sc_mode ((sched_step r ^^ m) c)"
    "sc_step ((sched_step r ^^ m) c) = k"
proof -
  have "int m < sc_delay c" using assms by (simp add: phase0_def)
  from sched_wait[OF this, of r] assms(1) show
    "sc_clocked ((sched_step r ^^ m) c) = u" "sc_irq ((sched_step r ^^ m) c) = i"
    "\<not> sc_mode ((sched_step r ^^ m) c)" "sc_step ((sched_step r ^^ m) c) = k"
    by (simp_all add: phase0_def)
qed

text \<open>The cycles of a mode 0 frame at which its six phases end.\<close>

definition frameTimes :: "Region \<Rightarrow> nat list" where
  "frameTimes r = (if r = PAL then [8313, 16627, 24939, 33252, 33253, 33254]
     else [7457, 14913, 22371, 29828, 29829, 29830])"

lemma frameTimes_sum:
  "nat (mode0Delays r ! 0) = frameTimes r ! 0"
  "k < 5 \<Longrightarrow> frameTimes r ! Suc k = frameTimes r ! k + nat (mode0Delays r ! Suc k)"
proof -
  show "nat (mode0Delays r ! 0) = frameTimes r ! 0" by (simp add: frameTimes_def mode0Delays_def)
  assume "k < 5"
  then consider "k = 0" | "k = 1" | "k = 2" | "k = 3" | "k = 4" by linarith
  then show "frameTimes r ! Suc k = frameTimes r ! k + nat (mode0Delays r ! Suc k)"
    by cases (simp_all add: frameTimes_def mode0Delays_def)
qed

lemma sched_split:
  assumes "a \<le> n"
  shows "(sched_step r ^^ n) c = (sched_step r ^^ (n - a)) ((sched_step r ^^ a) c)"
proof -
  have "n = (n - a) + a" using assms by simp
  then show ?thesis by (metis funpow_add comp_apply)
qed

lemma phase0_next:
  assumes "phase0 r inh (Suc k) i u ((sched_step r ^^ (frameTimes r ! k)) c)" "k < 5"
  shows "phase0 r inh (if k = 4 then 0 else Suc (Suc k)) (irq0 inh (Suc k) i) (clock0 (Suc k) u)
      ((sched_step r ^^ (frameTimes r ! Suc k)) c)"
  using phase0_end[OF assms(1)] assms(2) sched_split[of "frameTimes r ! k" "frameTimes r ! Suc k" r c]
  by (simp add: frameTimes_sum(2))

lemma phase0_between:
  assumes "phase0 r inh (Suc k) i u ((sched_step r ^^ (frameTimes r ! k)) c)" "k < 5"
    "frameTimes r ! k \<le> n" "n < frameTimes r ! Suc k"
  shows "sc_clocked ((sched_step r ^^ n) c) = u \<and> sc_irq ((sched_step r ^^ n) c) = i"
  using phase0_during[OF assms(1), of "n - frameTimes r ! k"] assms(2-4) sched_split[OF assms(3), of r c]
  by (simp add: frameTimes_sum(2))

text \<open>The six phases of a frame, each with the interrupt flag and the units it starts with.\<close>

lemma mode0_phases:
  assumes "phase0 r inh 0 i u c"
  shows "phase0 r inh (Suc 0) i (quarter u) ((sched_step r ^^ (frameTimes r ! 0)) c)"
    "phase0 r inh (Suc 1) i (half (quarter u)) ((sched_step r ^^ (frameTimes r ! 1)) c)"
    "phase0 r inh (Suc 2) i (quarter (half (quarter u))) ((sched_step r ^^ (frameTimes r ! 2)) c)"
    "phase0 r inh (Suc 3) True (quarter (half (quarter u))) ((sched_step r ^^ (frameTimes r ! 3)) c)"
    "phase0 r inh (Suc 4) True (half (quarter (half (quarter u)))) ((sched_step r ^^ (frameTimes r ! 4)) c)"
    "phase0 r inh 0 (\<not> inh) (half (quarter (half (quarter u)))) ((sched_step r ^^ (frameTimes r ! 5)) c)"
proof -
  show p0: "phase0 r inh (Suc 0) i (quarter u) ((sched_step r ^^ (frameTimes r ! 0)) c)"
    using phase0_end[OF assms] by (simp add: frameTimes_sum(1) irq0_def clock0_def)
  show p1: "phase0 r inh (Suc 1) i (half (quarter u)) ((sched_step r ^^ (frameTimes r ! 1)) c)"
    using phase0_next[OF p0] by (simp add: irq0_def clock0_def)
  show p2: "phase0 r inh (Suc 2) i (quarter (half (quarter u))) ((sched_step r ^^ (frameTimes r ! 2)) c)"
    using phase0_next[OF p1] by (simp add: irq0_def clock0_def numeral_2_eq_2)
  show p3: "phase0 r inh (Suc 3) True (quarter (half (quarter u))) ((sched_step r ^^ (frameTimes r ! 3)) c)"
    using phase0_next[OF p2] by (simp add: irq0_def clock0_def eval_nat_numeral)
  show p4: "phase0 r inh (Suc 4) True (half (quarter (half (quarter u)))) ((sched_step r ^^ (frameTimes r ! 4)) c)"
    using phase0_next[OF p3] by (simp add: irq0_def clock0_def eval_nat_numeral)
  show "phase0 r inh 0 (\<not> inh) (half (quarter (half (quarter u)))) ((sched_step r ^^ (frameTimes r ! 5)) c)"
    using phase0_next[OF p4] by (simp add: irq0_def clock0_def eval_nat_numeral)
qed

text \<open>The interrupt flag and the units after any number of cycles of a frame.\<close>

lemma mode0_course:
  assumes "phase0 r inh 0 i u c" "n < frameTimes r ! 5"
  shows "sc_clocked ((sched_step r ^^ n) c) =
      (if n < frameTimes r ! 0 then u
       else if n < frameTimes r ! 1 then quarter u
       else if n < frameTimes r ! 2 then half (quarter u)
       else if n < frameTimes r ! 4 then quarter (half (quarter u))
       else half (quarter (half (quarter u)))) \<and>
    sc_irq ((sched_step r ^^ n) c) = (frameTimes r ! 3 \<le> n \<or> i)"
proof -
  have mono: "frameTimes r ! 0 \<le> frameTimes r ! 1" "frameTimes r ! 1 \<le> frameTimes r ! 2"
    "frameTimes r ! 2 \<le> frameTimes r ! 3" "frameTimes r ! 3 \<le> frameTimes r ! 4"
    by (simp_all add: frameTimes_def)
  have during: "sc_clocked ((sched_step r ^^ n) c) = u \<and> sc_irq ((sched_step r ^^ n) c) = i"
    if "n < frameTimes r ! 0"
    using phase0_during[OF assms(1)] that by (simp add: frameTimes_sum(1))
  note between = mode0_phases(1-5)[OF assms(1), THEN phase0_between, of n]
  consider "n < frameTimes r ! 0" | "frameTimes r ! 0 \<le> n" "n < frameTimes r ! 1"
    | "frameTimes r ! 1 \<le> n" "n < frameTimes r ! 2" | "frameTimes r ! 2 \<le> n" "n < frameTimes r ! 3"
    | "frameTimes r ! 3 \<le> n" "n < frameTimes r ! 4" | "frameTimes r ! 4 \<le> n" by linarith
  then show ?thesis
    using during between mono assms(2) by cases (simp_all add: eval_nat_numeral)
qed

text \<open>In mode 1 the frame ends with \<open>m_jitter\<close> clear, and from there on every frame has
  37282 cycles (PAL: 41566).\<close>

lemma mode1_frame:
  assumes "sc_mode c" "sc_step c = 0" "sc_delay c = mode1Delays r ! 0 + 1" "sc_jitter c"
  shows "(sched_step r ^^ (if r = PAL then 41566 else 37282)) c =
    c\<lparr>sc_clocked := half (quarter (half (quarter (sc_clocked c))))\<rparr>"
proof (cases "r = PAL")
  case True
  have "(sched_step r ^^ 41566) c = c\<lparr>sc_clocked := half (quarter (half (quarter (sc_clocked c))))\<rparr>"
    using assms True
    by (simp add: sched_chain[where m = 33252] sched_chain[where m = 24938] sched_chain[where m = 16626]
      sched_chain[where m = 8312] sched_chain[where m = 0] run_phases)
  then show ?thesis using True by simp
next
  case False
  have "(sched_step r ^^ 37282) c = c\<lparr>sc_clocked := half (quarter (half (quarter (sc_clocked c))))\<rparr>"
    using assms False
    by (simp add: sched_chain[where m = 29824] sched_chain[where m = 22368] sched_chain[where m = 14910]
      sched_chain[where m = 7453] sched_chain[where m = 0] run_phases)
  then show ?thesis using False by simp
qed

end
