(* ===== verification/Console.thy ===== *)
theory Console
  imports Ram_Bus Oam_Dma Apu_Schedule
begin

text \<open>
  The CPU on the bus of the console: the theorems of \<open>Cpu_Timing\<close>, \<open>Oam_Dma\<close> and
  \<open>Ram_Bus\<close> through their interpretations on \<open>nes_ops\<close>, for arbitrary PPU, cartridge and
  controller operations \<open>P\<close>. The witnesses run a console whose devices are inert.
\<close>

subsection \<open>A concrete console\<close>

definition bare :: "'p dev_ops" where
  "bare = \<lparr>
     cartridge_onCpuRead = \<lambda>_ p. p, cartridge_onCpuWrite = \<lambda>_ _ p. p,
     cartridge_isNsf = \<lambda>_. False, cartridge_isVsSystem = \<lambda>_. False,
     cartridge_readMapperRegister = \<lambda>_ d p. (d, p), cartridge_writeMapperRegister = \<lambda>_ _ p. p,
     cartridge_readMapperRegisterAbsolute = \<lambda>_ d p. (d, p),
     cartridge_writeMapperRegisterAbsolute = \<lambda>_ _ p. p,
     cartridge_readSaveRam = \<lambda>_ p. (0, p), cartridge_writeSaveRam = \<lambda>_ _ p. p,
     cartridge_readPrg = \<lambda>_ p. (0xEA, p), cartridge_writePrg = \<lambda>_ _ p. p,
     cartridge_getInterruptFlag = \<lambda>_. False, cartridge_cycle = \<lambda>p. p,
     cartridge_getExpansionAudioSample = \<lambda>p. p, cartridge_consumeNsfRedirect = \<lambda>p. (None, p),
     ppu_read = \<lambda>_ _ d p. (d, p), ppu_write = \<lambda>_ _ p. p, ppu_isOverclockFrame = \<lambda>_. False,
     ppu_clearOverclockFrame = \<lambda>p. p, ppu_overclockLines = \<lambda>_. False, ppu_cycle = \<lambda>p. p,
     ppu_takeInterruptFlag = \<lambda>p. (False, p), ppu_onCpuBusAccessEnd = \<lambda>_ _ p. p,
     hasFourScore = \<lambda>_. False, hasHoriAdapter = \<lambda>_. False, hasPortDevice1 = \<lambda>_. False,
     hasPortDevice2 = \<lambda>_. False, hasExpansionDevice = \<lambda>_. False, isAnyMultitapActive = \<lambda>_. False,
     fourScore_write = \<lambda>_ p. p, fourScore_readPort = \<lambda>_ _ p. (0, p), fourScore_transition = \<lambda>p. p,
     horiAdapter_write4016 = \<lambda>_ p. p, horiAdapter_read4016 = \<lambda>_ p. (0, p),
     horiAdapter_read4017 = \<lambda>_ p. (0, p), horiAdapter_transition = \<lambda>p. p,
     portDevice1_write = \<lambda>_ p. p, portDevice1_read = \<lambda>_ p. (0, p), portDevice1_transition = \<lambda>p. p,
     portDevice2_write = \<lambda>_ p. p, portDevice2_read = \<lambda>_ p. (0, p),
     portDevice2_extraRead4016Bits = \<lambda>_. 0, portDevice2_transition = \<lambda>p. p,
     expansionDevice_write4016 = \<lambda>_ p. p, expansionDevice_read4016 = \<lambda>_ p. (0, p),
     expansionDevice_read4017 = \<lambda>_ p. (0, p)\<rparr>"

definition inert :: "unit dev_ops" where
  "inert = bare"

definition nes0 :: "unit nes" where
  "nes0 = \<lparr>n_ram = replicate 0x800 0, n_openBus = 0, n_internalDataBus = 0,
     n_prevControllerReadAddr = 0xFFFF, n_4011WriteCounter = 0, n_region = NTSC, n_apu = apu0,
     n_hw = hw_reset, n_dev = ()\<rparr>"

definition cpu0 :: "dma \<Rightarrow> 'e \<Rightarrow> 'e cpu" where
  "cpu0 d e = \<lparr>m_pc = 0x8000, m_sp = 0xFD, m_a = 0, m_x = 0, m_y = 0, m_status = 0x24,
     m_cyclesCounter = 0, m_opcode = 0, m_addr = 0, m_addrHigh = 0, m_addrPageCross = False,
     m_nmiSignal = False, m_irqSignal = False, m_nmiStep = WAITING_LOW, m_irqStep = False,
     m_interrupt = NONE, m_currentInstructionCycle = 0, m_poolIntsAtCycle = 0xFF, m_runCount = 0,
     m_writeCycle = False, m_resetRequest = False, m_lastReadHadDma = False,
     m_indexedDummyReadHadDma = False, m_ppuTimingRegion = NTSC, m_ppuLateCycleRemainder = 0,
     m_dma = d, env = e\<rparr>"

lemma nes0_calm: "nes_calm nes0"
  by (simp add: nes_calm_def nes_idle_def nes0_def apu_idle_def apu0_def dmc_idle_def dmc_init_def)

lemma cpu0_calm: "calm nes_calm (cpu0 dma_init nes0)"
  by (simp add: calm_def cpu0_def nes0_calm dma_idle_def dma_init_def)

subsection \<open>Instruction timing\<close>

text \<open>The opcodes of the eight conditional branches.\<close>

definition branch_opcode :: "u8 \<Rightarrow> bool" where
  "branch_opcode op \<longleftrightarrow> op AND 0x1F = 0x10"

lemma op_cost_None: "list_all (\<lambda>(op, c). c = None \<longleftrightarrow> op mod 32 = 16) (zip [0..<256] op_cost)"
  by code_simp

lemma op_cost_branch: "op_cost ! unat op = None \<longleftrightarrow> branch_opcode op"
proof -
  have "op_cost ! unat op = None \<longleftrightarrow> unat op mod 32 = 16"
    using op_cost_None by (simp add: list_all_length)
  moreover have "op AND 0x1F = take_bit 5 op" by (simp add: take_bit_eq_mask mask_eq_exp_minus_1)
  then have "unat (op AND 0x1F) = unat op mod 32"
    by (simp add: unsigned_take_bit_eq take_bit_eq_mod unat_mod)
  ultimately show ?thesis by (simp add: branch_opcode_def word_unat_eq_iff)
qed

text \<open>
  C1: on the console bus with the sample channel idle and no DMA pending, \<open>CPU2A03::run\<close>
  returns from every instruction, and unless the opcode is a branch or one of those that halt a
  6502, it has run for exactly the documented number of cycles, with one more cycle when an
  indexed read crossed a page.
\<close>

theorem instruction_cycles:
  assumes "calm nes_calm s" "\<not> m_resetRequest s" "m_interrupt s = NONE"
  shows "\<exists>t. run (nes_ops P) s = Some t \<and>
    (\<not> branch_opcode (m_opcode t) \<and> BASE_CYCLES ! unat (m_opcode t) \<noteq> 0 \<longrightarrow>
     m_runCount t = BASE_CYCLES ! unat (m_opcode t) +
       (if crossable (addrMode ! unat (m_opcode t)) \<and> m_addrPageCross t then 1 else 0))"
proof -
  let ?s = "s\<lparr>m_runCount := 0, m_currentInstructionCycle := 0, m_addr := 0, m_addrHigh := 0,
    m_addrPageCross := False\<rparr>"
  have "calm nes_calm ?s" using assms(1) by simp
  then show ?thesis
    using nes_ram.runInstruction_cycles[of ?s P] assms(2,3)
    by (auto simp: run_def Let_def op_cost_branch)
qed

theorem instruction_cycles_witness:
  "\<exists>t. run (nes_ops inert) (cpu0 dma_init nes0) = Some t \<and>
    (\<not> branch_opcode (m_opcode t) \<and> BASE_CYCLES ! unat (m_opcode t) \<noteq> 0 \<longrightarrow>
     m_runCount t = BASE_CYCLES ! unat (m_opcode t) +
       (if crossable (addrMode ! unat (m_opcode t)) \<and> m_addrPageCross t then 1 else 0))"
  by (rule instruction_cycles[OF cpu0_calm]) (simp_all add: cpu0_def)

text \<open>
  A conditional branch reads its offset; a branch taken reads once more, and a second time
  when the target is on another page than the next instruction, so that with the opcode fetch it
  takes 2, 3 or 4 cycles; the target is the address of the next instruction plus the
  sign-extended offset.
\<close>

theorem branch_cycles:
  assumes "calm nes_calm s"
  shows "\<exists>t offset u. readMemory (nes_ops P) (m_addr s) s = Some (offset, u) \<and>
    branch (nes_ops P) taken s = Some t \<and>
    m_pc t = (if taken then m_pc s + scast offset else m_pc s) \<and>
    m_runCount t = m_runCount s +
      (if \<not> taken then 1 else if test_bits (m_pc s XOR m_pc t) 0xFF00 then 3 else 2)"
  using nes_ram.branch_cost[OF assms, of P taken] nes_ram.read_returns(1)[OF assms, of P "m_addr s"]
  by (auto split: if_splits)

theorem branch_cycles_witness:
  "\<exists>t offset u. readMemory (nes_ops inert) (m_addr (cpu0 dma_init nes0)) (cpu0 dma_init nes0) =
      Some (offset, u) \<and>
    branch (nes_ops inert) True (cpu0 dma_init nes0) = Some t \<and>
    m_pc t = (if True then m_pc (cpu0 dma_init nes0) + scast offset else m_pc (cpu0 dma_init nes0)) \<and>
    m_runCount t = m_runCount (cpu0 dma_init nes0) +
      (if \<not> True then 1 else if test_bits (m_pc (cpu0 dma_init nes0) XOR m_pc t) 0xFF00 then 3 else 2)"
  by (rule branch_cycles[OF cpu0_calm])

text \<open>
  A pending interrupt makes \<open>CPU2A03::run\<close> execute the interrupt sequence: seven cycles,
  three bytes pushed, interrupts disabled, the break flag clear, the request taken back, and the
  working registers untouched.
\<close>

theorem interrupt_sequence:
  assumes "calm nes_calm s" "\<not> m_resetRequest s" "m_interrupt s \<noteq> NONE"
  shows "\<exists>t. run (nes_ops P) s = Some t \<and> m_runCount t = 7 \<and> m_sp t = m_sp s - 3 \<and>
    irq_disable t \<and> \<not> brk t \<and> m_interrupt t = NONE \<and>
    m_a t = m_a s \<and> m_x t = m_x s \<and> m_y t = m_y s"
proof -
  let ?s = "s\<lparr>m_runCount := 0, m_currentInstructionCycle := 0, m_addr := 0, m_addrHigh := 0,
    m_addrPageCross := False\<rparr>"
  have "calm nes_calm ?s" using assms(1) by simp
  from nes_ram.runInterrupt_effect[OF this, of P] show ?thesis
    using assms(2,3) by (auto simp: run_def Let_def)
qed

theorem interrupt_sequence_witness:
  "\<exists>t. run (nes_ops inert) ((cpu0 dma_init nes0)\<lparr>m_interrupt := NMI\<rparr>) = Some t \<and> m_runCount t = 7 \<and>
    m_sp t = m_sp ((cpu0 dma_init nes0)\<lparr>m_interrupt := NMI\<rparr>) - 3 \<and>
    irq_disable t \<and> \<not> brk t \<and> m_interrupt t = NONE \<and>
    m_a t = m_a ((cpu0 dma_init nes0)\<lparr>m_interrupt := NMI\<rparr>) \<and>
    m_x t = m_x ((cpu0 dma_init nes0)\<lparr>m_interrupt := NMI\<rparr>) \<and>
    m_y t = m_y ((cpu0 dma_init nes0)\<lparr>m_interrupt := NMI\<rparr>)"
  by (rule interrupt_sequence) (simp_all add: cpu0_calm, simp add: cpu0_def)

text \<open>
  A requested reset is served first, in every state and with every console around the CPU:
  it always returns, after seven cycles, with the stack pointer moved down by three, interrupts
  disabled and the request taken back.
\<close>

theorem reset_sequence:
  assumes "m_resetRequest s"
  shows "\<exists>t. run E s = Some t \<and> m_runCount t = 7 \<and> m_sp t = m_sp s - 3 \<and> irq_disable t \<and>
    \<not> m_resetRequest t"
proof -
  define u where "u = s\<lparr>m_runCount := 0, m_currentInstructionCycle := 0, m_addr := 0, m_addrHigh := 0,
    m_addrPageCross := False, m_resetRequest := False\<rparr>"
  have "run E s = Some (resetSequence E u)" using assms by (simp add: run_def u_def)
  moreover have "m_sp u = m_sp s" "\<not> m_resetRequest u" by (simp_all add: u_def)
  ultimately show ?thesis using resetSequence_effect[of E u] by simp
qed

theorem reset_sequence_witness:
  "\<exists>t. run (nes_ops inert) ((cpu0 dma_init nes0)\<lparr>m_resetRequest := True\<rparr>) = Some t \<and>
    m_runCount t = 7 \<and> m_sp t = m_sp ((cpu0 dma_init nes0)\<lparr>m_resetRequest := True\<rparr>) - 3 \<and>
    irq_disable t \<and> \<not> m_resetRequest t"
  by (rule reset_sequence) simp

subsection \<open>The stack\<close>

definition stack_byte :: "'p nes cpu \<Rightarrow> u8 \<Rightarrow> u8" where
  "stack_byte s b = n_ram (env s) ! (0x100 + unat b)"

text \<open>
  C4: a subroutine call returns. After \<open>JSR\<close>, any state with the same stack pointer and the two
  stacked bytes intact executes \<open>RTS\<close> to the instruction after the call, with the stack
  pointer of the caller; this holds for every value of the stack pointer, wrap-around included.
\<close>

theorem call_return:
  assumes "calm nes_calm s"
  shows "\<exists>t. JSR (nes_ops P) s = Some t \<and> m_sp t = m_sp s - 2 \<and>
    (\<forall>t'. calm nes_calm t' \<and> m_sp t' = m_sp t \<and> stack_byte t' (m_sp t + 1) = stack_byte t (m_sp t + 1) \<and>
       stack_byte t' (2 + m_sp t) = stack_byte t (2 + m_sp t) \<longrightarrow>
     (\<exists>u. RTS (nes_ops P) t' = Some u \<and> m_pc u = m_pc s + 2 \<and> m_sp u = m_sp s))"
proof -
  obtain t where t: "JSR (nes_ops P) s = Some t" "m_sp t = m_sp s - 2" "nes_ram.holds16 (m_pc s + 1) t"
    using nes_ram.JSR_effect[OF assms, of P] by auto
  have "\<exists>u. RTS (nes_ops P) t' = Some u \<and> m_pc u = m_pc s + 2 \<and> m_sp u = m_sp s"
    if "calm nes_calm t'" "m_sp t' = m_sp t" "stack_byte t' (m_sp t + 1) = stack_byte t (m_sp t + 1)"
      "stack_byte t' (2 + m_sp t) = stack_byte t (2 + m_sp t)" for t'
  proof -
    have "nes_ram.holds16 (m_pc s + 1) t'"
      using t(3) that(2-4) by (simp add: nes_ram.holds16_def nes_ram.M_def stack_byte_def)
    from nes_ram.RTS_effect[OF that(1) this, of P] show ?thesis using t(2) that(2) by auto
  qed
  then show ?thesis using t by blast
qed

theorem call_return_witness:
  "\<exists>t. JSR (nes_ops inert) (cpu0 dma_init nes0) = Some t \<and> m_sp t = m_sp (cpu0 dma_init nes0) - 2 \<and>
    (\<forall>t'. calm nes_calm t' \<and> m_sp t' = m_sp t \<and> stack_byte t' (m_sp t + 1) = stack_byte t (m_sp t + 1) \<and>
       stack_byte t' (2 + m_sp t) = stack_byte t (2 + m_sp t) \<longrightarrow>
     (\<exists>u. RTS (nes_ops inert) t' = Some u \<and> m_pc u = m_pc (cpu0 dma_init nes0) + 2 \<and>
       m_sp u = m_sp (cpu0 dma_init nes0)))"
  by (rule call_return[OF cpu0_calm])

text \<open>
  C5: an interrupt returns. After the interrupt sequence (of \<open>BRK\<close> or of a hardware
  interrupt), any state with the same stack pointer and the three stacked bytes intact executes
  \<open>RTI\<close> back to the interrupted program counter (for \<open>BRK\<close>, past its padding byte) with
  the status register it was interrupted with, except for the break and unused bits.
\<close>

theorem interrupt_return:
  assumes "calm nes_calm s"
  shows "\<exists>t. emulateInterruptSequence (nes_ops P) isBrk s = Some t \<and> m_sp t = m_sp s - 3 \<and>
    (\<forall>t'. calm nes_calm t' \<and> m_sp t' = m_sp t \<and> stack_byte t' (m_sp t + 1) = stack_byte t (m_sp t + 1) \<and>
       stack_byte t' (2 + m_sp t) = stack_byte t (2 + m_sp t) \<and>
       stack_byte t' (3 + m_sp t) = stack_byte t (3 + m_sp t) \<longrightarrow>
     (\<exists>u. RTI (nes_ops P) t' = Some u \<and> m_pc u = (if isBrk then m_pc s + 1 else m_pc s) \<and>
       m_sp u = m_sp s \<and> m_status u = set_flag 5 True (set_flag 4 isBrk (m_status s))))"
proof -
  obtain t where t: "emulateInterruptSequence (nes_ops P) isBrk s = Some t" "m_sp t = m_sp s - 3"
    "nes_ram.holds_frame (set_flag 5 True (set_flag 4 isBrk (m_status s)))
      (if isBrk then m_pc s + 1 else m_pc s) t"
    using nes_ram.interrupt_frame[OF assms, of P isBrk] by auto
  have "\<exists>u. RTI (nes_ops P) t' = Some u \<and> m_pc u = (if isBrk then m_pc s + 1 else m_pc s) \<and>
      m_sp u = m_sp s \<and> m_status u = set_flag 5 True (set_flag 4 isBrk (m_status s))"
    if "calm nes_calm t'" "m_sp t' = m_sp t" "stack_byte t' (m_sp t + 1) = stack_byte t (m_sp t + 1)"
      "stack_byte t' (2 + m_sp t) = stack_byte t (2 + m_sp t)"
      "stack_byte t' (3 + m_sp t) = stack_byte t (3 + m_sp t)" for t'
  proof -
    have "nes_ram.holds_frame (set_flag 5 True (set_flag 4 isBrk (m_status s)))
        (if isBrk then m_pc s + 1 else m_pc s) t'"
      using t(3) that(2-5) by (simp add: nes_ram.holds_frame_def nes_ram.M_def stack_byte_def)
    from nes_ram.RTI_effect[OF that(1) this, of P] show ?thesis using t(2) that(2) by auto
  qed
  then show ?thesis using t by blast
qed

theorem interrupt_return_witness:
  "\<exists>t. emulateInterruptSequence (nes_ops inert) False (cpu0 dma_init nes0) = Some t \<and>
    m_sp t = m_sp (cpu0 dma_init nes0) - 3 \<and>
    (\<forall>t'. calm nes_calm t' \<and> m_sp t' = m_sp t \<and> stack_byte t' (m_sp t + 1) = stack_byte t (m_sp t + 1) \<and>
       stack_byte t' (2 + m_sp t) = stack_byte t (2 + m_sp t) \<and>
       stack_byte t' (3 + m_sp t) = stack_byte t (3 + m_sp t) \<longrightarrow>
     (\<exists>u. RTI (nes_ops inert) t' = Some u \<and>
       m_pc u = (if False then m_pc (cpu0 dma_init nes0) + 1 else m_pc (cpu0 dma_init nes0)) \<and>
       m_sp u = m_sp (cpu0 dma_init nes0) \<and>
       m_status u = set_flag 5 True (set_flag 4 False (m_status (cpu0 dma_init nes0)))))"
  by (rule interrupt_return[OF cpu0_calm])

subsection \<open>Sprite DMA\<close>

text \<open>
  C2: an OAM transfer, from the first CPU read after the write to \<open>$4014\<close>. When the sample
  channel is idle, the source page is not the register page \<open>$40\<close> and the halted read is
  outside \<open>$4000-$401F\<close>, \<open>DMA::processPending\<close> returns after 513 cycles, or 514 when
  the transfer was requested on a get cycle; the bus accesses are the halt and alignment reads,
  then for \<open>i = 0 .. 255\<close> a read of \<open>page * 256 + i\<close> followed by a write of the byte
  just read to \<open>$2004\<close>; the transfer is then over and the CPU registers are untouched.
\<close>

theorem oam_dma_transfer:
  assumes "nes_idle (fst (env s))" "m_dma s = startOamDma (push_bit 8 (ucast page)) d"
    and "\<not> d_dmcDmaRunning d" "\<not> d_dmcAbortPending d" "\<not> d_dmcSingleCycleAbortPending d"
    and "a AND 0xFFE0 \<noteq> 0x4000" "page \<noteq> 0x40"
  shows "\<exists>t vs dummies. processPending (traced (nes_ops P)) a False s = Some t \<and>
     m_runCount t = m_runCount s + (if isDmaGetCycle s then 514 else 513) \<and>
     length vs = 256 \<and> length dummies = (if isDmaGetCycle s then 2 else 1) \<and>
     snd (env t) = snd (env s) @ map (BusRead a) dummies @ oam_events page 0 vs \<and>
     oam_done (m_dma t) \<and> core t = core s"
  using oam_transfer_quiet[OF quiet_bus_traced[OF nes.quiet_bus_axioms] _ assms(2-7)] assms(1) by fastforce

definition oam_cpu :: "(unit nes \<times> bus_event list) cpu" where
  "oam_cpu = cpu0 (startOamDma 0x0200 dma_init) (nes0, [])"

theorem oam_dma_transfer_witness:
  "\<exists>t vs dummies. processPending (traced (nes_ops inert)) 0x8000 False oam_cpu = Some t \<and>
     m_runCount t = m_runCount oam_cpu + (if isDmaGetCycle oam_cpu then 514 else 513) \<and>
     length vs = 256 \<and> length dummies = (if isDmaGetCycle oam_cpu then 2 else 1) \<and>
     snd (env t) = snd (env oam_cpu) @ map (BusRead 0x8000) dummies @ oam_events 2 0 vs \<and>
     oam_done (m_dma t) \<and> core t = core oam_cpu"
proof (rule oam_dma_transfer)
  show "nes_idle (fst (env oam_cpu))" using nes0_calm by (simp add: oam_cpu_def cpu0_def nes_calm_def)
  show "m_dma oam_cpu = startOamDma (push_bit 8 (ucast (2 :: u8))) dma_init"
    by (simp add: oam_cpu_def cpu0_def)
qed (simp_all add: dma_init_def)

end
