(* ===== verification/Apu_Claims.thy ===== *)
theory Apu_Claims
  imports Apu_Schedule
begin

text \<open>
  The theorems about the APU that a user of \<open>APU.h\<close> relies on.
\<close>

text \<open>
  C6: the registers of a powered-up APU stay in range under every interleaving of cycles,
  register accesses, DMA completions and resets: volumes are 4-bit, pulse and triangle periods
  11-bit, the noise period (a divisor) is never zero, length counters are at most 254 and zero on
  a disabled channel, the delta counter is 7-bit, and the frame sequencer always has a positive
  delay and a valid step.
\<close>

theorem apu_registers:
  assumes "apu_reach s"
  shows "pulse_getVolume (ap_pulse1 s) \<le> 15 \<and> pulse_getVolume (ap_pulse2 s) \<le> 15 \<and>
    noise_getVolume (ap_noise s) \<le> 15 \<and>
    pu_period (ap_pulse1 s) \<le> 0x7FF \<and> pu_period (ap_pulse2 s) \<le> 0x7FF \<and>
    tr_period (ap_triangle s) \<le> 0x7FF \<and> 0 < no_period (ap_noise s) \<and>
    pu_lengthCounter (ap_pulse1 s) \<le> 254 \<and> (pu_enabled (ap_pulse1 s) \<or> pu_lengthCounter (ap_pulse1 s) = 0) \<and>
    pu_lengthCounter (ap_pulse2 s) \<le> 254 \<and> (pu_enabled (ap_pulse2 s) \<or> pu_lengthCounter (ap_pulse2 s) = 0) \<and>
    tr_lengthCounter (ap_triangle s) \<le> 254 \<and> (tr_enabled (ap_triangle s) \<or> tr_lengthCounter (ap_triangle s) = 0) \<and>
    no_lengthCounter (ap_noise s) \<le> 254 \<and> (no_enabled (ap_noise s) \<or> no_lengthCounter (ap_noise s) = 0) \<and>
    dm_deltaCounter (ap_sample s) \<le> 127 \<and> dm_bytesRemaining (ap_sample s) \<le> 4081 \<and>
    0 < ap_nextDelay s \<and> ap_frameStep s < (if ap_mode s then 5 else 6)"
  using apu_reach_ok[OF assms]
  by (simp add: apu_ok_def apu_regs_def pulse_getVolume_le noise_getVolume_le)
    (auto simp: pulse_ok_def triangle_ok_def noise_ok_def dmc_ok_def pulse_len.ok_def
      triangle_len.ok_def noise_len.ok_def)

theorem apu_registers_witness:
  "pulse_getVolume (ap_pulse1 (snd (powerOnReset NTSC apu0))) \<le> 15"
  using apu_registers[OF apu_reach.power_up[of NTSC apu0]] by blast

text \<open>
  C7: the course of a frame in mode 0, for an APU at its start whose registers the program leaves
  alone. The phases end at the cycles 7457, 14913, 22371, 29828, 29829 and 29830 (PAL: 8313, 16627,
  24939, 33252, 33253 and 33254). After each number of cycles up to the end, the envelopes of both
  pulse channels and of the noise channel and the linear counter of the triangle channel have been
  clocked once for each of the cycles 1, 2, 3 and 5 of that list reached, the sweeps and the four
  length counters with the second and the fourth of these, in this order and by nothing else. The
  frame interrupt flag keeps its value up to cycle 29828, is set there whatever the inhibit flag
  says, and two cycles later is the negation of the inhibit flag; then the next frame begins.
\<close>

theorem frame_4step:
  assumes "settled s" "apu_ok s" "\<not> ap_mode s" "ap_frameStep s = 0" "ap_nextDelay s = mode0Delays r ! 0"
    "n \<le> frameTimes r ! 5"
  shows "let t = snd (apu_steps n r s); u = clocked s in
    clocked t =
      (if n < frameTimes r ! 0 then u
       else if n < frameTimes r ! 1 then quarter u
       else if n < frameTimes r ! 2 then half (quarter u)
       else if n < frameTimes r ! 4 then quarter (half (quarter u))
       else half (quarter (half (quarter u)))) \<and>
    ap_frameInterruptFlag t =
      (if n < frameTimes r ! 3 then ap_frameInterruptFlag s
       else if n < frameTimes r ! 5 then True else \<not> ap_interruptInhibitFlag s) \<and>
    (n = frameTimes r ! 5 \<longrightarrow>
       \<not> ap_mode t \<and> ap_frameStep t = 0 \<and> ap_nextDelay t = mode0Delays r ! 0 \<and> settled t)"
proof -
  note run = schedule_steps[OF assms(1,2), of n r]
  have start: "phase0 r (ap_interruptInhibitFlag s) 0 (ap_frameInterruptFlag s) (clocked s) (schedule s)"
    using assms(3-5) by (simp add: phase0_def schedule_def)
  have fields: "clocked (snd (apu_steps n r s)) = sc_clocked ((sched_step r ^^ n) (schedule s))"
    "ap_frameInterruptFlag (snd (apu_steps n r s)) = sc_irq ((sched_step r ^^ n) (schedule s))"
    unfolding conjunct1[OF run, symmetric] by (simp_all add: schedule_def)
  show ?thesis
  proof (cases "n = frameTimes r ! 5")
    case True
    have "phase0 r (ap_interruptInhibitFlag s) 0 (\<not> ap_interruptInhibitFlag s)
        (half (quarter (half (quarter (clocked s))))) (schedule (snd (apu_steps n r s)))"
      using mode0_phases(6)[OF start] run True by simp
    moreover have "frameTimes r ! 0 \<le> n" "frameTimes r ! 1 \<le> n" "frameTimes r ! 2 \<le> n"
      "frameTimes r ! 3 \<le> n" "frameTimes r ! 4 \<le> n"
      by (simp_all add: True frameTimes_def)
    ultimately show ?thesis using run True by (simp add: phase0_def schedule_def Let_def)
  next
    case False
    then have "n < frameTimes r ! 5" using assms(6) by simp
    from mode0_course[OF start this] show ?thesis using False assms(6) by (simp add: fields Let_def)
  qed
qed

theorem frame_4step_witness:
  "let t = snd (apu_steps 29829 NTSC apu0); u = clocked apu0 in
    clocked t = half (quarter (half (quarter u))) \<and> ap_frameInterruptFlag t"
  using frame_4step[OF _ apu0_ok, of NTSC 29829]
  by (simp add: settled_def apu0_def mode0Delays_def frameTimes_def Let_def)

text \<open>
  In mode 1 a frame takes 37282 cycles (41566 on PAL) once the sequencer runs in step with
  \<open>m_jitter\<close>; it clocks the same units and leaves the frame interrupt flag alone.
\<close>

theorem frame_5step:
  assumes "settled s" "apu_ok s" "ap_mode s" "ap_frameStep s = 0"
    "ap_nextDelay s = mode1Delays r ! 0 + 1" "ap_jitter s"
  shows "let t = snd (apu_steps (if r = PAL then 41566 else 37282) r s) in
    ap_mode t \<and> ap_frameStep t = 0 \<and> ap_nextDelay t = mode1Delays r ! 0 + 1 \<and> ap_jitter t \<and>
    ap_frameInterruptFlag t = ap_frameInterruptFlag s \<and>
    clocked t = half (quarter (half (quarter (clocked s))))"
proof -
  have "schedule (snd (apu_steps (if r = PAL then 41566 else 37282) r s)) =
      (schedule s)\<lparr>sc_clocked := half (quarter (half (quarter (clocked s))))\<rparr>"
    using schedule_steps[OF assms(1,2)] mode1_frame[of "schedule s" r] assms(3-6)
    by (simp add: schedule_def)
  then show ?thesis using assms(3-6) by (simp add: schedule_def Let_def)
qed

definition apu1 :: apu where
  "apu1 = apu0\<lparr>ap_mode := True, ap_nextDelay := 7458, ap_jitter := True\<rparr>"

theorem frame_5step_witness:
  "let t = snd (apu_steps (if NTSC = PAL then 41566 else 37282) NTSC apu1) in
    ap_mode t \<and> ap_frameStep t = 0 \<and> ap_nextDelay t = mode1Delays NTSC ! 0 + 1 \<and> ap_jitter t \<and>
    ap_frameInterruptFlag t = ap_frameInterruptFlag apu1 \<and>
    clocked t = half (quarter (half (quarter (clocked apu1))))"
  by (rule frame_5step)
    (simp_all add: settled_def apu1_def apu0_def mode1Delays_def apu_ok_def apu_regs_def channel_ok dmc_init_ok)

lemma pendingWrite_irq [simp]:
  "ap_frameInterruptFlag (pendingWrite r s) = ap_frameInterruptFlag s"
  "ap_frameInterruptClearDelay (pendingWrite r s) = ap_frameInterruptClearDelay s"
  "ap_nextDelay (pendingWrite r s) = ap_nextDelay s"
  by (simp_all add: pendingWrite_def writeChannels_def Let_def case_prod_unfold)

lemma step_irq:
  assumes "ap_nextDelay s > 1"
  shows "ap_frameInterruptFlag (snd (apu_step r s)) =
      (ap_frameInterruptFlag s \<and> ap_frameInterruptClearDelay s \<noteq> 1)"
    "ap_frameInterruptClearDelay (snd (apu_step r s)) =
      (if ap_frameInterruptClearDelay s > 0 then ap_frameInterruptClearDelay s - 1
       else ap_frameInterruptClearDelay s)"
    "ap_nextDelay (snd (apu_step r s)) = ap_nextDelay s - 1"
proof -
  have clear: "ap_frameInterruptFlag (clearFrameInterrupt s) =
      (ap_frameInterruptFlag s \<and> ap_frameInterruptClearDelay s \<noteq> 1)"
    "ap_frameInterruptClearDelay (clearFrameInterrupt s) =
      (if ap_frameInterruptClearDelay s > 0 then ap_frameInterruptClearDelay s - 1
       else ap_frameInterruptClearDelay s)"
    "ap_nextDelay (clearFrameInterrupt s) = ap_nextDelay s"
    by (auto simp: clearFrameInterrupt_def Let_def)
  then have frame: "frameClock r (clearFrameInterrupt s) =
      (clearFrameInterrupt s)\<lparr>ap_nextDelay := ap_nextDelay s - 1\<rparr>"
    using assms by (simp add: frameClock_def Let_def)
  show "ap_frameInterruptFlag (snd (apu_step r s)) =
      (ap_frameInterruptFlag s \<and> ap_frameInterruptClearDelay s \<noteq> 1)"
    "ap_frameInterruptClearDelay (snd (apu_step r s)) =
      (if ap_frameInterruptClearDelay s > 0 then ap_frameInterruptClearDelay s - 1
       else ap_frameInterruptClearDelay s)"
    "ap_nextDelay (snd (apu_step r s)) = ap_nextDelay s - 1"
    by (simp_all add: apu_step_def channelCycles_def Let_def case_prod_unfold frame clear)
qed

text \<open>
  A read of \<open>$4015\<close> reports the frame interrupt in bit 6 and does not clear it at once: it
  is cleared by the next APU cycle, or by the one after that when the read fell on an odd CPU
  cycle.
\<close>

theorem status_read_irq:
  assumes "ap_frameInterruptFlag s" "ap_nextDelay s > 2"
  shows "let (v, t) = apu_read 0x15 oddCycle s; t1 = snd (apu_step r t); t2 = snd (apu_step r t1) in
    bit v 6 \<and> ap_frameInterruptFlag t \<and> ap_frameInterruptFlag t1 = oddCycle \<and>
    \<not> ap_frameInterruptFlag t2"
proof -
  let ?t = "snd (apu_read 0x15 oddCycle s)"
  let ?t1 = "snd (apu_step r ?t)"
  have v: "bit (fst (apu_read 0x15 oddCycle s)) 6"
    using assms(1) by (simp add: apu_read_def bit_or_iff)
  have t: "ap_frameInterruptFlag ?t" "ap_frameInterruptClearDelay ?t = (if oddCycle then 2 else 1)"
    "ap_nextDelay ?t = ap_nextDelay s"
    using assms(1) by (simp_all add: apu_read_def)
  have d: "ap_nextDelay ?t > 1" using t(3) assms(2) by simp
  have d1: "ap_nextDelay ?t1 > 1" using step_irq(3)[OF d, of r] t(3) assms(2) by simp
  show ?thesis
    using v t step_irq(1,2)[OF d, of r] step_irq(1)[OF d1, of r]
    by (simp add: case_prod_unfold Let_def)
qed

theorem status_read_irq_witness:
  "let (v, t) = apu_read 0x15 True (apu0\<lparr>ap_frameInterruptFlag := True\<rparr>);
       t1 = snd (apu_step NTSC t); t2 = snd (apu_step NTSC t1) in
    bit v 6 \<and> ap_frameInterruptFlag t \<and> ap_frameInterruptFlag t1 = True \<and>
    \<not> ap_frameInterruptFlag t2"
  by (rule status_read_irq) (simp_all add: apu0_def)

text \<open>
  Playing a sample without looping: each byte loaded by DMA advances the address by one,
  wrapping from \<open>$FFFF\<close> to \<open>$8000\<close>, and takes one off the bytes remaining; the sample
  interrupt is raised by the last byte and by no other.
\<close>

theorem dmc_sample:
  assumes "\<not> loopEnabled s" "length ds \<le> unat (dm_bytesRemaining s)"
  shows "let t = fold (\<lambda>d s. snd (snd (dmc_reloadShiftRegister d s))) ds s in
    unat (dm_bytesRemaining t) = unat (dm_bytesRemaining s) - length ds \<and>
    unat (dm_currentAddr t) mod 0x8000 = (unat (dm_currentAddr s) + length ds) mod 0x8000 \<and>
    (dm_interruptFlag t \<longleftrightarrow> dm_interruptFlag s \<or>
      irqEnabled s \<and> ds \<noteq> [] \<and> length ds = unat (dm_bytesRemaining s))"
proof -
  have "(\<lambda>d s. snd (snd (dmc_reloadShiftRegister d s))) = loadByte"
    by (simp add: loadByte_def fun_eq_iff)
  then show ?thesis using play_sample[OF assms] by (simp add: Let_def)
qed

definition dmc1 :: dmc where
  "dmc1 = (dmc_init NTSC)\<lparr>dm_playMode := 0x80, dm_bytesRemaining := 2, dm_currentAddr := 0xFFFF\<rparr>"

theorem dmc_sample_witness:
  "let t = fold (\<lambda>d s. snd (snd (dmc_reloadShiftRegister d s))) [1, 2] dmc1 in
    unat (dm_bytesRemaining t) = unat (dm_bytesRemaining dmc1) - length [1, 2 :: u8] \<and>
    unat (dm_currentAddr t) mod 0x8000 = (unat (dm_currentAddr dmc1) + length [1, 2 :: u8]) mod 0x8000 \<and>
    (dm_interruptFlag t \<longleftrightarrow> dm_interruptFlag dmc1 \<or>
      irqEnabled dmc1 \<and> [1, 2 :: u8] \<noteq> [] \<and> length [1, 2 :: u8] = unat (dm_bytesRemaining dmc1))"
  by (rule dmc_sample) (simp_all add: dmc1_def loopEnabled_def)

text \<open>
  The sample channel asks for a byte only when it is enabled, its buffer is empty and bytes
  remain, and only for an address in \<open>$8000-$FFFF\<close>: in its cycle, and when the enable delay
  runs out; loading a byte never asks for the next one.
\<close>

theorem dmc_requests:
  "(let (rs, t) = dmc_cycle r s in rs = [] \<or> rs = [StartDmcDma (dm_currentAddr t OR 0x8000) True] \<and> wantsByte t) \<and>
   (let (rs, t) = processControlDelays s in
      list_all (\<lambda>q. q = CancelDmcDma \<or> q = StartDmcDma (dm_currentAddr t OR 0x8000) False \<and> wantsByte t) rs) \<and>
   list_all (\<lambda>q. q = ImplicitDmcAbort) (fst (dmc_reloadShiftRegister d s))"
proof -
  have 1: "let (rs, t) = dmc_cycle r s in rs = [] \<or>
      rs = [StartDmcDma (dm_currentAddr t OR 0x8000) True] \<and> wantsByte t"
    using dmc_cycle_requests[of r s] by (cases "dmc_cycle r s") auto
  have 2: "let (rs, t) = processControlDelays s in list_all (\<lambda>q. q = CancelDmcDma \<or>
      q = StartDmcDma (dm_currentAddr t OR 0x8000) False \<and> wantsByte t) rs"
    by (auto simp: processControlDelays_def processDisableDelay_def processReloadDelay_def Let_def
        requestSample_def wantsByte_def)
  have 3: "list_all (\<lambda>q. q = ImplicitDmcAbort) (fst (dmc_reloadShiftRegister d s))"
    by (simp add: dmc_reloadShiftRegister_def restartSample_def Let_def case_prod_unfold)
  show ?thesis using 1 2 3 by blast
qed

end
