(* ===== verification/Cpu_Arith.thy ===== *)
theory Cpu_Arith
  imports Cpu_Run
begin

text \<open>
  The arithmetic of the CPU: what \<open>ADC\<close>, \<open>SBC\<close> and the compare instructions compute,
  stated over the integers the operands stand for, unsigned and in two's complement.
\<close>

lemma bit_unat: "bit (w :: 'a::len word) n \<longleftrightarrow> odd (unat w div 2 ^ n)"
  by (simp add: bit_unsigned_iff flip: bit_iff_odd)

lemma bit7_u8: "bit (w :: u8) 7 \<longleftrightarrow> 128 \<le> unat w"
proof -
  have "unat w div 128 < 2" using unat_u8_less[of w] by linarith
  then show ?thesis by (auto simp: bit_unat less_2_cases_iff)
qed

lemma sint_u8: "sint (w :: u8) = int (unat w) - (if bit w 7 then 256 else 0)"
proof -
  have "take_bit 8 (uint w) = uint w" using uint_lt2p[of w] by (simp add: take_bit_int_eq_self)
  then show ?thesis by (simp add: sint_uint signed_take_bit_eq_take_bit_minus bit_uint_iff)
qed

lemma sint_neg: "sint (w :: u8) < 0 \<longleftrightarrow> bit w 7"
proof -
  have "int (unat w) < 256" using unat_u8_less[of w] by linarith
  then show ?thesis unfolding sint_u8 by simp
qed

lemma test_0x80: "test_bits w (0x80 :: 'a::len word) \<longleftrightarrow> bit w 7" if "7 < LENGTH('a)"
  using test_bits_single[of 7 w] that by simp

text \<open>The 32-bit sum of the source.\<close>

definition sum32 :: "u8 \<Rightarrow> u8 \<Rightarrow> bool \<Rightarrow> u32" where
  "sum32 a v c = ucast a + ucast v + (if c then 1 else 0)"

lemma unat_sum32: "unat (sum32 a v c) = unat a + unat v + of_bool c"
  using unat_u8_less[of a] unat_u8_less[of v]
  by (simp add: sum32_def unat_word_ariths del: unat_u8_less)

lemma unat_ucast_u32_u8: "unat (ucast (w :: u32) :: u8) = unat w mod 256"
  by (simp add: unsigned_ucast_eq take_bit_eq_mod)

lemma odd_div_128:
  assumes "x < (512 :: nat)"
  shows "odd (x div 128) \<longleftrightarrow> 128 \<le> x \<and> x < 256 \<or> 384 \<le> x"
proof -
  consider "x < 128" | "128 \<le> x" "x < 256" | "256 \<le> x" "x < 384" | "384 \<le> x" by linarith
  then show ?thesis
  proof cases
    case 2
    then have "x div 128 = 1" by (intro div_nat_eqI) simp_all
    then show ?thesis using 2 by simp
  next
    case 3
    then have "x div 128 = 2" by (intro div_nat_eqI) simp_all
    then show ?thesis using 3 by simp
  next
    case 4
    then have "x div 128 = 3" using assms by (intro div_nat_eqI) simp_all
    then show ?thesis using 4 by simp
  qed simp
qed

lemma overflow_rule:
  fixes a v :: u8
  shows "(bit a 7 = bit v 7 \<and> bit a 7 \<noteq> odd ((unat a + unat v + of_bool c) div 128)) \<longleftrightarrow>
    \<not> (- 128 \<le> sint a + sint v + of_bool c \<and> sint a + sint v + of_bool c \<le> 127)"
proof -
  define A B where "A = unat a" and "B = unat v"
  then have b: "A < 256" "B < 256" by simp_all
  define x where "x = A + B + of_bool c"
  have "x < 512" unfolding x_def using b by (cases c) simp_all
  then have o: "odd (x div 128) \<longleftrightarrow> 128 \<le> x \<and> x < 256 \<or> 384 \<le> x" by (rule odd_div_128)
  show ?thesis
    unfolding sint_u8 bit7_u8 A_def[symmetric] B_def[symmetric] x_def[symmetric] o
    using b by (cases c) (auto simp: x_def)
qed

lemma addWithCarry_result:
  "m_a (addWithCarry v s) = ucast (sum32 (m_a s) v (carry s))"
  "m_status (addWithCarry v s) =
     set_flag 1 (m_a (addWithCarry v s) = 0) (set_flag 7 (bit (m_a (addWithCarry v s)) 7)
       (set_flag 6 (\<not> bit (m_a s XOR v) 7 \<and> bit (ucast (m_a s) XOR sum32 (m_a s) v (carry s)) 7)
         (set_flag 0 (sum32 (m_a s) v (carry s) > 0xFF) (m_status s))))"
  by (simp_all add: addWithCarry_def updateZeroAndNegativeFlags_def Let_def sum32_def test_0x80)

text \<open>
  C18: the addition of \<open>ADC\<close>: the accumulator is the sum of accumulator, operand and carry
  modulo 256, carry is the unsigned overflow, overflow says that the signed sum does not fit,
  zero and negative describe the result, and the interrupt and decimal flags are kept (decimal
  mode has no effect).
\<close>

theorem adc_arithmetic:
  "let t = addWithCarry v s;
       u = unat (m_a s) + unat v + of_bool (carry s);
       i = sint (m_a s) + sint v + of_bool (carry s)
   in unat (m_a t) = u mod 256 \<and> (carry t \<longleftrightarrow> u \<ge> 256) \<and> (overflow t \<longleftrightarrow> i < -128 \<or> i > 127) \<and>
      (zero t \<longleftrightarrow> m_a t = 0) \<and> (negative t \<longleftrightarrow> sint (m_a t) < 0) \<and>
      (irq_disable t \<longleftrightarrow> irq_disable s) \<and> (decimal t \<longleftrightarrow> decimal s)"
proof -
  let ?r = "sum32 (m_a s) v (carry s)" and ?t = "addWithCarry v s"
  have 1: "unat (m_a ?t) = (unat (m_a s) + unat v + of_bool (carry s)) mod 256"
    by (simp add: addWithCarry_result unat_ucast_u32_u8 unat_sum32)
  have 2: "carry ?t \<longleftrightarrow> unat (m_a s) + unat v + of_bool (carry s) \<ge> 256"
    by (auto simp: addWithCarry_result(2) word_less_nat_alt unat_sum32)
  let ?i = "sint (m_a s) + sint v + of_bool (carry s)"
  have 3: "overflow ?t \<longleftrightarrow> ?i < - 128 \<or> ?i > 127"
    unfolding not_le[symmetric] de_Morgan_conj[symmetric] overflow_rule[symmetric]
    by (auto simp: addWithCarry_result(2) bit_xor_iff bit_unat[of ?r 7] unat_sum32 bit_unsigned_iff)
  have 4: "negative ?t \<longleftrightarrow> sint (m_a ?t) < 0"
    by (simp add: addWithCarry_result(2) sint_neg)
  have 5: "(zero ?t \<longleftrightarrow> m_a ?t = 0) \<and> (irq_disable ?t \<longleftrightarrow> irq_disable s) \<and> (decimal ?t \<longleftrightarrow> decimal s)"
    by (simp add: addWithCarry_result(2))
  show ?thesis unfolding Let_def using 1 2 3 4 5 by blast
qed

subsection \<open>Subtraction\<close>

lemma unat_NOT_u8: "unat (NOT v :: u8) = 255 - unat v"
proof -
  have "NOT v = 255 - v" by (simp add: not_eq_complement)
  then show ?thesis using unat_u8_less[of v] by (simp add: unat_sub word_le_nat_alt del: unat_u8_less)
qed

text \<open>The 32-bit difference of the source is 256 less than the sum with the complement.\<close>

lemma diff32:
  "ucast a - ucast v - (if c then 0 else 1) = sum32 a (NOT v) c - (256 :: u32)"
proof -
  have "(ucast (NOT v) :: u32) = 255 - ucast v"
    using unat_u8_less[of v]
    by (simp add: word_unat_eq_iff unat_NOT_u8 unat_sub word_le_nat_alt del: unat_u8_less)
  then show ?thesis by (simp add: sum32_def)
qed

lemma minus256:
  fixes r :: u32
  assumes "unat r < 512"
  shows "r - 256 < 0x100 \<longleftrightarrow> r > 0xFF" "ucast ((r - 256) AND 0xFF) = (ucast r :: u8)"
    "bit (r - 256) 7 = bit r 7"
proof -
  have m: "unat (r - 256) = (if unat r \<ge> 256 then unat r - 256 else unat r + 2 ^ 32 - 256)"
    using assms unat_sub_if'[of r 256] by (simp add: word_le_nat_alt)
  then show "r - 256 < 0x100 \<longleftrightarrow> r > 0xFF" using assms by (auto simp: word_less_nat_alt)
  have "unat (r - 256) mod 256 = unat r mod 256"
  proof (cases "unat r \<ge> 256")
    case True
    then show ?thesis using m by (simp add: le_mod_geq)
  next
    case False
    have "(unat r + 16777215 * 256) mod 256 = unat r mod 256" by (rule mod_mult_self1)
    then show ?thesis using m False by (simp add: add.commute)
  qed
  then have low: "(ucast (r - 256) :: u8) = ucast r"
    by (simp add: word_unat_eq_iff unat_ucast_u32_u8)
  have "ucast (w AND 0xFF :: u32) = (ucast w :: u8)" for w
  proof -
    have "w AND 0xFF = take_bit 8 w" by (simp add: take_bit_eq_mask mask_eq_exp_minus_1)
    moreover have "ucast (take_bit 8 w) = (ucast w :: u8)" by (rule bit_word_eqI) (simp add: bit_simps)
    ultimately show ?thesis by simp
  qed
  then show "ucast ((r - 256) AND 0xFF) = (ucast r :: u8)" using low by simp
  have "bit (ucast w :: u8) 7 = bit (w :: u32) 7" for w by (simp add: bit_unsigned_iff)
  then show "bit (r - 256) 7 = bit r 7" using low by metis
qed

text \<open>
  The subtraction of \<open>SBC\<close>, written with its own flag rules, is the addition of the
  complemented operand, the form \<open>U_ISB\<close> uses: the two agree on every register and flag.
\<close>

theorem sbc_complement: "subWithBorrow v s = addWithCarry (v XOR 0xFF) s"
proof -
  let ?r = "sum32 (m_a s) (NOT v) (carry s)"
  have "(0xFF :: u8) = - 1" by simp
  then have x: "v XOR 0xFF = NOT v" by (simp only: bit.xor_one_right)
  have "unat ?r < 512"
    unfolding unat_sum32 using unat_u8_less[of "m_a s"] unat_u8_less[of "NOT v"]
    by (cases "carry s") (simp_all del: unat_u8_less)
  note r = minus256[OF this]
  have cmp: "bit (ucast (m_a s) XOR (?r - 256)) 7 = bit (ucast (m_a s) XOR ?r) 7"
    using r(3) by (simp add: bit_xor_iff)
  have ov: "(test_bits (ucast (m_a s) XOR (?r - 256)) 0x80 \<and> test_bits (m_a s XOR v) 0x80) =
      (\<not> test_bits (m_a s XOR NOT v) 0x80 \<and> test_bits (ucast (m_a s) XOR ?r) 0x80)"
    using cmp by (auto simp: test_0x80 bit_simps)
  show ?thesis
    unfolding x subWithBorrow_def addWithCarry_def diff32 sum32_def[symmetric]
    by (simp only: Let_def ov r)
qed

subsection \<open>Comparison\<close>

text \<open>
  A comparison sets carry, zero and negative from the unsigned comparison and the 8-bit
  difference and changes neither the overflow flag nor a register.
\<close>

theorem compare_flags:
  "let t = compareWith reg v s in (carry t \<longleftrightarrow> unat v \<le> unat reg) \<and> (zero t \<longleftrightarrow> reg = v) \<and> (negative t \<longleftrightarrow> bit (reg - v) 7) \<and>
    (overflow t \<longleftrightarrow> overflow s) \<and> m_a t = m_a s \<and> m_x t = m_x s \<and> m_y t = m_y s"
  by (simp add: Let_def compareWith_def updateZeroAndNegativeFlags_def test_0x80 word_le_nat_alt)

end
