(* ===== verification/Circular_Buffer.thy ===== *)
theory Circular_Buffer
  imports Prelude
begin

text \<open>
  The ring buffer of \<open>src/src/GeraNES/util/CircularBuffer.h\<close>: a vector, the index of the
  oldest element and the number of elements, with three behaviours of a write to a full buffer
  (drop the new value, drop the oldest value, double the vector). An access outside the vector and
  the remainder by a vector length of zero are undefined in C++ and give \<open>None\<close> here;
  \<open>size_t\<close> values are natural numbers, the sums of two indices below the vector length stay far
  from \<open>2^64\<close>. The default element \<open>d\<close> is what \<open>std::vector\<close> fills new places with.

  The theory shows that on a buffer of positive capacity no operation is undefined and that every
  sequence of operations behaves as on a plain list with a capacity (\<open>run_refines\<close>). The locale
  \<open>history\<close> is the part of that contract the rewind buffer relies on.
\<close>

datatype OnFullBehaviour = STOP | REPLACE | GROW

record 'a cbuf =
  m_start :: nat
  m_currentSize :: nat
  m_data :: "'a list"
  m_onFullBehaviour :: OnFullBehaviour

definition cb_new :: "'a \<Rightarrow> nat \<Rightarrow> OnFullBehaviour \<Rightarrow> 'a cbuf" where
  "cb_new d numberOfItems behaviour =
     \<lparr>m_start = 0, m_currentSize = 0, m_data = replicate numberOfItems d,
      m_onFullBehaviour = behaviour\<rparr>"

definition cb_empty :: "'a cbuf \<Rightarrow> bool" where
  "cb_empty b \<longleftrightarrow> m_currentSize b = 0"

definition cb_full :: "'a cbuf \<Rightarrow> bool" where
  "cb_full b \<longleftrightarrow> m_currentSize b = length (m_data b)"

definition cb_at :: "'a cbuf \<Rightarrow> nat \<Rightarrow> 'a option" where
  "cb_at b i = (if i < length (m_data b) then Some (m_data b ! i) else None)"

definition cb_wrap :: "'a cbuf \<Rightarrow> nat \<Rightarrow> nat option" where
  "cb_wrap b i = (if m_data b = [] then None else Some (i mod length (m_data b)))"

definition peak :: "'a cbuf \<Rightarrow> 'a option" where
  "peak b = cb_at b (m_start b)"

definition cb_read :: "'a cbuf \<Rightarrow> ('a \<times> 'a cbuf) option" where
  "cb_read b = do {
     ret \<leftarrow> peak b;
     if m_currentSize b > 0 then do {
       start \<leftarrow> cb_wrap b (m_start b + 1);
       Some (ret, b\<lparr>m_start := start, m_currentSize := m_currentSize b - 1\<rparr>) }
     else Some (ret, b) }"

definition peakBack :: "'a cbuf \<Rightarrow> 'a option" where
  "peakBack b =
     (if m_currentSize b = 0 then cb_at b (m_start b)
      else do { index \<leftarrow> cb_wrap b (m_start b + m_currentSize b - 1); cb_at b index })"

definition readBack :: "'a cbuf \<Rightarrow> ('a \<times> 'a cbuf) option" where
  "readBack b = do {
     ret \<leftarrow> peakBack b;
     Some (ret, if m_currentSize b > 0 then b\<lparr>m_currentSize := m_currentSize b - 1\<rparr> else b) }"

definition peakAt :: "'a cbuf \<Rightarrow> nat \<Rightarrow> 'a option" where
  "peakAt b index = do { index \<leftarrow> cb_wrap b (m_start b + index); cb_at b index }"

definition cb_clear :: "'a cbuf \<Rightarrow> 'a cbuf" where
  "cb_clear b = b\<lparr>m_currentSize := 0\<rparr>"

lemma cb_read_decreases:
  "cb_read b = Some (x, b') \<Longrightarrow> \<not> cb_empty b \<Longrightarrow> m_currentSize b' < m_currentSize b"
  by (auto simp: cb_read_def cb_empty_def cb_wrap_def split: Option.bind_splits if_splits)

text \<open>The loop of \<open>grow\<close> that empties the buffer into \<open>temp\<close>.\<close>

function drain :: "'a cbuf \<Rightarrow> ('a list \<times> 'a cbuf) option" where
  "drain b =
     (if cb_empty b then Some ([], b)
      else case cb_read b of
        None \<Rightarrow> None
      | Some (x, b') \<Rightarrow> do { (temp, b') \<leftarrow> drain b'; Some (x # temp, b') })"
  by pat_completeness auto
termination
  by (relation "measure m_currentSize") (auto dest: cb_read_decreases)

declare drain.simps [simp del]

text \<open>The loop that copies \<open>temp\<close> to the front of the vector.\<close>

fun copy_front :: "nat \<Rightarrow> 'a list \<Rightarrow> 'a list \<Rightarrow> 'a list option" where
  "copy_front i [] xs = Some xs"
| "copy_front i (t # temp) xs =
     (if i < length xs then copy_front (Suc i) temp (xs[i := t]) else None)"

definition grow :: "'a \<Rightarrow> 'a cbuf \<Rightarrow> 'a cbuf option" where
  "grow d b = do {
     (temp, b) \<leftarrow> drain b;
     let xs = m_data b @ replicate (length (m_data b)) d;
     xs \<leftarrow> copy_front 0 temp xs;
     Some (b\<lparr>m_data := xs, m_start := 0, m_currentSize := length temp\<rparr>) }"

definition replace_oldest :: "'a cbuf \<Rightarrow> 'a cbuf option" where
  "replace_oldest b = do {
     start \<leftarrow> cb_wrap b (m_start b + 1);
     Some (b\<lparr>m_start := start, m_currentSize := m_currentSize b - 1\<rparr>) }"

definition onFullBehaviour :: "'a \<Rightarrow> 'a cbuf \<Rightarrow> 'a cbuf option" where
  "onFullBehaviour d b = (case m_onFullBehaviour b of
       STOP \<Rightarrow> Some b
     | GROW \<Rightarrow> grow d b
     | REPLACE \<Rightarrow> replace_oldest b)"

definition cb_write :: "'a \<Rightarrow> 'a \<Rightarrow> 'a cbuf \<Rightarrow> 'a cbuf option" where
  "cb_write d value b = do {
     b \<leftarrow> (if cb_full b then onFullBehaviour d b else Some b);
     if cb_full b then Some b
     else do {
       index \<leftarrow> cb_wrap b (m_start b + m_currentSize b);
       Some (b\<lparr>m_data := (m_data b)[index := value], m_currentSize := m_currentSize b + 1\<rparr>) } }"

subsection \<open>Invariant and contents\<close>

definition cb_ok :: "'a cbuf \<Rightarrow> bool" where
  "cb_ok b \<longleftrightarrow> m_start b < length (m_data b) \<and> m_currentSize b \<le> length (m_data b)"

definition items :: "'a cbuf \<Rightarrow> 'a list" where
  "items b = map (\<lambda>i. m_data b ! ((m_start b + i) mod length (m_data b))) [0..<m_currentSize b]"

lemma length_items [simp]: "length (items b) = m_currentSize b"
  by (simp add: items_def)

lemma nth_items [simp]:
  "i < m_currentSize b \<Longrightarrow> items b ! i = m_data b ! ((m_start b + i) mod length (m_data b))"
  by (simp add: items_def)

lemma cb_ok_nonempty: "cb_ok b \<Longrightarrow> m_data b \<noteq> []"
  by (auto simp: cb_ok_def)

lemma items_empty_iff: "items b = [] \<longleftrightarrow> cb_empty b"
  by (simp add: items_def cb_empty_def)

lemma cb_new_ok:
  "0 < n \<Longrightarrow> cb_ok (cb_new d n m)"
  "items (cb_new d n m) = []"
  "length (m_data (cb_new d n m)) = n"
  "m_onFullBehaviour (cb_new d n m) = m"
  by (simp_all add: cb_ok_def cb_new_def items_def)

text \<open>Dropping the oldest element: shared by \<open>read\<close> and \<open>replace\<close>.\<close>

definition advance :: "'a cbuf \<Rightarrow> 'a cbuf" where
  "advance b = b\<lparr>m_start := (m_start b + 1) mod length (m_data b),
     m_currentSize := m_currentSize b - 1\<rparr>"

lemma advance_simps [simp]:
  "m_data (advance b) = m_data b" "m_currentSize (advance b) = m_currentSize b - 1"
  "m_onFullBehaviour (advance b) = m_onFullBehaviour b"
  by (simp_all add: advance_def)

lemma cb_ok_advance [simp]: "cb_ok b \<Longrightarrow> cb_ok (advance b)"
  by (auto simp: cb_ok_def advance_def intro!: mod_less_divisor)

lemma items_advance: "items (advance b) = tl (items b)"
  by (rule nth_equalityI) (auto simp: nth_tl advance_def mod_simps less_diff_conv)

lemma items_hd: "cb_ok b \<Longrightarrow> \<not> cb_empty b \<Longrightarrow> hd (items b) = m_data b ! m_start b"
  by (simp add: hd_conv_nth items_empty_iff) (simp add: cb_ok_def cb_empty_def)

lemma cb_read_items:
  assumes "cb_ok b"
  shows "cb_read b =
    Some (if cb_empty b then (m_data b ! m_start b, b) else (hd (items b), advance b))"
  using assms items_hd[OF assms]
  by (auto simp: cb_read_def peak_def cb_at_def cb_ok_def cb_empty_def cb_wrap_def advance_def)

lemma peakBack_items:
  assumes "cb_ok b"
  shows "peakBack b = Some (if cb_empty b then m_data b ! m_start b else last (items b))"
proof (cases "cb_empty b")
  case False
  then have "last (items b) = m_data b ! ((m_start b + (m_currentSize b - 1)) mod length (m_data b))"
    using items_empty_iff[of b] by (simp add: last_conv_nth cb_empty_def)
  then show ?thesis using False assms
    by (auto simp: peakBack_def cb_wrap_def cb_at_def cb_ok_def cb_empty_def)
qed (use assms in \<open>auto simp: peakBack_def cb_at_def cb_ok_def cb_empty_def\<close>)

lemma items_shrink:
  "items (b\<lparr>m_currentSize := m_currentSize b - 1\<rparr>) = butlast (items b)"
  by (rule nth_equalityI) (auto simp: nth_butlast)

lemma readBack_items:
  assumes "cb_ok b"
  shows "readBack b = Some (if cb_empty b then (m_data b ! m_start b, b)
           else (last (items b), b\<lparr>m_currentSize := m_currentSize b - 1\<rparr>))"
  by (simp add: readBack_def peakBack_items[OF assms] cb_empty_def)

lemma peakAt_items:
  "cb_ok b \<Longrightarrow> i < m_currentSize b \<Longrightarrow> peakAt b i = Some (items b ! i)"
  by (auto simp: peakAt_def cb_wrap_def cb_at_def cb_ok_def)

subsection \<open>Writing\<close>

text \<open>Storing into a buffer with room.\<close>

definition append_item :: "'a \<Rightarrow> 'a cbuf \<Rightarrow> 'a cbuf" where
  "append_item v b = b\<lparr>m_data := (m_data b)[(m_start b + m_currentSize b) mod length (m_data b) := v],
     m_currentSize := m_currentSize b + 1\<rparr>"

lemma append_item_simps [simp]:
  "length (m_data (append_item v b)) = length (m_data b)"
  "m_onFullBehaviour (append_item v b) = m_onFullBehaviour b"
  by (simp_all add: append_item_def)

lemma ring_distinct:
  assumes "s < n" "i < k" "k < (n :: nat)"
  shows "(s + i) mod n \<noteq> (s + k) mod n"
proof
  assume "(s + i) mod n = (s + k) mod n"
  then have "n dvd k - i"
    using assms by (metis add_diff_cancel_left less_imp_le mod_eq_dvd_iff_nat nat_add_left_cancel_le)
  then show False using assms by (auto dest: dvd_imp_le)
qed

lemma append_item_items:
  assumes "cb_ok b" "\<not> cb_full b"
  shows "items (append_item v b) = items b @ [v]" "cb_ok (append_item v b)"
proof -
  have *: "m_start b < length (m_data b)" "m_currentSize b < length (m_data b)"
    using assms by (auto simp: cb_ok_def cb_full_def)
  then have len: "0 < length (m_data b)" by linarith
  show "items (append_item v b) = items b @ [v]"
  proof (rule nth_equalityI)
    fix i assume "i < length (items (append_item v b))"
    then have "i \<le> m_currentSize b" by (simp add: append_item_def)
    then show "items (append_item v b) ! i = (items b @ [v]) ! i"
      using ring_distinct[OF *(1) _ *(2), of i] len
      by (cases "i = m_currentSize b")
        (simp_all add: append_item_def nth_append nth_list_update)
  qed (simp add: append_item_def)
  show "cb_ok (append_item v b)"
    using * by (simp add: cb_ok_def append_item_def)
qed

lemma drain_items: "cb_ok b \<Longrightarrow> \<exists>b'. drain b = Some (items b, b') \<and> m_data b' = m_data b
    \<and> m_onFullBehaviour b' = m_onFullBehaviour b"
proof (induction b rule: drain.induct)
  case (1 b)
  show ?case
  proof (cases "cb_empty b")
    case True
    then show ?thesis by (simp add: drain.simps items_empty_iff[THEN iffD2])
  next
    case False
    then have r: "cb_read b = Some (hd (items b), advance b)"
      using 1 by (simp add: cb_read_items)
    from 1(1)[OF False r] 1(2) obtain b' where
      "drain (advance b) = Some (items (advance b), b')" "m_data b' = m_data b"
      "m_onFullBehaviour b' = m_onFullBehaviour b"
      by auto
    then show ?thesis using False items_empty_iff[of b]
      by (subst drain.simps) (simp add: r items_advance)
  qed
qed

lemma copy_front_spec:
  "i + length temp \<le> length xs \<Longrightarrow>
   copy_front i temp xs = Some (take i xs @ temp @ drop (i + length temp) xs)"
proof (induction i temp xs rule: copy_front.induct)
  case (2 i t temp xs)
  then show ?case
    by (auto simp: drop_update_cancel take_Suc_conv_app_nth)
qed simp

lemma grow_items:
  assumes "cb_ok b"
  obtains b' where "grow d b = Some b'" "items b' = items b" "cb_ok b'"
    "length (m_data b') = 2 * length (m_data b)" "m_onFullBehaviour b' = m_onFullBehaviour b"
proof -
  from drain_items[OF assms] obtain b' where d: "drain b = Some (items b, b')"
    "m_data b' = m_data b" "m_onFullBehaviour b' = m_onFullBehaviour b" by auto
  let ?xs = "m_data b @ replicate (length (m_data b)) d"
  let ?ys = "items b @ drop (m_currentSize b) ?xs"
  let ?b = "b'\<lparr>m_data := ?ys, m_start := 0, m_currentSize := m_currentSize b\<rparr>"
  have le: "m_currentSize b \<le> length (m_data b)" "0 < length (m_data b)"
    using assms by (auto simp: cb_ok_def)
  have "copy_front 0 (items b) ?xs = Some ?ys"
    using copy_front_spec[of 0 "items b" ?xs] le by simp
  then have g: "grow d b = Some ?b" using d by (simp add: grow_def)
  have "items ?b = items b"
    using le by (intro nth_equalityI) (auto simp: nth_append)
  with g that[of ?b] d le show thesis by (auto simp: cb_ok_def)
qed

text \<open>What \<open>write\<close> does to the list of elements, by the behaviour and the capacity \<open>n\<close>.\<close>

definition spec_write :: "OnFullBehaviour \<Rightarrow> 'a \<Rightarrow> nat \<times> 'a list \<Rightarrow> nat \<times> 'a list" where
  "spec_write mode v = (\<lambda>(n, xs).
     if length xs < n then (n, xs @ [v])
     else case mode of STOP \<Rightarrow> (n, xs) | REPLACE \<Rightarrow> (n, tl xs @ [v]) | GROW \<Rightarrow> (2 * n, xs @ [v]))"

definition cb_abs :: "'a cbuf \<Rightarrow> nat \<times> 'a list" where
  "cb_abs b = (length (m_data b), items b)"

lemma cb_write_room:
  "cb_ok b \<Longrightarrow> \<not> cb_full b \<Longrightarrow> cb_write d v b = Some (append_item v b)"
  using cb_ok_nonempty[of b] by (simp add: cb_write_def cb_wrap_def append_item_def)

lemma cb_write_room_abs:
  "cb_ok b \<Longrightarrow> \<not> cb_full b \<Longrightarrow> cb_abs (append_item v b) = spec_write m v (cb_abs b)"
  by (auto simp: cb_abs_def spec_write_def append_item_items cb_full_def cb_ok_def)

lemma full_write:
  "cb_full b \<Longrightarrow> onFullBehaviour d b = Some b' \<Longrightarrow> \<not> cb_full b' \<Longrightarrow>
   cb_write d v b = cb_write d v b'"
  by (simp add: cb_write_def)

lemma cb_write_refines:
  assumes ok: "cb_ok b"
  shows "\<exists>b'. cb_write d v b = Some b' \<and> cb_ok b' \<and> m_onFullBehaviour b' = m_onFullBehaviour b
    \<and> cb_abs b' = spec_write (m_onFullBehaviour b) v (cb_abs b)"
proof (cases "cb_full b")
  case False
  then show ?thesis using ok append_item_items[OF ok False]
    by (simp add: cb_write_room cb_write_room_abs)
next
  case full: True
  have ne: "m_data b \<noteq> []" using ok by (rule cb_ok_nonempty)
  show ?thesis
  proof (cases "m_onFullBehaviour b")
    case STOP
    then show ?thesis using full ok
      by (simp add: cb_write_def onFullBehaviour_def cb_abs_def spec_write_def cb_full_def)
  next
    case REPLACE
    have room: "\<not> cb_full (advance b)" using full ne by (cases "m_data b") (simp_all add: cb_full_def)
    have "onFullBehaviour d b = Some (advance b)"
      using REPLACE ne by (simp add: onFullBehaviour_def replace_oldest_def cb_wrap_def advance_def)
    then have "cb_write d v b = Some (append_item v (advance b))"
      using full_write[OF full _ room] ok room by (simp add: cb_write_room)
    then show ?thesis using REPLACE full ok append_item_items[OF cb_ok_advance[OF ok] room]
      by (simp add: cb_abs_def spec_write_def cb_full_def items_advance)
  next
    case GROW
    obtain b' where g: "grow d b = Some b'" "items b' = items b" "cb_ok b'"
      "length (m_data b') = 2 * length (m_data b)" "m_onFullBehaviour b' = m_onFullBehaviour b"
      by (rule grow_items[OF ok])
    from g(2) have "m_currentSize b' = m_currentSize b" by (metis length_items)
    then have room: "\<not> cb_full b'" using full g ne by (simp add: cb_full_def)
    have "cb_write d v b = Some (append_item v b')"
      using full_write[OF full _ room] GROW g room by (simp add: cb_write_room onFullBehaviour_def)
    then show ?thesis using GROW full g append_item_items[OF g(3) room]
      by (simp add: cb_abs_def spec_write_def cb_full_def)
  qed
qed

subsection \<open>Sequences of operations\<close>

text \<open>An operation of a client and what it returns; the element that \<open>read\<close> and
  \<open>readBack\<close> of an empty buffer refer to is stale and not reported.\<close>

datatype 'a cb_op = Write 'a | Read | ReadBack | Clear

fun cb_step :: "'a \<Rightarrow> 'a cb_op \<Rightarrow> 'a cbuf \<Rightarrow> ('a option \<times> 'a cbuf) option" where
  "cb_step d (Write v) b = do { b \<leftarrow> cb_write d v b; Some (None, b) }"
| "cb_step d Read b =
     do { (x, b') \<leftarrow> cb_read b; Some (if cb_empty b then None else Some x, b') }"
| "cb_step d ReadBack b =
     do { (x, b') \<leftarrow> readBack b; Some (if cb_empty b then None else Some x, b') }"
| "cb_step d Clear b = Some (None, cb_clear b)"

fun spec_step :: "OnFullBehaviour \<Rightarrow> 'a cb_op \<Rightarrow> nat \<times> 'a list \<Rightarrow> 'a option \<times> nat \<times> 'a list" where
  "spec_step m (Write v) q = (None, spec_write m v q)"
| "spec_step m Read (n, xs) = (if xs = [] then (None, n, []) else (Some (hd xs), n, tl xs))"
| "spec_step m ReadBack (n, xs) = (if xs = [] then (None, n, []) else (Some (last xs), n, butlast xs))"
| "spec_step m Clear (n, xs) = (None, n, [])"

fun cb_run :: "'a \<Rightarrow> 'a cb_op list \<Rightarrow> 'a cbuf \<Rightarrow> ('a option list \<times> 'a cbuf) option" where
  "cb_run d [] b = Some ([], b)"
| "cb_run d (p # ps) b = do { (x, b) \<leftarrow> cb_step d p b; (xs, b) \<leftarrow> cb_run d ps b; Some (x # xs, b) }"

fun spec_run :: "OnFullBehaviour \<Rightarrow> 'a cb_op list \<Rightarrow> nat \<times> 'a list \<Rightarrow> 'a option list \<times> nat \<times> 'a list" where
  "spec_run m [] q = ([], q)"
| "spec_run m (p # ps) q =
     (let (x, q) = spec_step m p q; (xs, q) = spec_run m ps q in (x # xs, q))"

lemma cb_step_refines:
  assumes "cb_ok b"
  shows "\<exists>x b'. cb_step d p b = Some (x, b') \<and> cb_ok b' \<and> m_onFullBehaviour b' = m_onFullBehaviour b
    \<and> (x, cb_abs b') = spec_step (m_onFullBehaviour b) p (cb_abs b)"
proof (cases p)
  case (Write v)
  then show ?thesis using cb_write_refines[OF assms, of d v] by auto
next
  case Read
  then show ?thesis using assms items_empty_iff[of b]
    by (auto simp: cb_read_items cb_abs_def items_advance)
next
  case ReadBack
  then show ?thesis using assms items_empty_iff[of b]
    using items_shrink[of b] by (auto simp: readBack_items cb_abs_def) (auto simp: cb_ok_def)
next
  case Clear
  then show ?thesis using assms by (auto simp: cb_clear_def cb_abs_def items_def cb_ok_def)
qed

lemma run_refines:
  "cb_ok b \<Longrightarrow> \<exists>xs b'. cb_run d ps b = Some (xs, b') \<and> cb_ok b'
    \<and> (xs, cb_abs b') = spec_run (m_onFullBehaviour b) ps (cb_abs b)"
proof (induction ps arbitrary: b)
  case (Cons p ps)
  from cb_step_refines[OF Cons.prems, of d p] obtain x b1 where
    s: "cb_step d p b = Some (x, b1)" "cb_ok b1" "m_onFullBehaviour b1 = m_onFullBehaviour b"
      "(x, cb_abs b1) = spec_step (m_onFullBehaviour b) p (cb_abs b)" by auto
  from Cons.IH[OF s(2)] obtain xs b2 where
    r: "cb_run d ps b1 = Some (xs, b2)" "cb_ok b2"
      "(xs, cb_abs b2) = spec_run (m_onFullBehaviour b1) ps (cb_abs b1)" by auto
  show ?case using s(1,3) r(1,2) s(4)[symmetric] r(3)[symmetric] by (simp add: Let_def)
qed simp

text \<open>
  C20: the ring buffer is a bounded queue. On a buffer of positive capacity every sequence of
  writes, reads from either end and clears is defined, keeps the indices inside the vector, and
  returns what the same sequence returns on a plain list with a capacity, where a write to a full
  list drops the new value (\<open>STOP\<close>), drops the oldest value (\<open>REPLACE\<close>) or doubles the
  capacity (\<open>GROW\<close>).
\<close>
theorem ring_buffer_refines:
  assumes "0 < n"
  shows "\<exists>xs b. cb_run d ps (cb_new d n mode) = Some (xs, b) \<and> cb_ok b \<and>
    (xs, length (m_data b), items b) = spec_run mode ps (n, [])"
  using run_refines[OF cb_new_ok(1)[OF assms, of d mode], of d ps] by (simp add: cb_abs_def cb_new_ok)

theorem ring_buffer_refines_witness:
  "\<exists>b. cb_run (0 :: nat) [Write 1, Write 2, Write 3, ReadBack, Read] (cb_new 0 2 REPLACE) =
    Some ([None, None, None, Some 3, Some 2], b) \<and> cb_ok b \<and> items b = []"
  using ring_buffer_refines[of 2 "0 :: nat" "[Write 1, Write 2, Write 3, ReadBack, Read]" REPLACE]
  by (auto simp: spec_write_def)

subsection \<open>The history contract\<close>

text \<open>Storing a list of values one by one, and taking values from the end \<open>k\<close> times.\<close>

fun put_all :: "('a \<Rightarrow> 'b \<Rightarrow> 'b option) \<Rightarrow> 'a list \<Rightarrow> 'b \<Rightarrow> 'b option" where
  "put_all put [] b = Some b"
| "put_all put (x # xs) b = do { b \<leftarrow> put x b; put_all put xs b }"

text \<open>What a client that records values and walks back through them relies on: the store keeps
  the newest values, at most \<open>cap\<close> of them, and gives them back newest first.\<close>

locale history =
  fixes ok :: "'b \<Rightarrow> bool" and stored :: "'b \<Rightarrow> 'a list" and cap :: "'b \<Rightarrow> nat"
    and put :: "'a \<Rightarrow> 'b \<Rightarrow> 'b option" and pop :: "'b \<Rightarrow> ('a \<times> 'b) option"
    and top :: "'b \<Rightarrow> 'a option"
  assumes bounded: "ok b \<Longrightarrow> length (stored b) \<le> cap b \<and> 0 < cap b"
    and put: "ok b \<Longrightarrow> \<exists>b'. put x b = Some b' \<and> ok b' \<and> cap b' = cap b \<and>
      stored b' = (if length (stored b) < cap b then stored b else tl (stored b)) @ [x]"
    and pop: "ok b \<Longrightarrow> stored b \<noteq> [] \<Longrightarrow> \<exists>b'. pop b = Some (last (stored b), b') \<and> ok b' \<and>
      cap b' = cap b \<and> stored b' = butlast (stored b)"
    and top: "ok b \<Longrightarrow> stored b \<noteq> [] \<Longrightarrow> top b = Some (last (stored b))"
begin

lemma put_window:
  assumes "ok b"
  shows "\<exists>b'. put x b = Some b' \<and> ok b' \<and> cap b' = cap b \<and>
    stored b' = drop (Suc (length (stored b)) - cap b) (stored b @ [x])"
proof -
  have "length (stored b) \<le> cap b" "0 < cap b" using bounded[OF assms] by auto
  then have "(if length (stored b) < cap b then stored b else tl (stored b)) @ [x] =
      drop (Suc (length (stored b)) - cap b) (stored b @ [x])"
    by (cases "length (stored b) < cap b") (auto simp: Suc_diff_le drop_Suc)
  then show ?thesis using put[OF assms, of x] by simp
qed

lemma put_all_window:
  "ok b \<Longrightarrow> \<exists>b'. put_all put xs b = Some b' \<and> ok b' \<and> cap b' = cap b \<and>
     stored b' = drop (length (stored b) + length xs - cap b) (stored b @ xs)"
proof (induction xs arbitrary: b)
  case Nil
  then show ?case using bounded[OF Nil] by simp
next
  case (Cons x xs)
  let ?k = "Suc (length (stored b)) - cap b"
  from put_window[OF Cons.prems, of x] obtain b1 where b1: "put x b = Some b1" "ok b1"
    "cap b1 = cap b" "stored b1 = drop ?k (stored b @ [x])" by auto
  from Cons.IH[OF b1(2)] obtain b2 where b2: "put_all put xs b1 = Some b2" "ok b2"
    "cap b2 = cap b1" "stored b2 = drop (length (stored b1) + length xs - cap b1) (stored b1 @ xs)"
    by auto
  have l: "length (stored b) \<le> cap b" "0 < cap b" using bounded[OF Cons.prems] by auto
  then have k: "?k \<le> length (stored b @ [x])" by simp
  have "stored b1 @ xs = drop ?k (stored b @ x # xs)"
    using k drop_append[of ?k "stored b @ [x]" xs] by (simp only: b1(4)) simp
  moreover have "length (stored b1) + length xs - cap b1 + ?k =
      length (stored b) + length (x # xs) - cap b"
    using l by (simp add: b1(3,4))
  ultimately have "stored b2 = drop (length (stored b) + length (x # xs) - cap b) (stored b @ x # xs)"
    using b2(4) drop_drop by metis
  then show ?case using b1 b2 by auto
qed

lemma put_all_recent:
  assumes "ok b" "stored b = []"
  shows "\<exists>b'. put_all put xs b = Some b' \<and> ok b' \<and> cap b' = cap b \<and>
     stored b' = drop (length xs - cap b) xs"
  using put_all_window[OF assms(1), of xs] assms(2) by simp

end

definition replacing :: "'a cbuf \<Rightarrow> bool" where
  "replacing b \<longleftrightarrow> cb_ok b \<and> m_onFullBehaviour b = REPLACE"

definition capacity_of :: "'a cbuf \<Rightarrow> nat" where
  "capacity_of b = length (m_data b)"

interpretation ring: history replacing items capacity_of "cb_write d" readBack peakBack
proof
  fix b :: "'a cbuf" and x :: 'a
  assume b: "replacing b"
  then have ok: "cb_ok b" and m: "m_onFullBehaviour b = REPLACE" by (simp_all add: replacing_def)
  show "length (items b) \<le> capacity_of b \<and> 0 < capacity_of b"
    using ok by (auto simp: cb_ok_def capacity_of_def)
  show "\<exists>b'. cb_write d x b = Some b' \<and> replacing b' \<and> capacity_of b' = capacity_of b \<and>
      items b' = (if length (items b) < capacity_of b then items b else tl (items b)) @ [x]"
    using cb_write_refines[OF ok, of d x] m
    by (auto simp: replacing_def capacity_of_def cb_abs_def spec_write_def split: if_splits)
  assume ne: "items b \<noteq> []"
  have e: "\<not> cb_empty b" using ne items_empty_iff by blast
  have "cb_ok (b\<lparr>m_currentSize := m_currentSize b - 1\<rparr>)" using ok by (auto simp: cb_ok_def)
  then show "\<exists>b'. readBack b = Some (last (items b), b') \<and> replacing b' \<and>
      capacity_of b' = capacity_of b \<and> items b' = butlast (items b)"
    using ok m e items_shrink[of b] by (simp add: readBack_items replacing_def capacity_of_def)
  show "peakBack b = Some (last (items b))"
    using ok e by (simp add: peakBack_items)
qed

end
