(* ===== verification/Rewind.thy ===== *)
theory Rewind
  imports Complex_Main Circular_Buffer
begin

text \<open>
  The rewind function of \<open>src/src/GeraNES/Rewind.h\<close>: a ring buffer of save states, filled
  while the game runs and walked backwards while the player rewinds. The rewound machine is the
  interface \<open>IRewindable\<close>, here the record \<open>rewindable\<close> of its operations; the running time
  and the frame rate are exact rationals (the code computes the capacity in floating point), and a
  conversion to \<open>size_t\<close> that C++ leaves undefined gives \<open>None\<close>.
\<close>

record 't rewindable =
  serialization :: "'t \<Rightarrow> u8 list"
  loadStateFromMemory :: "u8 list \<Rightarrow> 't \<Rightarrow> 't"
  getFPS :: "'t \<Rightarrow> int"

record rewind =
  m_enabled :: bool
  m_maxTime :: rat
  m_activeFlag :: bool
  m_timer :: rat
  m_FPSDivider :: int
  m_FPSAuxCounter :: int
  m_buffer :: "u8 list cbuf option"

definition rewind_capacity :: "int \<Rightarrow> int \<Rightarrow> rat \<Rightarrow> nat option" where
  "rewind_capacity fps divider maxTime =
     (let x = of_int fps / of_int divider * maxTime in
      if divider = 0 \<or> x \<le> -1 then None else Some (nat \<lfloor>x\<rfloor>))"

definition rewind_setup :: "'t rewindable \<Rightarrow> 't \<Rightarrow> bool \<Rightarrow> rat \<Rightarrow> int \<Rightarrow> rewind option" where
  "rewind_setup R t enabled maxTime divider = do {
     buffer \<leftarrow> (if enabled then do {
                  n \<leftarrow> rewind_capacity (getFPS R t) divider maxTime;
                  Some (Some (cb_new [] n REPLACE)) }
                else Some None);
     Some \<lparr>m_enabled = enabled, m_maxTime = maxTime, m_activeFlag = False, m_timer = 0,
           m_FPSDivider = divider, m_FPSAuxCounter = divider, m_buffer = buffer\<rparr> }"

definition rewind_reset :: "'t rewindable \<Rightarrow> 't \<Rightarrow> rewind \<Rightarrow> rewind option" where
  "rewind_reset R t r = rewind_setup R t (m_enabled r) (m_maxTime r) (m_FPSDivider r)"

definition rewind_destroy :: "rewind \<Rightarrow> rewind" where
  "rewind_destroy r = r\<lparr>m_FPSAuxCounter := m_FPSDivider r, m_buffer := None, m_enabled := False,
     m_maxTime := 0, m_activeFlag := False, m_timer := 0\<rparr>"

definition rewind_update :: "rewind \<Rightarrow> bool \<times> rewind" where
  "rewind_update r =
     (let r = r\<lparr>m_FPSAuxCounter := m_FPSAuxCounter r - 1\<rparr> in
      if m_FPSAuxCounter r \<le> 0 then (True, r\<lparr>m_FPSAuxCounter := m_FPSDivider r\<rparr>)
      else (False, r))"

definition addState :: "u8 list \<Rightarrow> rewind \<Rightarrow> rewind option" where
  "addState data r = (case m_buffer r of
       None \<Rightarrow> Some r
     | Some b \<Rightarrow> do { b \<leftarrow> cb_write [] data b; Some (r\<lparr>m_buffer := Some b\<rparr>) })"

text \<open>The two conditional blocks of \<open>newFrame\<close>: recording, and stepping back.\<close>

definition rewind_record :: "'t rewindable \<Rightarrow> 't \<Rightarrow> rewind \<Rightarrow> rewind option" where
  "rewind_record R t r = (case m_buffer r of
       None \<Rightarrow> Some r
     | Some b \<Rightarrow>
         if \<not> m_activeFlag r \<or> m_currentSize b = 0 then
           let (sample, r) = rewind_update r in
           if sample then addState (serialization R t) r else Some r
         else Some r)"

definition rewind_back :: "'t rewindable \<Rightarrow> 't \<Rightarrow> rewind \<Rightarrow> (rewind \<times> 't) option" where
  "rewind_back R t r = (case m_buffer r of
       None \<Rightarrow> Some (r, t)
     | Some b \<Rightarrow>
         if m_activeFlag r then
           let (step, r) = (if m_currentSize b > 1 then rewind_update r else (False, r)) in
           if step then do {
             (data, b) \<leftarrow> readBack b;
             Some (r\<lparr>m_buffer := Some b\<rparr>, loadStateFromMemory R data t) }
           else do {
             data \<leftarrow> peakBack b;
             Some (r, loadStateFromMemory R data t) }
         else Some (r, t))"

definition newFrame :: "'t rewindable \<Rightarrow> 't \<Rightarrow> rewind \<Rightarrow> (rewind \<times> 't) option" where
  "newFrame R t r = do { r \<leftarrow> rewind_record R t r; rewind_back R t r }"

definition setRewind :: "bool \<Rightarrow> rewind \<Rightarrow> rewind" where
  "setRewind state r = r\<lparr>m_activeFlag := state\<rparr>"

definition isRewinding :: "rewind \<Rightarrow> bool" where
  "isRewinding r \<longleftrightarrow> m_buffer r \<noteq> None \<and> m_activeFlag r"

definition rewindLimit :: "rewind \<Rightarrow> bool" where
  "rewindLimit r = (case m_buffer r of
       None \<Rightarrow> True
     | Some b \<Rightarrow> \<not> m_activeFlag r \<or> m_currentSize b > 1)"

text \<open>A run of frames: the machine as it is when each frame ends, and as \<open>newFrame\<close> leaves it.\<close>

fun frames :: "'t rewindable \<Rightarrow> 't list \<Rightarrow> rewind \<Rightarrow> ('t list \<times> rewind) option" where
  "frames R [] r = Some ([], r)"
| "frames R (t # ts) r = do {
     (r, u) \<leftarrow> newFrame R t r;
     (us, r) \<leftarrow> frames R ts r;
     Some (u # us, r) }"

subsection \<open>Recording and walking back\<close>

text \<open>A rewind object with a usable buffer \<open>b\<close> that samples every frame.\<close>

definition sampling :: "bool \<Rightarrow> u8 list cbuf \<Rightarrow> rewind \<Rightarrow> bool" where
  "sampling active b r \<longleftrightarrow> m_buffer r = Some b \<and> replacing b \<and> m_activeFlag r = active
     \<and> m_FPSDivider r = 1 \<and> m_FPSAuxCounter r = 1"

lemma sampling_update: "sampling a b r \<Longrightarrow> rewind_update r = (True, r)"
  by (cases r) (simp add: rewind_update_def sampling_def)

lemma newFrame_record:
  assumes r: "sampling False b r" and b: "cb_write [] (serialization R t) b = Some b'"
    "replacing b'"
  obtains r' where "newFrame R t r = Some (r', t)" "sampling False b' r'"
proof -
  let ?r = "r\<lparr>m_buffer := Some b'\<rparr>"
  have "rewind_record R t r = Some ?r"
    using r b(1) sampling_update[OF r] by (simp add: rewind_record_def addState_def sampling_def)
  then have "newFrame R t r = Some (?r, t)"
    using r by (simp add: newFrame_def rewind_back_def sampling_def)
  with that[of ?r] r b(2) show thesis by (simp add: sampling_def)
qed

lemma frames_record:
  assumes "sampling False b r"
    and "put_all (cb_write []) (map (serialization R) ts) b = Some b'"
  shows "\<exists>r'. frames R ts r = Some (ts, r') \<and> sampling False b' r'"
  using assms
proof (induction ts arbitrary: b r)
  case (Cons t ts)
  from Cons.prems obtain b1 where b1: "cb_write [] (serialization R t) b = Some b1"
    "put_all (cb_write []) (map (serialization R) ts) b1 = Some b'"
    by (auto split: Option.bind_splits)
  have "replacing b1"
    using ring.put[of b "[]" "serialization R t"] Cons.prems(1) b1(1) by (auto simp: sampling_def)
  with newFrame_record[OF Cons.prems(1) b1(1)] obtain r1 where
    "newFrame R t r = Some (r1, t)" "sampling False b1 r1" by auto
  with Cons.IH[OF _ b1(2)] show ?case by fastforce
qed simp

lemma newFrame_back:
  assumes r: "sampling True b r" and ne: "items b \<noteq> []"
  obtains b' r' where "newFrame R t r = Some (r', loadStateFromMemory R (last (items b)) t)"
    "sampling True b' r'" "items b' = (if length (items b) > 1 then butlast (items b) else items b)"
proof -
  have b: "replacing b" using r by (simp add: sampling_def)
  have "m_currentSize b \<noteq> 0" using ne by (simp flip: length_items)
  then have rec: "rewind_record R t r = Some r"
    using r by (simp add: rewind_record_def sampling_def)
  show thesis
  proof (cases "length (items b) > 1")
    case True
    from ring.pop[OF b ne] obtain b' where b': "readBack b = Some (last (items b), b')"
      "replacing b'" "items b' = butlast (items b)" by auto
    have "newFrame R t r =
        Some (r\<lparr>m_buffer := Some b'\<rparr>, loadStateFromMemory R (last (items b)) t)"
      using True r rec b'(1) sampling_update[OF r] by (simp add: newFrame_def rewind_back_def sampling_def)
    then show thesis by (rule that[of _ b']) (use True r b' in \<open>simp_all add: sampling_def\<close>)
  next
    case False
    have "newFrame R t r = Some (r, loadStateFromMemory R (last (items b)) t)"
      using False r rec ring.top[OF b ne] by (simp add: newFrame_def rewind_back_def sampling_def)
    then show thesis by (rule that[of _ b]) (use False r in simp_all)
  qed
qed

text \<open>The states that successive rewinding frames load: newest first, the oldest one again and
  again.\<close>

definition rewound :: "'a list \<Rightarrow> nat \<Rightarrow> 'a" where
  "rewound xs i = xs ! (length xs - 1 - min i (length xs - 1))"

lemma rewound_Suc:
  assumes "xs \<noteq> []"
  shows "rewound (if length xs > 1 then butlast xs else xs) i = rewound xs (Suc i)"
proof (cases "length xs > 1")
  case True
  have "length xs - 2 - min i (length xs - 2) = length xs - 1 - min (Suc i) (length xs - 1)"
    using True by linarith
  moreover have "length xs - 1 - min (Suc i) (length xs - 1) < length (butlast xs)"
    using True by simp
  ultimately show ?thesis using True by (simp add: rewound_def nth_butlast numeral_2_eq_2)
next
  case False
  then have "length xs = 1" using assms by (cases xs) auto
  then show ?thesis by (simp add: rewound_def)
qed

lemma rewound_0: "xs \<noteq> [] \<Longrightarrow> rewound xs 0 = last xs"
  by (simp add: rewound_def last_conv_nth)

lemma frames_back:
  assumes "sampling True b r" "items b \<noteq> []"
  shows "\<exists>r'. frames R ts r = Some (map (\<lambda>i. loadStateFromMemory R (rewound (items b) i) (ts ! i))
           [0..<length ts], r')"
  using assms
proof (induction ts arbitrary: b r)
  case (Cons t ts)
  obtain b' r1 where
    s: "newFrame R t r = Some (r1, loadStateFromMemory R (last (items b)) t)" "sampling True b' r1"
      "items b' = (if length (items b) > 1 then butlast (items b) else items b)"
    by (rule newFrame_back[OF Cons.prems])
  have "items b' \<noteq> []"
    unfolding s(3) using Cons.prems(2) by (auto simp: butlast_conv_take simp del: length_items)
  from Cons.IH[OF s(2) this] obtain r2 where
    "frames R ts r1 = Some (map (\<lambda>i. loadStateFromMemory R (rewound (items b') i) (ts ! i))
       [0..<length ts], r2)" by auto
  moreover have "rewound (items b') i = rewound (items b) (Suc i)" for i
    unfolding s(3) by (rule rewound_Suc[OF Cons.prems(2)])
  ultimately have "frames R (t # ts) r = Some (loadStateFromMemory R (rewound (items b) 0) t #
      map (\<lambda>i. loadStateFromMemory R (rewound (items b) (Suc i)) (ts ! i)) [0..<length ts], r2)"
    using s(1) rewound_0[OF Cons.prems(2)] by simp
  then show ?case by (simp only: list.size add_0_right add_Suc_right map_upt_Suc nth_Cons_0 nth_Cons_Suc) simp
qed simp

subsection \<open>Safety for every sampling rate\<close>

definition rewind_ok :: "nat \<Rightarrow> rewind \<Rightarrow> bool" where
  "rewind_ok n r \<longleftrightarrow> (\<exists>b. m_buffer r = Some b \<and> replacing b \<and> capacity_of b = n)"

lemma rewind_update_buffer [simp]:
  "m_buffer (snd (rewind_update r)) = m_buffer r"
  "m_activeFlag (snd (rewind_update r)) = m_activeFlag r"
  by (simp_all add: rewind_update_def Let_def)

lemma peakBack_defined: "replacing b \<Longrightarrow> \<exists>x. peakBack b = Some x"
  by (simp add: replacing_def peakBack_items)

lemma record_ok: "rewind_ok n r \<Longrightarrow> \<exists>r'. rewind_record R t r = Some r' \<and> rewind_ok n r'"
proof -
  assume "rewind_ok n r"
  then obtain b where b: "m_buffer r = Some b" "replacing b" "capacity_of b = n"
    by (auto simp: rewind_ok_def)
  from ring.put[OF b(2), of "[]" "serialization R t"] obtain b' where
    "cb_write [] (serialization R t) b = Some b'" "replacing b'" "capacity_of b' = n"
    using b(3) by auto
  with b show ?thesis
    by (auto simp: rewind_record_def addState_def rewind_ok_def Let_def case_prod_unfold)
qed

lemma back_ok: "rewind_ok n r \<Longrightarrow> \<exists>r' t'. rewind_back R t r = Some (r', t') \<and> rewind_ok n r'"
proof -
  assume "rewind_ok n r"
  then obtain b where b: "m_buffer r = Some b" "replacing b" "capacity_of b = n"
    by (auto simp: rewind_ok_def)
  obtain x where x: "peakBack b = Some x" using peakBack_defined[OF b(2)] by auto
  show ?thesis
  proof (cases "m_currentSize b > 1")
    case True
    then have "items b \<noteq> []" by (simp add: items_def)
    from ring.pop[OF b(2) this] obtain b' where "readBack b = Some (last (items b), b')"
      "replacing b'" "capacity_of b' = n" using b(3) by auto
    with b x True show ?thesis by (auto simp: rewind_back_def rewind_ok_def Let_def case_prod_unfold)
  next
    case False
    with b x show ?thesis by (auto simp: rewind_back_def rewind_ok_def)
  qed
qed

lemma newFrame_ok: "rewind_ok n r \<Longrightarrow> \<exists>r' t'. newFrame R t r = Some (r', t') \<and> rewind_ok n r'"
  using record_ok[of n r R t] back_ok by (force simp: newFrame_def)

lemma setRewind_ok: "rewind_ok n (setRewind a r) = rewind_ok n r"
  by (simp add: setRewind_def rewind_ok_def)

text \<open>What happens to a rewind object between two set-ups: a frame ends, or the player presses or
  releases the rewind key.\<close>

datatype 't rewind_event = FrameEnd 't | Key bool

fun rewind_events :: "'t rewindable \<Rightarrow> 't rewind_event list \<Rightarrow> rewind \<Rightarrow> rewind option" where
  "rewind_events R [] r = Some r"
| "rewind_events R (FrameEnd t # es) r = do { (r, _) \<leftarrow> newFrame R t r; rewind_events R es r }"
| "rewind_events R (Key a # es) r = rewind_events R es (setRewind a r)"

lemma rewind_events_ok:
  "rewind_ok n r \<Longrightarrow> \<exists>r'. rewind_events R es r = Some r' \<and> rewind_ok n r'"
proof (induction R es r rule: rewind_events.induct)
  case (2 R t es r)
  from newFrame_ok[OF 2(2), of R t] obtain r' t' where
    "newFrame R t r = Some (r', t')" "rewind_ok n r'" by auto
  then show ?case using 2(1) by fastforce
qed (simp_all add: setRewind_ok)

subsection \<open>The rewind contract\<close>

definition echo :: "u8 list rewindable" where
  "echo = \<lparr>serialization = \<lambda>t. t, loadStateFromMemory = \<lambda>d t. d, getFPS = \<lambda>t. 1\<rparr>"

text \<open>
  C21: the rewind function gives back the recorded frames, newest first. With the setting of the
  application (a state every frame) and room for \<open>n \<ge> 1\<close> states, recording any sequence of
  frames and then rewinding never fails; the frames are not disturbed while they are recorded, and
  the \<open>i\<close>-th rewinding frame loads the state recorded \<open>i\<close> frames before the end, or the
  oldest of the last \<open>n\<close> states once these are used up.
\<close>
theorem rewind_replays:
  assumes "rewind_setup R t\<^sub>0 True maxTime 1 = Some r"
    and "rewind_capacity (getFPS R t\<^sub>0) 1 maxTime = Some n" and "0 < n" and "ts \<noteq> []"
  shows "\<exists>r1 r2. frames R ts r = Some (ts, r1) \<and>
    frames R us (setRewind True r1) = Some (map (\<lambda>i. loadStateFromMemory R
      (serialization R (ts ! (length ts - 1 - min i (min (length ts) n - 1)))) (us ! i))
      [0..<length us], r2)"
proof -
  let ?b = "cb_new ([] :: u8 list) n REPLACE" and ?xs = "map (serialization R) ts"
  have r: "sampling False ?b r"
    using assms(1-3) cb_new_ok(1)[of n "[]" REPLACE] cb_new_ok(4)
    by (auto simp: rewind_setup_def sampling_def replacing_def)
  then have "replacing ?b" by (simp add: sampling_def)
  from ring.put_all_recent[OF this, of "[]" ?xs] obtain b' where
    b': "put_all (cb_write []) ?xs ?b = Some b'" "replacing b'"
      "items b' = drop (length ts - n) ?xs"
    by (auto simp: cb_new_ok capacity_of_def)
  from frames_record[OF r b'(1)] obtain r1 where
    r1: "frames R ts r = Some (ts, r1)" "sampling False b' r1" by auto
  then have "sampling True b' (setRewind True r1)" by (simp add: sampling_def setRewind_def)
  moreover have ne: "items b' \<noteq> []" using b'(3) assms(3,4) by (cases ts) auto
  ultimately obtain r2 where r2: "frames R us (setRewind True r1) = Some (map (\<lambda>i.
      loadStateFromMemory R (rewound (items b') i) (us ! i)) [0..<length us], r2)"
    using frames_back by blast
  have "rewound (items b') i =
      serialization R (ts ! (length ts - 1 - min i (min (length ts) n - 1)))" for i
  proof -
    have "length ts - n + (length ts - (length ts - n) - 1 - min i (length ts - (length ts - n) - 1)) =
        length ts - 1 - min i (min (length ts) n - 1)"
      using assms(3,4) by (cases "length ts \<le> n") (auto simp: min_def)
    then show ?thesis
      using assms(3,4) unfolding rewound_def b'(3) by (simp add: nth_drop)
  qed
  with r1(1) r2 show ?thesis by auto
qed

theorem rewind_replays_witness:
  "\<exists>r r1 r2. rewind_setup echo [] True 2 1 = Some r \<and>
    frames echo [[1], [2], [3]] r = Some ([[1], [2], [3]], r1) \<and>
    frames echo [[], [], []] (setRewind True r1) = Some ([[3], [2], [2]], r2)"
proof -
  obtain r where r: "rewind_setup echo [] True 2 1 = Some r"
    by (simp add: rewind_setup_def echo_def rewind_capacity_def)
  show ?thesis
    using rewind_replays[OF r, of 2 "[[1], [2], [3]]" "[[], [], []]"] r
    by (simp add: echo_def rewind_capacity_def upt_rec numeral_3_eq_3)
qed

text \<open>
  Rewinding is safe for every sampling rate. Once the set-up has made room for \<open>n \<ge> 1\<close>
  states, no sequence of frames and key presses makes the ring buffer divide by zero or leave its
  vector, and it never holds more than \<open>n\<close> states.
\<close>
theorem rewind_safe:
  assumes "rewind_setup R t\<^sub>0 True maxTime divider = Some r"
    and "rewind_capacity (getFPS R t\<^sub>0) divider maxTime = Some n" and "0 < n"
  shows "\<exists>r' b. rewind_events R es r = Some r' \<and> m_buffer r' = Some b \<and>
    length (m_data b) = n \<and> m_currentSize b \<le> n"
proof -
  have "rewind_ok n r"
    using assms cb_new_ok(1)[of n "[] :: u8 list" REPLACE]
    by (auto simp: rewind_setup_def rewind_ok_def replacing_def capacity_of_def cb_new_ok)
  from rewind_events_ok[OF this, of R es] obtain r' b where
    "rewind_events R es r = Some r'" "m_buffer r' = Some b" "replacing b" "capacity_of b = n"
    by (auto simp: rewind_ok_def)
  then show ?thesis using ring.bounded[of b] by (auto simp: capacity_of_def)
qed

theorem rewind_safe_witness:
  "\<exists>r r' b. rewind_setup echo [] True 4 2 = Some r \<and>
    rewind_events echo [Key True, FrameEnd [1], FrameEnd [2], Key False, FrameEnd [3]] r = Some r' \<and>
    m_buffer r' = Some b \<and> length (m_data b) = 2 \<and> m_currentSize b \<le> 2"
proof -
  obtain r where r: "rewind_setup echo [] True 4 2 = Some r"
    by (simp add: rewind_setup_def echo_def rewind_capacity_def)
  show ?thesis
    using rewind_safe[OF r, of 2 "[Key True, FrameEnd [1], FrameEnd [2], Key False, FrameEnd [3]]"] r
    by (simp add: echo_def rewind_capacity_def)
qed

end
