(* ===== verification/Serialization.thy ===== *)
theory Serialization
  imports Prelude
begin

text \<open>
  The binary archives of \<open>src/src/GeraNES/Serialization.h\<close>. Every part of the machine has one
  function \<open>serialization(SerializationBase& s)\<close> that passes the bytes of its members to
  \<open>s\<close> in a fixed order; the archive decides what happens to them: \<open>Serialize\<close> appends a copy,
  \<open>Deserialize\<close> overwrites the member with the next bytes of its data, \<open>SerializationSize\<close>
  adds up the sizes. A member is a \<open>field\<close> here: its size, its bytes in memory, and the effect of
  overwriting these bytes; the order of the fields of a class is the list its \<open>serialization\<close>
  names.

  The host is little-endian, as the fast paths of the code assume; on a big-endian host the code
  reverses the bytes of a member, which gives the same archive. The locale \<open>archive_format\<close> proves
  what the three archives do with a list of fields; every class of the machine interprets it.
\<close>

datatype archive =
    Serialize "u8 list"
  | Deserialize (deser_data: "u8 list") (deser_index: nat) (deser_error: bool)
  | SerializationSize nat

text \<open>\<open>single\<close> of the three classes: the archive afterwards, and the bytes that replace the
  member, if any.\<close>

fun single :: "archive \<Rightarrow> u8 list \<Rightarrow> archive \<times> u8 list option" where
  "single (Serialize data) p = (Serialize (data @ p), None)"
| "single (Deserialize data index err) p =
     (if length p = 0 then (Deserialize data index err, None)
      else if index + length p > length data then (Deserialize data index True, None)
      else (Deserialize data (index + length p) err, Some (take (length p) (drop index data))))"
| "single (SerializationSize n) p = (SerializationSize (n + length p), None)"

definition setData :: "u8 list \<Rightarrow> archive" where
  "setData data = Deserialize data 0 False"

definition isReading :: "archive \<Rightarrow> bool" where
  "isReading s = (case s of Serialize _ \<Rightarrow> False | _ \<Rightarrow> True)"

subsection \<open>Members and their bytes\<close>

record 'c field =
  f_size :: nat
  f_get :: "'c \<Rightarrow> u8 list"
  f_set :: "u8 list \<Rightarrow> 'c \<Rightarrow> 'c"

definition ser_field :: "'c field \<Rightarrow> archive \<times> 'c \<Rightarrow> archive \<times> 'c" where
  "ser_field f = (\<lambda>(s, c).
     case single s (f_get f c) of (s, None) \<Rightarrow> (s, c) | (s, Some b) \<Rightarrow> (s, f_set f b c))"

fun ser_fields :: "'c field list \<Rightarrow> archive \<times> 'c \<Rightarrow> archive \<times> 'c" where
  "ser_fields [] x = x"
| "ser_fields (f # fs) x = ser_fields fs (ser_field f x)"

text \<open>The representation of a C++ type: its size and its bytes.\<close>

record 'v ctype =
  c_size :: nat
  c_enc :: "'v \<Rightarrow> u8 list"
  c_dec :: "u8 list \<Rightarrow> 'v"

definition SERIALIZEDATA :: "'v ctype \<Rightarrow> ('c \<Rightarrow> 'v) \<Rightarrow> (('v \<Rightarrow> 'v) \<Rightarrow> 'c \<Rightarrow> 'c) \<Rightarrow> 'c field" where
  "SERIALIZEDATA T get upd =
     \<lparr>f_size = c_size T, f_get = \<lambda>c. c_enc T (get c), f_set = \<lambda>b. upd (\<lambda>_. c_dec T b)\<rparr>"

text \<open>The members of a member object: \<open>m_dma.serialization(s)\<close> inside \<open>CPU2A03\<close>.\<close>

definition member :: "('c \<Rightarrow> 'd) \<Rightarrow> (('d \<Rightarrow> 'd) \<Rightarrow> 'c \<Rightarrow> 'c) \<Rightarrow> 'd field list \<Rightarrow> 'c field list" where
  "member get upd = map (\<lambda>f.
     \<lparr>f_size = f_size f, f_get = \<lambda>c. f_get f (get c), f_set = \<lambda>b. upd (f_set f b)\<rparr>)"

definition BOOL :: "bool ctype" where
  "BOOL = \<lparr>c_size = 1, c_enc = \<lambda>b. [of_bool b], c_dec = \<lambda>p. hd p \<noteq> 0\<rparr>"

definition U8 :: "u8 ctype" where
  "U8 = \<lparr>c_size = 1, c_enc = \<lambda>v. [v], c_dec = hd\<rparr>"

definition U16 :: "u16 ctype" where
  "U16 = \<lparr>c_size = 2, c_enc = \<lambda>v. [ucast v, ucast (drop_bit 8 v)],
     c_dec = \<lambda>p. MAKE16 (p ! 0) (p ! 1)\<rparr>"

definition u32_bytes :: "u32 \<Rightarrow> u8 list" where
  "u32_bytes v = [ucast v, ucast (drop_bit 8 v), ucast (drop_bit 16 v), ucast (drop_bit 24 v)]"

definition u32_of :: "u8 list \<Rightarrow> u32" where
  "u32_of p = ucast (MAKE16 (p ! 0) (p ! 1)) OR push_bit 16 (ucast (MAKE16 (p ! 2) (p ! 3)))"

definition U32 :: "u32 ctype" where
  "U32 = \<lparr>c_size = 4, c_enc = u32_bytes, c_dec = u32_of\<rparr>"

text \<open>A type stored through a 32-bit integer: \<open>int\<close> with its sign, an \<open>int\<close> or \<open>size_t\<close> that
  the model keeps as a natural number, an enumeration by the number of its constant.\<close>

definition VIA_U32 :: "('v \<Rightarrow> u32) \<Rightarrow> (u32 \<Rightarrow> 'v) \<Rightarrow> 'v ctype" where
  "VIA_U32 to from = \<lparr>c_size = 4, c_enc = \<lambda>v. u32_bytes (to v), c_dec = \<lambda>p. from (u32_of p)\<rparr>"

definition INT32 :: "int ctype" where
  "INT32 = VIA_U32 of_int sint"

definition NAT32 :: "nat ctype" where
  "NAT32 = VIA_U32 of_nat unat"

subsection \<open>Round trips of single values\<close>

lemma u32_round [simp]: "u32_of (u32_bytes v) = v"
proof -
  have "ucast (MAKE16 (ucast v) (ucast (drop_bit 8 v))) = take_bit 16 v"
    by (rule bit_word_eqI) (auto simp: bit_MAKE16 bit_simps)
  moreover have "push_bit 16 (ucast (MAKE16 (ucast (drop_bit 16 v)) (ucast (drop_bit 24 v)))) =
      push_bit 16 (drop_bit 16 v)"
    by (rule bit_word_eqI) (auto simp: bit_MAKE16 bit_simps)
  ultimately have "u32_of (u32_bytes v) = take_bit 16 v OR push_bit 16 (drop_bit 16 v)"
    by (simp add: u32_of_def u32_bytes_def)
  also have "\<dots> = v"
  proof (rule bit_word_eqI)
    fix n assume "n < LENGTH(32)"
    then show "bit (take_bit 16 v OR push_bit 16 (drop_bit 16 v)) n = bit v n"
      by (cases "n < 16") (simp_all add: bit_simps)
  qed
  finally show ?thesis .
qed

lemma length_u32_bytes [simp]: "length (u32_bytes v) = 4"
  by (simp add: u32_bytes_def)

lemma sint_of_int_u32: "- (2 ^ 31) \<le> i \<Longrightarrow> i < 2 ^ 31 \<Longrightarrow> sint (of_int i :: u32) = i"
  by (simp add: signed_of_int signed_take_bit_int_eq_self)

lemma unat_of_nat_u32: "n < 2 ^ 32 \<Longrightarrow> unat (of_nat n :: u32) = n"
  by (simp add: unat_of_nat take_bit_nat_eq_self)

lemmas ctype_defs = BOOL_def U8_def U16_def U32_def VIA_U32_def INT32_def NAT32_def

text \<open>Fields whose bytes always have the size they announce, which is not zero.\<close>

definition sized :: "'c field \<Rightarrow> bool" where
  "sized f \<longleftrightarrow> 0 < f_size f \<and> (\<forall>c. length (f_get f c) = f_size f)"

lemma sized_data [simp]:
  "sized (SERIALIZEDATA BOOL g u)" "sized (SERIALIZEDATA U8 h v)" "sized (SERIALIZEDATA U16 k w)"
  "sized (SERIALIZEDATA U32 l x)" "sized (SERIALIZEDATA INT32 m y)" "sized (SERIALIZEDATA NAT32 n z)"
  "sized (SERIALIZEDATA (VIA_U32 t f) p q)"
  by (simp_all add: sized_def SERIALIZEDATA_def ctype_defs)

lemma sized_member: "list_all sized fs \<Longrightarrow> list_all sized (member g u fs)"
  by (auto simp: member_def list_all_iff sized_def)

subsection \<open>What the archives do with a list of fields\<close>

text \<open>The bytes a list of fields occupies in an archive, and the effect of loading the fields of
  \<open>c\<close> into \<open>c'\<close>.\<close>

definition archive_bytes :: "'c field list \<Rightarrow> 'c \<Rightarrow> u8 list" where
  "archive_bytes fs c = concat (map (\<lambda>f. f_get f c) fs)"

definition total :: "'c field list \<Rightarrow> nat" where
  "total fs = sum_list (map f_size fs)"

fun restore :: "'c field list \<Rightarrow> 'c \<Rightarrow> 'c \<Rightarrow> 'c" where
  "restore [] c c' = c'"
| "restore (f # fs) c c' = restore fs c (f_set f (f_get f c) c')"

lemma restore_append [simp]: "restore (fs @ gs) c c' = restore gs c (restore fs c c')"
  by (induction fs arbitrary: c') simp_all

lemma restore_member:
  assumes "\<And>h k x. upd h (upd k x) = upd (\<lambda>y. h (k y)) x" "\<And>x. upd (\<lambda>y. y) x = x"
  shows "restore (member get upd fs) c c' = upd (\<lambda>y. restore fs (get c) y) c'"
proof (induction fs arbitrary: c')
  case (Cons f fs)
  then show ?case by (simp add: member_def assms(1))
next
  case Nil
  have "restore [] (get c) = (\<lambda>y. y)" by (simp add: fun_eq_iff)
  then show ?case by (simp add: member_def assms(2))
qed

lemma error_sticky: "\<exists>j c2. ser_fields fs (Deserialize d i True, c) = (Deserialize d j True, c2)"
  by (induction fs arbitrary: i c) (auto simp: ser_field_def split: option.split)

locale archive_format =
  fixes fs :: "'c field list"
  assumes all_sized: "list_all sized fs"
begin

lemma length_image: "length (archive_bytes fs c) = total fs"
  using all_sized by (induction fs) (auto simp: archive_bytes_def total_def sized_def)

lemma saved: "ser_fields fs (Serialize d, c) = (Serialize (d @ archive_bytes fs c), c)"
  by (induction fs arbitrary: d) (simp_all add: archive_bytes_def ser_field_def)

lemma counted: "ser_fields fs (SerializationSize n, c) = (SerializationSize (n + total fs), c)"
  using all_sized
  by (induction fs arbitrary: n) (simp_all add: total_def ser_field_def sized_def)

lemma loaded:
  assumes "take (total fs) (drop i d) = archive_bytes fs c" "i + total fs \<le> length d"
  shows "ser_fields fs (Deserialize d i e, c') = (Deserialize d (i + total fs) e, restore fs c c')"
  using all_sized assms
proof (induction fs arbitrary: i c')
  case (Cons f fs)
  have len: "length (f_get f x) = f_size f" for x using Cons.prems(1) by (simp add: sized_def)
  have tot: "total (f # fs) = f_size f + total fs" by (simp add: total_def)
  have "take (f_size f) (drop i d) = take (f_size f) (archive_bytes (f # fs) c)"
    unfolding Cons.prems(2)[symmetric] tot by (simp add: min_def)
  then have this_field: "take (f_size f) (drop i d) = f_get f c"
    using len by (simp add: archive_bytes_def)
  have "take (total fs) (drop (i + f_size f) d) = drop (f_size f) (archive_bytes (f # fs) c)"
    unfolding Cons.prems(2)[symmetric] tot by (simp add: drop_take add.commute)
  then have rest: "take (total fs) (drop (i + f_size f) d) = archive_bytes fs c"
    using len by (simp add: archive_bytes_def)
  have "ser_field f (Deserialize d i e, c') =
      (Deserialize d (i + f_size f) e, f_set f (f_get f c) c')"
    using this_field Cons.prems(1,3) len by (simp add: ser_field_def tot sized_def)
  then show ?case
    using Cons.IH[OF _ rest] Cons.prems(1,3) by (simp add: tot add.assoc)
qed (simp add: total_def)

text \<open>A shorter archive is always noticed, whatever its bytes are.\<close>

lemma truncated:
  assumes "length d < i + total fs" "i \<le> length d"
  shows "\<exists>j c2. ser_fields fs (Deserialize d i e, c) = (Deserialize d j True, c2)"
  using all_sized assms
proof (induction fs arbitrary: i c)
  case (Cons f fs)
  have len: "length (f_get f x) = f_size f" "0 < f_size f" for x
    using Cons.prems(1) by (simp_all add: sized_def)
  show ?case
  proof (cases "i + f_size f > length d")
    case True
    then show ?thesis using len error_sticky[of fs d i c] by (simp add: ser_field_def)
  next
    case False
    then show ?thesis using Cons len by (simp add: ser_field_def total_def add.assoc)
  qed
qed (simp add: total_def)

lemma round_trip:
  "ser_fields fs (setData (archive_bytes fs c), c') =
     (Deserialize (archive_bytes fs c) (length (archive_bytes fs c)) False, restore fs c c')"
  using loaded[of 0 "archive_bytes fs c" c] by (simp add: setData_def length_image)

lemma prefix_refused:
  "n < total fs \<Longrightarrow> deser_error (fst (ser_fields fs (setData (take n (archive_bytes fs c)), c')))"
  using truncated[of "take n (archive_bytes fs c)" 0 False c'] by (auto simp: setData_def length_image)

end

end
