(* ===== verification/Save_State.thy ===== *)
theory Save_State
  imports Serialization Console Apu_Claims
begin

text \<open>
  The \<open>serialization\<close> functions of the CPU, its DMA unit, and the APU and its channels, as lists of
  fields in the order of the code, with their interpretations of \<open>archive_format\<close>. A saved state
  that is loaded again gives the saved object back, apart from the members the code does not save.
\<close>

text \<open>The enumerations are stored as \<open>int\<close>; a number that names no constant only occurs in a
  foreign archive and is read as the last constant.\<close>

definition NMISTEP :: "NmiStep ctype" where
  "NMISTEP = VIA_U32 (\<lambda>v. case v of WAITING_HIGH \<Rightarrow> 0 | WAITING_LOW \<Rightarrow> 1 | OK \<Rightarrow> 2)
     (\<lambda>n. if n = 0 then WAITING_HIGH else if n = 1 then WAITING_LOW else OK)"

definition INTERRUPT :: "Interrupt ctype" where
  "INTERRUPT = VIA_U32 (\<lambda>v. case v of NONE \<Rightarrow> 0 | NMI \<Rightarrow> 1 | IRQ \<Rightarrow> 2)
     (\<lambda>n. if n = 0 then NONE else if n = 1 then NMI else IRQ)"

definition REGION :: "Region ctype" where
  "REGION = VIA_U32 (\<lambda>v. case v of PAL \<Rightarrow> 0 | NTSC \<Rightarrow> 1 | DENDY \<Rightarrow> 2)
     (\<lambda>n. if n = 0 then PAL else if n = 1 then NTSC else DENDY)"

definition dma_serialization :: "dma field list" where
  "dma_serialization = [
     SERIALIZEDATA BOOL d_dmaNeedHalt d_dmaNeedHalt_update,
     SERIALIZEDATA BOOL d_dmaNeedDummyRead d_dmaNeedDummyRead_update,
     SERIALIZEDATA BOOL d_oamDmaTransfer d_oamDmaTransfer_update,
     SERIALIZEDATA U8 d_oamDmaPage d_oamDmaPage_update,
     SERIALIZEDATA U16 d_oamDmaCounter d_oamDmaCounter_update,
     SERIALIZEDATA U8 d_oamDmaReadAddr d_oamDmaReadAddr_update,
     SERIALIZEDATA U8 d_oamDmaData d_oamDmaData_update,
     SERIALIZEDATA BOOL d_dmcDmaRunning d_dmcDmaRunning_update,
     SERIALIZEDATA BOOL d_dmcAbortPending d_dmcAbortPending_update,
     SERIALIZEDATA BOOL d_dmcSingleCycleAbortPending d_dmcSingleCycleAbortPending_update,
     SERIALIZEDATA U8 d_dmcSingleCycleAbortDelay d_dmcSingleCycleAbortDelay_update,
     SERIALIZEDATA BOOL d_dmcInitialLoadPhasePending d_dmcInitialLoadPhasePending_update,
     SERIALIZEDATA BOOL d_dmcLastRequestWasReload d_dmcLastRequestWasReload_update,
     SERIALIZEDATA U16 d_dmcDmaAddr d_dmcDmaAddr_update,
     SERIALIZEDATA U16 d_dmaPrevReadAddr d_dmaPrevReadAddr_update,
     SERIALIZEDATA BOOL d_dmaReadInProgress d_dmaReadInProgress_update,
     SERIALIZEDATA U8 d_dmaReadInputClockMask d_dmaReadInputClockMask_update]"

definition cpu_serialization :: "'e cpu field list" where
  "cpu_serialization = [
     SERIALIZEDATA U16 m_pc m_pc_update,
     SERIALIZEDATA U8 m_sp m_sp_update,
     SERIALIZEDATA U8 m_status m_status_update,
     SERIALIZEDATA U8 m_a m_a_update,
     SERIALIZEDATA U8 m_x m_x_update,
     SERIALIZEDATA U8 m_y m_y_update,
     SERIALIZEDATA U32 m_cyclesCounter m_cyclesCounter_update,
     SERIALIZEDATA U8 m_opcode m_opcode_update,
     SERIALIZEDATA U16 m_addr m_addr_update,
     SERIALIZEDATA U8 m_addrHigh m_addrHigh_update,
     SERIALIZEDATA BOOL m_addrPageCross m_addrPageCross_update,
     SERIALIZEDATA BOOL m_nmiSignal m_nmiSignal_update,
     SERIALIZEDATA NMISTEP m_nmiStep m_nmiStep_update,
     SERIALIZEDATA BOOL m_irqSignal m_irqSignal_update,
     SERIALIZEDATA BOOL m_irqStep m_irqStep_update,
     SERIALIZEDATA NAT32 m_currentInstructionCycle m_currentInstructionCycle_update,
     SERIALIZEDATA INTERRUPT m_interrupt m_interrupt_update,
     SERIALIZEDATA U8 m_poolIntsAtCycle m_poolIntsAtCycle_update,
     SERIALIZEDATA NAT32 m_runCount m_runCount_update,
     SERIALIZEDATA BOOL m_writeCycle m_writeCycle_update,
     SERIALIZEDATA BOOL m_lastReadHadDma m_lastReadHadDma_update,
     SERIALIZEDATA BOOL m_indexedDummyReadHadDma m_indexedDummyReadHadDma_update,
     SERIALIZEDATA REGION m_ppuTimingRegion m_ppuTimingRegion_update,
     SERIALIZEDATA U8 m_ppuLateCycleRemainder m_ppuLateCycleRemainder_update]
   @ member m_dma m_dma_update dma_serialization"

definition pulse_serialization :: "pulse field list" where
  "pulse_serialization = [
     SERIALIZEDATA BOOL pu_enabled pu_enabled_update,
     SERIALIZEDATA U16 pu_lengthCounter pu_lengthCounter_update,
     SERIALIZEDATA U16 pu_period pu_period_update,
     SERIALIZEDATA U8 pu_duty pu_duty_update,
     SERIALIZEDATA BOOL pu_loop pu_loop_update,
     SERIALIZEDATA BOOL pu_constantVolumeMode pu_constantVolumeMode_update,
     SERIALIZEDATA U8 pu_envelopPeriod pu_envelopPeriod_update,
     SERIALIZEDATA U8 pu_envelopVolume pu_envelopVolume_update,
     SERIALIZEDATA U8 pu_constantVolume pu_constantVolume_update,
     SERIALIZEDATA U8 pu_envelopCounter pu_envelopCounter_update,
     SERIALIZEDATA BOOL pu_sweepEnabled pu_sweepEnabled_update,
     SERIALIZEDATA U8 pu_sweepPeriod pu_sweepPeriod_update,
     SERIALIZEDATA BOOL pu_sweepNegative pu_sweepNegative_update,
     SERIALIZEDATA U8 pu_sweepShift pu_sweepShift_update,
     SERIALIZEDATA BOOL pu_sweepWritten pu_sweepWritten_update,
     SERIALIZEDATA U16 pu_sweepCounter pu_sweepCounter_update,
     SERIALIZEDATA U16 pu_sweepResult pu_sweepResult_update,
     SERIALIZEDATA BOOL pu_lengthUpdated pu_lengthUpdated_update]"

definition triangle_serialization :: "triangle field list" where
  "triangle_serialization = [
     SERIALIZEDATA BOOL tr_enabled tr_enabled_update,
     SERIALIZEDATA U16 tr_lengthCounter tr_lengthCounter_update,
     SERIALIZEDATA U16 tr_period tr_period_update,
     SERIALIZEDATA BOOL tr_loop tr_loop_update,
     SERIALIZEDATA U8 tr_linearLoad tr_linearLoad_update,
     SERIALIZEDATA U16 tr_linearCounter tr_linearCounter_update,
     SERIALIZEDATA BOOL tr_linearReloadFlag tr_linearReloadFlag_update]"

definition noise_serialization :: "noise field list" where
  "noise_serialization = [
     SERIALIZEDATA BOOL no_enabled no_enabled_update,
     SERIALIZEDATA U16 no_lengthCounter no_lengthCounter_update,
     SERIALIZEDATA U16 no_period no_period_update,
     SERIALIZEDATA BOOL no_loop no_loop_update,
     SERIALIZEDATA BOOL no_constantVolumeMode no_constantVolumeMode_update,
     SERIALIZEDATA U8 no_envelopVolume no_envelopVolume_update,
     SERIALIZEDATA U8 no_constantVolumeAndEnvelopPeriod no_constantVolumeAndEnvelopPeriod_update,
     SERIALIZEDATA U8 no_envelopCounter no_envelopCounter_update,
     SERIALIZEDATA BOOL no_mode no_mode_update,
     SERIALIZEDATA BOOL no_lengthUpdated no_lengthUpdated_update]"

definition dmc_serialization :: "dmc field list" where
  "dmc_serialization = [
     SERIALIZEDATA U8 dm_playMode dm_playMode_update,
     SERIALIZEDATA U16 dm_currentAddr dm_currentAddr_update,
     SERIALIZEDATA U8 dm_deltaCounter dm_deltaCounter_update,
     SERIALIZEDATA U16 dm_sampleAddr dm_sampleAddr_update,
     SERIALIZEDATA U16 dm_sampleLength dm_sampleLength_update,
     SERIALIZEDATA U16 dm_bytesRemaining dm_bytesRemaining_update,
     SERIALIZEDATA NAT32 dm_periodIndex dm_periodIndex_update,
     SERIALIZEDATA INT32 dm_periodCounter dm_periodCounter_update,
     SERIALIZEDATA INT32 dm_bitsRemaining dm_bitsRemaining_update,
     SERIALIZEDATA U8 dm_shiftRegister dm_shiftRegister_update,
     SERIALIZEDATA U8 dm_readBuffer dm_readBuffer_update,
     SERIALIZEDATA BOOL dm_readBufferFilled dm_readBufferFilled_update,
     SERIALIZEDATA BOOL dm_silenceFlag dm_silenceFlag_update,
     SERIALIZEDATA BOOL dm_interruptFlag dm_interruptFlag_update,
     SERIALIZEDATA U32 dm_cpuCycleCounter dm_cpuCycleCounter_update,
     SERIALIZEDATA BOOL dm_directControlFlag dm_directControlFlag_update,
     SERIALIZEDATA BOOL dm_enabled dm_enabled_update,
     SERIALIZEDATA INT32 dm_enableReloadDelay dm_enableReloadDelay_update,
     SERIALIZEDATA INT32 dm_disableDelay dm_disableDelay_update]"

definition apu_serialization :: "apu field list" where
  "apu_serialization = [
     SERIALIZEDATA BOOL ap_mode ap_mode_update,
     SERIALIZEDATA BOOL ap_interruptInhibitFlag ap_interruptInhibitFlag_update,
     SERIALIZEDATA NAT32 ap_frameStep ap_frameStep_update,
     SERIALIZEDATA BOOL ap_frameInterruptFlag ap_frameInterruptFlag_update,
     SERIALIZEDATA U8 ap_frameInterruptClearDelay ap_frameInterruptClearDelay_update,
     SERIALIZEDATA BOOL ap_jitter ap_jitter_update,
     SERIALIZEDATA INT32 ap_nextDelay ap_nextDelay_update]
   @ member ap_pulse1 ap_pulse1_update pulse_serialization
   @ member ap_pulse2 ap_pulse2_update pulse_serialization
   @ member ap_triangle ap_triangle_update triangle_serialization
   @ member ap_noise ap_noise_update noise_serialization
   @ member ap_sample ap_sample_update dmc_serialization
   @ [SERIALIZEDATA BOOL ap_writeChannelsFlag ap_writeChannelsFlag_update,
     SERIALIZEDATA NAT32 ap_writeChannelsAddr ap_writeChannelsAddr_update,
     SERIALIZEDATA U8 ap_writeChannelsData ap_writeChannelsData_update,
     SERIALIZEDATA U8 ap_last4017Value ap_last4017Value_update]"

subsection \<open>The formats\<close>

lemma sized_enum [simp]:
  "sized (SERIALIZEDATA NMISTEP g u)" "sized (SERIALIZEDATA INTERRUPT h v)"
  "sized (SERIALIZEDATA REGION k w)"
  by (simp_all add: NMISTEP_def INTERRUPT_def REGION_def)

lemma channel_sizes:
  "list_all sized dma_serialization" "list_all sized pulse_serialization"
  "list_all sized triangle_serialization" "list_all sized noise_serialization"
  "list_all sized dmc_serialization"
  by (simp_all add: dma_serialization_def pulse_serialization_def triangle_serialization_def
      noise_serialization_def dmc_serialization_def)

interpretation cpu_archive: archive_format cpu_serialization
  by unfold_locales (simp add: cpu_serialization_def sized_member channel_sizes)

interpretation apu_archive: archive_format apu_serialization
  by unfold_locales (simp add: apu_serialization_def sized_member channel_sizes)

subsection \<open>What loading restores\<close>

lemma enum_round [simp]:
  "c_dec NMISTEP (c_enc NMISTEP a) = a"
  "c_dec INTERRUPT (c_enc INTERRUPT b) = b"
  "c_dec REGION (c_enc REGION r) = r"
proof -
  show "c_dec NMISTEP (c_enc NMISTEP a) = a" by (cases a) (simp_all add: NMISTEP_def VIA_U32_def)
  show "c_dec INTERRUPT (c_enc INTERRUPT b) = b"
    by (cases b) (simp_all add: INTERRUPT_def VIA_U32_def)
  show "c_dec REGION (c_enc REGION r) = r" by (cases r) (simp_all add: REGION_def VIA_U32_def)
qed

lemma value_round [simp]:
  "c_dec BOOL (c_enc BOOL p) = p" "c_dec U8 (c_enc U8 v) = v"
  "c_dec U16 (c_enc U16 w) = w" "c_dec U32 (c_enc U32 x) = x"
  "n < 2 ^ 31 \<Longrightarrow> c_dec NAT32 (c_enc NAT32 n) = n"
  "\<bar>k\<bar> < 2 ^ 31 \<Longrightarrow> c_dec INT32 (c_enc INT32 k) = k"
  by (simp_all add: ctype_defs unat_of_nat_u32 sint_of_int_u32)

lemma restore_data [simp]:
  "f_set (SERIALIZEDATA T g u) (f_get (SERIALIZEDATA T g u) c) c' = u (\<lambda>_. c_dec T (c_enc T (g c))) c'"
  by (simp add: SERIALIZEDATA_def)

lemma restore_dma: "restore dma_serialization c c' = c"
  by (rule dma.equality) (simp_all add: dma_serialization_def)

lemma restore_pulse: "restore pulse_serialization c c' = c"
  by (rule pulse.equality) (simp_all add: pulse_serialization_def)

lemma restore_triangle: "restore triangle_serialization c c' = c"
  by (rule triangle.equality) (simp_all add: triangle_serialization_def)

lemma restore_noise: "restore noise_serialization c c' = c"
  by (rule noise.equality) (simp_all add: noise_serialization_def)

lemma restore_dmc: "dmc_ok c \<Longrightarrow> restore dmc_serialization c c' = c"
  by (rule dmc.equality) (simp_all add: dmc_serialization_def dmc_ok_def)

lemmas restore_parts = restore_dma restore_pulse restore_triangle restore_noise restore_dmc

lemma restore_cpu:
  assumes "m_currentInstructionCycle c < 2 ^ 31" "m_runCount c < 2 ^ 31"
  shows "restore cpu_serialization c c' = c\<lparr>m_resetRequest := m_resetRequest c', env := env c'\<rparr>"
  using assms
  by (intro cpu.equality) (simp_all add: cpu_serialization_def restore_member restore_parts)

lemma restore_apu:
  assumes "apu_ok c" "ap_writeChannelsAddr c < 2 ^ 31"
  shows "emu (restore apu_serialization c c') = emu c"
  using assms by (simp add: emu_def apu_serialization_def restore_member restore_parts apu_ok_def
      apu_regs_def less_trans[of _ _ "2 ^ 31 :: nat"] split: if_splits)

subsection \<open>Save states\<close>

text \<open>
  C22: a save state of the CPU restores the CPU. The bytes that \<open>CPU2A03::serialization\<close> writes
  to a \<open>Serialize\<close> archive, read back by the same function into any other CPU object, give every
  register, interrupt latch and DMA member of the saved CPU without a read error; only the reset
  request and the references to the console keep the values of the object they are loaded into.
  \<open>SerializationSize\<close> announces exactly the number of bytes written.
\<close>
theorem cpu_save_load:
  fixes c c' :: "'e cpu"
  assumes "m_currentInstructionCycle c < 2 ^ 31" "m_runCount c < 2 ^ 31"
  shows "\<exists>img. ser_fields cpu_serialization (Serialize [], c) = (Serialize img, c) \<and>
    ser_fields cpu_serialization (SerializationSize 0, c) = (SerializationSize (length img), c) \<and>
    ser_fields cpu_serialization (setData img, c') = (Deserialize img (length img) False,
      c\<lparr>m_resetRequest := m_resetRequest c', env := env c'\<rparr>)"
  using cpu_archive.saved[of "[]" c] cpu_archive.counted[of 0 c] cpu_archive.round_trip[of c c']
    restore_cpu[OF assms, of c'] cpu_archive.length_image[of c]
  by (intro exI[of _ "archive_bytes cpu_serialization c"]) simp

theorem cpu_save_load_witness:
  "\<exists>img. ser_fields cpu_serialization (setData img, cpu0 dma_init ()) =
    (Deserialize img (length img) False, (cpu0 dma_init ())\<lparr>m_a := 7, m_interrupt := NMI\<rparr>)"
  using cpu_save_load[of "(cpu0 dma_init ())\<lparr>m_a := 7, m_interrupt := NMI\<rparr>" "cpu0 dma_init ()"]
  by (auto simp: cpu0_def)

text \<open>
  A save state of the APU restores the APU. In every state that a powered-up APU can reach,
  writing the APU to an archive and reading it back into any other APU object gives back the frame
  sequencer, all five channels and the delayed register write; only the cached audio parameters,
  which the code does not save, stay those of the object loaded into.
\<close>
theorem apu_save_load:
  assumes "apu_reach c" "ap_writeChannelsAddr c < 2 ^ 31"
  shows "\<exists>img d. ser_fields apu_serialization (Serialize [], c) = (Serialize img, c) \<and>
    ser_fields apu_serialization (SerializationSize 0, c) = (SerializationSize (length img), c) \<and>
    ser_fields apu_serialization (setData img, c') = (Deserialize img (length img) False, d) \<and>
    emu d = emu c"
  using apu_archive.saved[of "[]" c] apu_archive.counted[of 0 c] apu_archive.round_trip[of c c']
    restore_apu[OF apu_reach_ok[OF assms(1)] assms(2), of c'] apu_archive.length_image[of c]
  by (intro exI[of _ "archive_bytes apu_serialization c"]) simp

theorem apu_save_load_witness:
  "\<exists>img d. ser_fields apu_serialization (setData img, apu0) = (Deserialize img (length img) False, d) \<and>
    emu d = emu (apu_write NTSC 2 9 False (snd (powerOnReset NTSC apu0)))"
  using apu_save_load[OF apu_reach.store[OF apu_reach.power_up, of NTSC 2 9 False NTSC apu0], of apu0]
  by (auto simp: apu_write_def)

text \<open>
  C23: a truncated save state is noticed. Whatever CPU it is loaded into, every proper prefix of a
  saved CPU leaves the \<open>Deserialize\<close> archive with its error flag set.
\<close>
theorem cpu_truncated:
  fixes c c' :: "'e cpu"
  assumes "ser_fields cpu_serialization (Serialize [], c) = (Serialize img, c)" "n < length img"
  shows "deser_error (fst (ser_fields cpu_serialization (setData (take n img), c')))"
  using cpu_archive.prefix_refused[of n c c'] assms cpu_archive.saved[of "[]" c]
    cpu_archive.length_image[of c] by simp

theorem cpu_truncated_witness:
  "deser_error (fst (ser_fields cpu_serialization (setData (take 3
     (archive_bytes cpu_serialization (cpu0 dma_init ()))), cpu0 dma_init ())))"
proof (rule cpu_truncated)
  show "3 < length (archive_bytes cpu_serialization (cpu0 dma_init ()))"
    unfolding cpu_archive.length_image
    by (simp add: total_def cpu_serialization_def SERIALIZEDATA_def U16_def U8_def)
qed (simp add: cpu_archive.saved)

end
