(* ===== verification/Cart_Data.thy ===== *)
theory Cart_Data
  imports Prelude
begin

text \<open>
  What a cartridge consists of: the banks of \<open>src/src/GeraNES/util/bank.h\<close>, the checksum of
  \<open>util/Crc32.h\<close>, the interface \<open>ICartridgeData\<close> and its implementations \<open>_INesFormat\<close>
  (iNES and NES 2.0 files) and \<open>DbOverwriteCartridgeData\<close> (a header corrected by the game
  database), all under \<open>src/src/GeraNES/NesCartridgeData\<close>.

  \<open>RomFile::data\<close> reads a \<open>std::vector\<close> without a bounds check; a read outside the file is
  undefined in C++ and gives \<open>None\<close> here. Offsets are mathematical integers: the largest one a
  header can describe is below \<open>2^27\<close>, so no \<open>int\<close> of the code overflows, and a negative bank
  number (\<open>numberOfPRGBanks() - 2\<close> of a tiny cartridge) stays visible as such.
\<close>

text \<open>A read that stays inside its memory.\<close>

definition defined :: "'a option \<Rightarrow> bool" where
  "defined x \<longleftrightarrow> x \<noteq> None"

lemma defined_Some [simp]: "defined (Some x)"
  by (simp add: defined_def)

lemma definedE: "defined x \<Longrightarrow> (\<And>y. x = Some y \<Longrightarrow> P) \<Longrightarrow> P"
  by (auto simp: defined_def)

subsection \<open>Banks\<close>

datatype BankSize = B1K | B2K | B4K | B8K | B16K | B32K

primrec bank_value :: "BankSize \<Rightarrow> int" where
  "bank_value B1K = 0x400"
| "bank_value B2K = 0x800"
| "bank_value B4K = 0x1000"
| "bank_value B8K = 0x2000"
| "bank_value B16K = 0x4000"
| "bank_value B32K = 0x8000"

fun log2_loop :: "nat \<Rightarrow> nat \<Rightarrow> nat" where
  "log2_loop v s = (if v > 1 then log2_loop (v div 2) (Suc s) else s)"

declare log2_loop.simps [simp del]

definition log2 :: "BankSize \<Rightarrow> nat" where
  "log2 bs = log2_loop (nat (bank_value bs)) 0"

definition bank_offset :: "BankSize \<Rightarrow> int \<Rightarrow> int \<Rightarrow> int" where
  "bank_offset bs bank addr = push_bit (log2 bs) bank + (addr AND (bank_value bs - 1))"

lemma log2_value: "log2 bs = (case bs of B1K \<Rightarrow> 10 | B2K \<Rightarrow> 11 | B4K \<Rightarrow> 12 | B8K \<Rightarrow> 13 | B16K \<Rightarrow> 14 | B32K \<Rightarrow> 15)"
  by (cases bs) (simp_all add: log2_def log2_loop.simps)

lemma bank_value_log2: "bank_value bs = 2 ^ log2 bs"
  by (cases bs) (simp_all add: log2_value)

lemma bank_value_pos [simp]: "0 < bank_value bs"
  by (cases bs) simp_all

lemma bank_offset_eq: "bank_offset bs bank addr = bank * bank_value bs + addr mod bank_value bs"
  by (simp add: bank_offset_def bank_value_log2 push_bit_eq_mult take_bit_eq_mod
      flip: take_bit_eq_mask mask_eq_exp_minus_1)

text \<open>A bank below the number of whole banks lies inside the memory.\<close>

lemma bank_offset_bounds:
  assumes "0 \<le> bank" "bank < bytes div bank_value bs"
  shows "0 \<le> bank_offset bs bank addr" "bank_offset bs bank addr < bytes"
proof -
  have m: "0 \<le> addr mod bank_value bs" "addr mod bank_value bs < bank_value bs"
    by (simp_all add: pos_mod_sign pos_mod_bound)
  then show "0 \<le> bank_offset bs bank addr" using assms(1)
    by (simp add: bank_offset_eq add_nonneg_nonneg less_imp_le)
  have "(bank + 1) * bank_value bs \<le> bytes div bank_value bs * bank_value bs"
    using assms(2) by (intro mult_right_mono) (simp_all add: less_imp_le)
  also have "\<dots> \<le> bytes" by (simp add: pos_mod_sign flip: minus_mod_eq_div_mult)
  finally have "bank * bank_value bs + bank_value bs \<le> bytes" by (simp add: distrib_right)
  then show "bank_offset bs bank addr < bytes" using m(2) unfolding bank_offset_eq by linarith
qed

subsection \<open>Checksum\<close>

definition crc_start :: "u32 \<Rightarrow> u32" where
  "crc_start start = NOT start"

fun crc_bits :: "nat \<Rightarrow> u8 \<Rightarrow> u32 \<Rightarrow> u32" where
  "crc_bits 0 ch crc = crc"
| "crc_bits (Suc n) ch crc =
     (let b = bit ch 0 \<noteq> bit crc 0;
          crc = drop_bit 1 crc;
          crc = (if b then crc XOR 0xEDB88320 else crc)
      in crc_bits n (signed_drop_bit 1 ch) crc)"

definition crc_add :: "u8 \<Rightarrow> u32 \<Rightarrow> u32" where
  "crc_add ch crc = crc_bits 8 ch crc"

definition crc_get :: "u32 \<Rightarrow> u32" where
  "crc_get crc = NOT crc"

definition crc_calc :: "u8 list \<Rightarrow> u32" where
  "crc_calc s = crc_get (fold crc_add s (crc_start 0))"

subsection \<open>The cartridge interface\<close>

datatype MirroringType = HORIZONTAL | VERTICAL | SINGLE_SCREEN_A | SINGLE_SCREEN_B | FOUR_SCREEN | CUSTOM

record cart =
  c_prgSize :: int
  c_chrSize :: int
  c_mirroringType :: MirroringType
  c_hasBattery :: bool
  c_hasTrainer :: bool
  c_useFourScreenMirroring :: bool
  c_mapperId :: int
  c_subMapperId :: int
  c_ramSize :: int
  c_chrRamSize :: int
  c_saveRamSize :: int
  c_chip :: string
  c_readTrainer :: "int \<Rightarrow> u8 option"
  c_readPrg :: "int \<Rightarrow> u8 option"
  c_readChr :: "int \<Rightarrow> u8 option"

definition readPrgBank :: "cart \<Rightarrow> BankSize \<Rightarrow> int \<Rightarrow> int \<Rightarrow> u8 option" where
  "readPrgBank c bs bank addr = c_readPrg c (bank_offset bs bank addr)"

definition readChrBank :: "cart \<Rightarrow> BankSize \<Rightarrow> int \<Rightarrow> int \<Rightarrow> u8 option" where
  "readChrBank c bs bank addr = c_readChr c (bank_offset bs bank addr)"

definition numberOfPRGBanks :: "cart \<Rightarrow> BankSize \<Rightarrow> int" where
  "numberOfPRGBanks c bs = c_prgSize c div bank_value bs"

definition numberOfCHRBanks :: "cart \<Rightarrow> BankSize \<Rightarrow> int" where
  "numberOfCHRBanks c bs = c_chrSize c div bank_value bs"

fun crc_range :: "(int \<Rightarrow> u8 option) \<Rightarrow> nat \<Rightarrow> int \<Rightarrow> u32 \<Rightarrow> u32 option" where
  "crc_range rd 0 i crc = Some crc"
| "crc_range rd (Suc n) i crc = do { b \<leftarrow> rd i; crc_range rd n (i + 1) (crc_add b crc) }"

definition prgCrc32 :: "cart \<Rightarrow> u32 option" where
  "prgCrc32 c = map_option crc_get (crc_range (c_readPrg c) (nat (c_prgSize c)) 0 (crc_start 0))"

definition prgChrCrc32 :: "cart \<Rightarrow> u32 option" where
  "prgChrCrc32 c = do {
     crc \<leftarrow> prgCrc32 c;
     crc \<leftarrow> crc_range (c_readChr c) (nat (c_chrSize c)) 0 (crc_start crc);
     Some (crc_get crc) }"

subsection \<open>iNES and NES 2.0 files\<close>

definition rom_data :: "u8 list \<Rightarrow> int \<Rightarrow> u8 option" where
  "rom_data rom i = (if 0 \<le> i \<and> i < int (length rom) then Some (rom ! nat i) else None)"

text \<open>A header byte as an \<open>int\<close>; the constructor refuses files shorter than the header before
  any of these is read.\<close>

definition hdr :: "u8 list \<Rightarrow> nat \<Rightarrow> int" where
  "hdr rom i = uint (rom ! i)"

definition INES_HEADER_SIZE :: int where
  "INES_HEADER_SIZE = 16"

definition isNes20 :: "u8 list \<Rightarrow> bool" where
  "isNes20 rom \<longleftrightarrow> hdr rom 7 AND 0x0C = 0x08"

definition decodeNes20RamSize :: "int \<Rightarrow> int" where
  "decodeNes20RamSize shiftCount = (if shiftCount = 0 then 0 else push_bit (nat shiftCount) 64)"

definition ines_prgSize :: "u8 list \<Rightarrow> int" where
  "ines_prgSize rom =
     (let lsb = hdr rom 4; msb = hdr rom 9 AND 0x0F in
      if isNes20 rom \<and> msb \<noteq> 0x0F then (push_bit 8 msb OR lsb) * 0x4000 else lsb * 0x4000)"

definition ines_chrSize :: "u8 list \<Rightarrow> int" where
  "ines_chrSize rom =
     (let lsb = hdr rom 5; msb = drop_bit 4 (hdr rom 9) AND 0x0F in
      if isNes20 rom \<and> msb \<noteq> 0x0F then (push_bit 8 msb OR lsb) * 0x2000 else lsb * 0x2000)"

definition ines_hasTrainer :: "u8 list \<Rightarrow> bool" where
  "ines_hasTrainer rom \<longleftrightarrow> hdr rom 6 AND 0x04 \<noteq> 0"

definition ines_mirroringType :: "u8 list \<Rightarrow> MirroringType" where
  "ines_mirroringType rom = (if hdr rom 6 AND 0x01 = 0 then HORIZONTAL else VERTICAL)"

definition ines_mapperId :: "u8 list \<Rightarrow> int" where
  "ines_mapperId rom =
     (let n = drop_bit 4 (hdr rom 6 AND 0xF0) OR (hdr rom 7 AND 0xF0) in
      if isNes20 rom then n OR push_bit 8 (hdr rom 8 AND 0x0F) else n)"

definition ines_subMapperId :: "u8 list \<Rightarrow> int" where
  "ines_subMapperId rom = (if isNes20 rom then drop_bit 4 (hdr rom 8) AND 0x0F else 0)"

definition ines_ramSize :: "u8 list \<Rightarrow> int" where
  "ines_ramSize rom =
     (if isNes20 rom then decodeNes20RamSize (hdr rom 10 AND 0x0F)
      else (if hdr rom 8 = 0 then 1 else hdr rom 8) * 0x2000)"

definition ines_chrRamSize :: "u8 list \<Rightarrow> int" where
  "ines_chrRamSize rom =
     (if isNes20 rom then decodeNes20RamSize (hdr rom 11 AND 0x0F)
      else if ines_chrSize rom = 0 then 0x2000 else 0)"

definition ines_saveRamSize :: "u8 list \<Rightarrow> int" where
  "ines_saveRamSize rom =
     (if isNes20 rom then decodeNes20RamSize (drop_bit 4 (hdr rom 10) AND 0x0F) else 0x2000)"

definition PRGStartIndex :: "u8 list \<Rightarrow> int" where
  "PRGStartIndex rom = INES_HEADER_SIZE + (if ines_hasTrainer rom then 512 else 0)"

definition CHRStartIndex :: "u8 list \<Rightarrow> int" where
  "CHRStartIndex rom = INES_HEADER_SIZE + (if ines_hasTrainer rom then 512 else 0) + ines_prgSize rom"

datatype ines_error = InvalidHeader | InvalidSignature | LengthMismatch

text \<open>The object an \<open>_INesFormat\<close> is once its constructor has accepted the file.\<close>

definition ines_cart :: "u8 list \<Rightarrow> cart" where
  "ines_cart rom = \<lparr>c_prgSize = ines_prgSize rom, c_chrSize = ines_chrSize rom,
     c_mirroringType = ines_mirroringType rom, c_hasBattery = (hdr rom 6 AND 0x02 \<noteq> 0),
     c_hasTrainer = ines_hasTrainer rom, c_useFourScreenMirroring = (hdr rom 6 AND 0x08 \<noteq> 0),
     c_mapperId = ines_mapperId rom, c_subMapperId = ines_subMapperId rom,
     c_ramSize = ines_ramSize rom, c_chrRamSize = ines_chrRamSize rom,
     c_saveRamSize = ines_saveRamSize rom, c_chip = '''',
     c_readTrainer = \<lambda>addr. if ines_hasTrainer rom then rom_data rom (INES_HEADER_SIZE + addr) else Some 0,
     c_readPrg = \<lambda>addr. rom_data rom (PRGStartIndex rom + addr),
     c_readChr = \<lambda>addr. rom_data rom (CHRStartIndex rom + addr)\<rparr>"

definition ines_open :: "u8 list \<Rightarrow> ines_error + cart" where
  "ines_open rom =
     (if int (length rom) < INES_HEADER_SIZE then Inl InvalidHeader
      else if take 4 rom \<noteq> [0x4E, 0x45, 0x53, 0x1A] then Inl InvalidSignature
      else if int (length rom) \<noteq> CHRStartIndex rom + ines_chrSize rom then Inl LengthMismatch
      else Inr (ines_cart rom))"

subsection \<open>Headers corrected by the game database\<close>

datatype Battery = BatteryDefault | BatteryYes | BatteryNo

text \<open>The part of \<open>GameDatabase::Item\<close> the correction uses; the mirroring is \<open>None\<close> for
  \<open>DEFAULT\<close>.\<close>

record db_item =
  i_prgRomSize :: int
  i_chrRomSize :: int
  i_workRamSize :: int
  i_chrRamSize :: int
  i_saveRamSize :: int
  i_hasBattery :: Battery
  i_mirroring :: "MirroringType option"
  i_mapperId :: int
  i_submapperId :: int
  i_chip :: string

definition dbSizeKbToBytes :: "int \<Rightarrow> int \<Rightarrow> int" where
  "dbSizeKbToBytes dbValueKb srcBytes =
     (if dbValueKb \<le> 0 then srcBytes
      else if srcBytes > 0 \<and> dbValueKb = srcBytes then srcBytes
      else dbValueKb * 1024)"

definition db_overwrite :: "cart \<Rightarrow> db_item \<Rightarrow> cart" where
  "db_overwrite src item = src\<lparr>
     c_prgSize := dbSizeKbToBytes (i_prgRomSize item) (c_prgSize src),
     c_chrSize := dbSizeKbToBytes (i_chrRomSize item) (c_chrSize src),
     c_ramSize := dbSizeKbToBytes (i_workRamSize item) (c_ramSize src),
     c_chrRamSize := dbSizeKbToBytes (i_chrRamSize item) (c_chrRamSize src),
     c_saveRamSize := dbSizeKbToBytes (i_saveRamSize item) (c_saveRamSize src),
     c_hasBattery := (case i_hasBattery item of
         BatteryYes \<Rightarrow> True | BatteryNo \<Rightarrow> False | BatteryDefault \<Rightarrow> c_hasBattery src),
     c_useFourScreenMirroring :=
       (i_mirroring item = Some FOUR_SCREEN \<or> c_useFourScreenMirroring src),
     c_mirroringType := (case i_mirroring item of None \<Rightarrow> c_mirroringType src | Some m \<Rightarrow> m),
     c_mapperId := (if i_mapperId item \<ge> 0 then i_mapperId item else c_mapperId src),
     c_subMapperId := (if i_submapperId item \<ge> 0 then i_submapperId item else c_subMapperId src),
     c_chip := (if i_chip item \<noteq> '''' then i_chip item else c_chip src)\<rparr>"

subsection \<open>The regions of a valid file\<close>

lemma hdr_range: "0 \<le> hdr rom i" "hdr rom i < 256"
  using uint_lt2p[of "rom ! i"] by (simp_all add: hdr_def)

lemma hdr_take: "i < n \<Longrightarrow> hdr (take n rom) i = hdr rom i"
  by (simp add: hdr_def)

lemma hdr_append: "i < length rom \<Longrightarrow> hdr (rom @ xs) i = hdr rom i"
  by (simp add: hdr_def nth_append)

lemma ines_sizes_nonneg: "0 \<le> ines_prgSize rom" "0 \<le> ines_chrSize rom"
  using hdr_range by (simp_all add: ines_prgSize_def ines_chrSize_def Let_def)

lemma ines_openD:
  assumes "ines_open rom = Inr c"
  shows "c = ines_cart rom" "16 \<le> length rom" "take 4 rom = [0x4E, 0x45, 0x53, 0x1A]"
    "int (length rom) = CHRStartIndex rom + ines_chrSize rom"
    "CHRStartIndex rom = PRGStartIndex rom + ines_prgSize rom" "16 \<le> PRGStartIndex rom"
  using assms
  by (auto simp: ines_open_def INES_HEADER_SIZE_def CHRStartIndex_def PRGStartIndex_def split: if_splits)

lemma rom_data_prg:
  assumes "ines_open rom = Inr c" "0 \<le> i" "i < c_prgSize c"
  shows "c_readPrg c i = Some (rom ! nat (PRGStartIndex rom + i))"
  using assms(2,3) ines_openD[OF assms(1)] ines_sizes_nonneg[of rom]
  by (simp add: ines_cart_def rom_data_def)

lemma rom_data_chr:
  assumes "ines_open rom = Inr c" "0 \<le> i" "i < c_chrSize c"
  shows "c_readChr c i = Some (rom ! nat (CHRStartIndex rom + i))"
  using assms(2,3) ines_openD[OF assms(1)] ines_sizes_nonneg[of rom]
  by (simp add: ines_cart_def rom_data_def)

text \<open>What mappers rely on: both memories are readable up to their sizes.\<close>

definition cart_ok :: "cart \<Rightarrow> bool" where
  "cart_ok c \<longleftrightarrow> (\<forall>i. 0 \<le> i \<and> i < c_prgSize c \<longrightarrow> defined (c_readPrg c i)) \<and>
     (\<forall>i. 0 \<le> i \<and> i < c_chrSize c \<longrightarrow> defined (c_readChr c i))"

lemma ines_cart_ok: "ines_open rom = Inr c \<Longrightarrow> cart_ok c"
  by (auto simp: cart_ok_def rom_data_prg rom_data_chr)

lemma readPrgBank_defined:
  "cart_ok c \<Longrightarrow> 0 \<le> bank \<Longrightarrow> bank < numberOfPRGBanks c bs \<Longrightarrow> defined (readPrgBank c bs bank addr)"
  using bank_offset_bounds[of bank "c_prgSize c" bs addr]
  by (simp add: cart_ok_def readPrgBank_def numberOfPRGBanks_def)

lemma readChrBank_defined:
  "cart_ok c \<Longrightarrow> 0 \<le> bank \<Longrightarrow> bank < numberOfCHRBanks c bs \<Longrightarrow> defined (readChrBank c bs bank addr)"
  using bank_offset_bounds[of bank "c_chrSize c" bs addr]
  by (simp add: cart_ok_def readChrBank_def numberOfCHRBanks_def)

lemma ines_sizes_cong:
  assumes "\<And>i. i < 16 \<Longrightarrow> hdr rom' i = hdr rom i"
  shows "CHRStartIndex rom' + ines_chrSize rom' = CHRStartIndex rom + ines_chrSize rom"
  using assms by (simp add: CHRStartIndex_def ines_chrSize_def ines_prgSize_def ines_hasTrainer_def
      isNes20_def)

subsection \<open>The checksum of a file\<close>

lemma crc_range_fold:
  assumes "\<And>k. k < length xs \<Longrightarrow> rd (i + int k) = Some (xs ! k)"
  shows "crc_range rd (length xs) i crc = Some (fold crc_add xs crc)"
  using assms
proof (induction xs arbitrary: i crc)
  case (Cons x xs)
  have "rd i = Some x" using Cons.prems[of 0] by simp
  moreover have "rd (i + 1 + int k) = Some (xs ! k)" if "k < length xs" for k
    using Cons.prems[of "Suc k"] that by (simp add: algebra_simps)
  ultimately show ?case using Cons.IH[of "i + 1"] by simp
qed simp

lemma crc_chain: "crc_start (crc_get crc) = crc"
  by (simp add: crc_start_def crc_get_def)

subsection \<open>Properties\<close>

text \<open>A minimal NROM file: one 16K program bank, no character ROM.\<close>

definition tiny_rom :: "u8 list" where
  "tiny_rom = [0x4E, 0x45, 0x53, 0x1A, 1, 0] @ replicate 10 0 @ replicate 0x4000 0xEA"

lemma tiny_rom_hdr:
  "hdr tiny_rom 4 = 1" "hdr tiny_rom 5 = 0" "hdr tiny_rom 6 = 0" "hdr tiny_rom 7 = 0"
  "hdr tiny_rom 9 = 0"
  by (simp_all add: hdr_def tiny_rom_def nth_append)

lemma tiny_rom_facts:
  "length tiny_rom = 0x4010" "ines_hasTrainer tiny_rom = False" "isNes20 tiny_rom = False"
  "ines_prgSize tiny_rom = 0x4000" "ines_chrSize tiny_rom = 0"
  by (simp_all only: ines_hasTrainer_def isNes20_def ines_prgSize_def ines_chrSize_def Let_def
      tiny_rom_hdr) (simp_all add: tiny_rom_def)

lemma tiny_rom_opens: "ines_open tiny_rom = Inr (ines_cart tiny_rom)"
  by (simp add: ines_open_def INES_HEADER_SIZE_def CHRStartIndex_def tiny_rom_facts)
    (simp add: tiny_rom_def)

text \<open>
  C24: a file that the iNES loader accepts contains every byte the cartridge can be asked for. The
  file is exactly header, optional trainer, program and character ROM; a program or character
  address below the announced size is read from the right place of the file, and so is every
  address of a bank below the number of banks of any size: no such read leaves the file.
\<close>
theorem ines_regions:
  assumes "ines_open rom = Inr c"
  shows "int (length rom) = 16 + (if c_hasTrainer c then 512 else 0) + c_prgSize c + c_chrSize c \<and>
    (\<forall>i. 0 \<le> i \<and> i < c_prgSize c \<longrightarrow>
       c_readPrg c i = Some (rom ! nat (16 + (if c_hasTrainer c then 512 else 0) + i))) \<and>
    (\<forall>i. 0 \<le> i \<and> i < c_chrSize c \<longrightarrow>
       c_readChr c i = Some (rom ! nat (16 + (if c_hasTrainer c then 512 else 0) + c_prgSize c + i))) \<and>
    (\<forall>bs b a. 0 \<le> b \<and> b < numberOfPRGBanks c bs \<longrightarrow> defined (readPrgBank c bs b a)) \<and>
    (\<forall>bs b a. 0 \<le> b \<and> b < numberOfCHRBanks c bs \<longrightarrow> defined (readChrBank c bs b a))"
proof -
  note o = ines_openD[OF assms]
  have t: "c_hasTrainer c = ines_hasTrainer rom" "c_prgSize c = ines_prgSize rom"
    "c_chrSize c = ines_chrSize rom" by (simp_all add: o(1) ines_cart_def)
  show ?thesis
    using o(4) rom_data_prg[OF assms] rom_data_chr[OF assms]
      readPrgBank_defined[OF ines_cart_ok[OF assms]] readChrBank_defined[OF ines_cart_ok[OF assms]]
    by (simp add: t PRGStartIndex_def CHRStartIndex_def INES_HEADER_SIZE_def)
qed

theorem ines_regions_witness:
  "c_readPrg (ines_cart tiny_rom) 5 = Some (tiny_rom ! 21)"
  using ines_regions[OF tiny_rom_opens] tiny_rom_facts by (simp add: ines_cart_def)

text \<open>
  C25: a damaged file is refused. Any truncation of a valid file is rejected, with one of the three
  errors, and so is a valid file with bytes appended, as a length mismatch.
\<close>
theorem ines_refuses:
  assumes "ines_open rom = Inr c"
  shows "(\<forall>n < length rom. \<exists>e. ines_open (take n rom) = Inl e) \<and>
    (\<forall>xs. xs \<noteq> [] \<longrightarrow> ines_open (rom @ xs) = Inl LengthMismatch)"
proof (intro conjI allI impI)
  note o = ines_openD[OF assms]
  fix n assume n: "n < length rom"
  show "\<exists>e. ines_open (take n rom) = Inl e"
  proof (cases "n < 16")
    case True
    then show ?thesis using n by (simp add: ines_open_def INES_HEADER_SIZE_def)
  next
    case False
    then have "CHRStartIndex (take n rom) + ines_chrSize (take n rom) = int (length rom)"
      using o(4) ines_sizes_cong[of "take n rom" rom] by (simp add: hdr_take)
    then show ?thesis using n by (auto simp: ines_open_def)
  qed
next
  note o = ines_openD[OF assms]
  fix xs :: "u8 list" assume "xs \<noteq> []"
  moreover have "CHRStartIndex (rom @ xs) + ines_chrSize (rom @ xs) = int (length rom)"
    using o(2,4) ines_sizes_cong[of "rom @ xs" rom] by (simp add: hdr_append)
  ultimately show "ines_open (rom @ xs) = Inl LengthMismatch"
    using o(2,3) by (simp add: ines_open_def INES_HEADER_SIZE_def)
qed

theorem ines_refuses_witness: "ines_open (tiny_rom @ [0]) = Inl LengthMismatch"
  using ines_refuses[OF tiny_rom_opens] by blast

text \<open>
  C26: the game database is searched with the checksum of the ROM contents. Chaining the checksum
  of the program ROM into the one of the character ROM, as \<open>prgChrCrc32\<close> does, gives the CRC-32
  of the file without header and trainer.
\<close>
theorem rom_checksum:
  assumes "ines_open rom = Inr c"
  shows "prgChrCrc32 c = Some (crc_calc (drop (nat (PRGStartIndex rom)) rom))"
proof -
  note o = ines_openD[OF assms]
  let ?prg = "take (nat (ines_prgSize rom)) (drop (nat (PRGStartIndex rom)) rom)"
  let ?chr = "drop (nat (CHRStartIndex rom)) rom"
  have t: "c_prgSize c = ines_prgSize rom" "c_chrSize c = ines_chrSize rom"
    by (simp_all add: o(1) ines_cart_def)
  have len: "length ?prg = nat (c_prgSize c)" "length ?chr = nat (c_chrSize c)"
    unfolding t using o(4-6) ines_sizes_nonneg[of rom] by auto
  have p: "crc_range (c_readPrg c) (length ?prg) 0 crc = Some (fold crc_add ?prg crc)" for crc
    using o(4-6) ines_sizes_nonneg[of rom]
    by (intro crc_range_fold) (simp add: rom_data_prg[OF assms] t nat_add_distrib)
  have q: "crc_range (c_readChr c) (length ?chr) 0 crc = Some (fold crc_add ?chr crc)" for crc
    using o(4-6) ines_sizes_nonneg[of rom]
    by (intro crc_range_fold) (simp add: rom_data_chr[OF assms] t nat_add_distrib)
  have r: "?prg @ ?chr = drop (nat (PRGStartIndex rom)) rom"
    using o(4-6) ines_sizes_nonneg[of rom]
    by (metis add.commute append_take_drop_id drop_drop nat_add_distrib order_trans zero_le_numeral)
  have "fold crc_add (drop (nat (PRGStartIndex rom)) rom) (crc_start 0) =
      fold crc_add ?chr (fold crc_add ?prg (crc_start 0))"
    using fold_append[of crc_add ?prg ?chr] r by simp
  then show ?thesis
    unfolding prgChrCrc32_def prgCrc32_def crc_calc_def
    using p q unfolding len by (simp add: crc_chain)
qed

theorem rom_checksum_witness:
  "prgChrCrc32 (ines_cart tiny_rom) = Some (crc_calc (drop 16 tiny_rom))"
  using rom_checksum[OF tiny_rom_opens] tiny_rom_facts
  by (simp add: PRGStartIndex_def INES_HEADER_SIZE_def)

text \<open>The check value of CRC-32, the checksum of the digits one to nine.\<close>

lemma crc_check_value:
  "crc_calc [0x31, 0x32, 0x33, 0x34, 0x35, 0x36, 0x37, 0x38, 0x39] = 0xCBF43926"
  by code_simp

end
