(* ===== verification/Base_Mapper.thy ===== *)
theory Base_Mapper
  imports Cart_Data
begin

text \<open>
  \<open>BaseMapper\<close> (\<open>src/src/GeraNES/Mappers/BaseMapper.h\<close>), the default behaviour of the
  cartridge hardware: character RAM, battery RAM and fixed mirroring. Every mapper class derives
  from it, here by extending its record. \<open>nullptr\<close> memories are \<open>None\<close>; an index outside an
  allocated memory is undefined in C++ and gives \<open>None\<close> (a failed store the same).

  The locale \<open>banked\<close> is the contract between the cartridge slot and a mapper: in every state the
  mapper can be brought into, the 32K program window and the 8K character window can be read without
  leaving the memories.
\<close>

fun mask_loop :: "nat \<Rightarrow> u8 \<Rightarrow> u8" where
  "mask_loop n m = (if n > 0 then mask_loop (n div 2) (push_bit 1 m OR 1) else m)"

declare mask_loop.simps [simp del]

definition calculateMask :: "int \<Rightarrow> u8" where
  "calculateMask nBanks = mask_loop (nat (nBanks - 1)) 0"

record base_mapper =
  cd :: cart
  chrRam :: "u8 list option"
  sRam :: "u8 list option"

text \<open>The memories as \<open>init\<close> allocates them; \<open>saved\<close> is the content of the battery file, if
  there is one.\<close>

definition init_chrRam :: "cart \<Rightarrow> u8 list option" where
  "init_chrRam c =
     (if c_chrRamSize c > 0 then Some (replicate (nat (c_chrRamSize c)) 0) else None)"

definition init_sRam :: "u8 list option \<Rightarrow> cart \<Rightarrow> u8 list option" where
  "init_sRam saved c =
     (if c_saveRamSize c > 0 then Some (case saved of
         Some f \<Rightarrow> if c_hasBattery c \<and> int (length f) = c_saveRamSize c then f
                    else replicate (nat (c_saveRamSize c)) 0
       | None \<Rightarrow> replicate (nat (c_saveRamSize c)) 0) else None)"

definition base_init :: "u8 list option \<Rightarrow> cart \<Rightarrow> base_mapper" where
  "base_init saved c = \<lparr>cd = c, chrRam = init_chrRam c, sRam = init_sRam saved c\<rparr>"

definition ram_read :: "u8 list \<Rightarrow> int \<Rightarrow> u8 option" where
  "ram_read ram i = (if 0 \<le> i \<and> i < int (length ram) then Some (ram ! nat i) else None)"

definition ram_write :: "u8 list \<Rightarrow> int \<Rightarrow> u8 \<Rightarrow> u8 list option" where
  "ram_write ram i v = (if 0 \<le> i \<and> i < int (length ram) then Some (ram[nat i := v]) else None)"

definition hasChrRam :: "'a base_mapper_scheme \<Rightarrow> bool" where
  "hasChrRam m \<longleftrightarrow> chrRam m \<noteq> None \<or> c_chrRamSize (cd m) > 0"

definition readChrRam :: "'a base_mapper_scheme \<Rightarrow> BankSize \<Rightarrow> int \<Rightarrow> int \<Rightarrow> u8 option" where
  "readChrRam m bs bank addr = do { ram \<leftarrow> chrRam m; ram_read ram (bank_offset bs bank addr) }"

definition writeChrRam ::
  "BankSize \<Rightarrow> int \<Rightarrow> int \<Rightarrow> u8 \<Rightarrow> 'a base_mapper_scheme \<Rightarrow> 'a base_mapper_scheme option" where
  "writeChrRam bs bank addr v m = do {
     ram \<leftarrow> chrRam m;
     ram \<leftarrow> ram_write ram (bank_offset bs bank addr) v;
     Some (m\<lparr>chrRam := Some ram\<rparr>) }"

definition base_writeChr :: "int \<Rightarrow> u8 \<Rightarrow> 'a base_mapper_scheme \<Rightarrow> 'a base_mapper_scheme option" where
  "base_writeChr addr v m = (if hasChrRam m then writeChrRam B8K 0 addr v m else Some m)"

definition base_readChr :: "'a base_mapper_scheme \<Rightarrow> int \<Rightarrow> u8 option" where
  "base_readChr m addr = (if hasChrRam m then readChrRam m B8K 0 addr else Some 0)"

definition base_writeSaveRam :: "int \<Rightarrow> u8 \<Rightarrow> 'a base_mapper_scheme \<Rightarrow> 'a base_mapper_scheme option" where
  "base_writeSaveRam addr v m = (case sRam m of
       None \<Rightarrow> Some m
     | Some ram \<Rightarrow> do {
         ram \<leftarrow> ram_write ram (addr AND (c_saveRamSize (cd m) - 1)) v;
         Some (m\<lparr>sRam := Some ram\<rparr>) })"

definition base_readSaveRam :: "'a base_mapper_scheme \<Rightarrow> int \<Rightarrow> u8 option" where
  "base_readSaveRam m addr = (case sRam m of
       None \<Rightarrow> Some 0
     | Some ram \<Rightarrow> ram_read ram (addr AND (c_saveRamSize (cd m) - 1)))"

definition base_mirroringType :: "'a base_mapper_scheme \<Rightarrow> MirroringType" where
  "base_mirroringType m =
     (if c_useFourScreenMirroring (cd m) then FOUR_SCREEN else c_mirroringType (cd m))"

text \<open>\<open>Cartridge::mirroring\<close>: the physical name table behind a logical one. \<open>CUSTOM\<close> asks the
  mapper, which is the argument \<open>custom\<close>.\<close>

definition mirroring :: "MirroringType \<Rightarrow> (nat \<Rightarrow> u8) \<Rightarrow> nat \<Rightarrow> u8" where
  "mirroring t custom blockIndex = (case t of
       HORIZONTAL \<Rightarrow> [0, 0, 1, 1] ! blockIndex
     | VERTICAL \<Rightarrow> [0, 1, 0, 1] ! blockIndex
     | SINGLE_SCREEN_A \<Rightarrow> 0
     | SINGLE_SCREEN_B \<Rightarrow> 1
     | FOUR_SCREEN \<Rightarrow> [0, 1, 2, 3] ! blockIndex
     | CUSTOM \<Rightarrow> custom blockIndex)"

subsection \<open>Masks\<close>

text \<open>The number of iterations of the loop \<open>while(n > 0) n >>= 1\<close>.\<close>

fun halvings :: "nat \<Rightarrow> nat" where
  "halvings n = (if n > 0 then Suc (halvings (n div 2)) else 0)"

declare halvings.simps [simp del]

lemma bit_shift_in: "bit (push_bit 1 m OR 1 :: u8) j \<longleftrightarrow> j < 8 \<and> (j = 0 \<or> bit m (j - 1))"
  unfolding bit_or_iff bit_push_bit_iff bit_1_iff by (auto dest: bit_u8_iff)

lemma mask_loop_bits:
  "bit (mask_loop n m) k \<longleftrightarrow> k < 8 \<and> (if k < halvings n then True else bit m (k - halvings n))"
proof (induction n m arbitrary: k rule: mask_loop.induct)
  case (1 n m)
  show ?case
  proof (cases "n > 0")
    case True
    then have "mask_loop n m = mask_loop (n div 2) (push_bit 1 m OR 1)"
      "halvings n = Suc (halvings (n div 2))"
      by (subst mask_loop.simps halvings.simps, simp)+
    then show ?thesis
      using 1[OF True, of k] unfolding bit_shift_in by (auto simp: less_Suc_eq)
  next
    case False
    then show ?thesis
      by (subst mask_loop.simps, subst halvings.simps) (auto dest: bit_u8_iff simp: halvings.simps[of 0])
  qed
qed

lemma halvings_bounds: "n < 2 ^ halvings n" "0 < n \<Longrightarrow> 2 ^ halvings n \<le> 2 * n"
proof -
  have "n < 2 ^ halvings n \<and> (0 < n \<longrightarrow> 2 ^ halvings n \<le> 2 * n)"
  proof (induction n rule: halvings.induct)
    case (1 n)
    show ?case
    proof (cases "n > 0")
      case True
      then have h: "halvings n = Suc (halvings (n div 2))" by (subst halvings.simps) simp
      have "n < 2 * 2 ^ halvings (n div 2)" using 1[OF True] by linarith
      moreover have "2 * 2 ^ halvings (n div 2) \<le> 2 * n"
      proof (cases "n div 2 = 0")
        case True
        then show ?thesis using \<open>n > 0\<close> by (simp add: halvings.simps[of 0])
      next
        case False
        then have "2 ^ halvings (n div 2) \<le> 2 * (n div 2)" using 1[OF \<open>n > 0\<close>] by simp
        then show ?thesis by linarith
      qed
      ultimately show ?thesis by (simp add: h)
    qed (simp add: halvings.simps[of 0])
  qed
  then show "n < 2 ^ halvings n" "0 < n \<Longrightarrow> 2 ^ halvings n \<le> 2 * n" by auto
qed

lemma calculateMask_eq: "calculateMask n = mask (min 8 (halvings (nat (n - 1))))"
  by (rule bit_word_eqI) (auto simp: calculateMask_def mask_loop_bits bit_simps)

text \<open>A power of two of banks, as real cartridges have, is masked exactly.\<close>

definition pow2_banks :: "int \<Rightarrow> bool" where
  "pow2_banks n \<longleftrightarrow> (\<exists>k \<le> 8. n = 2 ^ k)"

lemma halvings_pow2: "halvings (2 ^ k - 1) = k"
proof -
  have "2 ^ k - 1 < (2 :: nat) ^ halvings (2 ^ k - 1)" by (rule halvings_bounds)
  moreover have "0 < (2 :: nat) ^ k" by simp
  ultimately have "(2 :: nat) ^ k \<le> 2 ^ halvings (2 ^ k - 1)" by linarith
  then have "k \<le> halvings (2 ^ k - 1)" by (rule power_le_imp_le_exp[rotated]) simp
  moreover have "halvings (2 ^ k - 1) \<le> k"
  proof (cases k)
    case (Suc j)
    have "0 < (2 :: nat) ^ j" by simp
    then have "0 < 2 ^ k - (1 :: nat)" unfolding Suc power_Suc by linarith
    then have "(2 :: nat) ^ halvings (2 ^ k - 1) \<le> 2 * (2 ^ k - 1)" by (rule halvings_bounds)
    also have "\<dots> < 2 ^ Suc k" by simp
    finally have "halvings (2 ^ k - 1) < Suc k" by (rule power_less_imp_less_exp[rotated]) simp
    then show ?thesis by simp
  qed (simp add: halvings.simps[of 0])
  ultimately show ?thesis by simp
qed

lemma calculateMask_pow2: "pow2_banks n \<Longrightarrow> uint (calculateMask n) = n - 1"
proof -
  assume "pow2_banks n"
  then obtain k where k: "k \<le> 8" "n = 2 ^ k" by (auto simp: pow2_banks_def)
  then have "nat (n - 1) = 2 ^ k - 1" by (simp add: nat_diff_distrib nat_power_eq)
  then have "calculateMask n = mask k" using k halvings_pow2[of k] by (simp add: calculateMask_eq)
  then have "uint (calculateMask n) = mask k" using k(1) by (simp only: uint_mask_eq) (simp add: min_def)
  then show ?thesis by (simp add: k(2) mask_eq_exp_minus_1)
qed

lemma masked_bank:
  assumes "pow2_banks n"
  shows "0 \<le> uint (x AND calculateMask n)" "uint (x AND calculateMask n) < n"
proof -
  show "0 \<le> uint (x AND calculateMask n)" by simp
  have "uint (x AND calculateMask n) \<le> uint (calculateMask n)"
    by (simp add: word_and_le1 word_le_def[symmetric])
  then show "uint (x AND calculateMask n) < n" using calculateMask_pow2[OF assms] by linarith
qed

subsection \<open>The contract of a banked cartridge\<close>

fun writes :: "(int \<Rightarrow> u8 \<Rightarrow> 'm \<Rightarrow> 'm option) \<Rightarrow> (int \<times> u8) list \<Rightarrow> 'm \<Rightarrow> 'm option" where
  "writes wr [] m = Some m"
| "writes wr ((a, v) # ws) m = do { m \<leftarrow> wr a v m; writes wr ws m }"

text \<open>The addresses of the program window as the bus passes them.\<close>

definition in_window :: "(int \<times> u8) list \<Rightarrow> bool" where
  "in_window = list_all (\<lambda>(a, v). 0 \<le> a \<and> a < 0x8000)"

locale banked =
  fixes ok :: "'m \<Rightarrow> bool" and rd_prg :: "'m \<Rightarrow> int \<Rightarrow> u8 option" and rd_chr :: "'m \<Rightarrow> int \<Rightarrow> u8 option"
    and wr :: "int \<Rightarrow> u8 \<Rightarrow> 'm \<Rightarrow> 'm option"
  assumes wr_ok: "ok m \<Longrightarrow> 0 \<le> a \<Longrightarrow> a < 0x8000 \<Longrightarrow> \<exists>m'. wr a v m = Some m' \<and> ok m'"
    and prg_ok: "ok m \<Longrightarrow> 0 \<le> a \<Longrightarrow> a < 0x8000 \<Longrightarrow> defined (rd_prg m a)"
    and chr_ok: "ok m \<Longrightarrow> 0 \<le> a \<Longrightarrow> a < 0x2000 \<Longrightarrow> defined (rd_chr m a)"
begin

lemma writes_ok: "ok m \<Longrightarrow> in_window ws \<Longrightarrow> \<exists>m'. writes wr ws m = Some m' \<and> ok m'"
proof (induction ws arbitrary: m)
  case (Cons w ws)
  obtain a v where w: "w = (a, v)" by (cases w)
  with Cons.prems obtain m1 where "wr a v m = Some m1" "ok m1"
    using wr_ok[of m a v] by (auto simp: in_window_def)
  with Cons show ?case by (auto simp: w in_window_def)
qed simp

lemma safe:
  assumes "ok m" "in_window ws"
  shows "\<exists>m'. writes wr ws m = Some m' \<and>
    (\<forall>a. 0 \<le> a \<and> a < 0x8000 \<longrightarrow> defined (rd_prg m' a)) \<and>
    (\<forall>a. 0 \<le> a \<and> a < 0x2000 \<longrightarrow> defined (rd_chr m' a))"
  using writes_ok[OF assms] prg_ok chr_ok by blast

end

text \<open>The memories of the base class.\<close>

definition base_ok :: "'a base_mapper_scheme \<Rightarrow> bool" where
  "base_ok m \<longleftrightarrow> cart_ok (cd m) \<and>
     (case chrRam m of None \<Rightarrow> c_chrRamSize (cd m) \<le> 0 | Some ram \<Rightarrow> 0x2000 \<le> int (length ram))"

lemma base_init_ok:
  "cart_ok c \<Longrightarrow> c_chrRamSize c \<le> 0 \<or> 0x2000 \<le> c_chrRamSize c \<Longrightarrow> cd m = c \<Longrightarrow>
   chrRam m = init_chrRam c \<Longrightarrow> base_ok m"
  by (auto simp: base_ok_def init_chrRam_def)

lemma base_readChr_defined:
  assumes "base_ok m"
  shows "defined (base_readChr m a)"
proof (cases "chrRam m")
  case (Some ram)
  then have "0 \<le> bank_offset B8K 0 a" "bank_offset B8K 0 a < int (length ram)"
    using assms bank_offset_bounds[of 0 "0x2000" B8K a] by (auto simp: base_ok_def)
  with Some show ?thesis by (simp add: base_readChr_def hasChrRam_def readChrRam_def ram_read_def)
qed (use assms in \<open>simp add: base_readChr_def hasChrRam_def base_ok_def\<close>)

end
