(* ===== verification/Mappers_Discrete.thy ===== *)
theory Mappers_Discrete
  imports Base_Mapper
begin

text \<open>
  The boards built from discrete logic, one group of definitions per class under
  \<open>src/src/GeraNES/Mappers\<close>: \<open>Mapper000\<close> (NROM), \<open>Mapper002\<close> (UxROM), \<open>Mapper003\<close>
  (CNROM), \<open>Mapper007\<close> (AxROM), \<open>Mapper011\<close> (Color Dreams), \<open>Mapper066\<close> (GxROM) and
  \<open>Mapper071\<close> (Camerica). Members that no access reads stay out. Each class but UxROM interprets
  the contract \<open>banked\<close>; UxROM does not mask its bank register.
\<close>

subsection \<open>Mapper 0\<close>

definition m000_readPrg :: "base_mapper \<Rightarrow> int \<Rightarrow> u8 option" where
  "m000_readPrg m addr =
     (if addr < 0x4000 then readPrgBank (cd m) B16K 0 addr
      else readPrgBank (cd m) B16K (numberOfPRGBanks (cd m) B16K - 1) addr)"

definition m000_readChr :: "base_mapper \<Rightarrow> int \<Rightarrow> u8 option" where
  "m000_readChr m addr =
     (if hasChrRam m then base_readChr m addr else readChrBank (cd m) B8K 0 addr)"

definition base_writePrg :: "int \<Rightarrow> u8 \<Rightarrow> 'm \<Rightarrow> 'm option" where
  "base_writePrg addr v m = Some m"

subsection \<open>Mapper 2\<close>

record mapper002 = base_mapper +
  m_selectedBank :: int
  m_hasBusConflicts :: bool

definition m002_init :: "u8 list option \<Rightarrow> cart \<Rightarrow> mapper002" where
  "m002_init f c = \<lparr>cd = c, chrRam = init_chrRam c, sRam = init_sRam f c,
      m_selectedBank = 0, m_hasBusConflicts = (c_subMapperId c = 2)\<rparr>"

definition m002_readPrg :: "mapper002 \<Rightarrow> int \<Rightarrow> u8 option" where
  "m002_readPrg m addr =
     (if addr < 0x4000 then readPrgBank (cd m) B16K (m_selectedBank m) addr
      else readPrgBank (cd m) B16K (numberOfPRGBanks (cd m) B16K - 1) addr)"

definition m002_writePrg :: "int \<Rightarrow> u8 \<Rightarrow> mapper002 \<Rightarrow> mapper002 option" where
  "m002_writePrg addr v m = do {
     v \<leftarrow> (if m_hasBusConflicts m then do { b \<leftarrow> m002_readPrg m addr; Some (v AND b) } else Some v);
     Some (m\<lparr>m_selectedBank := uint v\<rparr>) }"

definition m002_reset :: "mapper002 \<Rightarrow> mapper002" where
  "m002_reset m = m\<lparr>m_selectedBank := 0\<rparr>"

subsection \<open>Mapper 3\<close>

record mapper003 = base_mapper +
  m3_CHRREG :: u8
  m3_CHRREGMask :: u8
  m3_hasBusConflicts :: bool

definition m003_init :: "u8 list option \<Rightarrow> cart \<Rightarrow> mapper003" where
  "m003_init f c = \<lparr>cd = c, chrRam = init_chrRam c, sRam = init_sRam f c,
      m3_CHRREG = 0, m3_CHRREGMask = calculateMask (numberOfCHRBanks c B8K),
      m3_hasBusConflicts = (c_subMapperId c = 2)\<rparr>"

definition m003_readPrg :: "mapper003 \<Rightarrow> int \<Rightarrow> u8 option" where
  "m003_readPrg m addr =
     (if addr < 0x4000 then readPrgBank (cd m) B16K 0 addr
      else readPrgBank (cd m) B16K (if numberOfPRGBanks (cd m) B16K = 2 then 1 else 0) addr)"

definition m003_writePrg :: "int \<Rightarrow> u8 \<Rightarrow> mapper003 \<Rightarrow> mapper003 option" where
  "m003_writePrg addr v m = do {
     v \<leftarrow> (if m3_hasBusConflicts m then do { b \<leftarrow> m003_readPrg m addr; Some (v AND b) } else Some v);
     Some (m\<lparr>m3_CHRREG := v AND m3_CHRREGMask m\<rparr>) }"

definition m003_readChr :: "mapper003 \<Rightarrow> int \<Rightarrow> u8 option" where
  "m003_readChr m addr =
     (if hasChrRam m then base_readChr m addr else readChrBank (cd m) B8K (uint (m3_CHRREG m)) addr)"

definition m003_reset :: "mapper003 \<Rightarrow> mapper003" where
  "m003_reset m = m\<lparr>m3_CHRREG := 0\<rparr>"

subsection \<open>Mapper 7\<close>

record mapper007 = base_mapper +
  m7_PRGReg :: u8
  m7_PRGRegMask :: u8
  m7_mirroring :: bool

definition m007_init :: "u8 list option \<Rightarrow> cart \<Rightarrow> mapper007" where
  "m007_init f c = \<lparr>cd = c, chrRam = init_chrRam c, sRam = init_sRam f c,
      m7_PRGReg = 0, m7_PRGRegMask = calculateMask (numberOfPRGBanks c B32K), m7_mirroring = False\<rparr>"

definition m007_writePrg :: "int \<Rightarrow> u8 \<Rightarrow> mapper007 \<Rightarrow> mapper007 option" where
  "m007_writePrg addr v m =
     Some (m\<lparr>m7_mirroring := test_bits v 0x10, m7_PRGReg := v AND m7_PRGRegMask m\<rparr>)"

definition m007_readPrg :: "mapper007 \<Rightarrow> int \<Rightarrow> u8 option" where
  "m007_readPrg m addr = readPrgBank (cd m) B32K (uint (m7_PRGReg m)) addr"

definition m007_mirroringType :: "mapper007 \<Rightarrow> MirroringType" where
  "m007_mirroringType m = (if \<not> m7_mirroring m then SINGLE_SCREEN_A else SINGLE_SCREEN_B)"

definition m007_reset :: "mapper007 \<Rightarrow> mapper007" where
  "m007_reset m = m\<lparr>m7_PRGReg := 0, m7_mirroring := False\<rparr>"

subsection \<open>Mapper 11\<close>

record mapper011 = base_mapper +
  m11_PRGMask :: u8
  m11_CHRMask :: u8
  m11_PRGBank :: u8
  m11_CHRBank :: u8

definition m011_init :: "u8 list option \<Rightarrow> cart \<Rightarrow> mapper011" where
  "m011_init f c = \<lparr>cd = c, chrRam = init_chrRam c, sRam = init_sRam f c,
      m11_PRGMask = calculateMask (numberOfPRGBanks c B32K),
      m11_CHRMask = calculateMask (numberOfCHRBanks c B8K), m11_PRGBank = 0, m11_CHRBank = 0\<rparr>"

definition m011_writePrg :: "int \<Rightarrow> u8 \<Rightarrow> mapper011 \<Rightarrow> mapper011 option" where
  "m011_writePrg addr v m =
     Some (m\<lparr>m11_PRGBank := (v AND 0x03) AND m11_PRGMask m,
             m11_CHRBank := drop_bit 4 (v AND 0xF0) AND m11_CHRMask m\<rparr>)"

definition m011_readPrg :: "mapper011 \<Rightarrow> int \<Rightarrow> u8 option" where
  "m011_readPrg m addr = readPrgBank (cd m) B32K (uint (m11_PRGBank m)) (addr AND 0x7FFF)"

definition m011_readChr :: "mapper011 \<Rightarrow> int \<Rightarrow> u8 option" where
  "m011_readChr m addr =
     (if hasChrRam m then base_readChr m addr
      else readChrBank (cd m) B8K (uint (m11_CHRBank m)) (addr AND 0x1FFF))"

definition m011_reset :: "mapper011 \<Rightarrow> mapper011" where
  "m011_reset m = m\<lparr>m11_PRGBank := 0, m11_CHRBank := 0\<rparr>"

subsection \<open>Mapper 66\<close>

record mapper066 = base_mapper +
  m66_PRGREG :: u8
  m66_PRGREGMask :: u8
  m66_CHRREG :: u8
  m66_CHRREGMask :: u8

definition m066_init :: "u8 list option \<Rightarrow> cart \<Rightarrow> mapper066" where
  "m066_init f c = \<lparr>cd = c, chrRam = init_chrRam c, sRam = init_sRam f c,
      m66_PRGREG = 0, m66_PRGREGMask = calculateMask (numberOfPRGBanks c B32K),
      m66_CHRREG = 0, m66_CHRREGMask = calculateMask (numberOfCHRBanks c B8K)\<rparr>"

definition m066_writePrg :: "int \<Rightarrow> u8 \<Rightarrow> mapper066 \<Rightarrow> mapper066 option" where
  "m066_writePrg addr v m =
     Some (m\<lparr>m66_PRGREG := drop_bit 4 (v AND 0xF0) AND m66_PRGREGMask m,
             m66_CHRREG := (v AND 0x0F) AND m66_CHRREGMask m\<rparr>)"

definition m066_readPrg :: "mapper066 \<Rightarrow> int \<Rightarrow> u8 option" where
  "m066_readPrg m addr = readPrgBank (cd m) B32K (uint (m66_PRGREG m)) addr"

definition m066_readChr :: "mapper066 \<Rightarrow> int \<Rightarrow> u8 option" where
  "m066_readChr m addr =
     (if hasChrRam m then base_readChr m addr else readChrBank (cd m) B8K (uint (m66_CHRREG m)) addr)"

definition m066_reset :: "mapper066 \<Rightarrow> mapper066" where
  "m066_reset m = m\<lparr>m66_PRGREG := 0, m66_CHRREG := 0\<rparr>"

subsection \<open>Mapper 71\<close>

record mapper071 = base_mapper +
  m71_PRGRegMask :: u8
  m71_PRGReg :: u8
  m71_mirroring :: u8

definition m071_init :: "u8 list option \<Rightarrow> cart \<Rightarrow> mapper071" where
  "m071_init f c = \<lparr>cd = c, chrRam = init_chrRam c, sRam = init_sRam f c,
      m71_PRGRegMask = calculateMask (numberOfPRGBanks c B16K), m71_PRGReg = 0, m71_mirroring = 0xFF\<rparr>"

definition m071_writePrg :: "int \<Rightarrow> u8 \<Rightarrow> mapper071 \<Rightarrow> mapper071 option" where
  "m071_writePrg addr v m =
     Some (if addr < 0x1000 then m
           else if addr < 0x4000 then m\<lparr>m71_mirroring := drop_bit 4 v AND 0x01\<rparr>
           else m\<lparr>m71_PRGReg := v AND m71_PRGRegMask m\<rparr>)"

definition m071_readPrg :: "mapper071 \<Rightarrow> int \<Rightarrow> u8 option" where
  "m071_readPrg m addr =
     (if drop_bit 14 addr = 0 then readPrgBank (cd m) B16K (uint (m71_PRGReg m)) addr
      else if drop_bit 14 addr = 1
      then readPrgBank (cd m) B16K (numberOfPRGBanks (cd m) B16K - 1) addr
      else Some 0)"

definition m071_mirroringType :: "mapper071 \<Rightarrow> MirroringType" where
  "m071_mirroringType m =
     (if m71_mirroring m = 0xFF then base_mirroringType m
      else if m71_mirroring m = 0 then SINGLE_SCREEN_A
      else if m71_mirroring m = 1 then SINGLE_SCREEN_B
      else FOUR_SCREEN)"

definition m071_reset :: "mapper071 \<Rightarrow> mapper071" where
  "m071_reset m = m\<lparr>m71_PRGReg := 0, m71_mirroring := 0xFF\<rparr>"

subsection \<open>Every access stays inside the memories\<close>

text \<open>The cartridges a board is built for: at least one program bank, as many banks as the
  register can number exactly, and character memory of one kind.\<close>

definition chr_fits :: "cart \<Rightarrow> bool" where
  "chr_fits c \<longleftrightarrow> (if c_chrRamSize c > 0 then 0x2000 \<le> c_chrRamSize c
                  else pow2_banks (numberOfCHRBanks c B8K))"

definition m000_ok :: "base_mapper \<Rightarrow> bool" where
  "m000_ok m \<longleftrightarrow> base_ok m \<and> 0 < numberOfPRGBanks (cd m) B16K \<and> chr_fits (cd m)"

definition m003_ok :: "mapper003 \<Rightarrow> bool" where
  "m003_ok m \<longleftrightarrow> base_ok m \<and> 0 < numberOfPRGBanks (cd m) B16K \<and> chr_fits (cd m)
     \<and> m3_CHRREGMask m = calculateMask (numberOfCHRBanks (cd m) B8K)
     \<and> (\<exists>v. m3_CHRREG m = v AND m3_CHRREGMask m)"

definition m007_ok :: "mapper007 \<Rightarrow> bool" where
  "m007_ok m \<longleftrightarrow> base_ok m \<and> pow2_banks (numberOfPRGBanks (cd m) B32K)
     \<and> m7_PRGRegMask m = calculateMask (numberOfPRGBanks (cd m) B32K)
     \<and> (\<exists>v. m7_PRGReg m = v AND m7_PRGRegMask m)"

definition m011_ok :: "mapper011 \<Rightarrow> bool" where
  "m011_ok m \<longleftrightarrow> base_ok m \<and> pow2_banks (numberOfPRGBanks (cd m) B32K) \<and> chr_fits (cd m)
     \<and> m11_PRGMask m = calculateMask (numberOfPRGBanks (cd m) B32K)
     \<and> m11_CHRMask m = calculateMask (numberOfCHRBanks (cd m) B8K)
     \<and> (\<exists>v. m11_PRGBank m = v AND m11_PRGMask m) \<and> (\<exists>v. m11_CHRBank m = v AND m11_CHRMask m)"

definition m066_ok :: "mapper066 \<Rightarrow> bool" where
  "m066_ok m \<longleftrightarrow> base_ok m \<and> pow2_banks (numberOfPRGBanks (cd m) B32K) \<and> chr_fits (cd m)
     \<and> m66_PRGREGMask m = calculateMask (numberOfPRGBanks (cd m) B32K)
     \<and> m66_CHRREGMask m = calculateMask (numberOfCHRBanks (cd m) B8K)
     \<and> (\<exists>v. m66_PRGREG m = v AND m66_PRGREGMask m) \<and> (\<exists>v. m66_CHRREG m = v AND m66_CHRREGMask m)"

definition m071_ok :: "mapper071 \<Rightarrow> bool" where
  "m071_ok m \<longleftrightarrow> base_ok m \<and> pow2_banks (numberOfPRGBanks (cd m) B16K)
     \<and> m71_PRGRegMask m = calculateMask (numberOfPRGBanks (cd m) B16K)
     \<and> (\<exists>v. m71_PRGReg m = v AND m71_PRGRegMask m)"

lemma base_ok_update [simp]:
  "base_ok (m\<lparr>m3_CHRREG := a\<rparr>) = base_ok m"
  "base_ok (n\<lparr>m7_mirroring := b, m7_PRGReg := c\<rparr>) = base_ok n"
  "base_ok (p\<lparr>m11_PRGBank := d, m11_CHRBank := e\<rparr>) = base_ok p"
  "base_ok (q\<lparr>m66_PRGREG := f, m66_CHRREG := g\<rparr>) = base_ok q"
  "base_ok (r\<lparr>m71_PRGReg := h\<rparr>) = base_ok r" "base_ok (r\<lparr>m71_mirroring := i\<rparr>) = base_ok r"
  by (simp_all add: base_ok_def split: option.split)

lemma base_ok_cart: "base_ok m \<Longrightarrow> cart_ok (cd m)"
  by (simp add: base_ok_def)

lemma pow2_pos: "pow2_banks n \<Longrightarrow> 0 < n"
  by (auto simp: pow2_banks_def)

lemma masked_prg:
  assumes "base_ok m" "pow2_banks (numberOfPRGBanks (cd m) bs)"
  shows "defined (readPrgBank (cd m) bs (uint (v AND calculateMask (numberOfPRGBanks (cd m) bs))) a)"
  using readPrgBank_defined[OF base_ok_cart[OF assms(1)] masked_bank[OF assms(2), of v]] .

lemma last_prg:
  assumes "base_ok m" "0 < numberOfPRGBanks (cd m) bs"
  shows "defined (readPrgBank (cd m) bs (numberOfPRGBanks (cd m) bs - 1) a)"
    "defined (readPrgBank (cd m) bs 0 a)"
  using assms by (auto intro!: readPrgBank_defined base_ok_cart)

lemma chr_window:
  assumes "base_ok m" "chr_fits (cd m)" "r = v AND calculateMask (numberOfCHRBanks (cd m) B8K)"
  shows "defined (if hasChrRam m then base_readChr m a else readChrBank (cd m) B8K (uint r) a')"
proof (cases "hasChrRam m")
  case True
  then show ?thesis using base_readChr_defined[OF assms(1)] by simp
next
  case False
  then have "pow2_banks (numberOfCHRBanks (cd m) B8K)"
    using assms(2) by (auto simp: chr_fits_def hasChrRam_def)
  then show ?thesis
    using False readChrBank_defined[OF base_ok_cart[OF assms(1)] masked_bank(1) masked_bank(2)]
    by (simp add: assms(3))
qed

interpretation nrom: banked m000_ok m000_readPrg m000_readChr base_writePrg
proof
  fix m :: base_mapper and a :: int and v :: u8
  assume ok: "m000_ok m"
  show "\<exists>m'. base_writePrg a v m = Some m' \<and> m000_ok m'" using ok by (simp add: base_writePrg_def)
  show "defined (m000_readPrg m a)"
    using ok last_prg[of m B16K a] by (simp add: m000_readPrg_def m000_ok_def)
  show "defined (m000_readChr m a)"
    using ok chr_window[of m 0 0 a a] by (auto simp: m000_readChr_def m000_ok_def split: if_splits)
qed

interpretation cnrom: banked m003_ok m003_readPrg m003_readChr m003_writePrg
proof
  fix m :: mapper003 and a :: int and v :: u8
  assume ok: "m003_ok m"
  have prg: "defined (m003_readPrg m a)" for a
    using ok last_prg[of m B16K a] readPrgBank_defined[of "cd m" 1 B16K a]
    by (auto simp: m003_readPrg_def m003_ok_def base_ok_cart)
  then show "defined (m003_readPrg m a)" .
  show "\<exists>m'. m003_writePrg a v m = Some m' \<and> m003_ok m'"
    using ok prg[of a] by (auto simp: m003_writePrg_def m003_ok_def elim!: definedE)
  show "defined (m003_readChr m a)"
    unfolding m003_readChr_def using ok
    by (auto simp: m003_ok_def split del: if_split intro!: chr_window)
qed

interpretation axrom: banked m007_ok m007_readPrg base_readChr m007_writePrg
proof
  fix m :: mapper007 and a :: int and v :: u8
  assume ok: "m007_ok m"
  show "\<exists>m'. m007_writePrg a v m = Some m' \<and> m007_ok m'"
    using ok by (auto simp: m007_writePrg_def m007_ok_def)
  show "defined (m007_readPrg m a)"
    using ok masked_prg[of m B32K _ a] by (auto simp: m007_readPrg_def m007_ok_def)
  show "defined (base_readChr m a)" using ok by (simp add: m007_ok_def base_readChr_defined)
qed

interpretation color_dreams: banked m011_ok m011_readPrg m011_readChr m011_writePrg
proof
  fix m :: mapper011 and a :: int and v :: u8
  assume ok: "m011_ok m"
  show "\<exists>m'. m011_writePrg a v m = Some m' \<and> m011_ok m'"
    using ok by (auto simp: m011_writePrg_def m011_ok_def)
  show "defined (m011_readPrg m a)"
    using ok masked_prg[of m B32K] by (auto simp: m011_readPrg_def m011_ok_def)
  show "defined (m011_readChr m a)"
    unfolding m011_readChr_def using ok
    by (auto simp: m011_ok_def split del: if_split intro!: chr_window)
qed

interpretation gxrom: banked m066_ok m066_readPrg m066_readChr m066_writePrg
proof
  fix m :: mapper066 and a :: int and v :: u8
  assume ok: "m066_ok m"
  show "\<exists>m'. m066_writePrg a v m = Some m' \<and> m066_ok m'"
    using ok by (auto simp: m066_writePrg_def m066_ok_def)
  show "defined (m066_readPrg m a)"
    using ok masked_prg[of m B32K] by (auto simp: m066_readPrg_def m066_ok_def)
  show "defined (m066_readChr m a)"
    unfolding m066_readChr_def using ok
    by (auto simp: m066_ok_def split del: if_split intro!: chr_window)
qed

interpretation camerica: banked m071_ok m071_readPrg base_readChr m071_writePrg
proof
  fix m :: mapper071 and a :: int and v :: u8
  assume ok: "m071_ok m"
  show "\<exists>m'. m071_writePrg a v m = Some m' \<and> m071_ok m'"
    using ok by (auto simp: m071_writePrg_def m071_ok_def)
  show "defined (m071_readPrg m a)"
    using ok masked_prg[of m B16K] last_prg[of m B16K] pow2_pos
    by (auto simp: m071_readPrg_def m071_ok_def)
  show "defined (base_readChr m a)" using ok by (simp add: m071_ok_def base_readChr_defined)
qed

subsection \<open>Properties\<close>

text \<open>The accesses that stay inside the memories after any writes to the program window.\<close>

definition windows_safe ::
  "('m \<Rightarrow> int \<Rightarrow> u8 option) \<Rightarrow> ('m \<Rightarrow> int \<Rightarrow> u8 option) \<Rightarrow> (int \<Rightarrow> u8 \<Rightarrow> 'm \<Rightarrow> 'm option) \<Rightarrow> 'm \<Rightarrow> bool" where
  "windows_safe rd_prg rd_chr wr m \<longleftrightarrow> (\<forall>ws. in_window ws \<longrightarrow> (\<exists>m'. writes wr ws m = Some m' \<and>
     (\<forall>a. 0 \<le> a \<and> a < 0x8000 \<longrightarrow> defined (rd_prg m' a)) \<and>
     (\<forall>a. 0 \<le> a \<and> a < 0x2000 \<longrightarrow> defined (rd_chr m' a))))"

lemma pow2_prg16: "pow2_banks (numberOfPRGBanks c B32K) \<Longrightarrow> 0 < numberOfPRGBanks c B16K"
  using pow2_pos[of "numberOfPRGBanks c B32K"] by (simp add: numberOfPRGBanks_def pos_imp_zdiv_pos_iff)

lemma fits_base:
  "cart_ok c \<Longrightarrow> chr_fits c \<Longrightarrow> cd m = c \<Longrightarrow> chrRam m = init_chrRam c \<Longrightarrow> base_ok m"
  by (rule base_init_ok) (auto simp: chr_fits_def split: if_splits)

lemma self_masked: "\<exists>v. 0 = v AND (m :: u8)"
  by (rule exI[of _ 0]) simp

text \<open>A cartridge with two 32K program banks and two 8K character banks.\<close>

definition even_cart :: cart where
  "even_cart = \<lparr>c_prgSize = 0x10000, c_chrSize = 0x4000, c_mirroringType = VERTICAL,
     c_hasBattery = False, c_hasTrainer = False, c_useFourScreenMirroring = False, c_mapperId = 66,
     c_subMapperId = 0, c_ramSize = 0x2000, c_chrRamSize = 0, c_saveRamSize = 0x2000, c_chip = '''',
     c_readTrainer = \<lambda>_. Some 0, c_readPrg = \<lambda>i. if 0 \<le> i \<and> i < 0x10000 then Some 0xEA else None,
     c_readChr = \<lambda>i. if 0 \<le> i \<and> i < 0x4000 then Some 0 else None\<rparr>"

lemma even_cart_fits:
  "cart_ok even_cart" "chr_fits even_cart" "pow2_banks (numberOfPRGBanks even_cart B32K)"
  "pow2_banks (numberOfPRGBanks even_cart B16K)"
  by (auto simp: cart_ok_def chr_fits_def pow2_banks_def numberOfPRGBanks_def numberOfCHRBanks_def
      even_cart_def intro: exI[of _ "1 :: nat"] exI[of _ "2 :: nat"])

text \<open>An accepted iNES file with one 16K program bank and character RAM.\<close>

lemma tiny_cart_fits:
  "cart_ok (ines_cart tiny_rom)" "chr_fits (ines_cart tiny_rom)" "numberOfPRGBanks (ines_cart tiny_rom) B16K = 1"
  using ines_cart_ok[OF tiny_rom_opens]
  by (simp_all add: chr_fits_def ines_cart_def ines_chrRamSize_def numberOfPRGBanks_def tiny_rom_facts)

text \<open>
  C27: the discrete boards never read outside the cartridge. For a cartridge whose memories are
  readable (as every accepted iNES file is), with 8K of character RAM or a power of two of 8K banks of
  character ROM, and for every sequence of writes to the program window, the writes are defined (bus
  conflicts read the ROM) and so is every later program and character read: for NROM and CNROM with any
  positive number of 16K program banks, one bank included, for Camerica boards with a power of two
  of 16K banks, and for AxROM, Color Dreams and GxROM with a power of two of 32K banks.
\<close>
theorem discrete_mappers_safe:
  assumes "cart_ok c" "chr_fits c" "0 < numberOfPRGBanks c B16K"
  shows "windows_safe m000_readPrg m000_readChr base_writePrg (base_init f c) \<and>
    windows_safe m003_readPrg m003_readChr m003_writePrg (m003_init f c) \<and>
    (pow2_banks (numberOfPRGBanks c B16K) \<longrightarrow>
       windows_safe m071_readPrg base_readChr m071_writePrg (m071_init f c)) \<and>
    (pow2_banks (numberOfPRGBanks c B32K) \<longrightarrow>
       windows_safe m007_readPrg base_readChr m007_writePrg (m007_init f c) \<and>
       windows_safe m011_readPrg m011_readChr m011_writePrg (m011_init f c) \<and>
       windows_safe m066_readPrg m066_readChr m066_writePrg (m066_init f c))"
proof (intro conjI impI)
  note b = fits_base[OF assms(1,2)]
  have "m000_ok (base_init f c)" using assms by (simp add: m000_ok_def base_init_def b)
  then show "windows_safe m000_readPrg m000_readChr base_writePrg (base_init f c)"
    by (simp add: windows_safe_def nrom.safe)
  have "m003_ok (m003_init f c)"
    using assms self_masked by (simp add: m003_ok_def m003_init_def b)
  then show "windows_safe m003_readPrg m003_readChr m003_writePrg (m003_init f c)"
    by (simp add: windows_safe_def cnrom.safe)
  show "windows_safe m071_readPrg base_readChr m071_writePrg (m071_init f c)"
    if "pow2_banks (numberOfPRGBanks c B16K)"
  proof -
    have "m071_ok (m071_init f c)" using assms that self_masked by (simp add: m071_ok_def m071_init_def b)
    then show ?thesis by (simp add: windows_safe_def camerica.safe)
  qed
  assume p: "pow2_banks (numberOfPRGBanks c B32K)"
  have "m007_ok (m007_init f c)"
    using assms p self_masked by (simp add: m007_ok_def m007_init_def b)
  then show "windows_safe m007_readPrg base_readChr m007_writePrg (m007_init f c)"
    by (simp add: windows_safe_def axrom.safe)
  have "m011_ok (m011_init f c)"
    using assms p self_masked by (simp add: m011_ok_def m011_init_def b)
  then show "windows_safe m011_readPrg m011_readChr m011_writePrg (m011_init f c)"
    by (simp add: windows_safe_def color_dreams.safe)
  have "m066_ok (m066_init f c)"
    using assms p self_masked by (simp add: m066_ok_def m066_init_def b)
  then show "windows_safe m066_readPrg m066_readChr m066_writePrg (m066_init f c)"
    by (simp add: windows_safe_def gxrom.safe)
qed

theorem discrete_mappers_safe_witness:
  "windows_safe m000_readPrg m000_readChr base_writePrg (base_init None (ines_cart tiny_rom)) \<and>
   windows_safe m071_readPrg base_readChr m071_writePrg (m071_init None (ines_cart tiny_rom)) \<and>
   windows_safe m066_readPrg m066_readChr m066_writePrg (m066_init None even_cart)"
proof -
  have "pow2_banks (1 :: int)" by (auto simp: pow2_banks_def intro: exI[of _ "0 :: nat"])
  then show ?thesis
    using discrete_mappers_safe[OF tiny_cart_fits(1,2), of None] tiny_cart_fits(3)
      discrete_mappers_safe[OF even_cart_fits(1,2) pow2_pos[OF even_cart_fits(4)], of None] even_cart_fits(3)
    by simp
qed

text \<open>
  UxROM does leave the cartridge. \<open>Mapper002\<close> stores the written byte as the bank number
  without the mask its sibling classes apply: for every accepted iNES file of at most 255 program
  banks without character ROM and without bus conflicts, one write of \<open>$FF\<close> makes every read of
  the switchable half of the program window read past the end of the file.
\<close>
theorem uxrom_out_of_bounds:
  assumes "ines_open rom = Inr c" "c_chrSize c = 0" "c_prgSize c \<le> 255 * 0x4000" "c_subMapperId c \<noteq> 2"
    "0 \<le> a" "a < 0x4000"
  shows "\<exists>m. m002_writePrg addr 0xFF (m002_init f c) = Some m \<and> m002_readPrg m a = None"
proof -
  note o = ines_openD[OF assms(1)]
  let ?m = "(m002_init f c)\<lparr>m_selectedBank := 255\<rparr>"
  have w: "m002_writePrg addr 0xFF (m002_init f c) = Some ?m"
    using assms(4) by (simp add: m002_writePrg_def m002_init_def)
  have "int (length rom) \<le> PRGStartIndex rom + 255 * 0x4000"
    using o(4,5) assms(2,3) by (simp add: o(1) ines_cart_def)
  then have "c_readPrg c (255 * 0x4000 + a mod 0x4000) = None"
    using pos_mod_sign[of "0x4000 :: int" a] by (auto simp: o(1) ines_cart_def rom_data_def)
  then have "m002_readPrg ?m a = None"
    using assms(6) by (simp add: m002_readPrg_def readPrgBank_def bank_offset_eq m002_init_def)
  with w show ?thesis by blast
qed

theorem uxrom_out_of_bounds_witness:
  "\<exists>m. m002_writePrg 0 0xFF (m002_init None (ines_cart tiny_rom)) = Some m \<and> m002_readPrg m 0 = None"
  by (rule uxrom_out_of_bounds[OF tiny_rom_opens])
    (simp_all add: ines_cart_def tiny_rom_facts ines_subMapperId_def)

end
