(* ===== verification/Mapper_Mmc1.thy ===== *)
theory Mapper_Mmc1
  imports Mappers_Discrete
begin

text \<open>
  \<open>Mapper001\<close> (\<open>src/src/GeraNES/Mappers/Mapper001.h\<close>), Nintendo's MMC1: a serial port that
  collects five bits before it loads one of four registers, two program and two character banking
  modes, and software mirroring.
\<close>

record mapper001 = base_mapper +
  m1_shiftCounter :: nat
  m1_shiftRegister :: u8
  m1_control :: u8
  m1_chrBank0 :: u8
  m1_chrBank1 :: u8
  m1_prgBank :: u8
  m1_PRGMask :: u8
  m1_CHRMask :: u8

definition m001_init :: "u8 list option \<Rightarrow> cart \<Rightarrow> mapper001" where
  "m001_init f c = \<lparr>cd = c, chrRam = init_chrRam c, sRam = init_sRam f c,
     m1_shiftCounter = 0, m1_shiftRegister = 0, m1_control = 0x0C, m1_chrBank0 = 0, m1_chrBank1 = 0,
     m1_prgBank = 0, m1_PRGMask = calculateMask (numberOfPRGBanks c B16K),
     m1_CHRMask = calculateMask (numberOfCHRBanks c B4K)\<rparr>"

definition m001_load :: "int \<Rightarrow> mapper001 \<Rightarrow> mapper001" where
  "m001_load addr m =
     (if 0x0000 \<le> addr \<and> addr < 0x2000 then m\<lparr>m1_control := m1_shiftRegister m AND 0x1F\<rparr>
      else if 0x2000 \<le> addr \<and> addr < 0x4000 then m\<lparr>m1_chrBank0 := m1_shiftRegister m AND m1_CHRMask m\<rparr>
      else if 0x4000 \<le> addr \<and> addr < 0x6000 then m\<lparr>m1_chrBank1 := m1_shiftRegister m AND m1_CHRMask m\<rparr>
      else if 0x6000 \<le> addr \<and> addr < 0x8000 then m\<lparr>m1_prgBank := m1_shiftRegister m AND m1_PRGMask m\<rparr>
      else m)"

definition m001_writePrg :: "int \<Rightarrow> u8 \<Rightarrow> mapper001 \<Rightarrow> mapper001 option" where
  "m001_writePrg addr data m = Some
     (if test_bits data 0x80 then m\<lparr>m1_shiftCounter := 0, m1_control := m1_control m OR 0x0C\<rparr>
      else
        let m = m\<lparr>m1_shiftRegister := m1_shiftRegister m OR push_bit (m1_shiftCounter m) (data AND 0x01),
                  m1_shiftCounter := m1_shiftCounter m + 1\<rparr>
        in if m1_shiftCounter m = 5
           then (m001_load addr m)\<lparr>m1_shiftCounter := 0, m1_shiftRegister := 0\<rparr>
           else m)"

definition m001_prgMode :: "mapper001 \<Rightarrow> u8" where
  "m001_prgMode m = drop_bit 2 (m1_control m AND 0x0C)"

definition m001_readPrg :: "mapper001 \<Rightarrow> int \<Rightarrow> u8 option" where
  "m001_readPrg m addr =
     (if m001_prgMode m = 0 \<or> m001_prgMode m = 1 then
        if addr < 0x4000 then readPrgBank (cd m) B16K (uint (drop_bit 1 (m1_prgBank m))) addr
        else readPrgBank (cd m) B16K (uint (drop_bit 1 (m1_prgBank m)) + 1) addr
      else if m001_prgMode m = 2 then
        if addr < 0x4000 then readPrgBank (cd m) B16K 0 addr
        else readPrgBank (cd m) B16K (uint (m1_prgBank m AND 0x0F)) addr
      else if m001_prgMode m = 3 then
        if addr < 0x4000 then readPrgBank (cd m) B16K (uint (m1_prgBank m AND 0x0F)) addr
        else readPrgBank (cd m) B16K (numberOfPRGBanks (cd m) B16K - 1) addr
      else Some 0)"

definition m001_readChr :: "mapper001 \<Rightarrow> int \<Rightarrow> u8 option" where
  "m001_readChr m addr =
     (if hasChrRam m then base_readChr m addr
      else if \<not> test_bits (m1_control m) 0x10 then
        readChrBank (cd m) B8K (uint (drop_bit 1 (m1_chrBank0 m))) addr
      else if addr < 0x1000 then readChrBank (cd m) B4K (uint (m1_chrBank0 m)) addr
      else readChrBank (cd m) B4K (uint (m1_chrBank1 m)) addr)"

definition m001_mirroringType :: "mapper001 \<Rightarrow> MirroringType" where
  "m001_mirroringType m =
     (let k = m1_control m AND 0x03 in
      if k = 0 then SINGLE_SCREEN_A
      else if k = 1 then SINGLE_SCREEN_B
      else if k = 2 then VERTICAL
      else if k = 3 then HORIZONTAL
      else FOUR_SCREEN)"

definition m001_debugToAbsoluteChrAddress :: "mapper001 \<Rightarrow> int \<Rightarrow> int" where
  "m001_debugToAbsoluteChrAddress m addr =
     (if hasChrRam m then - 1
      else if \<not> test_bits (m1_control m) 0x10 then
        uint (drop_bit 1 (m1_chrBank0 m AND m1_CHRMask m)) * 0x2000 + (addr AND 0x1FFF)
      else if addr < 0x1000 then uint (m1_chrBank0 m AND m1_CHRMask m) * 0x1000 + (addr AND 0x0FFF)
      else uint (m1_chrBank1 m AND m1_CHRMask m) * 0x1000 + (addr AND 0x0FFF))"

definition m001_reset :: "mapper001 \<Rightarrow> mapper001" where
  "m001_reset m = m\<lparr>m1_shiftCounter := 0, m1_shiftRegister := 0, m1_control := 0x0C,
     m1_chrBank0 := 0, m1_chrBank1 := 0, m1_prgBank := 0\<rparr>"

subsection \<open>Accesses stay inside the cartridge\<close>

definition m001_ok :: "mapper001 \<Rightarrow> bool" where
  "m001_ok m \<longleftrightarrow> base_ok m \<and> pow2_banks (numberOfPRGBanks (cd m) B16K)
     \<and> 2 \<le> numberOfPRGBanks (cd m) B16K \<and> chr_fits (cd m)
     \<and> (c_chrRamSize (cd m) > 0 \<or> pow2_banks (numberOfCHRBanks (cd m) B4K))
     \<and> m1_PRGMask m = calculateMask (numberOfPRGBanks (cd m) B16K)
     \<and> m1_CHRMask m = calculateMask (numberOfCHRBanks (cd m) B4K)
     \<and> (\<exists>v. m1_prgBank m = v AND m1_PRGMask m)
     \<and> (\<exists>v. m1_chrBank0 m = v AND m1_CHRMask m) \<and> (\<exists>v. m1_chrBank1 m = v AND m1_CHRMask m)"

lemma m001_base [simp]:
  "base_ok (m\<lparr>m1_shiftCounter := a\<rparr>) = base_ok m" "base_ok (m\<lparr>m1_control := d\<rparr>) = base_ok m"
  "base_ok (m\<lparr>m1_shiftRegister := b\<rparr>) = base_ok m" "base_ok (m\<lparr>m1_chrBank0 := d\<rparr>) = base_ok m"
  "base_ok (m\<lparr>m1_chrBank1 := d\<rparr>) = base_ok m" "base_ok (m\<lparr>m1_prgBank := d\<rparr>) = base_ok m"
  by (simp_all add: base_ok_def split: option.split)

lemma m001_ok_shift [simp]:
  "m001_ok (m\<lparr>m1_shiftCounter := a\<rparr>) = m001_ok m" "m001_ok (m\<lparr>m1_shiftRegister := b\<rparr>) = m001_ok m"
  "m001_ok (m\<lparr>m1_control := d\<rparr>) = m001_ok m"
  by (simp_all add: m001_ok_def)

lemma m001_ok_load [simp]: "m001_ok m \<Longrightarrow> m001_ok (m001_load a m)"
  by (auto simp: m001_load_def) (auto simp: m001_ok_def)

lemma m001_ok_write: "m001_ok m \<Longrightarrow> \<exists>m'. m001_writePrg a v m = Some m' \<and> m001_ok m'"
  by (simp add: m001_writePrg_def Let_def)

lemma uint_and_less: "uint (x :: u8) < n \<Longrightarrow> uint (x AND y) < n"
  using word_and_le2[of x y] by (simp add: word_le_def)

lemma uint_half: "uint (drop_bit 1 (x :: u8)) = uint x div 2"
  by (simp add: drop_bit_eq_div uint_div)

lemma m001_banks:
  assumes "m001_ok m"
  shows "uint (m1_prgBank m) < numberOfPRGBanks (cd m) B16K"
    "\<not> hasChrRam m \<Longrightarrow> uint (m1_chrBank0 m) < numberOfCHRBanks (cd m) B4K"
    "\<not> hasChrRam m \<Longrightarrow> uint (m1_chrBank1 m) < numberOfCHRBanks (cd m) B4K"
  using assms masked_bank(2) by (auto simp: m001_ok_def hasChrRam_def)

lemma chr_halves: "numberOfCHRBanks c B8K = numberOfCHRBanks c B4K div 2"
  by (simp add: numberOfCHRBanks_def zdiv_zmult2_eq[of 2 _ "0x1000", simplified])

lemma m001_prg_defined:
  assumes ok: "m001_ok m"
  shows "defined (m001_readPrg m a)"
proof -
  let ?n = "numberOfPRGBanks (cd m) B16K"
  have n: "2 \<le> ?n" and c: "cart_ok (cd m)" using ok by (auto simp: m001_ok_def base_ok_cart)
  note b = m001_banks(1)[OF ok]
  have "uint (drop_bit 1 (m1_prgBank m)) + 1 < ?n"
    unfolding uint_half using b n by linarith
  then show ?thesis
    using c n b uint_and_less[OF b] readPrgBank_defined[OF c]
    by (auto simp: m001_readPrg_def)
qed

lemma m001_chr_defined:
  assumes ok: "m001_ok m"
  shows "defined (m001_readChr m a)"
proof (cases "hasChrRam m")
  case True
  then show ?thesis using ok by (simp add: m001_readChr_def m001_ok_def base_readChr_defined)
next
  case False
  have c: "cart_ok (cd m)" using ok by (auto simp: m001_ok_def base_ok_cart)
  note b = m001_banks(2,3)[OF ok False]
  have even: "numberOfCHRBanks (cd m) B4K mod 2 = 0"
  proof -
    have "pow2_banks (numberOfCHRBanks (cd m) B8K)" "pow2_banks (numberOfCHRBanks (cd m) B4K)"
      using ok False by (auto simp: m001_ok_def chr_fits_def hasChrRam_def)
    then obtain k where "numberOfCHRBanks (cd m) B4K = 2 ^ k" "0 < numberOfCHRBanks (cd m) B4K div 2"
      using pow2_pos chr_halves by (auto simp: pow2_banks_def)
    then show ?thesis by (cases k) auto
  qed
  then have "uint (drop_bit 1 (m1_chrBank0 m)) < numberOfCHRBanks (cd m) B8K"
    unfolding uint_half chr_halves using b(1) by presburger
  then show ?thesis
    using False b readChrBank_defined[OF c] by (auto simp: m001_readChr_def)
qed

interpretation mmc1: banked m001_ok m001_readPrg m001_readChr m001_writePrg
  by unfold_locales (auto simp: m001_ok_write m001_prg_defined m001_chr_defined)

subsection \<open>The serial port\<close>

text \<open>Five writes of single bits, least significant first, to the address of a register.\<close>

definition serial :: "int \<Rightarrow> u8 \<Rightarrow> (int \<times> u8) list" where
  "serial a v = map (\<lambda>i. (a, drop_bit i v AND 1)) [0, 1, 2, 3, 4]"

lemma bit_not_reset: "\<not> test_bits (drop_bit i v AND 1 :: u8) 0x80"
proof -
  have "(drop_bit i v AND 1) AND (0x80 :: u8) = drop_bit i v AND (1 AND 0x80)"
    by (simp only: and.assoc)
  then show ?thesis by (simp add: test_bits_def)
qed

lemma shift_in: "take_bit k v OR push_bit k (drop_bit k v AND 1) = take_bit (Suc k) (v :: u8)"
proof (rule bit_word_eqI)
  fix n assume n: "n < LENGTH(8)"
  consider "n < k" | "n = k" | "k < n" by linarith
  then show "bit (take_bit k v OR push_bit k (drop_bit k v AND 1)) n = bit (take_bit (Suc k) v) n"
    unfolding bit_or_iff bit_push_bit_iff bit_take_bit_iff bit_and_iff bit_drop_bit_eq bit_1_iff
    using n by cases auto
qed

text \<open>Bits \<open>s\<close> that are already in the register stay there.\<close>

definition port :: "u8 \<Rightarrow> u8 \<Rightarrow> nat \<Rightarrow> mapper001 \<Rightarrow> mapper001" where
  "port s v k m = m\<lparr>m1_shiftRegister := s OR take_bit k v, m1_shiftCounter := k\<rparr>"

lemma serial_step:
  assumes "k < 4" "k' = Suc k"
  shows "m001_writePrg a (drop_bit k v AND 1) (port s v k m) = Some (port s v k' m)"
proof -
  have "(s OR take_bit k v) OR push_bit k (drop_bit k v AND 1) = s OR take_bit (Suc k) v"
    unfolding or.assoc shift_in ..
  then show ?thesis
    using assms bit_not_reset[of k v] by (simp only: m001_writePrg_def Let_def port_def) simp
qed

lemma serial_last:
  "m001_writePrg a (drop_bit 4 v AND 1) (port s v 4 m) =
    Some ((m001_load a (port s v 5 m))\<lparr>m1_shiftCounter := 0, m1_shiftRegister := 0\<rparr>)"
proof -
  have "take_bit 4 v OR push_bit 4 (drop_bit 4 v AND 1) = take_bit 5 v"
    using shift_in[of 4 v] by (simp only: numeral_eq_Suc pred_numeral_simps arith_special)
  then have "(s OR take_bit 4 v) OR push_bit 4 (drop_bit 4 v AND 1) = s OR take_bit 5 v"
    by (simp only: or.assoc)
  then show ?thesis
    using bit_not_reset[of 4 v] by (simp only: m001_writePrg_def Let_def port_def) simp
qed

lemma serial_run:
  assumes "m1_shiftCounter m = 0" "m1_shiftRegister m = s"
  shows "writes m001_writePrg (serial a v) m =
    Some ((m001_load a (port s v 5 m))\<lparr>m1_shiftCounter := 0, m1_shiftRegister := 0\<rparr>)"
proof -
  have m: "m = port s v 0 m" using assms by (simp add: port_def)
  have "0 < (4 :: nat)" "1 < (4 :: nat)" "2 < (4 :: nat)" "3 < (4 :: nat)"
    "1 = Suc 0" "2 = Suc 1" "3 = Suc 2" "4 = Suc 3" by simp_all
  note st = serial_step[OF this(1,5), of a v s m] serial_step[OF this(2,6), of a v s m]
    serial_step[OF this(3,7), of a v s m] serial_step[OF this(4,8), of a v s m]
  have "writes m001_writePrg (serial a v) (port s v 0 m) =
      Some ((m001_load a (port s v 5 m))\<lparr>m1_shiftCounter := 0, m1_shiftRegister := 0\<rparr>)"
    unfolding serial_def list.map writes.simps by (simp only: st serial_last Option.bind.bind_lunit)
  then show ?thesis using m by simp
qed

text \<open>An MMC1 board with four 16K program banks and four 4K character banks.\<close>

lemma even_cart_mmc1: "2 \<le> numberOfPRGBanks even_cart B16K" "pow2_banks (numberOfCHRBanks even_cart B4K)"
  by (auto simp: pow2_banks_def numberOfPRGBanks_def numberOfCHRBanks_def even_cart_def
      intro: exI[of _ "2 :: nat"])

text \<open>
  The serial port of the MMC1 assembles a register from five writes. With the port at rest,
  writing the five low bits of \<open>v\<close>, least significant first, loads exactly the register that the
  address of the last write selects, with \<open>v\<close> cut to five bits and to the number of banks, leaves
  the other registers alone and the port at rest again.
\<close>
theorem mmc1_serial:
  assumes "m1_shiftCounter m = 0" "m1_shiftRegister m = 0" "0 \<le> a" "a < 0x8000"
  shows "\<exists>m'. writes m001_writePrg (serial a v) m = Some m' \<and>
    m1_shiftCounter m' = 0 \<and> m1_shiftRegister m' = 0 \<and>
    m1_control m' = (if a < 0x2000 then take_bit 5 v AND 0x1F else m1_control m) \<and>
    m1_chrBank0 m' = (if 0x2000 \<le> a \<and> a < 0x4000 then take_bit 5 v AND m1_CHRMask m else m1_chrBank0 m) \<and>
    m1_chrBank1 m' = (if 0x4000 \<le> a \<and> a < 0x6000 then take_bit 5 v AND m1_CHRMask m else m1_chrBank1 m) \<and>
    m1_prgBank m' = (if 0x6000 \<le> a then take_bit 5 v AND m1_PRGMask m else m1_prgBank m)"
  using assms(3,4) by (simp add: serial_run[OF assms(1,2)] m001_load_def port_def)

theorem mmc1_serial_witness:
  "\<exists>m'. writes m001_writePrg (serial 0x6000 2) (m001_init None even_cart) = Some m' \<and>
    m1_prgBank m' = take_bit 5 2 AND m1_PRGMask (m001_init None even_cart)"
  using mmc1_serial[of "m001_init None even_cart" "0x6000" 2] by (auto simp: m001_init_def)

text \<open>
  A reset write does not empty the serial port. A write with bit 7 set restarts the count of
  bits but keeps the bits collected so far, so that after an interrupted sequence the next register
  value is wrong: with one \<open>1\<close> bit shifted in before the reset, a following load of the control
  register always has its lowest bit set, whatever value is written.
\<close>
theorem mmc1_reset_keeps_bits:
  assumes "m1_shiftCounter m = 0" "m1_shiftRegister m = 0"
  shows "\<exists>m'. writes m001_writePrg ((b, 1) # (c, 0x80) # serial 0 v) m = Some m' \<and>
    m1_control m' = (1 OR take_bit 5 v) AND 0x1F"
proof -
  let ?m = "m\<lparr>m1_shiftRegister := 1, m1_shiftCounter := 0, m1_control := m1_control m OR 0x0C\<rparr>"
  have "writes m001_writePrg ((b, 1) # (c, 0x80) # serial 0 v) m = writes m001_writePrg (serial 0 v) ?m"
    using assms by (simp add: m001_writePrg_def test_bits_def)
  then show ?thesis by (simp add: serial_run[of ?m 1] m001_load_def port_def)
qed

theorem mmc1_reset_keeps_bits_witness:
  "\<exists>m'. writes m001_writePrg ((0, 1) # (0, 0x80) # serial 0 0) (m001_init None even_cart) = Some m' \<and>
    m1_control m' = 1"
  using mmc1_reset_keeps_bits[of "m001_init None even_cart" 0 0 0] by (auto simp: m001_init_def)

text \<open>
  The 32K program mode of the MMC1 shows the wrong part of the ROM. The code documents the mode
  as switching 32 KB at \<open>$8000\<close> with the low bit of the bank number ignored, so that bank \<open>b\<close>
  shows the 32K that start at \<open>(b div 2) * 0x8000\<close>; it shows the 32K that start at
  \<open>(b div 2) * 0x4000\<close>, the documented window only for the banks 0 and 1.
\<close>
theorem mmc1_32k_window:
  assumes "m001_prgMode m = 0 \<or> m001_prgMode m = 1" "0 \<le> a" "a < 0x8000"
  shows "m001_readPrg m a = c_readPrg (cd m) (uint (m1_prgBank m) div 2 * 0x4000 + a)"
proof (cases "a < 0x4000")
  case True
  then have "a mod 0x4000 = a" using assms(2) by simp
  with True assms(1) show ?thesis
    unfolding m001_readPrg_def uint_half readPrgBank_def bank_offset_eq by auto
next
  case False
  then have "a mod 0x4000 = a - 0x4000"
    using assms(3) minus_mod_self2[of a "0x4000"] mod_pos_pos_trivial[of "a - 0x4000" "0x4000"] by simp
  with False assms(1) show ?thesis
    unfolding m001_readPrg_def uint_half readPrgBank_def bank_offset_eq
    by (auto simp: distrib_right)
qed

theorem mmc1_32k_window_witness:
  "m001_readPrg ((m001_init None even_cart)\<lparr>m1_control := 0, m1_prgBank := 2\<rparr>) 0 =
   c_readPrg even_cart 0x4000"
  using mmc1_32k_window[of "(m001_init None even_cart)\<lparr>m1_control := 0, m1_prgBank := 2\<rparr>" 0]
  by (simp add: m001_prgMode_def m001_init_def)

text \<open>
  The MMC1 never reads outside the cartridge. With a power of two of at least two 16K program
  banks and a power of two of character banks, no sequence of serial writes can select a program or
  character bank that the cartridge does not have.
\<close>
theorem mmc1_safe:
  assumes "cart_ok c" "chr_fits c" "pow2_banks (numberOfPRGBanks c B16K)"
    "2 \<le> numberOfPRGBanks c B16K" "c_chrRamSize c > 0 \<or> pow2_banks (numberOfCHRBanks c B4K)"
  shows "windows_safe m001_readPrg m001_readChr m001_writePrg (m001_init f c)"
proof -
  have "m001_ok (m001_init f c)"
    using assms fits_base[OF assms(1,2), of "m001_init f c"] self_masked
    by (simp add: m001_ok_def m001_init_def)
  then show ?thesis by (simp add: windows_safe_def mmc1.safe)
qed

theorem mmc1_safe_witness:
  "windows_safe m001_readPrg m001_readChr m001_writePrg (m001_init None even_cart)"
  using mmc1_safe[OF even_cart_fits(1,2,4) even_cart_mmc1(1) disjI2[OF even_cart_mmc1(2)]] .

end
