(* ===== verification/Mapper_Mmc3.thy ===== *)
theory Mapper_Mmc3
  imports Mappers_Discrete
begin

text \<open>
  \<open>Mapper004\<close> (\<open>src/src/GeraNES/Mappers/Mapper004.h\<close>), Nintendo's MMC3 with its MMC6
  variant: eight bank registers behind one address register, software mirroring, protected work RAM,
  and the scanline counter that is clocked by the filtered rising edges of PPU address line 12. The
  constructor reads the chip name only to find the revision; the two flags it computes are arguments
  of \<open>m004_init\<close>.
\<close>

record mapper004 = base_mapper +
  m_addrReg :: u8
  m_chrMode :: bool
  m_chrReg :: "u8 list"
  m_chrMask :: u8
  m_prgMode :: bool
  m_prgReg0 :: u8
  m_prgReg1 :: u8
  m_prgMask :: u8
  m_mirroring :: bool
  m_enableWRAM :: bool
  m_writeProtectWRAM :: bool
  m_reloadValue :: u8
  m_irqCounter :: u8
  m_enableInterrupt :: bool
  m_irqClearFlag :: bool
  m_interruptFlag :: bool
  m_a12LastState :: bool
  m_cycleCounter :: u8
  m_mmc3RevAIrqs :: bool
  m_isMMC6 :: bool
  m_mmc6PrgRamEnabled :: bool
  m_mmc6WriteLow :: bool
  m_mmc6ReadLow :: bool
  m_mmc6WriteHigh :: bool
  m_mmc6ReadHigh :: bool

definition m004_init :: "bool \<Rightarrow> bool \<Rightarrow> u8 list option \<Rightarrow> cart \<Rightarrow> mapper004" where
  "m004_init revA mmc6 f c = \<lparr>cd = c, chrRam = init_chrRam c, sRam = init_sRam f c,
     m_addrReg = 0, m_chrMode = False, m_chrReg = [0, 0, 0, 0, 0, 0],
     m_chrMask = (if c_chrRamSize c > 0 then calculateMask (c_chrRamSize c div 0x400)
                  else calculateMask (numberOfCHRBanks c B1K)),
     m_prgMode = False, m_prgReg0 = 0, m_prgReg1 = 0,
     m_prgMask = calculateMask (numberOfPRGBanks c B8K), m_mirroring = False, m_enableWRAM = False,
     m_writeProtectWRAM = False, m_reloadValue = 0, m_irqCounter = 0, m_enableInterrupt = False,
     m_irqClearFlag = False, m_interruptFlag = False, m_a12LastState = True, m_cycleCounter = 0,
     m_mmc3RevAIrqs = revA, m_isMMC6 = (mmc6 \<or> c_subMapperId c = 1), m_mmc6PrgRamEnabled = False,
     m_mmc6WriteLow = False, m_mmc6ReadLow = False, m_mmc6WriteHigh = False, m_mmc6ReadHigh = False\<rparr>"

definition m004_readPrg :: "mapper004 \<Rightarrow> int \<Rightarrow> u8 option" where
  "m004_readPrg m addr =
     (let slot = drop_bit 13 addr; n = numberOfPRGBanks (cd m) B8K in
      if \<not> m_prgMode m then
        if slot = 0 then readPrgBank (cd m) B8K (uint (m_prgReg0 m)) addr
        else if slot = 1 then readPrgBank (cd m) B8K (uint (m_prgReg1 m)) addr
        else if slot = 2 then readPrgBank (cd m) B8K (n - 2) addr
        else if slot = 3 then readPrgBank (cd m) B8K (n - 1) addr
        else Some 0
      else
        if slot = 0 then readPrgBank (cd m) B8K (n - 2) addr
        else if slot = 1 then readPrgBank (cd m) B8K (uint (m_prgReg1 m)) addr
        else if slot = 2 then readPrgBank (cd m) B8K (uint (m_prgReg0 m)) addr
        else if slot = 3 then readPrgBank (cd m) B8K (n - 1) addr
        else Some 0)"

text \<open>The two halves of register pair \<open>$8000/$8001\<close>.\<close>

definition m004_selectBank :: "u8 \<Rightarrow> mapper004 \<Rightarrow> mapper004" where
  "m004_selectBank data m =
     (let m = m\<lparr>m_chrMode := test_bits data 0x80, m_prgMode := test_bits data 0x40,
                m_addrReg := data AND 0x07\<rparr> in
      if m_isMMC6 m then
        let m = m\<lparr>m_mmc6PrgRamEnabled := test_bits data 0x20\<rparr> in
        if \<not> m_mmc6PrgRamEnabled m
        then m\<lparr>m_mmc6WriteLow := False, m_mmc6ReadLow := False, m_mmc6WriteHigh := False,
               m_mmc6ReadHigh := False\<rparr>
        else m
      else m)"

definition m004_setBank :: "u8 \<Rightarrow> mapper004 \<Rightarrow> mapper004" where
  "m004_setBank data m =
     (if m_addrReg m < 6 then m\<lparr>m_chrReg := (m_chrReg m)[unat (m_addrReg m) := data]\<rparr>
      else if m_addrReg m = 6 then m\<lparr>m_prgReg0 := data AND m_prgMask m\<rparr>
      else if m_addrReg m = 7 then m\<lparr>m_prgReg1 := data AND m_prgMask m\<rparr>
      else m)"

definition m004_protect :: "u8 \<Rightarrow> mapper004 \<Rightarrow> mapper004" where
  "m004_protect data m =
     (if m_isMMC6 m then
        if m_mmc6PrgRamEnabled m
        then m\<lparr>m_mmc6ReadHigh := test_bits data 0x80, m_mmc6WriteHigh := test_bits data 0x40,
               m_mmc6ReadLow := test_bits data 0x20, m_mmc6WriteLow := test_bits data 0x10\<rparr>
        else m
      else m\<lparr>m_enableWRAM := test_bits data 0x80, m_writeProtectWRAM := test_bits data 0x40\<rparr>)"

definition m004_writePrg :: "int \<Rightarrow> u8 \<Rightarrow> mapper004 \<Rightarrow> mapper004 option" where
  "m004_writePrg addr data m = Some
     (let addr = addr AND 0xF001 in
      if addr = 0x0000 then m004_selectBank data m
      else if addr = 0x0001 then m004_setBank data m
      else if addr = 0x2000 then m\<lparr>m_mirroring := test_bits data 0x01\<rparr>
      else if addr = 0x2001 then m004_protect data m
      else if addr = 0x4000 then m\<lparr>m_reloadValue := data\<rparr>
      else if addr = 0x4001 then m\<lparr>m_irqClearFlag := True, m_irqCounter := 0\<rparr>
      else if addr = 0x6000 then m\<lparr>m_interruptFlag := False, m_enableInterrupt := False\<rparr>
      else if addr = 0x6001 then m\<lparr>m_enableInterrupt := True\<rparr>
      else m)"

text \<open>The bank size and bank number that \<open>readChr\<close> and \<open>writeChr\<close> pick for an address;
  \<open>None\<close> beyond the eighth slot.\<close>

definition m004_chrBank :: "mapper004 \<Rightarrow> int \<Rightarrow> (BankSize \<times> int) option" where
  "m004_chrBank m addr =
     (let slot = drop_bit 10 addr; r = (\<lambda>i. m_chrReg m ! i AND m_chrMask m);
          two = (\<lambda>i. (B2K, uint (drop_bit 1 (r i)))); one = (\<lambda>i. (B1K, uint (r i))) in
      if \<not> m_chrMode m then
        if slot = 0 \<or> slot = 1 then Some (two 0)
        else if slot = 2 \<or> slot = 3 then Some (two 1)
        else if slot = 4 then Some (one 2)
        else if slot = 5 then Some (one 3)
        else if slot = 6 then Some (one 4)
        else if slot = 7 then Some (one 5)
        else None
      else
        if slot = 0 then Some (one 2)
        else if slot = 1 then Some (one 3)
        else if slot = 2 then Some (one 4)
        else if slot = 3 then Some (one 5)
        else if slot = 4 \<or> slot = 5 then Some (two 0)
        else if slot = 6 \<or> slot = 7 then Some (two 1)
        else None)"

definition m004_readChr :: "mapper004 \<Rightarrow> int \<Rightarrow> u8 option" where
  "m004_readChr m addr = (case m004_chrBank m addr of
       None \<Rightarrow> Some 0
     | Some (bs, bank) \<Rightarrow>
         if hasChrRam m then readChrRam m bs bank addr else readChrBank (cd m) bs bank addr)"

definition m004_writeChr :: "int \<Rightarrow> u8 \<Rightarrow> mapper004 \<Rightarrow> mapper004 option" where
  "m004_writeChr addr data m =
     (if \<not> hasChrRam m then Some m
      else case m004_chrBank m addr of
        None \<Rightarrow> Some m
      | Some (bs, bank) \<Rightarrow> writeChrRam bs bank addr data m)"

definition m004_mirroringType :: "mapper004 \<Rightarrow> MirroringType" where
  "m004_mirroringType m =
     (if c_useFourScreenMirroring (cd m) then FOUR_SCREEN
      else if m_mirroring m then HORIZONTAL else VERTICAL)"

definition m004_writeSaveRam :: "int \<Rightarrow> u8 \<Rightarrow> mapper004 \<Rightarrow> mapper004 option" where
  "m004_writeSaveRam addr data m =
     (if \<not> m_isMMC6 m then base_writeSaveRam addr data m
      else if \<not> m_mmc6PrgRamEnabled m \<or> addr < 0x1000 then Some m
      else
        let off = (addr - 0x1000) AND 0x3FF;
            highHalf = off AND 0x0200 \<noteq> 0;
            readAllowed = (if highHalf then m_mmc6ReadHigh m else m_mmc6ReadLow m);
            writeBitSet = (if highHalf then m_mmc6WriteHigh m else m_mmc6WriteLow m)
        in if \<not> (readAllowed \<and> writeBitSet) then Some m
           else case sRam m of
             Some ram \<Rightarrow> if length ram > 0 then do {
                 ram \<leftarrow> ram_write ram (off AND 0x3FF) data;
                 Some (m\<lparr>sRam := Some ram\<rparr>) } else Some m
           | None \<Rightarrow> Some m)"

definition m004_readSaveRam :: "mapper004 \<Rightarrow> int \<Rightarrow> u8 option" where
  "m004_readSaveRam m addr =
     (if \<not> m_isMMC6 m then base_readSaveRam m addr
      else if \<not> m_mmc6PrgRamEnabled m \<or> addr < 0x1000 then Some 0
      else
        let off = (addr - 0x1000) AND 0x3FF;
            highHalf = off AND 0x0200 \<noteq> 0;
            readAllowed = (if highHalf then m_mmc6ReadHigh m else m_mmc6ReadLow m)
        in if \<not> readAllowed then Some 0
           else case sRam m of
             Some ram \<Rightarrow> if length ram > 0 then ram_read ram (off AND 0x3FF) else Some 0
           | None \<Rightarrow> Some 0)"

definition m004_count :: "mapper004 \<Rightarrow> mapper004" where
  "m004_count m =
     (let count = m_irqCounter m;
          m = (if m_irqCounter m = 0 \<or> m_irqClearFlag m then m\<lparr>m_irqCounter := m_reloadValue m\<rparr>
               else m\<lparr>m_irqCounter := m_irqCounter m - 1\<rparr>);
          m = (if m_mmc3RevAIrqs m \<or> m_isMMC6 m then
                 if (count > 0 \<or> m_irqClearFlag m) \<and> m_irqCounter m = 0 \<and> m_enableInterrupt m
                 then m\<lparr>m_interruptFlag := True\<rparr> else m
               else if m_irqCounter m = 0 \<and> m_enableInterrupt m then m\<lparr>m_interruptFlag := True\<rparr>
               else m)
      in m\<lparr>m_irqClearFlag := False\<rparr>)"

definition m004_setA12State :: "bool \<Rightarrow> mapper004 \<Rightarrow> mapper004" where
  "m004_setA12State state m =
     (let m = (if \<not> m_a12LastState m \<and> state then
                 if m_cycleCounter m > 3 then m004_count m else m
               else if m_a12LastState m \<and> \<not> state then m\<lparr>m_cycleCounter := 0\<rparr>
               else m)
      in m\<lparr>m_a12LastState := state\<rparr>)"

definition m004_cycle :: "mapper004 \<Rightarrow> mapper004" where
  "m004_cycle m =
     (if m_cycleCounter m + 1 \<noteq> 0 then m\<lparr>m_cycleCounter := m_cycleCounter m + 1\<rparr> else m)"

definition m004_reset :: "mapper004 \<Rightarrow> mapper004" where
  "m004_reset m = m\<lparr>m_addrReg := 0, m_chrMode := False, m_chrReg := [0, 0, 0, 0, 0, 0],
     m_prgMode := False, m_prgReg0 := 0, m_prgReg1 := 0, m_mirroring := False, m_enableWRAM := False,
     m_writeProtectWRAM := False, m_reloadValue := 0, m_irqCounter := 0, m_enableInterrupt := False,
     m_irqClearFlag := False, m_interruptFlag := False, m_a12LastState := True, m_cycleCounter := 0,
     m_mmc6PrgRamEnabled := False, m_mmc6WriteLow := False, m_mmc6ReadLow := False,
     m_mmc6WriteHigh := False, m_mmc6ReadHigh := False\<rparr>"

subsection \<open>The scanline counter\<close>

text \<open>The counter as its user thinks of it: how many more counts until it is zero.\<close>

definition irq_core :: "mapper004 \<Rightarrow> _" where
  "irq_core m = (m_reloadValue m, m_enableInterrupt m, m_mmc3RevAIrqs m, m_isMMC6 m)"

lemma count_core [simp]: "irq_core (m004_count m) = irq_core m"
  by (simp add: m004_count_def irq_core_def Let_def)

lemma count_clear [simp]: "m_irqClearFlag (m004_count m) = False"
  by (simp add: m004_count_def Let_def)

lemma count_counter: "m_irqCounter (m004_count m) =
    (if m_irqCounter m = 0 \<or> m_irqClearFlag m then m_reloadValue m else m_irqCounter m - 1)"
  by (simp add: m004_count_def Let_def)

lemma count_flag:
  "m_interruptFlag (m004_count m) \<longleftrightarrow> m_interruptFlag m \<or>
     m_enableInterrupt m \<and> m_irqCounter (m004_count m) = 0 \<and>
     (m_mmc3RevAIrqs m \<or> m_isMMC6 m \<longrightarrow> m_irqCounter m > 0 \<or> m_irqClearFlag m)"
  by (auto simp: m004_count_def Let_def)

text \<open>Counting down from a non-zero value raises no interrupt before zero.\<close>

lemma count_run:
  assumes "m_irqClearFlag m = False" "k \<le> unat (m_irqCounter m)"
  shows "unat (m_irqCounter ((m004_count ^^ k) m)) = unat (m_irqCounter m) - k \<and>
    irq_core ((m004_count ^^ k) m) = irq_core m \<and> \<not> m_irqClearFlag ((m004_count ^^ k) m) \<and>
    (m_interruptFlag ((m004_count ^^ k) m) \<longleftrightarrow> m_interruptFlag m \<or>
       0 < k \<and> k = unat (m_irqCounter m) \<and> m_enableInterrupt m)"
  using assms(2)
proof (induction k)
  case 0
  then show ?case using assms(1) by simp
next
  case (Suc k)
  let ?n = "(m004_count ^^ k) m"
  have IH: "unat (m_irqCounter ?n) = unat (m_irqCounter m) - k" "irq_core ?n = irq_core m"
    "\<not> m_irqClearFlag ?n" "m_interruptFlag ?n \<longleftrightarrow> m_interruptFlag m"
    using Suc by auto
  have pos: "0 < unat (m_irqCounter ?n)" using IH(1) Suc.prems by simp
  then have nz: "m_irqCounter ?n \<noteq> 0" "0 < m_irqCounter ?n" by (auto simp: word_gt_0)
  have c: "unat (m_irqCounter (m004_count ?n)) = unat (m_irqCounter m) - Suc k"
    using nz IH(1,3) by (simp add: count_counter unat_minus_one)
  moreover have "m_enableInterrupt ?n = m_enableInterrupt m"
    using IH(2) by (simp add: irq_core_def)
  moreover have "m_irqCounter (m004_count ?n) = 0 \<longleftrightarrow> Suc k = unat (m_irqCounter m)"
    using c Suc.prems unat_eq_0[of "m_irqCounter (m004_count ?n)"] by auto
  ultimately show ?case
    using IH nz by (auto simp: count_flag)
qed

subsection \<open>Filtered edges of address line 12\<close>

text \<open>What the counter depends on.\<close>

definition irq_state :: "mapper004 \<Rightarrow> _" where
  "irq_state m = (m_irqCounter m, m_irqClearFlag m, m_interruptFlag m, irq_core m)"

lemma count_state:
  assumes "irq_state m = irq_state n"
  shows "irq_state (m004_count m) = irq_state (m004_count n)"
  using assms by (simp add: irq_state_def irq_core_def m004_count_def Let_def)

lemma irq_state_updates [simp]:
  "irq_state (m\<lparr>m_a12LastState := b\<rparr>) = irq_state m" "irq_state (m\<lparr>m_cycleCounter := c\<rparr>) = irq_state m"
  by (simp_all add: irq_state_def irq_core_def)

lemma cycle_frame [simp]:
  "irq_state (m004_cycle m) = irq_state m" "m_a12LastState (m004_cycle m) = m_a12LastState m"
  by (simp_all add: m004_cycle_def)

lemma cycles_frame [simp]:
  "irq_state ((m004_cycle ^^ j) m) = irq_state m"
  "m_a12LastState ((m004_cycle ^^ j) m) = m_a12LastState m"
  by (induction j) simp_all

lemma cycle_counter: "unat (m_cycleCounter (m004_cycle m)) = min (Suc (unat (m_cycleCounter m))) 255"
proof (cases "m_cycleCounter m + 1 = 0")
  case True
  then have "m_cycleCounter m = - 1" by (simp add: add_eq_0_iff2)
  moreover have "(- 1 :: u8) = 255" by simp
  ultimately have "m_cycleCounter m = 255" by simp
  then show ?thesis using True by (simp add: m004_cycle_def)
next
  case False
  then have "unat (m_cycleCounter m + 1) = Suc (unat (m_cycleCounter m))"
    using unatSuc[of "m_cycleCounter m"] by (simp add: add.commute)
  then show ?thesis using False unat_u8_less[of "m_cycleCounter m + 1"]
    by (simp add: m004_cycle_def del: unat_u8_less)
qed

lemma cycles_counter:
  "m_cycleCounter m = 0 \<Longrightarrow> unat (m_cycleCounter ((m004_cycle ^^ j) m)) = min j 255"
  by (induction j) (auto simp: cycle_counter)

text \<open>Address line 12 is low for \<open>j\<close> CPU cycles and rises again.\<close>

definition a12_pulse :: "nat \<Rightarrow> mapper004 \<Rightarrow> mapper004" where
  "a12_pulse j m = m004_setA12State True ((m004_cycle ^^ j) (m004_setA12State False m))"

lemma a12_pulse_effect:
  assumes "m_a12LastState m"
  shows "irq_state (a12_pulse j m) = irq_state (if 3 < j then m004_count m else m)"
    "m_a12LastState (a12_pulse j m)"
proof -
  let ?f = "m004_setA12State False m" and ?n = "(m004_cycle ^^ j) (m004_setA12State False m)"
  have f: "m_cycleCounter ?f = 0" "\<not> m_a12LastState ?f" "irq_state ?f = irq_state m"
    using assms by (simp_all add: m004_setA12State_def)
  have "m_cycleCounter ?n > 3 \<longleftrightarrow> 3 < j"
    using cycles_counter[OF f(1), of j] by (auto simp: word_less_nat_alt)
  moreover have "irq_state (m004_count ?n) = irq_state (m004_count m)"
    by (rule count_state) (simp add: f)
  moreover have "a12_pulse j m =
      (if m_cycleCounter ?n > 3 then m004_count ?n else ?n)\<lparr>m_a12LastState := True\<rparr>"
    unfolding a12_pulse_def m004_setA12State_def[of True] Let_def using f(2) by simp
  ultimately show "irq_state (a12_pulse j m) = irq_state (if 3 < j then m004_count m else m)"
    using f(3) by (cases "3 < j") simp_all
  show "m_a12LastState (a12_pulse j m)" by (simp add: a12_pulse_def m004_setA12State_def Let_def)
qed

lemma a12_pulses:
  "m_a12LastState m \<Longrightarrow> irq_state (fold a12_pulse js m) =
     irq_state ((m004_count ^^ length (filter (\<lambda>j. 3 < j) js)) m)"
proof (induction js arbitrary: m)
  case (Cons j js)
  let ?k = "length (filter (\<lambda>j. 3 < j) js)"
  have eq: "irq_state x = irq_state y \<Longrightarrow> irq_state ((m004_count ^^ k) x) = irq_state ((m004_count ^^ k) y)"
    for k x y by (induction k) (auto intro: count_state)
  have "irq_state (fold a12_pulse (j # js) m) = irq_state ((m004_count ^^ ?k) (a12_pulse j m))"
    using Cons by (simp add: a12_pulse_effect(2))
  also have "\<dots> = irq_state ((m004_count ^^ ?k) (if 3 < j then m004_count m else m))"
    using a12_pulse_effect(1)[OF Cons.prems] by (rule eq)
  finally show ?case by (simp add: funpow_swap1)
qed simp

subsection \<open>The interrupt after a programmed number of scanlines\<close>

lemma counts_after_reload:
  assumes "m_irqClearFlag m" "m_irqCounter m = 0" "m_enableInterrupt m" "\<not> m_interruptFlag m"
  shows "m_interruptFlag ((m004_count ^^ k) m) \<longleftrightarrow> unat (m_reloadValue m) < k"
proof -
  let ?n = "unat (m_reloadValue m)" and ?m1 = "m004_count m"
  have c1: "m_irqCounter ?m1 = m_reloadValue m" "m_enableInterrupt ?m1"
    using assms count_core[of m] by (simp_all add: count_counter irq_core_def)
  have f1: "m_interruptFlag ?m1 \<longleftrightarrow> ?n = 0"
    using assms c1 by (simp add: count_flag unat_eq_0)
  have mono: "m_interruptFlag x \<Longrightarrow> m_interruptFlag ((m004_count ^^ j) x)" for j x
    by (induction j) (simp_all add: count_flag)
  show ?thesis
  proof (cases k)
    case 0
    then show ?thesis using assms(4) by simp
  next
    case (Suc j)
    then have k: "(m004_count ^^ k) m = (m004_count ^^ j) ?m1" by (simp add: funpow_swap1)
    show ?thesis
    proof (cases "j \<le> ?n")
      case True
      then show ?thesis
        using count_run[of ?m1 j] c1 f1 k Suc by auto
    next
      case False
      have "m_interruptFlag ((m004_count ^^ ?n) ?m1)"
        using count_run[of ?m1 ?n] c1 f1 by auto
      then have "m_interruptFlag ((m004_count ^^ (j - ?n)) ((m004_count ^^ ?n) ?m1))" by (rule mono)
      then show ?thesis
        using False Suc k by (simp add: funpow_add[symmetric, THEN fun_cong, simplified comp_apply])
    qed
  qed
qed

text \<open>
  C31: the MMC3 interrupts after the programmed number of scanlines. When a program writes the reload
  value \<open>n\<close>, requests a reload, acknowledges and enables the interrupt (\<open>$C000\<close>, \<open>$C001\<close>,
  \<open>$E000\<close>, \<open>$E001\<close>), the interrupt line rises exactly when address line 12 has risen
  \<open>n + 1\<close> times after being low for more than three CPU cycles, in both revisions of the chip;
  shorter low phases are filtered out.
\<close>
theorem mmc3_scanline_irq:
  assumes "m_a12LastState m"
    "writes m004_writePrg [(0x4000, n), (0x4001, x), (0x6000, y), (0x6001, z)] m = Some m'"
  shows "m_interruptFlag (fold a12_pulse js m') \<longleftrightarrow> unat n < length (filter (\<lambda>j. 3 < j) js)"
proof -
  have m': "m_irqClearFlag m'" "m_irqCounter m' = 0" "m_enableInterrupt m'" "\<not> m_interruptFlag m'"
    "m_a12LastState m'" "m_reloadValue m' = n"
    using assms by (auto simp: m004_writePrg_def)
  show ?thesis
    using a12_pulses[OF m'(5), of js] counts_after_reload[OF m'(1-4)] m'(6)
    by (simp add: irq_state_def)
qed

theorem mmc3_scanline_irq_witness:
  "\<exists>m'. writes m004_writePrg [(0x4000, 2), (0x4001, 0), (0x6000, 0), (0x6001, 0)]
      (m004_init False False None even_cart) = Some m' \<and>
    m_interruptFlag (fold a12_pulse [5, 1, 9, 40] m')"
proof -
  obtain m' where w: "writes m004_writePrg [(0x4000, 2), (0x4001, 0), (0x6000, 0), (0x6001, 0)]
      (m004_init False False None even_cart) = Some m'"
    by (simp add: m004_writePrg_def)
  from mmc3_scanline_irq[OF _ w, of "[5, 1, 9, 40]"] w show ?thesis by (simp add: m004_init_def)
qed

subsection \<open>Accesses stay inside the cartridge\<close>

text \<open>The character memory that the banks select from.\<close>

definition chr_size :: "cart \<Rightarrow> int" where
  "chr_size c = (if c_chrRamSize c > 0 then c_chrRamSize c else c_chrSize c)"

definition m004_fits :: "cart \<Rightarrow> bool" where
  "m004_fits c \<longleftrightarrow> pow2_banks (numberOfPRGBanks c B8K) \<and> 2 \<le> numberOfPRGBanks c B8K \<and>
     pow2_banks (chr_size c div 0x400) \<and> 2 \<le> chr_size c div 0x400"

definition m004_ok :: "mapper004 \<Rightarrow> bool" where
  "m004_ok m \<longleftrightarrow> cart_ok (cd m) \<and> m004_fits (cd m) \<and>
     (if c_chrRamSize (cd m) > 0 then \<exists>ram. chrRam m = Some ram \<and> int (length ram) = c_chrRamSize (cd m)
      else chrRam m = None) \<and>
     m_prgMask m = calculateMask (numberOfPRGBanks (cd m) B8K) \<and>
     m_chrMask m = calculateMask (chr_size (cd m) div 0x400) \<and>
     (\<exists>v. m_prgReg0 m = v AND m_prgMask m) \<and> (\<exists>v. m_prgReg1 m = v AND m_prgMask m)"

lemma m004_ok_init: "cart_ok c \<Longrightarrow> m004_fits c \<Longrightarrow> m004_ok (m004_init a b f c)"
  using self_masked by (simp add: m004_ok_def m004_init_def init_chrRam_def chr_size_def numberOfCHRBanks_def)

lemma m004_ok_write: "m004_ok m \<Longrightarrow> \<exists>m'. m004_writePrg a v m = Some m' \<and> m004_ok m'"
  by (auto simp: m004_writePrg_def Let_def m004_selectBank_def m004_setBank_def m004_protect_def m004_ok_def)

lemma m004_prg_defined:
  assumes "m004_ok m"
  shows "defined (m004_readPrg m a)"
proof -
  let ?n = "numberOfPRGBanks (cd m) B8K"
  have c: "cart_ok (cd m)" and p: "pow2_banks ?n" "2 \<le> ?n"
    using assms by (auto simp: m004_ok_def m004_fits_def)
  have "uint (m_prgReg0 m) < ?n" "uint (m_prgReg1 m) < ?n"
    using assms masked_bank(2)[OF p(1)] by (auto simp: m004_ok_def)
  then show ?thesis
    using p(2) readPrgBank_defined[OF c] by (auto simp: m004_readPrg_def Let_def)
qed

lemma pow2_even: "pow2_banks n \<Longrightarrow> 2 \<le> n \<Longrightarrow> n mod 2 = 0"
proof -
  assume "pow2_banks n" "2 \<le> n"
  then obtain k where "n = 2 ^ k" "(2 :: int) \<le> 2 ^ k" by (auto simp: pow2_banks_def)
  then show ?thesis by (cases k) auto
qed

lemma half_less: "x < n \<Longrightarrow> n mod 2 = 0 \<Longrightarrow> x div 2 < n div (2 :: int)"
  by presburger

text \<open>Both bank sizes address the same memory.\<close>

lemma m004_chr_offset:
  assumes "m004_ok m" "m004_chrBank m a = Some (bs, bank)"
  shows "0 \<le> bank_offset bs bank a" "bank_offset bs bank a < chr_size (cd m)"
proof -
  let ?n = "chr_size (cd m) div 0x400"
  have p: "pow2_banks ?n" "2 \<le> ?n" using assms(1) by (auto simp: m004_ok_def m004_fits_def)
  have r: "uint (x AND m_chrMask m) < ?n" for x
    using masked_bank(2)[OF p(1), of x] assms(1) by (simp add: m004_ok_def)
  have half: "uint (drop_bit 1 (x AND m_chrMask m)) < chr_size (cd m) div 0x800" for x
  proof -
    have "chr_size (cd m) div 0x800 = ?n div 2"
      using zdiv_zmult2_eq[of 2 "chr_size (cd m)" "0x400"] by simp
    moreover have "uint (drop_bit 1 (x AND m_chrMask m)) = uint (x AND m_chrMask m) div 2"
      by (simp add: drop_bit_eq_div uint_div)
    ultimately show ?thesis using half_less[OF r[of x] pow2_even[OF p]] by simp
  qed
  have "0 \<le> bank \<and> bank < chr_size (cd m) div bank_value bs"
    using assms(2) r half by (auto simp: m004_chrBank_def Let_def split: if_splits)
  then show "0 \<le> bank_offset bs bank a" "bank_offset bs bank a < chr_size (cd m)"
    using bank_offset_bounds by auto
qed

lemma m004_chr_defined:
  assumes "m004_ok m"
  shows "defined (m004_readChr m a)"
proof (cases "m004_chrBank m a")
  case (Some p)
  obtain bs bank where p: "p = (bs, bank)" by (cases p)
  note o = m004_chr_offset[OF assms Some[unfolded p]]
  show ?thesis
  proof (cases "c_chrRamSize (cd m) > 0")
    case True
    then obtain ram where "chrRam m = Some ram" "int (length ram) = c_chrRamSize (cd m)"
      using assms by (auto simp: m004_ok_def)
    then show ?thesis using True o
      by (simp add: m004_readChr_def Some p hasChrRam_def readChrRam_def ram_read_def chr_size_def)
  next
    case False
    then have "chrRam m = None" "cart_ok (cd m)" using assms by (simp_all add: m004_ok_def)
    then show ?thesis using False o
      by (simp add: m004_readChr_def Some p hasChrRam_def chr_size_def readChrBank_def cart_ok_def)
  qed
qed (simp add: m004_readChr_def)

interpretation mmc3: banked m004_ok m004_readPrg m004_readChr m004_writePrg
  by unfold_locales (auto simp: m004_ok_write m004_prg_defined m004_chr_defined)

text \<open>
  C32: the MMC3 never reads outside the cartridge, and its character RAM works. With a power of two
  of at least two 8K program and 1K character banks, no sequence of register writes can select a
  bank the cartridge does not have, in either banking mode; and where the character memory is RAM, a
  byte written at an address is read back there.
\<close>
theorem mmc3_safe:
  assumes "cart_ok c" "m004_fits c"
  shows "windows_safe m004_readPrg m004_readChr m004_writePrg (m004_init revA mmc6 f c) \<and>
    (\<forall>ws m a v. in_window ws \<and> writes m004_writePrg ws (m004_init revA mmc6 f c) = Some m \<and>
       c_chrRamSize c > 0 \<and> 0 \<le> a \<and> a < 0x2000 \<longrightarrow>
       (\<exists>m'. m004_writeChr a v m = Some m' \<and> m004_readChr m' a = Some v))"
proof (intro conjI allI impI)
  have ok: "m004_ok (m004_init revA mmc6 f c)" using assms by (rule m004_ok_init)
  then show "windows_safe m004_readPrg m004_readChr m004_writePrg (m004_init revA mmc6 f c)"
    by (simp add: windows_safe_def mmc3.safe)
  have cd_write: "cd m' = cd m" if "m004_writePrg x y m = Some m'" for x y m m'
    using that by (auto simp: m004_writePrg_def Let_def m004_selectBank_def m004_setBank_def
        m004_protect_def split: if_splits)
  have cd_writes: "cd m' = cd m" if "writes m004_writePrg ws m = Some m'" for ws m m'
    using that by (induction ws arbitrary: m) (auto split: Option.bind_splits dest: cd_write)
  fix ws m v and a :: int
  assume h: "in_window ws \<and> writes m004_writePrg ws (m004_init revA mmc6 f c) = Some m \<and>
    c_chrRamSize c > 0 \<and> 0 \<le> a \<and> a < 0x2000"
  then have m: "m004_ok m" "cd m = c"
    using mmc3.writes_ok[OF ok, of ws] cd_writes[of ws _ m] by (auto simp: m004_init_def)
  then obtain ram where ram: "chrRam m = Some ram" "int (length ram) = c_chrRamSize c"
    using h by (auto simp: m004_ok_def)
  have "0 \<le> a div 1024" "a div 1024 < 8" using h by auto
  then have "drop_bit 10 a \<in> {0, 1, 2, 3, 4, 5, 6, 7}"
    unfolding drop_bit_eq_div by (simp add: power_numeral_reduce, linarith)
  then have "m004_chrBank m a \<noteq> None"
    by (cases "m_chrMode m") (auto simp: m004_chrBank_def Let_def)
  then obtain bs bank where b: "m004_chrBank m a = Some (bs, bank)" by auto
  note o = m004_chr_offset[OF m(1) b]
  let ?m = "m\<lparr>chrRam := Some (ram[nat (bank_offset bs bank a) := v])\<rparr>"
  have "m004_writeChr a v m = Some ?m"
    using o h m ram by (simp add: m004_writeChr_def b hasChrRam_def writeChrRam_def ram_write_def chr_size_def)
  moreover have "m004_chrBank ?m a = m004_chrBank m a" by (simp add: m004_chrBank_def Let_def)
  then have "m004_readChr ?m a = Some v"
    using o h m ram b by (simp add: m004_readChr_def hasChrRam_def readChrRam_def ram_read_def chr_size_def)
  ultimately show "\<exists>m'. m004_writeChr a v m = Some m' \<and> m004_readChr m' a = Some v" by blast
qed

theorem mmc3_safe_witness:
  "windows_safe m004_readPrg m004_readChr m004_writePrg (m004_init False False None even_cart)"
proof -
  have "m004_fits even_cart"
    by (auto simp: m004_fits_def pow2_banks_def numberOfPRGBanks_def chr_size_def even_cart_def
        intro: exI[of _ "3 :: nat"] exI[of _ "4 :: nat"])
  with mmc3_safe[OF even_cart_fits(1)] show ?thesis by blast
qed

text \<open>
  The register decoding keeps address bit 12 (\<open>addr &= 0xF001\<close>) although every case label has it
  clear: the upper half of each register range, \<open>$9000-$9FFF\<close> and so on, does nothing.
\<close>

lemma mmc3_ignores_bit12:
  assumes "bit addr 12"
  shows "m004_writePrg addr data m = Some m"
proof -
  have b: "bit (addr AND 0xF001) 12" using assms(1) by (simp add: bit_and_iff)
  have ne: "addr AND 0xF001 \<noteq> v" if "\<not> bit v 12" for v using b that by blast
  have "addr AND 0xF001 \<noteq> 0" "addr AND 0xF001 \<noteq> 1" "addr AND 0xF001 \<noteq> 0x2000"
    "addr AND 0xF001 \<noteq> 0x2001" "addr AND 0xF001 \<noteq> 0x4000" "addr AND 0xF001 \<noteq> 0x4001"
    "addr AND 0xF001 \<noteq> 0x6000" "addr AND 0xF001 \<noteq> 0x6001"
    by (rule ne, simp)+
  then show ?thesis unfolding m004_writePrg_def Let_def by (simp only: if_False)
qed

end
