(* ===== verification/Mappers_Latch.thy ===== *)
theory Mappers_Latch
  imports Mappers_Discrete
begin

text \<open>
  More boards built from discrete logic, one group of definitions per class under
  \<open>src/src/GeraNES/Mappers\<close>: mappers 38, 70, 86, 87, 89, 94, 97, 107, 144, 152, 180, 203, 213 and 240
  mask their bank register and interpret the contract \<open>banked\<close>; mappers 133, 140, 145, 148, 149, 184 and 241
  do not mask it; mapper 101 has no program reads of its own. The archives (\<open>serialization\<close>) stay out.
\<close>

subsection \<open>Mapper 38\<close>

record mapper038 = base_mapper +
  m038_prgBank :: u8
  m038_chrBank :: u8
  m038_prgMask :: u8
  m038_chrMask :: u8

definition m038_init :: "u8 list option \<Rightarrow> cart \<Rightarrow> mapper038" where
  "m038_init saved c = \<lparr>cd = c, chrRam = init_chrRam c, sRam = init_sRam saved c,
     m038_prgBank = 0, m038_chrBank = 0, m038_prgMask = calculateMask (numberOfPRGBanks c B32K),
        m038_chrMask = calculateMask (numberOfCHRBanks c B8K)\<rparr>"

definition m038_writeSaveRam :: "int \<Rightarrow> u8 \<Rightarrow> mapper038 \<Rightarrow> mapper038 option" where
  "m038_writeSaveRam addr v m =
     Some (m\<lparr>m038_prgBank := (v AND 0x03) AND m038_prgMask m,
        m038_chrBank := (drop_bit 2 v AND 0x03) AND m038_chrMask m\<rparr>)"

definition m038_readPrg :: "mapper038 \<Rightarrow> int \<Rightarrow> u8 option" where
  "m038_readPrg m addr = readPrgBank (cd m) B32K (uint (m038_prgBank m)) addr"

definition m038_readChr :: "mapper038 \<Rightarrow> int \<Rightarrow> u8 option" where
  "m038_readChr m addr =
     (if hasChrRam m then base_readChr m addr else readChrBank (cd m) B8K (uint (m038_chrBank m)) addr)"

definition m038_reset :: "mapper038 \<Rightarrow> mapper038" where
  "m038_reset m = m\<lparr>m038_prgBank := 0, m038_chrBank := 0\<rparr>"

subsection \<open>Mapper 70\<close>

record mapper070 = base_mapper +
  m070_prgReg :: u8
  m070_prgRegMask :: u8
  m070_chrReg :: u8
  m070_chrRegMask :: u8

definition m070_init :: "u8 list option \<Rightarrow> cart \<Rightarrow> mapper070" where
  "m070_init saved c = \<lparr>cd = c, chrRam = init_chrRam c, sRam = init_sRam saved c,
     m070_prgReg = 0, m070_prgRegMask = calculateMask (numberOfPRGBanks c B16K), m070_chrReg = 0,
        m070_chrRegMask = calculateMask (numberOfCHRBanks c B8K)\<rparr>"

definition m070_readPrg :: "mapper070 \<Rightarrow> int \<Rightarrow> u8 option" where
  "m070_readPrg m addr =
     (if drop_bit 14 addr = 0 then readPrgBank (cd m) B16K (uint (m070_prgReg m)) addr
      else readPrgBank (cd m) B16K (numberOfPRGBanks (cd m) B16K - 1) addr)"

definition m070_writePrg :: "int \<Rightarrow> u8 \<Rightarrow> mapper070 \<Rightarrow> mapper070 option" where
  "m070_writePrg addr v m = do {
     b \<leftarrow> m070_readPrg m addr;
     let v = v AND b;
     Some (m\<lparr>m070_prgReg := (drop_bit 4 v AND 0x0F) AND m070_prgRegMask m,
        m070_chrReg := (v AND 0x0F) AND m070_chrRegMask m\<rparr>) }"

definition m070_readChr :: "mapper070 \<Rightarrow> int \<Rightarrow> u8 option" where
  "m070_readChr m addr =
     (if hasChrRam m then base_readChr m addr else readChrBank (cd m) B8K (uint (m070_chrReg m)) addr)"

definition m070_reset :: "mapper070 \<Rightarrow> mapper070" where
  "m070_reset m = m\<lparr>m070_prgReg := 0, m070_chrReg := 0\<rparr>"

subsection \<open>Mapper 86\<close>

record mapper086 = base_mapper +
  m086_prgBank :: u8
  m086_chrBank :: u8
  m086_prgMask :: u8
  m086_chrMask :: u8

definition m086_init :: "u8 list option \<Rightarrow> cart \<Rightarrow> mapper086" where
  "m086_init saved c = \<lparr>cd = c, chrRam = init_chrRam c, sRam = init_sRam saved c,
     m086_prgBank = 0, m086_chrBank = 0, m086_prgMask = calculateMask (numberOfPRGBanks c B32K),
        m086_chrMask = calculateMask (numberOfCHRBanks c B8K)\<rparr>"

definition m086_writeSaveRam :: "int \<Rightarrow> u8 \<Rightarrow> mapper086 \<Rightarrow> mapper086 option" where
  "m086_writeSaveRam addr v m =
     (if (addr + 0x6000) AND 0x7000 = 0x6000
      then Some (m\<lparr>m086_prgBank := drop_bit 4 (v AND 0x30) AND m086_prgMask m,
        m086_chrBank := ((v AND 0x03) OR (drop_bit 4 v AND 0x04)) AND m086_chrMask m\<rparr>)
      else Some m)"

definition m086_readPrg :: "mapper086 \<Rightarrow> int \<Rightarrow> u8 option" where
  "m086_readPrg m addr = readPrgBank (cd m) B32K (uint (m086_prgBank m)) addr"

definition m086_readChr :: "mapper086 \<Rightarrow> int \<Rightarrow> u8 option" where
  "m086_readChr m addr =
     (if hasChrRam m then base_readChr m addr else readChrBank (cd m) B8K (uint (m086_chrBank m)) addr)"

definition m086_reset :: "mapper086 \<Rightarrow> mapper086" where
  "m086_reset m = m\<lparr>m086_prgBank := 0, m086_chrBank := 0\<rparr>"

subsection \<open>Mapper 87\<close>

record mapper087 = base_mapper +
  m087_chrReg :: u8
  m087_chrMask :: u8

definition m087_init :: "u8 list option \<Rightarrow> cart \<Rightarrow> mapper087" where
  "m087_init saved c = \<lparr>cd = c, chrRam = init_chrRam c, sRam = init_sRam saved c,
     m087_chrReg = 0, m087_chrMask = calculateMask (numberOfCHRBanks c B8K)\<rparr>"

definition decodeChrBank :: "u8 \<Rightarrow> u8" where
  "decodeChrBank v = push_bit 1 (v AND 0x01) OR (drop_bit 1 v AND 0x01)"

definition m087_readPrg :: "mapper087 \<Rightarrow> int \<Rightarrow> u8 option" where
  "m087_readPrg m addr =
     (if numberOfPRGBanks (cd m) B16K = 1 then readPrgBank (cd m) B16K 0 addr else readPrgBank (cd m) B32K 0 addr)"

definition m087_writeSaveRam :: "int \<Rightarrow> u8 \<Rightarrow> mapper087 \<Rightarrow> mapper087 option" where
  "m087_writeSaveRam addr v m = Some (m\<lparr>m087_chrReg := decodeChrBank v AND m087_chrMask m\<rparr>)"

definition m087_readChr :: "mapper087 \<Rightarrow> int \<Rightarrow> u8 option" where
  "m087_readChr m addr =
     (if hasChrRam m then base_readChr m addr else readChrBank (cd m) B8K (uint (m087_chrReg m)) addr)"

definition m087_reset :: "mapper087 \<Rightarrow> mapper087" where
  "m087_reset m = m\<lparr>m087_chrReg := 0\<rparr>"

subsection \<open>Mapper 89\<close>

record mapper089 = base_mapper +
  m089_prgBank :: u8
  m089_prgMask :: u8
  m089_chrBank :: u8
  m089_chrMask :: u8
  m089_mirroring :: bool

definition m089_init :: "u8 list option \<Rightarrow> cart \<Rightarrow> mapper089" where
  "m089_init saved c = \<lparr>cd = c, chrRam = init_chrRam c, sRam = init_sRam saved c,
     m089_prgBank = 0, m089_prgMask = calculateMask (numberOfPRGBanks c B16K), m089_chrBank = 0,
        m089_chrMask = calculateMask (numberOfCHRBanks c B8K), m089_mirroring = False\<rparr>"

definition m089_readPrg :: "mapper089 \<Rightarrow> int \<Rightarrow> u8 option" where
  "m089_readPrg m addr =
     (if drop_bit 14 addr AND 1 = 0 then readPrgBank (cd m) B16K (uint (m089_prgBank m)) addr
      else readPrgBank (cd m) B16K (numberOfPRGBanks (cd m) B16K - 1) addr)"

definition m089_writePrg :: "int \<Rightarrow> u8 \<Rightarrow> mapper089 \<Rightarrow> mapper089 option" where
  "m089_writePrg addr v m = do {
     b \<leftarrow> m089_readPrg m addr;
     let v = v AND b;
     Some (m\<lparr>m089_prgBank := (drop_bit 4 v AND 0x07) AND m089_prgMask m,
        m089_chrBank := (v AND 0x07) AND m089_chrMask m, m089_mirroring := (v AND 0x08 \<noteq> 0)\<rparr>) }"

definition m089_readChr :: "mapper089 \<Rightarrow> int \<Rightarrow> u8 option" where
  "m089_readChr m addr = readChrBank (cd m) B8K (uint (m089_chrBank m)) addr"

definition m089_mirroringType :: "mapper089 \<Rightarrow> MirroringType" where
  "m089_mirroringType m = (if m089_mirroring m then SINGLE_SCREEN_B else SINGLE_SCREEN_A)"

definition m089_reset :: "mapper089 \<Rightarrow> mapper089" where
  "m089_reset m = m\<lparr>m089_prgBank := 0, m089_chrBank := 0, m089_mirroring := False\<rparr>"

subsection \<open>Mapper 152\<close>

record mapper152 = base_mapper +
  m152_prgBank :: u8
  m152_prgMask :: u8
  m152_chrBank :: u8
  m152_chrMask :: u8
  m152_mirroring :: bool

definition m152_init :: "u8 list option \<Rightarrow> cart \<Rightarrow> mapper152" where
  "m152_init saved c = \<lparr>cd = c, chrRam = init_chrRam c, sRam = init_sRam saved c,
     m152_prgBank = 0, m152_prgMask = calculateMask (numberOfPRGBanks c B16K), m152_chrBank = 0,
        m152_chrMask = calculateMask (numberOfCHRBanks c B8K), m152_mirroring = False\<rparr>"

definition m152_readPrg :: "mapper152 \<Rightarrow> int \<Rightarrow> u8 option" where
  "m152_readPrg m addr =
     (if drop_bit 14 addr AND 1 = 0 then readPrgBank (cd m) B16K (uint (m152_prgBank m)) addr
      else readPrgBank (cd m) B16K (numberOfPRGBanks (cd m) B16K - 1) addr)"

definition m152_writePrg :: "int \<Rightarrow> u8 \<Rightarrow> mapper152 \<Rightarrow> mapper152 option" where
  "m152_writePrg addr v m = do {
     b \<leftarrow> m152_readPrg m addr;
     let v = v AND b;
     Some (m\<lparr>m152_prgBank := (drop_bit 4 v AND 0x07) AND m152_prgMask m,
        m152_chrBank := (v AND 0x0F) AND m152_chrMask m, m152_mirroring := (v AND 0x80 \<noteq> 0)\<rparr>) }"

definition m152_readChr :: "mapper152 \<Rightarrow> int \<Rightarrow> u8 option" where
  "m152_readChr m addr = readChrBank (cd m) B8K (uint (m152_chrBank m)) addr"

definition m152_mirroringType :: "mapper152 \<Rightarrow> MirroringType" where
  "m152_mirroringType m = (if m152_mirroring m then SINGLE_SCREEN_B else SINGLE_SCREEN_A)"

definition m152_reset :: "mapper152 \<Rightarrow> mapper152" where
  "m152_reset m = m\<lparr>m152_prgBank := 0, m152_chrBank := 0, m152_mirroring := False\<rparr>"

subsection \<open>Mapper 94\<close>

record mapper094 = base_mapper +
  m094_prgBank :: u8
  m094_prgMask :: u8

definition m094_init :: "u8 list option \<Rightarrow> cart \<Rightarrow> mapper094" where
  "m094_init saved c = \<lparr>cd = c, chrRam = init_chrRam c, sRam = init_sRam saved c,
     m094_prgBank = 0, m094_prgMask = calculateMask (numberOfPRGBanks c B16K)\<rparr>"

definition m094_readPrg :: "mapper094 \<Rightarrow> int \<Rightarrow> u8 option" where
  "m094_readPrg m addr =
     (if drop_bit 14 addr AND 1 = 0 then readPrgBank (cd m) B16K (uint (m094_prgBank m)) addr
      else readPrgBank (cd m) B16K (numberOfPRGBanks (cd m) B16K - 1) addr)"

definition m094_writePrg :: "int \<Rightarrow> u8 \<Rightarrow> mapper094 \<Rightarrow> mapper094 option" where
  "m094_writePrg addr v m = do {
     b \<leftarrow> m094_readPrg m addr;
     let v = v AND b;
     Some (m\<lparr>m094_prgBank := (drop_bit 2 v AND 0x0F) AND m094_prgMask m\<rparr>) }"

definition m094_reset :: "mapper094 \<Rightarrow> mapper094" where
  "m094_reset m = m\<lparr>m094_prgBank := 0\<rparr>"

subsection \<open>Mapper 97\<close>

record mapper097 = base_mapper +
  m097_prgBank :: u8
  m097_prgMask :: u8
  m097_verticalMirroring :: bool

definition m097_init :: "u8 list option \<Rightarrow> cart \<Rightarrow> mapper097" where
  "m097_init saved c = \<lparr>cd = c, chrRam = init_chrRam c, sRam = init_sRam saved c,
     m097_prgBank = 0, m097_prgMask = calculateMask (numberOfPRGBanks c B16K), m097_verticalMirroring = False\<rparr>"

definition m097_readPrg :: "mapper097 \<Rightarrow> int \<Rightarrow> u8 option" where
  "m097_readPrg m addr =
     (if drop_bit 14 addr AND 1 = 0 then readPrgBank (cd m) B16K (numberOfPRGBanks (cd m) B16K - 1) addr
      else readPrgBank (cd m) B16K (uint (m097_prgBank m)) addr)"

definition m097_writePrg :: "int \<Rightarrow> u8 \<Rightarrow> mapper097 \<Rightarrow> mapper097 option" where
  "m097_writePrg addr v m =
     Some (m\<lparr>m097_prgBank := (v AND 0x1F) AND m097_prgMask m,
        m097_verticalMirroring := (v AND 0x80 \<noteq> 0)\<rparr>)"

definition m097_mirroringType :: "mapper097 \<Rightarrow> MirroringType" where
  "m097_mirroringType m = (if m097_verticalMirroring m then VERTICAL else HORIZONTAL)"

definition m097_reset :: "mapper097 \<Rightarrow> mapper097" where
  "m097_reset m = m\<lparr>m097_prgBank := 0, m097_verticalMirroring := False\<rparr>"

subsection \<open>Mapper 107\<close>

record mapper107 = base_mapper +
  m107_prgBank :: u8
  m107_chrBank :: u8
  m107_prgMask :: u8
  m107_chrMask :: u8

definition m107_init :: "u8 list option \<Rightarrow> cart \<Rightarrow> mapper107" where
  "m107_init saved c = \<lparr>cd = c, chrRam = init_chrRam c, sRam = init_sRam saved c,
     m107_prgBank = 0, m107_chrBank = 0, m107_prgMask = calculateMask (numberOfPRGBanks c B32K),
        m107_chrMask = calculateMask (numberOfCHRBanks c B8K)\<rparr>"

definition m107_writePrg :: "int \<Rightarrow> u8 \<Rightarrow> mapper107 \<Rightarrow> mapper107 option" where
  "m107_writePrg addr v m =
     Some (m\<lparr>m107_prgBank := drop_bit 1 v AND m107_prgMask m, m107_chrBank := v AND m107_chrMask m\<rparr>)"

definition m107_readPrg :: "mapper107 \<Rightarrow> int \<Rightarrow> u8 option" where
  "m107_readPrg m addr = readPrgBank (cd m) B32K (uint (m107_prgBank m)) addr"

definition m107_readChr :: "mapper107 \<Rightarrow> int \<Rightarrow> u8 option" where
  "m107_readChr m addr =
     (if hasChrRam m then base_readChr m addr else readChrBank (cd m) B8K (uint (m107_chrBank m)) addr)"

definition m107_reset :: "mapper107 \<Rightarrow> mapper107" where
  "m107_reset m = m\<lparr>m107_prgBank := 0, m107_chrBank := 0\<rparr>"

subsection \<open>Mapper 144\<close>

record mapper144 = base_mapper +
  m144_prgMask :: u8
  m144_chrMask :: u8
  m144_prgBank :: u8
  m144_chrBank :: u8

definition m144_init :: "u8 list option \<Rightarrow> cart \<Rightarrow> mapper144" where
  "m144_init saved c = \<lparr>cd = c, chrRam = init_chrRam c, sRam = init_sRam saved c,
     m144_prgMask = calculateMask (numberOfPRGBanks c B32K), m144_chrMask = calculateMask (numberOfCHRBanks c B8K),
        m144_prgBank = 0, m144_chrBank = 0\<rparr>"

definition m144_readPrg :: "mapper144 \<Rightarrow> int \<Rightarrow> u8 option" where
  "m144_readPrg m addr = readPrgBank (cd m) B32K (uint (m144_prgBank m)) addr"

definition m144_writePrg :: "int \<Rightarrow> u8 \<Rightarrow> mapper144 \<Rightarrow> mapper144 option" where
  "m144_writePrg addr v m = do {
     romData \<leftarrow> readPrgBank (cd m) B32K (uint (m144_prgBank m)) addr;
     let effective = romData AND (v OR 0x01);
     Some (m\<lparr>m144_prgBank := (effective AND 0x03) AND m144_prgMask m,
        m144_chrBank := (drop_bit 4 effective AND 0x0F) AND m144_chrMask m\<rparr>) }"

definition m144_readChr :: "mapper144 \<Rightarrow> int \<Rightarrow> u8 option" where
  "m144_readChr m addr =
     (if hasChrRam m then base_readChr m addr else readChrBank (cd m) B8K (uint (m144_chrBank m)) addr)"

definition m144_reset :: "mapper144 \<Rightarrow> mapper144" where
  "m144_reset m = m\<lparr>m144_prgBank := 0, m144_chrBank := 0\<rparr>"

subsection \<open>Mapper 180\<close>

record mapper180 = base_mapper +
  m180_prgBank :: u8
  m180_prgMask :: u8

definition m180_init :: "u8 list option \<Rightarrow> cart \<Rightarrow> mapper180" where
  "m180_init saved c = \<lparr>cd = c, chrRam = init_chrRam c, sRam = init_sRam saved c,
     m180_prgBank = 0, m180_prgMask = calculateMask (numberOfPRGBanks c B16K)\<rparr>"

definition m180_readPrg :: "mapper180 \<Rightarrow> int \<Rightarrow> u8 option" where
  "m180_readPrg m addr =
     (if drop_bit 14 addr AND 1 = 0 then readPrgBank (cd m) B16K 0 addr
      else readPrgBank (cd m) B16K (uint (m180_prgBank m)) addr)"

definition m180_writePrg :: "int \<Rightarrow> u8 \<Rightarrow> mapper180 \<Rightarrow> mapper180 option" where
  "m180_writePrg addr v m = do {
     b \<leftarrow> m180_readPrg m addr;
     let v = v AND b;
     Some (m\<lparr>m180_prgBank := (v AND 0x07) AND m180_prgMask m\<rparr>) }"

definition m180_reset :: "mapper180 \<Rightarrow> mapper180" where
  "m180_reset m = m\<lparr>m180_prgBank := 0\<rparr>"

subsection \<open>Mapper 203\<close>

record mapper203 = base_mapper +
  m203_prgBank :: u8
  m203_chrBank :: u8
  m203_prgMask :: u8
  m203_chrMask :: u8

definition m203_init :: "u8 list option \<Rightarrow> cart \<Rightarrow> mapper203" where
  "m203_init saved c = \<lparr>cd = c, chrRam = init_chrRam c, sRam = init_sRam saved c,
     m203_prgBank = 0, m203_chrBank = 0, m203_prgMask = calculateMask (numberOfPRGBanks c B16K),
        m203_chrMask = calculateMask (numberOfCHRBanks c B8K)\<rparr>"

definition m203_writePrg :: "int \<Rightarrow> u8 \<Rightarrow> mapper203 \<Rightarrow> mapper203 option" where
  "m203_writePrg addr v m =
     Some (m\<lparr>m203_prgBank := drop_bit 2 v AND m203_prgMask m,
        m203_chrBank := (v AND 0x03) AND m203_chrMask m\<rparr>)"

definition m203_readPrg :: "mapper203 \<Rightarrow> int \<Rightarrow> u8 option" where
  "m203_readPrg m addr = readPrgBank (cd m) B16K (uint (m203_prgBank m)) addr"

definition m203_readChr :: "mapper203 \<Rightarrow> int \<Rightarrow> u8 option" where
  "m203_readChr m addr =
     (if hasChrRam m then base_readChr m addr else readChrBank (cd m) B8K (uint (m203_chrBank m)) addr)"

definition m203_reset :: "mapper203 \<Rightarrow> mapper203" where
  "m203_reset m = m\<lparr>m203_prgBank := 0, m203_chrBank := 0\<rparr>"

subsection \<open>Mapper 213\<close>

record mapper213 = base_mapper +
  m213_prgBank :: u8
  m213_chrBank :: u8
  m213_prgMask :: u8
  m213_chrMask :: u8

definition m213_init :: "u8 list option \<Rightarrow> cart \<Rightarrow> mapper213" where
  "m213_init saved c = \<lparr>cd = c, chrRam = init_chrRam c, sRam = init_sRam saved c,
     m213_prgBank = 0, m213_chrBank = 0, m213_prgMask = calculateMask (numberOfPRGBanks c B32K),
        m213_chrMask = calculateMask (numberOfCHRBanks c B8K)\<rparr>"

definition m213_writePrg :: "int \<Rightarrow> u8 \<Rightarrow> mapper213 \<Rightarrow> mapper213 option" where
  "m213_writePrg addr v m =
     (let absolute = word_of_int (addr + 0x8000) :: u16
      in Some (m\<lparr>m213_chrBank := ucast (drop_bit 3 absolute AND 0x07) AND m213_chrMask m,
        m213_prgBank := ucast (drop_bit 1 absolute AND 0x03) AND m213_prgMask m\<rparr>))"

definition m213_readPrg :: "mapper213 \<Rightarrow> int \<Rightarrow> u8 option" where
  "m213_readPrg m addr = readPrgBank (cd m) B32K (uint (m213_prgBank m)) addr"

definition m213_readChr :: "mapper213 \<Rightarrow> int \<Rightarrow> u8 option" where
  "m213_readChr m addr =
     (if hasChrRam m then base_readChr m addr else readChrBank (cd m) B8K (uint (m213_chrBank m)) addr)"

definition m213_reset :: "mapper213 \<Rightarrow> mapper213 option" where
  "m213_reset m = m213_writePrg 0 0 (m\<lparr>m213_prgBank := 0, m213_chrBank := 0\<rparr>)"

subsection \<open>Mapper 240\<close>

record mapper240 = base_mapper +
  m240_prgBank :: u8
  m240_chrBank :: u8
  m240_prgMask :: u8
  m240_chrMask :: u8

definition m240_init :: "u8 list option \<Rightarrow> cart \<Rightarrow> mapper240" where
  "m240_init saved c = \<lparr>cd = c, chrRam = init_chrRam c, sRam = init_sRam saved c,
     m240_prgBank = 0, m240_chrBank = 0, m240_prgMask = calculateMask (numberOfPRGBanks c B32K),
        m240_chrMask = calculateMask (numberOfCHRBanks c B8K)\<rparr>"

definition m240_writeMapperRegister :: "int \<Rightarrow> u8 \<Rightarrow> mapper240 \<Rightarrow> mapper240 option" where
  "m240_writeMapperRegister addr v m =
     Some (m\<lparr>m240_prgBank := (drop_bit 4 v AND 0x0F) AND m240_prgMask m,
        m240_chrBank := (v AND 0x0F) AND m240_chrMask m\<rparr>)"

definition m240_readPrg :: "mapper240 \<Rightarrow> int \<Rightarrow> u8 option" where
  "m240_readPrg m addr = readPrgBank (cd m) B32K (uint (m240_prgBank m)) addr"

definition m240_readChr :: "mapper240 \<Rightarrow> int \<Rightarrow> u8 option" where
  "m240_readChr m addr =
     (if hasChrRam m then base_readChr m addr else readChrBank (cd m) B8K (uint (m240_chrBank m)) addr)"

definition m240_reset :: "mapper240 \<Rightarrow> mapper240" where
  "m240_reset m = m\<lparr>m240_prgBank := 0, m240_chrBank := 0\<rparr>"

subsection \<open>Mapper 133\<close>

record mapper133 = base_mapper +
  m133_prgBank :: u8
  m133_chrBank :: u8

definition m133_init :: "u8 list option \<Rightarrow> cart \<Rightarrow> mapper133" where
  "m133_init saved c = \<lparr>cd = c, chrRam = init_chrRam c, sRam = init_sRam saved c,
     m133_prgBank = 0, m133_chrBank = 0\<rparr>"

definition m133_applyValue :: "u8 \<Rightarrow> mapper133 \<Rightarrow> mapper133" where
  "m133_applyValue v m = m\<lparr>m133_prgBank := drop_bit 2 v AND 0x01, m133_chrBank := v AND 0x03\<rparr>"

definition m133_writeMapperRegister :: "int \<Rightarrow> u8 \<Rightarrow> mapper133 \<Rightarrow> mapper133 option" where
  "m133_writeMapperRegister addr v m = Some (if addr AND 0x0100 \<noteq> 0 then m133_applyValue v m else m)"

definition m133_readPrg :: "mapper133 \<Rightarrow> int \<Rightarrow> u8 option" where
  "m133_readPrg m addr = readPrgBank (cd m) B32K (uint (m133_prgBank m)) addr"

definition m133_readChr :: "mapper133 \<Rightarrow> int \<Rightarrow> u8 option" where
  "m133_readChr m addr =
     (if hasChrRam m then base_readChr m addr else readChrBank (cd m) B8K (uint (m133_chrBank m)) addr)"

definition m133_reset :: "mapper133 \<Rightarrow> mapper133" where
  "m133_reset m = m\<lparr>m133_prgBank := 0, m133_chrBank := 0\<rparr>"

subsection \<open>Mapper 140\<close>

record mapper140 = base_mapper +
  m140_prgBank :: u8
  m140_chrBank :: u8

definition m140_init :: "u8 list option \<Rightarrow> cart \<Rightarrow> mapper140" where
  "m140_init saved c = \<lparr>cd = c, chrRam = init_chrRam c, sRam = init_sRam saved c,
     m140_prgBank = 0, m140_chrBank = 0\<rparr>"

definition m140_writeSaveRam :: "int \<Rightarrow> u8 \<Rightarrow> mapper140 \<Rightarrow> mapper140 option" where
  "m140_writeSaveRam addr v m = Some (m\<lparr>m140_prgBank := drop_bit 4 v AND 0x03,
        m140_chrBank := v AND 0x0F\<rparr>)"

definition m140_readPrg :: "mapper140 \<Rightarrow> int \<Rightarrow> u8 option" where
  "m140_readPrg m addr = readPrgBank (cd m) B32K (uint (m140_prgBank m)) addr"

definition m140_readChr :: "mapper140 \<Rightarrow> int \<Rightarrow> u8 option" where
  "m140_readChr m addr =
     (if hasChrRam m then base_readChr m addr else readChrBank (cd m) B8K (uint (m140_chrBank m)) addr)"

definition m140_reset :: "mapper140 \<Rightarrow> mapper140" where
  "m140_reset m = m\<lparr>m140_prgBank := 0, m140_chrBank := 0\<rparr>"

subsection \<open>Mapper 145\<close>

record mapper145 = base_mapper +
  m145_chrBank :: u8

definition m145_init :: "u8 list option \<Rightarrow> cart \<Rightarrow> mapper145" where
  "m145_init saved c = \<lparr>cd = c, chrRam = init_chrRam c, sRam = init_sRam saved c,
     m145_chrBank = 0\<rparr>"

definition m145_applyWrite :: "u16 \<Rightarrow> u8 \<Rightarrow> mapper145 \<Rightarrow> mapper145" where
  "m145_applyWrite absolute v m = (if absolute AND 0x4100 = 0x4100 then m\<lparr>m145_chrBank := drop_bit 7 v AND 0x01\<rparr> else m)"

definition m145_writeMapperRegister :: "int \<Rightarrow> u8 \<Rightarrow> mapper145 \<Rightarrow> mapper145 option" where
  "m145_writeMapperRegister addr v m = Some (m145_applyWrite (word_of_int (addr + 0x4000)) v m)"

definition m145_writeSaveRam :: "int \<Rightarrow> u8 \<Rightarrow> mapper145 \<Rightarrow> mapper145 option" where
  "m145_writeSaveRam addr v m = Some (m145_applyWrite (word_of_int (addr + 0x6000)) v m)"

definition m145_readPrg :: "mapper145 \<Rightarrow> int \<Rightarrow> u8 option" where
  "m145_readPrg m addr = readPrgBank (cd m) B32K 0 addr"

definition m145_readChr :: "mapper145 \<Rightarrow> int \<Rightarrow> u8 option" where
  "m145_readChr m addr =
     (if hasChrRam m then base_readChr m addr else readChrBank (cd m) B8K (uint (m145_chrBank m)) addr)"

definition m145_reset :: "mapper145 \<Rightarrow> mapper145" where
  "m145_reset m = m\<lparr>m145_chrBank := 0\<rparr>"

subsection \<open>Mapper 148\<close>

record mapper148 = base_mapper +
  m148_prgBank :: u8
  m148_chrBank :: u8

definition m148_init :: "u8 list option \<Rightarrow> cart \<Rightarrow> mapper148" where
  "m148_init saved c = \<lparr>cd = c, chrRam = init_chrRam c, sRam = init_sRam saved c,
     m148_prgBank = 0, m148_chrBank = 0\<rparr>"

definition m148_writePrg :: "int \<Rightarrow> u8 \<Rightarrow> mapper148 \<Rightarrow> mapper148 option" where
  "m148_writePrg addr v m = Some (m\<lparr>m148_prgBank := drop_bit 3 v AND 0x01, m148_chrBank := v AND 0x07\<rparr>)"

definition m148_readPrg :: "mapper148 \<Rightarrow> int \<Rightarrow> u8 option" where
  "m148_readPrg m addr = readPrgBank (cd m) B32K (uint (m148_prgBank m)) addr"

definition m148_readChr :: "mapper148 \<Rightarrow> int \<Rightarrow> u8 option" where
  "m148_readChr m addr =
     (if hasChrRam m then base_readChr m addr else readChrBank (cd m) B8K (uint (m148_chrBank m)) addr)"

definition m148_reset :: "mapper148 \<Rightarrow> mapper148" where
  "m148_reset m = m\<lparr>m148_prgBank := 0, m148_chrBank := 0\<rparr>"

subsection \<open>Mapper 149\<close>

record mapper149 = base_mapper +
  m149_chrBank :: u8

definition m149_init :: "u8 list option \<Rightarrow> cart \<Rightarrow> mapper149" where
  "m149_init saved c = \<lparr>cd = c, chrRam = init_chrRam c, sRam = init_sRam saved c,
     m149_chrBank = 0\<rparr>"

definition m149_writePrg :: "int \<Rightarrow> u8 \<Rightarrow> mapper149 \<Rightarrow> mapper149 option" where
  "m149_writePrg addr v m = Some (m\<lparr>m149_chrBank := drop_bit 7 v AND 0x01\<rparr>)"

definition m149_readPrg :: "mapper149 \<Rightarrow> int \<Rightarrow> u8 option" where
  "m149_readPrg m addr = readPrgBank (cd m) B32K 0 addr"

definition m149_readChr :: "mapper149 \<Rightarrow> int \<Rightarrow> u8 option" where
  "m149_readChr m addr =
     (if hasChrRam m then base_readChr m addr else readChrBank (cd m) B8K (uint (m149_chrBank m)) addr)"

definition m149_reset :: "mapper149 \<Rightarrow> mapper149" where
  "m149_reset m = m\<lparr>m149_chrBank := 0\<rparr>"

subsection \<open>Mapper 184\<close>

record mapper184 = base_mapper +
  m184_chrBankLow :: u8
  m184_chrBankHigh :: u8

definition m184_init :: "u8 list option \<Rightarrow> cart \<Rightarrow> mapper184" where
  "m184_init saved c = \<lparr>cd = c, chrRam = init_chrRam c, sRam = init_sRam saved c,
     m184_chrBankLow = 0, m184_chrBankHigh = 0x80\<rparr>"

definition m184_writeMapperRegister :: "int \<Rightarrow> u8 \<Rightarrow> mapper184 \<Rightarrow> mapper184 option" where
  "m184_writeMapperRegister addr v m =
     Some (m\<lparr>m184_chrBankLow := v AND 0x07, m184_chrBankHigh := 0x80 OR (drop_bit 4 v AND 0x07)\<rparr>)"

definition m184_readPrg :: "mapper184 \<Rightarrow> int \<Rightarrow> u8 option" where
  "m184_readPrg m addr = readPrgBank (cd m) B32K 0 addr"

definition m184_readChr :: "mapper184 \<Rightarrow> int \<Rightarrow> u8 option" where
  "m184_readChr m addr =
     (if hasChrRam m then base_readChr m addr
      else if addr < 0x1000 then readChrBank (cd m) B4K (uint (m184_chrBankLow m)) addr
      else readChrBank (cd m) B4K (uint (m184_chrBankHigh m)) addr)"

definition m184_reset :: "mapper184 \<Rightarrow> mapper184" where
  "m184_reset m = m\<lparr>m184_chrBankLow := 0, m184_chrBankHigh := 0x80\<rparr>"

subsection \<open>Mapper 241\<close>

record mapper241 = base_mapper +
  m241_prgBank :: u8

definition m241_init :: "u8 list option \<Rightarrow> cart \<Rightarrow> mapper241" where
  "m241_init saved c = \<lparr>cd = c, chrRam = init_chrRam c, sRam = init_sRam saved c,
     m241_prgBank = 0\<rparr>"

definition m241_writePrg :: "int \<Rightarrow> u8 \<Rightarrow> mapper241 \<Rightarrow> mapper241 option" where
  "m241_writePrg addr v m = Some (m\<lparr>m241_prgBank := v\<rparr>)"

definition m241_readPrg :: "mapper241 \<Rightarrow> int \<Rightarrow> u8 option" where
  "m241_readPrg m addr = readPrgBank (cd m) B32K (uint (m241_prgBank m)) addr"

definition m241_readChr :: "mapper241 \<Rightarrow> int \<Rightarrow> u8 option" where
  "m241_readChr m addr = (if hasChrRam m then base_readChr m addr else readChrBank (cd m) B8K 0 addr)"

definition m241_reset :: "mapper241 \<Rightarrow> mapper241" where
  "m241_reset m = m\<lparr>m241_prgBank := 0\<rparr>"

subsection \<open>Mapper 101\<close>

record mapper101 = base_mapper +
  m101_chrBank :: u8
  m101_chrMask :: u8

definition m101_init :: "u8 list option \<Rightarrow> cart \<Rightarrow> mapper101" where
  "m101_init saved c = \<lparr>cd = c, chrRam = init_chrRam c, sRam = init_sRam saved c,
     m101_chrBank = 0, m101_chrMask = calculateMask (numberOfCHRBanks c B8K)\<rparr>"

definition m101_writeSaveRam :: "int \<Rightarrow> u8 \<Rightarrow> mapper101 \<Rightarrow> mapper101 option" where
  "m101_writeSaveRam addr v m = Some (m\<lparr>m101_chrBank := v AND m101_chrMask m\<rparr>)"

definition m101_readChr :: "mapper101 \<Rightarrow> int \<Rightarrow> u8 option" where
  "m101_readChr m addr = readChrBank (cd m) B8K (uint (m101_chrBank m)) addr"

definition m101_reset :: "mapper101 \<Rightarrow> mapper101" where
  "m101_reset m = m\<lparr>m101_chrBank := 0\<rparr>"

text \<open>\<open>BaseMapper::readPrg\<close>, for the class that does not override it.\<close>

definition base_readPrg :: "'a base_mapper_scheme \<Rightarrow> int \<Rightarrow> u8 option" where
  "base_readPrg m addr = Some 0"

subsection \<open>Every access of a masked board stays inside the memories\<close>

text \<open>A bank register that is masked to the number of banks.\<close>

definition prg_latch :: "cart \<Rightarrow> BankSize \<Rightarrow> u8 \<Rightarrow> u8 \<Rightarrow> bool" where
  "prg_latch c bs bank k \<longleftrightarrow> pow2_banks (numberOfPRGBanks c bs) \<and> k = calculateMask (numberOfPRGBanks c bs) \<and>
     (\<exists>v. bank = v AND k)"

definition chr_latch :: "cart \<Rightarrow> u8 \<Rightarrow> u8 \<Rightarrow> bool" where
  "chr_latch c bank k \<longleftrightarrow> chr_fits c \<and> k = calculateMask (numberOfCHRBanks c B8K) \<and> (\<exists>v. bank = v AND k)"

definition m038_ok :: "mapper038 \<Rightarrow> bool" where
  "m038_ok m \<longleftrightarrow> base_ok m \<and>
     prg_latch (cd m) B32K (m038_prgBank m) (m038_prgMask m) \<and>
     chr_latch (cd m) (m038_chrBank m) (m038_chrMask m)"

definition m070_ok :: "mapper070 \<Rightarrow> bool" where
  "m070_ok m \<longleftrightarrow> base_ok m \<and>
     prg_latch (cd m) B16K (m070_prgReg m) (m070_prgRegMask m) \<and>
     chr_latch (cd m) (m070_chrReg m) (m070_chrRegMask m)"

definition m086_ok :: "mapper086 \<Rightarrow> bool" where
  "m086_ok m \<longleftrightarrow> base_ok m \<and>
     prg_latch (cd m) B32K (m086_prgBank m) (m086_prgMask m) \<and>
     chr_latch (cd m) (m086_chrBank m) (m086_chrMask m)"

definition m087_ok :: "mapper087 \<Rightarrow> bool" where
  "m087_ok m \<longleftrightarrow> base_ok m \<and>
     0 < numberOfPRGBanks (cd m) B16K \<and>
     chr_latch (cd m) (m087_chrReg m) (m087_chrMask m)"

definition m089_ok :: "mapper089 \<Rightarrow> bool" where
  "m089_ok m \<longleftrightarrow> base_ok m \<and>
     prg_latch (cd m) B16K (m089_prgBank m) (m089_prgMask m) \<and>
     chr_latch (cd m) (m089_chrBank m) (m089_chrMask m) \<and> c_chrRamSize (cd m) \<le> 0"

definition m094_ok :: "mapper094 \<Rightarrow> bool" where
  "m094_ok m \<longleftrightarrow> base_ok m \<and>
     prg_latch (cd m) B16K (m094_prgBank m) (m094_prgMask m)"

definition m097_ok :: "mapper097 \<Rightarrow> bool" where
  "m097_ok m \<longleftrightarrow> base_ok m \<and>
     prg_latch (cd m) B16K (m097_prgBank m) (m097_prgMask m)"

definition m107_ok :: "mapper107 \<Rightarrow> bool" where
  "m107_ok m \<longleftrightarrow> base_ok m \<and>
     prg_latch (cd m) B32K (m107_prgBank m) (m107_prgMask m) \<and>
     chr_latch (cd m) (m107_chrBank m) (m107_chrMask m)"

definition m144_ok :: "mapper144 \<Rightarrow> bool" where
  "m144_ok m \<longleftrightarrow> base_ok m \<and>
     prg_latch (cd m) B32K (m144_prgBank m) (m144_prgMask m) \<and>
     chr_latch (cd m) (m144_chrBank m) (m144_chrMask m)"

definition m152_ok :: "mapper152 \<Rightarrow> bool" where
  "m152_ok m \<longleftrightarrow> base_ok m \<and>
     prg_latch (cd m) B16K (m152_prgBank m) (m152_prgMask m) \<and>
     chr_latch (cd m) (m152_chrBank m) (m152_chrMask m) \<and> c_chrRamSize (cd m) \<le> 0"

definition m180_ok :: "mapper180 \<Rightarrow> bool" where
  "m180_ok m \<longleftrightarrow> base_ok m \<and>
     prg_latch (cd m) B16K (m180_prgBank m) (m180_prgMask m)"

definition m203_ok :: "mapper203 \<Rightarrow> bool" where
  "m203_ok m \<longleftrightarrow> base_ok m \<and>
     prg_latch (cd m) B16K (m203_prgBank m) (m203_prgMask m) \<and>
     chr_latch (cd m) (m203_chrBank m) (m203_chrMask m)"

definition m213_ok :: "mapper213 \<Rightarrow> bool" where
  "m213_ok m \<longleftrightarrow> base_ok m \<and>
     prg_latch (cd m) B32K (m213_prgBank m) (m213_prgMask m) \<and>
     chr_latch (cd m) (m213_chrBank m) (m213_chrMask m)"

definition m240_ok :: "mapper240 \<Rightarrow> bool" where
  "m240_ok m \<longleftrightarrow> base_ok m \<and>
     prg_latch (cd m) B32K (m240_prgBank m) (m240_prgMask m) \<and>
     chr_latch (cd m) (m240_chrBank m) (m240_chrMask m)"

lemma latch_masked:
  "prg_latch c bs b k \<Longrightarrow> prg_latch c bs (x AND k) k" "chr_latch c b k \<Longrightarrow> chr_latch c (x AND k) k"
  by (auto simp: prg_latch_def chr_latch_def)

lemma latch_prg:
  assumes "base_ok m" "prg_latch (cd m) bs b k"
  shows "defined (readPrgBank (cd m) bs (uint b) a)" "defined (readPrgBank (cd m) bs (numberOfPRGBanks (cd m) bs - 1) a)"
    "defined (readPrgBank (cd m) bs 0 a)"
  using assms masked_prg[of m bs _ a] last_prg[of m bs a] pow2_pos[of "numberOfPRGBanks (cd m) bs"]
  by (auto simp: prg_latch_def)

lemma latch_chr:
  assumes "base_ok m" "chr_latch (cd m) b k"
  shows "defined (if hasChrRam m then base_readChr m a else readChrBank (cd m) B8K (uint b) a')"
  using chr_window[OF assms(1), of b _ a a'] assms(2) by (auto simp: chr_latch_def)

lemma latch_chr_rom:
  assumes "base_ok m" "chr_latch (cd m) b k" "c_chrRamSize (cd m) \<le> 0"
  shows "defined (readChrBank (cd m) B8K (uint b) a)"
proof -
  have "pow2_banks (numberOfCHRBanks (cd m) B8K)" using assms(2,3) by (simp add: chr_latch_def chr_fits_def)
  from masked_bank[OF this] show ?thesis
    using assms(2) readChrBank_defined[OF base_ok_cart[OF assms(1)]] by (auto simp: chr_latch_def)
qed

text \<open>One 16K bank, or the first 32K.\<close>

lemma fixed_prg:
  assumes "base_ok m" "0 < numberOfPRGBanks (cd m) B16K" "numberOfPRGBanks (cd m) B16K \<noteq> 1"
  shows "defined (readPrgBank (cd m) B32K 0 a)"
proof -
  have "2 \<le> c_prgSize (cd m) div 0x4000" using assms(2,3) by (simp add: numberOfPRGBanks_def)
  then have "0 < c_prgSize (cd m) div 0x8000" by linarith
  then show ?thesis using readPrgBank_defined[OF base_ok_cart[OF assms(1)], of 0 B32K a] by (simp add: numberOfPRGBanks_def)
qed

lemma latch_base [simp]:
  "base_ok (l038\<lparr>m038_prgBank := x1_0, m038_chrBank := x1_1\<rparr>) = base_ok l038"
  "base_ok (l070\<lparr>m070_prgReg := x2_0, m070_chrReg := x2_1\<rparr>) = base_ok l070"
  "base_ok (l086\<lparr>m086_prgBank := x3_0, m086_chrBank := x3_1\<rparr>) = base_ok l086"
  "base_ok (l087\<lparr>m087_chrReg := x4_0\<rparr>) = base_ok l087"
  "base_ok (l089\<lparr>m089_prgBank := x5_0, m089_chrBank := x5_1, m089_mirroring := x5_2\<rparr>) = base_ok l089"
  "base_ok (l094\<lparr>m094_prgBank := x6_0\<rparr>) = base_ok l094"
  "base_ok (l097\<lparr>m097_prgBank := x7_0, m097_verticalMirroring := x7_1\<rparr>) = base_ok l097"
  "base_ok (l107\<lparr>m107_prgBank := x8_0, m107_chrBank := x8_1\<rparr>) = base_ok l107"
  "base_ok (l144\<lparr>m144_prgBank := x9_0, m144_chrBank := x9_1\<rparr>) = base_ok l144"
  "base_ok (l152\<lparr>m152_prgBank := x10_0, m152_chrBank := x10_1, m152_mirroring := x10_2\<rparr>) = base_ok l152"
  "base_ok (l180\<lparr>m180_prgBank := x11_0\<rparr>) = base_ok l180"
  "base_ok (l203\<lparr>m203_prgBank := x12_0, m203_chrBank := x12_1\<rparr>) = base_ok l203"
  "base_ok (l213\<lparr>m213_chrBank := x13_0, m213_prgBank := x13_1\<rparr>) = base_ok l213"
  "base_ok (l240\<lparr>m240_prgBank := x14_0, m240_chrBank := x14_1\<rparr>) = base_ok l240"
  by (simp_all add: base_ok_def split: option.split)

interpretation board038: banked m038_ok m038_readPrg m038_readChr m038_writeSaveRam
proof
  fix m :: mapper038 and a :: int and v :: u8
  assume ok: "m038_ok m"
  have prg: "defined (m038_readPrg m b)" for b
    using ok latch_prg[of m B32K "m038_prgBank m" _ b] by (auto simp: m038_readPrg_def m038_ok_def)
  then show "defined (m038_readPrg m a)" .
  show "\<exists>m'. m038_writeSaveRam a v m = Some m' \<and> m038_ok m'"
    using ok by (auto simp: m038_writeSaveRam_def m038_ok_def Let_def latch_masked)
  show "defined (m038_readChr m a)"
    unfolding m038_readChr_def using ok by (auto simp: m038_ok_def split del: if_split intro: latch_chr)
qed

interpretation board070: banked m070_ok m070_readPrg m070_readChr m070_writePrg
proof
  fix m :: mapper070 and a :: int and v :: u8
  assume ok: "m070_ok m"
  have prg: "defined (m070_readPrg m b)" for b
    using ok latch_prg[of m B16K "m070_prgReg m" _ b] by (auto simp: m070_readPrg_def m070_ok_def)
  then show "defined (m070_readPrg m a)" .
  show "\<exists>m'. m070_writePrg a v m = Some m' \<and> m070_ok m'"
    using ok prg[of a] by (auto simp: m070_writePrg_def m070_ok_def Let_def latch_masked elim!: definedE)
  show "defined (m070_readChr m a)"
    unfolding m070_readChr_def using ok by (auto simp: m070_ok_def split del: if_split intro: latch_chr)
qed

interpretation board086: banked m086_ok m086_readPrg m086_readChr m086_writeSaveRam
proof
  fix m :: mapper086 and a :: int and v :: u8
  assume ok: "m086_ok m"
  have prg: "defined (m086_readPrg m b)" for b
    using ok latch_prg[of m B32K "m086_prgBank m" _ b] by (auto simp: m086_readPrg_def m086_ok_def)
  then show "defined (m086_readPrg m a)" .
  show "\<exists>m'. m086_writeSaveRam a v m = Some m' \<and> m086_ok m'"
    using ok by (auto simp: m086_writeSaveRam_def m086_ok_def Let_def latch_masked)
  show "defined (m086_readChr m a)"
    unfolding m086_readChr_def using ok by (auto simp: m086_ok_def split del: if_split intro: latch_chr)
qed

interpretation board087: banked m087_ok m087_readPrg m087_readChr m087_writeSaveRam
proof
  fix m :: mapper087 and a :: int and v :: u8
  assume ok: "m087_ok m"
  have "0 < numberOfPRGBanks (cd m) B16K" using ok by (simp add: m087_ok_def)
  then show "defined (m087_readPrg m a)"
    using ok fixed_prg[of m a] last_prg(2)[of m B16K a] by (auto simp: m087_readPrg_def m087_ok_def)
  show "\<exists>m'. m087_writeSaveRam a v m = Some m' \<and> m087_ok m'"
    using ok by (auto simp: m087_writeSaveRam_def m087_ok_def Let_def latch_masked)
  show "defined (m087_readChr m a)"
    unfolding m087_readChr_def using ok by (auto simp: m087_ok_def split del: if_split intro: latch_chr)
qed

interpretation board089: banked m089_ok m089_readPrg m089_readChr m089_writePrg
proof
  fix m :: mapper089 and a :: int and v :: u8
  assume ok: "m089_ok m"
  have prg: "defined (m089_readPrg m b)" for b
    using ok latch_prg[of m B16K "m089_prgBank m" _ b] by (auto simp: m089_readPrg_def m089_ok_def)
  then show "defined (m089_readPrg m a)" .
  show "\<exists>m'. m089_writePrg a v m = Some m' \<and> m089_ok m'"
    using ok prg[of a] by (auto simp: m089_writePrg_def m089_ok_def Let_def latch_masked elim!: definedE)
  show "defined (m089_readChr m a)"
    using ok latch_chr_rom[of m "m089_chrBank m" _ a] by (auto simp: m089_readChr_def m089_ok_def)
qed

interpretation board094: banked m094_ok m094_readPrg base_readChr m094_writePrg
proof
  fix m :: mapper094 and a :: int and v :: u8
  assume ok: "m094_ok m"
  have prg: "defined (m094_readPrg m b)" for b
    using ok latch_prg[of m B16K "m094_prgBank m" _ b] by (auto simp: m094_readPrg_def m094_ok_def)
  then show "defined (m094_readPrg m a)" .
  show "\<exists>m'. m094_writePrg a v m = Some m' \<and> m094_ok m'"
    using ok prg[of a] by (auto simp: m094_writePrg_def m094_ok_def Let_def latch_masked elim!: definedE)
  show "defined (base_readChr m a)" using ok by (simp add: m094_ok_def base_readChr_defined)
qed

interpretation board097: banked m097_ok m097_readPrg base_readChr m097_writePrg
proof
  fix m :: mapper097 and a :: int and v :: u8
  assume ok: "m097_ok m"
  have prg: "defined (m097_readPrg m b)" for b
    using ok latch_prg[of m B16K "m097_prgBank m" _ b] by (auto simp: m097_readPrg_def m097_ok_def)
  then show "defined (m097_readPrg m a)" .
  show "\<exists>m'. m097_writePrg a v m = Some m' \<and> m097_ok m'"
    using ok by (auto simp: m097_writePrg_def m097_ok_def Let_def latch_masked)
  show "defined (base_readChr m a)" using ok by (simp add: m097_ok_def base_readChr_defined)
qed

interpretation board107: banked m107_ok m107_readPrg m107_readChr m107_writePrg
proof
  fix m :: mapper107 and a :: int and v :: u8
  assume ok: "m107_ok m"
  have prg: "defined (m107_readPrg m b)" for b
    using ok latch_prg[of m B32K "m107_prgBank m" _ b] by (auto simp: m107_readPrg_def m107_ok_def)
  then show "defined (m107_readPrg m a)" .
  show "\<exists>m'. m107_writePrg a v m = Some m' \<and> m107_ok m'"
    using ok by (auto simp: m107_writePrg_def m107_ok_def Let_def latch_masked)
  show "defined (m107_readChr m a)"
    unfolding m107_readChr_def using ok by (auto simp: m107_ok_def split del: if_split intro: latch_chr)
qed

interpretation board144: banked m144_ok m144_readPrg m144_readChr m144_writePrg
proof
  fix m :: mapper144 and a :: int and v :: u8
  assume ok: "m144_ok m"
  have prg: "defined (m144_readPrg m b)" for b
    using ok latch_prg[of m B32K "m144_prgBank m" _ b] by (auto simp: m144_readPrg_def m144_ok_def)
  then show "defined (m144_readPrg m a)" .
  show "\<exists>m'. m144_writePrg a v m = Some m' \<and> m144_ok m'"
    using ok prg[of a] by (auto simp: m144_writePrg_def m144_ok_def m144_readPrg_def Let_def latch_masked elim!: definedE)
  show "defined (m144_readChr m a)"
    unfolding m144_readChr_def using ok by (auto simp: m144_ok_def split del: if_split intro: latch_chr)
qed

interpretation board152: banked m152_ok m152_readPrg m152_readChr m152_writePrg
proof
  fix m :: mapper152 and a :: int and v :: u8
  assume ok: "m152_ok m"
  have prg: "defined (m152_readPrg m b)" for b
    using ok latch_prg[of m B16K "m152_prgBank m" _ b] by (auto simp: m152_readPrg_def m152_ok_def)
  then show "defined (m152_readPrg m a)" .
  show "\<exists>m'. m152_writePrg a v m = Some m' \<and> m152_ok m'"
    using ok prg[of a] by (auto simp: m152_writePrg_def m152_ok_def Let_def latch_masked elim!: definedE)
  show "defined (m152_readChr m a)"
    using ok latch_chr_rom[of m "m152_chrBank m" _ a] by (auto simp: m152_readChr_def m152_ok_def)
qed

interpretation board180: banked m180_ok m180_readPrg base_readChr m180_writePrg
proof
  fix m :: mapper180 and a :: int and v :: u8
  assume ok: "m180_ok m"
  have prg: "defined (m180_readPrg m b)" for b
    using ok latch_prg[of m B16K "m180_prgBank m" _ b] by (auto simp: m180_readPrg_def m180_ok_def)
  then show "defined (m180_readPrg m a)" .
  show "\<exists>m'. m180_writePrg a v m = Some m' \<and> m180_ok m'"
    using ok prg[of a] by (auto simp: m180_writePrg_def m180_ok_def Let_def latch_masked elim!: definedE)
  show "defined (base_readChr m a)" using ok by (simp add: m180_ok_def base_readChr_defined)
qed

interpretation board203: banked m203_ok m203_readPrg m203_readChr m203_writePrg
proof
  fix m :: mapper203 and a :: int and v :: u8
  assume ok: "m203_ok m"
  have prg: "defined (m203_readPrg m b)" for b
    using ok latch_prg[of m B16K "m203_prgBank m" _ b] by (auto simp: m203_readPrg_def m203_ok_def)
  then show "defined (m203_readPrg m a)" .
  show "\<exists>m'. m203_writePrg a v m = Some m' \<and> m203_ok m'"
    using ok by (auto simp: m203_writePrg_def m203_ok_def Let_def latch_masked)
  show "defined (m203_readChr m a)"
    unfolding m203_readChr_def using ok by (auto simp: m203_ok_def split del: if_split intro: latch_chr)
qed

interpretation board213: banked m213_ok m213_readPrg m213_readChr m213_writePrg
proof
  fix m :: mapper213 and a :: int and v :: u8
  assume ok: "m213_ok m"
  have prg: "defined (m213_readPrg m b)" for b
    using ok latch_prg[of m B32K "m213_prgBank m" _ b] by (auto simp: m213_readPrg_def m213_ok_def)
  then show "defined (m213_readPrg m a)" .
  show "\<exists>m'. m213_writePrg a v m = Some m' \<and> m213_ok m'"
    using ok by (auto simp: m213_writePrg_def m213_ok_def Let_def latch_masked)
  show "defined (m213_readChr m a)"
    unfolding m213_readChr_def using ok by (auto simp: m213_ok_def split del: if_split intro: latch_chr)
qed

interpretation board240: banked m240_ok m240_readPrg m240_readChr m240_writeMapperRegister
proof
  fix m :: mapper240 and a :: int and v :: u8
  assume ok: "m240_ok m"
  have prg: "defined (m240_readPrg m b)" for b
    using ok latch_prg[of m B32K "m240_prgBank m" _ b] by (auto simp: m240_readPrg_def m240_ok_def)
  then show "defined (m240_readPrg m a)" .
  show "\<exists>m'. m240_writeMapperRegister a v m = Some m' \<and> m240_ok m'"
    using ok by (auto simp: m240_writeMapperRegister_def m240_ok_def Let_def latch_masked)
  show "defined (m240_readChr m a)"
    unfolding m240_readChr_def using ok by (auto simp: m240_ok_def split del: if_split intro: latch_chr)
qed

subsection \<open>Boards without masks\<close>

text \<open>A bank behind the end of the file.\<close>

lemma beyond_prg:
  assumes "ines_open rom = Inr c" "c_chrSize c = 0" "c_prgSize c \<le> bank * bank_value bs"
  shows "readPrgBank c bs bank a = None"
proof -
  note o = ines_openD[OF assms(1)]
  have "int (length rom) \<le> PRGStartIndex rom + bank * bank_value bs"
    using o(4,5) assms(2,3) by (simp add: o(1) ines_cart_def)
  moreover have "0 \<le> a mod bank_value bs" by (cases bs) simp_all
  ultimately have "\<not> PRGStartIndex rom + (bank * bank_value bs + a mod bank_value bs) < int (length rom)" by linarith
  then show ?thesis by (simp add: readPrgBank_def bank_offset_eq o(1) ines_cart_def rom_data_def)
qed

lemma beyond_chr:
  assumes "ines_open rom = Inr c" "c_chrSize c \<le> bank * bank_value bs"
  shows "readChrBank c bs bank a = None"
proof -
  note o = ines_openD[OF assms(1)]
  have "int (length rom) \<le> CHRStartIndex rom + bank * bank_value bs"
    using o(4,5) assms(2) by (simp add: o(1) ines_cart_def)
  moreover have "0 \<le> a mod bank_value bs" by (cases bs) simp_all
  ultimately have "\<not> CHRStartIndex rom + (bank * bank_value bs + a mod bank_value bs) < int (length rom)" by linarith
  then show ?thesis by (simp add: readChrBank_def bank_offset_eq o(1) ines_cart_def rom_data_def)
qed

definition high_bank :: "cart \<Rightarrow> mapper184 \<Rightarrow> bool" where
  "high_bank c m \<longleftrightarrow> cd m = c \<and> chrRam m = init_chrRam c \<and> (\<exists>x. m184_chrBankHigh m = 0x80 OR x)"

lemma high_bank_writes: "high_bank c m \<Longrightarrow> writes m184_writeMapperRegister ws m = Some m' \<Longrightarrow> high_bank c m'"
proof (induction ws arbitrary: m)
  case (Cons w ws)
  obtain a v where w: "w = (a, v)" by (cases w)
  let ?m = "m\<lparr>m184_chrBankLow := v AND 0x07, m184_chrBankHigh := 0x80 OR (drop_bit 4 v AND 0x07)\<rparr>"
  have "high_bank c ?m" using Cons.prems(1) by (auto simp: high_bank_def)
  then show ?case using Cons.IH[of ?m] Cons.prems(2) by (simp add: w m184_writeMapperRegister_def)
qed simp

lemma latch_start:
  "pow2_banks (numberOfPRGBanks c bs) \<Longrightarrow> prg_latch c bs 0 (calculateMask (numberOfPRGBanks c bs))"
  "chr_fits c \<Longrightarrow> chr_latch c 0 (calculateMask (numberOfCHRBanks c B8K))"
  using self_masked by (auto simp: prg_latch_def chr_latch_def)

subsection \<open>Properties\<close>

lemma boards_16K:
  assumes "cart_ok c" "chr_fits c" "pow2_banks (numberOfPRGBanks c B16K)"
  shows "windows_safe m070_readPrg m070_readChr m070_writePrg (m070_init f c)"
    "windows_safe m094_readPrg base_readChr m094_writePrg (m094_init f c)"
    "windows_safe m097_readPrg base_readChr m097_writePrg (m097_init f c)"
    "windows_safe m180_readPrg base_readChr m180_writePrg (m180_init f c)"
    "windows_safe m203_readPrg m203_readChr m203_writePrg (m203_init f c)"
    "c_chrRamSize c \<le> 0 \<Longrightarrow> windows_safe m089_readPrg m089_readChr m089_writePrg (m089_init f c)"
    "c_chrRamSize c \<le> 0 \<Longrightarrow> windows_safe m152_readPrg m152_readChr m152_writePrg (m152_init f c)"
proof -
  note b = fits_base[OF assms(1,2)]
  have "m070_ok (m070_init f c)" using assms by (simp add: m070_ok_def m070_init_def b latch_start)
  then show "windows_safe m070_readPrg m070_readChr m070_writePrg (m070_init f c)"
    by (simp add: windows_safe_def board070.safe)
  have "m094_ok (m094_init f c)" using assms by (simp add: m094_ok_def m094_init_def b latch_start)
  then show "windows_safe m094_readPrg base_readChr m094_writePrg (m094_init f c)"
    by (simp add: windows_safe_def board094.safe)
  have "m097_ok (m097_init f c)" using assms by (simp add: m097_ok_def m097_init_def b latch_start)
  then show "windows_safe m097_readPrg base_readChr m097_writePrg (m097_init f c)"
    by (simp add: windows_safe_def board097.safe)
  have "m180_ok (m180_init f c)" using assms by (simp add: m180_ok_def m180_init_def b latch_start)
  then show "windows_safe m180_readPrg base_readChr m180_writePrg (m180_init f c)"
    by (simp add: windows_safe_def board180.safe)
  have "m203_ok (m203_init f c)" using assms by (simp add: m203_ok_def m203_init_def b latch_start)
  then show "windows_safe m203_readPrg m203_readChr m203_writePrg (m203_init f c)"
    by (simp add: windows_safe_def board203.safe)
  have "m089_ok (m089_init f c)" if "c_chrRamSize c \<le> 0" using assms that by (simp add: m089_ok_def m089_init_def b latch_start)
  then show "windows_safe m089_readPrg m089_readChr m089_writePrg (m089_init f c)" if "c_chrRamSize c \<le> 0"
    using that by (simp add: windows_safe_def board089.safe)
  have "m152_ok (m152_init f c)" if "c_chrRamSize c \<le> 0" using assms that by (simp add: m152_ok_def m152_init_def b latch_start)
  then show "windows_safe m152_readPrg m152_readChr m152_writePrg (m152_init f c)" if "c_chrRamSize c \<le> 0"
    using that by (simp add: windows_safe_def board152.safe)
qed

lemma boards_32K:
  assumes "cart_ok c" "chr_fits c" "pow2_banks (numberOfPRGBanks c B32K)"
  shows "windows_safe m038_readPrg m038_readChr m038_writeSaveRam (m038_init f c)"
    "windows_safe m086_readPrg m086_readChr m086_writeSaveRam (m086_init f c)"
    "windows_safe m107_readPrg m107_readChr m107_writePrg (m107_init f c)"
    "windows_safe m144_readPrg m144_readChr m144_writePrg (m144_init f c)"
    "windows_safe m213_readPrg m213_readChr m213_writePrg (m213_init f c)"
    "windows_safe m240_readPrg m240_readChr m240_writeMapperRegister (m240_init f c)"
proof -
  note b = fits_base[OF assms(1,2)]
  have "m038_ok (m038_init f c)" using assms by (simp add: m038_ok_def m038_init_def b latch_start)
  then show "windows_safe m038_readPrg m038_readChr m038_writeSaveRam (m038_init f c)"
    by (simp add: windows_safe_def board038.safe)
  have "m086_ok (m086_init f c)" using assms by (simp add: m086_ok_def m086_init_def b latch_start)
  then show "windows_safe m086_readPrg m086_readChr m086_writeSaveRam (m086_init f c)"
    by (simp add: windows_safe_def board086.safe)
  have "m107_ok (m107_init f c)" using assms by (simp add: m107_ok_def m107_init_def b latch_start)
  then show "windows_safe m107_readPrg m107_readChr m107_writePrg (m107_init f c)"
    by (simp add: windows_safe_def board107.safe)
  have "m144_ok (m144_init f c)" using assms by (simp add: m144_ok_def m144_init_def b latch_start)
  then show "windows_safe m144_readPrg m144_readChr m144_writePrg (m144_init f c)"
    by (simp add: windows_safe_def board144.safe)
  have "m213_ok (m213_init f c)" using assms by (simp add: m213_ok_def m213_init_def b latch_start)
  then show "windows_safe m213_readPrg m213_readChr m213_writePrg (m213_init f c)"
    by (simp add: windows_safe_def board213.safe)
  have "m240_ok (m240_init f c)" using assms by (simp add: m240_ok_def m240_init_def b latch_start)
  then show "windows_safe m240_readPrg m240_readChr m240_writeMapperRegister (m240_init f c)"
    by (simp add: windows_safe_def board240.safe)
qed

text \<open>
  C38: fourteen more boards with one bank register never read outside the cartridge. For a cartridge whose memories are
  readable, with 8K of character RAM or a power of two of 8K banks of character ROM, and for every sequence of writes to
  the register of the board, the writes are defined (bus conflicts read the ROM) and so is every later program and
  character read: for mapper 87 with any positive number of 16K program banks, one bank included; for mappers 70, 89, 94, 97,
  152, 180 and 203 with a power of two of 16K program banks (89 and 152 ignore character RAM and need a character ROM);
  for mappers 38, 86, 107, 144, 213 and 240 with a power of two of 32K program banks.
\<close>
theorem latch_boards_safe:
  assumes "cart_ok c" "chr_fits c" "0 < numberOfPRGBanks c B16K"
  shows "windows_safe m087_readPrg m087_readChr m087_writeSaveRam (m087_init f c) \<and>
    (pow2_banks (numberOfPRGBanks c B16K) \<longrightarrow>
       windows_safe m070_readPrg m070_readChr m070_writePrg (m070_init f c) \<and>
       windows_safe m094_readPrg base_readChr m094_writePrg (m094_init f c) \<and>
       windows_safe m097_readPrg base_readChr m097_writePrg (m097_init f c) \<and>
       windows_safe m180_readPrg base_readChr m180_writePrg (m180_init f c) \<and>
       windows_safe m203_readPrg m203_readChr m203_writePrg (m203_init f c) \<and>
       (c_chrRamSize c \<le> 0 \<longrightarrow>
          windows_safe m089_readPrg m089_readChr m089_writePrg (m089_init f c) \<and>
          windows_safe m152_readPrg m152_readChr m152_writePrg (m152_init f c))) \<and>
    (pow2_banks (numberOfPRGBanks c B32K) \<longrightarrow>
       windows_safe m038_readPrg m038_readChr m038_writeSaveRam (m038_init f c) \<and>
       windows_safe m086_readPrg m086_readChr m086_writeSaveRam (m086_init f c) \<and>
       windows_safe m107_readPrg m107_readChr m107_writePrg (m107_init f c) \<and>
       windows_safe m144_readPrg m144_readChr m144_writePrg (m144_init f c) \<and>
       windows_safe m213_readPrg m213_readChr m213_writePrg (m213_init f c) \<and>
       windows_safe m240_readPrg m240_readChr m240_writeMapperRegister (m240_init f c))"
proof -
  have "m087_ok (m087_init f c)"
    using assms by (simp add: m087_ok_def m087_init_def fits_base[OF assms(1,2)] latch_start)
  then have "windows_safe m087_readPrg m087_readChr m087_writeSaveRam (m087_init f c)"
    by (simp add: windows_safe_def board087.safe)
  then show ?thesis using boards_16K[OF assms(1,2), of f] boards_32K[OF assms(1,2), of f] by blast
qed

theorem latch_boards_safe_witness:
  "windows_safe m087_readPrg m087_readChr m087_writeSaveRam (m087_init None (ines_cart tiny_rom)) \<and>
   windows_safe m203_readPrg m203_readChr m203_writePrg (m203_init None even_cart) \<and>
   windows_safe m240_readPrg m240_readChr m240_writeMapperRegister (m240_init None even_cart)"
  using latch_boards_safe[OF tiny_cart_fits(1,2), of None] tiny_cart_fits(3)
    latch_boards_safe[OF even_cart_fits(1,2) pow2_pos[OF even_cart_fits(4)], of None] even_cart_fits(3,4)
  by simp

text \<open>
  C39: the boards that do not mask their bank register leave the cartridge. For an accepted iNES file with one 32K bank
  of program and no character ROM, one write makes every program read of mappers 133, 140, 148 and 241 read past the
  end of the file; with one 8K bank of character ROM the same holds for the character reads of mappers 145 and 149.
  Mapper 184 reads past the end in the upper half of the character window from the start, whatever is written,
  for every character ROM up to 512K.
\<close>
theorem unmasked_boards:
  assumes "ines_open rom = Inr c"
  shows "(c_chrSize c = 0 \<and> c_prgSize c \<le> 0x8000 \<longrightarrow>
      (\<exists>m. m133_writeMapperRegister 0x100 0x04 (m133_init f c) = Some m \<and> m133_readPrg m a = None) \<and>
      (\<exists>m. m140_writeSaveRam a' 0x10 (m140_init f c) = Some m \<and> m140_readPrg m a = None) \<and>
      (\<exists>m. m148_writePrg a' 0x08 (m148_init f c) = Some m \<and> m148_readPrg m a = None) \<and>
      (\<exists>m. m241_writePrg a' 0x01 (m241_init f c) = Some m \<and> m241_readPrg m a = None)) \<and>
    (c_chrRamSize c \<le> 0 \<and> c_chrSize c \<le> 0x2000 \<longrightarrow>
      (\<exists>m. m145_writeMapperRegister 0x100 0x80 (m145_init f c) = Some m \<and> m145_readChr m a = None) \<and>
      (\<exists>m. m149_writePrg a' 0x80 (m149_init f c) = Some m \<and> m149_readChr m a = None)) \<and>
    (c_chrRamSize c \<le> 0 \<and> c_chrSize c \<le> 0x80000 \<and> 0x1000 \<le> a \<longrightarrow>
      (\<forall>ws m. writes m184_writeMapperRegister ws (m184_init f c) = Some m \<longrightarrow> m184_readChr m a = None))"
proof (intro conjI impI)
  note prg = beyond_prg[OF assms, of 1 B32K a] and chr = beyond_chr[OF assms, of 1 B8K a]
  { assume "c_chrSize c = 0 \<and> c_prgSize c \<le> 0x8000"
    then have "readPrgBank c B32K 1 a = None" using prg by simp
    then show "\<exists>m. m133_writeMapperRegister 0x100 0x04 (m133_init f c) = Some m \<and> m133_readPrg m a = None"
      "\<exists>m. m140_writeSaveRam a' 0x10 (m140_init f c) = Some m \<and> m140_readPrg m a = None"
      "\<exists>m. m148_writePrg a' 0x08 (m148_init f c) = Some m \<and> m148_readPrg m a = None"
      "\<exists>m. m241_writePrg a' 0x01 (m241_init f c) = Some m \<and> m241_readPrg m a = None"
      by (simp_all add: m133_writeMapperRegister_def m133_applyValue_def m133_init_def m133_readPrg_def
          m140_writeSaveRam_def m140_init_def m140_readPrg_def m148_writePrg_def m148_init_def m148_readPrg_def
          m241_writePrg_def m241_init_def m241_readPrg_def) }
  { assume "c_chrRamSize c \<le> 0 \<and> c_chrSize c \<le> 0x2000"
    then have "readChrBank c B8K 1 a = None" "init_chrRam c = None" "\<not> 0 < c_chrRamSize c"
      using chr by (simp_all add: init_chrRam_def)
    then show "\<exists>m. m145_writeMapperRegister 0x100 0x80 (m145_init f c) = Some m \<and> m145_readChr m a = None"
      "\<exists>m. m149_writePrg a' 0x80 (m149_init f c) = Some m \<and> m149_readChr m a = None"
      by (simp_all add: m145_writeMapperRegister_def m145_applyWrite_def m145_init_def m145_readChr_def
          m149_writePrg_def m149_init_def m149_readChr_def hasChrRam_def) }
  assume c: "c_chrRamSize c \<le> 0 \<and> c_chrSize c \<le> 0x80000 \<and> 0x1000 \<le> a"
  show "\<forall>ws m. writes m184_writeMapperRegister ws (m184_init f c) = Some m \<longrightarrow> m184_readChr m a = None"
  proof (intro allI impI)
    fix ws m
    assume "writes m184_writeMapperRegister ws (m184_init f c) = Some m"
    moreover have "high_bank c (m184_init f c)" by (simp add: high_bank_def m184_init_def) (rule exI[of _ 0], simp)
    ultimately have h: "high_bank c m" using high_bank_writes by blast
    then obtain x where x: "m184_chrBankHigh m = 0x80 OR x" by (auto simp: high_bank_def)
    have "(0x80 :: u8) \<le> 0x80 OR x" by (rule le_word_or2)
    then have "128 \<le> uint (m184_chrBankHigh m)" using x by (simp add: word_le_def)
    then have "readChrBank c B4K (uint (m184_chrBankHigh m)) a = None" using beyond_chr[OF assms] c by simp
    then show "m184_readChr m a = None"
      using h c by (simp add: m184_readChr_def high_bank_def hasChrRam_def init_chrRam_def)
  qed
qed

theorem unmasked_boards_witness:
  "\<exists>m. m241_writePrg 0 0x01 (m241_init None (ines_cart tiny_rom)) = Some m \<and> m241_readPrg m 5 = None"
  using unmasked_boards[OF tiny_rom_opens, of None 5 0]
  by (simp add: ines_cart_def tiny_rom_facts)

end
