(* ===== verification/Mappers_Multicart.thy ===== *)
theory Mappers_Multicart
  imports Mappers_Latch
begin

text \<open>
  Boards for cartridges with several games, which take the bank from the address of a write: mappers 54, 58, 61, 81, 104,
  200, 204, 214, 225, 229, 231 and 255 under \<open>src/src/GeraNES/Mappers\<close>. Mappers 54, 61, 81, 104 and 214 interpret the
  contract \<open>banked\<close>, mapper 58 leaves the cartridge in its 32K mode, and mappers 225 and 255 are the same board. The
  archives (\<open>serialization\<close>) stay out.
\<close>

subsection \<open>Mapper 54\<close>

record mapper054 = base_mapper +
  m054_prgBank :: u8
  m054_chrBank :: u8
  m054_prgMask :: u8
  m054_chrMask :: u8

definition m054_init :: "u8 list option \<Rightarrow> cart \<Rightarrow> mapper054" where
  "m054_init saved c = \<lparr>cd = c, chrRam = init_chrRam c, sRam = init_sRam saved c,
     m054_prgBank = 0, m054_chrBank = 0, m054_prgMask = calculateMask (numberOfPRGBanks c B32K),
        m054_chrMask = calculateMask (numberOfCHRBanks c B8K)\<rparr>"

definition m054_writePrg :: "int \<Rightarrow> u8 \<Rightarrow> mapper054 \<Rightarrow> mapper054 option" where
  "m054_writePrg addr v m =
     (let absolute = word_of_int (addr + 0x8000) :: u8
      in Some (m\<lparr>m054_prgBank := (absolute AND 0x03) AND m054_prgMask m,
        m054_chrBank := (absolute AND 0x07) AND m054_chrMask m\<rparr>))"

definition m054_readPrg :: "mapper054 \<Rightarrow> int \<Rightarrow> u8 option" where
  "m054_readPrg m addr = readPrgBank (cd m) B32K (uint (m054_prgBank m)) addr"

definition m054_readChr :: "mapper054 \<Rightarrow> int \<Rightarrow> u8 option" where
  "m054_readChr m addr =
     (if hasChrRam m then base_readChr m addr else readChrBank (cd m) B8K (uint (m054_chrBank m)) addr)"

definition m054_reset :: "mapper054 \<Rightarrow> mapper054" where
  "m054_reset m = m\<lparr>m054_prgBank := 0, m054_chrBank := 0\<rparr>"

subsection \<open>Mapper 58\<close>

record mapper058 = base_mapper +
  m058_prgMask :: u8
  m058_chrMask :: u8
  m058_prgBank :: u8
  m058_prg32Mode :: bool
  m058_chrBank :: u8
  m058_horizontalMirroring :: bool

definition m058_init :: "u8 list option \<Rightarrow> cart \<Rightarrow> mapper058" where
  "m058_init saved c = \<lparr>cd = c, chrRam = init_chrRam c, sRam = init_sRam saved c,
     m058_prgMask = calculateMask (numberOfPRGBanks c B16K), m058_chrMask = calculateMask (numberOfCHRBanks c B8K),
        m058_prgBank = 0, m058_prg32Mode = False, m058_chrBank = 0, m058_horizontalMirroring = False\<rparr>"

definition m058_writePrg :: "int \<Rightarrow> u8 \<Rightarrow> mapper058 \<Rightarrow> mapper058 option" where
  "m058_writePrg addr v m =
     (let absolute = word_of_int (addr + 0x8000) :: u16
      in Some (m\<lparr>m058_prgBank := ucast (absolute AND 0x07), m058_prg32Mode := (absolute AND 0x40 = 0),
        m058_chrBank := ucast (drop_bit 3 absolute AND 0x07),
        m058_horizontalMirroring := (absolute AND 0x80 \<noteq> 0)\<rparr>))"

definition m058_readPrg :: "mapper058 \<Rightarrow> int \<Rightarrow> u8 option" where
  "m058_readPrg m addr =
     (if m058_prg32Mode m then readPrgBank (cd m) B32K (uint (drop_bit 1 (m058_prgBank m AND 0x06))) addr
      else readPrgBank (cd m) B16K (uint (m058_prgBank m AND m058_prgMask m)) addr)"

definition m058_readChr :: "mapper058 \<Rightarrow> int \<Rightarrow> u8 option" where
  "m058_readChr m addr =
     (if hasChrRam m then base_readChr m addr
      else readChrBank (cd m) B8K (uint (m058_chrBank m AND m058_chrMask m)) addr)"

definition m058_mirroringType :: "mapper058 \<Rightarrow> MirroringType" where
  "m058_mirroringType m =
     (if c_useFourScreenMirroring (cd m) then FOUR_SCREEN
      else if m058_horizontalMirroring m then HORIZONTAL else VERTICAL)"

definition m058_reset :: "mapper058 \<Rightarrow> mapper058" where
  "m058_reset m = m\<lparr>m058_prgBank := 0, m058_prg32Mode := False, m058_chrBank := 0,
        m058_horizontalMirroring := False\<rparr>"

subsection \<open>Mapper 61\<close>

record mapper061 = base_mapper +
  m061_prgPage :: u8
  m061_prg16Mode :: bool
  m061_horizontalMirroring :: bool
  m061_prgMask16 :: u8
  m061_prgMask32 :: u8

definition m061_init :: "u8 list option \<Rightarrow> cart \<Rightarrow> mapper061" where
  "m061_init saved c = \<lparr>cd = c, chrRam = init_chrRam c, sRam = init_sRam saved c,
     m061_prgPage = 0, m061_prg16Mode = False, m061_horizontalMirroring = False,
        m061_prgMask16 = calculateMask (numberOfPRGBanks c B16K),
        m061_prgMask32 = calculateMask (numberOfPRGBanks c B32K)\<rparr>"

definition m061_writePrg :: "int \<Rightarrow> u8 \<Rightarrow> mapper061 \<Rightarrow> mapper061 option" where
  "m061_writePrg addr v m =
     (let absolute = word_of_int (addr + 0x8000) :: u16
      in Some (m\<lparr>m061_prgPage := ucast (push_bit 1 (absolute AND 0x0F) OR (drop_bit 5 absolute AND 0x01)),
        m061_prg16Mode := (absolute AND 0x10 \<noteq> 0),
        m061_horizontalMirroring := (absolute AND 0x80 \<noteq> 0)\<rparr>))"

definition m061_readPrg :: "mapper061 \<Rightarrow> int \<Rightarrow> u8 option" where
  "m061_readPrg m addr =
     (if m061_prg16Mode m then readPrgBank (cd m) B16K (uint (m061_prgPage m AND m061_prgMask16 m)) addr
      else readPrgBank (cd m) B32K (uint (drop_bit 1 (m061_prgPage m AND 0xFE) AND m061_prgMask32 m)) addr)"

definition m061_readChr :: "mapper061 \<Rightarrow> int \<Rightarrow> u8 option" where
  "m061_readChr m addr = (if hasChrRam m then base_readChr m addr else readChrBank (cd m) B8K 0 addr)"

definition m061_mirroringType :: "mapper061 \<Rightarrow> MirroringType" where
  "m061_mirroringType m =
     (if c_useFourScreenMirroring (cd m) then FOUR_SCREEN
      else if m061_horizontalMirroring m then HORIZONTAL else VERTICAL)"

definition m061_reset :: "mapper061 \<Rightarrow> mapper061" where
  "m061_reset m = m\<lparr>m061_prgPage := 0, m061_prg16Mode := False, m061_horizontalMirroring := False\<rparr>"

subsection \<open>Mapper 81\<close>

record mapper081 = base_mapper +
  m081_prgBank :: u8
  m081_prgMask :: u8
  m081_chrBank :: u8
  m081_chrMask :: u8

definition m081_init :: "u8 list option \<Rightarrow> cart \<Rightarrow> mapper081" where
  "m081_init saved c = \<lparr>cd = c, chrRam = init_chrRam c, sRam = init_sRam saved c,
     m081_prgBank = 0, m081_prgMask = calculateMask (numberOfPRGBanks c B16K), m081_chrBank = 0,
        m081_chrMask = calculateMask (numberOfCHRBanks c B8K)\<rparr>"

definition m081_writePrg :: "int \<Rightarrow> u8 \<Rightarrow> mapper081 \<Rightarrow> mapper081 option" where
  "m081_writePrg addr v m =
     (let latch = word_of_int ((addr + 0x8000) AND 0x0F) :: u8
      in Some (m\<lparr>m081_chrBank := (latch AND 0x03) AND m081_chrMask m,
        m081_prgBank := (drop_bit 2 latch AND 0x03) AND m081_prgMask m\<rparr>))"

definition m081_readPrg :: "mapper081 \<Rightarrow> int \<Rightarrow> u8 option" where
  "m081_readPrg m addr =
     (if addr < 0x4000 then readPrgBank (cd m) B16K (uint (m081_prgBank m)) addr
      else readPrgBank (cd m) B16K (numberOfPRGBanks (cd m) B16K - 1) addr)"

definition m081_readChr :: "mapper081 \<Rightarrow> int \<Rightarrow> u8 option" where
  "m081_readChr m addr =
     (if hasChrRam m then base_readChr m addr else readChrBank (cd m) B8K (uint (m081_chrBank m)) addr)"

definition m081_reset :: "mapper081 \<Rightarrow> mapper081" where
  "m081_reset m = m\<lparr>m081_prgBank := 0, m081_chrBank := 0\<rparr>"

subsection \<open>Mapper 104\<close>

record mapper104 = base_mapper +
  m104_prgReg :: u8
  m104_prgMask :: u8

definition m104_init :: "u8 list option \<Rightarrow> cart \<Rightarrow> mapper104" where
  "m104_init saved c = \<lparr>cd = c, chrRam = init_chrRam c, sRam = init_sRam saved c,
     m104_prgReg = 0, m104_prgMask = calculateMask (numberOfPRGBanks c B16K)\<rparr>"

definition m104_writePrg :: "int \<Rightarrow> u8 \<Rightarrow> mapper104 \<Rightarrow> mapper104 option" where
  "m104_writePrg addr v m =
     (let absolute = word_of_int (addr + 0x8000) :: u16
      in Some (
        if absolute \<ge> 0xC000 then m\<lparr>m104_prgReg := (m104_prgReg m AND 0xF0) OR (v AND 0x0F)\<rparr>
        else if absolute \<le> 0x9FFF \<and> v AND 0x08 \<noteq> 0
        then m\<lparr>m104_prgReg := (m104_prgReg m AND 0x0F) OR (push_bit 4 v AND 0x70)\<rparr>
        else m))"

definition m104_readPrg :: "mapper104 \<Rightarrow> int \<Rightarrow> u8 option" where
  "m104_readPrg m addr =
     (if addr < 0x4000 then readPrgBank (cd m) B16K (uint (m104_prgReg m AND m104_prgMask m)) addr
      else readPrgBank (cd m) B16K (uint (((m104_prgReg m AND 0x70) OR 0x0F) AND m104_prgMask m)) addr)"

definition m104_readChr :: "mapper104 \<Rightarrow> int \<Rightarrow> u8 option" where
  "m104_readChr m addr = (if hasChrRam m then base_readChr m addr else readChrBank (cd m) B8K 0 addr)"

definition m104_reset :: "mapper104 \<Rightarrow> mapper104" where
  "m104_reset m = m\<lparr>m104_prgReg := 0\<rparr>"

subsection \<open>Mapper 200\<close>

record mapper200 = base_mapper +
  m200_bank :: u8
  m200_verticalMirroring :: bool

definition m200_init :: "u8 list option \<Rightarrow> cart \<Rightarrow> mapper200" where
  "m200_init saved c = \<lparr>cd = c, chrRam = init_chrRam c, sRam = init_sRam saved c,
     m200_bank = 0, m200_verticalMirroring = False\<rparr>"

definition m200_writePrg :: "int \<Rightarrow> u8 \<Rightarrow> mapper200 \<Rightarrow> mapper200 option" where
  "m200_writePrg addr v m =
     (let absolute = word_of_int (addr + 0x8000) :: u16
      in Some (m\<lparr>m200_bank := ucast (absolute AND 0x07),
        m200_verticalMirroring := (absolute AND 0x08 \<noteq> 0)\<rparr>))"

definition m200_readPrg :: "mapper200 \<Rightarrow> int \<Rightarrow> u8 option" where
  "m200_readPrg m addr = readPrgBank (cd m) B16K (uint (m200_bank m)) addr"

definition m200_readChr :: "mapper200 \<Rightarrow> int \<Rightarrow> u8 option" where
  "m200_readChr m addr =
     (if hasChrRam m then readChrRam m B8K (uint (m200_bank m)) addr
      else readChrBank (cd m) B8K (uint (m200_bank m)) addr)"

definition m200_writeChr :: "int \<Rightarrow> u8 \<Rightarrow> mapper200 \<Rightarrow> mapper200 option" where
  "m200_writeChr addr v m =
     (if hasChrRam m then writeChrRam B8K (uint (m200_bank m)) addr v m else Some m)"

definition m200_mirroringType :: "mapper200 \<Rightarrow> MirroringType" where
  "m200_mirroringType m = (if m200_verticalMirroring m then VERTICAL else HORIZONTAL)"

definition m200_reset :: "mapper200 \<Rightarrow> mapper200" where
  "m200_reset m = m\<lparr>m200_bank := 0, m200_verticalMirroring := False\<rparr>"

subsection \<open>Mapper 204\<close>

record mapper204 = base_mapper +
  m204_prgBank0 :: u8
  m204_prgBank1 :: u8
  m204_chrBank :: u8
  m204_horizontalMirroring :: bool

definition m204_init :: "u8 list option \<Rightarrow> cart \<Rightarrow> mapper204" where
  "m204_init saved c = \<lparr>cd = c, chrRam = init_chrRam c, sRam = init_sRam saved c,
     m204_prgBank0 = 0, m204_prgBank1 = 1, m204_chrBank = 0, m204_horizontalMirroring = False\<rparr>"

definition m204_writePrg :: "int \<Rightarrow> u8 \<Rightarrow> mapper204 \<Rightarrow> mapper204 option" where
  "m204_writePrg addr v m =
     (let absolute = word_of_int (addr + 0x8000) :: u16;
          bitMask = ucast (absolute AND 0x06) :: u8;
          page = bitMask + (if bitMask = 0x06 then 0 else ucast (absolute AND 0x01))
      in Some (m\<lparr>m204_prgBank0 := page,
        m204_prgBank1 := bitMask + (if bitMask = 0x06 then 1 else ucast (absolute AND 0x01)), m204_chrBank := page,
        m204_horizontalMirroring := (absolute AND 0x10 \<noteq> 0)\<rparr>))"

definition m204_readPrg :: "mapper204 \<Rightarrow> int \<Rightarrow> u8 option" where
  "m204_readPrg m addr =
     (if addr < 0x4000 then readPrgBank (cd m) B16K (uint (m204_prgBank0 m)) addr
      else readPrgBank (cd m) B16K (uint (m204_prgBank1 m)) addr)"

definition m204_readChr :: "mapper204 \<Rightarrow> int \<Rightarrow> u8 option" where
  "m204_readChr m addr =
     (if hasChrRam m then base_readChr m addr else readChrBank (cd m) B8K (uint (m204_chrBank m)) addr)"

definition m204_mirroringType :: "mapper204 \<Rightarrow> MirroringType" where
  "m204_mirroringType m = (if m204_horizontalMirroring m then HORIZONTAL else VERTICAL)"

definition m204_reset :: "mapper204 \<Rightarrow> mapper204 option" where
  "m204_reset m =
     m204_writePrg 0 0 (m\<lparr>m204_prgBank0 := 0, m204_prgBank1 := 1, m204_chrBank := 0,
        m204_horizontalMirroring := False\<rparr>)"

subsection \<open>Mapper 214\<close>

record mapper214 = base_mapper +
  m214_prgBank :: u8
  m214_chrBank :: u8
  m214_prgMask :: u8
  m214_chrMask :: u8

definition m214_init :: "u8 list option \<Rightarrow> cart \<Rightarrow> mapper214" where
  "m214_init saved c = \<lparr>cd = c, chrRam = init_chrRam c, sRam = init_sRam saved c,
     m214_prgBank = 0, m214_chrBank = 0, m214_prgMask = calculateMask (numberOfPRGBanks c B16K),
        m214_chrMask = calculateMask (numberOfCHRBanks c B8K)\<rparr>"

definition m214_writePrg :: "int \<Rightarrow> u8 \<Rightarrow> mapper214 \<Rightarrow> mapper214 option" where
  "m214_writePrg addr v m =
     (let absolute = word_of_int (addr + 0x8000) :: u16
      in Some (m\<lparr>m214_chrBank := ucast (absolute AND 0x03) AND m214_chrMask m,
        m214_prgBank := ucast (drop_bit 2 absolute AND 0x03) AND m214_prgMask m\<rparr>))"

definition m214_readPrg :: "mapper214 \<Rightarrow> int \<Rightarrow> u8 option" where
  "m214_readPrg m addr = readPrgBank (cd m) B16K (uint (m214_prgBank m)) addr"

definition m214_readChr :: "mapper214 \<Rightarrow> int \<Rightarrow> u8 option" where
  "m214_readChr m addr =
     (if hasChrRam m then base_readChr m addr else readChrBank (cd m) B8K (uint (m214_chrBank m)) addr)"

definition m214_reset :: "mapper214 \<Rightarrow> mapper214 option" where
  "m214_reset m = m214_writePrg 0 0 (m\<lparr>m214_prgBank := 0, m214_chrBank := 0\<rparr>)"

subsection \<open>Mapper 225\<close>

record mapper225 = base_mapper +
  m225_prgBank0 :: u8
  m225_prgBank1 :: u8
  m225_chrBank :: u8
  m225_horizontalMirroring :: bool

definition m225_init :: "u8 list option \<Rightarrow> cart \<Rightarrow> mapper225" where
  "m225_init saved c = \<lparr>cd = c, chrRam = init_chrRam c, sRam = init_sRam saved c,
     m225_prgBank0 = 0, m225_prgBank1 = 1, m225_chrBank = 0, m225_horizontalMirroring = False\<rparr>"

definition m225_writePrg :: "int \<Rightarrow> u8 \<Rightarrow> mapper225 \<Rightarrow> mapper225 option" where
  "m225_writePrg addr v m =
     (let absolute = word_of_int (addr + 0x8000) :: u16;
          highBit = ucast (drop_bit 8 absolute AND 0x40) :: u8;
          prgPage = ucast (drop_bit 6 absolute AND 0x3F) OR highBit;
          split = (absolute AND 0x1000 = 0)
      in Some (m\<lparr>m225_prgBank0 := (if split then prgPage AND 0xFE else prgPage),
        m225_prgBank1 := (if split then (prgPage AND 0xFE) + 1 else prgPage),
        m225_chrBank := ucast (absolute AND 0x3F) OR highBit,
        m225_horizontalMirroring := (absolute AND 0x2000 \<noteq> 0)\<rparr>))"

definition m225_readPrg :: "mapper225 \<Rightarrow> int \<Rightarrow> u8 option" where
  "m225_readPrg m addr =
     (if addr < 0x4000 then readPrgBank (cd m) B16K (uint (m225_prgBank0 m)) addr
      else readPrgBank (cd m) B16K (uint (m225_prgBank1 m)) addr)"

definition m225_readChr :: "mapper225 \<Rightarrow> int \<Rightarrow> u8 option" where
  "m225_readChr m addr =
     (if hasChrRam m then base_readChr m addr else readChrBank (cd m) B8K (uint (m225_chrBank m)) addr)"

definition m225_mirroringType :: "mapper225 \<Rightarrow> MirroringType" where
  "m225_mirroringType m = (if m225_horizontalMirroring m then HORIZONTAL else VERTICAL)"

definition m225_reset :: "mapper225 \<Rightarrow> mapper225" where
  "m225_reset m = m\<lparr>m225_prgBank0 := 0, m225_prgBank1 := 1, m225_chrBank := 0,
        m225_horizontalMirroring := False\<rparr>"

subsection \<open>Mapper 229\<close>

record mapper229 = base_mapper +
  m229_prgBank :: u8
  m229_prg32Mode :: bool
  m229_chrBank :: u8
  m229_horizontalMirroring :: bool

definition m229_init :: "u8 list option \<Rightarrow> cart \<Rightarrow> mapper229" where
  "m229_init saved c = \<lparr>cd = c, chrRam = init_chrRam c, sRam = init_sRam saved c,
     m229_prgBank = 0, m229_prg32Mode = True, m229_chrBank = 0, m229_horizontalMirroring = False\<rparr>"

definition m229_writePrg :: "int \<Rightarrow> u8 \<Rightarrow> mapper229 \<Rightarrow> mapper229 option" where
  "m229_writePrg addr v m =
     (let absolute = word_of_int (addr + 0x8000) :: u16
      in Some (m\<lparr>m229_chrBank := ucast (absolute AND 0x00FF), m229_prg32Mode := (absolute AND 0x001E = 0),
        m229_prgBank := ucast (absolute AND 0x001F),
        m229_horizontalMirroring := (absolute AND 0x0020 \<noteq> 0)\<rparr>))"

definition m229_readPrg :: "mapper229 \<Rightarrow> int \<Rightarrow> u8 option" where
  "m229_readPrg m addr =
     (if m229_prg32Mode m then readPrgBank (cd m) B32K 0 addr
      else readPrgBank (cd m) B16K (uint (m229_prgBank m)) addr)"

definition m229_readChr :: "mapper229 \<Rightarrow> int \<Rightarrow> u8 option" where
  "m229_readChr m addr =
     (if hasChrRam m then base_readChr m addr else readChrBank (cd m) B8K (uint (m229_chrBank m)) addr)"

definition m229_mirroringType :: "mapper229 \<Rightarrow> MirroringType" where
  "m229_mirroringType m = (if m229_horizontalMirroring m then HORIZONTAL else VERTICAL)"

definition m229_reset :: "mapper229 \<Rightarrow> mapper229 option" where
  "m229_reset m =
     m229_writePrg 0 0 (m\<lparr>m229_prgBank := 0, m229_prg32Mode := True, m229_chrBank := 0,
        m229_horizontalMirroring := False\<rparr>)"

subsection \<open>Mapper 231\<close>

record mapper231 = base_mapper +
  m231_prgBank0 :: u8
  m231_prgBank1 :: u8
  m231_horizontalMirroring :: bool

definition m231_init :: "u8 list option \<Rightarrow> cart \<Rightarrow> mapper231" where
  "m231_init saved c = \<lparr>cd = c, chrRam = init_chrRam c, sRam = init_sRam saved c,
     m231_prgBank0 = 0, m231_prgBank1 = 0, m231_horizontalMirroring = False\<rparr>"

definition m231_writePrg :: "int \<Rightarrow> u8 \<Rightarrow> mapper231 \<Rightarrow> mapper231 option" where
  "m231_writePrg addr v m =
     (let absolute = word_of_int (addr + 0x8000) :: u16;
          prgBank = ucast ((drop_bit 5 absolute AND 0x01) OR (absolute AND 0x1E)) :: u8
      in Some (m\<lparr>m231_prgBank0 := prgBank AND 0x1E, m231_prgBank1 := prgBank,
        m231_horizontalMirroring := (absolute AND 0x80 \<noteq> 0)\<rparr>))"

definition m231_readPrg :: "mapper231 \<Rightarrow> int \<Rightarrow> u8 option" where
  "m231_readPrg m addr =
     (if addr < 0x4000 then readPrgBank (cd m) B16K (uint (m231_prgBank0 m)) addr
      else readPrgBank (cd m) B16K (uint (m231_prgBank1 m)) addr)"

definition m231_readChr :: "mapper231 \<Rightarrow> int \<Rightarrow> u8 option" where
  "m231_readChr m addr = (if hasChrRam m then base_readChr m addr else readChrBank (cd m) B8K 0 addr)"

definition m231_mirroringType :: "mapper231 \<Rightarrow> MirroringType" where
  "m231_mirroringType m = (if m231_horizontalMirroring m then HORIZONTAL else VERTICAL)"

definition m231_reset :: "mapper231 \<Rightarrow> mapper231" where
  "m231_reset m = m\<lparr>m231_prgBank0 := 0, m231_prgBank1 := 0, m231_horizontalMirroring := False\<rparr>"

subsection \<open>Mapper 255\<close>

record mapper255 = base_mapper +
  m255_prgLowBank :: u8
  m255_prgHighBank :: u8
  m255_chrBank :: u8
  m255_horizontalMirroring :: bool

definition m255_init :: "u8 list option \<Rightarrow> cart \<Rightarrow> mapper255" where
  "m255_init saved c = \<lparr>cd = c, chrRam = init_chrRam c, sRam = init_sRam saved c,
     m255_prgLowBank = 0, m255_prgHighBank = 1, m255_chrBank = 0, m255_horizontalMirroring = False\<rparr>"

definition m255_writePrg :: "int \<Rightarrow> u8 \<Rightarrow> mapper255 \<Rightarrow> mapper255 option" where
  "m255_writePrg addr v m =
     (let absolute = word_of_int (addr + 0x8000) :: u16;
          prgBit = (if absolute AND 0x1000 \<noteq> 0 then 0 else 1) :: u8;
          bank = ucast ((drop_bit 8 absolute AND 0x40) OR (drop_bit 6 absolute AND 0x3F)) :: u8
      in Some (m\<lparr>m255_prgLowBank := bank AND NOT prgBit, m255_prgHighBank := bank OR prgBit,
        m255_chrBank := ucast ((drop_bit 8 absolute AND 0x40) OR (absolute AND 0x3F)),
        m255_horizontalMirroring := (absolute AND 0x2000 \<noteq> 0)\<rparr>))"

definition m255_readPrg :: "mapper255 \<Rightarrow> int \<Rightarrow> u8 option" where
  "m255_readPrg m addr =
     (if addr < 0x4000 then readPrgBank (cd m) B16K (uint (m255_prgLowBank m)) addr
      else readPrgBank (cd m) B16K (uint (m255_prgHighBank m)) addr)"

definition m255_readChr :: "mapper255 \<Rightarrow> int \<Rightarrow> u8 option" where
  "m255_readChr m addr =
     (if hasChrRam m then base_readChr m addr else readChrBank (cd m) B8K (uint (m255_chrBank m)) addr)"

definition m255_mirroringType :: "mapper255 \<Rightarrow> MirroringType" where
  "m255_mirroringType m = (if m255_horizontalMirroring m then HORIZONTAL else VERTICAL)"

definition m255_reset :: "mapper255 \<Rightarrow> mapper255 option" where
  "m255_reset m =
     m255_writePrg 0 0 (m\<lparr>m255_prgLowBank := 0, m255_prgHighBank := 1, m255_chrBank := 0,
        m255_horizontalMirroring := False\<rparr>)"

subsection \<open>Masked boards stay inside the memories\<close>

definition m054_ok :: "mapper054 \<Rightarrow> bool" where
  "m054_ok m \<longleftrightarrow> base_ok m \<and> prg_latch (cd m) B32K (m054_prgBank m) (m054_prgMask m) \<and>
     chr_latch (cd m) (m054_chrBank m) (m054_chrMask m)"

definition m061_ok :: "mapper061 \<Rightarrow> bool" where
  "m061_ok m \<longleftrightarrow> base_ok m \<and> chr_fits (cd m) \<and>
     pow2_banks (numberOfPRGBanks (cd m) B16K) \<and> m061_prgMask16 m = calculateMask (numberOfPRGBanks (cd m) B16K) \<and>
     pow2_banks (numberOfPRGBanks (cd m) B32K) \<and> m061_prgMask32 m = calculateMask (numberOfPRGBanks (cd m) B32K)"

definition m081_ok :: "mapper081 \<Rightarrow> bool" where
  "m081_ok m \<longleftrightarrow> base_ok m \<and> prg_latch (cd m) B16K (m081_prgBank m) (m081_prgMask m) \<and>
     chr_latch (cd m) (m081_chrBank m) (m081_chrMask m)"

definition m104_ok :: "mapper104 \<Rightarrow> bool" where
  "m104_ok m \<longleftrightarrow> base_ok m \<and> chr_fits (cd m) \<and> pow2_banks (numberOfPRGBanks (cd m) B16K) \<and>
     m104_prgMask m = calculateMask (numberOfPRGBanks (cd m) B16K)"

definition m214_ok :: "mapper214 \<Rightarrow> bool" where
  "m214_ok m \<longleftrightarrow> base_ok m \<and> prg_latch (cd m) B16K (m214_prgBank m) (m214_prgMask m) \<and>
     chr_latch (cd m) (m214_chrBank m) (m214_chrMask m)"

lemma multicart_base [simp]:
  "base_ok (m\<lparr>m054_prgBank := a, m054_chrBank := b\<rparr>) = base_ok m"
  "base_ok (n\<lparr>m061_prgPage := c, m061_prg16Mode := d, m061_horizontalMirroring := e\<rparr>) = base_ok n"
  "base_ok (p\<lparr>m081_chrBank := f, m081_prgBank := g\<rparr>) = base_ok p"
  "base_ok (q\<lparr>m104_prgReg := h\<rparr>) = base_ok q" "base_ok (r\<lparr>m214_chrBank := i, m214_prgBank := j\<rparr>) = base_ok r"
  by (simp_all add: base_ok_def split: option.split)

lemma fixed_chr:
  assumes "base_ok m" "chr_fits (cd m)"
  shows "defined (if hasChrRam m then base_readChr m a else readChrBank (cd m) B8K 0 a')"
  using latch_chr[OF assms(1) latch_start(2)[OF assms(2)], of a a'] unfolding unsigned_0 .

interpretation board054: banked m054_ok m054_readPrg m054_readChr m054_writePrg
proof
  fix m :: mapper054 and a :: int and v :: u8
  assume ok: "m054_ok m"
  show "defined (m054_readPrg m a)"
    using ok latch_prg[of m B32K "m054_prgBank m" _ a] by (auto simp: m054_readPrg_def m054_ok_def)
  show "\<exists>m'. m054_writePrg a v m = Some m' \<and> m054_ok m'"
    using ok by (auto simp: m054_writePrg_def m054_ok_def Let_def latch_masked)
  show "defined (m054_readChr m a)"
    unfolding m054_readChr_def using ok by (auto simp: m054_ok_def split del: if_split intro: latch_chr)
qed

interpretation board061: banked m061_ok m061_readPrg m061_readChr m061_writePrg
proof
  fix m :: mapper061 and a :: int and v :: u8
  assume ok: "m061_ok m"
  show "defined (m061_readPrg m a)"
    using ok masked_prg[of m B16K _ a] masked_prg[of m B32K _ a] by (auto simp: m061_readPrg_def m061_ok_def)
  show "\<exists>m'. m061_writePrg a v m = Some m' \<and> m061_ok m'"
    using ok by (auto simp: m061_writePrg_def m061_ok_def Let_def)
  show "defined (m061_readChr m a)"
    unfolding m061_readChr_def using ok by (auto simp: m061_ok_def split del: if_split intro: fixed_chr)
qed

interpretation board081: banked m081_ok m081_readPrg m081_readChr m081_writePrg
proof
  fix m :: mapper081 and a :: int and v :: u8
  assume ok: "m081_ok m"
  show "defined (m081_readPrg m a)"
    using ok latch_prg[of m B16K "m081_prgBank m" _ a] by (auto simp: m081_readPrg_def m081_ok_def)
  show "\<exists>m'. m081_writePrg a v m = Some m' \<and> m081_ok m'"
    using ok by (auto simp: m081_writePrg_def m081_ok_def Let_def latch_masked)
  show "defined (m081_readChr m a)"
    unfolding m081_readChr_def using ok by (auto simp: m081_ok_def split del: if_split intro: latch_chr)
qed

interpretation board104: banked m104_ok m104_readPrg m104_readChr m104_writePrg
proof
  fix m :: mapper104 and a :: int and v :: u8
  assume ok: "m104_ok m"
  show "defined (m104_readPrg m a)"
    using ok masked_prg[of m B16K _ a] by (auto simp: m104_readPrg_def m104_ok_def)
  show "\<exists>m'. m104_writePrg a v m = Some m' \<and> m104_ok m'"
    using ok by (auto simp: m104_writePrg_def m104_ok_def Let_def)
  show "defined (m104_readChr m a)"
    unfolding m104_readChr_def using ok by (auto simp: m104_ok_def split del: if_split intro: fixed_chr)
qed

interpretation board214: banked m214_ok m214_readPrg m214_readChr m214_writePrg
proof
  fix m :: mapper214 and a :: int and v :: u8
  assume ok: "m214_ok m"
  show "defined (m214_readPrg m a)"
    using ok latch_prg[of m B16K "m214_prgBank m" _ a] by (auto simp: m214_readPrg_def m214_ok_def)
  show "\<exists>m'. m214_writePrg a v m = Some m' \<and> m214_ok m'"
    using ok by (auto simp: m214_writePrg_def m214_ok_def Let_def latch_masked)
  show "defined (m214_readChr m a)"
    unfolding m214_readChr_def using ok by (auto simp: m214_ok_def split del: if_split intro: latch_chr)
qed

subsection \<open>Two classes for one board\<close>

text \<open>\<open>Mapper225\<close> and \<open>Mapper255\<close> compute the same banks in two ways.\<close>

definition agree :: "mapper225 \<Rightarrow> mapper255 \<Rightarrow> bool" where
  "agree m n \<longleftrightarrow> cd n = cd m \<and> chrRam n = chrRam m \<and> sRam n = sRam m \<and> m255_prgLowBank n = m225_prgBank0 m \<and>
     m255_prgHighBank n = m225_prgBank1 m \<and> m255_chrBank n = m225_chrBank m \<and>
     m255_horizontalMirroring n = m225_horizontalMirroring m"

lemma even_page: "(p :: u8) AND - 2 = p AND 0xFE" "(p :: u8) OR 1 = (p AND 0xFE) + 1"
proof -
  have fe: "(0xFE :: u8) = NOT 1" by simp
  show "p AND - 2 = p AND 0xFE" by (simp add: fe)
  have "(p AND NOT 1) AND 1 = 0" by (rule bit_eqI) (auto simp: bit_simps)
  then have "(p AND NOT 1) + 1 = (p AND NOT 1) OR 1" by (rule disjunctive_add_eq_or)
  also have "\<dots> = p OR 1" by (rule bit_eqI) (auto simp: bit_simps)
  finally show "p OR 1 = (p AND 0xFE) + 1" by (simp add: fe)
qed

lemma agree_write:
  assumes "agree m n"
  shows "\<exists>m' n'. m225_writePrg a v m = Some m' \<and> m255_writePrg a v n = Some n' \<and> agree m' n'"
proof -
  define absolute where "absolute = (word_of_int (a + 0x8000) :: u16)"
  define h where "h = (ucast (drop_bit 8 absolute AND 0x40) :: u8)"
  define p where "p = ucast (drop_bit 6 absolute AND 0x3F) OR h"
  have w: "m225_writePrg a v m = Some (m\<lparr>m225_prgBank0 := (if absolute AND 0x1000 = 0 then p AND 0xFE else p),
      m225_prgBank1 := (if absolute AND 0x1000 = 0 then (p AND 0xFE) + 1 else p),
      m225_chrBank := ucast (absolute AND 0x3F) OR h, m225_horizontalMirroring := (absolute AND 0x2000 \<noteq> 0)\<rparr>)"
    unfolding m225_writePrg_def Let_def p_def h_def absolute_def by (rule refl)
  have b: "ucast ((drop_bit 8 absolute AND 0x40) OR (drop_bit 6 absolute AND 0x3F)) = p"
    "ucast ((drop_bit 8 absolute AND 0x40) OR (absolute AND 0x3F)) = ucast (absolute AND 0x3F) OR h"
    by (simp_all only: unsigned_or_eq p_def h_def or.commute)
  have n: "m255_writePrg a v n = Some (n\<lparr>m255_prgLowBank := p AND NOT (if absolute AND 0x1000 \<noteq> 0 then 0 else 1),
      m255_prgHighBank := p OR (if absolute AND 0x1000 \<noteq> 0 then 0 else 1),
      m255_chrBank := ucast (absolute AND 0x3F) OR h, m255_horizontalMirroring := (absolute AND 0x2000 \<noteq> 0)\<rparr>)"
    unfolding m255_writePrg_def Let_def absolute_def[symmetric] b by (rule refl)
  show ?thesis unfolding w n using assms by (cases "absolute AND 0x1000 = 0") (simp_all add: agree_def even_page)
qed

lemma agree_writes:
  "agree m n \<Longrightarrow> \<exists>m' n'. writes m225_writePrg ws m = Some m' \<and> writes m255_writePrg ws n = Some n' \<and> agree m' n'"
proof (induction ws arbitrary: m n)
  case (Cons w ws)
  obtain a v where w: "w = (a, v)" by (cases w)
  obtain m1 n1 where s: "m225_writePrg a v m = Some m1" "m255_writePrg a v n = Some n1" "agree m1 n1"
    using agree_write[OF Cons.prems] by blast
  then show ?case using Cons.IH[OF s(3)] by (simp add: w)
qed simp

lemma agree_reads:
  assumes "agree m n"
  shows "m255_readPrg n = m225_readPrg m" "m255_readChr n = m225_readChr m" "m255_mirroringType n = m225_mirroringType m"
  using assms
  by (auto simp: agree_def m225_readPrg_def m255_readPrg_def m225_readChr_def m255_readChr_def m225_mirroringType_def
      m255_mirroringType_def hasChrRam_def base_readChr_def readChrRam_def intro!: ext)

lemma agree_reset:
  assumes "agree m n"
  shows "\<exists>n'. m255_reset n = Some n' \<and> agree (m225_reset m) n'"
  using assms by (simp add: m255_reset_def m255_writePrg_def m225_reset_def agree_def Let_def)

subsection \<open>Properties\<close>

text \<open>
  C40: the classes \<open>Mapper225\<close> and \<open>Mapper255\<close> are the same board. After any writes to the program window both
  show the same program and character windows and the same mirroring, and a reset keeps it so, although one splits
  the page by a case distinction and the other by masking its low bit.
\<close>
theorem multicart_equivalent:
  "\<exists>m n n'. writes m225_writePrg ws (m225_init f c) = Some m \<and> writes m255_writePrg ws (m255_init f c) = Some n \<and>
     m255_readPrg n = m225_readPrg m \<and> m255_readChr n = m225_readChr m \<and> m255_mirroringType n = m225_mirroringType m \<and>
     m255_reset n = Some n' \<and> m255_readPrg n' = m225_readPrg (m225_reset m) \<and>
     m255_readChr n' = m225_readChr (m225_reset m) \<and> m255_mirroringType n' = m225_mirroringType (m225_reset m)"
proof -
  have "agree (m225_init f c) (m255_init f c)" by (simp add: agree_def m225_init_def m255_init_def)
  then obtain m n where mn: "writes m225_writePrg ws (m225_init f c) = Some m" "writes m255_writePrg ws (m255_init f c) = Some n"
    "agree m n" using agree_writes by blast
  obtain n' where n': "m255_reset n = Some n'" "agree (m225_reset m) n'" using agree_reset[OF mn(3)] by blast
  show ?thesis using mn n' agree_reads[OF mn(3)] agree_reads[OF n'(2)] by blast
qed

text \<open>
  Five of the boards for several games never read outside the cartridge, like the boards with one latch.
\<close>
lemma multicart_safe:
  assumes "cart_ok c" "chr_fits c" "pow2_banks (numberOfPRGBanks c B16K)"
  shows "pow2_banks (numberOfPRGBanks c B32K) \<Longrightarrow> windows_safe m054_readPrg m054_readChr m054_writePrg (m054_init f c)"
    "pow2_banks (numberOfPRGBanks c B32K) \<Longrightarrow> windows_safe m061_readPrg m061_readChr m061_writePrg (m061_init f c)"
    "windows_safe m081_readPrg m081_readChr m081_writePrg (m081_init f c)"
    "windows_safe m104_readPrg m104_readChr m104_writePrg (m104_init f c)"
    "windows_safe m214_readPrg m214_readChr m214_writePrg (m214_init f c)"
proof -
  note b = fits_base[OF assms(1,2)]
  have "m054_ok (m054_init f c)" if "pow2_banks (numberOfPRGBanks c B32K)"
    using assms that by (simp add: m054_ok_def m054_init_def b latch_start)
  then show "windows_safe m054_readPrg m054_readChr m054_writePrg (m054_init f c)" if "pow2_banks (numberOfPRGBanks c B32K)"
    using that by (simp add: windows_safe_def board054.safe)
  have "m061_ok (m061_init f c)" if "pow2_banks (numberOfPRGBanks c B32K)"
    using assms that by (simp add: m061_ok_def m061_init_def b)
  then show "windows_safe m061_readPrg m061_readChr m061_writePrg (m061_init f c)" if "pow2_banks (numberOfPRGBanks c B32K)"
    using that by (simp add: windows_safe_def board061.safe)
  have "m081_ok (m081_init f c)" using assms by (simp add: m081_ok_def m081_init_def b latch_start)
  then show "windows_safe m081_readPrg m081_readChr m081_writePrg (m081_init f c)"
    by (simp add: windows_safe_def board081.safe)
  have "m104_ok (m104_init f c)" using assms by (simp add: m104_ok_def m104_init_def b)
  then show "windows_safe m104_readPrg m104_readChr m104_writePrg (m104_init f c)"
    by (simp add: windows_safe_def board104.safe)
  have "m214_ok (m214_init f c)" using assms by (simp add: m214_ok_def m214_init_def b latch_start)
  then show "windows_safe m214_readPrg m214_readChr m214_writePrg (m214_init f c)"
    by (simp add: windows_safe_def board214.safe)
qed

text \<open>
  Mapper 58 masks its bank in the 16K mode but not in the 32K mode: with at most three 32K banks of program, a write to
  \<open>$8006\<close> makes every program read go past the end of the file.
\<close>
lemma m058_out_of_bounds:
  assumes "ines_open rom = Inr c" "c_chrSize c = 0" "c_prgSize c \<le> 3 * 0x8000"
  shows "\<exists>m. m058_writePrg 6 v (m058_init f c) = Some m \<and> m058_readPrg m a = None"
proof -
  have "readPrgBank c B32K 3 a = None" using beyond_prg[OF assms(1,2), of 3 B32K a] assms(3) by simp
  then show ?thesis by (simp add: m058_writePrg_def m058_init_def m058_readPrg_def Let_def)
qed

end
