(* ===== verification/Controllers.thy ===== *)
theory Controllers
  imports Prelude
begin

text \<open>
  The input devices that are shift registers: \<open>NesStandardController\<close>, \<open>FamicomController\<close>,
  \<open>SnesController\<close>, \<open>VirtualBoyController\<close> and the multi-player adapters \<open>FourScore\<close>
  and \<open>HoriAdapterFamicom\<close> (\<open>src/src/GeraNES/*.h\<close>). A device copies the button state into
  its register while the strobe is high and gives one bit per clocked read; a read with
  \<open>outputEnabled\<close> false sees the bit without shifting.

  The locale \<open>shift_pad\<close> is the contract of a pad, three classes interpret it, and the adapters,
  which contain four pads, are proved over it.
\<close>

subsection \<open>The standard controller\<close>

record nes_pad =
  np_register :: u8
  np_load :: u8
  np_strobe :: bool

definition nes_pad_init :: nes_pad where
  "nes_pad_init = \<lparr>np_register = 0, np_load = 0, np_strobe = False\<rparr>"

definition nes_pad_read :: "bool \<Rightarrow> nes_pad \<Rightarrow> u8 \<times> nes_pad" where
  "nes_pad_read outputEnabled p =
     (if np_strobe p then (if test_bits (np_load p) 1 then 1 else 0, p)
      else
        let ret = (if test_bits (np_register p) 1 then 1 else 0) in
        (ret, if outputEnabled then p\<lparr>np_register := drop_bit 1 (np_register p) OR 0x80\<rparr> else p))"

definition nes_pad_write :: "u8 \<Rightarrow> nes_pad \<Rightarrow> nes_pad" where
  "nes_pad_write data p = p\<lparr>np_strobe := test_bits data 1\<rparr>"

definition nes_pad_transition :: "nes_pad \<Rightarrow> nes_pad" where
  "nes_pad_transition p = (if np_strobe p then p\<lparr>np_register := np_load p\<rparr> else p)"

text \<open>The button arguments in the order of \<open>setButtonsStatus\<close>.\<close>

record buttons =
  bA :: bool
  bB :: bool
  bSelect :: bool
  bStart :: bool
  bUp :: bool
  bDown :: bool
  bLeft :: bool
  bRight :: bool

definition nes_buttons :: "buttons \<Rightarrow> u8" where
  "nes_buttons b =
     (if bA b then 1 else 0) OR (if bB b then push_bit 1 1 else 0) OR
     (if bSelect b then push_bit 2 1 else 0) OR (if bStart b then push_bit 3 1 else 0) OR
     (if bUp b then push_bit 4 1 else 0) OR (if bDown b \<and> \<not> bUp b then push_bit 5 1 else 0) OR
     (if bLeft b \<and> \<not> bRight b then push_bit 6 1 else 0) OR (if bRight b then push_bit 7 1 else 0)"

definition nes_setButtonsStatus :: "buttons \<Rightarrow> nes_pad \<Rightarrow> nes_pad" where
  "nes_setButtonsStatus b p = p\<lparr>np_load := nes_buttons b\<rparr>"

subsection \<open>The Famicom controllers with the microphone\<close>

record fc_pad = nes_pad +
  fc_hasMic :: bool
  fc_microphoneEnabled :: bool

definition fc_setButtonsStatus :: "buttons \<Rightarrow> fc_pad \<Rightarrow> fc_pad" where
  "fc_setButtonsStatus b p =
     (let p = (if fc_hasMic p then p\<lparr>fc_microphoneEnabled := bSelect b\<rparr> else p);
          b = (if fc_hasMic p then b\<lparr>bSelect := False, bStart := False\<rparr> else b)
      in p\<lparr>np_load := nes_buttons b\<rparr>)"

definition fc_extraRead4016Bits :: "fc_pad \<Rightarrow> u8" where
  "fc_extraRead4016Bits p = (if fc_hasMic p \<and> fc_microphoneEnabled p then 0x04 else 0x00)"

definition fc_setMicrophoneEnabled :: "bool \<Rightarrow> fc_pad \<Rightarrow> fc_pad" where
  "fc_setMicrophoneEnabled enabled p =
     (if fc_hasMic p then p\<lparr>fc_microphoneEnabled := enabled\<rparr> else p)"

subsection \<open>The SNES and Virtual Boy controllers\<close>

record wide_pad =
  wp_register :: u16
  wp_load :: u16
  wp_strobe :: bool

definition wide_pad_init :: wide_pad where
  "wide_pad_init = \<lparr>wp_register = 0xFFFF, wp_load = 0xFFFF, wp_strobe = False\<rparr>"

definition wide_pad_read :: "bool \<Rightarrow> wide_pad \<Rightarrow> u8 \<times> wide_pad" where
  "wide_pad_read outputEnabled p =
     (if wp_strobe p then (if test_bits (wp_load p) 1 then 1 else 0, p)
      else
        let ret = (if test_bits (wp_register p) 1 then 1 else 0) in
        (ret, if outputEnabled then p\<lparr>wp_register := drop_bit 1 (wp_register p) OR 0x8000\<rparr> else p))"

definition wide_pad_write :: "u8 \<Rightarrow> wide_pad \<Rightarrow> wide_pad" where
  "wide_pad_write data p = p\<lparr>wp_strobe := test_bits data 1\<rparr>"

definition wide_pad_transition :: "wide_pad \<Rightarrow> wide_pad" where
  "wide_pad_transition p = (if wp_strobe p then p\<lparr>wp_register := wp_load p\<rparr> else p)"

record snes_buttons = buttons +
  bX :: bool
  bY :: bool
  bL :: bool
  bR :: bool

definition snes_buttons_word :: "snes_buttons \<Rightarrow> u16" where
  "snes_buttons_word b =
     (if bB b then 1 else 0) OR (if bY b then push_bit 1 1 else 0) OR
     (if bSelect b then push_bit 2 1 else 0) OR (if bStart b then push_bit 3 1 else 0) OR
     (if bUp b then push_bit 4 1 else 0) OR (if bDown b \<and> \<not> bUp b then push_bit 5 1 else 0) OR
     (if bLeft b \<and> \<not> bRight b then push_bit 6 1 else 0) OR (if bRight b then push_bit 7 1 else 0) OR
     (if bA b then push_bit 8 1 else 0) OR (if bX b then push_bit 9 1 else 0) OR
     (if bL b then push_bit 10 1 else 0) OR (if bR b then push_bit 11 1 else 0) OR 0xF000"

definition snes_setButtonsStatusExtended :: "snes_buttons \<Rightarrow> wide_pad \<Rightarrow> wide_pad" where
  "snes_setButtonsStatusExtended b p = p\<lparr>wp_load := snes_buttons_word b\<rparr>"

record vb_buttons = snes_buttons +
  bUp1 :: bool
  bDown1 :: bool
  bLeft1 :: bool
  bRight1 :: bool

definition vb_setVirtualBoyButtons :: "vb_buttons \<Rightarrow> wide_pad \<Rightarrow> wide_pad" where
  "vb_setVirtualBoyButtons b p = p\<lparr>wp_load :=
     (if bDown1 b then 1 else 0) OR (if bLeft1 b then push_bit 1 1 else 0) OR
     (if bSelect b then push_bit 2 1 else 0) OR (if bStart b then push_bit 3 1 else 0) OR
     (if bUp b then push_bit 4 1 else 0) OR (if bDown b \<and> \<not> bUp b then push_bit 5 1 else 0) OR
     (if bLeft b \<and> \<not> bRight b then push_bit 6 1 else 0) OR (if bRight b then push_bit 7 1 else 0) OR
     (if bRight1 b then push_bit 8 1 else 0) OR (if bUp1 b then push_bit 9 1 else 0) OR
     (if bL b then push_bit 10 1 else 0) OR (if bR b then push_bit 11 1 else 0) OR
     (if bB b then push_bit 12 1 else 0) OR (if bA b then push_bit 13 1 else 0) OR push_bit 14 1\<rparr>"

subsection \<open>The adapters for four players\<close>

record four_score =
  fs_controllers :: "nes_pad list"
  fs_signature :: "u8 list"
  fs_signatureCounter :: "u8 list"
  fs_strobe :: bool

text \<open>The signatures of the two ports, which is all that distinguishes \<open>FourScore\<close> from
  \<open>HoriAdapterFamicom\<close>.\<close>

definition FOUR_SCORE :: "u8 list" where
  "FOUR_SCORE = [0x08, 0x04]"

definition HORI :: "u8 list" where
  "HORI = [0x04, 0x08]"

definition fs_init :: "u8 list \<Rightarrow> four_score" where
  "fs_init sig = \<lparr>fs_controllers = replicate 4 nes_pad_init, fs_signature = sig,
     fs_signatureCounter = [16, 16], fs_strobe = False\<rparr>"

definition resetSignature :: "u8 list \<Rightarrow> four_score \<Rightarrow> four_score" where
  "resetSignature sig s = s\<lparr>fs_signature := sig, fs_signatureCounter := [16, 16]\<rparr>"

definition fs_write :: "u8 list \<Rightarrow> u8 \<Rightarrow> four_score \<Rightarrow> four_score" where
  "fs_write sig data s =
     (let data = data AND 0x01;
          prevStrobe = fs_strobe s;
          s = s\<lparr>fs_strobe := (data \<noteq> 0), fs_controllers := map (nes_pad_write data) (fs_controllers s)\<rparr>
      in if prevStrobe \<and> \<not> fs_strobe s then resetSignature sig s else s)"

definition fs_readPort :: "u8 list \<Rightarrow> nat \<Rightarrow> bool \<Rightarrow> four_score \<Rightarrow> u8 \<times> four_score" where
  "fs_readPort sig p outputEnabled s =
     (let s = (if fs_strobe s then resetSignature sig s else s) in
      if fs_signatureCounter s ! p > 0 then
        let n = fs_signatureCounter s ! p - 1;
            s = s\<lparr>fs_signatureCounter := (fs_signatureCounter s)[p := n]\<rparr>;
            c = (if n < 8 then p + 2 else p);
            (v, pad) = nes_pad_read outputEnabled (fs_controllers s ! c)
        in (v AND 0x01, s\<lparr>fs_controllers := (fs_controllers s)[c := pad]\<rparr>)
      else
        let v = fs_signature s ! p in
        (v AND 0x01, s\<lparr>fs_signature := (fs_signature s)[p := drop_bit 1 v OR 0x80]\<rparr>))"

definition fs_transition :: "four_score \<Rightarrow> four_score" where
  "fs_transition s = s\<lparr>fs_controllers := map nes_pad_transition (fs_controllers s)\<rparr>"

definition fs_setControllerButtons :: "int \<Rightarrow> buttons \<Rightarrow> four_score \<Rightarrow> four_score" where
  "fs_setControllerButtons index b s =
     (if index < 0 \<or> index \<ge> int (length (fs_controllers s)) then s
      else s\<lparr>fs_controllers := (fs_controllers s)[nat index :=
                nes_setButtonsStatus b (fs_controllers s ! nat index)]\<rparr>)"

definition hori_read4016 :: "bool \<Rightarrow> four_score \<Rightarrow> u8 \<times> four_score" where
  "hori_read4016 outputEnabled s = (let (v, s) = fs_readPort HORI 0 outputEnabled s in (push_bit 1 v, s))"

definition hori_read4017 :: "bool \<Rightarrow> four_score \<Rightarrow> u8 \<times> four_score" where
  "hori_read4017 outputEnabled s = (let (v, s) = fs_readPort HORI 1 outputEnabled s in (push_bit 1 v, s))"

subsection \<open>The contract of a shift register\<close>

text \<open>A sequence of clocked reads.\<close>

fun reads :: "('p \<Rightarrow> u8 \<times> 'p) \<Rightarrow> nat \<Rightarrow> 'p \<Rightarrow> u8 list \<times> 'p" where
  "reads rd 0 p = ([], p)"
| "reads rd (Suc n) p = (let (v, p) = rd p; (vs, p) = reads rd n p in (v # vs, p))"

text \<open>The bits of a register, least significant first.\<close>

definition byte_bits :: "u8 \<Rightarrow> bool list" where
  "byte_bits w = map (bit w) [0..<8]"

definition word_bits :: "u16 \<Rightarrow> bool list" where
  "word_bits w = map (bit w) [0..<16]"

locale shift_pad =
  fixes rd :: "bool \<Rightarrow> 'p \<Rightarrow> u8 \<times> 'p" and wr :: "u8 \<Rightarrow> 'p \<Rightarrow> 'p" and step :: "'p \<Rightarrow> 'p"
    and strobed :: "'p \<Rightarrow> bool" and held :: "'p \<Rightarrow> bool list" and loaded :: "'p \<Rightarrow> bool list"
  assumes held_nonempty: "held p \<noteq> []"
    and same_width: "length (loaded p) = length (held p)"
    and wr_effect: "strobed (wr d p) = bit d 0" "held (wr d p) = held p" "loaded (wr d p) = loaded p"
    and step_effect: "strobed (step p) = strobed p" "loaded (step p) = loaded p"
      "held (step p) = (if strobed p then loaded p else held p)"
    and rd_value: "fst (rd e p) = of_bool (if strobed p then hd (loaded p) else hd (held p))"
    and rd_effect: "strobed (snd (rd e p)) = strobed p" "loaded (snd (rd e p)) = loaded p"
      "held (snd (rd e p)) = (if strobed p \<or> \<not> e then held p else tl (held p) @ [True])"
begin

lemma read_run:
  assumes "\<not> strobed p" "k \<le> length (held p)"
  shows "fst (reads (rd True) k p) = map of_bool (take k (held p)) \<and>
    held (snd (reads (rd True) k p)) = drop k (held p) @ replicate k True \<and>
    \<not> strobed (snd (reads (rd True) k p)) \<and> loaded (snd (reads (rd True) k p)) = loaded p"
  using assms
proof (induction k arbitrary: p)
  case (Suc k)
  let ?q = "snd (rd True p)"
  obtain b bs where h: "held p = b # bs" using held_nonempty[of p] by (cases "held p") auto
  have q: "held ?q = bs @ [True]" "\<not> strobed ?q" "loaded ?q = loaded p" "fst (rd True p) = of_bool b"
    using Suc.prems h by (simp_all add: rd_value rd_effect)
  have "k \<le> length (held ?q)" using Suc.prems h q by simp
  from Suc.IH[OF q(2) this] show ?case
    using h q Suc.prems by (simp add: case_prod_unfold Let_def replicate_append_same)
qed simp

text \<open>Strobe high for a clock edge, strobe low, then one read per button.\<close>

lemma poll:
  assumes "k \<le> length (loaded p)"
  shows "fst (reads (rd True) k (wr 0 (step (wr 1 p)))) = map of_bool (take k (loaded p))"
  using read_run[of "wr 0 (step (wr 1 p))" k] assms same_width[of p]
  by (simp add: wr_effect step_effect)

end

lemma test_bit0: "test_bits (w :: 'a::len word) 1 = bit w 0"
  using test_bits_single[of 0 w] by simp

lemma byte_bits_shift: "byte_bits (drop_bit (Suc 0) w OR 0x80) = tl (byte_bits w) @ [True]"
proof (rule nth_equalityI)
  fix i assume "i < length (byte_bits (drop_bit (Suc 0) w OR 0x80))"
  then have "i < 8" by (simp add: byte_bits_def)
  moreover have "bit (0x80 :: u8) i \<longleftrightarrow> i = 7"
    using bit_push_bit_iff[of 7 "1 :: u8" i] by (simp add: bit_1_iff) auto
  ultimately show "byte_bits (drop_bit (Suc 0) w OR 0x80) ! i = (tl (byte_bits w) @ [True]) ! i"
    by (auto simp: byte_bits_def nth_append nth_tl bit_or_iff bit_drop_bit_eq)
qed (simp add: byte_bits_def)

lemma word_bits_shift: "word_bits (drop_bit (Suc 0) w OR 0x8000) = tl (word_bits w) @ [True]"
proof (rule nth_equalityI)
  fix i assume "i < length (word_bits (drop_bit (Suc 0) w OR 0x8000))"
  then have "i < 16" by (simp add: word_bits_def)
  moreover have "bit (0x8000 :: u16) i \<longleftrightarrow> i = 15"
    using bit_push_bit_iff[of 15 "1 :: u16" i] by (simp add: bit_1_iff) auto
  ultimately show "word_bits (drop_bit (Suc 0) w OR 0x8000) ! i = (tl (word_bits w) @ [True]) ! i"
    by (auto simp: word_bits_def nth_append nth_tl bit_or_iff bit_drop_bit_eq)
qed (simp add: word_bits_def)

lemma byte_bits_simps [simp]: "length (byte_bits w) = 8" "byte_bits w \<noteq> []" "hd (byte_bits w) = bit w 0"
  by (simp_all add: byte_bits_def hd_map upt_conv_Cons)

lemma word_bits_simps [simp]: "length (word_bits w) = 16" "word_bits w \<noteq> []" "hd (word_bits w) = bit w 0"
  by (simp_all add: word_bits_def hd_map upt_conv_Cons)

interpretation standard: shift_pad nes_pad_read nes_pad_write nes_pad_transition np_strobe
  "\<lambda>p. byte_bits (np_register p)" "\<lambda>p. byte_bits (np_load p)"
  by unfold_locales (auto simp: nes_pad_read_def nes_pad_write_def nes_pad_transition_def test_bit0
      Let_def byte_bits_shift)

interpretation wide: shift_pad wide_pad_read wide_pad_write wide_pad_transition wp_strobe
  "\<lambda>p. word_bits (wp_register p)" "\<lambda>p. word_bits (wp_load p)"
  by unfold_locales (auto simp: wide_pad_read_def wide_pad_write_def wide_pad_transition_def test_bit0
      Let_def word_bits_shift)

subsection \<open>The report of an adapter\<close>

text \<open>A run of reads that a smaller device answers: \<open>view\<close> finds that device in the state and
  \<open>ok n\<close> says that at least \<open>n\<close> more reads are its own.\<close>

lemma reads_simulation:
  assumes "\<And>n s. ok (Suc n) s \<Longrightarrow>
      fst (rd s) = fst (rd' (view s)) \<and> view (snd (rd s)) = snd (rd' (view s)) \<and> ok n (snd (rd s))"
    and "ok k s"
  shows "fst (reads rd k s) = fst (reads rd' k (view s)) \<and> ok 0 (snd (reads rd k s))"
  using assms(2)
proof (induction k arbitrary: s)
  case (Suc k)
  then show ?case using assms(1)[OF Suc.prems] Suc.IH[of "snd (rd s)"]
    by (simp add: case_prod_unfold Let_def)
qed simp

lemma reads_append:
  "reads rd (m + n) s = (let (vs, s) = reads rd m s; (ws, s) = reads rd n s in (vs @ ws, s))"
  by (induction m arbitrary: s) (simp_all add: case_prod_unfold Let_def)

lemma nes_pad_read_bit [simp]: "fst (nes_pad_read e p) AND 1 = fst (nes_pad_read e p)"
  by (simp add: nes_pad_read_def Let_def)

text \<open>An adapter with the strobe low: \<open>k\<close> reads of port \<open>p\<close> left before the signature, pad \<open>c\<close>
  in state \<open>pad\<close> and the signature of the port still at \<open>g\<close>.\<close>

definition fs_at :: "nat \<Rightarrow> nat \<Rightarrow> u8 \<Rightarrow> four_score \<Rightarrow> bool" where
  "fs_at p k g s \<longleftrightarrow> \<not> fs_strobe s \<and> length (fs_controllers s) = 4 \<and> p < 2 \<and>
     length (fs_signatureCounter s) = 2 \<and> length (fs_signature s) = 2 \<and>
     unat (fs_signatureCounter s ! p) = k \<and> fs_signature s ! p = g"

lemma fs_read_pad:
  assumes "fs_at p (Suc k) g s" and c: "c = (if k < 8 then p + 2 else p)"
  shows "fst (fs_readPort sig p e s) = fst (nes_pad_read e (fs_controllers s ! c))"
    "fs_controllers (snd (fs_readPort sig p e s)) =
       (fs_controllers s)[c := snd (nes_pad_read e (fs_controllers s ! c))]"
    "fs_at p k g (snd (fs_readPort sig p e s))"
proof -
  let ?n = "fs_signatureCounter s ! p"
  have n: "unat ?n = Suc k" using assms by (simp add: fs_at_def)
  then have pos: "?n > 0" by (simp add: word_gt_0 unat_eq_zero) (metis nat.distinct(1) unat_0)
  then have k: "unat (?n - 1) = k" using n by (metis One_nat_def diff_Suc_1 unat_minus_one word_gt_0)
  then have "(?n - 1 < 8) = (k < 8)" by (simp add: word_less_nat_alt)
  then show "fst (fs_readPort sig p e s) = fst (nes_pad_read e (fs_controllers s ! c))"
    "fs_controllers (snd (fs_readPort sig p e s)) =
       (fs_controllers s)[c := snd (nes_pad_read e (fs_controllers s ! c))]"
    "fs_at p k g (snd (fs_readPort sig p e s))"
    using assms pos k by (auto simp: fs_at_def fs_readPort_def Let_def case_prod_unfold)
qed

lemma fs_read_signature:
  assumes "fs_at p 0 g s" and "v = \<lparr>np_register = g, np_load = 0, np_strobe = False\<rparr>"
  shows "fst (fs_readPort sig p e s) = fst (nes_pad_read True v)"
    "fs_at p 0 (np_register (snd (nes_pad_read True v))) (snd (fs_readPort sig p e s))"
proof -
  have "fs_signatureCounter s ! p = 0" using assms by (simp add: fs_at_def unat_eq_zero)
  moreover have "x AND 1 = (if bit x 0 then 1 else 0)" for x :: u8
    by (simp add: and_one_eq mod_2_eq_odd bit_0)
  ultimately show "fst (fs_readPort sig p e s) = fst (nes_pad_read True v)"
    "fs_at p 0 (np_register (snd (nes_pad_read True v))) (snd (fs_readPort sig p e s))"
    using assms by (auto simp: fs_at_def fs_readPort_def Let_def nes_pad_read_def test_bit0)
qed

text \<open>The three runs of a poll: eight bits of the port's first pad, eight of its second, then the
  signature.\<close>

lemma fs_run_first:
  assumes "fs_at p 16 g s"
  shows "fst (reads (fs_readPort sig p True) 8 s) = fst (reads (nes_pad_read True) 8 (fs_controllers s ! p))"
    "fs_at p 8 g (snd (reads (fs_readPort sig p True) 8 s))"
    "fs_controllers (snd (reads (fs_readPort sig p True) 8 s)) ! (p + 2) = fs_controllers s ! (p + 2)"
proof -
  let ?ok = "\<lambda>n t. fs_at p (8 + n) g t \<and> fs_controllers t ! (p + 2) = fs_controllers s ! (p + 2)"
  have "fst (reads (fs_readPort sig p True) 8 s) = fst (reads (nes_pad_read True) 8 (fs_controllers s ! p)) \<and>
      ?ok 0 (snd (reads (fs_readPort sig p True) 8 s))"
  proof (rule reads_simulation[where ok = ?ok and view = "\<lambda>t. fs_controllers t ! p"])
    fix n t assume t: "?ok (Suc n) t"
    then have at: "fs_at p (Suc (8 + n)) g t" by simp
    from t have "p < length (fs_controllers t)" by (simp add: fs_at_def)
    then show "fst (fs_readPort sig p True t) = fst (nes_pad_read True (fs_controllers t ! p)) \<and>
        fs_controllers (snd (fs_readPort sig p True t)) ! p = snd (nes_pad_read True (fs_controllers t ! p)) \<and>
        ?ok n (snd (fs_readPort sig p True t))"
      using t fs_read_pad[OF at refl, of sig True] by simp
  qed (use assms in simp)
  then show "fst (reads (fs_readPort sig p True) 8 s) = fst (reads (nes_pad_read True) 8 (fs_controllers s ! p))"
    "fs_at p 8 g (snd (reads (fs_readPort sig p True) 8 s))"
    "fs_controllers (snd (reads (fs_readPort sig p True) 8 s)) ! (p + 2) = fs_controllers s ! (p + 2)"
    by simp_all
qed

lemma fs_run_second:
  assumes "fs_at p 8 g s"
  shows "fst (reads (fs_readPort sig p True) 8 s) =
      fst (reads (nes_pad_read True) 8 (fs_controllers s ! (p + 2)))"
    "fs_at p 0 g (snd (reads (fs_readPort sig p True) 8 s))"
proof -
  let ?ok = "\<lambda>n t. fs_at p n g t \<and> n \<le> 8"
  have "fst (reads (fs_readPort sig p True) 8 s) =
      fst (reads (nes_pad_read True) 8 (fs_controllers s ! (p + 2))) \<and>
      ?ok 0 (snd (reads (fs_readPort sig p True) 8 s))"
  proof (rule reads_simulation[where ok = ?ok and view = "\<lambda>t. fs_controllers t ! (p + 2)"])
    fix n t assume t: "?ok (Suc n) t"
    then have at: "fs_at p (Suc n) g t" and "n < 8" by simp_all
    from t have "p + 2 < length (fs_controllers t)" by (simp add: fs_at_def)
    then show "fst (fs_readPort sig p True t) = fst (nes_pad_read True (fs_controllers t ! (p + 2))) \<and>
        fs_controllers (snd (fs_readPort sig p True t)) ! (p + 2) =
          snd (nes_pad_read True (fs_controllers t ! (p + 2))) \<and>
        ?ok n (snd (fs_readPort sig p True t))"
      using \<open>n < 8\<close> fs_read_pad[OF at refl, of sig True] by simp
  qed (use assms in simp)
  then show "fst (reads (fs_readPort sig p True) 8 s) =
      fst (reads (nes_pad_read True) 8 (fs_controllers s ! (p + 2)))"
    "fs_at p 0 g (snd (reads (fs_readPort sig p True) 8 s))" by simp_all
qed

lemma fs_run_signature:
  assumes "fs_at p 0 g s"
  shows "fst (reads (fs_readPort sig p True) 8 s) = map of_bool (byte_bits g)"
proof -
  let ?v = "\<lambda>t. \<lparr>np_register = fs_signature t ! p, np_load = 0, np_strobe = False\<rparr>"
  let ?ok = "\<lambda>n t. fs_at p 0 (fs_signature t ! p) t"
  have "fst (reads (fs_readPort sig p True) 8 s) = fst (reads (nes_pad_read True) 8 (?v s)) \<and>
      ?ok 0 (snd (reads (fs_readPort sig p True) 8 s))"
  proof (rule reads_simulation[where ok = ?ok and view = ?v])
    fix n t assume t: "?ok (Suc n) t"
    have "fs_signature (snd (fs_readPort sig p True t)) ! p = np_register (snd (nes_pad_read True (?v t)))"
      using fs_read_signature(2)[OF t refl, of sig True] by (simp add: fs_at_def)
    then show "fst (fs_readPort sig p True t) = fst (nes_pad_read True (?v t)) \<and>
        ?v (snd (fs_readPort sig p True t)) = snd (nes_pad_read True (?v t)) \<and>
        ?ok n (snd (fs_readPort sig p True t))"
      using fs_read_signature[OF t refl, of sig True] by (simp add: nes_pad_read_def Let_def)
  qed (use assms in \<open>simp add: fs_at_def\<close>)
  then show ?thesis using standard.read_run[of "?v s" 8] assms by (simp add: fs_at_def)
qed

lemma fs_report:
  assumes "fs_at p 16 g s" and "\<not> np_strobe (fs_controllers s ! p)" "\<not> np_strobe (fs_controllers s ! (p + 2))"
  shows "fst (reads (fs_readPort sig p True) 24 s) = map of_bool
    (byte_bits (np_register (fs_controllers s ! p)) @ byte_bits (np_register (fs_controllers s ! (p + 2))) @
     byte_bits g)"
proof -
  let ?rd = "fs_readPort sig p True"
  let ?s = "snd (reads ?rd 8 s)"
  have "fst (reads ?rd (8 + (8 + 8)) s) =
      fst (reads ?rd 8 s) @ fst (reads ?rd 8 ?s) @ fst (reads ?rd 8 (snd (reads ?rd 8 ?s)))"
    by (simp only: reads_append case_prod_unfold Let_def fst_conv snd_conv)
  also have "\<dots> = fst (reads (nes_pad_read True) 8 (fs_controllers s ! p)) @
      fst (reads (nes_pad_read True) 8 (fs_controllers s ! (p + 2))) @ map of_bool (byte_bits g)"
    using fs_run_first[OF assms(1), of sig] fs_run_second[OF fs_run_first(2)[OF assms(1)], of sig]
      fs_run_signature[OF fs_run_second(2)[OF fs_run_first(2)[OF assms(1)]], of sig] by simp
  finally show ?thesis using standard.read_run[OF assms(2), of 8] standard.read_run[OF assms(3), of 8] by simp
qed

text \<open>The poll of a Four Score or a Hori adapter. After a strobe pulse (a write of 1, a transition
  of the CPU clock, a write of 0), from any state of the adapter, 24 clocked reads of port \<open>p\<close> give the
  eight buttons of pad \<open>p\<close>, then those of pad \<open>p + 2\<close>, then the signature byte of the port, each
  least significant bit first.\<close>

theorem four_score_report:
  assumes "length (fs_controllers s) = 4" and "length sig = 2" and "p < 2"
    and "t = fs_write sig 0 (fs_transition (fs_write sig 1 s))"
  shows "fst (reads (fs_readPort sig p True) 24 t) = map of_bool
    (byte_bits (np_load (fs_controllers s ! p)) @ byte_bits (np_load (fs_controllers s ! (p + 2))) @
     byte_bits (sig ! p))"
proof -
  have at: "fs_at p 16 (sig ! p) t"
    using assms by (auto simp: fs_at_def fs_write_def fs_transition_def resetSignature_def Let_def less_2_cases_iff)
  have pads: "fs_controllers t = map (\<lambda>c. nes_pad_write 0 (nes_pad_transition (nes_pad_write 1 c))) (fs_controllers s)"
    using assms by (simp add: fs_write_def fs_transition_def resetSignature_def Let_def)
  have pad: "\<not> np_strobe (fs_controllers t ! c)" "np_register (fs_controllers t ! c) = np_load (fs_controllers s ! c)"
    if "c < 4" for c
    using that assms(1) by (simp_all add: pads nes_pad_write_def nes_pad_transition_def test_bit0)
  show ?thesis using fs_report[OF at] pad[of p] pad[of "p + 2"] assms by simp
qed

definition players :: four_score where
  "players = (fs_init FOUR_SCORE)\<lparr>fs_controllers :=
     map (\<lambda>w. nes_pad_init\<lparr>np_load := w\<rparr>) [0x01, 0x80, 0x08, 0x10]\<rparr>"

theorem four_score_report_witness:
  "length (fs_controllers players) = 4 \<and> length FOUR_SCORE = 2 \<and>
   fst (reads (fs_readPort FOUR_SCORE 0 True) 24
     (fs_write FOUR_SCORE 0 (fs_transition (fs_write FOUR_SCORE 1 players)))) =
   [1,0,0,0,0,0,0,0, 0,0,0,1,0,0,0,0, 0,0,0,1,0,0,0,0]"
proof -
  have len: "length (fs_controllers players) = 4" "length FOUR_SCORE = 2"
    by (simp_all add: players_def FOUR_SCORE_def)
  have "map of_bool (byte_bits (np_load (fs_controllers players ! 0)) @
      byte_bits (np_load (fs_controllers players ! (0 + 2))) @ byte_bits (FOUR_SCORE ! 0)) =
      [1,0,0,0,0,0,0,0, 0,0,0,1,0,0,0,0, 0,0,0,1,0,0,0,(0::u8)]"
    by code_simp
  with four_score_report[OF len, of 0] len show ?thesis by simp
qed

text \<open>An unclocked read (\<open>outputEnabled\<close> false) does not shift a pad, yet it takes a slot of the
  adapter's count: the reads that follow reach the next pad one bit too early.\<close>

lemma four_score_unclocked:
  assumes "fs_at p (Suc k) g s"
  shows "fs_at p k g (snd (fs_readPort sig p False s))"
    "fs_controllers (snd (fs_readPort sig p False s)) = fs_controllers s"
  using fs_read_pad[OF assms refl, of sig False]
  by (simp_all add: nes_pad_read_def Let_def)

text \<open>No pad reports opposite directions held together: the load register of the standard pad, of
  both Famicom pads and of the SNES pad after \<open>setButtonsStatus\<close> never has the up and down bits or
  the left and right bits both set.\<close>

lemma no_opposite_directions:
  "\<not> (bit (np_load (nes_setButtonsStatus b p)) 4 \<and> bit (np_load (nes_setButtonsStatus b p)) 5) \<and>
   \<not> (bit (np_load (nes_setButtonsStatus b p)) 6 \<and> bit (np_load (nes_setButtonsStatus b p)) 7) \<and>
   \<not> (bit (np_load (fc_setButtonsStatus b q)) 4 \<and> bit (np_load (fc_setButtonsStatus b q)) 5) \<and>
   \<not> (bit (np_load (fc_setButtonsStatus b q)) 6 \<and> bit (np_load (fc_setButtonsStatus b q)) 7) \<and>
   \<not> (bit (wp_load (snes_setButtonsStatusExtended d w)) 4 \<and> bit (wp_load (snes_setButtonsStatusExtended d w)) 5) \<and>
   \<not> (bit (wp_load (snes_setButtonsStatusExtended d w)) 6 \<and> bit (wp_load (snes_setButtonsStatusExtended d w)) 7)"
  by (auto simp: nes_setButtonsStatus_def fc_setButtonsStatus_def snes_setButtonsStatusExtended_def
      nes_buttons_def snes_buttons_word_def Let_def bit_or_iff bit_push_bit_iff bit_1_iff split: if_splits)

end
