(* ===== verification/Ppu_State.thy ===== *)
theory Ppu_State
  imports Settings
begin

text \<open>
  The picture processing unit (\<open>src/src/GeraNES/PPU.h\<close>): its members, its memory and its
  address registers. The members are grouped by record extension in the order of the class. The
  cartridge and the receivers of the three signals are the environment \<open>p_env\<close>; the calls into it
  are the operations of \<open>ppu_ops\<close>, none of which calls back into a member that changes the PPU
  (\<open>onPPUScanlineStart\<close> reads two of them, which are its arguments).

  Not modelled: the render capture of the debugger (\<open>m_debugMod...\<close>, off unless a tool asks for
  it), the members of a sprite entry only it reads (\<open>tileIndex\<close>, \<open>patternAddress\<close>, \<open>row\<close>,
  \<open>valid\<close>), the generation counters, the debugger cursor and the unused \<open>m_tileData\<close>.
\<close>

datatype SpriteHeight = H8 | H16

datatype VramAddressIncrement = I1 | I32

datatype PatternTableAddress = X0000 | X1000

datatype PpuModel = Ppu2C02 | Ppu2C03 | Ppu2C04A | Ppu2C04B | Ppu2C04C | Ppu2C04D
  | Ppu2C05A | Ppu2C05B | Ppu2C05C | Ppu2C05D | Ppu2C05E

primrec spriteHeight_int :: "SpriteHeight \<Rightarrow> int" where
  "spriteHeight_int H8 = 8"
| "spriteHeight_int H16 = 16"

primrec increment_u16 :: "VramAddressIncrement \<Rightarrow> u16" where
  "increment_u16 I1 = 1"
| "increment_u16 I32 = 32"

primrec table_u16 :: "PatternTableAddress \<Rightarrow> u16" where
  "table_u16 X0000 = 0x0000"
| "table_u16 X1000 = 0x1000"

record Sprite =
  s_y :: u8
  s_indexInPatternTable :: u8
  s_attrib :: u8
  s_x :: u8

record SpriteFetchEntry =
  f_x :: u8
  f_attr :: u8
  f_lowByte :: u8
  f_highByte :: u8
  f_sprite0 :: bool

record SpriteRenderEntry =
  r_x :: u8
  r_xCounter :: u8
  r_attr :: u8
  r_lowShift :: u8
  r_highShift :: u8
  r_sprite0 :: bool
  r_counting :: bool
  r_active :: bool

record DeferredPpuIoState =
  pendingDataLatchUpdate :: bool
  pendingDataLatchDelay :: u8
  pendingDataLatchAddr :: u16
  deferredDataLatchArmPending :: bool
  deferredDataLatchStart :: bool
  deferredDataLatchStartDelay :: u8
  deferredVideoRamIncrementArmPending :: bool
  deferredVideoRamIncrementDelay :: u8

text \<open>The settings the PPU reads.\<close>

record ppu_settings =
  region :: Region
  spriteLimitDisabled :: bool
  overclockLines :: int

record 'c ppu_registers =
  p_env :: 'c
  p_scanline :: int
  p_cycle :: int
  p_VRAMAddressIncrement :: VramAddressIncrement
  p_spritePatternTableAddress :: PatternTableAddress
  p_backgroundPatternTableAddress :: PatternTableAddress
  p_spriteHeight :: SpriteHeight
  p_PPUSlave :: bool
  p_NMIOnVBlank :: bool
  p_monochromeDisplay :: bool
  p_showBackgroundLeftmost8Pixels :: bool
  p_showSpritesLeftmost8Pixels :: bool
  p_backgroundEnabled :: bool
  p_spritesEnabled :: bool
  p_colorEmphasis :: u8
  p_renderingEnabled :: bool
  p_VBlankHasStarted :: bool
  p_sprite0Hit :: bool
  p_spriteOverflow :: bool
  p_interruptFlag :: bool
  p_oddFrameFlag :: bool
  p_reg_v :: u16
  p_reg_x :: u8
  p_reg_t :: u16
  p_reg_w :: bool
  p_lastPPUSTATUSReadCycle :: int
  p_openBus :: u8
  p_openBusTimer :: "u8 list"

record 'c ppu_memory = "'c ppu_registers" +
  p_nameTable :: "u8 list list"
  p_palette :: "u8 list"
  p_colorPalette :: "u32 list"
  p_outputColorPalette :: "u32 list"
  p_vsPpuModel :: PpuModel
  p_dataLatch :: u8
  p_deferredPpuIo :: DeferredPpuIoState
  p_preLine :: bool
  p_visibleLine :: bool
  p_renderLine :: bool
  p_needUpdateState :: bool
  p_needIncVideoRam :: bool
  p_prevCycleRenderingEnabled :: bool
  p_staleBgShiftActive :: bool
  p_update_reg_v_delay :: int
  p_update_reg_v_value :: u16
  p_busAddress :: u16
  p_busAddressLowLatch :: u8
  p_updateA12Delay :: int
  p_isSpritePatternFetch :: bool
  p_currentReadAffectsBus :: bool
  p_cpuDmaReadInProgress :: bool

record 'c ppu_sprites = "'c ppu_memory" +
  p_primaryOam :: "u8 list"
  p_secondaryOam :: "u8 list"
  p_spritesInThisLine :: u8
  p_testSprite0HitInThisLine :: bool
  p_oamAddr :: u8
  p_oamCopyBuffer :: u8
  p_oamCopyDone :: bool
  p_secondaryOamAddr :: u8
  p_spriteInRange :: bool
  p_oamAddrN :: u8
  p_oamAddrM :: u8
  p_overflowBugCounter :: int
  p_sprite0Added :: bool
  p_corruptOamRow :: "bool list"
  p_spritesIndexesInThisLine :: "u8 list"
  p_spriteFetchEntries :: "SpriteFetchEntry list"
  p_spriteRenderEntries :: "SpriteRenderEntry list"
  p_spriteFetchCount :: u8
  p_spriteRenderClockingActiveThisLine :: bool
  p_firstSpriteFetchV :: u16

record 'c ppu = "'c ppu_sprites" +
  p_framebuffer :: "u32 list"
  p_pFrameBuffer :: nat
  p_currentPixelColorIndex :: u8
  p_currentX :: int
  p_currentY :: int
  p_tileAddr :: u16
  p_paletteOffset :: u8
  p_lowTileByte :: u8
  p_highTileByte :: u8
  p_bgPatternLowShift :: u16
  p_bgPatternHighShift :: u16
  p_bgAttribLowShift :: u16
  p_bgAttribHighShift :: u16
  p_bgAttribLowLatch :: bool
  p_bgAttribHighLatch :: bool
  FRAME_NUMBER_OF_LINES :: int
  FRAME_VBLANK_START_LINE :: int
  FRAME_VBLANK_END_LINE :: int
  p_inOverclockLines :: bool
  p_overclockFrame :: bool

text \<open>The calls of the PPU into the cartridge and the console.\<close>

record 'c ppu_ops =
  onPpuRead :: "u16 \<Rightarrow> 'c \<Rightarrow> 'c"
  setPpuFetchSource :: "bool \<Rightarrow> 'c \<Rightarrow> 'c"
  chr_read :: "u16 \<Rightarrow> 'c \<Rightarrow> u8 \<times> 'c"
  chr_write :: "u16 \<Rightarrow> u8 \<Rightarrow> 'c \<Rightarrow> 'c"
  useCustomNameTable :: "u8 \<Rightarrow> 'c \<Rightarrow> bool"
  readCustomNameTable :: "u8 \<Rightarrow> u16 \<Rightarrow> 'c \<Rightarrow> u8 \<times> 'c"
  writeCustomNameTable :: "u8 \<Rightarrow> u16 \<Rightarrow> u8 \<Rightarrow> 'c \<Rightarrow> 'c"
  nt_mirroring :: "u8 \<Rightarrow> 'c \<Rightarrow> u8"
  transformNameTableRead :: "u8 \<Rightarrow> u16 \<Rightarrow> u8 \<Rightarrow> 'c \<Rightarrow> u8 \<times> 'c"
  setA12State :: "bool \<Rightarrow> 'c \<Rightarrow> 'c"
  onPpuCycle :: "int \<Rightarrow> int \<Rightarrow> bool \<Rightarrow> bool \<Rightarrow> 'c \<Rightarrow> 'c"
  setSpriteSize8x16 :: "bool \<Rightarrow> 'c \<Rightarrow> 'c"
  setPpuMask :: "u8 \<Rightarrow> 'c \<Rightarrow> 'c"
  onPpuStatusRead :: "bool \<Rightarrow> 'c \<Rightarrow> 'c"
  signalFrameStart :: "'c \<Rightarrow> 'c"
  signalFrameReady :: "'c \<Rightarrow> 'c"
  signalScanlineStart :: "bool \<Rightarrow> int \<Rightarrow> 'c \<Rightarrow> 'c"

definition call :: "('c \<Rightarrow> 'c) \<Rightarrow> 'c ppu \<Rightarrow> 'c ppu" where
  "call f p = p\<lparr>p_env := f (p_env p)\<rparr>"

definition call_value :: "('c \<Rightarrow> 'v \<times> 'c) \<Rightarrow> 'c ppu \<Rightarrow> 'v \<times> 'c ppu" where
  "call_value f p = (let (v, e) = f (p_env p) in (v, p\<lparr>p_env := e\<rparr>))"

end
