(* ===== verification/Ppu_Memory.thy ===== *)
theory Ppu_Memory
  imports Ppu_State
begin

text \<open>
  The bus of the PPU (\<open>src/src/GeraNES/PPU.h\<close>): the open-bus latch that decays, the memory map
  with its mirrors, the address registers \<open>v\<close> and \<open>t\<close>, and the accesses through \<open>$2007\<close>
  that take effect some cycles after the register access.
\<close>

subsection \<open>Open bus\<close>

definition initOpenBus :: "'c ppu \<Rightarrow> 'c ppu" where
  "initOpenBus p = p\<lparr>p_openBus := 0, p_openBusTimer := replicate 8 0\<rparr>"

definition updateOpenBus :: "u8 \<Rightarrow> u8 \<Rightarrow> 'c ppu \<Rightarrow> 'c ppu" where
  "updateOpenBus v refreshMask p = p\<lparr>p_openBus := v,
     p_openBusTimer := map (\<lambda>i. if bit v i \<and> bit refreshMask i then 30 else p_openBusTimer p ! i) [0..<8]\<rparr>"

definition decayBit :: "nat \<Rightarrow> 'c ppu \<Rightarrow> 'c ppu" where
  "decayBit i p =
     (if p_openBusTimer p ! i > 0 then
        let t = p_openBusTimer p ! i - 1;
            p = p\<lparr>p_openBusTimer := (p_openBusTimer p)[i := t]\<rparr>
        in if t = 0 then p\<lparr>p_openBus := p_openBus p AND NOT (push_bit i 1)\<rparr> else p
      else p)"

definition decayOpenBus :: "'c ppu \<Rightarrow> 'c ppu" where
  "decayOpenBus p = fold decayBit [0..<8] p"

subsection \<open>Addresses\<close>

definition normalizePpuAddress :: "u16 \<Rightarrow> u16" where
  "normalizePpuAddress addr = addr AND 0x3FFF"

definition normalizeNameTableAddress :: "u16 \<Rightarrow> u16" where
  "normalizeNameTableAddress addr = normalizePpuAddress addr AND 0x2FFF"

definition normalizePaletteAddress :: "u16 \<Rightarrow> u16" where
  "normalizePaletteAddress addr =
     (let normalized = normalizePpuAddress addr AND 0x3F1F in
      if normalized = 0x3F10 then 0x3F00
      else if normalized = 0x3F14 then 0x3F04
      else if normalized = 0x3F18 then 0x3F08
      else if normalized = 0x3F1C then 0x3F0C
      else normalized)"

definition setBusAddress :: "u16 \<Rightarrow> 'c ppu \<Rightarrow> 'c ppu" where
  "setBusAddress addr p = p\<lparr>p_busAddress := addr, p_updateA12Delay := 2, p_needUpdateState := True\<rparr>"

definition isOnPaletteAddr :: "'c ppu \<Rightarrow> bool" where
  "isOnPaletteAddr p \<longleftrightarrow> p_reg_v p \<ge> 0x3F00 \<and> p_reg_v p < 0x4000"

definition isActivelyRendering :: "'c ppu \<Rightarrow> bool" where
  "isActivelyRendering p \<longleftrightarrow> p_renderLine p \<and> p_renderingEnabled p"

definition commitPendingDataLatch :: "u8 \<Rightarrow> 'c ppu \<Rightarrow> 'c ppu" where
  "commitPendingDataLatch v p =
     (if pendingDataLatchUpdate (p_deferredPpuIo p) \<and> pendingDataLatchDelay (p_deferredPpuIo p) = 0
      then p\<lparr>p_dataLatch := v,
             p_deferredPpuIo := (p_deferredPpuIo p)\<lparr>pendingDataLatchUpdate := False\<rparr>\<rparr>
      else p)"

subsection \<open>Memory\<close>

definition nt_index :: "u8 \<Rightarrow> nat" where
  "nt_index i = unat (i AND 3)"

definition nt_offset :: "u16 \<Rightarrow> nat" where
  "nt_offset addr = unat (addr AND 0x3FF)"

definition writeNameTable :: "'c ppu_ops \<Rightarrow> u8 \<Rightarrow> u16 \<Rightarrow> u8 \<Rightarrow> 'c ppu \<Rightarrow> 'c ppu" where
  "writeNameTable E addrIndex addr data p =
     (if useCustomNameTable E (addrIndex AND 0x03) (p_env p)
      then call (writeCustomNameTable E (addrIndex AND 0x03) (addr AND 0x3FF) data) p
      else
        let t = nt_index (nt_mirroring E (addrIndex AND 0x03) (p_env p)) in
        p\<lparr>p_nameTable := (p_nameTable p)[t := (p_nameTable p ! t)[nt_offset addr := data]]\<rparr>)"

definition readNameTable :: "'c ppu_ops \<Rightarrow> u8 \<Rightarrow> u16 \<Rightarrow> 'c ppu \<Rightarrow> u8 \<times> 'c ppu" where
  "readNameTable E addrIndex addr p =
     (let (ret, p) =
        (if useCustomNameTable E (addrIndex AND 0x03) (p_env p)
         then call_value (readCustomNameTable E (addrIndex AND 0x03) (addr AND 0x3FF)) p
         else (p_nameTable p ! nt_index (nt_mirroring E (addrIndex AND 0x03) (p_env p)) ! nt_offset addr, p))
      in if \<not> p_currentReadAffectsBus p then (ret, p)
         else call_value (transformNameTableRead E (addrIndex AND 0x03) (addr AND 0x3FF) ret) p)"

text \<open>The table that a name table address selects before mirroring.\<close>

definition nt_select :: "u16 \<Rightarrow> u8" where
  "nt_select nameTableAddr = ucast (drop_bit 10 (nameTableAddr - 0x2000))"

text \<open>The two instances of \<open>readWritePpuMemory\<close>; the Boolean arguments are its template
  parameters \<open>affectsTheBus\<close> and \<open>updateBusAddress\<close>.\<close>

definition readAccess :: "'c ppu_ops \<Rightarrow> bool \<Rightarrow> bool \<Rightarrow> u16 \<Rightarrow> 'c ppu \<Rightarrow> u8 \<times> 'c ppu" where
  "readAccess E affectsTheBus updateBusAddress addr p =
     (let p = p\<lparr>p_currentReadAffectsBus := affectsTheBus\<rparr>;
          p = (if affectsTheBus then call (onPpuRead E (addr AND 0x3FFF)) p else p);
          p = (if affectsTheBus \<and> updateBusAddress then setBusAddress addr p else p);
          addr = normalizePpuAddress addr;
          (v, p) =
            (if addr < 0x2000 then
               call_value (chr_read E addr) (call (setPpuFetchSource E (p_isSpritePatternFetch p)) p)
             else if addr < 0x3F00 then
               let nameTableAddr = normalizeNameTableAddress addr in
               readNameTable E (nt_select nameTableAddr) nameTableAddr p
             else (p_palette p ! unat (normalizePaletteAddress addr - 0x3F00), p))
      in (v, commitPendingDataLatch v p))"

definition writeAccess :: "'c ppu_ops \<Rightarrow> bool \<Rightarrow> u16 \<Rightarrow> u8 \<Rightarrow> 'c ppu \<Rightarrow> 'c ppu" where
  "writeAccess E affectsTheBus addr data p =
     (let p = p\<lparr>p_currentReadAffectsBus := affectsTheBus\<rparr>;
          p = (if affectsTheBus then setBusAddress addr p else p);
          addr = normalizePpuAddress addr
      in if addr < 0x2000 then
           call (chr_write E addr data) (call (setPpuFetchSource E (p_isSpritePatternFetch p)) p)
         else if addr < 0x3F00 then
           let nameTableAddr = normalizeNameTableAddress addr in
           writeNameTable E (nt_select nameTableAddr) nameTableAddr data p
         else p\<lparr>p_palette := (p_palette p)[unat (normalizePaletteAddress addr - 0x3F00) := data]\<rparr>)"

definition readPpuMemory :: "'c ppu_ops \<Rightarrow> u16 \<Rightarrow> 'c ppu \<Rightarrow> u8 \<times> 'c ppu" where
  "readPpuMemory E = readAccess E True True"

definition completePpuRead :: "'c ppu_ops \<Rightarrow> 'c ppu \<Rightarrow> u8 \<times> 'c ppu" where
  "completePpuRead E p =
     readAccess E True False ((p_busAddress p AND 0x3F00) OR ucast (p_busAddressLowLatch p)) p"

definition setupPpuReadAddress :: "u16 \<Rightarrow> 'c ppu \<Rightarrow> 'c ppu" where
  "setupPpuReadAddress addr p =
     (let p = setBusAddress addr (p\<lparr>p_busAddressLowLatch := ucast (addr AND 0x00FF)\<rparr>) in
      if deferredDataLatchStart (p_deferredPpuIo p)
      then p\<lparr>p_deferredPpuIo := (p_deferredPpuIo p)\<lparr>deferredDataLatchStart := False,
             pendingDataLatchUpdate := True, pendingDataLatchDelay := 1,
             pendingDataLatchAddr := addr AND 0x3FFF\<rparr>\<rparr>
      else p)"

definition writePpuMemory :: "'c ppu_ops \<Rightarrow> u16 \<Rightarrow> u8 \<Rightarrow> 'c ppu \<Rightarrow> 'c ppu" where
  "writePpuMemory E = writeAccess E True"

definition fakeReadPpuMemory :: "'c ppu_ops \<Rightarrow> u16 \<Rightarrow> 'c ppu \<Rightarrow> u8 \<times> 'c ppu" where
  "fakeReadPpuMemory E = readAccess E False True"

definition fakeWritePpuMemory :: "'c ppu_ops \<Rightarrow> u16 \<Rightarrow> u8 \<Rightarrow> 'c ppu \<Rightarrow> 'c ppu" where
  "fakeWritePpuMemory E = writeAccess E False"

subsection \<open>Scrolling\<close>

definition incX :: "u16 \<Rightarrow> u16" where
  "incX v = (if v AND 0x001F = 31 then (v AND 0xFFE0) XOR 0x0400 else v + 1)"

definition incrementVX :: "'c ppu \<Rightarrow> 'c ppu" where
  "incrementVX p = p\<lparr>p_reg_v := incX (p_reg_v p)\<rparr>"

definition incY :: "u16 \<Rightarrow> u16" where
  "incY v =
     (if v AND 0x7000 \<noteq> 0x7000 then v + 0x1000
      else
        let v = v AND 0x8FFF;
            y = drop_bit 5 (v AND 0x03E0);
            (y, v) = (if y = 29 then (0, v XOR 0x0800)
                      else if y = 31 then (0, v)
                      else (y + 1, v))
        in (v AND 0xFC1F) OR push_bit 5 y)"

definition incrementVY :: "'c ppu \<Rightarrow> 'c ppu" where
  "incrementVY p = p\<lparr>p_reg_v := incY (p_reg_v p)\<rparr>"

definition copyVX :: "'c ppu \<Rightarrow> 'c ppu" where
  "copyVX p = p\<lparr>p_reg_v := (p_reg_v p AND 0xFBE0) OR (p_reg_t p AND 0x041F)\<rparr>"

definition copyVY :: "'c ppu \<Rightarrow> 'c ppu" where
  "copyVY p = p\<lparr>p_reg_v := (p_reg_v p AND 0x841F) OR (p_reg_t p AND 0x7BE0)\<rparr>"

definition getNameTableAddr :: "'c ppu \<Rightarrow> u16" where
  "getNameTableAddr p = 0x2000 OR (p_reg_v p AND 0x0FFF)"

definition getAttributeTableAddr :: "'c ppu \<Rightarrow> u16" where
  "getAttributeTableAddr p = 0x23C0 OR (p_reg_v p AND 0x0C00) OR
     (drop_bit 4 (p_reg_v p) AND 0x38) OR (drop_bit 2 (p_reg_v p) AND 0x07)"

definition incVideoRamAddr :: "'c ppu \<Rightarrow> 'c ppu" where
  "incVideoRamAddr p =
     (if \<not> isActivelyRendering p then
        let p = p\<lparr>p_reg_v := (p_reg_v p + increment_u16 (p_VRAMAddressIncrement p)) AND 0x7FFF\<rparr>
        in setBusAddress (p_reg_v p AND 0x3FFF) p
      else incrementVY (incrementVX p))"

subsection \<open>Deferred accesses\<close>

definition armDeferredVideoRamIncrement :: "'c ppu \<Rightarrow> 'c ppu" where
  "armDeferredVideoRamIncrement p =
     p\<lparr>p_deferredPpuIo := (p_deferredPpuIo p)\<lparr>deferredVideoRamIncrementArmPending := True\<rparr>\<rparr>"

definition armDeferredDataLatch :: "u16 \<Rightarrow> 'c ppu \<Rightarrow> 'c ppu" where
  "armDeferredDataLatch addr p =
     p\<lparr>p_deferredPpuIo := (p_deferredPpuIo p)\<lparr>deferredDataLatchArmPending := True,
       pendingDataLatchAddr := addr AND 0x3FFF\<rparr>\<rparr>"

definition hasPendingPpuDataReadUpdate :: "'c ppu \<Rightarrow> bool" where
  "hasPendingPpuDataReadUpdate p \<longleftrightarrow>
     p_needIncVideoRam p \<or>
     pendingDataLatchUpdate (p_deferredPpuIo p) \<or>
     deferredDataLatchArmPending (p_deferredPpuIo p) \<or>
     deferredDataLatchStart (p_deferredPpuIo p) \<or>
     deferredDataLatchStartDelay (p_deferredPpuIo p) > 0 \<or>
     deferredVideoRamIncrementArmPending (p_deferredPpuIo p) \<or>
     deferredVideoRamIncrementDelay (p_deferredPpuIo p) > 0"

definition PPU_DATA_READ_UPDATE_DELAY :: u8 where
  "PPU_DATA_READ_UPDATE_DELAY = 6"

definition schedulePpuDataReadUpdate :: "u16 \<Rightarrow> 'c ppu \<Rightarrow> 'c ppu" where
  "schedulePpuDataReadUpdate addr p =
     p\<lparr>p_deferredPpuIo := (p_deferredPpuIo p)\<lparr>pendingDataLatchUpdate := True,
         pendingDataLatchDelay := PPU_DATA_READ_UPDATE_DELAY, pendingDataLatchAddr := addr AND 0x3FFF,
         deferredVideoRamIncrementDelay := PPU_DATA_READ_UPDATE_DELAY\<rparr>,
       p_needUpdateState := True\<rparr>"

definition completePendingPpuDataReadUpdate :: "'c ppu_ops \<Rightarrow> 'c ppu \<Rightarrow> 'c ppu" where
  "completePendingPpuDataReadUpdate E p =
     (if \<not> hasPendingPpuDataReadUpdate p then p
      else
        let p = (if pendingDataLatchUpdate (p_deferredPpuIo p) then
                   let (v, p) = fakeReadPpuMemory E (pendingDataLatchAddr (p_deferredPpuIo p) AND 0x3FFF) p in
                   p\<lparr>p_dataLatch := v,
                     p_deferredPpuIo := (p_deferredPpuIo p)\<lparr>pendingDataLatchUpdate := False\<rparr>\<rparr>
                 else p);
            p = (if p_needIncVideoRam p \<or> deferredVideoRamIncrementDelay (p_deferredPpuIo p) > 0
                 then incVideoRamAddr (p\<lparr>p_needIncVideoRam := False,
                   p_deferredPpuIo := (p_deferredPpuIo p)\<lparr>deferredVideoRamIncrementDelay := 0\<rparr>\<rparr>)
                 else p)
        in p\<lparr>p_deferredPpuIo := (p_deferredPpuIo p)\<lparr>deferredDataLatchArmPending := False,
               deferredDataLatchStart := False, deferredDataLatchStartDelay := 0,
               deferredVideoRamIncrementArmPending := False\<rparr>,
             p_needUpdateState := True\<rparr>)"

definition updateDeferredRegV :: "'c ppu \<Rightarrow> 'c ppu" where
  "updateDeferredRegV p =
     (if p_update_reg_v_delay p \<le> 0 then p
      else
        let p = p\<lparr>p_update_reg_v_delay := p_update_reg_v_delay p - 1\<rparr> in
        if p_update_reg_v_delay p \<noteq> 0 then p\<lparr>p_needUpdateState := True\<rparr>
        else
          let p = p\<lparr>p_reg_v := p_update_reg_v_value p\<rparr> in
          if \<not> isActivelyRendering p then setBusAddress (p_reg_v p AND 0x3FFF) p else p)"

definition updateDeferredVideoRamIncrement :: "'c ppu \<Rightarrow> 'c ppu" where
  "updateDeferredVideoRamIncrement p =
     (let d = p_deferredPpuIo p in
      if deferredVideoRamIncrementDelay d = 0 then p
      else
        let d = d\<lparr>deferredVideoRamIncrementDelay := deferredVideoRamIncrementDelay d - 1\<rparr>;
            p = p\<lparr>p_deferredPpuIo := d\<rparr>
        in if deferredVideoRamIncrementDelay d = 0
           then p\<lparr>p_needIncVideoRam := True, p_needUpdateState := True\<rparr> else p)"

definition updateDeferredDataLatchArm :: "'c ppu \<Rightarrow> 'c ppu" where
  "updateDeferredDataLatchArm p =
     (let d = p_deferredPpuIo p in
      if deferredDataLatchStartDelay d = 0 then p
      else
        let d = d\<lparr>deferredDataLatchStartDelay := deferredDataLatchStartDelay d - 1\<rparr> in
        if deferredDataLatchStartDelay d = 0
        then p\<lparr>p_deferredPpuIo := d\<lparr>deferredDataLatchStart := True\<rparr>\<rparr>
        else p\<lparr>p_deferredPpuIo := d, p_needUpdateState := True\<rparr>)"

definition applyPendingVideoRamIncrement :: "bool \<Rightarrow> 'c ppu \<Rightarrow> 'c ppu" where
  "applyPendingVideoRamIncrement wasPending p =
     (if \<not> wasPending then p else incVideoRamAddr (p\<lparr>p_needIncVideoRam := False\<rparr>))"

definition updatePendingDataLatch :: "'c ppu_ops \<Rightarrow> 'c ppu \<Rightarrow> 'c ppu" where
  "updatePendingDataLatch E p =
     (let d = p_deferredPpuIo p;
          p = (if pendingDataLatchUpdate d \<and> pendingDataLatchDelay d > 0
               then p\<lparr>p_deferredPpuIo := d\<lparr>pendingDataLatchDelay := pendingDataLatchDelay d - 1\<rparr>,
                      p_needUpdateState := True\<rparr>
               else p);
          d = p_deferredPpuIo p
      in if \<not> pendingDataLatchUpdate d \<or> pendingDataLatchDelay d \<noteq> 0 then p
         else if \<not> isActivelyRendering p then
           let (v, p) = fakeReadPpuMemory E (pendingDataLatchAddr d AND 0x3FFF) p in
           p\<lparr>p_dataLatch := v, p_deferredPpuIo := (p_deferredPpuIo p)\<lparr>pendingDataLatchUpdate := False\<rparr>\<rparr>
         else p\<lparr>p_needUpdateState := True\<rparr>)"

definition updateA12Delay :: "'c ppu_ops \<Rightarrow> 'c ppu \<Rightarrow> 'c ppu" where
  "updateA12Delay E p =
     (if p_updateA12Delay p \<le> 0 then p
      else
        let p = p\<lparr>p_updateA12Delay := p_updateA12Delay p - 1\<rparr> in
        if p_updateA12Delay p = 0 then call (setA12State E (test_bits (p_busAddress p) 0x1000)) p
        else p\<lparr>p_needUpdateState := True\<rparr>)"

end
