(* ===== verification/Ppu_Registers.thy ===== *)
theory Ppu_Registers
  imports Ppu_Memory
begin

text \<open>
  The registers of the PPU (\<open>src/src/GeraNES/PPU.h\<close>) as the CPU sees them at \<open>$2000-$2007\<close>
  (\<open>readWrite\<close>), the palette that turns pixel values into colours, and \<open>updateState\<close>, which runs
  the deferred effects of register accesses after a PPU cycle.
\<close>

subsection \<open>Colours\<close>

definition NES_PALETTE :: "u32 list" where
  "NES_PALETTE = [0xFF7C7C7C, 0xFFFC0000, 0xFFBC0000, 0xFFBC2844, 0xFF840094, 0xFF2000A8, 0xFF0010A8, 0xFF001488,
     0xFF003050, 0xFF007800, 0xFF006800, 0xFF005800, 0xFF584000, 0xFF000000, 0xFF000000, 0xFF000000,
     0xFFBCBCBC, 0xFFF87800, 0xFFF85800, 0xFFFC4468, 0xFFCC00D8, 0xFF5800E4, 0xFF0038F8, 0xFF105CE4,
     0xFF007CAC, 0xFF00B800, 0xFF00A800, 0xFF44A800, 0xFF888800, 0xFF000000, 0xFF000000, 0xFF000000,
     0xFFF8F8F8, 0xFFFCBC3C, 0xFFFC8868, 0xFFF87898, 0xFFF878F8, 0xFF9858F8, 0xFF5878F8, 0xFF44A0FC,
     0xFF00B8F8, 0xFF18F8B8, 0xFF54D858, 0xFF98F858, 0xFFD8E800, 0xFF787878, 0xFF000000, 0xFF000000,
     0xFFFCFCFC, 0xFFFCE4A4, 0xFFF8B8B8, 0xFFF8B8D8, 0xFFF8B8F8, 0xFFC0A4F8, 0xFFB0D0F0, 0xFFA8E0FC,
     0xFF78D8F8, 0xFF78F8D8, 0xFFB8F8B8, 0xFFD8F8B8, 0xFFFCFC00, 0xFFF8D8F8, 0xFF000000, 0xFF000000]"

definition VS_PALETTE_LUT_2C04_0001 :: "u8 list" where
  "VS_PALETTE_LUT_2C04_0001 = [0x35, 0x23, 0x16, 0x22, 0x1C, 0x09, 0x1D, 0x15, 0x20, 0x00, 0x27, 0x05, 0x04, 0x28, 0x08, 0x20,
     0x21, 0x3E, 0x1F, 0x29, 0x3C, 0x32, 0x36, 0x12, 0x3F, 0x2B, 0x2E, 0x1E, 0x3D, 0x2D, 0x24, 0x01,
     0x0E, 0x31, 0x33, 0x2A, 0x2C, 0x0C, 0x1B, 0x14, 0x2E, 0x07, 0x34, 0x06, 0x13, 0x02, 0x26, 0x2E,
     0x2E, 0x19, 0x10, 0x0A, 0x39, 0x03, 0x37, 0x17, 0x0F, 0x11, 0x0B, 0x0D, 0x38, 0x25, 0x18, 0x3A]"

definition VS_PALETTE_LUT_2C04_0002 :: "u8 list" where
  "VS_PALETTE_LUT_2C04_0002 = [0x2E, 0x27, 0x18, 0x39, 0x3A, 0x25, 0x1C, 0x31, 0x16, 0x13, 0x38, 0x34, 0x20, 0x23, 0x3C, 0x0B,
     0x0F, 0x21, 0x06, 0x3D, 0x1B, 0x29, 0x1E, 0x22, 0x1D, 0x24, 0x0E, 0x2B, 0x32, 0x08, 0x2E, 0x03,
     0x04, 0x36, 0x26, 0x33, 0x11, 0x1F, 0x10, 0x02, 0x14, 0x3F, 0x00, 0x09, 0x12, 0x2E, 0x28, 0x20,
     0x3E, 0x0D, 0x2A, 0x17, 0x0C, 0x01, 0x15, 0x19, 0x2E, 0x2C, 0x07, 0x37, 0x35, 0x05, 0x0A, 0x2D]"

definition VS_PALETTE_LUT_2C04_0003 :: "u8 list" where
  "VS_PALETTE_LUT_2C04_0003 = [0x14, 0x25, 0x3A, 0x10, 0x0B, 0x20, 0x31, 0x09, 0x01, 0x2E, 0x36, 0x08, 0x15, 0x3D, 0x3E, 0x3C,
     0x22, 0x1C, 0x05, 0x12, 0x19, 0x18, 0x17, 0x1B, 0x00, 0x03, 0x2E, 0x02, 0x16, 0x06, 0x34, 0x35,
     0x23, 0x0F, 0x0E, 0x37, 0x0D, 0x27, 0x26, 0x20, 0x29, 0x04, 0x21, 0x24, 0x11, 0x2D, 0x2E, 0x1F,
     0x2C, 0x1E, 0x39, 0x33, 0x07, 0x2A, 0x28, 0x1D, 0x0A, 0x2E, 0x32, 0x38, 0x13, 0x2B, 0x3F, 0x0C]"

definition VS_PALETTE_LUT_2C04_0004 :: "u8 list" where
  "VS_PALETTE_LUT_2C04_0004 = [0x18, 0x03, 0x1C, 0x28, 0x2E, 0x35, 0x01, 0x17, 0x10, 0x1F, 0x2A, 0x0E, 0x36, 0x37, 0x0B, 0x39,
     0x25, 0x1E, 0x12, 0x34, 0x2E, 0x1D, 0x06, 0x26, 0x3E, 0x1B, 0x22, 0x19, 0x04, 0x2E, 0x3A, 0x21,
     0x05, 0x0A, 0x07, 0x02, 0x13, 0x14, 0x00, 0x15, 0x0C, 0x3D, 0x11, 0x0F, 0x0D, 0x38, 0x2D, 0x24,
     0x33, 0x20, 0x08, 0x16, 0x3F, 0x2B, 0x20, 0x3C, 0x2E, 0x27, 0x23, 0x31, 0x29, 0x32, 0x2C, 0x09]"

definition POWER_UP_PALETTE :: "u8 list" where
  "POWER_UP_PALETTE = [0x09, 0x01, 0x00, 0x01, 0x00, 0x02, 0x02, 0x0D, 0x08, 0x10, 0x08, 0x24, 0x00, 0x00, 0x04, 0x2C,
     0x09, 0x01, 0x34, 0x03, 0x00, 0x04, 0x00, 0x14, 0x08, 0x3A, 0x00, 0x02, 0x00, 0x20, 0x2C, 0x08]"

definition getMonochromeColor :: "u32 \<Rightarrow> u32" where
  "getMonochromeColor color =
     (let temp = ((color AND 0xFF) + drop_bit 8 (color AND 0xFF00) + drop_bit 16 (color AND 0xFF0000)) div 3
      in (color AND 0xFF000000) OR temp OR push_bit 8 temp OR push_bit 16 temp)"

definition getEmphasisColor :: "Region \<Rightarrow> u8 \<Rightarrow> u32 \<Rightarrow> u32" where
  "getEmphasisColor rg emphasis color =
     (let r = color AND 0xFF;
          g = drop_bit 8 (color AND 0xFF00);
          b = drop_bit 16 (color AND 0xFF0000);
          (r, g) = (if rg = NTSC
                    then (if test_bits emphasis 0x01 then r + 0x30 else r,
                          if test_bits emphasis 0x02 then g + 0x30 else g)
                    else (if test_bits emphasis 0x02 then r + 0x30 else r,
                          if test_bits emphasis 0x01 then g + 0x30 else g));
          b = (if test_bits emphasis 0x04 then b + 0x30 else b);
          r = (if r > 0xFF then 0xFF else r);
          g = (if g > 0xFF then 0xFF else g);
          b = (if b > 0xFF then 0xFF else b)
      in (color AND 0xFF000000) OR r OR push_bit 8 g OR push_bit 16 b)"

definition vs_index :: "PpuModel \<Rightarrow> nat \<Rightarrow> nat" where
  "vs_index model i =
     (case model of
        Ppu2C04A \<Rightarrow> unat (VS_PALETTE_LUT_2C04_0001 ! i)
      | Ppu2C04B \<Rightarrow> unat (VS_PALETTE_LUT_2C04_0002 ! i)
      | Ppu2C04C \<Rightarrow> unat (VS_PALETTE_LUT_2C04_0003 ! i)
      | Ppu2C04D \<Rightarrow> unat (VS_PALETTE_LUT_2C04_0004 ! i)
      | _ \<Rightarrow> i)"

definition refreshOutputColorPalette :: "ppu_settings \<Rightarrow> 'c ppu \<Rightarrow> 'c ppu" where
  "refreshOutputColorPalette S p = p\<lparr>p_outputColorPalette := map (\<lambda>i.
     let color = p_colorPalette p ! vs_index (p_vsPpuModel p) i;
         color = (if p_colorEmphasis p \<noteq> 0 then getEmphasisColor (region S) (p_colorEmphasis p) color else color)
     in if p_monochromeDisplay p then getMonochromeColor color else color) [0..<64]\<rparr>"

definition NESToRGBAColor :: "u8 \<Rightarrow> 'c ppu \<Rightarrow> u32" where
  "NESToRGBAColor index p = p_outputColorPalette p ! unat (index AND 0x3F)"

definition setColorPalette :: "ppu_settings \<Rightarrow> u32 list \<Rightarrow> 'c ppu \<Rightarrow> 'c ppu" where
  "setColorPalette S palette p = refreshOutputColorPalette S (p\<lparr>p_colorPalette := palette\<rparr>)"

definition setVsPpuModel :: "ppu_settings \<Rightarrow> PpuModel \<Rightarrow> 'c ppu \<Rightarrow> 'c ppu" where
  "setVsPpuModel S model p = refreshOutputColorPalette S (p\<lparr>p_vsPpuModel := model\<rparr>)"

subsection \<open>Control, mask and status\<close>

definition writePPUCTRL :: "'c ppu_ops \<Rightarrow> u8 \<Rightarrow> bool \<Rightarrow> 'c ppu \<Rightarrow> 'c ppu" where
  "writePPUCTRL E data notifyMapper p =
     (let p = p\<lparr>p_reg_t := (p_reg_t p AND 0xF3FF) OR push_bit 10 (ucast (data AND 0x03)),
                p_VRAMAddressIncrement := (if test_bits data 0x04 then I32 else I1),
                p_spritePatternTableAddress := (if test_bits data 0x08 then X1000 else X0000),
                p_backgroundPatternTableAddress := (if test_bits data 0x10 then X1000 else X0000),
                p_spriteHeight := (if test_bits data 0x20 then H16 else H8)\<rparr>;
          p = (if notifyMapper then call (setSpriteSize8x16 E (p_spriteHeight p = H16)) p else p);
          p = p\<lparr>p_PPUSlave := test_bits data 0x40, p_NMIOnVBlank := test_bits data 0x80\<rparr>
      in if p_NMIOnVBlank p = False then p\<lparr>p_interruptFlag := False\<rparr> else p)"

definition writePPUMASK :: "'c ppu_ops \<Rightarrow> ppu_settings \<Rightarrow> u8 \<Rightarrow> bool \<Rightarrow> 'c ppu \<Rightarrow> 'c ppu" where
  "writePPUMASK E S data notifyMapper p =
     (let prevMonochromeDisplay = p_monochromeDisplay p;
          prevColorEmphasis = p_colorEmphasis p;
          p = p\<lparr>p_monochromeDisplay := test_bits data 0x01,
                p_showBackgroundLeftmost8Pixels := test_bits data 0x02,
                p_showSpritesLeftmost8Pixels := test_bits data 0x04,
                p_backgroundEnabled := test_bits data 0x08,
                p_spritesEnabled := test_bits data 0x10,
                p_colorEmphasis := drop_bit 5 data\<rparr>;
          p = (if prevMonochromeDisplay \<noteq> p_monochromeDisplay p \<or> prevColorEmphasis \<noteq> p_colorEmphasis p
               then refreshOutputColorPalette S p else p);
          p = (if notifyMapper then call (setPpuMask E data) p else p)
      in if p_renderingEnabled p \<noteq> (p_backgroundEnabled p \<or> p_spritesEnabled p)
         then p\<lparr>p_needUpdateState := True\<rparr> else p)"

definition readPPUSTATUS :: "'c ppu_ops \<Rightarrow> bool \<Rightarrow> 'c ppu \<Rightarrow> u8 \<times> 'c ppu" where
  "readPPUSTATUS E notifyMapper p =
     (let p = p\<lparr>p_lastPPUSTATUSReadCycle := p_cycle p\<rparr>;
          ret = (if p_VBlankHasStarted p then 0x80 else 0x00);
          p = (if notifyMapper then call (onPpuStatusRead E (test_bits ret 0x80)) p else p);
          ret = (if p_sprite0Hit p then ret OR 0x40 else ret);
          ret = (if p_spriteOverflow p then ret OR 0x20 else ret)
      in (ret, p\<lparr>p_VBlankHasStarted := False, p_interruptFlag := False, p_reg_w := False\<rparr>))"

subsection \<open>Sprite memory\<close>

definition writeOAMADDR :: "u8 \<Rightarrow> 'c ppu \<Rightarrow> 'c ppu" where
  "writeOAMADDR data p = p\<lparr>p_oamAddr := data\<rparr>"

definition secondaryByte :: "u8 \<Rightarrow> 'c ppu \<Rightarrow> u8" where
  "secondaryByte addr p = p_secondaryOam p ! unat (addr AND 0x1F)"

definition readOAMDATA :: "'c ppu \<Rightarrow> u8" where
  "readOAMDATA p =
     (let ret = p_primaryOam p ! unat (p_oamAddr p) in
      if p_renderLine p \<and> p_renderingEnabled p then
        let sampleCycle = p_cycle p - 1;
            sampleCycle = (if sampleCycle < 0 then sampleCycle + 341 else sampleCycle)
        in if sampleCycle = 0 then p_secondaryOam p ! 0
           else if 1 \<le> sampleCycle \<and> sampleCycle \<le> 64 then 0xFF
           else if 65 \<le> sampleCycle \<and> sampleCycle \<le> 256 then
             if \<not> p_oamCopyDone p then p_oamCopyBuffer p
             else if odd sampleCycle then p_primaryOam p ! unat (p_oamAddr p)
             else secondaryByte (p_secondaryOamAddr p) p
           else if 257 \<le> sampleCycle \<and> sampleCycle \<le> 320 then
             let spriteIndex = (sampleCycle - 257) div 8 in
             if spriteIndex < uint (p_spritesInThisLine p) \<and> spriteIndex < 8 then
               let phase = (sampleCycle - 257) AND 0x07;
                   step = (if phase > 3 then 3 else phase)
               in p_secondaryOam p ! nat (push_bit 2 spriteIndex + step)
             else if sampleCycle = 273 then secondaryByte (p_secondaryOamAddr p) p
             else 0xFF
           else p_secondaryOam p ! 0
      else ret)"

definition writeOAMDATA :: "u8 \<Rightarrow> 'c ppu \<Rightarrow> 'c ppu" where
  "writeOAMDATA data p =
     (if \<not> isActivelyRendering p then
        let data = (if p_oamAddr p AND 0x03 = 0x02 then data AND 0xE3 else data)
        in p\<lparr>p_primaryOam := (p_primaryOam p)[unat (p_oamAddr p) := data], p_oamAddr := p_oamAddr p + 1\<rparr>
      else p\<lparr>p_oamAddr := (p_oamAddr p + 4) AND 0xFC\<rparr>)"

definition setOamCorruptionFlags :: "'c ppu \<Rightarrow> 'c ppu" where
  "setOamCorruptionFlags p =
     (let c = p_cycle p in
      if 0 \<le> c \<and> c < 64 then p\<lparr>p_corruptOamRow := (p_corruptOamRow p)[nat (c div 2) := True]\<rparr>
      else if 256 \<le> c \<and> c < 320 then
        let base = (c - 256) div 8; offset = min 3 ((c - 256) mod 8)
        in p\<lparr>p_corruptOamRow := (p_corruptOamRow p)[nat (base * 4 + offset) := True]\<rparr>
      else p)"

definition corruptRow :: "nat \<Rightarrow> u8 list \<Rightarrow> u8 list" where
  "corruptRow i oam = take (i * 8) oam @ take 8 oam @ drop (i * 8 + 8) oam"

definition processOamRow :: "nat \<Rightarrow> 'c ppu \<Rightarrow> 'c ppu" where
  "processOamRow i p =
     (if p_corruptOamRow p ! i
      then (if i > 0 then p\<lparr>p_primaryOam := corruptRow i (p_primaryOam p)\<rparr> else p)
             \<lparr>p_corruptOamRow := (p_corruptOamRow p)[i := False]\<rparr>
      else p)"

definition processOamCorruption :: "'c ppu \<Rightarrow> 'c ppu" where
  "processOamCorruption p = fold processOamRow [0..<32] p"

subsection \<open>Scroll, address and data\<close>

definition writePPUSCROLL :: "u8 \<Rightarrow> 'c ppu \<Rightarrow> 'c ppu" where
  "writePPUSCROLL data p =
     (let p = (if \<not> p_reg_w p
               then p\<lparr>p_reg_t := (p_reg_t p AND 0xFFE0) OR ucast (drop_bit 3 data), p_reg_x := data AND 0x07\<rparr>
               else p\<lparr>p_reg_t := (p_reg_t p AND 0x8C1F) OR push_bit 12 (ucast (data AND 0x07))
                                  OR push_bit 2 (ucast (data AND 0xF8))\<rparr>)
      in p\<lparr>p_reg_w := \<not> p_reg_w p\<rparr>)"

definition writePPUADDR :: "u8 \<Rightarrow> 'c ppu \<Rightarrow> 'c ppu" where
  "writePPUADDR data p =
     (let p = (if \<not> p_reg_w p
               then p\<lparr>p_reg_t := (p_reg_t p AND 0x80FF) OR push_bit 8 (ucast (data AND 0x3F))\<rparr>
               else
                 let t = (p_reg_t p AND 0xFF00) OR ucast data in
                 p\<lparr>p_reg_t := t, p_needUpdateState := True, p_update_reg_v_delay := 3,
                   p_update_reg_v_value := t\<rparr>)
      in p\<lparr>p_reg_w := \<not> p_reg_w p\<rparr>)"

text \<open>What a data read starts besides returning a byte: \<open>addr\<close> is the address to latch from.\<close>

definition startDataRead :: "'c ppu_ops \<Rightarrow> u16 \<Rightarrow> bool \<Rightarrow> bool \<Rightarrow> 'c ppu \<Rightarrow> 'c ppu" where
  "startDataRead E addr activelyRendering followingDataRead p =
     (if activelyRendering then armDeferredVideoRamIncrement (armDeferredDataLatch addr p)
      else if p_cpuDmaReadInProgress p then
        let (v, p) = readPpuMemory E addr p in p\<lparr>p_dataLatch := v, p_needIncVideoRam := True\<rparr>
      else if \<not> followingDataRead then schedulePpuDataReadUpdate addr p
      else p)"

definition readPPUDATA :: "'c ppu_ops \<Rightarrow> 'c ppu \<Rightarrow> u8 \<times> 'c ppu" where
  "readPPUDATA E p =
     (let activelyRendering = isActivelyRendering p;
          followingDataRead = (\<not> activelyRendering \<and> \<not> p_cpuDmaReadInProgress p \<and> hasPendingPpuDataReadUpdate p);
          (ret, p) =
            (if isOnPaletteAddr p then
               let (ret, p) = fakeReadPpuMemory E (p_reg_v p AND 0x3FFF) p in
               (ret, startDataRead E (p_reg_v p AND 0x2FFF) activelyRendering followingDataRead p)
             else (p_dataLatch p, startDataRead E (p_reg_v p AND 0x3FFF) activelyRendering followingDataRead p))
      in (ret, p\<lparr>p_needUpdateState := True\<rparr>))"

definition writePPUDATA :: "'c ppu_ops \<Rightarrow> u8 \<Rightarrow> 'c ppu \<Rightarrow> 'c ppu" where
  "writePPUDATA E data p =
     (let p = (if \<not> isActivelyRendering p \<and> hasPendingPpuDataReadUpdate p
               then completePendingPpuDataReadUpdate E p else p);
          p = (if isOnPaletteAddr p then fakeWritePpuMemory E (p_reg_v p) data p
               else writePpuMemory E (p_reg_v p) data p);
          p = p\<lparr>p_needUpdateState := True\<rparr>
      in if isActivelyRendering p then armDeferredVideoRamIncrement p else p\<lparr>p_needIncVideoRam := True\<rparr>)"

definition onCpuBusAccessEnd :: "u16 \<Rightarrow> 'c ppu \<Rightarrow> 'c ppu" where
  "onCpuBusAccessEnd addr p =
     (if addr AND 0x2007 \<noteq> 0x2007 then p
      else
        let d = p_deferredPpuIo p;
            d = (if deferredDataLatchArmPending d
                 then d\<lparr>deferredDataLatchArmPending := False, deferredDataLatchStartDelay := 1\<rparr> else d);
            d = (if deferredVideoRamIncrementArmPending d
                 then d\<lparr>deferredVideoRamIncrementArmPending := False, deferredVideoRamIncrementDelay := 1\<rparr> else d)
        in p\<lparr>p_deferredPpuIo := d, p_needUpdateState := True\<rparr>)"

definition setCpuDmaReadInProgress :: "bool \<Rightarrow> 'c ppu \<Rightarrow> 'c ppu" where
  "setCpuDmaReadInProgress state p = p\<lparr>p_cpuDmaReadInProgress := state\<rparr>"

definition getInterruptFlag_ppu :: "'c ppu \<Rightarrow> bool \<times> 'c ppu" where
  "getInterruptFlag_ppu p = (if p_interruptFlag p then (True, p\<lparr>p_interruptFlag := False\<rparr>) else (False, p))"

definition nmiLineActive :: "'c ppu \<Rightarrow> bool" where
  "nmiLineActive p \<longleftrightarrow> p_VBlankHasStarted p \<and> p_NMIOnVBlank p"

subsection \<open>The register file\<close>

text \<open>\<open>readWrite<false>\<close> and \<open>readWrite<true>\<close>.\<close>

definition readRegister :: "'c ppu_ops \<Rightarrow> u16 \<Rightarrow> 'c ppu \<Rightarrow> u8 \<times> 'c ppu" where
  "readRegister E fullAddr p =
     (let addr = fullAddr AND 0x2007;
          (data, openBusMask, p) =
            (if addr = 0x2002 then
               let (data, p) = readPPUSTATUS E (fullAddr = 0x2002) p in
               ((data AND NOT 0x1F) OR (p_openBus p AND 0x1F), NOT 0x1F, p)
             else if addr = 0x2004 then (readOAMDATA p, 0x00, p)
             else if addr = 0x2007 then
               let (data, p) = readPPUDATA E p in
               if isOnPaletteAddr p then
                 let data = (data AND 0x3F) OR (p_openBus p AND NOT 0x3F) in
                 (if p_monochromeDisplay p then data AND 0xF0 else data, 0x3F, p)
               else (data, 0xFF, p)
             else (p_openBus p, 0x00, p))
      in (data, updateOpenBus data openBusMask p))"

definition writeRegister :: "'c ppu_ops \<Rightarrow> ppu_settings \<Rightarrow> u16 \<Rightarrow> u8 \<Rightarrow> 'c ppu \<Rightarrow> 'c ppu" where
  "writeRegister E S fullAddr data p =
     (let addr = fullAddr AND 0x2007;
          p = (if addr = 0x2000 then writePPUCTRL E data True p
               else if addr = 0x2001 then writePPUMASK E S data (fullAddr = 0x2001) p
               else if addr = 0x2003 then writeOAMADDR data p
               else if addr = 0x2004 then writeOAMDATA data p
               else if addr = 0x2005 then writePPUSCROLL data p
               else if addr = 0x2006 then writePPUADDR data p
               else if addr = 0x2007 then writePPUDATA E data p
               else p)
      in updateOpenBus data 0xFF p)"

subsection \<open>Deferred state\<close>

definition syncRenderingEnabledFlag :: "'c ppu \<Rightarrow> 'c ppu" where
  "syncRenderingEnabledFlag p =
     (let target = (p_backgroundEnabled p \<or> p_spritesEnabled p) in
      if p_renderingEnabled p \<noteq> target
      then p\<lparr>p_renderingEnabled := target, p_needUpdateState := True\<rparr> else p)"

definition handleRenderingEnabledTransition :: "'c ppu \<Rightarrow> 'c ppu" where
  "handleRenderingEnabledTransition p =
     (if p_prevCycleRenderingEnabled p = p_renderingEnabled p then p
      else
        let was = p_prevCycleRenderingEnabled p;
            now = p_renderingEnabled p;
            p = p\<lparr>p_prevCycleRenderingEnabled := now\<rparr>;
            p = (if \<not> was \<and> now \<and> p_renderLine p then p\<lparr>p_staleBgShiftActive := True\<rparr> else p);
            p = (if p_scanline p < 240 \<and> now then processOamCorruption p else p)
        in if \<not> p_renderLine p \<or> \<not> was \<or> now then p
           else
             let p = setOamCorruptionFlags p in
             if 65 \<le> p_cycle p \<and> p_cycle p \<le> 256 then
               let a = p_oamAddr p + 1 in
               p\<lparr>p_oamAddr := a, p_oamAddrN := drop_bit 2 a AND 0x3F, p_oamAddrM := a AND 0x03\<rparr>
             else p)"

definition updateState :: "'c ppu_ops \<Rightarrow> 'c ppu \<Rightarrow> 'c ppu" where
  "updateState E p =
     (let p = p\<lparr>p_needUpdateState := False\<rparr>;
          pendingVideoRamIncrement = p_needIncVideoRam p
      in updateA12Delay E
           (updatePendingDataLatch E
             (applyPendingVideoRamIncrement pendingVideoRamIncrement
               (updateDeferredDataLatchArm
                 (updateDeferredVideoRamIncrement
                   (updateDeferredRegV
                     (syncRenderingEnabledFlag (handleRenderingEnabledTransition p))))))))"

end
