(* ===== verification/Ppu_Sprites.thy ===== *)
theory Ppu_Sprites
  imports Ppu_Registers
begin

text \<open>
  The sprite units of the PPU (\<open>src/src/GeraNES/PPU.h\<close>): evaluation (which sprites of the
  primary OAM cover the next line), the pattern fetches of dots 257 to 320, and the eight render
  units that count down to their column and then shift out pixels.
\<close>

subsection \<open>Sprites in memory\<close>

definition sprite_at :: "u8 list \<Rightarrow> nat \<Rightarrow> Sprite" where
  "sprite_at oam a = \<lparr>s_y = oam ! a, s_indexInPatternTable = oam ! (a + 1), s_attrib = oam ! (a + 2),
     s_x = oam ! (a + 3)\<rparr>"

definition primaryOamSprite :: "u8 \<Rightarrow> 'c ppu \<Rightarrow> Sprite" where
  "primaryOamSprite addr p = sprite_at (p_primaryOam p) (unat addr)"

definition secondaryOamSprite :: "nat \<Rightarrow> 'c ppu \<Rightarrow> Sprite" where
  "secondaryOamSprite spriteIndex p = sprite_at (p_secondaryOam p) (4 * spriteIndex)"

definition isSpriteInRangeForScanline :: "Sprite \<Rightarrow> int \<Rightarrow> 'c ppu \<Rightarrow> bool" where
  "isSpriteInRangeForScanline s scanline p \<longleftrightarrow>
     (let spriteY = uint (s_y s) + 1
      in scanline \<ge> spriteY \<and> scanline < spriteY + spriteHeight_int (p_spriteHeight p))"

definition cacheSpritesInNextScanline :: "ppu_settings \<Rightarrow> 'c ppu \<Rightarrow> 'c ppu" where
  "cacheSpritesInNextScanline S p =
     (let nextScanline = (p_scanline p + 1) mod PPULinesPerFrame (region S) in
      fold (\<lambda>i p.
          if \<not> isSpriteInRangeForScanline (primaryOamSprite (of_nat (4 * i)) p) nextScanline p then p
          else p\<lparr>p_spritesIndexesInThisLine :=
                   (p_spritesIndexesInThisLine p)[unat (p_spritesInThisLine p) := of_nat (4 * i)],
                 p_spritesInThisLine := p_spritesInThisLine p + 1\<rparr>)
        [0..<64] (p\<lparr>p_spritesInThisLine := 0\<rparr>))"

subsection \<open>Evaluation\<close>

definition coversLine :: "u8 \<Rightarrow> 'c ppu \<Rightarrow> bool" where
  "coversLine y p \<longleftrightarrow>
     p_scanline p \<ge> uint y \<and> p_scanline p < uint y + spriteHeight_int (p_spriteHeight p)"

definition nextSprite :: "'c ppu \<Rightarrow> 'c ppu" where
  "nextSprite p = p\<lparr>p_oamAddrN := (p_oamAddrN p + 1) AND 0x3F\<rparr>"

definition doneAtWrap :: "'c ppu \<Rightarrow> 'c ppu" where
  "doneAtWrap p = (if p_oamAddrN p = 0 then p\<lparr>p_oamCopyDone := True\<rparr> else p)"

text \<open>The even cycles: the copy into a secondary OAM with room, the overflow search with its bug
  once the secondary OAM is full, and the idle increments after the last sprite.\<close>

definition copySprite :: "'c ppu \<Rightarrow> 'c ppu" where
  "copySprite p =
     (let p = p\<lparr>p_secondaryOam := (p_secondaryOam p)[unat (p_secondaryOamAddr p) := p_oamCopyBuffer p]\<rparr> in
      if p_spriteInRange p then
        let p = p\<lparr>p_oamAddrM := p_oamAddrM p + 1, p_secondaryOamAddr := p_secondaryOamAddr p + 1\<rparr>;
            p = (if p_cycle p = 66 then p\<lparr>p_sprite0Added := True\<rparr> else p);
            p = (if p_oamAddrM p \<ge> 4 then doneAtWrap ((nextSprite p)\<lparr>p_oamAddrM := 0\<rparr>) else p)
        in if p_secondaryOamAddr p AND 0x03 = 0 then
             let p = p\<lparr>p_spriteInRange := False\<rparr> in
             if p_oamAddrM p \<noteq> 0 \<and> \<not> coversLine (p_oamCopyBuffer p) p
             then p\<lparr>p_oamAddrM := 0\<rparr> else p
           else p
      else doneAtWrap ((nextSprite p)\<lparr>p_oamAddrM := 0\<rparr>))"

definition searchOverflow :: "'c ppu \<Rightarrow> 'c ppu" where
  "searchOverflow p =
     (let p = p\<lparr>p_oamCopyBuffer := secondaryByte (p_secondaryOamAddr p) p\<rparr> in
      if p_spriteInRange p then
        let p = p\<lparr>p_spriteOverflow := True, p_oamAddrM := p_oamAddrM p + 1\<rparr>;
            p = (if p_oamAddrM p = 4 then (nextSprite p)\<lparr>p_oamAddrM := 0\<rparr> else p)
        in if p_overflowBugCounter p = 0 then p\<lparr>p_overflowBugCounter := 3\<rparr>
           else if p_overflowBugCounter p > 0 then
             let p = p\<lparr>p_overflowBugCounter := p_overflowBugCounter p - 1\<rparr> in
             if p_overflowBugCounter p = 0 then p\<lparr>p_oamCopyDone := True, p_oamAddrM := 0\<rparr> else p
           else p
      else doneAtWrap ((nextSprite p)\<lparr>p_oamAddrM := (p_oamAddrM p + 1) AND 0x03\<rparr>))"

definition evaluateEven :: "'c ppu \<Rightarrow> 'c ppu" where
  "evaluateEven p =
     (let p =
        (if p_oamCopyDone p then
           let p = nextSprite p in
           if p_secondaryOamAddr p \<ge> 32
           then p\<lparr>p_oamCopyBuffer := secondaryByte (p_secondaryOamAddr p) p\<rparr> else p
         else
           let p = (if \<not> p_spriteInRange p \<and> coversLine (p_oamCopyBuffer p) p
                    then p\<lparr>p_spriteInRange := True\<rparr> else p)
           in if p_secondaryOamAddr p < 32 then copySprite p else searchOverflow p)
      in p\<lparr>p_oamAddr := (p_oamAddrM p AND 0x03) OR push_bit 2 (p_oamAddrN p)\<rparr>)"

definition startEvaluation :: "'c ppu \<Rightarrow> 'c ppu" where
  "startEvaluation p = p\<lparr>p_oamCopyDone := False, p_secondaryOamAddr := 0, p_spriteInRange := False,
     p_oamAddrN := drop_bit 2 (p_oamAddr p) AND 0x3F, p_oamAddrM := p_oamAddr p AND 0x03,
     p_sprite0Added := False, p_overflowBugCounter := 0\<rparr>"

text \<open>Sprites in the secondary OAM: the bytes copied, rounded up, at most eight.\<close>

definition copiedSprites :: "'c ppu \<Rightarrow> nat" where
  "copiedSprites p = min 8 ((unat (p_secondaryOamAddr p) + 3) div 4)"

definition evaluateSprites :: "ppu_settings \<Rightarrow> 'c ppu \<Rightarrow> 'c ppu" where
  "evaluateSprites S p =
     (if p_cycle p < 65 then
        p\<lparr>p_oamCopyBuffer := 0xFF,
          p_secondaryOam := (p_secondaryOam p)[nat ((p_cycle p - 1) div 2) := 0xFF]\<rparr>
      else if p_cycle p = 256 then
        let p = (if spriteLimitDisabled S then cacheSpritesInNextScanline S p
                 else p\<lparr>p_spritesInThisLine := of_nat (copiedSprites p)\<rparr>)
        in p\<lparr>p_testSprite0HitInThisLine := p_sprite0Added p\<rparr>
      else
        let p = (if p_cycle p = 65 then startEvaluation p else p) in
        if odd (p_cycle p) then p\<lparr>p_oamCopyBuffer := p_primaryOam p ! unat (p_oamAddr p)\<rparr>
        else evaluateEven p)"

subsection \<open>Pattern fetches\<close>

definition setPpuFetchSourceCached :: "'c ppu_ops \<Rightarrow> bool \<Rightarrow> 'c ppu \<Rightarrow> 'c ppu" where
  "setPpuFetchSourceCached E spriteFetch p =
     (if p_isSpritePatternFetch p \<noteq> spriteFetch
      then call (setPpuFetchSource E spriteFetch) (p\<lparr>p_isSpritePatternFetch := spriteFetch\<rparr>) else p)"

definition reverseByte :: "u8 \<Rightarrow> u8" where
  "reverseByte b =
     (let b = drop_bit 4 (b AND 0xF0) OR push_bit 4 (b AND 0x0F);
          b = drop_bit 2 (b AND 0xCC) OR push_bit 2 (b AND 0x33)
      in drop_bit 1 (b AND 0xAA) OR push_bit 1 (b AND 0x55))"

text \<open>The row of the tile the sprite shows on the line being prepared, already mirrored.\<close>

definition spriteRow :: "Sprite \<Rightarrow> 'c ppu \<Rightarrow> u8" where
  "spriteRow s p =
     (let spriteScanline = (if p_preLine p then 6 else word_of_int (p_scanline p + 1)) :: u8;
          row = spriteScanline - (s_y s + 1);
          m = word_of_int (spriteHeight_int (p_spriteHeight p)) - 1
      in if test_bits (s_attrib s) 0x80 then m - (row AND m) else row AND m)"

definition getSpritePatternAddress :: "Sprite \<Rightarrow> bool \<Rightarrow> 'c ppu \<Rightarrow> u16" where
  "getSpritePatternAddress s highPlane p =
     (let row = spriteRow s p;
          (base, tileIndex, row) =
            (if p_spriteHeight p = H16 then
               let base = (if test_bits (s_indexInPatternTable s) 0x01 then 0x1000 else 0x0000);
                   tileIndex = ucast (s_indexInPatternTable s AND 0xFE)
               in if row \<ge> 8 then (base, tileIndex + 1, row - 8) else (base, tileIndex, row)
             else (table_u16 (p_spritePatternTableAddress p), ucast (s_indexInPatternTable s), row))
      in base + push_bit 4 tileIndex + ucast row + (if highPlane then 8 else 0))"

definition noFetchEntry :: SpriteFetchEntry where
  "noFetchEntry = \<lparr>f_x = 0, f_attr = 0, f_lowByte = 0, f_highByte = 0, f_sprite0 = False\<rparr>"

definition setFetchEntry :: "nat \<Rightarrow> (SpriteFetchEntry \<Rightarrow> SpriteFetchEntry) \<Rightarrow> 'c ppu \<Rightarrow> 'c ppu" where
  "setFetchEntry i f p =
     p\<lparr>p_spriteFetchEntries := (p_spriteFetchEntries p)[i := f (p_spriteFetchEntries p ! i)]\<rparr>"

definition loadRenderEntry :: "SpriteFetchEntry \<Rightarrow> SpriteRenderEntry \<Rightarrow> SpriteRenderEntry" where
  "loadRenderEntry e r =
     (let flip = test_bits (f_attr e) 0x40 in
      r\<lparr>r_x := f_x e, r_xCounter := f_x e, r_attr := f_attr e,
        r_lowShift := (if flip then reverseByte (f_lowByte e) else f_lowByte e),
        r_highShift := (if flip then reverseByte (f_highByte e) else f_highByte e),
        r_sprite0 := f_sprite0 e, r_counting := False, r_active := True\<rparr>)"

definition fetchSprites :: "'c ppu_ops \<Rightarrow> 'c ppu \<Rightarrow> 'c ppu" where
  "fetchSprites E p =
     (let p = setPpuFetchSourceCached E True p;
          cycleOffset = p_cycle p - 257;
          p = (if p_cycle p = 257
               then p\<lparr>p_spriteFetchCount := 0, p_spriteFetchEntries := replicate 8 noFetchEntry\<rparr> else p);
          fetchCycle = cycleOffset mod 8
      in if cycleOffset div 8 < 0 \<or> cycleOffset div 8 \<ge> 8 then p
         else
           let i = nat (cycleOffset div 8);
               fetchedSpriteCount = (if p_preLine p then 8 else copiedSprites p);
               s = secondaryOamSprite i p;
               hasSpriteData = (i < fetchedSpriteCount \<and>
                 (p_preLine p \<longrightarrow> isSpriteInRangeForScanline s 5 p));
               p = setFetchEntry i (\<lambda>e. e\<lparr>f_x := (if hasSpriteData then s_x s else 0xFF),
                     f_attr := (if hasSpriteData then s_attrib s else 0),
                     f_sprite0 := (hasSpriteData \<and> i = 0 \<and> (p_testSprite0HitInThisLine p \<or> p_preLine p))\<rparr>) p;
               nameTableAddr = getNameTableAddr p;
               shown = (hasSpriteData \<and> s_y s \<noteq> 0xFF)
           in if fetchCycle = 0 then
                setupPpuReadAddress
                  (if i = 0 then 0x2000 OR (p_firstSpriteFetchV p AND 0x0F00) OR ((p_reg_v p + 2) AND 0x00FF)
                   else nameTableAddr) p
              else if fetchCycle = 1 then snd (completePpuRead E p)
              else if fetchCycle = 2 then setupPpuReadAddress nameTableAddr p
              else if fetchCycle = 3 then snd (completePpuRead E p)
              else if fetchCycle = 4 then setupPpuReadAddress (getSpritePatternAddress s False p) p
              else if fetchCycle = 5 then
                let (v, p) = completePpuRead E p in
                setFetchEntry i (\<lambda>e. e\<lparr>f_lowByte := (if shown then v else 0)\<rparr>) p
              else if fetchCycle = 6 then setupPpuReadAddress (getSpritePatternAddress s True p) p
              else
                let (v, p) = completePpuRead E p;
                    p = setFetchEntry i (\<lambda>e. e\<lparr>f_highByte := (if shown then v else 0)\<rparr>) p;
                    r = p_spriteRenderEntries p ! i
                in if shown
                   then p\<lparr>p_spriteFetchCount := of_nat (i + 1),
                          p_spriteRenderEntries := (p_spriteRenderEntries p)[i :=
                            loadRenderEntry (p_spriteFetchEntries p ! i) r]\<rparr>
                   else p\<lparr>p_spriteRenderEntries := (p_spriteRenderEntries p)[i :=
                            r\<lparr>r_counting := False, r_active := False\<rparr>]\<rparr>)"

subsection \<open>Rendering\<close>

definition clockSpriteEntry :: "bool \<Rightarrow> SpriteRenderEntry \<Rightarrow> SpriteRenderEntry" where
  "clockSpriteEntry shiftRegisters r =
     (if \<not> r_active r then r
      else if r_counting r then
        let r = (if r_xCounter r > 0 then r\<lparr>r_xCounter := r_xCounter r - 1\<rparr> else r) in
        if r_xCounter r = 0 then r\<lparr>r_counting := False\<rparr> else r
      else if shiftRegisters
      then r\<lparr>r_lowShift := push_bit 1 (r_lowShift r), r_highShift := push_bit 1 (r_highShift r)\<rparr>
      else r)"

definition clockSpriteRenderers :: "bool \<Rightarrow> 'c ppu \<Rightarrow> 'c ppu" where
  "clockSpriteRenderers shiftRegisters p =
     p\<lparr>p_spriteRenderEntries := map (clockSpriteEntry shiftRegisters) (p_spriteRenderEntries p)\<rparr>"

definition updateSpriteCountersAtEndOfScanline :: "'c ppu \<Rightarrow> 'c ppu" where
  "updateSpriteCountersAtEndOfScanline p =
     p\<lparr>p_spriteRenderEntries := map (\<lambda>r. if r_active r then r\<lparr>r_counting := r_xCounter r > 0\<rparr> else r)
         (p_spriteRenderEntries p)\<rparr>"

definition hasActiveSpriteRenderers :: "'c ppu \<Rightarrow> bool" where
  "hasActiveSpriteRenderers p \<longleftrightarrow> list_ex r_active (p_spriteRenderEntries p)"

definition activeSpriteRenderCount :: "'c ppu \<Rightarrow> nat" where
  "activeSpriteRenderCount p = length (filter r_active (p_spriteRenderEntries p))"

text \<open>Whether the first eight sprites of the line look like a mask: \<open>getSpriteRenderLimit\<close> leaves
  its loop at the first sprite that differs in both bytes.\<close>

definition spritesAsMask :: "'c ppu \<Rightarrow> bool" where
  "spritesAsMask p \<longleftrightarrow>
     (let first = primaryOamSprite (p_spritesIndexesInThisLine p ! 0) p in
      list_all (\<lambda>i. let other = primaryOamSprite (p_spritesIndexesInThisLine p ! i) p in
          \<not> (s_y first \<noteq> s_y other \<and> s_indexInPatternTable first \<noteq> s_indexInPatternTable other)) [1..<8])"

definition getSpriteRenderLimit :: "ppu_settings \<Rightarrow> 'c ppu \<Rightarrow> nat \<times> nat" where
  "getSpriteRenderLimit S p =
     (let indexed = min 64 (unat (p_spritesInThisLine p));
          indexed = max indexed (unat (p_spriteFetchCount p));
          masked = (spriteLimitDisabled S \<and> indexed \<ge> 8 \<and> spritesAsMask p);
          maxSprites = (if \<not> spriteLimitDisabled S \<or> masked then min 8 indexed else indexed)
      in (min maxSprites (activeSpriteRenderCount p), maxSprites))"

definition applySpritePixel :: "u8 \<Rightarrow> bool \<Rightarrow> 'c ppu \<Rightarrow> 'c ppu" where
  "applySpritePixel paletteIndex isPixelBehind p =
     (if paletteIndex AND 0x03 \<noteq> 0 \<and> (p_currentPixelColorIndex p AND 0x03 = 0 \<or> \<not> isPixelBehind)
      then p\<lparr>p_currentPixelColorIndex := paletteIndex\<rparr> else p)"

definition entryColor :: "SpriteRenderEntry \<Rightarrow> u8" where
  "entryColor r = (if test_bits (r_lowShift r) 0x80 then 0x01 else 0x00) OR
     (if test_bits (r_highShift r) 0x80 then 0x02 else 0x00)"

text \<open>The first render unit with an opaque pixel at this dot.\<close>

definition opaqueEntry :: "SpriteRenderEntry list \<Rightarrow> SpriteRenderEntry option" where
  "opaqueEntry rs = List.find (\<lambda>r. r_active r \<and> \<not> r_counting r \<and> entryColor r \<noteq> 0) rs"

definition getColorLowBitsInPatternTable :: "'c ppu_ops \<Rightarrow> int \<Rightarrow> nat \<Rightarrow> int \<Rightarrow> 'c ppu \<Rightarrow> u8 \<times> 'c ppu" where
  "getColorLowBitsInPatternTable E tileIndex pixelX pixelY p =
     (let (low, p) = fakeReadPpuMemory E (word_of_int (push_bit 4 tileIndex + pixelY)) p;
          (high, p) = fakeReadPpuMemory E (word_of_int (8 + push_bit 4 tileIndex + pixelY)) p
      in ((if test_bits low (drop_bit pixelX 0x80) then 0x01 else 0x00) OR
          (if test_bits high (drop_bit pixelX 0x80) then 0x02 else 0x00), p))"

definition getSpritePixelFake :: "'c ppu_ops \<Rightarrow> Sprite \<Rightarrow> int \<Rightarrow> 'c ppu \<Rightarrow> u8 \<times> 'c ppu" where
  "getSpritePixelFake E s xOnScreen p =
     (let spriteY = uint (s_y s) + 1;
          line = (if \<not> test_bits (s_attrib s) 0x80 then p_currentY p - spriteY
                  else (spriteHeight_int (p_spriteHeight p) - 1) - (p_currentY p - spriteY));
          x = (if \<not> test_bits (s_attrib s) 0x40 then xOnScreen - uint (s_x s)
               else uint (s_x s) - xOnScreen + 7);
          attr = push_bit 2 (s_attrib s AND 0x03);
          (v, p) =
            (if p_spriteHeight p = H8 then
               getColorLowBitsInPatternTable E
                 (uint (s_indexInPatternTable s) + uint (drop_bit 4 (table_u16 (p_spritePatternTableAddress p))))
                 (nat x) line p
             else
               let index = uint (s_indexInPatternTable s);
                   index = (if line \<ge> 8 then index + 1 else index);
                   index = (if test_bits (s_indexInPatternTable s) 0x01 then index + 255 else index)
               in getColorLowBitsInPatternTable E index (nat x) (line AND 0x07) p)
      in (v OR attr, p))"

text \<open>The sprites beyond the eighth, drawn only when the sprite limit is lifted.\<close>

fun extraSprites :: "'c ppu_ops \<Rightarrow> u8 list \<Rightarrow> 'c ppu \<Rightarrow> (u8 \<times> bool) \<times> 'c ppu" where
  "extraSprites E [] p = ((0, False), p)"
| "extraSprites E (a # as) p =
     (let s = primaryOamSprite a p in
      if p_currentX p < uint (s_x s) \<or> p_currentX p \<ge> uint (s_x s) + 8 then extraSprites E as p
      else
        let (low, p) = getSpritePixelFake E s (p_currentX p) p in
        if low AND 0x03 = 0 then extraSprites E as p
        else ((0x10 + low, test_bits (s_attrib s) 0x20), p))"

definition renderSpritesPixelFast :: "'c ppu_ops \<Rightarrow> nat \<Rightarrow> nat \<Rightarrow> 'c ppu \<Rightarrow> 'c ppu" where
  "renderSpritesPixelFast E renderedSpriteLimit maxSprites p =
     (case opaqueEntry (take renderedSpriteLimit (p_spriteRenderEntries p)) of
        Some r \<Rightarrow>
          let p = (if r_sprite0 r \<and> p_backgroundEnabled p \<and> p_currentPixelColorIndex p AND 0x03 \<noteq> 0 \<and>
                      p_currentX p \<noteq> 255
                   then p\<lparr>p_sprite0Hit := True\<rparr> else p)
          in applySpritePixel (0x10 + (entryColor r OR push_bit 2 (r_attr r AND 0x03)))
               (test_bits (r_attr r) 0x20) p
      | None \<Rightarrow>
          if maxSprites > 8 then
            let ((paletteIndex, isPixelBehind), p) =
                  extraSprites E (drop 8 (take maxSprites (p_spritesIndexesInThisLine p))) p
            in applySpritePixel paletteIndex isPixelBehind p
          else applySpritePixel 0 False p)"

definition renderSpritesPixel :: "'c ppu_ops \<Rightarrow> ppu_settings \<Rightarrow> 'c ppu \<Rightarrow> 'c ppu" where
  "renderSpritesPixel E S p =
     (if \<not> p_showSpritesLeftmost8Pixels p \<and> p_currentX p < 8 then p
      else
        let (renderedSpriteLimit, maxSprites) = getSpriteRenderLimit S p
        in renderSpritesPixelFast E renderedSpriteLimit maxSprites p)"

end
