(* ===== verification/Ppu_Cycle.thy ===== *)
theory Ppu_Cycle
  imports Ppu_Sprites
begin

text \<open>
  One PPU clock cycle (\<open>ppuCycle\<close> of \<open>src/src/GeraNES/PPU.h\<close>): the background pipeline, the
  pixel, the scanline and frame events, and the step of the dot counters. A store outside the frame
  buffer or outside the sprite memory is undefined in C++ and gives \<open>None\<close>.
\<close>

subsection \<open>Background\<close>

definition setupNameTableByte :: "'c ppu_ops \<Rightarrow> 'c ppu \<Rightarrow> 'c ppu" where
  "setupNameTableByte E p =
     (let p = setPpuFetchSourceCached E False p in setupPpuReadAddress (getNameTableAddr p) p)"

definition fetchNameTableByte :: "'c ppu_ops \<Rightarrow> 'c ppu \<Rightarrow> 'c ppu" where
  "fetchNameTableByte E p =
     (let (tileIndex, p) = completePpuRead E (setPpuFetchSourceCached E False p);
          fineY = drop_bit 12 (p_reg_v p) AND 7
      in p\<lparr>p_tileAddr := table_u16 (p_backgroundPatternTableAddress p) + push_bit 4 (ucast tileIndex) + fineY\<rparr>)"

definition setupAttributeTableByte :: "'c ppu_ops \<Rightarrow> 'c ppu \<Rightarrow> 'c ppu" where
  "setupAttributeTableByte E p =
     (let p = setPpuFetchSourceCached E False p in setupPpuReadAddress (getAttributeTableAddr p) p)"

definition fetchAttributeTableByte :: "'c ppu_ops \<Rightarrow> 'c ppu \<Rightarrow> 'c ppu" where
  "fetchAttributeTableByte E p =
     (let p = setPpuFetchSourceCached E False p;
          shift = (drop_bit 4 (p_reg_v p) AND 4) OR (p_reg_v p AND 2);
          (v, p) = completePpuRead E p
      in p\<lparr>p_paletteOffset := push_bit 2 (drop_bit (unat shift) v AND 3)\<rparr>)"

definition setupLowTileByte :: "'c ppu_ops \<Rightarrow> 'c ppu \<Rightarrow> 'c ppu" where
  "setupLowTileByte E p =
     (let p = setPpuFetchSourceCached E False p in setupPpuReadAddress (p_tileAddr p) p)"

definition fetchLowTileByte :: "'c ppu_ops \<Rightarrow> 'c ppu \<Rightarrow> 'c ppu" where
  "fetchLowTileByte E p =
     (let (v, p) = completePpuRead E (setPpuFetchSourceCached E False p) in p\<lparr>p_lowTileByte := v\<rparr>)"

definition setupHighTileByte :: "'c ppu_ops \<Rightarrow> 'c ppu \<Rightarrow> 'c ppu" where
  "setupHighTileByte E p =
     (let p = setPpuFetchSourceCached E False p in setupPpuReadAddress (p_tileAddr p + 8) p)"

definition fetchHighTileByte :: "'c ppu_ops \<Rightarrow> 'c ppu \<Rightarrow> 'c ppu" where
  "fetchHighTileByte E p =
     (let (v, p) = completePpuRead E (setPpuFetchSourceCached E False p) in p\<lparr>p_highTileByte := v\<rparr>)"

definition storeTileData :: "'c ppu \<Rightarrow> 'c ppu" where
  "storeTileData p =
     (let low = test_bits (p_paletteOffset p) 0x04; high = test_bits (p_paletteOffset p) 0x08 in
      p\<lparr>p_bgPatternLowShift := (p_bgPatternLowShift p AND 0xFF00) OR ucast (p_lowTileByte p),
        p_bgPatternHighShift := (p_bgPatternHighShift p AND 0xFF00) OR ucast (p_highTileByte p),
        p_bgAttribLowLatch := low, p_bgAttribHighLatch := high,
        p_bgAttribLowShift := (p_bgAttribLowShift p AND 0xFF00) OR (if low then 0x00FF else 0x0000),
        p_bgAttribHighShift := (p_bgAttribHighShift p AND 0xFF00) OR (if high then 0x00FF else 0x0000),
        p_staleBgShiftActive := False\<rparr>)"

definition shiftTileData :: "'c ppu \<Rightarrow> 'c ppu" where
  "shiftTileData p =
     p\<lparr>p_bgPatternLowShift := push_bit 1 (p_bgPatternLowShift p),
       p_bgPatternHighShift := push_bit 1 (p_bgPatternHighShift p) OR 0x01,
       p_bgAttribLowShift := push_bit 1 (p_bgAttribLowShift p),
       p_bgAttribHighShift := push_bit 1 (p_bgAttribHighShift p)\<rparr>"

definition runBackgroundFetchPipeline :: "'c ppu_ops \<Rightarrow> 'c ppu \<Rightarrow> 'c ppu" where
  "runBackgroundFetchPipeline E p =
     (let p = shiftTileData p; phase = p_cycle p mod 8 in
      if phase = 1 then setupNameTableByte E p
      else if phase = 2 then fetchNameTableByte E p
      else if phase = 3 then setupAttributeTableByte E p
      else if phase = 4 then fetchAttributeTableByte E p
      else if phase = 5 then setupLowTileByte E p
      else if phase = 6 then fetchLowTileByte E p
      else if phase = 7 then setupHighTileByte E p
      else incrementVX (storeTileData (fetchHighTileByte E p)))"

definition runRenderLineFetches :: "'c ppu_ops \<Rightarrow> 'c ppu \<Rightarrow> 'c ppu" where
  "runRenderLineFetches E p =
     (let c = p_cycle p in
      if c = 256 then incrementVY p
      else if c = 257 then copyVX (p\<lparr>p_firstSpriteFetchV := p_reg_v p\<rparr>)
      else if c = 337 then setupNameTableByte E p
      else if c = 338 then fetchNameTableByte E p
      else if c = 339 then setupNameTableByte E p
      else if c = 340 then fetchNameTableByte E p
      else if c = 0 then setupLowTileByte E p
      else p)"

subsection \<open>Pixels\<close>

definition SCREEN_WIDTH :: int where
  "SCREEN_WIDTH = 256"

definition SCREEN_HEIGHT :: int where
  "SCREEN_HEIGHT = 240"

definition renderBackgroundPixel :: "'c ppu \<Rightarrow> 'c ppu" where
  "renderBackgroundPixel p =
     (if \<not> p_showBackgroundLeftmost8Pixels p \<and> p_currentX p < 8 then p
      else
        let m = drop_bit (unat (p_reg_x p)) 0x8000 in
        p\<lparr>p_currentPixelColorIndex :=
            (if test_bits (p_bgPatternLowShift p) m then 0x01 else 0) OR
            (if test_bits (p_bgPatternHighShift p) m then 0x02 else 0) OR
            (if test_bits (p_bgAttribLowShift p) m then 0x04 else 0) OR
            (if test_bits (p_bgAttribHighShift p) m then 0x08 else 0)\<rparr>)"

definition nextPixel :: "'c ppu \<Rightarrow> 'c ppu" where
  "nextPixel p =
     (let p = p\<lparr>p_pFrameBuffer := p_pFrameBuffer p + 1, p_currentX := p_currentX p + 1\<rparr> in
      if p_currentX p = SCREEN_WIDTH then
        let p = p\<lparr>p_currentX := 0, p_currentY := p_currentY p + 1\<rparr> in
        if p_currentY p = SCREEN_HEIGHT then p\<lparr>p_currentY := 0, p_currentX := 0, p_pFrameBuffer := 0\<rparr> else p
      else p)"

definition renderPixel :: "'c ppu_ops \<Rightarrow> ppu_settings \<Rightarrow> 'c ppu \<Rightarrow> 'c ppu option" where
  "renderPixel E S p =
     (let p = p\<lparr>p_currentPixelColorIndex := 0\<rparr>;
          renderingEnabled = p_renderingEnabled p;
          p = (if p_backgroundEnabled p then renderBackgroundPixel p else p);
          p = (if p_spritesEnabled p then renderSpritesPixel E S p else p);
          (v, p) =
            (if \<not> renderingEnabled \<and> isOnPaletteAddr p then
               let (v, p) = fakeReadPpuMemory E (p_reg_v p) p in (v AND 0x3F, p)
             else
               let p = (if p_currentPixelColorIndex p AND 0x03 = 0 then p\<lparr>p_currentPixelColorIndex := 0\<rparr> else p)
               in (p_palette p ! unat (p_currentPixelColorIndex p) AND 0x3F, p))
      in if p_pFrameBuffer p < length (p_framebuffer p)
         then Some (nextPixel
           (p\<lparr>p_framebuffer := (p_framebuffer p)[p_pFrameBuffer p := NESToRGBAColor v p]\<rparr>))
         else None)"

definition getZapperPixel :: "int \<Rightarrow> int \<Rightarrow> 'c ppu \<Rightarrow> u32" where
  "getZapperPixel x y p =
     (if p_VBlankHasStarted p then 0
      else if x < 0 \<or> x \<ge> SCREEN_WIDTH \<or> y < 0 \<or> y \<ge> SCREEN_HEIGHT then 0
      else if y > p_currentY p then 0
      else if x > p_currentX p then 0
      else p_framebuffer p ! nat (y * SCREEN_WIDTH + x))"

definition clearFramebuffer :: "'c ppu \<Rightarrow> 'c ppu" where
  "clearFramebuffer p = p\<lparr>p_framebuffer := replicate (nat (SCREEN_WIDTH * SCREEN_HEIGHT)) 0xFF000000\<rparr>"

subsection \<open>Lines\<close>

definition VBLANK_CYCLE :: int where
  "VBLANK_CYCLE = 1"

definition updateSettings :: "ppu_settings \<Rightarrow> 'c ppu \<Rightarrow> 'c ppu" where
  "updateSettings S p =
     (case region S of
        NTSC \<Rightarrow> p\<lparr>FRAME_VBLANK_START_LINE := 241, FRAME_VBLANK_END_LINE := 241 + 20,
                  FRAME_NUMBER_OF_LINES := 241 + 20 + 1\<rparr>
      | PAL \<Rightarrow> p\<lparr>FRAME_VBLANK_START_LINE := 241, FRAME_VBLANK_END_LINE := 241 + 70,
                 FRAME_NUMBER_OF_LINES := 241 + 70 + 1\<rparr>
      | DENDY \<Rightarrow> p\<lparr>FRAME_VBLANK_START_LINE := 241, FRAME_VBLANK_END_LINE := 241 + 20,
                   FRAME_NUMBER_OF_LINES := 241 + 20 + 51\<rparr>)"

text \<open>The frame events at the start of a visible line, of line 240 and of line 241.\<close>

definition startVisibleLine :: "'c ppu_ops \<Rightarrow> ppu_settings \<Rightarrow> 'c ppu \<Rightarrow> 'c ppu" where
  "startVisibleLine E S p =
     (let p = (if p_scanline p = 0 then
                 let p = updateSettings S p;
                     p = (if overclockLines S > 0 then p\<lparr>p_overclockFrame := True\<rparr> else p)
                 in call (signalFrameStart E) p
               else p)
      in if p_prevCycleRenderingEnabled p \<and>
            (p_scanline p > 0 \<or> (\<not> p_oddFrameFlag p \<or> region S \<noteq> NTSC))
         then setBusAddress (p_tileAddr p) p else p)"

definition frameReady :: "'c ppu_ops \<Rightarrow> ppu_settings \<Rightarrow> 'c ppu \<Rightarrow> 'c ppu" where
  "frameReady E S p =
     (let p = call (signalFrameReady E) (decayOpenBus p) in
      if p_overclockFrame p
      then p\<lparr>FRAME_NUMBER_OF_LINES := FRAME_NUMBER_OF_LINES p + overclockLines S,
             FRAME_VBLANK_START_LINE := FRAME_VBLANK_START_LINE p + overclockLines S,
             FRAME_VBLANK_END_LINE := FRAME_VBLANK_END_LINE p + overclockLines S\<rparr>
      else p)"

definition setLineFlags :: "ppu_settings \<Rightarrow> 'c ppu \<Rightarrow> 'c ppu" where
  "setLineFlags S p =
     (let p = p\<lparr>p_inOverclockLines := overclockLines S > 0 \<and> p_overclockFrame p \<and>
                  p_scanline p \<ge> 241 \<and> p_scanline p < FRAME_VBLANK_START_LINE p,
                p_preLine := (p_scanline p = FRAME_VBLANK_END_LINE p),
                p_visibleLine := p_scanline p < 240\<rparr>
      in p\<lparr>p_renderLine := p_preLine p \<or> p_visibleLine p,
           p_spriteRenderClockingActiveThisLine :=
             p_prevCycleRenderingEnabled p \<or> hasActiveSpriteRenderers p\<rparr>)"

definition lineEvents :: "'c ppu_ops \<Rightarrow> ppu_settings \<Rightarrow> 'c ppu \<Rightarrow> 'c ppu" where
  "lineEvents E S p =
     (if p_scanline p < 240 then startVisibleLine E S p
      else if p_preLine p then p\<lparr>p_spriteOverflow := False, p_sprite0Hit := False\<rparr>
      else if p_scanline p = 240 then setBusAddress (p_reg_v p AND 0x3FFF) p
      else if p_scanline p = 241 then frameReady E S p
      else p)"

definition onScanlineStart :: "'c ppu_ops \<Rightarrow> ppu_settings \<Rightarrow> 'c ppu \<Rightarrow> 'c ppu" where
  "onScanlineStart E S p =
     (let renderingEnabled = p_renderingEnabled p;
          p = setLineFlags S p;
          p = (if p_preLine p \<and> renderingEnabled then processOamCorruption p else p);
          p = lineEvents E S p
      in call (signalScanlineStart E (isActivelyRendering p) (p_scanline p)) p)"

definition updateInterruptState :: "'c ppu \<Rightarrow> 'c ppu" where
  "updateInterruptState p =
     (if \<not> p_interruptFlag p then
        if p_VBlankHasStarted p \<and> p_NMIOnVBlank p then p\<lparr>p_interruptFlag := p_NMIOnVBlank p\<rparr> else p
      else if \<not> p_VBlankHasStarted p then p\<lparr>p_interruptFlag := False\<rparr> else p)"

definition visibleCycle :: "int \<Rightarrow> bool" where
  "visibleCycle c \<longleftrightarrow> 1 \<le> c \<and> c \<le> 256"

text \<open>The fetches of a line with rendering on, the same on visible lines and the pre-render line.\<close>

definition renderLineFetches :: "'c ppu_ops \<Rightarrow> 'c ppu \<Rightarrow> 'c ppu" where
  "renderLineFetches E p =
     (let c = p_cycle p;
          p = (if visibleCycle c \<or> (321 \<le> c \<and> c < 337) then runBackgroundFetchPipeline E p else p);
          p = runRenderLineFetches E p;
          p = (if 257 \<le> c \<and> c < 321 then fetchSprites E (p\<lparr>p_oamAddr := 0\<rparr>) else p)
      in if c = 339 then updateSpriteCountersAtEndOfScanline p else p)"

definition ppuCycleVisibleLine ::
  "'c ppu_ops \<Rightarrow> ppu_settings \<Rightarrow> bool \<Rightarrow> bool \<Rightarrow> 'c ppu \<Rightarrow> 'c ppu option" where
  "ppuCycleVisibleLine E S renderingEnabled prevCycleRenderingEnabled p = do {
     let c = p_cycle p;
     p \<leftarrow> (if visibleCycle c then renderPixel E S p else Some p);
     let p = (if renderingEnabled \<and> c = 321 then p\<lparr>p_oamCopyBuffer := p_secondaryOam p ! 0\<rparr> else p);
     let p = (if renderingEnabled \<and> visibleCycle c then evaluateSprites S p else p);
     let p = (if prevCycleRenderingEnabled then renderLineFetches E p else p);
     Some (if visibleCycle c \<and> (prevCycleRenderingEnabled \<or> p_spriteRenderClockingActiveThisLine p)
           then clockSpriteRenderers prevCycleRenderingEnabled p else p) }"

text \<open>The copy of eight bytes to the start of the sprite memory on the pre-render line. The test
  \<open>cycle <= 8u\<close> admits cycle 0, where the index is \<open>-1\<close>.\<close>

definition refreshOam :: "bool \<Rightarrow> 'c ppu \<Rightarrow> 'c ppu option" where
  "refreshOam renderingEnabled p =
     (if p_cycle p \<le> 8 \<and> renderingEnabled \<and> p_oamAddr p \<ge> 0x08 then
        if p_cycle p = 0 then None
        else Some (p\<lparr>p_primaryOam := (p_primaryOam p)[nat (p_cycle p - 1) :=
               p_primaryOam p ! (unat (p_oamAddr p AND 0xF8) + nat (p_cycle p - 1))]\<rparr>)
      else Some p)"

text \<open>The end of a cycle of the pre-render line, after the fetches.\<close>

definition preLineEnd :: "ppu_settings \<Rightarrow> bool \<Rightarrow> 'c ppu \<Rightarrow> 'c ppu" where
  "preLineEnd S renderingEnabled p =
     (let c = p_cycle p in
      if 280 \<le> c \<and> c < 305 then (if p_prevCycleRenderingEnabled p then copyVY p else p)
      else if c = VBLANK_CYCLE then p\<lparr>p_VBlankHasStarted := False\<rparr>
      else if c = 339 \<and> region S = NTSC then
        (if p_oddFrameFlag p \<and> renderingEnabled then p\<lparr>p_cycle := p_cycle p + 1\<rparr> else p)
          \<lparr>p_oddFrameFlag := \<not> p_oddFrameFlag p\<rparr>
      else p)"

definition ppuCyclePreRenderLine ::
  "'c ppu_ops \<Rightarrow> ppu_settings \<Rightarrow> bool \<Rightarrow> bool \<Rightarrow> 'c ppu \<Rightarrow> 'c ppu option" where
  "ppuCyclePreRenderLine E S renderingEnabled prevCycleRenderingEnabled p =
     map_option (preLineEnd S renderingEnabled)
       (refreshOam renderingEnabled (if prevCycleRenderingEnabled then renderLineFetches E p else p))"

definition ppuCycleVBlankStartLine :: "'c ppu \<Rightarrow> 'c ppu" where
  "ppuCycleVBlankStartLine p =
     (if p_cycle p = VBLANK_CYCLE \<and> p_lastPPUSTATUSReadCycle p \<noteq> VBLANK_CYCLE
      then p\<lparr>p_VBlankHasStarted := True\<rparr> else p)"

definition advanceDot :: "'c ppu \<Rightarrow> 'c ppu" where
  "advanceDot p =
     (let p = p\<lparr>p_cycle := p_cycle p + 1\<rparr> in
      if p_cycle p = 341 then
        let p = p\<lparr>p_lastPPUSTATUSReadCycle := -1, p_cycle := 0, p_scanline := p_scanline p + 1\<rparr> in
        if p_scanline p = FRAME_NUMBER_OF_LINES p then p\<lparr>p_scanline := 0\<rparr> else p
      else p)"

definition ppuCycle :: "'c ppu_ops \<Rightarrow> ppu_settings \<Rightarrow> 'c ppu \<Rightarrow> 'c ppu option" where
  "ppuCycle E S p = do {
     let p = (if p_cycle p = 0 then onScanlineStart E S p else p);
     let renderingEnabled = p_renderingEnabled p;
     let prevCycleRenderingEnabled = p_prevCycleRenderingEnabled p;
     let p = call (onPpuCycle E (p_scanline p) (p_cycle p)
                    (p_renderLine p \<and> prevCycleRenderingEnabled) (p_preLine p)) p;
     let p = updateInterruptState p;
     p \<leftarrow> (if p_visibleLine p then ppuCycleVisibleLine E S renderingEnabled prevCycleRenderingEnabled p
          else if p_preLine p then ppuCyclePreRenderLine E S renderingEnabled prevCycleRenderingEnabled p
          else if p_scanline p = FRAME_VBLANK_START_LINE p then Some (ppuCycleVBlankStartLine p)
          else Some p);
     let p = advanceDot p;
     Some (if p_needUpdateState p then updateState E p else p) }"

subsection \<open>Power-up\<close>

text \<open>\<open>init\<close>: the members it assigns, in groups, and the cycles it runs to warm up.\<close>

definition noRenderEntry :: SpriteRenderEntry where
  "noRenderEntry = \<lparr>r_x = 0, r_xCounter = 0, r_attr = 0, r_lowShift = 0, r_highShift = 0,
     r_sprite0 = False, r_counting = False, r_active = False\<rparr>"

definition noDeferredIo :: DeferredPpuIoState where
  "noDeferredIo = \<lparr>pendingDataLatchUpdate = False, pendingDataLatchDelay = 0, pendingDataLatchAddr = 0,
     deferredDataLatchArmPending = False, deferredDataLatchStart = False, deferredDataLatchStartDelay = 0,
     deferredVideoRamIncrementArmPending = False, deferredVideoRamIncrementDelay = 0\<rparr>"

definition clearSpriteState :: "'c ppu \<Rightarrow> 'c ppu" where
  "clearSpriteState p = p\<lparr>p_VBlankHasStarted := False, p_sprite0Hit := False, p_spriteOverflow := False,
     p_spritesInThisLine := 0, p_testSprite0HitInThisLine := False, p_spriteFetchCount := 0,
     p_spriteFetchEntries := replicate 8 noFetchEntry, p_spriteRenderEntries := replicate 8 noRenderEntry,
     p_secondaryOam := replicate 32 0xFF, p_primaryOam := replicate 256 0,
     p_spritesIndexesInThisLine := replicate 64 0, p_corruptOamRow := replicate 32 False,
     p_oamAddr := 0, p_oamCopyBuffer := 0xFF, p_oamCopyDone := False, p_secondaryOamAddr := 0,
     p_spriteInRange := False, p_oamAddrN := 0, p_oamAddrM := 0, p_overflowBugCounter := 0,
     p_sprite0Added := False\<rparr>"

definition clearPipelineState :: "'c ppu \<Rightarrow> 'c ppu" where
  "clearPipelineState p = p\<lparr>p_dataLatch := 0, p_deferredPpuIo := noDeferredIo,
     p_cpuDmaReadInProgress := False, p_currentPixelColorIndex := 0, p_bgPatternLowShift := 0,
     p_bgPatternHighShift := 0, p_bgAttribLowShift := 0, p_bgAttribHighShift := 0,
     p_bgAttribLowLatch := False, p_bgAttribHighLatch := False, p_scanline := 0, p_cycle := 0,
     p_currentY := 0, p_currentX := 0, p_pFrameBuffer := 0, p_reg_v := 0, p_reg_x := 0, p_reg_t := 0,
     p_reg_w := False, p_oddFrameFlag := False, p_interruptFlag := False, p_tileAddr := 0,
     p_paletteOffset := 0, p_lowTileByte := 0, p_highTileByte := 0, p_lastPPUSTATUSReadCycle := -1\<rparr>"

definition clearFrameState :: "'c ppu \<Rightarrow> 'c ppu" where
  "clearFrameState p = p\<lparr>FRAME_NUMBER_OF_LINES := 262, FRAME_VBLANK_START_LINE := 241,
     FRAME_VBLANK_END_LINE := 261, p_inOverclockLines := False, p_preLine := False, p_visibleLine := False,
     p_renderLine := False, p_overclockFrame := False, p_needUpdateState := False,
     p_needIncVideoRam := False, p_update_reg_v_delay := 0, p_update_reg_v_value := 0, p_busAddress := 0,
     p_busAddressLowLatch := 0, p_updateA12Delay := 0, p_isSpritePatternFetch := False,
     p_currentReadAffectsBus := True\<rparr>"

fun ppuCyclesRun :: "'c ppu_ops \<Rightarrow> ppu_settings \<Rightarrow> nat \<Rightarrow> 'c ppu \<Rightarrow> 'c ppu option" where
  "ppuCyclesRun E S 0 p = Some p"
| "ppuCyclesRun E S (Suc n) p = do { p \<leftarrow> ppuCycle E S p; ppuCyclesRun E S n p }"

fun warmUp :: "'c ppu_ops \<Rightarrow> ppu_settings \<Rightarrow> nat list \<Rightarrow> 'c ppu \<Rightarrow> 'c ppu option" where
  "warmUp E S [] p = Some p"
| "warmUp E S (i # is) p = do {
     p \<leftarrow> ppuCyclesRun E S (if region S = PAL \<and> i mod 5 = 0 then 4 else 3) p;
     warmUp E S is p }"

definition ppu_init :: "'c ppu_ops \<Rightarrow> ppu_settings \<Rightarrow> 'c ppu \<Rightarrow> 'c ppu option" where
  "ppu_init E S p =
     (let p = writePPUMASK E S 0 True (writePPUCTRL E 0 True (initOpenBus p));
          p = p\<lparr>p_palette := POWER_UP_PALETTE,
                p_renderingEnabled := (p_spritesEnabled p \<or> p_backgroundEnabled p)\<rparr>;
          p = p\<lparr>p_prevCycleRenderingEnabled := p_renderingEnabled p\<rparr>;
          p = p\<lparr>p_spriteRenderClockingActiveThisLine := p_prevCycleRenderingEnabled p,
                p_staleBgShiftActive := False, p_firstSpriteFetchV := 0\<rparr>;
          p = clearPipelineState (clearSpriteState p);
          p = updateSettings S (clearFrameState (clearFramebuffer p))
      in warmUp E S [0..<15] p)"

end
