(* ===== verification/Ppu_Frame.thy ===== *)
theory Ppu_Frame
  imports Ppu_Cycle
begin

text \<open>
  What the parts of a PPU cycle leave alone. \<open>timing\<close> collects the members that decide where in
  the frame the PPU is, \<open>screen\<close> those that say where the next pixel goes. All bus accesses,
  fetches, evaluations and deferred updates keep both.
\<close>

definition timing :: "'c ppu \<Rightarrow> _" where
  "timing p = (p_scanline p, p_cycle p, (p_preLine p, p_visibleLine p, p_renderLine p),
     (FRAME_NUMBER_OF_LINES p, FRAME_VBLANK_START_LINE p, FRAME_VBLANK_END_LINE p),
     p_oddFrameFlag p, p_VBlankHasStarted p, p_NMIOnVBlank p, p_lastPPUSTATUSReadCycle p, p_overclockFrame p,
     p_backgroundEnabled p, p_spritesEnabled p, p_renderingEnabled p)"

definition screen :: "'c ppu \<Rightarrow> _" where
  "screen p = (length (p_framebuffer p), p_pFrameBuffer p, p_currentX p, p_currentY p)"

definition place :: "'c ppu \<Rightarrow> _" where
  "place p = (timing p, screen p)"

lemmas place_defs = place_def timing_def screen_def

lemma timingD:
  assumes "timing p = timing q"
  shows "p_scanline p = p_scanline q" "p_cycle p = p_cycle q" "p_preLine p = p_preLine q"
    "p_visibleLine p = p_visibleLine q" "p_renderLine p = p_renderLine q"
    "FRAME_NUMBER_OF_LINES p = FRAME_NUMBER_OF_LINES q" "FRAME_VBLANK_START_LINE p = FRAME_VBLANK_START_LINE q"
    "FRAME_VBLANK_END_LINE p = FRAME_VBLANK_END_LINE q" "p_oddFrameFlag p = p_oddFrameFlag q"
    "p_VBlankHasStarted p = p_VBlankHasStarted q" "p_NMIOnVBlank p = p_NMIOnVBlank q"
    "p_lastPPUSTATUSReadCycle p = p_lastPPUSTATUSReadCycle q" "p_overclockFrame p = p_overclockFrame q"
    "p_backgroundEnabled p = p_backgroundEnabled q" "p_spritesEnabled p = p_spritesEnabled q"
    "p_renderingEnabled p = p_renderingEnabled q"
  using assms by (simp_all add: timing_def)

subsection \<open>Bus\<close>

lemma place_call [frame_simps]: "place (call f p) = place p"
  by (simp add: call_def place_defs)

lemma place_call_value [frame_simps]: "place (snd (call_value f p)) = place p"
  by (simp add: call_value_def place_defs split: prod.split)

lemma place_bus [frame_simps]:
  "place (setBusAddress a p) = place p"
  "place (commitPendingDataLatch v p) = place p"
  "place (setupPpuReadAddress a p) = place p"
  by (simp_all add: setBusAddress_def commitPendingDataLatch_def setupPpuReadAddress_def place_defs Let_def)

lemma place_update [frame_simps]:
  "place (p\<lparr>p_currentReadAffectsBus := b\<rparr>) = place p"
  "place (p\<lparr>p_needUpdateState := b\<rparr>) = place p"
  "place (p\<lparr>p_needIncVideoRam := b\<rparr>) = place p"
  "place (p\<lparr>p_deferredPpuIo := d\<rparr>) = place p"
  "place (p\<lparr>p_dataLatch := v\<rparr>) = place p"
  "place (p\<lparr>p_reg_v := a\<rparr>) = place p"
  "place (p\<lparr>p_oamAddr := v\<rparr>) = place p"
  "place (p\<lparr>p_oamAddrM := v\<rparr>) = place p"
  "place (p\<lparr>p_secondaryOam := l\<rparr>) = place p"
  "place (p\<lparr>p_primaryOam := l\<rparr>) = place p"
  "place (p\<lparr>p_oamCopyBuffer := v\<rparr>) = place p"
  "place (p\<lparr>p_spriteInRange := b\<rparr>) = place p"
  "place (p\<lparr>p_oamCopyDone := b\<rparr>) = place p"
  "place (p\<lparr>p_sprite0Added := b\<rparr>) = place p"
  "place (p\<lparr>p_sprite0Hit := b\<rparr>) = place p"
  "place (p\<lparr>p_overflowBugCounter := i\<rparr>) = place p"
  "place (p\<lparr>p_currentPixelColorIndex := v\<rparr>) = place p"
  "place (p\<lparr>p_isSpritePatternFetch := b\<rparr>) = place p"
  "place (p\<lparr>p_tileAddr := a\<rparr>) = place p"
  "place (p\<lparr>p_paletteOffset := v\<rparr>) = place p"
  "place (p\<lparr>p_lowTileByte := v\<rparr>) = place p"
  "place (p\<lparr>p_highTileByte := v\<rparr>) = place p"
  "place (p\<lparr>p_testSprite0HitInThisLine := b\<rparr>) = place p"
  "place (p\<lparr>p_spritesInThisLine := v\<rparr>) = place p"
  "place (p\<lparr>p_spriteRenderEntries := rs\<rparr>) = place p"
  "place (p\<lparr>p_prevCycleRenderingEnabled := b\<rparr>) = place p"
  "place (p\<lparr>p_staleBgShiftActive := b\<rparr>) = place p"
  "place (p\<lparr>p_secondaryOamAddr := v\<rparr>) = place p"
  "place (p\<lparr>p_oamAddrN := v\<rparr>) = place p"
  "place (p\<lparr>p_spriteOverflow := b\<rparr>) = place p"
  "place (p\<lparr>p_spriteFetchCount := v\<rparr>) = place p"
  "place (p\<lparr>p_spriteFetchEntries := es\<rparr>) = place p"
  "place (p\<lparr>p_firstSpriteFetchV := a\<rparr>) = place p"
  by (simp_all add: place_defs)

lemma place_readNameTable [frame_simps]: "place (snd (readNameTable E i a p)) = place p"
  by (simp add: readNameTable_def Let_def case_prod_unfold frame_simps)

lemma place_readAccess [frame_simps]: "place (snd (readAccess E b u a p)) = place p"
  by (simp add: readAccess_def Let_def case_prod_unfold frame_simps)

lemma place_reads [frame_simps]:
  "place (snd (readPpuMemory E a p)) = place p"
  "place (snd (fakeReadPpuMemory E a p)) = place p"
  "place (snd (completePpuRead E p)) = place p"
  by (simp_all add: readPpuMemory_def fakeReadPpuMemory_def completePpuRead_def frame_simps)

lemma place_scroll [frame_simps]:
  "place (incrementVX p) = place p" "place (incrementVY p) = place p"
  "place (copyVX p) = place p" "place (copyVY p) = place p"
  by (simp_all add: incrementVX_def incrementVY_def copyVX_def copyVY_def frame_simps)

lemma place_incVideoRamAddr [frame_simps]: "place (incVideoRamAddr p) = place p"
  by (simp add: incVideoRamAddr_def Let_def frame_simps)

subsection \<open>Deferred updates\<close>

lemma place_corruption [frame_simps]:
  "place (setOamCorruptionFlags p) = place p" "place (processOamRow i p) = place p"
  by (simp_all add: setOamCorruptionFlags_def processOamRow_def Let_def place_defs)

lemma place_fold: "(\<And>x p. place (f x p) = place p) \<Longrightarrow> place (fold f xs p) = place p"
  by (induction xs arbitrary: p) auto

lemma place_processOamCorruption [frame_simps]: "place (processOamCorruption p) = place p"
  unfolding processOamCorruption_def by (rule place_fold) (simp add: frame_simps)

lemma place_transition [frame_simps]: "place (handleRenderingEnabledTransition p) = place p"
  by (simp add: handleRenderingEnabledTransition_def Let_def frame_simps)

text \<open>The only member of \<open>timing\<close> that a deferred update can change is the rendering flag, which
  follows the mask register.\<close>

definition synced :: "'c ppu \<Rightarrow> 'c ppu" where
  "synced p = p\<lparr>p_renderingEnabled := p_backgroundEnabled p \<or> p_spritesEnabled p\<rparr>"

lemma place_sync [frame_simps]: "place (syncRenderingEnabledFlag p) = place (synced p)"
  by (auto simp: syncRenderingEnabledFlag_def synced_def Let_def place_defs)

lemma place_synced: "place p = place q \<Longrightarrow> place (synced p) = place (synced q)"
  by (simp add: synced_def place_defs)

lemma place_deferred [frame_simps]:
  "place (updateDeferredRegV p) = place p"
  "place (updateDeferredVideoRamIncrement p) = place p"
  "place (updateDeferredDataLatchArm p) = place p"
  "place (applyPendingVideoRamIncrement b p) = place p"
  by (simp_all add: updateDeferredRegV_def updateDeferredVideoRamIncrement_def updateDeferredDataLatchArm_def
      applyPendingVideoRamIncrement_def setBusAddress_def Let_def frame_simps)
    (simp_all add: place_defs)

lemma place_latch [frame_simps]: "place (updatePendingDataLatch E p) = place p"
  by (simp add: updatePendingDataLatch_def Let_def case_prod_unfold frame_simps)

lemma place_a12 [frame_simps]: "place (updateA12Delay E p) = place p"
  by (simp add: updateA12Delay_def Let_def call_def place_defs)

lemma place_updateState [frame_simps]: "place (updateState E p) = place (synced p)"
  unfolding updateState_def Let_def frame_simps by (rule place_synced) (simp add: frame_simps)

subsection \<open>Sprites\<close>

lemma place_evaluation [frame_simps]:
  "place (nextSprite p) = place p" "place (doneAtWrap p) = place p" "place (startEvaluation p) = place p"
  by (simp_all add: nextSprite_def doneAtWrap_def startEvaluation_def place_defs)

lemma place_copySprite [frame_simps]: "place (copySprite p) = place p"
  by (simp add: copySprite_def Let_def frame_simps)

lemma place_searchOverflow [frame_simps]: "place (searchOverflow p) = place p"
  by (simp add: searchOverflow_def Let_def frame_simps)

lemma place_evaluateEven [frame_simps]: "place (evaluateEven p) = place p"
  by (simp add: evaluateEven_def Let_def frame_simps)

lemma place_cacheSprites [frame_simps]: "place (cacheSpritesInNextScanline S p) = place p"
  unfolding cacheSpritesInNextScanline_def Let_def by (subst place_fold) (simp_all add: place_defs)

lemma place_evaluateSprites [frame_simps]: "place (evaluateSprites S p) = place p"
  by (simp add: evaluateSprites_def Let_def frame_simps)

lemma place_source [frame_simps]: "place (setPpuFetchSourceCached E b p) = place p"
  by (simp add: setPpuFetchSourceCached_def frame_simps)

lemma place_setFetchEntry [frame_simps]: "place (setFetchEntry i f p) = place p"
  by (simp add: setFetchEntry_def place_defs)

lemma place_fetchSprites [frame_simps]: "place (fetchSprites E p) = place p"
  by (simp add: fetchSprites_def Let_def case_prod_unfold frame_simps)

lemma place_clocks [frame_simps]:
  "place (clockSpriteRenderers b p) = place p" "place (updateSpriteCountersAtEndOfScanline p) = place p"
  by (simp_all add: clockSpriteRenderers_def updateSpriteCountersAtEndOfScanline_def frame_simps)

lemma place_applySpritePixel [frame_simps]: "place (applySpritePixel i b p) = place p"
  by (simp add: applySpritePixel_def frame_simps)

lemma place_pattern [frame_simps]: "place (snd (getColorLowBitsInPatternTable E t x y p)) = place p"
  by (simp add: getColorLowBitsInPatternTable_def Let_def case_prod_unfold frame_simps)

lemma place_spritePixel [frame_simps]: "place (snd (getSpritePixelFake E s x p)) = place p"
  by (simp add: getSpritePixelFake_def Let_def case_prod_unfold frame_simps)

lemma place_extraSprites [frame_simps]: "place (snd (extraSprites E as p)) = place p"
  by (induction as arbitrary: p) (simp_all add: Let_def case_prod_unfold frame_simps)

lemma place_renderSpritesPixel [frame_simps]: "place (renderSpritesPixel E S p) = place p"
  by (simp add: renderSpritesPixel_def renderSpritesPixelFast_def Let_def case_prod_unfold frame_simps
      split: option.split)

subsection \<open>Background\<close>

lemma place_background [frame_simps]:
  "place (setupNameTableByte E p) = place p" "place (fetchNameTableByte E p) = place p"
  "place (setupAttributeTableByte E p) = place p" "place (fetchAttributeTableByte E p) = place p"
  "place (setupLowTileByte E p) = place p" "place (fetchLowTileByte E p) = place p"
  "place (setupHighTileByte E p) = place p" "place (fetchHighTileByte E p) = place p"
  by (simp_all add: setupNameTableByte_def fetchNameTableByte_def setupAttributeTableByte_def
      fetchAttributeTableByte_def setupLowTileByte_def fetchLowTileByte_def setupHighTileByte_def
      fetchHighTileByte_def Let_def case_prod_unfold frame_simps)

lemma place_tiles [frame_simps]: "place (storeTileData p) = place p" "place (shiftTileData p) = place p"
  by (simp_all add: storeTileData_def shiftTileData_def Let_def place_defs)

lemma place_pipeline [frame_simps]: "place (runBackgroundFetchPipeline E p) = place p"
  by (simp add: runBackgroundFetchPipeline_def Let_def frame_simps)

lemma place_lineFetches [frame_simps]: "place (runRenderLineFetches E p) = place p"
  by (simp add: runRenderLineFetches_def Let_def frame_simps)

lemma place_renderLineFetches [frame_simps]: "place (renderLineFetches E p) = place p"
  by (simp add: renderLineFetches_def Let_def frame_simps)

lemma place_backgroundPixel [frame_simps]: "place (renderBackgroundPixel p) = place p"
  by (simp add: renderBackgroundPixel_def Let_def frame_simps)

subsection \<open>The screen\<close>

definition screen_ok :: "'c ppu \<Rightarrow> bool" where
  "screen_ok p \<longleftrightarrow> length (p_framebuffer p) = 61440 \<and> 0 \<le> p_currentX p \<and> p_currentX p < 256 \<and>
     0 \<le> p_currentY p \<and> p_currentY p < 240 \<and> int (p_pFrameBuffer p) = p_currentY p * 256 + p_currentX p"

lemma screen_ok_place: "place p = place q \<Longrightarrow> screen_ok p = screen_ok q"
  by (simp add: place_def screen_def screen_ok_def)

lemma timing_place: "place p = place q \<Longrightarrow> timing p = timing q"
  by (simp add: place_def)

lemma nextPixel_ok:
  assumes "screen_ok p"
  shows "screen_ok (nextPixel p)" "timing (nextPixel p) = timing p"
  using assms by (auto simp: screen_ok_def nextPixel_def Let_def SCREEN_WIDTH_def SCREEN_HEIGHT_def timing_def)

lemma renderPixel_ok:
  assumes "screen_ok p"
  shows "\<exists>q. renderPixel E S p = Some q \<and> screen_ok q \<and> timing q = timing p"
proof -
  let ?p = "p\<lparr>p_currentPixelColorIndex := 0\<rparr>"
  let ?b = "if p_backgroundEnabled ?p then renderBackgroundPixel ?p else ?p"
  let ?s = "if p_spritesEnabled ?b then renderSpritesPixel E S ?b else ?b"
  let ?v = "if \<not> p_renderingEnabled ?p \<and> isOnPaletteAddr ?s then
               let (v, p) = fakeReadPpuMemory E (p_reg_v ?s) ?s in (v AND 0x3F, p)
             else
               let p = (if p_currentPixelColorIndex ?s AND 0x03 = 0 then ?s\<lparr>p_currentPixelColorIndex := 0\<rparr> else ?s)
               in (p_palette p ! unat (p_currentPixelColorIndex p) AND 0x3F, p)"
  have pl: "place (snd ?v) = place p"
    by (simp add: Let_def case_prod_unfold frame_simps)
  have ok: "screen_ok (snd ?v)" using screen_ok_place[OF pl] assms by simp
  let ?w = "(snd ?v)\<lparr>p_framebuffer := (p_framebuffer (snd ?v))[p_pFrameBuffer (snd ?v) :=
      NESToRGBAColor (fst ?v) (snd ?v)]\<rparr>"
  have w: "screen_ok ?w" "timing ?w = timing (snd ?v)"
    using ok by (simp_all add: screen_ok_def timing_def)
  have "int (p_pFrameBuffer (snd ?v)) < 61440"
    using ok unfolding screen_ok_def by linarith
  then have "renderPixel E S p = Some (nextPixel ?w)"
    using ok by (simp add: renderPixel_def Let_def case_prod_unfold screen_ok_def)
  then show ?thesis
    using nextPixel_ok[OF w(1)] w(2) timing_place[OF pl] by auto
qed


subsection \<open>Lines\<close>

lemma place_updateInterruptState [frame_simps]: "place (updateInterruptState p) = place p"
  by (simp add: updateInterruptState_def place_defs)

lemma visibleLine_ok:
  assumes "screen_ok p"
  shows "\<exists>q. ppuCycleVisibleLine E S r r' p = Some q \<and> screen_ok q \<and> timing q = timing p"
proof -
  obtain q where q: "(if visibleCycle (p_cycle p) then renderPixel E S p else Some p) = Some q"
      "screen_ok q" "timing q = timing p"
    using renderPixel_ok[OF assms, of E S] assms by (cases "visibleCycle (p_cycle p)") auto
  obtain t where t: "ppuCycleVisibleLine E S r r' p = Some t" and "place t = place q"
    using q(1) by (simp add: ppuCycleVisibleLine_def Let_def frame_simps)
  then show ?thesis using screen_ok_place timing_place q by metis
qed

lemma place_decay [frame_simps]: "place (decayOpenBus p) = place p"
  unfolding decayOpenBus_def by (rule place_fold) (simp add: decayBit_def Let_def place_defs)

text \<open>The line flags as \<open>onScanlineStart\<close> sets them.\<close>

definition line_flags :: "'c ppu \<Rightarrow> bool" where
  "line_flags p \<longleftrightarrow> p_preLine p = (p_scanline p = FRAME_VBLANK_END_LINE p) \<and>
     p_visibleLine p = (p_scanline p < 240) \<and> p_renderLine p = (p_preLine p \<or> p_visibleLine p)"

definition frame_lines :: "'c ppu \<Rightarrow> bool" where
  "frame_lines p \<longleftrightarrow> 241 \<le> FRAME_VBLANK_START_LINE p \<and> FRAME_VBLANK_START_LINE p < FRAME_VBLANK_END_LINE p \<and>
     FRAME_VBLANK_END_LINE p < FRAME_NUMBER_OF_LINES p"

definition ppu_ok :: "'c ppu \<Rightarrow> bool" where
  "ppu_ok p \<longleftrightarrow> screen_ok p \<and> frame_lines p \<and> 0 \<le> p_scanline p \<and>
     p_scanline p < FRAME_NUMBER_OF_LINES p \<and> 0 \<le> p_cycle p \<and> p_cycle p < 341 \<and>
     (p_cycle p \<noteq> 0 \<longrightarrow> line_flags p)"

subsection \<open>The start of a line\<close>

text \<open>What the events at the start of a line keep.\<close>

definition steady :: "'c ppu \<Rightarrow> _" where
  "steady p = (screen p, p_scanline p, p_cycle p, p_oddFrameFlag p, p_VBlankHasStarted p,
     p_lastPPUSTATUSReadCycle p, p_renderingEnabled p, p_backgroundEnabled p, p_spritesEnabled p, p_oamAddr p)"

lemma steadyD:
  assumes "steady p = steady q"
  shows "screen p = screen q" "p_scanline p = p_scanline q" "p_cycle p = p_cycle q"
    "p_oddFrameFlag p = p_oddFrameFlag q" "p_VBlankHasStarted p = p_VBlankHasStarted q"
    "p_lastPPUSTATUSReadCycle p = p_lastPPUSTATUSReadCycle q" "p_renderingEnabled p = p_renderingEnabled q"
    "p_backgroundEnabled p = p_backgroundEnabled q" "p_spritesEnabled p = p_spritesEnabled q"
    "p_oamAddr p = p_oamAddr q"
  using assms by (simp_all add: steady_def)

lemma steady_fold: "(\<And>x p. steady (f x p) = steady p) \<Longrightarrow> steady (fold f xs p) = steady p"
  by (induction xs arbitrary: p) auto

lemma steady_folds [frame_simps]:
  "steady (processOamCorruption p) = steady p" "steady (decayOpenBus p) = steady p"
  unfolding processOamCorruption_def decayOpenBus_def
  by (rule steady_fold, simp add: processOamRow_def decayBit_def Let_def steady_def screen_def)+

lemma steady_parts [frame_simps]:
  "steady (call f p) = steady p" "steady (setBusAddress a p) = steady p" "steady (updateSettings S p) = steady p"
  by (auto simp: call_def setBusAddress_def updateSettings_def steady_def screen_def split: Region.split)

lemma steady_update [frame_simps]:
  "steady (p\<lparr>p_inOverclockLines := b\<rparr>) = steady p" "steady (p\<lparr>p_preLine := b\<rparr>) = steady p"
  "steady (p\<lparr>p_visibleLine := b\<rparr>) = steady p" "steady (p\<lparr>p_renderLine := b\<rparr>) = steady p"
  "steady (p\<lparr>p_spriteRenderClockingActiveThisLine := b\<rparr>) = steady p" "steady (p\<lparr>p_overclockFrame := b\<rparr>) = steady p"
  "steady (p\<lparr>p_spriteOverflow := b\<rparr>) = steady p" "steady (p\<lparr>p_sprite0Hit := b\<rparr>) = steady p"
  "steady (p\<lparr>FRAME_NUMBER_OF_LINES := i\<rparr>) = steady p" "steady (p\<lparr>FRAME_VBLANK_START_LINE := i\<rparr>) = steady p"
  "steady (p\<lparr>FRAME_VBLANK_END_LINE := i\<rparr>) = steady p"
  by (simp_all add: steady_def screen_def)

lemma steady_onScanlineStart: "steady (onScanlineStart E S p) = steady p"
proof -
  have "steady (setLineFlags S p) = steady p" for p :: "'a ppu"
    by (simp add: setLineFlags_def Let_def frame_simps)
  moreover have "steady (startVisibleLine E S p) = steady p" "steady (frameReady E S p) = steady p" for p :: "'a ppu"
    by (simp_all add: startVisibleLine_def frameReady_def Let_def frame_simps)
  then have "steady (lineEvents E S p) = steady p" for p :: "'a ppu"
    by (simp add: lineEvents_def frame_simps)
  ultimately show ?thesis by (simp add: onScanlineStart_def Let_def frame_simps)
qed

text \<open>The line flags and the frame geometry.\<close>

definition geometry :: "'c ppu \<Rightarrow> _" where
  "geometry p = (p_preLine p, p_visibleLine p, p_renderLine p, FRAME_NUMBER_OF_LINES p,
     FRAME_VBLANK_START_LINE p, FRAME_VBLANK_END_LINE p)"

lemma geometryD:
  assumes "geometry p = geometry q"
  shows "p_preLine p = p_preLine q" "p_visibleLine p = p_visibleLine q" "p_renderLine p = p_renderLine q"
    "FRAME_NUMBER_OF_LINES p = FRAME_NUMBER_OF_LINES q" "FRAME_VBLANK_START_LINE p = FRAME_VBLANK_START_LINE q"
    "FRAME_VBLANK_END_LINE p = FRAME_VBLANK_END_LINE q"
  using assms by (simp_all add: geometry_def)

lemma geometry_place: "place p = place q \<Longrightarrow> geometry p = geometry q"
  by (simp add: place_def timing_def geometry_def)

lemma geometry_parts [frame_simps]:
  "geometry (processOamCorruption p) = geometry p" "geometry (decayOpenBus p) = geometry p"
  "geometry (call f p) = geometry p" "geometry (setBusAddress a p) = geometry p"
  by (rule geometry_place, simp add: frame_simps)+

lemma geometry_update [frame_simps]:
  "geometry (p\<lparr>p_overclockFrame := b\<rparr>) = geometry p" "geometry (p\<lparr>p_spriteOverflow := b\<rparr>) = geometry p"
  "geometry (p\<lparr>p_sprite0Hit := b\<rparr>) = geometry p"
  by (simp_all add: geometry_def)

lemma geometry_visibleLine:
  "geometry (startVisibleLine E S p) = geometry (if p_scanline p = 0 then updateSettings S p else p)"
  by (simp add: startVisibleLine_def Let_def frame_simps)

lemma geometry_frameReady:
  "\<exists>n. geometry (frameReady E S p) = geometry (p\<lparr>FRAME_NUMBER_OF_LINES := FRAME_NUMBER_OF_LINES p + n,
     FRAME_VBLANK_START_LINE := FRAME_VBLANK_START_LINE p + n,
     FRAME_VBLANK_END_LINE := FRAME_VBLANK_END_LINE p + n\<rparr>) \<and> (n = 0 \<or> n = overclockLines S)"
proof -
  have g: "geometry (call f (decayOpenBus p)) = geometry p" for f by (simp add: frame_simps)
  show ?thesis
    using geometryD[OF g]
    by (cases "p_overclockFrame (call (signalFrameReady E) (decayOpenBus p))")
      (auto simp: frameReady_def Let_def geometry_def)
qed


text \<open>The geometry of a frame without overclocking.\<close>

definition standard_lines :: "ppu_settings \<Rightarrow> 'c ppu \<Rightarrow> bool" where
  "standard_lines S p \<longleftrightarrow> FRAME_NUMBER_OF_LINES p = PPULinesPerFrame (region S) \<and>
     FRAME_VBLANK_START_LINE p = 241 \<and> FRAME_VBLANK_END_LINE p = (if region S = PAL then 311 else 261)"

lemma onScanlineStart_geometry:
  assumes "frame_lines p" "0 \<le> p_scanline p" "p_scanline p < FRAME_NUMBER_OF_LINES p" "0 \<le> overclockLines S"
  shows "line_flags (onScanlineStart E S p) \<and> frame_lines (onScanlineStart E S p) \<and>
    p_scanline p < FRAME_NUMBER_OF_LINES (onScanlineStart E S p) \<and>
    p_preLine (onScanlineStart E S p) = (p_scanline p = FRAME_VBLANK_END_LINE p) \<and>
    (overclockLines S = 0 \<and> standard_lines S p \<longrightarrow> standard_lines S (onScanlineStart E S p))"
proof -
  define p1 where "p1 = setLineFlags S p"
  define p2 where "p2 = (if p_preLine p1 \<and> p_renderingEnabled p then processOamCorruption p1 else p1)"
  have p1: "p_preLine p1 = (p_scanline p = FRAME_VBLANK_END_LINE p)" "p_visibleLine p1 = (p_scanline p < 240)"
    "p_renderLine p1 = (p_preLine p1 \<or> p_visibleLine p1)" "p_scanline p1 = p_scanline p"
    "FRAME_NUMBER_OF_LINES p1 = FRAME_NUMBER_OF_LINES p" "FRAME_VBLANK_START_LINE p1 = FRAME_VBLANK_START_LINE p"
    "FRAME_VBLANK_END_LINE p1 = FRAME_VBLANK_END_LINE p"
    by (simp_all add: p1_def setLineFlags_def Let_def)
  have "place p2 = place p1" by (simp add: p2_def frame_simps)
  note g2 = geometryD[OF geometry_place[OF this]] timingD(1)[OF timing_place[OF this]]
  define p3 where "p3 = lineEvents E S p2"
  have scan: "p_scanline (onScanlineStart E S p) = p_scanline p"
    using steadyD(2)[OF steady_onScanlineStart] .
  have "geometry (onScanlineStart E S p) = geometry p3"
    by (simp add: onScanlineStart_def Let_def frame_simps p3_def p2_def p1_def)
  note g = geometryD[OF this] and fl = assms(1)[unfolded frame_lines_def]
  consider "p_scanline p = 0" | "p_scanline p \<noteq> 0" "p_scanline p \<noteq> 241" | "p_scanline p = 241" by blast
  then show ?thesis
  proof cases
    case 1
    then have "geometry p3 = geometry (updateSettings S p2)"
      using g2 p1 by (simp add: p3_def lineEvents_def geometry_visibleLine)
    note h = geometryD[OF this]
    show ?thesis using 1 g g2 p1 h scan fl
      by (cases "region S") (simp_all add: line_flags_def frame_lines_def standard_lines_def updateSettings_def)
  next
    case 2
    then have "geometry p3 = geometry p2"
      using g2 p1 by (simp add: p3_def lineEvents_def geometry_visibleLine frame_simps)
    note h = geometryD[OF this]
    show ?thesis using 2 g g2 p1 h scan fl assms(3) by (simp add: line_flags_def frame_lines_def standard_lines_def)
  next
    case 3
    then have "p3 = frameReady E S p2"
      using g2 p1 fl by (simp add: p3_def lineEvents_def)
    then obtain n where n: "geometry p3 = geometry (p2\<lparr>FRAME_NUMBER_OF_LINES := FRAME_NUMBER_OF_LINES p2 + n,
        FRAME_VBLANK_START_LINE := FRAME_VBLANK_START_LINE p2 + n,
        FRAME_VBLANK_END_LINE := FRAME_VBLANK_END_LINE p2 + n\<rparr>)" "n = 0 \<or> n = overclockLines S"
      using geometry_frameReady[of E S p2] by auto
    then have "0 \<le> n" using assms(4) by auto
    with geometryD[OF n(1)] 3 g g2 p1 scan fl assms(3) n(2) show ?thesis
      by (auto simp: line_flags_def frame_lines_def standard_lines_def)
  qed
qed

lemma cycle_start:
  assumes "ppu_ok p" "0 \<le> overclockLines S"
  obtains q where "q = (if p_cycle p = 0 then onScanlineStart E S p else p)" "steady q = steady p"
    "line_flags q" "frame_lines q" "p_scanline p < FRAME_NUMBER_OF_LINES q" "p_cycle p \<noteq> 0 \<Longrightarrow> q = p"
    "p_preLine q = (p_scanline p = FRAME_VBLANK_END_LINE p)"
proof (cases "p_cycle p = 0")
  case True
  then show thesis
    using that[of "onScanlineStart E S p"] onScanlineStart_geometry[of p S E] steady_onScanlineStart assms
    by (auto simp: ppu_ok_def)
next
  case False
  then show thesis using that[of p] assms by (auto simp: ppu_ok_def line_flags_def)
qed

subsection \<open>The pre-render line\<close>

lemma oamAddr_bus [simp]:
  "p_oamAddr (call f p) = p_oamAddr p" "p_oamAddr (setupPpuReadAddress a p) = p_oamAddr p"
  "p_oamAddr (setPpuFetchSourceCached E b p) = p_oamAddr p"
  by (simp_all add: call_def setupPpuReadAddress_def setBusAddress_def setPpuFetchSourceCached_def Let_def)

lemma oamAddr_cycle0: "p_cycle p = 0 \<Longrightarrow> p_oamAddr (renderLineFetches E p) = p_oamAddr p"
  by (simp add: renderLineFetches_def runRenderLineFetches_def visibleCycle_def setupLowTileByte_def Let_def)

lemma refreshOam_cases:
  "refreshOam r p = (if p_cycle p = 0 \<and> r \<and> p_oamAddr p \<ge> 8 then None else refreshOam r p)"
  "\<not> (p_cycle p = 0 \<and> r \<and> p_oamAddr p \<ge> 8) \<Longrightarrow> \<exists>q. refreshOam r p = Some q \<and> place q = place p"
  by (auto simp: refreshOam_def frame_simps)

lemma preLine_cases:
  "p_cycle p = 0 \<and> r \<and> p_oamAddr p \<ge> 8 \<Longrightarrow> ppuCyclePreRenderLine E S r r' p = None"
  "\<not> (p_cycle p = 0 \<and> r \<and> p_oamAddr p \<ge> 8) \<Longrightarrow>
     \<exists>q. ppuCyclePreRenderLine E S r r' p = Some (preLineEnd S r q) \<and> place q = place p"
proof -
  define f where "f = (if r' then renderLineFetches E p else p)"
  have pl: "place f = place p" by (simp add: f_def frame_simps)
  have c: "p_cycle f = p_cycle p" using timingD(2)[OF timing_place[OF pl]] .
  have a: "p_cycle p = 0 \<Longrightarrow> p_oamAddr f = p_oamAddr p" by (simp add: f_def oamAddr_cycle0)
  show "ppuCyclePreRenderLine E S r r' p = None" if h: "p_cycle p = 0 \<and> r \<and> p_oamAddr p \<ge> 8"
    using h a c refreshOam_cases(1)[of r f] unfolding ppuCyclePreRenderLine_def f_def[symmetric] by simp
  show "\<exists>q. ppuCyclePreRenderLine E S r r' p = Some (preLineEnd S r q) \<and> place q = place p"
    if h: "\<not> (p_cycle p = 0 \<and> r \<and> p_oamAddr p \<ge> 8)"
    using refreshOam_cases(2)[of f r] h a c pl unfolding ppuCyclePreRenderLine_def f_def[symmetric] by auto
qed

end
