(* ===== verification/Ppu_Timing.thy ===== *)
theory Ppu_Timing
  imports Ppu_Frame Mappers_Discrete
begin

text \<open>
  Where the PPU is in the frame. One \<open>ppuCycle\<close> moves the dot counter to the next dot, sets and
  clears the vertical-blank flag at its dots, keeps the pixel pointer inside the frame buffer, and is
  defined in every state but one.
\<close>

subsection \<open>One cycle\<close>

text \<open>The effect of a cycle on \<open>timing\<close>, before the dot advances.\<close>

definition lineEffect :: "ppu_settings \<Rightarrow> 'c ppu \<Rightarrow> 'c ppu" where
  "lineEffect S p =
     (if p_preLine p then
        if p_cycle p = 1 then p\<lparr>p_VBlankHasStarted := False\<rparr>
        else if p_cycle p = 339 \<and> region S = NTSC then
          p\<lparr>p_cycle := (if p_oddFrameFlag p \<and> p_renderingEnabled p then 340 else 339),
            p_oddFrameFlag := \<not> p_oddFrameFlag p\<rparr>
        else p
      else if p_scanline p = FRAME_VBLANK_START_LINE p \<and> p_cycle p = 1 \<and> p_lastPPUSTATUSReadCycle p \<noteq> 1
      then p\<lparr>p_VBlankHasStarted := True\<rparr>
      else p)"

lemma preLineEnd_effect:
  assumes "place q = place p" "p_preLine p" "r = p_renderingEnabled p"
  shows "timing (preLineEnd S r q) = timing (lineEffect S p)" "screen (preLineEnd S r q) = screen p"
proof -
  note m = timingD[OF timing_place[OF assms(1)]]
  consider "p_cycle p = 1" | "p_cycle p = 339" | "p_cycle p \<noteq> 1" "p_cycle p \<noteq> 339" by blast
  then have "timing (preLineEnd S r q) = timing (lineEffect S p) \<and> screen (preLineEnd S r q) = screen q"
  proof cases
    case 1
    then show ?thesis using m assms(2)
      by (simp add: preLineEnd_def lineEffect_def VBLANK_CYCLE_def timing_def screen_def)
  next
    case 2
    then show ?thesis using m assms(2,3)
      by (simp add: preLineEnd_def lineEffect_def VBLANK_CYCLE_def timing_def screen_def)
  next
    case 3
    then have "place (preLineEnd S r q) = place q" "lineEffect S p = p"
      using m assms(2) by (simp_all add: preLineEnd_def lineEffect_def VBLANK_CYCLE_def Let_def frame_simps)
    then show ?thesis using assms(1) by (simp add: place_def)
  qed
  then show "timing (preLineEnd S r q) = timing (lineEffect S p)" "screen (preLineEnd S r q) = screen p"
    using assms(1) by (simp_all add: place_def)
qed

lemma screen_ok_screen: "screen p = screen q \<Longrightarrow> screen_ok p = screen_ok q"
  by (simp add: screen_def screen_ok_def)

definition lineCycle :: "'c ppu_ops \<Rightarrow> ppu_settings \<Rightarrow> bool \<Rightarrow> bool \<Rightarrow> 'c ppu \<Rightarrow> 'c ppu option" where
  "lineCycle E S r r' p =
     (if p_visibleLine p then ppuCycleVisibleLine E S r r' p
      else if p_preLine p then ppuCyclePreRenderLine E S r r' p
      else if p_scanline p = FRAME_VBLANK_START_LINE p then Some (ppuCycleVBlankStartLine p)
      else Some p)"

lemma lineCycle_effect:
  assumes "line_flags p" "frame_lines p" "screen_ok p" "r = p_renderingEnabled p"
    and "\<not> (p_preLine p \<and> p_cycle p = 0 \<and> r \<and> p_oamAddr p \<ge> 8)"
  shows "\<exists>q. lineCycle E S r r' p = Some q \<and> screen_ok q \<and> timing q = timing (lineEffect S p)"
proof -
  consider (vis) "p_scanline p < 240" | (pre) "p_preLine p" | (other) "\<not> p_scanline p < 240" "\<not> p_preLine p"
    by blast
  then show ?thesis
  proof cases
    case vis
    then have v: "p_visibleLine p" "lineEffect S p = p"
      using assms(1,2) by (auto simp: line_flags_def lineEffect_def frame_lines_def)
    then show ?thesis using visibleLine_ok[OF assms(3)] by (simp add: lineCycle_def)
  next
    case pre
    then have "\<not> p_visibleLine p" using assms(1,2) by (auto simp: line_flags_def frame_lines_def)
    moreover obtain q where q: "ppuCyclePreRenderLine E S r r' p = Some (preLineEnd S r q)" "place q = place p"
      using preLine_cases(2)[of p r E S r'] pre assms(5) by blast
    note preLineEnd_effect[OF q(2) pre assms(4), of S]
    ultimately show ?thesis using q(1) pre assms(3) screen_ok_screen[of "preLineEnd S r q" p]
      by (simp add: lineCycle_def)
  next
    case other
    then have v: "\<not> p_visibleLine p" using assms(1) by (simp add: line_flags_def)
    let ?q = "if p_scanline p = FRAME_VBLANK_START_LINE p then ppuCycleVBlankStartLine p else p"
    have "lineCycle E S r r' p = Some ?q" using v other by (simp add: lineCycle_def)
    moreover have "timing ?q = timing (lineEffect S p)"
      using other by (simp add: ppuCycleVBlankStartLine_def VBLANK_CYCLE_def lineEffect_def timing_def)
    moreover have "screen ?q = screen p" by (simp add: ppuCycleVBlankStartLine_def screen_def)
    ultimately show ?thesis using assms(3) screen_ok_screen[of ?q p] by simp
  qed
qed

lemma ppuCycle_parts:
  "ppuCycle E S p =
    (let a = (if p_cycle p = 0 then onScanlineStart E S p else p);
         b = updateInterruptState (call (onPpuCycle E (p_scanline a) (p_cycle a)
               (p_renderLine a \<and> p_prevCycleRenderingEnabled a) (p_preLine a)) a)
     in map_option (\<lambda>c. let d = advanceDot c in if p_needUpdateState d then updateState E d else d)
          (lineCycle E S (p_renderingEnabled a) (p_prevCycleRenderingEnabled a) b))"
  unfolding ppuCycle_def lineCycle_def Let_def
  by (rule sym, rule trans[OF map_conv_bind_option]) (simp add: comp_def)


subsection \<open>The dot counter\<close>

definition next_dot :: "int \<Rightarrow> int \<times> int \<Rightarrow> int \<times> int" where
  "next_dot n = (\<lambda>(line, dot). if dot < 340 then (line, dot + 1) else (if line + 1 = n then 0 else line + 1, 0))"

text \<open>The dot that NTSC consoles leave out on odd frames.\<close>

definition skips_dot :: "ppu_settings \<Rightarrow> 'c ppu \<Rightarrow> bool" where
  "skips_dot S p \<longleftrightarrow> p_scanline p = FRAME_VBLANK_END_LINE p \<and> p_cycle p = 339 \<and> region S = NTSC \<and>
     p_oddFrameFlag p \<and> p_renderingEnabled p"

text \<open>The state in which the copy to the sprite memory has index \<open>-1\<close>.\<close>

definition oam_underrun :: "'c ppu \<Rightarrow> bool" where
  "oam_underrun p \<longleftrightarrow> p_scanline p = FRAME_VBLANK_END_LINE p \<and> p_cycle p = 0 \<and> p_renderingEnabled p \<and>
     p_oamAddr p \<ge> 8"

definition vblank_after :: "'c ppu \<Rightarrow> bool" where
  "vblank_after p \<longleftrightarrow>
     (if p_cycle p = 1 \<and> p_scanline p = FRAME_VBLANK_START_LINE p \<and> p_lastPPUSTATUSReadCycle p \<noteq> 1 then True
      else if p_cycle p = 1 \<and> p_scanline p = FRAME_VBLANK_END_LINE p then False
      else p_VBlankHasStarted p)"

lemma advanceDot_effect:
  assumes "0 \<le> p_cycle p" "p_cycle p < 341" "p_scanline p < FRAME_NUMBER_OF_LINES p"
  shows "(p_scanline (advanceDot p), p_cycle (advanceDot p)) =
      next_dot (FRAME_NUMBER_OF_LINES p) (p_scanline p, p_cycle p)"
    "geometry (advanceDot p) = geometry p" "screen (advanceDot p) = screen p"
    "p_VBlankHasStarted (advanceDot p) = p_VBlankHasStarted p" "p_oddFrameFlag (advanceDot p) = p_oddFrameFlag p"
    "p_renderingEnabled (advanceDot p) = p_renderingEnabled p"
    "p_backgroundEnabled (advanceDot p) = p_backgroundEnabled p" "p_spritesEnabled (advanceDot p) = p_spritesEnabled p"
  using assms by (auto simp: advanceDot_def Let_def next_dot_def geometry_def screen_def)

lemma next_dot_range:
  assumes "next_dot n (l, d) = (l', d')" "0 \<le> l" "l < n" "0 \<le> d" "d < 341"
  shows "0 \<le> l'" "l' < n" "0 \<le> d'" "d' < 341" "d' \<noteq> 0 \<Longrightarrow> l' = l"
  using assms by (auto simp: next_dot_def split: if_splits)

lemma next_dot_number:
  assumes "next_dot n (l, d) = (l', d')" "0 \<le> l" "l < n" "0 \<le> d" "d < 341"
  shows "341 * l' + d' = (341 * l + d + 1) mod (341 * n)"
proof (cases "d < 340 \<or> l + 1 \<noteq> n")
  case True
  then have "341 * l + d + 1 < 341 * n" using assms by auto
  then show ?thesis using True assms by (auto simp: next_dot_def split: if_splits)
next
  case False
  then have "341 * l + d + 1 = 341 * n" using assms(5) by auto
  then show ?thesis using False assms(1) by (auto simp: next_dot_def)
qed

lemma finish_cycle:
  assumes "q = (let d = advanceDot c in if p_needUpdateState d then updateState E d else d)"
    and "0 \<le> p_cycle c" "p_cycle c < 341" "0 \<le> p_scanline c" "p_scanline c < FRAME_NUMBER_OF_LINES c"
    and "screen_ok c" "frame_lines c" "line_flags c"
  shows "ppu_ok q" "(p_scanline q, p_cycle q) = next_dot (FRAME_NUMBER_OF_LINES c) (p_scanline c, p_cycle c)"
    "p_VBlankHasStarted q = p_VBlankHasStarted c" "p_oddFrameFlag q = p_oddFrameFlag c"
    "p_backgroundEnabled q = p_backgroundEnabled c" "p_spritesEnabled q = p_spritesEnabled c"
    "geometry q = geometry c"
    "p_renderingEnabled q \<in> {p_renderingEnabled c, p_backgroundEnabled c \<or> p_spritesEnabled c}"
proof -
  let ?d = "advanceDot c"
  note a = advanceDot_effect[OF assms(2,3,5)]
  have "place q = place ?d \<or> place q = place (synced ?d)"
    using assms(1) by (simp add: Let_def frame_simps)
  then obtain e where e: "place q = place e" "e = ?d \<or> e = synced ?d" by blast
  have s: "p_scanline e = p_scanline ?d" "p_cycle e = p_cycle ?d" "geometry e = geometry ?d" "screen e = screen ?d"
    "p_VBlankHasStarted e = p_VBlankHasStarted ?d" "p_oddFrameFlag e = p_oddFrameFlag ?d"
    "p_backgroundEnabled e = p_backgroundEnabled ?d" "p_spritesEnabled e = p_spritesEnabled ?d"
    "p_renderingEnabled e \<in> {p_renderingEnabled ?d, p_backgroundEnabled ?d \<or> p_spritesEnabled ?d}"
    using e(2) by (auto simp: synced_def geometry_def screen_def)
  note m = timingD[OF timing_place[OF e(1)]]
  show dot: "(p_scanline q, p_cycle q) = next_dot (FRAME_NUMBER_OF_LINES c) (p_scanline c, p_cycle c)"
    using a(1) s(1,2) m by simp
  show "p_VBlankHasStarted q = p_VBlankHasStarted c" "p_oddFrameFlag q = p_oddFrameFlag c"
    "p_backgroundEnabled q = p_backgroundEnabled c" "p_spritesEnabled q = p_spritesEnabled c"
    "p_renderingEnabled q \<in> {p_renderingEnabled c, p_backgroundEnabled c \<or> p_spritesEnabled c}"
    using a s m by auto
  show g: "geometry q = geometry c" using a(2) s(3) geometry_place[OF e(1)] by simp
  have "screen q = screen c" using a(3) s(4) e(1) by (simp add: place_def)
  then have "screen_ok q" using screen_ok_screen assms(6) by auto
  moreover note r = next_dot_range[OF dot[symmetric] assms(4,5,2,3)]
  moreover have "frame_lines q" "p_cycle q \<noteq> 0 \<Longrightarrow> line_flags q"
    using assms(7,8) geometryD[OF g] r(5) by (simp_all add: frame_lines_def line_flags_def)
  ultimately show "ppu_ok q" using geometryD(4)[OF g] by (simp add: ppu_ok_def)
qed


lemma lineEffect_members:
  assumes "line_flags p" "frame_lines p" "0 \<le> p_cycle p" "p_cycle p < 341"
  shows "p_scanline (lineEffect S p) = p_scanline p" "geometry (lineEffect S p) = geometry p"
    "p_cycle (lineEffect S p) = (if skips_dot S p then 340 else p_cycle p)"
    "p_VBlankHasStarted (lineEffect S p) = vblank_after p"
    "p_oddFrameFlag (lineEffect S p) =
       (if p_scanline p = FRAME_VBLANK_END_LINE p \<and> p_cycle p = 339 \<and> region S = NTSC
        then \<not> p_oddFrameFlag p else p_oddFrameFlag p)"
    "p_renderingEnabled (lineEffect S p) = p_renderingEnabled p"
    "p_backgroundEnabled (lineEffect S p) = p_backgroundEnabled p"
    "p_spritesEnabled (lineEffect S p) = p_spritesEnabled p"
  using assms
  by (auto simp: lineEffect_def skips_dot_def vblank_after_def line_flags_def frame_lines_def geometry_def)

lemma geometry_timing: "timing p = timing q \<Longrightarrow> geometry p = geometry q"
  by (simp add: timing_def geometry_def)

text \<open>The whole cycle.\<close>

lemma ppuCycle_effect:
  assumes "ppu_ok p" "0 \<le> overclockLines S"
  shows "oam_underrun p \<Longrightarrow> ppuCycle E S p = None"
    and "\<not> oam_underrun p \<Longrightarrow> \<exists>q a. ppuCycle E S p = Some q \<and> ppu_ok q \<and>
      (p_scanline q, p_cycle q) = next_dot (FRAME_NUMBER_OF_LINES a)
        (p_scanline p, if skips_dot S p then 340 else p_cycle p) \<and>
      p_VBlankHasStarted q = vblank_after p \<and>
      p_oddFrameFlag q = (if p_scanline p = FRAME_VBLANK_END_LINE p \<and> p_cycle p = 339 \<and> region S = NTSC
        then \<not> p_oddFrameFlag p else p_oddFrameFlag p) \<and>
      p_backgroundEnabled q = p_backgroundEnabled p \<and> p_spritesEnabled q = p_spritesEnabled p \<and>
      p_renderingEnabled q \<in> {p_renderingEnabled p, p_backgroundEnabled p \<or> p_spritesEnabled p} \<and>
      a = (if p_cycle p = 0 then onScanlineStart E S p else p) \<and> geometry q = geometry a"
proof -
  obtain a where a: "a = (if p_cycle p = 0 then onScanlineStart E S p else p)" "steady a = steady p"
      "line_flags a" "frame_lines a" "p_scanline p < FRAME_NUMBER_OF_LINES a" "p_cycle p \<noteq> 0 \<Longrightarrow> a = p"
      "p_preLine a = (p_scanline p = FRAME_VBLANK_END_LINE p)"
    using cycle_start[OF assms, of E] by blast
  define b where "b = updateInterruptState (call (onPpuCycle E (p_scanline a) (p_cycle a)
               (p_renderLine a \<and> p_prevCycleRenderingEnabled a) (p_preLine a)) a)"
  have b: "place b = place a" "p_oamAddr b = p_oamAddr a"
    by (simp_all add: b_def frame_simps) (simp add: updateInterruptState_def)
  note st = steadyD[OF a(2)] and tm = timingD[OF timing_place[OF b(1)]]
  have ok: "line_flags b" "frame_lines b" "screen_ok b"
    using a(3,4) geometryD[OF geometry_place[OF b(1)]] tm assms(1) screen_ok_place[OF b(1)]
      screen_ok_screen[OF st(1)]
    by (simp_all add: line_flags_def frame_lines_def ppu_ok_def)
  have cyc: "ppuCycle E S p =
      map_option (\<lambda>c. let d = advanceDot c in if p_needUpdateState d then updateState E d else d)
        (lineCycle E S (p_renderingEnabled b) (p_prevCycleRenderingEnabled a) b)"
    using a(1) tm by (simp add: ppuCycle_parts Let_def b_def)
  have pre: "p_preLine b = (p_scanline p = FRAME_VBLANK_END_LINE p)" using a(7) tm by simp
  show "ppuCycle E S p = None" if "oam_underrun p"
  proof -
    have "p_preLine b \<and> p_cycle b = 0 \<and> p_renderingEnabled b \<and> p_oamAddr b \<ge> 8"
      using that pre tm st b(2) by (simp add: oam_underrun_def)
    moreover have "\<not> p_visibleLine b" using ok calculation by (auto simp: line_flags_def frame_lines_def)
    ultimately show ?thesis using preLine_cases(1)[of b] by (simp add: cyc lineCycle_def)
  qed
  show "\<exists>q a. ppuCycle E S p = Some q \<and> ppu_ok q \<and>
      (p_scanline q, p_cycle q) = next_dot (FRAME_NUMBER_OF_LINES a)
        (p_scanline p, if skips_dot S p then 340 else p_cycle p) \<and>
      p_VBlankHasStarted q = vblank_after p \<and>
      p_oddFrameFlag q = (if p_scanline p = FRAME_VBLANK_END_LINE p \<and> p_cycle p = 339 \<and> region S = NTSC
        then \<not> p_oddFrameFlag p else p_oddFrameFlag p) \<and>
      p_backgroundEnabled q = p_backgroundEnabled p \<and> p_spritesEnabled q = p_spritesEnabled p \<and>
      p_renderingEnabled q \<in> {p_renderingEnabled p, p_backgroundEnabled p \<or> p_spritesEnabled p} \<and>
      a = (if p_cycle p = 0 then onScanlineStart E S p else p) \<and> geometry q = geometry a"
    if nu: "\<not> oam_underrun p"
  proof -
    have "\<not> (p_preLine b \<and> p_cycle b = 0 \<and> p_renderingEnabled b \<and> p_oamAddr b \<ge> 8)"
      using nu pre tm st b(2) by (auto simp: oam_underrun_def)
    from lineCycle_effect[OF ok refl this] obtain c where
      c: "lineCycle E S (p_renderingEnabled b) (p_prevCycleRenderingEnabled a) b = Some c" "screen_ok c"
        "timing c = timing (lineEffect S b)" by blast
    have cy: "0 \<le> p_cycle b" "p_cycle b < 341" using tm st assms(1) by (simp_all add: ppu_ok_def)
    note le = lineEffect_members[OF ok(1,2) cy, of S] and tc = timingD[OF c(3)]
    note gc = geometryD[OF geometry_timing[OF c(3)]] and gl = geometryD[OF le(2)]
    have same: "skips_dot S b = skips_dot S p" "vblank_after b = vblank_after p"
      "(p_scanline b = FRAME_VBLANK_END_LINE b \<and> p_cycle b = 339 \<and> region S = NTSC) =
       (p_scanline p = FRAME_VBLANK_END_LINE p \<and> p_cycle p = 339 \<and> region S = NTSC)"
      using tm st a(6) by (cases "p_cycle p = 0"; simp add: skips_dot_def vblank_after_def)+
    have geo: "geometry c = geometry a"
      using le(2) geometry_place[OF b(1)] geometry_timing[OF c(3)] by simp
    have dot: "p_scanline c = p_scanline p" "p_cycle c = (if skips_dot S p then 340 else p_cycle p)"
      "FRAME_NUMBER_OF_LINES c = FRAME_NUMBER_OF_LINES a"
      using tc(1,2) le(1,3) same(1) tm(1,2) st(2,3) geometryD(4)[OF geo] by simp_all
    have range: "0 \<le> p_cycle c" "p_cycle c < 341" "0 \<le> p_scanline c" "p_scanline c < FRAME_NUMBER_OF_LINES c"
      using dot assms(1) a(5) by (simp_all add: ppu_ok_def)
    have lines: "frame_lines c" "line_flags c"
      using a(3,4) geometryD[OF geo] dot(1) st(2) by (simp_all add: frame_lines_def line_flags_def)
    define q where "q = (let d = advanceDot c in if p_needUpdateState d then updateState E d else d)"
    have "ppuCycle E S p = Some q" by (simp add: cyc c(1) q_def)
    moreover note f = finish_cycle[OF q_def range c(2) lines]
    moreover have "p_VBlankHasStarted q = vblank_after p" using f(3) tc le(4) same(2) by simp
    moreover have "p_oddFrameFlag q = (if p_scanline p = FRAME_VBLANK_END_LINE p \<and> p_cycle p = 339 \<and>
        region S = NTSC then \<not> p_oddFrameFlag p else p_oddFrameFlag p)"
      using f(4) tc le(5) same(3) tm st by simp
    moreover have "p_backgroundEnabled q = p_backgroundEnabled p" "p_spritesEnabled q = p_spritesEnabled p"
      "p_renderingEnabled q \<in> {p_renderingEnabled p, p_backgroundEnabled p \<or> p_spritesEnabled p}"
      using f(5,6,8) tc le(6-8) tm st by simp_all
    moreover have "geometry q = geometry a" using f(7) geo by simp
    ultimately show ?thesis
      using a(1) dot(1-3) by (intro exI[of _ q] exI[of _ a]) simp
  qed
qed

subsection \<open>A PPU with a cartridge\<close>

text \<open>A PPU as its constructor and \<open>init\<close> leave it before the warm-up, and the operations of a
  cartridge with \<open>Mapper000\<close>, whose hooks are those of \<open>BaseMapper\<close>.\<close>

definition ppu_blank :: "'c \<Rightarrow> 'c ppu" where
  "ppu_blank c = \<lparr>
     p_env = c, p_scanline = 0, p_cycle = 0, p_VRAMAddressIncrement = I1,
     p_spritePatternTableAddress = X0000, p_backgroundPatternTableAddress = X0000, p_spriteHeight = H8,
     p_PPUSlave = False, p_NMIOnVBlank = False, p_monochromeDisplay = False,
     p_showBackgroundLeftmost8Pixels = False, p_showSpritesLeftmost8Pixels = False,
     p_backgroundEnabled = False, p_spritesEnabled = False, p_colorEmphasis = 0,
     p_renderingEnabled = False, p_VBlankHasStarted = False, p_sprite0Hit = False,
     p_spriteOverflow = False, p_interruptFlag = False, p_oddFrameFlag = False, p_reg_v = 0, p_reg_x = 0,
     p_reg_t = 0, p_reg_w = False, p_lastPPUSTATUSReadCycle = -1, p_openBus = 0,
     p_openBusTimer = replicate 8 0, p_nameTable = replicate 4 (replicate 1024 0),
     p_palette = POWER_UP_PALETTE, p_colorPalette = NES_PALETTE, p_outputColorPalette = NES_PALETTE,
     p_vsPpuModel = Ppu2C02, p_dataLatch = 0, p_deferredPpuIo = noDeferredIo, p_preLine = False,
     p_visibleLine = False, p_renderLine = False, p_needUpdateState = False, p_needIncVideoRam = False,
     p_prevCycleRenderingEnabled = False, p_staleBgShiftActive = False, p_update_reg_v_delay = 0,
     p_update_reg_v_value = 0, p_busAddress = 0, p_busAddressLowLatch = 0, p_updateA12Delay = 0,
     p_isSpritePatternFetch = False, p_currentReadAffectsBus = True, p_cpuDmaReadInProgress = False,
     p_primaryOam = replicate 256 0, p_secondaryOam = replicate 32 0xFF, p_spritesInThisLine = 0,
     p_testSprite0HitInThisLine = False, p_oamAddr = 0, p_oamCopyBuffer = 0xFF, p_oamCopyDone = False,
     p_secondaryOamAddr = 0, p_spriteInRange = False, p_oamAddrN = 0, p_oamAddrM = 0,
     p_overflowBugCounter = 0, p_sprite0Added = False, p_corruptOamRow = replicate 32 False,
     p_spritesIndexesInThisLine = replicate 64 0, p_spriteFetchEntries = replicate 8 noFetchEntry,
     p_spriteRenderEntries = replicate 8 noRenderEntry, p_spriteFetchCount = 0,
     p_spriteRenderClockingActiveThisLine = False, p_firstSpriteFetchV = 0,
     p_framebuffer = replicate 61440 0xFF000000, p_pFrameBuffer = 0, p_currentPixelColorIndex = 0,
     p_currentX = 0, p_currentY = 0, p_tileAddr = 0, p_paletteOffset = 0, p_lowTileByte = 0,
     p_highTileByte = 0, p_bgPatternLowShift = 0, p_bgPatternHighShift = 0, p_bgAttribLowShift = 0,
     p_bgAttribHighShift = 0, p_bgAttribLowLatch = False, p_bgAttribHighLatch = False,
     FRAME_NUMBER_OF_LINES = 262, FRAME_VBLANK_START_LINE = 241, FRAME_VBLANK_END_LINE = 261,
     p_inOverclockLines = False, p_overclockFrame = False\<rparr>"

definition nrom_ops :: "base_mapper ppu_ops" where
  "nrom_ops = \<lparr>onPpuRead = \<lambda>_ m. m, setPpuFetchSource = \<lambda>_ m. m,
     chr_read = \<lambda>a m. (case m000_readChr m (uint a) of Some v \<Rightarrow> (v, m) | None \<Rightarrow> (0, m)),
     chr_write = \<lambda>a v m. (case base_writeChr (uint a) v m of Some m' \<Rightarrow> m' | None \<Rightarrow> m),
     useCustomNameTable = \<lambda>_ _. False, readCustomNameTable = \<lambda>_ _ m. (0, m),
     writeCustomNameTable = \<lambda>_ _ _ m. m,
     nt_mirroring = \<lambda>i m. mirroring (base_mirroringType m) (\<lambda>_. 0) (unat i),
     transformNameTableRead = \<lambda>_ _ v m. (v, m), setA12State = \<lambda>_ m. m, onPpuCycle = \<lambda>_ _ _ _ m. m,
     setSpriteSize8x16 = \<lambda>_ m. m, setPpuMask = \<lambda>_ m. m, onPpuStatusRead = \<lambda>_ m. m,
     signalFrameStart = \<lambda>m. m, signalFrameReady = \<lambda>m. m, signalScanlineStart = \<lambda>_ _ m. m\<rparr>"

definition ntsc :: ppu_settings where
  "ntsc = \<lparr>region = NTSC, spriteLimitDisabled = False, overclockLines = 0\<rparr>"

lemma ppu_blank_ok:
  "0 \<le> l \<Longrightarrow> l < 262 \<Longrightarrow> ppu_ok ((ppu_blank c)\<lparr>p_scanline := l\<rparr>)"
  by (simp add: ppu_ok_def screen_ok_def frame_lines_def ppu_blank_def)

subsection \<open>Properties\<close>

text \<open>
  C8: the PPU walks through the frame dot by dot. From every state with consistent counters (and
  outside the one state of \<open>oam_underrun\<close>) a cycle is defined, keeps the counters consistent and the
  pixel pointer inside the frame buffer, moves to the next dot (the dot after that where an NTSC
  console leaves out the last dot of the pre-render line of an odd frame with rendering on), raises
  the vertical-blank flag at dot 1 of its first line unless the status register was read at that very
  dot, and clears it at dot 1 of the pre-render line.
\<close>
theorem ppu_timing:
  assumes "ppu_ok p" "0 \<le> overclockLines S" "\<not> oam_underrun p"
  shows "\<exists>q. ppuCycle E S p = Some q \<and> ppu_ok q \<and>
    (p_scanline q, p_cycle q) = next_dot (FRAME_NUMBER_OF_LINES p)
      (p_scanline p, if skips_dot S p then 340 else p_cycle p) \<and>
    p_VBlankHasStarted q = vblank_after p"
proof -
  obtain q a where q: "ppuCycle E S p = Some q" "ppu_ok q"
      "(p_scanline q, p_cycle q) = next_dot (FRAME_NUMBER_OF_LINES a)
        (p_scanline p, if skips_dot S p then 340 else p_cycle p)"
      "p_VBlankHasStarted q = vblank_after p" "a = (if p_cycle p = 0 then onScanlineStart E S p else p)"
    using ppuCycle_effect(2)[OF assms] by blast
  then show ?thesis by (cases "p_cycle p = 0") (auto simp: next_dot_def skips_dot_def)
qed

theorem ppu_timing_witness:
  "\<exists>q. ppuCycle nrom_ops ntsc ((ppu_blank (base_init None even_cart))\<lparr>p_scanline := 240\<rparr>) = Some q \<and>
    (p_scanline q, p_cycle q) = (240, 1)"
  using ppu_timing[OF ppu_blank_ok[of 240 "base_init None even_cart"], of ntsc nrom_ops]
  by (auto simp: ntsc_def oam_underrun_def skips_dot_def next_dot_def ppu_blank_def)

text \<open>
  C30: a nonzero sprite address makes the PPU write outside its sprite memory. At the start of the
  pre-render line with rendering on, after the CPU has written 8 or more to \<open>$2003\<close>, the first cycle
  stores a byte at index \<open>-1\<close> of the primary OAM: the test \<open>cycle <= 8u\<close> lacks the lower bound.
\<close>
theorem oam_underrun_undefined:
  assumes "ppu_ok p" "0 \<le> overclockLines S" "p_scanline p = FRAME_VBLANK_END_LINE p" "p_cycle p = 0"
    and "p_renderingEnabled p" "8 \<le> data"
  shows "ppuCycle E S (writeRegister E S 0x2003 data p) = None"
proof -
  let ?w = "writeRegister E S 0x2003 data p"
  have w: "?w = updateOpenBus data 0xFF (p\<lparr>p_oamAddr := data\<rparr>)"
    by (simp add: writeRegister_def writeOAMADDR_def)
  have pl: "place ?w = place p" unfolding w by (simp add: updateOpenBus_def place_defs)
  note t = timingD[OF timing_place[OF pl]]
  have "ppu_ok ?w"
    using assms(1) t screen_ok_place[OF pl] geometryD[OF geometry_place[OF pl]]
    by (simp add: ppu_ok_def frame_lines_def line_flags_def)
  moreover have "oam_underrun ?w"
    using assms t by (simp add: oam_underrun_def) (simp add: w updateOpenBus_def)
  ultimately show ?thesis using ppuCycle_effect(1) assms(2) by blast
qed

theorem oam_underrun_undefined_witness:
  "ppuCycle nrom_ops ntsc (writeRegister nrom_ops ntsc 0x2003 0x10
     ((ppu_blank (base_init None even_cart))\<lparr>p_scanline := 261, p_renderingEnabled := True\<rparr>)) = None"
  by (rule oam_underrun_undefined)
    (simp_all add: ppu_ok_def screen_ok_def frame_lines_def ppu_blank_def ntsc_def)

text \<open>
  The PPU with rendering switched off, at the standard frame geometry.
\<close>

definition idle :: "ppu_settings \<Rightarrow> 'c ppu \<Rightarrow> bool" where
  "idle S p \<longleftrightarrow> ppu_ok p \<and> standard_lines S p \<and> overclockLines S = 0 \<and>
     \<not> p_renderingEnabled p \<and> \<not> p_backgroundEnabled p \<and> \<not> p_spritesEnabled p"

definition dot_number :: "'c ppu \<Rightarrow> int" where
  "dot_number p = 341 * p_scanline p + p_cycle p"

lemma idle_step:
  assumes "idle S p"
  shows "\<exists>q. ppuCycle E S p = Some q \<and> idle S q \<and>
    dot_number q = (dot_number p + 1) mod (341 * PPULinesPerFrame (region S))"
proof -
  have i: "ppu_ok p" "0 \<le> overclockLines S" "\<not> oam_underrun p" "\<not> skips_dot S p"
    using assms by (simp_all add: idle_def oam_underrun_def skips_dot_def)
  obtain q a where q: "ppuCycle E S p = Some q" "ppu_ok q"
      "(p_scanline q, p_cycle q) = next_dot (FRAME_NUMBER_OF_LINES a) (p_scanline p, p_cycle p)"
      "p_backgroundEnabled q = p_backgroundEnabled p" "p_spritesEnabled q = p_spritesEnabled p"
      "p_renderingEnabled q \<in> {p_renderingEnabled p, p_backgroundEnabled p \<or> p_spritesEnabled p}"
      "a = (if p_cycle p = 0 then onScanlineStart E S p else p)" "geometry q = geometry a"
    using ppuCycle_effect(2)[OF i(1-3), of E] i(4) by auto
  have "standard_lines S a"
    using q(7) assms onScanlineStart_geometry[of p S E] by (auto simp: idle_def ppu_ok_def)
  then have s: "standard_lines S q" "FRAME_NUMBER_OF_LINES a = PPULinesPerFrame (region S)"
    using geometryD[OF q(8)] by (simp_all add: standard_lines_def)
  have "idle S q" using assms q(2,4,5,6) s(1) by (auto simp: idle_def)
  moreover have "dot_number q = (dot_number p + 1) mod (341 * PPULinesPerFrame (region S))"
    using next_dot_number[OF q(3)[symmetric]] s(2) assms
    by (simp add: dot_number_def idle_def ppu_ok_def standard_lines_def)
  ultimately show ?thesis using q(1) by blast
qed

text \<open>
  C29: with rendering off a frame takes exactly 341 dots per line. From any dot, after any number
  \<open>n\<close> of cycles the PPU has advanced \<open>n\<close> dots, counted modulo 341 times the number of lines of the
  region; in particular it never stops and is back at the same dot after one frame.
\<close>
theorem frame_period:
  assumes "idle S p"
  shows "\<exists>q. ppuCyclesRun E S n p = Some q \<and> idle S q \<and>
    dot_number q = (dot_number p + int n) mod (341 * PPULinesPerFrame (region S))"
  using assms
proof (induction n arbitrary: p)
  case 0
  have "dot_number p < 341 * PPULinesPerFrame (region S)" "0 \<le> dot_number p"
    using 0 by (simp_all add: idle_def ppu_ok_def standard_lines_def dot_number_def)
  with 0 show ?case by simp
next
  case (Suc n)
  obtain q where q: "ppuCycle E S p = Some q" "idle S q"
      "dot_number q = (dot_number p + 1) mod (341 * PPULinesPerFrame (region S))"
    using idle_step[OF Suc.prems] by blast
  with Suc.IH[OF q(2)] show ?case by (simp add: mod_add_left_eq add.assoc)
qed

theorem frame_period_witness:
  "\<exists>q. ppuCyclesRun nrom_ops ntsc 89342 (ppu_blank (base_init None even_cart)) = Some q \<and> dot_number q = 0"
proof -
  have "idle ntsc (ppu_blank (base_init None even_cart))"
    using ppu_blank_ok[of 0 "base_init None even_cart"]
    by (simp add: idle_def standard_lines_def ntsc_def) (simp add: ppu_blank_def)
  from frame_period[OF this, of nrom_ops 89342] show ?thesis
    by (auto simp: dot_number_def ntsc_def ppu_blank_def)
qed

end
