(* ===== verification/Ppu_Evaluation.thy ===== *)
theory Ppu_Evaluation
  imports Ppu_Timing
begin

text \<open>
  Sprite evaluation (\<open>evaluateSprites\<close> of \<open>src/src/GeraNES/PPU.h\<close>) over a whole line. The code
  is a byte-wise state machine of an odd read cycle and an even write cycle; what it computes is the
  list of the first eight sprites that cover the line.
\<close>

subsection \<open>The cycles of a line\<close>

text \<open>The evaluation as the dots 65 to 256 of a line run it.\<close>

definition evalAt :: "ppu_settings \<Rightarrow> int \<Rightarrow> 'c ppu \<Rightarrow> 'c ppu" where
  "evalAt S c p = evaluateSprites S (p\<lparr>p_cycle := c\<rparr>)"

fun evalCycles :: "ppu_settings \<Rightarrow> nat \<Rightarrow> int \<Rightarrow> 'c ppu \<Rightarrow> 'c ppu" where
  "evalCycles S 0 c p = p"
| "evalCycles S (Suc n) c p = evalCycles S n (c + 1) (evalAt S c p)"

definition evaluateLine :: "ppu_settings \<Rightarrow> 'c ppu \<Rightarrow> 'c ppu" where
  "evaluateLine S p = evalCycles S 192 65 p"

text \<open>The result: the sprites that cover the line, in order, and their bytes.\<close>

definition covers :: "'c ppu \<Rightarrow> nat \<Rightarrow> bool" where
  "covers p i = coversLine (p_primaryOam p ! (4 * i)) p"

definition covering :: "'c ppu \<Rightarrow> nat \<Rightarrow> nat list" where
  "covering p n = filter (covers p) [0..<n]"

definition sprite_bytes :: "'c ppu \<Rightarrow> nat \<Rightarrow> u8 list" where
  "sprite_bytes p i = take 4 (drop (4 * i) (p_primaryOam p))"

subsection \<open>Pairs of cycles\<close>

definition loadBuffer :: "'c ppu \<Rightarrow> 'c ppu" where
  "loadBuffer p = p\<lparr>p_oamCopyBuffer := p_primaryOam p ! unat (p_oamAddr p)\<rparr>"

definition evalPair :: "nat \<Rightarrow> 'c ppu \<Rightarrow> 'c ppu" where
  "evalPair t p = evaluateEven ((loadBuffer p)\<lparr>p_cycle := 66 + 2 * int t\<rparr>)"

lemma evalAt_odd: "65 < c \<Longrightarrow> c < 256 \<Longrightarrow> odd c \<Longrightarrow> evalAt S c p = loadBuffer (p\<lparr>p_cycle := c\<rparr>)"
  by (auto simp: evalAt_def evaluateSprites_def loadBuffer_def Let_def)

lemma evalAt_even: "65 < c \<Longrightarrow> c < 256 \<Longrightarrow> even c \<Longrightarrow> evalAt S c p = evaluateEven (p\<lparr>p_cycle := c\<rparr>)"
  by (auto simp: evalAt_def evaluateSprites_def Let_def)

lemma evalAt_65: "evalAt S 65 p = loadBuffer (startEvaluation (p\<lparr>p_cycle := 65\<rparr>))"
  by (simp add: evalAt_def evaluateSprites_def loadBuffer_def startEvaluation_def Let_def)


text \<open>The three kinds of pairs while there is room: a sprite is passed over, one of its first three
  bytes is copied, its last byte is copied.\<close>

lemma doneAtWrap_members [simp]:
  "p_oamAddrM (doneAtWrap p) = p_oamAddrM p" "p_oamAddrN (doneAtWrap p) = p_oamAddrN p"
  "p_oamAddr (doneAtWrap p) = p_oamAddr p" "p_secondaryOamAddr (doneAtWrap p) = p_secondaryOamAddr p"
  "p_secondaryOam (doneAtWrap p) = p_secondaryOam p" "p_primaryOam (doneAtWrap p) = p_primaryOam p"
  "p_spriteInRange (doneAtWrap p) = p_spriteInRange p" "p_scanline (doneAtWrap p) = p_scanline p"
  "p_spriteHeight (doneAtWrap p) = p_spriteHeight p" "p_spriteOverflow (doneAtWrap p) = p_spriteOverflow p"
  "p_sprite0Added (doneAtWrap p) = p_sprite0Added p" "p_oamCopyBuffer (doneAtWrap p) = p_oamCopyBuffer p"
  "p_spritesIndexesInThisLine (doneAtWrap p) = p_spritesIndexesInThisLine p"
  "p_oamCopyDone (doneAtWrap p) = (p_oamAddrN p = 0 \<or> p_oamCopyDone p)"
  by (simp_all add: doneAtWrap_def)

definition loaded :: "nat \<Rightarrow> 'c ppu \<Rightarrow> 'c ppu" where
  "loaded t p = (loadBuffer p)\<lparr>p_cycle := 66 + 2 * int t\<rparr>"

lemma loaded_members [simp]:
  "p_oamAddrM (loaded t p) = p_oamAddrM p" "p_oamAddrN (loaded t p) = p_oamAddrN p"
  "p_secondaryOamAddr (loaded t p) = p_secondaryOamAddr p"
  "p_secondaryOam (loaded t p) = p_secondaryOam p" "p_primaryOam (loaded t p) = p_primaryOam p"
  "p_spriteInRange (loaded t p) = p_spriteInRange p" "p_scanline (loaded t p) = p_scanline p"
  "p_spriteHeight (loaded t p) = p_spriteHeight p" "p_spriteOverflow (loaded t p) = p_spriteOverflow p"
  "p_sprite0Added (loaded t p) = p_sprite0Added p" "p_oamCopyDone (loaded t p) = p_oamCopyDone p"
  "p_oamCopyBuffer (loaded t p) = p_primaryOam p ! unat (p_oamAddr p)"
  "p_spritesIndexesInThisLine (loaded t p) = p_spritesIndexesInThisLine p"
  "p_cycle (loaded t p) = 66 + 2 * int t" "coversLine y (loaded t p) = coversLine y p"
  by (simp_all add: loaded_def loadBuffer_def coversLine_def)

definition ranged :: "nat \<Rightarrow> 'c ppu \<Rightarrow> 'c ppu" where
  "ranged t s = (loaded t s)\<lparr>p_spriteInRange :=
     p_spriteInRange s \<or> coversLine (p_primaryOam s ! unat (p_oamAddr s)) s\<rparr>"

lemma ranged_members [simp]:
  "p_oamAddrM (ranged t p) = p_oamAddrM p" "p_oamAddrN (ranged t p) = p_oamAddrN p"
  "p_secondaryOamAddr (ranged t p) = p_secondaryOamAddr p"
  "p_secondaryOam (ranged t p) = p_secondaryOam p" "p_primaryOam (ranged t p) = p_primaryOam p"
  "p_scanline (ranged t p) = p_scanline p"
  "p_spriteHeight (ranged t p) = p_spriteHeight p" "p_spriteOverflow (ranged t p) = p_spriteOverflow p"
  "p_sprite0Added (ranged t p) = p_sprite0Added p" "p_oamCopyDone (ranged t p) = p_oamCopyDone p"
  "p_oamCopyBuffer (ranged t p) = p_primaryOam p ! unat (p_oamAddr p)"
  "p_spriteInRange (ranged t p) =
     (p_spriteInRange p \<or> coversLine (p_primaryOam p ! unat (p_oamAddr p)) p)"
  "p_spritesIndexesInThisLine (ranged t p) = p_spritesIndexesInThisLine p"
  "p_cycle (ranged t p) = 66 + 2 * int t" "coversLine y (ranged t p) = coversLine y p"
  by (simp_all add: ranged_def) (simp add: coversLine_def)

definition pointed :: "'c ppu \<Rightarrow> 'c ppu" where
  "pointed p = p\<lparr>p_oamAddr := (p_oamAddrM p AND 0x03) OR push_bit 2 (p_oamAddrN p)\<rparr>"

lemma pointed_members [simp]:
  "p_oamAddrM (pointed p) = p_oamAddrM p" "p_oamAddrN (pointed p) = p_oamAddrN p"
  "p_oamAddr (pointed p) = (p_oamAddrM p AND 0x03) OR push_bit 2 (p_oamAddrN p)"
  "p_secondaryOamAddr (pointed p) = p_secondaryOamAddr p"
  "p_secondaryOam (pointed p) = p_secondaryOam p" "p_primaryOam (pointed p) = p_primaryOam p"
  "p_spriteInRange (pointed p) = p_spriteInRange p" "p_scanline (pointed p) = p_scanline p"
  "p_spriteHeight (pointed p) = p_spriteHeight p" "p_spriteOverflow (pointed p) = p_spriteOverflow p"
  "p_spritesIndexesInThisLine (pointed p) = p_spritesIndexesInThisLine p"
  "p_sprite0Added (pointed p) = p_sprite0Added p" "p_oamCopyDone (pointed p) = p_oamCopyDone p"
  by (simp_all add: pointed_def)

lemma evalPair_cases:
  "evalPair t s =
     (if p_oamCopyDone s then
        pointed (let p = nextSprite (loaded t s) in
          if p_secondaryOamAddr p \<ge> 32 then p\<lparr>p_oamCopyBuffer := secondaryByte (p_secondaryOamAddr p) p\<rparr> else p)
      else if p_secondaryOamAddr s < 32 then pointed (copySprite (ranged t s))
      else pointed (searchOverflow (ranged t s)))"
proof -
  let ?c = "coversLine (p_primaryOam s ! unat (p_oamAddr s)) s"
  have "(if \<not> p_spriteInRange s \<and> ?c then (loaded t s)\<lparr>p_spriteInRange := True\<rparr> else loaded t s) = ranged t s"
    by (cases "p_spriteInRange s"; cases ?c; simp add: ranged_def loaded_def loadBuffer_def)
  then show ?thesis
    unfolding evalPair_def evaluateEven_def loaded_def[symmetric] Let_def loaded_members pointed_def
    by (simp only: ranged_members split: if_split) blast
qed

subsection \<open>Counters\<close>

lemma wrap64: "unat (((n :: u8) + 1) AND 0x3F) = (unat n + 1) mod 64"
proof -
  have "(n + 1) AND 0x3F = take_bit 6 (n + 1)" by (simp add: take_bit_eq_mask mask_eq_exp_minus_1)
  then have "unat ((n + 1) AND 0x3F) = unat (n + 1) mod 64"
    using unsigned_take_bit_eq[of 6 "n + 1"] by (simp add: take_bit_eq_mod)
  also have "\<dots> = (unat n + 1) mod 256 mod 64" by (simp add: unat_word_ariths)
  finally show ?thesis by (simp add: mod_mod_cancel)
qed

lemma unat_Suc_small: "unat (m :: u8) < 255 \<Longrightarrow> unat (m + 1) = unat m + 1"
  by (simp add: unat_word_ariths)

lemma low_bits_zero: "((w :: u8) AND 3 = 0) = (unat w mod 4 = 0)"
proof -
  have "w AND 3 = take_bit 2 w" by (simp add: take_bit_eq_mask mask_eq_exp_minus_1)
  then have "unat (w AND 3) = unat w mod 4"
    using unsigned_take_bit_eq[of 2 w] by (simp add: take_bit_eq_mod)
  then show ?thesis by (metis unat_0 unat_eq_zero)
qed

lemma oam_address:
  assumes "unat m < 4" "unat n < 64"
  shows "unat (((m :: u8) AND 3) OR push_bit 2 n) = 4 * unat n + unat m"
proof -
  have t: "take_bit 2 m = m" using take_bit_id[of m 2] assms(1) by simp
  then have m: "m AND 3 = m" by (simp add: take_bit_eq_mask mask_eq_exp_minus_1)
  have "bit m i \<Longrightarrow> i < 2" for i using t by (metis bit_take_bit_iff)
  then have "\<not> bit m i \<or> \<not> bit (push_bit 2 n) i" for i by (force simp: bit_push_bit_iff)
  then have "m OR push_bit 2 n = m + push_bit 2 n" by (intro disjunctive_add[symmetric])
  moreover have "push_bit 2 n = 4 * n" by (simp add: push_bit_eq_mult)
  ultimately show ?thesis using assms by (simp add: m unat_word_ariths)
qed


subsection \<open>The invariant of the state machine\<close>

text \<open>The sprites 0 to \<open>i - 1\<close> are done, \<open>k\<close> of them were copied, and \<open>b\<close> bytes of sprite \<open>i\<close>.
  Each pair of cycles moves \<open>i + 3 * k + b\<close> by one.\<close>

definition same_line :: "'c ppu \<Rightarrow> 'c ppu \<Rightarrow> bool" where
  "same_line p s \<longleftrightarrow> p_primaryOam s = p_primaryOam p \<and> p_scanline s = p_scanline p \<and>
     p_spriteHeight s = p_spriteHeight p \<and> length (p_secondaryOam s) = 32 \<and>
     p_spritesIndexesInThisLine s = p_spritesIndexesInThisLine p"

definition progress :: "'c ppu \<Rightarrow> nat \<Rightarrow> nat \<Rightarrow> nat \<Rightarrow> 'c ppu \<Rightarrow> bool" where
  "progress p i k b s \<longleftrightarrow> same_line p s \<and> i < 64 \<and> b < 4 \<and> k < 8 \<and> length (covering p i) = k \<and>
     unat (p_oamAddrN s) = i \<and> unat (p_oamAddrM s) = b \<and> unat (p_oamAddr s) = 4 * i + b \<and>
     unat (p_secondaryOamAddr s) = 4 * k + b \<and> p_spriteInRange s = (b > 0) \<and> (b > 0 \<longrightarrow> covers p i) \<and>
     \<not> p_oamCopyDone s \<and> p_spriteOverflow s = p_spriteOverflow p \<and>
     take (4 * k + b) (p_secondaryOam s) =
       concat (map (sprite_bytes p) (covering p i)) @ take b (sprite_bytes p i) \<and>
     p_sprite0Added s = ((0 < i \<or> 0 < b) \<and> covers p 0)"

definition settled :: "'c ppu \<Rightarrow> 'c ppu \<Rightarrow> bool" where
  "settled p s \<longleftrightarrow> same_line p s \<and> (p_oamCopyDone s \<or> unat (p_secondaryOamAddr s) = 32) \<and>
     unat (p_secondaryOamAddr s) = 4 * min 8 (length (covering p 64)) \<and>
     take (4 * min 8 (length (covering p 64))) (p_secondaryOam s) =
       concat (map (sprite_bytes p) (take 8 (covering p 64))) \<and>
     p_sprite0Added s = covers p 0 \<and>
     (length (covering p 64) < 8 \<longrightarrow> p_oamCopyDone s \<and> p_spriteOverflow s = p_spriteOverflow p)"

lemma covering_Suc: "covering p (Suc i) = (if covers p i then covering p i @ [i] else covering p i)"
  by (simp add: covering_def)

lemma covering_prefix: "i \<le> n \<Longrightarrow> take (length (covering p i)) (covering p n) = covering p i"
  unfolding covering_def using upt_add_eq_append[of 0 i "n - i"] by (simp add: filter_append)

lemma covering_mono: "i \<le> n \<Longrightarrow> length (covering p i) \<le> length (covering p n)"
  using covering_prefix[of i n p] by (metis length_take min.cobounded1 min.commute)

lemma coversLine_same: "same_line p s \<Longrightarrow> coversLine y s = coversLine y p"
  by (simp add: same_line_def coversLine_def)


subsection \<open>One pair of cycles\<close>

lemma copySprite_frame:
  "p_primaryOam (copySprite p) = p_primaryOam p" "p_scanline (copySprite p) = p_scanline p"
  "p_spriteHeight (copySprite p) = p_spriteHeight p" "p_spriteOverflow (copySprite p) = p_spriteOverflow p"
  "p_secondaryOam (copySprite p) = (p_secondaryOam p)[unat (p_secondaryOamAddr p) := p_oamCopyBuffer p]"
  "p_spritesIndexesInThisLine (copySprite p) = p_spritesIndexesInThisLine p"
  by (simp_all add: copySprite_def nextSprite_def Let_def)

lemma copySprite_skip:
  assumes "\<not> p_spriteInRange p" "\<not> p_oamCopyDone p"
  shows "p_oamAddrN (copySprite p) = (p_oamAddrN p + 1) AND 0x3F" "p_oamAddrM (copySprite p) = 0"
    "p_secondaryOamAddr (copySprite p) = p_secondaryOamAddr p" "\<not> p_spriteInRange (copySprite p)"
    "p_oamCopyDone (copySprite p) = ((p_oamAddrN p + 1) AND 0x3F = 0)"
    "p_sprite0Added (copySprite p) = p_sprite0Added p"
  using assms by (simp_all add: copySprite_def nextSprite_def Let_def)

lemma copySprite_more:
  assumes "p_spriteInRange p" "\<not> p_oamCopyDone p" "\<not> p_oamAddrM p + 1 \<ge> 4" "p_secondaryOamAddr p + 1 AND 3 \<noteq> 0"
  shows "p_oamAddrN (copySprite p) = p_oamAddrN p" "p_oamAddrM (copySprite p) = p_oamAddrM p + 1"
    "p_secondaryOamAddr (copySprite p) = p_secondaryOamAddr p + 1" "p_spriteInRange (copySprite p)"
    "\<not> p_oamCopyDone (copySprite p)" "p_sprite0Added (copySprite p) = (p_cycle p = 66 \<or> p_sprite0Added p)"
  using assms by (simp_all add: copySprite_def Let_def)

lemma copySprite_last:
  assumes "p_spriteInRange p" "\<not> p_oamCopyDone p" "p_oamAddrM p + 1 \<ge> 4" "p_secondaryOamAddr p + 1 AND 3 = 0"
  shows "p_oamAddrN (copySprite p) = (p_oamAddrN p + 1) AND 0x3F" "p_oamAddrM (copySprite p) = 0"
    "p_secondaryOamAddr (copySprite p) = p_secondaryOamAddr p + 1" "\<not> p_spriteInRange (copySprite p)"
    "p_oamCopyDone (copySprite p) = ((p_oamAddrN p + 1) AND 0x3F = 0)"
    "p_sprite0Added (copySprite p) = (p_cycle p = 66 \<or> p_sprite0Added p)"
  using assms by (simp_all add: copySprite_def nextSprite_def Let_def)

lemma searchOverflow_frame:
  "p_primaryOam (searchOverflow p) = p_primaryOam p" "p_scanline (searchOverflow p) = p_scanline p"
  "p_spriteHeight (searchOverflow p) = p_spriteHeight p" "p_secondaryOam (searchOverflow p) = p_secondaryOam p"
  "p_secondaryOamAddr (searchOverflow p) = p_secondaryOamAddr p"
  "p_sprite0Added (searchOverflow p) = p_sprite0Added p"
  "p_spritesIndexesInThisLine (searchOverflow p) = p_spritesIndexesInThisLine p"
  by (simp_all add: searchOverflow_def nextSprite_def Let_def)

lemma done_frame:
  fixes p :: "'c ppu"
  defines "q \<equiv> (let p = nextSprite p in
      if p_secondaryOamAddr p \<ge> 32 then p\<lparr>p_oamCopyBuffer := secondaryByte (p_secondaryOamAddr p) p\<rparr> else p)"
  shows "p_primaryOam q = p_primaryOam p" "p_scanline q = p_scanline p" "p_spriteHeight q = p_spriteHeight p"
    "p_secondaryOam q = p_secondaryOam p" "p_secondaryOamAddr q = p_secondaryOamAddr p"
    "p_sprite0Added q = p_sprite0Added p" "p_spriteOverflow q = p_spriteOverflow p" "p_oamCopyDone q = p_oamCopyDone p"
    "p_spritesIndexesInThisLine q = p_spritesIndexesInThisLine p"
  by (simp_all add: q_def nextSprite_def Let_def)

lemma settled_step:
  assumes "settled p s"
  shows "settled p (evalPair t s)"
proof (cases "p_oamCopyDone s")
  case True
  then show ?thesis using assms by (simp add: evalPair_cases settled_def same_line_def done_frame)
next
  case False
  then have full: "unat (p_secondaryOamAddr s) = 32" "\<not> length (covering p 64) < 8"
    using assms by (auto simp: settled_def)
  then have "\<not> p_secondaryOamAddr s < 32" by (simp add: word_less_nat_alt)
  then show ?thesis using False full assms
    by (simp add: evalPair_cases settled_def same_line_def searchOverflow_frame)
qed


lemma take_snoc_update: "n < length xs \<Longrightarrow> take (Suc n) (xs[n := v]) = take n xs @ [v]"
  by (simp add: take_Suc_conv_app_nth)

lemma take_sprite_bytes:
  "length (p_primaryOam p) = 256 \<Longrightarrow> i < 64 \<Longrightarrow> b < 4 \<Longrightarrow>
   take (Suc b) (sprite_bytes p i) = take b (sprite_bytes p i) @ [p_primaryOam p ! (4 * i + b)]"
  by (simp add: sprite_bytes_def take_Suc_conv_app_nth)

lemma length_sprite_bytes: "length (p_primaryOam p) = 256 \<Longrightarrow> i < 64 \<Longrightarrow> length (sprite_bytes p i) = 4"
  by (simp add: sprite_bytes_def)

lemma progress_room:
  assumes "progress p i k b s"
  shows "evalPair t s = pointed (copySprite (ranged t s))"
    "p_spriteInRange (ranged t s) = (b > 0 \<or> covers p i)"
    "p_oamCopyBuffer (ranged t s) = p_primaryOam p ! (4 * i + b)"
    "unat ((p_oamAddrN s + 1) AND 0x3F) = (if i = 63 then 0 else i + 1)"
    "(p_oamAddrM s + 1 \<ge> 4) = (b = 3)" "(p_secondaryOamAddr s + 1 AND 3 = 0) = (b = 3)"
    "unat (p_secondaryOamAddr s + 1) = 4 * k + b + 1" "unat (p_oamAddrM s + 1) = b + 1"
proof -
  have pr: "same_line p s" "i < 64" "b < 4" "k < 8" "unat (p_oamAddrN s) = i" "unat (p_oamAddrM s) = b"
    "unat (p_oamAddr s) = 4 * i + b" "unat (p_secondaryOamAddr s) = 4 * k + b" "\<not> p_oamCopyDone s"
    "p_spriteInRange s = (b > 0)" "b > 0 \<longrightarrow> covers p i"
    using assms by (simp_all add: progress_def)
  have "p_secondaryOamAddr s < 32" using pr by (simp add: word_less_nat_alt)
  then show "evalPair t s = pointed (copySprite (ranged t s))" using pr by (simp add: evalPair_cases)
  show "p_spriteInRange (ranged t s) = (b > 0 \<or> covers p i)"
    using pr coversLine_same[OF pr(1)] by (cases "b = 0") (simp_all add: covers_def same_line_def)
  show "p_oamCopyBuffer (ranged t s) = p_primaryOam p ! (4 * i + b)" using pr by (simp add: same_line_def)
  show "unat ((p_oamAddrN s + 1) AND 0x3F) = (if i = 63 then 0 else i + 1)"
    using pr by (simp only: wrap64) auto
  show m: "unat (p_oamAddrM s + 1) = b + 1" using pr by (simp add: unat_Suc_small)
  then show "(p_oamAddrM s + 1 \<ge> 4) = (b = 3)" using pr by (auto simp: word_le_nat_alt)
  show a: "unat (p_secondaryOamAddr s + 1) = 4 * k + b + 1" using pr by (simp add: unat_Suc_small)
  show "(p_secondaryOamAddr s + 1 AND 3 = 0) = (b = 3)"
    unfolding low_bits_zero a using pr(3) by presburger
qed

lemma progress_skip:
  assumes "progress p i k 0 s" "\<not> covers p i"
  shows "if i = 63 then settled p (evalPair t s) else progress p (i + 1) k 0 (evalPair t s)"
proof -
  note r = progress_room[OF assms(1)]
  have pr: "same_line p s" "i < 64" "k < 8" "length (covering p i) = k" "unat (p_secondaryOamAddr s) = 4 * k"
    "\<not> p_oamCopyDone s" "p_spriteOverflow s = p_spriteOverflow p"
    "take (4 * k) (p_secondaryOam s) = concat (map (sprite_bytes p) (covering p i))"
    "p_sprite0Added s = (0 < i \<and> covers p 0)"
    using assms(1) by (simp_all add: progress_def)
  let ?q = "ranged t s" and ?e = "evalPair t s"
  have out: "\<not> p_spriteInRange ?q" "\<not> p_oamCopyDone ?q" using r(2) assms(2) pr(6) by simp_all
  note c = copySprite_skip[OF out] copySprite_frame[of ?q]
  have n: "unat (p_oamAddrN ?e) = (if i = 63 then 0 else i + 1)" using r(1,4) c(1) by simp
  have z: "p_oamCopyDone ?e = (i = 63)" using r(1,4) c(5) by (simp add: unat_eq_zero[symmetric])
  have same: "same_line p ?e" using pr(1) c by (simp add: r(1) same_line_def)
  have sec: "take (4 * k) (p_secondaryOam ?e) = concat (map (sprite_bytes p) (covering p i))"
    using pr(5,8) c by (simp add: r(1))
  have cov: "covering p (Suc i) = covering p i" using assms(2) by (simp add: covering_Suc)
  have s0: "p_sprite0Added ?e = covers p 0" using pr(9) assms(2) c by (cases "i = 0") (simp_all add: r(1))
  show ?thesis
  proof (cases "i = 63")
    case True
    then have "covering p 64 = covering p 63" using cov by simp
    then show ?thesis using True pr same sec s0 z c by (simp add: settled_def r(1))
  next
    case False
    then have "unat (p_oamAddr ?e) = 4 * (i + 1)"
      using n pr(2) c r(1) oam_address[of "p_oamAddrM ?e" "p_oamAddrN ?e"] by simp
    then show ?thesis using False pr same sec s0 z c n cov by (simp add: progress_def r(1))
  qed
qed


lemma progress_copy:
  assumes "progress p i k b s" "covers p i" "length (p_primaryOam p) = 256" "t = i + 3 * k + b"
  shows "if b < 3 then progress p i k (b + 1) (evalPair t s)
    else if i = 63 \<or> k = 7 then settled p (evalPair t s)
    else progress p (i + 1) (k + 1) 0 (evalPair t s)"
proof -
  note r = progress_room[OF assms(1)]
  have pr: "same_line p s" "i < 64" "b < 4" "k < 8" "length (covering p i) = k"
    "unat (p_oamAddrN s) = i" "unat (p_secondaryOamAddr s) = 4 * k + b"
    "\<not> p_oamCopyDone s" "p_spriteOverflow s = p_spriteOverflow p"
    "take (4 * k + b) (p_secondaryOam s) = concat (map (sprite_bytes p) (covering p i)) @ take b (sprite_bytes p i)"
    "p_sprite0Added s = ((0 < i \<or> 0 < b) \<and> covers p 0)"
    using assms(1) by (simp_all add: progress_def)
  let ?q = "ranged t s" and ?e = "evalPair t s"
  have in_range: "p_spriteInRange ?q" "\<not> p_oamCopyDone ?q" using r(2) assms(2) pr(8) by simp_all
  note f = copySprite_frame[of ?q]
  have same: "same_line p ?e" using pr(1) f by (simp add: r(1) same_line_def)
  have "length (p_secondaryOam s) = 32" using pr(1) by (simp add: same_line_def)
  then have sec: "take (4 * k + b + 1) (p_secondaryOam ?e) =
      concat (map (sprite_bytes p) (covering p i)) @ take (b + 1) (sprite_bytes p i)"
    using take_snoc_update[of "4 * k + b" "p_secondaryOam s"] pr f(5) r(3)
      take_sprite_bytes[OF assms(3) pr(2,3)] by (simp add: r(1))
  have first: "(p_cycle ?q = 66) = (t = 0)" by simp
  have zero: "(t = 0) = (i = 0 \<and> b = 0)" using assms(4) pr(5) by (auto simp: covering_def)
  show ?thesis
  proof (cases "b < 3")
    case True
    have "\<not> p_oamAddrM ?q + 1 \<ge> 4" "p_secondaryOamAddr ?q + 1 AND 3 \<noteq> 0" using True r(5,6) by simp_all
    note c = copySprite_more[OF in_range this]
    have "p_sprite0Added ?e = ((i = 0 \<and> b = 0) \<or> p_sprite0Added s)" using c(6) first zero by (simp add: r(1))
    then have "p_sprite0Added ?e = covers p 0" using pr(11) assms(2) by (cases "i = 0") auto
    moreover have "unat (p_oamAddr ?e) = 4 * i + (b + 1)"
      using True pr(2,6) r(8) c(1,2) oam_address[of "p_oamAddrM ?e" "p_oamAddrN ?e"] by (simp add: r(1))
    moreover have "unat (p_oamAddrN ?e) = i" "unat (p_oamAddrM ?e) = b + 1"
      "unat (p_secondaryOamAddr ?e) = 4 * k + (b + 1)" "p_spriteInRange ?e" "\<not> p_oamCopyDone ?e"
      "p_spriteOverflow ?e = p_spriteOverflow p"
      using pr(6,9) r(7,8) c f(4) by (simp_all add: r(1))
    ultimately show ?thesis using True pr(2,4,5) same sec assms(2) by (simp add: progress_def)
  next
    case False
    then have b: "b = 3" using pr(3) by simp
    then have "p_oamAddrM ?q + 1 \<ge> 4" "p_secondaryOamAddr ?q + 1 AND 3 = 0" using r(5,6) by simp_all
    note c = copySprite_last[OF in_range this]
    have cov: "covering p (Suc i) = covering p i @ [i]" using assms(2) by (simp add: covering_Suc)
    have sec': "take (4 * (k + 1)) (p_secondaryOam ?e) = concat (map (sprite_bytes p) (covering p (Suc i)))"
      using sec b cov length_sprite_bytes[OF assms(3) pr(2)] by (simp add: eval_nat_numeral)
    have addr: "unat (p_secondaryOamAddr ?e) = 4 * (k + 1)" using r(7) c(3) b by (simp add: r(1))
    have "p_sprite0Added ?e = (t = 0 \<or> p_sprite0Added s)" using c(6) first by (simp add: r(1))
    then have s0: "p_sprite0Added ?e = covers p 0" using pr(11) zero b by simp
    have z: "p_oamCopyDone ?e = (i = 63)" using r(4) c(5) by (simp add: r(1) unat_eq_zero[symmetric])
    have n: "unat (p_oamAddrN ?e) = (if i = 63 then 0 else i + 1)" using r(4) c(1) by (simp add: r(1))
    have ov: "p_spriteOverflow ?e = p_spriteOverflow p" using pr(9) f by (simp add: r(1))
    show ?thesis
    proof (cases "i = 63 \<or> k = 7")
      case True
      have m: "min 8 (length (covering p 64)) = k + 1" "take 8 (covering p 64) = covering p (Suc i)"
        using True covering_mono[of "Suc i" 64 p] covering_prefix[of "Suc i" 64 p] cov pr(2,4,5)
        by (auto simp: min_def)
      then show ?thesis using b True same addr sec' s0 z ov pr(4,5) by (auto simp: settled_def)
    next
      case False
      then have "unat (p_oamAddr ?e) = 4 * (i + 1)"
        using n pr(2) c oam_address[of "p_oamAddrM ?e" "p_oamAddrN ?e"] by (simp add: r(1))
      then show ?thesis using False b pr same addr sec' s0 z ov n cov c by (simp add: progress_def r(1))
    qed
  qed
qed

text \<open>After \<open>t\<close> pairs.\<close>

fun evalPairs :: "nat \<Rightarrow> 'c ppu \<Rightarrow> 'c ppu" where
  "evalPairs 0 p = p"
| "evalPairs (Suc t) p = evalPair t (evalPairs t p)"

lemma pairs_progress:
  assumes "progress p 0 0 0 s" "length (p_primaryOam p) = 256"
  shows "settled p (evalPairs t s) \<or> (\<exists>i k b. progress p i k b (evalPairs t s) \<and> i + 3 * k + b = t)"
proof (induction t)
  case 0
  then show ?case using assms(1) by auto
next
  case (Suc t)
  then consider "settled p (evalPairs t s)"
    | i k b where "progress p i k b (evalPairs t s)" "i + 3 * k + b = t" by blast
  then show ?case
  proof cases
    case 1
    then show ?thesis using settled_step[OF 1, of t] by simp
  next
    case 2
    show ?thesis
    proof (cases "covers p i")
      case True
      note step = progress_copy[OF 2(1) True assms(2) 2(2)[symmetric]]
      have "b < 4" using 2(1) by (simp add: progress_def)
      then consider "b < 3" | "b = 3" "i = 63 \<or> k = 7" | "b = 3" "\<not> (i = 63 \<or> k = 7)" by linarith
      then show ?thesis
      proof cases
        case 1
        then have "progress p i k (b + 1) (evalPairs (Suc t) s)" using step by simp
        then show ?thesis using 2(2) by (intro disjI2 exI[of _ i] exI[of _ k] exI[of _ "b + 1"]) simp
      next
        case 2
        then show ?thesis using step by simp
      next
        case 3
        then have "progress p (i + 1) (k + 1) 0 (evalPairs (Suc t) s)" using step by simp
        then show ?thesis using 2(2) 3(1) by (intro disjI2 exI[of _ "i + 1"] exI[of _ "k + 1"] exI[of _ 0]) simp
      qed
    next
      case False
      then have b: "b = 0" using 2(1) by (simp add: progress_def)
      then have "settled p (evalPairs (Suc t) s) \<or> progress p (i + 1) k 0 (evalPairs (Suc t) s)"
        using progress_skip[of p i k "evalPairs t s" t] 2(1) False by (cases "i = 63") auto
      then show ?thesis using 2(2) b by (metis add.commute add_0_right plus_1_eq_Suc add_Suc)
    qed
  qed
qed


subsection \<open>The whole line\<close>

text \<open>The state machine is settled after 88 pairs at the latest: 64 sprites, seven of which take
  three pairs more, and the bytes of the eighth.\<close>

lemma pairs_settle:
  assumes "progress p 0 0 0 s" "length (p_primaryOam p) = 256" "88 \<le> t"
  shows "settled p (evalPairs t s)"
proof -
  have "i + 3 * k + b < 88" if "progress p i k b r" for i k b and r :: "'a ppu"
    using that by (simp add: progress_def)
  then show ?thesis using pairs_progress[OF assms(1,2), of t] assms(3) by fastforce
qed

lemma evalCycles_add: "evalCycles S (m + n) c p = evalCycles S n (c + int m) (evalCycles S m c p)"
  by (induction m arbitrary: c p) (simp_all add: algebra_simps)

lemma evalCycles_two: "evalCycles S 2 c p = evalAt S (c + 1) (evalAt S c p)"
  by (simp add: numeral_2_eq_2)

lemma evalCycles_pairs:
  "t < 95 \<Longrightarrow> evalCycles S (2 * Suc t) 65 p = evalPairs (Suc t) (startEvaluation (p\<lparr>p_cycle := 65\<rparr>))"
proof (induction t)
  case 0
  then show ?case
    using evalAt_even[of 66 S] by (simp add: evalCycles_two evalAt_65 evalPair_def)
next
  case (Suc t)
  let ?q = "evalPairs (Suc t) (startEvaluation (p\<lparr>p_cycle := 65\<rparr>))"
  let ?c = "65 + int (2 * Suc t)"
  have "2 * Suc (Suc t) = 2 * Suc t + 2" by simp
  then have "evalCycles S (2 * Suc (Suc t)) 65 p = evalAt S (?c + 1) (evalAt S ?c ?q)"
    using Suc by (simp only: evalCycles_add evalCycles_two)
  also have "\<dots> = evaluateEven ((loadBuffer (?q\<lparr>p_cycle := ?c\<rparr>))\<lparr>p_cycle := ?c + 1\<rparr>)"
    using Suc.prems evalAt_odd[of ?c S ?q] evalAt_even[of "?c + 1" S "evalAt S ?c ?q"] by simp
  also have "\<dots> = evalPair (Suc t) ?q"
    by (simp add: evalPair_def loadBuffer_def del: evalPairs.simps)
  finally show ?case by simp
qed

lemma evaluateLine_pairs:
  "evaluateLine S p =
     evalAt S 256 (evalAt S 255 (evalPairs 95 (startEvaluation (p\<lparr>p_cycle := 65\<rparr>))))"
  using evalCycles_pairs[of 94 S p] evalCycles_add[of S 190 2 65 p]
  by (simp add: evaluateLine_def evalCycles_two)

lemma progress_start:
  assumes "p_oamAddr p = 0" "length (p_secondaryOam p) = 32"
  shows "progress p 0 0 0 (startEvaluation (p\<lparr>p_cycle := 65\<rparr>))"
  using assms by (simp add: progress_def same_line_def startEvaluation_def covering_def)

lemma settled_load: "settled p (loadBuffer (s\<lparr>p_cycle := c\<rparr>)) = settled p s"
  by (simp add: settled_def same_line_def loadBuffer_def)

lemma evaluateLine_settled:
  assumes "p_oamAddr p = 0" "length (p_primaryOam p) = 256" "length (p_secondaryOam p) = 32"
  obtains s where "settled p s" "evaluateLine S p = evalAt S 256 s"
proof -
  let ?s = "evalPairs 95 (startEvaluation (p\<lparr>p_cycle := 65\<rparr>))"
  have "settled p ?s" by (rule pairs_settle[OF progress_start[OF assms(1,3)] assms(2)]) simp
  moreover have "evalAt S 255 ?s = loadBuffer (?s\<lparr>p_cycle := 255\<rparr>)" by (simp add: evalAt_odd)
  ultimately show thesis
    using that[of "evalAt S 255 ?s"] settled_load[where s = ?s and c = 255 and p = p] evaluateLine_pairs[of S p] by simp
qed

subsection \<open>The sprite limit lifted\<close>

text \<open>\<open>cacheSpritesInNextScanline\<close> keeps every sprite of the line, in the order of the memory.\<close>

definition cached :: "'c ppu \<Rightarrow> nat \<Rightarrow> 'c ppu \<Rightarrow> bool" where
  "cached p n q \<longleftrightarrow> p_spritesInThisLine q = of_nat (length (covering p n)) \<and>
     length (p_spritesIndexesInThisLine q) = 64 \<and>
     take (length (covering p n)) (p_spritesIndexesInThisLine q) = map (\<lambda>i. of_nat (4 * i)) (covering p n) \<and>
     p_primaryOam q = p_primaryOam p \<and> p_secondaryOam q = p_secondaryOam p \<and>
     p_secondaryOamAddr q = p_secondaryOamAddr p \<and> p_sprite0Added q = p_sprite0Added p \<and>
     p_spriteOverflow q = p_spriteOverflow p \<and> p_spriteHeight q = p_spriteHeight p"

definition cacheStep :: "int \<Rightarrow> nat \<Rightarrow> 'c ppu \<Rightarrow> 'c ppu" where
  "cacheStep line i p =
     (if \<not> isSpriteInRangeForScanline (primaryOamSprite (of_nat (4 * i)) p) line p then p
      else p\<lparr>p_spritesIndexesInThisLine :=
               (p_spritesIndexesInThisLine p)[unat (p_spritesInThisLine p) := of_nat (4 * i)],
             p_spritesInThisLine := p_spritesInThisLine p + 1\<rparr>)"

lemma cacheSprites_steps:
  "cacheSpritesInNextScanline S p =
     fold (cacheStep ((p_scanline p + 1) mod PPULinesPerFrame (region S))) [0..<64] (p\<lparr>p_spritesInThisLine := 0\<rparr>)"
  unfolding cacheSpritesInNextScanline_def cacheStep_def Let_def ..

lemma length_covering: "length (covering p n) \<le> n"
  unfolding covering_def by (metis length_filter_le length_upt diff_zero)

lemma cached_step:
  assumes "cached p n q" "n < 64"
  shows "cached p (Suc n) (cacheStep (p_scanline p + 1) n q)"
proof -
  let ?k = "length (covering p n)"
  have k: "?k < 64" using length_covering[of p n] assms(2) by simp
  have "unat (of_nat (4 * n) :: u8) = 4 * n" using assms(2) by (simp add: unat_of_nat del: of_nat_mult)
  then have in_range: "isSpriteInRangeForScanline (primaryOamSprite (of_nat (4 * n)) q) (p_scanline p + 1) q = covers p n"
    using assms(1) by (auto simp: cached_def isSpriteInRangeForScanline_def primaryOamSprite_def sprite_at_def
      covers_def coversLine_def Let_def)
  have "unat (p_spritesInThisLine q) = ?k" using assms(1) k by (simp add: cached_def unat_of_nat)
  then show ?thesis
    using assms(1) k in_range by (auto simp: cached_def cacheStep_def covering_Suc take_snoc_update)
qed

lemma cached_all:
  assumes "length (p_spritesIndexesInThisLine p) = 64" "n \<le> 64"
  shows "cached p n (fold (cacheStep (p_scanline p + 1)) [0..<n] (p\<lparr>p_spritesInThisLine := 0\<rparr>))"
  using assms(2)
proof (induction n)
  case 0
  then show ?case using assms(1) by (simp add: cached_def covering_def)
next
  case (Suc n)
  then show ?case using cached_step[of p n] by simp
qed

subsection \<open>Properties\<close>

lemma covering_cong: "same_line p s \<Longrightarrow> covering s n = covering p n"
  unfolding covering_def covers_def by (simp add: coversLine_same) (simp add: same_line_def)

text \<open>
  C9: sprite evaluation selects the first eight sprites of the line. Started at sprite 0, the
  byte-wise state machine of dots 65 to 256 leaves in the secondary OAM the four bytes of each of the
  first eight sprites, in the order of the primary OAM, whose rows cover the line; sprite 0 is marked
  exactly when it covers the line; the number of sprites to draw is that of the copied ones, or, with
  the sprite limit lifted, that of all covering sprites, whose addresses are then listed in order; and
  the overflow flag does not change on a line of fewer than eight sprites.
\<close>
theorem sprite_evaluation:
  assumes "p_oamAddr p = 0" "length (p_primaryOam p) = 256" "length (p_secondaryOam p) = 32"
    "length (p_spritesIndexesInThisLine p) = 64"
    "0 \<le> p_scanline p" "p_scanline p + 1 < PPULinesPerFrame (region S)"
  shows "let q = evaluateLine S p; all = covering p 64; n = length all in
    take (4 * min 8 n) (p_secondaryOam q) = concat (map (sprite_bytes p) (take 8 all)) \<and>
    copiedSprites q = min 8 n \<and> p_testSprite0HitInThisLine q = covers p 0 \<and>
    (if spriteLimitDisabled S
     then unat (p_spritesInThisLine q) = n \<and>
       take n (p_spritesIndexesInThisLine q) = map (\<lambda>i. of_nat (4 * i)) all
     else unat (p_spritesInThisLine q) = min 8 n) \<and>
    (n < 8 \<longrightarrow> p_spriteOverflow q = p_spriteOverflow p)"
proof -
  let ?n = "length (covering p 64)"
  obtain s where s: "settled p s" "evaluateLine S p = evalAt S 256 s"
    using evaluateLine_settled[OF assms(1-3)] .
  have same: "same_line p s" "p_sprite0Added s = covers p 0" using s(1) by (auto simp: settled_def)
  have l: "?n \<le> 64" by (rule length_covering)
  show ?thesis
  proof (cases "spriteLimitDisabled S")
    case True
    define c where "c = cacheSpritesInNextScanline S (s\<lparr>p_cycle := 256\<rparr>)"
    have "cached (s\<lparr>p_cycle := 256\<rparr>) 64 c"
      using cached_all[of "s\<lparr>p_cycle := 256\<rparr>" 64] same(1) assms(4-6)
      by (simp add: c_def cacheSprites_steps same_line_def)
    moreover have "covering (s\<lparr>p_cycle := 256\<rparr>) 64 = covering p 64"
      using same(1) by (intro covering_cong) (simp add: same_line_def)
    moreover have "evaluateLine S p = c\<lparr>p_testSprite0HitInThisLine := p_sprite0Added c\<rparr>"
      using True s(2) by (simp add: evalAt_def evaluateSprites_def c_def Let_def)
    ultimately show ?thesis
      using True s(1) same l by (auto simp: Let_def settled_def cached_def copiedSprites_def unat_of_nat)
  next
    case False
    then have "evaluateLine S p = s\<lparr>p_cycle := 256, p_spritesInThisLine := of_nat (copiedSprites s),
        p_testSprite0HitInThisLine := p_sprite0Added s\<rparr>"
      using s(2) by (simp add: evalAt_def evaluateSprites_def copiedSprites_def)
    then show ?thesis using False s(1) same
      by (auto simp: Let_def settled_def copiedSprites_def unat_of_nat)
  qed
qed

definition oam_sample :: "unit ppu" where
  "oam_sample = (ppu_blank ())\<lparr>p_scanline := 20,
     p_primaryOam := [20, 1, 0, 5, 99, 2, 0, 9, 15, 3, 1, 7] @ replicate 244 0xFF\<rparr>"

lemma oam_sample_members:
  "p_oamAddr oam_sample = 0" "length (p_primaryOam oam_sample) = 256" "length (p_secondaryOam oam_sample) = 32"
  "length (p_spritesIndexesInThisLine oam_sample) = 64" "p_scanline oam_sample = 20"
  by (simp_all add: oam_sample_def ppu_blank_def)

lemma covering_sample: "covering oam_sample 64 = [0, 2]"
proof -
  have "\<not> covers oam_sample i" if "3 \<le> i" "i < 64" for i
    using that by (simp add: covers_def coversLine_def oam_sample_def ppu_blank_def nth_append nth_Cons')
  then have "filter (covers oam_sample) [3..<64] = []" by (auto simp: filter_empty_conv)
  moreover have "[0..<64] = [0, 1, 2] @ [3..<64]" using upt_add_eq_append[of 0 3 61] by (simp add: upt_rec)
  moreover have "covers oam_sample 0" "\<not> covers oam_sample 1" "covers oam_sample 2"
    by (simp_all add: covers_def coversLine_def oam_sample_def ppu_blank_def)
  ultimately show ?thesis by (simp add: covering_def del: upt_rec_numeral)
qed

theorem sprite_evaluation_witness:
  "take 8 (p_secondaryOam (evaluateLine ntsc oam_sample)) = [20, 1, 0, 5, 15, 3, 1, 7] \<and>
   p_testSprite0HitInThisLine (evaluateLine ntsc oam_sample) \<and>
   unat (p_spritesInThisLine (evaluateLine ntsc oam_sample)) = 2"
proof -
  have "covers oam_sample 0" by (simp add: covers_def coversLine_def oam_sample_def ppu_blank_def)
  moreover have "sprite_bytes oam_sample 0 = [20, 1, 0, 5]" "sprite_bytes oam_sample 2 = [15, 3, 1, 7]"
    by (simp_all add: sprite_bytes_def oam_sample_def ppu_blank_def)
  ultimately show ?thesis
    using sprite_evaluation[of oam_sample ntsc] oam_sample_members by (simp add: covering_sample ntsc_def Let_def)
qed

end
