(* ===== verification/Ppu_Scroll.thy ===== *)
theory Ppu_Scroll
  imports Ppu_Evaluation
begin

text \<open>
  The scroll registers of the PPU (\<open>src/src/GeraNES/PPU.h\<close>): the fields of the address register
  \<open>m_reg_v\<close> as a position in the plane of the four name tables, 64 tiles wide and 480 pixels high,
  and what the increments, the copies from \<open>m_reg_t\<close> and the writes of the scroll port do to it.
\<close>

subsection \<open>Fields\<close>

definition coarseX :: "u16 \<Rightarrow> nat" where
  "coarseX v = unat (v AND 0x1F)"

definition coarseY :: "u16 \<Rightarrow> nat" where
  "coarseY v = unat (drop_bit 5 v AND 0x1F)"

definition fineY :: "u16 \<Rightarrow> nat" where
  "fineY v = unat (drop_bit 12 v AND 0x07)"

text \<open>The tile column and the pixel row in the plane.\<close>

definition tileColumn :: "u16 \<Rightarrow> nat" where
  "tileColumn v = coarseX v + (if bit v 10 then 32 else 0)"

definition pixelRow :: "u16 \<Rightarrow> nat" where
  "pixelRow v = 8 * coarseY v + fineY v + (if bit v 11 then 240 else 0)"

lemmas field_defs = coarseX_def coarseY_def fineY_def
lemmas position_defs = tileColumn_def pixelRow_def

subsection \<open>Bits of a 16-bit word\<close>

lemma all16: "(\<forall>n < 16. P n) = (P 0 \<and> P 1 \<and> P 2 \<and> P 3 \<and> P 4 \<and> P 5 \<and> P 6 \<and> P 7 \<and> P 8 \<and> P 9 \<and>
   P 10 \<and> P 11 \<and> P 12 \<and> P 13 \<and> P 14 \<and> P (15::nat))"
  by (simp add: eval_nat_numeral All_less_Suc) blast

lemma u16_eq: "(v = w) = (\<forall>n < 16. bit (v :: u16) n = bit w n)"
  by (auto simp: bit_eq_iff)

lemmas u16_bits = u16_eq all16 bit_simps

lemma u8_beyond: "8 \<le> n \<Longrightarrow> \<not> bit (x :: u8) n"
  using bit_imp_le_length[of x n] by auto

lemma u16_less: "unat (v :: u16) < 65536"
  by (rule order_less_le_trans[OF unsigned_less]) simp

lemma low5: "(w :: u16) AND 0x1F = take_bit 5 w"
  by (simp add: take_bit_eq_mask mask_eq_exp_minus_1)

lemma low3: "(w :: u16) AND 0x07 = take_bit 3 w"
  by (simp add: take_bit_eq_mask mask_eq_exp_minus_1)

lemma field_mod:
  "coarseX v = unat v mod 32" "coarseY v = unat v div 32 mod 32" "fineY v = unat v div 4096 mod 8"
  unfolding field_defs low5 low3
  by (simp_all add: take_bit_eq_mod drop_bit_eq_div unat_mod_distrib unat_div_distrib)

lemma bit_u16: "bit (v :: u16) n = odd (unat v div 2 ^ n)"
  by (simp add: bit_unsigned_iff flip: bit_iff_odd)

subsection \<open>Horizontal increments\<close>

lemma wrapX:
  "coarseX ((v AND 0xFFE0) XOR 0x0400) = 0" "coarseY ((v AND 0xFFE0) XOR 0x0400) = coarseY v"
  "fineY ((v AND 0xFFE0) XOR 0x0400) = fineY v"
  "bit ((v AND 0xFFE0) XOR 0x0400) 10 = (\<not> bit v 10)"
  "bit ((v AND 0xFFE0) XOR 0x0400) 11 = bit v 11"
  unfolding field_defs by (simp_all add: unat_eq_zero u16_bits flip: word_unat_eq_iff)

lemma stepX:
  assumes "coarseX v \<noteq> 31"
  shows "tileColumn (v + 1) = tileColumn v + 1" "pixelRow (v + 1) = pixelRow v"
proof -
  have m: "unat v mod 32 \<noteq> 31" using assms by (simp add: field_mod)
  then have "unat v \<noteq> 65535" by auto
  then have "unat v + 1 < 65536" using u16_less[of v] by linarith
  then have "unat (v + 1) = unat v + 1" by (simp add: unat_word_ariths)
  then have u: "unat (v + 1) mod 32 = unat v mod 32 + 1" "unat (v + 1) div 32 = unat v div 32"
    using m by (simp_all add: mod_Suc div_Suc)
  then have d: "unat (v + 1) div (32 * k) = unat v div (32 * k)" for k by (simp add: div_mult2_eq)
  show "tileColumn (v + 1) = tileColumn v + 1" "pixelRow (v + 1) = pixelRow v"
    using u d[of 32] d[of 64] d[of 128] by (simp_all add: position_defs field_mod bit_u16)
qed

lemma coarseX_end: "(v AND 0x001F = 31) = (coarseX v = 31)"
  by (simp add: coarseX_def word_unat_eq_iff)

lemma column_incX:
  "tileColumn (incX v) = (tileColumn v + 1) mod 64" "pixelRow (incX v) = pixelRow v"
proof -
  have "coarseX v < 32" by (simp add: field_mod)
  then have c: "coarseX v \<noteq> 31 \<Longrightarrow> tileColumn v + 1 < 64" by (simp add: tileColumn_def)
  show "tileColumn (incX v) = (tileColumn v + 1) mod 64"
    using c stepX(1)[of v] wrapX[of v] unfolding incX_def coarseX_end
    by (cases "coarseX v = 31") (simp_all add: tileColumn_def)
  show "pixelRow (incX v) = pixelRow v"
    using stepX(2)[of v] wrapX[of v] unfolding incX_def coarseX_end
    by (cases "coarseX v = 31") (simp_all add: pixelRow_def)
qed

subsection \<open>Vertical increments\<close>

lemma fine_end: "(v AND 0x7000 = 0x7000) = (fineY v = 7)"
proof -
  have "(v AND 0x7000 = 0x7000) = (drop_bit 12 v AND 0x07 = 0x07)" by (simp add: u16_bits)
  then show ?thesis by (simp add: fineY_def word_unat_eq_iff)
qed

lemma stepY:
  assumes "fineY v \<noteq> 7"
  shows "tileColumn (v + 0x1000) = tileColumn v" "pixelRow (v + 0x1000) = pixelRow v + 1"
proof -
  have m: "unat v div 4096 mod 8 \<noteq> 7" using assms by (simp add: field_mod)
  then have "unat v div 4096 \<noteq> 15" by auto
  moreover have "unat v div 4096 < 16" using u16_less[of v] by (simp add: div_less_iff_less_mult)
  ultimately have "unat v div 4096 < 15" by linarith
  then have "unat v < 61440" by (simp add: div_less_iff_less_mult)
  then have n: "unat (v + 0x1000) = unat v + 4096" by (simp add: unat_word_ariths)
  have d: "unat (v + 0x1000) div k mod j = unat v div k mod j" if "4096 = k * (j * q)" "0 < k" for k j q
    using that(2) unfolding n that(1) by simp
  have f: "unat (v + 0x1000) div 4096 mod 8 = unat v div 4096 mod 8 + 1"
    using m div_add_self2[of 4096 "unat v"] unfolding n by (simp add: mod_Suc)
  show "tileColumn (v + 0x1000) = tileColumn v" "pixelRow (v + 0x1000) = pixelRow v + 1"
    using f d[of 1 32 128] d[of 32 32 4] d[of 1024 2 2] d[of 2048 2 1]
    by (simp_all add: position_defs field_mod bit_u16 odd_iff_mod_2_eq_one)
qed

text \<open>The row is full: the next tile row \<open>y\<close> goes into its field.\<close>

lemma setY:
  assumes "y < 32"
  shows "coarseX ((v AND 0xFC1F) OR push_bit 5 y) = coarseX v"
    "coarseY ((v AND 0xFC1F) OR push_bit 5 y) = unat y" "fineY ((v AND 0xFC1F) OR push_bit 5 y) = fineY v"
    "bit ((v AND 0xFC1F) OR push_bit 5 y) 10 = bit v 10" "bit ((v AND 0xFC1F) OR push_bit 5 y) 11 = bit v 11"
proof -
  have t: "take_bit 5 y = y" using take_bit_id[of y 5] assms by (simp add: word_less_nat_alt)
  then have b: "bit y n \<Longrightarrow> n < 5" for n by (metis bit_take_bit_iff)
  have y: "\<not> bit y 5" "\<not> bit y 6" "\<not> bit y 7" "\<not> bit y 8" "\<not> bit y 9" "\<not> bit y 10"
    using b[of 5] b[of 6] b[of 7] b[of 8] b[of 9] b[of 10] by auto
  have "drop_bit 5 ((v AND 0xFC1F) OR push_bit 5 y) AND 0x1F = take_bit 5 y"
    by (simp add: u16_bits)
  then show "coarseY ((v AND 0xFC1F) OR push_bit 5 y) = unat y" using t by (simp add: coarseY_def)
  show "coarseX ((v AND 0xFC1F) OR push_bit 5 y) = coarseX v" "fineY ((v AND 0xFC1F) OR push_bit 5 y) = fineY v"
    unfolding field_defs using y b by (simp_all add: u16_bits flip: word_unat_eq_iff) 
  show "bit ((v AND 0xFC1F) OR push_bit 5 y) 10 = bit v 10" "bit ((v AND 0xFC1F) OR push_bit 5 y) 11 = bit v 11"
    using y by (simp_all add: bit_simps)
qed

lemma clearFineY:
  "coarseX (v AND 0x8FFF) = coarseX v" "coarseY (v AND 0x8FFF) = coarseY v" "fineY (v AND 0x8FFF) = 0"
  "bit (v AND 0x8FFF) 10 = bit v 10" "bit (v AND 0x8FFF) 11 = bit v 11"
  "drop_bit 5 ((v AND 0x8FFF) AND 0x03E0) = drop_bit 5 v AND 0x1F"
  unfolding field_defs by (simp_all add: unat_eq_zero u16_bits flip: word_unat_eq_iff)

lemma flipY:
  "coarseX (v XOR 0x0800) = coarseX v" "coarseY (v XOR 0x0800) = coarseY v" "fineY (v XOR 0x0800) = fineY v"
  "bit (v XOR 0x0800) 10 = bit v 10" "bit (v XOR 0x0800) 11 = (\<not> bit v 11)"
  unfolding field_defs by (simp_all add: u16_bits flip: word_unat_eq_iff)

lemma coarseY_word: "(drop_bit 5 v AND 0x1F = numeral k) = (coarseY v = unat (numeral k :: u16))"
  by (simp add: coarseY_def word_unat_eq_iff)

lemma field_less: "coarseX v < 32" "coarseY v < 32" "fineY v < 8"
  by (simp_all add: field_mod)

lemma nextTileRow:
  "coarseY v \<noteq> 31 \<Longrightarrow> unat ((drop_bit 5 v AND 0x1F) + 1) = coarseY v + 1"
  "coarseY v \<noteq> 31 \<Longrightarrow> (drop_bit 5 v AND 0x1F) + 1 < 32"
proof -
  assume "coarseY v \<noteq> 31"
  then have "coarseY v < 31" using field_less(2)[of v] by linarith
  then show a: "unat ((drop_bit 5 v AND 0x1F) + 1) = coarseY v + 1"
    unfolding coarseY_def by (simp add: unat_word_ariths)
  show "(drop_bit 5 v AND 0x1F) + 1 < 32" using \<open>coarseY v < 31\<close> a by (simp add: word_less_nat_alt)
qed

text \<open>Where a row ends: the next tile row, the first row of the other table after tile row 29, the
  first row of the same table after tile row 31.\<close>

lemma row_end:
  assumes "fineY v = 7"
  shows "coarseX (incY v) = coarseX v" "bit (incY v) 10 = bit v 10" "fineY (incY v) = 0"
    "coarseY (incY v) = (if coarseY v = 29 \<or> coarseY v = 31 then 0 else coarseY v + 1)"
    "bit (incY v) 11 = (bit v 11 \<noteq> (coarseY v = 29))"
proof -
  define y where "y = (drop_bit 5 v AND 0x1F)"
  have y: "(y = 29) = (coarseY v = 29)" "(y = 31) = (coarseY v = 31)"
    unfolding y_def coarseY_word by simp_all
  have e: "incY v = (if y = 29 then ((v AND 0x8FFF) XOR 0x0800) AND 0xFC1F OR push_bit 5 0
      else if y = 31 then (v AND 0x8FFF) AND 0xFC1F OR push_bit 5 0
      else (v AND 0x8FFF) AND 0xFC1F OR push_bit 5 (y + 1))"
    using assms unfolding incY_def fine_end Let_def clearFineY(6) y_def by simp
  note f = clearFineY[of v] flipY[of "v AND 0x8FFF"]
  show "coarseX (incY v) = coarseX v" "bit (incY v) 10 = bit v 10" "fineY (incY v) = 0"
    "coarseY (incY v) = (if coarseY v = 29 \<or> coarseY v = 31 then 0 else coarseY v + 1)"
    "bit (incY v) 11 = (bit v 11 \<noteq> (coarseY v = 29))"
    using f setY[of 0 "(v AND 0x8FFF) XOR 0x0800"] setY[of 0 "v AND 0x8FFF"] setY[of "y + 1" "v AND 0x8FFF"]
      nextTileRow[of v] unfolding e y y_def[symmetric] by (simp_all del: push_bit_0_id push_bit_of_0)
qed

lemma row_incY:
  assumes "coarseY v < 30"
  shows "pixelRow (incY v) = (pixelRow v + 1) mod 480" "tileColumn (incY v) = tileColumn v"
proof -
  show "tileColumn (incY v) = tileColumn v"
    using row_end(1,2)[of v] stepY(1)[of v] by (cases "fineY v = 7") (simp_all add: tileColumn_def incY_def fine_end)
  show "pixelRow (incY v) = (pixelRow v + 1) mod 480"
  proof (cases "fineY v = 7")
    case True
    then show ?thesis using assms row_end[OF True] by (cases "bit v 11") (auto simp: pixelRow_def)
  next
    case False
    then have "pixelRow v + 1 < 480" using assms field_less(3)[of v] by (auto simp: pixelRow_def)
    then show ?thesis using False stepY(2)[OF False] by (simp add: incY_def fine_end)
  qed
qed

subsection \<open>Copies and writes\<close>

lemma copy_column:
  "coarseX (p_reg_v (copyVX p)) = coarseX (p_reg_t p)" "bit (p_reg_v (copyVX p)) 10 = bit (p_reg_t p) 10"
  "coarseY (p_reg_v (copyVX p)) = coarseY (p_reg_v p)" "fineY (p_reg_v (copyVX p)) = fineY (p_reg_v p)"
  "bit (p_reg_v (copyVX p)) 11 = bit (p_reg_v p) 11"
  unfolding copyVX_def field_defs by (simp_all add: u16_bits flip: word_unat_eq_iff)

lemma copy_row:
  "coarseX (p_reg_v (copyVY p)) = coarseX (p_reg_v p)" "bit (p_reg_v (copyVY p)) 10 = bit (p_reg_v p) 10"
  "coarseY (p_reg_v (copyVY p)) = coarseY (p_reg_t p)" "fineY (p_reg_v (copyVY p)) = fineY (p_reg_t p)"
  "bit (p_reg_v (copyVY p)) 11 = bit (p_reg_t p) 11"
  unfolding copyVY_def field_defs by (simp_all add: u16_bits flip: word_unat_eq_iff)

lemma scroll_first:
  "coarseX ((t AND 0xFFE0) OR ucast (drop_bit 3 (x :: u8))) = unat x div 8"
  "coarseY ((t AND 0xFFE0) OR ucast (drop_bit 3 x)) = coarseY t"
  "fineY ((t AND 0xFFE0) OR ucast (drop_bit 3 x)) = fineY t"
  "bit ((t AND 0xFFE0) OR ucast (drop_bit 3 x)) 10 = bit t 10"
  "bit ((t AND 0xFFE0) OR ucast (drop_bit 3 x)) 11 = bit t 11"
proof -
  have "((t AND 0xFFE0) OR ucast (drop_bit 3 x)) AND 0x1F = ucast (drop_bit 3 x)"
    by (simp add: u16_bits u8_beyond)
  then show "coarseX ((t AND 0xFFE0) OR ucast (drop_bit 3 x)) = unat x div 8"
    by (simp add: coarseX_def drop_bit_eq_div unat_div_distrib unsigned_ucast_eq)
qed (simp_all add: field_defs u16_bits u8_beyond flip: word_unat_eq_iff)

definition scrollY :: "u16 \<Rightarrow> u8 \<Rightarrow> u16" where
  "scrollY t y = (t AND 0x8C1F) OR push_bit 12 (ucast (y AND 0x07)) OR push_bit 2 (ucast (y AND 0xF8))"

lemma scroll_second:
  "coarseX (scrollY t y) = coarseX t" "coarseY (scrollY t y) = unat y div 8" "fineY (scrollY t y) = unat y mod 8"
  "bit (scrollY t y) 10 = bit t 10" "bit (scrollY t y) 11 = bit t 11"
proof -
  have "drop_bit 5 (scrollY t y) AND 0x1F = ucast (drop_bit 3 y)"
    by (simp add: scrollY_def u16_bits u8_beyond)
  then show "coarseY (scrollY t y) = unat y div 8"
    by (simp add: coarseY_def drop_bit_eq_div unat_div_distrib unsigned_ucast_eq)
  have "drop_bit 12 (scrollY t y) AND 0x07 = ucast (take_bit 3 y)"
    by (simp add: scrollY_def u16_bits u8_beyond)
  then show "fineY (scrollY t y) = unat y mod 8"
    by (simp add: fineY_def take_bit_eq_mod unat_mod_distrib unsigned_ucast_eq)
qed (simp_all add: scrollY_def coarseX_def u16_bits u8_beyond flip: word_unat_eq_iff)

lemma scroll_pair:
  assumes "\<not> p_reg_w p"
  shows "p_reg_t (writePPUSCROLL y (writePPUSCROLL x p)) =
      scrollY ((p_reg_t p AND 0xFFE0) OR ucast (drop_bit 3 x)) y"
    "unat (p_reg_x (writePPUSCROLL y (writePPUSCROLL x p))) = unat x mod 8"
    "\<not> p_reg_w (writePPUSCROLL y (writePPUSCROLL x p))"
    "p_reg_v (writePPUSCROLL y (writePPUSCROLL x p)) = p_reg_v p"
proof -
  have "x AND 0x07 = take_bit 3 x" by (simp add: take_bit_eq_mask mask_eq_exp_minus_1)
  then show "unat (p_reg_x (writePPUSCROLL y (writePPUSCROLL x p))) = unat x mod 8"
    using assms by (simp add: writePPUSCROLL_def take_bit_eq_mod unat_mod_distrib)
qed (use assms in \<open>simp_all add: writePPUSCROLL_def scrollY_def\<close>)

subsection \<open>Properties\<close>

text \<open>
  C28: the address register walks over the plane of the name tables. The horizontal increment moves
  one tile to the right, cyclically in the 64 tiles of two tables, and keeps the row; the vertical
  increment moves one pixel down, cyclically in the 480 rows of two tables, and keeps the column, as
  long as the register points into the 30 tile rows of a table; from the last row of the attribute
  area (tile row 31) it returns to the top of the same table.
\<close>
theorem scroll_counters:
  shows "tileColumn (p_reg_v (incrementVX p)) = (tileColumn (p_reg_v p) + 1) mod 64 \<and>
    pixelRow (p_reg_v (incrementVX p)) = pixelRow (p_reg_v p) \<and>
    (coarseY (p_reg_v p) < 30 \<longrightarrow>
       pixelRow (p_reg_v (incrementVY p)) = (pixelRow (p_reg_v p) + 1) mod 480 \<and>
       tileColumn (p_reg_v (incrementVY p)) = tileColumn (p_reg_v p)) \<and>
    (coarseY (p_reg_v p) = 31 \<and> fineY (p_reg_v p) = 7 \<longrightarrow>
       pixelRow (p_reg_v (incrementVY p)) = (if bit (p_reg_v p) 11 then 240 else 0))"
  using column_incX[of "p_reg_v p"] row_incY[of "p_reg_v p"] row_end[of "p_reg_v p"]
  by (simp add: incrementVX_def incrementVY_def pixelRow_def)

theorem scroll_counters_witness:
  "pixelRow (p_reg_v (incrementVY ((ppu_blank ())\<lparr>p_reg_v := 0x7BA0\<rparr>))) = 0 \<and>
   tileColumn (p_reg_v (incrementVX ((ppu_blank ())\<lparr>p_reg_v := 0x001F\<rparr>))) = 32"
  using scroll_counters[of "(ppu_blank ())\<lparr>p_reg_v := 0x7BA0\<rparr>"] scroll_counters[of "(ppu_blank ())\<lparr>p_reg_v := 0x001F\<rparr>"]
  by (simp add: coarseY_def pixelRow_def fineY_def tileColumn_def coarseX_def)

text \<open>
  The scroll port sets the position of the frame. Two writes \<open>x\<close>, \<open>y\<close> to \<open>$2005\<close> with the
  write toggle clear, followed by the horizontal and vertical copies of the pre-render line, put the
  address register at pixel column \<open>x\<close> (tile and fine scroll together) and row \<open>y\<close> of the name table
  selected by \<open>$2000\<close>, and leave the toggle clear.
\<close>
theorem scroll_writes:
  fixes p :: "'c ppu" and x y :: u8
  assumes "\<not> p_reg_w p"
  defines "q \<equiv> copyVY (copyVX (writePPUSCROLL y (writePPUSCROLL x p)))"
  shows "8 * tileColumn (p_reg_v q) + unat (p_reg_x q) = unat x + (if bit (p_reg_t p) 10 then 256 else 0) \<and>
    pixelRow (p_reg_v q) = unat y + (if bit (p_reg_t p) 11 then 240 else 0) \<and> \<not> p_reg_w q"
proof -
  let ?s = "writePPUSCROLL y (writePPUSCROLL x p)"
  note s = scroll_pair[OF assms(1)]
  have r: "p_reg_x q = p_reg_x ?s" "p_reg_w q = p_reg_w ?s" "p_reg_t (copyVX ?s) = p_reg_t ?s"
    by (simp_all add: q_def copyVY_def copyVX_def)
  show ?thesis
    unfolding position_defs r s(2)
    by (simp add: q_def copy_row copy_column r(3) s scroll_first scroll_second)
qed

theorem scroll_writes_witness:
  "(let q = copyVY (copyVX (writePPUSCROLL 100 (writePPUSCROLL 77 (ppu_blank ())))) in
    8 * tileColumn (p_reg_v q) + unat (p_reg_x q) = 77 \<and> pixelRow (p_reg_v q) = 100)"
  using scroll_writes[of "ppu_blank ()" 100 77] by (simp add: ppu_blank_def Let_def)

end
