(* ===== verification/Ppu_Dark.thy ===== *)
theory Ppu_Dark
  imports Ppu_Scroll
begin

text \<open>
  The PPU with rendering off: its sprite memory changes only by the writes of the CPU to \<open>$2004\<close>.
  This is what a game relies on that uploads its sprites during the vertical blank or with a blank
  screen. \<open>oamView\<close> collects the sprite memory, its address and the flags that switch rendering.
\<close>

definition oamView :: "'c ppu \<Rightarrow> _" where
  "oamView p = (p_primaryOam p, p_oamAddr p, p_prevCycleRenderingEnabled p, p_renderingEnabled p,
     p_backgroundEnabled p, p_spritesEnabled p)"

lemma oamViewD:
  assumes "oamView p = oamView q"
  shows "p_primaryOam p = p_primaryOam q" "p_oamAddr p = p_oamAddr q"
    "p_prevCycleRenderingEnabled p = p_prevCycleRenderingEnabled q" "p_renderingEnabled p = p_renderingEnabled q"
    "p_backgroundEnabled p = p_backgroundEnabled q" "p_spritesEnabled p = p_spritesEnabled q"
  using assms by (simp_all add: oamView_def)

definition dark :: "'c ppu \<Rightarrow> bool" where
  "dark p \<longleftrightarrow> ppu_ok p \<and> \<not> p_renderingEnabled p \<and> \<not> p_prevCycleRenderingEnabled p \<and>
     \<not> p_backgroundEnabled p \<and> \<not> p_spritesEnabled p \<and> length (p_primaryOam p) = 256"

subsection \<open>Memory accesses\<close>

lemma oam_call [frame_simps]:
  "oamView (call f p) = oamView p" "oamView (snd (call_value g p)) = oamView p"
  by (simp_all add: call_def call_value_def oamView_def split: prod.split)

lemma oam_bus [frame_simps]:
  "oamView (setBusAddress a p) = oamView p" "oamView (commitPendingDataLatch v p) = oamView p"
  by (simp_all add: setBusAddress_def commitPendingDataLatch_def oamView_def Let_def)

lemma oam_update [frame_simps]:
  "oamView (p\<lparr>p_currentReadAffectsBus := b\<rparr>) = oamView p" "oamView (p\<lparr>p_needUpdateState := b\<rparr>) = oamView p"
  "oamView (p\<lparr>p_needIncVideoRam := b\<rparr>) = oamView p" "oamView (p\<lparr>p_deferredPpuIo := d\<rparr>) = oamView p"
  "oamView (p\<lparr>p_dataLatch := v\<rparr>) = oamView p" "oamView (p\<lparr>p_reg_v := a\<rparr>) = oamView p"
  "oamView (p\<lparr>p_currentPixelColorIndex := v\<rparr>) = oamView p" "oamView (p\<lparr>p_framebuffer := fb\<rparr>) = oamView p"
  by (simp_all add: oamView_def)

lemma oam_readNameTable [frame_simps]: "oamView (snd (readNameTable E i a p)) = oamView p"
  by (simp add: readNameTable_def Let_def case_prod_unfold frame_simps)

lemma oam_readAccess [frame_simps]: "oamView (snd (readAccess E b u a p)) = oamView p"
  by (simp add: readAccess_def Let_def case_prod_unfold frame_simps)

lemma oam_reads [frame_simps]:
  "oamView (snd (readPpuMemory E a p)) = oamView p" "oamView (snd (fakeReadPpuMemory E a p)) = oamView p"
  by (simp_all add: readPpuMemory_def fakeReadPpuMemory_def frame_simps)

lemma oam_scroll [frame_simps]:
  "oamView (incrementVX p) = oamView p" "oamView (incrementVY p) = oamView p"
  "oamView (copyVX p) = oamView p" "oamView (copyVY p) = oamView p"
  by (simp_all add: incrementVX_def incrementVY_def copyVX_def copyVY_def frame_simps)

lemma oam_incVideoRamAddr [frame_simps]: "oamView (incVideoRamAddr p) = oamView p"
  by (simp add: incVideoRamAddr_def Let_def frame_simps)

subsection \<open>A cycle\<close>

lemma oam_deferred [frame_simps]:
  "oamView (updateDeferredRegV p) = oamView p" "oamView (updateDeferredVideoRamIncrement p) = oamView p"
  "oamView (updateDeferredDataLatchArm p) = oamView p" "oamView (applyPendingVideoRamIncrement b p) = oamView p"
  by (simp_all add: updateDeferredRegV_def updateDeferredVideoRamIncrement_def updateDeferredDataLatchArm_def
      applyPendingVideoRamIncrement_def setBusAddress_def Let_def frame_simps)
    (simp_all add: oamView_def)

lemma oam_latch [frame_simps]: "oamView (updatePendingDataLatch E p) = oamView p"
  by (simp add: updatePendingDataLatch_def Let_def case_prod_unfold frame_simps)

lemma oam_a12 [frame_simps]: "oamView (updateA12Delay E p) = oamView p"
  by (simp add: updateA12Delay_def Let_def call_def oamView_def)

lemma oam_updateState:
  assumes "\<not> p_renderingEnabled p" "\<not> p_prevCycleRenderingEnabled p" "\<not> p_backgroundEnabled p" "\<not> p_spritesEnabled p"
  shows "oamView (updateState E p) = oamView p"
proof -
  let ?p = "p\<lparr>p_needUpdateState := False\<rparr>"
  have "syncRenderingEnabledFlag (handleRenderingEnabledTransition ?p) = ?p"
    using assms by (simp add: syncRenderingEnabledFlag_def handleRenderingEnabledTransition_def Let_def)
  then show ?thesis by (simp add: updateState_def Let_def frame_simps)
qed

lemma oam_fold: "(\<And>x p. oamView (f x p) = oamView p) \<Longrightarrow> oamView (fold f xs p) = oamView p"
  by (induction xs arbitrary: p) auto

lemma oam_decay [frame_simps]: "oamView (decayOpenBus p) = oamView p"
  unfolding decayOpenBus_def by (rule oam_fold) (simp add: decayBit_def Let_def oamView_def)

lemma oam_lineUpdate [frame_simps]:
  "oamView (p\<lparr>p_inOverclockLines := b\<rparr>) = oamView p" "oamView (p\<lparr>p_preLine := b\<rparr>) = oamView p"
  "oamView (p\<lparr>p_visibleLine := b\<rparr>) = oamView p" "oamView (p\<lparr>p_renderLine := b\<rparr>) = oamView p"
  "oamView (p\<lparr>p_spriteRenderClockingActiveThisLine := b\<rparr>) = oamView p" "oamView (p\<lparr>p_overclockFrame := b\<rparr>) = oamView p"
  "oamView (p\<lparr>p_spriteOverflow := b\<rparr>) = oamView p" "oamView (p\<lparr>p_sprite0Hit := b\<rparr>) = oamView p"
  "oamView (p\<lparr>FRAME_NUMBER_OF_LINES := i\<rparr>) = oamView p" "oamView (p\<lparr>FRAME_VBLANK_START_LINE := i\<rparr>) = oamView p"
  "oamView (p\<lparr>FRAME_VBLANK_END_LINE := i\<rparr>) = oamView p"
  by (simp_all add: oamView_def)

lemma oam_updateSettings [frame_simps]: "oamView (updateSettings S p) = oamView p"
  by (simp add: updateSettings_def oamView_def split: Region.split)

lemma oam_lineStart [frame_simps]:
  "oamView (setLineFlags S p) = oamView p" "oamView (lineEvents E S p) = oamView p"
proof -
  show "oamView (setLineFlags S p) = oamView p" by (simp add: setLineFlags_def Let_def frame_simps)
  have "oamView (startVisibleLine E S p) = oamView p" "oamView (frameReady E S p) = oamView p"
    by (simp_all add: startVisibleLine_def frameReady_def Let_def frame_simps)
  then show "oamView (lineEvents E S p) = oamView p" by (simp add: lineEvents_def frame_simps)
qed

lemma oam_onScanlineStart: "\<not> p_renderingEnabled p \<Longrightarrow> oamView (onScanlineStart E S p) = oamView p"
  by (simp add: onScanlineStart_def Let_def frame_simps)

lemma oam_parts [frame_simps]:
  "oamView (updateInterruptState p) = oamView p" "oamView (nextPixel p) = oamView p"
  "oamView (clockSpriteRenderers b p) = oamView p" "oamView (preLineEnd S r p) = oamView p"
  "oamView (ppuCycleVBlankStartLine p) = oamView p" "oamView (advanceDot p) = oamView p"
  by (simp_all add: updateInterruptState_def nextPixel_def clockSpriteRenderers_def preLineEnd_def
      ppuCycleVBlankStartLine_def advanceDot_def Let_def copyVY_def oamView_def)

lemma oam_renderPixel:
  assumes "\<not> p_backgroundEnabled p" "\<not> p_spritesEnabled p" "renderPixel E S p = Some q"
  shows "oamView q = oamView p"
  using assms by (auto simp: renderPixel_def Let_def case_prod_unfold frame_simps split: if_splits)

lemma oam_lineCycle:
  assumes "\<not> p_backgroundEnabled p" "\<not> p_spritesEnabled p" "lineCycle E S False False p = Some q"
  shows "oamView q = oamView p"
proof (cases "p_visibleLine p")
  case True
  then obtain t where t: "(if visibleCycle (p_cycle p) then renderPixel E S p else Some p) = Some t"
    using assms(3) by (cases "if visibleCycle (p_cycle p) then renderPixel E S p else Some p")
      (auto simp: lineCycle_def ppuCycleVisibleLine_def Let_def)
  then have "oamView t = oamView p" using oam_renderPixel[OF assms(1,2), of E S] by (auto split: if_splits)
  moreover have "oamView q = oamView t"
    using assms(3) True t by (auto simp: lineCycle_def ppuCycleVisibleLine_def Let_def frame_simps split: if_splits)
  ultimately show ?thesis by simp
next
  case False
  then show ?thesis using assms(3)
    by (auto simp: lineCycle_def ppuCyclePreRenderLine_def refreshOam_def frame_simps split: if_splits)
qed

text \<open>A cycle of a dark PPU is defined, keeps it dark and leaves the sprite memory alone.\<close>

lemma dark_cycle:
  assumes "dark p" "0 \<le> overclockLines S"
  shows "\<exists>q. ppuCycle E S p = Some q \<and> dark q \<and> oamView q = oamView p"
proof -
  have d: "ppu_ok p" "\<not> p_renderingEnabled p" "\<not> p_prevCycleRenderingEnabled p" "\<not> p_backgroundEnabled p"
    "\<not> p_spritesEnabled p" "length (p_primaryOam p) = 256" "\<not> oam_underrun p"
    using assms(1) by (simp_all add: dark_def oam_underrun_def)
  define a where "a = (if p_cycle p = 0 then onScanlineStart E S p else p)"
  have a: "oamView a = oamView p" using oam_onScanlineStart[OF d(2)] by (simp add: a_def)
  define b where "b = updateInterruptState (call (onPpuCycle E (p_scanline a) (p_cycle a)
               (p_renderLine a \<and> p_prevCycleRenderingEnabled a) (p_preLine a)) a)"
  have b: "oamView b = oamView p" using a by (simp add: b_def frame_simps)
  obtain q where q: "ppuCycle E S p = Some q" "ppu_ok q" using ppuCycle_effect(2)[OF d(1) assms(2) d(7)] by blast
  have e: "ppuCycle E S p = map_option (\<lambda>c. let d = advanceDot c in if p_needUpdateState d then updateState E d else d)
      (lineCycle E S False False b)"
    using oamViewD[OF a] d by (simp add: ppuCycle_parts Let_def a_def[symmetric] b_def)
  then obtain c where c: "lineCycle E S False False b = Some c"
      "q = (let d = advanceDot c in if p_needUpdateState d then updateState E d else d)"
    using q(1) by (cases "lineCycle E S False False b") auto
  have "oamView c = oamView p" using oam_lineCycle[OF _ _ c(1)] oamViewD[OF b] d b by simp
  then have "oamView (advanceDot c) = oamView p" by (simp add: frame_simps)
  then have "oamView q = oamView p"
    using c(2) oam_updateState[of "advanceDot c" E] oamViewD[of "advanceDot c" p] d by (simp add: Let_def)
  moreover have "dark q" using oamViewD[OF calculation] q(2) d by (simp add: dark_def)
  ultimately show ?thesis using q(1) by blast
qed

subsection \<open>Register accesses\<close>

text \<open>Everything a dark PPU is recognised by.\<close>

definition calmView :: "'c ppu \<Rightarrow> _" where
  "calmView p = (oamView p, screen p, geometry p, p_scanline p, p_cycle p)"

lemmas calm_defs = calmView_def oamView_def screen_def geometry_def

lemma calm_dark: "calmView q = calmView p \<Longrightarrow> dark q = dark p"
  by (simp add: calm_defs dark_def ppu_ok_def screen_ok_def frame_lines_def line_flags_def)

lemma calm_place: "place q = place p \<Longrightarrow> oamView q = oamView p \<Longrightarrow> calmView q = calmView p"
  using geometry_place[of q p] timingD[of q p] by (simp add: calmView_def place_def)

lemma calm_fields [frame_simps]:
  "calmView (p\<lparr>p_needUpdateState := b\<rparr>) = calmView p" "calmView (p\<lparr>p_needIncVideoRam := b\<rparr>) = calmView p"
  "calmView (p\<lparr>p_deferredPpuIo := d\<rparr>) = calmView p" "calmView (p\<lparr>p_dataLatch := v\<rparr>) = calmView p"
  "calmView (p\<lparr>p_cpuDmaReadInProgress := b\<rparr>) = calmView p" "calmView (p\<lparr>p_interruptFlag := b\<rparr>) = calmView p"
  "calmView (p\<lparr>p_VBlankHasStarted := b\<rparr>) = calmView p" "calmView (p\<lparr>p_reg_w := b\<rparr>) = calmView p"
  "calmView (p\<lparr>p_lastPPUSTATUSReadCycle := i\<rparr>) = calmView p" "calmView (p\<lparr>p_overclockFrame := b\<rparr>) = calmView p"
  by (simp_all add: calm_defs)

lemma calm_parts [frame_simps]:
  "calmView (call f p) = calmView p" "calmView (snd (call_value g p)) = calmView p"
  "calmView (snd (readPpuMemory E a p)) = calmView p" "calmView (snd (fakeReadPpuMemory E a p)) = calmView p"
  "calmView (incVideoRamAddr p) = calmView p" "calmView (commitPendingDataLatch v p) = calmView p"
  by (rule calm_place; simp add: frame_simps)+

lemma calm_openBus [frame_simps]: "calmView (updateOpenBus v m p) = calmView p"
  by (simp add: updateOpenBus_def calm_defs)

lemma calm_pending [frame_simps]:
  "calmView (completePendingPpuDataReadUpdate E p) = calmView p" "calmView (schedulePpuDataReadUpdate a p) = calmView p"
  "calmView (armDeferredVideoRamIncrement p) = calmView p" "calmView (armDeferredDataLatch a p) = calmView p"
  by (simp_all add: completePendingPpuDataReadUpdate_def schedulePpuDataReadUpdate_def
      armDeferredVideoRamIncrement_def armDeferredDataLatch_def Let_def case_prod_unfold frame_simps)

lemma calm_status [frame_simps]: "calmView (snd (readPPUSTATUS E n p)) = calmView p"
  by (simp add: readPPUSTATUS_def Let_def frame_simps)

lemma calm_data [frame_simps]: "calmView (snd (readPPUDATA E p)) = calmView p"
  by (simp add: readPPUDATA_def startDataRead_def Let_def case_prod_unfold frame_simps)

lemma calm_readRegister [frame_simps]: "calmView (snd (readRegister E a p)) = calmView p"
  by (simp add: readRegister_def Let_def case_prod_unfold frame_simps)

lemma calm_accessEnd [frame_simps]: "calmView (onCpuBusAccessEnd a p) = calmView p"
  by (simp add: onCpuBusAccessEnd_def Let_def frame_simps)

lemma calm_interrupt [frame_simps]: "calmView (snd (getInterruptFlag_ppu p)) = calmView p"
  by (simp add: getInterruptFlag_ppu_def frame_simps)

text \<open>A write of the data port: one byte, with the unused bits of an attribute byte cleared.\<close>

definition oam_byte :: "u8 \<Rightarrow> u8 \<Rightarrow> u8" where
  "oam_byte a v = (if a AND 0x03 = 0x02 then v AND 0xE3 else v)"

definition oam_store :: "u8 \<Rightarrow> u8 \<Rightarrow> u8 list \<Rightarrow> u8 list" where
  "oam_store a v oam = oam[unat a := oam_byte a v]"

lemma dark_writeOAM:
  assumes "dark p"
  shows "dark (writeRegister E S 0x2004 v p)"
    "p_primaryOam (writeRegister E S 0x2004 v p) = oam_store (p_oamAddr p) v (p_primaryOam p)"
    "p_oamAddr (writeRegister E S 0x2004 v p) = p_oamAddr p + 1"
proof -
  have w: "writeRegister E S 0x2004 v p = updateOpenBus v 0xFF (p\<lparr>p_primaryOam := oam_store (p_oamAddr p) v (p_primaryOam p),
      p_oamAddr := p_oamAddr p + 1\<rparr>)"
    using assms by (simp add: writeRegister_def writeOAMDATA_def isActivelyRendering_def dark_def oam_store_def oam_byte_def Let_def)
  let ?q = "p\<lparr>p_primaryOam := oam_store (p_oamAddr p) v (p_primaryOam p), p_oamAddr := p_oamAddr p + 1\<rparr>"
  have "dark ?q"
    using assms by (simp add: dark_def ppu_ok_def screen_ok_def frame_lines_def line_flags_def oam_store_def)
  moreover have "calmView (updateOpenBus v 0xFF ?q) = calmView ?q" by (rule calm_openBus)
  ultimately show "dark (writeRegister E S 0x2004 v p)" unfolding w using calm_dark by blast
  show "p_primaryOam (writeRegister E S 0x2004 v p) = oam_store (p_oamAddr p) v (p_primaryOam p)"
    "p_oamAddr (writeRegister E S 0x2004 v p) = p_oamAddr p + 1"
    by (simp_all add: w updateOpenBus_def)
qed

end
