(* ===== verification/Machine.thy ===== *)
theory Machine
  imports Console Ppu_Dark
begin

text \<open>
  The console with the PPU in its place: the operations \<open>dev_ops\<close> behind the console bus, with the
  PPU of \<open>Ppu_Cycle\<close> and, behind the PPU, the cartridge and the controllers as any operations \<open>C\<close>
  on a state of their own. In \<open>GeraNESEmu\<close> the members \<open>m_ppu\<close>, \<open>m_cartridge\<close> and the devices lie
  side by side; here the latter two are the environment \<open>p_env\<close> that the PPU calls into. \<open>None\<close> is a
  console in which the PPU has stored outside its memories.
\<close>

subsection \<open>The devices of the console\<close>

definition on_env :: "('c \<Rightarrow> 'c) \<Rightarrow> 'c ppu option \<Rightarrow> 'c ppu option" where
  "on_env f d = map_option (call f) d"

definition test_env :: "('c \<Rightarrow> bool) \<Rightarrow> 'c ppu option \<Rightarrow> bool" where
  "test_env f d = (case d of None \<Rightarrow> False | Some p \<Rightarrow> f (p_env p))"

definition value_env :: "'v \<Rightarrow> ('c \<Rightarrow> 'v \<times> 'c) \<Rightarrow> 'c ppu option \<Rightarrow> 'v \<times> 'c ppu option" where
  "value_env v f d = (case d of None \<Rightarrow> (v, None) | Some p \<Rightarrow> map_prod id Some (call_value f p))"

definition mach_read :: "'c ppu_ops \<Rightarrow> bool \<Rightarrow> u16 \<Rightarrow> 'c ppu \<Rightarrow> u8 \<times> 'c ppu" where
  "mach_read E dma addr p =
     (let (v, p) = readRegister E addr (setCpuDmaReadInProgress dma p)
      in (v, setCpuDmaReadInProgress False p))"

definition machine_ops :: "'c ppu_ops \<Rightarrow> ppu_settings \<Rightarrow> 'c dev_ops \<Rightarrow> 'c ppu option dev_ops" where
  "machine_ops E S C = \<lparr>
     cartridge_onCpuRead = \<lambda>a. on_env (cartridge_onCpuRead C a),
     cartridge_onCpuWrite = \<lambda>a v. on_env (cartridge_onCpuWrite C a v),
     cartridge_isNsf = test_env (cartridge_isNsf C), cartridge_isVsSystem = test_env (cartridge_isVsSystem C),
     cartridge_readMapperRegister = \<lambda>a v. value_env v (cartridge_readMapperRegister C a v),
     cartridge_writeMapperRegister = \<lambda>a v. on_env (cartridge_writeMapperRegister C a v),
     cartridge_readMapperRegisterAbsolute = \<lambda>a v. value_env v (cartridge_readMapperRegisterAbsolute C a v),
     cartridge_writeMapperRegisterAbsolute = \<lambda>a v. on_env (cartridge_writeMapperRegisterAbsolute C a v),
     cartridge_readSaveRam = \<lambda>a. value_env 0 (cartridge_readSaveRam C a),
     cartridge_writeSaveRam = \<lambda>a v. on_env (cartridge_writeSaveRam C a v),
     cartridge_readPrg = \<lambda>a. value_env 0 (cartridge_readPrg C a),
     cartridge_writePrg = \<lambda>a v. on_env (cartridge_writePrg C a v),
     cartridge_getInterruptFlag = test_env (cartridge_getInterruptFlag C),
     cartridge_cycle = on_env (cartridge_cycle C),
     cartridge_getExpansionAudioSample = on_env (cartridge_getExpansionAudioSample C),
     cartridge_consumeNsfRedirect = value_env None (cartridge_consumeNsfRedirect C),
     ppu_read = \<lambda>dma a v d. (case d of None \<Rightarrow> (v, None) | Some p \<Rightarrow> map_prod id Some (mach_read E dma a p)),
     ppu_write = \<lambda>a v. map_option (writeRegister E S a v),
     ppu_isOverclockFrame = \<lambda>d. (case d of None \<Rightarrow> False | Some p \<Rightarrow> p_overclockFrame p),
     ppu_clearOverclockFrame = map_option (\<lambda>p. p\<lparr>p_overclockFrame := False\<rparr>),
     ppu_overclockLines = \<lambda>d. (case d of None \<Rightarrow> False | Some p \<Rightarrow> p_inOverclockLines p),
     ppu_cycle = \<lambda>d. Option.bind d (ppuCycle E S),
     ppu_takeInterruptFlag = \<lambda>d. (case d of None \<Rightarrow> (False, None) | Some p \<Rightarrow> map_prod id Some (getInterruptFlag_ppu p)),
     ppu_onCpuBusAccessEnd = \<lambda>a w. map_option (onCpuBusAccessEnd a),
     hasFourScore = test_env (hasFourScore C), hasHoriAdapter = test_env (hasHoriAdapter C),
     hasPortDevice1 = test_env (hasPortDevice1 C), hasPortDevice2 = test_env (hasPortDevice2 C),
     hasExpansionDevice = test_env (hasExpansionDevice C), isAnyMultitapActive = test_env (isAnyMultitapActive C),
     fourScore_write = \<lambda>v. on_env (fourScore_write C v),
     fourScore_readPort = \<lambda>i b. value_env 0 (fourScore_readPort C i b),
     fourScore_transition = on_env (fourScore_transition C),
     horiAdapter_write4016 = \<lambda>v. on_env (horiAdapter_write4016 C v),
     horiAdapter_read4016 = \<lambda>b. value_env 0 (horiAdapter_read4016 C b),
     horiAdapter_read4017 = \<lambda>b. value_env 0 (horiAdapter_read4017 C b),
     horiAdapter_transition = on_env (horiAdapter_transition C),
     portDevice1_write = \<lambda>v. on_env (portDevice1_write C v),
     portDevice1_read = \<lambda>b. value_env 0 (portDevice1_read C b),
     portDevice1_transition = on_env (portDevice1_transition C),
     portDevice2_write = \<lambda>v. on_env (portDevice2_write C v),
     portDevice2_read = \<lambda>b. value_env 0 (portDevice2_read C b),
     portDevice2_extraRead4016Bits = \<lambda>d. (case d of None \<Rightarrow> 0 | Some p \<Rightarrow> portDevice2_extraRead4016Bits C (p_env p)),
     portDevice2_transition = on_env (portDevice2_transition C),
     expansionDevice_write4016 = \<lambda>v. on_env (expansionDevice_write4016 C v),
     expansionDevice_read4016 = \<lambda>b. value_env 0 (expansionDevice_read4016 C b),
     expansionDevice_read4017 = \<lambda>b. value_env 0 (expansionDevice_read4017 C b)\<rparr>"

subsection \<open>What leaves the sprite memory alone\<close>

definition keeps :: "'v \<Rightarrow> ('c ppu \<Rightarrow> 'v) \<Rightarrow> 'c ppu option \<Rightarrow> bool" where
  "keeps v f d \<longleftrightarrow> (\<exists>p. d = Some p \<and> f p = v)"

lemma keeps_env:
  assumes "keeps v calmView d"
  shows "keeps v calmView (on_env f d)" "keeps v calmView (snd (value_env u g d))"
    "keeps v calmView (map_option (onCpuBusAccessEnd a) d)" "keeps v calmView (map_option (\<lambda>p. p\<lparr>p_overclockFrame := b\<rparr>) d)"
  using assms by (auto simp: keeps_def on_env_def value_env_def frame_simps)

lemma keeps_ppu:
  assumes "keeps v calmView d"
  shows "keeps v calmView (snd (case d of None \<Rightarrow> (x, None) | Some p \<Rightarrow> map_prod id Some (mach_read E dma a p)))"
    "keeps v calmView (snd (case d of None \<Rightarrow> (False, None) | Some p \<Rightarrow> map_prod id Some (getInterruptFlag_ppu p)))"
  using assms by (auto simp: keeps_def mach_read_def setCpuDmaReadInProgress_def Let_def case_prod_unfold frame_simps)

named_theorems keep_simps

lemma keeps_ops [keep_simps]:
  assumes "keeps v calmView d"
  shows "keeps v calmView (cartridge_onCpuRead (machine_ops E S C) a d)"
    "keeps v calmView (cartridge_onCpuWrite (machine_ops E S C) a x d)"
    "keeps v calmView (snd (cartridge_readMapperRegister (machine_ops E S C) a x d))"
    "keeps v calmView (snd (cartridge_readMapperRegisterAbsolute (machine_ops E S C) a x d))"
    "keeps v calmView (snd (cartridge_readSaveRam (machine_ops E S C) a d))"
    "keeps v calmView (snd (cartridge_readPrg (machine_ops E S C) a d))"
    "keeps v calmView (cartridge_cycle (machine_ops E S C) d)"
    "keeps v calmView (cartridge_getExpansionAudioSample (machine_ops E S C) d)"
    "keeps v calmView (snd (cartridge_consumeNsfRedirect (machine_ops E S C) d))"
    "keeps v calmView (snd (ppu_read (machine_ops E S C) b a x d))"
    "keeps v calmView (snd (ppu_takeInterruptFlag (machine_ops E S C) d))"
    "keeps v calmView (ppu_onCpuBusAccessEnd (machine_ops E S C) a b d)"
    "keeps v calmView (snd (fourScore_readPort (machine_ops E S C) i b d))"
    "keeps v calmView (fourScore_transition (machine_ops E S C) d)"
    "keeps v calmView (snd (horiAdapter_read4016 (machine_ops E S C) b d))"
    "keeps v calmView (snd (horiAdapter_read4017 (machine_ops E S C) b d))"
    "keeps v calmView (horiAdapter_transition (machine_ops E S C) d)"
    "keeps v calmView (snd (portDevice1_read (machine_ops E S C) b d))"
    "keeps v calmView (portDevice1_transition (machine_ops E S C) d)"
    "keeps v calmView (snd (portDevice2_read (machine_ops E S C) b d))"
    "keeps v calmView (portDevice2_transition (machine_ops E S C) d)"
    "keeps v calmView (snd (expansionDevice_read4016 (machine_ops E S C) b d))"
    "keeps v calmView (snd (expansionDevice_read4017 (machine_ops E S C) b d))"
  using keeps_env[OF assms] keeps_ppu[OF assms] by (simp_all add: machine_ops_def)

lemma keeps_ports [keep_simps]:
  assumes "keeps v calmView d"
  shows "keeps v calmView (snd (ports4016 (machine_ops E S C) on d))" "keeps v calmView (snd (ports4017 (machine_ops E S C) on d))"
    "keeps v calmView (nes_onCpuGetToPutTransition (machine_ops E S C) d)"
  using assms by (simp_all add: ports4016_def ports4017_def nes_onCpuGetToPutTransition_def Let_def case_prod_unfold keep_simps)

lemma keeps_inputs [keep_simps]:
  assumes "keeps v calmView (n_dev e)"
  shows "keeps v calmView (n_dev (snd (read4016 (machine_ops E S C) w e)))"
    "keeps v calmView (n_dev (snd (read4017 (machine_ops E S C) w e)))"
  using assms by (simp_all add: read4016_def read4017_def Let_def case_prod_unfold keep_simps)

lemma keeps_read [keep_simps]:
  assumes "keeps v calmView (n_dev e)"
  shows "keeps v calmView (n_dev (snd (nes_read (machine_ops E S C) w a e)))"
  using assms by (simp add: nes_read_def readDecode_def Let_def case_prod_unfold keep_simps)

lemma ram_read [simp]: "n_ram (snd (nes_read P w a e)) = n_ram e"
  by (simp add: nes_read_def readDecode_def Let_def case_prod_unfold)

subsection \<open>Replaying the bus\<close>

text \<open>What the RAM and the sprite memory must hold after a sequence of bus accesses; \<open>None\<close> if a read
  of the RAM does not give what was stored.\<close>

type_synonym oam_state = "u8 list \<times> u8 list \<times> u8"

fun replay :: "bus_event list \<Rightarrow> oam_state \<Rightarrow> oam_state option" where
  "replay [] s = Some s"
| "replay (BusRead a v # l) (ram, oam, i) =
     (if a < 0x2000 \<and> ram ! ramIndex a \<noteq> v then None else replay l (ram, oam, i))"
| "replay (BusWrite a v # l) (ram, oam, i) =
     (if a < 0x2000 then replay l (ram[ramIndex a := v], oam, i)
      else if a = 0x2004 then replay l (ram, oam_store i v oam, i + 1)
      else replay l (ram, oam, i))"

lemma replay_append: "replay (l @ m) s = Option.bind (replay l s) (replay m)"
  by (induction l s rule: replay.induct) auto

definition oam_state :: "'c ppu option nes \<Rightarrow> oam_state" where
  "oam_state e = (n_ram e, p_primaryOam (the (n_dev e)), p_oamAddr (the (n_dev e)))"

definition tracked :: "oam_state \<Rightarrow> 'c ppu option nes \<times> bus_event list \<Rightarrow> bool" where
  "tracked s0 = (\<lambda>(e, l). nes_idle e \<and> (\<exists>p. n_dev e = Some p \<and> dark p) \<and> replay l s0 = Some (oam_state e))"

lemma tracked_keeps:
  assumes "tracked s0 (e, l)" "nes_idle e'" "n_ram e' = n_ram e"
    and "\<And>v. keeps v calmView (n_dev e) \<Longrightarrow> keeps v calmView (n_dev e')"
  shows "tracked s0 (e', l)"
proof -
  obtain p where p: "n_dev e = Some p" "dark p" "replay l s0 = Some (oam_state e)"
    using assms(1) by (auto simp: tracked_def)
  then obtain q where q: "n_dev e' = Some q" "calmView q = calmView p"
    using assms(4)[of "calmView p"] by (auto simp: keeps_def)
  then have "dark q" "p_primaryOam q = p_primaryOam p" "p_oamAddr q = p_oamAddr p"
    using p(2) calm_dark[OF q(2)] by (simp_all add: calmView_def oamView_def)
  then show ?thesis using p q assms(2,3) by (simp add: tracked_def oam_state_def)
qed

lemma tracked_cycle:
  assumes "tracked s0 (e, l)" "0 \<le> overclockLines S"
  shows "tracked s0 (e\<lparr>n_dev := ppu_cycle (machine_ops E S C) (n_dev e)\<rparr>, l)"
proof -
  obtain p where p: "n_dev e = Some p" "dark p" "nes_idle e" "replay l s0 = Some (oam_state e)"
    using assms(1) by (auto simp: tracked_def)
  obtain q where "ppuCycle E S p = Some q" "dark q" "oamView q = oamView p"
    using dark_cycle[OF p(2) assms(2)] by blast
  then show ?thesis using p oamViewD[of q p]
    by (simp add: tracked_def oam_state_def machine_ops_def nes_idle_def)
qed

lemma tracked_read:
  assumes "tracked s0 (e, l)"
  shows "tracked s0 (snd (nes_read (machine_ops E S C) w a e), l @ [BusRead a (fst (nes_read (machine_ops E S C) w a e))])"
proof -
  let ?r = "nes_read (machine_ops E S C) w a e"
  have "nes_idle (snd ?r)"
    using assms nes.quiet_read[of e "machine_ops E S C" w a] by (simp add: tracked_def nes_ops_def)
  then have "tracked s0 (snd ?r, l)"
    using tracked_keeps[OF assms, of "snd ?r"] keeps_read[of _ e] by simp
  moreover have "fst ?r = n_ram e ! ramIndex a" if "a < 0x2000"
    using that by (simp add: nes_read_def readDecode_def Let_def case_prod_unfold)
  ultimately show ?thesis by (auto simp: tracked_def replay_append oam_state_def)
qed

lemma tracked_cart_write:
  assumes "tracked s0 (e, l)"
  shows "tracked s0 (e\<lparr>n_internalDataBus := x, n_openBus := y, n_prevControllerReadAddr := z,
    n_dev := cartridge_onCpuWrite (machine_ops E S C) a d (n_dev e)\<rparr>, l)"
  by (rule tracked_keeps[OF assms]) (use assms in \<open>simp_all add: tracked_def nes_idle_def keep_simps\<close>)

lemma tracked_store:
  assumes "tracked s0 (e, l)" "a < 0x2000 \<or> a = 0x2004"
  shows "tracked s0 ((if a < 0x2000 then e\<lparr>n_ram := (n_ram e)[ramIndex a := d]\<rparr>
    else e\<lparr>n_dev := map_option (writeRegister E S 0x2004 d) (n_dev e)\<rparr>), l @ [BusWrite a d])"
proof -
  obtain p where p: "n_dev e = Some p" "dark p" "nes_idle e" "replay l s0 = Some (oam_state e)"
    using assms(1) by (auto simp: tracked_def)
  show ?thesis
    using p assms(2) dark_writeOAM[OF p(2), of E S d]
    by (auto simp: tracked_def replay_append oam_state_def nes_idle_def)
qed

lemma mach_ppu_write: "ppu_write (machine_ops E S C) a v = map_option (writeRegister E S a v)"
  by (simp add: machine_ops_def)

lemma nes_write_store:
  assumes "a < 0x2000 \<or> a = 0x2004"
  shows "snd (nes_write (machine_ops E S C) w a d e) =
     (let e' = (if a < 0x2000 then e\<lparr>n_ram := (n_ram e)[ramIndex a := d]\<rparr>
          else e\<lparr>n_dev := map_option (writeRegister E S 0x2004 d) (n_dev e)\<rparr>)
      in e'\<lparr>n_internalDataBus := (if v_dmaRead w then n_internalDataBus e else d), n_openBus := d,
         n_prevControllerReadAddr := 0xFFFF,
         n_dev := cartridge_onCpuWrite (machine_ops E S C) a d (n_dev e')\<rparr>)"
proof (cases "a < 0x2000")
  case True
  then show ?thesis by (simp add: nes_write_def writeDecode_def Let_def)
next
  case False
  with assms have "a = 0x2004" by simp
  then show ?thesis by (simp add: nes_write_def writeDecode_def Let_def mach_ppu_write)
qed

lemma tracked_write:
  assumes "tracked s0 (e, l)" "a < 0x2000 \<or> a = 0x2004"
  shows "tracked s0 (snd (nes_write (machine_ops E S C) w a d e), l @ [BusWrite a d])"
  unfolding nes_write_store[OF assms(2)] Let_def
  by (rule tracked_cart_write, rule tracked_store[OF assms])

text \<open>The contract of a quiet bus, with the invariant that the memories follow the accesses.\<close>

lemma tracked_quiet:
  assumes "0 \<le> overclockLines S"
  shows "quiet_bus (traced (nes_ops (machine_ops E S C))) (tracked s0)"
proof
  fix x :: "'a ppu option nes \<times> bus_event list" and v a d w
  assume t: "tracked s0 x"
  obtain e l where x: "x = (e, l)" by (cases x)
  have i: "nes_idle e" using t by (simp add: x tracked_def)
  let ?P = "machine_ops E S C" and ?T = "traced (nes_ops (machine_ops E S C))"
  note k = tracked_keeps[OF t[unfolded x]]
  have dev: "tracked s0 (e\<lparr>n_dev := d\<rparr>, l)" if "\<And>v. keeps v calmView (n_dev e) \<Longrightarrow> keeps v calmView d" for d
    using k[of "e\<lparr>n_dev := d\<rparr>"] i that by (simp add: nes_idle_def)
  show "fst (apu_processDmcControlDelays ?T x) = [] \<and> tracked s0 (snd (apu_processDmcControlDelays ?T x))"
    using nes.quiet_delays[OF i, of ?P] k[of "e\<lparr>n_apu := snd (apu_controlDelays (n_apu e))\<rparr>"]
    by (simp add: traced_def nes_ops_def x Let_def case_prod_unfold)
  show "fst (apu_cycle ?T x) = [] \<and> tracked s0 (snd (apu_cycle ?T x))"
    using nes.quiet_apu[OF i, of ?P] k[of "e\<lparr>n_apu := snd (apu_step (n_region e) (n_apu e))\<rparr>"]
    by (simp add: traced_def nes_ops_def x Let_def case_prod_unfold)
  show "tracked s0 (snd (bus_read ?T v a x))"
    using tracked_read[of s0 e l E S C v a] t by (simp add: traced_def nes_ops_def x Let_def case_prod_unfold)
  show "fst (bus_write ?T v a d x) = [] \<and> tracked s0 (snd (bus_write ?T v a d x))" if "a < 0x2000 \<or> a = 0x2004"
    using tracked_write[of s0 e l a E S C v d] nes.quiet_write[OF i that, of ?P v d] t that
    by (simp add: traced_def nes_ops_def x Let_def case_prod_unfold)
  show "tracked s0 (bus_onCpuBusAccessEnd ?T a w x)" "tracked s0 (bus_onCpuGetToPutTransition ?T x)"
    "tracked s0 (snd (ppu_getInterruptFlag ?T x))" "tracked s0 (apu_processExpansionAudioSample ?T x)"
    "tracked s0 (cart_cycle ?T x)" "tracked s0 (snd (cart_consumeNsfPlayerInstructionRedirect ?T x))"
    by (simp_all add: traced_def nes_ops_def x Let_def case_prod_unfold) (rule dev, simp add: keep_simps)+
  show "tracked s0 (ppu_ppuCycle ?T x)"
    using tracked_cycle[of s0 e l S E C] t assms by (simp add: traced_def nes_ops_def x)
qed

subsection \<open>Uploading the sprites\<close>

fun upload :: "u8 list \<Rightarrow> u8 \<Rightarrow> u8 list \<Rightarrow> u8 list" where
  "upload oam i [] = oam"
| "upload oam i (v # vs) = upload (oam_store i v oam) (i + 1) vs"

lemma upload_other:
  "length vs \<le> unat (a - i) \<Longrightarrow> upload oam i vs ! unat a = oam ! unat a"
proof (induction vs arbitrary: oam i)
  case (Cons v vs)
  then have "a \<noteq> i" "0 < unat (a - i)" by auto
  then have "unat (a - (i + 1)) = unat (a - i) - 1" by (simp add: unat_sub_if_size diff_diff_add[symmetric] unat_minus_one)
  moreover have "oam_store i v oam ! unat a = oam ! unat a"
    using \<open>a \<noteq> i\<close> by (simp add: oam_store_def word_unat_eq_iff)
  ultimately show ?case using Cons by simp
qed simp

lemma upload_nth:
  assumes "length oam = 256" "length vs \<le> 256" "j < length vs"
  shows "upload oam i vs ! unat (i + of_nat j) = oam_byte (i + of_nat j) (vs ! j)"
  using assms
proof (induction vs arbitrary: oam i j)
  case (Cons v vs)
  show ?case
  proof (cases j)
    case 0
    have "unat (i - (i + 1)) = 255" by (simp add: unsigned_minus_1_eq_mask mask_eq_exp_minus_1)
    then show ?thesis
      using 0 Cons.prems upload_other[of vs i "i + 1" "oam_store i v oam"] by (simp add: oam_store_def)
  next
    case (Suc k)
    then show ?thesis using Cons.IH[of "oam_store i v oam" k "i + 1"] Cons.prems
      by (simp add: oam_store_def add.assoc add.commute add.left_commute)
  qed
qed simp

lemma replay_reads: "replay (map (BusRead a) vs) s = Some r \<Longrightarrow> r = s"
  by (induction vs) (auto split: if_splits, cases s, auto split: if_splits)

lemma replay_transfer:
  assumes "replay (oam_events page k vs) (ram, oam, i) = Some r" "\<And>j. oam_addr page j < 0x2000"
  shows "(\<forall>j < length vs. vs ! j = ram ! ramIndex (oam_addr page (k + j))) \<and>
    r = (ram, upload oam i vs, i + of_nat (length vs))"
  using assms(1)
proof (induction vs arbitrary: k oam i)
  case (Cons v vs)
  then have "v = ram ! ramIndex (oam_addr page k)" "replay (oam_events page (Suc k) vs) (ram, oam_store i v oam, i + 1) = Some r"
    using assms(2)[of k] by (auto simp: oam_events_Cons split: if_splits)
  with Cons.IH[of "Suc k" "oam_store i v oam" "i + 1"] show ?case by (auto simp: nth_Cons' algebra_simps)
qed (simp add: oam_events_def)

lemma ram_page:
  assumes "page < 0x20"
  shows "oam_addr page j < 0x2000" "j < 256 \<Longrightarrow> ramIndex (oam_addr page j) = (256 * unat page + j) mod 2048"
proof -
  have e: "oam_addr page j = MAKE16 (word_of_nat j) page" for j by (simp add: MAKE16_def or.commute)
  have u: "unat (oam_addr page j) = unat (word_of_nat j :: u8) + 256 * unat page" for j
    unfolding e by (simp add: unat_MAKE16)
  have "unat (word_of_nat j :: u8) < 256" "unat page < 32" using assms by (simp_all add: word_less_nat_alt)
  then have "unat (oam_addr page j) < 8192" unfolding u by linarith
  then show "oam_addr page j < 0x2000" by (simp add: word_less_nat_alt)
  have "(x :: u16) AND 0x7FF = take_bit 11 x" for x by (simp add: take_bit_eq_mask mask_eq_exp_minus_1)
  then have r: "ramIndex x = unat x mod 2048" for x by (simp add: ramIndex_def take_bit_eq_mod unat_mod_distrib)
  show "ramIndex (oam_addr page j) = (256 * unat page + j) mod 2048" if "j < 256"
    using that unfolding r u by (simp add: unat_of_nat add.commute)
qed

subsection \<open>Properties\<close>

text \<open>
  C3: a sprite upload through \<open>$4014\<close> works on the whole machine. On a console whose screen is blank and
  whose sample channel is idle, with any cartridge and any controllers, the transfer that the CPU
  runs into after a write of a RAM page to \<open>$4014\<close> ends after 513 or 514 cycles; the PPU has then
  run its cycles without leaving its memories, every byte of the page is in the sprite memory, in
  order from the sprite address on and with the three unused bits of the attribute bytes cleared, and
  the sprite address, the RAM and the CPU registers are what they were.
\<close>
theorem sprite_upload:
  fixes page :: u8
  assumes "env s = (e, [])" "nes_idle e" "n_dev e = Some p" "dark p" "0 \<le> overclockLines S"
    and "m_dma s = startOamDma (push_bit 8 (ucast page)) d"
    and "\<not> d_dmcDmaRunning d" "\<not> d_dmcAbortPending d" "\<not> d_dmcSingleCycleAbortPending d"
    and "a AND 0xFFE0 \<noteq> 0x4000" "page < 0x20"
  shows "\<exists>t e' l q. processPending (traced (nes_ops (machine_ops E S C))) a False s = Some t \<and>
     m_runCount t = m_runCount s + (if isDmaGetCycle s then 514 else 513) \<and> core t = core s \<and>
     env t = (e', l) \<and> n_ram e' = n_ram e \<and> n_dev e' = Some q \<and> dark q \<and> p_oamAddr q = p_oamAddr p \<and>
     (\<forall>i < 256. p_primaryOam q ! unat (p_oamAddr p + of_nat i) =
        oam_byte (p_oamAddr p + of_nat i) (n_ram e ! ((256 * unat page + i) mod 2048)))"
proof -
  let ?s0 = "(n_ram e, p_primaryOam p, p_oamAddr p)"
  have len: "length (p_primaryOam p) = 256" using assms(4) by (simp add: dark_def)
  have "tracked ?s0 (env s)" using assms(1-4) by (simp add: tracked_def oam_state_def)
  moreover have "page \<noteq> 0x40" using assms(11) by auto
  ultimately obtain t vs dummies where t: "processPending (traced (nes_ops (machine_ops E S C))) a False s = Some t"
      "m_runCount t = m_runCount s + (if isDmaGetCycle s then 514 else 513)" "length vs = 256"
      "snd (env t) = map (BusRead a) dummies @ oam_events page 0 vs" "core t = core s" "tracked ?s0 (env t)"
    using oam_transfer_quiet[OF tracked_quiet[OF assms(5)] _ assms(6-10), of ?s0 E C] assms(1) by auto
  obtain e' l where e': "env t = (e', l)" by (cases "env t")
  then obtain q where q: "n_dev e' = Some q" "dark q" "replay l ?s0 = Some (n_ram e', p_primaryOam q, p_oamAddr q)"
    using t(6) by (auto simp: tracked_def oam_state_def)
  have "replay (oam_events page 0 vs) ?s0 = Some (n_ram e', p_primaryOam q, p_oamAddr q)"
    using q(3) t(4) replay_reads[of a dummies ?s0] by (auto simp: e' replay_append bind_eq_Some_conv)
  from replay_transfer[OF this ram_page(1)[OF assms(11)]] t(3)
  have r: "\<forall>j < 256. vs ! j = n_ram e ! ramIndex (oam_addr page j)" "n_ram e' = n_ram e"
    "p_primaryOam q = upload (p_primaryOam p) (p_oamAddr p) vs" "p_oamAddr q = p_oamAddr p"
    by auto
  have "p_primaryOam q ! unat (p_oamAddr p + of_nat i) =
        oam_byte (p_oamAddr p + of_nat i) (n_ram e ! ((256 * unat page + i) mod 2048))" if "i < 256" for i
    using upload_nth[OF len, of vs i "p_oamAddr p"] that r(1,3) t(3) ram_page(2)[OF assms(11) that] by simp
  then show ?thesis using t e' q r by blast
qed

text \<open>A console with an NROM cartridge and nothing in its ports.\<close>

definition nrom_dev :: "base_mapper dev_ops" where
  "nrom_dev = bare\<lparr>
     cartridge_readPrg := \<lambda>a m. (case m000_readPrg m (uint a) of Some v \<Rightarrow> (v, m) | None \<Rightarrow> (0, m)),
     cartridge_readSaveRam := \<lambda>a m. (case base_readSaveRam m (uint a) of Some v \<Rightarrow> (v, m) | None \<Rightarrow> (0, m)),
     cartridge_writeSaveRam := \<lambda>a v m. (case base_writeSaveRam (uint a) v m of Some m' \<Rightarrow> m' | None \<Rightarrow> m)\<rparr>"

definition nrom_console :: "base_mapper ppu option nes" where
  "nrom_console = \<lparr>n_ram = replicate 0x200 0 @ replicate 0x100 7 @ replicate 0x500 0, n_openBus = 0,
     n_internalDataBus = 0, n_prevControllerReadAddr = 0xFFFF, n_4011WriteCounter = 0, n_region = NTSC,
     n_apu = apu0, n_hw = hw_reset, n_dev = Some (ppu_blank (base_init None even_cart))\<rparr>"

definition nrom_cpu :: "(base_mapper ppu option nes \<times> bus_event list) cpu" where
  "nrom_cpu = cpu0 (startOamDma 0x0200 dma_init) (nrom_console, [])"

lemma nrom_console_ready:
  "nes_idle nrom_console" "n_dev nrom_console = Some (ppu_blank (base_init None even_cart))"
  "dark (ppu_blank c)" "m_dma nrom_cpu = startOamDma (push_bit 8 (ucast (2 :: u8))) dma_init"
  "env nrom_cpu = (nrom_console, [])"
proof -
  show "dark (ppu_blank c)"
    using ppu_blank_ok[of 0 c] by (simp add: dark_def) (simp add: ppu_blank_def)
qed (simp_all add: nrom_console_def nrom_cpu_def cpu0_def nes_idle_def apu_idle_def apu0_def dmc_idle_def dmc_init_def)

theorem sprite_upload_witness:
  "\<exists>t e' l q. processPending (traced (nes_ops (machine_ops nrom_ops ntsc nrom_dev))) 0x8000 False nrom_cpu = Some t \<and>
     env t = (e', l) \<and> n_dev e' = Some q \<and> p_primaryOam q ! 5 = 7"
proof -
  have r: "0 \<le> overclockLines ntsc" "\<not> d_dmcDmaRunning dma_init" "\<not> d_dmcAbortPending dma_init"
    "\<not> d_dmcSingleCycleAbortPending dma_init" "(0x8000 :: u16) AND 0xFFE0 \<noteq> 0x4000" "(2 :: u8) < 0x20"
    by (simp_all add: ntsc_def dma_init_def)
  have v: "p_oamAddr (ppu_blank (base_init None even_cart)) = 0" by (simp add: ppu_blank_def)
  have m: "n_ram nrom_console ! 517 = 7" by (simp add: nrom_console_def nth_append)
  show ?thesis
    using sprite_upload[OF nrom_console_ready(5,1,2) nrom_console_ready(3) r(1) nrom_console_ready(4) r(2-6),
        of nrom_ops nrom_dev] v m by (auto simp: oam_byte_def dest!: spec[of _ 5])
qed

end
