(* ===== verification/Net_Packet.thy ===== *)
theory Net_Packet
  imports Prelude
begin

text \<open>
  The packet reader and writer of the netplay library (\<open>ConsoleNetplay/NetSerialization.h\<close>). A writer
  is the bytes written so far; a reader is the bytes that it has not read yet (the code keeps the
  whole packet and an offset, and looks at nothing before the offset). A failed read is \<open>None\<close>: the
  callers give up on \<open>false\<close> and never look at the half-filled argument. Integers are copied as they
  lie in the memory of the host, which is little-endian on every platform the program is built for;
  an enumeration is the integer of its underlying type, which a packet may fill with any value.
  Strings are their bytes.

  The locale \<open>codec\<close> is what the protocol relies on: a value is written behind what is there, and
  reading accepts exactly what writing produces. Its lemmas (round trip, refusal of truncated
  packets, no two meanings of a packet) are then proved once for every message.
\<close>

type_synonym u64 = "64 word"

type_synonym bytes = "u8 list"

type_synonym 'a reader = "bytes \<Rightarrow> ('a \<times> bytes) option"

subsection \<open>The writer\<close>

definition pod_bytes :: "'a::len word \<Rightarrow> bytes" where
  "pod_bytes v = map (\<lambda>i. ucast (drop_bit (8 * i) v)) [0..<LENGTH('a) div 8]"

definition writePod :: "'a::len word \<Rightarrow> bytes \<Rightarrow> bytes" where
  "writePod v w = w @ pod_bytes v"

definition writeBytes :: "bytes \<Rightarrow> bytes \<Rightarrow> bytes" where
  "writeBytes b w = w @ b"

definition writeString :: "bytes \<Rightarrow> bytes \<Rightarrow> bytes" where
  "writeString s w = (let n = of_nat (length s) :: u16; w = writePod n w in writeBytes s w)"

subsection \<open>The reader\<close>

definition pod_value :: "bytes \<Rightarrow> 'a::len word" where
  "pod_value b = word_of_int (horner_sum uint (2 ^ 8) b)"

definition readPod :: "'a::len word reader" where
  "readPod r = (if LENGTH('a) div 8 > length r then None
     else Some (pod_value (take (LENGTH('a) div 8) r), drop (LENGTH('a) div 8) r))"

definition readBytes :: "nat \<Rightarrow> bytes reader" where
  "readBytes n r = (if n > length r then None else Some (take n r, drop n r))"

definition readString :: "bytes reader" where
  "readString r = do {
     (n :: u16, r) \<leftarrow> readPod r;
     readBytes (unat n) r }"

definition skip :: "nat \<Rightarrow> bytes \<Rightarrow> bytes option" where
  "skip n r = (if n > length r then None else Some (drop n r))"

definition remaining :: "bytes \<Rightarrow> nat" where
  "remaining r = length r"

subsection \<open>Reading accepts exactly what was written\<close>

named_theorems reads

lemma guard_iff [reads]: "(if c then None else x) = Some y \<longleftrightarrow> \<not> c \<and> x = Some y"
  by simp

lemma length_pod_bytes [simp]: "length (pod_bytes (v :: 'a::len word)) = LENGTH('a) div 8"
  by (simp add: pod_bytes_def)

lemma bit_pod_value:
  "bit (pod_value b :: 'a::len word) n \<longleftrightarrow> n < LENGTH('a) \<and> n div 8 < length b \<and> bit (b ! (n div 8)) (n mod 8)"
  using bit_horner_sum_uint_exp_iff[of b n] by (simp add: pod_value_def bit_word_of_int_iff)

lemma pod_value_bytes:
  assumes "8 dvd LENGTH('a::len)"
  shows "pod_value (pod_bytes v) = (v :: 'a word)"
proof (rule bit_word_eqI)
  fix n assume n: "n < LENGTH('a)"
  then have "n div 8 < LENGTH('a) div 8" using assms by (simp add: dvd_def) auto
  with n show "bit (pod_value (pod_bytes v) :: 'a word) n = bit v n"
    by (simp add: bit_pod_value pod_bytes_def bit_simps)
qed

lemma pod_bytes_value:
  assumes "length b = LENGTH('a::len) div 8"
  shows "pod_bytes (pod_value b :: 'a word) = b"
proof (rule nth_equalityI)
  fix i assume i: "i < length (pod_bytes (pod_value b :: 'a word))"
  have "bit (pod_bytes (pod_value b :: 'a word) ! i) n = bit (b ! i) n" if "n < 8" for n
  proof -
    have "8 * i + n < LENGTH('a)" using i that by simp
    moreover have "(8 * i + n) div 8 = i" "(8 * i + n) mod 8 = n" using that by simp_all
    ultimately show ?thesis using i that assms by (simp add: pod_bytes_def bit_simps bit_pod_value)
  qed
  then show "pod_bytes (pod_value b :: 'a word) ! i = b ! i"
    by (intro bit_word_eqI) simp
qed (use assms in simp)

lemma readPod_iff:
  assumes "8 dvd LENGTH('a::len)"
  shows "readPod r = Some (v :: 'a word, r') \<longleftrightarrow> r = pod_bytes v @ r'"
proof
  assume "readPod r = Some (v, r')"
  then have "v = pod_value (take (LENGTH('a) div 8) r)" "r' = drop (LENGTH('a) div 8) r" "LENGTH('a) div 8 \<le> length r"
    by (auto simp: readPod_def split: if_splits)
  then show "r = pod_bytes v @ r'" by (simp add: pod_bytes_value)
next
  assume "r = pod_bytes v @ r'"
  then show "readPod r = Some (v, r')" by (simp add: readPod_def pod_value_bytes[OF assms])
qed

lemma readPod_sizes [reads]:
  "readPod r = Some (v8 :: u8, r') \<longleftrightarrow> r = pod_bytes v8 @ r'"
  "readPod r = Some (v16 :: u16, r') \<longleftrightarrow> r = pod_bytes v16 @ r'"
  "readPod r = Some (v32 :: u32, r') \<longleftrightarrow> r = pod_bytes v32 @ r'"
  "readPod r = Some (v64 :: u64, r') \<longleftrightarrow> r = pod_bytes v64 @ r'"
  by (rule readPod_iff, simp)+

lemma readBytes_iff [reads]: "readBytes n r = Some (b, r') \<longleftrightarrow> length b = n \<and> r = b @ r'"
  by (auto simp: readBytes_def)

lemma readString_iff [reads]:
  "readString r = Some (s, r') \<longleftrightarrow> length s < 65536 \<and> r = writeString s [] @ r'"
proof -
  have "length s < 65536" if "unat z = length s" for z :: u16
    using unat_u16_less[of z] unfolding that by simp
  then have "length s < 65536 \<and> of_nat (length s) = z \<longleftrightarrow> unat z = length s" for z :: u16
    by (fastforce simp: unat_of_nat word_unat_eq_iff)
  then show ?thesis
    by (force simp: readString_def reads bind_eq_Some_conv writeString_def writePod_def writeBytes_def)
qed

subsection \<open>Values and their packets\<close>

locale codec =
  fixes put :: "'a \<Rightarrow> bytes \<Rightarrow> bytes" and get :: "'a reader" and ok :: "'a \<Rightarrow> bool"
  assumes put_append: "put v w = w @ put v []"
    and get_iff: "get r = Some (v, r') \<longleftrightarrow> ok v \<and> r = put v [] @ r'"
begin

lemma round: "ok v \<Longrightarrow> get (put v [] @ r) = Some (v, r)"
  by (simp add: get_iff)

lemma not_ok: "\<not> ok v \<Longrightarrow> get r \<noteq> Some (v, r')"
  by (simp add: get_iff)

lemma get_shorter:
  assumes "get r = Some (v, r')"
  shows "length r' \<le> length r"
  using assms unfolding get_iff by simp

lemma unambiguous:
  assumes "ok v" "ok v'" "put v [] @ r = put v' [] @ r'"
  shows "v = v' \<and> r = r'"
proof -
  have "Some (v, r) = Some (v', r')" using round[OF assms(1), of r] round[OF assms(2), of r'] unfolding assms(3) by simp
  then show ?thesis by simp
qed

lemma truncated_packet:
  assumes "ok v" "put v [] = p @ x" "x \<noteq> []"
  shows "get p = None"
proof (rule ccontr)
  assume "get p \<noteq> None"
  then obtain u q where "get p = Some (u, q)" by auto
  then have u: "ok u" "p = put u [] @ q" by (simp_all add: get_iff)
  then show False using unambiguous[OF assms(1) u(1), of "[]" "q @ x"] assms(2,3) by simp
qed

lemma extended: "get r = Some (v, r') \<Longrightarrow> get (r @ x) = Some (v, r' @ x)"
  by (simp add: get_iff)

end

text \<open>A count in one byte, then as many elements: the loops of the messages with lists.\<close>

fun writeAll :: "('a \<Rightarrow> bytes \<Rightarrow> bytes) \<Rightarrow> 'a list \<Rightarrow> bytes \<Rightarrow> bytes" where
  "writeAll put [] w = w"
| "writeAll put (x # xs) w = writeAll put xs (put x w)"

fun readAll :: "'a reader \<Rightarrow> nat \<Rightarrow> 'a list reader" where
  "readAll get 0 r = Some ([], r)"
| "readAll get (Suc n) r = do {
     (x, r) \<leftarrow> get r;
     (xs, r) \<leftarrow> readAll get n r;
     Some (x # xs, r) }"

definition writeCounted :: "('a \<Rightarrow> bytes \<Rightarrow> bytes) \<Rightarrow> 'a list \<Rightarrow> bytes \<Rightarrow> bytes" where
  "writeCounted put xs w =
     (let count = of_nat (min (length xs) 255) :: u8; w = writePod count w
      in writeAll put (take (unat count) xs) w)"

definition readCounted :: "'a reader \<Rightarrow> 'a list reader" where
  "readCounted get r = do {
     (count :: u8, r) \<leftarrow> readPod r;
     readAll get (unat count) r }"

lemma writeAll_appends:
  assumes "\<And>x w. put x w = w @ put x []"
  shows "writeAll put xs w = w @ writeAll put xs []"
proof (induction xs arbitrary: w)
  case (Cons x xs)
  show ?case using Cons.IH[of "put x w"] Cons.IH[of "put x []"] assms[of x w] by simp
qed simp

lemma length_writeAll:
  assumes "\<And>x w. length (put x w) = length w + f x"
  shows "length (writeAll put xs w) = length w + sum_list (map f xs)"
  by (induction xs arbitrary: w) (simp_all add: assms)

context codec
begin

lemmas writeAll_append = writeAll_appends[of put, OF put_append]

lemma readAll_iff:
  "readAll get n r = Some (xs, r') \<longleftrightarrow> length xs = n \<and> (\<forall>x \<in> set xs. ok x) \<and> r = writeAll put xs [] @ r'"
proof (induction n arbitrary: r xs)
  case (Suc n)
  show ?case
  proof (cases xs)
    case (Cons y ys)
    then show ?thesis
      using writeAll_append[of ys "put y []"] by (auto simp: bind_eq_Some_conv get_iff Suc)
  qed (auto simp: bind_eq_Some_conv)
qed auto

lemma writeCounted_append: "writeCounted put xs w = w @ writeCounted put xs []"
  using writeAll_append[of _ "w @ pod_bytes (_ :: u8)"] writeAll_append[of _ "pod_bytes (_ :: u8)"]
  by (simp add: writeCounted_def writePod_def Let_def)

lemma readCounted_iff:
  "readCounted get r = Some (xs, r') \<longleftrightarrow>
     length xs \<le> 255 \<and> (\<forall>x \<in> set xs. ok x) \<and> r = writeCounted put xs [] @ r'"
proof -
  have small: "length xs \<le> 255" if "length xs = unat n" for n :: u8
    using unat_u8_less[of n] unfolding that[symmetric] by simp
  have "n = of_nat (min (length xs) 255) \<longleftrightarrow> length xs = unat n" if "length xs \<le> 255" for n :: u8
    using that by (auto simp: word_unat_eq_iff unat_of_nat)
  then show ?thesis
    using small writeAll_append[of xs "pod_bytes (_ :: u8)"]
    by (auto simp: readCounted_def bind_eq_Some_conv reads readAll_iff writeCounted_def writePod_def Let_def unat_of_nat)
qed

end

named_theorems packets

interpretation pod8: codec "writePod :: u8 \<Rightarrow> _" readPod "\<lambda>_. True"
  by unfold_locales (simp_all add: writePod_def reads)

interpretation pod16: codec "writePod :: u16 \<Rightarrow> _" readPod "\<lambda>_. True"
  by unfold_locales (simp_all add: writePod_def reads)

interpretation pod32: codec "writePod :: u32 \<Rightarrow> _" readPod "\<lambda>_. True"
  by unfold_locales (simp_all add: writePod_def reads)

interpretation pod64: codec "writePod :: u64 \<Rightarrow> _" readPod "\<lambda>_. True"
  by unfold_locales (simp_all add: writePod_def reads)

interpretation str: codec writeString readString "\<lambda>s. length s < 65536"
  by unfold_locales (simp_all add: writeString_def writePod_def writeBytes_def Let_def reads)

lemmas writes = writePod_def writeBytes_def

end
