(* ===== verification/Net_Protocol.thy ===== *)
theory Net_Protocol
  imports Net_Packet
begin

text \<open>
  The messages of the netplay protocol (\<open>ConsoleNetplay/NetProtocol.h\<close>, \<open>NetProtocol.cpp\<close>): one record
  per struct, with its \<open>serialize\<close>, \<open>deserialize\<close> and \<open>serializedSize\<close>. Every message interprets the
  locale \<open>codec\<close> of \<open>Net_Packet\<close>; the condition in the interpretation says which values survive the
  way over the network: lists of at most 255 elements, labels shorter than 64 KB, chat messages
  within their limits. The request for a resynchronisation has an optional last member and is
  treated by itself.
\<close>

definition kMaxRomHashBytes :: nat where "kMaxRomHashBytes = 32"

definition kMaxDisplayNameBytes :: nat where "kMaxDisplayNameBytes = 32"

definition kMaxChatMessageBytes :: nat where "kMaxChatMessageBytes = 256"

subsection \<open>The messages\<close>

record PacketHeader =
  ph_protocolVersion :: u8
  ph_type :: u16
  ph_sessionId :: u32

definition PacketHeader_serialize :: "PacketHeader \<Rightarrow> bytes \<Rightarrow> bytes" where
  "PacketHeader_serialize d w =
     (let w = writePod (ph_protocolVersion d) w;
          w = writePod (ph_type d) w
      in writePod (ph_sessionId d) w)"

definition PacketHeader_deserialize :: "PacketHeader reader" where
  "PacketHeader_deserialize r = do {
     (a0, r) \<leftarrow> readPod r;
     (a1, r) \<leftarrow> readPod r;
     (a2, r) \<leftarrow> readPod r;
     Some (\<lparr>ph_protocolVersion = a0, ph_type = a1, ph_sessionId = a2\<rparr>, r) }"

record RomValidationData =
  rv_romCrc32 :: u32
  rv_mapperId :: u16
  rv_subMapperId :: u16
  rv_prgRomSize :: u32
  rv_chrRomSize :: u32
  rv_chrRamSize :: u32
  rv_fileSize :: u32
  rv_contentHash :: bytes

definition RomValidationData_serialize :: "RomValidationData \<Rightarrow> bytes \<Rightarrow> bytes" where
  "RomValidationData_serialize d w =
     (let w = writePod (rv_romCrc32 d) w;
          w = writePod (rv_mapperId d) w;
          w = writePod (rv_subMapperId d) w;
          w = writePod (rv_prgRomSize d) w;
          w = writePod (rv_chrRomSize d) w;
          w = writePod (rv_chrRamSize d) w;
          w = writePod (rv_fileSize d) w
      in writeBytes (rv_contentHash d) w)"

definition RomValidationData_deserialize :: "RomValidationData reader" where
  "RomValidationData_deserialize r = do {
     (a0, r) \<leftarrow> readPod r;
     (a1, r) \<leftarrow> readPod r;
     (a2, r) \<leftarrow> readPod r;
     (a3, r) \<leftarrow> readPod r;
     (a4, r) \<leftarrow> readPod r;
     (a5, r) \<leftarrow> readPod r;
     (a6, r) \<leftarrow> readPod r;
     (a7, r) \<leftarrow> readBytes kMaxRomHashBytes r;
     Some (\<lparr>rv_romCrc32 = a0, rv_mapperId = a1, rv_subMapperId = a2, rv_prgRomSize = a3,
       rv_chrRomSize = a4, rv_chrRamSize = a5, rv_fileSize = a6, rv_contentHash = a7\<rparr>,
       r) }"

record JoinRoomData =
  jr_reconnectToken :: u64
  jr_romLoaded :: u8
  jr_romValidation :: RomValidationData

definition JoinRoomData_serialize :: "JoinRoomData \<Rightarrow> bytes \<Rightarrow> bytes" where
  "JoinRoomData_serialize d w =
     (let w = writePod (jr_reconnectToken d) w;
          w = writePod (jr_romLoaded d) w
      in RomValidationData_serialize (jr_romValidation d) w)"

definition JoinRoomData_deserialize :: "JoinRoomData reader" where
  "JoinRoomData_deserialize r = do {
     (a0, r) \<leftarrow> readPod r;
     (a1, r) \<leftarrow> readPod r;
     (a2, r) \<leftarrow> RomValidationData_deserialize r;
     Some (\<lparr>jr_reconnectToken = a0, jr_romLoaded = a1, jr_romValidation = a2\<rparr>, r) }"

record JoinRejectedData =
  jx_reason :: u8
  jx_romValidation :: RomValidationData

definition JoinRejectedData_serialize :: "JoinRejectedData \<Rightarrow> bytes \<Rightarrow> bytes" where
  "JoinRejectedData_serialize d w =
     (let w = writePod (jx_reason d) w
      in RomValidationData_serialize (jx_romValidation d) w)"

definition JoinRejectedData_deserialize :: "JoinRejectedData reader" where
  "JoinRejectedData_deserialize r = do {
     (a0, r) \<leftarrow> readPod r;
     (a1, r) \<leftarrow> RomValidationData_deserialize r;
     Some (\<lparr>jx_reason = a0, jx_romValidation = a1\<rparr>, r) }"

record RomValidationResultData =
  rr_participantId :: u8
  rr_romLoaded :: u8
  rr_romCompatible :: u8
  rr_romValidation :: RomValidationData

definition RomValidationResultData_serialize :: "RomValidationResultData \<Rightarrow> bytes \<Rightarrow> bytes" where
  "RomValidationResultData_serialize d w =
     (let w = writePod (rr_participantId d) w;
          w = writePod (rr_romLoaded d) w;
          w = writePod (rr_romCompatible d) w
      in RomValidationData_serialize (rr_romValidation d) w)"

definition RomValidationResultData_deserialize :: "RomValidationResultData reader" where
  "RomValidationResultData_deserialize r = do {
     (a0, r) \<leftarrow> readPod r;
     (a1, r) \<leftarrow> readPod r;
     (a2, r) \<leftarrow> readPod r;
     (a3, r) \<leftarrow> RomValidationData_deserialize r;
     Some (\<lparr>rr_participantId = a0, rr_romLoaded = a1, rr_romCompatible = a2, rr_romValidation = a3\<rparr>, r) }"

record TopologySlot =
  ts_slot :: u8
  ts_assignable :: u8
  ts_groupId :: u16
  ts_deviceId :: u16
  ts_groupLabel :: bytes
  ts_inputLabel :: bytes

definition TopologySlot_serialize :: "TopologySlot \<Rightarrow> bytes \<Rightarrow> bytes" where
  "TopologySlot_serialize d w =
     (let w = writePod (ts_slot d) w;
          w = writePod (ts_assignable d) w;
          w = writePod (ts_groupId d) w;
          w = writePod (ts_deviceId d) w;
          w = writeString (ts_groupLabel d) w
      in writeString (ts_inputLabel d) w)"

definition TopologySlot_deserialize :: "TopologySlot reader" where
  "TopologySlot_deserialize r = do {
     (a0, r) \<leftarrow> readPod r;
     (a1, r) \<leftarrow> readPod r;
     (a2, r) \<leftarrow> readPod r;
     (a3, r) \<leftarrow> readPod r;
     (a4, r) \<leftarrow> readString r;
     (a5, r) \<leftarrow> readString r;
     Some (\<lparr>ts_slot = a0, ts_assignable = a1, ts_groupId = a2, ts_deviceId = a3,
       ts_groupLabel = a4, ts_inputLabel = a5\<rparr>, r) }"

record InputTopologyData =
  it_slots :: "TopologySlot list"

definition InputTopologyData_serialize :: "InputTopologyData \<Rightarrow> bytes \<Rightarrow> bytes" where
  "InputTopologyData_serialize d w = writeCounted TopologySlot_serialize (it_slots d) w"

definition InputTopologyData_deserialize :: "InputTopologyData reader" where
  "InputTopologyData_deserialize r = do {
     (a0, r) \<leftarrow> readCounted TopologySlot_deserialize r;
     Some (\<lparr>it_slots = a0\<rparr>, r) }"

record InputFrameData =
  if_timelineEpoch :: u32
  if_frame :: u32
  if_authoritativeFrameStartClockMicros :: u64
  if_participantId :: u8
  if_playerSlot :: u8
  if_buttonMaskLo :: u64
  if_buttonMaskHi :: u64
  if_sequence :: u32
  if_payloadSize :: u16

definition InputFrameData_serialize :: "InputFrameData \<Rightarrow> bytes \<Rightarrow> bytes" where
  "InputFrameData_serialize d w =
     (let w = writePod (if_timelineEpoch d) w;
          w = writePod (if_frame d) w;
          w = writePod (if_authoritativeFrameStartClockMicros d) w;
          w = writePod (if_participantId d) w;
          w = writePod (if_playerSlot d) w;
          w = writePod (if_buttonMaskLo d) w;
          w = writePod (if_buttonMaskHi d) w;
          w = writePod (if_sequence d) w
      in writePod (if_payloadSize d) w)"

definition InputFrameData_deserialize :: "InputFrameData reader" where
  "InputFrameData_deserialize r = do {
     (a0, r) \<leftarrow> readPod r;
     (a1, r) \<leftarrow> readPod r;
     (a2, r) \<leftarrow> readPod r;
     (a3, r) \<leftarrow> readPod r;
     (a4, r) \<leftarrow> readPod r;
     (a5, r) \<leftarrow> readPod r;
     (a6, r) \<leftarrow> readPod r;
     (a7, r) \<leftarrow> readPod r;
     (a8, r) \<leftarrow> readPod r;
     Some (\<lparr>if_timelineEpoch = a0, if_frame = a1, if_authoritativeFrameStartClockMicros = a2,
       if_participantId = a3, if_playerSlot = a4, if_buttonMaskLo = a5,
       if_buttonMaskHi = a6, if_sequence = a7, if_payloadSize = a8\<rparr>, r) }"

record ConfirmedInputFramesData =
  cf_timelineEpoch :: u32
  cf_startFrame :: u32
  cf_frameCount :: u16

definition ConfirmedInputFramesData_serialize :: "ConfirmedInputFramesData \<Rightarrow> bytes \<Rightarrow> bytes" where
  "ConfirmedInputFramesData_serialize d w =
     (let w = writePod (cf_timelineEpoch d) w;
          w = writePod (cf_startFrame d) w
      in writePod (cf_frameCount d) w)"

definition ConfirmedInputFramesData_deserialize :: "ConfirmedInputFramesData reader" where
  "ConfirmedInputFramesData_deserialize r = do {
     (a0, r) \<leftarrow> readPod r;
     (a1, r) \<leftarrow> readPod r;
     (a2, r) \<leftarrow> readPod r;
     Some (\<lparr>cf_timelineEpoch = a0, cf_startFrame = a1, cf_frameCount = a2\<rparr>, r) }"

record SlotMask =
  sm_slot :: u8
  sm_buttonMaskLo :: u64
  sm_buttonMaskHi :: u64

definition SlotMask_serialize :: "SlotMask \<Rightarrow> bytes \<Rightarrow> bytes" where
  "SlotMask_serialize d w =
     (let w = writePod (sm_slot d) w;
          w = writePod (sm_buttonMaskLo d) w
      in writePod (sm_buttonMaskHi d) w)"

definition SlotMask_deserialize :: "SlotMask reader" where
  "SlotMask_deserialize r = do {
     (a0, r) \<leftarrow> readPod r;
     (a1, r) \<leftarrow> readPod r;
     (a2, r) \<leftarrow> readPod r;
     Some (\<lparr>sm_slot = a0, sm_buttonMaskLo = a1, sm_buttonMaskHi = a2\<rparr>, r) }"

record ConfirmedInputFrameEntry =
  ce_authoritativeFrameStartClockMicros :: u64
  ce_slotMasks :: "SlotMask list"
  ce_payloadSize :: u16

definition ConfirmedInputFrameEntry_serialize :: "ConfirmedInputFrameEntry \<Rightarrow> bytes \<Rightarrow> bytes" where
  "ConfirmedInputFrameEntry_serialize d w =
     (let w = writePod (ce_authoritativeFrameStartClockMicros d) w;
          w = writeCounted SlotMask_serialize (ce_slotMasks d) w
      in writePod (ce_payloadSize d) w)"

definition ConfirmedInputFrameEntry_deserialize :: "ConfirmedInputFrameEntry reader" where
  "ConfirmedInputFrameEntry_deserialize r = do {
     (a0, r) \<leftarrow> readPod r;
     (a1, r) \<leftarrow> readCounted SlotMask_deserialize r;
     (a2, r) \<leftarrow> readPod r;
     Some (\<lparr>ce_authoritativeFrameStartClockMicros = a0, ce_slotMasks = a1, ce_payloadSize = a2\<rparr>, r) }"

record InputAckData =
  ia_timelineEpoch :: u32
  ia_participantId :: u8
  ia_playerSlot :: u8
  ia_contiguousFrame :: u32
  ia_sequence :: u32

definition InputAckData_serialize :: "InputAckData \<Rightarrow> bytes \<Rightarrow> bytes" where
  "InputAckData_serialize d w =
     (let w = writePod (ia_timelineEpoch d) w;
          w = writePod (ia_participantId d) w;
          w = writePod (ia_playerSlot d) w;
          w = writePod (ia_contiguousFrame d) w
      in writePod (ia_sequence d) w)"

definition InputAckData_deserialize :: "InputAckData reader" where
  "InputAckData_deserialize r = do {
     (a0, r) \<leftarrow> readPod r;
     (a1, r) \<leftarrow> readPod r;
     (a2, r) \<leftarrow> readPod r;
     (a3, r) \<leftarrow> readPod r;
     (a4, r) \<leftarrow> readPod r;
     Some (\<lparr>ia_timelineEpoch = a0, ia_participantId = a1, ia_playerSlot = a2,
       ia_contiguousFrame = a3, ia_sequence = a4\<rparr>, r) }"

record FrameStatusData =
  fs_timelineEpoch :: u32
  fs_currentFrame :: u32
  fs_lastConfirmedFrame :: u32
  fs_inputDelayFrames :: u8
  fs_topology :: InputTopologyData

definition FrameStatusData_serialize :: "FrameStatusData \<Rightarrow> bytes \<Rightarrow> bytes" where
  "FrameStatusData_serialize d w =
     (let w = writePod (fs_timelineEpoch d) w;
          w = writePod (fs_currentFrame d) w;
          w = writePod (fs_lastConfirmedFrame d) w;
          w = writePod (fs_inputDelayFrames d) w
      in InputTopologyData_serialize (fs_topology d) w)"

definition FrameStatusData_deserialize :: "FrameStatusData reader" where
  "FrameStatusData_deserialize r = do {
     (a0, r) \<leftarrow> readPod r;
     (a1, r) \<leftarrow> readPod r;
     (a2, r) \<leftarrow> readPod r;
     (a3, r) \<leftarrow> readPod r;
     (a4, r) \<leftarrow> InputTopologyData_deserialize r;
     Some (\<lparr>fs_timelineEpoch = a0, fs_currentFrame = a1, fs_lastConfirmedFrame = a2,
       fs_inputDelayFrames = a3, fs_topology = a4\<rparr>, r) }"

record AssignControllerData =
  ac_participantId :: u8
  ac_controllerAssignments :: "u8 list"

definition AssignControllerData_serialize :: "AssignControllerData \<Rightarrow> bytes \<Rightarrow> bytes" where
  "AssignControllerData_serialize d w =
     (let w = writePod (ac_participantId d) w
      in writeCounted writePod (ac_controllerAssignments d) w)"

definition AssignControllerData_deserialize :: "AssignControllerData reader" where
  "AssignControllerData_deserialize r = do {
     (a0, r) \<leftarrow> readPod r;
     (a1, r) \<leftarrow> readCounted readPod r;
     Some (\<lparr>ac_participantId = a0, ac_controllerAssignments = a1\<rparr>, r) }"

record ParticipantLeftData =
  pl_participantId :: u8
  pl_disconnectReason :: u32

definition ParticipantLeftData_serialize :: "ParticipantLeftData \<Rightarrow> bytes \<Rightarrow> bytes" where
  "ParticipantLeftData_serialize d w =
     (let w = writePod (pl_participantId d) w
      in writePod (pl_disconnectReason d) w)"

definition ParticipantLeftData_deserialize :: "ParticipantLeftData reader" where
  "ParticipantLeftData_deserialize r = do {
     (a0, r) \<leftarrow> readPod r;
     (a1, r) \<leftarrow> readPod r;
     Some (\<lparr>pl_participantId = a0, pl_disconnectReason = a1\<rparr>, r) }"

record LeaveRoomData =
  lr_participantId :: u8

definition LeaveRoomData_serialize :: "LeaveRoomData \<Rightarrow> bytes \<Rightarrow> bytes" where
  "LeaveRoomData_serialize d w = writePod (lr_participantId d) w"

definition LeaveRoomData_deserialize :: "LeaveRoomData reader" where
  "LeaveRoomData_deserialize r = do {
     (a0, r) \<leftarrow> readPod r;
     Some (\<lparr>lr_participantId = a0\<rparr>, r) }"

record ChatMessageData =
  cm_participantId :: u8
  cm_displayName :: bytes
  cm_text :: bytes

definition ChatMessageData_serialize :: "ChatMessageData \<Rightarrow> bytes \<Rightarrow> bytes" where
  "ChatMessageData_serialize d w =
     (let w = writePod (cm_participantId d) w;
          w = writeString (cm_displayName d) w
      in writeString (cm_text d) w)"

definition ChatMessageData_deserialize :: "ChatMessageData reader" where
  "ChatMessageData_deserialize r = do {
     (a0, r) \<leftarrow> readPod r;
     (a1, r) \<leftarrow> readString r;
     (a2, r) \<leftarrow> readString r;
     
       if length a1 > kMaxDisplayNameBytes \<or> a2 = [] \<or> length a2 > kMaxChatMessageBytes then None
     else Some (\<lparr>cm_participantId = a0,
       cm_displayName = a1, cm_text = a2\<rparr>, r) }"

record StartSessionData =
  ss_state :: u8
  ss_inputDelayFrames :: u8
  ss_topology :: InputTopologyData

definition StartSessionData_serialize :: "StartSessionData \<Rightarrow> bytes \<Rightarrow> bytes" where
  "StartSessionData_serialize d w =
     (let w = writePod (ss_state d) w;
          w = writePod (ss_inputDelayFrames d) w
      in InputTopologyData_serialize (ss_topology d) w)"

definition StartSessionData_deserialize :: "StartSessionData reader" where
  "StartSessionData_deserialize r = do {
     (a0, r) \<leftarrow> readPod r;
     (a1, r) \<leftarrow> readPod r;
     (a2, r) \<leftarrow> InputTopologyData_deserialize r;
     Some (\<lparr>ss_state = a0, ss_inputDelayFrames = a1, ss_topology = a2\<rparr>, r) }"

record PeerHealthData =
  hd_participantId :: u8
  hd_currentFrame :: u32
  hd_lastConfirmedFrame :: u32
  hd_lastProducedLocalInputFrame :: u32
  hd_lastProducedLocalInputSequence :: u32
  hd_localAssignmentCount :: u8
  hd_lastLocalInputRejectReason :: u8
  hd_lastLocalInputRejectFrame :: u32
  hd_lastLocalInputRejectExpectedFrame :: u32
  hd_pingMs :: u16
  hd_jitterMs :: u16
  hd_sharedClockMicros :: u64
  hd_clockSyncRttMicros :: u64
  hd_sharedClockSynchronized :: u8

definition PeerHealthData_serialize :: "PeerHealthData \<Rightarrow> bytes \<Rightarrow> bytes" where
  "PeerHealthData_serialize d w =
     (let w = writePod (hd_participantId d) w;
          w = writePod (hd_currentFrame d) w;
          w = writePod (hd_lastConfirmedFrame d) w;
          w = writePod (hd_lastProducedLocalInputFrame d) w;
          w = writePod (hd_lastProducedLocalInputSequence d) w;
          w = writePod (hd_localAssignmentCount d) w;
          w = writePod (hd_lastLocalInputRejectReason d) w;
          w = writePod (hd_lastLocalInputRejectFrame d) w;
          w = writePod (hd_lastLocalInputRejectExpectedFrame d) w;
          w = writePod (hd_pingMs d) w;
          w = writePod (hd_jitterMs d) w;
          w = writePod (hd_sharedClockMicros d) w;
          w = writePod (hd_clockSyncRttMicros d) w
      in writePod (hd_sharedClockSynchronized d) w)"

definition PeerHealthData_deserialize :: "PeerHealthData reader" where
  "PeerHealthData_deserialize r = do {
     (a0, r) \<leftarrow> readPod r;
     (a1, r) \<leftarrow> readPod r;
     (a2, r) \<leftarrow> readPod r;
     (a3, r) \<leftarrow> readPod r;
     (a4, r) \<leftarrow> readPod r;
     (a5, r) \<leftarrow> readPod r;
     (a6, r) \<leftarrow> readPod r;
     (a7, r) \<leftarrow> readPod r;
     (a8, r) \<leftarrow> readPod r;
     (a9, r) \<leftarrow> readPod r;
     (a10, r) \<leftarrow> readPod r;
     (a11, r) \<leftarrow> readPod r;
     (a12, r) \<leftarrow> readPod r;
     (a13, r) \<leftarrow> readPod r;
     Some (\<lparr>hd_participantId = a0, hd_currentFrame = a1, hd_lastConfirmedFrame = a2,
       hd_lastProducedLocalInputFrame = a3, hd_lastProducedLocalInputSequence = a4,
       hd_localAssignmentCount = a5, hd_lastLocalInputRejectReason = a6,
       hd_lastLocalInputRejectFrame = a7, hd_lastLocalInputRejectExpectedFrame = a8,
       hd_pingMs = a9, hd_jitterMs = a10, hd_sharedClockMicros = a11,
       hd_clockSyncRttMicros = a12, hd_sharedClockSynchronized = a13\<rparr>, r) }"

record ClockSyncRequestData =
  cq_sequence :: u32
  cq_clientSendMicros :: u64

definition ClockSyncRequestData_serialize :: "ClockSyncRequestData \<Rightarrow> bytes \<Rightarrow> bytes" where
  "ClockSyncRequestData_serialize d w =
     (let w = writePod (cq_sequence d) w
      in writePod (cq_clientSendMicros d) w)"

definition ClockSyncRequestData_deserialize :: "ClockSyncRequestData reader" where
  "ClockSyncRequestData_deserialize r = do {
     (a0, r) \<leftarrow> readPod r;
     (a1, r) \<leftarrow> readPod r;
     Some (\<lparr>cq_sequence = a0, cq_clientSendMicros = a1\<rparr>, r) }"

record ClockSyncResponseData =
  cs_sequence :: u32
  cs_clientSendMicros :: u64
  cs_hostReceiveMicros :: u64
  cs_hostSendMicros :: u64

definition ClockSyncResponseData_serialize :: "ClockSyncResponseData \<Rightarrow> bytes \<Rightarrow> bytes" where
  "ClockSyncResponseData_serialize d w =
     (let w = writePod (cs_sequence d) w;
          w = writePod (cs_clientSendMicros d) w;
          w = writePod (cs_hostReceiveMicros d) w
      in writePod (cs_hostSendMicros d) w)"

definition ClockSyncResponseData_deserialize :: "ClockSyncResponseData reader" where
  "ClockSyncResponseData_deserialize r = do {
     (a0, r) \<leftarrow> readPod r;
     (a1, r) \<leftarrow> readPod r;
     (a2, r) \<leftarrow> readPod r;
     (a3, r) \<leftarrow> readPod r;
     Some (\<lparr>cs_sequence = a0, cs_clientSendMicros = a1, cs_hostReceiveMicros = a2,
       cs_hostSendMicros = a3\<rparr>, r) }"

record CrcReportData =
  cr_timelineEpoch :: u32
  cr_frame :: u32
  cr_crc32 :: u32
  cr_severity :: u8
  cr_submissionSource :: u8
  cr_senderLocalSimulationFrame :: u32
  cr_senderConfirmedFrame :: u32

definition CrcReportData_serialize :: "CrcReportData \<Rightarrow> bytes \<Rightarrow> bytes" where
  "CrcReportData_serialize d w =
     (let w = writePod (cr_timelineEpoch d) w;
          w = writePod (cr_frame d) w;
          w = writePod (cr_crc32 d) w;
          w = writePod (cr_severity d) w;
          w = writePod (cr_submissionSource d) w;
          w = writePod (cr_senderLocalSimulationFrame d) w
      in writePod (cr_senderConfirmedFrame d) w)"

definition CrcReportData_deserialize :: "CrcReportData reader" where
  "CrcReportData_deserialize r = do {
     (a0, r) \<leftarrow> readPod r;
     (a1, r) \<leftarrow> readPod r;
     (a2, r) \<leftarrow> readPod r;
     (a3, r) \<leftarrow> readPod r;
     (a4, r) \<leftarrow> readPod r;
     (a5, r) \<leftarrow> readPod r;
     (a6, r) \<leftarrow> readPod r;
     Some (\<lparr>cr_timelineEpoch = a0, cr_frame = a1, cr_crc32 = a2, cr_severity = a3,
       cr_submissionSource = a4, cr_senderLocalSimulationFrame = a5,
       cr_senderConfirmedFrame = a6\<rparr>, r) }"

record ResyncBeginData =
  rb_resyncId :: u32
  rb_timelineEpoch :: u32
  rb_targetFrame :: u32
  rb_confirmedFrame :: u32
  rb_frameReadyFrame :: u32
  rb_payloadSize :: u32
  rb_payloadCrc32 :: u32
  rb_stateCrc32 :: u32
  rb_frameReadyCrc32 :: u32
  rb_inputSequenceBase :: u32
  rb_reason :: u8

definition ResyncBeginData_serialize :: "ResyncBeginData \<Rightarrow> bytes \<Rightarrow> bytes" where
  "ResyncBeginData_serialize d w =
     (let w = writePod (rb_resyncId d) w;
          w = writePod (rb_timelineEpoch d) w;
          w = writePod (rb_targetFrame d) w;
          w = writePod (rb_confirmedFrame d) w;
          w = writePod (rb_frameReadyFrame d) w;
          w = writePod (rb_payloadSize d) w;
          w = writePod (rb_payloadCrc32 d) w;
          w = writePod (rb_stateCrc32 d) w;
          w = writePod (rb_frameReadyCrc32 d) w;
          w = writePod (rb_inputSequenceBase d) w
      in writePod (rb_reason d) w)"

definition ResyncBeginData_deserialize :: "ResyncBeginData reader" where
  "ResyncBeginData_deserialize r = do {
     (a0, r) \<leftarrow> readPod r;
     (a1, r) \<leftarrow> readPod r;
     (a2, r) \<leftarrow> readPod r;
     (a3, r) \<leftarrow> readPod r;
     (a4, r) \<leftarrow> readPod r;
     (a5, r) \<leftarrow> readPod r;
     (a6, r) \<leftarrow> readPod r;
     (a7, r) \<leftarrow> readPod r;
     (a8, r) \<leftarrow> readPod r;
     (a9, r) \<leftarrow> readPod r;
     (a10, r) \<leftarrow> readPod r;
     Some (\<lparr>rb_resyncId = a0, rb_timelineEpoch = a1, rb_targetFrame = a2,
       rb_confirmedFrame = a3, rb_frameReadyFrame = a4, rb_payloadSize = a5,
       rb_payloadCrc32 = a6, rb_stateCrc32 = a7, rb_frameReadyCrc32 = a8,
       rb_inputSequenceBase = a9, rb_reason = a10\<rparr>, r) }"

record ResyncChunkData =
  rc_resyncId :: u32
  rc_offset :: u32
  rc_size :: u16

definition ResyncChunkData_serialize :: "ResyncChunkData \<Rightarrow> bytes \<Rightarrow> bytes" where
  "ResyncChunkData_serialize d w =
     (let w = writePod (rc_resyncId d) w;
          w = writePod (rc_offset d) w
      in writePod (rc_size d) w)"

definition ResyncChunkData_deserialize :: "ResyncChunkData reader" where
  "ResyncChunkData_deserialize r = do {
     (a0, r) \<leftarrow> readPod r;
     (a1, r) \<leftarrow> readPod r;
     (a2, r) \<leftarrow> readPod r;
     Some (\<lparr>rc_resyncId = a0, rc_offset = a1, rc_size = a2\<rparr>, r) }"

record ResyncCompleteData =
  rd_resyncId :: u32

definition ResyncCompleteData_serialize :: "ResyncCompleteData \<Rightarrow> bytes \<Rightarrow> bytes" where
  "ResyncCompleteData_serialize d w = writePod (rd_resyncId d) w"

definition ResyncCompleteData_deserialize :: "ResyncCompleteData reader" where
  "ResyncCompleteData_deserialize r = do {
     (a0, r) \<leftarrow> readPod r;
     Some (\<lparr>rd_resyncId = a0\<rparr>, r) }"

record ResyncAckData =
  ra_resyncId :: u32
  ra_participantId :: u8
  ra_loadedFrame :: u32
  ra_crc32 :: u32
  ra_success :: u8

definition ResyncAckData_serialize :: "ResyncAckData \<Rightarrow> bytes \<Rightarrow> bytes" where
  "ResyncAckData_serialize d w =
     (let w = writePod (ra_resyncId d) w;
          w = writePod (ra_participantId d) w;
          w = writePod (ra_loadedFrame d) w;
          w = writePod (ra_crc32 d) w
      in writePod (ra_success d) w)"

definition ResyncAckData_deserialize :: "ResyncAckData reader" where
  "ResyncAckData_deserialize r = do {
     (a0, r) \<leftarrow> readPod r;
     (a1, r) \<leftarrow> readPod r;
     (a2, r) \<leftarrow> readPod r;
     (a3, r) \<leftarrow> readPod r;
     (a4, r) \<leftarrow> readPod r;
     Some (\<lparr>ra_resyncId = a0, ra_participantId = a1, ra_loadedFrame = a2, ra_crc32 = a3,
       ra_success = a4\<rparr>, r) }"

record ResyncAbortData =
  rx_resyncId :: u32
  rx_participantId :: u8
  rx_reason :: u8

definition ResyncAbortData_serialize :: "ResyncAbortData \<Rightarrow> bytes \<Rightarrow> bytes" where
  "ResyncAbortData_serialize d w =
     (let w = writePod (rx_resyncId d) w;
          w = writePod (rx_participantId d) w
      in writePod (rx_reason d) w)"

definition ResyncAbortData_deserialize :: "ResyncAbortData reader" where
  "ResyncAbortData_deserialize r = do {
     (a0, r) \<leftarrow> readPod r;
     (a1, r) \<leftarrow> readPod r;
     (a2, r) \<leftarrow> readPod r;
     Some (\<lparr>rx_resyncId = a0, rx_participantId = a1, rx_reason = a2\<rparr>, r) }"

record ResyncRequestData =
  rq_timelineEpoch :: u32
  rq_participantId :: u8
  rq_reason :: u8
  rq_localFrame :: u32
  rq_estimatedHostFrame :: u32
  rq_confirmedThroughFrame :: u32
  rq_lagFrames :: u16
  rq_catchupBudgetFrames :: u16
  rq_source :: u16
  rq_flags :: u16

definition ResyncRequestData_serialize :: "ResyncRequestData \<Rightarrow> bytes \<Rightarrow> bytes" where
  "ResyncRequestData_serialize d w =
     (let w = writePod (rq_participantId d) w;
          w = writePod (rq_reason d) w;
          w = writePod (rq_localFrame d) w;
          w = writePod (rq_estimatedHostFrame d) w;
          w = writePod (rq_confirmedThroughFrame d) w;
          w = writePod (rq_lagFrames d) w;
          w = writePod (rq_catchupBudgetFrames d) w;
          w = writePod (rq_source d) w;
          w = writePod (rq_flags d) w
      in writePod (rq_timelineEpoch d) w)"

definition ResyncRequestData_deserialize :: "ResyncRequestData reader" where
  "ResyncRequestData_deserialize r = do {
     (a1, r) \<leftarrow> readPod r;
     (a2, r) \<leftarrow> readPod r;
     (a3, r) \<leftarrow> readPod r;
     (a4, r) \<leftarrow> readPod r;
     (a5, r) \<leftarrow> readPod r;
     (a6, r) \<leftarrow> readPod r;
     (a7, r) \<leftarrow> readPod r;
     (a8, r) \<leftarrow> readPod r;
     (a9, r) \<leftarrow> readPod r;
     (a0, r) \<leftarrow> (if remaining r \<ge> 4 then readPod r else Some (0, r));
     Some (\<lparr>rq_timelineEpoch = a0, rq_participantId = a1, rq_reason = a2, rq_localFrame = a3,
       rq_estimatedHostFrame = a4, rq_confirmedThroughFrame = a5, rq_lagFrames = a6,
       rq_catchupBudgetFrames = a7, rq_source = a8, rq_flags = a9\<rparr>, r) }"

text \<open>\<open>serializedSize\<close>, which the senders use to reserve memory.\<close>

definition PacketHeader_serializedSize :: nat where
  "PacketHeader_serializedSize = 1 + 2 + 4"

definition TopologySlot_serializedSize :: "TopologySlot \<Rightarrow> nat" where
  "TopologySlot_serializedSize d = 1 + 1 + 2 + 2 + 2 + length (ts_groupLabel d) + 2 + length (ts_inputLabel d)"

definition InputTopologyData_serializedSize :: "InputTopologyData \<Rightarrow> nat" where
  "InputTopologyData_serializedSize d = 1 + sum_list (map TopologySlot_serializedSize (it_slots d))"

definition ConfirmedInputFrameEntry_serializedSize :: "ConfirmedInputFrameEntry \<Rightarrow> nat" where
  "ConfirmedInputFrameEntry_serializedSize d = 8 + 1 + (1 + 8 + 8) * length (ce_slotMasks d) + 2"

definition FrameStatusData_serializedSize :: "FrameStatusData \<Rightarrow> nat" where
  "FrameStatusData_serializedSize d = 4 + 4 + 4 + 1 + InputTopologyData_serializedSize (fs_topology d)"

definition AssignControllerData_serializedSize :: "AssignControllerData \<Rightarrow> nat" where
  "AssignControllerData_serializedSize d = 1 + 1 + 1 * length (ac_controllerAssignments d)"

definition StartSessionData_serializedSize :: "StartSessionData \<Rightarrow> nat" where
  "StartSessionData_serializedSize d = 1 + 1 + InputTopologyData_serializedSize (ss_topology d)"

subsection \<open>Which values can be sent\<close>

definition slot_ok :: "TopologySlot \<Rightarrow> bool" where
  "slot_ok d \<longleftrightarrow> length (ts_groupLabel d) < 65536 \<and> length (ts_inputLabel d) < 65536"

definition topology_ok :: "InputTopologyData \<Rightarrow> bool" where
  "topology_ok d \<longleftrightarrow> length (it_slots d) \<le> 255 \<and> (\<forall>s \<in> set (it_slots d). slot_ok s)"

definition chat_ok :: "ChatMessageData \<Rightarrow> bool" where
  "chat_ok d \<longleftrightarrow> length (cm_displayName d) \<le> kMaxDisplayNameBytes \<and> cm_text d \<noteq> [] \<and>
     length (cm_text d) \<le> kMaxChatMessageBytes"

subsection \<open>Every message is a codec\<close>

lemmas string_packets [packets] = str.put_append[of _ "_ @ _"] str.put_append[of _ "pod_bytes _"]
lemmas u8_packets [packets] = pod8.writeCounted_append[of _ "_ @ _"] pod8.writeCounted_append[of _ "pod_bytes _"]
lemmas u8_reads [reads] = pod8.readCounted_iff

declare kMaxDisplayNameBytes_def [packets] kMaxChatMessageBytes_def [packets]

interpretation PacketHeader: codec PacketHeader_serialize PacketHeader_deserialize "\<lambda>_. True"
proof
  show "PacketHeader_serialize d w = w @ PacketHeader_serialize d []" for d w
    by (simp add: PacketHeader_serialize_def Let_def writes packets)
  show "PacketHeader_deserialize r = Some (d, r') \<longleftrightarrow> (\<lambda>_. True) d \<and> r = PacketHeader_serialize d [] @ r'" for d r r'
    by (cases d) (auto simp: PacketHeader_deserialize_def PacketHeader_serialize_def Let_def bind_eq_Some_conv reads writes packets)
qed

interpretation RomValidationData: codec RomValidationData_serialize RomValidationData_deserialize "\<lambda>d. length (rv_contentHash d) = kMaxRomHashBytes"
proof
  show "RomValidationData_serialize d w = w @ RomValidationData_serialize d []" for d w
    by (simp add: RomValidationData_serialize_def Let_def writes packets)
  show "RomValidationData_deserialize r = Some (d, r') \<longleftrightarrow> (\<lambda>d. length (rv_contentHash d) = kMaxRomHashBytes) d \<and> r = RomValidationData_serialize d [] @ r'" for d r r'
    by (cases d) (auto simp: RomValidationData_deserialize_def RomValidationData_serialize_def Let_def bind_eq_Some_conv reads writes packets)
qed

lemmas RomValidationData_packets [packets] = RomValidationData.put_append[of _ "_ @ _"] RomValidationData.put_append[of _ "pod_bytes _"]
  RomValidationData.writeCounted_append[of _ "_ @ _"] RomValidationData.writeCounted_append[of _ "pod_bytes _"]
lemmas RomValidationData_reads [reads] = RomValidationData.get_iff RomValidationData.readCounted_iff

interpretation JoinRoomData: codec JoinRoomData_serialize JoinRoomData_deserialize "\<lambda>d. length (rv_contentHash (jr_romValidation d)) = kMaxRomHashBytes"
proof
  show "JoinRoomData_serialize d w = w @ JoinRoomData_serialize d []" for d w
    by (simp add: JoinRoomData_serialize_def Let_def writes packets)
  show "JoinRoomData_deserialize r = Some (d, r') \<longleftrightarrow> (\<lambda>d. length (rv_contentHash (jr_romValidation d)) = kMaxRomHashBytes) d \<and> r = JoinRoomData_serialize d [] @ r'" for d r r'
    by (cases d) (auto simp: JoinRoomData_deserialize_def JoinRoomData_serialize_def Let_def bind_eq_Some_conv reads writes packets)
qed

interpretation JoinRejectedData: codec JoinRejectedData_serialize JoinRejectedData_deserialize "\<lambda>d. length (rv_contentHash (jx_romValidation d)) = kMaxRomHashBytes"
proof
  show "JoinRejectedData_serialize d w = w @ JoinRejectedData_serialize d []" for d w
    by (simp add: JoinRejectedData_serialize_def Let_def writes packets)
  show "JoinRejectedData_deserialize r = Some (d, r') \<longleftrightarrow> (\<lambda>d. length (rv_contentHash (jx_romValidation d)) = kMaxRomHashBytes) d \<and> r = JoinRejectedData_serialize d [] @ r'" for d r r'
    by (cases d) (auto simp: JoinRejectedData_deserialize_def JoinRejectedData_serialize_def Let_def bind_eq_Some_conv reads writes packets)
qed

interpretation RomValidationResultData: codec RomValidationResultData_serialize RomValidationResultData_deserialize "\<lambda>d. length (rv_contentHash (rr_romValidation d)) = kMaxRomHashBytes"
proof
  show "RomValidationResultData_serialize d w = w @ RomValidationResultData_serialize d []" for d w
    by (simp add: RomValidationResultData_serialize_def Let_def writes packets)
  show "RomValidationResultData_deserialize r = Some (d, r') \<longleftrightarrow> (\<lambda>d. length (rv_contentHash (rr_romValidation d)) = kMaxRomHashBytes) d \<and> r = RomValidationResultData_serialize d [] @ r'" for d r r'
    by (cases d) (auto simp: RomValidationResultData_deserialize_def RomValidationResultData_serialize_def Let_def bind_eq_Some_conv reads writes packets)
qed

interpretation TopologySlot: codec TopologySlot_serialize TopologySlot_deserialize "slot_ok"
proof
  show "TopologySlot_serialize d w = w @ TopologySlot_serialize d []" for d w
    by (simp add: TopologySlot_serialize_def Let_def writes packets)
  show "TopologySlot_deserialize r = Some (d, r') \<longleftrightarrow> (slot_ok) d \<and> r = TopologySlot_serialize d [] @ r'" for d r r'
    by (cases d) (auto simp: TopologySlot_deserialize_def TopologySlot_serialize_def Let_def bind_eq_Some_conv reads writes packets slot_ok_def)
qed

lemmas TopologySlot_packets [packets] = TopologySlot.put_append[of _ "_ @ _"] TopologySlot.put_append[of _ "pod_bytes _"]
  TopologySlot.writeCounted_append[of _ "_ @ _"] TopologySlot.writeCounted_append[of _ "pod_bytes _"]
lemmas TopologySlot_reads [reads] = TopologySlot.get_iff TopologySlot.readCounted_iff

interpretation InputTopologyData: codec InputTopologyData_serialize InputTopologyData_deserialize "topology_ok"
proof
  show "InputTopologyData_serialize d w = w @ InputTopologyData_serialize d []" for d w
    by (unfold InputTopologyData_serialize_def, rule TopologySlot.writeCounted_append)
  show "InputTopologyData_deserialize r = Some (d, r') \<longleftrightarrow> (topology_ok) d \<and> r = InputTopologyData_serialize d [] @ r'" for d r r'
    by (cases d) (auto simp: InputTopologyData_deserialize_def InputTopologyData_serialize_def Let_def bind_eq_Some_conv reads writes packets topology_ok_def)
qed

lemmas InputTopologyData_packets [packets] = InputTopologyData.put_append[of _ "_ @ _"] InputTopologyData.put_append[of _ "pod_bytes _"]
  InputTopologyData.writeCounted_append[of _ "_ @ _"] InputTopologyData.writeCounted_append[of _ "pod_bytes _"]
lemmas InputTopologyData_reads [reads] = InputTopologyData.get_iff InputTopologyData.readCounted_iff

interpretation InputFrameData: codec InputFrameData_serialize InputFrameData_deserialize "\<lambda>_. True"
proof
  show "InputFrameData_serialize d w = w @ InputFrameData_serialize d []" for d w
    by (simp add: InputFrameData_serialize_def Let_def writes packets)
  show "InputFrameData_deserialize r = Some (d, r') \<longleftrightarrow> (\<lambda>_. True) d \<and> r = InputFrameData_serialize d [] @ r'" for d r r'
    by (cases d) (auto simp: InputFrameData_deserialize_def InputFrameData_serialize_def Let_def bind_eq_Some_conv reads writes packets)
qed

interpretation ConfirmedInputFramesData: codec ConfirmedInputFramesData_serialize ConfirmedInputFramesData_deserialize "\<lambda>_. True"
proof
  show "ConfirmedInputFramesData_serialize d w = w @ ConfirmedInputFramesData_serialize d []" for d w
    by (simp add: ConfirmedInputFramesData_serialize_def Let_def writes packets)
  show "ConfirmedInputFramesData_deserialize r = Some (d, r') \<longleftrightarrow> (\<lambda>_. True) d \<and> r = ConfirmedInputFramesData_serialize d [] @ r'" for d r r'
    by (cases d) (auto simp: ConfirmedInputFramesData_deserialize_def ConfirmedInputFramesData_serialize_def Let_def bind_eq_Some_conv reads writes packets)
qed

interpretation SlotMask: codec SlotMask_serialize SlotMask_deserialize "\<lambda>_. True"
proof
  show "SlotMask_serialize d w = w @ SlotMask_serialize d []" for d w
    by (simp add: SlotMask_serialize_def Let_def writes packets)
  show "SlotMask_deserialize r = Some (d, r') \<longleftrightarrow> (\<lambda>_. True) d \<and> r = SlotMask_serialize d [] @ r'" for d r r'
    by (cases d) (auto simp: SlotMask_deserialize_def SlotMask_serialize_def Let_def bind_eq_Some_conv reads writes packets)
qed

lemmas SlotMask_packets [packets] = SlotMask.put_append[of _ "_ @ _"] SlotMask.put_append[of _ "pod_bytes _"]
  SlotMask.writeCounted_append[of _ "_ @ _"] SlotMask.writeCounted_append[of _ "pod_bytes _"]
lemmas SlotMask_reads [reads] = SlotMask.get_iff SlotMask.readCounted_iff

interpretation ConfirmedInputFrameEntry: codec ConfirmedInputFrameEntry_serialize ConfirmedInputFrameEntry_deserialize "\<lambda>d. length (ce_slotMasks d) \<le> 255"
proof
  show "ConfirmedInputFrameEntry_serialize d w = w @ ConfirmedInputFrameEntry_serialize d []" for d w
    by (simp add: ConfirmedInputFrameEntry_serialize_def Let_def writes packets)
  show "ConfirmedInputFrameEntry_deserialize r = Some (d, r') \<longleftrightarrow> (\<lambda>d. length (ce_slotMasks d) \<le> 255) d \<and> r = ConfirmedInputFrameEntry_serialize d [] @ r'" for d r r'
    by (cases d) (auto simp: ConfirmedInputFrameEntry_deserialize_def ConfirmedInputFrameEntry_serialize_def Let_def bind_eq_Some_conv reads writes packets)
qed

interpretation InputAckData: codec InputAckData_serialize InputAckData_deserialize "\<lambda>_. True"
proof
  show "InputAckData_serialize d w = w @ InputAckData_serialize d []" for d w
    by (simp add: InputAckData_serialize_def Let_def writes packets)
  show "InputAckData_deserialize r = Some (d, r') \<longleftrightarrow> (\<lambda>_. True) d \<and> r = InputAckData_serialize d [] @ r'" for d r r'
    by (cases d) (auto simp: InputAckData_deserialize_def InputAckData_serialize_def Let_def bind_eq_Some_conv reads writes packets)
qed

interpretation FrameStatusData: codec FrameStatusData_serialize FrameStatusData_deserialize "\<lambda>d. topology_ok (fs_topology d)"
proof
  show "FrameStatusData_serialize d w = w @ FrameStatusData_serialize d []" for d w
    by (simp add: FrameStatusData_serialize_def Let_def writes packets)
  show "FrameStatusData_deserialize r = Some (d, r') \<longleftrightarrow> (\<lambda>d. topology_ok (fs_topology d)) d \<and> r = FrameStatusData_serialize d [] @ r'" for d r r'
    by (cases d) (auto simp: FrameStatusData_deserialize_def FrameStatusData_serialize_def Let_def bind_eq_Some_conv reads writes packets)
qed

interpretation AssignControllerData: codec AssignControllerData_serialize AssignControllerData_deserialize "\<lambda>d. length (ac_controllerAssignments d) \<le> 255"
proof
  show "AssignControllerData_serialize d w = w @ AssignControllerData_serialize d []" for d w
    by (simp add: AssignControllerData_serialize_def Let_def writes packets)
  show "AssignControllerData_deserialize r = Some (d, r') \<longleftrightarrow> (\<lambda>d. length (ac_controllerAssignments d) \<le> 255) d \<and> r = AssignControllerData_serialize d [] @ r'" for d r r'
    by (cases d) (auto simp: AssignControllerData_deserialize_def AssignControllerData_serialize_def Let_def bind_eq_Some_conv reads writes packets)
qed

interpretation ParticipantLeftData: codec ParticipantLeftData_serialize ParticipantLeftData_deserialize "\<lambda>_. True"
proof
  show "ParticipantLeftData_serialize d w = w @ ParticipantLeftData_serialize d []" for d w
    by (simp add: ParticipantLeftData_serialize_def Let_def writes packets)
  show "ParticipantLeftData_deserialize r = Some (d, r') \<longleftrightarrow> (\<lambda>_. True) d \<and> r = ParticipantLeftData_serialize d [] @ r'" for d r r'
    by (cases d) (auto simp: ParticipantLeftData_deserialize_def ParticipantLeftData_serialize_def Let_def bind_eq_Some_conv reads writes packets)
qed

interpretation LeaveRoomData: codec LeaveRoomData_serialize LeaveRoomData_deserialize "\<lambda>_. True"
proof
  show "LeaveRoomData_serialize d w = w @ LeaveRoomData_serialize d []" for d w
    by (simp add: LeaveRoomData_serialize_def Let_def writes packets)
  show "LeaveRoomData_deserialize r = Some (d, r') \<longleftrightarrow> (\<lambda>_. True) d \<and> r = LeaveRoomData_serialize d [] @ r'" for d r r'
    by (cases d) (auto simp: LeaveRoomData_deserialize_def LeaveRoomData_serialize_def Let_def bind_eq_Some_conv reads writes packets)
qed

interpretation ChatMessageData: codec ChatMessageData_serialize ChatMessageData_deserialize "chat_ok"
proof
  show "ChatMessageData_serialize d w = w @ ChatMessageData_serialize d []" for d w
    by (simp add: ChatMessageData_serialize_def Let_def writes packets)
  show "ChatMessageData_deserialize r = Some (d, r') \<longleftrightarrow> (chat_ok) d \<and> r = ChatMessageData_serialize d [] @ r'" for d r r'
    by (cases d) (auto simp: ChatMessageData_deserialize_def ChatMessageData_serialize_def Let_def bind_eq_Some_conv reads writes packets chat_ok_def)
qed

interpretation StartSessionData: codec StartSessionData_serialize StartSessionData_deserialize "\<lambda>d. topology_ok (ss_topology d)"
proof
  show "StartSessionData_serialize d w = w @ StartSessionData_serialize d []" for d w
    by (simp add: StartSessionData_serialize_def Let_def writes packets)
  show "StartSessionData_deserialize r = Some (d, r') \<longleftrightarrow> (\<lambda>d. topology_ok (ss_topology d)) d \<and> r = StartSessionData_serialize d [] @ r'" for d r r'
    by (cases d) (auto simp: StartSessionData_deserialize_def StartSessionData_serialize_def Let_def bind_eq_Some_conv reads writes packets)
qed

interpretation PeerHealthData: codec PeerHealthData_serialize PeerHealthData_deserialize "\<lambda>_. True"
proof
  show "PeerHealthData_serialize d w = w @ PeerHealthData_serialize d []" for d w
    by (simp add: PeerHealthData_serialize_def Let_def writes packets)
  show "PeerHealthData_deserialize r = Some (d, r') \<longleftrightarrow> (\<lambda>_. True) d \<and> r = PeerHealthData_serialize d [] @ r'" for d r r'
    by (cases d) (auto simp: PeerHealthData_deserialize_def PeerHealthData_serialize_def Let_def bind_eq_Some_conv reads writes packets)
qed

interpretation ClockSyncRequestData: codec ClockSyncRequestData_serialize ClockSyncRequestData_deserialize "\<lambda>_. True"
proof
  show "ClockSyncRequestData_serialize d w = w @ ClockSyncRequestData_serialize d []" for d w
    by (simp add: ClockSyncRequestData_serialize_def Let_def writes packets)
  show "ClockSyncRequestData_deserialize r = Some (d, r') \<longleftrightarrow> (\<lambda>_. True) d \<and> r = ClockSyncRequestData_serialize d [] @ r'" for d r r'
    by (cases d) (auto simp: ClockSyncRequestData_deserialize_def ClockSyncRequestData_serialize_def Let_def bind_eq_Some_conv reads writes packets)
qed

interpretation ClockSyncResponseData: codec ClockSyncResponseData_serialize ClockSyncResponseData_deserialize "\<lambda>_. True"
proof
  show "ClockSyncResponseData_serialize d w = w @ ClockSyncResponseData_serialize d []" for d w
    by (simp add: ClockSyncResponseData_serialize_def Let_def writes packets)
  show "ClockSyncResponseData_deserialize r = Some (d, r') \<longleftrightarrow> (\<lambda>_. True) d \<and> r = ClockSyncResponseData_serialize d [] @ r'" for d r r'
    by (cases d) (auto simp: ClockSyncResponseData_deserialize_def ClockSyncResponseData_serialize_def Let_def bind_eq_Some_conv reads writes packets)
qed

interpretation CrcReportData: codec CrcReportData_serialize CrcReportData_deserialize "\<lambda>_. True"
proof
  show "CrcReportData_serialize d w = w @ CrcReportData_serialize d []" for d w
    by (simp add: CrcReportData_serialize_def Let_def writes packets)
  show "CrcReportData_deserialize r = Some (d, r') \<longleftrightarrow> (\<lambda>_. True) d \<and> r = CrcReportData_serialize d [] @ r'" for d r r'
    by (cases d) (auto simp: CrcReportData_deserialize_def CrcReportData_serialize_def Let_def bind_eq_Some_conv reads writes packets)
qed

interpretation ResyncBeginData: codec ResyncBeginData_serialize ResyncBeginData_deserialize "\<lambda>_. True"
proof
  show "ResyncBeginData_serialize d w = w @ ResyncBeginData_serialize d []" for d w
    by (simp add: ResyncBeginData_serialize_def Let_def writes packets)
  show "ResyncBeginData_deserialize r = Some (d, r') \<longleftrightarrow> (\<lambda>_. True) d \<and> r = ResyncBeginData_serialize d [] @ r'" for d r r'
    by (cases d) (auto simp: ResyncBeginData_deserialize_def ResyncBeginData_serialize_def Let_def bind_eq_Some_conv reads writes packets)
qed

interpretation ResyncChunkData: codec ResyncChunkData_serialize ResyncChunkData_deserialize "\<lambda>_. True"
proof
  show "ResyncChunkData_serialize d w = w @ ResyncChunkData_serialize d []" for d w
    by (simp add: ResyncChunkData_serialize_def Let_def writes packets)
  show "ResyncChunkData_deserialize r = Some (d, r') \<longleftrightarrow> (\<lambda>_. True) d \<and> r = ResyncChunkData_serialize d [] @ r'" for d r r'
    by (cases d) (auto simp: ResyncChunkData_deserialize_def ResyncChunkData_serialize_def Let_def bind_eq_Some_conv reads writes packets)
qed

interpretation ResyncCompleteData: codec ResyncCompleteData_serialize ResyncCompleteData_deserialize "\<lambda>_. True"
proof
  show "ResyncCompleteData_serialize d w = w @ ResyncCompleteData_serialize d []" for d w
    by (simp add: ResyncCompleteData_serialize_def Let_def writes packets)
  show "ResyncCompleteData_deserialize r = Some (d, r') \<longleftrightarrow> (\<lambda>_. True) d \<and> r = ResyncCompleteData_serialize d [] @ r'" for d r r'
    by (cases d) (auto simp: ResyncCompleteData_deserialize_def ResyncCompleteData_serialize_def Let_def bind_eq_Some_conv reads writes packets)
qed

interpretation ResyncAckData: codec ResyncAckData_serialize ResyncAckData_deserialize "\<lambda>_. True"
proof
  show "ResyncAckData_serialize d w = w @ ResyncAckData_serialize d []" for d w
    by (simp add: ResyncAckData_serialize_def Let_def writes packets)
  show "ResyncAckData_deserialize r = Some (d, r') \<longleftrightarrow> (\<lambda>_. True) d \<and> r = ResyncAckData_serialize d [] @ r'" for d r r'
    by (cases d) (auto simp: ResyncAckData_deserialize_def ResyncAckData_serialize_def Let_def bind_eq_Some_conv reads writes packets)
qed

interpretation ResyncAbortData: codec ResyncAbortData_serialize ResyncAbortData_deserialize "\<lambda>_. True"
proof
  show "ResyncAbortData_serialize d w = w @ ResyncAbortData_serialize d []" for d w
    by (simp add: ResyncAbortData_serialize_def Let_def writes packets)
  show "ResyncAbortData_deserialize r = Some (d, r') \<longleftrightarrow> (\<lambda>_. True) d \<and> r = ResyncAbortData_serialize d [] @ r'" for d r r'
    by (cases d) (auto simp: ResyncAbortData_deserialize_def ResyncAbortData_serialize_def Let_def bind_eq_Some_conv reads writes packets)
qed

text \<open>A request for a resynchronisation reads its own packets, those of peers that do not send the
  epoch yet, and nothing shorter.\<close>

lemma resync_request_round: "ResyncRequestData_deserialize (ResyncRequestData_serialize d [] @ r) = Some (d, r)"
proof -
  have "readPod (pod_bytes v8 @ s) = Some (v8, s)" "readPod (pod_bytes v16 @ s) = Some (v16, s)"
    "readPod (pod_bytes v32 @ s) = Some (v32, s)" for v8 :: u8 and v16 :: u16 and v32 :: u32 and s
    by (simp_all add: reads)
  then show ?thesis
    by (simp add: ResyncRequestData_deserialize_def ResyncRequestData_serialize_def writes Let_def remaining_def)
qed

lemma resync_request_append: "ResyncRequestData_serialize d w = w @ ResyncRequestData_serialize d []"
  by (simp add: ResyncRequestData_serialize_def writes Let_def)

subsection \<open>Sizes\<close>

lemma length_strings: "length (writeString s w) = length w + 2 + length s"
  by (simp add: writeString_def writes Let_def)

lemma length_writeCounted:
  assumes "\<And>x w. length (put x w) = length w + f x" "length xs \<le> 255"
  shows "length (writeCounted put xs w) = length w + 1 + sum_list (map f xs)"
  using assms by (simp add: writeCounted_def writes Let_def length_writeAll unat_of_nat)

lemma slot_size: "length (TopologySlot_serialize d w) = length w + TopologySlot_serializedSize d"
  by (simp add: TopologySlot_serialize_def TopologySlot_serializedSize_def Let_def length_strings writes)

lemma topology_size:
  assumes "topology_ok d"
  shows "length (InputTopologyData_serialize d w) = length w + InputTopologyData_serializedSize d"
  using assms slot_size length_writeCounted[of TopologySlot_serialize TopologySlot_serializedSize "it_slots d" w]
  by (simp add: InputTopologyData_serialize_def InputTopologyData_serializedSize_def topology_ok_def)

lemma mask_size: "length (SlotMask_serialize d w) = length w + 17"
  by (simp add: SlotMask_serialize_def Let_def writes)

text \<open>What the senders reserve is what they write.\<close>

lemma serialized_sizes:
  "length (PacketHeader_serialize h []) = PacketHeader_serializedSize"
  "length (ce_slotMasks e) \<le> 255 \<Longrightarrow>
     length (ConfirmedInputFrameEntry_serialize e []) = ConfirmedInputFrameEntry_serializedSize e"
  "topology_ok (fs_topology f) \<Longrightarrow> length (FrameStatusData_serialize f []) = FrameStatusData_serializedSize f"
  "length (ac_controllerAssignments a) \<le> 255 \<Longrightarrow>
     length (AssignControllerData_serialize a []) = AssignControllerData_serializedSize a"
  "topology_ok (ss_topology s) \<Longrightarrow> length (StartSessionData_serialize s []) = StartSessionData_serializedSize s"
proof -
  show "length (PacketHeader_serialize h []) = PacketHeader_serializedSize"
    by (simp add: PacketHeader_serialize_def PacketHeader_serializedSize_def Let_def writes)
  show "length (ConfirmedInputFrameEntry_serialize e []) = ConfirmedInputFrameEntry_serializedSize e"
    if "length (ce_slotMasks e) \<le> 255"
    using length_writeCounted[of SlotMask_serialize "\<lambda>_. 17", OF mask_size that]
    by (simp add: ConfirmedInputFrameEntry_serialize_def ConfirmedInputFrameEntry_serializedSize_def Let_def writes
        sum_list_triv)
  show "length (FrameStatusData_serialize f []) = FrameStatusData_serializedSize f" if "topology_ok (fs_topology f)"
    using topology_size[OF that]
    by (simp add: FrameStatusData_serialize_def FrameStatusData_serializedSize_def Let_def writes)
  show "length (AssignControllerData_serialize a []) = AssignControllerData_serializedSize a"
    if "length (ac_controllerAssignments a) \<le> 255"
    using length_writeCounted[of writePod "\<lambda>_. 1", OF _ that]
    by (simp add: AssignControllerData_serialize_def AssignControllerData_serializedSize_def Let_def writes sum_list_triv)
  show "length (StartSessionData_serialize s []) = StartSessionData_serializedSize s" if "topology_ok (ss_topology s)"
    using topology_size[OF that]
    by (simp add: StartSessionData_serialize_def StartSessionData_serializedSize_def Let_def writes)
qed

end
