(* ===== verification/Net_Input.thy ===== *)
theory Net_Input
  imports Net_Packet
begin

text \<open>
  The input of one frame as the netplay library sends it: \<open>NetplayPerSlotValue\<close> and
  \<open>NetplayInputFrame\<close> (\<open>ConsoleNetplay/NetplayInputFrame.h\<close>) and their packets
  (\<open>NetplayInputFrameSerialization.cpp\<close>). A per-slot value is the vector of its entries, kept sorted
  by slot. The locale \<open>slot_store\<close> says that it is a map; the packets are then proved over the map.
\<close>

type_synonym 'v per_slot = "(u8 \<times> 'v) list"

subsection \<open>Values per slot\<close>

text \<open>The position that \<open>std::lower_bound\<close> finds in a sorted vector.\<close>

fun lowerBound :: "u8 \<Rightarrow> 'v per_slot \<Rightarrow> nat" where
  "lowerBound slot [] = 0"
| "lowerBound slot (e # es) = (if fst e < slot then Suc (lowerBound slot es) else 0)"

definition ps_find :: "u8 \<Rightarrow> 'v per_slot \<Rightarrow> 'v option" where
  "ps_find slot es =
     (let i = lowerBound slot es
      in if i \<noteq> length es \<and> fst (es ! i) = slot then Some (snd (es ! i)) else None)"

definition ps_at :: "'v \<Rightarrow> u8 \<Rightarrow> 'v per_slot \<Rightarrow> 'v" where
  "ps_at kDefaultValue slot es =
     (let i = lowerBound slot es
      in if i \<noteq> length es \<and> fst (es ! i) = slot then snd (es ! i) else kDefaultValue)"

text \<open>The assignment through the reference that \<open>operator[]\<close> returns.\<close>

definition ps_put :: "u8 \<Rightarrow> 'v \<Rightarrow> 'v per_slot \<Rightarrow> 'v per_slot" where
  "ps_put slot v es =
     (let i = lowerBound slot es
      in if i \<noteq> length es \<and> fst (es ! i) = slot then es[i := (slot, v)]
         else take i es @ (slot, v) # drop i es)"

definition ps_contains :: "u8 \<Rightarrow> 'v per_slot \<Rightarrow> bool" where
  "ps_contains slot es \<longleftrightarrow> ps_find slot es \<noteq> None"

definition ps_erase :: "u8 \<Rightarrow> 'v per_slot \<Rightarrow> 'v per_slot" where
  "ps_erase slot es =
     (let i = lowerBound slot es
      in if i \<noteq> length es \<and> fst (es ! i) = slot then take i es @ drop (Suc i) es else es)"

subsection \<open>Input frames\<close>

record NetplayInputFrame =
  nf_frame :: u32
  nf_timelineEpoch :: u32
  nf_buttonMaskLo :: "u64 per_slot"
  nf_buttonMaskHi :: "u64 per_slot"
  nf_slotPayloads :: "bytes per_slot"
  nf_framePayload :: bytes

definition NetplayInputFrame0 :: NetplayInputFrame where
  "NetplayInputFrame0 = \<lparr>nf_frame = 0, nf_timelineEpoch = 0, nf_buttonMaskLo = [], nf_buttonMaskHi = [],
     nf_slotPayloads = [], nf_framePayload = []\<rparr>"

definition slotHasPayload :: "NetplayInputFrame \<Rightarrow> u8 \<Rightarrow> bool" where
  "slotHasPayload f slot \<longleftrightarrow> ps_at 0 slot (nf_buttonMaskLo f) \<noteq> 0 \<or> ps_at 0 slot (nf_buttonMaskHi f) \<noteq> 0 \<or>
     ps_at [] slot (nf_slotPayloads f) \<noteq> []"

fun appendUnique :: "u8 list \<Rightarrow> u8 list \<Rightarrow> u8 list" where
  "appendUnique [] slots = slots"
| "appendUnique (s # ss) slots = appendUnique ss (if s \<in> set slots then slots else slots @ [s])"

definition activeSlots :: "NetplayInputFrame \<Rightarrow> u8 list" where
  "activeSlots f =
     (let slots = appendUnique (map fst (nf_buttonMaskLo f)) [];
          slots = appendUnique (map fst (nf_buttonMaskHi f)) slots;
          slots = appendUnique (map fst (nf_slotPayloads f)) slots
      in filter (slotHasPayload f) slots)"

definition repeatedFrom :: "NetplayInputFrame \<Rightarrow> u32 \<Rightarrow> NetplayInputFrame" where
  "repeatedFrom previous targetFrame = previous\<lparr>nf_frame := targetFrame\<rparr>"

subsection \<open>Their packets\<close>

definition kNetplayInputFrameWireVersion :: u8 where "kNetplayInputFrameWireVersion = 4"

record NetplayInputFrameWireHeader =
  wh_version :: u8
  wh_frame :: u32
  wh_timelineEpoch :: u32
  wh_slotCount :: u8
  wh_framePayloadSize :: u16

record NetplayInputSlotWireHeader =
  sh_slot :: u8
  sh_buttonMaskLo :: u64
  sh_buttonMaskHi :: u64
  sh_payloadSize :: u16

definition activeSlotCount :: "NetplayInputFrame \<Rightarrow> u8" where
  "activeSlotCount f = of_nat (length (activeSlots f))"

definition writeNetplayInputFrameWireHeader :: "NetplayInputFrameWireHeader \<Rightarrow> bytes \<Rightarrow> bytes" where
  "writeNetplayInputFrameWireHeader h w =
     (let w = writePod (wh_version h) w;
          w = writePod (wh_frame h) w;
          w = writePod (wh_timelineEpoch h) w;
          w = writePod (wh_slotCount h) w
      in writePod (wh_framePayloadSize h) w)"

definition readNetplayInputFrameWireHeader :: "NetplayInputFrameWireHeader reader" where
  "readNetplayInputFrameWireHeader r = do {
     (a0, r) \<leftarrow> readPod r;
     (a1, r) \<leftarrow> readPod r;
     (a2, r) \<leftarrow> readPod r;
     (a3, r) \<leftarrow> readPod r;
     (a4, r) \<leftarrow> readPod r;
     Some (\<lparr>wh_version = a0, wh_frame = a1, wh_timelineEpoch = a2, wh_slotCount = a3, wh_framePayloadSize = a4\<rparr>, r) }"

definition writeNetplayInputSlotWireHeader :: "NetplayInputSlotWireHeader \<Rightarrow> bytes \<Rightarrow> bytes" where
  "writeNetplayInputSlotWireHeader h w =
     (let w = writePod (sh_slot h) w;
          w = writePod (sh_buttonMaskLo h) w;
          w = writePod (sh_buttonMaskHi h) w
      in writePod (sh_payloadSize h) w)"

definition readNetplayInputSlotWireHeader :: "NetplayInputSlotWireHeader reader" where
  "readNetplayInputSlotWireHeader r = do {
     (a0, r) \<leftarrow> readPod r;
     (a1, r) \<leftarrow> readPod r;
     (a2, r) \<leftarrow> readPod r;
     (a3, r) \<leftarrow> readPod r;
     Some (\<lparr>sh_slot = a0, sh_buttonMaskLo = a1, sh_buttonMaskHi = a2, sh_payloadSize = a3\<rparr>, r) }"

definition writeSlot :: "NetplayInputFrame \<Rightarrow> u8 \<Rightarrow> bytes \<Rightarrow> bytes" where
  "writeSlot f slot w =
     (if \<not> slotHasPayload f slot then w
      else let h = \<lparr>sh_slot = slot, sh_buttonMaskLo = ps_at 0 slot (nf_buttonMaskLo f),
                     sh_buttonMaskHi = ps_at 0 slot (nf_buttonMaskHi f),
                     sh_payloadSize = of_nat (length (ps_at [] slot (nf_slotPayloads f)))\<rparr>;
               w = writeNetplayInputSlotWireHeader h w
           in writeBytes (ps_at [] slot (nf_slotPayloads f)) w)"

definition serializeNetplayInputFrame :: "NetplayInputFrame \<Rightarrow> bytes" where
  "serializeNetplayInputFrame f =
     (let h = \<lparr>wh_version = kNetplayInputFrameWireVersion, wh_frame = nf_frame f,
               wh_timelineEpoch = nf_timelineEpoch f, wh_slotCount = activeSlotCount f,
               wh_framePayloadSize = of_nat (length (nf_framePayload f))\<rparr>;
          w = writeNetplayInputFrameWireHeader h [];
          w = writeBytes (nf_framePayload f) w
      in writeAll (writeSlot f) (activeSlots f) w)"

definition serializedNetplayInputFrameSize :: "NetplayInputFrame \<Rightarrow> nat" where
  "serializedNetplayInputFrameSize f =
     1 + 4 + 4 + 1 + 2 + length (nf_framePayload f) +
     sum_list (map (\<lambda>slot. if slotHasPayload f slot
       then 1 + 8 + 8 + 2 + length (ps_at [] slot (nf_slotPayloads f)) else 0) (activeSlots f))"

text \<open>One turn of the loop over the slots.\<close>

definition readSlot :: "NetplayInputFrame \<Rightarrow> NetplayInputFrame reader" where
  "readSlot decoded r = do {
     (h, r) \<leftarrow> readNetplayInputSlotWireHeader r;
     let decoded = (if sh_buttonMaskLo h \<noteq> 0
       then decoded\<lparr>nf_buttonMaskLo := ps_put (sh_slot h) (sh_buttonMaskLo h) (nf_buttonMaskLo decoded)\<rparr> else decoded);
     let decoded = (if sh_buttonMaskHi h \<noteq> 0
       then decoded\<lparr>nf_buttonMaskHi := ps_put (sh_slot h) (sh_buttonMaskHi h) (nf_buttonMaskHi decoded)\<rparr> else decoded);
     if sh_payloadSize h \<noteq> 0 then do {
       (b, r) \<leftarrow> readBytes (unat (sh_payloadSize h)) r;
       Some (decoded\<lparr>nf_slotPayloads := ps_put (sh_slot h) b (nf_slotPayloads decoded)\<rparr>, r) }
     else Some (decoded, r) }"

fun readSlots :: "nat \<Rightarrow> NetplayInputFrame \<Rightarrow> NetplayInputFrame reader" where
  "readSlots 0 decoded r = Some (decoded, r)"
| "readSlots (Suc n) decoded r = do {
     (decoded, r) \<leftarrow> readSlot decoded r;
     readSlots n decoded r }"

definition deserializeNetplayInputFrame :: "bytes \<Rightarrow> NetplayInputFrame option" where
  "deserializeNetplayInputFrame data = do {
     (h, r) \<leftarrow> readNetplayInputFrameWireHeader data;
     if wh_version h \<noteq> kNetplayInputFrameWireVersion then None else do {
     let decoded = NetplayInputFrame0\<lparr>nf_frame := wh_frame h, nf_timelineEpoch := wh_timelineEpoch h\<rparr>;
     (b, r) \<leftarrow> readBytes (unat (wh_framePayloadSize h)) r;
     (decoded, r) \<leftarrow> readSlots (unat (wh_slotCount h)) (decoded\<lparr>nf_framePayload := b\<rparr>) r;
     if remaining r \<noteq> 0 then None else Some decoded }}"

subsection \<open>A per-slot value is a map\<close>

text \<open>Storing the values of a list of slots, in any order.\<close>

fun puts :: "('k \<Rightarrow> 'v \<Rightarrow> 's \<Rightarrow> 's) \<Rightarrow> ('k \<Rightarrow> 'v option) \<Rightarrow> 'k list \<Rightarrow> 's \<Rightarrow> 's" where
  "puts put f [] s = s"
| "puts put f (k # ks) s = puts put f ks (case f k of None \<Rightarrow> s | Some v \<Rightarrow> put k v s)"

locale slot_store =
  fixes find :: "u8 \<Rightarrow> 's \<Rightarrow> 'v option" and put :: "u8 \<Rightarrow> 'v \<Rightarrow> 's \<Rightarrow> 's" and erase :: "u8 \<Rightarrow> 's \<Rightarrow> 's"
    and inv :: "'s \<Rightarrow> bool"
  assumes find_put: "inv s \<Longrightarrow> find k (put j v s) = (if k = j then Some v else find k s)"
    and find_erase: "inv s \<Longrightarrow> find k (erase j s) = (if k = j then None else find k s)"
    and inv_put: "inv s \<Longrightarrow> inv (put j v s)"
    and inv_erase: "inv s \<Longrightarrow> inv (erase j s)"
    and same: "inv s \<Longrightarrow> inv t \<Longrightarrow> (\<And>k. find k s = find k t) \<Longrightarrow> s = t"
begin

lemma inv_puts: "inv s \<Longrightarrow> inv (puts put f ks s)"
  by (induction ks arbitrary: s) (auto simp: inv_put split: option.splits)

lemma find_puts:
  "inv s \<Longrightarrow> find k (puts put f ks s) = (if k \<in> set ks \<and> f k \<noteq> None then f k else find k s)"
  by (induction ks arbitrary: s) (auto simp: inv_put find_put split: option.splits)

lemma puts_rebuild:
  assumes "inv s" "inv e" "\<And>k. find k e = None" "\<And>k. k \<notin> set ks \<Longrightarrow> find k s = None"
  shows "puts put (\<lambda>k. find k s) ks e = s"
  using assms by (intro same inv_puts) (auto simp: find_puts)

lemma put_erase: "inv s \<Longrightarrow> find j s = None \<Longrightarrow> erase j (put j v s) = s"
  by (intro same inv_erase inv_put) (simp_all add: find_erase find_put inv_put)

end

definition slots_ok :: "'v per_slot \<Rightarrow> bool" where
  "slots_ok es \<longleftrightarrow> sorted_wrt (<) (map fst es)"

lemma slots_ok_simps [simp]:
  "slots_ok []" "slots_ok (e # es) \<longleftrightarrow> (\<forall>x \<in> set es. fst e < fst x) \<and> slots_ok es"
  by (auto simp: slots_ok_def)

lemma ps_Cons:
  "ps_find k (e # es) = (if fst e < k then ps_find k es else if fst e = k then Some (snd e) else None)"
  "ps_put k v (e # es) = (if fst e < k then e # ps_put k v es else if fst e = k then (k, v) # es else (k, v) # e # es)"
  "ps_erase k (e # es) = (if fst e < k then e # ps_erase k es else if fst e = k then es else e # es)"
  by (simp_all add: ps_find_def ps_put_def ps_erase_def Let_def)

lemma ps_Nil [simp]: "ps_find k [] = None" "ps_put k v [] = [(k, v)]" "ps_erase k [] = []"
  by (simp_all add: ps_find_def ps_put_def ps_erase_def)

lemma ps_find_map: "slots_ok es \<Longrightarrow> ps_find k es = map_of es k"
  by (induction es) (auto simp: ps_Cons not_less_iff_gr_or_eq eq_commute[of None] map_of_eq_None_iff)

lemma ps_at_find: "ps_at d k es = (case ps_find k es of None \<Rightarrow> d | Some v \<Rightarrow> v)"
  by (simp add: ps_at_def ps_find_def Let_def)

lemma set_ps_put: "set (ps_put k v es) \<subseteq> insert (k, v) (set es)"
  by (induction es) (auto simp: ps_Cons)

lemma set_ps_erase: "set (ps_erase k es) \<subseteq> set es"
  by (induction es) (auto simp: ps_Cons)

lemma slots_ok_put: "slots_ok es \<Longrightarrow> slots_ok (ps_put k v es)"
proof (induction es)
  case (Cons e es)
  then show ?case using set_ps_put[of k v es] by (fastforce simp: ps_Cons not_less_iff_gr_or_eq)
qed simp

lemma slots_ok_erase: "slots_ok es \<Longrightarrow> slots_ok (ps_erase k es)"
proof (induction es)
  case (Cons e es)
  then show ?case using set_ps_erase[of k es] by (auto simp: ps_Cons)
qed simp

lemma find_ps_put: "slots_ok es \<Longrightarrow> ps_find k (ps_put j v es) = (if k = j then Some v else ps_find k es)"
  by (induction es) (auto simp: ps_Cons not_less_iff_gr_or_eq)

lemma find_outside: "\<forall>x \<in> set es. k < fst x \<Longrightarrow> ps_find k es = None"
  by (induction es) (auto simp: ps_Cons)

lemma find_below: "\<forall>x \<in> set es. j < fst x \<Longrightarrow> k \<le> j \<Longrightarrow> ps_find k es = None"
  by (rule find_outside) (auto intro: le_less_trans)

lemma find_ps_erase: "slots_ok es \<Longrightarrow> ps_find k (ps_erase j es) = (if k = j then None else ps_find k es)"
  by (induction es) (auto simp: ps_Cons not_less_iff_gr_or_eq find_below)

lemma per_slot_same: "slots_ok s \<Longrightarrow> slots_ok t \<Longrightarrow> (\<And>k. ps_find k s = ps_find k t) \<Longrightarrow> s = t"
proof (induction s arbitrary: t)
  case Nil
  show ?case
  proof (cases t)
    case (Cons f fs)
    then show ?thesis using Nil.prems(3)[of "fst f"] by (simp add: ps_Cons)
  qed simp
next
  case (Cons e es)
  obtain f fs where t: "t = f # fs"
    using Cons.prems(3)[of "fst e"] by (cases t) (simp_all add: ps_Cons)
  have e: "ps_find (fst e) t = Some (snd e)" and f: "ps_find (fst f) (e # es) = Some (snd f)"
    using Cons.prems(3)[of "fst e"] Cons.prems(3)[of "fst f"] by (simp_all add: t ps_Cons)
  then have "\<not> fst e < fst f" "\<not> fst f < fst e"
    by (auto simp: t ps_Cons split: if_splits)
  then have ef: "e = f" using e by (simp add: t ps_Cons prod_eq_iff)
  have "ps_find k es = ps_find k fs" for k
  proof (cases "fst e < k")
    case True
    then show ?thesis using Cons.prems(3)[of k] by (simp add: t ef ps_Cons)
  next
    case False
    then show ?thesis
      using Cons.prems(1,2) find_below[of es "fst e" k] find_below[of fs "fst e" k] by (simp add: t ef)
  qed
  then show ?case using Cons.IH[of fs] Cons.prems(1,2) by (simp add: t ef)
qed

interpretation per_slot: slot_store ps_find ps_put ps_erase slots_ok
proof
  show "ps_find k (ps_put j v s) = (if k = j then Some v else ps_find k s)" if "slots_ok s" for s k j and v :: 'a
    by (rule find_ps_put[OF that])
  show "ps_find k (ps_erase j s) = (if k = j then None else ps_find k s)" if "slots_ok s" for s :: "'a per_slot" and k j
    by (rule find_ps_erase[OF that])
qed (auto intro: slots_ok_put slots_ok_erase per_slot_same)

subsection \<open>Active slots\<close>

lemma set_appendUnique [simp]: "set (appendUnique ss slots) = set ss \<union> set slots"
  by (induction ss slots rule: appendUnique.induct) auto

lemma distinct_appendUnique: "distinct slots \<Longrightarrow> distinct (appendUnique ss slots)"
  by (induction ss slots rule: appendUnique.induct) auto

lemma ps_find_key: "ps_find k es = Some v \<Longrightarrow> k \<in> fst ` set es"
  by (induction es) (auto simp: ps_Cons split: if_splits)

lemma ps_at_key: "ps_at d k es \<noteq> d \<Longrightarrow> k \<in> fst ` set es"
  by (auto simp: ps_at_find split: option.splits dest: ps_find_key)

lemma activeSlots_iff [simp]: "slot \<in> set (activeSlots f) \<longleftrightarrow> slotHasPayload f slot"
  by (auto simp: activeSlots_def slotHasPayload_def dest: ps_at_key)

lemma activeSlots_distinct: "distinct (activeSlots f)"
  by (simp add: activeSlots_def distinct_appendUnique)

subsection \<open>Reading a frame back\<close>

interpretation frame_header: codec writeNetplayInputFrameWireHeader readNetplayInputFrameWireHeader "\<lambda>_. True"
proof
  show "writeNetplayInputFrameWireHeader h w = w @ writeNetplayInputFrameWireHeader h []" for h w
    by (simp add: writeNetplayInputFrameWireHeader_def writes Let_def)
  show "readNetplayInputFrameWireHeader r = Some (h, r') \<longleftrightarrow>
      True \<and> r = writeNetplayInputFrameWireHeader h [] @ r'" for h r r'
    by (cases h) (auto simp: writeNetplayInputFrameWireHeader_def readNetplayInputFrameWireHeader_def
        bind_eq_Some_conv reads writes Let_def)
qed

interpretation slot_header: codec writeNetplayInputSlotWireHeader readNetplayInputSlotWireHeader "\<lambda>_. True"
proof
  show "writeNetplayInputSlotWireHeader h w = w @ writeNetplayInputSlotWireHeader h []" for h w
    by (simp add: writeNetplayInputSlotWireHeader_def writes Let_def)
  show "readNetplayInputSlotWireHeader r = Some (h, r') \<longleftrightarrow>
      True \<and> r = writeNetplayInputSlotWireHeader h [] @ r'" for h r r'
    by (cases h) (auto simp: writeNetplayInputSlotWireHeader_def readNetplayInputSlotWireHeader_def
        bind_eq_Some_conv reads writes Let_def)
qed

text \<open>The entries with a value of their own: what a packet carries.\<close>

definition stored :: "'v \<Rightarrow> 'v per_slot \<Rightarrow> 'v per_slot" where
  "stored d es = filter (\<lambda>e. snd e \<noteq> d) es"

definition sentFrame :: "NetplayInputFrame \<Rightarrow> NetplayInputFrame" where
  "sentFrame f = f\<lparr>nf_buttonMaskLo := stored 0 (nf_buttonMaskLo f), nf_buttonMaskHi := stored 0 (nf_buttonMaskHi f),
     nf_slotPayloads := stored [] (nf_slotPayloads f)\<rparr>"

definition frame_ok :: "NetplayInputFrame \<Rightarrow> bool" where
  "frame_ok f \<longleftrightarrow> slots_ok (nf_buttonMaskLo f) \<and> slots_ok (nf_buttonMaskHi f) \<and> slots_ok (nf_slotPayloads f)"

definition sendable :: "NetplayInputFrame \<Rightarrow> bool" where
  "sendable f \<longleftrightarrow> frame_ok f \<and> length (activeSlots f) \<le> 255 \<and> length (nf_framePayload f) < 65536 \<and>
     list_all (\<lambda>e. length (snd e) < 65536) (nf_slotPayloads f)"

lemma slots_ok_stored: "slots_ok es \<Longrightarrow> slots_ok (stored d es)"
  by (induction es) (auto simp: stored_def)

lemma find_stored:
  assumes "slots_ok es"
  shows "ps_find k (stored d es) = (if ps_at d k es \<noteq> d then Some (ps_at d k es) else None)"
  using assms
proof (induction es)
  case (Cons e es)
  then have "ps_find k (stored d es) = None" if "k \<le> fst e"
    using find_below[of "stored d es" "fst e" k] that by (auto simp: stored_def)
  then show ?case using Cons by (auto simp: ps_at_find ps_Cons stored_def not_less)
qed (simp add: stored_def ps_at_find)

lemma at_stored: "slots_ok es \<Longrightarrow> ps_at d k (stored d es) = ps_at d k es"
  by (simp add: ps_at_find[of d k "stored d es"] find_stored)

lemma stored_puts:
  assumes "slots_ok es" "\<And>k. ps_at d k es \<noteq> d \<Longrightarrow> k \<in> set ks"
  shows "puts ps_put (\<lambda>k. if ps_at d k es \<noteq> d then Some (ps_at d k es) else None) ks [] = stored d es"
  using per_slot.puts_rebuild[of "stored d es" "[]" ks] assms
  by (simp add: find_stored slots_ok_stored) (metis)

definition loadSlots :: "NetplayInputFrame \<Rightarrow> u8 list \<Rightarrow> NetplayInputFrame \<Rightarrow> NetplayInputFrame" where
  "loadSlots f ss g = g\<lparr>
     nf_buttonMaskLo := puts ps_put (\<lambda>k. if ps_at 0 k (nf_buttonMaskLo f) \<noteq> 0 then Some (ps_at 0 k (nf_buttonMaskLo f)) else None)
       ss (nf_buttonMaskLo g),
     nf_buttonMaskHi := puts ps_put (\<lambda>k. if ps_at 0 k (nf_buttonMaskHi f) \<noteq> 0 then Some (ps_at 0 k (nf_buttonMaskHi f)) else None)
       ss (nf_buttonMaskHi g),
     nf_slotPayloads := puts ps_put (\<lambda>k. if ps_at [] k (nf_slotPayloads f) \<noteq> [] then Some (ps_at [] k (nf_slotPayloads f)) else None)
       ss (nf_slotPayloads g)\<rparr>"

lemma writeSlot_append: "writeSlot f slot w = w @ writeSlot f slot []"
  using slot_header.put_append[of _ w] by (simp add: writeSlot_def writeBytes_def Let_def)

lemma ps_at_bound: "list_all (\<lambda>e. length (snd e) < n) es \<Longrightarrow> 0 < n \<Longrightarrow> length (ps_at [] k es) < n"
  by (induction es) (auto simp: ps_at_find ps_Cons)

lemma readSlot_written:
  assumes "slotHasPayload f slot" "length (ps_at [] slot (nf_slotPayloads f)) < 65536"
  shows "readSlot g (writeSlot f slot [] @ r) = Some (loadSlots f [slot] g, r)"
proof -
  let ?p = "ps_at [] slot (nf_slotPayloads f)"
  have u: "unat (of_nat (length ?p) :: u16) = length ?p" using assms(2) by (simp add: unat_of_nat)
  have z: "(of_nat (length ?p) :: u16) = 0 \<longleftrightarrow> ?p = []" unfolding word_unat_eq_iff u by simp
  have b: "readBytes (length ?p) (?p @ r) = Some (?p, r)" by (simp add: readBytes_def)
  show ?thesis
    using assms(1) b
    by (simp add: readSlot_def writeSlot_def writeBytes_def Let_def slot_header.round u z loadSlots_def)
qed

lemma readSlots_written:
  assumes "list_all (slotHasPayload f) ss" "list_all (\<lambda>e. length (snd e) < 65536) (nf_slotPayloads f)"
  shows "readSlots (length ss) g (writeAll (writeSlot f) ss [] @ r) = Some (loadSlots f ss g, r)"
  using assms(1)
proof (induction ss arbitrary: g)
  case (Cons s ss)
  have "writeAll (writeSlot f) (s # ss) [] = writeSlot f s [] @ writeAll (writeSlot f) ss []"
    using writeAll_appends[of "writeSlot f" ss "writeSlot f s []", OF writeSlot_append] by simp
  moreover have "loadSlots f ss (loadSlots f [s] g) = loadSlots f (s # ss) g" by (simp add: loadSlots_def)
  ultimately show ?case
    using Cons readSlot_written[of f s g] ps_at_bound[OF assms(2)] by simp
qed (simp add: loadSlots_def)

lemma readBytes_extended: "readBytes n r = Some (b, r') \<Longrightarrow> readBytes n (r @ x) = Some (b, r' @ x)"
  by (auto simp: readBytes_def split: if_splits)

lemma readSlot_extended:
  assumes "readSlot g r = Some (h, r')"
  shows "readSlot g (r @ x) = Some (h, r' @ x)"
proof -
  obtain k s where k: "readNetplayInputSlotWireHeader r = Some (k, s)"
    using assms by (cases "readNetplayInputSlotWireHeader r") (auto simp: readSlot_def)
  show ?thesis
    using assms slot_header.extended[OF k, of x]
    by (auto simp: readSlot_def k Let_def bind_eq_Some_conv dest: readBytes_extended split: if_splits)
qed

lemma readSlots_extended: "readSlots n g r = Some (h, r') \<Longrightarrow> readSlots n g (r @ x) = Some (h, r' @ x)"
proof (induction n arbitrary: g r)
  case (Suc n)
  then obtain k s where "readSlot g r = Some (k, s)" "readSlots n k s = Some (h, r')"
    by (cases "readSlot g r") auto
  then show ?case using readSlot_extended[of g r k s x] Suc.IH by simp
qed simp

lemma loadSlots_active:
  assumes "frame_ok f"
  shows "loadSlots f (activeSlots f) (NetplayInputFrame0\<lparr>nf_frame := nf_frame f, nf_timelineEpoch := nf_timelineEpoch f,
     nf_framePayload := nf_framePayload f\<rparr>) = sentFrame f"
  using assms
  by (simp add: loadSlots_def NetplayInputFrame0_def sentFrame_def frame_ok_def stored_puts slotHasPayload_def)

lemma deserialize_serialized:
  assumes "sendable f"
  shows "deserializeNetplayInputFrame (serializeNetplayInputFrame f) = Some (sentFrame f)"
proof -
  have ok: "frame_ok f" "list_all (\<lambda>e. length (snd e) < 65536) (nf_slotPayloads f)"
    and u: "unat (activeSlotCount f) = length (activeSlots f)"
      "unat (of_nat (length (nf_framePayload f)) :: u16) = length (nf_framePayload f)"
    using assms by (simp_all add: sendable_def activeSlotCount_def unat_of_nat)
  have "list_all (slotHasPayload f) (activeSlots f)" by (simp add: list_all_iff)
  note slots = readSlots_written[OF this ok(2), of _ "[]", simplified] loadSlots_active[OF ok(1)]
  show ?thesis
    using writeAll_appends[of "writeSlot f" "activeSlots f" "_ @ _", OF writeSlot_append]
    by (simp add: serializeNetplayInputFrame_def deserializeNetplayInputFrame_def Let_def writeBytes_def
        frame_header.round u slots readBytes_def remaining_def)
qed

lemma deserialize_prefix:
  assumes "deserializeNetplayInputFrame p = Some g" "x \<noteq> []"
  shows "deserializeNetplayInputFrame (p @ x) = None"
proof -
  obtain h r where h: "readNetplayInputFrameWireHeader p = Some (h, r)" "wh_version h = kNetplayInputFrameWireVersion"
    using assms(1) by (cases "readNetplayInputFrameWireHeader p")
      (auto simp: deserializeNetplayInputFrame_def split: if_splits)
  then obtain b s where b: "readBytes (unat (wh_framePayloadSize h)) r = Some (b, s)"
    using assms(1) by (cases "readBytes (unat (wh_framePayloadSize h)) r")
      (auto simp: deserializeNetplayInputFrame_def Let_def)
  let ?g = "NetplayInputFrame0\<lparr>nf_frame := wh_frame h, nf_timelineEpoch := wh_timelineEpoch h, nf_framePayload := b\<rparr>"
  obtain q where q: "readSlots (unat (wh_slotCount h)) ?g s = Some (q, [])"
    using assms(1) by (cases "readSlots (unat (wh_slotCount h)) ?g s")
      (auto simp: deserializeNetplayInputFrame_def Let_def h b remaining_def split: if_splits)
  show ?thesis
    using frame_header.extended[OF h(1), of x] readBytes_extended[OF b, of x] readSlots_extended[OF q, of x] assms(2) h(2)
    by (simp add: deserializeNetplayInputFrame_def Let_def remaining_def)
qed

lemma length_writeSlot:
  "length (writeSlot f slot w) = length w + (if slotHasPayload f slot
     then 1 + 8 + 8 + 2 + length (ps_at [] slot (nf_slotPayloads f)) else 0)"
  by (simp add: writeSlot_def writeNetplayInputSlotWireHeader_def writes Let_def)

lemma serialized_length: "length (serializeNetplayInputFrame f) = serializedNetplayInputFrameSize f"
  using length_writeAll[of "writeSlot f", OF length_writeSlot]
  by (simp add: serializeNetplayInputFrame_def serializedNetplayInputFrameSize_def writeNetplayInputFrameWireHeader_def
      writes Let_def)

subsection \<open>Properties\<close>

text \<open>
  C12: an input frame survives the network. Whenever at most 255 slots are active and payloads are
  shorter than 64 KB, \<open>deserializeNetplayInputFrame\<close> reads from the packet of a frame exactly that
  frame, without the entries that hold no value: every slot has the same buttons and the same payload
  as before. The packet has the announced size, and neither a packet cut short nor one with bytes
  behind it is accepted.
\<close>
theorem input_frame_roundtrip:
  assumes "sendable f"
  shows "deserializeNetplayInputFrame (serializeNetplayInputFrame f) = Some (sentFrame f) \<and>
    (\<forall>slot. ps_at 0 slot (nf_buttonMaskLo (sentFrame f)) = ps_at 0 slot (nf_buttonMaskLo f) \<and>
       ps_at 0 slot (nf_buttonMaskHi (sentFrame f)) = ps_at 0 slot (nf_buttonMaskHi f) \<and>
       ps_at [] slot (nf_slotPayloads (sentFrame f)) = ps_at [] slot (nf_slotPayloads f)) \<and>
    length (serializeNetplayInputFrame f) = serializedNetplayInputFrameSize f \<and>
    (\<forall>p x. serializeNetplayInputFrame f = p @ x \<and> x \<noteq> [] \<longrightarrow> deserializeNetplayInputFrame p = None) \<and>
    (\<forall>x. x \<noteq> [] \<longrightarrow> deserializeNetplayInputFrame (serializeNetplayInputFrame f @ x) = None)"
proof (intro conjI)
  show d: "deserializeNetplayInputFrame (serializeNetplayInputFrame f) = Some (sentFrame f)"
    by (rule deserialize_serialized[OF assms])
  show "\<forall>p x. serializeNetplayInputFrame f = p @ x \<and> x \<noteq> [] \<longrightarrow> deserializeNetplayInputFrame p = None"
    using d deserialize_prefix by fastforce
  show "\<forall>x. x \<noteq> [] \<longrightarrow> deserializeNetplayInputFrame (serializeNetplayInputFrame f @ x) = None"
    using deserialize_prefix[OF d] by blast
qed (use assms serialized_length in \<open>simp_all add: sentFrame_def sendable_def frame_ok_def at_stored\<close>)

theorem input_frame_roundtrip_witness:
  "deserializeNetplayInputFrame (serializeNetplayInputFrame
     (NetplayInputFrame0\<lparr>nf_frame := 7, nf_buttonMaskLo := [(0, 0), (1, 0x81)], nf_slotPayloads := [(2, [5, 6])]\<rparr>)) =
   Some (NetplayInputFrame0\<lparr>nf_frame := 7, nf_buttonMaskLo := [(1, 0x81)], nf_slotPayloads := [(2, [5, 6])]\<rparr>)"
proof -
  let ?f = "NetplayInputFrame0\<lparr>nf_frame := 7, nf_buttonMaskLo := [(0, 0), (1, 0x81)], nf_slotPayloads := [(2, [5, 6])]\<rparr>"
  have "sendable ?f"
    by (simp add: sendable_def frame_ok_def NetplayInputFrame0_def activeSlots_def slotHasPayload_def)
  then show ?thesis using input_frame_roundtrip[of ?f] by (simp add: sentFrame_def stored_def NetplayInputFrame0_def)
qed

end
