(* ===== verification/Net_Session.thy ===== *)
theory Net_Session
  imports Net_Protocol Net_Input
begin

text \<open>
  The room of a netplay session (\<open>ConsoleNetplay/NetSession.h\<close>, \<open>NetSession.cpp\<close>), its input topology
  (\<open>NetplayTopology.h\<close>, \<open>NetplayTopology.cpp\<close>) and the assignment of inputs to participants
  (\<open>NetplayInputAssignment.cpp\<close>). Enumerations are their integers; \<open>std::sort\<close> and
  \<open>std::unique\<close> are \<open>sort\<close> and \<open>remdups_adj\<close>, \<open>std::remove_if\<close> is \<open>filter\<close>.
\<close>

definition kObserverPlayerSlot :: u8 where "kObserverPlayerSlot = 0xFF"

definition kInvalidParticipantId :: u8 where "kInvalidParticipantId = 0xFF"

definition kGenericInputDevice :: u16 where "kGenericInputDevice = 1"

definition SessionOwner :: u8 where "SessionOwner = 0"

definition SessionParticipant :: u8 where "SessionParticipant = 1"

definition Observer :: u8 where "Observer = 2"

subsection \<open>The input topology\<close>

record InputSlotDescriptor =
  id_slot :: u8
  id_groupId :: u16
  id_deviceId :: u16
  id_assignable :: bool
  id_groupLabel :: bytes
  id_inputLabel :: bytes

definition ascii :: "string \<Rightarrow> bytes" where
  "ascii = map of_char"

definition defaultInputTopology :: "InputSlotDescriptor list" where
  "defaultInputTopology =
     [\<lparr>id_slot = 0, id_groupId = 1, id_deviceId = kGenericInputDevice, id_assignable = True,
        id_groupLabel = ascii ''Input 1'', id_inputLabel = ascii ''Input''\<rparr>,
      \<lparr>id_slot = 1, id_groupId = 2, id_deviceId = kGenericInputDevice, id_assignable = True,
        id_groupLabel = ascii ''Input 2'', id_inputLabel = ascii ''Input''\<rparr>]"

definition findInputSlot :: "InputSlotDescriptor list \<Rightarrow> u8 \<Rightarrow> InputSlotDescriptor option" where
  "findInputSlot topology slot = List.find (\<lambda>d. id_slot d = slot) topology"

definition inputTopologyEquivalent :: "InputSlotDescriptor list \<Rightarrow> InputSlotDescriptor list \<Rightarrow> bool" where
  "inputTopologyEquivalent lhs rhs \<longleftrightarrow> length lhs = length rhs \<and>
     list_all (\<lambda>(l, r). id_slot l = id_slot r \<and> id_groupId l = id_groupId r \<and> id_deviceId l = id_deviceId r \<and>
       id_assignable l = id_assignable r) (zip lhs rhs)"

subsection \<open>Participants and the room\<close>

record ParticipantInfo =
  pi_id :: u8
  pi_displayName :: bytes
  pi_nameColorHue :: u16
  pi_reconnectToken :: u64
  pi_connected :: bool
  pi_reconnectReserved :: bool
  pi_reservationSecondsRemaining :: u16
  pi_role :: u8
  pi_controllerAssignment :: u8
  pi_controllerAssignments :: "u8 list"
  pi_romLoaded :: bool
  pi_romCompatible :: bool
  pi_pingMs :: u16
  pi_jitterMs :: u16
  pi_sharedClockMicros :: u64
  pi_clockSyncRttMicros :: u64
  pi_sharedClockSampledAtLocalMicros :: u64
  pi_sharedClockSynchronized :: bool
  pi_lastReportedCurrentFrame :: u32
  pi_lastReportedConfirmedFrame :: u32
  pi_lastReportedProducedLocalInputFrame :: u32
  pi_lastReportedProducedLocalInputSequence :: u32
  pi_lastReportedLocalAssignmentCount :: u8
  pi_lastReportedLocalInputRejectReason :: u8
  pi_lastReportedLocalInputRejectFrame :: u32
  pi_lastReportedLocalInputRejectExpectedFrame :: u32
  pi_peerHealthSerial :: u32
  pi_lastReceivedInputFrame :: u32
  pi_lastContiguousInputFrame :: u32
  pi_lastReceivedInputSequence :: u32
  pi_lastObservedInputFrame :: u32
  pi_lastObservedInputSequence :: u32
  pi_lastObservedInputEpoch :: u32
  pi_lastObservedInputSlot :: u8
  pi_sequenceRebasePending :: bool
  pi_pendingMissingInputFrom :: "u32 option"
  pi_missingInputGapCount :: u32
  pi_lastDecisionFrame :: u32
  pi_lastDecisionSlot :: u8
  pi_lastDecision :: bytes
  pi_lastLocalInputRejectReason :: u8
  pi_lastLocalInputRejectFrame :: u32
  pi_lastLocalInputRejectExpectedFrame :: u32
  pi_lastRejectedInputFrame :: u32
  pi_lastRejectedInputSequence :: u32
  pi_lastRejectedInputSlot :: u8
  pi_lastRejectedInputEpoch :: u32
  pi_lastRejectedInputReason :: bytes
  pi_inputSuspended :: bool
  pi_inputResumeAwaitingResync :: bool

definition ParticipantInfo0 :: ParticipantInfo where
  "ParticipantInfo0 = \<lparr>pi_id = 0xFF, pi_displayName = [], pi_nameColorHue = 0, pi_reconnectToken = 0,
     pi_connected = False, pi_reconnectReserved = False, pi_reservationSecondsRemaining = 0,
     pi_role = 2, pi_controllerAssignment = 0xFF, pi_controllerAssignments = [],
     pi_romLoaded = False, pi_romCompatible = False, pi_pingMs = 0, pi_jitterMs = 0,
     pi_sharedClockMicros = 0, pi_clockSyncRttMicros = 0,
     pi_sharedClockSampledAtLocalMicros = 0, pi_sharedClockSynchronized = False,
     pi_lastReportedCurrentFrame = 0, pi_lastReportedConfirmedFrame = 0,
     pi_lastReportedProducedLocalInputFrame = 0,
     pi_lastReportedProducedLocalInputSequence = 0, pi_lastReportedLocalAssignmentCount = 0,
     pi_lastReportedLocalInputRejectReason = 0, pi_lastReportedLocalInputRejectFrame = 0,
     pi_lastReportedLocalInputRejectExpectedFrame = 0, pi_peerHealthSerial = 0,
     pi_lastReceivedInputFrame = 0, pi_lastContiguousInputFrame = 0,
     pi_lastReceivedInputSequence = 0, pi_lastObservedInputFrame = 0,
     pi_lastObservedInputSequence = 0, pi_lastObservedInputEpoch = 0,
     pi_lastObservedInputSlot = 0xFF, pi_sequenceRebasePending = False,
     pi_pendingMissingInputFrom = None, pi_missingInputGapCount = 0, pi_lastDecisionFrame = 0,
     pi_lastDecisionSlot = 0xFF, pi_lastDecision = [], pi_lastLocalInputRejectReason = 0,
     pi_lastLocalInputRejectFrame = 0, pi_lastLocalInputRejectExpectedFrame = 0,
     pi_lastRejectedInputFrame = 0, pi_lastRejectedInputSequence = 0,
     pi_lastRejectedInputSlot = 0xFF, pi_lastRejectedInputEpoch = 0,
     pi_lastRejectedInputReason = [], pi_inputSuspended = False,
     pi_inputResumeAwaitingResync = False\<rparr>"

record RoomState =
  rs_sessionId :: u32
  rs_state :: u8
  rs_timelineEpoch :: u32
  rs_inputDelayFrames :: u8
  rs_currentFrame :: u32
  rs_lastConfirmedFrame :: u32
  rs_lastRemoteCrcFrame :: u32
  rs_lastRemoteCrc32 :: u32
  rs_lastRemoteCrcSubmissionSource :: u8
  rs_lastRemoteCrcSenderLocalSimulationFrame :: u32
  rs_lastRemoteCrcSenderConfirmedFrame :: u32
  rs_lastAcceptedRemoteEpoch :: u32
  rs_lastIgnoredStaleInputEpoch :: u32
  rs_lastIgnoredStaleFrameStatusEpoch :: u32
  rs_lastIgnoredStaleCrcEpoch :: u32
  rs_staleInputPacketCount :: u32
  rs_staleFrameStatusPacketCount :: u32
  rs_staleCrcPacketCount :: u32
  rs_lastAuthoritativeClockFrame :: u32
  rs_lastAuthoritativeClockMicros :: u64
  rs_sharedClockMicros :: u64
  rs_sharedClockRttMicros :: u64
  rs_sharedClockOffsetMicros :: "64 word"
  rs_sharedClockSynchronized :: bool
  rs_autoTuneDelayIncreaseBlockedUntilFrame :: u32
  rs_recoveryInputMode :: u8
  rs_recoveryModeTransitionCount :: u32
  rs_inputsDroppedDuringRecovery :: u32
  rs_recoveryModeEnteredAtFrame :: u32
  rs_stabilizationFramesRemaining :: u32
  rs_stabilizationCrcPassCount :: u32
  rs_stabilizationCrcMismatchCount :: u32
  rs_stabilizationAnchorFrame :: u32
  rs_stabilizationRetryIssued :: bool
  rs_stabilizationRetryCount :: u32
  rs_activeResyncId :: u32
  rs_resyncTargetFrame :: u32
  rs_resyncConfirmedFrame :: u32
  rs_resyncFrameReadyFrame :: u32
  rs_resyncPayloadSize :: u32
  rs_resyncPayloadCrc32 :: u32
  rs_resyncFrameReadyCrc32 :: u32
  rs_resyncInputSequenceBase :: u32
  rs_activeResyncReason :: u8
  rs_pendingResyncAckCount :: u32
  rs_selectedGameName :: bytes
  rs_romValidation :: RomValidationData
  rs_inputTopology :: "InputSlotDescriptor list"
  rs_participants :: "ParticipantInfo list"

definition RoomState0 :: RoomState where
  "RoomState0 = \<lparr>rs_sessionId = 0, rs_state = 0, rs_timelineEpoch = 0, rs_inputDelayFrames = 2,
     rs_currentFrame = 0, rs_lastConfirmedFrame = 0, rs_lastRemoteCrcFrame = 0,
     rs_lastRemoteCrc32 = 0, rs_lastRemoteCrcSubmissionSource = 0,
     rs_lastRemoteCrcSenderLocalSimulationFrame = 0, rs_lastRemoteCrcSenderConfirmedFrame = 0,
     rs_lastAcceptedRemoteEpoch = 0, rs_lastIgnoredStaleInputEpoch = 0,
     rs_lastIgnoredStaleFrameStatusEpoch = 0, rs_lastIgnoredStaleCrcEpoch = 0,
     rs_staleInputPacketCount = 0, rs_staleFrameStatusPacketCount = 0,
     rs_staleCrcPacketCount = 0, rs_lastAuthoritativeClockFrame = 0,
     rs_lastAuthoritativeClockMicros = 0, rs_sharedClockMicros = 0,
     rs_sharedClockRttMicros = 0, rs_sharedClockOffsetMicros = 0,
     rs_sharedClockSynchronized = False, rs_autoTuneDelayIncreaseBlockedUntilFrame = 0,
     rs_recoveryInputMode = 0, rs_recoveryModeTransitionCount = 0,
     rs_inputsDroppedDuringRecovery = 0, rs_recoveryModeEnteredAtFrame = 0,
     rs_stabilizationFramesRemaining = 0, rs_stabilizationCrcPassCount = 0,
     rs_stabilizationCrcMismatchCount = 0, rs_stabilizationAnchorFrame = 0,
     rs_stabilizationRetryIssued = False, rs_stabilizationRetryCount = 0,
     rs_activeResyncId = 0, rs_resyncTargetFrame = 0, rs_resyncConfirmedFrame = 0,
     rs_resyncFrameReadyFrame = 0, rs_resyncPayloadSize = 0, rs_resyncPayloadCrc32 = 0,
     rs_resyncFrameReadyCrc32 = 0, rs_resyncInputSequenceBase = 0, rs_activeResyncReason = 0,
     rs_pendingResyncAckCount = 0, rs_selectedGameName = [],
     rs_romValidation = \<lparr>rv_romCrc32 = 0, rv_mapperId = 0, rv_subMapperId = 0, rv_prgRomSize = 0,
       rv_chrRomSize = 0, rv_chrRamSize = 0, rv_fileSize = 0, rv_contentHash = replicate 32 0\<rparr>,
     rs_inputTopology = defaultInputTopology, rs_participants = []\<rparr>"

definition isAssignableSlotInTopology :: "u8 \<Rightarrow> InputSlotDescriptor list \<Rightarrow> bool" where
  "isAssignableSlotInTopology slot topology =
     (case List.find (\<lambda>d. id_slot d = slot) topology of None \<Rightarrow> False | Some d \<Rightarrow> id_assignable d)"

definition keepAssignable :: "InputSlotDescriptor list \<Rightarrow> ParticipantInfo \<Rightarrow> ParticipantInfo" where
  "keepAssignable topology p =
     (let p = p\<lparr>pi_controllerAssignments := filter (\<lambda>s. isAssignableSlotInTopology s topology) (pi_controllerAssignments p)\<rparr>
      in if pi_controllerAssignment p \<noteq> kObserverPlayerSlot \<and> \<not> isAssignableSlotInTopology (pi_controllerAssignment p) topology
         then p\<lparr>pi_controllerAssignment := kObserverPlayerSlot\<rparr> else p)"

definition normalizeControllerAssignments :: "InputSlotDescriptor list option \<Rightarrow> ParticipantInfo \<Rightarrow> ParticipantInfo" where
  "normalizeControllerAssignments topology p =
     (let p = (if pi_controllerAssignments p = [] \<and> pi_controllerAssignment p \<noteq> kObserverPlayerSlot
               then p\<lparr>pi_controllerAssignments := [pi_controllerAssignment p]\<rparr> else p);
          p = p\<lparr>pi_controllerAssignments := filter (\<lambda>s. s \<noteq> kObserverPlayerSlot) (pi_controllerAssignments p)\<rparr>;
          p = (case topology of None \<Rightarrow> p | Some t \<Rightarrow> keepAssignable t p);
          p = p\<lparr>pi_controllerAssignments := remdups_adj (sort (pi_controllerAssignments p))\<rparr>
      in p\<lparr>pi_controllerAssignment :=
            (case pi_controllerAssignments p of [] \<Rightarrow> kObserverPlayerSlot | s # _ \<Rightarrow> s)\<rparr>)"

definition hasControllerAssignment :: "ParticipantInfo \<Rightarrow> u8 \<Rightarrow> bool" where
  "hasControllerAssignment p slot \<longleftrightarrow> slot \<in> set (pi_controllerAssignments p)"

definition findParticipant :: "RoomState \<Rightarrow> u8 \<Rightarrow> ParticipantInfo option" where
  "findParticipant room i = List.find (\<lambda>p. pi_id p = i) (rs_participants room)"

subsection \<open>Assignments\<close>

definition participantAssignments :: "ParticipantInfo \<Rightarrow> u8 list" where
  "participantAssignments p =
     (if pi_controllerAssignments p \<noteq> [] then pi_controllerAssignments p
      else if pi_controllerAssignment p \<noteq> kObserverPlayerSlot then [pi_controllerAssignment p] else [])"

definition participantHasAssignment :: "ParticipantInfo \<Rightarrow> u8 \<Rightarrow> bool" where
  "participantHasAssignment p slot \<longleftrightarrow>
     hasControllerAssignment p slot \<or> pi_controllerAssignments p = [] \<and> pi_controllerAssignment p = slot"

definition participantIsObserver :: "ParticipantInfo \<Rightarrow> bool" where
  "participantIsObserver p \<longleftrightarrow> pi_controllerAssignments p = [] \<and> pi_controllerAssignment p = kObserverPlayerSlot"

definition syncParticipantRoleWithAssignments :: "bool \<Rightarrow> ParticipantInfo \<Rightarrow> ParticipantInfo" where
  "syncParticipantRoleWithAssignments keepHostRole p =
     (let p = normalizeControllerAssignments None p
      in if keepHostRole then p\<lparr>pi_role := SessionOwner\<rparr>
         else p\<lparr>pi_role := (if participantIsObserver p then Observer else SessionParticipant)\<rparr>)"

definition availableInputAssignments :: "RoomState \<Rightarrow> u8 list" where
  "availableInputAssignments room =
     map id_slot (filter (\<lambda>d. id_assignable d \<and> id_slot d \<noteq> kObserverPlayerSlot) (rs_inputTopology room))"

definition isAssignmentAvailable :: "u8 \<Rightarrow> RoomState \<Rightarrow> bool" where
  "isAssignmentAvailable slot room \<longleftrightarrow>
     slot = kObserverPlayerSlot \<or> slot \<in> set (availableInputAssignments room)"

definition roomWithInputTopology :: "RoomState \<Rightarrow> InputSlotDescriptor list \<Rightarrow> RoomState" where
  "roomWithInputTopology room topology =
     (let room = room\<lparr>rs_inputTopology := topology\<rparr>
      in room\<lparr>rs_participants := map (normalizeControllerAssignments (Some (rs_inputTopology room))) (rs_participants room)\<rparr>)"

definition isInputAssignmentClaimedByOtherParticipant :: "RoomState \<Rightarrow> u8 \<Rightarrow> u8 \<Rightarrow> bool" where
  "isInputAssignmentClaimedByOtherParticipant room participantId slot \<longleftrightarrow>
     slot \<noteq> kObserverPlayerSlot \<and>
     list_ex (\<lambda>p. pi_id p \<noteq> participantId \<and> participantHasAssignment p slot) (rs_participants room)"

text \<open>The assignments a participant would have: the loop body of \<open>canAssignInputCandidate\<close> and the
  two loops around it.\<close>

definition effectiveAssignments :: "u8 \<Rightarrow> u8 \<Rightarrow> ParticipantInfo \<Rightarrow> u8 list" where
  "effectiveAssignments participantId slot p =
     (let a = participantAssignments p;
          a = (if pi_id p = participantId \<and> slot \<noteq> kObserverPlayerSlot \<and> slot \<notin> set a then a @ [slot] else a)
      in remdups_adj (sort a))"

fun claimAll :: "RoomState \<Rightarrow> u8 list \<Rightarrow> u8 list \<Rightarrow> u8 list option" where
  "claimAll room [] claimed = Some claimed"
| "claimAll room (s # ss) claimed =
     (if \<not> isAssignmentAvailable s room then None
      else if s \<in> set claimed then None
      else claimAll room ss (claimed @ [s]))"

fun claimParticipants :: "RoomState \<Rightarrow> u8 \<Rightarrow> u8 \<Rightarrow> ParticipantInfo list \<Rightarrow> u8 list \<Rightarrow> bool" where
  "claimParticipants room participantId slot [] claimed = True"
| "claimParticipants room participantId slot (p # ps) claimed =
     (case claimAll room (effectiveAssignments participantId slot p) claimed of
        None \<Rightarrow> False
      | Some claimed \<Rightarrow> claimParticipants room participantId slot ps claimed)"

definition canAssignInputCandidate :: "RoomState \<Rightarrow> u8 \<Rightarrow> InputSlotDescriptor list \<Rightarrow> u8 \<Rightarrow> bool" where
  "canAssignInputCandidate room participantId topology slot =
     (let candidateRoom = roomWithInputTopology room topology
      in claimParticipants candidateRoom participantId slot (rs_participants candidateRoom) [])"

subsection \<open>Combining inputs\<close>

definition makeRoomTopologyBaseNetplayFrame :: "u32 \<Rightarrow> RoomState \<Rightarrow> NetplayInputFrame" where
  "makeRoomTopologyBaseNetplayFrame f room =
     NetplayInputFrame0\<lparr>nf_frame := f, nf_timelineEpoch := rs_timelineEpoch room\<rparr>"

definition makeContributionBase :: "NetplayInputFrame \<Rightarrow> NetplayInputFrame" where
  "makeContributionBase b = NetplayInputFrame0\<lparr>nf_frame := nf_frame b, nf_timelineEpoch := nf_timelineEpoch b,
     nf_framePayload := nf_framePayload b\<rparr>"

definition assignedContributionPrimaryMask :: "u8 \<Rightarrow> NetplayInputFrame \<Rightarrow> u64" where
  "assignedContributionPrimaryMask slot c = ps_at 0 slot (nf_buttonMaskLo c)"

definition applyAssignedContribution :: "u8 \<Rightarrow> NetplayInputFrame \<Rightarrow> NetplayInputFrame \<Rightarrow> NetplayInputFrame" where
  "applyAssignedContribution slot c target =
     (let target = (if nf_framePayload target = [] \<and> nf_framePayload c \<noteq> []
                    then target\<lparr>nf_framePayload := nf_framePayload c\<rparr> else target)
      in target\<lparr>nf_buttonMaskLo := ps_put slot (ps_at 0 slot (nf_buttonMaskLo c)) (nf_buttonMaskLo target),
           nf_buttonMaskHi := ps_put slot (ps_at 0 slot (nf_buttonMaskHi c)) (nf_buttonMaskHi target),
           nf_slotPayloads := ps_put slot (ps_at [] slot (nf_slotPayloads c)) (nf_slotPayloads target)\<rparr>)"

subsection \<open>The topology on the wire\<close>

definition makeTopologyData :: "RoomState \<Rightarrow> InputTopologyData" where
  "makeTopologyData room = \<lparr>it_slots = map (\<lambda>d. \<lparr>ts_slot = id_slot d, ts_assignable = (if id_assignable d then 1 else 0),
     ts_groupId = id_groupId d, ts_deviceId = id_deviceId d, ts_groupLabel = id_groupLabel d,
     ts_inputLabel = id_inputLabel d\<rparr>) (rs_inputTopology room)\<rparr>"

definition applyTopologyData :: "InputTopologyData \<Rightarrow> RoomState \<Rightarrow> RoomState" where
  "applyTopologyData data room = room\<lparr>rs_inputTopology := map (\<lambda>s. \<lparr>id_slot = ts_slot s, id_groupId = ts_groupId s,
     id_deviceId = ts_deviceId s, id_assignable = (ts_assignable s \<noteq> 0), id_groupLabel = ts_groupLabel s,
     id_inputLabel = ts_inputLabel s\<rparr>) (it_slots data)\<rparr>"

definition renormalizeParticipantsForCurrentTopology :: "RoomState \<Rightarrow> RoomState" where
  "renormalizeParticipantsForCurrentTopology room =
     room\<lparr>rs_participants := map (normalizeControllerAssignments (Some (rs_inputTopology room))) (rs_participants room)\<rparr>"

definition isPlayableSlot :: "RoomState \<Rightarrow> u8 \<Rightarrow> bool" where
  "isPlayableSlot room slot \<longleftrightarrow> slot \<noteq> kObserverPlayerSlot \<and>
     (case findInputSlot (rs_inputTopology room) slot of None \<Rightarrow> False | Some d \<Rightarrow> id_assignable d)"

definition topologyCanRepresentAssignments :: "u8 list \<Rightarrow> InputSlotDescriptor list \<Rightarrow> bool" where
  "topologyCanRepresentAssignments assignments topology \<longleftrightarrow> assignments = [] \<or>
     topology \<noteq> [] \<and> list_all (\<lambda>s. s = kObserverPlayerSlot \<or> findInputSlot topology s \<noteq> None) assignments"

subsection \<open>Normal form of assignments\<close>

lemma strict_remdups_adj: "sorted xs \<Longrightarrow> sorted_wrt (<) (remdups_adj xs)"
  for xs :: "'a::linorder list"
proof (induction xs rule: remdups_adj.induct)
  case (3 x y xs)
  then show ?case by (cases "x = y") (auto simp: less_le intro: order_trans)
qed simp_all

lemma strict_sort [simp]: "sorted_wrt (<) (remdups_adj (sort xs))" "set (remdups_adj (sort xs)) = set xs"
  for xs :: "'a::linorder list"
  by (simp_all add: strict_remdups_adj)

lemma strict_distinct: "sorted_wrt (<) xs \<Longrightarrow> distinct xs" for xs :: "'a::linorder list"
  by (simp add: strict_sorted_iff)

lemma sort_id [simp]: "sorted_wrt (<) xs \<Longrightarrow> remdups_adj (sort xs) = xs" for xs :: "'a::linorder list"
  by (simp add: strict_sorted_iff sorted_sort_id remdups_adj_distinct)

definition normal :: "InputSlotDescriptor list \<Rightarrow> ParticipantInfo \<Rightarrow> bool" where
  "normal topology p \<longleftrightarrow> sorted_wrt (<) (pi_controllerAssignments p) \<and>
     kObserverPlayerSlot \<notin> set (pi_controllerAssignments p) \<and>
     list_all (\<lambda>s. isAssignableSlotInTopology s topology) (pi_controllerAssignments p) \<and>
     pi_controllerAssignment p = (case pi_controllerAssignments p of [] \<Rightarrow> kObserverPlayerSlot | s # _ \<Rightarrow> s)"

lemma normalize_normal: "normal t (normalizeControllerAssignments (Some t) p)"
  by (auto simp: normal_def normalizeControllerAssignments_def keepAssignable_def Let_def list_all_iff)

lemma normalize_id:
  assumes "normal t p"
  shows "normalizeControllerAssignments (Some t) p = p"
proof -
  have f: "filter (\<lambda>s. s \<noteq> kObserverPlayerSlot) (pi_controllerAssignments p) = pi_controllerAssignments p"
    "filter (\<lambda>s. isAssignableSlotInTopology s t) (pi_controllerAssignments p) = pi_controllerAssignments p"
    using assms by (auto simp: normal_def list_all_iff intro!: filter_True)
  show ?thesis
  proof (cases "pi_controllerAssignments p")
    case Nil
    then show ?thesis using assms
      by (simp add: normal_def normalizeControllerAssignments_def keepAssignable_def Let_def)
  next
    case (Cons s ss)
    have "isAssignableSlotInTopology (pi_controllerAssignment p) t" "pi_controllerAssignments p \<noteq> []"
      using assms Cons by (simp_all add: normal_def)
    moreover have "remdups_adj (sort (pi_controllerAssignments p)) = pi_controllerAssignments p"
      "(case pi_controllerAssignments p of [] \<Rightarrow> kObserverPlayerSlot | s # _ \<Rightarrow> s) = pi_controllerAssignment p"
      using assms by (simp_all add: normal_def)
    ultimately show ?thesis using f
      by (simp add: normalizeControllerAssignments_def keepAssignable_def Let_def)
  qed
qed

lemma normal_role: "pi_id (normalizeControllerAssignments t p) = pi_id p"
  by (simp add: normalizeControllerAssignments_def keepAssignable_def Let_def split: option.splits)

subsection \<open>The check of a candidate\<close>

lemma claimAll_eq:
  "claimAll room ss claimed =
     (if (\<forall>s \<in> set ss. isAssignmentAvailable s room) \<and> distinct ss \<and> set ss \<inter> set claimed = {}
      then Some (claimed @ ss) else None)"
  by (induction ss arbitrary: claimed) auto

lemma claimParticipants_iff:
  assumes "distinct claimed"
  shows "claimParticipants room i slot ps claimed \<longleftrightarrow>
     (\<forall>p \<in> set ps. \<forall>s \<in> set (effectiveAssignments i slot p). isAssignmentAvailable s room) \<and>
     distinct (claimed @ concat (map (effectiveAssignments i slot) ps))"
  using assms
proof (induction ps arbitrary: claimed)
  case (Cons p ps)
  have "distinct (effectiveAssignments i slot p)"
    by (simp add: effectiveAssignments_def Let_def strict_distinct)
  then show ?case
    using Cons.IH[of "claimed @ effectiveAssignments i slot p"] Cons.prems by (auto simp: claimAll_eq)
qed simp

lemma distinct_concat_map:
  "distinct (concat (map f ps)) \<longleftrightarrow> (\<forall>p \<in> set ps. distinct (f p)) \<and> sorted_wrt (\<lambda>p q. set (f p) \<inter> set (f q) = {}) ps"
  by (induction ps) auto

definition heldSlots :: "u8 \<Rightarrow> u8 \<Rightarrow> ParticipantInfo \<Rightarrow> u8 set" where
  "heldSlots participantId slot p =
     set (participantAssignments p) \<union> (if pi_id p = participantId \<and> slot \<noteq> kObserverPlayerSlot then {slot} else {})"

lemma set_effective: "set (effectiveAssignments i slot p) = heldSlots i slot p"
  by (auto simp: effectiveAssignments_def heldSlots_def Let_def)

lemma distinct_effective: "distinct (effectiveAssignments i slot p)"
  by (simp add: effectiveAssignments_def Let_def strict_distinct)

subsection \<open>Properties\<close>

text \<open>
  C13: the host's check of an input assignment is exact. \<open>canAssignInputCandidate\<close> accepts a slot for
  a participant under a topology if and only if afterwards every slot held in the room is an assignable
  slot of that topology and no slot is held by two participants. The candidate room it is computed on
  is in normal form: the assignments of every participant are assignable, sorted and without
  repetition, the single assignment is the first of them, and normalising again changes nothing.
\<close>
theorem input_assignment:
  fixes room :: RoomState
  defines "R t \<equiv> roomWithInputTopology room t"
  shows "(canAssignInputCandidate room participantId t slot \<longleftrightarrow>
      (\<forall>p \<in> set (rs_participants (R t)). \<forall>s \<in> heldSlots participantId slot p. isAssignmentAvailable s (R t)) \<and>
      (\<forall>i j. i < j \<longrightarrow> j < length (rs_participants (R t)) \<longrightarrow>
        heldSlots participantId slot (rs_participants (R t) ! i) \<inter> heldSlots participantId slot (rs_participants (R t) ! j) = {})) \<and>
    (\<forall>p \<in> set (rs_participants (R t)). normal t p) \<and> roomWithInputTopology (R t) t = R t"
proof (intro conjI)
  have n: "\<forall>p \<in> set (rs_participants (R t)). normal t p"
    by (auto simp: R_def roomWithInputTopology_def Let_def normalize_normal)
  then show "\<forall>p \<in> set (rs_participants (R t)). normal t p" .
  have "map (normalizeControllerAssignments (Some t)) (rs_participants (R t)) = rs_participants (R t)"
    using n by (simp add: map_idI normalize_id)
  then show "roomWithInputTopology (R t) t = R t" by (simp add: R_def roomWithInputTopology_def Let_def)
qed (simp add: canAssignInputCandidate_def Let_def claimParticipants_iff distinct_concat_map set_effective
    distinct_effective sorted_wrt_iff_nth_less flip: R_def)

theorem input_assignment_witness:
  "\<not> canAssignInputCandidate (RoomState0\<lparr>rs_participants :=
     [ParticipantInfo0\<lparr>pi_id := 0, pi_controllerAssignments := [1, 0]\<rparr>, ParticipantInfo0\<lparr>pi_id := 1\<rparr>]\<rparr>) 1 defaultInputTopology 0"
proof -
  let ?room = "RoomState0\<lparr>rs_participants :=
     [ParticipantInfo0\<lparr>pi_id := 0, pi_controllerAssignments := [1, 0]\<rparr>, ParticipantInfo0\<lparr>pi_id := 1\<rparr>]\<rparr>"
  let ?R = "roomWithInputTopology ?room defaultInputTopology"
  have "0 \<in> heldSlots 1 0 (rs_participants ?R ! 0) \<inter> heldSlots 1 0 (rs_participants ?R ! 1)" "length (rs_participants ?R) = 2"
    by (simp_all add: heldSlots_def roomWithInputTopology_def Let_def normalizeControllerAssignments_def keepAssignable_def
        isAssignableSlotInTopology_def participantAssignments_def defaultInputTopology_def ParticipantInfo0_def
        kObserverPlayerSlot_def)
  then show ?thesis using input_assignment[of ?room 1 defaultInputTopology 0] by fastforce
qed

text \<open>A topology survives the network: what the host announces is what a client installs.\<close>

lemma topology_roundtrip: "rs_inputTopology (applyTopologyData (makeTopologyData room) room') = rs_inputTopology room"
  by (simp add: applyTopologyData_def makeTopologyData_def comp_def map_idI)

end
