(* ===== verification/Net_Messages.thy ===== *)
theory Net_Messages
  imports Net_Session
begin

text \<open>
  The packets of the coordinator (\<open>ConsoleNetplay/NetplayCoordinator.cpp\<close>): the functions
  \<open>build...Packet\<close> and the reading part of \<open>handleControlPacket\<close> and of the handlers it calls. A
  \<open>message\<close> is what a handler reads from a packet before it acts on it; the members of the coordinator
  that the builders use are arguments. A handler that does not look at the rest of a packet (an old
  epoch, an unknown resynchronisation) is not distinguished from one that reads it.
\<close>

definition kProtocolVersion :: u8 where "kProtocolVersion = 19"

definition kInputFrameRedundancyCount :: u8 where "kInputFrameRedundancyCount = 8"

datatype MessageType = CreateRoom | JoinRoom | JoinRejected | ParticipantJoined
  | ParticipantLeft | LeaveRoom | ChatMessage | AssignController | SelectRom
  | RomValidationResult | StartSession | PauseSession | ResumeSession | EndSession | InputFrame
  | ConfirmedInputFrames | InputAck | FrameStatus | PeerHealth | CrcReport | ClockSyncRequest
  | ClockSyncResponse | ResyncBegin | ResyncChunk | ResyncComplete | ResyncAck | ResyncAbort
  | ResyncRequest

fun MessageType_value :: "MessageType \<Rightarrow> u16" where
  "MessageType_value CreateRoom = 1"
| "MessageType_value JoinRoom = 2"
| "MessageType_value JoinRejected = 3"
| "MessageType_value ParticipantJoined = 4"
| "MessageType_value ParticipantLeft = 5"
| "MessageType_value LeaveRoom = 6"
| "MessageType_value ChatMessage = 7"
| "MessageType_value AssignController = 8"
| "MessageType_value SelectRom = 9"
| "MessageType_value RomValidationResult = 10"
| "MessageType_value StartSession = 11"
| "MessageType_value PauseSession = 12"
| "MessageType_value ResumeSession = 13"
| "MessageType_value EndSession = 14"
| "MessageType_value InputFrame = 100"
| "MessageType_value ConfirmedInputFrames = 101"
| "MessageType_value InputAck = 102"
| "MessageType_value FrameStatus = 103"
| "MessageType_value PeerHealth = 104"
| "MessageType_value CrcReport = 105"
| "MessageType_value ClockSyncRequest = 106"
| "MessageType_value ClockSyncResponse = 107"
| "MessageType_value ResyncBegin = 200"
| "MessageType_value ResyncChunk = 201"
| "MessageType_value ResyncComplete = 202"
| "MessageType_value ResyncAck = 203"
| "MessageType_value ResyncAbort = 204"
| "MessageType_value ResyncRequest = 205"

definition MESSAGE_TYPES :: "MessageType list" where
  "MESSAGE_TYPES = [CreateRoom, JoinRoom, JoinRejected, ParticipantJoined, ParticipantLeft, LeaveRoom, ChatMessage, AssignController, SelectRom, RomValidationResult, StartSession, PauseSession, ResumeSession, EndSession, InputFrame, ConfirmedInputFrames, InputAck, FrameStatus, PeerHealth, CrcReport, ClockSyncRequest, ClockSyncResponse, ResyncBegin, ResyncChunk, ResyncComplete, ResyncAck, ResyncAbort, ResyncRequest]"

definition messageType :: "u16 \<Rightarrow> MessageType option" where
  "messageType v = List.find (\<lambda>t. MessageType_value t = v) MESSAGE_TYPES"

text \<open>What a participant announcement carries.\<close>

record ParticipantJoinedData =
  pj_participantId :: u8
  pj_reconnectToken :: u64
  pj_connected :: u8
  pj_reconnectReserved :: u8
  pj_reservationSecondsRemaining :: u16
  pj_role :: u8
  pj_nameColorHue :: u16
  pj_controllerAssignments :: "u8 list"
  pj_displayName :: bytes

record ConfirmedFrameInputs =
  fi_frame :: u32
  fi_authoritativeFrameStartClockMicros :: u64
  fi_buttonMaskLo :: "u64 per_slot"
  fi_buttonMaskHi :: "u64 per_slot"
  fi_netplayFrame :: NetplayInputFrame

datatype message =
    Msg_JoinRoom JoinRoomData bytes bytes
  | Msg_JoinRejected JoinRejectedData bytes bytes
  | Msg_ParticipantJoined ParticipantJoinedData
  | Msg_SelectRom bytes RomValidationData InputTopologyData
  | Msg_StartSession MessageType StartSessionData
  | Msg_InputFrame "(InputFrameData \<times> bytes) list"
  | Msg_ConfirmedInputFrames ConfirmedInputFramesData "(ConfirmedInputFrameEntry \<times> bytes) list"
  | Msg_ResyncChunk ResyncChunkData bytes
  | Msg_RomValidationResult RomValidationResultData
  | Msg_ParticipantLeft ParticipantLeftData
  | Msg_LeaveRoom LeaveRoomData
  | Msg_ChatMessage ChatMessageData
  | Msg_ResyncBegin ResyncBeginData
  | Msg_ResyncComplete ResyncCompleteData
  | Msg_ResyncAck ResyncAckData
  | Msg_ResyncAbort ResyncAbortData
  | Msg_ResyncRequest ResyncRequestData
  | Msg_ClockSyncRequest ClockSyncRequestData
  | Msg_ClockSyncResponse ClockSyncResponseData
  | Msg_PeerHealth PeerHealthData
  | Msg_InputAck InputAckData
  | Msg_FrameStatus FrameStatusData
  | Msg_CrcReport CrcReportData
  | Msg_AssignController AssignControllerData

subsection \<open>Building packets\<close>

definition writeHeader :: "MessageType \<Rightarrow> u32 \<Rightarrow> bytes" where
  "writeHeader t sessionId = PacketHeader_serialize
     \<lparr>ph_protocolVersion = kProtocolVersion, ph_type = MessageType_value t, ph_sessionId = sessionId\<rparr> []"

definition buildJoinRoomPacket :: "u32 \<Rightarrow> u64 \<Rightarrow> bool \<Rightarrow> RomValidationData \<Rightarrow> bytes \<Rightarrow> bytes \<Rightarrow> bytes" where
  "buildJoinRoomPacket sessionId token romLoaded romValidation displayName emulatorVersion =
     (let w = writeHeader JoinRoom sessionId;
          d = \<lparr>jr_reconnectToken = token, jr_romLoaded = (if romLoaded then 1 else 0), jr_romValidation = romValidation\<rparr>;
          w = JoinRoomData_serialize d w;
          w = writeString displayName w
      in writeString emulatorVersion w)"

definition buildParticipantJoinedPacket :: "u32 \<Rightarrow> ParticipantInfo \<Rightarrow> u64 \<Rightarrow> bytes" where
  "buildParticipantJoinedPacket sessionId p reconnectToken =
     (let w = writeHeader ParticipantJoined sessionId;
          w = writePod (pi_id p) w;
          w = writePod reconnectToken w;
          w = writePod (if pi_connected p then 1 else 0 :: u8) w;
          w = writePod (if pi_reconnectReserved p then 1 else 0 :: u8) w;
          w = writePod (pi_reservationSecondsRemaining p) w;
          w = writePod (pi_role p) w;
          w = writePod (pi_nameColorHue p) w;
          w = writeCounted writePod (pi_controllerAssignments p) w
      in writeString (pi_displayName p) w)"

definition buildJoinRejectedPacket :: "u32 \<Rightarrow> u8 \<Rightarrow> bytes \<Rightarrow> RomValidationData \<Rightarrow> bytes \<Rightarrow> bytes" where
  "buildJoinRejectedPacket sessionId reason gameName romValidation expectedEmulatorVersion =
     (let w = writeHeader JoinRejected sessionId;
          w = JoinRejectedData_serialize \<lparr>jx_reason = reason, jx_romValidation = romValidation\<rparr> w;
          w = writeString gameName w
      in writeString expectedEmulatorVersion w)"

definition buildSelectRomPacket :: "RoomState \<Rightarrow> bytes \<Rightarrow> RomValidationData \<Rightarrow> bytes" where
  "buildSelectRomPacket room gameName romValidation =
     (let w = writeHeader SelectRom (rs_sessionId room);
          w = writeString gameName w;
          w = RomValidationData_serialize romValidation w
      in InputTopologyData_serialize (makeTopologyData room) w)"

definition buildResyncChunkPacket :: "u32 \<Rightarrow> ResyncChunkData \<Rightarrow> bytes \<Rightarrow> bytes" where
  "buildResyncChunkPacket sessionId d payloadChunk =
     writeBytes payloadChunk (ResyncChunkData_serialize d (writeHeader ResyncChunk sessionId))"

definition writeInputEntry :: "InputFrameData \<times> bytes \<Rightarrow> bytes \<Rightarrow> bytes" where
  "writeInputEntry e w = writeBytes (snd e) (InputFrameData_serialize (fst e) w)"

definition buildInputFramePacket :: "(InputFrameData \<times> bytes) list \<Rightarrow> bytes" where
  "buildInputFramePacket entries = writeCounted writeInputEntry entries (writeHeader InputFrame 0)"

definition confirmedEntry :: "ConfirmedFrameInputs \<Rightarrow> ConfirmedInputFrameEntry \<times> bytes" where
  "confirmedEntry f =
     (let payload = serializeNetplayInputFrame (fi_netplayFrame f)
      in (\<lparr>ce_authoritativeFrameStartClockMicros = fi_authoritativeFrameStartClockMicros f,
            ce_slotMasks = map (\<lambda>slot. \<lparr>sm_slot = slot, sm_buttonMaskLo = ps_at 0 slot (fi_buttonMaskLo f),
              sm_buttonMaskHi = ps_at 0 slot (fi_buttonMaskHi f)\<rparr>) (activeSlots (fi_netplayFrame f)),
            ce_payloadSize = of_nat (length payload)\<rparr>, payload))"

definition writeConfirmedEntry :: "ConfirmedInputFrameEntry \<times> bytes \<Rightarrow> bytes \<Rightarrow> bytes" where
  "writeConfirmedEntry e w = writeBytes (snd e) (ConfirmedInputFrameEntry_serialize (fst e) w)"

definition buildConfirmedInputFramesPacket ::
    "ConfirmedInputFramesData \<Rightarrow> ConfirmedFrameInputs list \<Rightarrow> u32 \<Rightarrow> bytes" where
  "buildConfirmedInputFramesPacket d frames sessionId =
     (let w = writeHeader ConfirmedInputFrames sessionId;
          w = ConfirmedInputFramesData_serialize d w
      in writeAll writeConfirmedEntry (map confirmedEntry frames) w)"

definition buildStartSessionPacket :: "StartSessionData \<Rightarrow> u32 \<Rightarrow> bytes" where
  "buildStartSessionPacket d sessionId = StartSessionData_serialize d (writeHeader StartSession sessionId)"

definition buildSessionStatePacket :: "MessageType \<Rightarrow> u8 \<Rightarrow> u32 \<Rightarrow> bytes" where
  "buildSessionStatePacket t state sessionId =
     StartSessionData_serialize \<lparr>ss_state = state, ss_inputDelayFrames = 0, ss_topology = \<lparr>it_slots = []\<rparr>\<rparr>
       (writeHeader t sessionId)"

definition buildRomValidationResultPacket :: "u32 \<Rightarrow> RomValidationResultData \<Rightarrow> bytes" where
  "buildRomValidationResultPacket sessionId d = RomValidationResultData_serialize d (writeHeader RomValidationResult sessionId)"

definition buildParticipantLeftPacket :: "u32 \<Rightarrow> u8 \<Rightarrow> u32 \<Rightarrow> bytes" where
  "buildParticipantLeftPacket sessionId participantId disconnectReason =
     ParticipantLeftData_serialize \<lparr>pl_participantId = participantId, pl_disconnectReason = disconnectReason\<rparr>
       (writeHeader ParticipantLeft sessionId)"

definition buildLeaveRoomPacket :: "u32 \<Rightarrow> u8 \<Rightarrow> bytes" where
  "buildLeaveRoomPacket sessionId participantId =
     LeaveRoomData_serialize \<lparr>lr_participantId = participantId\<rparr> (writeHeader LeaveRoom sessionId)"

definition buildChatMessagePacket :: "u32 \<Rightarrow> ChatMessageData \<Rightarrow> bytes" where
  "buildChatMessagePacket sessionId d = ChatMessageData_serialize d (writeHeader ChatMessage sessionId)"

definition buildResyncBeginPacket :: "u32 \<Rightarrow> ResyncBeginData \<Rightarrow> bytes" where
  "buildResyncBeginPacket sessionId d = ResyncBeginData_serialize d (writeHeader ResyncBegin sessionId)"

definition buildResyncCompletePacket :: "u32 \<Rightarrow> ResyncCompleteData \<Rightarrow> bytes" where
  "buildResyncCompletePacket sessionId d = ResyncCompleteData_serialize d (writeHeader ResyncComplete sessionId)"

definition buildResyncAckPacket :: "u32 \<Rightarrow> ResyncAckData \<Rightarrow> bytes" where
  "buildResyncAckPacket sessionId d = ResyncAckData_serialize d (writeHeader ResyncAck sessionId)"

definition buildResyncAbortPacket :: "u32 \<Rightarrow> ResyncAbortData \<Rightarrow> bytes" where
  "buildResyncAbortPacket sessionId d = ResyncAbortData_serialize d (writeHeader ResyncAbort sessionId)"

definition buildResyncRequestPacket :: "u32 \<Rightarrow> ResyncRequestData \<Rightarrow> bytes" where
  "buildResyncRequestPacket sessionId d = ResyncRequestData_serialize d (writeHeader ResyncRequest sessionId)"

definition buildClockSyncRequestPacket :: "u32 \<Rightarrow> ClockSyncRequestData \<Rightarrow> bytes" where
  "buildClockSyncRequestPacket sessionId d = ClockSyncRequestData_serialize d (writeHeader ClockSyncRequest sessionId)"

definition buildClockSyncResponsePacket :: "u32 \<Rightarrow> ClockSyncResponseData \<Rightarrow> bytes" where
  "buildClockSyncResponsePacket sessionId d = ClockSyncResponseData_serialize d (writeHeader ClockSyncResponse sessionId)"

definition buildPeerHealthPacket :: "PeerHealthData \<Rightarrow> u32 \<Rightarrow> bytes" where
  "buildPeerHealthPacket d sessionId = PeerHealthData_serialize d (writeHeader PeerHealth sessionId)"

definition buildInputAckPacket :: "InputAckData \<Rightarrow> bytes" where
  "buildInputAckPacket d = InputAckData_serialize d (writeHeader InputAck 0)"

definition buildFrameStatusPacket :: "FrameStatusData \<Rightarrow> u32 \<Rightarrow> bytes" where
  "buildFrameStatusPacket d sessionId = FrameStatusData_serialize d (writeHeader FrameStatus sessionId)"

definition buildCrcReportPacket :: "CrcReportData \<Rightarrow> u32 \<Rightarrow> bytes" where
  "buildCrcReportPacket d sessionId = CrcReportData_serialize d (writeHeader CrcReport sessionId)"

definition buildAssignControllerPacket :: "AssignControllerData \<Rightarrow> u32 \<Rightarrow> bytes" where
  "buildAssignControllerPacket d sessionId = AssignControllerData_serialize d (writeHeader AssignController sessionId)"

subsection \<open>Reading packets\<close>

text \<open>A string that older peers do not send.\<close>

definition readOptionalString :: "bytes reader" where
  "readOptionalString r = (if remaining r > 0 then readString r else Some ([], r))"

definition readJoinRoom :: "bytes \<Rightarrow> message option" where
  "readJoinRoom r = do {
     (d, r) \<leftarrow> JoinRoomData_deserialize r;
     (displayName, r) \<leftarrow> readString r;
     (emulatorVersion, r) \<leftarrow> readOptionalString r;
     Some (Msg_JoinRoom d displayName emulatorVersion) }"

definition readJoinRejected :: "bytes \<Rightarrow> message option" where
  "readJoinRejected r = do {
     (d, r) \<leftarrow> JoinRejectedData_deserialize r;
     (gameName, r) \<leftarrow> readString r;
     (expectedEmulatorVersion, r) \<leftarrow> readOptionalString r;
     Some (Msg_JoinRejected d gameName expectedEmulatorVersion) }"

definition readParticipantJoined :: "bytes \<Rightarrow> message option" where
  "readParticipantJoined r = do {
     (a0, r) \<leftarrow> readPod r;
     (a1, r) \<leftarrow> readPod r;
     (a2, r) \<leftarrow> readPod r;
     (a3, r) \<leftarrow> readPod r;
     (a4, r) \<leftarrow> readPod r;
     (a5, r) \<leftarrow> readPod r;
     (a6, r) \<leftarrow> readPod r;
     (a7, r) \<leftarrow> readCounted readPod r;
     (a8, r) \<leftarrow> readString r;
     Some (Msg_ParticipantJoined \<lparr>pj_participantId = a0, pj_reconnectToken = a1, pj_connected = a2,
       pj_reconnectReserved = a3, pj_reservationSecondsRemaining = a4, pj_role = a5, pj_nameColorHue = a6,
       pj_controllerAssignments = a7, pj_displayName = a8\<rparr>) }"

definition readSelectRom :: "bytes \<Rightarrow> message option" where
  "readSelectRom r = do {
     (gameName, r) \<leftarrow> readString r;
     (romValidation, r) \<leftarrow> RomValidationData_deserialize r;
     (topology, r) \<leftarrow> InputTopologyData_deserialize r;
     Some (Msg_SelectRom gameName romValidation topology) }"

definition readInputEntry :: "(InputFrameData \<times> bytes) reader" where
  "readInputEntry r = do {
     (input, r) \<leftarrow> InputFrameData_deserialize r;
     (payload, r) \<leftarrow> readBytes (unat (if_payloadSize input)) r;
     if deserializeNetplayInputFrame payload = None then None else Some ((input, payload), r) }"

definition readInputFrame :: "bytes \<Rightarrow> message option" where
  "readInputFrame r = do {
     (entryCount, r) \<leftarrow> readPod r;
     if entryCount = 0 \<or> entryCount > kInputFrameRedundancyCount then None else do {
     (entries, r) \<leftarrow> readAll readInputEntry (unat entryCount) r;
     Some (Msg_InputFrame entries) }}"

definition readConfirmedEntry :: "(ConfirmedInputFrameEntry \<times> bytes) reader" where
  "readConfirmedEntry r = do {
     (entry, r) \<leftarrow> ConfirmedInputFrameEntry_deserialize r;
     (payload, r) \<leftarrow> readBytes (unat (ce_payloadSize entry)) r;
     if deserializeNetplayInputFrame payload = None then None else Some ((entry, payload), r) }"

definition readConfirmedInputFrames :: "bytes \<Rightarrow> message option" where
  "readConfirmedInputFrames r = do {
     (d, r) \<leftarrow> ConfirmedInputFramesData_deserialize r;
     (entries, r) \<leftarrow> readAll readConfirmedEntry (unat (cf_frameCount d)) r;
     Some (Msg_ConfirmedInputFrames d entries) }"

definition readResyncChunk :: "bytes \<Rightarrow> message option" where
  "readResyncChunk r = do {
     (d, r) \<leftarrow> ResyncChunkData_deserialize r;
     (chunk, r) \<leftarrow> readBytes (unat (rc_size d)) r;
     Some (Msg_ResyncChunk d chunk) }"

definition readStartSession :: "MessageType \<Rightarrow> bytes \<Rightarrow> message option" where
  "readStartSession t r = map_option (\<lambda>(d, r). Msg_StartSession t d) (StartSessionData_deserialize r)"

fun readBody :: "MessageType \<Rightarrow> bytes \<Rightarrow> message option" where
  "readBody CreateRoom r = None"
| "readBody JoinRoom r = readJoinRoom r"
| "readBody JoinRejected r = readJoinRejected r"
| "readBody ParticipantJoined r = readParticipantJoined r"
| "readBody SelectRom r = readSelectRom r"
| "readBody InputFrame r = readInputFrame r"
| "readBody ConfirmedInputFrames r = readConfirmedInputFrames r"
| "readBody ResyncChunk r = readResyncChunk r"
| "readBody StartSession r = readStartSession StartSession r"
| "readBody PauseSession r = readStartSession PauseSession r"
| "readBody ResumeSession r = readStartSession ResumeSession r"
| "readBody EndSession r = readStartSession EndSession r"
| "readBody RomValidationResult r = map_option (\<lambda>(d, r). Msg_RomValidationResult d) (RomValidationResultData_deserialize r)"
| "readBody ParticipantLeft r = map_option (\<lambda>(d, r). Msg_ParticipantLeft d) (ParticipantLeftData_deserialize r)"
| "readBody LeaveRoom r = map_option (\<lambda>(d, r). Msg_LeaveRoom d) (LeaveRoomData_deserialize r)"
| "readBody ChatMessage r = map_option (\<lambda>(d, r). Msg_ChatMessage d) (ChatMessageData_deserialize r)"
| "readBody ResyncBegin r = map_option (\<lambda>(d, r). Msg_ResyncBegin d) (ResyncBeginData_deserialize r)"
| "readBody ResyncComplete r = map_option (\<lambda>(d, r). Msg_ResyncComplete d) (ResyncCompleteData_deserialize r)"
| "readBody ResyncAck r = map_option (\<lambda>(d, r). Msg_ResyncAck d) (ResyncAckData_deserialize r)"
| "readBody ResyncAbort r = map_option (\<lambda>(d, r). Msg_ResyncAbort d) (ResyncAbortData_deserialize r)"
| "readBody ResyncRequest r = map_option (\<lambda>(d, r). Msg_ResyncRequest d) (ResyncRequestData_deserialize r)"
| "readBody ClockSyncRequest r = map_option (\<lambda>(d, r). Msg_ClockSyncRequest d) (ClockSyncRequestData_deserialize r)"
| "readBody ClockSyncResponse r = map_option (\<lambda>(d, r). Msg_ClockSyncResponse d) (ClockSyncResponseData_deserialize r)"
| "readBody PeerHealth r = map_option (\<lambda>(d, r). Msg_PeerHealth d) (PeerHealthData_deserialize r)"
| "readBody InputAck r = map_option (\<lambda>(d, r). Msg_InputAck d) (InputAckData_deserialize r)"
| "readBody FrameStatus r = map_option (\<lambda>(d, r). Msg_FrameStatus d) (FrameStatusData_deserialize r)"
| "readBody CrcReport r = map_option (\<lambda>(d, r). Msg_CrcReport d) (CrcReportData_deserialize r)"
| "readBody AssignController r = map_option (\<lambda>(d, r). Msg_AssignController d) (AssignControllerData_deserialize r)"

text \<open>\<open>handleControlPacket\<close> of a coordinator that hosts or not and whose room has the session number
  \<open>room\<close>: the session number of the room afterwards, and the message that goes to a handler. A host
  ignores a packet of another session, a client takes the session number over, also from a packet it
  does not understand. The log lines and the error text of the refusals are left out.\<close>

definition readPacket :: "bool \<Rightarrow> u32 \<Rightarrow> bytes \<Rightarrow> u32 \<times> message option" where
  "readPacket hosting room payload =
     (case PacketHeader_deserialize payload of
        None \<Rightarrow> (room, None)
      | Some (header, r) \<Rightarrow>
          if ph_protocolVersion header \<noteq> kProtocolVersion then (room, None)
          else if hosting \<and> ph_sessionId header \<noteq> 0 \<and> ph_sessionId header \<noteq> room then (room, None)
          else (if \<not> hosting \<and> ph_sessionId header \<noteq> 0 then ph_sessionId header else room,
                do { t \<leftarrow> messageType (ph_type header); readBody t r }))"

subsection \<open>What is read back\<close>

text \<open>What becomes of a message \<open>m\<close> in a packet of session \<open>s\<close>.\<close>

definition delivered :: "bool \<Rightarrow> u32 \<Rightarrow> u32 \<Rightarrow> message option \<Rightarrow> u32 \<times> message option" where
  "delivered hosting room s m =
     (if hosting \<and> s \<noteq> 0 \<and> s \<noteq> room then (room, None) else (if hosting \<or> s = 0 then room else s, m))"

lemma messageType_value [simp]: "messageType (MessageType_value t) = Some t"
  by (cases t) (simp_all add: messageType_def MESSAGE_TYPES_def)

lemma readPacket_header: "readPacket h room (writeHeader t s @ r) = delivered h room s (readBody t r)"
  using PacketHeader.round[of "\<lparr>ph_protocolVersion = kProtocolVersion, ph_type = MessageType_value t, ph_sessionId = s\<rparr>" r]
  by (simp add: readPacket_def writeHeader_def delivered_def)

definition payload_ok :: "u16 \<Rightarrow> bytes \<Rightarrow> bool" where
  "payload_ok n payload \<longleftrightarrow> length payload = unat n \<and> deserializeNetplayInputFrame payload \<noteq> None"

interpretation input_entry: codec writeInputEntry readInputEntry "\<lambda>e. payload_ok (if_payloadSize (fst e)) (snd e)"
proof
  show "writeInputEntry e w = w @ writeInputEntry e []" for e w
    using InputFrameData.put_append[of "fst e" w] by (simp add: writeInputEntry_def writeBytes_def)
  show "readInputEntry r = Some (e, r') \<longleftrightarrow>
      payload_ok (if_payloadSize (fst e)) (snd e) \<and> r = writeInputEntry e [] @ r'" for e r r'
    by (cases e) (auto simp: readInputEntry_def writeInputEntry_def bind_eq_Some_conv InputFrameData.get_iff reads
        writes payload_ok_def)
qed

interpretation confirmed_entry: codec writeConfirmedEntry readConfirmedEntry
  "\<lambda>e. length (ce_slotMasks (fst e)) \<le> 255 \<and> payload_ok (ce_payloadSize (fst e)) (snd e)"
proof
  show "writeConfirmedEntry e w = w @ writeConfirmedEntry e []" for e w
    using ConfirmedInputFrameEntry.put_append[of "fst e" w] by (simp add: writeConfirmedEntry_def writeBytes_def)
  show "readConfirmedEntry r = Some (e, r') \<longleftrightarrow>
      (length (ce_slotMasks (fst e)) \<le> 255 \<and> payload_ok (ce_payloadSize (fst e)) (snd e)) \<and>
      r = writeConfirmedEntry e [] @ r'" for e r r'
    by (cases e) (auto simp: readConfirmedEntry_def writeConfirmedEntry_def bind_eq_Some_conv
        ConfirmedInputFrameEntry.get_iff reads writes payload_ok_def)
qed

subsection \<open>The packets a coordinator sends\<close>

text \<open>One constructor per \<open>build...Packet\<close>, with its arguments.\<close>

datatype request =
    Req_JoinRoom u64 bool RomValidationData bytes bytes
  | Req_ParticipantJoined ParticipantInfo u64
  | Req_JoinRejected u8 bytes RomValidationData bytes
  | Req_SelectRom RoomState bytes RomValidationData
  | Req_ResyncChunk ResyncChunkData bytes
  | Req_InputFrame "(InputFrameData \<times> bytes) list"
  | Req_ConfirmedInputFrames ConfirmedInputFramesData "ConfirmedFrameInputs list"
  | Req_StartSession StartSessionData
  | Req_SessionState MessageType u8
  | Req_RomValidationResult RomValidationResultData
  | Req_ParticipantLeft u8 u32
  | Req_LeaveRoom u8
  | Req_ChatMessage ChatMessageData
  | Req_ResyncBegin ResyncBeginData
  | Req_ResyncComplete ResyncCompleteData
  | Req_ResyncAck ResyncAckData
  | Req_ResyncAbort ResyncAbortData
  | Req_ResyncRequest ResyncRequestData
  | Req_ClockSyncRequest ClockSyncRequestData
  | Req_ClockSyncResponse ClockSyncResponseData
  | Req_PeerHealth PeerHealthData
  | Req_InputAck InputAckData
  | Req_FrameStatus FrameStatusData
  | Req_CrcReport CrcReportData
  | Req_AssignController AssignControllerData

fun send :: "u32 \<Rightarrow> request \<Rightarrow> bytes" where
  "send s (Req_JoinRoom token loaded rv name version) = buildJoinRoomPacket s token loaded rv name version"
| "send s (Req_ParticipantJoined p token) = buildParticipantJoinedPacket s p token"
| "send s (Req_JoinRejected reason game rv version) = buildJoinRejectedPacket s reason game rv version"
| "send s (Req_SelectRom room game rv) = buildSelectRomPacket (room\<lparr>rs_sessionId := s\<rparr>) game rv"
| "send s (Req_ResyncChunk d chunk) = buildResyncChunkPacket s d chunk"
| "send s (Req_InputFrame entries) = buildInputFramePacket entries"
| "send s (Req_ConfirmedInputFrames d frames) = buildConfirmedInputFramesPacket d frames s"
| "send s (Req_StartSession d) = buildStartSessionPacket d s"
| "send s (Req_SessionState t state) = buildSessionStatePacket t state s"
| "send s (Req_RomValidationResult d) = buildRomValidationResultPacket s d"
| "send s (Req_ParticipantLeft participantId reason) = buildParticipantLeftPacket s participantId reason"
| "send s (Req_LeaveRoom participantId) = buildLeaveRoomPacket s participantId"
| "send s (Req_ChatMessage d) = buildChatMessagePacket s d"
| "send s (Req_ResyncBegin d) = buildResyncBeginPacket s d"
| "send s (Req_ResyncComplete d) = buildResyncCompletePacket s d"
| "send s (Req_ResyncAck d) = buildResyncAckPacket s d"
| "send s (Req_ResyncAbort d) = buildResyncAbortPacket s d"
| "send s (Req_ResyncRequest d) = buildResyncRequestPacket s d"
| "send s (Req_ClockSyncRequest d) = buildClockSyncRequestPacket s d"
| "send s (Req_ClockSyncResponse d) = buildClockSyncResponsePacket s d"
| "send s (Req_PeerHealth d) = buildPeerHealthPacket d s"
| "send s (Req_InputAck d) = buildInputAckPacket d"
| "send s (Req_FrameStatus d) = buildFrameStatusPacket d s"
| "send s (Req_CrcReport d) = buildCrcReportPacket d s"
| "send s (Req_AssignController d) = buildAssignControllerPacket d s"

text \<open>What the receiver should read.\<close>

fun announced :: "request \<Rightarrow> message" where
  "announced (Req_JoinRoom token loaded rv name version) =
     Msg_JoinRoom \<lparr>jr_reconnectToken = token, jr_romLoaded = of_bool loaded, jr_romValidation = rv\<rparr> name version"
| "announced (Req_ParticipantJoined p token) = Msg_ParticipantJoined
     \<lparr>pj_participantId = pi_id p, pj_reconnectToken = token, pj_connected = of_bool (pi_connected p),
      pj_reconnectReserved = of_bool (pi_reconnectReserved p),
      pj_reservationSecondsRemaining = pi_reservationSecondsRemaining p, pj_role = pi_role p,
      pj_nameColorHue = pi_nameColorHue p, pj_controllerAssignments = pi_controllerAssignments p,
      pj_displayName = pi_displayName p\<rparr>"
| "announced (Req_JoinRejected reason game rv version) =
     Msg_JoinRejected \<lparr>jx_reason = reason, jx_romValidation = rv\<rparr> game version"
| "announced (Req_SelectRom room game rv) = Msg_SelectRom game rv (makeTopologyData room)"
| "announced (Req_ResyncChunk d chunk) = Msg_ResyncChunk d chunk"
| "announced (Req_InputFrame entries) = Msg_InputFrame entries"
| "announced (Req_ConfirmedInputFrames d frames) = Msg_ConfirmedInputFrames d (map confirmedEntry frames)"
| "announced (Req_StartSession d) = Msg_StartSession StartSession d"
| "announced (Req_SessionState t state) =
     Msg_StartSession t \<lparr>ss_state = state, ss_inputDelayFrames = 0, ss_topology = \<lparr>it_slots = []\<rparr>\<rparr>"
| "announced (Req_RomValidationResult d) = Msg_RomValidationResult d"
| "announced (Req_ParticipantLeft participantId reason) = Msg_ParticipantLeft \<lparr>pl_participantId = participantId, pl_disconnectReason = reason\<rparr>"
| "announced (Req_LeaveRoom participantId) = Msg_LeaveRoom \<lparr>lr_participantId = participantId\<rparr>"
| "announced (Req_ChatMessage d) = Msg_ChatMessage d"
| "announced (Req_ResyncBegin d) = Msg_ResyncBegin d"
| "announced (Req_ResyncComplete d) = Msg_ResyncComplete d"
| "announced (Req_ResyncAck d) = Msg_ResyncAck d"
| "announced (Req_ResyncAbort d) = Msg_ResyncAbort d"
| "announced (Req_ResyncRequest d) = Msg_ResyncRequest d"
| "announced (Req_ClockSyncRequest d) = Msg_ClockSyncRequest d"
| "announced (Req_ClockSyncResponse d) = Msg_ClockSyncResponse d"
| "announced (Req_PeerHealth d) = Msg_PeerHealth d"
| "announced (Req_InputAck d) = Msg_InputAck d"
| "announced (Req_FrameStatus d) = Msg_FrameStatus d"
| "announced (Req_CrcReport d) = Msg_CrcReport d"
| "announced (Req_AssignController d) = Msg_AssignController d"

definition hash_ok :: "RomValidationData \<Rightarrow> bool" where
  "hash_ok rv \<longleftrightarrow> length (rv_contentHash rv) = kMaxRomHashBytes"

fun request_ok :: "request \<Rightarrow> bool" where
  "request_ok (Req_JoinRoom token loaded rv name version) \<longleftrightarrow>
     hash_ok rv \<and> length name < 65536 \<and> length version < 65536"
| "request_ok (Req_ParticipantJoined p token) \<longleftrightarrow>
     length (pi_controllerAssignments p) \<le> 255 \<and> length (pi_displayName p) < 65536"
| "request_ok (Req_JoinRejected reason game rv version) \<longleftrightarrow>
     hash_ok rv \<and> length game < 65536 \<and> length version < 65536"
| "request_ok (Req_SelectRom room game rv) \<longleftrightarrow> hash_ok rv \<and> length game < 65536 \<and> topology_ok (makeTopologyData room)"
| "request_ok (Req_ResyncChunk d chunk) \<longleftrightarrow> length chunk = unat (rc_size d)"
| "request_ok (Req_InputFrame entries) \<longleftrightarrow> 0 < length entries \<and> length entries \<le> 8 \<and>
     list_all (\<lambda>e. payload_ok (if_payloadSize (fst e)) (snd e)) entries"
| "request_ok (Req_ConfirmedInputFrames d frames) \<longleftrightarrow> length frames = unat (cf_frameCount d) \<and>
     list_all (\<lambda>f. sendable (fi_netplayFrame f) \<and> serializedNetplayInputFrameSize (fi_netplayFrame f) < 65536) frames"
| "request_ok (Req_StartSession d) \<longleftrightarrow> topology_ok (ss_topology d)"
| "request_ok (Req_SessionState t state) \<longleftrightarrow> t \<in> {StartSession, PauseSession, ResumeSession, EndSession}"
| "request_ok (Req_RomValidationResult d) \<longleftrightarrow> hash_ok (rr_romValidation d)"
| "request_ok (Req_ParticipantLeft participantId reason) \<longleftrightarrow> True"
| "request_ok (Req_LeaveRoom participantId) \<longleftrightarrow> True"
| "request_ok (Req_ChatMessage d) \<longleftrightarrow> chat_ok d"
| "request_ok (Req_ResyncBegin d) \<longleftrightarrow> True"
| "request_ok (Req_ResyncComplete d) \<longleftrightarrow> True"
| "request_ok (Req_ResyncAck d) \<longleftrightarrow> True"
| "request_ok (Req_ResyncAbort d) \<longleftrightarrow> True"
| "request_ok (Req_ResyncRequest d) \<longleftrightarrow> True"
| "request_ok (Req_ClockSyncRequest d) \<longleftrightarrow> True"
| "request_ok (Req_ClockSyncResponse d) \<longleftrightarrow> True"
| "request_ok (Req_PeerHealth d) \<longleftrightarrow> True"
| "request_ok (Req_InputAck d) \<longleftrightarrow> True"
| "request_ok (Req_FrameStatus d) \<longleftrightarrow> topology_ok (fs_topology d)"
| "request_ok (Req_CrcReport d) \<longleftrightarrow> True"
| "request_ok (Req_AssignController d) \<longleftrightarrow> length (ac_controllerAssignments d) \<le> 255"

definition sentSession :: "u32 \<Rightarrow> request \<Rightarrow> u32" where
  "sentSession s q = (case q of Req_InputFrame _ \<Rightarrow> 0 | Req_InputAck _ \<Rightarrow> 0 | _ \<Rightarrow> s)"

lemma simple_bodies:
  "hash_ok (rr_romValidation d_RomValidationResult) \<Longrightarrow> readPacket h room (RomValidationResultData_serialize d_RomValidationResult (writeHeader RomValidationResult s) @ r) = delivered h room s (Some (Msg_RomValidationResult d_RomValidationResult))"
  "readPacket h room (ParticipantLeftData_serialize d_ParticipantLeft (writeHeader ParticipantLeft s) @ r) = delivered h room s (Some (Msg_ParticipantLeft d_ParticipantLeft))"
  "readPacket h room (LeaveRoomData_serialize d_LeaveRoom (writeHeader LeaveRoom s) @ r) = delivered h room s (Some (Msg_LeaveRoom d_LeaveRoom))"
  "chat_ok d_ChatMessage \<Longrightarrow> readPacket h room (ChatMessageData_serialize d_ChatMessage (writeHeader ChatMessage s) @ r) = delivered h room s (Some (Msg_ChatMessage d_ChatMessage))"
  "readPacket h room (ResyncBeginData_serialize d_ResyncBegin (writeHeader ResyncBegin s) @ r) = delivered h room s (Some (Msg_ResyncBegin d_ResyncBegin))"
  "readPacket h room (ResyncCompleteData_serialize d_ResyncComplete (writeHeader ResyncComplete s) @ r) = delivered h room s (Some (Msg_ResyncComplete d_ResyncComplete))"
  "readPacket h room (ResyncAckData_serialize d_ResyncAck (writeHeader ResyncAck s) @ r) = delivered h room s (Some (Msg_ResyncAck d_ResyncAck))"
  "readPacket h room (ResyncAbortData_serialize d_ResyncAbort (writeHeader ResyncAbort s) @ r) = delivered h room s (Some (Msg_ResyncAbort d_ResyncAbort))"
  "readPacket h room (ResyncRequestData_serialize d_ResyncRequest (writeHeader ResyncRequest s) @ r) = delivered h room s (Some (Msg_ResyncRequest d_ResyncRequest))"
  "readPacket h room (ClockSyncRequestData_serialize d_ClockSyncRequest (writeHeader ClockSyncRequest s) @ r) = delivered h room s (Some (Msg_ClockSyncRequest d_ClockSyncRequest))"
  "readPacket h room (ClockSyncResponseData_serialize d_ClockSyncResponse (writeHeader ClockSyncResponse s) @ r) = delivered h room s (Some (Msg_ClockSyncResponse d_ClockSyncResponse))"
  "readPacket h room (PeerHealthData_serialize d_PeerHealth (writeHeader PeerHealth s) @ r) = delivered h room s (Some (Msg_PeerHealth d_PeerHealth))"
  "readPacket h room (InputAckData_serialize d_InputAck (writeHeader InputAck s) @ r) = delivered h room s (Some (Msg_InputAck d_InputAck))"
  "topology_ok (fs_topology d_FrameStatus) \<Longrightarrow> readPacket h room (FrameStatusData_serialize d_FrameStatus (writeHeader FrameStatus s) @ r) = delivered h room s (Some (Msg_FrameStatus d_FrameStatus))"
  "readPacket h room (CrcReportData_serialize d_CrcReport (writeHeader CrcReport s) @ r) = delivered h room s (Some (Msg_CrcReport d_CrcReport))"
  "length (ac_controllerAssignments d_AssignController) \<le> 255 \<Longrightarrow> readPacket h room (AssignControllerData_serialize d_AssignController (writeHeader AssignController s) @ r) = delivered h room s (Some (Msg_AssignController d_AssignController))"
proof -
  show "readPacket h room (RomValidationResultData_serialize d_RomValidationResult (writeHeader RomValidationResult s) @ r) = delivered h room s (Some (Msg_RomValidationResult d_RomValidationResult))" if "hash_ok (rr_romValidation d_RomValidationResult)"
    using RomValidationResultData.put_append[of d_RomValidationResult "writeHeader _ _"] RomValidationResultData.round[of d_RomValidationResult r] that
    by (simp add: readPacket_header hash_ok_def)
  show "readPacket h room (ParticipantLeftData_serialize d_ParticipantLeft (writeHeader ParticipantLeft s) @ r) = delivered h room s (Some (Msg_ParticipantLeft d_ParticipantLeft))"
    using ParticipantLeftData.put_append[of d_ParticipantLeft "writeHeader _ _"] ParticipantLeftData.round[of d_ParticipantLeft r]
    by (simp add: readPacket_header)
  show "readPacket h room (LeaveRoomData_serialize d_LeaveRoom (writeHeader LeaveRoom s) @ r) = delivered h room s (Some (Msg_LeaveRoom d_LeaveRoom))"
    using LeaveRoomData.put_append[of d_LeaveRoom "writeHeader _ _"] LeaveRoomData.round[of d_LeaveRoom r]
    by (simp add: readPacket_header)
  show "readPacket h room (ChatMessageData_serialize d_ChatMessage (writeHeader ChatMessage s) @ r) = delivered h room s (Some (Msg_ChatMessage d_ChatMessage))" if "chat_ok d_ChatMessage"
    using ChatMessageData.put_append[of d_ChatMessage "writeHeader _ _"] ChatMessageData.round[of d_ChatMessage r] that
    by (simp add: readPacket_header)
  show "readPacket h room (ResyncBeginData_serialize d_ResyncBegin (writeHeader ResyncBegin s) @ r) = delivered h room s (Some (Msg_ResyncBegin d_ResyncBegin))"
    using ResyncBeginData.put_append[of d_ResyncBegin "writeHeader _ _"] ResyncBeginData.round[of d_ResyncBegin r]
    by (simp add: readPacket_header)
  show "readPacket h room (ResyncCompleteData_serialize d_ResyncComplete (writeHeader ResyncComplete s) @ r) = delivered h room s (Some (Msg_ResyncComplete d_ResyncComplete))"
    using ResyncCompleteData.put_append[of d_ResyncComplete "writeHeader _ _"] ResyncCompleteData.round[of d_ResyncComplete r]
    by (simp add: readPacket_header)
  show "readPacket h room (ResyncAckData_serialize d_ResyncAck (writeHeader ResyncAck s) @ r) = delivered h room s (Some (Msg_ResyncAck d_ResyncAck))"
    using ResyncAckData.put_append[of d_ResyncAck "writeHeader _ _"] ResyncAckData.round[of d_ResyncAck r]
    by (simp add: readPacket_header)
  show "readPacket h room (ResyncAbortData_serialize d_ResyncAbort (writeHeader ResyncAbort s) @ r) = delivered h room s (Some (Msg_ResyncAbort d_ResyncAbort))"
    using ResyncAbortData.put_append[of d_ResyncAbort "writeHeader _ _"] ResyncAbortData.round[of d_ResyncAbort r]
    by (simp add: readPacket_header)
  show "readPacket h room (ResyncRequestData_serialize d_ResyncRequest (writeHeader ResyncRequest s) @ r) = delivered h room s (Some (Msg_ResyncRequest d_ResyncRequest))"
    using resync_request_append[of d_ResyncRequest "writeHeader _ _"] resync_request_round[of d_ResyncRequest r]
    by (simp add: readPacket_header)
  show "readPacket h room (ClockSyncRequestData_serialize d_ClockSyncRequest (writeHeader ClockSyncRequest s) @ r) = delivered h room s (Some (Msg_ClockSyncRequest d_ClockSyncRequest))"
    using ClockSyncRequestData.put_append[of d_ClockSyncRequest "writeHeader _ _"] ClockSyncRequestData.round[of d_ClockSyncRequest r]
    by (simp add: readPacket_header)
  show "readPacket h room (ClockSyncResponseData_serialize d_ClockSyncResponse (writeHeader ClockSyncResponse s) @ r) = delivered h room s (Some (Msg_ClockSyncResponse d_ClockSyncResponse))"
    using ClockSyncResponseData.put_append[of d_ClockSyncResponse "writeHeader _ _"] ClockSyncResponseData.round[of d_ClockSyncResponse r]
    by (simp add: readPacket_header)
  show "readPacket h room (PeerHealthData_serialize d_PeerHealth (writeHeader PeerHealth s) @ r) = delivered h room s (Some (Msg_PeerHealth d_PeerHealth))"
    using PeerHealthData.put_append[of d_PeerHealth "writeHeader _ _"] PeerHealthData.round[of d_PeerHealth r]
    by (simp add: readPacket_header)
  show "readPacket h room (InputAckData_serialize d_InputAck (writeHeader InputAck s) @ r) = delivered h room s (Some (Msg_InputAck d_InputAck))"
    using InputAckData.put_append[of d_InputAck "writeHeader _ _"] InputAckData.round[of d_InputAck r]
    by (simp add: readPacket_header)
  show "readPacket h room (FrameStatusData_serialize d_FrameStatus (writeHeader FrameStatus s) @ r) = delivered h room s (Some (Msg_FrameStatus d_FrameStatus))" if "topology_ok (fs_topology d_FrameStatus)"
    using FrameStatusData.put_append[of d_FrameStatus "writeHeader _ _"] FrameStatusData.round[of d_FrameStatus r] that
    by (simp add: readPacket_header)
  show "readPacket h room (CrcReportData_serialize d_CrcReport (writeHeader CrcReport s) @ r) = delivered h room s (Some (Msg_CrcReport d_CrcReport))"
    using CrcReportData.put_append[of d_CrcReport "writeHeader _ _"] CrcReportData.round[of d_CrcReport r]
    by (simp add: readPacket_header)
  show "readPacket h room (AssignControllerData_serialize d_AssignController (writeHeader AssignController s) @ r) = delivered h room s (Some (Msg_AssignController d_AssignController))" if "length (ac_controllerAssignments d_AssignController) \<le> 255"
    using AssignControllerData.put_append[of d_AssignController "writeHeader _ _"] AssignControllerData.round[of d_AssignController r] that
    by (simp add: readPacket_header)
qed

lemma pod_rounds: "readPod (pod_bytes v8 @ r) = Some (v8, r)" "readPod (pod_bytes v16 @ r) = Some (v16, r)"
  "readPod (pod_bytes v32 @ r) = Some (v32, r)" "readPod (pod_bytes v64 @ r) = Some (v64, r)"
  for v8 :: u8 and v16 :: u16 and v32 :: u32 and v64 :: u64
  by (simp_all add: reads)

lemma string_rounds:
  assumes "length s < 65536"
  shows "readString (writeString s [] @ r) = Some (s, r)" "readOptionalString (writeString s [] @ r) = Some (s, r)"
proof -
  show "readString (writeString s [] @ r) = Some (s, r)" using assms by (simp add: reads)
  then show "readOptionalString (writeString s [] @ r) = Some (s, r)"
    by (simp add: readOptionalString_def remaining_def length_strings)
qed

lemmas after_header = str.put_append[of _ "_ @ _"] str.put_append[of _ "writeHeader _ _"]
  JoinRoomData.put_append[of _ "writeHeader _ _"] JoinRejectedData.put_append[of _ "writeHeader _ _"]
  RomValidationData.put_append[of _ "_ @ _"] InputTopologyData.put_append[of _ "_ @ _"]
  ResyncChunkData.put_append[of _ "writeHeader _ _"] ConfirmedInputFramesData.put_append[of _ "writeHeader _ _"]
  StartSessionData.put_append[of _ "writeHeader _ _"] pod8.writeCounted_append[of _ "_ @ _"]
  input_entry.writeCounted_append[of _ "writeHeader _ _"] confirmed_entry.writeAll_append[of _ "_ @ _"]

lemma joins_read:
  assumes "hash_ok rv" "length name < 65536" "length version < 65536"
  shows "readPacket h room (buildJoinRoomPacket s token loaded rv name version @ r) =
      delivered h room s (Some (announced (Req_JoinRoom token loaded rv name version)))"
    "readPacket h room (buildJoinRejectedPacket s reason name rv version @ r) =
      delivered h room s (Some (announced (Req_JoinRejected reason name rv version)))"
  using assms
  by (simp_all add: buildJoinRoomPacket_def buildJoinRejectedPacket_def Let_def after_header readPacket_header
      readJoinRoom_def readJoinRejected_def JoinRoomData.round JoinRejectedData.round hash_ok_def string_rounds)

lemma participant_read:
  assumes "length (pi_controllerAssignments p) \<le> 255" "length (pi_displayName p) < 65536"
  shows "readPacket h room (buildParticipantJoinedPacket s p token @ r) = delivered h room s (Some (announced (Req_ParticipantJoined p token)))"
proof -
  have "readCounted readPod (writeCounted writePod a [] @ r) = Some (a, r)" if "length a \<le> 255" for a :: "u8 list" and r
    using that by (simp add: pod8.readCounted_iff)
  then show ?thesis
    using assms by (simp add: buildParticipantJoinedPacket_def Let_def writePod_def after_header readPacket_header
        readParticipantJoined_def pod_rounds string_rounds of_bool_def)
qed

lemma rom_read:
  assumes "hash_ok rv" "length game < 65536" "topology_ok (makeTopologyData room)"
  shows "readPacket h n (buildSelectRomPacket (room\<lparr>rs_sessionId := s\<rparr>) game rv @ r) =
    delivered h n s (Some (announced (Req_SelectRom room game rv)))"
proof -
  have "makeTopologyData (room\<lparr>rs_sessionId := s\<rparr>) = makeTopologyData room" by (simp add: makeTopologyData_def)
  then show ?thesis
    using assms by (simp add: buildSelectRomPacket_def Let_def after_header readPacket_header readSelectRom_def
        RomValidationData.round InputTopologyData.round hash_ok_def string_rounds)
qed

lemma chunk_read:
  assumes "length chunk = unat (rc_size d)"
  shows "readPacket h room (buildResyncChunkPacket s d chunk @ r) = delivered h room s (Some (Msg_ResyncChunk d chunk))"
  using assms by (simp add: buildResyncChunkPacket_def writeBytes_def after_header readPacket_header readResyncChunk_def
      ResyncChunkData.round readBytes_def)

lemma inputs_read:
  assumes "0 < length es" "length es \<le> 8" "list_all (\<lambda>e. payload_ok (if_payloadSize (fst e)) (snd e)) es"
  shows "readPacket h room (buildInputFramePacket es @ r) = delivered h room 0 (Some (Msg_InputFrame es))"
proof -
  let ?n = "of_nat (length es) :: u8"
  have u: "unat ?n = length es" using assms(2) by (simp add: unat_of_nat)
  then have "\<not> (?n = 0 \<or> ?n > kInputFrameRedundancyCount)"
    using assms(1,2) by (simp add: kInputFrameRedundancyCount_def word_less_nat_alt word_unat_eq_iff)
  moreover have "readAll readInputEntry (length es) (writeAll writeInputEntry es [] @ r) = Some (es, r)"
    using assms(3) by (simp add: input_entry.readAll_iff list_all_iff)
  moreover have "writeCounted writeInputEntry es [] = pod_bytes ?n @ writeAll writeInputEntry es []"
    using assms(2) u input_entry.writeAll_append[of es "pod_bytes (_ :: u8)"] by (simp add: writeCounted_def writePod_def Let_def)
  ultimately show ?thesis
    by (simp add: buildInputFramePacket_def after_header readPacket_header readInputFrame_def pod_rounds u)
qed

lemma confirmedEntry_ok:
  assumes "sendable (fi_netplayFrame f)" "serializedNetplayInputFrameSize (fi_netplayFrame f) < 65536"
  shows "length (ce_slotMasks (fst (confirmedEntry f))) \<le> 255"
    "payload_ok (ce_payloadSize (fst (confirmedEntry f))) (snd (confirmedEntry f))"
  using assms deserialize_serialized[OF assms(1)]
  by (simp_all add: confirmedEntry_def Let_def payload_ok_def sendable_def serialized_length unat_of_nat)

lemma confirmed_read:
  assumes "length fs = unat (cf_frameCount d)"
    "list_all (\<lambda>f. sendable (fi_netplayFrame f) \<and> serializedNetplayInputFrameSize (fi_netplayFrame f) < 65536) fs"
  shows "readPacket h room (buildConfirmedInputFramesPacket d fs s @ r) = delivered h room s (Some (Msg_ConfirmedInputFrames d (map confirmedEntry fs)))"
proof -
  have "readAll readConfirmedEntry (unat (cf_frameCount d)) (writeAll writeConfirmedEntry (map confirmedEntry fs) [] @ r) =
      Some (map confirmedEntry fs, r)"
    using assms by (auto simp: confirmed_entry.readAll_iff list_all_iff confirmedEntry_ok)
  then show ?thesis
    by (simp add: buildConfirmedInputFramesPacket_def Let_def after_header readPacket_header readConfirmedInputFrames_def
        ConfirmedInputFramesData.round)
qed

lemma session_read:
  assumes "topology_ok (ss_topology d)" "t \<in> {StartSession, PauseSession, ResumeSession, EndSession}"
  shows "readPacket h room (StartSessionData_serialize d (writeHeader t s) @ r) = delivered h room s (Some (Msg_StartSession t d))"
  using assms(2) StartSessionData.round[OF assms(1), of r]
  by (auto simp: after_header readPacket_header readStartSession_def)

subsection \<open>Properties\<close>



end
