(* ===== verification/Net_Timeline.thy ===== *)
theory Net_Timeline
  imports Net_Input
begin

text \<open>
  The input timeline (\<open>ConsoleNetplay/InputTimeline.h\<close>, \<open>InputTimeline.cpp\<close>): a \<open>std::list\<close> of entries
  and an index from (frame, participant, slot) to list iterators. A node of the list is its entry with
  the address of the node, an iterator is such an address; the addresses of erased nodes are not
  reused. Dereferencing an iterator whose node was erased is undefined in C++ and \<open>None\<close> here. The
  timeline refines a bounded list of entries with distinct keys (\<open>timeline_refines\<close>), and never
  follows a dangling iterator.
\<close>

record TimelineInputEntry =
  te_frame :: u32
  te_participantId :: u8
  te_playerSlot :: u8
  te_buttonMaskLo :: u64
  te_buttonMaskHi :: u64
  te_netplayFrame :: NetplayInputFrame
  te_sequence :: u32
  te_confirmed :: bool

record LookupStats =
  ls_findCalls :: u64
  ls_findMutableCalls :: u64
  ls_hits :: u64
  ls_misses :: u64
  ls_totalScannedEntries :: u64
  ls_maxScannedEntries :: u64
  ls_lastScannedEntries :: u64

definition LookupStats0 :: LookupStats where
  "LookupStats0 = \<lparr>ls_findCalls = 0, ls_findMutableCalls = 0, ls_hits = 0, ls_misses = 0,
     ls_totalScannedEntries = 0, ls_maxScannedEntries = 0, ls_lastScannedEntries = 0\<rparr>"

definition ls_record :: "bool \<Rightarrow> bool \<Rightarrow> u64 \<Rightarrow> LookupStats \<Rightarrow> LookupStats" where
  "ls_record mutableLookup hit scanned s =
     (let s = (if mutableLookup then s\<lparr>ls_findMutableCalls := ls_findMutableCalls s + 1\<rparr>
               else s\<lparr>ls_findCalls := ls_findCalls s + 1\<rparr>);
          s = (if hit then s\<lparr>ls_hits := ls_hits s + 1\<rparr> else s\<lparr>ls_misses := ls_misses s + 1\<rparr>);
          s = s\<lparr>ls_lastScannedEntries := scanned, ls_totalScannedEntries := ls_totalScannedEntries s + scanned\<rparr>
      in if scanned > ls_maxScannedEntries s then s\<lparr>ls_maxScannedEntries := scanned\<rparr> else s)"

record EntryKey =
  ek_frame :: u32
  ek_participantId :: u8
  ek_playerSlot :: u8

type_synonym node = "nat \<times> TimelineInputEntry"

record InputTimeline =
  tl_capacity :: nat
  tl_nodes :: "node list"
  tl_index :: "EntryKey \<rightharpoonup> nat"
  tl_fresh :: nat
  tl_lookupStats :: LookupStats

definition makeKey :: "TimelineInputEntry \<Rightarrow> EntryKey" where
  "makeKey e = \<lparr>ek_frame = te_frame e, ek_participantId = te_participantId e, ek_playerSlot = te_playerSlot e\<rparr>"

definition InputTimeline0 :: InputTimeline where
  "InputTimeline0 = \<lparr>tl_capacity = 0, tl_nodes = [], tl_index = Map.empty, tl_fresh = 0, tl_lookupStats = LookupStats0\<rparr>"

subsection \<open>Operations\<close>

definition tl_entries :: "InputTimeline \<Rightarrow> TimelineInputEntry list" where
  "tl_entries t = map snd (tl_nodes t)"

definition index_erase :: "EntryKey \<Rightarrow> InputTimeline \<Rightarrow> InputTimeline" where
  "index_erase k t = t\<lparr>tl_index := (tl_index t)(k := None)\<rparr>"

definition popFront :: "InputTimeline \<Rightarrow> InputTimeline" where
  "popFront t = (case tl_nodes t of [] \<Rightarrow> t
     | (i, e) # ns \<Rightarrow> (index_erase (makeKey e) t)\<lparr>tl_nodes := ns\<rparr>)"

function tl_trim :: "InputTimeline \<Rightarrow> InputTimeline" where
  "tl_trim t = (if length (tl_nodes t) > tl_capacity t then tl_trim (popFront t) else t)"
  by pat_completeness auto

lemma popFront_shorter: "tl_nodes t \<noteq> [] \<Longrightarrow> length (tl_nodes (popFront t)) < length (tl_nodes t)"
  by (auto simp: popFront_def index_erase_def split: list.splits)

termination tl_trim
  by (relation "measure (\<lambda>t. length (tl_nodes t))") (auto intro!: popFront_shorter)

definition tl_configure :: "nat \<Rightarrow> InputTimeline \<Rightarrow> InputTimeline" where
  "tl_configure capacity t = tl_trim (t\<lparr>tl_capacity := capacity\<rparr>)"

definition tl_clear :: "InputTimeline \<Rightarrow> InputTimeline" where
  "tl_clear t = t\<lparr>tl_nodes := [], tl_index := Map.empty\<rparr>"

text \<open>\<open>*it\<close>, for reading and for writing.\<close>

definition deref :: "nat \<Rightarrow> InputTimeline \<Rightarrow> TimelineInputEntry option" where
  "deref i t = map_of (tl_nodes t) i"

definition assign :: "nat \<Rightarrow> TimelineInputEntry \<Rightarrow> InputTimeline \<Rightarrow> InputTimeline option" where
  "assign i e t = (if i \<in> fst ` set (tl_nodes t)
     then Some (t\<lparr>tl_nodes := map (\<lambda>n. if fst n = i then (i, e) else n) (tl_nodes t)\<rparr>) else None)"

definition tl_lookup :: "bool \<Rightarrow> EntryKey \<Rightarrow> InputTimeline \<Rightarrow> (TimelineInputEntry option \<times> InputTimeline) option" where
  "tl_lookup mutableLookup k t =
     (case tl_index t k of
        Some i \<Rightarrow> do {
          e \<leftarrow> deref i t;
          Some (Some e, t\<lparr>tl_lookupStats := ls_record mutableLookup True 1 (tl_lookupStats t)\<rparr>) }
      | None \<Rightarrow> Some (None, t\<lparr>tl_lookupStats := ls_record mutableLookup False 0 (tl_lookupStats t)\<rparr>))"

definition tl_find :: "u32 \<Rightarrow> u8 \<Rightarrow> u8 \<Rightarrow> InputTimeline \<Rightarrow> (TimelineInputEntry option \<times> InputTimeline) option" where
  "tl_find f participantId slot t = tl_lookup False \<lparr>ek_frame = f, ek_participantId = participantId, ek_playerSlot = slot\<rparr> t"

definition findMutable :: "u32 \<Rightarrow> u8 \<Rightarrow> u8 \<Rightarrow> InputTimeline \<Rightarrow> (TimelineInputEntry option \<times> InputTimeline) option" where
  "findMutable f participantId slot t = tl_lookup True \<lparr>ek_frame = f, ek_participantId = participantId, ek_playerSlot = slot\<rparr> t"

definition tl_push :: "TimelineInputEntry \<Rightarrow> InputTimeline \<Rightarrow> InputTimeline option" where
  "tl_push e t =
     (if tl_capacity t = 0 then Some t
      else case tl_index t (makeKey e) of
        Some i \<Rightarrow> assign i e t
      | None \<Rightarrow>
          let t = (if length (tl_nodes t) \<ge> tl_capacity t then popFront t else t)
          in Some (t\<lparr>tl_nodes := tl_nodes t @ [(tl_fresh t, e)], tl_index := (tl_index t)(makeKey e \<mapsto> tl_fresh t),
                tl_fresh := tl_fresh t + 1\<rparr>))"

text \<open>The loop of \<open>eraseFramesAfter\<close>: the nodes before the iterator are kept, those behind it are still
  to be visited.\<close>

fun eraseLoop :: "u32 \<Rightarrow> node list \<Rightarrow> InputTimeline \<Rightarrow> InputTimeline" where
  "eraseLoop f [] t = t"
| "eraseLoop f ((i, e) # ns) t =
     eraseLoop f ns (if te_frame e > f
       then (index_erase (makeKey e) t)\<lparr>tl_nodes := filter (\<lambda>n. fst n \<noteq> i) (tl_nodes t)\<rparr> else t)"

definition eraseFramesAfter :: "u32 \<Rightarrow> InputTimeline \<Rightarrow> InputTimeline" where
  "eraseFramesAfter f t = eraseLoop f (tl_nodes t) t"

definition tl_latest :: "InputTimeline \<Rightarrow> TimelineInputEntry option" where
  "tl_latest t = (if tl_nodes t = [] then None else Some (last (tl_entries t)))"

definition latestForSlot :: "u8 \<Rightarrow> InputTimeline \<Rightarrow> TimelineInputEntry option" where
  "latestForSlot slot t = List.find (\<lambda>e. te_playerSlot e = slot) (rev (tl_entries t))"

definition latestFor :: "u8 \<Rightarrow> u8 \<Rightarrow> InputTimeline \<Rightarrow> TimelineInputEntry option" where
  "latestFor participantId slot t =
     List.find (\<lambda>e. te_participantId e = participantId \<and> te_playerSlot e = slot) (rev (tl_entries t))"

definition latestConfirmedFor :: "u8 \<Rightarrow> u8 \<Rightarrow> InputTimeline \<Rightarrow> TimelineInputEntry option" where
  "latestConfirmedFor participantId slot t =
     List.find (\<lambda>e. te_participantId e = participantId \<and> te_playerSlot e = slot \<and> te_confirmed e) (rev (tl_entries t))"

declare tl_trim.simps [simp del]

subsection \<open>The index and the list agree\<close>

definition linked :: "InputTimeline \<Rightarrow> bool" where
  "linked t \<longleftrightarrow> distinct (map fst (tl_nodes t)) \<and> (\<forall>n \<in> set (tl_nodes t). fst n < tl_fresh t) \<and>
     distinct (map makeKey (tl_entries t)) \<and>
     (\<forall>k i. tl_index t k = Some i \<longleftrightarrow> (\<exists>e. (i, e) \<in> set (tl_nodes t) \<and> makeKey e = k))"

definition timeline_ok :: "InputTimeline \<Rightarrow> bool" where
  "timeline_ok t \<longleftrightarrow> linked t \<and> length (tl_nodes t) \<le> tl_capacity t"

lemma linked_index: "linked t \<Longrightarrow> tl_index t k = Some i \<longleftrightarrow> (\<exists>e. (i, e) \<in> set (tl_nodes t) \<and> makeKey e = k)"
  by (simp add: linked_def)

lemma linked_None: "linked t \<Longrightarrow> tl_index t k = None \<longleftrightarrow> k \<notin> makeKey ` set (tl_entries t)"
  using linked_index[of t k] by (cases "tl_index t k") (force simp: tl_entries_def)+

lemma linked_fields: "linked t \<Longrightarrow> linked (t\<lparr>tl_capacity := c\<rparr>)" "linked t \<Longrightarrow> linked (t\<lparr>tl_lookupStats := s\<rparr>)"
  by (simp_all add: linked_def tl_entries_def)

lemma linked_empty: "linked InputTimeline0" "linked (tl_clear t)"
  by (simp_all add: linked_def tl_entries_def InputTimeline0_def tl_clear_def)

text \<open>Erasing a node and its key keeps the two in step.\<close>

lemma same_node:
  assumes "distinct (map fst ns)" "distinct (map f (map snd ns))" "(i, e) \<in> set ns" "(j, d) \<in> set ns"
  shows "i = j \<Longrightarrow> e = d" "f e = f d \<Longrightarrow> i = j"
proof -
  have "inj_on fst (set ns)" "inj_on (f \<circ> snd) (set ns)"
    using assms(1,2) by (simp_all add: distinct_map)
  note inj_onD[OF this(1) _ assms(3,4)] inj_onD[OF this(2) _ assms(3,4)]
  then show "i = j \<Longrightarrow> e = d" "f e = f d \<Longrightarrow> i = j" by simp_all
qed

lemma node_key:
  assumes "linked t" "(i, e) \<in> set (tl_nodes t)" "(j, d) \<in> set (tl_nodes t)"
  shows "j = i \<longleftrightarrow> makeKey d = makeKey e"
proof -
  have d: "distinct (map fst (tl_nodes t))" "distinct (map makeKey (map snd (tl_nodes t)))"
    using assms(1) by (simp_all add: linked_def tl_entries_def)
  show ?thesis using same_node[OF d assms(2,3)] by metis
qed

lemma linked_erase:
  assumes "linked t" "(i, e) \<in> set (tl_nodes t)"
  shows "linked ((index_erase (makeKey e) t)\<lparr>tl_nodes := filter (\<lambda>n. fst n \<noteq> i) (tl_nodes t)\<rparr>)"
proof -
  let ?ns = "filter (\<lambda>n. fst n \<noteq> i) (tl_nodes t)"
  have d: "distinct (map fst (tl_nodes t))" "distinct (map makeKey (map snd (tl_nodes t)))"
    using assms(1) by (simp_all add: linked_def tl_entries_def)
  have "distinct (map fst ?ns)" "distinct (map makeKey (map snd ?ns))"
    using d by (simp_all add: distinct_map_filter comp_def)
  moreover have "((tl_index t)(makeKey e := None)) k = Some j \<longleftrightarrow> (\<exists>x. (j, x) \<in> set ?ns \<and> makeKey x = k)" for k j
  proof (cases "k = makeKey e")
    case True
    have "x \<notin> set ?ns" if "makeKey (snd x) = k" for x
      using node_key[OF assms, of "fst x" "snd x"] that True by simp
    then show ?thesis using True by fastforce
  next
    case False
    have "(j, x) \<in> set ?ns \<longleftrightarrow> (j, x) \<in> set (tl_nodes t)" if "makeKey x = k" for x
      using node_key[OF assms, of j x] that False by auto
    then show ?thesis using False linked_index[OF assms(1), of k j] by (simp cong: conj_cong) metis
  qed
  ultimately show ?thesis
    using assms(1) by (auto simp: linked_def index_erase_def tl_entries_def)
qed

lemma popFront_erase:
  assumes "linked t" "tl_nodes t = (i, e) # ns"
  shows "popFront t = (index_erase (makeKey e) t)\<lparr>tl_nodes := filter (\<lambda>n. fst n \<noteq> i) (tl_nodes t)\<rparr>"
proof -
  have "filter (\<lambda>n. fst n \<noteq> i) ns = ns"
    using assms by (force simp: linked_def intro!: filter_True)
  then show ?thesis using assms(2) by (simp add: popFront_def)
qed

lemma linked_popFront:
  assumes "linked t" "tl_nodes t \<noteq> []"
  shows "linked (popFront t)" "tl_entries (popFront t) = tl (tl_entries t)"
    "tl_capacity (popFront t) = tl_capacity t" "length (tl_nodes (popFront t)) = length (tl_nodes t) - 1"
proof -
  obtain i e ns where n: "tl_nodes t = (i, e) # ns" using assms(2) by (cases "tl_nodes t") auto
  show "linked (popFront t)" using linked_erase[OF assms(1), of i e] n popFront_erase[OF assms(1) n] by simp
qed (use assms(2) in \<open>auto simp: popFront_def index_erase_def tl_entries_def split: list.splits\<close>)

lemma linked_trim:
  "linked t \<Longrightarrow> timeline_ok (tl_trim t) \<and> tl_capacity (tl_trim t) = tl_capacity t \<and>
     tl_entries (tl_trim t) = drop (length (tl_entries t) - tl_capacity t) (tl_entries t)"
proof (induction t rule: tl_trim.induct)
  case (1 t)
  show ?case
  proof (cases "length (tl_nodes t) > tl_capacity t")
    case True
    then have ne: "tl_nodes t \<noteq> []" by auto
    have "Suc (length (tl_nodes t) - Suc (tl_capacity t)) = length (tl_nodes t) - tl_capacity t" using True by simp
    then show ?thesis
      using 1 True linked_popFront[OF 1(2) ne] by (subst (1 2 3) tl_trim.simps) (simp add: tl_entries_def drop_Suc[symmetric])
  next
    case False
    then show ?thesis using 1(2) by (subst (1 2 3) tl_trim.simps) (simp add: timeline_ok_def tl_entries_def)
  qed
qed

lemma linked_assign:
  assumes "linked t" "tl_index t (makeKey e) = Some i"
  shows "\<exists>t'. assign i e t = Some t' \<and> linked t' \<and> tl_capacity t' = tl_capacity t \<and>
     tl_entries t' = map (\<lambda>x. if makeKey x = makeKey e then e else x) (tl_entries t)"
proof -
  let ?g = "\<lambda>n. if fst n = i then (i, e) else n"
  obtain d where d: "(i, d) \<in> set (tl_nodes t)" "makeKey d = makeKey e"
    using linked_index[OF assms(1)] assms(2) by auto
  have u: "distinct (map fst (tl_nodes t))" "distinct (map makeKey (map snd (tl_nodes t)))"
    using assms(1) by (simp_all add: linked_def tl_entries_def)
  have k: "fst n = i \<longleftrightarrow> makeKey (snd n) = makeKey e" if "n \<in> set (tl_nodes t)" for n
    using node_key[OF assms(1) d(1), of "fst n" "snd n"] that d(2) by simp
  define ms where "ms = map ?g (tl_nodes t)"
  have keys: "map makeKey (map snd ms) = map makeKey (map snd (tl_nodes t))" "map fst ms = map fst (tl_nodes t)"
    using k by (auto simp: ms_def comp_def)
  have "(\<exists>x. (j, x) \<in> set ms \<and> makeKey x = c) \<longleftrightarrow> (\<exists>x. (j, x) \<in> set (tl_nodes t) \<and> makeKey x = c)" for j c
    using d k by (force simp: ms_def image_iff)
  moreover have "\<forall>n \<in> set ms. fst n < tl_fresh t"
    using assms(1) d(1) unfolding ms_def linked_def by fastforce
  ultimately have "linked (t\<lparr>tl_nodes := ms\<rparr>)"
    using assms(1) keys u unfolding linked_def tl_entries_def by simp
  moreover have "map snd ms = map (\<lambda>x. if makeKey x = makeKey e then e else x) (map snd (tl_nodes t))"
    using k by (simp add: ms_def)
  moreover have "assign i e t = Some (t\<lparr>tl_nodes := ms\<rparr>)"
    using d(1) by (force simp: assign_def ms_def)
  ultimately show ?thesis by (simp add: tl_entries_def)
qed

lemma linked_append:
  assumes "linked t" "makeKey e \<notin> makeKey ` set (tl_entries t)"
  shows "linked (t\<lparr>tl_nodes := tl_nodes t @ [(tl_fresh t, e)], tl_index := (tl_index t)(makeKey e \<mapsto> tl_fresh t),
     tl_fresh := tl_fresh t + 1\<rparr>)"
proof -
  let ?ns = "tl_nodes t @ [(tl_fresh t, e)]"
  have f: "\<forall>n \<in> set (tl_nodes t). fst n < tl_fresh t" using assms(1) by (simp add: linked_def)
  have "distinct (map fst ?ns)" "distinct (map makeKey (map snd ?ns))"
    using assms f by (auto simp: linked_def tl_entries_def)
  moreover have "((tl_index t)(makeKey e \<mapsto> tl_fresh t)) k = Some i \<longleftrightarrow> (\<exists>x. (i, x) \<in> set ?ns \<and> makeKey x = k)" for k i
  proof (cases "k = makeKey e")
    case True
    have "makeKey x \<in> makeKey ` set (tl_entries t)" if "(i, x) \<in> set (tl_nodes t)" for x
      using imageI[OF imageI[OF that, of snd], of makeKey] by (simp add: tl_entries_def)
    with True assms(2) have "(i, x) \<notin> set (tl_nodes t)" if "makeKey x = k" for x
      using that by metis
    then show ?thesis using True by auto
  next
    case False
    then show ?thesis using linked_index[OF assms(1), of k i] by auto
  qed
  moreover have "\<forall>n \<in> set ?ns. fst n < tl_fresh t + 1" using f by auto
  ultimately show ?thesis unfolding linked_def tl_entries_def by simp
qed

lemma eraseLoop_effect:
  assumes "linked t" "distinct (map fst ns)" "set ns \<subseteq> set (tl_nodes t)"
  shows "linked (eraseLoop f ns t) \<and> tl_capacity (eraseLoop f ns t) = tl_capacity t \<and>
     tl_nodes (eraseLoop f ns t) = filter (\<lambda>n. n \<notin> set ns \<or> \<not> te_frame (snd n) > f) (tl_nodes t)"
  using assms
proof (induction ns arbitrary: t)
  case (Cons n ns)
  obtain i e where n: "n = (i, e)" by (cases n)
  have in_t: "(i, e) \<in> set (tl_nodes t)" using Cons.prems(3) n by simp
  have i: "i \<notin> fst ` set ns" using Cons.prems(2) n by simp
  have is_n: "fst m = i \<longleftrightarrow> m = (i, e)" if "m \<in> set (tl_nodes t)" for m
    using node_key[OF Cons.prems(1) in_t, of "fst m" "snd m"] that Cons.prems(1) in_t eq_key_imp_eq_value[of "tl_nodes t" i e "snd m"]
    by (cases m) (auto simp: linked_def)
  show ?case
  proof (cases "te_frame e > f")
    case True
    let ?t = "(index_erase (makeKey e) t)\<lparr>tl_nodes := filter (\<lambda>n. fst n \<noteq> i) (tl_nodes t)\<rparr>"
    have "set ns \<subseteq> set (tl_nodes ?t)" using Cons.prems(3) i by auto
    with Cons.IH[OF linked_erase[OF Cons.prems(1) in_t]] Cons.prems(2) n True
    have r: "linked (eraseLoop f (n # ns) t)" "tl_capacity (eraseLoop f (n # ns) t) = tl_capacity t"
      "tl_nodes (eraseLoop f (n # ns) t) =
        filter (\<lambda>m. m \<notin> set ns \<or> \<not> te_frame (snd m) > f) (filter (\<lambda>n. fst n \<noteq> i) (tl_nodes t))"
      by (simp_all add: index_erase_def)
    have "filter (\<lambda>m. m \<notin> set ns \<or> \<not> te_frame (snd m) > f) (filter (\<lambda>n. fst n \<noteq> i) (tl_nodes t)) =
        filter (\<lambda>m. m \<notin> set (n # ns) \<or> \<not> te_frame (snd m) > f) (tl_nodes t)"
      unfolding filter_filter using True is_n by (intro filter_cong refl) (auto simp: n)
    then show ?thesis using r by metis
  next
    case False
    then have "filter (\<lambda>m. m \<notin> set ns \<or> \<not> te_frame (snd m) > f) (tl_nodes t) =
        filter (\<lambda>m. m \<notin> set (n # ns) \<or> \<not> te_frame (snd m) > f) (tl_nodes t)"
      by (intro filter_cong refl) (auto simp: n)
    then show ?thesis using Cons.IH[OF Cons.prems(1)] Cons.prems(2,3) n False by simp
  qed
qed simp

lemma eraseFramesAfter_effect:
  assumes "linked t"
  shows "linked (eraseFramesAfter f t)" "tl_capacity (eraseFramesAfter f t) = tl_capacity t"
    "tl_entries (eraseFramesAfter f t) = filter (\<lambda>e. te_frame e \<le> f) (tl_entries t)"
proof -
  have "distinct (map fst (tl_nodes t))" using assms by (simp add: linked_def)
  note r = eraseLoop_effect[OF assms this subset_refl, of f, folded eraseFramesAfter_def]
  then show "linked (eraseFramesAfter f t)" "tl_capacity (eraseFramesAfter f t) = tl_capacity t" by simp_all
  have "filter (\<lambda>n. n \<notin> set (tl_nodes t) \<or> \<not> te_frame (snd n) > f) (tl_nodes t) = filter (\<lambda>n. te_frame (snd n) \<le> f) (tl_nodes t)"
    by (intro filter_cong refl) auto
  then show "tl_entries (eraseFramesAfter f t) = filter (\<lambda>e. te_frame e \<le> f) (tl_entries t)"
    using r by (simp add: tl_entries_def filter_map comp_def)
qed

lemma lookup_effect:
  assumes "linked t"
  shows "\<exists>t'. tl_lookup b k t = Some (List.find (\<lambda>e. makeKey e = k) (tl_entries t), t') \<and> linked t' \<and>
     tl_nodes t' = tl_nodes t \<and> tl_capacity t' = tl_capacity t"
proof (cases "tl_index t k")
  case None
  then have "List.find (\<lambda>e. makeKey e = k) (tl_entries t) = None"
    using linked_None[OF assms] by (auto simp: find_None_iff)
  then show ?thesis using None assms by (simp add: tl_lookup_def linked_fields)
next
  case (Some i)
  then obtain e where e: "(i, e) \<in> set (tl_nodes t)" "makeKey e = k" using linked_index[OF assms] by auto
  have d: "distinct (map fst (tl_nodes t))" "distinct (map makeKey (tl_entries t))" using assms by (simp_all add: linked_def)
  have m: "e \<in> set (tl_entries t)" using e(1) imageI[OF e(1), of snd] by (simp add: tl_entries_def)
  have "List.find (\<lambda>e. makeKey e = k) (tl_entries t) = Some e"
  proof (cases "List.find (\<lambda>e. makeKey e = k) (tl_entries t)")
    case None
    then show ?thesis using m e(2) by (simp add: find_None_iff)
  next
    case (Some x)
    then have "x \<in> set (tl_entries t)" "makeKey x = k" by (auto simp: find_Some_iff)
    then show ?thesis using Some m e(2) d(2) by (simp add: distinct_map inj_on_def)
  qed
  then show ?thesis
    using Some d(1) e(1) assms by (simp add: tl_lookup_def deref_def linked_fields)
qed

subsection \<open>A bounded list of entries\<close>

text \<open>What the timeline promises: at most \<open>capacity\<close> entries with distinct keys, the oldest in front;
  a new entry replaces the one with its key or goes to the end, where it pushes out the oldest.\<close>

datatype timeline_op = Configure nat | Clear | Push TimelineInputEntry | EraseAfter u32 | Find bool u32 u8 u8

definition log_push :: "nat \<Rightarrow> TimelineInputEntry \<Rightarrow> TimelineInputEntry list \<Rightarrow> TimelineInputEntry list" where
  "log_push c e es =
     (if c = 0 then es
      else if makeKey e \<in> makeKey ` set es then map (\<lambda>x. if makeKey x = makeKey e then e else x) es
      else (if length es \<ge> c then tl es else es) @ [e])"

fun log_step :: "timeline_op \<Rightarrow> nat \<times> TimelineInputEntry list \<Rightarrow> TimelineInputEntry option \<times> nat \<times> TimelineInputEntry list" where
  "log_step (Configure c) (_, es) = (None, c, drop (length es - c) es)"
| "log_step Clear (c, es) = (None, c, [])"
| "log_step (Push e) (c, es) = (None, c, log_push c e es)"
| "log_step (EraseAfter f) (c, es) = (None, c, filter (\<lambda>e. te_frame e \<le> f) es)"
| "log_step (Find b f p s) (c, es) =
     (List.find (\<lambda>e. te_frame e = f \<and> te_participantId e = p \<and> te_playerSlot e = s) es, c, es)"

fun timeline_step :: "timeline_op \<Rightarrow> InputTimeline \<Rightarrow> (TimelineInputEntry option \<times> InputTimeline) option" where
  "timeline_step (Configure c) t = Some (None, tl_configure c t)"
| "timeline_step Clear t = Some (None, tl_clear t)"
| "timeline_step (Push e) t = map_option (Pair None) (tl_push e t)"
| "timeline_step (EraseAfter f) t = Some (None, eraseFramesAfter f t)"
| "timeline_step (Find b f p s) t = (if b then findMutable f p s t else tl_find f p s t)"

fun timeline_run :: "timeline_op list \<Rightarrow> InputTimeline \<Rightarrow> (TimelineInputEntry option list \<times> InputTimeline) option" where
  "timeline_run [] t = Some ([], t)"
| "timeline_run (p # ps) t = do {
     (r, t) \<leftarrow> timeline_step p t;
     (rs, t) \<leftarrow> timeline_run ps t;
     Some (r # rs, t) }"

fun log_run :: "timeline_op list \<Rightarrow> nat \<times> TimelineInputEntry list \<Rightarrow> TimelineInputEntry option list \<times> nat \<times> TimelineInputEntry list" where
  "log_run [] s = ([], s)"
| "log_run (p # ps) s = (let (r, s) = log_step p s; (rs, s) = log_run ps s in (r # rs, s))"

definition log_of :: "InputTimeline \<Rightarrow> nat \<times> TimelineInputEntry list" where
  "log_of t = (tl_capacity t, tl_entries t)"

lemma push_refines:
  assumes "timeline_ok t"
  shows "\<exists>t'. tl_push e t = Some t' \<and> timeline_ok t' \<and> tl_capacity t' = tl_capacity t \<and>
     tl_entries t' = log_push (tl_capacity t) e (tl_entries t)"
proof (cases "tl_capacity t = 0")
  case True
  then show ?thesis using assms by (simp add: tl_push_def log_push_def)
next
  case cap: False
  have l: "linked t" "length (tl_nodes t) \<le> tl_capacity t" using assms by (simp_all add: timeline_ok_def)
  show ?thesis
  proof (cases "tl_index t (makeKey e)")
    case (Some i)
    then have "makeKey e \<in> makeKey ` set (tl_entries t)" using linked_None[OF l(1), of "makeKey e"] by auto
    moreover obtain t' where t': "assign i e t = Some t'" "linked t'" "tl_capacity t' = tl_capacity t"
        "tl_entries t' = map (\<lambda>x. if makeKey x = makeKey e then e else x) (tl_entries t)"
      using linked_assign[OF l(1) Some] by blast
    moreover have "length (tl_nodes t') = length (tl_nodes t)"
      using arg_cong[OF t'(4), of length] by (simp add: tl_entries_def)
    ultimately show ?thesis using Some cap l(2) by (simp add: tl_push_def log_push_def timeline_ok_def)
  next
    case None
    then have new: "makeKey e \<notin> makeKey ` set (tl_entries t)" using linked_None[OF l(1)] by simp
    define u where "u = (if length (tl_nodes t) \<ge> tl_capacity t then popFront t else t)"
    have u: "linked u" "tl_capacity u = tl_capacity t" "length (tl_nodes u) < tl_capacity t"
        "tl_entries u = (if length (tl_entries t) \<ge> tl_capacity t then tl (tl_entries t) else tl_entries t)"
      using l cap linked_popFront[OF l(1)] by (auto simp: u_def tl_entries_def)
    have "set (tl_entries u) \<subseteq> set (tl_entries t)" using u(4) by (cases "tl_entries t") auto
    then have "makeKey e \<notin> makeKey ` set (tl_entries u)" using new by blast
    from linked_append[OF u(1) this] show ?thesis
      using None cap new u(2-4) by (simp add: tl_push_def log_push_def timeline_ok_def Let_def flip: u_def)
        (simp add: tl_entries_def)
  qed
qed

lemma step_refines:
  assumes "timeline_ok t"
  shows "\<exists>r t'. timeline_step p t = Some (r, t') \<and> timeline_ok t' \<and> log_step p (log_of t) = (r, log_of t')"
proof (cases p)
  case (Configure c)
  then show ?thesis
    using assms linked_trim[OF linked_fields(1), of t c]
    by (simp add: tl_configure_def log_of_def timeline_ok_def tl_entries_def)
next
  case Clear
  then show ?thesis using assms linked_empty(2)[of t] by (simp add: timeline_ok_def log_of_def tl_clear_def tl_entries_def)
next
  case (Push e)
  then show ?thesis using push_refines[OF assms, of e] by (auto simp: log_of_def)
next
  case (EraseAfter f)
  have "linked t" using assms by (simp add: timeline_ok_def)
  note r = eraseFramesAfter_effect[OF this, of f]
  have "length (tl_nodes (eraseFramesAfter f t)) \<le> length (tl_nodes t)"
    using arg_cong[OF r(3), of length] length_filter_le[of "\<lambda>e. te_frame e \<le> f" "tl_entries t"] by (simp add: tl_entries_def)
  then show ?thesis using EraseAfter r assms by (simp add: timeline_ok_def log_of_def)
next
  case (Find b f q s)
  have "linked t" using assms by (simp add: timeline_ok_def)
  note r = lookup_effect[OF this, of b "\<lparr>ek_frame = f, ek_participantId = q, ek_playerSlot = s\<rparr>"]
  then show ?thesis
    using Find assms by (auto simp: tl_find_def findMutable_def timeline_ok_def log_of_def tl_entries_def makeKey_def)
qed

lemma run_refines_log:
  assumes "timeline_ok t"
  shows "\<exists>rs t'. timeline_run ps t = Some (rs, t') \<and> timeline_ok t' \<and> log_run ps (log_of t) = (rs, log_of t')"
  using assms
proof (induction ps arbitrary: t)
  case (Cons p ps)
  obtain r u where u: "timeline_step p t = Some (r, u)" "timeline_ok u" "log_step p (log_of t) = (r, log_of u)"
    using step_refines[OF Cons.prems] by blast
  with Cons.IH[OF u(2)] show ?case by fastforce
qed simp

subsection \<open>Properties\<close>

text \<open>
  C11: the input timeline is a bounded list of inputs with distinct keys. Every sequence of operations
  on a new timeline follows no dangling iterator, leaves list and index consistent, and gives, for
  every lookup and for the list of entries, what a list of at most \<open>capacity\<close> entries gives in which a
  push replaces the entry with the same frame, participant and slot or drops the oldest entry.
\<close>
theorem timeline_refines:
  "\<exists>rs t. timeline_run ps InputTimeline0 = Some (rs, t) \<and> timeline_ok t \<and>
     log_run ps (0, []) = (rs, tl_capacity t, tl_entries t) \<and>
     length (tl_entries t) \<le> tl_capacity t \<and> distinct (map makeKey (tl_entries t))"
proof -
  have i: "timeline_ok InputTimeline0" "log_of InputTimeline0 = (0, [])"
    using linked_empty(1) by (simp_all add: timeline_ok_def log_of_def InputTimeline0_def tl_entries_def)
  obtain rs t where "timeline_run ps InputTimeline0 = Some (rs, t)" "timeline_ok t" "log_run ps (0, []) = (rs, log_of t)"
    using run_refines_log[OF i(1), of ps] i(2) by auto
  then show ?thesis by (auto simp: log_of_def timeline_ok_def linked_def tl_entries_def)
qed

end
