(* ===== verification/Net_Recovery.thy ===== *)
theory Net_Recovery
  imports Net_Session Cart_Data
begin

text \<open>
  What the netplay library keeps to detect and repair a divergence of the machines:
  \<open>SnapshotSystem\<close> (states to go back to), \<open>DesyncMonitor\<close> (comparison of checksums),
  \<open>RemoteInputStallMonitor\<close> and \<open>SelfStallDetector\<close> (a peer or the own machine that makes no progress),
  and \<open>NetplayCrc32.h\<close>. Points in time are nanoseconds; texts for the log are left out.
\<close>

subsection \<open>The checksum\<close>

fun net_crc_bits :: "nat \<Rightarrow> u32 \<Rightarrow> u32 \<Rightarrow> u32" where
  "net_crc_bits 0 ch crc = crc"
| "net_crc_bits (Suc n) ch crc =
     (let carry = (ch XOR crc) AND 1;
          crc = drop_bit 1 crc;
          crc = (if carry \<noteq> 0 then crc XOR 0xEDB88320 else crc)
      in net_crc_bits n (drop_bit 1 ch) crc)"

definition net_crc32 :: "bytes \<Rightarrow> u32" where
  "net_crc32 data = NOT (fold (\<lambda>b. net_crc_bits 8 (ucast b)) data (NOT 0))"

subsection \<open>Snapshots\<close>

record SnapshotRecord =
  sr_frame :: u32
  sr_crc32 :: u32
  sr_data :: bytes

record SnapshotSystem =
  sn_capacity :: nat
  sn_records :: "SnapshotRecord list"

definition SnapshotSystem0 :: SnapshotSystem where
  "SnapshotSystem0 = \<lparr>sn_capacity = 0, sn_records = []\<rparr>"

definition calcCrc32 :: "bytes \<Rightarrow> u32" where
  "calcCrc32 data = (if data = [] then 0 else net_crc32 data)"

fun popFrontWhile :: "nat \<Rightarrow> 'a list \<Rightarrow> 'a list" where
  "popFrontWhile c [] = []"
| "popFrontWhile c (x # xs) = (if length (x # xs) > c then popFrontWhile c xs else x # xs)"

definition sn_trim :: "SnapshotSystem \<Rightarrow> SnapshotSystem" where
  "sn_trim s = s\<lparr>sn_records := popFrontWhile (sn_capacity s) (sn_records s)\<rparr>"

definition sn_configure :: "nat \<Rightarrow> SnapshotSystem \<Rightarrow> SnapshotSystem" where
  "sn_configure capacity s = sn_trim (s\<lparr>sn_capacity := capacity\<rparr>)"

definition sn_clear :: "SnapshotSystem \<Rightarrow> SnapshotSystem" where
  "sn_clear s = s\<lparr>sn_records := []\<rparr>"

text \<open>\<open>while(!d.empty() && d.back() ...) d.pop_back()\<close>\<close>

definition popBackWhile :: "('a \<Rightarrow> bool) \<Rightarrow> 'a list \<Rightarrow> 'a list" where
  "popBackWhile p xs = rev (dropWhile p (rev xs))"

definition sn_push :: "u32 \<Rightarrow> bytes \<Rightarrow> SnapshotSystem \<Rightarrow> SnapshotSystem" where
  "sn_push f data s =
     (if sn_capacity s = 0 then s
      else let rs = popBackWhile (\<lambda>r. sr_frame r \<ge> f) (sn_records s);
               rs = rs @ [\<lparr>sr_frame = f, sr_crc32 = calcCrc32 data, sr_data = data\<rparr>]
           in sn_trim (s\<lparr>sn_records := rs\<rparr>))"

definition sn_find :: "u32 \<Rightarrow> SnapshotSystem \<Rightarrow> SnapshotRecord option" where
  "sn_find f s = List.find (\<lambda>r. sr_frame r = f) (sn_records s)"

definition sn_latest :: "SnapshotSystem \<Rightarrow> SnapshotRecord option" where
  "sn_latest s = (if sn_records s = [] then None else Some (last (sn_records s)))"

definition crc32ForFrame :: "u32 \<Rightarrow> SnapshotSystem \<Rightarrow> u32 option" where
  "crc32ForFrame f s = map_option sr_crc32 (sn_find f s)"

definition sn_restore :: "u32 \<Rightarrow> (bytes \<Rightarrow> 's \<Rightarrow> 's) \<Rightarrow> SnapshotSystem \<Rightarrow> 's \<Rightarrow> bool \<times> 's" where
  "sn_restore f loader s m = (case sn_find f s of None \<Rightarrow> (False, m) | Some r \<Rightarrow> (True, loader (sr_data r) m))"

subsection \<open>Comparing checksums\<close>

record HistoryEntry =
  he_frame :: u32
  he_crc32 :: u32
  he_submissionSource :: u8
  he_localSimulationFrame :: u32
  he_confirmedFrame :: u32

record Update =
  up_compared :: bool
  up_mismatchDetected :: bool
  up_mismatchResolved :: bool
  up_frame :: u32
  up_consecutiveMismatchCount :: u8
  up_localEntry :: "HistoryEntry option"
  up_remoteEntry :: "HistoryEntry option"

record DesyncMonitor =
  dm_localHistory :: "HistoryEntry list"
  dm_remoteHistory :: "HistoryEntry list"
  dm_lastMismatchFrame :: u32
  dm_consecutiveMismatchCount :: u8

definition kHistoryCapacity :: nat where "kHistoryCapacity = 512"

definition DesyncMonitor0 :: DesyncMonitor where
  "DesyncMonitor0 = \<lparr>dm_localHistory = [], dm_remoteHistory = [], dm_lastMismatchFrame = 0, dm_consecutiveMismatchCount = 0\<rparr>"

text \<open>Overwrite the last entry of the frame, from the back.\<close>

fun replaceFirst :: "('a \<Rightarrow> bool) \<Rightarrow> 'a \<Rightarrow> 'a list \<Rightarrow> 'a list option" where
  "replaceFirst p v [] = None"
| "replaceFirst p v (x # xs) = (if p x then Some (v # xs) else map_option ((#) x) (replaceFirst p v xs))"

definition storeHistoryEntry :: "HistoryEntry \<Rightarrow> HistoryEntry list \<Rightarrow> HistoryEntry list" where
  "storeHistoryEntry e h =
     (case replaceFirst (\<lambda>x. he_frame x = he_frame e) e (rev h) of
        Some h' \<Rightarrow> rev h'
      | None \<Rightarrow> popFrontWhile kHistoryCapacity (h @ [e]))"

definition findHistoryEntry :: "HistoryEntry list \<Rightarrow> u32 \<Rightarrow> HistoryEntry option" where
  "findHistoryEntry h f = List.find (\<lambda>x. he_frame x = f) (rev h)"

definition Update0 :: "u32 \<Rightarrow> Update" where
  "Update0 f = \<lparr>up_compared = False, up_mismatchDetected = False, up_mismatchResolved = False, up_frame = f,
     up_consecutiveMismatchCount = 0, up_localEntry = None, up_remoteEntry = None\<rparr>"

definition nextMismatchCount :: "u32 \<Rightarrow> DesyncMonitor \<Rightarrow> u8" where
  "nextMismatchCount f m =
     (if dm_lastMismatchFrame m \<noteq> 0 \<and> f \<ge> dm_lastMismatchFrame m
      then of_nat (min 255 (unat (dm_consecutiveMismatchCount m) + 1)) else 1)"

definition evaluateFrame :: "u32 \<Rightarrow> DesyncMonitor \<Rightarrow> Update \<times> DesyncMonitor" where
  "evaluateFrame f m =
     (case (findHistoryEntry (dm_localHistory m) f, findHistoryEntry (dm_remoteHistory m) f) of
        (Some l, Some r) \<Rightarrow>
          let u = (Update0 f)\<lparr>up_localEntry := Some l, up_remoteEntry := Some r\<rparr>
          in if he_crc32 l = 0 \<or> he_crc32 r = 0 then (u, m)
             else if he_crc32 l \<noteq> he_crc32 r then
               let n = nextMismatchCount f m;
                   m = m\<lparr>dm_consecutiveMismatchCount := n, dm_lastMismatchFrame := f\<rparr>
               in (u\<lparr>up_compared := True, up_mismatchDetected := True, up_consecutiveMismatchCount := n\<rparr>, m)
             else
               (u\<lparr>up_compared := True,
                  up_mismatchResolved := (dm_lastMismatchFrame m \<noteq> 0 \<or> dm_consecutiveMismatchCount m \<noteq> 0)\<rparr>,
                m\<lparr>dm_lastMismatchFrame := 0, dm_consecutiveMismatchCount := 0\<rparr>)
      | _ \<Rightarrow> (Update0 f, m))"

definition submitLocalCrc :: "HistoryEntry \<Rightarrow> DesyncMonitor \<Rightarrow> Update \<times> DesyncMonitor" where
  "submitLocalCrc e m = evaluateFrame (he_frame e) (m\<lparr>dm_localHistory := storeHistoryEntry e (dm_localHistory m)\<rparr>)"

definition submitRemoteCrc :: "HistoryEntry \<Rightarrow> DesyncMonitor \<Rightarrow> Update \<times> DesyncMonitor" where
  "submitRemoteCrc e m = evaluateFrame (he_frame e) (m\<lparr>dm_remoteHistory := storeHistoryEntry e (dm_remoteHistory m)\<rparr>)"

definition findLocalHistoryEntry :: "u32 \<Rightarrow> DesyncMonitor \<Rightarrow> HistoryEntry option" where
  "findLocalHistoryEntry f m = findHistoryEntry (dm_localHistory m) f"

definition invalidateHistoryAfter :: "u32 \<Rightarrow> DesyncMonitor \<Rightarrow> DesyncMonitor" where
  "invalidateHistoryAfter f m =
     (let m = m\<lparr>dm_localHistory := popBackWhile (\<lambda>x. he_frame x \<ge> f) (dm_localHistory m),
                dm_remoteHistory := popBackWhile (\<lambda>x. he_frame x \<ge> f) (dm_remoteHistory m)\<rparr>
      in if dm_lastMismatchFrame m \<ge> f then m\<lparr>dm_lastMismatchFrame := 0, dm_consecutiveMismatchCount := 0\<rparr> else m)"

subsection \<open>Stalls of a peer\<close>

record PendingRecovery =
  pr_participantId :: u8
  pr_playerSlot :: u8
  pr_stalledFrame :: u32
  pr_observedPeerHealthSerial :: u32
  pr_loggable :: bool

record LastRecoveredStall =
  lr2_participantId :: u8
  lr2_playerSlot :: u8
  lr2_recoveredThroughFrame :: u32

record RemoteInputStallMonitor =
  sm_pending :: "PendingRecovery option"
  sm_lastRecovered :: "LastRecoveredStall option"

definition kTransientStallLogCoalesceFrames :: u32 where "kTransientStallLogCoalesceFrames = 16"

definition stallReset :: "RemoteInputStallMonitor \<Rightarrow> RemoteInputStallMonitor" where
  "stallReset m = m\<lparr>sm_pending := None, sm_lastRecovered := None\<rparr>"

definition trackStall :: "u8 \<Rightarrow> u8 \<Rightarrow> u32 \<Rightarrow> u32 \<Rightarrow> RemoteInputStallMonitor \<Rightarrow> (bool \<times> PendingRecovery) \<times> RemoteInputStallMonitor" where
  "trackStall participantId slot f serial m =
     (let framesSinceRecovery = (case sm_lastRecovered m of
            Some l \<Rightarrow> if f > lr2_recoveredThroughFrame l then f - lr2_recoveredThroughFrame l else 0 | None \<Rightarrow> 0);
          coalesced = (case sm_lastRecovered m of
            Some l \<Rightarrow> lr2_participantId l = participantId \<and> framesSinceRecovery > 0 \<and>
              framesSinceRecovery \<le> kTransientStallLogCoalesceFrames | None \<Rightarrow> False);
          p = \<lparr>pr_participantId = participantId, pr_playerSlot = slot, pr_stalledFrame = f,
               pr_observedPeerHealthSerial = serial, pr_loggable = (\<not> coalesced)\<rparr>
      in ((pr_loggable p, p), m\<lparr>sm_pending := Some p\<rparr>))"

definition noteStall :: "u8 \<Rightarrow> u8 \<Rightarrow> u32 \<Rightarrow> u32 \<Rightarrow> RemoteInputStallMonitor \<Rightarrow> (bool \<times> PendingRecovery) \<times> RemoteInputStallMonitor" where
  "noteStall participantId slot f serial m =
     (case sm_pending m of
        Some p \<Rightarrow>
          let d = (if f > pr_stalledFrame p then f - pr_stalledFrame p else pr_stalledFrame p - f)
          in if pr_participantId p = participantId \<and> d \<le> kTransientStallLogCoalesceFrames then
               let p = (if f < pr_stalledFrame p then p\<lparr>pr_stalledFrame := f, pr_playerSlot := slot\<rparr> else p)
               in ((False, p), m\<lparr>sm_pending := Some p\<rparr>)
             else trackStall participantId slot f serial m
      | None \<Rightarrow> trackStall participantId slot f serial m)"

definition clearRecovered :: "u8 \<Rightarrow> u32 \<Rightarrow> RemoteInputStallMonitor \<Rightarrow> (bool \<times> PendingRecovery option) \<times> RemoteInputStallMonitor" where
  "clearRecovered participantId recoveredThroughFrame m =
     (case sm_pending m of
        None \<Rightarrow> ((False, None), m)
      | Some p \<Rightarrow>
          if pr_participantId p \<noteq> participantId then ((False, None), m)
          else if recoveredThroughFrame < pr_stalledFrame p then ((False, None), m)
          else ((pr_loggable p, Some p),
                m\<lparr>sm_lastRecovered := Some \<lparr>lr2_participantId = pr_participantId p, lr2_playerSlot = pr_playerSlot p,
                     lr2_recoveredThroughFrame = recoveredThroughFrame\<rparr>, sm_pending := None\<rparr>))"

definition onPeerHealth :: "u8 \<Rightarrow> u32 \<Rightarrow> RemoteInputStallMonitor \<Rightarrow> (bool \<times> PendingRecovery option) \<times> RemoteInputStallMonitor" where
  "onPeerHealth participantId peerHealthSerial m =
     (case sm_pending m of
        None \<Rightarrow> ((False, None), m)
      | Some p \<Rightarrow>
          if pr_participantId p \<noteq> participantId then ((False, None), m)
          else if peerHealthSerial \<le> pr_observedPeerHealthSerial p then ((False, None), m)
          else if \<not> pr_loggable p then ((False, None), m\<lparr>sm_pending := None\<rparr>)
          else ((True, Some p), m\<lparr>sm_pending := None\<rparr>))"

subsection \<open>Stalls of the own machine\<close>

record StallSnapshot =
  st_active :: bool
  st_sessionState :: u8
  st_recoveryInputMode :: u8
  st_timelineEpoch :: u32
  st_activeResyncId :: u32
  st_pendingResyncAckCount :: u32
  st_connectedRemoteParticipantCount :: u32
  st_localSimulationFrame :: u32
  st_confirmedFrame :: u32
  st_maxRemoteReportedCurrentFrame :: u32
  st_maxRemoteReportedConfirmedFrame :: u32
  st_playbackStopCount :: u32

record ProgressSample =
  ps_timelineEpoch :: u32
  ps_localSimulationFrame :: u32
  ps_confirmedFrame :: u32
  ps_maxRemoteReportedCurrentFrame :: u32
  ps_maxRemoteReportedConfirmedFrame :: u32
  ps_playbackStopCount :: u32

record SelfStallDetector =
  sd_progressBaseline :: "ProgressSample option"
  sd_lastProgressAt :: int
  sd_cooldownUntil :: int

definition Running :: u8 where "Running = 4"

definition kStallTimeout :: int where "kStallTimeout = 2000"

definition kRecoveryCooldown :: int where "kRecoveryCooldown = 5000"

definition kChurnThreshold :: u32 where "kChurnThreshold = 3"

definition milliseconds :: "int \<Rightarrow> int" where
  "milliseconds n = (if n \<ge> 0 then n div 1000000 else - (- n div 1000000))"

definition detectorReset :: "SelfStallDetector \<Rightarrow> SelfStallDetector" where
  "detectorReset d = d\<lparr>sd_progressBaseline := None, sd_lastProgressAt := 0, sd_cooldownUntil := 0\<rparr>"

definition isEligible :: "StallSnapshot \<Rightarrow> bool" where
  "isEligible s \<longleftrightarrow> st_active s \<and> st_sessionState s = Running \<and> st_recoveryInputMode s = 0 \<and>
     st_activeResyncId s = 0 \<and> st_pendingResyncAckCount s = 0 \<and> st_connectedRemoteParticipantCount s > 0"

definition makeSample :: "StallSnapshot \<Rightarrow> ProgressSample" where
  "makeSample s = \<lparr>ps_timelineEpoch = st_timelineEpoch s, ps_localSimulationFrame = st_localSimulationFrame s,
     ps_confirmedFrame = st_confirmedFrame s, ps_maxRemoteReportedCurrentFrame = st_maxRemoteReportedCurrentFrame s,
     ps_maxRemoteReportedConfirmedFrame = st_maxRemoteReportedConfirmedFrame s,
     ps_playbackStopCount = st_playbackStopCount s\<rparr>"

definition hasForwardProgress :: "ProgressSample \<Rightarrow> ProgressSample \<Rightarrow> bool" where
  "hasForwardProgress baseline current \<longleftrightarrow>
     ps_localSimulationFrame current > ps_localSimulationFrame baseline \<or>
     ps_confirmedFrame current > ps_confirmedFrame baseline"

definition churnSince :: "ProgressSample \<Rightarrow> ProgressSample \<Rightarrow> u32" where
  "churnSince baseline current = ps_playbackStopCount current - ps_playbackStopCount baseline"

definition progressed :: "ProgressSample \<Rightarrow> int \<Rightarrow> SelfStallDetector \<Rightarrow> SelfStallDetector" where
  "progressed current now d = d\<lparr>sd_progressBaseline := Some current, sd_lastProgressAt := now\<rparr>"

definition stallUpdate :: "StallSnapshot \<Rightarrow> int \<Rightarrow> SelfStallDetector \<Rightarrow> bool \<times> SelfStallDetector" where
  "stallUpdate s now d =
     (if \<not> isEligible s then (False, detectorReset d)
      else let current = makeSample s in
      case sd_progressBaseline d of
        None \<Rightarrow> (False, progressed current now d)
      | Some b \<Rightarrow>
          if ps_timelineEpoch b \<noteq> ps_timelineEpoch current then (False, progressed current now d)
          else if hasForwardProgress b current then (False, progressed current now d)
          else if ps_confirmedFrame current \<ge> ps_localSimulationFrame current \<and>
                  ps_maxRemoteReportedConfirmedFrame current \<ge> ps_confirmedFrame current
            then (False, progressed current now d)
          else if now < sd_cooldownUntil d then (False, d)
          else if milliseconds (now - sd_lastProgressAt d) < kStallTimeout \<and> churnSince b current < kChurnThreshold
            then (False, d)
          else (True, (progressed current now d)\<lparr>sd_cooldownUntil := now + kRecoveryCooldown * 1000000\<rparr>))"

subsection \<open>One checksum\<close>

lemma carry_bit: "(x XOR y) AND 1 \<noteq> 0 \<longleftrightarrow> bit x 0 \<noteq> bit y 0" for x y :: u32
  by (simp add: and_one_eq mod_2_eq_odd bit_0 even_xor_iff)

lemma net_crc_bits_eq:
  "n \<le> 8 \<Longrightarrow> (\<And>i. i < n \<Longrightarrow> bit ch i = bit c i) \<Longrightarrow> net_crc_bits n ch crc = crc_bits n c crc"
proof (induction n arbitrary: ch c crc)
  case (Suc n)
  have "bit (drop_bit 1 ch) i = bit (signed_drop_bit 1 c) i" if "i < n" for i
    using that Suc.prems(1) Suc.prems(2)[of "Suc i"] by (auto simp: bit_drop_bit_eq bit_signed_drop_bit_iff)
  moreover have "bit ch 0 = bit c 0" using Suc.prems(2)[of 0] by simp
  ultimately show ?case using Suc.IH Suc.prems(1) by (simp add: Let_def carry_bit)
qed simp

text \<open>The checksum of the netplay library is the one of the ROM files.\<close>

lemma net_crc_same: "net_crc32 data = crc_calc data"
proof -
  have "net_crc_bits 8 (ucast b) = crc_add b" for b
    by (rule ext) (simp add: crc_add_def net_crc_bits_eq bit_simps)
  then show ?thesis by (simp add: net_crc32_def crc_calc_def crc_get_def crc_start_def)
qed

subsection \<open>Queues\<close>

lemma popFrontWhile_drop: "popFrontWhile c xs = drop (length xs - c) xs"
  by (induction xs) (auto simp: Suc_diff_le not_less)

lemma dropWhile_sorted_rev:
  assumes "sorted_wrt (<) (map f xs)"
  shows "rev (dropWhile (\<lambda>x. f x \<ge> (k :: 'a::linorder)) (rev xs)) = filter (\<lambda>x. f x < k) xs"
  using assms
proof (induction xs rule: rev_induct)
  case (snoc x xs)
  then have "sorted_wrt (<) (map f xs)" "\<forall>y \<in> set xs. f y < f x" by (auto simp: sorted_wrt_append)
  with snoc.IH show ?case by (auto simp: not_le intro!: filter_True[symmetric])
qed simp

lemma popBackWhile_filter:
  "sorted_wrt (<) (map f xs) \<Longrightarrow> popBackWhile (\<lambda>x. f x \<ge> (k :: 'a::linorder)) xs = filter (\<lambda>x. f x < k) xs"
  by (simp add: popBackWhile_def dropWhile_sorted_rev)

subsection \<open>Snapshots ascend\<close>

definition snapshots_ok :: "SnapshotSystem \<Rightarrow> bool" where
  "snapshots_ok s \<longleftrightarrow> sorted_wrt (<) (map sr_frame (sn_records s)) \<and> length (sn_records s) \<le> sn_capacity s \<and>
     list_all (\<lambda>r. sr_crc32 r = calcCrc32 (sr_data r)) (sn_records s)"

datatype snapshot_op = ConfigureSnapshots nat | ClearSnapshots | PushSnapshot u32 bytes

fun snapshot_step :: "snapshot_op \<Rightarrow> SnapshotSystem \<Rightarrow> SnapshotSystem" where
  "snapshot_step (ConfigureSnapshots c) s = sn_configure c s"
| "snapshot_step ClearSnapshots s = sn_clear s"
| "snapshot_step (PushSnapshot f data) s = sn_push f data s"

lemma sorted_map_drop: "sorted_wrt r (map f xs) \<Longrightarrow> sorted_wrt r (map f (drop n xs))"
  by (simp add: sorted_wrt_drop drop_map[symmetric])

lemma list_all_drop: "list_all p xs \<Longrightarrow> list_all p (drop n xs)"
  by (auto simp: list_all_iff dest: in_set_dropD)

lemma push_records:
  assumes "snapshots_ok s" "0 < sn_capacity s"
  shows "sn_records (sn_push f data s) =
     (let kept = filter (\<lambda>r. sr_frame r < f) (sn_records s)
      in drop (Suc (length kept) - sn_capacity s) kept @ [\<lparr>sr_frame = f, sr_crc32 = calcCrc32 data, sr_data = data\<rparr>])"
  using assms
  by (simp add: sn_push_def snapshots_ok_def popBackWhile_filter sn_trim_def popFrontWhile_drop Let_def)

lemma snapshot_step_ok:
  assumes "snapshots_ok s"
  shows "snapshots_ok (snapshot_step p s)"
proof (cases p)
  case (PushSnapshot f data)
  show ?thesis
  proof (cases "sn_capacity s = 0")
    case False
    define kept where "kept = filter (\<lambda>r. sr_frame r < f) (sn_records s)"
    have k: "sorted_wrt (<) (map sr_frame kept)" "list_all (\<lambda>r. sr_crc32 r = calcCrc32 (sr_data r)) kept"
      "\<forall>r \<in> set kept. sr_frame r < f"
      using assms by (auto simp: kept_def snapshots_ok_def sorted_wrt_map sorted_wrt_filter list_all_iff)
    have c: "sn_capacity (sn_push f data s) = sn_capacity s" by (simp add: sn_push_def sn_trim_def Let_def)
    define n where "n = Suc (length kept) - sn_capacity s"
    have r: "sn_records (sn_push f data s) = drop n kept @ [\<lparr>sr_frame = f, sr_crc32 = calcCrc32 data, sr_data = data\<rparr>]"
      using push_records[OF assms, of f data] False by (simp add: Let_def n_def kept_def)
    have "length kept - n < sn_capacity s" using False by (simp add: n_def)
    moreover have "\<forall>r \<in> set (drop n kept). sr_frame r < f" using k(3) by (blast dest: in_set_dropD)
    ultimately show ?thesis
      using sorted_map_drop[OF k(1), of n] list_all_drop[OF k(2), of n]
      unfolding PushSnapshot snapshots_ok_def snapshot_step.simps r c
      by (simp only: map_append sorted_wrt_append list_all_append length_append length_drop) simp
  qed (use assms PushSnapshot in \<open>simp add: sn_push_def\<close>)
qed (use assms in \<open>auto simp: snapshots_ok_def sn_configure_def sn_clear_def sn_trim_def popFrontWhile_drop
    sorted_map_drop list_all_drop\<close>)

lemma snapshots_reachable: "snapshots_ok (fold snapshot_step ps SnapshotSystem0)"
  by (induction ps rule: rev_induct) (simp_all add: snapshots_ok_def SnapshotSystem0_def snapshot_step_ok[unfolded snapshots_ok_def])

lemma find_snoc: "List.find p (xs @ [x]) = (case List.find p xs of None \<Rightarrow> if p x then Some x else None | Some y \<Rightarrow> Some y)"
  by (induction xs) auto

lemma find_kept:
  "(\<And>r. p r \<Longrightarrow> q r) \<Longrightarrow> List.find p (filter q xs) = List.find p xs"
  by (induction xs) auto

subsection \<open>Histories\<close>

lemma find_replaceFirst: "replaceFirst p v xs = Some ys \<Longrightarrow> p v \<Longrightarrow> List.find p ys = Some v"
  by (induction xs arbitrary: ys) (auto split: if_splits)

lemma find_stored_entry [simp]: "findHistoryEntry (storeHistoryEntry e h) (he_frame e) = Some e"
proof (cases "replaceFirst (\<lambda>x. he_frame x = he_frame e) e (rev h)")
  case None
  have "rev (drop (length (h @ [e]) - kHistoryCapacity) (h @ [e])) = e # rev (drop (Suc (length h) - kHistoryCapacity) h)"
    by (simp add: kHistoryCapacity_def)
  then show ?thesis using None by (simp add: storeHistoryEntry_def findHistoryEntry_def popFrontWhile_drop)
next
  case (Some ys)
  then show ?thesis using find_replaceFirst[OF Some] by (simp add: storeHistoryEntry_def findHistoryEntry_def)
qed

text \<open>Entries of one frame never pile up, and the histories stay within their capacity.\<close>

lemma length_replaceFirst: "replaceFirst p v xs = Some ys \<Longrightarrow> length ys = length xs"
  by (induction xs arbitrary: ys) (auto split: if_splits)

lemma history_bounded: "length h \<le> kHistoryCapacity \<Longrightarrow> length (storeHistoryEntry e h) \<le> kHistoryCapacity"
  by (auto simp: storeHistoryEntry_def popFrontWhile_drop dest: length_replaceFirst split: option.split)

lemma nextMismatchCount_range:
  "unat (nextMismatchCount f m) \<in> {1, min 255 (unat (dm_consecutiveMismatchCount m) + 1)}"
proof -
  have "unat (of_nat (min 255 k) :: u8) = min 255 k" for k by (simp add: unat_of_nat)
  then show ?thesis by (simp only: nextMismatchCount_def if_distrib[of unat]) simp
qed

lemma nextMismatchCount_histories [simp]:
  "nextMismatchCount f (m\<lparr>dm_localHistory := a, dm_remoteHistory := b\<rparr>) = nextMismatchCount f m"
  by (simp add: nextMismatchCount_def)

text \<open>A history in ascending order loses all entries from the frame on; reports that arrived out of
  order can leave later ones behind.\<close>

lemma invalidate_ascending:
  assumes "sorted_wrt (<) (map he_frame (dm_localHistory m))" "f \<le> g"
  shows "findLocalHistoryEntry g (invalidateHistoryAfter f m) = None"
  using assms
  by (auto simp: findLocalHistoryEntry_def findHistoryEntry_def invalidateHistoryAfter_def popBackWhile_filter
      find_None_iff Let_def)

lemma invalidate_leaves_stale:
  fixes e :: HistoryEntry
  defines "late \<equiv> e\<lparr>he_frame := 120\<rparr>" and "early \<equiv> e\<lparr>he_frame := 60\<rparr>"
  shows "findLocalHistoryEntry 120 (invalidateHistoryAfter 100
    (snd (submitLocalCrc early (snd (submitLocalCrc late DesyncMonitor0))))) = Some late"
  by (simp add: late_def early_def findLocalHistoryEntry_def findHistoryEntry_def invalidateHistoryAfter_def popBackWhile_def
      submitLocalCrc_def storeHistoryEntry_def evaluateFrame_def DesyncMonitor0_def kHistoryCapacity_def Let_def)

subsection \<open>Stalls\<close>

fun stallRun :: "(StallSnapshot \<times> int) list \<Rightarrow> SelfStallDetector \<Rightarrow> SelfStallDetector" where
  "stallRun [] d = d"
| "stallRun ((s, now) # xs) d = stallRun xs (snd (stallUpdate s now d))"

lemma stallUpdate_cooldown:
  assumes "isEligible s"
  shows "sd_cooldownUntil d \<le> sd_cooldownUntil (snd (stallUpdate s now d))"
    "fst (stallUpdate s now d) \<Longrightarrow> sd_cooldownUntil d \<le> now"
    "fst (stallUpdate s now d) \<Longrightarrow> sd_cooldownUntil (snd (stallUpdate s now d)) = now + kRecoveryCooldown * 1000000"
  using assms
  by (auto simp: stallUpdate_def progressed_def kRecoveryCooldown_def Let_def split: option.splits if_splits)

lemma stallRun_cooldown:
  "list_all (\<lambda>x. isEligible (fst x)) xs \<Longrightarrow> sd_cooldownUntil d \<le> sd_cooldownUntil (stallRun xs d)"
  by (induction xs d rule: stallRun.induct) (auto intro: order_trans stallUpdate_cooldown(1))

subsection \<open>Properties\<close>

text \<open>
  C33: snapshots are what was stored, and none is stale. In every state that the snapshot system can
  reach, with a capacity above zero, storing the state of a frame makes exactly that state, with its
  checksum, the one found for the frame and the latest one; every snapshot of a later frame is gone,
  the earlier ones are kept in order up to the capacity, and every checksum belongs to its data.
\<close>
theorem snapshots_consistent:
  assumes "0 < sn_capacity s" "s = fold snapshot_step ps SnapshotSystem0"
  shows "sn_find f (sn_push f data s) = Some \<lparr>sr_frame = f, sr_crc32 = calcCrc32 data, sr_data = data\<rparr> \<and>
    sn_latest (sn_push f data s) = sn_find f (sn_push f data s) \<and>
    (\<forall>g > f. sn_find g (sn_push f data s) = None) \<and>
    (\<forall>g < f. length (filter (\<lambda>r. sr_frame r < f) (sn_records s)) < sn_capacity s \<longrightarrow>
       sn_find g (sn_push f data s) = sn_find g s) \<and>
    snapshots_ok (sn_push f data s)"
proof -
  have ok: "snapshots_ok s" using assms(2) snapshots_reachable by simp
  define kept where "kept = filter (\<lambda>r. sr_frame r < f) (sn_records s)"
  let ?new = "\<lparr>sr_frame = f, sr_crc32 = calcCrc32 data, sr_data = data\<rparr>"
  define n where "n = Suc (length kept) - sn_capacity s"
  have r: "sn_records (sn_push f data s) = drop n kept @ [?new]"
    using push_records[OF ok assms(1), of f data] by (simp add: Let_def n_def kept_def)
  have lt: "\<forall>r \<in> set (drop n kept). sr_frame r < f" by (auto simp: kept_def dest: in_set_dropD)
  then have none: "List.find (\<lambda>r. sr_frame r = g) (drop n kept) = None" if "f \<le> g" for g
    using that by (force simp: find_None_iff)
  have f: "sn_find f (sn_push f data s) = Some ?new" using none[of f] by (simp add: sn_find_def r find_snoc)
  moreover have "sn_latest (sn_push f data s) = Some ?new" by (simp add: sn_latest_def r)
  moreover have "\<forall>g > f. sn_find g (sn_push f data s) = None" using none by (auto simp: sn_find_def r find_snoc)
  moreover have "sn_find g (sn_push f data s) = sn_find g s" if "g < f" "length kept < sn_capacity s" for g
  proof -
    have "List.find (\<lambda>r. sr_frame r = g) kept = List.find (\<lambda>r. sr_frame r = g) (sn_records s)"
      unfolding kept_def using that(1) by (intro find_kept) simp
    moreover have "n = 0" using that(2) by (simp add: n_def)
    ultimately show ?thesis using that(1) by (auto simp: sn_find_def r find_snoc split: option.split)
  qed
  moreover have "snapshots_ok (sn_push f data s)" using snapshot_step_ok[OF ok, of "PushSnapshot f data"] by simp
  ultimately show ?thesis by (simp add: kept_def)
qed

theorem snapshots_consistent_witness:
  "sn_find 7 (sn_push 7 [3] (fold snapshot_step [ConfigureSnapshots 2, PushSnapshot 5 [1], PushSnapshot 9 [2]] SnapshotSystem0)) =
     Some \<lparr>sr_frame = 7, sr_crc32 = calcCrc32 [3], sr_data = [3]\<rparr> \<and>
   sn_find 9 (sn_push 7 [3] (fold snapshot_step [ConfigureSnapshots 2, PushSnapshot 5 [1], PushSnapshot 9 [2]] SnapshotSystem0)) = None"
proof -
  let ?ps = "[ConfigureSnapshots 2, PushSnapshot 5 [1], PushSnapshot 9 [2]]"
  have "0 < sn_capacity (fold snapshot_step ?ps SnapshotSystem0)"
    by (simp add: sn_configure_def sn_push_def sn_trim_def Let_def)
  from snapshots_consistent[OF this refl, of 7 "[3]"] show ?thesis by simp
qed

text \<open>
  C34: the verdict on a frame does not depend on who reports first. For checksums of the same frame
  from both sides, new to a monitor, the second report gives the same verdict and leaves the same
  monitor in both orders, and the first report gives none; the verdict is a mismatch exactly when both
  checksums are known and differ, and then the counter of consecutive mismatches is 1 or one more than
  before, and at most 255.
\<close>
theorem desync_verdict:
  assumes "he_frame l = he_frame r" "findHistoryEntry (dm_localHistory m) (he_frame l) = None"
    "findHistoryEntry (dm_remoteHistory m) (he_frame l) = None"
    and "submitLocalCrc l m = (u1, m1)" "submitRemoteCrc r m1 = (u2, m2)"
    and "submitRemoteCrc r m = (v1, n1)" "submitLocalCrc l n1 = (v2, n2)"
  shows "\<not> up_compared u1 \<and> \<not> up_compared v1 \<and> u2 = v2 \<and> m2 = n2 \<and>
    (up_compared u2 \<longleftrightarrow> he_crc32 l \<noteq> 0 \<and> he_crc32 r \<noteq> 0) \<and>
    (up_mismatchDetected u2 \<longleftrightarrow> up_compared u2 \<and> he_crc32 l \<noteq> he_crc32 r) \<and>
    (up_mismatchDetected u2 \<longrightarrow> dm_lastMismatchFrame m2 = he_frame l \<and>
       unat (dm_consecutiveMismatchCount m2) \<in> {1, min 255 (unat (dm_consecutiveMismatchCount m) + 1)})"
proof -
  have m1: "u1 = Update0 (he_frame l)" "m1 = m\<lparr>dm_localHistory := storeHistoryEntry l (dm_localHistory m)\<rparr>"
    using assms(3,4) by (auto simp: submitLocalCrc_def evaluateFrame_def)
  have n1: "v1 = Update0 (he_frame r)" "n1 = m\<lparr>dm_remoteHistory := storeHistoryEntry r (dm_remoteHistory m)\<rparr>"
    using assms(1,2,6) by (auto simp: submitRemoteCrc_def evaluateFrame_def split: option.splits)
  let ?b = "m\<lparr>dm_localHistory := storeHistoryEntry l (dm_localHistory m), dm_remoteHistory := storeHistoryEntry r (dm_remoteHistory m)\<rparr>"
  have c: "m\<lparr>dm_remoteHistory := storeHistoryEntry r (dm_remoteHistory m), dm_localHistory := storeHistoryEntry l (dm_localHistory m)\<rparr> = ?b"
    by simp
  have e: "(u2, m2) = evaluateFrame (he_frame l) ?b" using assms(1,5) by (simp add: submitRemoteCrc_def m1)
  have e': "(v2, n2) = evaluateFrame (he_frame l) ?b" using assms(7) unfolding submitLocalCrc_def n1 c[symmetric] by simp
  have s: "findHistoryEntry (storeHistoryEntry r (dm_remoteHistory m)) (he_frame l) = Some r"
    using assms(1) find_stored_entry[of r] by simp
  show ?thesis
    using e e' by (auto simp: m1 n1 evaluateFrame_def s Update0_def Let_def split: if_splits)
      (use nextMismatchCount_range[of "he_frame l" m] in auto)
qed

definition crc_entry :: "u32 \<Rightarrow> HistoryEntry" where
  "crc_entry c = \<lparr>he_frame = 60, he_crc32 = c, he_submissionSource = 2, he_localSimulationFrame = 60, he_confirmedFrame = 60\<rparr>"

theorem desync_verdict_witness:
  "up_mismatchDetected (fst (submitRemoteCrc (crc_entry 2) (snd (submitLocalCrc (crc_entry 1) DesyncMonitor0))))"
proof -
  let ?u = "fst (submitRemoteCrc (crc_entry 2) (snd (submitLocalCrc (crc_entry 1) DesyncMonitor0)))"
  have h: "he_frame (crc_entry 1) = he_frame (crc_entry 2)" "findHistoryEntry (dm_localHistory DesyncMonitor0) f = None"
    "findHistoryEntry (dm_remoteHistory DesyncMonitor0) f = None" for f
    by (simp_all add: crc_entry_def DesyncMonitor0_def findHistoryEntry_def)
  have "up_compared ?u \<longleftrightarrow> he_crc32 (crc_entry 1) \<noteq> 0 \<and> he_crc32 (crc_entry 2) \<noteq> 0"
    "up_mismatchDetected ?u \<longleftrightarrow> up_compared ?u \<and> he_crc32 (crc_entry 1) \<noteq> he_crc32 (crc_entry 2)"
    using desync_verdict[OF h(1-3) prod.collapse[symmetric] prod.collapse[symmetric] prod.collapse[symmetric]
        prod.collapse[symmetric]] by blast+
  then show ?thesis by (simp add: crc_entry_def)
qed

text \<open>
  Requests for a recovery keep their distance. While the session stays eligible for the detection
  of stalls, two updates of the detector that ask for a resynchronisation are at least five seconds
  apart, whatever happens between them.
\<close>
theorem stall_cooldown:
  assumes "isEligible s" "fst (stallUpdate s now d)" "list_all (\<lambda>x. isEligible (fst x)) xs"
    and "isEligible s'" "fst (stallUpdate s' later (stallRun xs (snd (stallUpdate s now d))))"
  shows "now + 5000 * 1000000 \<le> later"
proof -
  have "now + kRecoveryCooldown * 1000000 = sd_cooldownUntil (snd (stallUpdate s now d))"
    using stallUpdate_cooldown(3)[OF assms(1,2)] by simp
  also have "\<dots> \<le> sd_cooldownUntil (stallRun xs (snd (stallUpdate s now d)))" by (rule stallRun_cooldown[OF assms(3)])
  also have "\<dots> \<le> later" by (rule stallUpdate_cooldown(2)[OF assms(4,5)])
  finally show ?thesis by (simp add: kRecoveryCooldown_def)
qed

definition stuck :: StallSnapshot where
  "stuck = \<lparr>st_active = True, st_sessionState = Running, st_recoveryInputMode = 0, st_timelineEpoch = 1,
     st_activeResyncId = 0, st_pendingResyncAckCount = 0, st_connectedRemoteParticipantCount = 1,
     st_localSimulationFrame = 90, st_confirmedFrame = 60, st_maxRemoteReportedCurrentFrame = 60,
     st_maxRemoteReportedConfirmedFrame = 60, st_playbackStopCount = 0\<rparr>"

theorem stall_cooldown_witness:
  "(3000000000 :: int) + 5000 * 1000000 \<le> 9000000000 \<and>
   fst (stallUpdate stuck 9000000000 (stallRun [(stuck, 4000000000)] (snd (stallUpdate stuck 3000000000
     \<lparr>sd_progressBaseline = Some (makeSample stuck), sd_lastProgressAt = 0, sd_cooldownUntil = 0\<rparr>))))"
proof -
  let ?d = "\<lparr>sd_progressBaseline = Some (makeSample stuck), sd_lastProgressAt = 0, sd_cooldownUntil = 0\<rparr>"
  have e: "isEligible stuck" by (simp add: isEligible_def stuck_def)
  have u: "fst (stallUpdate stuck 3000000000 ?d)"
    "fst (stallUpdate stuck 9000000000 (stallRun [(stuck, 4000000000)] (snd (stallUpdate stuck 3000000000 ?d))))"
    using e by (simp_all add: stallUpdate_def Let_def progressed_def hasForwardProgress_def makeSample_def churnSince_def
        milliseconds_def kStallTimeout_def kChurnThreshold_def kRecoveryCooldown_def)
      (simp_all add: stuck_def)
  show ?thesis using stall_cooldown[OF e u(1) _ e u(2)] e u(2) by simp
qed

end
