(* ===== verification/Net_Coordinator.thy ===== *)
theory Net_Coordinator
  imports Net_Messages Net_Timeline Net_Recovery
begin

text \<open>
  The state of \<open>NetplayCoordinator\<close> (\<open>ConsoleNetplay/NetplayCoordinator.h\<close>, \<open>NetplayCoordinator.cpp\<close>) and the
  operations its handlers share: the confirmed frames, the recovery mode and
  \<open>realignAuthoritativeState\<close>. Members that no modelled operation uses are left out, as are log and
  toast messages. A handler reads the clock once, as its argument \<open>now\<close> in nanoseconds. What the
  coordinator hands to the transport is appended to \<open>co_sent\<close>. \<open>None\<close> is a dangling iterator or a loop that
  does not end.
\<close>

subsection \<open>The state\<close>

record LinearScanStats =
  sc_calls :: u64
  sc_hits :: u64
  sc_misses :: u64
  sc_totalScannedEntries :: u64
  sc_maxScannedEntries :: u64
  sc_lastScannedEntries :: u64

definition scan_record :: "bool \<Rightarrow> u64 \<Rightarrow> LinearScanStats \<Rightarrow> LinearScanStats" where
  "scan_record hit scanned s =
     (let s = s\<lparr>sc_calls := sc_calls s + 1\<rparr>;
          s = (if hit then s\<lparr>sc_hits := sc_hits s + 1\<rparr> else s\<lparr>sc_misses := sc_misses s + 1\<rparr>);
          s = s\<lparr>sc_lastScannedEntries := scanned, sc_totalScannedEntries := sc_totalScannedEntries s + scanned\<rparr>
      in if scanned > sc_maxScannedEntries s then s\<lparr>sc_maxScannedEntries := scanned\<rparr> else s)"

record PerformanceDiagnostics =
  pd_confirmedFrameFind :: LinearScanStats
  pd_confirmedFrameStore :: LinearScanStats

record NetplayRecoveryStats =
  rt_playbackStopCount :: u32
  rt_stopDueToMissingInputCount :: u32
  rt_hardResyncCount :: u32
  rt_missingInputGapCount :: u32
  rt_lastStopFrame :: u32
  rt_lastDecisionFrame :: u32
  rt_lastDecisionSlot :: u8
  rt_lastStopReason :: bytes
  rt_lastDecision :: bytes

definition recordHardResync :: "NetplayRecoveryStats \<Rightarrow> NetplayRecoveryStats" where
  "recordHardResync s = s\<lparr>rt_hardResyncCount := rt_hardResyncCount s + 1\<rparr>"

definition stats_recordMissingInputGap :: "u32 \<Rightarrow> u8 \<Rightarrow> NetplayRecoveryStats \<Rightarrow> NetplayRecoveryStats" where
  "stats_recordMissingInputGap f slot s = s\<lparr>rt_missingInputGapCount := rt_missingInputGapCount s + 1,
     rt_lastDecisionFrame := f, rt_lastDecisionSlot := slot, rt_lastDecision := ascii ''Missing input gap, waiting''\<rparr>"

text \<open>\<open>m_confirmedFrames\<close> and \<open>m_confirmedFrameIndex\<close>: a list and an index of its iterators. As in the
  timeline, a node carries its address, and addresses are not reused.\<close>

record confirmed_frames =
  cs_frames :: "(nat \<times> ConfirmedFrameInputs) list"
  cs_index :: "u32 \<rightharpoonup> nat"
  cs_fresh :: nat

record IncomingResyncTransfer =
  ir_resyncId :: u32
  ir_targetFrame :: u32
  ir_expectedPayloadCrc32 :: u32
  ir_payload :: bytes
  ir_receivedMask :: "u8 list"
  ir_lastActivityAt :: int

record PendingResyncApply =
  pa_resyncId :: u32
  pa_targetFrame :: u32
  pa_confirmedFrame :: u32
  pa_frameReadyFrame :: u32
  pa_expectedPayloadCrc32 :: u32
  pa_frameReadyCrc32 :: u32
  pa_inputSequenceBase :: u32
  pa_reason :: u8
  pa_payload :: bytes

datatype NetChannel = Control | Gameplay | Diagnostics

text \<open>A call of the transport; a broadcast may leave out one peer.\<close>

datatype delivery = SendReliable nat NetChannel bytes | BroadcastReliable NetChannel bytes
  | BroadcastUnreliable NetChannel bytes nat

record NetplayCoordinator =
  co_room :: RoomState
  co_localInputs :: InputTimeline
  co_remoteInputs :: InputTimeline
  co_confirmed :: confirmed_frames
  co_serverPeer :: "nat option"
  co_localParticipantId :: u8
  co_hosting :: bool
  co_localInputSequence :: u32
  co_recoveryStats :: NetplayRecoveryStats
  co_lastBroadcastConfirmedFrame :: u32
  co_desyncMonitor :: DesyncMonitor
  co_localSimulationFrame :: u32
  co_confirmedDesyncRequestSuppressedUntilFrame :: u32
  co_nextResyncId :: u32
  co_activeResyncExpectedStateCrc32 :: u32
  co_incomingResync :: "IncomingResyncTransfer option"
  co_pendingResyncApply :: "PendingResyncApply option"
  co_remoteInputStallMonitor :: RemoteInputStallMonitor
  co_pendingResyncAcks :: "u8 list"
  co_pendingSequenceResetParticipants :: "u8 list"
  co_awaitingReconnectInitialSync :: bool
  co_lastRemoteInputAt :: "u8 \<rightharpoonup> int"
  co_lastGameplayInputAt :: "u8 \<rightharpoonup> int"
  co_activeResyncAckDeadline :: int
  co_activeResyncTargetParticipantId :: u8
  co_activeResyncResumeState :: u8
  co_activeTargetedResyncId :: u32
  co_activeTargetedResyncFrame :: u32
  co_activeTargetedResyncExpectedStateCrc32 :: u32
  co_sharedClockOffsetMicros :: int
  co_sharedClockSynchronized :: bool
  co_authoritativeFrameStartClockMicros :: "u32 \<rightharpoonup> u64"
  co_authoritativeFrameStartClockOrder :: "u32 list"
  co_performanceDiagnostics :: PerformanceDiagnostics
  co_sent :: "delivery list"

definition LinearScanStats0 :: LinearScanStats where
  "LinearScanStats0 = \<lparr>sc_calls = 0, sc_hits = 0, sc_misses = 0, sc_totalScannedEntries = 0, sc_maxScannedEntries = 0,
     sc_lastScannedEntries = 0\<rparr>"

definition NetplayRecoveryStats0 :: NetplayRecoveryStats where
  "NetplayRecoveryStats0 = \<lparr>rt_playbackStopCount = 0, rt_stopDueToMissingInputCount = 0, rt_hardResyncCount = 0,
     rt_missingInputGapCount = 0, rt_lastStopFrame = 0, rt_lastDecisionFrame = 0, rt_lastDecisionSlot = kObserverPlayerSlot,
     rt_lastStopReason = [], rt_lastDecision = []\<rparr>"

definition NetplayCoordinator0 :: NetplayCoordinator where
  "NetplayCoordinator0 = \<lparr>co_room = RoomState0, co_localInputs = tl_configure 2400 InputTimeline0,
     co_remoteInputs = tl_configure 2400 InputTimeline0,
     co_confirmed = \<lparr>cs_frames = [], cs_index = Map.empty, cs_fresh = 0\<rparr>, co_serverPeer = None,
     co_localParticipantId = kInvalidParticipantId, co_hosting = False, co_localInputSequence = 0,
     co_recoveryStats = NetplayRecoveryStats0, co_lastBroadcastConfirmedFrame = 0, co_desyncMonitor = DesyncMonitor0,
     co_localSimulationFrame = 0, co_confirmedDesyncRequestSuppressedUntilFrame = 0, co_nextResyncId = 1,
     co_activeResyncExpectedStateCrc32 = 0, co_incomingResync = None, co_pendingResyncApply = None,
     co_remoteInputStallMonitor = \<lparr>sm_pending = None, sm_lastRecovered = None\<rparr>, co_pendingResyncAcks = [],
     co_pendingSequenceResetParticipants = [], co_awaitingReconnectInitialSync = False,
     co_lastRemoteInputAt = Map.empty, co_lastGameplayInputAt = Map.empty, co_activeResyncAckDeadline = 0,
     co_activeResyncTargetParticipantId = kInvalidParticipantId, co_activeResyncResumeState = 0,
     co_activeTargetedResyncId = 0, co_activeTargetedResyncFrame = 0, co_activeTargetedResyncExpectedStateCrc32 = 0,
     co_sharedClockOffsetMicros = 0, co_sharedClockSynchronized = False,
     co_authoritativeFrameStartClockMicros = Map.empty, co_authoritativeFrameStartClockOrder = [],
     co_performanceDiagnostics = \<lparr>pd_confirmedFrameFind = LinearScanStats0, pd_confirmedFrameStore = LinearScanStats0\<rparr>,
     co_sent = []\<rparr>"

subsection \<open>Clocks\<close>

definition monotonicNowMicros :: "int \<Rightarrow> int" where
  "monotonicNowMicros now = (if now \<ge> 0 then now div 1000 else - (- now div 1000))"

definition sharedClockNowMicros :: "int \<Rightarrow> NetplayCoordinator \<Rightarrow> u64" where
  "sharedClockNowMicros now c =
     (let nowMicros = monotonicNowMicros now
      in if co_hosting c then (if nowMicros > 0 then word_of_int nowMicros else 0)
         else if \<not> co_sharedClockSynchronized c then 0
         else let adjusted = nowMicros + co_sharedClockOffsetMicros c
              in if adjusted > 0 then word_of_int adjusted else 0)"

definition authoritativeFrameStartClockMicros :: "u32 \<Rightarrow> NetplayCoordinator \<Rightarrow> u64" where
  "authoritativeFrameStartClockMicros f c = (case co_authoritativeFrameStartClockMicros c f of Some m \<Rightarrow> m | None \<Rightarrow> 0)"

subsection \<open>Inputs of a frame\<close>

text \<open>Reading through the \<open>operator[]\<close> of a per-slot value that is not constant stores a default.\<close>

definition ps_touch :: "'v \<Rightarrow> u8 \<Rightarrow> 'v per_slot \<Rightarrow> 'v per_slot" where
  "ps_touch d slot v = ps_put slot (ps_at d slot v) v"

definition makeRoomTopologyNetplayFrame :: "u32 \<Rightarrow> NetplayInputFrame" where
  "makeRoomTopologyNetplayFrame f = NetplayInputFrame0\<lparr>nf_frame := f\<rparr>"

definition materializeNativeMaskFromPayload :: "u8 \<Rightarrow> NetplayInputFrame \<Rightarrow> NetplayInputFrame" where
  "materializeNativeMaskFromPayload slot f =
     (let f = f\<lparr>nf_buttonMaskLo := ps_touch 0 slot (nf_buttonMaskLo f)\<rparr>
      in if ps_at 0 slot (nf_buttonMaskLo f) \<noteq> 0 then f
         else f\<lparr>nf_slotPayloads := ps_touch [] slot (nf_slotPayloads f)\<rparr>)"

definition timelineContributionForSlot :: "TimelineInputEntry \<Rightarrow> NetplayInputFrame" where
  "timelineContributionForSlot e =
     (let slot = te_playerSlot e;
          c = materializeNativeMaskFromPayload slot (te_netplayFrame e);
          c = (if te_buttonMaskLo e \<noteq> 0 \<or> ps_at 0 slot (nf_buttonMaskLo c) = 0
               then c\<lparr>nf_buttonMaskLo := ps_put slot (te_buttonMaskLo e) (nf_buttonMaskLo c)\<rparr> else c)
      in if te_buttonMaskHi e \<noteq> 0 \<or> ps_at 0 slot (nf_buttonMaskHi c) = 0
         then c\<lparr>nf_buttonMaskHi := ps_put slot (te_buttonMaskHi e) (nf_buttonMaskHi c)\<rparr> else c)"

subsection \<open>Confirmed frames\<close>

definition kConfirmedFrameHistoryCapacity :: nat where "kConfirmedFrameHistoryCapacity = 16384"

definition cs_clear :: "confirmed_frames \<Rightarrow> confirmed_frames" where
  "cs_clear s = s\<lparr>cs_frames := [], cs_index := Map.empty\<rparr>"

definition cs_popFront :: "confirmed_frames \<Rightarrow> confirmed_frames" where
  "cs_popFront s = (case cs_frames s of [] \<Rightarrow> s
     | n # ns \<Rightarrow> s\<lparr>cs_index := (cs_index s)(fi_frame (snd n) := None), cs_frames := ns\<rparr>)"

definition cs_assign :: "nat \<Rightarrow> ConfirmedFrameInputs \<Rightarrow> confirmed_frames \<Rightarrow> confirmed_frames option" where
  "cs_assign i f s = (if i \<in> fst ` set (cs_frames s)
     then Some (s\<lparr>cs_frames := map (\<lambda>n. if fst n = i then (i, f) else n) (cs_frames s)\<rparr>) else None)"

definition cs_append :: "ConfirmedFrameInputs \<Rightarrow> confirmed_frames \<Rightarrow> confirmed_frames" where
  "cs_append f s =
     (let s = (if length (cs_frames s) \<ge> kConfirmedFrameHistoryCapacity then cs_popFront s else s)
      in s\<lparr>cs_frames := cs_frames s @ [(cs_fresh s, f)], cs_index := (cs_index s)(fi_frame f \<mapsto> cs_fresh s),
           cs_fresh := cs_fresh s + 1\<rparr>)"

definition noteStore :: "bool \<Rightarrow> NetplayCoordinator \<Rightarrow> NetplayCoordinator" where
  "noteStore hit c = c\<lparr>co_performanceDiagnostics := (co_performanceDiagnostics c)
     \<lparr>pd_confirmedFrameStore := scan_record hit (if hit then 1 else 0) (pd_confirmedFrameStore (co_performanceDiagnostics c))\<rparr>\<rparr>"

definition noteFind :: "bool \<Rightarrow> NetplayCoordinator \<Rightarrow> NetplayCoordinator" where
  "noteFind hit c = c\<lparr>co_performanceDiagnostics := (co_performanceDiagnostics c)
     \<lparr>pd_confirmedFrameFind := scan_record hit (if hit then 1 else 0) (pd_confirmedFrameFind (co_performanceDiagnostics c))\<rparr>\<rparr>"

definition noteClock :: "u32 \<Rightarrow> u64 \<Rightarrow> NetplayCoordinator \<Rightarrow> NetplayCoordinator" where
  "noteClock f micros c =
     (if micros \<noteq> 0 then c\<lparr>co_room := (co_room c)\<lparr>rs_lastAuthoritativeClockFrame := f, rs_lastAuthoritativeClockMicros := micros\<rparr>\<rparr>
      else c)"

definition storeConfirmedFrame :: "ConfirmedFrameInputs \<Rightarrow> NetplayCoordinator \<Rightarrow> NetplayCoordinator option" where
  "storeConfirmedFrame f c =
     (let stored = (if nf_frame (fi_netplayFrame f) \<noteq> fi_frame f
            then f\<lparr>fi_netplayFrame := (fi_netplayFrame f)\<lparr>nf_frame := fi_frame f, nf_timelineEpoch := rs_timelineEpoch (co_room c)\<rparr>\<rparr>
            else f);
          c = noteClock (fi_frame f) (fi_authoritativeFrameStartClockMicros f) c
      in case cs_index (co_confirmed c) (fi_frame f) of
           Some i \<Rightarrow> do {
             s \<leftarrow> cs_assign i stored (co_confirmed c);
             Some (noteStore True (c\<lparr>co_confirmed := s\<rparr>)) }
         | None \<Rightarrow> Some ((noteStore False c)\<lparr>co_confirmed := cs_append stored (co_confirmed c)\<rparr>))"

definition findConfirmedFrame ::
  "u32 \<Rightarrow> NetplayCoordinator \<Rightarrow> (ConfirmedFrameInputs option \<times> NetplayCoordinator) option" where
  "findConfirmedFrame f c =
     (case cs_index (co_confirmed c) f of
        Some i \<Rightarrow> do {
          x \<leftarrow> map_of (cs_frames (co_confirmed c)) i;
          Some (Some x, noteFind True c) }
      | None \<Rightarrow> Some (None, noteFind False c))"

subsection \<open>The recovery mode\<close>

definition Normal :: u8 where "Normal = 0"

definition ResyncLocked :: u8 where "ResyncLocked = 1"

definition PostResyncStabilizing :: u8 where "PostResyncStabilizing = 2"

definition kPostRecoveryClientDesyncRequestGraceFrames :: u32 where "kPostRecoveryClientDesyncRequestGraceFrames = 60"

definition clearStabilization :: "u32 \<Rightarrow> u32 \<Rightarrow> RoomState \<Rightarrow> RoomState" where
  "clearStabilization frames frameContext room = room\<lparr>rs_stabilizationFramesRemaining := frames,
     rs_stabilizationAnchorFrame := frameContext, rs_stabilizationCrcPassCount := 0,
     rs_stabilizationCrcMismatchCount := 0, rs_stabilizationRetryIssued := False\<rparr>"

definition setRecoveryInputMode :: "u8 \<Rightarrow> u32 \<Rightarrow> u32 \<Rightarrow> NetplayCoordinator \<Rightarrow> NetplayCoordinator" where
  "setRecoveryInputMode mode frameContext stabilizationFrames c =
     (let previousMode = rs_recoveryInputMode (co_room c) in
      if previousMode = mode \<and>
         (mode \<noteq> PostResyncStabilizing \<or> rs_stabilizationFramesRemaining (co_room c) = stabilizationFrames) then c
      else
        let c = c\<lparr>co_room := (co_room c)\<lparr>rs_recoveryInputMode := mode, rs_recoveryModeEnteredAtFrame := frameContext,
              rs_recoveryModeTransitionCount := rs_recoveryModeTransitionCount (co_room c) + 1\<rparr>\<rparr>
        in if mode = PostResyncStabilizing then
             c\<lparr>co_room := clearStabilization stabilizationFrames frameContext (co_room c)\<rparr>
           else if mode = ResyncLocked then c
           else if mode = Normal then
             let c = c\<lparr>co_room := clearStabilization 0 frameContext (co_room c)\<rparr>
             in if previousMode = PostResyncStabilizing then
                  c\<lparr>co_remoteInputStallMonitor := stallReset (co_remoteInputStallMonitor c),
                    co_desyncMonitor := DesyncMonitor0,
                    co_confirmedDesyncRequestSuppressedUntilFrame :=
                      max (co_confirmedDesyncRequestSuppressedUntilFrame c)
                          (frameContext + kPostRecoveryClientDesyncRequestGraceFrames)\<rparr>
                else c
           else c)"

subsection \<open>Realignment\<close>

definition InitialSessionSync :: u8 where "InitialSessionSync = 1"

definition HostReset :: u8 where "HostReset = 7"

definition HostLoadedState :: u8 where "HostLoadedState = 8"

definition ObserverVisibilityRestore :: u8 where "ObserverVisibilityRestore = 9"

definition preserveConfirmedInputsAcrossRealignment :: "u8 \<Rightarrow> bool" where
  "preserveConfirmedInputsAcrossRealignment reason \<longleftrightarrow> reason \<noteq> HostReset \<and> reason \<noteq> HostLoadedState"

definition preserveInputSequencesForResync :: "u8 \<Rightarrow> bool \<Rightarrow> u32 \<Rightarrow> bool" where
  "preserveInputSequencesForResync reason initialSessionSync targetFrame \<longleftrightarrow>
     reason = ObserverVisibilityRestore \<or> reason = HostReset \<or> reason = HostLoadedState \<or>
     reason = InitialSessionSync \<and> \<not> initialSessionSync \<and> targetFrame > 0"

text \<open>The latest confirmed input of a slot up to the loaded frame.\<close>

definition preserveLatestConfirmedInput ::
  "u32 \<Rightarrow> bool \<Rightarrow> u32 \<Rightarrow> u8 \<Rightarrow> u8 \<Rightarrow> InputTimeline \<Rightarrow> TimelineInputEntry option" where
  "preserveLatestConfirmedInput loadedFrame resetInputSequences inputSequenceBase participantId slot t =
     map_option (\<lambda>e. let e = e\<lparr>te_confirmed := True\<rparr>
                     in if resetInputSequences then e\<lparr>te_sequence := inputSequenceBase\<rparr> else e)
       (List.find (\<lambda>e. te_participantId e = participantId \<and> te_playerSlot e = slot \<and> te_confirmed e \<and> te_frame e \<le> loadedFrame)
          (rev (tl_entries t)))"

definition timelineOf :: "NetplayCoordinator \<Rightarrow> u8 \<Rightarrow> InputTimeline" where
  "timelineOf c participantId = (if participantId = co_localParticipantId c then co_localInputs c else co_remoteInputs c)"

definition latestTimelineSequenceAtOrBefore :: "NetplayCoordinator \<Rightarrow> u32 \<Rightarrow> u8 \<Rightarrow> u32" where
  "latestTimelineSequenceAtOrBefore c loadedFrame participantId =
     fold (\<lambda>e latest. if te_participantId e \<noteq> participantId \<or> te_frame e > loadedFrame then latest else max latest (te_sequence e))
       (tl_entries (timelineOf c participantId)) 0"

definition preservedSequenceByParticipant :: "NetplayCoordinator \<Rightarrow> u32 \<Rightarrow> bool \<Rightarrow> u32 \<Rightarrow> u8 \<rightharpoonup> u32" where
  "preservedSequenceByParticipant c loadedFrame resetInputSequences inputSequenceBase =
     fold (\<lambda>p m. m(pi_id p \<mapsto>
         if resetInputSequences then inputSequenceBase
         else let s = latestTimelineSequenceAtOrBefore c loadedFrame (pi_id p)
              in if pi_id p = co_localParticipantId c then max s (co_localInputSequence c) else s))
       (rs_participants (co_room c)) Map.empty"

definition preservedSequenceFor :: "(u8 \<rightharpoonup> u32) \<Rightarrow> u8 \<Rightarrow> u32" where
  "preservedSequenceFor m participantId = (case m participantId of Some s \<Rightarrow> s | None \<Rightarrow> 0)"

definition neutralEntry :: "u32 \<Rightarrow> u8 \<Rightarrow> u8 \<Rightarrow> u32 \<Rightarrow> TimelineInputEntry" where
  "neutralEntry loadedFrame participantId slot sequence = \<lparr>te_frame = loadedFrame, te_participantId = participantId,
     te_playerSlot = slot, te_buttonMaskLo = 0, te_buttonMaskHi = 0, te_netplayFrame = makeRoomTopologyNetplayFrame loadedFrame,
     te_sequence = sequence, te_confirmed = True\<rparr>"

definition preservedEntry ::
  "NetplayCoordinator \<Rightarrow> u32 \<Rightarrow> bool \<Rightarrow> u32 \<Rightarrow> bool \<Rightarrow> u8 \<Rightarrow> u8 \<Rightarrow> TimelineInputEntry" where
  "preservedEntry c loadedFrame resetInputSequences inputSequenceBase preserveConfirmedInputs participantId slot =
     (let sequence = (if resetInputSequences then inputSequenceBase
            else preservedSequenceFor (preservedSequenceByParticipant c loadedFrame resetInputSequences inputSequenceBase) participantId);
          neutral = neutralEntry loadedFrame participantId slot sequence
      in if preserveConfirmedInputs then
           case preserveLatestConfirmedInput loadedFrame resetInputSequences inputSequenceBase participantId slot
                  (timelineOf c participantId) of
             Some e \<Rightarrow> e | None \<Rightarrow> neutral
         else neutral)"

text \<open>The held slots of the participants, in the order of the loops.\<close>

definition heldBy :: "ParticipantInfo list \<Rightarrow> (u8 \<times> u8) list" where
  "heldBy ps = concat (map (\<lambda>p. map (Pair (pi_id p)) (participantAssignments p)) ps)"

fun pushAll :: "TimelineInputEntry list \<Rightarrow> InputTimeline \<Rightarrow> InputTimeline option" where
  "pushAll [] t = Some t"
| "pushAll (e # es) t = do { t \<leftarrow> tl_push e t; pushAll es t }"

definition rebuildTimelines :: "u32 \<Rightarrow> bool \<Rightarrow> u32 \<Rightarrow> bool \<Rightarrow> NetplayCoordinator \<Rightarrow> NetplayCoordinator option" where
  "rebuildTimelines loadedFrame resetInputSequences inputSequenceBase preserveConfirmedInputs c =
     (let held = heldBy (filter (\<lambda>p. \<not> participantIsObserver p) (rs_participants (co_room c)));
          entry = (\<lambda>(i, slot). preservedEntry c loadedFrame resetInputSequences inputSequenceBase preserveConfirmedInputs i slot);
          local = map entry (filter (\<lambda>(i, _). i = co_localParticipantId c) held);
          remote = map entry (filter (\<lambda>(i, _). i \<noteq> co_localParticipantId c) held)
      in do {
        l \<leftarrow> pushAll local (tl_clear (co_localInputs c));
        r \<leftarrow> pushAll remote (tl_clear (co_remoteInputs c));
        Some (c\<lparr>co_localInputs := l, co_remoteInputs := r, co_confirmed := cs_clear (co_confirmed c)\<rparr>) })"

definition latestSequenceForParticipant :: "(u8 \<rightharpoonup> u32) \<Rightarrow> bool \<Rightarrow> u32 \<Rightarrow> NetplayCoordinator \<Rightarrow> u8 \<Rightarrow> u32" where
  "latestSequenceForParticipant preserved resetInputSequences inputSequenceBase c participantId =
     (if resetInputSequences then inputSequenceBase
      else if participantId \<in> set (co_pendingSequenceResetParticipants c) then 0
      else fold (\<lambda>e latest. if te_participantId e \<noteq> participantId then latest else max latest (te_sequence e))
             (tl_entries (timelineOf c participantId)) (preservedSequenceFor preserved participantId))"

definition findInput :: "u32 \<Rightarrow> u8 \<Rightarrow> u8 \<Rightarrow> NetplayCoordinator \<Rightarrow> (TimelineInputEntry option \<times> NetplayCoordinator) option" where
  "findInput f participantId slot c =
     (if participantId = co_localParticipantId c
      then map_option (\<lambda>(e, t). (e, c\<lparr>co_localInputs := t\<rparr>)) (tl_find f participantId slot (co_localInputs c))
      else map_option (\<lambda>(e, t). (e, c\<lparr>co_remoteInputs := t\<rparr>)) (tl_find f participantId slot (co_remoteInputs c)))"

definition applyEntry :: "u8 \<Rightarrow> TimelineInputEntry \<Rightarrow> ConfirmedFrameInputs \<Rightarrow> ConfirmedFrameInputs" where
  "applyEntry slot e f = f\<lparr>fi_buttonMaskLo := ps_put slot (te_buttonMaskLo e) (fi_buttonMaskLo f),
     fi_buttonMaskHi := ps_put slot (te_buttonMaskHi e) (fi_buttonMaskHi f),
     fi_netplayFrame := applyAssignedContribution slot (timelineContributionForSlot e) (fi_netplayFrame f)\<rparr>"

fun gatherConfirmed ::
  "u32 \<Rightarrow> (u8 \<times> u8) list \<Rightarrow> ConfirmedFrameInputs \<Rightarrow> NetplayCoordinator \<Rightarrow> (ConfirmedFrameInputs \<times> NetplayCoordinator) option" where
  "gatherConfirmed loadedFrame [] f c = Some (f, c)"
| "gatherConfirmed loadedFrame ((i, slot) # hs) f c = do {
     (e, c) \<leftarrow> findInput loadedFrame i slot c;
     gatherConfirmed loadedFrame hs (case e of Some e \<Rightarrow> applyEntry slot e f | None \<Rightarrow> f) c }"

definition confirmedFrameAt :: "u32 \<Rightarrow> ConfirmedFrameInputs" where
  "confirmedFrameAt f = \<lparr>fi_frame = f, fi_authoritativeFrameStartClockMicros = 0, fi_buttonMaskLo = [], fi_buttonMaskHi = [],
     fi_netplayFrame = makeRoomTopologyNetplayFrame f\<rparr>"

definition restoreConfirmedFrame :: "u32 \<Rightarrow> NetplayCoordinator \<Rightarrow> NetplayCoordinator option" where
  "restoreConfirmedFrame loadedFrame c =
     (let held = filter (\<lambda>(_, slot). isPlayableSlot (co_room c) slot) (heldBy (rs_participants (co_room c)))
      in do {
        (f, c) \<leftarrow> gatherConfirmed loadedFrame held (confirmedFrameAt loadedFrame) c;
        if held = [] then Some c else storeConfirmedFrame f c })"

definition realignParticipant :: "u32 \<Rightarrow> bool \<Rightarrow> u8 \<Rightarrow> (u8 \<Rightarrow> u32) \<Rightarrow> u8 \<Rightarrow> ParticipantInfo \<Rightarrow> ParticipantInfo" where
  "realignParticipant loadedFrame resetInputSequences reason latest localId p =
     p\<lparr>pi_lastReceivedInputFrame := loadedFrame, pi_lastContiguousInputFrame := loadedFrame,
       pi_lastReceivedInputSequence := latest (pi_id p),
       pi_sequenceRebasePending := (pi_id p \<noteq> localId \<and>
         (resetInputSequences \<or> latest (pi_id p) = 0 \<or> reason = HostReset \<or> reason = HostLoadedState)),
       pi_pendingMissingInputFrom := None, pi_lastDecisionFrame := loadedFrame,
       pi_lastDecisionSlot := kObserverPlayerSlot, pi_lastDecision := [], pi_inputSuspended := False,
       pi_inputResumeAwaitingResync := False\<rparr>"

definition resetClocks :: "int \<Rightarrow> u32 \<Rightarrow> NetplayCoordinator \<Rightarrow> NetplayCoordinator" where
  "resetClocks now loadedFrame c =
     (let micros = (if co_hosting c then sharedClockNowMicros now c else 0)
      in c\<lparr>co_authoritativeFrameStartClockMicros := (if co_hosting c then [loadedFrame \<mapsto> micros] else Map.empty),
           co_authoritativeFrameStartClockOrder := (if co_hosting c then [loadedFrame] else []),
           co_room := (co_room c)\<lparr>rs_lastAuthoritativeClockFrame := loadedFrame, rs_lastAuthoritativeClockMicros := micros\<rparr>\<rparr>)"

definition finishRealignment :: "int \<Rightarrow> u32 \<Rightarrow> bool \<Rightarrow> u8 \<Rightarrow> (u8 \<Rightarrow> u32) \<Rightarrow> NetplayCoordinator \<Rightarrow> NetplayCoordinator" where
  "finishRealignment now loadedFrame resetInputSequences reason latest c =
     (let c = c\<lparr>co_room := (co_room c)\<lparr>rs_participants := map (realignParticipant loadedFrame resetInputSequences reason latest
                  (co_localParticipantId c)) (rs_participants (co_room c))\<rparr>,
                co_lastRemoteInputAt := fold (\<lambda>p m. m(pi_id p \<mapsto> now)) (rs_participants (co_room c)) (co_lastRemoteInputAt c),
                co_localSimulationFrame := loadedFrame\<rparr>;
          c = resetClocks now loadedFrame c
      in c\<lparr>co_pendingSequenceResetParticipants := []\<rparr>)"

definition realignAuthoritativeState ::
  "int \<Rightarrow> u32 \<Rightarrow> bool \<Rightarrow> u32 \<Rightarrow> bool \<Rightarrow> u8 \<Rightarrow> NetplayCoordinator \<Rightarrow> NetplayCoordinator option" where
  "realignAuthoritativeState now loadedFrame resetInputSequences inputSequenceBase preserveConfirmedInputs reason c =
     (let preserved = preservedSequenceByParticipant c loadedFrame resetInputSequences inputSequenceBase
      in do {
        c \<leftarrow> rebuildTimelines loadedFrame resetInputSequences inputSequenceBase preserveConfirmedInputs c;
        let c = c\<lparr>co_recoveryStats := (co_recoveryStats c)\<lparr>rt_lastDecision := [], rt_lastDecisionFrame := loadedFrame,
                  rt_lastDecisionSlot := kObserverPlayerSlot\<rparr>,
                co_desyncMonitor := DesyncMonitor0,
                co_room := (co_room c)\<lparr>rs_currentFrame := loadedFrame, rs_lastConfirmedFrame := loadedFrame,
                  rs_lastRemoteCrcFrame := 0, rs_lastRemoteCrc32 := 0\<rparr>,
                co_lastBroadcastConfirmedFrame := loadedFrame\<rparr>;
        let latest = latestSequenceForParticipant preserved resetInputSequences inputSequenceBase c;
        let c = c\<lparr>co_localInputSequence := latest (co_localParticipantId c)\<rparr>;
        c \<leftarrow> (if preserveConfirmedInputs then restoreConfirmedFrame loadedFrame c else Some c);
        Some (finishRealignment now loadedFrame resetInputSequences reason latest c) })"

subsection \<open>Consistency\<close>

definition confirmed_ok :: "confirmed_frames \<Rightarrow> bool" where
  "confirmed_ok s \<longleftrightarrow> distinct (map fst (cs_frames s)) \<and> (\<forall>n \<in> set (cs_frames s). fst n < cs_fresh s) \<and>
     distinct (map (\<lambda>n. fi_frame (snd n)) (cs_frames s)) \<and>
     cs_index s = map_of (map (\<lambda>n. (fi_frame (snd n), fst n)) (cs_frames s)) \<and>
     length (cs_frames s) \<le> kConfirmedFrameHistoryCapacity"

definition coordinator_ok :: "NetplayCoordinator \<Rightarrow> bool" where
  "coordinator_ok c \<longleftrightarrow> timeline_ok (co_localInputs c) \<and> timeline_ok (co_remoteInputs c) \<and> confirmed_ok (co_confirmed c)"

lemma map_of_drop_first: "k \<notin> fst ` set xs \<Longrightarrow> (map_of ((k, v) # xs))(k := None) = map_of xs"
  using map_of_eq_None_iff[of xs k] by (intro ext) auto

lemma map_of_append_new: "k \<notin> fst ` set xs \<Longrightarrow> map_of (xs @ [(k, v)]) = (map_of xs)(k \<mapsto> v)"
  by (induction xs) (auto simp: fun_upd_twist)

lemma set_tl_sub: "set (tl xs) \<subseteq> set xs"
  by (cases xs) auto

lemma confirmed_clear: "confirmed_ok (cs_clear s)"
  by (simp add: confirmed_ok_def cs_clear_def)

lemma confirmed_popFront:
  assumes "confirmed_ok s"
  shows "confirmed_ok (cs_popFront s)" "cs_frames (cs_popFront s) = tl (cs_frames s)"
proof -
  show "cs_frames (cs_popFront s) = tl (cs_frames s)" by (simp add: cs_popFront_def split: list.splits)
  show "confirmed_ok (cs_popFront s)"
  proof (cases "cs_frames s")
    case (Cons n ns)
    have "fi_frame (snd n) \<notin> fst ` set (map (\<lambda>n. (fi_frame (snd n), fst n)) ns)"
      using assms Cons by (simp add: confirmed_ok_def image_image)
    from map_of_drop_first[OF this, of "fst n"] show ?thesis
      using assms Cons by (auto simp: confirmed_ok_def cs_popFront_def)
  qed (use assms in \<open>simp add: cs_popFront_def\<close>)
qed

lemma confirmed_append:
  assumes "confirmed_ok s" "cs_index s (fi_frame f) = None"
  shows "confirmed_ok (cs_append f s)"
proof -
  define u where "u = (if length (cs_frames s) \<ge> kConfirmedFrameHistoryCapacity then cs_popFront s else s)"
  have new: "fi_frame f \<notin> (\<lambda>n. fi_frame (snd n)) ` set (cs_frames s)"
    using assms by (simp add: confirmed_ok_def map_of_eq_None_iff image_image)
  have u: "confirmed_ok u" "length (cs_frames u) < kConfirmedFrameHistoryCapacity" "set (cs_frames u) \<subseteq> set (cs_frames s)"
    using confirmed_popFront[OF assms(1)] assms(1) set_tl_sub[of "cs_frames s"]
    by (auto simp: u_def confirmed_ok_def kConfirmedFrameHistoryCapacity_def)
  then have n: "fi_frame f \<notin> (\<lambda>n. fi_frame (snd n)) ` set (cs_frames u)" using new by blast
  then have "fi_frame f \<notin> fst ` set (map (\<lambda>n. (fi_frame (snd n), fst n)) (cs_frames u))" by (simp add: image_image)
  from map_of_append_new[OF this, of "cs_fresh u"] show ?thesis
    using u n by (auto simp: confirmed_ok_def cs_append_def Let_def less_Suc_eq simp flip: u_def)
qed

lemma confirmed_assign:
  assumes "confirmed_ok s" "cs_index s (fi_frame f) = Some i"
  shows "\<exists>s'. cs_assign i f s = Some s' \<and> confirmed_ok s'"
proof -
  have "(fi_frame f, i) \<in> set (map (\<lambda>n. (fi_frame (snd n), fst n)) (cs_frames s))"
    using assms by (intro map_of_SomeD) (simp add: confirmed_ok_def)
  then obtain g where g: "(i, g) \<in> set (cs_frames s)" "fi_frame g = fi_frame f" by auto
  have d: "distinct (map fst (cs_frames s))" using assms(1) by (simp add: confirmed_ok_def)
  define h where "h n = (if fst n = i then (i, f) else n)" for n
  have same: "fi_frame (snd (h n)) = fi_frame (snd n)" "fst (h n) = fst n" if "n \<in> set (cs_frames s)" for n
    using eq_key_imp_eq_value[OF d g(1), of "snd n"] that g(2) by (cases n; auto simp: h_def)+
  have k: "map (\<lambda>n. fi_frame (snd (h n))) (cs_frames s) = map (\<lambda>n. fi_frame (snd n)) (cs_frames s)"
    "map (\<lambda>n. fst (h n)) (cs_frames s) = map fst (cs_frames s)"
    "map (\<lambda>n. (fi_frame (snd (h n)), fst (h n))) (cs_frames s) = map (\<lambda>n. (fi_frame (snd n), fst n)) (cs_frames s)"
    using same by (simp_all cong: map_cong)
  have "\<forall>n \<in> set (cs_frames s). fst (h n) < cs_fresh s"
    using assms(1) same by (simp add: confirmed_ok_def)
  then have "confirmed_ok (s\<lparr>cs_frames := map h (cs_frames s)\<rparr>)"
    using assms(1) unfolding confirmed_ok_def by (simp add: comp_def k)
  then have "confirmed_ok (s\<lparr>cs_frames := map (\<lambda>n. if fst n = i then (i, f) else n) (cs_frames s)\<rparr>)"
    by (simp add: h_def[abs_def])
  moreover have "i \<in> fst ` set (cs_frames s)" using g(1) by force
  ultimately show ?thesis by (simp add: cs_assign_def)
qed

text \<open>What the handlers of the resynchronisation read besides the room and the inputs.\<close>

definition link :: "NetplayCoordinator \<Rightarrow> bool \<times> nat option \<times> u8 \<times> IncomingResyncTransfer option \<times> PendingResyncApply option \<times> delivery list" where
  "link c = (co_hosting c, co_serverPeer c, co_localParticipantId c, co_incomingResync c, co_pendingResyncApply c, co_sent c)"

lemma note_fields [simp]:
  "co_localInputs (noteClock f m c) = co_localInputs c" "co_remoteInputs (noteClock f m c) = co_remoteInputs c"
  "co_confirmed (noteClock f m c) = co_confirmed c" "link (noteClock f m c) = link c"
  "co_localInputs (noteStore b c) = co_localInputs c" "co_remoteInputs (noteStore b c) = co_remoteInputs c"
  "co_confirmed (noteStore b c) = co_confirmed c" "link (noteStore b c) = link c" "co_room (noteStore b c) = co_room c"
  "rs_participants (co_room (noteClock f m c)) = rs_participants (co_room c)"
  by (simp_all add: noteClock_def noteStore_def link_def)

definition stored_frames :: "NetplayCoordinator \<Rightarrow> u32 set" where
  "stored_frames c = (\<lambda>n. fi_frame (snd n)) ` set (cs_frames (co_confirmed c))"

lemma append_frames:
  "(\<lambda>n. fi_frame (snd n)) ` set (cs_frames (cs_append f s)) \<subseteq> insert (fi_frame f) ((\<lambda>n. fi_frame (snd n)) ` set (cs_frames s))"
  using set_tl_sub[of "cs_frames s"]
  by (auto simp: cs_append_def cs_popFront_def Let_def split: list.splits)

lemma assign_frames:
  "cs_assign i f s = Some s' \<Longrightarrow>
     (\<lambda>n. fi_frame (snd n)) ` set (cs_frames s') \<subseteq> insert (fi_frame f) ((\<lambda>n. fi_frame (snd n)) ` set (cs_frames s))"
  by (auto simp: cs_assign_def split: if_splits)

lemma store_ok:
  assumes "coordinator_ok c"
  shows "\<exists>c'. storeConfirmedFrame f c = Some c' \<and> coordinator_ok c' \<and> link c' = link c \<and>
     co_localInputs c' = co_localInputs c \<and> co_remoteInputs c' = co_remoteInputs c \<and>
     rs_participants (co_room c') = rs_participants (co_room c) \<and>
     (fi_authoritativeFrameStartClockMicros f = 0 \<longrightarrow> co_room c' = co_room c) \<and>
     co_lastBroadcastConfirmedFrame c' = co_lastBroadcastConfirmedFrame c \<and>
     stored_frames c' \<subseteq> insert (fi_frame f) (stored_frames c)"
proof -
  define g where "g = (if nf_frame (fi_netplayFrame f) \<noteq> fi_frame f
     then f\<lparr>fi_netplayFrame := (fi_netplayFrame f)\<lparr>nf_frame := fi_frame f, nf_timelineEpoch := rs_timelineEpoch (co_room c)\<rparr>\<rparr> else f)"
  have f: "fi_frame g = fi_frame f" by (simp add: g_def)
  have ok: "confirmed_ok (co_confirmed c)" using assms by (simp add: coordinator_ok_def)
  show ?thesis
  proof (cases "cs_index (co_confirmed c) (fi_frame f)")
    case None
    then show ?thesis
      using confirmed_append[OF ok, of g] append_frames[of g "co_confirmed c"] assms f
      by (simp add: storeConfirmedFrame_def coordinator_ok_def link_def stored_frames_def Let_def flip: g_def)
        (simp add: noteClock_def noteStore_def)
  next
    case (Some i)
    then obtain s where "cs_assign i g (co_confirmed c) = Some s" "confirmed_ok s"
      using confirmed_assign[OF ok, of g i] f by auto
    then show ?thesis
      using Some assms f assign_frames[of i g "co_confirmed c" s]
      by (simp add: storeConfirmedFrame_def coordinator_ok_def link_def stored_frames_def Let_def flip: g_def)
        (simp add: noteClock_def noteStore_def)
  qed
qed

lemma log_push_set: "set (log_push n e es) \<subseteq> insert e (set es)"
  using set_tl_sub[of es] by (auto simp: log_push_def)

lemma pushAll_ok:
  assumes "timeline_ok t"
  shows "\<exists>t'. pushAll es t = Some t' \<and> timeline_ok t' \<and> set (tl_entries t') \<subseteq> set es \<union> set (tl_entries t)"
  using assms
proof (induction es arbitrary: t)
  case (Cons e es)
  obtain u where u: "tl_push e t = Some u" "timeline_ok u" "tl_entries u = log_push (tl_capacity t) e (tl_entries t)"
    using push_refines[OF Cons.prems] by blast
  then show ?case using Cons.IH[OF u(2)] log_push_set[of "tl_capacity t" e "tl_entries t"] by fastforce
qed simp

lemma find_ok:
  assumes "timeline_ok t"
  shows "\<exists>t'. tl_find f p s t = Some (List.find (\<lambda>e. te_frame e = f \<and> te_participantId e = p \<and> te_playerSlot e = s) (tl_entries t), t') \<and>
     timeline_ok t' \<and> tl_nodes t' = tl_nodes t \<and> tl_capacity t' = tl_capacity t"
proof -
  have "linked t" using assms by (simp add: timeline_ok_def)
  note r = lookup_effect[OF this, of False "\<lparr>ek_frame = f, ek_participantId = p, ek_playerSlot = s\<rparr>"]
  then show ?thesis using assms by (auto simp: tl_find_def timeline_ok_def makeKey_def)
qed

text \<open>A lookup changes nothing but the statistics.\<close>

definition same_inputs :: "NetplayCoordinator \<Rightarrow> NetplayCoordinator \<Rightarrow> bool" where
  "same_inputs c c' \<longleftrightarrow> tl_nodes (co_localInputs c') = tl_nodes (co_localInputs c) \<and>
     tl_nodes (co_remoteInputs c') = tl_nodes (co_remoteInputs c) \<and> link c' = link c \<and>
     co_confirmed c' = co_confirmed c \<and> co_room c' = co_room c \<and>
     co_lastBroadcastConfirmedFrame c' = co_lastBroadcastConfirmedFrame c"

lemma findInput_ok:
  assumes "coordinator_ok c"
  shows "\<exists>c'. findInput f p s c =
      Some (List.find (\<lambda>e. te_frame e = f \<and> te_participantId e = p \<and> te_playerSlot e = s) (tl_entries (timelineOf c p)), c') \<and>
     coordinator_ok c' \<and> same_inputs c c'"
proof (cases "p = co_localParticipantId c")
  case True
  obtain t where "tl_find f p s (co_localInputs c) =
      Some (List.find (\<lambda>e. te_frame e = f \<and> te_participantId e = p \<and> te_playerSlot e = s) (tl_entries (co_localInputs c)), t)"
    "timeline_ok t" "tl_nodes t = tl_nodes (co_localInputs c)"
    using find_ok[of "co_localInputs c" f p s] assms by (auto simp: coordinator_ok_def)
  then show ?thesis using True assms by (simp add: findInput_def coordinator_ok_def same_inputs_def link_def timelineOf_def)
next
  case False
  obtain t where "tl_find f p s (co_remoteInputs c) =
      Some (List.find (\<lambda>e. te_frame e = f \<and> te_participantId e = p \<and> te_playerSlot e = s) (tl_entries (co_remoteInputs c)), t)"
    "timeline_ok t" "tl_nodes t = tl_nodes (co_remoteInputs c)"
    using find_ok[of "co_remoteInputs c" f p s] assms by (auto simp: coordinator_ok_def)
  then show ?thesis using False assms by (simp add: findInput_def coordinator_ok_def same_inputs_def link_def timelineOf_def)
qed

lemma same_inputs_trans: "same_inputs a b \<Longrightarrow> same_inputs b c \<Longrightarrow> same_inputs a c"
  by (simp add: same_inputs_def)

lemma gather_ok:
  "coordinator_ok c \<Longrightarrow> \<exists>g c'. gatherConfirmed f hs x c = Some (g, c') \<and> coordinator_ok c' \<and> same_inputs c c' \<and> fi_frame g = fi_frame x \<and>
     fi_authoritativeFrameStartClockMicros g = fi_authoritativeFrameStartClockMicros x"
proof (induction hs arbitrary: x c)
  case Nil
  then show ?case by (simp add: same_inputs_def)
next
  case (Cons h hs)
  obtain i slot where h: "h = (i, slot)" by (cases h)
  obtain e d where d: "findInput f i slot c = Some (e, d)" "coordinator_ok d" "same_inputs c d"
    using findInput_ok[OF Cons.prems] by blast
  let ?y = "case e of Some e \<Rightarrow> applyEntry slot e x | None \<Rightarrow> x"
  have y: "fi_frame ?y = fi_frame x" "fi_authoritativeFrameStartClockMicros ?y = fi_authoritativeFrameStartClockMicros x"
    by (cases e; simp add: applyEntry_def)+
  obtain g c' where "gatherConfirmed f hs ?y d = Some (g, c')" "coordinator_ok c'" "same_inputs d c'"
      "fi_frame g = fi_frame ?y" "fi_authoritativeFrameStartClockMicros g = fi_authoritativeFrameStartClockMicros ?y"
    using Cons.IH[OF d(2), of ?y] by blast
  then show ?case using y d(1) h same_inputs_trans[OF d(3)] by simp
qed

lemma restore_ok:
  assumes "coordinator_ok c" "stored_frames c = {}"
  shows "\<exists>c'. restoreConfirmedFrame f c = Some c' \<and> coordinator_ok c' \<and> stored_frames c' \<subseteq> {f} \<and> link c' = link c \<and>
     tl_nodes (co_localInputs c') = tl_nodes (co_localInputs c) \<and>
     tl_nodes (co_remoteInputs c') = tl_nodes (co_remoteInputs c) \<and> co_room c' = co_room c \<and>
     co_lastBroadcastConfirmedFrame c' = co_lastBroadcastConfirmedFrame c"
proof -
  define held where "held = filter (\<lambda>(_, slot). isPlayableSlot (co_room c) slot) (heldBy (rs_participants (co_room c)))"
  obtain g d where d: "gatherConfirmed f held (confirmedFrameAt f) c = Some (g, d)" "coordinator_ok d" "same_inputs c d"
      "fi_frame g = f" "fi_authoritativeFrameStartClockMicros g = 0"
    using gather_ok[OF assms(1), of f held "confirmedFrameAt f"] by (auto simp: confirmedFrameAt_def)
  have "stored_frames d = {}" using d(3) assms(2) by (simp add: same_inputs_def stored_frames_def)
  then show ?thesis
    using d store_ok[OF d(2), of g]
    by (auto simp: restoreConfirmedFrame_def Let_def same_inputs_def simp flip: held_def)
qed

lemma preservedEntry_bounds:
  "te_frame (preservedEntry c f r b k p s) \<le> f" "te_confirmed (preservedEntry c f r b k p s)"
  "r \<Longrightarrow> te_sequence (preservedEntry c f r b k p s) = b"
  by (auto simp: preservedEntry_def Let_def neutralEntry_def preserveLatestConfirmedInput_def find_Some_iff split: option.splits)

definition realigned :: "u32 \<Rightarrow> bool \<Rightarrow> u32 \<Rightarrow> TimelineInputEntry \<Rightarrow> bool" where
  "realigned f r b e \<longleftrightarrow> te_frame e \<le> f \<and> te_confirmed e \<and> (r \<longrightarrow> te_sequence e = b)"

lemma rebuild_ok:
  assumes "coordinator_ok c"
  shows "\<exists>c'. rebuildTimelines f r b k c = Some c' \<and> coordinator_ok c' \<and> stored_frames c' = {} \<and> link c' = link c \<and>
     co_room c' = co_room c \<and>
     (\<forall>e \<in> set (tl_entries (co_localInputs c')) \<union> set (tl_entries (co_remoteInputs c')). realigned f r b e)"
proof -
  let ?held = "heldBy (filter (\<lambda>p. \<not> participantIsObserver p) (rs_participants (co_room c)))"
  let ?e = "\<lambda>(i, slot). preservedEntry c f r b k i slot"
  have e: "realigned f r b (?e h)" for h by (cases h) (simp add: realigned_def preservedEntry_bounds)
  have ok: "timeline_ok (tl_clear (co_localInputs c))" "timeline_ok (tl_clear (co_remoteInputs c))"
    using linked_empty(2) by (simp_all add: timeline_ok_def tl_clear_def)
  have none: "set (tl_entries (tl_clear t)) = {}" for t by (simp add: tl_entries_def tl_clear_def)
  obtain l where l: "pushAll (map ?e (filter (\<lambda>(i, _). i = co_localParticipantId c) ?held)) (tl_clear (co_localInputs c)) = Some l"
      "timeline_ok l" "\<forall>x \<in> set (tl_entries l). realigned f r b x"
    using pushAll_ok[OF ok(1)] none e by fastforce
  obtain m where m: "pushAll (map ?e (filter (\<lambda>(i, _). i \<noteq> co_localParticipantId c) ?held)) (tl_clear (co_remoteInputs c)) = Some m"
      "timeline_ok m" "\<forall>x \<in> set (tl_entries m). realigned f r b x"
    using pushAll_ok[OF ok(2)] none e by fastforce
  show ?thesis
    using l m confirmed_clear
    by (auto simp: rebuildTimelines_def Let_def coordinator_ok_def link_def stored_frames_def cs_clear_def)
qed

text \<open>Where everything stands after a realignment to a frame.\<close>

definition aligned :: "u32 \<Rightarrow> NetplayCoordinator \<Rightarrow> bool" where
  "aligned f c \<longleftrightarrow> stored_frames c \<subseteq> {f} \<and> rs_currentFrame (co_room c) = f \<and> rs_lastConfirmedFrame (co_room c) = f \<and>
     co_localSimulationFrame c = f \<and> co_lastBroadcastConfirmedFrame c = f \<and>
     (\<forall>p \<in> set (rs_participants (co_room c)). pi_lastContiguousInputFrame p = f \<and> pi_lastReceivedInputFrame p = f \<and>
        pi_pendingMissingInputFrom p = None \<and> \<not> pi_inputSuspended p \<and> \<not> pi_inputResumeAwaitingResync p)"

lemma realign_ok:
  assumes "coordinator_ok c"
  shows "\<exists>c'. realignAuthoritativeState now f r b k reason c = Some c' \<and> coordinator_ok c' \<and> link c' = link c \<and> aligned f c' \<and>
     (\<forall>e \<in> set (tl_entries (co_localInputs c')) \<union> set (tl_entries (co_remoteInputs c')). realigned f r b e) \<and>
     rs_state (co_room c') = rs_state (co_room c) \<and> rs_timelineEpoch (co_room c') = rs_timelineEpoch (co_room c)"
proof -
  obtain x where x: "rebuildTimelines f r b k c = Some x" "coordinator_ok x" "stored_frames x = {}" "link x = link c" "co_room x = co_room c"
      "\<forall>e \<in> set (tl_entries (co_localInputs x)) \<union> set (tl_entries (co_remoteInputs x)). realigned f r b e"
    using rebuild_ok[OF assms, of f r b k] by blast
  define y where "y = x\<lparr>co_recoveryStats := (co_recoveryStats x)\<lparr>rt_lastDecision := [], rt_lastDecisionFrame := f,
        rt_lastDecisionSlot := kObserverPlayerSlot\<rparr>, co_desyncMonitor := DesyncMonitor0,
      co_room := (co_room x)\<lparr>rs_currentFrame := f, rs_lastConfirmedFrame := f, rs_lastRemoteCrcFrame := 0, rs_lastRemoteCrc32 := 0\<rparr>,
      co_lastBroadcastConfirmedFrame := f\<rparr>"
  define latest where "latest = latestSequenceForParticipant (preservedSequenceByParticipant c f r b) r b y"
  define z where "z = y\<lparr>co_localInputSequence := latest (co_localParticipantId y)\<rparr>"
  have z: "coordinator_ok z" "stored_frames z = {}" "link z = link c"
      "tl_entries (co_localInputs z) = tl_entries (co_localInputs x)" "tl_entries (co_remoteInputs z) = tl_entries (co_remoteInputs x)"
      "rs_currentFrame (co_room z) = f" "rs_lastConfirmedFrame (co_room z) = f" "co_lastBroadcastConfirmedFrame z = f"
      "rs_state (co_room z) = rs_state (co_room c)" "rs_timelineEpoch (co_room z) = rs_timelineEpoch (co_room c)"
    using x by (simp_all add: y_def z_def coordinator_ok_def stored_frames_def link_def)
  obtain w where w: "(if k then restoreConfirmedFrame f z else Some z) = Some w" "coordinator_ok w" "stored_frames w \<subseteq> {f}"
      "link w = link z" "tl_nodes (co_localInputs w) = tl_nodes (co_localInputs z)"
      "tl_nodes (co_remoteInputs w) = tl_nodes (co_remoteInputs z)" "co_room w = co_room z"
      "co_lastBroadcastConfirmedFrame w = co_lastBroadcastConfirmedFrame z"
    using restore_ok[OF z(1,2), of f] z(1,2) by (cases k) auto
  have "realignAuthoritativeState now f r b k reason c = Some (finishRealignment now f r reason latest w)"
    by (simp only: realignAuthoritativeState_def Let_def x(1) Option.bind.bind_lunit, fold y_def latest_def, fold latest_def z_def)
      (simp only: w(1) Option.bind.bind_lunit)
  moreover have "coordinator_ok (finishRealignment now f r reason latest w)" "link (finishRealignment now f r reason latest w) = link c"
    using w z by (simp_all add: finishRealignment_def resetClocks_def Let_def coordinator_ok_def link_def)
  moreover have "aligned f (finishRealignment now f r reason latest w)"
    using w z by (simp add: aligned_def stored_frames_def finishRealignment_def resetClocks_def realignParticipant_def Let_def)
  moreover have "tl_entries (co_localInputs (finishRealignment now f r reason latest w)) = tl_entries (co_localInputs x)"
      "tl_entries (co_remoteInputs (finishRealignment now f r reason latest w)) = tl_entries (co_remoteInputs x)"
      "rs_state (co_room (finishRealignment now f r reason latest w)) = rs_state (co_room c)"
      "rs_timelineEpoch (co_room (finishRealignment now f r reason latest w)) = rs_timelineEpoch (co_room c)"
    using w z by (simp_all add: finishRealignment_def resetClocks_def tl_entries_def Let_def)
  ultimately show ?thesis using x(6) by metis
qed

lemma coordinator0_ok: "coordinator_ok NetplayCoordinator0"
  using linked_trim[OF linked_fields(1)[OF linked_empty(1)], of 2400]
  by (simp add: coordinator_ok_def NetplayCoordinator0_def confirmed_ok_def tl_configure_def)

subsection \<open>Properties\<close>

text \<open>
  C15: a realignment leaves nothing of the abandoned timeline. From every consistent state,
  \<open>realignAuthoritativeState\<close> returns; afterwards both input timelines and the confirmed frames are
  consistent, they hold only confirmed inputs of frames up to the loaded one, with the new sequence base
  when sequences are reset, no confirmed frame but the loaded one is stored, and room, participants,
  local simulation and broadcast all stand at the loaded frame.
\<close>
theorem realignment:
  assumes "coordinator_ok c"
  shows "\<exists>c'. realignAuthoritativeState now f resetSequences base preserve reason c = Some c' \<and> coordinator_ok c' \<and> aligned f c' \<and>
    (\<forall>e \<in> set (tl_entries (co_localInputs c')) \<union> set (tl_entries (co_remoteInputs c')).
       te_frame e \<le> f \<and> te_confirmed e \<and> (resetSequences \<longrightarrow> te_sequence e = base))"
  using realign_ok[OF assms, of now f resetSequences base preserve reason] unfolding realigned_def by blast

theorem realignment_witness:
  "\<exists>c'. realignAuthoritativeState 0 7 True 3 True 2 NetplayCoordinator0 = Some c' \<and> aligned 7 c'"
  using realignment[OF coordinator0_ok, of 0 7 True 3 True 2] by blast

end
