(* ===== verification/Net_Resync.thy ===== *)
theory Net_Resync
  imports Net_Coordinator
begin

text \<open>
  The transfer of a machine state (\<open>NetplayCoordinator.cpp\<close>): \<open>beginResync\<close> on the host, the handlers
  \<open>handleResyncBegin\<close>, \<open>handleResyncChunk\<close>, \<open>handleResyncComplete\<close> on the client, and what the client does
  with a received state. The peers of the transport are an argument, each with the participant behind
  it. Shown: whatever the order and repetition of the chunks, the client gets exactly the state the host sent,
  or asks for another transfer when a chunk is missing.
\<close>

definition kResyncChunkPayloadBytes :: nat where "kResyncChunkPayloadBytes = 1024"

definition kMaxIncomingResyncPayloadBytes :: nat where "kMaxIncomingResyncPayloadBytes = 64 * 1024 * 1024"

definition kResyncAckTimeout :: int where "kResyncAckTimeout = 5 * 1000000000"

definition kRecoveryStabilizationFrames :: u32 where "kRecoveryStabilizationFrames = 8"

definition Lobby :: u8 where "Lobby = 0"

definition Starting :: u8 where "Starting = 3"

definition Resyncing :: u8 where "Resyncing = 5"

subsection \<open>The host\<close>

definition peerFromParticipantId :: "(nat \<times> u8) list \<Rightarrow> u8 \<Rightarrow> nat option" where
  "peerFromParticipantId peers participantId =
     (if participantId = kInvalidParticipantId then None
      else map_option fst (List.find (\<lambda>p. snd p = participantId) peers))"

definition clearRoomResync :: "RoomState \<Rightarrow> RoomState" where
  "clearRoomResync room = room\<lparr>rs_activeResyncId := 0, rs_resyncTargetFrame := 0, rs_resyncConfirmedFrame := 0,
     rs_resyncFrameReadyFrame := 0, rs_resyncPayloadSize := 0, rs_resyncPayloadCrc32 := 0, rs_resyncFrameReadyCrc32 := 0,
     rs_resyncInputSequenceBase := 0, rs_pendingResyncAckCount := 0\<rparr>"

definition clearTargetedResyncTracking :: "NetplayCoordinator \<Rightarrow> NetplayCoordinator" where
  "clearTargetedResyncTracking c = c\<lparr>co_pendingResyncAcks := [], co_activeResyncTargetParticipantId := kInvalidParticipantId,
     co_activeResyncResumeState := Lobby, co_activeTargetedResyncId := 0, co_activeTargetedResyncFrame := 0,
     co_activeTargetedResyncExpectedStateCrc32 := 0, co_activeResyncAckDeadline := 0\<rparr>"

definition clearActiveResyncTracking :: "u8 \<Rightarrow> NetplayCoordinator \<Rightarrow> NetplayCoordinator" where
  "clearActiveResyncTracking resumeState c =
     (clearTargetedResyncTracking c)\<lparr>co_room := (clearRoomResync (co_room c))\<lparr>rs_state := resumeState, rs_activeResyncReason := 0\<rparr>,
       co_activeResyncExpectedStateCrc32 := 0, co_activeResyncResumeState := resumeState\<rparr>"

function resyncChunks :: "u32 \<Rightarrow> bytes \<Rightarrow> nat \<Rightarrow> (ResyncChunkData \<times> bytes) list" where
  "resyncChunks resyncId payload offset =
     (if offset < length payload then
        let chunkSize = min kResyncChunkPayloadBytes (length payload - offset)
        in (\<lparr>rc_resyncId = resyncId, rc_offset = of_nat offset, rc_size = of_nat chunkSize\<rparr>,
            take chunkSize (drop offset payload))
           # resyncChunks resyncId payload (offset + kResyncChunkPayloadBytes)
      else [])"
  by pat_completeness auto
termination resyncChunks
  by (relation "measure (\<lambda>(_, p, n). length p - n)") (auto simp: kResyncChunkPayloadBytes_def)

declare resyncChunks.simps [simp del]

definition resyncPackets :: "u32 \<Rightarrow> ResyncBeginData \<Rightarrow> bytes \<Rightarrow> bytes list" where
  "resyncPackets sessionId beginData payload =
     buildResyncBeginPacket sessionId beginData
     # map (\<lambda>(d, chunk). buildResyncChunkPacket sessionId d chunk) (resyncChunks (rb_resyncId beginData) payload 0)
     @ [buildResyncCompletePacket sessionId \<lparr>rd_resyncId = rb_resyncId beginData\<rparr>]"

text \<open>What a resynchronisation of the whole room changes, and what one of a single participant does.\<close>

definition openRoomResync ::
  "int \<Rightarrow> u32 \<Rightarrow> u32 \<Rightarrow> u32 \<Rightarrow> u32 \<Rightarrow> u32 \<Rightarrow> u8 \<Rightarrow> NetplayCoordinator \<Rightarrow> NetplayCoordinator option" where
  "openRoomResync now resyncId targetFrame payloadSize payloadCrc32 stateCrc32 reason c =
     (let initialSessionSync = (rs_state (co_room c) = Starting);
          preserveInputSequences = preserveInputSequencesForResync reason initialSessionSync targetFrame
      in do {
        c \<leftarrow> realignAuthoritativeState now targetFrame (\<not> preserveInputSequences) 0
               (initialSessionSync \<or> preserveConfirmedInputsAcrossRealignment reason) reason
               (c\<lparr>co_room := (co_room c)\<lparr>rs_timelineEpoch := rs_timelineEpoch (co_room c) + 1\<rparr>\<rparr>);
        let c = (if initialSessionSync
                 then c\<lparr>co_localInputSequence := 0, co_room := (co_room c)\<lparr>rs_participants :=
                        map (\<lambda>p. p\<lparr>pi_lastReceivedInputSequence := 0\<rparr>) (rs_participants (co_room c))\<rparr>\<rparr> else c);
        let c = c\<lparr>co_activeResyncTargetParticipantId := kInvalidParticipantId,
                  co_room := (co_room c)\<lparr>rs_state := Resyncing, rs_activeResyncId := resyncId, rs_resyncTargetFrame := targetFrame,
                    rs_resyncConfirmedFrame := targetFrame, rs_resyncFrameReadyFrame := targetFrame,
                    rs_resyncPayloadSize := payloadSize, rs_resyncPayloadCrc32 := payloadCrc32,
                    rs_resyncFrameReadyCrc32 := stateCrc32, rs_resyncInputSequenceBase := 0, rs_activeResyncReason := reason\<rparr>,
                  co_activeResyncExpectedStateCrc32 := stateCrc32,
                  co_remoteInputStallMonitor := stallReset (co_remoteInputStallMonitor c)\<rparr>;
        Some (setRecoveryInputMode ResyncLocked targetFrame 0 c) })"

definition openTargetedResync :: "u8 \<Rightarrow> u32 \<Rightarrow> u32 \<Rightarrow> u32 \<Rightarrow> NetplayCoordinator \<Rightarrow> NetplayCoordinator" where
  "openTargetedResync targetParticipantId resyncId targetFrame stateCrc32 c =
     c\<lparr>co_activeResyncTargetParticipantId := targetParticipantId, co_activeTargetedResyncId := resyncId,
       co_activeTargetedResyncFrame := targetFrame, co_activeTargetedResyncExpectedStateCrc32 := stateCrc32,
       co_activeResyncExpectedStateCrc32 := 0\<rparr>"

definition expectAcks :: "int \<Rightarrow> bool \<Rightarrow> u8 \<Rightarrow> bool \<Rightarrow> NetplayCoordinator \<Rightarrow> NetplayCoordinator" where
  "expectAcks now targetedResync targetParticipantId initialSessionSync c =
     (let acks = (if targetedResync then [targetParticipantId]
            else map pi_id (filter (\<lambda>p. pi_id p \<noteq> co_localParticipantId c \<and> pi_connected p \<and> \<not> pi_reconnectReserved p)
                   (rs_participants (co_room c))))
      in c\<lparr>co_pendingResyncAcks := acks, co_activeResyncAckDeadline := now + kResyncAckTimeout,
           co_room := (co_room c)\<lparr>rs_pendingResyncAckCount := (if targetedResync then 0 else of_nat (length acks))\<rparr>,
           co_recoveryStats := (if \<not> initialSessionSync \<and> \<not> targetedResync then recordHardResync (co_recoveryStats c)
             else co_recoveryStats c)\<rparr>)"

definition resumeParticipants :: "NetplayCoordinator \<Rightarrow> NetplayCoordinator" where
  "resumeParticipants c = c\<lparr>co_room := (co_room c)\<lparr>rs_participants :=
     map (\<lambda>p. if pi_id p = co_localParticipantId c then p
              else p\<lparr>pi_inputSuspended := False, pi_inputResumeAwaitingResync := False\<rparr>) (rs_participants (co_room c))\<rparr>\<rparr>"

definition resyncBeginData :: "u32 \<Rightarrow> u32 \<Rightarrow> bytes \<Rightarrow> u32 \<Rightarrow> u8 \<Rightarrow> NetplayCoordinator \<Rightarrow> ResyncBeginData" where
  "resyncBeginData resyncId targetFrame payload payloadCrc32 reason c = \<lparr>rb_resyncId = resyncId,
     rb_timelineEpoch = rs_timelineEpoch (co_room c), rb_targetFrame = targetFrame,
     rb_confirmedFrame = rs_lastConfirmedFrame (co_room c), rb_frameReadyFrame = rs_resyncFrameReadyFrame (co_room c),
     rb_payloadSize = of_nat (length payload), rb_payloadCrc32 = payloadCrc32, rb_stateCrc32 = co_activeResyncExpectedStateCrc32 c,
     rb_frameReadyCrc32 = rs_resyncFrameReadyCrc32 (co_room c), rb_inputSequenceBase = rs_resyncInputSequenceBase (co_room c),
     rb_reason = reason\<rparr>"

definition beginResync ::
  "int \<Rightarrow> (nat \<times> u8) list \<Rightarrow> u32 \<Rightarrow> bytes \<Rightarrow> u32 \<Rightarrow> u32 \<Rightarrow> u8 \<Rightarrow> u8 \<Rightarrow> NetplayCoordinator \<Rightarrow> (bool \<times> NetplayCoordinator) option" where
  "beginResync now peers targetFrame payload payloadCrc32 stateCrc32 reason targetParticipantId c =
     (if \<not> co_hosting c \<or> payload = [] then Some (False, c)
      else
        let initialSessionSync = (rs_state (co_room c) = Starting);
            targetedResync = (targetParticipantId \<noteq> kInvalidParticipantId);
            reachable = (case findParticipant (co_room c) targetParticipantId of
              None \<Rightarrow> False | Some p \<Rightarrow> pi_connected p \<and> \<not> pi_reconnectReserved p);
            targetPeer = peerFromParticipantId peers targetParticipantId
        in if targetedResync \<and> (\<not> reachable \<or> targetPeer = None) then Some (False, c)
        else
          let resyncId = co_nextResyncId c; resumeState = rs_state (co_room c); c = c\<lparr>co_nextResyncId := resyncId + 1\<rparr>
          in do {
            c \<leftarrow> (if targetedResync then Some (openTargetedResync targetParticipantId resyncId targetFrame stateCrc32 c)
                   else openRoomResync now resyncId targetFrame (of_nat (length payload)) payloadCrc32 stateCrc32 reason c);
            let c = expectAcks now targetedResync targetParticipantId initialSessionSync (c\<lparr>co_activeResyncResumeState := resumeState\<rparr>);
            if co_pendingResyncAcks c = [] then
              Some (True, setRecoveryInputMode Normal targetFrame 0
                (resumeParticipants (if targetedResync then clearTargetedResyncTracking c else clearActiveResyncTracking Running c)))
            else
              let packets = resyncPackets (rs_sessionId (co_room c)) (resyncBeginData resyncId targetFrame payload payloadCrc32 reason c) payload;
                  calls = map (case targetPeer of Some peer \<Rightarrow> SendReliable peer Control | None \<Rightarrow> BroadcastReliable Control) packets
              in Some (True, c\<lparr>co_sent := co_sent c @ calls\<rparr>) })"

subsection \<open>The client\<close>

definition roomOnBegin :: "ResyncBeginData \<Rightarrow> RoomState \<Rightarrow> RoomState" where
  "roomOnBegin d room = room\<lparr>rs_activeResyncId := rb_resyncId d, rs_timelineEpoch := rb_timelineEpoch d,
     rs_resyncTargetFrame := rb_targetFrame d, rs_resyncConfirmedFrame := rb_confirmedFrame d,
     rs_resyncFrameReadyFrame := rb_frameReadyFrame d, rs_resyncPayloadSize := rb_payloadSize d,
     rs_resyncPayloadCrc32 := rb_payloadCrc32 d, rs_resyncFrameReadyCrc32 := rb_frameReadyCrc32 d,
     rs_resyncInputSequenceBase := rb_inputSequenceBase d, rs_activeResyncReason := rb_reason d, rs_state := Resyncing\<rparr>"

definition incomingTransfer :: "int \<Rightarrow> ResyncBeginData \<Rightarrow> IncomingResyncTransfer" where
  "incomingTransfer now d = \<lparr>ir_resyncId = rb_resyncId d, ir_targetFrame = rb_targetFrame d,
     ir_expectedPayloadCrc32 = rb_payloadCrc32 d, ir_payload = replicate (unat (rb_payloadSize d)) 0,
     ir_receivedMask = replicate (unat (rb_payloadSize d)) 0, ir_lastActivityAt = now\<rparr>"

definition handleResyncBegin :: "int \<Rightarrow> ResyncBeginData \<Rightarrow> NetplayCoordinator \<Rightarrow> (bool \<times> NetplayCoordinator) option" where
  "handleResyncBegin now d c =
     (if unat (rb_payloadSize d) > kMaxIncomingResyncPayloadBytes then Some (False, c)
      else
        let initialSessionSync = (rs_state (co_room c) = Starting \<and> rb_reason d = InitialSessionSync);
            preserveInputSequences = preserveInputSequencesForResync (rb_reason d) initialSessionSync (rb_targetFrame d)
        in do {
          c \<leftarrow> realignAuthoritativeState now (rb_targetFrame d) (\<not> preserveInputSequences) (rb_inputSequenceBase d)
                 (preserveConfirmedInputsAcrossRealignment (rb_reason d)) (rb_reason d)
                 (c\<lparr>co_pendingResyncApply := None, co_awaitingReconnectInitialSync := False\<rparr>);
          let c = c\<lparr>co_incomingResync := Some (incomingTransfer now d), co_room := roomOnBegin d (co_room c)\<rparr>;
          Some (True, setRecoveryInputMode ResyncLocked (rb_targetFrame d) 0 c) })"

text \<open>\<open>memcpy\<close> and \<open>fill_n\<close> inside a vector.\<close>

definition overwrite :: "nat \<Rightarrow> 'a list \<Rightarrow> 'a list \<Rightarrow> 'a list" where
  "overwrite offset xs v = take offset v @ xs @ drop (offset + length xs) v"

definition handleResyncChunk :: "int \<Rightarrow> ResyncChunkData \<Rightarrow> bytes \<Rightarrow> NetplayCoordinator \<Rightarrow> bool \<times> NetplayCoordinator" where
  "handleResyncChunk now d chunk c =
     (case co_incomingResync c of
        None \<Rightarrow> (False, c)
      | Some t \<Rightarrow>
          if ir_resyncId t \<noteq> rc_resyncId d then (False, c)
          else
            let payloadSize = length (ir_payload t); offset = unat (rc_offset d); chunkSize = unat (rc_size d)
            in if offset > payloadSize \<or> chunkSize > payloadSize - offset then (False, c)
               else
                 let t = t\<lparr>ir_lastActivityAt := now\<rparr>;
                     t = (if rc_size d > 0
                          then t\<lparr>ir_payload := overwrite offset chunk (ir_payload t),
                                 ir_receivedMask := overwrite offset (replicate chunkSize 1) (ir_receivedMask t)\<rparr>
                          else t)
                 in (True, c\<lparr>co_incomingResync := Some t\<rparr>))"

definition sendAbort :: "u32 \<Rightarrow> u8 \<Rightarrow> NetplayCoordinator \<Rightarrow> NetplayCoordinator" where
  "sendAbort resyncId reason c =
     (case co_serverPeer c of
        Some peer \<Rightarrow> if co_hosting c then c
          else c\<lparr>co_sent := co_sent c @ [SendReliable peer Control (buildResyncAbortPacket (rs_sessionId (co_room c))
                 \<lparr>rx_resyncId = resyncId, rx_participantId = co_localParticipantId c, rx_reason = reason\<rparr>)]\<rparr>
      | None \<Rightarrow> c)"

definition pendingApply :: "RoomState \<Rightarrow> IncomingResyncTransfer \<Rightarrow> PendingResyncApply" where
  "pendingApply room t = \<lparr>pa_resyncId = ir_resyncId t, pa_targetFrame = ir_targetFrame t,
     pa_confirmedFrame = rs_resyncConfirmedFrame room, pa_frameReadyFrame = rs_resyncFrameReadyFrame room,
     pa_expectedPayloadCrc32 = ir_expectedPayloadCrc32 t, pa_frameReadyCrc32 = rs_resyncFrameReadyCrc32 room,
     pa_inputSequenceBase = rs_resyncInputSequenceBase room, pa_reason = rs_activeResyncReason room,
     pa_payload = ir_payload t\<rparr>"

definition handleResyncComplete :: "ResyncCompleteData \<Rightarrow> NetplayCoordinator \<Rightarrow> bool \<times> NetplayCoordinator" where
  "handleResyncComplete d c =
     (case co_incomingResync c of
        None \<Rightarrow> (False, c)
      | Some t \<Rightarrow>
          if ir_resyncId t \<noteq> rd_resyncId d then (False, c)
          else if 0 \<in> set (ir_receivedMask t) then (True, (sendAbort (rd_resyncId d) 1 c)\<lparr>co_incomingResync := None\<rparr>)
          else if net_crc32 (ir_payload t) \<noteq> ir_expectedPayloadCrc32 t
            then (True, (sendAbort (rd_resyncId d) 2 c)\<lparr>co_incomingResync := None\<rparr>)
          else (True, c\<lparr>co_pendingResyncApply := Some (pendingApply (co_room c) t), co_incomingResync := None\<rparr>))"

definition consumePendingResyncApply :: "NetplayCoordinator \<Rightarrow> PendingResyncApply option \<times> NetplayCoordinator" where
  "consumePendingResyncApply c =
     (let c = (case co_pendingResyncApply c of
            Some p \<Rightarrow> if rs_activeResyncId (co_room c) \<noteq> 0 \<and> pa_resyncId p \<noteq> rs_activeResyncId (co_room c)
                       then c\<lparr>co_pendingResyncApply := None\<rparr> else c
          | None \<Rightarrow> c)
      in (co_pendingResyncApply c, c\<lparr>co_pendingResyncApply := None\<rparr>))"

definition acknowledgeResync ::
  "int \<Rightarrow> u32 \<Rightarrow> u32 \<Rightarrow> u32 \<Rightarrow> bool \<Rightarrow> NetplayCoordinator \<Rightarrow> NetplayCoordinator option" where
  "acknowledgeResync now resyncId loadedFrame crc32 success c =
     (case co_serverPeer c of
        None \<Rightarrow> Some c
      | Some peer \<Rightarrow>
          if co_hosting c then Some c
          else
            let ack = \<lparr>ra_resyncId = resyncId, ra_participantId = co_localParticipantId c, ra_loadedFrame = loadedFrame,
                       ra_crc32 = crc32, ra_success = (if success then 1 else 0)\<rparr>;
                reason = rs_activeResyncReason (co_room c);
                preserveInputSequences = preserveInputSequencesForResync reason (reason = InitialSessionSync \<and> loadedFrame = 0) loadedFrame
            in do {
              c \<leftarrow> (if success then do {
                       c \<leftarrow> realignAuthoritativeState now loadedFrame (\<not> preserveInputSequences)
                              (rs_resyncInputSequenceBase (co_room c)) (preserveConfirmedInputsAcrossRealignment reason) reason c;
                       Some (setRecoveryInputMode PostResyncStabilizing loadedFrame kRecoveryStabilizationFrames
                         (c\<lparr>co_room := (clearRoomResync (co_room c))\<lparr>rs_state := Resyncing\<rparr>\<rparr>)) }
                     else Some c);
              Some (c\<lparr>co_sent := co_sent c @ [SendReliable peer Control (buildResyncAckPacket (rs_sessionId (co_room c)) ack)]\<rparr>) })"

text \<open>A packet of the transfer on its way through \<open>handleControlPacket\<close>; \<open>None\<close> for any other packet.\<close>

definition receiveResync :: "int \<Rightarrow> bytes \<Rightarrow> NetplayCoordinator \<Rightarrow> NetplayCoordinator option" where
  "receiveResync now packet c = do {
     let (sessionId, m) = readPacket (co_hosting c) (rs_sessionId (co_room c)) packet;
     let c = c\<lparr>co_room := (co_room c)\<lparr>rs_sessionId := sessionId\<rparr>\<rparr>;
     m \<leftarrow> m;
     case m of
       Msg_ResyncBegin d \<Rightarrow> map_option snd (handleResyncBegin now d c)
     | Msg_ResyncChunk d chunk \<Rightarrow> Some (snd (handleResyncChunk now d chunk c))
     | Msg_ResyncComplete d \<Rightarrow> Some (snd (handleResyncComplete d c))
     | _ \<Rightarrow> None }"

fun receiveAll :: "(int \<times> bytes) list \<Rightarrow> NetplayCoordinator \<Rightarrow> NetplayCoordinator option" where
  "receiveAll [] c = Some c"
| "receiveAll ((now, p) # ps) c = do { c \<leftarrow> receiveResync now p c; receiveAll ps c }"

subsection \<open>Chunks cover the payload\<close>

definition chunkAt :: "u32 \<Rightarrow> bytes \<Rightarrow> nat \<Rightarrow> ResyncChunkData \<times> bytes" where
  "chunkAt i p k = (let n = min 1024 (length p - k)
     in (\<lparr>rc_resyncId = i, rc_offset = of_nat k, rc_size = of_nat n\<rparr>, take n (drop k p)))"

definition offsets :: "bytes \<Rightarrow> nat set" where
  "offsets p = {k. k < length p \<and> 1024 dvd k}"

lemma resyncChunks_step:
  "k < length p \<Longrightarrow> resyncChunks i p k = chunkAt i p k # resyncChunks i p (k + 1024)"
  "\<not> k < length p \<Longrightarrow> resyncChunks i p k = []"
  by (subst resyncChunks.simps, simp add: chunkAt_def kResyncChunkPayloadBytes_def Let_def)+

lemma resyncChunks_from: "1024 dvd k \<Longrightarrow> set (resyncChunks i p k) = chunkAt i p ` {j \<in> offsets p. k \<le> j}"
proof (induction i p k rule: resyncChunks.induct)
  case (1 i p k)
  show ?case
  proof (cases "k < length p")
    case True
    have next_offset: "k + 1024 \<le> j" if "k < j" "1024 dvd j" for j
    proof -
      have "1024 dvd j - k" using that 1(2) by (simp add: dvd_diff_nat)
      then have "1024 \<le> j - k" using that(1) by (intro dvd_imp_le) simp_all
      then show ?thesis using that(1) by simp
    qed
    have "{j \<in> offsets p. k \<le> j} = insert k {j \<in> offsets p. k + 1024 \<le> j}" (is "?l = ?r")
      using True 1(2) next_offset by (auto simp: offsets_def order_le_less)
    then show ?thesis
      using 1 True by (simp add: resyncChunks_step kResyncChunkPayloadBytes_def Let_def)
  qed (auto simp: resyncChunks_step offsets_def)
qed

lemma resyncChunks_all: "set (resyncChunks i p 0) = chunkAt i p ` offsets p"
  by (simp add: resyncChunks_from)

lemma chunk_sizes:
  assumes "k \<in> offsets p" "length p \<le> kMaxIncomingResyncPayloadBytes"
  shows "unat (rc_offset (fst (chunkAt i p k))) = k" "unat (rc_size (fst (chunkAt i p k))) = min 1024 (length p - k)"
    "length (snd (chunkAt i p k)) = min 1024 (length p - k)" "rc_size (fst (chunkAt i p k)) > 0"
proof -
  have k: "k < length p" "length p < 2 ^ 32" using assms by (simp_all add: offsets_def kMaxIncomingResyncPayloadBytes_def)
  then show "unat (rc_offset (fst (chunkAt i p k))) = k" by (simp add: chunkAt_def Let_def unat_of_nat)
  have "min 1024 (length p - k) < 2 ^ 16" by simp
  then show s: "unat (rc_size (fst (chunkAt i p k))) = min 1024 (length p - k)" by (simp add: chunkAt_def Let_def unat_of_nat)
  show "rc_size (fst (chunkAt i p k)) > 0" using k(1) by (simp add: word_less_nat_alt s)
qed (simp add: chunkAt_def Let_def)

text \<open>The bytes that the chunks at a set of offsets bring.\<close>

definition covered :: "nat set \<Rightarrow> nat \<Rightarrow> bool" where
  "covered K i \<longleftrightarrow> (\<exists>k \<in> K. k \<le> i \<and> i < k + 1024)"

definition got :: "bytes \<Rightarrow> nat set \<Rightarrow> IncomingResyncTransfer \<Rightarrow> bool" where
  "got p K t \<longleftrightarrow> length (ir_payload t) = length p \<and> length (ir_receivedMask t) = length p \<and>
     (\<forall>i < length p. ir_receivedMask t ! i = (if covered K i then 1 else 0)) \<and>
     (\<forall>i < length p. covered K i \<longrightarrow> ir_payload t ! i = p ! i)"

lemma nth_overwrite:
  "o' + length xs \<le> length v \<Longrightarrow> i < length v \<Longrightarrow>
     overwrite o' xs v ! i = (if i < o' then v ! i else if i < o' + length xs then xs ! (i - o') else v ! i)"
  by (auto simp: overwrite_def nth_append)

lemma length_overwrite: "o' + length xs \<le> length v \<Longrightarrow> length (overwrite o' xs v) = length v"
  by (simp add: overwrite_def)

lemma got_chunk:
  assumes "got p K t" "k \<in> offsets p"
  shows "got p (insert k K) (t\<lparr>ir_lastActivityAt := now, ir_payload := overwrite k (take (min 1024 (length p - k)) (drop k p)) (ir_payload t),
     ir_receivedMask := overwrite k (replicate (min 1024 (length p - k)) 1) (ir_receivedMask t)\<rparr>)"
proof -
  define n where "n = min 1024 (length p - k)"
  have k: "k + n \<le> length p" "length (take n (drop k p)) = n" using assms(2) by (auto simp: n_def offsets_def)
  have c: "covered (insert k K) i \<longleftrightarrow> k \<le> i \<and> i < k + n \<or> covered K i" if "i < length p" for i
    using that by (auto simp: covered_def n_def)
  show ?thesis
    using assms(1) k by (auto simp: got_def c length_overwrite nth_overwrite simp flip: n_def)
qed

lemma got_all:
  assumes "got p (offsets p) t"
  shows "ir_payload t = p" "0 \<notin> set (ir_receivedMask t)"
proof -
  have c: "covered (offsets p) i" if "i < length p" for i
  proof -
    have "1024 * (i div 1024) \<in> offsets p" "1024 * (i div 1024) \<le> i" "i < 1024 * (i div 1024) + 1024"
      using that by (simp_all add: offsets_def)
    then show ?thesis unfolding covered_def by blast
  qed
  show "ir_payload t = p" using assms c by (intro nth_equalityI) (simp_all add: got_def)
  show "0 \<notin> set (ir_receivedMask t)" using assms c by (auto simp: got_def in_set_conv_nth)
qed

lemma got_missing:
  assumes "got p K t" "K \<subseteq> offsets p" "k \<in> offsets p" "k \<notin> K"
  shows "0 \<in> set (ir_receivedMask t)"
proof -
  have "\<not> (j \<le> k \<and> k < j + 1024)" if "j \<in> K" for j
  proof
    assume a: "j \<le> k \<and> k < j + 1024"
    have "1024 dvd k - j" using that assms(2,3) by (auto simp: offsets_def intro: dvd_diff_nat)
    moreover have "k - j < 1024" using a by linarith
    ultimately have "k - j = 0" by (meson dvd_imp_le not_less bot_nat_0.not_eq_extremum)
    then show False using a that assms(4) by simp
  qed
  then have "\<not> covered K k" by (auto simp: covered_def)
  then have "ir_receivedMask t ! k = 0" "k < length (ir_receivedMask t)" using assms(1,3) by (simp_all add: got_def offsets_def)
  then show ?thesis by (metis nth_mem)
qed

subsection \<open>The transfer\<close>

definition chunkPacket :: "u32 \<Rightarrow> u32 \<Rightarrow> bytes \<Rightarrow> nat \<Rightarrow> bytes" where
  "chunkPacket s i p k = buildResyncChunkPacket s (fst (chunkAt i p k)) (snd (chunkAt i p k))"

lemma resyncPackets_chunks:
  assumes "resyncPackets s d p = b # cs @ [e]"
  shows "b = buildResyncBeginPacket s d" "e = buildResyncCompletePacket s \<lparr>rd_resyncId = rb_resyncId d\<rparr>"
    "set cs = chunkPacket s (rb_resyncId d) p ` offsets p"
proof -
  have cs: "cs = map (\<lambda>(d, chunk). buildResyncChunkPacket s d chunk) (resyncChunks (rb_resyncId d) p 0)"
    and be: "b = buildResyncBeginPacket s d" "e = buildResyncCompletePacket s \<lparr>rd_resyncId = rb_resyncId d\<rparr>"
    using assms by (simp_all add: resyncPackets_def)
  then show "set cs = chunkPacket s (rb_resyncId d) p ` offsets p"
    by (simp add: resyncChunks_all image_image chunkPacket_def case_prod_unfold)
qed (use assms in \<open>simp_all add: resyncPackets_def\<close>)

lemma packet_read:
  "readPacket h n (buildResyncBeginPacket s d) = delivered h n s (Some (Msg_ResyncBegin d))"
  "readPacket h n (buildResyncCompletePacket s x) = delivered h n s (Some (Msg_ResyncComplete x))"
  "readPacket h n (buildResyncAbortPacket s y) = delivered h n s (Some (Msg_ResyncAbort y))"
  "k \<in> offsets p \<Longrightarrow> length p \<le> kMaxIncomingResyncPayloadBytes \<Longrightarrow>
     readPacket h n (chunkPacket s i p k) =
       delivered h n s (Some (Msg_ResyncChunk (fst (chunkAt i p k)) (snd (chunkAt i p k))))"
  using simple_bodies(5)[of h n d s "[]"] simple_bodies(6)[of h n x s "[]"] simple_bodies(8)[of h n y s "[]"]
    chunk_read[of "snd (chunkAt i p k)" "fst (chunkAt i p k)" h n s "[]"] chunk_sizes(2,3)[of k p i]
  by (simp_all add: buildResyncBeginPacket_def buildResyncCompletePacket_def buildResyncAbortPacket_def chunkPacket_def)

text \<open>A client takes the session number of a packet over, unless it is 0.\<close>

abbreviation joinSession :: "u32 \<Rightarrow> NetplayCoordinator \<Rightarrow> NetplayCoordinator" where
  "joinSession s c \<equiv> if s \<noteq> 0 then c\<lparr>co_room := (co_room c)\<lparr>rs_sessionId := s\<rparr>\<rparr> else c"

lemma client_session:
  "c\<lparr>co_room := (co_room c)\<lparr>rs_sessionId := fst (delivered False (rs_sessionId (co_room c)) s m)\<rparr>\<rparr> = joinSession s c"
  "snd (delivered False n s m) = m"
  by (simp_all add: delivered_def)

lemma chunkPacket_inj:
  assumes "length p \<le> kMaxIncomingResyncPayloadBytes"
  shows "inj_on (chunkPacket s i p) (offsets p)"
proof (rule inj_onI)
  fix k j assume k: "k \<in> offsets p" "j \<in> offsets p" "chunkPacket s i p k = chunkPacket s i p j"
  then have "fst (chunkAt i p k) = fst (chunkAt i p j)"
    using packet_read(4)[OF k(1) assms, of False 0 s i] packet_read(4)[OF k(2) assms, of False 0 s i] by (simp add: delivered_def)
  then have "unat (rc_offset (fst (chunkAt i p k))) = unat (rc_offset (fst (chunkAt i p j)))" by (rule arg_cong)
  then show "k = j" unfolding chunk_sizes(1)[OF k(1) assms] chunk_sizes(1)[OF k(2) assms] .
qed

text \<open>A client in the middle of a transfer.\<close>

definition receiving :: "ResyncBeginData \<Rightarrow> bytes \<Rightarrow> nat set \<Rightarrow> NetplayCoordinator \<Rightarrow> NetplayCoordinator \<Rightarrow> bool" where
  "receiving d p K c c' \<longleftrightarrow>
     (\<exists>t. co_incomingResync c' = Some t \<and> ir_resyncId t = rb_resyncId d \<and> ir_targetFrame t = rb_targetFrame d \<and>
        ir_expectedPayloadCrc32 t = rb_payloadCrc32 d \<and> got p K t) \<and>
     co_pendingResyncApply c' = None \<and> rs_activeResyncId (co_room c') = rb_resyncId d \<and>
     rs_resyncConfirmedFrame (co_room c') = rb_confirmedFrame d \<and> rs_activeResyncReason (co_room c') = rb_reason d \<and>
     co_hosting c' = co_hosting c \<and> co_serverPeer c' = co_serverPeer c \<and>
     co_localParticipantId c' = co_localParticipantId c \<and> co_sent c' = co_sent c"

lemma locked_fields:
  "link (setRecoveryInputMode ResyncLocked f n c) = link c"
  "rs_activeResyncId (co_room (setRecoveryInputMode ResyncLocked f n c)) = rs_activeResyncId (co_room c)"
  "rs_resyncConfirmedFrame (co_room (setRecoveryInputMode ResyncLocked f n c)) = rs_resyncConfirmedFrame (co_room c)"
  "rs_activeResyncReason (co_room (setRecoveryInputMode ResyncLocked f n c)) = rs_activeResyncReason (co_room c)"
  "rs_sessionId (co_room (setRecoveryInputMode ResyncLocked f n c)) = rs_sessionId (co_room c)"
  "co_localParticipantId (setRecoveryInputMode ResyncLocked f n c) = co_localParticipantId c"
  by (simp_all add: setRecoveryInputMode_def ResyncLocked_def PostResyncStabilizing_def link_def Let_def)

lemma begin_received:
  assumes "coordinator_ok c" "\<not> co_hosting c" "length p \<le> kMaxIncomingResyncPayloadBytes" "rb_payloadSize d = of_nat (length p)"
  shows "\<exists>c'. receiveResync now (buildResyncBeginPacket s d) c = Some c' \<and> receiving d p {} c c'"
proof -
  define x where "x = (joinSession s c)
    \<lparr>co_pendingResyncApply := None, co_awaitingReconnectInitialSync := False\<rparr>"
  have "length p < 2 ^ 32" using assms(3) by (simp add: kMaxIncomingResyncPayloadBytes_def)
  then have n: "unat (rb_payloadSize d) = length p" using assms(4) by (simp add: unat_of_nat)
  have x: "coordinator_ok x" "co_pendingResyncApply x = None" "co_hosting x = co_hosting c" "co_serverPeer x = co_serverPeer c"
      "co_localParticipantId x = co_localParticipantId c" "co_sent x = co_sent c"
    using assms(1) by (simp_all add: x_def coordinator_ok_def)
  let ?i = "rs_state (co_room x) = Starting \<and> rb_reason d = InitialSessionSync"
  obtain y where y: "realignAuthoritativeState now (rb_targetFrame d)
        (\<not> preserveInputSequencesForResync (rb_reason d) ?i (rb_targetFrame d)) (rb_inputSequenceBase d)
        (preserveConfirmedInputsAcrossRealignment (rb_reason d)) (rb_reason d) x = Some y" "link y = link x"
    using realign_ok[OF x(1)] by blast
  define z where "z = y\<lparr>co_incomingResync := Some (incomingTransfer now d), co_room := roomOnBegin d (co_room y)\<rparr>"
  have st: "rs_state (co_room x) = rs_state (co_room (joinSession s c))"
    by (simp add: x_def)
  have r: "receiveResync now (buildResyncBeginPacket s d) c = Some (setRecoveryInputMode ResyncLocked (rb_targetFrame d) 0 z)"
    using y(1) n assms(2,3) unfolding x_def[symmetric] st
    by (simp add: receiveResync_def packet_read client_session case_prod_unfold handleResyncBegin_def Let_def flip: x_def z_def)
  have "got p {} (incomingTransfer now d)" using n by (simp add: got_def covered_def incomingTransfer_def)
  then have "receiving d p {} c z"
    using y(2) x by (simp add: receiving_def z_def incomingTransfer_def roomOnBegin_def link_def)
  then have "receiving d p {} c (setRecoveryInputMode ResyncLocked (rb_targetFrame d) 0 z)"
    using locked_fields[of "rb_targetFrame d" 0 z] by (simp add: receiving_def link_def)
  then show ?thesis using r by blast
qed

lemma chunk_received:
  assumes "receiving d p K c x" "k \<in> offsets p" "length p \<le> kMaxIncomingResyncPayloadBytes"
    "\<not> co_hosting c"
  shows "\<exists>y. receiveResync now (chunkPacket s (rb_resyncId d) p k) x = Some y \<and> receiving d p (insert k K) c y"
proof -
  define u where "u = joinSession s x"
  have x: "\<not> co_hosting x" using assms(1,4) by (simp add: receiving_def)
  have u: "receiving d p K c u" using assms(1) by (simp add: receiving_def u_def)
  then obtain t where t: "co_incomingResync u = Some t" "ir_resyncId t = rb_resyncId d" "ir_targetFrame t = rb_targetFrame d"
      "ir_expectedPayloadCrc32 t = rb_payloadCrc32 d" "got p K t"
    by (auto simp: receiving_def)
  define q where "q = chunkAt (rb_resyncId d) p k"
  note z = chunk_sizes[OF assms(2,3), of "rb_resyncId d", folded q_def]
  have l: "length (ir_payload t) = length p" "k < length p" using t(5) assms(2) by (simp_all add: got_def offsets_def)
  let ?t = "t\<lparr>ir_lastActivityAt := now, ir_payload := overwrite k (snd q) (ir_payload t),
     ir_receivedMask := overwrite k (replicate (min 1024 (length p - k)) 1) (ir_receivedMask t)\<rparr>"
  have "snd q = take (min 1024 (length p - k)) (drop k p)" "rc_resyncId (fst q) = rb_resyncId d"
    by (simp_all add: q_def chunkAt_def Let_def)
  then have g: "got p (insert k K) ?t" "snd (handleResyncChunk now (fst q) (snd q) u) = u\<lparr>co_incomingResync := Some ?t\<rparr>"
    using got_chunk[OF t(5) assms(2), of now] t z l by (simp_all add: handleResyncChunk_def Let_def)
  have "receiveResync now (chunkPacket s (rb_resyncId d) p k) x = Some (u\<lparr>co_incomingResync := Some ?t\<rparr>)"
    using g(2) x by (simp add: receiveResync_def packet_read(4)[OF assms(2,3)] client_session case_prod_unfold Let_def flip: u_def q_def)
  moreover have "receiving d p (insert k K) c (u\<lparr>co_incomingResync := Some ?t\<rparr>)"
    using u t g(1) by (simp add: receiving_def)
  ultimately show ?thesis by blast
qed

lemma chunks_received:
  assumes "receiving d p K c x" "length p \<le> kMaxIncomingResyncPayloadBytes"
    "set (map snd xs) \<subseteq> chunkPacket s (rb_resyncId d) p ` offsets p" "K \<subseteq> offsets p" "\<not> co_hosting c"
  shows "\<exists>y L. receiveAll xs x = Some y \<and> receiving d p L c y \<and> L \<subseteq> offsets p \<and>
     chunkPacket s (rb_resyncId d) p ` L = chunkPacket s (rb_resyncId d) p ` K \<union> set (map snd xs)"
  using assms
proof (induction xs arbitrary: x K)
  case (Cons a xs)
  obtain now k where a: "a = (now, chunkPacket s (rb_resyncId d) p k)" "k \<in> offsets p" using Cons.prems(3) by (cases a) auto
  obtain y where y: "receiveResync now (chunkPacket s (rb_resyncId d) p k) x = Some y" "receiving d p (insert k K) c y"
    using chunk_received[OF Cons.prems(1) a(2) Cons.prems(2,5)] by blast
  show ?case using Cons.IH[OF y(2) Cons.prems(2)] Cons.prems(3-5) a y(1) by auto
qed auto

lemma receiveAll_append: "receiveAll (xs @ ys) c = Option.bind (receiveAll xs c) (receiveAll ys)"
proof (induction xs arbitrary: c)
  case (Cons a xs)
  show ?case by (cases a; cases "receiveResync (fst a) (snd a) c") (simp_all add: Cons.IH)
qed simp

fun packetOf :: "delivery \<Rightarrow> bytes" where
  "packetOf (SendReliable _ _ p) = p"
| "packetOf (BroadcastReliable _ p) = p"
| "packetOf (BroadcastUnreliable _ p _) = p"

text \<open>The packets that \<open>h'\<close> has handed to the transport since \<open>h\<close>.\<close>

definition packetsSince :: "NetplayCoordinator \<Rightarrow> NetplayCoordinator \<Rightarrow> bytes list" where
  "packetsSince h h' = map packetOf (drop (length (co_sent h)) (co_sent h'))"

lemma normal_acks [simp]:
  "co_pendingResyncAcks (setRecoveryInputMode Normal f n c) = co_pendingResyncAcks c"
  "co_pendingResyncAcks (resumeParticipants c) = co_pendingResyncAcks c"
  "co_pendingResyncAcks (clearTargetedResyncTracking c) = []" "co_pendingResyncAcks (clearActiveResyncTracking r c) = []"
  by (simp_all add: setRecoveryInputMode_def resumeParticipants_def clearTargetedResyncTracking_def
      clearActiveResyncTracking_def Let_def)

lemma openRoom_sent:
  assumes "coordinator_ok h" "openRoomResync now i f n crc sc reason h = Some x"
  shows "co_sent x = co_sent h"
proof -
  let ?h = "h\<lparr>co_room := (co_room h)\<lparr>rs_timelineEpoch := rs_timelineEpoch (co_room h) + 1\<rparr>\<rparr>"
  have "coordinator_ok ?h" using assms(1) by (simp add: coordinator_ok_def)
  note r = realign_ok[OF this]
  have l: "co_sent (setRecoveryInputMode ResyncLocked f 0 c) = co_sent c" for c
    using locked_fields(1)[of f 0 c] by (simp add: link_def)
  obtain y where "realignAuthoritativeState now f (\<not> preserveInputSequencesForResync reason (rs_state (co_room h) = Starting) f) 0
      (rs_state (co_room h) = Starting \<or> preserveConfirmedInputsAcrossRealignment reason) reason ?h = Some y" "link y = link ?h"
    using r by blast
  then show ?thesis using assms(2) by (auto simp: openRoomResync_def Let_def link_def l)
qed

lemma beginResync_sends:
  assumes "coordinator_ok h" "beginResync now peers f p crc sc reason target h = Some (True, h')" "co_pendingResyncAcks h' \<noteq> []"
  shows "\<exists>d. packetsSince h h' = resyncPackets (rs_sessionId (co_room h')) d p \<and>
    rb_resyncId d = co_nextResyncId h \<and> rb_payloadSize d = of_nat (length p) \<and> rb_payloadCrc32 d = crc \<and>
    rb_targetFrame d = f \<and> rb_reason d = reason"
proof -
  let ?h = "h\<lparr>co_nextResyncId := co_nextResyncId h + 1\<rparr>"
  let ?t = "target \<noteq> kInvalidParticipantId"
  have h: "coordinator_ok ?h" using assms(1) by (simp add: coordinator_ok_def)
  obtain x where x: "(if ?t then Some (openTargetedResync target (co_nextResyncId h) f sc ?h)
        else openRoomResync now (co_nextResyncId h) f (of_nat (length p)) crc sc reason ?h) = Some x"
    using assms(2) unfolding beginResync_def Let_def by (auto split: if_splits simp: bind_eq_Some_conv)
  define y where "y = expectAcks now ?t target (rs_state (co_room h) = Starting) (x\<lparr>co_activeResyncResumeState := rs_state (co_room h)\<rparr>)"
  define d where "d = resyncBeginData (co_nextResyncId h) f p crc reason y"
  let ?g = "case peerFromParticipantId peers target of Some peer \<Rightarrow> SendReliable peer Control | None \<Rightarrow> BroadcastReliable Control"
  have "co_sent x = co_sent h"
    using x openRoom_sent[OF h] by (auto simp: openTargetedResync_def split: if_splits)
  then have sy: "co_sent y = co_sent h" by (simp add: y_def expectAcks_def Let_def)
  have "co_hosting h" "p \<noteq> []" using assms(2) by (auto simp: beginResync_def split: if_splits)
  moreover have "\<not> (?t \<and> (\<not> (case findParticipant (co_room h) target of None \<Rightarrow> False | Some p \<Rightarrow> pi_connected p \<and> \<not> pi_reconnectReserved p) \<or>
      peerFromParticipantId peers target = None))"
    using assms(2) unfolding beginResync_def Let_def by (auto split: if_splits)
  ultimately have "(if co_pendingResyncAcks y = [] then Some (True, setRecoveryInputMode Normal f 0
        (resumeParticipants (if ?t then clearTargetedResyncTracking y else clearActiveResyncTracking Running y)))
      else Some (True, y\<lparr>co_sent := co_sent y @ map ?g (resyncPackets (rs_sessionId (co_room y)) d p)\<rparr>)) = Some (True, h')"
    using assms(2) x unfolding beginResync_def Let_def d_def y_def by (auto split: if_splits)
  then have "h' = y\<lparr>co_sent := co_sent h @ map ?g (resyncPackets (rs_sessionId (co_room y)) d p)\<rparr>"
    using assms(3) sy by (auto split: if_splits)
  moreover have "map packetOf (map ?g ps) = ps" for ps
    by (cases "peerFromParticipantId peers target") (simp_all add: comp_def)
  ultimately have "packetsSince h h' = resyncPackets (rs_sessionId (co_room h')) d p" by (simp add: packetsSince_def)
  moreover have "rb_resyncId d = co_nextResyncId h" "rb_payloadSize d = of_nat (length p)" "rb_payloadCrc32 d = crc" "rb_targetFrame d = f" "rb_reason d = reason"
    by (simp_all add: d_def resyncBeginData_def)
  ultimately show ?thesis by blast
qed

subsection \<open>Properties\<close>

text \<open>
  C14: a state arrives as it was sent, or is asked for again. When \<open>beginResync\<close> of a host has sent a
  state of at most 64 MiB, and a client gets the first packet, then chunk packets in any order and
  with any repetitions, then the last packet, it ends, if every chunk was among them, with exactly
  that state ready to load at the frame of the host, and hands it out once. If any chunk is missing, nothing is
  ready, and a connected client has sent one packet, which the host reads as an abort of this transfer for
  incomplete data (a host whose session number is not 0, or any host of the client's session).
\<close>
theorem resync_transfer:
  assumes host: "coordinator_ok h" "beginResync now peers f p (net_crc32 p) stateCrc reason target h = Some (True, h')"
      "co_pendingResyncAcks h' \<noteq> []" "packetsSince h h' = b # cs @ [e]" "length p \<le> kMaxIncomingResyncPayloadBytes"
    and client: "coordinator_ok c" "\<not> co_hosting c" "map snd xs = b # rs @ [e]" "set rs \<subseteq> set cs"
  shows "\<exists>c'. receiveAll xs c = Some c' \<and>
    (set rs = set cs \<longrightarrow>
      (\<exists>a. co_pendingResyncApply c' = Some a \<and> pa_payload a = p \<and> pa_targetFrame a = f \<and> pa_reason a = reason \<and>
         fst (consumePendingResyncApply c') = Some a \<and>
         fst (consumePendingResyncApply (snd (consumePendingResyncApply c'))) = None)) \<and>
    (set rs \<noteq> set cs \<longrightarrow> co_pendingResyncApply c' = None \<and>
      (\<forall>peer. co_serverPeer c = Some peer \<longrightarrow>
        (\<exists>x s. co_sent c' = co_sent c @ [SendReliable peer Control x] \<and>
           (rs_sessionId (co_room h') \<noteq> 0 \<longrightarrow> s = rs_sessionId (co_room h')) \<and>
           readPacket True s x = (s, Some (Msg_ResyncAbort \<lparr>rx_resyncId = co_nextResyncId h, rx_participantId = co_localParticipantId c, rx_reason = 1\<rparr>)))))"
proof -
  define s where "s = rs_sessionId (co_room h')"
  obtain d where d: "packetsSince h h' = resyncPackets s d p" "rb_payloadSize d = of_nat (length p)" "rb_payloadCrc32 d = net_crc32 p"
      "rb_targetFrame d = f" "rb_reason d = reason" "rb_resyncId d = co_nextResyncId h"
    using beginResync_sends[OF host(1-3)] unfolding s_def by blast
  let ?k = "chunkPacket s (rb_resyncId d) p"
  note pk = resyncPackets_chunks[OF d(1)[symmetric, THEN trans[OF _ host(4)]]]
  obtain t0 xs1 t1 where xs: "xs = (t0, b) # xs1 @ [(t1, e)]" "map snd xs1 = rs"
    using client(3) by (auto simp: map_eq_Cons_conv map_eq_append_conv)
  obtain c0 where c0: "receiveResync t0 b c = Some c0" "receiving d p {} c c0"
    using begin_received[OF client(1,2) host(5) d(2)] pk(1) by blast
  have "set (map snd xs1) \<subseteq> ?k ` offsets p" using client(4) pk(3) xs(2) by simp
  then obtain c1 L where c1: "receiveAll xs1 c0 = Some c1" "receiving d p L c c1" "L \<subseteq> offsets p" "?k ` L = set rs"
    using chunks_received[OF c0(2) host(5), of xs1 s] xs(2) client(2) by auto
  define u where "u = joinSession s c1"
  define c' where "c' = snd (handleResyncComplete \<lparr>rd_resyncId = rb_resyncId d\<rparr> u)"
  have "\<not> co_hosting c1" using c1(2) client(2) by (simp add: receiving_def)
  then have "receiveResync t1 e c1 = Some c'"
    using pk(2) by (simp add: receiveResync_def packet_read client_session case_prod_unfold Let_def flip: u_def c'_def)
  then have run: "receiveAll xs c = Some c'"
    using c0(1) c1(1) by (simp add: xs(1) receiveAll_append)
  have u: "receiving d p L c u" using c1(2) by (simp add: receiving_def u_def)
  then obtain t where t: "co_incomingResync u = Some t" "ir_resyncId t = rb_resyncId d" "ir_targetFrame t = f"
      "ir_expectedPayloadCrc32 t = net_crc32 p" "got p L t"
    using d by (auto simp: receiving_def)
  have all: "set rs = set cs \<longleftrightarrow> L = offsets p"
    using inj_on_image_eq_iff[OF chunkPacket_inj[OF host(5)] c1(3) subset_refl] pk(3) c1(4) by metis
  show ?thesis
  proof (cases "L = offsets p")
    case True
    then have "c' = u\<lparr>co_pendingResyncApply := Some (pendingApply (co_room u) t), co_incomingResync := None\<rparr>"
      using t got_all[of p t] by (simp add: c'_def handleResyncComplete_def)
    then show ?thesis
      using run True all t got_all[of p t] u d(5)
      by (auto simp: pendingApply_def receiving_def consumePendingResyncApply_def Let_def)
  next
    case False
    then obtain k where "k \<in> offsets p" "k \<notin> L" using c1(3) by blast
    then have "0 \<in> set (ir_receivedMask t)" using got_missing[OF t(5) c1(3)] by blast
    then have "c' = (sendAbort (rb_resyncId d) 1 u)\<lparr>co_incomingResync := None\<rparr>"
      using t by (simp add: c'_def handleResyncComplete_def)
    then show ?thesis
      using run False all u client(2) d(6)
      by (auto simp: sendAbort_def receiving_def packet_read delivered_def u_def s_def split: option.splits)
  qed
qed

definition sync_host :: NetplayCoordinator where
  "sync_host = NetplayCoordinator0\<lparr>co_hosting := True, co_localParticipantId := 0,
     co_room := RoomState0\<lparr>rs_participants := [ParticipantInfo0\<lparr>pi_id := 1, pi_connected := True\<rparr>]\<rparr>\<rparr>"

theorem resync_transfer_witness:
  "\<exists>h' c' a. beginResync 0 [(5, 1)] 60 [1, 2, 3] (net_crc32 [1, 2, 3]) 9 2 1 sync_host = Some (True, h') \<and>
     receiveAll (map (Pair 0) (packetsSince sync_host h')) NetplayCoordinator0 = Some c' \<and>
     co_pendingResyncApply c' = Some a \<and> pa_payload a = [1, 2, 3]"
proof -
  let ?p = "[1, 2, 3] :: bytes"
  have ok: "coordinator_ok sync_host" using coordinator0_ok by (simp add: sync_host_def coordinator_ok_def)
  have "\<exists>h'. beginResync 0 [(5, 1)] 60 ?p (net_crc32 ?p) 9 2 1 sync_host = Some (True, h') \<and> co_pendingResyncAcks h' \<noteq> []"
    by (simp add: beginResync_def sync_host_def kInvalidParticipantId_def findParticipant_def peerFromParticipantId_def
        openTargetedResync_def expectAcks_def ParticipantInfo0_def Let_def)
  then obtain h' where h: "beginResync 0 [(5, 1)] 60 ?p (net_crc32 ?p) 9 2 1 sync_host = Some (True, h')" "co_pendingResyncAcks h' \<noteq> []"
    by blast
  obtain d where "packetsSince sync_host h' = resyncPackets (rs_sessionId (co_room h')) d ?p"
    using beginResync_sends[OF ok h] by blast
  then obtain b cs e where pk: "packetsSince sync_host h' = b # cs @ [e]" by (auto simp: resyncPackets_def)
  have "\<not> co_hosting NetplayCoordinator0" "length ?p \<le> kMaxIncomingResyncPayloadBytes"
      "map snd (map (Pair (0 :: int)) (packetsSince sync_host h')) = b # cs @ [e]"
    using pk by (simp_all add: NetplayCoordinator0_def kMaxIncomingResyncPayloadBytes_def comp_def)
  from resync_transfer[OF ok h pk this(2) coordinator0_ok this(1,3) subset_refl] h(1) show ?thesis by blast
qed

end
