(* ===== verification/Net_Gameplay.thy ===== *)
theory Net_Gameplay
  imports Net_Resync
begin

text \<open>
  The path of an input through the coordinator (\<open>NetplayCoordinator.cpp\<close>): \<open>handleInputFrameEntry\<close> checks and
  stores an input from the network, \<open>publishConfirmedFramesIfReady\<close> of the host puts complete frames together
  and sends them, \<open>handleConfirmedInputFrames\<close> and \<open>handleInputAck\<close> of a client take the host's word.
  The text of a rejection is kept as in the code; the log is left out. \<open>None\<close> stands for a loop
  over frame numbers that does not end (or a dangling iterator).
\<close>

subsection \<open>Loops over frames\<close>

text \<open>\<open>for(FrameNumber f = first; f <= last; ++f)\<close>; the increment wraps around.\<close>

partial_function (option) frameLoop :: "(u32 \<Rightarrow> 's \<Rightarrow> 's option) \<Rightarrow> u32 \<Rightarrow> u32 \<Rightarrow> 's \<Rightarrow> 's option" where
  "frameLoop body f final s = (if f \<le> final then do { s \<leftarrow> body f s; frameLoop body (f + 1) final s } else Some s)"

fun haveAllAssignments :: "u8 list \<Rightarrow> u32 \<Rightarrow> u8 \<Rightarrow> NetplayCoordinator \<Rightarrow> (bool \<times> NetplayCoordinator) option" where
  "haveAllAssignments [] f participantId c = Some (True, c)"
| "haveAllAssignments (slot # slots) f participantId c = do {
     (e, c) \<leftarrow> findInput f participantId slot c;
     case e of
       Some e \<Rightarrow> if te_confirmed e then haveAllAssignments slots f participantId c else Some (False, c)
     | None \<Rightarrow> Some (False, c) }"

partial_function (option) advanceLoop ::
  "u8 list \<Rightarrow> u8 \<Rightarrow> u32 \<Rightarrow> NetplayCoordinator \<Rightarrow> (u32 \<times> NetplayCoordinator) option" where
  "advanceLoop slots participantId contiguous c = do {
     (allThere, c) \<leftarrow> haveAllAssignments slots (contiguous + 1) participantId c;
     if allThere then advanceLoop slots participantId (contiguous + 1) c else Some (contiguous, c) }"

definition advanceParticipantContiguousInputFrame ::
  "ParticipantInfo \<Rightarrow> NetplayCoordinator \<Rightarrow> (ParticipantInfo \<times> NetplayCoordinator) option" where
  "advanceParticipantContiguousInputFrame p c = do {
     (n, c) \<leftarrow> advanceLoop (participantAssignments p) (pi_id p) (pi_lastContiguousInputFrame p) c;
     Some (p\<lparr>pi_lastContiguousInputFrame := n\<rparr>, c) }"

subsection \<open>Inputs that are made up\<close>

text \<open>The latest confirmed input once more, for another frame.\<close>

definition repeatInput :: "u8 \<Rightarrow> u32 \<Rightarrow> TimelineInputEntry \<Rightarrow> TimelineInputEntry" where
  "repeatInput slot f l =
     (let n = materializeNativeMaskFromPayload slot (repeatedFrom (te_netplayFrame l) f);
          n = (if ps_at 0 slot (nf_buttonMaskLo n) = 0 \<and> te_buttonMaskLo l \<noteq> 0
               then n\<lparr>nf_buttonMaskLo := ps_put slot (te_buttonMaskLo l) (nf_buttonMaskLo n)\<rparr> else n);
          n = n\<lparr>nf_buttonMaskHi := ps_touch 0 slot (nf_buttonMaskHi n)\<rparr>;
          n = (if ps_at 0 slot (nf_buttonMaskHi n) = 0 \<and> te_buttonMaskHi l \<noteq> 0
               then n\<lparr>nf_buttonMaskHi := ps_put slot (te_buttonMaskHi l) (nf_buttonMaskHi n)\<rparr> else n)
      in l\<lparr>te_frame := f, te_netplayFrame := n, te_buttonMaskLo := ps_at 0 slot (nf_buttonMaskLo n),
           te_buttonMaskHi := ps_at 0 slot (nf_buttonMaskHi n), te_confirmed := True\<rparr>)"

definition keepSequence :: "TimelineInputEntry option \<Rightarrow> TimelineInputEntry \<Rightarrow> TimelineInputEntry" where
  "keepSequence existing e = (case existing of Some x \<Rightarrow> e\<lparr>te_sequence := te_sequence x\<rparr> | None \<Rightarrow> e)"

definition backfillFrame ::
  "u8 \<Rightarrow> u8 \<Rightarrow> u32 \<Rightarrow> TimelineInputEntry option \<times> InputTimeline \<Rightarrow> (TimelineInputEntry option \<times> InputTimeline) option" where
  "backfillFrame participantId slot f s = (case s of (latestConfirmed, t) \<Rightarrow> do {
     (existing, t) \<leftarrow> tl_find f participantId slot t;
     if (case existing of Some x \<Rightarrow> te_confirmed x | None \<Rightarrow> False) then Some (existing, t)
     else do {
       let synthetic = (case latestConfirmed of
             Some l \<Rightarrow> (repeatInput slot f l)\<lparr>te_participantId := participantId, te_playerSlot := slot\<rparr>
           | None \<Rightarrow> neutralEntry f participantId slot 0);
       t \<leftarrow> tl_push (keepSequence existing synthetic) t;
       tl_find f participantId slot t }})"

definition backfillConfirmedRemoteInputGap :: "u8 \<Rightarrow> u8 \<Rightarrow> u32 \<Rightarrow> u32 \<Rightarrow> InputTimeline \<Rightarrow> InputTimeline option" where
  "backfillConfirmedRemoteInputGap participantId slot startFrame endFrame t =
     (if startFrame > endFrame then Some t
      else map_option snd (frameLoop (backfillFrame participantId slot) startFrame endFrame
             (latestConfirmedFor participantId slot t, t)))"

definition synthesizeFrame ::
  "u8 \<Rightarrow> u8 \<Rightarrow> u32 \<Rightarrow> TimelineInputEntry option \<times> InputTimeline \<Rightarrow> (TimelineInputEntry option \<times> InputTimeline) option" where
  "synthesizeFrame participantId slot f s = (case s of (latestConfirmed, t) \<Rightarrow> do {
     (existing, t) \<leftarrow> tl_find f participantId slot t;
     if (case existing of Some x \<Rightarrow> te_confirmed x | None \<Rightarrow> False) then Some (latestConfirmed, t)
     else do {
       l \<leftarrow> latestConfirmed;
       t \<leftarrow> tl_push (keepSequence existing (repeatInput slot f l)) t;
       tl_find f participantId slot t }})"

fun synthesizeSlots :: "u8 \<Rightarrow> u32 \<Rightarrow> u32 \<Rightarrow> u8 list \<Rightarrow> NetplayCoordinator \<Rightarrow> NetplayCoordinator option" where
  "synthesizeSlots participantId first target [] c = Some c"
| "synthesizeSlots participantId first target (slot # slots) c = do {
     c \<leftarrow> (case latestConfirmedFor participantId slot (co_remoteInputs c) of
            None \<Rightarrow> Some c
          | Some l \<Rightarrow> map_option (\<lambda>(_, t). c\<lparr>co_remoteInputs := t\<rparr>)
              (frameLoop (synthesizeFrame participantId slot) first target (Some l, co_remoteInputs c)));
     synthesizeSlots participantId first target slots c }"

fun advanceTimes :: "nat \<Rightarrow> ParticipantInfo \<Rightarrow> NetplayCoordinator \<Rightarrow> (ParticipantInfo \<times> NetplayCoordinator) option" where
  "advanceTimes 0 p c = Some (p, c)"
| "advanceTimes (Suc n) p c = do {
     (p, c) \<leftarrow> advanceParticipantContiguousInputFrame p c;
     advanceTimes n p c }"

definition suspendedRemote :: "u8 \<Rightarrow> ParticipantInfo \<Rightarrow> bool" where
  "suspendedRemote localId p \<longleftrightarrow> pi_id p \<noteq> localId \<and> (pi_connected p \<or> pi_reconnectReserved p) \<and>
     \<not> participantIsObserver p \<and> (pi_inputSuspended p \<or> pi_inputResumeAwaitingResync p)"

fun synthesizeParticipants ::
  "u32 \<Rightarrow> ParticipantInfo list \<Rightarrow> NetplayCoordinator \<Rightarrow> (ParticipantInfo list \<times> NetplayCoordinator) option" where
  "synthesizeParticipants target [] c = Some ([], c)"
| "synthesizeParticipants target (p # ps) c = do {
     (p, c) \<leftarrow> (if suspendedRemote (co_localParticipantId c) p then do {
                  c \<leftarrow> synthesizeSlots (pi_id p) (pi_lastContiguousInputFrame p + 1) target (participantAssignments p) c;
                  advanceTimes (length (participantAssignments p)) p c }
                else Some (p, c));
     (ps, c) \<leftarrow> synthesizeParticipants target ps c;
     Some (p # ps, c) }"

definition synthesizeSuspendedRemoteInputsUpTo :: "u32 \<Rightarrow> NetplayCoordinator \<Rightarrow> NetplayCoordinator option" where
  "synthesizeSuspendedRemoteInputsUpTo targetFrame c =
     (if \<not> co_hosting c \<or> rs_state (co_room c) \<noteq> Running \<or> rs_recoveryInputMode (co_room c) \<noteq> Normal then Some c
      else do {
        (ps, c) \<leftarrow> synthesizeParticipants targetFrame (rs_participants (co_room c)) c;
        Some (c\<lparr>co_room := (co_room c)\<lparr>rs_participants := ps\<rparr>\<rparr>) })"

subsection \<open>The host publishes confirmed frames\<close>

definition computeHostInputConfirmedFrame :: "NetplayCoordinator \<Rightarrow> u32" where
  "computeHostInputConfirmedFrame c =
     (let latestFrame = (\<lambda>p.
            if pi_id p = co_localParticipantId c then
              (case List.map_filter (\<lambda>slot. map_option te_frame (latestFor (pi_id p) slot (co_localInputs c))) (participantAssignments p) of
                 [] \<Rightarrow> 0 | x # xs \<Rightarrow> fold (\<lambda>b a. min a b) xs x)
            else pi_lastContiguousInputFrame p)
      in case map latestFrame (filter (\<lambda>p. \<not> participantIsObserver p) (rs_participants (co_room c))) of
           [] \<Rightarrow> co_localSimulationFrame c | x # xs \<Rightarrow> fold (\<lambda>b a. min a b) xs x)"

fun assembleSlots ::
  "u32 \<Rightarrow> (u8 \<times> u8) list \<Rightarrow> ConfirmedFrameInputs \<Rightarrow> NetplayCoordinator \<Rightarrow> (ConfirmedFrameInputs option \<times> NetplayCoordinator) option" where
  "assembleSlots f [] x c = Some (Some x, c)"
| "assembleSlots f ((i, slot) # hs) x c = do {
     (e, c) \<leftarrow> findInput f i slot c;
     case e of
       Some e \<Rightarrow> if te_confirmed e then assembleSlots f hs (applyEntry slot e x) c else Some (None, c)
     | None \<Rightarrow> Some (None, c) }"

definition tryAssembleConfirmedFrame ::
  "u32 \<Rightarrow> NetplayCoordinator \<Rightarrow> (ConfirmedFrameInputs option \<times> NetplayCoordinator) option" where
  "tryAssembleConfirmedFrame f c =
     (let held = filter (\<lambda>(_, slot). isPlayableSlot (co_room c) slot) (heldBy (rs_participants (co_room c)));
          x = (confirmedFrameAt f)\<lparr>fi_authoritativeFrameStartClockMicros := authoritativeFrameStartClockMicros f c\<rparr>
      in do {
        (r, c) \<leftarrow> assembleSlots f held x c;
        Some (if held \<noteq> [] \<or> list_all participantIsObserver (rs_participants (co_room c)) then r else None, c) })"

definition kMaxConfirmedFramesPerPacket :: nat where "kMaxConfirmedFramesPerPacket = 64"

text \<open>The frames ready to be sent: at most \<open>n\<close>, from \<open>f\<close> on.\<close>

fun pendingFrames :: "nat \<Rightarrow> u32 \<Rightarrow> u32 \<Rightarrow> NetplayCoordinator \<Rightarrow> (ConfirmedFrameInputs list \<times> NetplayCoordinator) option" where
  "pendingFrames 0 f limit c = Some ([], c)"
| "pendingFrames (Suc n) f limit c =
     (if f > limit then Some ([], c)
      else do {
        (r, c) \<leftarrow> tryAssembleConfirmedFrame f c;
        case r of
          None \<Rightarrow> Some ([], c)
        | Some x \<Rightarrow> do {
            (xs, c) \<leftarrow> pendingFrames n (f + 1) limit c;
            Some (x # xs, c) }})"

definition baseMicros :: "int \<Rightarrow> NetplayCoordinator \<Rightarrow> u64" where
  "baseMicros now c =
     (let base = sharedClockNowMicros now c
      in if base = 0 then (if monotonicNowMicros now > 0 then word_of_int (monotonicNowMicros now) else 0) else base)"

definition frameStepMicros :: "u64 \<Rightarrow> u32 \<Rightarrow> NetplayCoordinator \<Rightarrow> u64" where
  "frameStepMicros base first c =
     (let previous = authoritativeFrameStartClockMicros (first - 1) c; step = (base - previous) div ucast (first - 1)
      in if first > 1 \<and> previous \<noteq> 0 \<and> base > previous \<and> 1000 \<le> step \<and> step \<le> 50000 then step else 16667)"

definition firstFrameMicros :: "u64 \<Rightarrow> u64 \<Rightarrow> u32 \<Rightarrow> NetplayCoordinator \<Rightarrow> u64" where
  "firstFrameMicros base step first c =
     (let previous = authoritativeFrameStartClockMicros (first - 1) c;
          following = (if first > 1 \<and> previous \<noteq> 0 then previous + step else 0)
      in if following = 0 then base else following)"

fun stampFrames :: "u64 \<Rightarrow> u64 \<Rightarrow> ConfirmedFrameInputs list \<Rightarrow> NetplayCoordinator \<Rightarrow> ConfirmedFrameInputs list \<times> NetplayCoordinator" where
  "stampFrames micros step [] c = ([], c)"
| "stampFrames micros step (x # xs) c =
     (let f = fi_frame x;
          c = c\<lparr>co_authoritativeFrameStartClockOrder :=
                  (if co_authoritativeFrameStartClockMicros c f = None then co_authoritativeFrameStartClockOrder c @ [f]
                   else co_authoritativeFrameStartClockOrder c),
                co_authoritativeFrameStartClockMicros := (co_authoritativeFrameStartClockMicros c)(f \<mapsto> micros)\<rparr>;
          (ys, c) = stampFrames (micros + step) step xs c
      in (x\<lparr>fi_authoritativeFrameStartClockMicros := micros\<rparr> # ys, c))"

definition kAuthoritativeClockHistoryLimit :: nat where
  "kAuthoritativeClockHistoryLimit = kConfirmedFrameHistoryCapacity * 2"

definition trimClocks :: "NetplayCoordinator \<Rightarrow> NetplayCoordinator" where
  "trimClocks c =
     (let order = co_authoritativeFrameStartClockOrder c; n = length order - kAuthoritativeClockHistoryLimit
      in c\<lparr>co_authoritativeFrameStartClockOrder := drop n order,
           co_authoritativeFrameStartClockMicros := fold (\<lambda>f m. m(f := None)) (take n order) (co_authoritativeFrameStartClockMicros c)\<rparr>)"

fun storeAll :: "ConfirmedFrameInputs list \<Rightarrow> NetplayCoordinator \<Rightarrow> NetplayCoordinator option" where
  "storeAll [] c = Some c"
| "storeAll (x # xs) c = do { c \<leftarrow> storeConfirmedFrame x c; storeAll xs c }"

definition broadcastFrames :: "int \<Rightarrow> ConfirmedFrameInputs list \<Rightarrow> NetplayCoordinator \<Rightarrow> NetplayCoordinator option" where
  "broadcastFrames now xs c =
     (let base = baseMicros now c;
          first = fi_frame (hd xs);
          step = frameStepMicros base first c;
          (xs, c) = stampFrames (firstFrameMicros base step first c) step xs c;
          c = trimClocks c;
          final = fi_frame (last xs);
          c = c\<lparr>co_room := (co_room c)\<lparr>rs_lastAuthoritativeClockFrame := final,
                  rs_lastAuthoritativeClockMicros := fi_authoritativeFrameStartClockMicros (last xs)\<rparr>\<rparr>
      in do {
        c \<leftarrow> storeAll xs c;
        let data = \<lparr>cf_timelineEpoch = rs_timelineEpoch (co_room c), cf_startFrame = first, cf_frameCount = of_nat (length xs)\<rparr>;
        Some (c\<lparr>co_sent := co_sent c @ [BroadcastReliable Gameplay (buildConfirmedInputFramesPacket data xs (rs_sessionId (co_room c)))],
                co_lastBroadcastConfirmedFrame := final,
                co_room := (co_room c)\<lparr>rs_lastConfirmedFrame := max (rs_lastConfirmedFrame (co_room c)) final\<rparr>\<rparr>) })"

definition publishConfirmedFramesIfReady :: "int \<Rightarrow> NetplayCoordinator \<Rightarrow> NetplayCoordinator option" where
  "publishConfirmedFramesIfReady now c =
     (if \<not> co_hosting c \<or> rs_state (co_room c) \<noteq> Running then Some c
      else do {
        c \<leftarrow> synthesizeSuspendedRemoteInputsUpTo (co_localSimulationFrame c) c;
        (xs, c) \<leftarrow> pendingFrames kMaxConfirmedFramesPerPacket (co_lastBroadcastConfirmedFrame c + 1) (computeHostInputConfirmedFrame c) c;
        if xs = [] then Some c else broadcastFrames now xs c })"

subsection \<open>An input from the network\<close>

fun updateFirst :: "('a \<Rightarrow> bool) \<Rightarrow> ('a \<Rightarrow> 'a) \<Rightarrow> 'a list \<Rightarrow> 'a list" where
  "updateFirst P g [] = []"
| "updateFirst P g (x # xs) = (if P x then g x # xs else x # updateFirst P g xs)"

definition withParticipant :: "u8 \<Rightarrow> (ParticipantInfo \<Rightarrow> ParticipantInfo) \<Rightarrow> NetplayCoordinator \<Rightarrow> NetplayCoordinator" where
  "withParticipant i g c = c\<lparr>co_room := (co_room c)\<lparr>rs_participants := updateFirst (\<lambda>p. pi_id p = i) g (rs_participants (co_room c))\<rparr>\<rparr>"

definition observeInput :: "int \<Rightarrow> InputFrameData \<Rightarrow> NetplayCoordinator \<Rightarrow> NetplayCoordinator" where
  "observeInput now input c =
     (let i = if_participantId input;
          c = (if co_hosting c \<and> findParticipant (co_room c) i \<noteq> None \<and> i \<noteq> co_localParticipantId c
               then (withParticipant i (\<lambda>p. p\<lparr>pi_lastObservedInputFrame := if_frame input,
                        pi_lastObservedInputSequence := if_sequence input, pi_lastObservedInputEpoch := if_timelineEpoch input,
                        pi_lastObservedInputSlot := if_playerSlot input\<rparr>) c)
                      \<lparr>co_lastRemoteInputAt := (co_lastRemoteInputAt c)(i \<mapsto> now),
                       co_lastGameplayInputAt := (co_lastGameplayInputAt c)(i \<mapsto> now)\<rparr>
               else c)
      in if \<not> co_hosting c \<and> if_authoritativeFrameStartClockMicros input \<noteq> 0 \<and>
            if_frame input \<ge> rs_lastAuthoritativeClockFrame (co_room c)
         then noteClock (if_frame input) (if_authoritativeFrameStartClockMicros input) c else c)"

definition rejected :: "InputFrameData \<Rightarrow> string \<Rightarrow> ParticipantInfo \<Rightarrow> ParticipantInfo" where
  "rejected input reason p = p\<lparr>pi_lastRejectedInputFrame := if_frame input, pi_lastRejectedInputSequence := if_sequence input,
     pi_lastRejectedInputSlot := if_playerSlot input, pi_lastRejectedInputEpoch := if_timelineEpoch input,
     pi_lastRejectedInputReason := ascii reason\<rparr>"

definition recordRejectedInput :: "InputFrameData \<Rightarrow> string \<Rightarrow> NetplayCoordinator \<Rightarrow> NetplayCoordinator" where
  "recordRejectedInput input reason c = withParticipant (if_participantId input) (rejected input reason) c"

definition noteDroppedGameplayInputDuringRecovery :: "NetplayCoordinator \<Rightarrow> NetplayCoordinator" where
  "noteDroppedGameplayInputDuringRecovery c =
     c\<lparr>co_room := (co_room c)\<lparr>rs_inputsDroppedDuringRecovery := rs_inputsDroppedDuringRecovery (co_room c) + 1\<rparr>\<rparr>"

text \<open>\<open>destinationTimeline\<close>.\<close>

definition toLocal :: "u8 \<Rightarrow> NetplayCoordinator \<Rightarrow> bool" where
  "toLocal participantId c \<longleftrightarrow> \<not> co_hosting c \<and> participantId = co_localParticipantId c"

definition findDestination :: "u32 \<Rightarrow> u8 \<Rightarrow> u8 \<Rightarrow> NetplayCoordinator \<Rightarrow> (TimelineInputEntry option \<times> NetplayCoordinator) option" where
  "findDestination f participantId slot c =
     (if toLocal participantId c
      then map_option (\<lambda>(e, t). (e, c\<lparr>co_localInputs := t\<rparr>)) (tl_find f participantId slot (co_localInputs c))
      else map_option (\<lambda>(e, t). (e, c\<lparr>co_remoteInputs := t\<rparr>)) (tl_find f participantId slot (co_remoteInputs c)))"

definition pushDestination :: "TimelineInputEntry \<Rightarrow> NetplayCoordinator \<Rightarrow> NetplayCoordinator option" where
  "pushDestination e c =
     (if toLocal (te_participantId e) c then map_option (\<lambda>t. c\<lparr>co_localInputs := t\<rparr>) (tl_push e (co_localInputs c))
      else map_option (\<lambda>t. c\<lparr>co_remoteInputs := t\<rparr>) (tl_push e (co_remoteInputs c)))"

definition sameMasks :: "InputFrameData \<Rightarrow> TimelineInputEntry \<Rightarrow> bool" where
  "sameMasks input e \<longleftrightarrow> te_buttonMaskLo e = if_buttonMaskLo input \<and> te_buttonMaskHi e = if_buttonMaskHi input"

definition samePayload :: "u8 \<Rightarrow> NetplayInputFrame \<Rightarrow> TimelineInputEntry \<Rightarrow> bool" where
  "samePayload slot x e \<longleftrightarrow> ps_at [] slot (nf_slotPayloads (te_netplayFrame e)) = ps_at [] slot (nf_slotPayloads x)"

text \<open>Comparing payloads reads the slot of the received frame, which stores an empty payload there.\<close>

definition touchPayload :: "u8 \<Rightarrow> NetplayInputFrame \<Rightarrow> NetplayInputFrame" where
  "touchPayload slot x = x\<lparr>nf_slotPayloads := ps_touch [] slot (nf_slotPayloads x)\<rparr>"

text \<open>The checks of an input from a known participant. \<open>Inl\<close> ends the handling; \<open>Inr\<close> carries the
  participant with its new marks and the received frame.\<close>

definition expectedSequence :: "ParticipantInfo \<Rightarrow> u32" where
  "expectedSequence p = pi_lastReceivedInputSequence p + 1"

definition expectedFrame :: "ParticipantInfo \<Rightarrow> u32" where
  "expectedFrame p = pi_lastContiguousInputFrame p + 1"

definition allowSequenceBaselineReset :: "InputFrameData \<Rightarrow> ParticipantInfo \<Rightarrow> bool" where
  "allowSequenceBaselineReset input p \<longleftrightarrow> pi_sequenceRebasePending p \<and> if_frame input \<ge> expectedFrame p \<and> if_sequence input > 0"

text \<open>\<open>allowSequenceRebase || allowClientResyncRebase || allowForwardGapRebase\<close>; the second implies the first.\<close>

definition allowRebase :: "InputFrameData \<Rightarrow> ParticipantInfo \<Rightarrow> bool" where
  "allowRebase input p \<longleftrightarrow> allowSequenceBaselineReset input p \<and> if_sequence input \<noteq> expectedSequence p \<or>
     if_frame input > expectedFrame p \<and> if_sequence input > expectedSequence p"

definition lateInput :: "InputFrameData \<Rightarrow> NetplayInputFrame \<Rightarrow> TimelineInputEntry \<Rightarrow> ParticipantInfo \<Rightarrow> ParticipantInfo" where
  "lateInput input x e p =
     (let p = rejected input (if sameMasks input e \<and> samePayload (if_playerSlot input) x e
            then ''late_committed_input_duplicate'' else ''late_committed_input_mismatch'') p
      in p\<lparr>pi_lastReceivedInputFrame := max (pi_lastReceivedInputFrame p) (if_frame input),
           pi_lastReceivedInputSequence := max (pi_lastReceivedInputSequence p) (if_sequence input),
           pi_sequenceRebasePending := False\<rparr>)"

definition markReceived :: "InputFrameData \<Rightarrow> ParticipantInfo \<Rightarrow> ParticipantInfo" where
  "markReceived input p =
     (let rebase = allowRebase input p; ahead = rebase \<and> if_frame input > expectedFrame p;
          q = (if ahead then p\<lparr>pi_lastContiguousInputFrame := if_frame input - 1, pi_pendingMissingInputFrom := None\<rparr> else p)
      in q\<lparr>pi_lastReceivedInputFrame := max (pi_lastReceivedInputFrame q) (if_frame input),
           pi_lastReceivedInputSequence := (if rebase then if_sequence input else max (pi_lastReceivedInputSequence q) (if_sequence input)),
           pi_inputSuspended := False, pi_sequenceRebasePending := False, pi_lastRejectedInputReason := []\<rparr>)"

definition backfillBefore :: "InputFrameData \<Rightarrow> ParticipantInfo \<Rightarrow> NetplayCoordinator \<Rightarrow> NetplayCoordinator option" where
  "backfillBefore input p c =
     (if allowRebase input p \<and> if_frame input > expectedFrame p \<and> co_hosting c \<and> pi_id p \<noteq> co_localParticipantId c
      then map_option (\<lambda>t. c\<lparr>co_remoteInputs := t\<rparr>)
             (backfillConfirmedRemoteInputGap (pi_id p) (if_playerSlot input) (expectedFrame p) (if_frame input - 1) (co_remoteInputs c))
      else Some c)"

text \<open>The checks that look at the timeline: a redundant copy, then an input for a frame already committed.\<close>

definition checkSequence ::
  "InputFrameData \<Rightarrow> NetplayInputFrame \<Rightarrow> ParticipantInfo \<Rightarrow> NetplayCoordinator \<Rightarrow> (NetplayCoordinator + NetplayInputFrame \<times> NetplayCoordinator) option" where
  "checkSequence input x p c =
     (let slot = if_playerSlot input in
      do {
        (redundant, c) \<leftarrow> (if if_sequence input \<le> pi_lastReceivedInputSequence p
                            then findDestination (if_frame input) (if_participantId input) slot c else Some (None, c));
        if (case redundant of Some e \<Rightarrow> sameMasks input e \<and> samePayload slot x e | None \<Rightarrow> False) then Some (Inl c)
        else
          let x = (if (case redundant of Some e \<Rightarrow> sameMasks input e | None \<Rightarrow> False) then touchPayload slot x else x) in
          if if_sequence input \<le> pi_lastReceivedInputSequence p \<and> \<not> allowSequenceBaselineReset input p
            then Some (Inl (recordRejectedInput input ''stale_or_duplicate_sequence'' c))
          else if if_sequence input \<noteq> expectedSequence p \<and> \<not> allowRebase input p
            then Some (Inl (recordRejectedInput input ''non_sequential_sequence'' c))
          else Some (Inr (x, c)) })"

definition checkFrame ::
  "InputFrameData \<Rightarrow> NetplayInputFrame \<Rightarrow> ParticipantInfo \<Rightarrow> NetplayCoordinator \<Rightarrow> (NetplayCoordinator + NetplayInputFrame \<times> NetplayCoordinator) option" where
  "checkFrame input x p c = do {
     (committed, c) \<leftarrow> findDestination (if_frame input) (if_participantId input) (if_playerSlot input) c;
     if (case committed of Some e \<Rightarrow> te_confirmed e | None \<Rightarrow> False) \<and> if_frame input < expectedFrame p
       then Some (Inl (withParticipant (if_participantId input) (lateInput input x (the committed)) c))
     else if if_frame input \<noteq> expectedFrame p \<and> \<not> allowRebase input p
       then Some (Inl (recordRejectedInput input ''non_sequential_frame'' c))
     else Some (Inr (x, c)) }"

definition admitInput ::
  "InputFrameData \<Rightarrow> NetplayInputFrame \<Rightarrow> ParticipantInfo \<Rightarrow> NetplayCoordinator \<Rightarrow> (NetplayCoordinator + NetplayInputFrame \<times> NetplayCoordinator) option" where
  "admitInput input x p c =
     (if \<not> participantHasAssignment p (if_playerSlot input)
        then Some (Inl (recordRejectedInput input (if participantIsObserver p then ''observer_assignment'' else ''unexpected_assignment'') c))
      else if co_hosting c \<and> pi_id p \<noteq> co_localParticipantId c \<and> pi_inputResumeAwaitingResync p
        then Some (Inl (recordRejectedInput input ''awaiting_resync'' c))
      else do {
        r \<leftarrow> checkSequence input x p c;
        case r of
          Inl c \<Rightarrow> Some (Inl c)
        | Inr (x, c) \<Rightarrow> do {
            r \<leftarrow> checkFrame input x p c;
            case r of
              Inl c \<Rightarrow> Some (Inl c)
            | Inr (x, c) \<Rightarrow> do {
                c \<leftarrow> backfillBefore input p c;
                Some (Inr (x, withParticipant (if_participantId input) (markReceived input) c)) }}})"

definition inputEntry :: "InputFrameData \<Rightarrow> NetplayInputFrame \<Rightarrow> TimelineInputEntry" where
  "inputEntry input x = \<lparr>te_frame = if_frame input, te_participantId = if_participantId input, te_playerSlot = if_playerSlot input,
     te_buttonMaskLo = if_buttonMaskLo input, te_buttonMaskHi = if_buttonMaskHi input, te_netplayFrame = x,
     te_sequence = if_sequence input, te_confirmed = True\<rparr>"

definition recordMissingInputGap :: "u32 \<Rightarrow> u8 \<Rightarrow> ParticipantInfo \<Rightarrow> ParticipantInfo" where
  "recordMissingInputGap missingFrame slot p = p\<lparr>pi_missingInputGapCount := pi_missingInputGapCount p + 1,
     pi_lastDecision := ascii ''Missing input gap'', pi_lastDecisionFrame := missingFrame, pi_lastDecisionSlot := slot\<rparr>"

text \<open>After an input was stored: note a gap, advance, note that a gap is closed.\<close>

definition noteGap :: "InputFrameData \<Rightarrow> ParticipantInfo \<Rightarrow> NetplayCoordinator \<Rightarrow> ParticipantInfo \<times> NetplayCoordinator" where
  "noteGap input p c =
     (let missingFrame = pi_lastContiguousInputFrame p + 1 in
      if if_frame input > missingFrame \<and> pi_pendingMissingInputFrom p \<noteq> Some missingFrame
      then (recordMissingInputGap missingFrame (if_playerSlot input) (p\<lparr>pi_pendingMissingInputFrom := Some missingFrame\<rparr>),
            c\<lparr>co_recoveryStats := stats_recordMissingInputGap missingFrame (if_playerSlot input) (co_recoveryStats c)\<rparr>)
      else (p, c))"

definition closeGap :: "ParticipantInfo \<Rightarrow> ParticipantInfo" where
  "closeGap p = (case pi_pendingMissingInputFrom p of
       Some f \<Rightarrow> if pi_lastContiguousInputFrame p \<ge> f then p\<lparr>pi_pendingMissingInputFrom := None\<rparr> else p
     | None \<Rightarrow> p)"

definition settleInput :: "InputFrameData \<Rightarrow> ParticipantInfo \<Rightarrow> NetplayCoordinator \<Rightarrow> NetplayCoordinator option" where
  "settleInput input p c =
     (let (p, c) = noteGap input p c
      in do {
        (p, c) \<leftarrow> advanceParticipantContiguousInputFrame p c;
        let p = closeGap p;
        let c = withParticipant (if_participantId input) (\<lambda>_. p) c;
        Some (c\<lparr>co_remoteInputStallMonitor :=
          snd (clearRecovered (pi_id p) (pi_lastContiguousInputFrame p) (co_remoteInputStallMonitor c))\<rparr>) })"

definition relayInput :: "int \<Rightarrow> nat \<Rightarrow> InputFrameData \<Rightarrow> bytes \<Rightarrow> NetplayCoordinator \<Rightarrow> NetplayCoordinator option" where
  "relayInput now peer input payload c =
     (if co_hosting c then
        let relayedInput = input\<lparr>if_authoritativeFrameStartClockMicros := authoritativeFrameStartClockMicros (if_frame input) c\<rparr>
        in publishConfirmedFramesIfReady now
             (c\<lparr>co_sent := co_sent c @ [BroadcastUnreliable Gameplay (buildInputFramePacket [(relayedInput, payload)]) peer]\<rparr>)
      else Some c)"

definition storeInput :: "InputFrameData \<Rightarrow> NetplayInputFrame \<Rightarrow> NetplayCoordinator \<Rightarrow> NetplayCoordinator option" where
  "storeInput input x c = do {
     c \<leftarrow> pushDestination (inputEntry input x) c;
     case findParticipant (co_room c) (if_participantId input) of
       None \<Rightarrow> Some c
     | Some p \<Rightarrow> settleInput input p c }"

text \<open>An input that was not rejected before its participant was looked up.\<close>

definition takeInput ::
  "int \<Rightarrow> nat \<Rightarrow> InputFrameData \<Rightarrow> bytes \<Rightarrow> NetplayInputFrame \<Rightarrow> NetplayCoordinator \<Rightarrow> (bool \<times> NetplayCoordinator) option" where
  "takeInput now peer input payload x c = do {
     r \<leftarrow> (case findParticipant (co_room c) (if_participantId input) of
            None \<Rightarrow> Some (Inr (x, c))
          | Some p \<Rightarrow> admitInput input x p c);
     case r of
       Inl c \<Rightarrow> Some (True, c)
     | Inr (x, c) \<Rightarrow> do {
         c \<leftarrow> storeInput input x c;
         c \<leftarrow> relayInput now peer input payload c;
         Some (True, c) }}"

definition handleInputFrameEntry ::
  "int \<Rightarrow> nat \<Rightarrow> InputFrameData \<Rightarrow> bytes \<Rightarrow> NetplayInputFrame \<Rightarrow> NetplayCoordinator \<Rightarrow> (bool \<times> NetplayCoordinator) option" where
  "handleInputFrameEntry now peer input payload x c =
     (let c = observeInput now input c; epoch = rs_timelineEpoch (co_room c) in
      if if_timelineEpoch input < epoch then
        let c = recordRejectedInput input ''stale_epoch'' c
        in Some (True, c\<lparr>co_room := (co_room c)\<lparr>rs_lastIgnoredStaleInputEpoch := if_timelineEpoch input,
             rs_staleInputPacketCount := rs_staleInputPacketCount (co_room c) + 1\<rparr>\<rparr>)
      else if if_timelineEpoch input > epoch then Some (False, recordRejectedInput input ''future_epoch'' c)
      else
        let c = c\<lparr>co_room := (co_room c)\<lparr>rs_lastAcceptedRemoteEpoch := if_timelineEpoch input\<rparr>\<rparr> in
        if if_playerSlot input = kObserverPlayerSlot then
          Some (True, withParticipant (if_participantId input)
            (\<lambda>p. if participantIsObserver p then p else rejected input ''observer_input_packet'' p) c)
        else if \<not> isPlayableSlot (co_room c) (if_playerSlot input) then Some (True, recordRejectedInput input ''invalid_slot'' c)
        else if rs_recoveryInputMode (co_room c) = ResyncLocked then
          Some (True, noteDroppedGameplayInputDuringRecovery (recordRejectedInput input ''recovery_locked'' c))
        else takeInput now peer input payload x c)"

subsection \<open>The client takes the word of the host\<close>

text \<open>\<open>entry->confirmed = true\<close> through the pointer that \<open>findMutable\<close> returned.\<close>

definition setConfirmed :: "TimelineInputEntry option \<Rightarrow> InputTimeline \<Rightarrow> InputTimeline option" where
  "setConfirmed e t = (case e of
       None \<Rightarrow> Some t
     | Some e \<Rightarrow> do {
         i \<leftarrow> tl_index t (makeKey e);
         assign i (e\<lparr>te_confirmed := True\<rparr>) t })"

definition confirmInput :: "u8 \<Rightarrow> u8 \<Rightarrow> u32 \<Rightarrow> InputTimeline \<Rightarrow> InputTimeline option" where
  "confirmInput participantId slot f t = do {
     (e, t) \<leftarrow> findMutable f participantId slot t;
     setConfirmed e t }"

definition handleInputAck :: "InputAckData \<Rightarrow> NetplayCoordinator \<Rightarrow> (bool \<times> NetplayCoordinator) option" where
  "handleInputAck ack c =
     (if ia_timelineEpoch ack < rs_timelineEpoch (co_room c) then Some (True, c)
      else if ia_timelineEpoch ack > rs_timelineEpoch (co_room c) then Some (False, c)
      else
        let c = c\<lparr>co_room := (co_room c)\<lparr>rs_lastAcceptedRemoteEpoch := ia_timelineEpoch ack\<rparr>\<rparr> in
        if ia_playerSlot ack = kObserverPlayerSlot \<or> \<not> isPlayableSlot (co_room c) (ia_playerSlot ack) then Some (True, c)
        else if rs_recoveryInputMode (co_room c) = ResyncLocked then Some (True, noteDroppedGameplayInputDuringRecovery c)
        else if co_hosting c \<or> ia_participantId ack \<noteq> co_localParticipantId c then Some (True, c)
        else
          let c = withParticipant (ia_participantId ack) (\<lambda>p. p\<lparr>
                pi_lastReceivedInputFrame := max (pi_lastReceivedInputFrame p) (ia_contiguousFrame ack),
                pi_lastContiguousInputFrame := max (pi_lastContiguousInputFrame p) (ia_contiguousFrame ack)\<rparr>) c
          in do {
            t \<leftarrow> frameLoop (confirmInput (ia_participantId ack) (ia_playerSlot ack)) 1 (ia_contiguousFrame ack) (co_localInputs c);
            Some (True, c\<lparr>co_localInputs := t\<rparr>) })"

text \<open>\<open>frame.buttonMaskLo[slotMask.slot] = slotMask.buttonMaskLo\<close> for every mask of the packet.\<close>

definition receivedFrame :: "u32 \<Rightarrow> ConfirmedInputFrameEntry \<Rightarrow> NetplayInputFrame \<Rightarrow> ConfirmedFrameInputs" where
  "receivedFrame f entry x = \<lparr>fi_frame = f, fi_authoritativeFrameStartClockMicros = ce_authoritativeFrameStartClockMicros entry,
     fi_buttonMaskLo = fold (\<lambda>m. ps_put (sm_slot m) (sm_buttonMaskLo m)) (ce_slotMasks entry) [],
     fi_buttonMaskHi = fold (\<lambda>m. ps_put (sm_slot m) (sm_buttonMaskHi m)) (ce_slotMasks entry) [], fi_netplayFrame = x\<rparr>"

fun storeReceived :: "nat \<Rightarrow> u32 \<Rightarrow> bytes \<Rightarrow> NetplayCoordinator \<Rightarrow> (bool \<times> NetplayCoordinator) option" where
  "storeReceived 0 f r c = Some (True, c)"
| "storeReceived (Suc n) f r c =
     (case readConfirmedEntry r of
        None \<Rightarrow> Some (False, c)
      | Some ((entry, payload), r) \<Rightarrow> do {
          x \<leftarrow> deserializeNetplayInputFrame payload;
          c \<leftarrow> storeConfirmedFrame (receivedFrame f entry x) c;
          storeReceived n (f + 1) r (noteClock f (ce_authoritativeFrameStartClockMicros entry) c) })"

definition confirmSlot :: "u32 \<Rightarrow> ConfirmedFrameInputs \<Rightarrow> u8 \<Rightarrow> NetplayCoordinator \<Rightarrow> NetplayCoordinator option" where
  "confirmSlot f x slot c = do {
     let i = co_localParticipantId c;
     (e, t) \<leftarrow> findMutable f i slot (co_localInputs c);
     (e, t) \<leftarrow> (if e = None \<and> f \<le> co_localSimulationFrame c
           then do {
             t \<leftarrow> tl_push \<lparr>te_frame = f, te_participantId = i, te_playerSlot = slot,
                    te_buttonMaskLo = ps_at 0 slot (fi_buttonMaskLo x), te_buttonMaskHi = ps_at 0 slot (fi_buttonMaskHi x),
                    te_netplayFrame = fi_netplayFrame x, te_sequence = co_localInputSequence c, te_confirmed = True\<rparr> t;
             findMutable f i slot t }
           else Some (e, t));
     t \<leftarrow> setConfirmed e t;
     Some (c\<lparr>co_localInputs := t\<rparr>) }"

fun confirmSlots :: "u32 \<Rightarrow> ConfirmedFrameInputs \<Rightarrow> u8 list \<Rightarrow> NetplayCoordinator \<Rightarrow> NetplayCoordinator option" where
  "confirmSlots f x [] c = Some c"
| "confirmSlots f x (slot # slots) c = do { c \<leftarrow> confirmSlot f x slot c; confirmSlots f x slots c }"

definition confirmFrame :: "u8 list \<Rightarrow> u32 \<Rightarrow> NetplayCoordinator \<Rightarrow> NetplayCoordinator option" where
  "confirmFrame slots f c = do {
     (x, c) \<leftarrow> findConfirmedFrame f c;
     case x of None \<Rightarrow> Some c | Some x \<Rightarrow> confirmSlots f x slots c }"

definition confirmLocal :: "u32 \<Rightarrow> u32 \<Rightarrow> NetplayCoordinator \<Rightarrow> NetplayCoordinator option" where
  "confirmLocal startFrame lastFrame c =
     (let i = co_localParticipantId c;
          c = c\<lparr>co_room := (co_room c)\<lparr>rs_lastConfirmedFrame := max (rs_lastConfirmedFrame (co_room c)) lastFrame\<rparr>\<rparr>
      in case findParticipant (co_room c) i of
           None \<Rightarrow> Some c
         | Some p \<Rightarrow>
             if participantIsObserver p then Some c
             else do {
               c \<leftarrow> frameLoop (confirmFrame (participantAssignments p)) startFrame lastFrame c;
               Some (withParticipant i (\<lambda>p. p\<lparr>pi_lastContiguousInputFrame := max (pi_lastContiguousInputFrame p) lastFrame,
                 pi_lastReceivedInputFrame := max (pi_lastReceivedInputFrame p) lastFrame\<rparr>) c) })"

definition handleConfirmedInputFrames :: "bytes \<Rightarrow> NetplayCoordinator \<Rightarrow> (bool \<times> NetplayCoordinator) option" where
  "handleConfirmedInputFrames r c =
     (case ConfirmedInputFramesData_deserialize r of
        None \<Rightarrow> Some (False, c)
      | Some (d, r) \<Rightarrow>
          if cf_timelineEpoch d < rs_timelineEpoch (co_room c) then Some (True, c)
          else if cf_timelineEpoch d > rs_timelineEpoch (co_room c) then Some (False, c)
          else
            let c = c\<lparr>co_room := (co_room c)\<lparr>rs_lastAcceptedRemoteEpoch := cf_timelineEpoch d\<rparr>\<rparr> in
            if rs_recoveryInputMode (co_room c) = ResyncLocked then Some (True, noteDroppedGameplayInputDuringRecovery c)
            else do {
              (stored, c) \<leftarrow> storeReceived (unat (cf_frameCount d)) (cf_startFrame d) r c;
              if \<not> stored then Some (False, c)
              else if cf_frameCount d > 0 then do {
                c \<leftarrow> confirmLocal (cf_startFrame d) (cf_startFrame d + (ucast (cf_frameCount d) - 1)) c;
                Some (True, c) }
              else Some (True, c) })"

fun handleEntries :: "int \<Rightarrow> nat \<Rightarrow> nat \<Rightarrow> bool \<Rightarrow> bytes \<Rightarrow> NetplayCoordinator \<Rightarrow> (bool \<times> NetplayCoordinator) option" where
  "handleEntries now peer 0 accepted r c = Some (accepted, c)"
| "handleEntries now peer (Suc n) accepted r c =
     (case readInputEntry r of
        None \<Rightarrow> Some (False, c)
      | Some ((input, payload), r) \<Rightarrow> do {
          x \<leftarrow> deserializeNetplayInputFrame payload;
          (ok, c) \<leftarrow> handleInputFrameEntry now peer input payload x c;
          handleEntries now peer n (ok \<and> accepted) r c })"

definition handleInputFrame :: "int \<Rightarrow> nat \<Rightarrow> bytes \<Rightarrow> NetplayCoordinator \<Rightarrow> (bool \<times> NetplayCoordinator) option" where
  "handleInputFrame now peer r c =
     (case readPod r of
        None \<Rightarrow> Some (False, c)
      | Some (entryCount, r) \<Rightarrow>
          if entryCount = 0 \<or> entryCount > kInputFrameRedundancyCount then Some (False, c)
          else handleEntries now peer (unat entryCount) True r c)"

end
