(* ===== verification/Net_Progress.thy ===== *)
theory Net_Progress
  imports Net_Gameplay
begin

text \<open>
  The input path of the coordinator always makes progress. The loops over frame numbers end unless their bound is the
  largest number; following complete frames ends since the timelines are bounded; so handling an input packet returns
  and keeps the state consistent. What the host publishes is a gapless sequence of complete frames.
\<close>

subsection \<open>Loops end\<close>

text \<open>A loop up to the largest frame number never ends, since its increment wraps around; every other one
  runs its body on each frame.\<close>

lemma frameLoop_diverges: "frameLoop body f (- 1) s = None"
proof -
  have "final \<noteq> - 1" if "frameLoop body f final s = Some r" for f final s r
    using that
  proof (rule frameLoop.raw_induct[rotated, where P = "\<lambda>_ _ final _ _. final \<noteq> - 1"])
  qed (auto split: if_splits bind_splits)
  then show ?thesis by (cases "frameLoop body f (- 1) s") auto
qed

lemma unat_next: "f \<noteq> - 1 \<Longrightarrow> unat (f + 1 :: u32) = Suc (unat f)"
  using unatSuc[of f] by (simp add: add.commute add_eq_0_iff)

lemma frameLoop_runs:
  assumes "\<And>g s. g \<le> final \<Longrightarrow> I g s \<Longrightarrow> \<exists>s'. body g s = Some s' \<and> I (g + 1) s'"
    and "final \<noteq> - 1" "f \<le> final + 1" "I f s"
  shows "\<exists>s'. frameLoop body f final s = Some s' \<and> I (final + 1) s'"
  using assms(3,4)
proof (induction "unat (final + 1) - unat f" arbitrary: f s)
  case 0
  then have "f = final + 1" by (simp add: word_le_nat_alt order_antisym word_unat_eq_iff)
  moreover have "\<not> final + 1 \<le> final" using assms(2) by (simp add: word_le_nat_alt unat_next)
  ultimately show ?case using 0 by (subst frameLoop.simps) simp
next
  case (Suc n)
  then have "f < final + 1" by (simp add: word_less_nat_alt)
  then have "f \<noteq> - 1" using word_order.extremum_strict[of "final + 1"] by auto
  then have u: "unat (f + 1) = Suc (unat f)" by (rule unat_next)
  have le: "f \<le> final" using \<open>f < final + 1\<close> assms(2) by (simp add: word_le_nat_alt word_less_nat_alt unat_next)
  obtain s' where s': "body f s = Some s'" "I (f + 1) s'" using assms(1)[OF le Suc.prems(2)] by blast
  have "f + 1 \<le> final + 1" using \<open>f < final + 1\<close> u by (simp add: word_le_nat_alt word_less_nat_alt)
  then show ?case using Suc.hyps(1)[of "f + 1" s'] Suc.hyps(2) s' le u by (subst frameLoop.simps) simp
qed

lemma advanceLoop_diverges: "advanceLoop [] p n c = None"
proof -
  have "slots \<noteq> []" if "advanceLoop slots p n c = Some r" for slots p n c r
    using that
  proof (rule advanceLoop.raw_induct[rotated, where P = "\<lambda>slots _ _ _ _. slots \<noteq> []"])
    fix loop :: "u8 list \<Rightarrow> u8 \<Rightarrow> u32 \<Rightarrow> NetplayCoordinator \<Rightarrow> (u32 \<times> NetplayCoordinator) option" and slots p n c r
    assume IH: "\<And>slots p n c r. loop slots p n c = Some r \<Longrightarrow> slots \<noteq> []"
      and "(do { (allThere, c) \<leftarrow> haveAllAssignments slots (n + 1) p c;
              if allThere then loop slots p (n + 1) c else Some (n, c) }) = Some r"
    then show "slots \<noteq> []" using IH[of "[]" p "n + 1" c] by (cases slots) auto
  qed
  then show ?thesis by (metis not_None_eq)
qed

text \<open>A participant's inputs of a frame are complete: there is a confirmed entry for each of its slots.\<close>

definition complete :: "u8 list \<Rightarrow> u8 \<Rightarrow> u32 \<Rightarrow> TimelineInputEntry list \<Rightarrow> bool" where
  "complete slots p f es \<longleftrightarrow>
     (\<forall>slot \<in> set slots. \<exists>e \<in> set es. te_frame e = f \<and> te_participantId e = p \<and> te_playerSlot e = slot \<and> te_confirmed e)"

lemma find_in: "List.find P xs = Some x \<Longrightarrow> x \<in> set xs"
  by (auto simp: find_Some_iff)

lemma unique_entry:
  assumes "distinct (map makeKey es)" "List.find (\<lambda>e. te_frame e = f \<and> te_participantId e = p \<and> te_playerSlot e = s) es = Some x"
  shows "x \<in> set es \<and> te_frame x = f \<and> te_participantId x = p \<and> te_playerSlot x = s"
    "e \<in> set es \<Longrightarrow> te_frame e = f \<Longrightarrow> te_participantId e = p \<Longrightarrow> te_playerSlot e = s \<Longrightarrow> e = x"
proof -
  show x: "x \<in> set es \<and> te_frame x = f \<and> te_participantId x = p \<and> te_playerSlot x = s"
    using assms(2) by (auto simp: find_Some_iff)
  show "e \<in> set es \<Longrightarrow> te_frame e = f \<Longrightarrow> te_participantId e = p \<Longrightarrow> te_playerSlot e = s \<Longrightarrow> e = x"
    using assms(1) x by (auto simp: distinct_map makeKey_def inj_on_def)
qed

lemma found_confirmed:
  assumes "distinct (map makeKey es)"
  shows "(case List.find (\<lambda>e. te_frame e = f \<and> te_participantId e = p \<and> te_playerSlot e = s) es of
      Some e \<Rightarrow> te_confirmed e | None \<Rightarrow> False) \<longleftrightarrow>
    (\<exists>e \<in> set es. te_frame e = f \<and> te_participantId e = p \<and> te_playerSlot e = s \<and> te_confirmed e)"
proof (cases "List.find (\<lambda>e. te_frame e = f \<and> te_participantId e = p \<and> te_playerSlot e = s) es")
  case None
  moreover from None have "\<not> (\<exists>e \<in> set es. te_frame e = f \<and> te_participantId e = p \<and> te_playerSlot e = s)"
    by (auto simp: find_None_iff)
  ultimately show ?thesis by auto
next
  case (Some x)
  show ?thesis using unique_entry[OF assms Some] Some by auto
qed

lemma same_timeline: "same_inputs c c' \<Longrightarrow> tl_entries (timelineOf c' p) = tl_entries (timelineOf c p)"
  by (simp add: same_inputs_def timelineOf_def tl_entries_def link_def)

lemma coordinator_timeline: "coordinator_ok c \<Longrightarrow> timeline_ok (timelineOf c p)"
  by (simp add: coordinator_ok_def timelineOf_def)

lemma timeline_distinct: "timeline_ok t \<Longrightarrow> distinct (map makeKey (tl_entries t))"
  by (simp add: timeline_ok_def linked_def)

lemma same_inputs_refl: "same_inputs c c"
  by (simp add: same_inputs_def)

lemma haveAllAssignments_ok:
  assumes "coordinator_ok c"
  shows "\<exists>c'. haveAllAssignments slots f p c = Some (complete slots p f (tl_entries (timelineOf c p)), c') \<and>
     coordinator_ok c' \<and> same_inputs c c'"
  using assms
proof (induction slots arbitrary: c)
  case Nil
  then show ?case by (simp add: complete_def same_inputs_refl)
next
  case (Cons slot slots)
  let ?es = "tl_entries (timelineOf c p)"
  let ?e = "List.find (\<lambda>e. te_frame e = f \<and> te_participantId e = p \<and> te_playerSlot e = slot) ?es"
  obtain d where d: "findInput f p slot c = Some (?e, d)" "coordinator_ok d" "same_inputs c d"
    using findInput_ok[OF Cons.prems, of f p slot] by blast
  obtain c' where c': "haveAllAssignments slots f p d = Some (complete slots p f ?es, c')" "coordinator_ok c'" "same_inputs d c'"
    using Cons.IH[OF d(2)] same_timeline[OF d(3)] by metis
  have found: "(case ?e of Some e \<Rightarrow> te_confirmed e | None \<Rightarrow> False) \<longleftrightarrow>
      (\<exists>e \<in> set ?es. te_frame e = f \<and> te_participantId e = p \<and> te_playerSlot e = slot \<and> te_confirmed e)"
    by (rule found_confirmed) (rule timeline_distinct[OF coordinator_timeline[OF Cons.prems]])
  show ?case
  proof (cases "case ?e of Some e \<Rightarrow> te_confirmed e | None \<Rightarrow> False")
    case True
    then have "haveAllAssignments (slot # slots) f p c = Some (complete slots p f ?es, c')"
      using d(1) c'(1) by (cases ?e) simp_all
    moreover have "complete (slot # slots) p f ?es = complete slots p f ?es" using True found by (simp add: complete_def)
    ultimately show ?thesis using c'(2) same_inputs_trans[OF d(3) c'(3)] by simp
  next
    case False
    then have "haveAllAssignments (slot # slots) f p c = Some (False, d)"
      using d(1) by (cases ?e) simp_all
    moreover have "\<not> complete (slot # slots) p f ?es" using False found by (simp add: complete_def)
    ultimately show ?thesis using d(2,3) by simp
  qed
qed

text \<open>A bounded timeline cannot hold an input for every frame number, so the loop that follows the complete
  frames ends, at the first that is not complete.\<close>

lemma incomplete_frame:
  assumes "timeline_ok t" "tl_capacity t < 2 ^ 32" "slots \<noteq> []"
  shows "\<exists>f. \<not> complete slots p f (tl_entries t)"
proof (rule ccontr)
  assume all: "\<not> (\<exists>f. \<not> complete slots p f (tl_entries t))"
  have "\<exists>e \<in> set (tl_entries t). te_frame e = f" for f
    using all list.set_sel(1)[OF assms(3)] unfolding complete_def by metis
  then have "te_frame ` set (tl_entries t) = UNIV" by (metis UNIV_eq_I image_eqI)
  moreover have "card (te_frame ` set (tl_entries t)) \<le> length (tl_entries t)"
    using card_image_le[of "set (tl_entries t)" te_frame] card_length[of "tl_entries t"] by simp
  moreover have "length (tl_entries t) < 2 ^ 32" using assms(1,2) by (simp add: timeline_ok_def tl_entries_def)
  ultimately show False by (simp add: card_word)
qed

lemma advanceLoop_steps:
  assumes "coordinator_ok c" "\<forall>j < k. complete slots p (n + of_nat j + 1) (tl_entries (timelineOf c p))"
    and "\<not> complete slots p (n + of_nat k + 1) (tl_entries (timelineOf c p))"
  shows "\<exists>c'. advanceLoop slots p n c = Some (n + of_nat k, c') \<and> coordinator_ok c' \<and> same_inputs c c'"
  using assms
proof (induction k arbitrary: n c)
  case 0
  then show ?case using haveAllAssignments_ok[OF 0(1), of slots "n + 1" p] by (subst advanceLoop.simps) force
next
  case (Suc k)
  obtain d where d: "haveAllAssignments slots (n + 1) p c = Some (True, d)" "coordinator_ok d" "same_inputs c d"
    using haveAllAssignments_ok[OF Suc.prems(1), of slots "n + 1" p] Suc.prems(2) by force
  have "complete slots p (n + 1 + of_nat j + 1) (tl_entries (timelineOf d p))" if "j < k" for j
    using Suc.prems(2)[rule_format, of "Suc j"] that same_timeline[OF d(3)] by (simp add: add.assoc add.commute add.left_commute)
  then obtain c' where "advanceLoop slots p (n + 1) d = Some (n + 1 + of_nat k, c')" "coordinator_ok c'" "same_inputs d c'"
    using Suc.IH[OF d(2), of "n + 1"] Suc.prems(3) same_timeline[OF d(3)] by (auto simp: add.assoc add.commute add.left_commute)
  then show ?case using d same_inputs_trans[OF d(3)]
    by (subst advanceLoop.simps) (auto simp: add.assoc add.commute add.left_commute)
qed

lemma advanceLoop_ends:
  assumes "coordinator_ok c" "tl_capacity (timelineOf c p) < 2 ^ 32" "slots \<noteq> []"
  shows "\<exists>k c'. advanceLoop slots p n c = Some (n + of_nat k, c') \<and> coordinator_ok c' \<and> same_inputs c c' \<and>
    (\<forall>j < k. complete slots p (n + of_nat j + 1) (tl_entries (timelineOf c p))) \<and>
    \<not> complete slots p (n + of_nat k + 1) (tl_entries (timelineOf c p))"
proof -
  let ?open = "\<lambda>k. \<not> complete slots p (n + of_nat k + 1) (tl_entries (timelineOf c p))"
  obtain f where "\<not> complete slots p f (tl_entries (timelineOf c p))"
    using incomplete_frame[OF coordinator_timeline[OF assms(1)] assms(2,3)] by blast
  then have "?open (unat (f - n - 1))" by simp
  then have "?open (LEAST k. ?open k)" "\<forall>j < (LEAST k. ?open k). \<not> ?open j"
    using LeastI[of ?open] not_less_Least[of _ ?open] by blast+
  then show ?thesis using advanceLoop_steps[OF assms(1), of "LEAST k. ?open k" slots p n] by blast
qed

subsection \<open>The confirmed inputs of the client\<close>

lemma findMutable_ok:
  assumes "timeline_ok t"
  shows "\<exists>t'. findMutable f p s t = Some (List.find (\<lambda>e. te_frame e = f \<and> te_participantId e = p \<and> te_playerSlot e = s) (tl_entries t), t') \<and>
     timeline_ok t' \<and> tl_nodes t' = tl_nodes t \<and> tl_capacity t' = tl_capacity t"
  using assms lookup_effect[of t True "\<lparr>ek_frame = f, ek_participantId = p, ek_playerSlot = s\<rparr>"]
  by (auto simp: findMutable_def timeline_ok_def makeKey_def)

lemma setConfirmed_ok:
  assumes "timeline_ok t" "\<And>x. e = Some x \<Longrightarrow> x \<in> set (tl_entries t)"
  shows "\<exists>t'. setConfirmed e t = Some t' \<and> timeline_ok t' \<and> tl_capacity t' = tl_capacity t \<and>
    tl_entries t' = map (\<lambda>y. if e = Some y then y\<lparr>te_confirmed := True\<rparr> else y) (tl_entries t)"
proof (cases e)
  case (Some x)
  let ?x = "x\<lparr>te_confirmed := True\<rparr>"
  have l: "linked t" using assms(1) by (simp add: timeline_ok_def)
  have k: "makeKey ?x = makeKey x" by (simp add: makeKey_def)
  obtain i where i: "tl_index t (makeKey ?x) = Some i" using linked_None[OF l, of "makeKey ?x"] assms(2)[OF Some] k by fastforce
  obtain t' where t': "assign i ?x t = Some t'" "linked t'" "tl_capacity t' = tl_capacity t"
      "tl_entries t' = map (\<lambda>y. if makeKey y = makeKey ?x then ?x else y) (tl_entries t)"
    using linked_assign[OF l i] by blast
  have "makeKey y = makeKey x \<longleftrightarrow> y = x" if "y \<in> set (tl_entries t)" for y
    using that assms(2)[OF Some] timeline_distinct[OF assms(1)] by (auto simp: distinct_map inj_on_def)
  then have "tl_entries t' = map (\<lambda>y. if e = Some y then y\<lparr>te_confirmed := True\<rparr> else y) (tl_entries t)"
    using t'(4) k Some by (auto intro!: map_cong)
  moreover have "length (tl_nodes t') = length (tl_nodes t)" using arg_cong[OF t'(4), of length] by (simp add: tl_entries_def)
  ultimately show ?thesis using t' i k Some assms(1) by (simp add: setConfirmed_def timeline_ok_def)
qed (use assms in \<open>simp add: setConfirmed_def\<close>)

lemma confirmInput_ok:
  assumes "timeline_ok t"
  shows "\<exists>t'. confirmInput p s f t = Some t' \<and> timeline_ok t' \<and> tl_capacity t' = tl_capacity t \<and>
    tl_entries t' = map (\<lambda>e. if te_frame e = f \<and> te_participantId e = p \<and> te_playerSlot e = s then e\<lparr>te_confirmed := True\<rparr> else e) (tl_entries t)"
proof -
  let ?P = "\<lambda>e. te_frame e = f \<and> te_participantId e = p \<and> te_playerSlot e = s"
  let ?e = "List.find ?P (tl_entries t)"
  obtain u where u: "findMutable f p s t = Some (?e, u)" "timeline_ok u" "tl_nodes u = tl_nodes t" "tl_capacity u = tl_capacity t"
    using findMutable_ok[OF assms] by blast
  have es: "tl_entries u = tl_entries t" by (simp add: tl_entries_def u(3))
  have found: "?e = Some y \<longleftrightarrow> ?P y" if "y \<in> set (tl_entries t)" for y
  proof
    show "?e = Some y \<Longrightarrow> ?P y" by (auto simp: find_Some_iff)
    assume y: "?P y"
    then have "?e \<noteq> None" using that by (auto simp: find_None_iff)
    then show "?e = Some y" using unique_entry(2)[OF timeline_distinct[OF assms], of f p s] that y by force
  qed
  have "y \<in> set (tl_entries u)" if "?e = Some y" for y using find_in[OF that] es by simp
  from setConfirmed_ok[OF u(2) this] obtain t' where "setConfirmed ?e u = Some t'" "timeline_ok t'" "tl_capacity t' = tl_capacity u"
      "tl_entries t' = map (\<lambda>y. if ?e = Some y then y\<lparr>te_confirmed := True\<rparr> else y) (tl_entries u)" by blast
  then show ?thesis using u es found by (simp add: confirmInput_def cong: map_cong)
qed

lemma confirm_frames:
  assumes "timeline_ok t" "final \<noteq> - 1"
  shows "\<exists>t'. frameLoop (confirmInput p s) 1 final t = Some t' \<and> timeline_ok t' \<and> tl_capacity t' = tl_capacity t \<and>
    tl_entries t' = map (\<lambda>e. if 1 \<le> te_frame e \<and> te_frame e \<le> final \<and> te_participantId e = p \<and> te_playerSlot e = s
      then e\<lparr>te_confirmed := True\<rparr> else e) (tl_entries t)"
proof -
  define I where "I f t' \<longleftrightarrow> timeline_ok t' \<and> tl_capacity t' = tl_capacity t \<and>
    tl_entries t' = map (\<lambda>e. if 1 \<le> te_frame e \<and> te_frame e < f \<and> te_participantId e = p \<and> te_playerSlot e = s
      then e\<lparr>te_confirmed := True\<rparr> else e) (tl_entries t)" for f :: u32 and t'
  have lt: "(a < g + 1) = (a \<le> g)" if "g \<le> final" for a g :: u32
  proof -
    have "g \<noteq> - 1" using that assms(2) word_order.extremum_unique[of g] by (auto simp: word_order.extremum_unique)
    then show ?thesis by (simp add: word_less_nat_alt word_le_nat_alt unat_next less_Suc_eq_le)
  qed
  have step: "\<exists>t''. confirmInput p s g t' = Some t'' \<and> I (g + 1) t''" if g: "g \<le> final" "1 \<le> g \<and> I g t'" for g t'
  proof -
    have ok: "timeline_ok t'" using g by (simp add: I_def)
    show ?thesis using confirmInput_ok[OF ok, of p s g] g lt[OF g(1)]
      by (auto simp: I_def intro!: map_cong)
  qed
  have pos: "1 \<le> g + 1" if "g \<le> final" for g :: u32
    using lt[OF that, of 0] by (simp add: word_le_nat_alt unat_gt_0 Suc_le_eq)
  have "I 1 t" using assms(1) by (auto simp: I_def intro!: map_idI[symmetric])
  then obtain t' where "frameLoop (confirmInput p s) 1 final t = Some t'" "I (final + 1) t'"
    using frameLoop_runs[of final "\<lambda>g t'. 1 \<le> g \<and> I g t'" "confirmInput p s" 1 t, OF _ assms(2)] step pos by blast
  then show ?thesis using lt[of final] by (simp add: I_def)
qed

definition ackTaken :: "InputAckData \<Rightarrow> NetplayCoordinator \<Rightarrow> bool" where
  "ackTaken ack c \<longleftrightarrow> ia_timelineEpoch ack = rs_timelineEpoch (co_room c) \<and> ia_playerSlot ack \<noteq> kObserverPlayerSlot \<and>
     isPlayableSlot (co_room c) (ia_playerSlot ack) \<and> rs_recoveryInputMode (co_room c) \<noteq> ResyncLocked \<and>
     \<not> co_hosting c \<and> ia_participantId ack = co_localParticipantId c"

definition acknowledged :: "InputAckData \<Rightarrow> TimelineInputEntry \<Rightarrow> TimelineInputEntry" where
  "acknowledged ack e =
     (if 1 \<le> te_frame e \<and> te_frame e \<le> ia_contiguousFrame ack \<and> te_participantId e = ia_participantId ack \<and>
         te_playerSlot e = ia_playerSlot ack then e\<lparr>te_confirmed := True\<rparr> else e)"

lemma isPlayableSlot_epoch [simp]: "isPlayableSlot (r\<lparr>rs_lastAcceptedRemoteEpoch := e\<rparr>) s = isPlayableSlot r s"
  by (simp add: isPlayableSlot_def availableInputAssignments_def)

lemma ack_handled:
  assumes "coordinator_ok c" "ackTaken ack c"
  shows "ia_contiguousFrame ack = - 1 \<Longrightarrow> handleInputAck ack c = None"
    and "ia_contiguousFrame ack \<noteq> - 1 \<Longrightarrow> \<exists>c'. handleInputAck ack c = Some (True, c') \<and> coordinator_ok c' \<and>
      co_remoteInputs c' = co_remoteInputs c \<and> tl_entries (co_localInputs c') = map (acknowledged ack) (tl_entries (co_localInputs c))"
proof -
  define d where "d = withParticipant (ia_participantId ack) (\<lambda>p. p\<lparr>
      pi_lastReceivedInputFrame := max (pi_lastReceivedInputFrame p) (ia_contiguousFrame ack),
      pi_lastContiguousInputFrame := max (pi_lastContiguousInputFrame p) (ia_contiguousFrame ack)\<rparr>)
    (c\<lparr>co_room := (co_room c)\<lparr>rs_lastAcceptedRemoteEpoch := ia_timelineEpoch ack\<rparr>\<rparr>)"
  have d: "co_localInputs d = co_localInputs c" "co_remoteInputs d = co_remoteInputs c" "co_confirmed d = co_confirmed c"
    by (simp_all add: d_def withParticipant_def)
  have run: "handleInputAck ack c = do {
      t \<leftarrow> frameLoop (confirmInput (ia_participantId ack) (ia_playerSlot ack)) 1 (ia_contiguousFrame ack) (co_localInputs c);
      Some (True, d\<lparr>co_localInputs := t\<rparr>) }"
    using assms(2) by (simp add: handleInputAck_def ackTaken_def Let_def d_def withParticipant_def)
  show "ia_contiguousFrame ack = - 1 \<Longrightarrow> handleInputAck ack c = None"
    by (simp add: run frameLoop_diverges)
  have t: "timeline_ok (co_localInputs c)" using assms(1) by (simp add: coordinator_ok_def)
  assume "ia_contiguousFrame ack \<noteq> - 1"
  from confirm_frames[OF t this, of "ia_participantId ack" "ia_playerSlot ack"]
  show "\<exists>c'. handleInputAck ack c = Some (True, c') \<and> coordinator_ok c' \<and> co_remoteInputs c' = co_remoteInputs c \<and>
      tl_entries (co_localInputs c') = map (acknowledged ack) (tl_entries (co_localInputs c))"
    using assms(1) d by (auto simp: run coordinator_ok_def acknowledged_def[abs_def])
qed

lemma ack_ignored:
  assumes "coordinator_ok c" "\<not> ackTaken ack c"
  shows "\<exists>c'. handleInputAck ack c = Some (ia_timelineEpoch ack \<le> rs_timelineEpoch (co_room c), c') \<and> coordinator_ok c' \<and>
    co_remoteInputs c' = co_remoteInputs c \<and> co_localInputs c' = co_localInputs c"
  using assms by (auto simp: handleInputAck_def ackTaken_def Let_def noteDroppedGameplayInputDuringRecovery_def coordinator_ok_def not_less)

subsection \<open>No packet of inputs stops the coordinator\<close>

text \<open>What the operations on inputs leave alone.\<close>

definition ident :: "NetplayCoordinator \<Rightarrow> _" where
  "ident c = (link c, co_lastBroadcastConfirmedFrame c, rs_timelineEpoch (co_room c), rs_sessionId (co_room c))"

definition limits :: "NetplayCoordinator \<Rightarrow> _" where
  "limits c = (tl_capacity (co_localInputs c), tl_capacity (co_remoteInputs c), co_localSimulationFrame c, ident c)"

definition frames_ok :: "NetplayCoordinator \<Rightarrow> bool" where
  "frames_ok c \<longleftrightarrow> coordinator_ok c \<and> tl_capacity (co_localInputs c) < 2 ^ 32 \<and> tl_capacity (co_remoteInputs c) < 2 ^ 32 \<and>
     co_localSimulationFrame c \<noteq> - 1"

lemma frames_cong:
  assumes "co_localInputs c' = co_localInputs c" "co_remoteInputs c' = co_remoteInputs c" "co_confirmed c' = co_confirmed c"
    "co_localSimulationFrame c' = co_localSimulationFrame c"
  shows "frames_ok c' = frames_ok c"
  using assms by (simp add: frames_ok_def coordinator_ok_def)

lemma frames_fields [simp]: "frames_ok (c\<lparr>co_room := r\<rparr>) = frames_ok c" "frames_ok (c\<lparr>co_sent := ds\<rparr>) = frames_ok c"
  "frames_ok (c\<lparr>co_lastBroadcastConfirmedFrame := f\<rparr>) = frames_ok c" "frames_ok (c\<lparr>co_recoveryStats := s\<rparr>) = frames_ok c"
  "frames_ok (c\<lparr>co_remoteInputStallMonitor := m\<rparr>) = frames_ok c" "frames_ok (c\<lparr>co_lastRemoteInputAt := a\<rparr>) = frames_ok c"
  "frames_ok (c\<lparr>co_lastGameplayInputAt := a\<rparr>) = frames_ok c"
  "frames_ok (c\<lparr>co_authoritativeFrameStartClockOrder := fs\<rparr>) = frames_ok c"
  "frames_ok (c\<lparr>co_authoritativeFrameStartClockMicros := ms\<rparr>) = frames_ok c"
  by (rule frames_cong; simp)+

lemma frames_limits: "coordinator_ok c' \<Longrightarrow> limits c' = limits c \<Longrightarrow> frames_ok c \<Longrightarrow> frames_ok c'"
  by (simp add: frames_ok_def limits_def)

lemma frames_timeline: "frames_ok c \<Longrightarrow> coordinator_ok c \<and> tl_capacity (timelineOf c p) < 2 ^ 32"
  by (simp add: frames_ok_def timelineOf_def)

lemma find_limits: "tl_find f p s t = Some (e, t') \<Longrightarrow> tl_capacity t' = tl_capacity t"
  by (auto simp: tl_find_def tl_lookup_def split: option.splits bind_splits)

lemma findInput_limits: "findInput f p s c = Some (e, c') \<Longrightarrow> limits c' = limits c"
  by (auto simp: findInput_def limits_def ident_def link_def split: if_splits dest: find_limits)

lemma haveAllAssignments_limits: "haveAllAssignments slots f p c = Some (b, c') \<Longrightarrow> limits c' = limits c"
proof (induction slots arbitrary: c)
  case (Cons slot slots)
  then obtain e d where "findInput f p slot c = Some (e, d)" by (auto split: bind_splits)
  with Cons show ?case using findInput_limits[of f p slot c e d] by (auto split: option.splits if_splits)
qed simp

lemma advanceLoop_limits:
  assumes "advanceLoop slots p n c = Some (m, c')"
  shows "limits c' = limits c"
proof -
  have "limits (snd (m, c')) = limits c"
  proof (rule advanceLoop.raw_induct[where P = "\<lambda>_ _ _ c r. limits (snd r) = limits c", OF _ assms])
    fix loop :: "u8 list \<Rightarrow> u8 \<Rightarrow> u32 \<Rightarrow> NetplayCoordinator \<Rightarrow> (u32 \<times> NetplayCoordinator) option" and slots p n c r
    assume IH: "\<And>slots p n c r. loop slots p n c = Some r \<Longrightarrow> limits (snd r) = limits c"
      and r: "(do { (allThere, c) \<leftarrow> haveAllAssignments slots (n + 1) p c;
              if allThere then loop slots p (n + 1) c else Some (n, c) }) = Some r"
    then obtain b d where d: "haveAllAssignments slots (n + 1) p c = Some (b, d)" by (auto split: bind_splits)
    then show "limits (snd r) = limits c"
      using r IH[of slots p "n + 1" d r] haveAllAssignments_limits[OF d] by (auto split: if_splits)
  qed
  then show ?thesis by simp
qed

lemma advance_ok:
  assumes "frames_ok c" "participantAssignments p \<noteq> []"
  shows "\<exists>n c'. advanceParticipantContiguousInputFrame p c = Some (p\<lparr>pi_lastContiguousInputFrame := n\<rparr>, c') \<and> frames_ok c' \<and>
    same_inputs c c' \<and> ident c' = ident c"
proof -
  obtain n c' where c': "advanceLoop (participantAssignments p) (pi_id p) (pi_lastContiguousInputFrame p) c = Some (n, c')"
      "coordinator_ok c'" "same_inputs c c'"
    using advanceLoop_ends[of c "pi_id p" "participantAssignments p" "pi_lastContiguousInputFrame p"]
      frames_timeline[OF assms(1)] assms(2) by blast
  then show ?thesis using frames_limits[OF c'(2) advanceLoop_limits[OF c'(1)] assms(1)] advanceLoop_limits[OF c'(1)]
    by (auto simp: advanceParticipantContiguousInputFrame_def limits_def)
qed

lemma frameLoop_keeps:
  assumes "\<And>g s. I s \<Longrightarrow> \<exists>s'. body g s = Some s' \<and> I s'" "final \<noteq> - 1" "I s"
  shows "\<exists>s'. frameLoop body f final s = Some s' \<and> I s'"
proof (cases "f \<le> final")
  case True
  then have "f \<le> final + 1" using assms(2) by (simp add: word_le_nat_alt unat_next)
  with frameLoop_runs[of final "\<lambda>_. I" body f s, OF _ assms(2)] assms(1,3) show ?thesis by blast
next
  case False
  then show ?thesis using assms(3) by (subst frameLoop.simps) simp
qed

text \<open>Storing an input and looking for it.\<close>

lemma log_push_in: "n > 0 \<Longrightarrow> e \<in> set (log_push n e es)"
  by (auto simp: log_push_def image_iff)

lemma push_find_ok:
  assumes "timeline_ok t"
  shows "\<exists>y v. (do { t \<leftarrow> tl_push x t; tl_find f p s t }) = Some (y, v) \<and> timeline_ok v \<and> tl_capacity v = tl_capacity t \<and>
    (tl_capacity t > 0 \<and> te_frame x = f \<and> te_participantId x = p \<and> te_playerSlot x = s \<longrightarrow>
      (\<exists>e. y = Some e \<and> te_participantId e = p \<and> te_playerSlot e = s))"
proof -
  let ?P = "\<lambda>e. te_frame e = f \<and> te_participantId e = p \<and> te_playerSlot e = s"
  obtain u where u: "tl_push x t = Some u" "timeline_ok u" "tl_capacity u = tl_capacity t"
      "tl_entries u = log_push (tl_capacity t) x (tl_entries t)"
    using push_refines[OF assms] by blast
  obtain v where v: "tl_find f p s u = Some (List.find ?P (tl_entries u), v)" "timeline_ok v" "tl_capacity v = tl_capacity u"
    using find_ok[OF u(2)] by blast
  have "\<exists>e. List.find ?P (tl_entries u) = Some e \<and> te_participantId e = p \<and> te_playerSlot e = s" if "tl_capacity t > 0" "?P x"
  proof (cases "List.find ?P (tl_entries u)")
    case None
    then have "\<not> ?P x" using log_push_in[OF that(1), of x "tl_entries t"] u(4) by (auto simp: find_None_iff)
    then show ?thesis using that(2) by blast
  next
    case (Some e)
    then show ?thesis by (auto simp: find_Some_iff)
  qed
  with u v show ?thesis by simp
qed

lemma backfillFrame_ok:
  assumes "timeline_ok t"
  shows "\<exists>l' t'. backfillFrame p s f (l, t) = Some (l', t') \<and> timeline_ok t' \<and> tl_capacity t' = tl_capacity t"
proof -
  obtain e u where u: "tl_find f p s t = Some (e, u)" "timeline_ok u" "tl_capacity u = tl_capacity t"
    using find_ok[OF assms, of f p s] by blast
  then show ?thesis using push_find_ok[OF u(2), of _ f p s] by (simp add: backfillFrame_def Let_def) blast
qed

lemma backfill_ok:
  assumes "timeline_ok t" "endFrame \<noteq> - 1"
  shows "\<exists>t'. backfillConfirmedRemoteInputGap p s startFrame endFrame t = Some t' \<and> timeline_ok t' \<and> tl_capacity t' = tl_capacity t"
proof -
  have "\<exists>r. frameLoop (backfillFrame p s) startFrame endFrame (latestConfirmedFor p s t, t) = Some r \<and>
      timeline_ok (snd r) \<and> tl_capacity (snd r) = tl_capacity t"
    by (rule frameLoop_keeps) (use assms backfillFrame_ok in \<open>force+\<close>)
  then show ?thesis using assms(1) by (auto simp: backfillConfirmedRemoteInputGap_def)
qed

text \<open>The pointer to the latest confirmed input stays valid while inputs are made up.\<close>

lemma synthesizeFrame_ok:
  assumes "timeline_ok t" "tl_capacity t > 0" "te_participantId l = p" "te_playerSlot l = s"
  shows "\<exists>l' t'. synthesizeFrame p s f (Some l, t) = Some (Some l', t') \<and> timeline_ok t' \<and> tl_capacity t' = tl_capacity t \<and>
    te_participantId l' = p \<and> te_playerSlot l' = s"
proof -
  obtain e u where u: "tl_find f p s t = Some (e, u)" "timeline_ok u" "tl_capacity u = tl_capacity t"
    using find_ok[OF assms(1), of f p s] by blast
  let ?x = "keepSequence e (repeatInput s f l)"
  have "te_frame ?x = f" "te_participantId ?x = p" "te_playerSlot ?x = s"
    using assms(3,4) by (simp_all add: keepSequence_def repeatInput_def Let_def split: option.splits)
  then show ?thesis using push_find_ok[OF u(2), of ?x f p s] u assms by (auto simp: synthesizeFrame_def)
qed

lemma latest_entry:
  assumes "latestConfirmedFor p s t = Some l"
  shows "l \<in> set (tl_entries t)" "te_participantId l = p" "te_playerSlot l = s"
  using assms nth_mem[of _ "rev (tl_entries t)"] by (auto simp: latestConfirmedFor_def find_Some_iff)

lemma synthesizeSlots_ok:
  assumes "frames_ok c" "target \<noteq> - 1"
  shows "\<exists>c'. synthesizeSlots p first target slots c = Some c' \<and> frames_ok c' \<and> ident c' = ident c"
  using assms(1)
proof (induction slots arbitrary: c)
  case (Cons s slots)
  have t: "timeline_ok (co_remoteInputs c)" using Cons.prems by (simp add: frames_ok_def coordinator_ok_def)
  show ?case
  proof (cases "latestConfirmedFor p s (co_remoteInputs c)")
    case (Some l)
    note l = latest_entry[OF Some]
    have pos: "tl_capacity (co_remoteInputs c) > 0"
      using l(1) t by (cases "tl_nodes (co_remoteInputs c)") (simp_all add: timeline_ok_def tl_entries_def)
    define I where "I r \<longleftrightarrow> (\<exists>l. fst r = Some l \<and> te_participantId l = p \<and> te_playerSlot l = s) \<and> timeline_ok (snd r) \<and>
      tl_capacity (snd r) = tl_capacity (co_remoteInputs c)" for r :: "TimelineInputEntry option \<times> InputTimeline"
    have "\<exists>r'. synthesizeFrame p s f r = Some r' \<and> I r'" if "I r" for f r
      using that synthesizeFrame_ok[of "snd r" _ p s f] pos by (cases r) (force simp: I_def)
    then obtain r where "frameLoop (synthesizeFrame p s) first target (Some l, co_remoteInputs c) = Some r" "I r"
      using frameLoop_keeps[of I "synthesizeFrame p s" target "(Some l, co_remoteInputs c)" first] assms(2) l t by (auto simp: I_def)
    moreover from this have "frames_ok (c\<lparr>co_remoteInputs := snd r\<rparr>)"
      using Cons.prems by (simp add: I_def frames_ok_def coordinator_ok_def)
    moreover have "ident (c\<lparr>co_remoteInputs := snd r\<rparr>) = ident c" by (simp add: ident_def link_def)
    ultimately show ?thesis using Some Cons.IH[of "c\<lparr>co_remoteInputs := snd r\<rparr>"] by (cases r) simp
  qed (use Cons in simp)
qed simp

lemma observer_assignments: "participantIsObserver p \<longleftrightarrow> participantAssignments p = []"
  by (simp add: participantIsObserver_def participantAssignments_def)

lemma assignments_contiguous [simp]: "participantAssignments (p\<lparr>pi_lastContiguousInputFrame := n\<rparr>) = participantAssignments p"
  by (simp add: participantAssignments_def)

lemma advanceTimes_ok:
  "frames_ok c \<Longrightarrow> participantAssignments p \<noteq> [] \<Longrightarrow> \<exists>p' c'. advanceTimes n p c = Some (p', c') \<and> frames_ok c' \<and> ident c' = ident c"
proof (induction n arbitrary: p c)
  case (Suc n)
  obtain m d where "advanceParticipantContiguousInputFrame p c = Some (p\<lparr>pi_lastContiguousInputFrame := m\<rparr>, d)" "frames_ok d" "ident d = ident c"
    using advance_ok[OF Suc.prems] by blast
  then show ?case using Suc.IH[of d "p\<lparr>pi_lastContiguousInputFrame := m\<rparr>"] Suc.prems(2) by auto
qed simp

lemma synthesizeParticipants_ok:
  assumes "frames_ok c" "target \<noteq> - 1"
  shows "\<exists>ps' c'. synthesizeParticipants target ps c = Some (ps', c') \<and> frames_ok c' \<and> ident c' = ident c"
  using assms(1)
proof (induction ps arbitrary: c)
  case (Cons p ps)
  define m where "m = (if suspendedRemote (co_localParticipantId c) p then do {
      c \<leftarrow> synthesizeSlots (pi_id p) (pi_lastContiguousInputFrame p + 1) target (participantAssignments p) c;
      advanceTimes (length (participantAssignments p)) p c } else Some (p, c))"
  have "\<exists>p' d. m = Some (p', d) \<and> frames_ok d \<and> ident d = ident c"
  proof (cases "suspendedRemote (co_localParticipantId c) p")
    case True
    then have a: "participantAssignments p \<noteq> []" by (simp add: suspendedRemote_def observer_assignments)
    obtain d where d: "synthesizeSlots (pi_id p) (pi_lastContiguousInputFrame p + 1) target (participantAssignments p) c = Some d"
        "frames_ok d" "ident d = ident c"
      using synthesizeSlots_ok[OF Cons.prems assms(2)] by blast
    with advanceTimes_ok[OF d(2) a, of "length (participantAssignments p)"] True show ?thesis by (auto simp: m_def)
  qed (use Cons.prems in \<open>simp add: m_def\<close>)
  then obtain p' d where d: "m = Some (p', d)" "frames_ok d" "ident d = ident c" by blast
  obtain ps' c' where "synthesizeParticipants target ps d = Some (ps', c')" "frames_ok c'" "ident c' = ident d"
    using Cons.IH[OF d(2)] by blast
  then show ?case using d by (simp add: m_def)
qed simp

lemma synthesize_ok:
  assumes "frames_ok c"
  shows "\<exists>c'. synthesizeSuspendedRemoteInputsUpTo (co_localSimulationFrame c) c = Some c' \<and> frames_ok c' \<and> ident c' = ident c"
proof -
  have "co_localSimulationFrame c \<noteq> - 1" using assms by (simp add: frames_ok_def)
  from synthesizeParticipants_ok[OF assms this, of "rs_participants (co_room c)"] obtain ps d where
    d: "synthesizeParticipants (co_localSimulationFrame c) (rs_participants (co_room c)) c = Some (ps, d)" "frames_ok d" "ident d = ident c"
    by blast
  have "ident (d\<lparr>co_room := (co_room d)\<lparr>rs_participants := ps\<rparr>\<rparr>) = ident c" using d(3) by (simp add: ident_def link_def)
  then show ?thesis using d assms by (simp add: synthesizeSuspendedRemoteInputsUpTo_def)
qed

lemma findInput_frames:
  assumes "frames_ok c"
  shows "\<exists>e c'. findInput f p s c = Some (e, c') \<and> frames_ok c'"
  using findInput_ok[of c f p s] frames_limits[OF _ _ assms] findInput_limits assms unfolding frames_ok_def by blast

lemma assemble_ok: "frames_ok c \<Longrightarrow> \<exists>r c'. assembleSlots f hs x c = Some (r, c') \<and> frames_ok c'"
proof (induction hs arbitrary: x c)
  case (Cons h hs)
  obtain i slot where h: "h = (i, slot)" by (cases h)
  obtain e d where d: "findInput f i slot c = Some (e, d)" "frames_ok d" using findInput_frames[OF Cons.prems] by blast
  with Cons.IH[OF d(2)] h show ?case by (simp split: option.split)
qed simp

lemma tryAssemble_ok:
  assumes "frames_ok c"
  shows "\<exists>r c'. tryAssembleConfirmedFrame f c = Some (r, c') \<and> frames_ok c'"
proof -
  define held where "held = filter (\<lambda>(_, slot). isPlayableSlot (co_room c) slot) (heldBy (rs_participants (co_room c)))"
  obtain r d where "assembleSlots f held ((confirmedFrameAt f)\<lparr>fi_authoritativeFrameStartClockMicros :=
      authoritativeFrameStartClockMicros f c\<rparr>) c = Some (r, d)" "frames_ok d"
    using assemble_ok[OF assms] by blast
  then show ?thesis by (simp add: tryAssembleConfirmedFrame_def Let_def flip: held_def)
qed

lemma pendingFrames_ok: "frames_ok c \<Longrightarrow> \<exists>xs c'. pendingFrames n f limit c = Some (xs, c') \<and> frames_ok c'"
proof (induction n arbitrary: f c)
  case (Suc n)
  obtain r d where d: "tryAssembleConfirmedFrame f c = Some (r, d)" "frames_ok d" using tryAssemble_ok[OF Suc.prems] by blast
  with Suc.IH[OF d(2), of "f + 1"] Suc.prems show ?case by (cases r) auto
qed simp

lemma note_simulation [simp]: "co_localSimulationFrame (noteClock f m c) = co_localSimulationFrame c"
  "co_localSimulationFrame (noteStore b c) = co_localSimulationFrame c"
  by (simp_all add: noteClock_def noteStore_def)

lemma ident_fields [simp]: "ident (noteClock f m c) = ident c" "ident (noteStore b c) = ident c" "ident (c\<lparr>co_confirmed := s\<rparr>) = ident c"
  by (simp_all add: ident_def link_def noteClock_def noteStore_def)

lemma storeConfirmed_ok:
  assumes "frames_ok c"
  shows "\<exists>c'. storeConfirmedFrame x c = Some c' \<and> frames_ok c' \<and> ident c' = ident c"
proof -
  obtain c' where c': "storeConfirmedFrame x c = Some c'" "coordinator_ok c'" "co_localInputs c' = co_localInputs c"
      "co_remoteInputs c' = co_remoteInputs c"
    using store_ok[of c x] assms by (auto simp: frames_ok_def)
  have "co_localSimulationFrame c' = co_localSimulationFrame c" "ident c' = ident c"
    using c'(1) by (auto simp: storeConfirmedFrame_def Let_def split: option.splits bind_splits)
  moreover from this have "limits c' = limits c" using c' by (simp add: limits_def)
  ultimately show ?thesis using c'(1) frames_limits[OF c'(2) _ assms] by blast
qed

lemma storeAll_ok: "frames_ok c \<Longrightarrow> \<exists>c'. storeAll xs c = Some c' \<and> frames_ok c' \<and> ident c' = ident c"
proof (induction xs arbitrary: c)
  case (Cons x xs)
  then obtain d where d: "storeConfirmedFrame x c = Some d" "frames_ok d" "ident d = ident c" using storeConfirmed_ok by blast
  then show ?case using Cons.IH[OF d(2)] by simp
qed simp

text \<open>A frame apart from the time at which it starts.\<close>

definition inputsOf :: "ConfirmedFrameInputs \<Rightarrow> ConfirmedFrameInputs" where
  "inputsOf x = x\<lparr>fi_authoritativeFrameStartClockMicros := 0\<rparr>"

lemma ident_clocks [simp]: "ident (c\<lparr>co_authoritativeFrameStartClockOrder := fs\<rparr>) = ident c"
  "ident (c\<lparr>co_authoritativeFrameStartClockMicros := ms\<rparr>) = ident c"
  by (simp_all add: ident_def link_def)

lemma stamp_ok:
  "stampFrames m step xs c = (ys, d) \<Longrightarrow> map inputsOf ys = map inputsOf xs \<and> ident d = ident c \<and> frames_ok d = frames_ok c"
proof (induction xs arbitrary: m c ys d)
  case (Cons x xs)
  let ?c = "c\<lparr>co_authoritativeFrameStartClockOrder :=
      (if co_authoritativeFrameStartClockMicros c (fi_frame x) = None then co_authoritativeFrameStartClockOrder c @ [fi_frame x]
       else co_authoritativeFrameStartClockOrder c),
      co_authoritativeFrameStartClockMicros := (co_authoritativeFrameStartClockMicros c)(fi_frame x \<mapsto> m)\<rparr>"
  obtain zs e where z: "stampFrames (m + step) step xs ?c = (zs, e)" by (cases "stampFrames (m + step) step xs ?c")
  then have "ys = x\<lparr>fi_authoritativeFrameStartClockMicros := m\<rparr> # zs" "d = e"
    using Cons.prems by (auto simp: Let_def)
  then show ?case using Cons.IH[OF z] by (simp add: inputsOf_def)
qed simp

lemma trim_ok: "frames_ok (trimClocks c) = frames_ok c" "ident (trimClocks c) = ident c"
  by (simp_all add: trimClocks_def Let_def)

lemma frames_bind:
  assumes "\<exists>d. m = Some d \<and> frames_ok d" "\<And>d. frames_ok d \<Longrightarrow> \<exists>c'. g d = Some c' \<and> frames_ok c'"
  shows "\<exists>c'. Option.bind m g = Some c' \<and> frames_ok c'"
  using assms by fastforce

lemma inputs_frames:
  assumes "map inputsOf ys = map inputsOf xs"
  shows "map fi_frame ys = map fi_frame xs"
proof -
  have "map fi_frame zs = map fi_frame (map inputsOf zs)" for zs by (simp add: inputsOf_def)
  then show ?thesis using assms by metis
qed

definition framesPacket :: "NetplayCoordinator \<Rightarrow> ConfirmedFrameInputs list \<Rightarrow> delivery" where
  "framesPacket c ys = BroadcastReliable Gameplay (buildConfirmedInputFramesPacket
     \<lparr>cf_timelineEpoch = rs_timelineEpoch (co_room c), cf_startFrame = fi_frame (hd ys), cf_frameCount = of_nat (length ys)\<rparr>
     ys (rs_sessionId (co_room c)))"

lemma broadcast_ok:
  assumes "frames_ok c" "xs \<noteq> []"
  shows "\<exists>ys c'. broadcastFrames now xs c = Some c' \<and> frames_ok c' \<and> map inputsOf ys = map inputsOf xs \<and>
    co_sent c' = co_sent c @ [framesPacket c ys] \<and> co_lastBroadcastConfirmedFrame c' = fi_frame (last xs)"
proof -
  define base where "base = baseMicros now c"
  define step where "step = frameStepMicros base (fi_frame (hd xs)) c"
  obtain ys d where s: "stampFrames (firstFrameMicros base step (fi_frame (hd xs)) c) step xs c = (ys, d)"
    by (cases "stampFrames (firstFrameMicros base step (fi_frame (hd xs)) c) step xs c")
  note d = stamp_ok[OF s]
  have f: "length ys = length xs" "fi_frame (hd ys) = fi_frame (hd xs)" "fi_frame (last ys) = fi_frame (last xs)"
    using arg_cong[OF inputs_frames[of ys xs], of length] arg_cong[OF inputs_frames[of ys xs], of hd]
      arg_cong[OF inputs_frames[of ys xs], of last] d assms(2)
    by (cases ys; auto simp: hd_map last_map)+
  let ?e = "(trimClocks d)\<lparr>co_room := (co_room (trimClocks d))\<lparr>rs_lastAuthoritativeClockFrame := fi_frame (last ys),
      rs_lastAuthoritativeClockMicros := fi_authoritativeFrameStartClockMicros (last ys)\<rparr>\<rparr>"
  have "frames_ok ?e" "ident ?e = ident (trimClocks d)" using d assms(1) by (simp_all add: trim_ok ident_def link_def)
  then obtain g where g: "storeAll ys ?e = Some g" "frames_ok g" "ident g = ident c"
    using storeAll_ok[of ?e ys] d by (auto simp: trim_ok)
  let ?g = "g\<lparr>co_sent := co_sent g @ [framesPacket c ys], co_lastBroadcastConfirmedFrame := fi_frame (last ys),
      co_room := (co_room g)\<lparr>rs_lastConfirmedFrame := max (rs_lastConfirmedFrame (co_room g)) (fi_frame (last ys))\<rparr>\<rparr>"
  have "broadcastFrames now xs c = Some ?g"
    using s g f by (simp add: broadcastFrames_def Let_def framesPacket_def ident_def flip: base_def step_def)
  moreover have "co_sent g = co_sent c" using g(3) by (simp add: ident_def link_def)
  ultimately show ?thesis using g(2) d f by auto
qed

lemma publish_ok:
  assumes "frames_ok c"
  shows "\<exists>c'. publishConfirmedFramesIfReady now c = Some c' \<and> frames_ok c'"
proof -
  obtain d where d: "synthesizeSuspendedRemoteInputsUpTo (co_localSimulationFrame c) c = Some d" "frames_ok d"
    using synthesize_ok[OF assms] by blast
  obtain xs e where "pendingFrames kMaxConfirmedFramesPerPacket (co_lastBroadcastConfirmedFrame d + 1)
      (computeHostInputConfirmedFrame d) d = Some (xs, e)" "frames_ok e"
    using pendingFrames_ok[OF d(2)] by blast
  then show ?thesis using d assms broadcast_ok[of e xs now] by (cases "xs = []") (auto simp: publishConfirmedFramesIfReady_def)
qed

lemma withParticipant_ok [simp]: "frames_ok (withParticipant i g c) = frames_ok c"
  by (simp add: withParticipant_def)

lemma recorded_ok [simp]: "frames_ok (recordRejectedInput input reason c) = frames_ok c"
  "frames_ok (noteDroppedGameplayInputDuringRecovery c) = frames_ok c" "frames_ok (noteClock f m c) = frames_ok c"
  by (simp_all add: recordRejectedInput_def noteDroppedGameplayInputDuringRecovery_def noteClock_def)

lemma observe_ok [simp]: "frames_ok (observeInput now input c) = frames_ok c"
  by (simp add: observeInput_def Let_def)

lemma frames_timelines: "frames_ok c \<Longrightarrow> timeline_ok (co_localInputs c) \<and> timeline_ok (co_remoteInputs c)"
  by (simp add: frames_ok_def coordinator_ok_def)

lemma frames_update:
  assumes "frames_ok c" "timeline_ok t"
  shows "tl_capacity t = tl_capacity (co_localInputs c) \<Longrightarrow> frames_ok (c\<lparr>co_localInputs := t\<rparr>)"
    "tl_capacity t = tl_capacity (co_remoteInputs c) \<Longrightarrow> frames_ok (c\<lparr>co_remoteInputs := t\<rparr>)"
  using assms by (simp_all add: frames_ok_def coordinator_ok_def)

lemma findDestination_ok:
  assumes "frames_ok c"
  shows "\<exists>e c'. findDestination f p s c = Some (e, c') \<and> frames_ok c' \<and> co_room c' = co_room c"
proof -
  have t: "timeline_ok (co_localInputs c)" "timeline_ok (co_remoteInputs c)" using frames_timelines[OF assms] by simp_all
  show ?thesis using find_ok[OF t(1), of f p s] find_ok[OF t(2), of f p s] frames_update[OF assms]
    by (fastforce simp: findDestination_def)
qed

lemma pushDestination_ok:
  assumes "frames_ok c"
  shows "\<exists>c'. pushDestination e c = Some c' \<and> frames_ok c' \<and> co_room c' = co_room c"
proof -
  have t: "timeline_ok (co_localInputs c)" "timeline_ok (co_remoteInputs c)" using frames_timelines[OF assms] by simp_all
  show ?thesis using push_refines[OF t(1), of e] push_refines[OF t(2), of e] frames_update[OF assms]
    by (fastforce simp: pushDestination_def)
qed

lemma checkSequence_ok:
  assumes "frames_ok c"
  shows "\<exists>r. checkSequence input x p c = Some r \<and>
    (case r of Inl c' \<Rightarrow> frames_ok c' | Inr (y, c') \<Rightarrow> frames_ok c' \<and> co_room c' = co_room c)"
  using findDestination_ok[OF assms, of "if_frame input" "if_participantId input" "if_playerSlot input"] assms
  by (auto simp: checkSequence_def Let_def)

lemma checkFrame_ok:
  assumes "frames_ok c"
  shows "\<exists>r. checkFrame input x p c = Some r \<and>
    (case r of Inl c' \<Rightarrow> frames_ok c' | Inr (y, c') \<Rightarrow> frames_ok c' \<and> co_room c' = co_room c)"
  using findDestination_ok[OF assms, of "if_frame input" "if_participantId input" "if_playerSlot input"] assms
  by (auto simp: checkFrame_def Let_def)

lemma backfillBefore_ok:
  assumes "frames_ok c"
  shows "\<exists>c'. backfillBefore input p c = Some c' \<and> frames_ok c' \<and> co_room c' = co_room c"
proof (cases "if_frame input > expectedFrame p")
  case True
  then have "if_frame input \<noteq> 0" by auto
  then have "if_frame input - 1 \<noteq> - 1" by (simp add: diff_eq_eq)
  from backfill_ok[OF conjunct2[OF frames_timelines[OF assms]] this] show ?thesis
    using assms frames_update(2)[OF assms] by (force simp: backfillBefore_def)
qed (use assms in \<open>simp add: backfillBefore_def\<close>)

lemma admitInput_ok:
  assumes "frames_ok c"
  shows "\<exists>r. admitInput input x p c = Some r \<and> (case r of Inl c' \<Rightarrow> frames_ok c'
    | Inr (y, c') \<Rightarrow> frames_ok c' \<and> participantHasAssignment p (if_playerSlot input) \<and>
        rs_participants (co_room c') = updateFirst (\<lambda>p. pi_id p = if_participantId input) (markReceived input) (rs_participants (co_room c)))"
proof -
  obtain r where r: "checkSequence input x p c = Some r"
      "case r of Inl c' \<Rightarrow> frames_ok c' | Inr (y, c') \<Rightarrow> frames_ok c' \<and> co_room c' = co_room c"
    using checkSequence_ok[OF assms] by blast
  show ?thesis
  proof (cases r)
    case (Inr yd)
    obtain y d where y: "yd = (y, d)" by (cases yd)
    have d: "frames_ok d" "co_room d = co_room c" using r(2) Inr y by simp_all
    obtain q where q: "checkFrame input y p d = Some q"
        "case q of Inl c' \<Rightarrow> frames_ok c' | Inr (z, c') \<Rightarrow> frames_ok c' \<and> co_room c' = co_room d"
      using checkFrame_ok[OF d(1)] by blast
    show ?thesis
    proof (cases q)
      case (Inr ze)
      obtain z e where z: "ze = (z, e)" by (cases ze)
      have e: "frames_ok e" "co_room e = co_room c" using q(2) Inr z d(2) by simp_all
      obtain e' where "backfillBefore input p e = Some e'" "frames_ok e'" "co_room e' = co_room c"
        using backfillBefore_ok[OF e(1)] e(2) by metis
      then show ?thesis using assms r(1) q(1) \<open>r = Inr yd\<close> y Inr z by (simp add: admitInput_def withParticipant_def)
    qed (use assms r(1) q \<open>r = Inr yd\<close> y in \<open>simp add: admitInput_def\<close>)
  qed (use assms r in \<open>simp add: admitInput_def\<close>)
qed

lemma settleInput_ok:
  assumes "frames_ok c" "participantAssignments p \<noteq> []"
  shows "\<exists>c'. settleInput input p c = Some c' \<and> frames_ok c'"
proof -
  obtain q d where q: "noteGap input p c = (q, d)" by (cases "noteGap input p c")
  then have "frames_ok d" "participantAssignments q \<noteq> []"
    using assms by (auto simp: noteGap_def Let_def recordMissingInputGap_def participantAssignments_def split: if_splits)
  from advance_ok[OF this] show ?thesis using q by (auto simp: settleInput_def Let_def)
qed

lemma find_updateFirst:
  assumes "\<And>p. P (g p) = P p"
  shows "List.find P (updateFirst P g ps) = map_option g (List.find P ps)"
  by (induction ps) (simp_all add: assms)

lemma storeInput_ok:
  assumes "frames_ok c" "\<And>p. findParticipant (co_room c) (if_participantId input) = Some p \<Longrightarrow> participantAssignments p \<noteq> []"
  shows "\<exists>c'. storeInput input x c = Some c' \<and> frames_ok c'"
proof -
  obtain d where d: "pushDestination (inputEntry input x) c = Some d" "frames_ok d" "co_room d = co_room c"
    using pushDestination_ok[OF assms(1)] by blast
  then show ?thesis using assms(2) settleInput_ok[OF d(2)]
    by (cases "findParticipant (co_room c) (if_participantId input)") (simp_all add: storeInput_def)
qed

lemma relayInput_ok: "frames_ok c \<Longrightarrow> \<exists>c'. relayInput now peer input payload c = Some c' \<and> frames_ok c'"
  by (simp add: relayInput_def Let_def publish_ok)

lemma assigned_slot: "participantHasAssignment p slot \<Longrightarrow> slot \<noteq> kObserverPlayerSlot \<Longrightarrow> participantAssignments p \<noteq> []"
  by (auto simp: participantHasAssignment_def participantAssignments_def hasControllerAssignment_def)

lemma markReceived_same [simp]: "pi_id (markReceived input p) = pi_id p"
  "participantAssignments (markReceived input p) = participantAssignments p"
  by (simp_all add: markReceived_def participantAssignments_def Let_def)

lemma store_relay_ok:
  assumes "frames_ok c" "\<And>p. findParticipant (co_room c) (if_participantId input) = Some p \<Longrightarrow> participantAssignments p \<noteq> []"
  shows "\<exists>c'. (do { c \<leftarrow> storeInput input x c; c \<leftarrow> relayInput now peer input payload c; Some (True, c) }) = Some (True, c') \<and> frames_ok c'"
proof -
  obtain d where d: "storeInput input x c = Some d" "frames_ok d" using storeInput_ok[OF assms] by blast
  with relayInput_ok[OF d(2), of now peer input payload] show ?thesis by auto
qed

lemma takeInput_ok:
  assumes "frames_ok c" "if_playerSlot input \<noteq> kObserverPlayerSlot"
  shows "\<exists>ok c'. takeInput now peer input payload x c = Some (ok, c') \<and> frames_ok c'"
proof (cases "findParticipant (co_room c) (if_participantId input)")
  case None
  then show ?thesis using store_relay_ok[OF assms(1), of input x now peer payload] by (auto simp: takeInput_def)
next
  case (Some p)
  obtain r where r: "admitInput input x p c = Some r" "case r of Inl c' \<Rightarrow> frames_ok c'
    | Inr (y, c') \<Rightarrow> frames_ok c' \<and> participantHasAssignment p (if_playerSlot input) \<and>
        rs_participants (co_room c') = updateFirst (\<lambda>p. pi_id p = if_participantId input) (markReceived input) (rs_participants (co_room c))"
    using admitInput_ok[OF assms(1), of input x p] by blast
  show ?thesis
  proof (cases r)
    case (Inr yd)
    obtain y d where y: "yd = (y, d)" by (cases yd)
    have "findParticipant (co_room d) (if_participantId input) = Some (markReceived input p)"
      using r(2) Inr y Some by (simp add: findParticipant_def find_updateFirst)
    moreover have "frames_ok d" "participantAssignments p \<noteq> []"
      using r(2) Inr y assigned_slot[OF _ assms(2)] by auto
    ultimately show ?thesis
      using store_relay_ok[of d input y now peer payload] r(1) Inr y Some by (auto simp: takeInput_def)
  qed (use r Some in \<open>auto simp: takeInput_def\<close>)
qed

lemma handleInputFrameEntry_ok:
  assumes "frames_ok c"
  shows "\<exists>ok c'. handleInputFrameEntry now peer input payload x c = Some (ok, c') \<and> frames_ok c'"
proof -
  have "frames_ok ((observeInput now input c)\<lparr>co_room := r\<rparr>)" for r using assms by simp
  from takeInput_ok[OF this, of input now peer payload x] show ?thesis
    using assms by (auto simp: handleInputFrameEntry_def Let_def)
qed

lemma handleEntries_ok: "frames_ok c \<Longrightarrow> \<exists>ok c'. handleEntries now peer n accepted r c = Some (ok, c') \<and> frames_ok c'"
proof (induction n arbitrary: accepted r c)
  case (Suc n)
  show ?case
  proof (cases "readInputEntry r")
    case (Some e)
    obtain input payload q where e: "e = ((input, payload), q)" by (metis prod.exhaust)
    obtain x where x: "deserializeNetplayInputFrame payload = Some x"
      using Some e by (auto simp: readInputEntry_def split: bind_splits if_splits)
    obtain ok d where "handleInputFrameEntry now peer input payload x c = Some (ok, d)" "frames_ok d"
      using handleInputFrameEntry_ok[OF Suc.prems] by blast
    then show ?thesis using Suc.IH[of d] Some e x by simp
  qed (use Suc.prems in auto)
qed simp

lemma handleInputFrame_ok:
  assumes "frames_ok c"
  shows "\<exists>ok c'. handleInputFrame now peer r c = Some (ok, c') \<and> frames_ok c'"
  using assms handleEntries_ok[OF assms, of now peer] by (auto simp: handleInputFrame_def split: option.split)

subsection \<open>Frames that the host confirmed\<close>

lemma storeReceived_ok: "frames_ok c \<Longrightarrow> \<exists>ok c'. storeReceived n f r c = Some (ok, c') \<and> frames_ok c'"
proof (induction n arbitrary: f r c)
  case (Suc n)
  show ?case
  proof (cases "readConfirmedEntry r")
    case (Some e)
    obtain entry payload q where e: "e = ((entry, payload), q)" by (metis prod.exhaust)
    obtain x where x: "deserializeNetplayInputFrame payload = Some x"
      using Some e by (auto simp: readConfirmedEntry_def split: bind_splits if_splits)
    obtain d where "storeConfirmedFrame (receivedFrame f entry x) c = Some d" "frames_ok d"
      using storeConfirmed_ok[OF Suc.prems] by blast
    then show ?thesis using Suc.IH[of "noteClock f (ce_authoritativeFrameStartClockMicros entry) d" "f + 1" q] Some e x by simp
  qed (use Suc.prems in auto)
qed auto


lemma confirmSlot_ok:
  assumes "frames_ok c"
  shows "\<exists>c'. confirmSlot f x s c = Some c' \<and> frames_ok c'"
proof -
  let ?p = "co_localParticipantId c"
  let ?t = "co_localInputs c"
  let ?P = "\<lambda>e. te_frame e = f \<and> te_participantId e = ?p \<and> te_playerSlot e = s"
  have t: "timeline_ok ?t" using frames_timelines[OF assms] by simp
  have sc: "\<exists>w. setConfirmed (List.find ?P (tl_entries v)) v' = Some w \<and> timeline_ok w \<and> tl_capacity w = tl_capacity v'"
    if "timeline_ok v'" "tl_nodes v' = tl_nodes v" for v v'
  proof -
    have "tl_entries v' = tl_entries v" by (simp add: tl_entries_def that(2))
    then have "y \<in> set (tl_entries v')" if "List.find ?P (tl_entries v) = Some y" for y using find_in[OF that] by simp
    from setConfirmed_ok[OF that(1) this] show ?thesis by blast
  qed
  obtain u where u: "findMutable f ?p s ?t = Some (List.find ?P (tl_entries ?t), u)" "timeline_ok u"
      "tl_nodes u = tl_nodes ?t" "tl_capacity u = tl_capacity ?t"
    using findMutable_ok[OF t] by blast
  let ?e = "\<lparr>te_frame = f, te_participantId = ?p, te_playerSlot = s,
      te_buttonMaskLo = ps_at 0 s (fi_buttonMaskLo x), te_buttonMaskHi = ps_at 0 s (fi_buttonMaskHi x),
      te_netplayFrame = fi_netplayFrame x, te_sequence = co_localInputSequence c, te_confirmed = True\<rparr>"
  obtain v where v: "tl_push ?e u = Some v" "timeline_ok v" "tl_capacity v = tl_capacity ?t"
    using push_refines[OF u(2), of ?e] u(4) by auto
  obtain w where w: "findMutable f ?p s v = Some (List.find ?P (tl_entries v), w)" "timeline_ok w"
      "tl_nodes w = tl_nodes v" "tl_capacity w = tl_capacity v"
    using findMutable_ok[OF v(2)] by blast
  show ?thesis
  proof (cases "List.find ?P (tl_entries ?t) = None \<and> f \<le> co_localSimulationFrame c")
    case True
    then show ?thesis using u(1) v w sc[OF w(2,3)] frames_update(1)[OF assms] by (auto simp: confirmSlot_def Let_def)
  next
    case False
    then show ?thesis using u sc[OF u(2,3)] frames_update(1)[OF assms] by (auto simp: confirmSlot_def Let_def)
  qed
qed

lemma confirmSlots_ok: "frames_ok c \<Longrightarrow> \<exists>c'. confirmSlots f x slots c = Some c' \<and> frames_ok c'"
proof (induction slots arbitrary: c)
  case (Cons s slots)
  then obtain d where "confirmSlot f x s c = Some d" "frames_ok d" using confirmSlot_ok by blast
  then show ?case using Cons.IH by simp
qed simp

lemma findConfirmed_ok:
  assumes "frames_ok c"
  shows "\<exists>x c'. findConfirmedFrame f c = Some (x, c') \<and> frames_ok c'"
proof -
  have "confirmed_ok (co_confirmed c)" using assms by (simp add: frames_ok_def coordinator_ok_def)
  then have "map_of (cs_frames (co_confirmed c)) i \<noteq> None" if "cs_index (co_confirmed c) f = Some i" for i
    using that map_of_SomeD[of _ f i] by (force simp: confirmed_ok_def map_of_eq_None_iff)
  moreover have "frames_ok (noteFind b c)" for b
    using assms frames_cong[of "noteFind b c" c] by (simp add: noteFind_def)
  ultimately show ?thesis by (cases "cs_index (co_confirmed c) f") (auto simp: findConfirmedFrame_def)
qed

lemma confirmFrame_ok: "frames_ok c \<Longrightarrow> \<exists>c'. confirmFrame slots f c = Some c' \<and> frames_ok c'"
  using findConfirmed_ok[of c f] confirmSlots_ok by (fastforce simp: confirmFrame_def split: option.split)

lemma confirmLocal_ok:
  assumes "frames_ok c" "final \<noteq> - 1"
  shows "\<exists>c'. confirmLocal first final c = Some c' \<and> frames_ok c'"
proof -
  have "\<exists>c'. frameLoop (confirmFrame slots) first final (c\<lparr>co_room := r\<rparr>) = Some c' \<and> frames_ok c'" for slots r
    by (rule frameLoop_keeps) (use assms confirmFrame_ok in auto)
  then show ?thesis using assms(1) by (auto simp: confirmLocal_def Let_def split: option.split intro!: frames_bind)
qed

definition lastConfirmed :: "ConfirmedInputFramesData \<Rightarrow> u32" where
  "lastConfirmed d = cf_startFrame d + (ucast (cf_frameCount d) - 1)"

lemma handleConfirmed_ok:
  assumes "frames_ok c" "\<And>d r'. ConfirmedInputFramesData_deserialize r = Some (d, r') \<Longrightarrow> cf_frameCount d > 0 \<Longrightarrow> lastConfirmed d \<noteq> - 1"
  shows "\<exists>ok c'. handleConfirmedInputFrames r c = Some (ok, c') \<and> frames_ok c'"
proof (cases "ConfirmedInputFramesData_deserialize r")
  case (Some dr)
  obtain d q where d: "dr = (d, q)" by (cases dr)
  let ?c = "c\<lparr>co_room := (co_room c)\<lparr>rs_lastAcceptedRemoteEpoch := cf_timelineEpoch d\<rparr>\<rparr>"
  obtain ok e where e: "storeReceived (unat (cf_frameCount d)) (cf_startFrame d) q ?c = Some (ok, e)" "frames_ok e"
    using storeReceived_ok[of ?c "unat (cf_frameCount d)" "cf_startFrame d" q] assms(1) by auto
  have "\<exists>e'. confirmLocal (cf_startFrame d) (lastConfirmed d) e = Some e' \<and> frames_ok e'" if "cf_frameCount d > 0"
    using confirmLocal_ok[OF e(2)] assms(2) Some d that by blast
  then have stored: "\<exists>ok' c'. (if \<not> ok then Some (False, e)
      else if cf_frameCount d > 0 then do { c \<leftarrow> confirmLocal (cf_startFrame d) (lastConfirmed d) e; Some (True, c) }
      else Some (True, e)) = Some (ok', c') \<and> frames_ok c'"
    using e(2) by (cases "cf_frameCount d > 0") auto
  consider "cf_timelineEpoch d < rs_timelineEpoch (co_room c)" | "cf_timelineEpoch d > rs_timelineEpoch (co_room c)"
    | "cf_timelineEpoch d = rs_timelineEpoch (co_room c)" "rs_recoveryInputMode (co_room c) = ResyncLocked"
    | "cf_timelineEpoch d = rs_timelineEpoch (co_room c)" "rs_recoveryInputMode (co_room c) \<noteq> ResyncLocked" by force
  then show ?thesis
  proof cases
    case 4
    then have "handleConfirmedInputFrames r c = (if \<not> ok then Some (False, e)
      else if cf_frameCount d > 0 then do { c \<leftarrow> confirmLocal (cf_startFrame d) (lastConfirmed d) e; Some (True, c) }
      else Some (True, e))"
      using e(1) Some d by (simp add: handleConfirmedInputFrames_def lastConfirmed_def)
    then show ?thesis using stored by simp
  qed (use assms(1) Some d in \<open>auto simp: handleConfirmedInputFrames_def\<close>)
qed (use assms(1) in \<open>auto simp: handleConfirmedInputFrames_def\<close>)

lemma frames0: "frames_ok NetplayCoordinator0"
  using coordinator0_ok linked_trim[OF linked_fields(1)[OF linked_empty(1)], of 2400]
  by (simp add: frames_ok_def NetplayCoordinator0_def tl_configure_def)

subsection \<open>What the host publishes\<close>

text \<open>The input of a held slot, the slots that are held, and the frame that their inputs make.\<close>

definition entryAt :: "NetplayCoordinator \<Rightarrow> u32 \<Rightarrow> u8 \<times> u8 \<Rightarrow> TimelineInputEntry option" where
  "entryAt c f h = List.find (\<lambda>e. te_frame e = f \<and> te_participantId e = fst h \<and> te_playerSlot e = snd h)
     (tl_entries (timelineOf c (fst h)))"

definition confirmedAt :: "NetplayCoordinator \<Rightarrow> u32 \<Rightarrow> u8 \<times> u8 \<Rightarrow> bool" where
  "confirmedAt c f h \<longleftrightarrow> (case entryAt c f h of Some e \<Rightarrow> te_confirmed e | None \<Rightarrow> False)"

definition playableHolders :: "NetplayCoordinator \<Rightarrow> (u8 \<times> u8) list" where
  "playableHolders c = filter (\<lambda>(_, slot). isPlayableSlot (co_room c) slot) (heldBy (rs_participants (co_room c)))"

definition inputsReady :: "NetplayCoordinator \<Rightarrow> u32 \<Rightarrow> bool" where
  "inputsReady c f \<longleftrightarrow> list_all (confirmedAt c f) (playableHolders c) \<and>
     (playableHolders c \<noteq> [] \<or> list_all participantIsObserver (rs_participants (co_room c)))"

definition combine :: "NetplayCoordinator \<Rightarrow> u32 \<Rightarrow> (u8 \<times> u8) list \<Rightarrow> ConfirmedFrameInputs \<Rightarrow> ConfirmedFrameInputs" where
  "combine c f = fold (\<lambda>h. applyEntry (snd h) (the (entryAt c f h)))"

lemma same_entryAt: "same_inputs c d \<Longrightarrow> entryAt d f h = entryAt c f h"
  by (simp add: entryAt_def same_timeline)

lemma same_ready:
  assumes "same_inputs c d"
  shows "confirmedAt d f = confirmedAt c f" "inputsReady d f = inputsReady c f" "combine d f = combine c f" "playableHolders d = playableHolders c"
proof -
  show c: "confirmedAt d f = confirmedAt c f" by (intro ext) (simp add: confirmedAt_def same_entryAt[OF assms])
  show "combine d f = combine c f" by (simp add: combine_def same_entryAt[OF assms])
  have "co_room d = co_room c" using assms by (simp add: same_inputs_def)
  then show "playableHolders d = playableHolders c" "inputsReady d f = inputsReady c f" by (simp_all add: playableHolders_def inputsReady_def c)
qed

lemma combine_frame [simp]: "fi_frame (combine c f hs x) = fi_frame x"
  by (induction hs arbitrary: x) (simp_all add: combine_def applyEntry_def)

lemma apply_micros: "inputsOf (applyEntry s e x) = applyEntry s e (inputsOf x)"
  by (cases x) (simp add: applyEntry_def inputsOf_def)

lemma combine_micros: "inputsOf (combine c f hs x) = combine c f hs (inputsOf x)"
  by (induction hs arbitrary: x) (simp_all add: combine_def apply_micros)

lemma assemble_exact:
  assumes "coordinator_ok c"
  shows "\<exists>c'. assembleSlots f hs x c = Some (if list_all (confirmedAt c f) hs then Some (combine c f hs x) else None, c') \<and>
    coordinator_ok c' \<and> same_inputs c c'"
  using assms
proof (induction hs arbitrary: x c)
  case Nil
  then show ?case by (simp add: combine_def same_inputs_refl)
next
  case (Cons h hs)
  obtain i s where h: "h = (i, s)" by (cases h)
  obtain d where d: "findInput f i s c = Some (entryAt c f h, d)" "coordinator_ok d" "same_inputs c d"
    using findInput_ok[OF Cons.prems, of f i s] by (auto simp: entryAt_def h)
  show ?case
  proof (cases "confirmedAt c f h")
    case True
    then obtain e where e: "entryAt c f h = Some e" "te_confirmed e" by (auto simp: confirmedAt_def split: option.splits)
    have "combine c f (h # hs) x = combine c f hs (applyEntry s e x)" using e h by (simp add: combine_def)
    moreover obtain c' where "assembleSlots f hs (applyEntry s e x) d =
        Some (if list_all (confirmedAt c f) hs then Some (combine c f hs (applyEntry s e x)) else None, c')"
        "coordinator_ok c'" "same_inputs d c'"
      using Cons.IH[OF d(2), of "applyEntry s e x"] same_ready[OF d(3)] by auto
    ultimately show ?thesis using True d e h same_inputs_trans[OF d(3)] by auto
  next
    case False
    then have "assembleSlots f (h # hs) x c = Some (None, d)" using d(1) h by (auto simp: confirmedAt_def split: option.splits)
    then show ?thesis using False d by simp
  qed
qed

lemma tryAssemble_exact:
  assumes "coordinator_ok c"
  shows "\<exists>r c'. tryAssembleConfirmedFrame f c = Some (r, c') \<and> coordinator_ok c' \<and> same_inputs c c' \<and>
    map_option inputsOf r = (if inputsReady c f then Some (combine c f (playableHolders c) (confirmedFrameAt f)) else None)"
proof -
  let ?x = "(confirmedFrameAt f)\<lparr>fi_authoritativeFrameStartClockMicros := authoritativeFrameStartClockMicros f c\<rparr>"
  let ?r = "if list_all (confirmedAt c f) (playableHolders c) then Some (combine c f (playableHolders c) ?x) else None"
  obtain d where d: "assembleSlots f (playableHolders c) ?x c = Some (?r, d)" "coordinator_ok d" "same_inputs c d"
    using assemble_exact[OF assms] by blast
  have "co_room d = co_room c" using d(3) by (simp add: same_inputs_def)
  then have "tryAssembleConfirmedFrame f c =
      Some (if playableHolders c \<noteq> [] \<or> list_all participantIsObserver (rs_participants (co_room c)) then ?r else None, d)"
    using d(1) by (simp add: tryAssembleConfirmedFrame_def Let_def flip: playableHolders_def)
  moreover have "inputsOf ?x = confirmedFrameAt f" by (simp add: inputsOf_def confirmedFrameAt_def)
  ultimately show ?thesis using d by (auto simp: inputsReady_def combine_micros)
qed

lemma pending_exact:
  assumes "coordinator_ok c"
  shows "\<exists>xs c'. pendingFrames n f limit c = Some (xs, c') \<and> same_inputs c c' \<and> length xs \<le> n \<and>
    (\<forall>k < length xs. inputsReady c (f + of_nat k) \<and> f + of_nat k \<le> limit \<and>
       inputsOf (xs ! k) = combine c (f + of_nat k) (playableHolders c) (confirmedFrameAt (f + of_nat k))) \<and>
    (length xs = n \<or> f + of_nat (length xs) > limit \<or> \<not> inputsReady c (f + of_nat (length xs)))"
  using assms
proof (induction n arbitrary: f c)
  case 0
  then show ?case by (simp add: same_inputs_refl)
next
  case (Suc n)
  show ?case
  proof (cases "f > limit")
    case True
    then show ?thesis by (simp add: same_inputs_refl)
  next
    case False
    obtain r d where d: "tryAssembleConfirmedFrame f c = Some (r, d)" "coordinator_ok d" "same_inputs c d"
        "map_option inputsOf r = (if inputsReady c f then Some (combine c f (playableHolders c) (confirmedFrameAt f)) else None)"
      using tryAssemble_exact[OF Suc.prems] by blast
    show ?thesis
    proof (cases r)
      case None
      then show ?thesis using False d by (auto split: if_splits)
    next
      case (Some x)
      obtain xs c' where xs: "pendingFrames n (f + 1) limit d = Some (xs, c')" "same_inputs d c'" "length xs \<le> n"
          "\<forall>k < length xs. inputsReady d (f + 1 + of_nat k) \<and> f + 1 + of_nat k \<le> limit \<and>
             inputsOf (xs ! k) = combine d (f + 1 + of_nat k) (playableHolders d) (confirmedFrameAt (f + 1 + of_nat k))"
          "length xs = n \<or> f + 1 + of_nat (length xs) > limit \<or> \<not> inputsReady d (f + 1 + of_nat (length xs))"
        using Suc.IH[OF d(2), of "f + 1"] by blast
      note same = same_ready[OF d(3)]
      have "inputsReady c (f + of_nat k) \<and> f + of_nat k \<le> limit \<and>
          inputsOf ((x # xs) ! k) = combine c (f + of_nat k) (playableHolders c) (confirmedFrameAt (f + of_nat k))"
        if "k < length (x # xs)" for k
        using that xs(4) d(4) Some False by (cases k) (auto simp: same add.assoc split: if_splits)
      moreover have "pendingFrames (Suc n) f limit c = Some (x # xs, c')" using d(1) Some xs(1) False by simp
      ultimately show ?thesis using xs same_inputs_trans[OF d(3) xs(2)]
        by (intro exI[of _ "x # xs"] exI[of _ c']) (auto simp: same add.assoc)
    qed
  qed
qed

lemma broadcast_mark:
  assumes "frames_ok e" "\<forall>k < length xs. fi_frame (xs ! k) = co_lastBroadcastConfirmedFrame e + 1 + of_nat k"
  shows "\<exists>ys c'. (if xs = [] then Some e else broadcastFrames now xs e) = Some c' \<and> map inputsOf ys = map inputsOf xs \<and>
    co_sent c' = co_sent e @ (if ys = [] then [] else [framesPacket e ys]) \<and>
    co_lastBroadcastConfirmedFrame c' = co_lastBroadcastConfirmedFrame e + of_nat (length ys)"
proof (cases "xs = []")
  case True
  then show ?thesis by (intro exI[of _ "[]"] exI[of _ e]) simp
next
  case False
  obtain ys c' where y: "broadcastFrames now xs e = Some c'" "map inputsOf ys = map inputsOf xs"
      "co_sent c' = co_sent e @ [framesPacket e ys]" "co_lastBroadcastConfirmedFrame c' = fi_frame (last xs)"
    using broadcast_ok[OF assms(1) False] by blast
  have "fi_frame (last xs) = co_lastBroadcastConfirmedFrame e + 1 + of_nat (length xs - 1)"
    using assms(2) False by (simp add: last_conv_nth)
  also have "\<dots> = co_lastBroadcastConfirmedFrame e + of_nat (length ys)"
    using False arg_cong[OF y(2), of length] by (cases xs) simp_all
  finally have "co_lastBroadcastConfirmedFrame c' = co_lastBroadcastConfirmedFrame e + of_nat (length ys)" using y(4) by simp
  moreover have "ys \<noteq> []" using y(2) False by auto
  ultimately show ?thesis using False y by auto
qed

lemma publish_exact:
  assumes "frames_ok c" "co_hosting c" "rs_state (co_room c) = Running"
  shows "\<exists>d ys c'. synthesizeSuspendedRemoteInputsUpTo (co_localSimulationFrame c) c = Some d \<and>
    publishConfirmedFramesIfReady now c = Some c' \<and> length ys \<le> kMaxConfirmedFramesPerPacket \<and>
    (\<forall>k < length ys. let f = co_lastBroadcastConfirmedFrame c + 1 + of_nat k in
       inputsReady d f \<and> f \<le> computeHostInputConfirmedFrame d \<and> inputsOf (ys ! k) = combine d f (playableHolders d) (confirmedFrameAt f)) \<and>
    (length ys = kMaxConfirmedFramesPerPacket \<or>
     co_lastBroadcastConfirmedFrame c + 1 + of_nat (length ys) > computeHostInputConfirmedFrame d \<or>
     \<not> inputsReady d (co_lastBroadcastConfirmedFrame c + 1 + of_nat (length ys))) \<and>
    co_sent c' = co_sent c @ (if ys = [] then [] else [framesPacket c ys]) \<and>
    co_lastBroadcastConfirmedFrame c' = co_lastBroadcastConfirmedFrame c + of_nat (length ys)"
proof -
  let ?f = "co_lastBroadcastConfirmedFrame c + 1"
  obtain d where d: "synthesizeSuspendedRemoteInputsUpTo (co_localSimulationFrame c) c = Some d" "frames_ok d" "ident d = ident c"
    using synthesize_ok[OF assms(1)] by blast
  let ?limit = "computeHostInputConfirmedFrame d"
  have ok: "coordinator_ok d" using d(2) by (simp add: frames_ok_def)
  obtain xs e where xs: "pendingFrames kMaxConfirmedFramesPerPacket ?f ?limit d = Some (xs, e)" "same_inputs d e"
      "length xs \<le> kMaxConfirmedFramesPerPacket"
      "\<forall>k < length xs. inputsReady d (?f + of_nat k) \<and> ?f + of_nat k \<le> ?limit \<and>
         inputsOf (xs ! k) = combine d (?f + of_nat k) (playableHolders d) (confirmedFrameAt (?f + of_nat k))"
      "length xs = kMaxConfirmedFramesPerPacket \<or> ?f + of_nat (length xs) > ?limit \<or> \<not> inputsReady d (?f + of_nat (length xs))"
    using pending_exact[OF ok, of kMaxConfirmedFramesPerPacket ?f ?limit] by blast
  have "frames_ok e" using pendingFrames_ok[OF d(2), of kMaxConfirmedFramesPerPacket ?f ?limit] xs(1) by simp
  have e: "co_sent e = co_sent c" "framesPacket e = framesPacket c" "co_lastBroadcastConfirmedFrame e = co_lastBroadcastConfirmedFrame c"
    using d(3) xs(2) by (auto simp: same_inputs_def ident_def link_def framesPacket_def)
  have "fi_frame (xs ! k) = ?f + of_nat k" if "k < length xs" for k
    using arg_cong[OF xs(4)[rule_format, OF that, THEN conjunct2, THEN conjunct2], of fi_frame]
    by (simp add: inputsOf_def confirmedFrameAt_def)
  then obtain ys c' where y: "(if xs = [] then Some e else broadcastFrames now xs e) = Some c'" "map inputsOf ys = map inputsOf xs"
      "co_sent c' = co_sent c @ (if ys = [] then [] else [framesPacket c ys])"
      "co_lastBroadcastConfirmedFrame c' = co_lastBroadcastConfirmedFrame c + of_nat (length ys)"
    using broadcast_mark[OF \<open>frames_ok e\<close>, of xs now] e by auto
  have run: "publishConfirmedFramesIfReady now c = Some c'"
    using assms(2,3) d(1,3) xs(1) y(1) by (simp add: publishConfirmedFramesIfReady_def ident_def split: if_splits)
  have len: "length ys = length xs" using arg_cong[OF y(2), of length] by simp
  have "inputsOf (ys ! k) = inputsOf (xs ! k)" if "k < length xs" for k
    using arg_cong[OF y(2), of "\<lambda>zs. zs ! k"] that len by simp
  then show ?thesis using d(1) run y xs(3-5) len by (intro exI[of _ d] exI[of _ ys] exI[of _ c']) (simp add: Let_def)
qed

subsection \<open>Properties\<close>

text \<open>
  C16: no input packet can stop the host or a client. From every state with consistent timelines whose capacities fit
  32 bits (the constructor configures 2400 entries) and with a local simulation frame below the largest frame
  number, \<open>handleInputFrame\<close> returns, whatever bytes arrive from whatever peer: the loops that fill a gap
  with repeated inputs, follow the complete frames of a participant, make up the inputs of suspended participants and
  put confirmed frames together all end, and the state is consistent again.
\<close>
theorem input_packets_end:
  assumes "frames_ok c"
  shows "\<exists>accepted c'. handleInputFrame now peer packet c = Some (accepted, c') \<and> frames_ok c'"
  by (rule handleInputFrame_ok[OF assms])

theorem input_packets_end_witness:
  "\<exists>accepted c'. handleInputFrame 0 1 [1, 0, 0] NetplayCoordinator0 = Some (accepted, c') \<and> frames_ok c'"
  by (rule input_packets_end[OF frames0])

text \<open>
  C36: the host's acknowledgement of inputs. A client that takes it (current epoch, playable slot, its own
  participant, no recovery under way) marks exactly its inputs of the frames from 1 up to the acknowledged one
  as confirmed and keeps all others; every other acknowledgement leaves the inputs alone and is refused only
  for a future epoch. The handler returns, except for an acknowledgement of the largest frame number:
  there the loop over the frames never ends.
\<close>
theorem input_ack:
  assumes "coordinator_ok c"
  shows "(handleInputAck ack c = None \<longleftrightarrow> ackTaken ack c \<and> ia_contiguousFrame ack = 0xFFFFFFFF) \<and>
    (\<forall>accepted c'. handleInputAck ack c = Some (accepted, c') \<longrightarrow>
       coordinator_ok c' \<and> accepted = (ia_timelineEpoch ack \<le> rs_timelineEpoch (co_room c)) \<and>
       co_remoteInputs c' = co_remoteInputs c \<and>
       tl_entries (co_localInputs c') =
         (if ackTaken ack c then map (acknowledged ack) (tl_entries (co_localInputs c)) else tl_entries (co_localInputs c)))"
proof -
  have max: "(0xFFFFFFFF :: u32) = - 1" by simp
  show ?thesis
  proof (cases "ackTaken ack c")
    case True
    then have "ia_timelineEpoch ack \<le> rs_timelineEpoch (co_room c)" by (simp add: ackTaken_def)
    then show ?thesis using True ack_handled[OF assms True] unfolding max by (cases "ia_contiguousFrame ack = - 1") auto
  next
    case False
    then show ?thesis using ack_ignored[OF assms False] by auto
  qed
qed

definition ackingClient :: NetplayCoordinator where
  "ackingClient = NetplayCoordinator0\<lparr>co_localParticipantId := 1,
     co_room := RoomState0\<lparr>rs_inputTopology := defaultInputTopology\<rparr>\<rparr>"

theorem input_ack_witness:
  "handleInputAck \<lparr>ia_timelineEpoch = 0, ia_participantId = 1, ia_playerSlot = 0, ia_contiguousFrame = 0xFFFFFFFF, ia_sequence = 5\<rparr>
     ackingClient = None"
proof -
  let ?a = "\<lparr>ia_timelineEpoch = 0, ia_participantId = 1, ia_playerSlot = 0, ia_contiguousFrame = 0xFFFFFFFF, ia_sequence = 5\<rparr>"
  have "coordinator_ok ackingClient" using coordinator0_ok by (simp add: ackingClient_def coordinator_ok_def)
  moreover have "ackTaken ?a ackingClient"
    by (simp add: ackTaken_def ackingClient_def RoomState0_def NetplayCoordinator0_def isPlayableSlot_def findInputSlot_def
        defaultInputTopology_def kObserverPlayerSlot_def ResyncLocked_def)
  ultimately show ?thesis using input_ack[of ackingClient ?a] by simp
qed

text \<open>
  C37: following the complete frames of a participant. \<open>advanceParticipantContiguousInputFrame\<close> moves the mark of
  a participant that holds slots to the last frame before the first one whose inputs are not all there and confirmed,
  changes no input, and always ends, since a bounded timeline cannot hold inputs for all frame numbers. For a
  participant without slots every frame counts as complete, and the loop never ends.
\<close>
theorem contiguous_frame:
  assumes "coordinator_ok c" "tl_capacity (timelineOf c (pi_id p)) < 2 ^ 32"
  shows "(participantAssignments p = [] \<longrightarrow> advanceParticipantContiguousInputFrame p c = None) \<and>
    (participantAssignments p \<noteq> [] \<longrightarrow> (\<exists>k c'.
       advanceParticipantContiguousInputFrame p c =
         Some (p\<lparr>pi_lastContiguousInputFrame := pi_lastContiguousInputFrame p + of_nat k\<rparr>, c') \<and>
       coordinator_ok c' \<and> same_inputs c c' \<and>
       (\<forall>j < k. complete (participantAssignments p) (pi_id p) (pi_lastContiguousInputFrame p + of_nat j + 1)
                 (tl_entries (timelineOf c (pi_id p)))) \<and>
       \<not> complete (participantAssignments p) (pi_id p) (pi_lastContiguousInputFrame p + of_nat k + 1)
           (tl_entries (timelineOf c (pi_id p)))))"
  using advanceLoop_ends[OF assms, of "participantAssignments p" "pi_lastContiguousInputFrame p"]
  by (fastforce simp: advanceParticipantContiguousInputFrame_def advanceLoop_diverges)

theorem contiguous_frame_witness:
  "\<exists>k c'. advanceParticipantContiguousInputFrame (ParticipantInfo0\<lparr>pi_controllerAssignments := [0]\<rparr>) NetplayCoordinator0 =
     Some (ParticipantInfo0\<lparr>pi_controllerAssignments := [0], pi_lastContiguousInputFrame := of_nat k\<rparr>, c')"
proof -
  let ?p = "ParticipantInfo0\<lparr>pi_controllerAssignments := [0]\<rparr>"
  have "participantAssignments ?p \<noteq> []" "pi_lastContiguousInputFrame ?p = 0"
    by (simp_all add: participantAssignments_def ParticipantInfo0_def)
  with contiguous_frame[OF frames_timeline[OF frames0, THEN conjunct1] frames_timeline[OF frames0, THEN conjunct2], of ?p]
  show ?thesis by (auto simp del: ex_simps)
qed

text \<open>
  C17: the host publishes a gapless sequence of complete frames. Once the inputs of suspended participants are made
  up, the host sends at most 64 frames in one packet, the ones that follow its last broadcast: each holds, for every
  held playable slot, the confirmed input of its holder, and none lies beyond the frame up to which all inputs have
  arrived. It stops only at that limit, at 64 frames or at the first frame that is not complete, and its mark
  moves by exactly the number of frames sent; with no frame to send no packet goes out.
\<close>
theorem published_frames:
  assumes "frames_ok c" "co_hosting c" "rs_state (co_room c) = Running"
  shows "\<exists>d ys c'. synthesizeSuspendedRemoteInputsUpTo (co_localSimulationFrame c) c = Some d \<and>
    publishConfirmedFramesIfReady now c = Some c' \<and> length ys \<le> kMaxConfirmedFramesPerPacket \<and>
    (\<forall>k < length ys. let f = co_lastBroadcastConfirmedFrame c + 1 + of_nat k in
       inputsReady d f \<and> f \<le> computeHostInputConfirmedFrame d \<and> inputsOf (ys ! k) = combine d f (playableHolders d) (confirmedFrameAt f)) \<and>
    (length ys = kMaxConfirmedFramesPerPacket \<or>
     co_lastBroadcastConfirmedFrame c + 1 + of_nat (length ys) > computeHostInputConfirmedFrame d \<or>
     \<not> inputsReady d (co_lastBroadcastConfirmedFrame c + 1 + of_nat (length ys))) \<and>
    co_sent c' = co_sent c @ (if ys = [] then [] else [framesPacket c ys]) \<and>
    co_lastBroadcastConfirmedFrame c' = co_lastBroadcastConfirmedFrame c + of_nat (length ys)"
  by (rule publish_exact[OF assms])

definition runningHost :: NetplayCoordinator where
  "runningHost = NetplayCoordinator0\<lparr>co_hosting := True, co_localSimulationFrame := 2, co_room := RoomState0\<lparr>rs_state := Running\<rparr>\<rparr>"

theorem published_frames_witness:
  "\<exists>ys c'. publishConfirmedFramesIfReady 0 runningHost = Some c' \<and> co_sent c' = [framesPacket runningHost ys] \<and>
     co_lastBroadcastConfirmedFrame c' = 2"
proof -
  have host: "co_hosting runningHost" "rs_state (co_room runningHost) = Running" "co_lastBroadcastConfirmedFrame runningHost = 0"
      "co_sent runningHost = []" "rs_participants (co_room runningHost) = []" "co_localSimulationFrame runningHost = 2"
    by (simp_all add: runningHost_def NetplayCoordinator0_def RoomState0_def)
  have "frames_ok runningHost"
    using frames0 by (simp add: runningHost_def frames_ok_def coordinator_ok_def)
  from published_frames[OF this host(1,2), of 0] obtain d ys c' where p:
      "synthesizeSuspendedRemoteInputsUpTo 2 runningHost = Some d" "publishConfirmedFramesIfReady 0 runningHost = Some c'"
      "length ys \<le> kMaxConfirmedFramesPerPacket" "\<forall>k < length ys. 1 + of_nat k \<le> computeHostInputConfirmedFrame d"
      "length ys = kMaxConfirmedFramesPerPacket \<or> 1 + of_nat (length ys) > computeHostInputConfirmedFrame d \<or>
        \<not> inputsReady d (1 + of_nat (length ys))"
      "co_sent c' = (if ys = [] then [] else [framesPacket runningHost ys])" "co_lastBroadcastConfirmedFrame c' = of_nat (length ys)"
    by (auto simp: Let_def host)
  have "rs_participants (co_room d) = []" "co_localSimulationFrame d = 2"
    using p(1) host by (auto simp: synthesizeSuspendedRemoteInputsUpTo_def split: if_splits)
  then have d: "computeHostInputConfirmedFrame d = 2" "inputsReady d f" for f
    by (simp_all add: computeHostInputConfirmedFrame_def inputsReady_def playableHolders_def heldBy_def)
  have "length ys \<le> 2"
  proof (rule ccontr)
    assume "\<not> length ys \<le> 2"
    then show False using p(4)[rule_format, of 2] d(1) by simp
  qed
  moreover have "length ys \<noteq> 0" "length ys \<noteq> 1"
    using p(5) d by (auto simp: kMaxConfirmedFramesPerPacket_def)
  ultimately have "length ys = 2" by linarith
  then show ?thesis using p by auto
qed

end
