(* ===== verification/Net_Tune.thy ===== *)
theory Net_Tune
  imports Complex_Main Net_Session
begin

text \<open>
  The automatic choice of the input delay (\<open>ConsoleNetplay/NetplayAutoTune.h\<close>, \<open>NetplayAutoTune.cpp\<close>,
  the native build): a floor from the smoothed highest ping, one frame more when the session
  needed a recovery, one frame less after 1200 stable frames. Pings are exact rationals where the
  code has \<open>double\<close>; the texts for the log are left out.
\<close>

record NetplayAutoTune =
  at_enabled :: bool
  at_lastSessionId :: u32
  at_lastState :: u8
  at_currentRecommendedDelay :: u8
  at_stableFrameCount :: u32
  at_lastAdjustmentFrame :: u32
  at_lastStableEvaluationFrame :: u32
  at_pingFloorDelay :: u8
  at_highestPingMs :: u32
  at_smoothedHighestPingMs :: rat

definition NetplayAutoTune0 :: NetplayAutoTune where
  "NetplayAutoTune0 = \<lparr>at_enabled = True, at_lastSessionId = 0, at_lastState = 0, at_currentRecommendedDelay = 1,
     at_stableFrameCount = 0, at_lastAdjustmentFrame = 0, at_lastStableEvaluationFrame = 0, at_pingFloorDelay = 1,
     at_highestPingMs = 0, at_smoothedHighestPingMs = 0\<rparr>"

definition kMaxAutoDelayFrames :: u32 where "kMaxAutoDelayFrames = 16"

definition kHighestPingSmoothingAlpha :: rat where "kHighestPingSmoothingAlpha = 2 / 10"

definition kDelayDecayStableFrames :: u32 where "kDelayDecayStableFrames = 1200"

definition clampDelay :: "u32 \<Rightarrow> u8" where
  "clampDelay f = ucast (min kMaxAutoDelayFrames (max 1 f))"

text \<open>\<open>std::lround\<close> of a value that is not negative, and its conversion to 32 bits.\<close>

definition lround :: "rat \<Rightarrow> int" where
  "lround x = \<lfloor>x + 1 / 2\<rfloor>"

definition delayForPing :: "u32 \<Rightarrow> rat \<Rightarrow> u8" where
  "delayForPing fps pingMs =
     (let pingSeconds = max 0 pingMs / 1000
      in clampDelay (word_of_int (lround (of_nat (unat (max 1 fps)) * pingSeconds))))"

fun highestPing :: "ParticipantInfo list \<Rightarrow> u32 \<Rightarrow> u32" where
  "highestPing [] highest = highest"
| "highestPing (p # ps) highest =
     highestPing ps (if \<not> pi_connected p \<or> pi_pingMs p = 0 then highest else max highest (ucast (pi_pingMs p)))"

definition highestPeerPingMs :: "RoomState \<Rightarrow> u32" where
  "highestPeerPingMs room = highestPing (rs_participants room) 0"

definition updateSmoothedPingFloor :: "RoomState \<Rightarrow> u32 \<Rightarrow> NetplayAutoTune \<Rightarrow> u8 \<times> NetplayAutoTune" where
  "updateSmoothedPingFloor room fps t =
     (let h = highestPeerPingMs room in
      if h = 0 then
        let t = (if at_smoothedHighestPingMs t = 0 then t\<lparr>at_pingFloorDelay := 1\<rparr> else t);
            t = t\<lparr>at_highestPingMs := 0\<rparr>
        in (at_pingFloorDelay t, t)
      else
        let smoothed = (if at_smoothedHighestPingMs t \<le> 0 then of_nat (unat h)
              else at_smoothedHighestPingMs t * (1 - kHighestPingSmoothingAlpha) +
                   of_nat (unat h) * kHighestPingSmoothingAlpha);
            t = t\<lparr>at_smoothedHighestPingMs := smoothed, at_highestPingMs := h,
                  at_pingFloorDelay := delayForPing fps smoothed\<rparr>
        in (at_pingFloorDelay t, t))"

definition resetForSession :: "u32 \<Rightarrow> u8 \<Rightarrow> NetplayAutoTune \<Rightarrow> NetplayAutoTune" where
  "resetForSession sessionId state t = t\<lparr>at_lastSessionId := sessionId, at_lastState := state, at_stableFrameCount := 0,
     at_lastAdjustmentFrame := 0, at_lastStableEvaluationFrame := 0, at_highestPingMs := 0,
     at_smoothedHighestPingMs := 0, at_pingFloorDelay := 1\<rparr>"

definition shouldIncreaseDelayForResync :: "u8 \<Rightarrow> bool" where
  "shouldIncreaseDelayForResync reason \<longleftrightarrow> reason = 2 \<or> reason = 3 \<or> reason = 4"

definition setEnabled :: "bool \<Rightarrow> NetplayAutoTune \<Rightarrow> NetplayAutoTune" where
  "setEnabled b t = t\<lparr>at_enabled := b\<rparr>"

text \<open>The counting of stable frames: \<open>None\<close> where the code returns.\<close>

definition countStable :: "RoomState \<Rightarrow> NetplayAutoTune \<Rightarrow> NetplayAutoTune option \<times> NetplayAutoTune" where
  "countStable room t =
     (let f = rs_currentFrame room in
      if at_lastStableEvaluationFrame t = 0 then
        let t = t\<lparr>at_lastStableEvaluationFrame := f\<rparr>
        in if f = 0 then (None, t) else
           let t = t\<lparr>at_stableFrameCount := at_stableFrameCount t + f\<rparr> in (Some t, t)
      else if f \<le> at_lastStableEvaluationFrame t then (None, t)
      else let t = t\<lparr>at_stableFrameCount := at_stableFrameCount t + (f - at_lastStableEvaluationFrame t),
                     at_lastStableEvaluationFrame := f\<rparr> in (Some t, t))"

definition decayDelay :: "RoomState \<Rightarrow> u8 \<Rightarrow> NetplayAutoTune \<Rightarrow> u8 option \<times> NetplayAutoTune" where
  "decayDelay room pingFloorDelay t =
     (if rs_inputDelayFrames room > pingFloorDelay \<and> at_stableFrameCount t \<ge> kDelayDecayStableFrames then
        let targetDelay = clampDelay (ucast (rs_inputDelayFrames room) - 1)
        in if targetDelay \<ge> pingFloorDelay \<and> targetDelay < rs_inputDelayFrames room then
             (Some targetDelay, t\<lparr>at_currentRecommendedDelay := targetDelay,
                at_lastAdjustmentFrame := rs_currentFrame room, at_stableFrameCount := 0\<rparr>)
           else (None, t)
      else (None, t))"

definition raiseToFloor :: "RoomState \<Rightarrow> u8 \<Rightarrow> NetplayAutoTune \<Rightarrow> u8 option \<times> NetplayAutoTune" where
  "raiseToFloor room pingFloorDelay t =
     (Some pingFloorDelay, t\<lparr>at_currentRecommendedDelay := pingFloorDelay, at_lastAdjustmentFrame := rs_currentFrame room,
        at_stableFrameCount := 0, at_lastStableEvaluationFrame := rs_currentFrame room\<rparr>)"

definition tune_update :: "RoomState \<Rightarrow> u32 \<Rightarrow> NetplayAutoTune \<Rightarrow> u8 option \<times> NetplayAutoTune" where
  "tune_update room fps t =
     (if \<not> at_enabled t then
        (None, t\<lparr>at_currentRecommendedDelay := rs_inputDelayFrames room, at_stableFrameCount := 0,
           at_lastStableEvaluationFrame := rs_currentFrame room\<rparr>)
      else
        let t = (if at_lastSessionId t \<noteq> rs_sessionId room \<or> at_lastState t \<noteq> rs_state room
                 then resetForSession (rs_sessionId room) (rs_state room) t else t);
            (pingFloorDelay, t) = updateSmoothedPingFloor room fps t;
            t = t\<lparr>at_lastSessionId := rs_sessionId room, at_lastState := rs_state room,
                  at_currentRecommendedDelay := clampDelay (ucast (rs_inputDelayFrames room))\<rparr>
        in if rs_inputDelayFrames room < pingFloorDelay then raiseToFloor room pingFloorDelay t
           else if rs_state room \<noteq> 4 \<or> rs_recoveryInputMode room \<noteq> 0 \<or> rs_activeResyncId room \<noteq> 0 \<or>
                   rs_pendingResyncAckCount room \<noteq> 0
             then (None, t\<lparr>at_stableFrameCount := 0, at_lastStableEvaluationFrame := rs_currentFrame room\<rparr>)
           else (case countStable room t of
                   (None, t) \<Rightarrow> (None, t)
                 | (Some t, _) \<Rightarrow> decayDelay room pingFloorDelay t))"

definition recommendForImpendingResync :: "RoomState \<Rightarrow> u8 \<Rightarrow> NetplayAutoTune \<Rightarrow> u8 option \<times> NetplayAutoTune" where
  "recommendForImpendingResync room reason t =
     (if \<not> at_enabled t then (None, t)
      else if \<not> shouldIncreaseDelayForResync reason then (None, t)
      else if rs_currentFrame room < rs_autoTuneDelayIncreaseBlockedUntilFrame room then (None, t)
      else
        let currentDelay = clampDelay (ucast (rs_inputDelayFrames room));
            targetDelay = clampDelay (max (ucast (at_pingFloorDelay t)) (ucast currentDelay + 1));
            t = t\<lparr>at_stableFrameCount := 0, at_lastStableEvaluationFrame := rs_currentFrame room\<rparr>
        in if targetDelay > currentDelay then
             (Some targetDelay, t\<lparr>at_currentRecommendedDelay := targetDelay, at_lastAdjustmentFrame := rs_currentFrame room\<rparr>)
           else (None, t\<lparr>at_currentRecommendedDelay := currentDelay\<rparr>))"

subsection \<open>The delay stays in its range\<close>

definition tune_ok :: "NetplayAutoTune \<Rightarrow> bool" where
  "tune_ok t \<longleftrightarrow> 1 \<le> at_pingFloorDelay t \<and> at_pingFloorDelay t \<le> 16"

lemma unat_clampDelay: "unat (clampDelay f) = min 16 (max 1 (unat f))"
proof -
  have "unat (min 16 (max 1 f) :: u32) = min 16 (max 1 (unat f))"
    by (auto simp: min_def max_def word_le_nat_alt)
  moreover have "min 16 (max 1 (unat f)) < 256" by simp
  ultimately show ?thesis by (simp only: clampDelay_def kMaxAutoDelayFrames_def unsigned_ucast_eq take_bit_eq_mod) simp
qed

lemma clampDelay_range [simp]: "1 \<le> clampDelay f" "clampDelay f \<le> 16"
  by (simp_all add: word_le_nat_alt unat_clampDelay)

lemma floor_range:
  assumes "tune_ok t"
  shows "tune_ok (snd (updateSmoothedPingFloor room fps t))"
    "fst (updateSmoothedPingFloor room fps t) = at_pingFloorDelay (snd (updateSmoothedPingFloor room fps t))"
  using assms by (auto simp: updateSmoothedPingFloor_def tune_ok_def Let_def delayForPing_def)

definition tuned :: "RoomState \<Rightarrow> NetplayAutoTune \<Rightarrow> NetplayAutoTune" where
  "tuned room t = t\<lparr>at_lastSessionId := rs_sessionId room, at_lastState := rs_state room,
     at_currentRecommendedDelay := clampDelay (ucast (rs_inputDelayFrames room))\<rparr>"

definition stableTail :: "RoomState \<Rightarrow> u8 \<Rightarrow> NetplayAutoTune \<Rightarrow> u8 option \<times> NetplayAutoTune" where
  "stableTail room p t = (case countStable room t of (None, t) \<Rightarrow> (None, t) | (Some t, _) \<Rightarrow> decayDelay room p t)"

lemma tune_update_parts:
  assumes "at_enabled t" "updateSmoothedPingFloor room fps
      (if at_lastSessionId t \<noteq> rs_sessionId room \<or> at_lastState t \<noteq> rs_state room
       then resetForSession (rs_sessionId room) (rs_state room) t else t) = (p, w)"
  shows "tune_update room fps t =
     (if rs_inputDelayFrames room < p then raiseToFloor room p (tuned room w)
      else if rs_state room \<noteq> 4 \<or> rs_recoveryInputMode room \<noteq> 0 \<or> rs_activeResyncId room \<noteq> 0 \<or>
              rs_pendingResyncAckCount room \<noteq> 0
        then (None, (tuned room w)\<lparr>at_stableFrameCount := 0, at_lastStableEvaluationFrame := rs_currentFrame room\<rparr>)
      else stableTail room p (tuned room w))"
  unfolding tune_update_def Let_def assms(2) stableTail_def tuned_def using assms(1) by simp

text \<open>The count of stable frames an update in a running session arrives at. A change of session or
  of state starts over with all frames up to the current one.\<close>

definition stableFrames :: "RoomState \<Rightarrow> NetplayAutoTune \<Rightarrow> u32" where
  "stableFrames room t =
     (if at_lastSessionId t \<noteq> rs_sessionId room \<or> at_lastState t \<noteq> rs_state room then rs_currentFrame room
      else if at_lastStableEvaluationFrame t = 0 then at_stableFrameCount t + rs_currentFrame room
      else at_stableFrameCount t + (rs_currentFrame room - at_lastStableEvaluationFrame t))"

definition newFrames :: "RoomState \<Rightarrow> NetplayAutoTune \<Rightarrow> bool" where
  "newFrames room t \<longleftrightarrow>
     (if at_lastSessionId t \<noteq> rs_sessionId room \<or> at_lastState t \<noteq> rs_state room then rs_currentFrame room \<noteq> 0
      else at_lastStableEvaluationFrame t < rs_currentFrame room)"

definition undisturbed :: "RoomState \<Rightarrow> bool" where
  "undisturbed room \<longleftrightarrow> rs_state room = 4 \<and> rs_recoveryInputMode room = 0 \<and> rs_activeResyncId room = 0 \<and>
     rs_pendingResyncAckCount room = 0"

lemma countStable_cases:
  "countStable room t =
     (if at_lastStableEvaluationFrame t < rs_currentFrame room then
        let w = t\<lparr>at_stableFrameCount := at_stableFrameCount t + (rs_currentFrame room - at_lastStableEvaluationFrame t),
                  at_lastStableEvaluationFrame := rs_currentFrame room\<rparr> in (Some w, w)
      else (None, t))"
  by (auto simp: countStable_def Let_def word_neq_0_conv not_less)

lemma decay_target:
  assumes "1 \<le> p" "p \<le> 16" "p < rs_inputDelayFrames room"
  shows "p \<le> clampDelay (ucast (rs_inputDelayFrames room) - 1)"
    "clampDelay (ucast (rs_inputDelayFrames room) - 1) < rs_inputDelayFrames room"
proof -
  let ?d = "unat (rs_inputDelayFrames room)"
  have "unat p < ?d" "1 \<le> unat p" "unat p \<le> 16" using assms by (simp_all add: word_less_nat_alt word_le_nat_alt)
  moreover have "unat (ucast (rs_inputDelayFrames room) - 1 :: u32) = ?d - 1"
    using calculation by (subst unat_minus_one) (auto simp: word_unat_eq_iff unsigned_ucast_eq take_bit_eq_mod)
  ultimately show "p \<le> clampDelay (ucast (rs_inputDelayFrames room) - 1)"
    "clampDelay (ucast (rs_inputDelayFrames room) - 1) < rs_inputDelayFrames room"
    by (simp_all add: word_le_nat_alt word_less_nat_alt unat_clampDelay)
qed

lemma decayDelay_cases:
  assumes "1 \<le> p" "p \<le> 16"
  shows "decayDelay room p t =
    (if rs_inputDelayFrames room > p \<and> at_stableFrameCount t \<ge> kDelayDecayStableFrames then
       let d = clampDelay (ucast (rs_inputDelayFrames room) - 1)
       in (Some d, t\<lparr>at_currentRecommendedDelay := d, at_lastAdjustmentFrame := rs_currentFrame room,
                     at_stableFrameCount := 0\<rparr>)
     else (None, t))"
  using decay_target[OF assms, of room] by (auto simp: decayDelay_def Let_def)

text \<open>The counters an update starts from.\<close>

abbreviation moved :: "RoomState \<Rightarrow> NetplayAutoTune \<Rightarrow> bool" where
  "moved room t \<equiv> at_lastSessionId t \<noteq> rs_sessionId room \<or> at_lastState t \<noteq> rs_state room"

definition startCount :: "RoomState \<Rightarrow> NetplayAutoTune \<Rightarrow> u32" where
  "startCount room t = (if moved room t then 0 else at_stableFrameCount t)"

definition startFrame :: "RoomState \<Rightarrow> NetplayAutoTune \<Rightarrow> u32" where
  "startFrame room t = (if moved room t then 0 else at_lastStableEvaluationFrame t)"

lemma frames_from_start:
  "newFrames room t \<longleftrightarrow> startFrame room t < rs_currentFrame room"
  "stableFrames room t = startCount room t + (rs_currentFrame room - startFrame room t)"
  by (simp_all add: newFrames_def stableFrames_def startCount_def startFrame_def word_neq_0_conv)

text \<open>An update of an enabled controller, branch by branch.\<close>

lemma update_branches:
  assumes "tune_ok t" "at_enabled t"
  obtains y where "tune_ok y" "at_lastSessionId y = rs_sessionId room" "at_lastState y = rs_state room"
    "at_stableFrameCount y = startCount room t" "at_lastStableEvaluationFrame y = startFrame room t"
    "tune_update room fps t =
      (if rs_inputDelayFrames room < at_pingFloorDelay y then raiseToFloor room (at_pingFloorDelay y) y
       else if \<not> undisturbed room
         then (None, y\<lparr>at_stableFrameCount := 0, at_lastStableEvaluationFrame := rs_currentFrame room\<rparr>)
       else stableTail room (at_pingFloorDelay y) y)"
proof -
  let ?t = "if moved room t then resetForSession (rs_sessionId room) (rs_state room) t else t"
  have "tune_ok ?t" using assms(1) by (simp add: resetForSession_def tune_ok_def)
  moreover obtain p w where p: "updateSmoothedPingFloor room fps ?t = (p, w)" by fastforce
  ultimately have w: "tune_ok w" "at_pingFloorDelay w = p" using floor_range[of ?t room fps] by simp_all
  have c: "at_stableFrameCount w = startCount room t" "at_lastStableEvaluationFrame w = startFrame room t"
    using p by (auto simp: updateSmoothedPingFloor_def Let_def startCount_def startFrame_def resetForSession_def
        split: if_splits)
  show thesis
    using w c tune_update_parts[OF assms(2) p]
    by (intro that[of "tuned room w"]) (simp_all add: tuned_def tune_ok_def undisturbed_def)
qed

lemma stableTail_cases:
  assumes "tune_ok y"
  shows "stableTail room (at_pingFloorDelay y) y =
    (let w = y\<lparr>at_stableFrameCount := at_stableFrameCount y + (rs_currentFrame room - at_lastStableEvaluationFrame y),
               at_lastStableEvaluationFrame := rs_currentFrame room\<rparr>;
         d = clampDelay (ucast (rs_inputDelayFrames room) - 1)
     in if \<not> at_lastStableEvaluationFrame y < rs_currentFrame room then (None, y)
        else if rs_inputDelayFrames room > at_pingFloorDelay y \<and> at_stableFrameCount w \<ge> kDelayDecayStableFrames
        then (Some d, w\<lparr>at_currentRecommendedDelay := d, at_lastAdjustmentFrame := rs_currentFrame room,
                at_stableFrameCount := 0\<rparr>)
        else (None, w))"
  using assms by (simp add: stableTail_def countStable_cases decayDelay_cases tune_ok_def Let_def)

lemma update_result:
  assumes "tune_ok t" "at_enabled t" "tune_update room fps t = (r, u)"
  shows "tune_ok u" "at_lastSessionId u = rs_sessionId room" "at_lastState u = rs_state room"
    "r = (if rs_inputDelayFrames room < at_pingFloorDelay u then Some (at_pingFloorDelay u)
          else if undisturbed room \<and> newFrames room t \<and> at_pingFloorDelay u < rs_inputDelayFrames room \<and>
               kDelayDecayStableFrames \<le> stableFrames room t
          then Some (clampDelay (ucast (rs_inputDelayFrames room) - 1)) else None)"
    "at_stableFrameCount u = 0 \<and> at_lastStableEvaluationFrame u = rs_currentFrame room \<or>
     at_stableFrameCount u = stableFrames room t \<and> at_lastStableEvaluationFrame u = rs_currentFrame room \<and> newFrames room t \<or>
     at_stableFrameCount u = startCount room t \<and> at_lastStableEvaluationFrame u = startFrame room t"
proof -
  obtain y where y: "tune_ok y" "at_lastSessionId y = rs_sessionId room" "at_lastState y = rs_state room"
    "at_stableFrameCount y = startCount room t" "at_lastStableEvaluationFrame y = startFrame room t"
    and up: "tune_update room fps t =
      (if rs_inputDelayFrames room < at_pingFloorDelay y then raiseToFloor room (at_pingFloorDelay y) y
       else if \<not> undisturbed room
         then (None, y\<lparr>at_stableFrameCount := 0, at_lastStableEvaluationFrame := rs_currentFrame room\<rparr>)
       else stableTail room (at_pingFloorDelay y) y)"
    using update_branches[OF assms(1,2)] by blast
  note parts = assms(3)[unfolded up stableTail_cases[OF y(1)] y(4,5), folded frames_from_start] y
  show "tune_ok u" "at_lastSessionId u = rs_sessionId room" "at_lastState u = rs_state room"
    using parts by (auto simp: tune_ok_def raiseToFloor_def Let_def split: if_splits)
  have "at_pingFloorDelay u = at_pingFloorDelay y"
    using parts by (auto simp: raiseToFloor_def Let_def split: if_splits)
  then show "r = (if rs_inputDelayFrames room < at_pingFloorDelay u then Some (at_pingFloorDelay u)
          else if undisturbed room \<and> newFrames room t \<and> at_pingFloorDelay u < rs_inputDelayFrames room \<and>
               kDelayDecayStableFrames \<le> stableFrames room t
          then Some (clampDelay (ucast (rs_inputDelayFrames room) - 1)) else None)"
    using parts(1) y(4,5) by (simp add: raiseToFloor_def Let_def frames_from_start split: if_splits)
  show "at_stableFrameCount u = 0 \<and> at_lastStableEvaluationFrame u = rs_currentFrame room \<or>
     at_stableFrameCount u = stableFrames room t \<and> at_lastStableEvaluationFrame u = rs_currentFrame room \<and> newFrames room t \<or>
     at_stableFrameCount u = startCount room t \<and> at_lastStableEvaluationFrame u = startFrame room t"
    using parts by (auto simp: raiseToFloor_def Let_def frames_from_start split: if_splits)
qed

lemma disabled_update:
  assumes "\<not> at_enabled t"
  shows "tune_update room fps t = (None, t\<lparr>at_currentRecommendedDelay := rs_inputDelayFrames room,
    at_stableFrameCount := 0, at_lastStableEvaluationFrame := rs_currentFrame room\<rparr>)"
  using assms by (simp add: tune_update_def)

lemma recommend_result:
  assumes "tune_ok t" "recommendForImpendingResync room reason t = (q, v)"
  shows "at_pingFloorDelay v = at_pingFloorDelay t" "at_lastSessionId v = at_lastSessionId t"
    "at_lastState v = at_lastState t"
    "q = (if at_enabled t \<and> reason \<in> {2, 3, 4} \<and>
             rs_autoTuneDelayIncreaseBlockedUntilFrame room \<le> rs_currentFrame room \<and> rs_inputDelayFrames room < 16
          then Some (max (at_pingFloorDelay t) (clampDelay (ucast (rs_inputDelayFrames room)) + 1)) else None)"
    "at_stableFrameCount v = at_stableFrameCount t \<and> at_lastStableEvaluationFrame v = at_lastStableEvaluationFrame t \<or>
     at_stableFrameCount v = 0 \<and> at_lastStableEvaluationFrame v = rs_currentFrame room"
proof -
  let ?c = "clampDelay (ucast (rs_inputDelayFrames room))"
  let ?d = "clampDelay (max (ucast (at_pingFloorDelay t)) (ucast ?c + 1))"
  have p: "1 \<le> unat (at_pingFloorDelay t)" "unat (at_pingFloorDelay t) \<le> 16"
    using assms(1) by (simp_all add: tune_ok_def word_le_nat_alt)
  have c: "unat ?c = min 16 (max 1 (unat (rs_inputDelayFrames room)))"
    using unsigned_less[of "rs_inputDelayFrames room"]
    by (simp add: unat_clampDelay unsigned_ucast_eq take_bit_eq_mod)
  then have s: "unat (ucast ?c + 1 :: u32) = unat ?c + 1" "unat (?c + 1) = unat ?c + 1"
    "unat (ucast (at_pingFloorDelay t) :: u32) = unat (at_pingFloorDelay t)"
    using p by (simp_all add: unat_word_ariths unsigned_ucast_eq take_bit_eq_mod)
  have d: "unat ?d = min 16 (max (unat (at_pingFloorDelay t)) (unat ?c + 1))"
    using s by (simp add: unat_clampDelay max_def word_le_nat_alt)
  have up: "?c < ?d \<longleftrightarrow> rs_inputDelayFrames room < 16" using c d by (simp add: word_less_nat_alt) linarith
  have eq: "?d = max (at_pingFloorDelay t) (?c + 1)" if "rs_inputDelayFrames room < 16"
    using that c d s p by (simp add: word_unat_eq_iff max_def word_le_nat_alt word_less_nat_alt)
  show "q = (if at_enabled t \<and> reason \<in> {2, 3, 4} \<and>
             rs_autoTuneDelayIncreaseBlockedUntilFrame room \<le> rs_currentFrame room \<and> rs_inputDelayFrames room < 16
          then Some (max (at_pingFloorDelay t) (?c + 1)) else None)"
    using assms(2) eq unfolding recommendForImpendingResync_def Let_def up
    by (auto simp: shouldIncreaseDelayForResync_def split: if_splits)
qed (use assms(2) in \<open>auto simp: recommendForImpendingResync_def Let_def split: if_splits\<close>)

lemma recommend_bounds:
  assumes "tune_ok t" "recommendForImpendingResync room reason t = (Some d, v)"
  shows "clampDelay (ucast (rs_inputDelayFrames room)) < d \<and> at_pingFloorDelay t \<le> d \<and> d \<le> 16"
proof -
  let ?c = "clampDelay (ucast (rs_inputDelayFrames room))"
  have d: "d = max (at_pingFloorDelay t) (?c + 1)" "rs_inputDelayFrames room < 16"
    using recommend_result(4)[OF assms] by (simp_all split: if_splits)
  have "unat ?c < 16"
    using d(2) by (simp add: unat_clampDelay unsigned_ucast_eq take_bit_eq_mod word_less_nat_alt)
  then have "unat (?c + 1) = unat ?c + 1" by (simp add: unat_word_ariths)
  then show ?thesis
    using assms(1) \<open>unat ?c < 16\<close> by (auto simp: d(1) tune_ok_def word_le_nat_alt word_less_nat_alt max_def)
qed

lemma update_recommends:
  assumes "tune_ok t" "tune_update room fps t = (r, u)" "r = Some d"
  shows "at_enabled t \<and> 1 \<le> d \<and> d \<le> 16 \<and> at_pingFloorDelay u \<le> d \<and>
       (rs_inputDelayFrames room < at_pingFloorDelay u \<and> d = at_pingFloorDelay u \<or>
        d < rs_inputDelayFrames room \<and> d = clampDelay (ucast (rs_inputDelayFrames room) - 1) \<and>
        rs_state room = 4 \<and> rs_recoveryInputMode room = 0 \<and> rs_activeResyncId room = 0 \<and>
        rs_pendingResyncAckCount room = 0 \<and> 1200 \<le> stableFrames room t)"
proof -
  have on: "at_enabled t" using assms by (cases "at_enabled t") (simp_all add: disabled_update)
  note res = update_result[OF assms(1) on assms(2)]
  have u: "1 \<le> at_pingFloorDelay u" "at_pingFloorDelay u \<le> 16" using res(1) by (simp_all add: tune_ok_def)
  show ?thesis
  proof (cases "rs_inputDelayFrames room < at_pingFloorDelay u")
    case False
    then have "undisturbed room" "at_pingFloorDelay u < rs_inputDelayFrames room" "kDelayDecayStableFrames \<le> stableFrames room t"
      "d = clampDelay (ucast (rs_inputDelayFrames room) - 1)"
      using res(4) assms(3) by (auto split: if_splits)
    then show ?thesis using on decay_target[OF u, of room] by (simp add: undisturbed_def kDelayDecayStableFrames_def)
  qed (use res(4) assms(3) u on in simp)
qed

subsection \<open>The time between two adjustments\<close>

text \<open>Updates and announced recoveries, in the order the runtime makes them.\<close>

datatype tune_op = TuneUpdate RoomState u32 | TuneRecovery RoomState u8

fun op_room :: "tune_op \<Rightarrow> RoomState" where
  "op_room (TuneUpdate room fps) = room"
| "op_room (TuneRecovery room reason) = room"

fun tune_step :: "tune_op \<Rightarrow> NetplayAutoTune \<Rightarrow> NetplayAutoTune" where
  "tune_step (TuneUpdate room fps) t = snd (tune_update room fps t)"
| "tune_step (TuneRecovery room reason) t = snd (recommendForImpendingResync room reason t)"

definition same_play :: "u32 \<Rightarrow> u8 \<Rightarrow> u32 \<Rightarrow> RoomState \<Rightarrow> bool" where
  "same_play session state f room \<longleftrightarrow>
     rs_sessionId room = session \<and> rs_state room = state \<and> f \<le> rs_currentFrame room"

text \<open>No frame before \<open>f\<close> is counted.\<close>

definition since :: "u32 \<Rightarrow> u8 \<Rightarrow> u32 \<Rightarrow> NetplayAutoTune \<Rightarrow> bool" where
  "since session state f t \<longleftrightarrow> tune_ok t \<and> at_lastSessionId t = session \<and> at_lastState t = state \<and> 0 < f \<and>
     unat f + unat (at_stableFrameCount t) \<le> unat (at_lastStableEvaluationFrame t)"

lemma since_count:
  assumes "since session state f t" "same_play session state f room" "newFrames room t"
  shows "unat f + unat (stableFrames room t) \<le> unat (rs_currentFrame room)"
proof -
  have e: "at_lastStableEvaluationFrame t < rs_currentFrame room"
    using assms by (simp add: since_def same_play_def newFrames_def)
  have "unat f + unat (at_stableFrameCount t) \<le> unat (at_lastStableEvaluationFrame t)" "0 < unat f"
    using assms(1) by (simp_all add: since_def word_less_nat_alt)
  moreover have "unat (rs_currentFrame room - at_lastStableEvaluationFrame t) =
      unat (rs_currentFrame room) - unat (at_lastStableEvaluationFrame t)"
    using e by (simp add: unat_sub)
  moreover have "unat (stableFrames room t) \<le>
      unat (at_stableFrameCount t) + unat (rs_currentFrame room - at_lastStableEvaluationFrame t)"
    using assms by (auto simp: since_def same_play_def stableFrames_def unat_word_ariths)
  ultimately show ?thesis using e by (simp add: word_less_nat_alt)
qed

lemma since_step:
  assumes "since session state f t" "same_play session state f (op_room op)"
  shows "since session state f (tune_step op t)"
proof (cases op)
  case (TuneUpdate room fps)
  obtain r u where u: "tune_update room fps t = (r, u)" by fastforce
  have k: "same_play session state f room" using assms(2) TuneUpdate by simp
  show ?thesis
  proof (cases "at_enabled t")
    case True
    have t: "tune_ok t" using assms(1) by (simp add: since_def)
    have "startCount room t = at_stableFrameCount t" "startFrame room t = at_lastStableEvaluationFrame t"
      using assms(1) k by (simp_all add: startCount_def startFrame_def since_def same_play_def)
    then show ?thesis
      using update_result[OF t True u] since_count[OF assms(1) k] assms(1) k TuneUpdate u
      by (auto simp: since_def same_play_def word_le_nat_alt)
  qed (use assms k TuneUpdate in \<open>auto simp: disabled_update since_def same_play_def tune_ok_def word_le_nat_alt\<close>)
next
  case (TuneRecovery room reason)
  obtain q v where v: "recommendForImpendingResync room reason t = (q, v)" by fastforce
  have "tune_ok t" using assms(1) by (simp add: since_def)
  from recommend_result[OF this v] show ?thesis
    using assms TuneRecovery v by (auto simp: since_def same_play_def tune_ok_def word_le_nat_alt)
qed

lemma since_run:
  "since session state f t \<Longrightarrow> list_all (\<lambda>op. same_play session state f (op_room op)) ops \<Longrightarrow>
   since session state f (fold tune_step ops t)"
  by (induction ops arbitrary: t) (simp_all add: since_step)

lemma since_decay:
  assumes "since session state f t" "same_play session state f room"
    "fst (tune_update room fps t) = Some d" "d < rs_inputDelayFrames room"
  shows "unat f + 1200 \<le> unat (rs_currentFrame room)"
proof -
  obtain r u where u: "tune_update room fps t = (r, u)" by fastforce
  have on: "at_enabled t" using assms(3) by (cases "at_enabled t") (simp_all add: disabled_update)
  have t: "tune_ok t" using assms(1) by (simp add: since_def)
  have "newFrames room t" "kDelayDecayStableFrames \<le> stableFrames room t"
    using update_result(4)[OF t on u] assms(3,4) u by (auto split: if_splits)
  then show ?thesis using since_count[OF assms(1,2)] by (simp add: kDelayDecayStableFrames_def word_le_nat_alt)
qed

subsection \<open>Properties\<close>

text \<open>
  C35: the automatic input delay is safe. From any state with a ping floor between 1 and 16 frames:
  an update keeps the floor in that range, and when it recommends a delay, the delay is from 1 to 16
  frames and not below the floor. A controller that is switched on recommends the floor whenever the
  current delay is below it, and otherwise only a delay below the current one, by one frame where that is at most
  16, in a running session without a recovery in progress, and when the count of stable frames has reached
  1200; the count is of the frames since the last evaluation, but after a change of session or state it is the
  number of the current frame. Before a recovery for a desynchronisation or a stall it recommends the floor or one
  frame more than the current delay, whichever is higher, unless the delay is 16 already or increases
  are blocked, and for no other reason. While session and state stay the same, no sequence of updates and recoveries
  after the counting started at a frame lowers the delay until 1200 frames later.
\<close>
theorem auto_tune_bounds:
  assumes "tune_ok t" "tune_update room fps t = (r, u)" "recommendForImpendingResync room reason t = (q, v)"
  shows "tune_ok u \<and> tune_ok v \<and>
    (at_enabled t \<and> rs_inputDelayFrames room < at_pingFloorDelay u \<longrightarrow> r = Some (at_pingFloorDelay u)) \<and>
    (\<forall>d. r = Some d \<longrightarrow> at_enabled t \<and> 1 \<le> d \<and> d \<le> 16 \<and> at_pingFloorDelay u \<le> d \<and>
       (rs_inputDelayFrames room < at_pingFloorDelay u \<and> d = at_pingFloorDelay u \<or>
        d < rs_inputDelayFrames room \<and> d = clampDelay (ucast (rs_inputDelayFrames room) - 1) \<and>
        rs_state room = 4 \<and> rs_recoveryInputMode room = 0 \<and> rs_activeResyncId room = 0 \<and>
        rs_pendingResyncAckCount room = 0 \<and> 1200 \<le> stableFrames room t)) \<and>
    q = (if at_enabled t \<and> reason \<in> {2, 3, 4} \<and>
            rs_autoTuneDelayIncreaseBlockedUntilFrame room \<le> rs_currentFrame room \<and> rs_inputDelayFrames room < 16
         then Some (max (at_pingFloorDelay t) (clampDelay (ucast (rs_inputDelayFrames room)) + 1)) else None) \<and>
    (\<forall>d. q = Some d \<longrightarrow> clampDelay (ucast (rs_inputDelayFrames room)) < d \<and> at_pingFloorDelay t \<le> d \<and> d \<le> 16) \<and>
    (\<forall>ops room' fps' d. let play = same_play (at_lastSessionId t) (at_lastState t) (at_lastStableEvaluationFrame t) in
       at_stableFrameCount t = 0 \<and> 0 < at_lastStableEvaluationFrame t \<and> list_all (\<lambda>op. play (op_room op)) ops \<and>
       play room' \<and> fst (tune_update room' fps' (fold tune_step ops t)) = Some d \<and> d < rs_inputDelayFrames room' \<longrightarrow>
       unat (at_lastStableEvaluationFrame t) + 1200 \<le> unat (rs_currentFrame room'))"
proof (intro conjI)
  note rec = recommend_result[OF assms(1,3)]
  note on = update_result[OF assms(1) _ assms(2)]
  show "tune_ok u"
    using on(1) assms(1,2) disabled_update[of t room fps] by (cases "at_enabled t") (auto simp: tune_ok_def)
  show "tune_ok v" using rec(1) assms(1) by (simp add: tune_ok_def)
  show "at_enabled t \<and> rs_inputDelayFrames room < at_pingFloorDelay u \<longrightarrow> r = Some (at_pingFloorDelay u)"
    using on(4) by auto
  show "\<forall>d. r = Some d \<longrightarrow> at_enabled t \<and> 1 \<le> d \<and> d \<le> 16 \<and> at_pingFloorDelay u \<le> d \<and>
       (rs_inputDelayFrames room < at_pingFloorDelay u \<and> d = at_pingFloorDelay u \<or>
        d < rs_inputDelayFrames room \<and> d = clampDelay (ucast (rs_inputDelayFrames room) - 1) \<and>
        rs_state room = 4 \<and> rs_recoveryInputMode room = 0 \<and> rs_activeResyncId room = 0 \<and>
        rs_pendingResyncAckCount room = 0 \<and> 1200 \<le> stableFrames room t)"
    using update_recommends[OF assms(1,2)] by blast
  show "q = (if at_enabled t \<and> reason \<in> {2, 3, 4} \<and>
            rs_autoTuneDelayIncreaseBlockedUntilFrame room \<le> rs_currentFrame room \<and> rs_inputDelayFrames room < 16
         then Some (max (at_pingFloorDelay t) (clampDelay (ucast (rs_inputDelayFrames room)) + 1)) else None)"
    by (rule rec(4))
  show "\<forall>d. q = Some d \<longrightarrow> clampDelay (ucast (rs_inputDelayFrames room)) < d \<and> at_pingFloorDelay t \<le> d \<and> d \<le> 16"
    using recommend_bounds[OF assms(1)] assms(3) by blast
  show "\<forall>ops room' fps' d. let play = same_play (at_lastSessionId t) (at_lastState t) (at_lastStableEvaluationFrame t) in
       at_stableFrameCount t = 0 \<and> 0 < at_lastStableEvaluationFrame t \<and> list_all (\<lambda>op. play (op_room op)) ops \<and>
       play room' \<and> fst (tune_update room' fps' (fold tune_step ops t)) = Some d \<and> d < rs_inputDelayFrames room' \<longrightarrow>
       unat (at_lastStableEvaluationFrame t) + 1200 \<le> unat (rs_currentFrame room')"
    using assms(1) since_decay[OF since_run] by (fastforce simp: Let_def since_def)
qed

text \<open>A session that was paused and goes on at frame 5000, without a recovery: the first update lowers
  the delay, although no frame has been counted since the pause, because the reset for the new
  state is followed by the count of all frames.\<close>

definition paused_tune :: NetplayAutoTune where
  "paused_tune = NetplayAutoTune0\<lparr>at_lastSessionId := 1, at_lastState := 6, at_lastStableEvaluationFrame := 5000\<rparr>"

definition resumed_room :: RoomState where
  "resumed_room = RoomState0\<lparr>rs_sessionId := 1, rs_state := 4, rs_recoveryInputMode := 0, rs_activeResyncId := 0,
     rs_pendingResyncAckCount := 0, rs_participants := [], rs_inputDelayFrames := 4, rs_currentFrame := 5000\<rparr>"

theorem resume_lowers_delay:
  "fst (tune_update resumed_room 60 paused_tune) = Some 3 \<and>
   fst (tune_update resumed_room 60 (paused_tune\<lparr>at_lastState := 4\<rparr>)) = None"
proof -
  have "clampDelay 3 = 3" by (simp add: word_unat_eq_iff unat_clampDelay)
  then show ?thesis
    by (simp add: tune_update_def paused_tune_def NetplayAutoTune0_def resumed_room_def Let_def resetForSession_def
        updateSmoothedPingFloor_def highestPeerPingMs_def countStable_def decayDelay_def kDelayDecayStableFrames_def)
qed

definition slow_room :: RoomState where
  "slow_room = RoomState0\<lparr>rs_participants := [ParticipantInfo0\<lparr>pi_connected := True, pi_pingMs := 100\<rparr>]\<rparr>"

theorem auto_tune_bounds_witness:
  "fst (tune_update slow_room 60 NetplayAutoTune0) = Some 6 \<and>
   at_pingFloorDelay (snd (tune_update slow_room 60 NetplayAutoTune0)) \<le> 6"
proof -
  have "highestPeerPingMs slow_room = 100" "rs_inputDelayFrames slow_room = 2" "rs_sessionId slow_room = 0" "rs_state slow_room = 0"
    by (simp_all add: highestPeerPingMs_def slow_room_def RoomState0_def ParticipantInfo0_def)
  moreover have "lround (of_nat (unat (max 1 (60 :: u32))) * (max 0 100 / 1000)) = 6" by (simp add: lround_def max_def floor_eq_iff)
  moreover have "clampDelay 6 = 6" by (simp add: word_unat_eq_iff unat_clampDelay)
  ultimately have r: "fst (tune_update slow_room 60 NetplayAutoTune0) = Some 6"
    by (simp add: tune_update_def Let_def updateSmoothedPingFloor_def NetplayAutoTune0_def delayForPing_def raiseToFloor_def)
  have "tune_ok NetplayAutoTune0" by (simp add: tune_ok_def NetplayAutoTune0_def)
  from auto_tune_bounds[OF this prod.collapse[symmetric] prod.collapse[symmetric], of slow_room 60] r
  show ?thesis by blast
qed

end
