(* ===== verification/Spec2Isabelle.thy ===== *)
theory Spec2Isabelle
  imports Escaped_Rle Console Apu_Claims Cpu_Arith Rewind Save_State Mapper_Mmc1 Mapper_Mmc3 Mappers_Multicart Controllers
    Machine Net_Progress Net_Tune
begin

text \<open>
  A verification library for the GeraNES emulator: its core (\<open>src/src/GeraNES\<close>) and its netplay library
  (\<open>src/src/ConsoleNetplay\<close>).

  \<^bold>\<open>The program.\<close> GeraNES emulates the Nintendo Entertainment System. One CPU clock cycle drives
  everything: \<open>CPU2A03::readMemory\<close> and \<open>writeMemory\<close> begin a cycle, access the bus
  (\<open>GeraNESEmu::accessBus\<close>), end the cycle, and in doing so step the PPU, the APU and the
  cartridge. The DMA unit steals cycles from the CPU, the APU's sample channel asks the DMA unit for
  bytes, and the cartridge's mapper decides which part of the ROM file the bus sees. Around the
  machine are the save states, the rewind buffer and the input devices. The netplay library runs the
  same game on several machines: a coordinator exchanges packets with the inputs of every player, keeps
  them in timelines, compares checksums of the machine states and transfers a state when they differ.

  \<^bold>\<open>Conventions.\<close> Machine integers of the code are words of the same width (\<open>u8\<close>, \<open>u16\<close>,
  \<open>u32\<close>, \<open>u64\<close>); an enumeration that goes over the network is its underlying integer; counters the code keeps in \<open>int\<close> or \<open>size_t\<close> are \<open>int\<close> or \<open>nat\<close> where they
  cannot overflow, and the theory says why. A class is a record with the members of the class, a
  method is a function on the record. What a method cannot do in C++ without undefined behaviour
  (an index outside a vector, a modulus of zero) gives \<open>None\<close>. A read or write on the bus takes
  CPU cycles, so that the CPU operations run in the option monad, with \<open>None\<close> only for an OAM or
  DMC transfer that does not end within its fuel. What lies on the other side of
  an interface (PPU, mapper and controllers behind the console bus, the cartridge behind the PPU, the
  audio device) is a record of operations, an argument of the definitions; what the theorems need of them are hypotheses (\<open>quiet\<close>: no DMA request;
  laws of memory), and the theorems carry witnesses that instantiate them.

  \<^bold>\<open>Theories and the code they model.\<close>

  \<^item> \<open>Prelude\<close>: word and bit lemmas, option monad, the collections of simplification rules.
  \<^item> \<open>Escaped_Rle\<close> (\<open>util/EscapedRle.h\<close>): \<open>encode\<close>, \<open>decode\<close>; decoding inverts encoding.
  \<^item> \<open>Settings\<close> (\<open>Settings.h\<close>): the region and its constants.
  \<^item> \<open>Cpu_State\<close>, \<open>Cpu_Ops\<close>, \<open>Cpu_Run\<close> (\<open>CPU2A03.h\<close>, \<open>IBus.h\<close>): the CPU record, the clock cycle
    (\<open>beginCycle\<close>, \<open>endCycle\<close>, \<open>phi1\<close>, \<open>phi2\<close>), addressing modes, all official and unofficial
    instructions, opcode tables, interrupt and reset sequences, \<open>run\<close>.
  \<^item> \<open>Dma\<close> (\<open>DMA.h\<close>, \<open>DMA.inl\<close>): \<open>processPending\<close> with its halt, alignment, get and put cycles.
  \<^item> \<open>Quiet_Bus\<close>, \<open>Oam_Dma\<close>, \<open>Cpu_Timing\<close>, \<open>Cpu_Arith\<close>, \<open>Ram_Bus\<close>: what these do. The locales
    \<open>quiet_bus\<close> and its extensions state what the CPU relies on; \<open>Console\<close> and \<open>Ram_Bus\<close>
    interpret them on the console bus.
  \<^item> \<open>Apu_Channels\<close>, \<open>Dmc\<close>, \<open>Apu\<close> (\<open>APU/*.h\<close>): the five channels, the frame sequencer and its
    register interface; \<open>Apu_Frame\<close>, \<open>Apu_Schedule\<close> and \<open>Apu_Claims\<close> hold the register invariant,
    the frame sequences and the facts on interrupts and samples.
  \<^item> \<open>Hardware_Actions\<close> (\<open>HardwareActions.h\<close>) and \<open>Nes_Bus\<close> (\<open>GeraNESEmu.h\<close>: \<open>accessBus\<close>, the DMA
    signal bindings): the console side of the bus. \<open>Console\<close> composes CPU, DMA unit and bus.
  \<^item> \<open>Ppu_State\<close>, \<open>Ppu_Memory\<close>, \<open>Ppu_Registers\<close>, \<open>Ppu_Sprites\<close>, \<open>Ppu_Cycle\<close> (\<open>PPU.h\<close>): the
    members of the PPU, its memory map and delayed accesses, the eight registers and palettes, sprite
    evaluation, fetches and rendering, the background pipeline, one cycle, power-up. \<open>None\<close> stands
    for a store outside the frame buffer or the sprite memory. \<open>Ppu_Frame\<close> and \<open>Ppu_Timing\<close> show how
    a cycle moves over the raster, \<open>Ppu_Evaluation\<close> that the sprite evaluation selects the first
    eight sprites of a line, \<open>Ppu_Scroll\<close> what the address register means, \<open>Ppu_Dark\<close> that a PPU
    with rendering off leaves the sprite memory to the CPU.
  \<^item> \<open>Machine\<close>: the console with the PPU behind its bus (the members of \<open>GeraNESEmu\<close> side by side) and
    any cartridge and controllers behind both; a sprite upload through CPU, DMA unit, bus and PPU.
  \<^item> \<open>Circular_Buffer\<close> (\<open>util/CircularBuffer.h\<close>) refines a bounded queue; \<open>Rewind\<close> (\<open>Rewind.h\<close>)
    is proved over the locale \<open>history\<close> that the buffer interprets.
  \<^item> \<open>Serialization\<close> (\<open>Serialization.h\<close>): the three archives and the locale \<open>archive_format\<close>;
    \<open>Save_State\<close>: the formats of CPU, DMA unit and APU, their round trips and refusal of prefixes.
  \<^item> \<open>Cart_Data\<close> (\<open>NesCartridgeData/*.h\<close>, \<open>util/bank.h\<close>, \<open>util/Crc32.h\<close>): iNES and NES 2.0 files,
    corrections from the game database, checksums.
  \<^item> \<open>Base_Mapper\<close>, \<open>Mappers_Discrete\<close>, \<open>Mappers_Latch\<close>, \<open>Mappers_Multicart\<close>,
    \<open>Mapper_Mmc1\<close>, \<open>Mapper_Mmc3\<close> (\<open>Mappers/*.h\<close>): bank switching. The locale \<open>banked\<close> is what
    the cartridge slot relies on; the boards that mask their bank register interpret it, those that do not are
    shown to leave the cartridge.
  \<^item> \<open>Controllers\<close> (\<open>NesStandardController.h\<close>, \<open>FamicomController.h\<close>, \<open>SnesController.h\<close>,
    \<open>VirtualBoyController.h\<close>, \<open>FourScore.h\<close>, \<open>HoriAdapter.h\<close>): shift registers (locale
    \<open>shift_pad\<close>) and the four-player adapters.

  \<^item> \<open>Net_Packet\<close> (\<open>NetSerialization.h\<close>), \<open>Net_Protocol\<close> (\<open>NetProtocol.h\<close>, \<open>NetProtocol.cpp\<close>): packet
    writer and reader, the structures of the wire. The locale \<open>codec\<close> states when reading is the
    inverse of writing; every structure interprets it.
  \<^item> \<open>Net_Input\<close> (\<open>NetplayInputFrame.h\<close>, \<open>NetplayInputFrameSerialization.cpp\<close>): per-slot values (locale
    \<open>slot_store\<close>), input frames and their format.
  \<^item> \<open>Net_Session\<close> (\<open>NetSession.cpp\<close>, \<open>NetplayTopology.cpp\<close>, \<open>NetplayInputAssignment.cpp\<close>): the room, its
    participants and who holds which input slot.
  \<^item> \<open>Net_Messages\<close> (\<open>NetplayCoordinator.cpp\<close>): the packets the coordinator builds and how they are read.
  \<^item> \<open>Net_Timeline\<close> (\<open>InputTimeline.cpp\<close>): the list of inputs with its index of iterators refines a
    bounded list of inputs with distinct keys.
  \<^item> \<open>Net_Recovery\<close> (\<open>SnapshotSystem.cpp\<close>, \<open>DesyncMonitor.cpp\<close>, \<open>RemoteInputStallMonitor.cpp\<close>,
    \<open>SelfStallDetector.cpp\<close>, \<open>NetplayCrc32.h\<close>): snapshots, checksum comparison, stall detection.
  \<^item> \<open>Net_Coordinator\<close>, \<open>Net_Resync\<close> (\<open>NetplayCoordinator.cpp\<close>): the state of the coordinator, confirmed
    frames, recovery mode and realignment; the transfer of a machine state from host to client.
  \<^item> \<open>Net_Gameplay\<close> (\<open>NetplayCoordinator.cpp\<close>): the path of an input: \<open>handleInputFrame\<close>,
    \<open>publishConfirmedFramesIfReady\<close>, \<open>handleConfirmedInputFrames\<close>, \<open>handleInputAck\<close> and what they call.
    \<open>Net_Progress\<close> shows that they end and keep the state consistent, how far the mark of a participant
    moves, and that the published frames are complete and without gaps.
  \<^item> \<open>Net_Tune\<close> (\<open>NetplayAutoTune.cpp\<close>): the automatic input delay, its bounds and the time between two decreases.

  \<^bold>\<open>Fuel and bounds.\<close> \<open>dma_halted\<close>, the loop of the CPU halted by the DMA unit, is a
  \<open>while_option\<close>, whose \<open>None\<close> is a loop that never ends; the liveness theorems show that it
  returns, after 513 or 514 cycles for an OAM transfer. Loops over the frame numbers of the netplay code are partial functions with an optional result, since they may
  not end: \<open>None\<close> is a loop that never returns, and the theorems of \<open>Net_Progress\<close> say when that happens. All
  other loops are structural or have a termination proof.

  \<^bold>\<open>What is not modelled.\<close> The remaining mappers (boards with several registers, interrupt counters
  or sound chips) and input devices; the archives of the smaller boards; the render capture of the PPU for debugging tools and the archive of the PPU; the rest of the netplay
  coordinator, its transport and the application runtime around it; file and network access, the debugger, the NSF player, the desktop application and its audio and video back ends
  (input and output); vendored and generated code.
\<close>

end
